(* ===== verification/Prelude.thy ===== *)
theory Prelude
  imports Complex_Main "HOL-Library.Word"
begin

text \<open>
  Shared vocabulary of the development: a result type with a throwing bind (every
  exception of the TypeScript is a value), JavaScript strings and values, safe
  integers, and generic facts on lists.  Nothing here is specific to a component.
\<close>

named_theorems result_simps \<open>when a sequence of throwing checks succeeds or fails\<close>

section \<open>Results\<close>

text \<open>\<open>Inl\<close> is a thrown exception, \<open>Inr\<close> a normal return.\<close>

fun bindE :: "'e + 'a \<Rightarrow> ('a \<Rightarrow> 'e + 'b) \<Rightarrow> 'e + 'b" where
  "bindE (Inl e) f = Inl e"
| "bindE (Inr x) f = f x"

definition ensure :: "bool \<Rightarrow> 'e \<Rightarrow> 'e + unit" where
  "ensure b e = (if b then Inr () else Inl e)"

fun mapE :: "('a \<Rightarrow> 'e + 'b) \<Rightarrow> 'a list \<Rightarrow> 'e + 'b list" where
  "mapE f [] = Inr []"
| "mapE f (x # xs) = bindE (f x) (\<lambda>y. bindE (mapE f xs) (\<lambda>ys. Inr (y # ys)))"

lemma bindE_Inr_iff [result_simps]:
  "bindE m f = Inr y \<longleftrightarrow> (\<exists>x. m = Inr x \<and> f x = Inr y)"
  by (cases m) auto

lemma bindE_Inl_iff [result_simps]:
  "bindE m f = Inl e \<longleftrightarrow> m = Inl e \<or> (\<exists>x. m = Inr x \<and> f x = Inl e)"
  by (cases m) auto

lemma ensure_Inr_iff [result_simps]: "ensure b e = Inr u \<longleftrightarrow> b"
  by (simp add: ensure_def)

lemma ensure_Inl_iff [result_simps]: "ensure b e = Inl e' \<longleftrightarrow> \<not> b \<and> e' = e"
  by (auto simp: ensure_def)

lemma ensure_True [simp]: "ensure True e = Inr ()"
  by (simp add: ensure_def)

lemma ensure_False [simp]: "ensure False e = Inl e"
  by (simp add: ensure_def)

lemma bindE_cong [fundef_cong]:
  "m = m' \<Longrightarrow> (\<And>x. m' = Inr x \<Longrightarrow> f x = f' x) \<Longrightarrow> bindE m f = bindE m' f'"
  by (cases m') auto

lemma mapE_Inr_iff [result_simps]:
  "mapE f xs = Inr ys \<longleftrightarrow> list_all2 (\<lambda>x y. f x = Inr y) xs ys"
proof (induction xs arbitrary: ys)
  case Nil
  show ?case by auto
next
  case (Cons x xs)
  show ?case
    by (cases ys) (auto simp: bindE_Inr_iff Cons.IH)
qed

section \<open>JavaScript strings\<close>

text \<open>
  A JavaScript string is a sequence of UTF-16 code units, so \<open>length\<close> counts what
  \<open>String.prototype.length\<close> counts.  \<open>js\<close> turns an ASCII literal into one.
\<close>

type_synonym code_unit = "16 word"
type_synonym js = "code_unit list"
type_synonym byte = "8 word"

definition js :: "string \<Rightarrow> js" where
  "js s = map (\<lambda>c. word_of_nat (of_char c)) s"

lemma js_Nil_iff [simp]: "js s = [] \<longleftrightarrow> s = []" "[] = js s \<longleftrightarrow> s = []"
  by (auto simp: js_def)

lemma length_js [simp]: "length (js s) = length s"
  by (simp add: js_def)

lemma js_eq_iff [simp]: "js s = js t \<longleftrightarrow> s = t"
proof -
  have "inj (\<lambda>c. word_of_nat (of_char c) :: 16 word)"
  proof (rule injI)
    fix c d :: char
    assume "(word_of_nat (of_char c) :: 16 word) = word_of_nat (of_char d)"
    then have "(of_char c :: nat) mod 2 ^ 16 = of_char d mod 2 ^ 16"
      by (simp add: word_of_nat_eq_iff take_bit_eq_mod)
    moreover have "(of_char c :: nat) < 256" "(of_char d :: nat) < 256"
      by simp_all
    ultimately have "(of_char c :: nat) = of_char d"
      by simp
    then show "c = d" by simp
  qed
  then show ?thesis
    by (simp add: js_def inj_map_eq_map)
qed

section \<open>JavaScript values\<close>

text \<open>
  Numbers are doubles: a finite double is a rational, the rest are the infinities and
  \<open>NaN\<close>.  Values that cross a validation boundary are \<open>jsval\<close>: own string keys in
  order for an object, a \<open>Uint8Array\<close> as its bytes.
\<close>

datatype jsnum = Fin rat | PosInf | NegInf | NaN

datatype jsval =
    JUndef
  | JNull
  | JBool bool
  | JNum jsnum
  | JStr js
  | JArr "jsval list"
  | JObj "(js \<times> jsval) list"
  | JBytes "byte list"

definition MAX_SAFE_INTEGER :: nat where
  "MAX_SAFE_INTEGER = 9007199254740991"

text \<open>\<open>Number.isSafeInteger(v) && v >= 0\<close>, with the integer when it holds.\<close>

fun safe_nat :: "jsval \<Rightarrow> nat option" where
  "safe_nat (JNum (Fin q)) =
     (let (n, d) = quotient_of q
      in if d = 1 \<and> 0 \<le> n \<and> n \<le> int MAX_SAFE_INTEGER then Some (nat n) else None)"
| "safe_nat _ = None"

definition jnat :: "nat \<Rightarrow> jsval" where
  "jnat n = JNum (Fin (of_nat n))"

text \<open>
  Objects, arrays and property reads.  An association list denotes the object in which the
  first binding of a key counts, so every value of the type is a possible object.
\<close>

fun is_object :: "jsval \<Rightarrow> bool" where \<comment> \<open>\<open>typeof v === "object" && v !== null && !Array.isArray(v)\<close>\<close>
  "is_object (JObj _) = True"
| "is_object (JBytes _) = True"
| "is_object _ = False"

fun decimal :: "nat \<Rightarrow> string" where \<comment> \<open>the canonical numeric key of an array index\<close>
  "decimal n = (if n < 10 then [char_of (48 + n)] else decimal (n div 10) @ [char_of (48 + n mod 10)])"

declare decimal.simps [simp del]

fun own_keys :: "jsval \<Rightarrow> js list" where \<comment> \<open>\<open>Object.keys\<close>\<close>
  "own_keys (JObj ps) = remdups (map fst ps)"
| "own_keys (JBytes bs) = map (js \<circ> decimal) [0..<length bs]"
| "own_keys (JArr vs) = map (js \<circ> decimal) [0..<length vs]"
| "own_keys _ = []"

definition has_own :: "jsval \<Rightarrow> string \<Rightarrow> bool" where
  "has_own v k \<longleftrightarrow> js k \<in> set (own_keys v)"

text \<open>A property read of an absent key is \<open>undefined\<close>; of \<open>undefined\<close> or \<open>null\<close> it throws.\<close>

fun getProp :: "jsval \<Rightarrow> string \<Rightarrow> jsval" where
  "getProp (JObj ps) k = (case map_of ps (js k) of None \<Rightarrow> JUndef | Some v \<Rightarrow> v)"
| "getProp _ k = JUndef"

definition readProp :: "'e \<Rightarrow> jsval \<Rightarrow> string \<Rightarrow> 'e + jsval" where
  "readProp e v k = (if v = JUndef \<or> v = JNull then Inl e else Inr (getProp v k))"

lemma readProp_JObj [simp]: "readProp e (JObj ps) k = Inr (getProp (JObj ps) k)"
  by (simp add: readProp_def)

lemma readProp_Inr_iff [result_simps]:
  "readProp e v k = Inr x \<longleftrightarrow> v \<noteq> JUndef \<and> v \<noteq> JNull \<and> x = getProp v k"
  by (auto simp: readProp_def)

lemma safe_nat_jnat [simp]: "safe_nat (jnat n) = (if n \<le> MAX_SAFE_INTEGER then Some n else None)"
proof -
  have "quotient_of (of_nat n) = (int n, 1)"
    using quotient_of_int [of "int n"] by simp
  then show ?thesis
    by (simp add: jnat_def)
qed

lemma safe_nat_SomeD:
  assumes "safe_nat v = Some n"
  shows "v = jnat n" and "n \<le> MAX_SAFE_INTEGER"
proof -
  from assms obtain q where v: "v = JNum (Fin q)"
    by (cases v rule: safe_nat.cases) auto
  obtain a d where ad: "quotient_of q = (a, d)"
    by fastforce
  from assms v ad have d: "d = 1" and a: "0 \<le> a" "a \<le> int MAX_SAFE_INTEGER" and n: "n = nat a"
    by (auto split: if_splits)
  from ad d have "q = of_int a"
    using quotient_of_div [of q a d] by simp
  with a n have "q = of_nat n" by simp
  with v show "v = jnat n" by (simp add: jnat_def)
  from a n show "n \<le> MAX_SAFE_INTEGER" by simp
qed

lemma safe_nat_Some_iff: "safe_nat v = Some n \<longleftrightarrow> v = jnat n \<and> n \<le> MAX_SAFE_INTEGER"
  by (auto dest: safe_nat_SomeD)

lemma jnat_eq_iff [simp]: "jnat m = jnat n \<longleftrightarrow> m = n"
  by (simp add: jnat_def)

lemma jnat_neq [simp]:
  "jnat n \<noteq> JUndef" "jnat n \<noteq> JNull" "jnat n \<noteq> JBool b" "jnat n \<noteq> JStr s"
  "jnat n \<noteq> JArr vs" "jnat n \<noteq> JObj ps" "jnat n \<noteq> JBytes bs"
  by (simp_all add: jnat_def)

end
