(* ===== verification/Text.thy ===== *)
theory Text
  imports Prelude
begin

text \<open>
  The text operations of the JavaScript library the repository relies on: control and
  whitespace classes, \<open>trim\<close>, the collapsing of blanks, and UTF-8 as \<open>TextEncoder\<close> and
  a fatal \<open>TextDecoder\<close> define it on UTF-16 strings.
\<close>

section \<open>Character classes\<close>

definition is_control :: "code_unit \<Rightarrow> bool" where \<comment> \<open>\<open>\p{Cc}\<close>\<close>
  "is_control u \<longleftrightarrow> u \<le> 0x1F \<or> (0x7F \<le> u \<and> u \<le> 0x9F)"

definition is_space :: "code_unit \<Rightarrow> bool" where \<comment> \<open>\<open>\s\<close>, and what \<open>trim\<close> removes\<close>
  "is_space u \<longleftrightarrow>
     (0x09 \<le> u \<and> u \<le> 0x0D) \<or> u = 0x20 \<or> u = 0xA0 \<or> u = 0x1680 \<or>
     (0x2000 \<le> u \<and> u \<le> 0x200A) \<or> u = 0x2028 \<or> u = 0x2029 \<or> u = 0x202F \<or>
     u = 0x205F \<or> u = 0x3000 \<or> u = 0xFEFF"

definition is_blank :: "code_unit \<Rightarrow> bool" where \<comment> \<open>\<open>[\t ]\<close>\<close>
  "is_blank u \<longleftrightarrow> u = 0x09 \<or> u = 0x20"

definition has_control :: "js \<Rightarrow> bool" where
  "has_control s \<longleftrightarrow> list_ex is_control s"

definition trim :: "js \<Rightarrow> js" where
  "trim s = rev (dropWhile is_space (rev (dropWhile is_space s)))"

text \<open>\<open>replace(/[\t ]+/gu, " ")\<close>: every maximal run of blanks becomes one space.\<close>

lemma length_dropWhile_less_Suc [termination_simp]:
  "length (dropWhile P xs) < Suc (length xs)"
  by (simp add: le_imp_less_Suc length_dropWhile_le)

fun collapse :: "js \<Rightarrow> js" where
  "collapse [] = []"
| "collapse (c # cs) =
     (if is_blank c then 0x20 # collapse (dropWhile is_blank cs) else c # collapse cs)"

definition trimmed :: "js \<Rightarrow> bool" where
  "trimmed s \<longleftrightarrow> s = [] \<or> (\<not> is_space (hd s) \<and> \<not> is_space (last s))"

fun single_blanks :: "js \<Rightarrow> bool" where
  "single_blanks [] = True"
| "single_blanks [c] = (is_blank c \<longrightarrow> c = 0x20)"
| "single_blanks (c # d # cs) =
     ((is_blank c \<longrightarrow> c = 0x20 \<and> \<not> is_blank d) \<and> single_blanks (d # cs))"

lemma is_blank_is_space: "is_blank u \<Longrightarrow> is_space u"
  by (auto simp: is_blank_def is_space_def)

lemma is_blank_space [simp]: "is_blank 0x20"
  by (simp add: is_blank_def)

lemma trimmed_trim: "trimmed (trim s)"
proof (cases "trim s = []")
  case True
  then show ?thesis by (simp add: trimmed_def)
next
  case False
  define t where "t = dropWhile is_space s"
  define u where "u = dropWhile is_space (rev t)"
  have trim: "trim s = rev u" by (simp add: trim_def t_def u_def)
  with False have u: "u \<noteq> []" by simp
  then have "\<not> is_space (hd u)"
    unfolding u_def by (rule hd_dropWhile)
  with trim u have last: "\<not> is_space (last (trim s))"
    by (simp add: last_rev)
  define v where "v = takeWhile is_space (rev t)"
  have "rev t = v @ u" unfolding u_def v_def by (rule takeWhile_dropWhile_id [symmetric])
  then have t: "t = rev u @ rev v" using rev_swap [of t "v @ u"] by simp
  from u have "hd (trim s) = hd t" and "t \<noteq> []" unfolding trim t by simp_all
  moreover have "\<not> is_space (hd t)" if "t \<noteq> []"
    using that unfolding t_def by (rule hd_dropWhile)
  ultimately show ?thesis
    using last by (simp add: trimmed_def)
qed

lemma trim_trimmed: "trimmed s \<Longrightarrow> trim s = s"
proof (cases "s = []")
  case True
  then show ?thesis by (simp add: trim_def)
next
  case False
  assume "trimmed s"
  with False have "\<not> is_space (hd s)" "\<not> is_space (last s)"
    by (simp_all add: trimmed_def)
  moreover from False have "dropWhile is_space s = s"
    using calculation(1) by (cases s) auto
  moreover from False have "dropWhile is_space (rev s) = rev s"
    using calculation(2) by (cases s rule: rev_cases) auto
  ultimately show ?thesis by (simp add: trim_def)
qed

lemma set_trim: "set (trim s) \<subseteq> set s"
  by (auto simp: trim_def dest!: set_dropWhileD)

lemma hd_collapse: "s \<noteq> [] \<Longrightarrow> hd (collapse s) = (if is_blank (hd s) then 0x20 else hd s)"
  by (cases s) auto

lemma collapse_eq_Nil [simp]: "collapse s = [] \<longleftrightarrow> s = []"
  by (cases s) auto

lemma set_collapse: "set (collapse s) \<subseteq> insert 0x20 (set s)"
proof (induction s rule: collapse.induct)
  case (2 c cs)
  then show ?case
    by (auto dest: set_dropWhileD split: if_splits)
qed simp

lemma single_blanks_Cons:
  "single_blanks (c # cs) \<longleftrightarrow>
     (is_blank c \<longrightarrow> c = 0x20 \<and> (cs = [] \<or> \<not> is_blank (hd cs))) \<and> single_blanks cs"
  by (cases cs) auto

lemma single_blanks_collapse: "single_blanks (collapse s)"
proof (induction s rule: collapse.induct)
  case (2 c cs)
  show ?case
  proof (cases "is_blank c")
    case True
    have "\<not> is_blank (hd (collapse (dropWhile is_blank cs)))" if "dropWhile is_blank cs \<noteq> []"
      using that hd_dropWhile [OF that] by (simp add: hd_collapse)
    with True "2.IH"(1) show ?thesis
      by (auto simp: single_blanks_Cons)
  next
    case False
    with "2.IH"(2) show ?thesis by (simp add: single_blanks_Cons)
  qed
qed simp

lemma collapse_id: "single_blanks s \<Longrightarrow> collapse s = s"
proof (induction s rule: collapse.induct)
  case (2 c cs)
  show ?case
  proof (cases "is_blank c")
    case True
    with "2.prems" have "dropWhile is_blank cs = cs"
      by (cases cs) (auto simp: single_blanks_Cons)
    with True 2 show ?thesis by (simp add: single_blanks_Cons)
  qed (use 2 in \<open>simp add: single_blanks_Cons\<close>)
qed simp

lemma last_dropWhile_not: "xs \<noteq> [] \<Longrightarrow> \<not> P (last xs) \<Longrightarrow> last (dropWhile P xs) = last xs"
  by (induction xs) (auto split: if_splits)

lemma last_collapse:
  "s \<noteq> [] \<Longrightarrow> \<not> is_blank (last s) \<Longrightarrow> last (collapse s) = last s"
proof (induction s rule: collapse.induct)
  case (2 c cs)
  show ?case
  proof (cases "is_blank c")
    case True
    with "2.prems" have cs: "cs \<noteq> []" "\<not> is_blank (last cs)" by (auto split: if_splits)
    then have "last (dropWhile is_blank cs) = last cs" "dropWhile is_blank cs \<noteq> []"
      by (simp_all add: last_dropWhile_not dropWhile_eq_Nil_conv) (meson last_in_set)
    then show ?thesis using True cs "2.IH"(1) by (auto split: if_splits)
  next
    case False
    with 2 show ?thesis by (cases "cs = []") auto
  qed
qed simp

lemma trimmed_collapse: "trimmed s \<Longrightarrow> trimmed (collapse s)"
proof (cases "s = []")
  case False
  assume "trimmed s"
  with False have hd: "\<not> is_space (hd s)" and last: "\<not> is_space (last s)"
    by (simp_all add: trimmed_def)
  then have "\<not> is_blank (hd s)" "\<not> is_blank (last s)"
    by (auto dest: is_blank_is_space)
  with False hd last show ?thesis
    by (simp add: trimmed_def hd_collapse last_collapse)
qed simp

end
