(* ===== verification/Utf8.thy ===== *)
theory Utf8
  imports Text
begin

text \<open>
  UTF-8 as the repository uses it: \<open>TextEncoder\<close> (unpaired surrogates become U+FFFD) and
  \<open>new TextDecoder("utf-8", {fatal: true, ignoreBOM: true})\<close>, which rejects every byte
  sequence that is not the shortest encoding of a scalar value.  The last section states
  what the snapshot codec relies on as a locale and discharges it for this model.
\<close>

section \<open>Code points\<close>

definition is_high :: "code_unit \<Rightarrow> bool" where
  "is_high u \<longleftrightarrow> 0xD800 \<le> u \<and> u \<le> 0xDBFF"

definition is_low :: "code_unit \<Rightarrow> bool" where
  "is_low u \<longleftrightarrow> 0xDC00 \<le> u \<and> u \<le> 0xDFFF"

definition scalar :: "nat \<Rightarrow> bool" where
  "scalar cp \<longleftrightarrow> cp < 0xD800 \<or> (0xE000 \<le> cp \<and> cp < 0x110000)"

definition lone :: "code_unit \<Rightarrow> nat" where \<comment> \<open>the scalar value of an unpaired unit\<close>
  "lone u = (if is_high u \<or> is_low u then 0xFFFD else unat u)"

definition join_surrogates :: "code_unit \<Rightarrow> code_unit \<Rightarrow> nat" where
  "join_surrogates h l = 0x10000 + (unat h - 0xD800) * 1024 + (unat l - 0xDC00)"

fun code_points :: "js \<Rightarrow> nat list" where
  "code_points [] = []"
| "code_points [u] = [lone u]"
| "code_points (u # v # s) =
     (if is_high u \<and> is_low v then join_surrogates u v # code_points s
      else lone u # code_points (v # s))"

fun well_formed :: "js \<Rightarrow> bool" where \<comment> \<open>no unpaired surrogate\<close>
  "well_formed [] = True"
| "well_formed [u] = (\<not> is_high u \<and> \<not> is_low u)"
| "well_formed (u # v # s) =
     (if is_high u \<and> is_low v then well_formed s
      else \<not> is_high u \<and> \<not> is_low u \<and> well_formed (v # s))"

definition to_utf16 :: "nat \<Rightarrow> js" where
  "to_utf16 cp =
     (if cp < 0x10000 then [word_of_nat cp]
      else [word_of_nat (0xD800 + (cp - 0x10000) div 1024),
            word_of_nat (0xDC00 + (cp - 0x10000) mod 1024)])"

lemma is_high_unat: "is_high u \<longleftrightarrow> 0xD800 \<le> unat u \<and> unat u \<le> 0xDBFF"
  by (simp add: is_high_def word_le_nat_alt)

lemma is_low_unat: "is_low u \<longleftrightarrow> 0xDC00 \<le> unat u \<and> unat u \<le> 0xDFFF"
  by (simp add: is_low_def word_le_nat_alt)

lemma unat_code_unit: "unat (u :: code_unit) < 65536"
  using unsigned_less [of u] by simp

lemma unat_of_nat16: "n < 65536 \<Longrightarrow> unat (word_of_nat n :: code_unit) = n"
  by (simp add: unat_of_nat take_bit_eq_mod)

lemma scalar_lone: "scalar (lone u)"
  using unat_code_unit [of u] by (auto simp: lone_def scalar_def is_high_unat is_low_unat)

lemma scalar_join: "is_high h \<Longrightarrow> is_low l \<Longrightarrow> scalar (join_surrogates h l)"
  by (auto simp: join_surrogates_def scalar_def is_high_unat is_low_unat)

lemma scalar_code_points: "list_all scalar (code_points s)"
  by (induction s rule: code_points.induct) (auto simp: scalar_lone scalar_join)

lemma to_utf16_join:
  assumes "is_high h" and "is_low l"
  shows "to_utf16 (join_surrogates h l) = [h, l]"
proof -
  define a b where "a = unat h - 0xD800" and "b = unat l - 0xDC00"
  from assms have a: "unat h = 0xD800 + a" "a < 1024" and b: "unat l = 0xDC00 + b" "b < 1024"
    by (auto simp: a_def b_def is_high_unat is_low_unat)
  have "join_surrogates h l = 0x10000 + (a * 1024 + b)"
    by (simp add: join_surrogates_def a_def b_def)
  then have "to_utf16 (join_surrogates h l) = [word_of_nat (unat h), word_of_nat (unat l)]"
    using b by (simp add: to_utf16_def a b)
  then show ?thesis by simp
qed

lemma to_utf16_lone:
  assumes "\<not> is_high u" and "\<not> is_low u"
  shows "to_utf16 (lone u) = [u]"
  using assms unat_code_unit [of u] by (simp add: to_utf16_def lone_def)

lemma utf16_code_points: "well_formed s \<Longrightarrow> concat (map to_utf16 (code_points s)) = s"
  by (induction s rule: well_formed.induct)
     (auto simp: to_utf16_join to_utf16_lone split: if_splits)

lemma to_utf16_scalar_cases:
  assumes "scalar cp"
  obtains (bmp) u where "to_utf16 cp = [u]" "\<not> is_high u" "\<not> is_low u" "lone u = cp"
    | (pair) h l where "to_utf16 cp = [h, l]" "is_high h" "is_low l" "join_surrogates h l = cp"
proof (cases "cp < 0x10000")
  case True
  let ?u = "word_of_nat cp :: code_unit"
  from True have "unat ?u = cp" by (simp add: unat_of_nat16)
  with True assms have "to_utf16 cp = [?u]" "\<not> is_high ?u" "\<not> is_low ?u" "lone ?u = cp"
    by (auto simp: to_utf16_def scalar_def lone_def is_high_unat is_low_unat)
  then show ?thesis by (rule bmp)
next
  case False
  define a b where "a = (cp - 0x10000) div 1024" and "b = (cp - 0x10000) mod 1024"
  from False assms have "a < 1024" "b < 1024" and cp: "cp = 0x10000 + a * 1024 + b"
    by (auto simp: a_def b_def scalar_def)
  then have "unat (word_of_nat (0xD800 + a) :: code_unit) = 0xD800 + a"
    "unat (word_of_nat (0xDC00 + b) :: code_unit) = 0xDC00 + b"
    by (intro unat_of_nat16, linarith)+
  moreover from False have "to_utf16 cp = [word_of_nat (0xD800 + a), word_of_nat (0xDC00 + b)]"
    by (simp add: to_utf16_def a_def b_def)
  ultimately show ?thesis
    using \<open>a < 1024\<close> \<open>b < 1024\<close> cp
    by (intro pair [of "word_of_nat (0xD800 + a)" "word_of_nat (0xDC00 + b)"])
       (simp_all only: is_high_unat is_low_unat join_surrogates_def, simp_all)
qed

lemma lone_Cons:
  "\<not> is_high u \<Longrightarrow> \<not> is_low u \<Longrightarrow>
     well_formed (u # s) = well_formed s \<and> code_points (u # s) = lone u # code_points s"
  by (cases s) auto

lemma code_points_utf16:
  "list_all scalar cps \<Longrightarrow>
     well_formed (concat (map to_utf16 cps)) \<and> code_points (concat (map to_utf16 cps)) = cps"
proof (induction cps)
  case (Cons cp cps)
  then have "scalar cp" by simp
  then show ?case
    by (cases cp rule: to_utf16_scalar_cases) (use Cons in \<open>simp_all add: lone_Cons\<close>)
qed simp

section \<open>One code point in bytes\<close>

definition enc_cp :: "nat \<Rightarrow> nat list" where
  "enc_cp cp =
     (if cp < 0x80 then [cp]
      else if cp < 0x800 then [0xC0 + cp div 64, 0x80 + cp mod 64]
      else if cp < 0x10000 then
        [0xE0 + cp div 64 div 64, 0x80 + cp div 64 mod 64, 0x80 + cp mod 64]
      else
        [0xF0 + cp div 64 div 64 div 64, 0x80 + cp div 64 div 64 mod 64,
         0x80 + cp div 64 mod 64, 0x80 + cp mod 64])"

definition cont :: "nat \<Rightarrow> bool" where
  "cont c \<longleftrightarrow> 0x80 \<le> c \<and> c \<le> 0xBF"

text \<open>
  The decoder's lead-byte table, with the narrowed ranges of the second byte that exclude
  overlong forms, surrogates and values above U+10FFFF.
\<close>

fun dec_cp :: "nat list \<Rightarrow> (nat \<times> nat list) option" where
  "dec_cp [] = None"
| "dec_cp (b # bs) =
     (if b < 0x80 then Some (b, bs)
      else if 0xC2 \<le> b \<and> b \<le> 0xDF then
        (case bs of
           c # rest \<Rightarrow> if cont c then Some ((b - 0xC0) * 64 + (c - 0x80), rest) else None
         | _ \<Rightarrow> None)
      else if 0xE0 \<le> b \<and> b \<le> 0xEF then
        (case bs of
           c # d # rest \<Rightarrow>
             if (if b = 0xE0 then 0xA0 else 0x80) \<le> c \<and>
                c \<le> (if b = 0xED then 0x9F else 0xBF) \<and> cont d
             then Some (((b - 0xE0) * 64 + (c - 0x80)) * 64 + (d - 0x80), rest) else None
         | _ \<Rightarrow> None)
      else if 0xF0 \<le> b \<and> b \<le> 0xF4 then
        (case bs of
           c # d # e # rest \<Rightarrow>
             if (if b = 0xF0 then 0x90 else 0x80) \<le> c \<and>
                c \<le> (if b = 0xF4 then 0x8F else 0xBF) \<and> cont d \<and> cont e
             then Some ((((b - 0xF0) * 64 + (c - 0x80)) * 64 + (d - 0x80)) * 64 + (e - 0x80), rest)
             else None
         | _ \<Rightarrow> None)
      else None)"

lemma enc_cp_bytes: "scalar cp \<Longrightarrow> list_all (\<lambda>b. b < 256) (enc_cp cp)"
  by (auto simp: enc_cp_def scalar_def)

lemma enc_cp_nonempty [simp]: "enc_cp cp \<noteq> []"
  by (simp add: enc_cp_def)

lemma dec_enc_cp:
  assumes "scalar cp"
  shows "dec_cp (enc_cp cp @ rest) = Some (cp, rest)"
proof -
  define q r t where "q = cp div 64" and "r = q div 64" and "t = r div 64"
  have cp: "q * 64 + cp mod 64 = cp" and q: "r * 64 + q mod 64 = q" and r: "t * 64 + r mod 64 = r"
    by (simp_all add: q_def r_def t_def)
  have cont: "cont (0x80 + n mod 64)" for n
    using mod_less_divisor [of 64 n] by (simp add: cont_def)
  have le: "0x80 + n mod 64 \<le> 0xBF" for n :: nat
    using mod_less_divisor [of 64 n] by simp
  consider "cp < 0x80" | "0x80 \<le> cp" "cp < 0x800" | "0x800 \<le> cp" "cp < 0x10000" | "0x10000 \<le> cp"
    by linarith
  then show ?thesis
  proof cases
    case 1
    then show ?thesis by (simp add: enc_cp_def)
  next
    case 2
    then have enc: "enc_cp cp = [0xC0 + q, 0x80 + cp mod 64]" and "2 \<le> q" "q < 32"
      by (auto simp: enc_cp_def q_def)
    then show ?thesis by (simp add: cont cp)
  next
    case 3
    then have enc: "enc_cp cp = [0xE0 + r, 0x80 + q mod 64, 0x80 + cp mod 64]" and "r < 16"
      by (auto simp: enc_cp_def q_def r_def)
    moreover have "r = 0 \<Longrightarrow> 32 \<le> q mod 64" "r = 13 \<Longrightarrow> q mod 64 < 32"
      using 3 assms q by (auto simp: q_def scalar_def)
    ultimately show ?thesis by (auto simp: cont cp q le less_Suc_eq_le)
  next
    case 4
    with assms have enc: "enc_cp cp = [0xF0 + t, 0x80 + r mod 64, 0x80 + q mod 64, 0x80 + cp mod 64]"
      and "t < 5"
      by (auto simp: enc_cp_def q_def r_def t_def scalar_def)
    moreover have "t = 0 \<Longrightarrow> 16 \<le> r mod 64" "t = 4 \<Longrightarrow> r mod 64 < 16"
      using 4 assms r by (auto simp: q_def r_def scalar_def)
    ultimately show ?thesis by (auto simp: cont cp q r le less_Suc_eq_le)
  qed
qed

lemma scalar_three:
  fixes x y z cp :: nat
  assumes "x < 16" "y < 64" "z < 64" "x = 0 \<Longrightarrow> 32 \<le> y" "x = 13 \<Longrightarrow> y < 32"
    and "cp = 4096 * x + 64 * y + z"
  shows "(cp < 0xD800 \<or> 0xE000 \<le> cp \<and> cp < 0x110000) \<and> 0x800 \<le> cp \<and> cp < 0x10000"
proof -
  have "x = 0 \<or> 1 \<le> x \<and> x \<le> 12 \<or> x = 13 \<or> 14 \<le> x" by arith
  with assms show ?thesis by auto
qed

lemma scalar_four:
  fixes x y z w cp :: nat
  assumes "x < 5" "y < 64" "z < 64" "w < 64" "x = 0 \<Longrightarrow> 16 \<le> y" "x = 4 \<Longrightarrow> y < 16"
    and "cp = 262144 * x + 4096 * y + 64 * z + w"
  shows "0x10000 \<le> cp \<and> cp < 0x110000"
proof -
  from assms(1) have "x = 0 \<or> 1 \<le> x \<and> x \<le> 3 \<or> x = 4" by arith
  with assms show ?thesis by auto
qed

lemma dec_cp_SomeD:
  assumes "dec_cp bs = Some (cp, rest)"
  shows "scalar cp \<and> bs = enc_cp cp @ rest"
proof -
  from assms obtain b bs' where bs: "bs = b # bs'" by (cases bs) auto
  consider "b < 0x80" | "0xC2 \<le> b" "b \<le> 0xDF" | "0xE0 \<le> b" "b \<le> 0xEF" | "0xF0 \<le> b" "b \<le> 0xF4"
    using assms by (auto simp: bs split: if_splits)
  then show ?thesis
  proof cases
    case 1
    with assms show ?thesis by (simp add: bs scalar_def enc_cp_def)
  next
    case 2
    with assms obtain c where c: "bs' = c # rest" "cont c" "cp = (b - 0xC0) * 64 + (c - 0x80)"
      by (auto simp: bs split: if_splits list.splits)
    define x y where "x = b - 0xC0" and "y = c - 0x80"
    with 2 c have "b = 0xC0 + x" "2 \<le> x" "x < 32" "c = 0x80 + y" "y < 64" "cp = x * 64 + y"
      by (auto simp: cont_def)
    then show ?thesis by (simp add: bs c(1) scalar_def enc_cp_def)
  next
    case 3
    with assms obtain c d where c: "bs' = c # d # rest" "cont d"
        "(if b = 0xE0 then 0xA0 else 0x80) \<le> c" "c \<le> (if b = 0xED then 0x9F else 0xBF)"
        "cp = ((b - 0xE0) * 64 + (c - 0x80)) * 64 + (d - 0x80)"
      by (auto simp: bs split: if_splits list.splits)
    define x y z where "x = b - 0xE0" and "y = c - 0x80" and "z = d - 0x80"
    have cp: "cp = (x * 64 + y) * 64 + z"
      unfolding x_def y_def z_def by (rule c(5))
    from c(3,4) have cy: "0x80 \<le> c" "c \<le> 0xBF" by (auto split: if_splits)
    from c(2) have "0x80 \<le> d" "d \<le> 0xBF"
      by (simp_all add: cont_def)
    with 3 cy have *: "b = 0xE0 + x" "x < 16" "c = 0x80 + y" "y < 64" "d = 0x80 + z" "z < 64"
      by (simp_all add: x_def y_def z_def)
    note * = * cp
    have lo: "32 \<le> y" if "x = 0"
      using c(3) that *(1,3) by simp
    have hi: "y < 32" if "x = 13"
      using c(4) that *(1,3) by simp
    from * lo hi have range: "scalar cp" "0x800 \<le> cp" "cp < 0x10000"
      using scalar_three [of x y z cp] by (simp_all add: scalar_def)
    define q where "q = x * 64 + y"
    have cpq: "cp = q * 64 + z" using * by (simp add: q_def)
    have "cp div 64 = q" "cp mod 64 = z" unfolding cpq using \<open>z < 64\<close> by simp_all
    moreover have "q div 64 = x" "q mod 64 = y" unfolding q_def using \<open>y < 64\<close> by simp_all
    ultimately have "enc_cp cp = [0xE0 + x, 0x80 + y, 0x80 + z]"
      using range(2,3) by (simp add: enc_cp_def)
    with range(1) show ?thesis by (simp add: bs c(1) *(1,3,5))
  next
    case 4
    with assms obtain c d e where c: "bs' = c # d # e # rest" "cont d" "cont e"
        "(if b = 0xF0 then 0x90 else 0x80) \<le> c" "c \<le> (if b = 0xF4 then 0x8F else 0xBF)"
        "cp = (((b - 0xF0) * 64 + (c - 0x80)) * 64 + (d - 0x80)) * 64 + (e - 0x80)"
      by (auto simp: bs split: if_splits list.splits)
    define x y z w where "x = b - 0xF0" and "y = c - 0x80" and "z = d - 0x80" and "w = e - 0x80"
    have cp: "cp = ((x * 64 + y) * 64 + z) * 64 + w"
      unfolding x_def y_def z_def w_def by (rule c(6))
    from c(4,5) have cy: "0x80 \<le> c" "c \<le> 0xBF" by (auto split: if_splits)
    from c(2,3) have "0x80 \<le> d" "d \<le> 0xBF" "0x80 \<le> e" "e \<le> 0xBF"
      by (simp_all add: cont_def)
    with 4 cy have *: "b = 0xF0 + x" "x < 5" "c = 0x80 + y" "y < 64" "d = 0x80 + z" "z < 64"
        "e = 0x80 + w" "w < 64"
      by (simp_all add: x_def y_def z_def w_def)
    note * = * cp
    have lo: "16 \<le> y" if "x = 0"
      using c(4) that *(1,3) by simp
    have hi: "y < 16" if "x = 4"
      using c(5) that *(1,3) by simp
    from * lo hi have range: "scalar cp" "0x10000 \<le> cp"
      using scalar_four [of x y z w cp] by (simp_all add: scalar_def)
    define q r where "q = (x * 64 + y) * 64 + z" and "r = x * 64 + y"
    have cpq: "cp = q * 64 + w" and qr: "q = r * 64 + z" using * by (simp_all add: q_def r_def)
    have "cp div 64 = q" "cp mod 64 = w" unfolding cpq using \<open>w < 64\<close> by simp_all
    moreover have "q div 64 = r" "q mod 64 = z" unfolding qr using \<open>z < 64\<close> by simp_all
    moreover have "r div 64 = x" "r mod 64 = y" unfolding r_def using \<open>y < 64\<close> by simp_all
    ultimately have "enc_cp cp = [0xF0 + x, 0x80 + y, 0x80 + z, 0x80 + w]"
      using range(2) by (simp add: enc_cp_def)
    with range(1) show ?thesis by (simp add: bs c(1) *(1,3,5,7))
  qed
qed

lemma dec_cp_shorter: "dec_cp bs = Some (cp, rest) \<Longrightarrow> length rest < length bs"
  by (drule dec_cp_SomeD) (auto simp: enc_cp_def)


section \<open>Strings in bytes\<close>

function dec_cps :: "nat list \<Rightarrow> nat list option" where
  "dec_cps bs =
     (if bs = [] then Some []
      else case dec_cp bs of
        None \<Rightarrow> None
      | Some (cp, rest) \<Rightarrow> map_option ((#) cp) (dec_cps rest))"
  by pat_completeness auto
termination
  by (relation "measure length") (auto dest: dec_cp_shorter)

declare dec_cps.simps [simp del]

definition utf8_encode :: "js \<Rightarrow> byte list" where
  "utf8_encode s = map word_of_nat (concat (map enc_cp (code_points s)))"

definition utf8_decode :: "byte list \<Rightarrow> js option" where
  "utf8_decode bs = map_option (concat \<circ> map to_utf16) (dec_cps (map unat bs))"

lemma dec_cps_concat: "list_all scalar cps \<Longrightarrow> dec_cps (concat (map enc_cp cps)) = Some cps"
proof (induction cps)
  case Nil
  show ?case by (simp add: dec_cps.simps)
next
  case (Cons cp cps)
  then show ?case by (subst dec_cps.simps) (simp add: dec_enc_cp)
qed

lemma dec_cps_SomeD:
  "dec_cps bs = Some cps \<Longrightarrow> list_all scalar cps \<and> bs = concat (map enc_cp cps)"
proof (induction bs arbitrary: cps rule: dec_cps.induct)
  case (1 bs)
  show ?case
  proof (cases "bs = []")
    case True
    with "1.prems" show ?thesis by (simp add: dec_cps.simps)
  next
    case False
    with "1.prems" obtain cp rest cps' where step: "dec_cp bs = Some (cp, rest)"
      and rest: "dec_cps rest = Some cps'" and cps: "cps = cp # cps'"
      by (subst (asm) dec_cps.simps) (auto split: option.splits)
    have "list_all scalar cps' \<and> rest = concat (map enc_cp cps')"
      by (rule "1.IH" [OF False step refl rest])
    with dec_cp_SomeD [OF step] cps show ?thesis by simp
  qed
qed

lemma concat_enc_cp_bytes:
  "list_all scalar cps \<Longrightarrow> list_all (\<lambda>b. b < 256) (concat (map enc_cp cps))"
  by (induction cps) (simp_all add: enc_cp_bytes)

lemma unat_byte_list: "list_all (\<lambda>b. b < 256) ns \<Longrightarrow> map unat (map word_of_nat ns :: byte list) = ns"
  by (induction ns) (simp_all add: unat_of_nat take_bit_eq_mod)

lemma unat_utf8_encode: "map unat (utf8_encode s) = concat (map enc_cp (code_points s))"
  unfolding utf8_encode_def
  by (intro unat_byte_list concat_enc_cp_bytes scalar_code_points)

lemma utf8_decode_encode: "utf8_decode (utf8_encode s) = Some (concat (map to_utf16 (code_points s)))"
  unfolding utf8_decode_def unat_utf8_encode
  by (simp add: dec_cps_concat [OF scalar_code_points])

lemma utf8_roundtrip: "well_formed s \<Longrightarrow> utf8_decode (utf8_encode s) = Some s"
  by (simp add: utf8_decode_encode utf16_code_points)

lemma utf8_canonical:
  assumes "utf8_decode bs = Some s"
  shows "well_formed s" and "utf8_encode s = bs"
proof -
  from assms obtain cps where cps: "dec_cps (map unat bs) = Some cps"
    and s: "s = concat (map to_utf16 cps)"
    by (auto simp: utf8_decode_def)
  from dec_cps_SomeD [OF cps] have scalars: "list_all scalar cps"
    and bs: "map unat bs = concat (map enc_cp cps)" by auto
  from code_points_utf16 [OF scalars] s have "code_points s = cps" and wf: "well_formed s" by auto
  then have "utf8_encode s = map word_of_nat (map unat bs)"
    by (simp add: utf8_encode_def bs)
  then show "utf8_encode s = bs" by (simp add: o_def)
  show "well_formed s" by (rule wf)
qed

lemma utf8_exact_iff: "utf8_decode (utf8_encode s) = Some s \<longleftrightarrow> well_formed s"
  using utf8_roundtrip utf8_canonical(1) by blast

lemma length_utf8_encode: "length s \<le> length (utf8_encode s) \<and> length (utf8_encode s) \<le> 3 * length s"
proof -
  have lone: "1 \<le> length (enc_cp (lone u)) \<and> length (enc_cp (lone u)) \<le> 3" for u
    using unat_code_unit [of u] by (auto simp: enc_cp_def lone_def)
  have pair: "length (enc_cp (join_surrogates h l)) = 4" for h l
    by (simp add: enc_cp_def join_surrogates_def)
  show ?thesis
    unfolding utf8_encode_def
  proof (induction s rule: code_points.induct)
    case (2 u)
    then show ?case using lone [of u] by simp
  next
    case (3 u v s)
    then show ?case
      using lone [of u] pair [of u v] by (cases "is_high u \<and> is_low v") auto
  qed simp
qed

lemma utf8_encode_Nil [simp]: "utf8_encode [] = []"
  by (simp add: utf8_encode_def)

lemma utf8_encode_eq_Nil [simp]: "utf8_encode s = [] \<longleftrightarrow> s = []"
  using length_utf8_encode [of s] by (cases s) auto

lemma well_formed_append: "well_formed s \<Longrightarrow> well_formed t \<Longrightarrow> well_formed (s @ t)"
proof (induction s rule: well_formed.induct)
  case (2 u)
  then show ?case by (simp add: lone_Cons)
next
  case (3 u v s)
  then show ?case by (cases "is_high u \<and> is_low v") auto
qed simp

lemma length_utf8_append: "length (utf8_encode (s @ t)) \<le> length (utf8_encode s) + length (utf8_encode t)"
proof (induction s rule: code_points.induct)
  case (2 u)
  show ?case
  proof (cases t)
    case (Cons v r)
    have "length (utf8_encode (v # r)) = 3 + length (utf8_encode r)" if "is_low v"
      using that by (cases r) (auto simp: utf8_encode_def lone_def enc_cp_def is_high_unat is_low_unat)
    then show ?thesis
      by (auto simp: Cons utf8_encode_def lone_def enc_cp_def join_surrogates_def)
  qed simp
next
  case (3 u v s)
  then show ?case
    by (cases "is_high u \<and> is_low v") (auto simp: utf8_encode_def)
qed simp

section \<open>What a codec may assume of the text encoding\<close>

locale text_codec =
  fixes enc :: "js \<Rightarrow> byte list"
    and dec :: "byte list \<Rightarrow> js option"
  assumes dec_SomeD: "dec bs = Some s \<Longrightarrow> enc s = bs"
    and no_shorter: "length s \<le> length (enc s)"
begin

text \<open>The encoder's check \<open>decode(encode(value)) === value\<close>.\<close>

definition faithful :: "js \<Rightarrow> bool" where
  "faithful s \<longleftrightarrow> dec (enc s) = Some s"

lemma dec_Some_iff: "dec bs = Some s \<longleftrightarrow> faithful s \<and> bs = enc s"
  using dec_SomeD by (auto simp: faithful_def)

lemma dec_determined: "dec bs = Some s \<Longrightarrow> dec bs' = Some s \<Longrightarrow> bs = bs'"
  using dec_SomeD by blast

lemma enc_inj_faithful: "faithful s \<Longrightarrow> faithful t \<Longrightarrow> enc s = enc t \<Longrightarrow> s = t"
  by (simp add: faithful_def)

text \<open>The cheap pre-check on code units never refuses what the byte limit accepts.\<close>

lemma precheck_sound: "length (enc s) \<le> maximum \<Longrightarrow> length s \<le> maximum"
  using no_shorter [of s] by simp

end

interpretation utf8: text_codec utf8_encode utf8_decode
  by unfold_locales (simp_all add: utf8_canonical length_utf8_encode)

lemma utf8_faithful_iff: "utf8.faithful s \<longleftrightarrow> well_formed s"
  by (simp add: utf8.faithful_def utf8_exact_iff)

end
