(* ===== verification/Contracts.thy ===== *)
theory Contracts
  imports Utf8
begin

text \<open>
  \<open>packages/contracts\<close>: the canonical command boundary, the engine contract's data, the
  event envelope and its validator, and the guide decision union.
\<close>

section \<open>Canonical commands (\<open>canonical-command.ts\<close>)\<close>

definition MAX_CANONICAL_COMMAND_LENGTH :: nat where
  "MAX_CANONICAL_COMMAND_LENGTH = 160"

datatype CanonicalCommandError = NotAString | EmptyCommand | TooLong | ControlCharacter | CommandSeparator

definition is_separator :: "code_unit \<Rightarrow> bool" where \<comment> \<open>\<open>[.;]\<close>\<close>
  "is_separator u \<longleftrightarrow> u = 0x2E \<or> u = 0x3B"

fun then_prefix :: "js \<Rightarrow> bool" where \<comment> \<open>\<open>then(?:\s|$)\<close>, case-insensitive, at this position\<close>
  "then_prefix (t # h # e # n # rest) =
     (t \<in> {0x54, 0x74} \<and> h \<in> {0x48, 0x68} \<and> e \<in> {0x45, 0x65} \<and> n \<in> {0x4E, 0x6E} \<and>
      (case rest of [] \<Rightarrow> True | c # _ \<Rightarrow> is_space c))"
| "then_prefix _ = False"

fun then_word :: "bool \<Rightarrow> js \<Rightarrow> bool" where \<comment> \<open>the flag is \<open>(?:^|\s)\<close> just before this position\<close>
  "then_word b [] = False"
| "then_word b (c # cs) = ((b \<and> then_prefix (c # cs)) \<or> then_word (is_space c) cs)"

definition has_separator :: "js \<Rightarrow> bool" where
  "has_separator s \<longleftrightarrow> list_ex is_separator s \<or> then_word True s"

definition canonicalizeCommand :: "jsval \<Rightarrow> CanonicalCommandError + js" where
  "canonicalizeCommand input =
     (case input of
        JStr s \<Rightarrow>
          if has_control s then Inl ControlCharacter
          else
            let normalized = collapse (trim s) in
            if normalized = [] then Inl EmptyCommand
            else if MAX_CANONICAL_COMMAND_LENGTH < length normalized then Inl TooLong
            else if has_separator normalized then Inl CommandSeparator
            else Inr normalized
      | _ \<Rightarrow> Inl NotAString)"

text \<open>The language of canonical commands, without reference to the normalizer.\<close>

definition canonical :: "js \<Rightarrow> bool" where
  "canonical t \<longleftrightarrow>
     t \<noteq> [] \<and> length t \<le> MAX_CANONICAL_COMMAND_LENGTH \<and> \<not> has_control t \<and> \<not> has_separator t \<and>
     trimmed t \<and> single_blanks t"

lemma has_control_subset: "set t \<subseteq> insert 0x20 (set s) \<Longrightarrow> \<not> has_control s \<Longrightarrow> \<not> has_control t"
  by (auto simp: has_control_def list_ex_iff is_control_def)

lemma canonicalize_canonical:
  assumes "canonicalizeCommand v = Inr t"
  shows "canonical t"
proof -
  from assms obtain s where s: "v = JStr s" "\<not> has_control s" and t: "t = collapse (trim s)"
    and ok: "t \<noteq> []" "length t \<le> MAX_CANONICAL_COMMAND_LENGTH" "\<not> has_separator t"
    by (auto simp: canonicalizeCommand_def Let_def split: jsval.splits if_splits)
  have "set t \<subseteq> insert 0x20 (set s)"
    using set_collapse [of "trim s"] set_trim [of s] t by auto
  then have "\<not> has_control t" using s(2) by (rule has_control_subset)
  with ok t show ?thesis
    by (simp add: canonical_def trimmed_collapse trimmed_trim single_blanks_collapse)
qed

lemma canonical_fixpoint: "canonical t \<Longrightarrow> canonicalizeCommand (JStr t) = Inr t"
  by (simp add: canonical_def canonicalizeCommand_def trim_trimmed collapse_id)

lemma canonicalize_iff: "canonicalizeCommand (JStr t) = Inr t \<longleftrightarrow> canonical t"
  using canonicalize_canonical canonical_fixpoint by blast

section \<open>Engine contract (\<open>engine.ts\<close>)\<close>

definition MAX_ENGINE_SNAPSHOT_BYTES :: nat where
  "MAX_ENGINE_SNAPSHOT_BYTES = 4 * 1024 * 1024"

datatype boundary = InputRequested | Terminated

datatype rejection = StaleRevision | Duplicate | InvalidCommand | ReceiptCapacity

datatype status = Committed | Rejected rejection

record compatibility =
  story_id :: js
  story_sha256 :: js
  runtime_id :: js
  runtime_version :: js
  runtime_sha256 :: js
  adapter_id :: js
  adapter_version :: js
  snapshotSchemaVersion :: nat

text \<open>\<open>turnComplete\<close> is the literal type \<open>true\<close>, so the typed records leave it out.\<close>

record boot_result =
  br_output :: js
  br_boundary :: boundary
  br_compatibility :: compatibility

record execute_request =
  rq_requestId :: js
  rq_expectedRevision :: nat
  rq_command :: js

record execute_result =
  er_requestId :: js
  er_previousRevision :: nat
  er_revision :: nat
  er_command :: js
  er_output :: js
  er_boundary :: boundary
  er_status :: status

record engine_snapshot =
  sn_bytes :: "byte list"
  sn_sha256 :: js
  sn_revision :: nat
  sn_compatibility :: compatibility

record public_state =
  ps_revision :: nat
  ps_lastOutput :: js
  ps_boundary :: boundary

text \<open>The string unions as they appear in an untyped value.\<close>

fun boundary_name :: "boundary \<Rightarrow> string" where
  "boundary_name InputRequested = ''input-requested''"
| "boundary_name Terminated = ''terminated''"

fun rejection_name :: "rejection \<Rightarrow> string" where
  "rejection_name StaleRevision = ''stale_revision''"
| "rejection_name Duplicate = ''duplicate''"
| "rejection_name InvalidCommand = ''invalid_command''"
| "rejection_name ReceiptCapacity = ''receipt_capacity''"

definition read_boundary :: "jsval \<Rightarrow> boundary option" where
  "read_boundary v =
     (if v = JStr (js ''input-requested'') then Some InputRequested
      else if v = JStr (js ''terminated'') then Some Terminated else None)"

definition read_rejection :: "jsval \<Rightarrow> rejection option" where
  "read_rejection v =
     (if v = JStr (js ''stale_revision'') then Some StaleRevision
      else if v = JStr (js ''duplicate'') then Some Duplicate
      else if v = JStr (js ''invalid_command'') then Some InvalidCommand
      else if v = JStr (js ''receipt_capacity'') then Some ReceiptCapacity else None)"

lemma read_boundary_Some_iff: "read_boundary v = Some b \<longleftrightarrow> v = JStr (js (boundary_name b))"
  by (cases b) (auto simp: read_boundary_def)

lemma read_rejection_Some_iff: "read_rejection v = Some r \<longleftrightarrow> v = JStr (js (rejection_name r))"
  by (cases r) (auto simp: read_rejection_def)

lemma read_names [simp]:
  "read_boundary (JStr (js (boundary_name b))) = Some b"
  "read_rejection (JStr (js (rejection_name r))) = Some r"
  by (simp_all add: read_boundary_Some_iff read_rejection_Some_iff)

lemma boundary_name_eq [simp]: "boundary_name b = boundary_name c \<longleftrightarrow> b = c"
  by (cases b; cases c) auto

lemma rejection_name_eq [simp]: "rejection_name b = rejection_name c \<longleftrightarrow> b = c"
  by (cases b; cases c) auto

section \<open>Checkpoint limits (\<open>checkpoint-envelope.ts\<close>)\<close>

definition DORK_CHECKPOINT_FIXED_HEADER_BYTES :: nat where
  "DORK_CHECKPOINT_FIXED_HEADER_BYTES = 16"
definition DORK_CHECKPOINT_MAX_TOTAL_BYTES :: nat where
  "DORK_CHECKPOINT_MAX_TOTAL_BYTES = 1048576"
definition DORK_CHECKPOINT_MAX_LAST_OUTPUT_BYTES :: nat where
  "DORK_CHECKPOINT_MAX_LAST_OUTPUT_BYTES = 262144"

end
