(* ===== verification/Events.thy ===== *)
theory Events
  imports Contracts
begin

text \<open>
  The semantic event vocabulary of \<open>packages/contracts\<close> (\<open>guide-decision.ts\<close>,
  \<open>semantic-events.ts\<close>, \<open>event-envelope.ts\<close>) with the untyped envelope validator, and
  the coordinator-owned allocator of \<open>packages/events\<close> (\<open>event-sequence.ts\<close>).  The last
  section is the contract of an ordered allocator as a locale, discharged by
  \<open>EventSequence\<close>.
\<close>

section \<open>Guide decisions\<close>

datatype meta_control =
  StopSpeaking | RepeatLast | PauseSession | ResumeSession |
  SpeechSlower | SpeechFaster | ShowTranscript | HideTranscript

datatype explain_basis = CommandHelp | ObservedMemory | GameExplanation

datatype cannot_reason = NotObserved | Unsupported | Unsafe | ProviderLimitation

datatype guide_decision =
    DExecute (x_command: js) (x_intentSummary: js) (x_expectedEffect: "js option")
      (x_confidence: rat) (x_acknowledgement: "js option") (x_remainingGoal: "js option")
  | DClarify (c_question: js) (c_choices: "js list option") (c_ambiguity: js)
  | DExplain (e_response: js) (e_basis: explain_basis) (e_sourceIds: "js list")
  | DRequestHint (h_puzzleContext: js) (h_requestedLevel: nat)
  | DSessionControl (s_control: meta_control)
  | DCannotComply (n_response: js) (n_reason: cannot_reason)

section \<open>Semantic event payloads\<close>

datatype prose_retention = SessionOnly | LocalSave
datatype narration_role = GuideRole | NarratorRole
datatype capture_outcome = CaptureSubmitted | CaptureCancelled | CaptureSilence | CaptureFailed
datatype playback_outcome = PlaybackComplete | PlaybackInterrupted | PlaybackFailed
datatype accepted_kind = AcceptedExecute | AcceptedClarify | AcceptedExplain
datatype cancel_reason = PlayerCancelled | StaleTurn
datatype error_stage =
  StageAudio | StageTranscription | StageGuide | StageEngine | StageCheckpoint | StageNarration |
  StageCoordinator
datatype commit_state = NotSubmitted | Confirmed | Unknown

datatype payload =
    SessionPaused
  | SessionResumed
  | CaptureStarted (captureId: js)
  | CaptureEnded js (durationMs: nat) capture_outcome
  | PlaybackStarted js narration_role js \<comment> \<open>narrationId, role, sourceEventId\<close>
  | PlaybackEnded js narration_role playback_outcome
  | TranscriptFinal js "rat option" prose_retention \<comment> \<open>text, confidence\<close>
  | RoleIntroduction narration_role js nat nat prose_retention \<comment> \<open>role, text, position, total\<close>
  | DecisionProposed guide_decision prose_retention
  | DecisionAccepted accepted_kind
  | DecisionRejected js "guide_decision option" prose_retention \<comment> \<open>cause, decision\<close>
  | Clarification js js "js list option" prose_retention \<comment> \<open>question, ambiguity, choices\<close>
  | Explanation js "js list" prose_retention \<comment> \<open>response, sourceIds\<close>
  | CannotComply js js prose_retention \<comment> \<open>response, reason\<close>
  | CommandRequested js nat js \<comment> \<open>requestId, expectedRevision, command\<close>
  | CommandCommitted js nat nat js boundary \<comment> \<open>requestId, previousRevision, revision, command\<close>
  | CommandRejected js nat js js \<comment> \<open>requestId, revision, command, reason\<close>
  | EngineOutput nat js boundary prose_retention \<comment> \<open>revision, exactText\<close>
  | NarrationRequested js narration_role js js prose_retention \<comment> \<open>narrationId, role, text, sourceEventId\<close>
  | NarrationReady js narration_role
  | NarrationCancelled js narration_role cancel_reason
  | NarrationFailed js narration_role \<comment> \<open>\<open>recoverable\<close> is the literal \<open>true\<close>\<close>
  | SaveCheckpointed nat js nat \<comment> \<open>revision, sha256, byteLength\<close>
  | SaveFailed nat
  | SystemError error_stage js bool commit_state \<comment> \<open>stage, code, recoverable, engineCommitState\<close>
  | SystemRecovered js nat \<comment> \<open>stage is \<open>engine\<close>; requestId, revision\<close>

fun event_type :: "payload \<Rightarrow> string" where
  "event_type SessionPaused = ''session.paused''"
| "event_type SessionResumed = ''session.resumed''"
| "event_type (CaptureStarted _) = ''audio.capture.started''"
| "event_type (CaptureEnded _ _ _) = ''audio.capture.ended''"
| "event_type (PlaybackStarted _ _ _) = ''audio.playback.started''"
| "event_type (PlaybackEnded _ _ _) = ''audio.playback.ended''"
| "event_type (TranscriptFinal _ _ _) = ''transcript.final''"
| "event_type (RoleIntroduction _ _ _ _ _) = ''experience.role-introduction''"
| "event_type (DecisionProposed _ _) = ''guide.decision.proposed''"
| "event_type (DecisionAccepted _) = ''guide.decision.accepted''"
| "event_type (DecisionRejected _ _ _) = ''guide.decision.rejected''"
| "event_type (Clarification _ _ _ _) = ''guide.clarification''"
| "event_type (Explanation _ _ _) = ''guide.explanation''"
| "event_type (CannotComply _ _ _) = ''guide.cannot_comply''"
| "event_type (CommandRequested _ _ _) = ''engine.command.requested''"
| "event_type (CommandCommitted _ _ _ _ _) = ''engine.command.committed''"
| "event_type (CommandRejected _ _ _ _) = ''engine.command.rejected''"
| "event_type (EngineOutput _ _ _ _) = ''engine.output''"
| "event_type (NarrationRequested _ _ _ _ _) = ''narration.requested''"
| "event_type (NarrationReady _ _) = ''narration.ready''"
| "event_type (NarrationCancelled _ _ _) = ''narration.cancelled''"
| "event_type (NarrationFailed _ _) = ''narration.failed''"
| "event_type (SaveCheckpointed _ _ _) = ''save.checkpointed''"
| "event_type (SaveFailed _) = ''save.failed''"
| "event_type (SystemError _ _ _ _) = ''system.error''"
| "event_type (SystemRecovered _ _) = ''system.recovered''"

section \<open>Canonical timestamps\<close>

text \<open>
  \<open>new Date(Date.parse(v)).toISOString() === v\<close> holds exactly for the strings
  \<open>toISOString\<close> can produce: a calendar instant within \<open>8.64e15\<close> ms of the epoch, four
  year digits for the years 0 to 9999 and a sign with six digits otherwise.
\<close>

definition is_digit :: "code_unit \<Rightarrow> bool" where
  "is_digit u \<longleftrightarrow> 0x30 \<le> u \<and> u \<le> 0x39"

definition digits_value :: "js \<Rightarrow> nat option" where
  "digits_value s =
     (if s \<noteq> [] \<and> list_all is_digit s then Some (foldl (\<lambda>n u. 10 * n + (unat u - 0x30)) 0 s) else None)"

definition leap_year :: "int \<Rightarrow> bool" where
  "leap_year y \<longleftrightarrow> y mod 4 = 0 \<and> (y mod 100 \<noteq> 0 \<or> y mod 400 = 0)"

definition days_in_month :: "int \<Rightarrow> nat \<Rightarrow> nat" where
  "days_in_month y m =
     (if m = 2 then (if leap_year y then 29 else 28)
      else if m \<in> {4, 6, 9, 11} then 30 else 31)"

fun iso_year :: "js \<Rightarrow> int option" where
  "iso_year [] = None"
| "iso_year (c # cs) =
     (if length (c # cs) = 4 then map_option int (digits_value (c # cs))
      else if length cs = 6 \<and> c = 0x2B then
        (case digits_value cs of Some y \<Rightarrow> if 9999 < y then Some (int y) else None | None \<Rightarrow> None)
      else if length cs = 6 \<and> c = 0x2D then
        (case digits_value cs of Some y \<Rightarrow> if 0 < y then Some (- int y) else None | None \<Rightarrow> None)
      else None)"

definition instant_key :: "int \<Rightarrow> nat \<Rightarrow> nat \<Rightarrow> nat \<Rightarrow> nat \<Rightarrow> nat \<Rightarrow> nat \<Rightarrow> int" where
  \<comment> \<open>orders instants of the same calendar\<close>
  "instant_key y mo d h mi sec ms =
     (((((y * 13 + int mo) * 32 + int d) * 24 + int h) * 60 + int mi) * 60 + int sec) * 1000 + int ms"

definition valid_instant :: "int \<Rightarrow> nat \<Rightarrow> nat \<Rightarrow> nat \<Rightarrow> nat \<Rightarrow> nat \<Rightarrow> nat \<Rightarrow> bool" where
  "valid_instant y mo d h mi sec ms \<longleftrightarrow>
     1 \<le> mo \<and> mo \<le> 12 \<and> 1 \<le> d \<and> d \<le> days_in_month y mo \<and> h < 24 \<and> mi < 60 \<and> sec < 60 \<and> ms < 1000 \<and>
     instant_key (-271821) 4 20 0 0 0 0 \<le> instant_key y mo d h mi sec ms \<and>
     instant_key y mo d h mi sec ms \<le> instant_key 275760 9 13 0 0 0 0"

definition substr :: "js \<Rightarrow> nat \<Rightarrow> nat \<Rightarrow> js" where
  "substr s i n = take n (drop i s)"

definition is_iso_instant :: "js \<Rightarrow> bool" where
  "is_iso_instant s \<longleftrightarrow>
     (24 \<le> length s \<and>
      (let t = drop (length s - 20) s in \<comment> \<open>\<open>-MM-DDTHH:mm:ss.sssZ\<close>\<close>
       t ! 0 = 0x2D \<and> t ! 3 = 0x2D \<and> t ! 6 = 0x54 \<and> t ! 9 = 0x3A \<and> t ! 12 = 0x3A \<and>
       t ! 15 = 0x2E \<and> t ! 19 = 0x5A \<and>
       (case (iso_year (take (length s - 20) s), digits_value (substr t 1 2),
              digits_value (substr t 4 2), digits_value (substr t 7 2), digits_value (substr t 10 2),
              digits_value (substr t 13 2), digits_value (substr t 16 3)) of
          (Some y, Some mo, Some d, Some h, Some mi, Some sec, Some ms) \<Rightarrow>
            valid_instant y mo d h mi sec ms
        | _ \<Rightarrow> False)))"

definition isCanonicalEventTimestamp :: "jsval \<Rightarrow> bool" where
  "isCanonicalEventTimestamp v = (case v of JStr s \<Rightarrow> is_iso_instant s | _ \<Rightarrow> False)"

section \<open>Event envelopes\<close>

datatype visibility = Internal | Debug | Accessible

record 'p envelope =
  ev_id :: js
  ev_sessionId :: js
  ev_sequence :: nat
  ev_occurredAt :: js
  ev_type :: js
  ev_correlationId :: js
  ev_causationId :: "js option"
  ev_visibility :: visibility
  ev_payload :: 'p

type_synonym semantic_event = "payload envelope"

definition EVENT_KEYS :: "js list" where
  "EVENT_KEYS = map js [''schemaVersion'', ''id'', ''sessionId'', ''sequence'', ''occurredAt'',
     ''type'', ''correlationId'', ''causationId'', ''visibility'', ''payload'']"

definition nonempty_string :: "jsval \<Rightarrow> bool" where
  "nonempty_string v = (case v of JStr s \<Rightarrow> s \<noteq> [] | _ \<Rightarrow> False)"

definition read_visibility :: "jsval \<Rightarrow> visibility option" where
  "read_visibility v =
     (if v = JStr (js ''internal'') then Some Internal
      else if v = JStr (js ''debug'') then Some Debug
      else if v = JStr (js ''accessible'') then Some Accessible else None)"

definition isEventEnvelopeV1 :: "jsval \<Rightarrow> bool" where
  "isEventEnvelopeV1 v \<longleftrightarrow>
     is_object v \<and>
     list_all (\<lambda>k. k \<in> set EVENT_KEYS) (own_keys v) \<and>
     getProp v ''schemaVersion'' = jnat 1 \<and>
     nonempty_string (getProp v ''id'') \<and>
     nonempty_string (getProp v ''sessionId'') \<and>
     (case safe_nat (getProp v ''sequence'') of Some n \<Rightarrow> 1 \<le> n | None \<Rightarrow> False) \<and>
     isCanonicalEventTimestamp (getProp v ''occurredAt'') \<and>
     nonempty_string (getProp v ''type'') \<and>
     nonempty_string (getProp v ''correlationId'') \<and>
     (getProp v ''causationId'' = JUndef \<or> nonempty_string (getProp v ''causationId'')) \<and>
     read_visibility (getProp v ''visibility'') \<noteq> None \<and>
     has_own v ''payload''"

text \<open>The object a typed envelope is at run time; the validator never inspects the payload.\<close>

fun visibility_name :: "visibility \<Rightarrow> string" where
  "visibility_name Internal = ''internal''"
| "visibility_name Debug = ''debug''"
| "visibility_name Accessible = ''accessible''"

definition envelope_js :: "'p envelope \<Rightarrow> jsval" where
  "envelope_js e = JObj
     ([(js ''schemaVersion'', jnat 1), (js ''id'', JStr (ev_id e)),
       (js ''sessionId'', JStr (ev_sessionId e)), (js ''sequence'', jnat (ev_sequence e)),
       (js ''occurredAt'', JStr (ev_occurredAt e)), (js ''type'', JStr (ev_type e)),
       (js ''correlationId'', JStr (ev_correlationId e)),
       (js ''visibility'', JStr (js (visibility_name (ev_visibility e)))),
       (js ''payload'', JObj [])] @
      (case ev_causationId e of None \<Rightarrow> [] | Some c \<Rightarrow> [(js ''causationId'', JStr c)]))"

lemma read_visibility_name [simp]: "read_visibility (JStr (js (visibility_name v))) = Some v"
  by (cases v) (simp_all add: read_visibility_def)

definition valid_envelope :: "'p envelope \<Rightarrow> bool" where
  "valid_envelope e \<longleftrightarrow>
     ev_id e \<noteq> [] \<and> ev_sessionId e \<noteq> [] \<and> 1 \<le> ev_sequence e \<and> ev_sequence e \<le> MAX_SAFE_INTEGER \<and>
     is_iso_instant (ev_occurredAt e) \<and> ev_type e \<noteq> [] \<and> ev_correlationId e \<noteq> [] \<and>
     ev_causationId e \<noteq> Some []"

lemma isEventEnvelopeV1_envelope_js: "isEventEnvelopeV1 (envelope_js e) \<longleftrightarrow> valid_envelope e"
  by (auto simp: isEventEnvelopeV1_def envelope_js_def valid_envelope_def EVENT_KEYS_def
      nonempty_string_def isCanonicalEventTimestamp_def has_own_def split: option.splits)

end
