(* ===== verification/Event_Sequence.thy ===== *)
theory Event_Sequence
  imports Events
begin

text \<open>
  \<open>packages/events/src/event-sequence.ts\<close>: the coordinator-owned allocator of persisted
  sequence numbers, with its constructor checks, the checks of \<open>append\<close> in order, and the
  exhaustion of the safe integers.  \<open>nextId\<close> and \<open>now\<close> are supplied by the host, so their
  results are arguments of \<open>append\<close>.
\<close>

section \<open>The allocator\<close>

datatype sequence_error =
    SessionIdInvalid | FirstSequenceInvalid | SequenceExhausted | TypeInvalid | CorrelationInvalid
  | CausationInvalid | VisibilityInvalid | IdInvalid | OccurredAtInvalid | EnvelopeInvalid

record event_sequence =
  sq_sessionId :: js
  sq_next :: "nat option" \<comment> \<open>\<open>#nextSequence: number | undefined\<close>\<close>

record 'p event_draft =
  dr_type :: jsval
  dr_correlationId :: jsval
  dr_causationId :: jsval
  dr_visibility :: jsval
  dr_payload :: 'p

definition newEventSequence :: "jsval \<Rightarrow> jsval \<Rightarrow> sequence_error + event_sequence" where
  "newEventSequence sessionId first =
     (let firstSequence = (if first = JUndef \<or> first = JNull then jnat 1 else first) in
      case sessionId of
        JStr s \<Rightarrow>
          if s = [] then Inl SessionIdInvalid
          else (case safe_nat firstSequence of
                  None \<Rightarrow> Inl FirstSequenceInvalid
                | Some n \<Rightarrow>
                    if n < 1 then Inl FirstSequenceInvalid
                    else Inr \<lparr>sq_sessionId = s, sq_next = Some n\<rparr>)
      | _ \<Rightarrow> Inl SessionIdInvalid)"

definition the_string :: "jsval \<Rightarrow> js" where
  "the_string v = (case v of JStr s \<Rightarrow> s | _ \<Rightarrow> [])"

definition append_event ::
  "event_sequence \<Rightarrow> 'p event_draft \<Rightarrow> jsval \<Rightarrow> jsval \<Rightarrow>
     (sequence_error + 'p envelope) \<times> event_sequence" where
  "append_event sq draft eid occurredAt =
     (case sq_next sq of
        None \<Rightarrow> (Inl SequenceExhausted, sq)
      | Some sequence \<Rightarrow>
          if \<not> nonempty_string (dr_type draft) then (Inl TypeInvalid, sq)
          else if \<not> nonempty_string (dr_correlationId draft) then (Inl CorrelationInvalid, sq)
          else if dr_causationId draft \<noteq> JUndef \<and> \<not> nonempty_string (dr_causationId draft)
          then (Inl CausationInvalid, sq)
          else
            (case read_visibility (dr_visibility draft) of
               None \<Rightarrow> (Inl VisibilityInvalid, sq)
             | Some vis \<Rightarrow>
                 if \<not> nonempty_string eid then (Inl IdInvalid, sq)
                 else if \<not> isCanonicalEventTimestamp occurredAt then (Inl OccurredAtInvalid, sq)
                 else
                   let event = \<lparr>ev_id = the_string eid, ev_sessionId = sq_sessionId sq,
                         ev_sequence = sequence, ev_occurredAt = the_string occurredAt,
                         ev_type = the_string (dr_type draft),
                         ev_correlationId = the_string (dr_correlationId draft),
                         ev_causationId =
                           (if dr_causationId draft = JUndef then None
                            else Some (the_string (dr_causationId draft))),
                         ev_visibility = vis, ev_payload = dr_payload draft\<rparr>
                   in if \<not> isEventEnvelopeV1 (envelope_js event) then (Inl EnvelopeInvalid, sq)
                      else (Inr event,
                            sq\<lparr>sq_next := (if sequence = MAX_SAFE_INTEGER then None
                                           else Some (sequence + 1))\<rparr>)))"

definition seq_wf :: "event_sequence \<Rightarrow> bool" where
  "seq_wf sq \<longleftrightarrow>
     sq_sessionId sq \<noteq> [] \<and>
     (case sq_next sq of None \<Rightarrow> True | Some n \<Rightarrow> 1 \<le> n \<and> n \<le> MAX_SAFE_INTEGER)"

lemma nonempty_string_iff: "nonempty_string v \<longleftrightarrow> (\<exists>s. v = JStr s \<and> s \<noteq> [])"
  by (auto simp: nonempty_string_def split: jsval.splits)

lemma the_string_JStr [simp]: "the_string (JStr s) = s"
  by (simp add: the_string_def)

lemma newEventSequence_wf: "newEventSequence sid first = Inr sq \<Longrightarrow> seq_wf sq"
  by (auto simp: newEventSequence_def seq_wf_def Let_def
      split: jsval.splits if_splits option.splits dest: safe_nat_SomeD(2))

text \<open>Every success is a valid envelope carrying exactly the next sequence number.\<close>

lemma append_event_success:
  assumes "append_event sq draft eid now = (Inr e, sq')" and "seq_wf sq"
  shows "valid_envelope e" and "sq_next sq = Some (ev_sequence e)"
    and "sq' = sq\<lparr>sq_next := (if ev_sequence e = MAX_SAFE_INTEGER then None else Some (ev_sequence e + 1))\<rparr>"
    and "ev_payload e = dr_payload draft" and "ev_sessionId e = sq_sessionId sq"
proof -
  from assms(1) have "isEventEnvelopeV1 (envelope_js e) \<and> sq_next sq = Some (ev_sequence e) \<and>
     sq' = sq\<lparr>sq_next := (if ev_sequence e = MAX_SAFE_INTEGER then None else Some (ev_sequence e + 1))\<rparr> \<and>
     ev_payload e = dr_payload draft \<and> ev_sessionId e = sq_sessionId sq"
    by (auto simp: append_event_def Let_def split: option.splits if_splits)
  then show "valid_envelope e" "sq_next sq = Some (ev_sequence e)"
    "sq' = sq\<lparr>sq_next := (if ev_sequence e = MAX_SAFE_INTEGER then None else Some (ev_sequence e + 1))\<rparr>"
    "ev_payload e = dr_payload draft" "ev_sessionId e = sq_sessionId sq"
    by (simp_all add: isEventEnvelopeV1_envelope_js)
qed

lemma append_event_failure:
  "append_event sq draft eid now = (Inl err, sq') \<Longrightarrow> sq' = sq"
  by (auto simp: append_event_def Let_def split: option.splits if_splits)

lemma append_event_wf:
  assumes "seq_wf sq" and "append_event sq draft eid now = (r, sq')"
  shows "seq_wf sq'"
proof (cases r)
  case (Inl err)
  with assms show ?thesis by (auto dest: append_event_failure)
next
  case (Inr e)
  with assms append_event_success(2,3) [of sq draft eid now e sq'] show ?thesis
    by (auto simp: seq_wf_def)
qed

text \<open>A well-formed draft with a host eid and timestamp is always accepted before exhaustion:
  the final envelope re-validation never fires.\<close>

lemma append_event_accepts:
  assumes "seq_wf sq" and "sq_next sq = Some n"
    and "nonempty_string (dr_type draft)" and "nonempty_string (dr_correlationId draft)"
    and "dr_causationId draft = JUndef \<or> nonempty_string (dr_causationId draft)"
    and "read_visibility (dr_visibility draft) = Some vis"
    and "nonempty_string eid" and "isCanonicalEventTimestamp now"
  shows "\<exists>e sq'. append_event sq draft eid now = (Inr e, sq')"
proof -
  from assms(8) obtain t where t: "now = JStr t" "is_iso_instant t"
    by (auto simp: isCanonicalEventTimestamp_def split: jsval.splits)
  from assms t show ?thesis
    by (auto simp: append_event_def Let_def isEventEnvelopeV1_envelope_js valid_envelope_def
        seq_wf_def nonempty_string_iff)
qed

section \<open>Ordered allocators\<close>

text \<open>
  What a consumer of the event stream relies on: an allocation takes the next number and
  moves past it, a refusal changes nothing.  The run over any requests then yields strictly
  increasing numbers from the starting point, so no number is ever issued twice.
\<close>

locale ordered_allocator =
  fixes alloc :: "'s \<Rightarrow> 'i \<Rightarrow> ('e + 'o) \<times> 's"
    and next_number :: "'s \<Rightarrow> nat option"
    and number :: "'o \<Rightarrow> nat"
    and wf :: "'s \<Rightarrow> bool"
  assumes alloc_wf: "wf s \<Longrightarrow> alloc s i = (r, s') \<Longrightarrow> wf s'"
    and alloc_ok: "wf s \<Longrightarrow> alloc s i = (Inr x, s') \<Longrightarrow> next_number s = Some (number x)"
    and alloc_next: "wf s \<Longrightarrow> alloc s i = (Inr x, s') \<Longrightarrow>
          next_number s' = None \<or> next_number s' = Some (number x + 1)"
    and alloc_fail: "wf s \<Longrightarrow> alloc s i = (Inl e, s') \<Longrightarrow> s' = s"
begin

primrec alloc_run :: "'s \<Rightarrow> 'i list \<Rightarrow> 'o list \<times> 's" where
  "alloc_run s [] = ([], s)"
| "alloc_run s (i # is) =
     (case alloc s i of
        (Inl e, s') \<Rightarrow> alloc_run s' is
      | (Inr x, s') \<Rightarrow> (let (xs, t) = alloc_run s' is in (x # xs, t)))"

lemma exhausted_stays: "wf s \<Longrightarrow> next_number s = None \<Longrightarrow> fst (alloc_run s is) = []"
proof (induction "is" arbitrary: s)
  case (Cons i "is")
  obtain r s' where step: "alloc s i = (r, s')" by fastforce
  show ?case
  proof (cases r)
    case (Inl e)
    with Cons step have "s' = s" by (blast intro: alloc_fail)
    with Cons step Inl show ?thesis by simp
  next
    case (Inr x)
    with Cons step alloc_ok [of s i x s'] show ?thesis by simp
  qed
qed simp

lemma alloc_run_consecutive:
  "wf s \<Longrightarrow> next_number s = Some n \<Longrightarrow>
     map number (fst (alloc_run s is)) = [n..<n + length (fst (alloc_run s is))]"
proof (induction "is" arbitrary: s n)
  case (Cons i "is")
  obtain r s' where step: "alloc s i = (r, s')" by fastforce
  show ?case
  proof (cases r)
    case (Inl e)
    with Cons step have "s' = s" by (blast intro: alloc_fail)
    with Cons step Inl show ?thesis by simp
  next
    case (Inr x)
    with step have step': "alloc s i = (Inr x, s')" by simp
    from Cons.prems step' have wf': "wf s'" and n: "number x = n"
      using alloc_wf [of s i "Inr x" s'] alloc_ok [of s i x s'] by auto
    obtain xs t where run: "alloc_run s' is = (xs, t)" by fastforce
    from alloc_next [OF Cons.prems(1) step'] show ?thesis
    proof
      assume "next_number s' = None"
      with exhausted_stays [OF wf'] run have "xs = []" by (metis fst_conv)
      with step' run n show ?thesis by simp
    next
      assume "next_number s' = Some (number x + 1)"
      with Cons.IH [OF wf'] run n have "map number xs = [Suc n..<Suc n + length xs]" by simp
      then have "map number (x # xs) = [n..<n + length (x # xs)]"
        using n by (simp add: upt_conv_Cons del: upt_Suc)
      with step' run show ?thesis by simp
    qed
  qed
qed simp

lemma alloc_run_distinct:
  assumes "wf s" and "next_number s = Some n"
  shows "distinct (map number (fst (alloc_run s is)))"
    and "sorted_wrt (<) (map number (fst (alloc_run s is)))"
  using alloc_run_consecutive [OF assms, of "is"] by (simp_all add: strict_sorted_iff)

end

definition append_request ::
  "event_sequence \<Rightarrow> 'p event_draft \<times> jsval \<times> jsval \<Rightarrow>
     (sequence_error + 'p envelope) \<times> event_sequence" where
  "append_request sq i = (case i of (draft, eid, now) \<Rightarrow> append_event sq draft eid now)"

interpretation events: ordered_allocator append_request sq_next ev_sequence seq_wf
proof (unfold_locales, goal_cases)
  case (1 s i r s')
  then show ?case by (auto simp: append_request_def intro: append_event_wf split: prod.splits)
next
  case (2 s i x s')
  then show ?case by (auto simp: append_request_def dest: append_event_success(2) split: prod.splits)
next
  case (3 s i x s')
  then show ?case by (auto simp: append_request_def dest!: append_event_success(3)
        split: prod.splits if_splits)
next
  case (4 s i e s')
  then show ?case by (auto simp: append_request_def dest: append_event_failure split: prod.splits)
qed

end
