(* ===== verification/Contract_Properties.thy ===== *)
theory Contract_Properties
  imports Event_Sequence
begin

text \<open>
  The properties of the shared contracts: canonical commands and the allocation of event sequence
  numbers.
\<close>

section \<open>Runs of the allocator\<close>

fun append_all ::
  "event_sequence \<Rightarrow> ('p event_draft \<times> jsval \<times> jsval) list \<Rightarrow> 'p envelope list \<times> event_sequence" where
  "append_all sq [] = ([], sq)"
| "append_all sq ((draft, eid, now) # is) =
     (case append_event sq draft eid now of
        (Inl e, sq') \<Rightarrow> append_all sq' is
      | (Inr x, sq') \<Rightarrow> (let (xs, t) = append_all sq' is in (x # xs, t)))"

lemma append_request_eq [simp]: "append_request sq (draft, eid, now) = append_event sq draft eid now"
  by (simp add: append_request_def)

lemma append_all_run: "append_all sq is = events.alloc_run sq is"
  by (induction sq "is" rule: append_all.induct) (auto split: prod.split sum.split)

lemma append_all_valid:
  "seq_wf sq \<Longrightarrow> append_all sq is = (es, t) \<Longrightarrow> e \<in> set es \<Longrightarrow>
     valid_envelope e \<and> ev_sessionId e = sq_sessionId sq"
proof (induction sq "is" arbitrary: es t rule: append_all.induct)
  case (2 sq draft eid now "is")
  obtain r sq' where step: "append_event sq draft eid now = (r, sq')" by fastforce
  have wf: "seq_wf sq'" by (rule append_event_wf [OF 2(3) step])
  show ?case
  proof (cases r)
    case (Inl err)
    with 2 step append_event_failure [of sq draft eid now err sq'] wf show ?thesis by auto
  next
    case (Inr x)
    obtain xs t' where run: "append_all sq' is = (xs, t')" by fastforce
    note x = append_event_success [OF step [unfolded Inr] 2(3)]
    from 2(4) step Inr run have es: "es = x # xs" by simp
    show ?thesis
    proof (cases "e \<in> set xs")
      case True
      then have "valid_envelope e \<and> ev_sessionId e = sq_sessionId sq'"
        using 2(2) [OF step [symmetric] Inr wf run] by simp
      then show ?thesis using x(3) by simp
    next
      case False
      with 2(5) es x(1,5) show ?thesis by simp
    qed
  qed
qed simp

section \<open>Properties\<close>

text \<open>C34. A command crosses the canonical boundary exactly when it has no control character and its
  trimmed, blank-collapsed form is a canonical command; that form is the result, and canonicalizing a
  canonical command returns it unchanged.\<close>
theorem canonicalize_characterized:
  "(canonicalizeCommand v = Inr t \<longleftrightarrow>
      (\<exists>s. v = JStr s \<and> \<not> has_control s \<and> t = collapse (trim s) \<and> canonical t)) \<and>
   (canonicalizeCommand (JStr t) = Inr t \<longleftrightarrow> canonical t)"
proof (intro conjI iffI)
  assume *: "canonicalizeCommand v = Inr t"
  then show "\<exists>s. v = JStr s \<and> \<not> has_control s \<and> t = collapse (trim s) \<and> canonical t"
    using canonicalize_canonical [OF *]
    by (auto simp: canonicalizeCommand_def Let_def split: jsval.splits if_splits)
next
  assume "\<exists>s. v = JStr s \<and> \<not> has_control s \<and> t = collapse (trim s) \<and> canonical t"
  then show "canonicalizeCommand v = Inr t"
    by (auto simp: canonicalizeCommand_def canonical_def)
qed (use canonicalize_iff in auto)

text \<open>Whatever is requested of an event sequence, the events it emits are valid envelopes of its
  session numbered consecutively from the first free number, so no number is skipped or reused.\<close>
theorem sequence_numbers_consecutive:
  assumes "newEventSequence sid first = Inr sq" and "sq_next sq = Some n"
    and "append_all sq requests = (es, sq')"
  shows "map ev_sequence es = [n..<n + length es] \<and> list_all valid_envelope es \<and>
    list_all (\<lambda>e. ev_sessionId e = sq_sessionId sq) es"
  using events.alloc_run_consecutive [OF newEventSequence_wf [OF assms(1)] assms(2), of requests] assms(3)
    append_all_valid [OF newEventSequence_wf [OF assms(1)] assms(3)]
  by (simp add: append_all_run list_all_iff)

definition sample_draft :: "unit event_draft" where
  "sample_draft = \<lparr>dr_type = JStr (js ''engine.ready''), dr_correlationId = JStr (js ''c''),
     dr_causationId = JUndef, dr_visibility = JStr (js ''accessible''), dr_payload = ()\<rparr>"

definition sample_now :: jsval where
  "sample_now = JStr (js ''2026-07-20T10:00:00.000Z'')"

theorem sequence_numbers_consecutive_witness:
  "map ev_sequence (fst (append_all \<lparr>sq_sessionId = js ''s'', sq_next = Some 1\<rparr>
      [(sample_draft, JStr (js ''a''), sample_now), (sample_draft, JNull, sample_now),
       (sample_draft, JStr (js ''b''), sample_now)])) = [1, 2]"
proof -
  have new: "newEventSequence (JStr (js ''s'')) JUndef = Inr \<lparr>sq_sessionId = js ''s'', sq_next = Some 1\<rparr>"
    by (simp add: newEventSequence_def MAX_SAFE_INTEGER_def)
  have "is_iso_instant (js ''2026-07-20T10:00:00.000Z'')" by code_simp
  then have now: "isCanonicalEventTimestamp sample_now"
    by (simp add: isCanonicalEventTimestamp_def sample_now_def)
  have ok: "\<exists>e sq'. append_event sq sample_draft (JStr (js k)) sample_now = (Inr e, sq')"
    if "seq_wf sq" "sq_next sq = Some n" "k \<noteq> []" for sq n k
    using append_event_accepts [OF that(1,2), of sample_draft Accessible "JStr (js k)" sample_now] now that(3)
    by (simp add: sample_draft_def nonempty_string_def read_visibility_def)
  let ?s = "\<lparr>sq_sessionId = js ''s'', sq_next = Some 1\<rparr>"
  have wf: "seq_wf ?s" by (rule newEventSequence_wf [OF new])
  obtain e1 s1 where 1: "append_event ?s sample_draft (JStr (js ''a'')) sample_now = (Inr e1, s1)"
    using ok [OF wf, of 1 "''a''"] by auto
  have s1: "seq_wf s1" "sq_next s1 = Some 2"
    using append_event_wf [OF wf 1] append_event_success(2,3) [OF 1 wf] by (auto simp: MAX_SAFE_INTEGER_def)
  have fail: "append_event s1 sample_draft JNull sample_now = (Inl IdInvalid, s1)"
    using s1 by (simp add: append_event_def sample_draft_def nonempty_string_def read_visibility_def)
  obtain e2 s2 where 2: "append_event s1 sample_draft (JStr (js ''b'')) sample_now = (Inr e2, s2)"
    using ok [OF s1, of "''b''"] by auto
  have run: "append_all ?s [(sample_draft, JStr (js ''a''), sample_now), (sample_draft, JNull, sample_now),
       (sample_draft, JStr (js ''b''), sample_now)] = ([e1, e2], s2)"
    unfolding append_all.simps 1 prod.case sum.case fail 2 Let_def by (rule refl)
  from sequence_numbers_consecutive [OF new _ run, of 1] show ?thesis
    unfolding run by (simp add: upt_rec)
qed

text \<open>A refused append leaves the sequence as it was, and the re-validation of the assembled
  envelope never refuses what the field checks let through.\<close>
theorem append_checks_are_complete:
  assumes "seq_wf sq"
  shows "append_event sq draft eid now \<noteq> (Inl EnvelopeInvalid, sq') \<and>
    (\<forall>err. fst (append_event sq draft eid now) = Inl err \<longrightarrow> snd (append_event sq draft eid now) = sq)"
proof (intro conjI allI impI notI)
  fix err
  assume "fst (append_event sq draft eid now) = Inl err"
  then show "snd (append_event sq draft eid now) = sq"
    using append_event_failure [of sq draft eid now err "snd (append_event sq draft eid now)"]
    by (cases "append_event sq draft eid now") simp
next
  assume *: "append_event sq draft eid now = (Inl EnvelopeInvalid, sq')"
  then obtain n vis where "sq_next sq = Some n" "nonempty_string (dr_type draft)"
    "nonempty_string (dr_correlationId draft)"
    "dr_causationId draft = JUndef \<or> nonempty_string (dr_causationId draft)"
    "read_visibility (dr_visibility draft) = Some vis" "nonempty_string eid" "isCanonicalEventTimestamp now"
    by (auto simp: append_event_def split: option.splits if_splits)
  from append_event_accepts [OF assms this] * show False by simp
qed

theorem append_checks_are_complete_witness:
  "append_event \<lparr>sq_sessionId = js ''s'', sq_next = None\<rparr> sample_draft JNull JNull \<noteq>
     (Inl EnvelopeInvalid, \<lparr>sq_sessionId = js ''s'', sq_next = None\<rparr>)"
  using append_checks_are_complete [of "\<lparr>sq_sessionId = js ''s'', sq_next = None\<rparr>" sample_draft JNull JNull
      "\<lparr>sq_sessionId = js ''s'', sq_next = None\<rparr>"]
  by (simp add: seq_wf_def)

end
