(* ===== verification/Wire.thy ===== *)
theory Wire
  imports Contracts
begin

text \<open>
  The byte layer of \<open>spikes/dork-worker/worker-snapshot-envelope.ts\<close>, which
  \<open>spikes/dork-worker/checkpoint-envelope.ts\<close> repeats: the error codes of both codecs,
  \<open>BinaryReader\<close> as an offset with the remaining bytes, the big-endian integers of
  \<open>BinaryWriter\<close> and \<open>BinaryReader\<close>, and the contract of a wire field as a locale.
\<close>

section \<open>Errors and readers\<close>

datatype codec_code =
    InvalidInput | LimitExceeded | Truncated | TrailingBytes | InvalidMagic | UnsupportedVersion
  | NonzeroReserved | InvalidTotalLength | InvalidUtf8 | Noncanonical | DuplicateRequestId
  | InvalidValue
  | IncompatibleRuntime | IncompatibleAdapter \<comment> \<open>of the checkpoint codec only\<close>

datatype codec_error = CodecError codec_code "nat option" \<comment> \<open>code and byte offset\<close>

abbreviation fail :: "codec_code \<Rightarrow> codec_error" where
  "fail c \<equiv> CodecError c None"

abbreviation fail_at :: "codec_code \<Rightarrow> nat \<Rightarrow> codec_error" where
  "fail_at c off \<equiv> CodecError c (Some off)"

type_synonym reader = "nat \<times> byte list" \<comment> \<open>\<open>#offset\<close> and the bytes from it on\<close>

type_synonym 'a parse = "codec_error + 'a \<times> reader"

definition get_bytes :: "nat \<Rightarrow> reader \<Rightarrow> byte list parse" where
  "get_bytes n r = (case r of (off, bs) \<Rightarrow>
     if n \<le> length bs then Inr (take n bs, (off + n, drop n bs)) else Inl (fail_at Truncated off))"

definition remaining :: "reader \<Rightarrow> nat" where
  "remaining r = length (snd r)"

section \<open>Big-endian integers\<close>

fun put_be :: "nat \<Rightarrow> nat \<Rightarrow> byte list" where \<comment> \<open>\<open>setUint\<close> keeps the low bytes\<close>
  "put_be 0 n = []"
| "put_be (Suc k) n = put_be k (n div 256) @ [word_of_nat n]"

definition be_value :: "byte list \<Rightarrow> nat" where
  "be_value bs = foldl (\<lambda>n b. n * 256 + unat b) 0 bs"

definition get_be :: "nat \<Rightarrow> reader \<Rightarrow> nat parse" where
  "get_be k r = bindE (get_bytes k r) (\<lambda>(bs, r'). Inr (be_value bs, r'))"

definition put_u8 :: "nat \<Rightarrow> byte list" where "put_u8 = put_be 1"
definition put_u16 :: "nat \<Rightarrow> byte list" where "put_u16 = put_be 2"
definition put_u32 :: "nat \<Rightarrow> byte list" where "put_u32 = put_be 4"

definition get_u8 :: "reader \<Rightarrow> nat parse" where "get_u8 = get_be 1"
definition get_u16 :: "reader \<Rightarrow> nat parse" where "get_u16 = get_be 2"
definition get_u32 :: "reader \<Rightarrow> nat parse" where "get_u32 = get_be 4"

definition UINT32_FACTOR :: nat where "UINT32_FACTOR = 2 ^ 32"
definition MAX_SAFE_U64_HIGH_WORD :: nat where "MAX_SAFE_U64_HIGH_WORD = 0x1fffff"

definition put_u64 :: "nat \<Rightarrow> byte list" where
  "put_u64 v = put_u32 (v div UINT32_FACTOR) @ put_u32 (v - v div UINT32_FACTOR * UINT32_FACTOR)"

definition safeU64 :: "reader \<Rightarrow> nat parse" where
  "safeU64 r =
     bindE (get_u32 r) (\<lambda>(high, r1).
     bindE (get_u32 r1) (\<lambda>(low, r2).
       if MAX_SAFE_U64_HIGH_WORD < high then Inl (fail_at InvalidValue (fst r))
       else Inr (high * UINT32_FACTOR + low, r2)))"

lemma length_put_be [simp]: "length (put_be k n) = k"
  by (induction k arbitrary: n) simp_all

lemma be_value_snoc [simp]: "be_value (bs @ [b]) = be_value bs * 256 + unat b"
  by (simp add: be_value_def)

lemma be_value_Nil [simp]: "be_value [] = 0"
  by (simp add: be_value_def)

lemma be_value_put_be: "n < 256 ^ k \<Longrightarrow> be_value (put_be k n) = n"
proof (induction k arbitrary: n)
  case (Suc k)
  then have "n div 256 < 256 ^ k" by (simp add: less_mult_imp_div_less mult.commute)
  moreover have "unat (word_of_nat n :: byte) = n mod 256"
    by (simp add: unat_of_nat take_bit_eq_mod)
  ultimately show ?case by (simp add: Suc.IH)
qed simp

lemma put_be_value: "length bs = k \<Longrightarrow> put_be k (be_value bs) = bs \<and> be_value bs < 256 ^ k"
proof (induction bs arbitrary: k rule: rev_induct)
  case (snoc b bs)
  have b: "unat b < 256" using unsigned_less [of b] by simp
  then have "(be_value bs * 256 + unat b) div 256 = be_value bs" by simp
  moreover from snoc.prems have k: "k = Suc (length bs)" by simp
  moreover have "(word_of_nat (be_value bs * 256 + unat b) :: byte) = b"
  proof -
    have "(256 :: byte) = 0" by simp
    then show ?thesis by (simp only: of_nat_add of_nat_mult of_nat_numeral) simp
  qed
  ultimately show ?case
    using snoc.IH [of "length bs"] b by (simp add: less_Suc_eq_le)
qed simp

section \<open>Wire fields\<close>

text \<open>
  A field has one encoding per valid value and the reader accepts nothing else: it returns
  a value exactly when the bytes at its offset are that value's encoding.
\<close>

locale field_codec =
  fixes put :: "'a \<Rightarrow> byte list"
    and get :: "reader \<Rightarrow> 'a parse"
    and valid :: "'a \<Rightarrow> bool"
  assumes get_iff: "get (off, bs) = Inr (x, r) \<longleftrightarrow>
        valid x \<and> bs = put x @ snd r \<and> fst r = off + length (put x)"
begin

lemma get_put: "valid x \<Longrightarrow> get (off, put x @ rest) = Inr (x, (off + length (put x), rest))"
  by (simp add: get_iff)

lemma put_unique: "get (off, bs) = Inr (x, r) \<Longrightarrow> get (off', bs') = Inr (x, r') \<Longrightarrow>
    take (length (put x)) bs = take (length (put x)) bs'"
  by (auto simp: get_iff)

lemma put_inj: "valid x \<Longrightarrow> valid y \<Longrightarrow> put x = put y \<Longrightarrow> x = y"
proof -
  assume "valid x" "valid y" "put x = put y"
  then have "get (0, put x) = Inr (x, (length (put x), []))"
    and "get (0, put x) = Inr (y, (length (put x), []))"
    by (simp_all add: get_iff)
  then show "x = y" by simp
qed

end

fun get_many :: "nat \<Rightarrow> (reader \<Rightarrow> 'a parse) \<Rightarrow> reader \<Rightarrow> 'a list parse" where
  "get_many 0 get r = Inr ([], r)"
| "get_many (Suc n) get r =
     bindE (get r) (\<lambda>(x, r1). bindE (get_many n get r1) (\<lambda>(xs, r2). Inr (x # xs, r2)))"

text \<open>A counted repetition of a field is again a field.\<close>

context field_codec
begin

lemma get_many_iff:
  "get_many n get (off, bs) = Inr (xs, r) \<longleftrightarrow>
     length xs = n \<and> list_all valid xs \<and> bs = concat (map put xs) @ snd r \<and>
     fst r = off + length (concat (map put xs))"
proof (induction n arbitrary: off bs xs r)
  case 0
  show ?case by (cases r) auto
next
  case (Suc n)
  show ?case
  proof (cases xs)
    case Nil
    then show ?thesis by (auto simp: bindE_Inr_iff split: prod.splits)
  next
    case (Cons y ys)
    have "get_many (Suc n) get (off, bs) = Inr (xs, r) \<longleftrightarrow>
        (\<exists>off1 bs1. get (off, bs) = Inr (y, (off1, bs1)) \<and>
           get_many n get (off1, bs1) = Inr (ys, r))"
      by (cases r) (auto simp: Cons bindE_Inr_iff split: prod.splits)
    also have "\<dots> \<longleftrightarrow> length xs = Suc n \<and> list_all valid xs \<and> bs = concat (map put xs) @ snd r \<and>
        fst r = off + length (concat (map put xs))"
      by (auto simp: Cons Suc.IH get_iff)
    finally show ?thesis .
  qed
qed

end

interpretation be: field_codec "put_be k" "get_be k" "\<lambda>n. n < 256 ^ k" for k
proof (unfold_locales, goal_cases)
  case (1 off bs x r)
  show ?case
  proof
    assume get: "get_be k (off, bs) = Inr (x, r)"
    then have k: "k \<le> length bs" and x: "x = be_value (take k bs)" and r: "r = (off + k, drop k bs)"
      by (auto simp: get_be_def get_bytes_def bindE_Inr_iff split: if_splits)
    from k have "length (take k bs) = k" by simp
    from put_be_value [OF this] x r k
    show "x < 256 ^ k \<and> bs = put_be k x @ snd r \<and> fst r = off + length (put_be k x)"
      by simp
  next
    assume "x < 256 ^ k \<and> bs = put_be k x @ snd r \<and> fst r = off + length (put_be k x)"
    then show "get_be k (off, bs) = Inr (x, r)"
      by (cases r) (simp add: get_be_def get_bytes_def be_value_put_be)
  qed
qed

lemma get_bytes_iff:
  "get_bytes n (off, bs) = Inr (x, r) \<longleftrightarrow> length x = n \<and> bs = x @ snd r \<and> fst r = off + n"
  by (cases r) (auto simp: get_bytes_def)

interpretation raw: field_codec "\<lambda>bs. bs" "get_bytes n" "\<lambda>bs. length bs = n" for n
  by unfold_locales (auto simp: get_bytes_iff)

interpretation u8: field_codec put_u8 get_u8 "\<lambda>n. n < 256"
  unfolding put_u8_def get_u8_def using be.field_codec_axioms [of 1] by simp

interpretation u16: field_codec put_u16 get_u16 "\<lambda>n. n < 65536"
  unfolding put_u16_def get_u16_def using be.field_codec_axioms [of 2] by simp

interpretation u32: field_codec put_u32 get_u32 "\<lambda>n. n < 4294967296"
  unfolding put_u32_def get_u32_def using be.field_codec_axioms [of 4] by simp

lemma length_puts [simp]:
  "length (put_u8 n) = 1" "length (put_u16 n) = 2" "length (put_u32 n) = 4" "length (put_u64 n) = 8"
  by (simp_all add: put_u8_def put_u16_def put_u32_def put_u64_def)

interpretation u64: field_codec put_u64 safeU64 "\<lambda>n. n \<le> MAX_SAFE_INTEGER"
proof (unfold_locales, goal_cases)
  case (1 off bs x r)
  have "safeU64 (off, bs) = Inr (x, r) \<longleftrightarrow>
      (\<exists>h a b l. get_u32 (off, bs) = Inr (h, (a, b)) \<and> get_u32 (a, b) = Inr (l, r) \<and>
        h \<le> MAX_SAFE_U64_HIGH_WORD \<and> x = h * UINT32_FACTOR + l)"
    by (cases r) (auto simp: safeU64_def bindE_Inr_iff not_less split: prod.splits if_splits)
  also have "\<dots> \<longleftrightarrow>
      (\<exists>h l. h \<le> MAX_SAFE_U64_HIGH_WORD \<and> l < 4294967296 \<and> x = h * UINT32_FACTOR + l \<and>
        bs = put_u32 h @ put_u32 l @ snd r \<and> fst r = off + 8)"
    (is "?l \<longleftrightarrow> ?r")
  proof
    assume ?l
    then show ?r by (auto simp: u32.get_iff)
  next
    assume ?r
    then obtain h l where "h \<le> MAX_SAFE_U64_HIGH_WORD" "l < 4294967296" "x = h * UINT32_FACTOR + l"
      "bs = put_u32 h @ put_u32 l @ snd r" "fst r = off + 8" by blast
    then have "get_u32 (off, bs) = Inr (h, (off + 4, put_u32 l @ snd r))"
      "get_u32 (off + 4, put_u32 l @ snd r) = Inr (l, r)"
      by (simp_all add: u32.get_iff MAX_SAFE_U64_HIGH_WORD_def)
    then show ?l using \<open>h \<le> MAX_SAFE_U64_HIGH_WORD\<close> \<open>x = h * UINT32_FACTOR + l\<close> by blast
  qed
  also have "\<dots> \<longleftrightarrow> x \<le> MAX_SAFE_INTEGER \<and> bs = put_u64 x @ snd r \<and> fst r = off + length (put_u64 x)"
  proof
    assume "\<exists>h l. h \<le> MAX_SAFE_U64_HIGH_WORD \<and> l < 4294967296 \<and> x = h * UINT32_FACTOR + l \<and>
        bs = put_u32 h @ put_u32 l @ snd r \<and> fst r = off + 8"
    then obtain h l where h: "h \<le> MAX_SAFE_U64_HIGH_WORD" and l: "l < UINT32_FACTOR"
      and x: "x = h * UINT32_FACTOR + l" and bs: "bs = put_u32 h @ put_u32 l @ snd r" "fst r = off + 8"
      by (auto simp: UINT32_FACTOR_def)
    from l have "x div UINT32_FACTOR = h" by (simp add: x UINT32_FACTOR_def)
    with h l bs show "x \<le> MAX_SAFE_INTEGER \<and> bs = put_u64 x @ snd r \<and> fst r = off + length (put_u64 x)"
      by (simp add: put_u64_def x MAX_SAFE_INTEGER_def MAX_SAFE_U64_HIGH_WORD_def UINT32_FACTOR_def)
  next
    assume *: "x \<le> MAX_SAFE_INTEGER \<and> bs = put_u64 x @ snd r \<and> fst r = off + length (put_u64 x)"
    then have "x div UINT32_FACTOR \<le> MAX_SAFE_U64_HIGH_WORD"
      using div_le_mono [of x MAX_SAFE_INTEGER UINT32_FACTOR]
      by (simp add: MAX_SAFE_INTEGER_def MAX_SAFE_U64_HIGH_WORD_def UINT32_FACTOR_def)
    moreover have "x = x div UINT32_FACTOR * UINT32_FACTOR + (x - x div UINT32_FACTOR * UINT32_FACTOR)"
      by simp
    moreover have "x - x div UINT32_FACTOR * UINT32_FACTOR < 4294967296"
      by (simp add: UINT32_FACTOR_def minus_div_mult_eq_mod)
    ultimately show "\<exists>h l. h \<le> MAX_SAFE_U64_HIGH_WORD \<and> l < 4294967296 \<and> x = h * UINT32_FACTOR + l \<and>
        bs = put_u32 h @ put_u32 l @ snd r \<and> fst r = off + 8"
      using * by (intro exI [of _ "x div UINT32_FACTOR"]
          exI [of _ "x - x div UINT32_FACTOR * UINT32_FACTOR"]) (simp add: put_u64_def)
  qed
  finally show ?case .
qed

end
