(* ===== verification/Snapshot_Valid.thy ===== *)
theory Snapshot_Valid
  imports Snapshot_Prepare
begin

text \<open>
  The declarative validity of snapshot values, and the proof that the checking functions of
  \<open>Snapshot_Prepare\<close> accept exactly the run-time objects of valid values.
\<close>

section \<open>Validity\<close>

definition bounded_text :: "nat \<Rightarrow> bool \<Rightarrow> js \<Rightarrow> bool" where
  "bounded_text maximum allowEmpty s \<longleftrightarrow>
     utf8.faithful s \<and> length (utf8_encode s) \<le> maximum \<and> (allowEmpty \<or> s \<noteq> [])"

definition command_text :: "js \<Rightarrow> bool" where
  "command_text c \<longleftrightarrow> canonical c \<and> utf8.faithful c"

definition valid_result :: "execute_result \<Rightarrow> bool" where
  "valid_result r \<longleftrightarrow>
     bounded_text MAX_REQUEST_ID_BYTES False (er_requestId r) \<and> command_text (er_command r) \<and>
     bounded_text DORK_CHECKPOINT_MAX_LAST_OUTPUT_BYTES True (er_output r) \<and>
     er_revision r \<le> MAX_SAFE_INTEGER \<and>
     er_revision r = (if er_status r = Committed then er_previousRevision r + 1 else er_previousRevision r)"

definition valid_receipt :: "receipt \<Rightarrow> bool" where
  "valid_receipt rc \<longleftrightarrow>
     (let r = rc_result rc in
      valid_result r \<and> rc_requestId rc = er_requestId r \<and> rc_command rc = er_command r \<and>
      rc_expectedRevision rc \<le> MAX_SAFE_INTEGER \<and>
      (er_status r = Committed \<longrightarrow> rc_expectedRevision rc = er_previousRevision r) \<and>
      (er_status r = Rejected StaleRevision \<longrightarrow> rc_expectedRevision rc \<noteq> er_revision r))"

definition committed_revisions :: "receipt list \<Rightarrow> nat list" where
  "committed_revisions rcs = map (er_revision \<circ> rc_result) (filter (\<lambda>rc. er_status (rc_result rc) = Committed) rcs)"

definition valid_journal :: "nat \<Rightarrow> js \<Rightarrow> boundary \<Rightarrow> receipt list \<Rightarrow> bool" where
  "valid_journal revision lastOutput bd rcs \<longleftrightarrow>
     distinct (map rc_requestId rcs) \<and>
     (\<forall>rc \<in> set rcs. er_previousRevision (rc_result rc) \<le> revision \<and> er_revision (rc_result rc) \<le> revision \<and>
        (er_revision (rc_result rc) = revision \<longrightarrow> er_boundary (rc_result rc) = bd \<and>
           (er_status (rc_result rc) = Committed \<longrightarrow> er_output (rc_result rc) = lastOutput))) \<and>
     distinct (committed_revisions rcs) \<and> {1..revision} \<subseteq> set (committed_revisions rcs)"

definition receipt_size :: "receipt \<Rightarrow> nat" where
  "receipt_size rc =
     RECEIPT_LENGTH_PREFIX_BYTES + RECEIPT_FIXED_BYTES +
     length (utf8_encode (rc_requestId rc)) + length (utf8_encode (rc_command rc)) +
     length (utf8_encode (er_requestId (rc_result rc))) + length (utf8_encode (er_command (rc_result rc))) +
     length (utf8_encode (er_output (rc_result rc)))"

definition journal_size :: "receipt list \<Rightarrow> nat" where
  "journal_size rcs = sum_list (map receipt_size rcs)"

definition valid_snapshot :: "worker_snapshot \<Rightarrow> bool" where
  "valid_snapshot ws \<longleftrightarrow>
     ws_revision ws \<le> MAX_SAFE_INTEGER \<and>
     bounded_text DORK_CHECKPOINT_MAX_LAST_OUTPUT_BYTES True (ws_lastOutput ws) \<and>
     DORK_CHECKPOINT_FIXED_HEADER_BYTES \<le> length (ws_innerCheckpoint ws) \<and>
     length (ws_innerCheckpoint ws) \<le> DORK_CHECKPOINT_MAX_TOTAL_BYTES \<and>
     length (ws_receipts ws) \<le> MAX_RECEIPTS \<and>
     list_all valid_receipt (ws_receipts ws) \<and>
     journal_size (ws_receipts ws) \<le> MAX_RECEIPT_JOURNAL_BYTES \<and>
     valid_journal (ws_revision ws) (ws_lastOutput ws) (ws_boundary ws) (ws_receipts ws)"

section \<open>The run-time objects of typed values\<close>

definition result_js :: "execute_result \<Rightarrow> jsval" where
  "result_js r = JObj
     ([(js ''requestId'', JStr (er_requestId r)),
       (js ''previousRevision'', jnat (er_previousRevision r)),
       (js ''revision'', jnat (er_revision r)), (js ''command'', JStr (er_command r)),
       (js ''output'', JStr (er_output r)), (js ''turnComplete'', JBool True),
       (js ''boundary'', JStr (js (boundary_name (er_boundary r)))),
       (js ''status'', JStr (js (case er_status r of Committed \<Rightarrow> ''committed'' | Rejected _ \<Rightarrow> ''rejected'')))] @
      (case er_status r of Committed \<Rightarrow> []
       | Rejected rj \<Rightarrow> [(js ''rejection'', JStr (js (rejection_name rj)))]))"

definition receipt_js :: "receipt \<Rightarrow> jsval" where
  "receipt_js rc = JObj
     [(js ''requestId'', JStr (rc_requestId rc)), (js ''expectedRevision'', jnat (rc_expectedRevision rc)),
      (js ''command'', JStr (rc_command rc)), (js ''result'', result_js (rc_result rc))]"

definition snapshot_js :: "worker_snapshot \<Rightarrow> jsval" where
  "snapshot_js ws = JObj
     [(js ''schemaVersion'', jnat 1), (js ''revision'', jnat (ws_revision ws)),
      (js ''lastOutput'', JStr (ws_lastOutput ws)),
      (js ''boundary'', JStr (js (boundary_name (ws_boundary ws)))),
      (js ''innerCheckpoint'', JBytes (ws_innerCheckpoint ws)),
      (js ''receipts'', JArr (map receipt_js (ws_receipts ws)))]"

definition prepared_result_of :: "execute_result \<Rightarrow> prepared_result" where
  "prepared_result_of r = \<lparr>pr_value = r, pr_requestIdBytes = utf8_encode (er_requestId r),
     pr_commandBytes = utf8_encode (er_command r), pr_outputBytes = utf8_encode (er_output r),
     pr_boundaryMarker = boundary_marker (er_boundary r),
     pr_statusMarker = (case er_status r of Committed \<Rightarrow> 1 | Rejected _ \<Rightarrow> 2),
     pr_rejectionMarker = (case er_status r of Committed \<Rightarrow> 0 | Rejected rj \<Rightarrow> rejection_marker rj)\<rparr>"

definition prepared_receipt_of :: "receipt \<Rightarrow> prepared_receipt" where
  "prepared_receipt_of rc = \<lparr>pc_value = rc, pc_requestIdBytes = utf8_encode (rc_requestId rc),
     pc_commandBytes = utf8_encode (rc_command rc), pc_result = prepared_result_of (rc_result rc),
     pc_payloadBytes = receipt_size rc - RECEIPT_LENGTH_PREFIX_BYTES, pc_encodedBytes = receipt_size rc\<rparr>"

definition snapshot_size :: "worker_snapshot \<Rightarrow> nat" where
  "snapshot_size ws = FIXED_HEADER_BYTES + FIXED_BODY_BYTES + length (utf8_encode (ws_lastOutput ws)) +
     length (ws_innerCheckpoint ws) + journal_size (ws_receipts ws)"

definition prepared_snapshot_of :: "worker_snapshot \<Rightarrow> prepared_snapshot" where
  "prepared_snapshot_of ws = \<lparr>pe_value = ws, pe_lastOutputBytes = utf8_encode (ws_lastOutput ws),
     pe_innerCheckpoint = ws_innerCheckpoint ws,
     pe_receipts = map prepared_receipt_of (ws_receipts ws),
     pe_journalBytes = journal_size (ws_receipts ws),
     pe_boundaryMarker = boundary_marker (ws_boundary ws), pe_totalBytes = snapshot_size ws\<rparr>"

section \<open>Leaf checks\<close>

lemma encodeBoundedUtf8_iff [result_simps]:
  "encodeBoundedUtf8 v m ae = Inr b \<longleftrightarrow> (\<exists>s. v = JStr s \<and> bounded_text m ae s \<and> b = utf8_encode s)"
proof (cases v)
  case (JStr s)
  have "length s \<le> length (utf8_encode s)"
    using length_utf8_encode [of s] by simp
  then show ?thesis
    by (auto simp: JStr encodeBoundedUtf8_def bounded_text_def decodeFatalUtf8_def Let_def utf8.faithful_def
        bindE_Inr_iff split: option.splits if_splits)
qed (simp_all add: encodeBoundedUtf8_def)

lemma prepareRequestId_iff [result_simps]:
  "prepareRequestId v = Inr b \<longleftrightarrow>
     (\<exists>s. v = JStr s \<and> bounded_text MAX_REQUEST_ID_BYTES False s \<and> b = utf8_encode s)"
  by (simp add: prepareRequestId_def result_simps)

lemma command_text_bounded: "command_text c \<Longrightarrow> bounded_text MAX_COMMAND_BYTES False c"
  using length_utf8_encode [of c]
  by (simp add: command_text_def canonical_def bounded_text_def limit_defs)

lemma prepareCommand_iff [result_simps]:
  "prepareCommand v = Inr (c, b) \<longleftrightarrow> v = JStr c \<and> command_text c \<and> b = utf8_encode c"
proof
  assume "prepareCommand v = Inr (c, b)"
  then show "v = JStr c \<and> command_text c \<and> b = utf8_encode c"
    by (auto simp: prepareCommand_def result_simps bounded_text_def command_text_def canonicalize_iff
        split: jsval.splits if_splits sum.splits)
next
  assume *: "v = JStr c \<and> command_text c \<and> b = utf8_encode c"
  then have "canonical c" "length c \<le> MAX_CANONICAL_COMMAND_LENGTH"
    by (simp_all add: command_text_def canonical_def)
  with * command_text_bounded [of c] show "prepareCommand v = Inr (c, b)"
    by (auto simp: prepareCommand_def result_simps canonical_fixpoint)
qed

lemma requireSafeUint_iff [result_simps]:
  "requireSafeUint v = Inr n \<longleftrightarrow> v = jnat n \<and> n \<le> MAX_SAFE_INTEGER"
  by (auto simp: requireSafeUint_def safe_nat_Some_iff split: option.splits)

lemma boundaryMarker_iff [result_simps]:
  "boundaryMarker v = Inr m \<longleftrightarrow> (\<exists>b. v = JStr (js (boundary_name b)) \<and> m = boundary_marker b)"
  by (cases "read_boundary v")
     (auto simp: boundaryMarker_def read_boundary_Some_iff [symmetric])

lemma boundaryFromMarker_iff [result_simps]:
  "boundaryFromMarker m off = Inr b \<longleftrightarrow> m = boundary_marker b"
  by (cases b) (auto simp: boundaryFromMarker_def)

lemma addSize_iff [result_simps]:
  "addSize a b m = Inr c \<longleftrightarrow> c = a + b \<and> a + b \<le> m \<and> a + b \<le> MAX_SAFE_INTEGER"
  by (auto simp: addSize_def Let_def)

lemma read_boundary_name [simp]: "read_boundary (JStr (js (boundary_name b))) = Some b"
  by (simp add: read_boundary_Some_iff)

lemma read_rejection_name [simp]: "read_rejection (JStr (js (rejection_name r))) = Some r"
  by (simp add: read_rejection_Some_iff)

section \<open>Results and receipts\<close>

lemma prepareExecuteResult_sound:
  "prepareExecuteResult v = Inr p \<Longrightarrow> valid_result (pr_value p) \<and> p = prepared_result_of (pr_value p)"
  by (auto simp: prepareExecuteResult_def Let_def result_simps valid_result_def prepared_result_of_def
      split: if_splits option.splits)

lemma prepareExecuteResult_complete:
  "valid_result r \<Longrightarrow> prepareExecuteResult (result_js r) = Inr (prepared_result_of r)"
  by (cases "er_status r")
     (auto simp: prepareExecuteResult_def Let_def result_simps valid_result_def prepared_result_of_def
      result_js_def requireObject_def requireExactKeys_def key_defs split: if_splits option.splits)

lemma bounded_text_length: "bounded_text m ae s \<Longrightarrow> length (utf8_encode s) \<le> m"
  by (simp add: bounded_text_def)

lemma valid_receipt_texts:
  assumes "valid_receipt rc"
  shows "length (utf8_encode (rc_requestId rc)) \<le> MAX_REQUEST_ID_BYTES"
    and "length (utf8_encode (rc_command rc)) \<le> MAX_COMMAND_BYTES"
    and "length (utf8_encode (er_requestId (rc_result rc))) \<le> MAX_REQUEST_ID_BYTES"
    and "length (utf8_encode (er_command (rc_result rc))) \<le> MAX_COMMAND_BYTES"
    and "length (utf8_encode (er_output (rc_result rc))) \<le> DORK_CHECKPOINT_MAX_LAST_OUTPUT_BYTES"
  using assms command_text_bounded [of "er_command (rc_result rc)"]
  by (auto simp: valid_receipt_def valid_result_def Let_def dest: bounded_text_length)

lemma receipt_size_bound:
  assumes "valid_receipt rc"
  shows "receipt_size rc \<le> 270000"
  using valid_receipt_texts [OF assms] by (simp add: receipt_size_def limit_defs)

lemma receipt_size_min: "RECEIPT_LENGTH_PREFIX_BYTES + RECEIPT_FIXED_BYTES \<le> receipt_size rc"
  by (simp add: receipt_size_def)

lemma prepareReceipt_sound:
  assumes "prepareReceipt v = Inr p"
  shows "valid_receipt (pc_value p) \<and> p = prepared_receipt_of (pc_value p)"
proof -
  from assms obtain b e c cb res where
    b: "prepareRequestId (getProp v ''requestId'') = Inr b" and
    e: "requireSafeUint (getProp v ''expectedRevision'') = Inr e" and
    c: "prepareCommand (getProp v ''command'') = Inr (c, cb)" and
    res: "prepareExecuteResult (getProp v ''result'') = Inr res" and
    eqs: "getProp v ''requestId'' = JStr (er_requestId (pr_value res))" "c = er_command (pr_value res)"
      "er_status (pr_value res) = Committed \<Longrightarrow> e = er_previousRevision (pr_value res)"
      "er_status (pr_value res) = Rejected StaleRevision \<Longrightarrow> e \<noteq> er_revision (pr_value res)" and
    p: "p = \<lparr>pc_value = \<lparr>rc_requestId = er_requestId (pr_value res), rc_expectedRevision = e,
              rc_command = c, rc_result = pr_value res\<rparr>,
            pc_requestIdBytes = b, pc_commandBytes = cb, pc_result = res,
            pc_payloadBytes = RECEIPT_FIXED_BYTES + length b + length cb + length (pr_requestIdBytes res)
              + length (pr_commandBytes res) + length (pr_outputBytes res),
            pc_encodedBytes = RECEIPT_LENGTH_PREFIX_BYTES + (RECEIPT_FIXED_BYTES + length b + length cb
              + length (pr_requestIdBytes res) + length (pr_commandBytes res) + length (pr_outputBytes res))\<rparr>"
    unfolding prepareReceipt_def Let_def
    by (auto simp: result_simps simp del: prepareRequestId_iff prepareCommand_iff requireSafeUint_iff
        split: if_splits)
  obtain r where r: "valid_result r" "res = prepared_result_of r"
    using prepareExecuteResult_sound [OF res] by blast
  have "pr_value res = r" by (simp add: r prepared_result_of_def)
  with b e c eqs r show ?thesis
    by (auto simp: p result_simps valid_receipt_def prepared_receipt_of_def receipt_size_def
        prepared_result_of_def Let_def limit_defs)
qed

lemma prepareReceipt_complete:
  assumes "valid_receipt rc"
  shows "prepareReceipt (receipt_js rc) = Inr (prepared_receipt_of rc)"
proof -
  obtain r where r: "rc_result rc = r" "valid_result r" "rc_requestId rc = er_requestId r"
    "rc_command rc = er_command r" "rc_expectedRevision rc \<le> MAX_SAFE_INTEGER"
    using assms by (auto simp: valid_receipt_def Let_def)
  let ?i = "utf8_encode (er_requestId r)" and ?c = "utf8_encode (er_command r)"
  have size: "receipt_size rc =
      RECEIPT_LENGTH_PREFIX_BYTES + (RECEIPT_FIXED_BYTES + length ?i + length ?c + length ?i + length ?c
        + length (utf8_encode (er_output r)))"
    by (simp add: receipt_size_def r)
  note bound = receipt_size_bound [OF assms, unfolded size, simplified limit_defs]
  have "prepareRequestId (JStr (er_requestId r)) = Inr ?i"
    "prepareCommand (JStr (er_command r)) = Inr (er_command r, ?c)"
    using r(2) by (simp_all add: result_simps valid_result_def)
  with assms r bound prepareExecuteResult_complete [OF r(2)] show ?thesis
    by (cases rc) (auto simp: prepareReceipt_def receipt_js_def requireObject_def requireExactKeys_def
        key_defs requireSafeUint_def prepared_receipt_of_def prepared_result_of_def valid_receipt_def
        addSize_def receipt_size_def limit_defs MAX_SAFE_INTEGER_def)
qed

lemma mapE_prepareReceipt_sound:
  assumes "mapE prepareReceipt vs = Inr ps"
  shows "list_all valid_receipt (map pc_value ps) \<and> ps = map prepared_receipt_of (map pc_value ps) \<and>
    length vs = length ps"
  using assms unfolding mapE_Inr_iff
proof (induction rule: list_all2_induct)
  case (Cons v vs p ps)
  from prepareReceipt_sound [OF Cons(1)] Cons(3) show ?case by simp
qed simp

lemma mapE_prepareReceipt_complete:
  "list_all valid_receipt rcs \<Longrightarrow>
     mapE prepareReceipt (map receipt_js rcs) = Inr (map prepared_receipt_of rcs)"
  by (induction rcs) (simp_all add: prepareReceipt_complete)

section \<open>The journal\<close>

lemma committed_revisions_simps [simp]:
  "committed_revisions [] = []"
  "committed_revisions (rc # rcs) =
     (if er_status (rc_result rc) = Committed then [er_revision (rc_result rc)] else []) @ committed_revisions rcs"
  by (simp_all add: committed_revisions_def)

definition fits_state :: "nat \<Rightarrow> js \<Rightarrow> boundary \<Rightarrow> execute_result \<Rightarrow> bool" where
  "fits_state revision lastOutput bd r \<longleftrightarrow>
     er_previousRevision r \<le> revision \<and> er_revision r \<le> revision \<and>
     (er_revision r = revision \<longrightarrow> er_boundary r = bd \<and>
        (er_status r = Committed \<longrightarrow> er_output r = lastOutput))"

lemma check_receipts_iff:
  "check_receipts revision lo bd ids commits rcs = Inr cs \<longleftrightarrow>
     cs = rev (committed_revisions rcs) @ commits \<and>
     distinct (map rc_requestId rcs) \<and> set ids \<inter> set (map rc_requestId rcs) = {} \<and>
     (\<forall>rc \<in> set rcs. fits_state revision lo bd (rc_result rc)) \<and>
     distinct (committed_revisions rcs) \<and> set commits \<inter> set (committed_revisions rcs) = {}"
proof (induction rcs arbitrary: ids commits)
  case (Cons rc rcs)
  have step: "check_receipts revision lo bd ids commits (rc # rcs) = Inr cs \<longleftrightarrow>
      rc_requestId rc \<notin> set ids \<and> fits_state revision lo bd (rc_result rc) \<and>
      (er_status (rc_result rc) = Committed \<longrightarrow> er_revision (rc_result rc) \<notin> set commits) \<and>
      check_receipts revision lo bd (rc_requestId rc # ids)
        (if er_status (rc_result rc) = Committed then er_revision (rc_result rc) # commits else commits)
        rcs = Inr cs"
    by (auto simp: Let_def fits_state_def not_less)
  show ?case
    unfolding step Cons.IH by (cases "er_status (rc_result rc) = Committed") auto
qed auto

lemma check_commits_iff:
  "check_commits k revision commits = Inr u \<longleftrightarrow> {k..revision} \<subseteq> set commits"
proof (induction k revision commits rule: check_commits.induct)
  case (1 k revision commits)
  have "k \<le> revision \<Longrightarrow> {k..revision} = insert k {Suc k..revision}"
    by (rule atLeastAtMost_insertL [symmetric])
  with 1 show ?case
    by (subst check_commits.simps) simp
qed

lemma validateReceipts_iff:
  "validateReceiptsRelativeToEnvelope rcs revision lo bd = Inr u \<longleftrightarrow> valid_journal revision lo bd rcs"
  by (auto simp: validateReceiptsRelativeToEnvelope_def result_simps check_receipts_iff check_commits_iff
      valid_journal_def fits_state_def)

lemma sum_sizes_iff:
  "n \<le> MAX_RECEIPT_JOURNAL_BYTES \<Longrightarrow>
   sum_sizes n ns = Inr t \<longleftrightarrow> t = n + sum_list ns \<and> t \<le> MAX_RECEIPT_JOURNAL_BYTES"
proof (induction ns arbitrary: n)
  case (Cons m ns)
  show ?case
  proof (cases "n + m \<le> MAX_RECEIPT_JOURNAL_BYTES")
    case True
    then have "sum_sizes n (m # ns) = sum_sizes (n + m) ns"
      by (simp add: addSize_def limit_defs MAX_SAFE_INTEGER_def)
    with Cons.IH [OF True] show ?thesis by (simp add: add.assoc)
  next
    case False
    then show ?thesis by (auto simp: addSize_def result_simps)
  qed
qed auto

section \<open>Envelopes\<close>

lemma map_pc_encodedBytes:
  "map pc_encodedBytes (map prepared_receipt_of rcs) = map receipt_size rcs"
  "map pc_value (map prepared_receipt_of rcs) = rcs"
  by (simp_all add: prepared_receipt_of_def comp_def)

lemma prepareEnvelope_sound:
  assumes "prepareEnvelope v = Inr p"
  shows "valid_snapshot (pe_value p) \<and> p = prepared_snapshot_of (pe_value p)"
proof -
  obtain inner where inner_eq: "getProp v ''innerCheckpoint'' = JBytes inner"
    using assms by (cases "getProp v ''innerCheckpoint''") (auto simp: prepareEnvelope_def bindE_Inr_iff)
  obtain vs where vs_eq: "getProp v ''receipts'' = JArr vs"
    using assms by (cases "getProp v ''receipts''")
      (auto simp: prepareEnvelope_def inner_eq bindE_Inr_iff split: if_splits)
  from assms obtain revision b lo ps jb where
    "getProp v ''revision'' = jnat revision" and rev: "revision \<le> MAX_SAFE_INTEGER" and
    "getProp v ''boundary'' = JStr (js (boundary_name b))" and
    "getProp v ''lastOutput'' = JStr lo" and
    lo: "bounded_text DORK_CHECKPOINT_MAX_LAST_OUTPUT_BYTES True lo" and
    inner: "DORK_CHECKPOINT_FIXED_HEADER_BYTES \<le> length inner" "length inner \<le> DORK_CHECKPOINT_MAX_TOTAL_BYTES" and
    vs: "length vs \<le> MAX_RECEIPTS" "mapE prepareReceipt vs = Inr ps" and
    jb: "sum_sizes 0 (map pc_encodedBytes ps) = Inr jb" and
    j: "valid_journal revision lo b (map pc_value ps)" and
    p: "p = \<lparr>pe_value = \<lparr>ws_revision = revision, ws_lastOutput = lo, ws_boundary = b,
                         ws_innerCheckpoint = inner, ws_receipts = map pc_value ps\<rparr>,
                       pe_lastOutputBytes = utf8_encode lo, pe_innerCheckpoint = inner,
                       pe_receipts = ps, pe_journalBytes = jb,
                       pe_boundaryMarker = boundary_marker b,
                       pe_totalBytes = FIXED_HEADER_BYTES + FIXED_BODY_BYTES + length (utf8_encode lo)
                         + length inner + jb\<rparr>"
    unfolding prepareEnvelope_def Let_def
    by (auto simp: inner_eq vs_eq result_simps validateReceipts_iff simp del: mapE_Inr_iff split: if_splits)
  obtain rcs where rcs: "ps = map prepared_receipt_of rcs" "list_all valid_receipt rcs" "length rcs \<le> MAX_RECEIPTS"
    using mapE_prepareReceipt_sound [OF vs(2)] vs(1) by (metis length_map)
  from jb have "jb = journal_size rcs \<and> jb \<le> MAX_RECEIPT_JOURNAL_BYTES"
    by (simp add: rcs(1) map_pc_encodedBytes sum_sizes_iff journal_size_def del: map_map)
  with rev lo inner j rcs show ?thesis
    by (simp add: p valid_snapshot_def prepared_snapshot_of_def snapshot_size_def map_pc_encodedBytes
        del: map_map)
qed

lemma prepareEnvelope_complete:
  assumes "valid_snapshot ws"
  shows "prepareEnvelope (snapshot_js ws) = Inr (prepared_snapshot_of ws)"
proof -
  note v = assms [unfolded valid_snapshot_def]
  have leaves: "requireSafeUint (jnat (ws_revision ws)) = Inr (ws_revision ws)"
    "boundaryMarker (JStr (js (boundary_name (ws_boundary ws)))) = Inr (boundary_marker (ws_boundary ws))"
    "encodeBoundedUtf8 (JStr (ws_lastOutput ws)) DORK_CHECKPOINT_MAX_LAST_OUTPUT_BYTES True =
       Inr (utf8_encode (ws_lastOutput ws))"
    "mapE prepareReceipt (map receipt_js (ws_receipts ws)) = Inr (map prepared_receipt_of (ws_receipts ws))"
    using v by (auto simp: result_simps mapE_prepareReceipt_complete simp del: mapE_Inr_iff)
  have sum: "sum_sizes 0 (map pc_encodedBytes (map prepared_receipt_of (ws_receipts ws))) =
      Inr (journal_size (ws_receipts ws))"
    using v unfolding map_pc_encodedBytes by (simp add: sum_sizes_iff journal_size_def)
  have journal: "validateReceiptsRelativeToEnvelope (ws_receipts ws)
      (ws_revision ws) (ws_lastOutput ws) (ws_boundary ws) = Inr ()"
    using v by (simp add: validateReceipts_iff)
  have lo: "length (utf8_encode (ws_lastOutput ws)) \<le> 262144"
    using v by (simp add: bounded_text_def limit_defs)
  have sizes: "addSize (FIXED_HEADER_BYTES + FIXED_BODY_BYTES) (length (utf8_encode (ws_lastOutput ws)))
        MAX_ENGINE_SNAPSHOT_BYTES = Inr (44 + length (utf8_encode (ws_lastOutput ws)))"
    "addSize (44 + length (utf8_encode (ws_lastOutput ws))) (length (ws_innerCheckpoint ws))
        MAX_ENGINE_SNAPSHOT_BYTES = Inr (44 + length (utf8_encode (ws_lastOutput ws)) + length (ws_innerCheckpoint ws))"
    "addSize (44 + length (utf8_encode (ws_lastOutput ws)) + length (ws_innerCheckpoint ws))
        (journal_size (ws_receipts ws)) MAX_ENGINE_SNAPSHOT_BYTES = Inr (snapshot_size ws)"
    using v lo by (simp_all add: addSize_iff snapshot_size_def limit_defs MAX_SAFE_INTEGER_def)
  show ?thesis
    using v unfolding prepareEnvelope_def snapshot_js_def
    by (simp add: requireObject_def requireExactKeys_def key_defs WORKER_SNAPSHOT_SCHEMA_VERSION_def
        leaves sum journal sizes prepared_snapshot_of_def not_less Let_def map_pc_encodedBytes(2) del: map_map)
qed

text \<open>The run-time object determines the value, so acceptance is exactly validity.\<close>

lemma prepareExecuteResult_value:
  "prepareExecuteResult (result_js r) = Inr p \<Longrightarrow> pr_value p = r"
  by (cases r; cases "er_status r")
     (auto simp: prepareExecuteResult_def result_js_def Let_def result_simps split: if_splits option.splits)

lemma prepareReceipt_value: "prepareReceipt (receipt_js rc) = Inr p \<Longrightarrow> pc_value p = rc"
  by (cases rc)
     (auto simp: prepareReceipt_def receipt_js_def Let_def result_simps prepareExecuteResult_value
       simp del: prepareRequestId_iff split: if_splits)

lemma mapE_prepareReceipt_value:
  "mapE prepareReceipt (map receipt_js rcs) = Inr ps \<Longrightarrow> map pc_value ps = rcs"
  by (induction rcs arbitrary: ps) (auto simp: bindE_Inr_iff prepareReceipt_value)

lemma prepareEnvelope_value: "prepareEnvelope (snapshot_js ws) = Inr p \<Longrightarrow> pe_value p = ws"
  by (cases ws)
     (auto simp: prepareEnvelope_def snapshot_js_def Let_def result_simps mapE_prepareReceipt_value
       simp del: mapE_Inr_iff split: if_splits)

lemma prepareEnvelope_snapshot_js:
  "prepareEnvelope (snapshot_js ws) = Inr p \<longleftrightarrow> valid_snapshot ws \<and> p = prepared_snapshot_of ws"
  using prepareEnvelope_complete prepareEnvelope_sound prepareEnvelope_value by blast

lemma prepareReceipt_receipt_js:
  "prepareReceipt (receipt_js rc) = Inr p \<longleftrightarrow> valid_receipt rc \<and> p = prepared_receipt_of rc"
  using prepareReceipt_complete prepareReceipt_sound prepareReceipt_value by blast

lemma measure_receipt:
  "valid_receipt rc \<Longrightarrow> measureWorkerSnapshotReceiptBytes (receipt_js rc) = Inr (receipt_size rc)"
  by (simp add: measureWorkerSnapshotReceiptBytes_def prepareReceipt_complete prepared_receipt_of_def)

lemma measure_journal_fold:
  "list_all valid_receipt rcs \<Longrightarrow> n \<le> MAX_RECEIPT_JOURNAL_BYTES \<Longrightarrow>
   foldl (\<lambda>acc r. bindE acc (\<lambda>sofar. bindE (measureWorkerSnapshotReceiptBytes r) (\<lambda>m.
      addSize sofar m MAX_RECEIPT_JOURNAL_BYTES))) (Inr n) (map receipt_js rcs)
   = sum_sizes n (map receipt_size rcs)"
proof (induction rcs arbitrary: n)
  case (Cons rc rcs)
  have fail: "foldl (\<lambda>acc r. bindE acc (\<lambda>sofar. bindE (measureWorkerSnapshotReceiptBytes r) (\<lambda>m.
      addSize sofar m MAX_RECEIPT_JOURNAL_BYTES))) (Inl e) vs = Inl e" for e vs
    by (induction vs) simp_all
  show ?case
  proof (cases "addSize n (receipt_size rc) MAX_RECEIPT_JOURNAL_BYTES")
    case (Inl e)
    with Cons.prems show ?thesis by (simp add: measure_receipt fail)
  next
    case (Inr t)
    then have "t \<le> MAX_RECEIPT_JOURNAL_BYTES" by (simp add: addSize_iff)
    with Inr Cons show ?thesis by (simp add: measure_receipt)
  qed
qed simp

lemma measure_journal:
  assumes "list_all valid_receipt rcs" "length rcs \<le> MAX_RECEIPTS"
  shows "measureWorkerSnapshotReceiptJournalBytes (JArr (map receipt_js rcs)) = Inr n \<longleftrightarrow>
     n = journal_size rcs \<and> n \<le> MAX_RECEIPT_JOURNAL_BYTES"
  using assms
  by (simp add: measureWorkerSnapshotReceiptJournalBytes_def measure_journal_fold sum_sizes_iff
      journal_size_def not_less)

end
