(* ===== verification/Snapshot_Codec.thy ===== *)
theory Snapshot_Codec
  imports Snapshot_Valid
begin

text \<open>
  The byte codec of \<open>spikes/dork-worker/worker-snapshot-envelope.ts\<close>:
  \<open>encodeWorkerSnapshotEnvelope\<close> and \<open>decodeWorkerSnapshotEnvelope\<close>.  The lemmas show that a
  receipt record is a wire field and that the decoder accepts exactly the one encoding of each
  valid snapshot.
\<close>

section \<open>Writing\<close>

definition magicBytes :: "byte list" where
  "magicBytes = utf8_encode (js ''ZVDORKWS'')"

definition writeReceiptFields :: "prepared_receipt \<Rightarrow> byte list" where
  "writeReceiptFields p =
     put_u16 (length (pc_requestIdBytes p)) @
     put_u16 (length (pc_commandBytes p)) @
     put_u16 (length (pr_requestIdBytes (pc_result p))) @
     put_u16 (length (pr_commandBytes (pc_result p))) @
     put_u32 (length (pr_outputBytes (pc_result p))) @
     put_u64 (rc_expectedRevision (pc_value p)) @
     put_u64 (er_previousRevision (rc_result (pc_value p))) @
     put_u64 (er_revision (rc_result (pc_value p))) @
     put_u8 1 @
     put_u8 (pr_boundaryMarker (pc_result p)) @
     put_u8 (pr_statusMarker (pc_result p)) @
     put_u8 (pr_rejectionMarker (pc_result p)) @
     pc_requestIdBytes p @
     pc_commandBytes p @
     pr_requestIdBytes (pc_result p) @
     pr_commandBytes (pc_result p) @
     pr_outputBytes (pc_result p)"

definition writeReceipt :: "prepared_receipt \<Rightarrow> byte list" where
  "writeReceipt p = put_u32 (pc_payloadBytes p) @ writeReceiptFields p"

definition writeEnvelope :: "prepared_snapshot \<Rightarrow> byte list" where
  "writeEnvelope p =
     magicBytes @
     put_u16 WORKER_SNAPSHOT_SCHEMA_VERSION @
     put_u16 0 @
     put_u32 (pe_totalBytes p) @
     put_u64 (ws_revision (pe_value p)) @
     put_u8 (pe_boundaryMarker p) @
     put_u8 0 @
     put_u16 0 @
     put_u32 (length (pe_lastOutputBytes p)) @
     put_u32 (length (pe_innerCheckpoint p)) @
     put_u16 (length (pe_receipts p)) @
     put_u16 0 @
     put_u32 (pe_journalBytes p) @
     pe_lastOutputBytes p @
     pe_innerCheckpoint p @
     concat (map writeReceipt (pe_receipts p))"

text \<open>
  The writer owns a buffer of \<open>totalBytes\<close> bytes; \<open>finish\<close> throws when the buffer was not
  filled, and a write past its end throws too.  Both are the error branch here.
\<close>

definition encodeWorkerSnapshotEnvelope :: "jsval \<Rightarrow> codec_error + byte list" where
  "encodeWorkerSnapshotEnvelope v =
     bindE (prepareEnvelope v) (\<lambda>p.
       let written = writeEnvelope p in
       if length written \<noteq> pe_totalBytes p then Inl (fail InvalidInput) else Inr written)"

section \<open>Reading\<close>

definition readReservedU8 :: "reader \<Rightarrow> unit parse" where
  "readReservedU8 r = bindE (get_u8 r) (\<lambda>(v, r').
     if v \<noteq> 0 then Inl (fail_at NonzeroReserved (fst r)) else Inr ((), r'))"

definition readReservedU16 :: "reader \<Rightarrow> unit parse" where
  "readReservedU16 r = bindE (get_u16 r) (\<lambda>(v, r').
     if v \<noteq> 0 then Inl (fail_at NonzeroReserved (fst r)) else Inr ((), r'))"

definition readBoundedUtf8 :: "nat \<Rightarrow> nat \<Rightarrow> bool \<Rightarrow> reader \<Rightarrow> js parse" where
  "readBoundedUtf8 byteLength maximumBytes allowEmpty r =
     (if maximumBytes < byteLength then Inl (fail_at LimitExceeded (fst r))
      else if \<not> allowEmpty \<and> byteLength = 0 then Inl (fail_at InvalidValue (fst r))
      else bindE (get_bytes byteLength r) (\<lambda>(bs, r').
             bindE (decodeFatalUtf8 bs) (\<lambda>s. Inr (s, r'))))"

definition assertMagic :: "byte list \<Rightarrow> codec_error + unit" where
  "assertMagic actual = ensure (actual = magicBytes) (fail_at InvalidMagic 0)"

definition decodeStatus :: "nat \<Rightarrow> nat \<Rightarrow> nat \<Rightarrow> codec_error + status" where
  "decodeStatus sm rm off =
     (if sm = 1 then
        (if rm \<noteq> 0 then Inl (fail_at Noncanonical off) else Inr Committed)
      else if sm \<noteq> 2 then Inl (fail_at InvalidValue off)
      else if rm = 1 then Inr (Rejected StaleRevision)
      else if rm = 2 then Inr (Rejected Duplicate)
      else if rm = 3 then Inr (Rejected InvalidCommand)
      else if rm = 4 then Inr (Rejected ReceiptCapacity)
      else Inl (fail_at InvalidValue (off + 1)))"

definition decodeReceipt :: "reader \<Rightarrow> prepared_receipt parse" where
  "decodeReceipt r0 =
     bindE (get_u16 r0) (\<lambda>(requestIdLength, r1).
     bindE (get_u16 r1) (\<lambda>(commandLength, r2).
     bindE (get_u16 r2) (\<lambda>(resultRequestIdLength, r3).
     bindE (get_u16 r3) (\<lambda>(resultCommandLength, r4).
     bindE (get_u32 r4) (\<lambda>(resultOutputLength, r5).
     bindE (safeU64 r5) (\<lambda>(expectedRevision, r6).
     bindE (safeU64 r6) (\<lambda>(previousRevision, r7).
     bindE (safeU64 r7) (\<lambda>(revision, r8).
     bindE (get_u8 r8) (\<lambda>(turnComplete, r9).
     bindE (ensure (turnComplete = 1) (fail_at InvalidValue (fst r8))) (\<lambda>_.
     bindE (get_u8 r9) (\<lambda>(bm, r10).
     bindE (boundaryFromMarker bm (fst r9)) (\<lambda>resultBoundary.
     bindE (get_u8 r10) (\<lambda>(sm, r11).
     bindE (get_u8 r11) (\<lambda>(rm, r12).
     bindE (decodeStatus sm rm (fst r10)) (\<lambda>status.
     bindE (readBoundedUtf8 requestIdLength MAX_REQUEST_ID_BYTES False r12) (\<lambda>(requestId, r13).
     bindE (readBoundedUtf8 commandLength MAX_COMMAND_BYTES False r13) (\<lambda>(command, r14).
     bindE (readBoundedUtf8 resultRequestIdLength MAX_REQUEST_ID_BYTES False r14) (\<lambda>(resultRequestId, r15).
     bindE (readBoundedUtf8 resultCommandLength MAX_COMMAND_BYTES False r15) (\<lambda>(resultCommand, r16).
     bindE (readBoundedUtf8 resultOutputLength DORK_CHECKPOINT_MAX_LAST_OUTPUT_BYTES True r16) (\<lambda>(resultOutput, r17).
     let result = \<lparr>er_requestId = resultRequestId, er_previousRevision = previousRevision,
           er_revision = revision, er_command = resultCommand, er_output = resultOutput,
           er_boundary = resultBoundary, er_status = status\<rparr>
     in bindE (prepareReceipt (receipt_js \<lparr>rc_requestId = requestId,
           rc_expectedRevision = expectedRevision, rc_command = command, rc_result = result\<rparr>))
         (\<lambda>p. Inr (p, r17))))))))))))))))))))))"

definition readReceipt :: "reader \<Rightarrow> prepared_receipt parse" where \<comment> \<open>one turn of the journal loop\<close>
  "readReceipt journal =
     bindE (get_u32 journal) (\<lambda>(recordLength, j1).
     if recordLength < RECEIPT_FIXED_BYTES then Inl (fail_at Truncated (fst journal))
     else
       bindE (get_bytes recordLength j1) (\<lambda>(bytes, j2).
       bindE (decodeReceipt (0, bytes)) (\<lambda>(p, rest).
       if remaining rest \<noteq> 0 then Inl (fail_at TrailingBytes (fst rest))
       else if pc_encodedBytes p \<noteq> RECEIPT_LENGTH_PREFIX_BYTES + recordLength
       then Inl (fail_at Noncanonical (fst journal))
       else Inr (p, j2))))"

definition decodeWorkerSnapshotEnvelope :: "jsval \<Rightarrow> codec_error + worker_snapshot" where
  "decodeWorkerSnapshotEnvelope input =
     (case input of
        JBytes bytes \<Rightarrow>
          if MAX_ENGINE_SNAPSHOT_BYTES < length bytes then Inl (fail LimitExceeded)
          else if length bytes < FIXED_HEADER_BYTES then Inl (fail_at Truncated (length bytes))
          else
            bindE (get_bytes (length magicBytes) (0, bytes)) (\<lambda>(m, r1).
            bindE (assertMagic m) (\<lambda>_.
            bindE (get_u16 r1) (\<lambda>(version, r2).
            bindE (ensure (version = WORKER_SNAPSHOT_SCHEMA_VERSION) (fail_at UnsupportedVersion (fst r1))) (\<lambda>_.
            bindE (readReservedU16 r2) (\<lambda>(_, r3).
            bindE (get_u32 r3) (\<lambda>(declaredTotal, r4).
            bindE (ensure (declaredTotal = length bytes) (fail_at InvalidTotalLength (fst r3))) (\<lambda>_.
            bindE (safeU64 r4) (\<lambda>(revision, r5).
            bindE (get_u8 r5) (\<lambda>(bm, r6).
            bindE (boundaryFromMarker bm (fst r5)) (\<lambda>bd.
            bindE (readReservedU8 r6) (\<lambda>(_, r7).
            bindE (readReservedU16 r7) (\<lambda>(_, r8).
            bindE (get_u32 r8) (\<lambda>(lastOutputLength, r9).
            bindE (get_u32 r9) (\<lambda>(innerCheckpointLength, r10).
            bindE (get_u16 r10) (\<lambda>(receiptCount, r11).
            bindE (readReservedU16 r11) (\<lambda>(_, r12).
            bindE (get_u32 r12) (\<lambda>(journalLength, r13).
            if DORK_CHECKPOINT_MAX_LAST_OUTPUT_BYTES < lastOutputLength
            then Inl (fail_at LimitExceeded (fst r13))
            else if innerCheckpointLength < DORK_CHECKPOINT_FIXED_HEADER_BYTES
            then Inl (fail_at InvalidValue (fst r13))
            else if DORK_CHECKPOINT_MAX_TOTAL_BYTES < innerCheckpointLength
            then Inl (fail_at LimitExceeded (fst r13))
            else if MAX_RECEIPTS < receiptCount then Inl (fail_at LimitExceeded (fst r10))
            else if MAX_RECEIPT_JOURNAL_BYTES < journalLength
            then Inl (fail_at LimitExceeded (fst r13 - 4))
            else
              bindE (readBoundedUtf8 lastOutputLength DORK_CHECKPOINT_MAX_LAST_OUTPUT_BYTES True r13)
                (\<lambda>(lastOutput, r14).
              bindE (get_bytes innerCheckpointLength r14) (\<lambda>(innerCheckpoint, r15).
              bindE (get_bytes journalLength r15) (\<lambda>(journalBytes, r16).
              bindE (get_many receiptCount readReceipt (0, journalBytes)) (\<lambda>(receipts, journal).
              if remaining journal \<noteq> 0 then Inl (fail_at TrailingBytes (fst journal))
              else if remaining r16 \<noteq> 0 then Inl (fail_at TrailingBytes (fst r16))
              else
                bindE (validateReceiptsRelativeToEnvelope (map pc_value receipts) revision lastOutput bd) (\<lambda>_.
                Inr \<lparr>ws_revision = revision, ws_lastOutput = lastOutput, ws_boundary = bd,
                     ws_innerCheckpoint = innerCheckpoint, ws_receipts = map pc_value receipts\<rparr>))))))))))))))))))))))
      | _ \<Rightarrow> Inl (fail InvalidInput))"

section \<open>Fields of the codec\<close>

lemmas wire_iff = u8.get_iff u16.get_iff u32.get_iff u64.get_iff raw.get_iff

text \<open>The sizes and markers that validity keeps inside their fields.\<close>

lemma boundary_marker_less [simp]: "boundary_marker b < 256"
  by (cases b) simp_all

lemma rejection_marker_less [simp]: "rejection_marker r < 256"
  by (cases r) simp_all

lemma decodeFatalUtf8_iff [result_simps]:
  "decodeFatalUtf8 bs = Inr s \<longleftrightarrow> utf8.faithful s \<and> bs = utf8_encode s"
  unfolding utf8.dec_Some_iff [symmetric] by (simp add: decodeFatalUtf8_def split: option.split)

lemma decodeStatus_iff [result_simps]:
  "decodeStatus sm rm off = Inr st \<longleftrightarrow>
     sm = (case st of Committed \<Rightarrow> 1 | Rejected _ \<Rightarrow> 2) \<and>
     rm = (case st of Committed \<Rightarrow> 0 | Rejected r \<Rightarrow> rejection_marker r)"
proof (cases st)
  case (Rejected r)
  then show ?thesis by (cases r) (simp_all add: decodeStatus_def)
qed (simp add: decodeStatus_def)

interpretation reserved8: field_codec "\<lambda>_. put_u8 0" readReservedU8 "\<lambda>_. True"
proof (unfold_locales, goal_cases)
  case (1 off bs x r)
  have "readReservedU8 (off, bs) = Inr (x, r) \<longleftrightarrow> get_u8 (off, bs) = Inr (0, r)"
    by (cases r) (auto simp: readReservedU8_def bindE_Inr_iff split: if_splits)
  then show ?case by (simp add: u8.get_iff)
qed

interpretation reserved16: field_codec "\<lambda>_. put_u16 0" readReservedU16 "\<lambda>_. True"
proof (unfold_locales, goal_cases)
  case (1 off bs x r)
  have "readReservedU16 (off, bs) = Inr (x, r) \<longleftrightarrow> get_u16 (off, bs) = Inr (0, r)"
    by (cases r) (auto simp: readReservedU16_def bindE_Inr_iff split: if_splits)
  then show ?case by (simp add: u16.get_iff)
qed

interpretation text_field: field_codec utf8_encode "readBoundedUtf8 n m ae"
  "\<lambda>s. bounded_text m ae s \<and> length (utf8_encode s) = n" for n m ae
proof (unfold_locales, goal_cases)
  case (1 off bs x r)
  have "x = [] \<longleftrightarrow> utf8_encode x = []"
    using length_utf8_encode [of x] by (metis le_zero_eq length_0_conv mult_0_right)
  then show ?case
    by (cases r) (auto simp: readBoundedUtf8_def bounded_text_def result_simps wire_iff not_less
        split_paired_Ex split: if_splits)
qed

section \<open>Receipt records\<close>

lemma receipt_fields_of:
  "writeReceiptFields (prepared_receipt_of rc) =
     put_u16 (length (utf8_encode (rc_requestId rc))) @
     put_u16 (length (utf8_encode (rc_command rc))) @
     put_u16 (length (utf8_encode (er_requestId (rc_result rc)))) @
     put_u16 (length (utf8_encode (er_command (rc_result rc)))) @
     put_u32 (length (utf8_encode (er_output (rc_result rc)))) @
     put_u64 (rc_expectedRevision rc) @
     put_u64 (er_previousRevision (rc_result rc)) @
     put_u64 (er_revision (rc_result rc)) @
     put_u8 1 @
     put_u8 (boundary_marker (er_boundary (rc_result rc))) @
     put_u8 (case er_status (rc_result rc) of Committed \<Rightarrow> 1 | Rejected _ \<Rightarrow> 2) @
     put_u8 (case er_status (rc_result rc) of Committed \<Rightarrow> 0 | Rejected r \<Rightarrow> rejection_marker r) @
     utf8_encode (rc_requestId rc) @
     utf8_encode (rc_command rc) @
     utf8_encode (er_requestId (rc_result rc)) @
     utf8_encode (er_command (rc_result rc)) @
     utf8_encode (er_output (rc_result rc))"
  by (simp add: writeReceiptFields_def prepared_receipt_of_def prepared_result_of_def)

lemma length_receipt_fields:
  "length (writeReceiptFields (prepared_receipt_of rc)) = receipt_size rc - RECEIPT_LENGTH_PREFIX_BYTES"
  by (simp add: receipt_fields_of receipt_size_def limit_defs)

lemma decodeReceipt_sound:
  assumes "decodeReceipt (off, bs) = Inr (p, r)"
  shows "\<exists>rc. valid_receipt rc \<and> p = prepared_receipt_of rc \<and>
    bs = writeReceiptFields p @ snd r \<and> fst r = off + length (writeReceiptFields p)"
proof -
  obtain o' bs' where r: "r = (o', bs')" by fastforce
  from assms show ?thesis
    unfolding decodeReceipt_def Let_def r
    by (auto simp: bindE_Inr_iff ensure_Inr_iff wire_iff text_field.get_iff boundaryFromMarker_iff
        decodeStatus_iff prepareReceipt_receipt_js receipt_fields_of split_paired_Ex split: prod.splits)
qed

lemma valid_receipt_fields:
  assumes "valid_receipt rc"
  shows "bounded_text MAX_REQUEST_ID_BYTES False (rc_requestId rc)"
    and "bounded_text MAX_COMMAND_BYTES False (rc_command rc)"
    and "bounded_text MAX_REQUEST_ID_BYTES False (er_requestId (rc_result rc))"
    and "bounded_text MAX_COMMAND_BYTES False (er_command (rc_result rc))"
    and "bounded_text DORK_CHECKPOINT_MAX_LAST_OUTPUT_BYTES True (er_output (rc_result rc))"
    and "rc_expectedRevision rc \<le> MAX_SAFE_INTEGER"
    and "er_previousRevision (rc_result rc) \<le> MAX_SAFE_INTEGER"
    and "er_revision (rc_result rc) \<le> MAX_SAFE_INTEGER"
  using assms
  by (auto simp: valid_receipt_def valid_result_def Let_def intro: command_text_bounded split: if_splits)

lemma decodeReceipt_complete:
  assumes "valid_receipt rc"
  shows "decodeReceipt (off, writeReceiptFields (prepared_receipt_of rc) @ rest) =
    Inr (prepared_receipt_of rc, (off + length (writeReceiptFields (prepared_receipt_of rc)), rest))"
proof -
  note texts = valid_receipt_texts [OF assms, simplified limit_defs, simplified]
  have len: "length (utf8_encode (rc_requestId rc)) < 65536" "length (utf8_encode (rc_command rc)) < 65536"
    "length (utf8_encode (er_requestId (rc_result rc))) < 65536"
    "length (utf8_encode (er_command (rc_result rc))) < 65536"
    "length (utf8_encode (er_output (rc_result rc))) < 4294967296"
    using texts by simp_all
  have status: "decodeStatus (case er_status r of Committed \<Rightarrow> 1 | Rejected _ \<Rightarrow> 2)
      (case er_status r of Committed \<Rightarrow> 0 | Rejected rj \<Rightarrow> rejection_marker rj) k = Inr (er_status r)" for r k
    by (simp add: decodeStatus_iff)
  have bd: "boundaryFromMarker (boundary_marker b) k = Inr b" for b k
    by (simp add: boundaryFromMarker_iff)
  have markers: "(case er_status r of Committed \<Rightarrow> 1 | Rejected _ \<Rightarrow> 2) < (256 :: nat)"
    "(case er_status r of Committed \<Rightarrow> 0 | Rejected rj \<Rightarrow> rejection_marker rj) < 256" for r
    by (simp_all split: status.split)
  have rebuild: "\<lparr>rc_requestId = rc_requestId rc, rc_expectedRevision = rc_expectedRevision rc,
      rc_command = rc_command rc, rc_result = \<lparr>er_requestId = er_requestId (rc_result rc),
        er_previousRevision = er_previousRevision (rc_result rc), er_revision = er_revision (rc_result rc),
        er_command = er_command (rc_result rc), er_output = er_output (rc_result rc),
        er_boundary = er_boundary (rc_result rc), er_status = er_status (rc_result rc)\<rparr>\<rparr> = rc"
    by simp
  show ?thesis
    unfolding receipt_fields_of append_assoc
    by (simp add: decodeReceipt_def rebuild add.assoc u16.get_put u32.get_put u64.get_put u8.get_put len
        valid_receipt_fields [OF assms] status bd markers text_field.get_put prepareReceipt_complete assms)
qed

interpretation receipt_fields: field_codec writeReceiptFields decodeReceipt
  "\<lambda>p. \<exists>rc. valid_receipt rc \<and> p = prepared_receipt_of rc"
proof (unfold_locales, goal_cases)
  case (1 off bs x r)
  show ?case
    using decodeReceipt_sound [of off bs x r] decodeReceipt_complete [of _ off "snd r"]
    by (cases r) auto
qed

interpretation receipt_record: field_codec writeReceipt readReceipt
  "\<lambda>p. \<exists>rc. valid_receipt rc \<and> p = prepared_receipt_of rc"
proof (unfold_locales, goal_cases)
  case (1 off bs x r)
  have size: "RECEIPT_FIXED_BYTES \<le> length (writeReceiptFields x)"
    "pc_payloadBytes x = length (writeReceiptFields x)" "length (writeReceiptFields x) < 4294967296"
    "pc_encodedBytes x = RECEIPT_LENGTH_PREFIX_BYTES + length (writeReceiptFields x)"
    if "valid_receipt rc" "x = prepared_receipt_of rc" for rc
    using receipt_size_bound [OF that(1)] receipt_size_min [of rc]
    by (simp_all add: that(2) length_receipt_fields) (simp_all add: prepared_receipt_of_def limit_defs)
  show ?case
  proof
    assume "readReceipt (off, bs) = Inr (x, r)"
    then obtain n where "pc_encodedBytes x = RECEIPT_LENGTH_PREFIX_BYTES + n" "n = length (writeReceiptFields x)"
      "\<exists>rc. valid_receipt rc \<and> x = prepared_receipt_of rc"
      "bs = put_u32 n @ writeReceiptFields x @ snd r" "fst r = off + 4 + n"
      by (cases r) (auto simp: readReceipt_def remaining_def bindE_Inr_iff wire_iff receipt_fields.get_iff
          split: if_splits)
    with size show "(\<exists>rc. valid_receipt rc \<and> x = prepared_receipt_of rc) \<and>
        bs = writeReceipt x @ snd r \<and> fst r = off + length (writeReceipt x)"
      by (auto simp: writeReceipt_def)
  next
    assume *: "(\<exists>rc. valid_receipt rc \<and> x = prepared_receipt_of rc) \<and>
        bs = writeReceipt x @ snd r \<and> fst r = off + length (writeReceipt x)"
    then obtain rc where "valid_receipt rc" "x = prepared_receipt_of rc" by blast
    note size = size [OF this]
    from * have "decodeReceipt (0, writeReceiptFields x) = Inr (x, (length (writeReceiptFields x), []))"
      using receipt_fields.get_put [of x 0 "[]"] by simp
    with * size show "readReceipt (off, bs) = Inr (x, r)"
      by (cases r) (simp add: readReceipt_def writeReceipt_def u32.get_put raw.get_put remaining_def)
  qed
qed

section \<open>Envelopes\<close>

definition snapshot_wire :: "worker_snapshot \<Rightarrow> byte list" where
  "snapshot_wire ws = writeEnvelope (prepared_snapshot_of ws)"

lemma length_writeReceipt: "length (writeReceipt (prepared_receipt_of rc)) = receipt_size rc"
  by (simp add: writeReceipt_def length_receipt_fields) (simp add: receipt_size_def limit_defs)

lemma length_journal: "length (concat (map writeReceipt (map prepared_receipt_of rcs))) = journal_size rcs"
  by (simp add: journal_size_def length_concat comp_def length_writeReceipt)

lemma length_magicBytes [simp]: "length magicBytes = 8"
  by (simp add: magicBytes_def) code_simp

lemma length_snapshot_wire: "length (snapshot_wire ws) = snapshot_size ws"
  using length_journal [of "ws_receipts ws"]
  by (simp add: snapshot_wire_def writeEnvelope_def prepared_snapshot_of_def snapshot_size_def limit_defs)

lemma valid_snapshot_size:
  "valid_snapshot ws \<Longrightarrow> snapshot_size ws \<le> 2359340"
  by (simp add: valid_snapshot_def snapshot_size_def bounded_text_def limit_defs)

lemma journal_iff:
  "get_many n readReceipt (off, bs) = Inr (ps, r) \<longleftrightarrow>
     (\<exists>rcs. ps = map prepared_receipt_of rcs \<and> length rcs = n \<and> list_all valid_receipt rcs \<and>
       bs = concat (map writeReceipt ps) @ snd r \<and> fst r = off + length (concat (map writeReceipt ps)))"
proof -
  have "list_all (\<lambda>p. \<exists>rc. valid_receipt rc \<and> p = prepared_receipt_of rc) ps \<longleftrightarrow>
      (\<exists>rcs. ps = map prepared_receipt_of rcs \<and> list_all valid_receipt rcs)"
  proof (induction ps)
    case (Cons p ps)
    show ?case
    proof
      assume "list_all (\<lambda>p. \<exists>rc. valid_receipt rc \<and> p = prepared_receipt_of rc) (p # ps)"
      with Cons.IH obtain rc rcs where "p # ps = map prepared_receipt_of (rc # rcs)" "valid_receipt rc"
        "list_all valid_receipt rcs" by auto
      then show "\<exists>rcs. p # ps = map prepared_receipt_of rcs \<and> list_all valid_receipt rcs"
        by (intro exI [of _ "rc # rcs"]) simp
    qed (use Cons.IH in auto)
  qed simp
  then show ?thesis
    unfolding receipt_record.get_many_iff by auto
qed

text \<open>The bytes after the length field of the header.\<close>

lemma decode_sound:
  assumes "decodeWorkerSnapshotEnvelope v = Inr ws"
  shows "valid_snapshot ws \<and> v = JBytes (snapshot_wire ws)"
proof -
  obtain bs where v: "v = JBytes bs"
    using assms by (cases v) (simp_all add: decodeWorkerSnapshotEnvelope_def)
  define N where "N = length bs"
  from assms obtain revision bd lo inner rcs where
    bs: "bs = magicBytes @ put_u16 WORKER_SNAPSHOT_SCHEMA_VERSION @ put_u16 0 @ put_u32 N @
        put_u64 revision @ put_u8 (boundary_marker bd) @ put_u8 0 @ put_u16 0 @
        put_u32 (length (utf8_encode lo)) @ put_u32 (length inner) @ put_u16 (length rcs) @ put_u16 0 @
        put_u32 (length (concat (map writeReceipt (map prepared_receipt_of rcs)))) @ utf8_encode lo @ inner @
        concat (map writeReceipt (map prepared_receipt_of rcs))" and
    "revision \<le> MAX_SAFE_INTEGER" "bounded_text DORK_CHECKPOINT_MAX_LAST_OUTPUT_BYTES True lo"
    "DORK_CHECKPOINT_FIXED_HEADER_BYTES \<le> length inner" "length inner \<le> DORK_CHECKPOINT_MAX_TOTAL_BYTES"
    "length rcs \<le> MAX_RECEIPTS" "list_all valid_receipt rcs"
    "length (concat (map writeReceipt (map prepared_receipt_of rcs))) \<le> MAX_RECEIPT_JOURNAL_BYTES"
    "valid_journal revision lo bd (map pc_value (map prepared_receipt_of rcs))" and
    ws: "ws = \<lparr>ws_revision = revision, ws_lastOutput = lo, ws_boundary = bd,
          ws_innerCheckpoint = inner, ws_receipts = map pc_value (map prepared_receipt_of rcs)\<rparr>"
    unfolding v decodeWorkerSnapshotEnvelope_def jsval.case N_def [symmetric]
    by (auto simp: bindE_Inr_iff ensure_Inr_iff wire_iff text_field.get_iff boundaryFromMarker_iff
        assertMagic_def reserved8.get_iff reserved16.get_iff journal_iff validateReceipts_iff remaining_def
        not_less simp del: map_map split: if_splits)
  then have valid: "valid_snapshot ws"
    unfolding length_journal map_pc_encodedBytes by (simp add: valid_snapshot_def)
  have "N = snapshot_size ws"
    unfolding N_def using arg_cong [OF bs, of length]
    by (simp add: snapshot_size_def ws map_pc_encodedBytes length_journal limit_defs del: map_map)
  with bs have "bs = snapshot_wire ws"
    by (simp add: snapshot_wire_def writeEnvelope_def prepared_snapshot_of_def ws map_pc_encodedBytes
        length_journal del: map_map)
  with valid v show ?thesis by simp
qed

lemma decode_complete:
  assumes "valid_snapshot ws"
  shows "decodeWorkerSnapshotEnvelope (JBytes (snapshot_wire ws)) = Inr ws"
proof -
  note v = assms [unfolded valid_snapshot_def]
  let ?J = "concat (map writeReceipt (map prepared_receipt_of (ws_receipts ws)))"
  define N where "N = snapshot_size ws"
  have wire: "snapshot_wire ws = magicBytes @ put_u16 WORKER_SNAPSHOT_SCHEMA_VERSION @ put_u16 0 @ put_u32 N @
        put_u64 (ws_revision ws) @ put_u8 (boundary_marker (ws_boundary ws)) @ put_u8 0 @ put_u16 0 @
        put_u32 (length (utf8_encode (ws_lastOutput ws))) @ put_u32 (length (ws_innerCheckpoint ws)) @
        put_u16 (length (ws_receipts ws)) @ put_u16 0 @ put_u32 (journal_size (ws_receipts ws)) @
        utf8_encode (ws_lastOutput ws) @ ws_innerCheckpoint ws @ ?J"
    by (simp add: snapshot_wire_def writeEnvelope_def prepared_snapshot_of_def N_def)
  have N: "FIXED_HEADER_BYTES \<le> N" "N \<le> MAX_ENGINE_SNAPSHOT_BYTES" "N < 4294967296"
    using valid_snapshot_size [OF assms] by (simp_all add: N_def snapshot_size_def limit_defs)
  have len: "length (utf8_encode (ws_lastOutput ws)) < 4294967296" "length (ws_innerCheckpoint ws) < 4294967296"
    "length (ws_receipts ws) < 65536" "journal_size (ws_receipts ws) < 4294967296"
    "length (utf8_encode (ws_lastOutput ws)) \<le> DORK_CHECKPOINT_MAX_LAST_OUTPUT_BYTES"
    using v by (simp_all add: bounded_text_def limit_defs)
  have journal: "get_many (length (ws_receipts ws)) readReceipt (0, ?J) =
      Inr (map prepared_receipt_of (ws_receipts ws), (length ?J, []))"
    using v by (simp add: journal_iff del: map_map) blast
  have magic: "get_bytes (length magicBytes) (k, magicBytes @ rest) = Inr (magicBytes, (k + length magicBytes, rest))"
    "get_bytes (length (ws_innerCheckpoint ws)) (k, ws_innerCheckpoint ws @ rest) =
       Inr (ws_innerCheckpoint ws, (k + length (ws_innerCheckpoint ws), rest))"
    "get_bytes (journal_size (ws_receipts ws)) (k, ?J) = Inr (?J, (k + journal_size (ws_receipts ws), []))" for k rest
    by (simp_all add: raw.get_iff length_journal del: map_map)
  have total: "length (snapshot_wire ws) = N" by (simp add: N_def length_snapshot_wire)
  have bd: "boundaryFromMarker (boundary_marker b) k = Inr b" for b k
    by (simp add: boundaryFromMarker_iff)
  have J: "validateReceiptsRelativeToEnvelope (ws_receipts ws) (ws_revision ws) (ws_lastOutput ws) (ws_boundary ws)
      = Inr ()"
    using v by (simp add: validateReceipts_iff)
  have reserved: "readReservedU8 (k, put_u8 0 @ rest) = Inr ((), (k + 1, rest))"
    "readReservedU16 (k, put_u16 0 @ rest) = Inr ((), (k + 2, rest))" for k rest
    by (simp_all add: reserved8.get_iff reserved16.get_iff)
  have v': "WORKER_SNAPSHOT_SCHEMA_VERSION < 65536" by (simp add: limit_defs)
  show ?thesis
    unfolding decodeWorkerSnapshotEnvelope_def jsval.case total
    unfolding wire
    using N v
    by (simp add: u16.get_put u32.get_put u64.get_put u8.get_put N(3) len v v' bd reserved magic journal
        assertMagic_def text_field.get_put remaining_def not_less J map_pc_encodedBytes(2)
        del: map_map length_magicBytes)
qed

lemma decode_iff:
  "decodeWorkerSnapshotEnvelope v = Inr ws \<longleftrightarrow> valid_snapshot ws \<and> v = JBytes (snapshot_wire ws)"
  using decode_sound decode_complete by blast

lemma encode_iff:
  "encodeWorkerSnapshotEnvelope (snapshot_js ws) = Inr bs \<longleftrightarrow> valid_snapshot ws \<and> bs = snapshot_wire ws"
  by (auto simp: encodeWorkerSnapshotEnvelope_def bindE_Inr_iff prepareEnvelope_snapshot_js Let_def
      snapshot_wire_def [symmetric] length_snapshot_wire)
     (simp add: prepared_snapshot_of_def)

lemma encode_sound:
  assumes "encodeWorkerSnapshotEnvelope v = Inr bs"
  shows "\<exists>ws. valid_snapshot ws \<and> bs = snapshot_wire ws"
  using assms prepareEnvelope_sound
  by (fastforce simp: encodeWorkerSnapshotEnvelope_def bindE_Inr_iff Let_def snapshot_wire_def split: if_splits)

end
