(* ===== verification/Snapshot_Properties.thy ===== *)
theory Snapshot_Properties
  imports Snapshot_Codec
begin

text \<open>
  The properties of the worker snapshot codec, with a snapshot of one committed turn as witness.
\<close>

section \<open>A concrete snapshot\<close>

definition sample_receipt :: receipt where
  "sample_receipt = \<lparr>rc_requestId = js ''r1'', rc_expectedRevision = 0, rc_command = js ''look'',
     rc_result = \<lparr>er_requestId = js ''r1'', er_previousRevision = 0, er_revision = 1, er_command = js ''look'',
       er_output = js ''Taken.'', er_boundary = InputRequested, er_status = Committed\<rparr>\<rparr>"

definition sample_snapshot :: worker_snapshot where
  "sample_snapshot = \<lparr>ws_revision = 1, ws_lastOutput = js ''Taken.'', ws_boundary = InputRequested,
     ws_innerCheckpoint = replicate 16 0, ws_receipts = [sample_receipt]\<rparr>"

lemma sample_texts: "well_formed (js ''r1'')" "well_formed (js ''look'')" "well_formed (js ''Taken.'')"
  "canonical (js ''look'')" "length (utf8_encode (js ''r1'')) = 2" "length (utf8_encode (js ''look'')) = 4"
  "length (utf8_encode (js ''Taken.'')) = 6"
  by code_simp+

lemma sample_valid: "valid_snapshot sample_snapshot"
  by (simp add: sample_snapshot_def sample_receipt_def valid_snapshot_def valid_receipt_def valid_result_def
      valid_journal_def bounded_text_def command_text_def utf8_faithful_iff sample_texts journal_size_def
      receipt_size_def limit_defs MAX_SAFE_INTEGER_def)

section \<open>Properties\<close>

text \<open>C6. The encoding is canonical and lossless: the decoder returns a snapshot exactly for the
  byte array the encoder produces for it, so both round trips hold and no other bytes are accepted.\<close>
theorem decode_inverts_encode:
  "decodeWorkerSnapshotEnvelope v = Inr ws \<longleftrightarrow>
     (\<exists>bs. v = JBytes bs \<and> encodeWorkerSnapshotEnvelope (snapshot_js ws) = Inr bs)"
  by (auto simp: decode_iff encode_iff)

text \<open>C25. The encoder succeeds on a snapshot object exactly when the snapshot is valid: the texts are
  bounded and well formed, the sizes are within their limits, every receipt is consistent, request ids
  and committed revisions are unique, and every revision up to the current one is committed.\<close>
theorem encode_succeeds_iff_valid:
  "(\<exists>bs. encodeWorkerSnapshotEnvelope (snapshot_js ws) = Inr bs) \<longleftrightarrow> valid_snapshot ws"
  by (simp add: encode_iff)

text \<open>Whatever untyped value the encoder accepts, its bytes decode to a snapshot that encodes to
  the same bytes, and they fit the transport limit.\<close>
theorem encoded_bytes_decode:
  assumes "encodeWorkerSnapshotEnvelope v = Inr bs"
  shows "\<exists>ws. decodeWorkerSnapshotEnvelope (JBytes bs) = Inr ws \<and>
    encodeWorkerSnapshotEnvelope (snapshot_js ws) = Inr bs \<and> length bs \<le> MAX_ENGINE_SNAPSHOT_BYTES"
  using encode_sound [OF assms] valid_snapshot_size
  by (fastforce simp: decode_iff encode_iff length_snapshot_wire limit_defs)

theorem encoded_bytes_decode_witness:
  "\<exists>ws. decodeWorkerSnapshotEnvelope (JBytes (snapshot_wire sample_snapshot)) = Inr ws"
  using encoded_bytes_decode [of "snapshot_js sample_snapshot" "snapshot_wire sample_snapshot"] sample_valid
  by (auto simp: encode_iff)

text \<open>A decoded snapshot carries exactly one committed receipt for each revision from 1 to its
  own, so no snapshot of a game past revision 32 exists.\<close>
theorem decoded_revisions_are_journaled:
  assumes "decodeWorkerSnapshotEnvelope v = Inr ws"
  shows "distinct (committed_revisions (ws_receipts ws)) \<and>
    set (committed_revisions (ws_receipts ws)) = {1..ws_revision ws} \<and> ws_revision ws \<le> MAX_RECEIPTS"
proof -
  have v: "valid_snapshot ws" using assms by (simp add: decode_iff)
  then have j: "distinct (committed_revisions (ws_receipts ws))"
    "{1..ws_revision ws} \<subseteq> set (committed_revisions (ws_receipts ws))"
    by (auto simp: valid_snapshot_def valid_journal_def)
  have "n \<in> {1..ws_revision ws}" if "n \<in> set (committed_revisions (ws_receipts ws))" for n
    using that v by (fastforce simp: committed_revisions_def valid_snapshot_def valid_journal_def list_all_iff
        valid_receipt_def valid_result_def Let_def)
  with j have eq: "set (committed_revisions (ws_receipts ws)) = {1..ws_revision ws}" by blast
  have "ws_revision ws = length (committed_revisions (ws_receipts ws))"
    using distinct_card [OF j(1)] eq by simp
  also have "\<dots> \<le> length (ws_receipts ws)"
    by (simp add: committed_revisions_def)
  also have "\<dots> \<le> MAX_RECEIPTS"
    using v by (simp add: valid_snapshot_def)
  finally show ?thesis using j(1) eq by simp
qed

theorem decoded_revisions_are_journaled_witness:
  "set (committed_revisions (ws_receipts sample_snapshot)) = {1..1}"
  using decoded_revisions_are_journaled [OF decode_complete [OF sample_valid]]
  by (simp add: sample_snapshot_def)

text \<open>The measuring functions the runtime budgets with are exact: an encoded snapshot is its fixed
  fields, its last output, its inner checkpoint and as many bytes as the journal was measured at.\<close>
theorem measured_size_is_encoded_size:
  assumes "encodeWorkerSnapshotEnvelope (snapshot_js ws) = Inr bs"
  shows "\<exists>n. measureWorkerSnapshotReceiptJournalBytes (JArr (map receipt_js (ws_receipts ws))) = Inr n \<and>
    length bs = FIXED_HEADER_BYTES + FIXED_BODY_BYTES + length (utf8_encode (ws_lastOutput ws)) +
      length (ws_innerCheckpoint ws) + n"
  using assms by (auto simp: encode_iff valid_snapshot_def measure_journal length_snapshot_wire snapshot_size_def)

theorem measured_size_is_encoded_size_witness:
  "\<exists>n. measureWorkerSnapshotReceiptJournalBytes (JArr [receipt_js sample_receipt]) = Inr n"
  using measured_size_is_encoded_size [of sample_snapshot "snapshot_wire sample_snapshot"] sample_valid
  by (auto simp: encode_iff sample_snapshot_def)

end
