(* ===== verification/Checkpoint_Data.thy ===== *)
theory Checkpoint_Data
  imports Snapshot_Codec
begin

text \<open>
  The data of \<open>spikes/dork-worker/checkpoint-envelope.ts\<close>: its limits, the checkpoint of a
  paused Z-machine as records, the checks on untyped numbers, lowercase digests, and 16-bit
  signed words in memory and on the wire.
\<close>

section \<open>Limits and identities\<close>

definition DORK_CHECKPOINT_SCHEMA_VERSION :: nat where "DORK_CHECKPOINT_SCHEMA_VERSION = 2"
definition DORK_CHECKPOINT_RUNTIME_ID :: js where
  "DORK_CHECKPOINT_RUNTIME_ID = js (''dork-e5fce5ca678660611b5d2daa94bbffdb3a84e622-fork-'' @
     ''a0a31ec97a78771229615c4311ea4209813e29a65df421f0e020b161447f1605'')"
definition DORK_CHECKPOINT_ADAPTER_ID :: js where
  "DORK_CHECKPOINT_ADAPTER_ID = js ''zork-voice-dork-checkpoint-v2''"
definition DORK_CHECKPOINT_MAX_STORY_ID_BYTES :: nat where "DORK_CHECKPOINT_MAX_STORY_ID_BYTES = 128"
definition DORK_CHECKPOINT_MAX_CALL_FRAMES :: nat where "DORK_CHECKPOINT_MAX_CALL_FRAMES = 1024"
definition DORK_CHECKPOINT_MAX_TOTAL_STACK_WORDS :: nat where
  "DORK_CHECKPOINT_MAX_TOTAL_STACK_WORDS = 65535"
definition DORK_CHECKPOINT_MAX_FRAME_STACK_WORDS :: nat where
  "DORK_CHECKPOINT_MAX_FRAME_STACK_WORDS = 4096"
definition DORK_CHECKPOINT_MAX_LOCALS :: nat where "DORK_CHECKPOINT_MAX_LOCALS = 15"
definition DORK_CHECKPOINT_MAX_STREAM_DEPTH :: nat where "DORK_CHECKPOINT_MAX_STREAM_DEPTH = 16"
definition UINT16_MAX :: nat where "UINT16_MAX = 0xffff"
definition UINT32_MAX_checkpoint :: nat where "UINT32_MAX_checkpoint = 0xffffffff"
definition INT16_MIN :: int where "INT16_MIN = - 0x8000"
definition INT16_MAX :: int where "INT16_MAX = 0x7fff"
definition MAX_IDENTITY_BYTES :: nat where "MAX_IDENTITY_BYTES = 128"
definition SERIAL_BYTES :: nat where "SERIAL_BYTES = 6"
definition MACHINE_SCHEMA_VERSION :: nat where "MACHINE_SCHEMA_VERSION = 2"
definition PENDING_READ_LINE :: nat where "PENDING_READ_LINE = 1"

lemmas checkpoint_limit_defs = DORK_CHECKPOINT_SCHEMA_VERSION_def
  DORK_CHECKPOINT_FIXED_HEADER_BYTES_def DORK_CHECKPOINT_MAX_TOTAL_BYTES_def
  DORK_CHECKPOINT_MAX_LAST_OUTPUT_BYTES_def DORK_CHECKPOINT_MAX_STORY_ID_BYTES_def
  DORK_CHECKPOINT_MAX_CALL_FRAMES_def DORK_CHECKPOINT_MAX_TOTAL_STACK_WORDS_def
  DORK_CHECKPOINT_MAX_FRAME_STACK_WORDS_def DORK_CHECKPOINT_MAX_LOCALS_def
  DORK_CHECKPOINT_MAX_STREAM_DEPTH_def UINT16_MAX_def UINT32_MAX_checkpoint_def INT16_MIN_def INT16_MAX_def
  MAX_IDENTITY_BYTES_def SERIAL_BYTES_def MACHINE_SCHEMA_VERSION_def PENDING_READ_LINE_def

section \<open>Checkpoints\<close>

text \<open>Literal fields (\<open>schemaVersion\<close>, \<open>runtimeId\<close>, \<open>adapterId\<close>, \<open>version\<close>, \<open>kind\<close>) are not stored.\<close>

record cp_story =
  sy_byteSwapped :: bool
  sy_release :: nat
  sy_serial :: js
  sy_checksum :: nat
  sy_byteLength :: nat
  sy_staticMemoryBase :: nat

record cp_config =
  cf_isTandy :: bool
  cf_strict :: bool
  cf_maxInstructions :: "nat option"
  cf_maxInstructionsPerTurn :: nat
  cf_ioCapabilities :: nat

record cp_frame =
  fr_pc :: nat
  fr_local :: "int list"
  fr_ds :: "int list"
  fr_discardResult :: bool
  fr_argCount :: nat

record cp_stream =
  st_base :: nat
  st_cursor :: nat

record cp_pending =
  pd_instructionPc :: nat
  pd_continuationPc :: nat
  pd_textBuffer :: nat
  pd_parseBuffer :: nat
  pd_maxLength :: nat

record cp_machine =
  ma_story :: cp_story
  ma_config :: cp_config
  ma_dynamicMemory :: "byte list"
  ma_dataStack :: "int list"
  ma_callStack :: "cp_frame list"
  ma_rngMode :: nat
  ma_gameplayState :: nat
  ma_reseedState :: nat
  ma_savedFlags :: int
  ma_stream3 :: "cp_stream list"
  ma_instructionCount :: nat
  ma_turnInstructionCount :: nat
  ma_pendingRead :: cp_pending

record dork_checkpoint =
  dc_storyId :: js
  dc_artifactSha256 :: js
  dc_revision :: nat
  dc_lastOutput :: js
  dc_machine :: cp_machine

section \<open>Checks on untyped values\<close>

definition jint :: "int \<Rightarrow> jsval" where
  "jint n = JNum (Fin (of_int n))"

fun safe_int :: "jsval \<Rightarrow> int option" where \<comment> \<open>\<open>Number.isSafeInteger\<close>\<close>
  "safe_int (JNum (Fin q)) =
     (let (n, d) = quotient_of q
      in if d = 1 \<and> \<bar>n\<bar> \<le> int MAX_SAFE_INTEGER then Some n else None)"
| "safe_int _ = None"

definition requireIntegerRange :: "jsval \<Rightarrow> int \<Rightarrow> int \<Rightarrow> codec_error + int" where
  "requireIntegerRange v minimum maximum =
     (case safe_int v of
        Some n \<Rightarrow> if n < minimum \<or> maximum < n then Inl (fail InvalidValue) else Inr n
      | None \<Rightarrow> Inl (fail InvalidValue))"

definition requireUintRange :: "jsval \<Rightarrow> nat \<Rightarrow> nat \<Rightarrow> codec_error + nat" where
  \<comment> \<open>the same check where the minimum is not negative\<close>
  "requireUintRange v minimum maximum =
     bindE (requireIntegerRange v (int minimum) (int maximum)) (\<lambda>n. Inr (nat n))"

definition requireU16 :: "jsval \<Rightarrow> codec_error + nat" where
  "requireU16 v = requireUintRange v 0 UINT16_MAX"
definition requireU32 :: "jsval \<Rightarrow> codec_error + nat" where
  "requireU32 v = requireUintRange v 0 UINT32_MAX_checkpoint"
definition requireSafe :: "jsval \<Rightarrow> codec_error + nat" where
  "requireSafe v = requireUintRange v 0 MAX_SAFE_INTEGER"
definition requirePositiveSafeUint :: "jsval \<Rightarrow> codec_error + nat" where
  "requirePositiveSafeUint v = requireUintRange v 1 MAX_SAFE_INTEGER"
definition requireInt16 :: "jsval \<Rightarrow> codec_error + int" where
  "requireInt16 v = requireIntegerRange v INT16_MIN INT16_MAX"

definition requireAnyObject :: "jsval \<Rightarrow> codec_error + unit" where
  \<comment> \<open>\<open>typeof value === "object" && value !== null\<close>: an array passes\<close>
  "requireAnyObject v =
     (case v of JArr _ \<Rightarrow> Inr () | _ \<Rightarrow> ensure (is_object v) (fail InvalidInput))"

definition requireBoolean :: "jsval \<Rightarrow> codec_error + bool" where
  "requireBoolean v = (case v of JBool b \<Rightarrow> Inr b | _ \<Rightarrow> Inl (fail InvalidValue))"

definition requireArray :: "jsval \<Rightarrow> codec_error + jsval list" where
  "requireArray v = (case v of JArr vs \<Rightarrow> Inr vs | _ \<Rightarrow> Inl (fail InvalidValue))"

definition requireExactString :: "jsval \<Rightarrow> js \<Rightarrow> codec_error + unit" where
  "requireExactString v expected = ensure (v = JStr expected) (fail InvalidValue)"

definition validateAddress :: "jsval \<Rightarrow> nat \<Rightarrow> codec_error + nat" where
  "validateAddress v byteLength =
     bindE (requireU32 v) (\<lambda>n. if byteLength \<le> n then Inl (fail InvalidValue) else Inr n)"

lemma jint_int [simp]: "jint (int n) = jnat n"
  by (simp add: jint_def jnat_def)

lemma jint_eq_iff [simp]: "jint a = jint b \<longleftrightarrow> a = b"
  by (simp add: jint_def)

lemma safe_int_Some_iff: "safe_int v = Some n \<longleftrightarrow> v = jint n \<and> \<bar>n\<bar> \<le> int MAX_SAFE_INTEGER"
proof
  assume *: "safe_int v = Some n"
  then obtain q where v: "v = JNum (Fin q)" by (cases v rule: safe_int.cases) auto
  obtain a d where "quotient_of q = (a, d)" by fastforce
  with * v show "v = jint n \<and> \<bar>n\<bar> \<le> int MAX_SAFE_INTEGER"
    using quotient_of_div [of q a d] by (auto simp: jint_def split: if_splits)
next
  assume "v = jint n \<and> \<bar>n\<bar> \<le> int MAX_SAFE_INTEGER"
  then show "safe_int v = Some n" using quotient_of_int [of n] by (simp add: jint_def)
qed

lemma requireIntegerRange_iff [result_simps]:
  "requireIntegerRange v lo hi = Inr n \<longleftrightarrow>
     v = jint n \<and> \<bar>n\<bar> \<le> int MAX_SAFE_INTEGER \<and> lo \<le> n \<and> n \<le> hi"
proof (cases "safe_int v")
  case None
  then show ?thesis using safe_int_Some_iff [of v n] by (auto simp: requireIntegerRange_def)
next
  case (Some m)
  then show ?thesis
    using safe_int_Some_iff [of v m] by (auto simp: requireIntegerRange_def not_less)
qed

lemma requireUintRange_iff:
  "requireUintRange v lo hi = Inr n \<longleftrightarrow> v = jnat n \<and> n \<le> MAX_SAFE_INTEGER \<and> lo \<le> n \<and> n \<le> hi"
proof
  assume "requireUintRange v lo hi = Inr n"
  then obtain i where "v = jint i" "\<bar>i\<bar> \<le> int MAX_SAFE_INTEGER" "int lo \<le> i" "i \<le> int hi" "n = nat i"
    by (auto simp: requireUintRange_def result_simps)
  then show "v = jnat n \<and> n \<le> MAX_SAFE_INTEGER \<and> lo \<le> n \<and> n \<le> hi"
    using jint_int [of n] by auto
next
  assume "v = jnat n \<and> n \<le> MAX_SAFE_INTEGER \<and> lo \<le> n \<and> n \<le> hi"
  then show "requireUintRange v lo hi = Inr n"
    by (simp add: requireUintRange_def bindE_Inr_iff requireIntegerRange_iff)
       (intro exI [of _ "int n"], simp)
qed

lemma require_uint_iff [result_simps]:
  "requireU16 v = Inr n \<longleftrightarrow> v = jnat n \<and> n < 65536"
  "requireU32 v = Inr n \<longleftrightarrow> v = jnat n \<and> n < 4294967296"
  "requireSafe v = Inr n \<longleftrightarrow> v = jnat n \<and> n \<le> MAX_SAFE_INTEGER"
  "requirePositiveSafeUint v = Inr n \<longleftrightarrow> v = jnat n \<and> 0 < n \<and> n \<le> MAX_SAFE_INTEGER"
  "requireUintRange v (Suc 0) 255 = Inr n \<longleftrightarrow> v = jnat n \<and> 0 < n \<and> n \<le> 255"
  "requireUintRange v 0 7 = Inr n \<longleftrightarrow> v = jnat n \<and> n \<le> 7"
  "requireUintRange v 0 (Suc 0) = Inr n \<longleftrightarrow> v = jnat n \<and> n \<le> 1"
  by (auto simp: requireU16_def requireU32_def requireSafe_def requirePositiveSafeUint_def
      requireUintRange_iff checkpoint_limit_defs MAX_SAFE_INTEGER_def)

lemma requireInt16_iff [result_simps]:
  "requireInt16 v = Inr n \<longleftrightarrow> v = jint n \<and> - 0x8000 \<le> n \<and> n \<le> 0x7fff"
  by (auto simp: requireInt16_def requireIntegerRange_iff checkpoint_limit_defs MAX_SAFE_INTEGER_def)

lemma require_shape_iff [result_simps]:
  "requireAnyObject v = Inr u \<longleftrightarrow> is_object v \<or> (\<exists>vs. v = JArr vs)"
  "requireBoolean v = Inr b \<longleftrightarrow> v = JBool b"
  "requireArray v = Inr vs \<longleftrightarrow> v = JArr vs"
  "requireExactString v s = Inr u \<longleftrightarrow> v = JStr s"
  by (cases v; auto simp: requireAnyObject_def requireBoolean_def requireArray_def
      requireExactString_def ensure_Inr_iff)+

lemma validateAddress_iff [result_simps]:
  "validateAddress v k = Inr n \<longleftrightarrow> v = jnat n \<and> n < k \<and> n < 4294967296"
  by (auto simp: validateAddress_def bindE_Inr_iff require_uint_iff not_le split: if_splits)

section \<open>Digests\<close>

definition is_hex_unit :: "code_unit \<Rightarrow> bool" where \<comment> \<open>\<open>[a-f0-9]\<close>\<close>
  "is_hex_unit u \<longleftrightarrow> (0x30 \<le> u \<and> u \<le> 0x39) \<or> (0x61 \<le> u \<and> u \<le> 0x66)"

definition hex_value :: "code_unit \<Rightarrow> nat" where
  "hex_value u = (if u \<le> 0x39 then unat u - 0x30 else unat u - 0x57)"

definition hex_unit :: "nat \<Rightarrow> code_unit" where \<comment> \<open>one digit of \<open>toString(16)\<close>\<close>
  "hex_unit n = (if n < 10 then word_of_nat (0x30 + n) else word_of_nat (0x57 + n))"

fun hex_pairs :: "js \<Rightarrow> byte list" where
  "hex_pairs (a # b # s) = word_of_nat (hex_value a * 16 + hex_value b) # hex_pairs s"
| "hex_pairs _ = []"

definition sha256_text :: "js \<Rightarrow> bool" where \<comment> \<open>\<open>SHA256_PATTERN\<close>\<close>
  "sha256_text s \<longleftrightarrow> length s = 64 \<and> list_all is_hex_unit s"

definition hexToBytes :: "jsval \<Rightarrow> codec_error + byte list" where
  "hexToBytes v =
     (case v of
        JStr s \<Rightarrow> if sha256_text s then Inr (hex_pairs s) else Inl (fail InvalidValue)
      | _ \<Rightarrow> Inl (fail InvalidValue))"

definition bytesToHex :: "byte list \<Rightarrow> js" where
  "bytesToHex bs = concat (map (\<lambda>b. [hex_unit (unat b div 16), hex_unit (unat b mod 16)]) bs)"

lemma hexToBytes_iff [result_simps]:
  "hexToBytes v = Inr bs \<longleftrightarrow> (\<exists>s. v = JStr s \<and> sha256_text s \<and> bs = hex_pairs s)"
  by (cases v) (auto simp: hexToBytes_def)

lemma is_hex_unit_cases: "is_hex_unit u \<Longrightarrow>
    (0x30 \<le> unat u \<and> unat u \<le> 0x39) \<or> (0x61 \<le> unat u \<and> unat u \<le> 0x66)"
  by (simp add: is_hex_unit_def word_le_nat_alt)

lemma hex_value_less: "is_hex_unit u \<Longrightarrow> hex_value u < 16"
  by (drule is_hex_unit_cases) (auto simp: hex_value_def word_le_nat_alt)

lemma hex_unit_value: "is_hex_unit u \<Longrightarrow> hex_unit (hex_value u) = u"
proof -
  assume "is_hex_unit u"
  from is_hex_unit_cases [OF this] show ?thesis
  proof
    assume *: "0x30 \<le> unat u \<and> unat u \<le> 0x39"
    then have "unat u - 0x30 < 10" by linarith
    with * have "hex_unit (hex_value u) = word_of_nat (unat u)"
      by (simp add: hex_unit_def hex_value_def word_le_nat_alt del: of_nat_unat unsigned_of_nat)
    then show ?thesis by simp
  next
    assume *: "0x61 \<le> unat u \<and> unat u \<le> 0x66"
    then have "\<not> unat u - 0x57 < 10" by linarith
    with * have "hex_unit (hex_value u) = word_of_nat (unat u)"
      by (simp add: hex_unit_def hex_value_def word_le_nat_alt del: of_nat_unat unsigned_of_nat)
    then show ?thesis by simp
  qed
qed

lemma hex_value_unit: "n < 16 \<Longrightarrow> is_hex_unit (hex_unit n) \<and> hex_value (hex_unit n) = n"
  by (auto simp: hex_unit_def is_hex_unit_def hex_value_def word_le_nat_alt unat_of_nat16
      simp del: of_nat_add)

lemma hex_pairs_bytesToHex [simp]: "hex_pairs (bytesToHex bs) = bs"
proof (induction bs)
  case (Cons b bs)
  have b: "unat b < 256" using unsigned_less [of b] by simp
  then have "unat b div 16 < 16" by simp
  moreover have "unat b div 16 * 16 + unat b mod 16 = unat b" by simp
  ultimately show ?case
    using Cons by (simp add: bytesToHex_def hex_value_unit del: of_nat_add of_nat_mult)
qed (simp add: bytesToHex_def)

lemma bytesToHex_text: "list_all is_hex_unit (bytesToHex bs) \<and> length (bytesToHex bs) = 2 * length bs"
proof (induction bs)
  case (Cons b bs)
  have b: "unat b < 256" using unsigned_less [of b] by simp
  then have "unat b div 16 < 16" by simp
  with Cons show ?case by (simp add: bytesToHex_def hex_value_unit)
qed (simp add: bytesToHex_def)

lemma bytesToHex_hex_pairs:
  "list_all is_hex_unit s \<Longrightarrow> even (length s) \<Longrightarrow>
     bytesToHex (hex_pairs s) = s \<and> length (hex_pairs s) = length s div 2"
proof (induction s rule: hex_pairs.induct)
  case (1 a b s)
  then have ab: "hex_value a < 16" "hex_value b < 16" "hex_unit (hex_value a) = a" "hex_unit (hex_value b) = b"
    by (simp_all add: hex_value_less hex_unit_value)
  have "unat (word_of_nat (hex_value a * 16 + hex_value b) :: byte) = hex_value a * 16 + hex_value b"
    using ab(1, 2) by (simp add: unat_of_nat take_bit_eq_mod del: of_nat_add of_nat_mult)
  with 1 ab show ?case by (simp add: bytesToHex_def del: of_nat_add of_nat_mult)
qed (simp_all add: bytesToHex_def)

lemma sha256_bytes:
  "sha256_text s \<Longrightarrow> bytesToHex (hex_pairs s) = s"
  "sha256_text s \<Longrightarrow> length (hex_pairs s) = 32"
  "length bs = 32 \<Longrightarrow> sha256_text (bytesToHex bs)"
  using bytesToHex_hex_pairs [of s] bytesToHex_text [of bs] by (simp_all add: sha256_text_def)

section \<open>Signed words\<close>

definition int16_of :: "nat \<Rightarrow> int" where \<comment> \<open>two's complement\<close>
  "int16_of n = (if n < 0x8000 then int n else int n - 0x10000)"

definition put_i16 :: "int \<Rightarrow> byte list" where \<comment> \<open>\<open>setInt16\<close> keeps the low 16 bits\<close>
  "put_i16 x = put_u16 (nat (x mod 0x10000))"

definition get_i16 :: "reader \<Rightarrow> int parse" where
  "get_i16 r = bindE (get_u16 r) (\<lambda>(n, r'). Inr (int16_of n, r'))"

definition getInt16 :: "byte list \<Rightarrow> nat \<Rightarrow> bool \<Rightarrow> int" where \<comment> \<open>\<open>DataView.getInt16\<close>, in range\<close>
  "getInt16 mem off littleEndian =
     int16_of (if littleEndian then unat (mem ! off) + 256 * unat (mem ! (off + 1))
               else unat (mem ! off) * 256 + unat (mem ! (off + 1)))"

definition int16 :: "int \<Rightarrow> bool" where
  "int16 x \<longleftrightarrow> - 0x8000 \<le> x \<and> x \<le> 0x7fff"

lemma int16_of_iff: "n < 65536 \<Longrightarrow> int16_of n = x \<longleftrightarrow> int16 x \<and> n = nat (x mod 0x10000)"
proof -
  assume n: "n < 65536"
  show ?thesis
  proof
    assume x: "int16_of n = x"
    show "int16 x \<and> n = nat (x mod 0x10000)"
    proof (cases "n < 0x8000")
      case True
      with x show ?thesis by (auto simp: int16_of_def int16_def)
    next
      case False
      with x n have "x = int n + - 1 * 65536" by (simp add: int16_of_def)
      then have "x mod 65536 = int n mod 65536" by (simp only: mod_mult_self1)
      with False x n show ?thesis by (auto simp: int16_of_def int16_def)
    qed
  next
    assume "int16 x \<and> n = nat (x mod 0x10000)"
    then have x: "- 0x8000 \<le> x" "x \<le> 0x7fff" and n: "n = nat (x mod 65536)"
      by (auto simp: int16_def)
    show "int16_of n = x"
    proof (cases "0 \<le> x")
      case True
      with x n show ?thesis by (simp add: int16_of_def)
    next
      case False
      have "x mod 65536 = (x + 65536) mod 65536" by simp
      also have "\<dots> = x + 65536" using False x by (intro mod_pos_pos_trivial) auto
      finally show ?thesis using False x n by (simp add: int16_of_def)
    qed
  qed
qed

interpretation i16: field_codec put_i16 get_i16 int16
proof (unfold_locales, goal_cases)
  case (1 off bs x r)
  have "get_i16 (off, bs) = Inr (x, r) \<longleftrightarrow> (\<exists>n. get_u16 (off, bs) = Inr (n, r) \<and> int16_of n = x)"
    by (cases r) (auto simp: get_i16_def bindE_Inr_iff)
  also have "\<dots> \<longleftrightarrow> (\<exists>n. n < 65536 \<and> bs = put_u16 n @ snd r \<and> fst r = off + 2 \<and> int16_of n = x)"
    by (auto simp: u16.get_iff)
  also have "\<dots> \<longleftrightarrow> (\<exists>n. n < 65536 \<and> bs = put_u16 n @ snd r \<and> fst r = off + 2 \<and>
      int16 x \<and> n = nat (x mod 0x10000))"
    using int16_of_iff by blast
  also have "\<dots> \<longleftrightarrow> int16 x \<and> bs = put_i16 x @ snd r \<and> fst r = off + length (put_i16 x)"
  proof -
    have "x mod 65536 < 65536" by simp
    then have "nat (x mod 65536) < 65536" by linarith
    then show ?thesis by (auto simp: put_i16_def)
  qed
  finally show ?case .
qed

lemma length_put_i16 [simp]: "length (put_i16 x) = 2"
  by (simp add: put_i16_def)

lemma int16_getInt16: "int16 (getInt16 mem off le)"
proof -
  have "unat (mem ! k) < 256" for k using unsigned_less [of "mem ! k"] by simp
  from this [of off] this [of "off + 1"] show ?thesis
    by (auto simp: getInt16_def int16_of_def int16_def)
qed

end
