(* ===== verification/Checkpoint_Prepare.thy ===== *)
theory Checkpoint_Prepare
  imports Checkpoint_Data
begin

text \<open>
  The validating half of \<open>encodeDorkCheckpointEnvelope\<close>: \<open>prepareEnvelope\<close> of
  \<open>spikes/dork-worker/checkpoint-envelope.ts\<close>, one definition per part of the checkpoint, in
  the order the function checks them, and the size it computes for the writer's buffer.
\<close>

record prepared_checkpoint =
  pk_input :: dork_checkpoint
  pk_runtimeId :: "byte list"
  pk_adapterId :: "byte list"
  pk_storyId :: "byte list"
  pk_artifactSha256 :: "byte list"
  pk_lastOutput :: "byte list"
  pk_serial :: "byte list"
  pk_totalBytes :: nat

fun str_of :: "jsval \<Rightarrow> js" where
  "str_of (JStr s) = s"
| "str_of _ = []"

section \<open>Story and configuration\<close>

definition prepareStory :: "jsval \<Rightarrow> codec_error + cp_story \<times> byte list" where
  "prepareStory v =
     bindE (requireAnyObject v) (\<lambda>_.
     bindE (ensure (getProp v ''version'' = jnat 3) (fail InvalidValue)) (\<lambda>_.
     bindE (requireBoolean (getProp v ''byteSwapped'')) (\<lambda>byteSwapped.
     bindE (requireU16 (getProp v ''release'')) (\<lambda>release.
     bindE (encodeBoundedUtf8 (getProp v ''serial'') SERIAL_BYTES True) (\<lambda>serial.
     bindE (ensure (length serial = SERIAL_BYTES \<and> list_all (\<lambda>b. b \<le> 0x7f) serial) (fail InvalidValue)) (\<lambda>_.
     bindE (requireU16 (getProp v ''checksum'')) (\<lambda>checksum.
     bindE (requireU32 (getProp v ''byteLength'')) (\<lambda>byteLength.
     bindE (requireU16 (getProp v ''staticMemoryBase'')) (\<lambda>staticMemoryBase.
       if byteLength < 64 then Inl (fail InvalidValue)
       else if staticMemoryBase < 64 \<or> byteLength < staticMemoryBase then Inl (fail InvalidValue)
       else Inr (\<lparr>sy_byteSwapped = byteSwapped, sy_release = release,
              sy_serial = str_of (getProp v ''serial''), sy_checksum = checksum,
              sy_byteLength = byteLength, sy_staticMemoryBase = staticMemoryBase\<rparr>, serial))))))))))"

definition prepareConfig :: "jsval \<Rightarrow> codec_error + cp_config" where
  "prepareConfig v =
     bindE (requireAnyObject v) (\<lambda>_.
     bindE (requireBoolean (getProp v ''isTandy'')) (\<lambda>isTandy.
     bindE (requireBoolean (getProp v ''strict'')) (\<lambda>strict.
     bindE (if getProp v ''maxInstructions'' = JNull then Inr None
            else bindE (requirePositiveSafeUint (getProp v ''maxInstructions'')) (\<lambda>n. Inr (Some n)))
       (\<lambda>maxInstructions.
     bindE (requirePositiveSafeUint (getProp v ''maxInstructionsPerTurn'')) (\<lambda>maxInstructionsPerTurn.
     bindE (requireU32 (getProp v ''ioCapabilities'')) (\<lambda>ioCapabilities.
       Inr \<lparr>cf_isTandy = isTandy, cf_strict = strict, cf_maxInstructions = maxInstructions,
            cf_maxInstructionsPerTurn = maxInstructionsPerTurn, cf_ioCapabilities = ioCapabilities\<rparr>))))))"

section \<open>Stacks\<close>

definition prepareDataStack :: "jsval \<Rightarrow> codec_error + int list" where
  "prepareDataStack v =
     bindE (requireArray v) (\<lambda>words.
     if DORK_CHECKPOINT_MAX_TOTAL_STACK_WORDS < length words then Inl (fail LimitExceeded)
     else mapE requireInt16 words)"

definition prepareFrame :: "nat \<Rightarrow> nat \<Rightarrow> jsval \<Rightarrow> codec_error + cp_frame \<times> nat" where
  "prepareFrame byteLength aggregateStackWords v =
     bindE (requireAnyObject v) (\<lambda>_.
     bindE (validateAddress (getProp v ''pc'') byteLength) (\<lambda>pc.
     bindE (requireArray (getProp v ''local'')) (\<lambda>locals.
     bindE (requireArray (getProp v ''ds'')) (\<lambda>ds.
     if DORK_CHECKPOINT_MAX_LOCALS < length locals then Inl (fail LimitExceeded)
     else if DORK_CHECKPOINT_MAX_FRAME_STACK_WORDS < length ds then Inl (fail LimitExceeded)
     else
       let aggregate = aggregateStackWords + (length locals + length ds) in
       if DORK_CHECKPOINT_MAX_TOTAL_STACK_WORDS < aggregate then Inl (fail LimitExceeded)
       else
         bindE (mapE requireInt16 locals) (\<lambda>local_words.
         bindE (mapE requireInt16 ds) (\<lambda>ds_words.
         bindE (requireBoolean (getProp v ''discardResult'')) (\<lambda>discardResult.
         bindE (requireUintRange (getProp v ''argCount'') 0 7) (\<lambda>argCount.
         Inr (\<lparr>fr_pc = pc, fr_local = local_words, fr_ds = ds_words,
               fr_discardResult = discardResult, fr_argCount = argCount\<rparr>, aggregate)))))))))"

fun prepareFrames :: "nat \<Rightarrow> nat \<Rightarrow> jsval list \<Rightarrow> codec_error + cp_frame list" where
  "prepareFrames byteLength aggregate [] = Inr []"
| "prepareFrames byteLength aggregate (v # vs) =
     bindE (prepareFrame byteLength aggregate v) (\<lambda>(frame, aggregate').
     bindE (prepareFrames byteLength aggregate' vs) (\<lambda>frames. Inr (frame # frames)))"

definition prepareCallStack :: "nat \<Rightarrow> nat \<Rightarrow> jsval \<Rightarrow> codec_error + cp_frame list" where
  "prepareCallStack byteLength aggregateStackWords v =
     bindE (requireArray v) (\<lambda>frames.
     if DORK_CHECKPOINT_MAX_CALL_FRAMES < length frames then Inl (fail LimitExceeded)
     else prepareFrames byteLength aggregateStackWords frames)"

section \<open>Streams, counters and the pending read\<close>

definition prepareStream :: "nat \<Rightarrow> jsval \<Rightarrow> codec_error + cp_stream" where
  "prepareStream memoryLength v =
     bindE (requireAnyObject v) (\<lambda>_.
     bindE (requireU32 (getProp v ''base'')) (\<lambda>base.
     bindE (requireU32 (getProp v ''cursor'')) (\<lambda>cursor.
     if memoryLength < base + 2 \<or> cursor < base + 2 \<or> memoryLength < cursor then Inl (fail InvalidValue)
     else Inr \<lparr>st_base = base, st_cursor = cursor\<rparr>)))"

definition prepareStream3 :: "nat \<Rightarrow> jsval \<Rightarrow> codec_error + cp_stream list" where
  "prepareStream3 memoryLength v =
     bindE (requireArray v) (\<lambda>streams.
     if DORK_CHECKPOINT_MAX_STREAM_DEPTH < length streams then Inl (fail LimitExceeded)
     else mapE (prepareStream memoryLength) streams)"

definition checkCounts :: "cp_config \<Rightarrow> nat \<Rightarrow> nat \<Rightarrow> codec_error + unit" where
  \<comment> \<open>the same three checks stand in \<open>prepareEnvelope\<close> and in \<open>parseEnvelope\<close>\<close>
  "checkCounts config instructionCount turnInstructionCount =
     (if cf_maxInstructions config \<noteq> None \<and> instructionCount < turnInstructionCount
      then Inl (fail InvalidValue)
      else if (case cf_maxInstructions config of None \<Rightarrow> False | Some m \<Rightarrow> m < instructionCount)
      then Inl (fail InvalidValue)
      else if cf_maxInstructionsPerTurn config < turnInstructionCount then Inl (fail InvalidValue)
      else Inr ())"

definition preparePendingRead :: "nat \<Rightarrow> byte list \<Rightarrow> jsval \<Rightarrow> codec_error + cp_pending" where
  "preparePendingRead byteLength mem v =
     bindE (requireAnyObject v) (\<lambda>_.
     bindE (ensure (getProp v ''kind'' = JStr (js ''line'')) (fail InvalidValue)) (\<lambda>_.
     bindE (validateAddress (getProp v ''instructionPc'') byteLength) (\<lambda>instructionPc.
     bindE (validateAddress (getProp v ''continuationPc'') byteLength) (\<lambda>continuationPc.
     bindE (validateAddress (getProp v ''textBuffer'') (length mem)) (\<lambda>textBuffer.
     bindE (validateAddress (getProp v ''parseBuffer'') (length mem)) (\<lambda>parseBuffer.
     bindE (ensure (parseBuffer \<noteq> 0) (fail InvalidValue)) (\<lambda>_.
     bindE (requireUintRange (getProp v ''maxLength'') 1 0xff) (\<lambda>maxLength.
     if continuationPc \<le> instructionPc \<or>
        instructionPc < length mem \<and> unat (mem ! instructionPc) \<noteq> 228
     then Inl (fail InvalidValue)
     else if unat (mem ! textBuffer) \<noteq> maxLength then Inl (fail InvalidValue)
     else if length mem < textBuffer + maxLength + 1 then Inl (fail InvalidValue)
     else if length mem < parseBuffer + 2 + unat (mem ! parseBuffer) * 4 then Inl (fail InvalidValue)
     else Inr \<lparr>pd_instructionPc = instructionPc, pd_continuationPc = continuationPc,
                pd_textBuffer = textBuffer, pd_parseBuffer = parseBuffer, pd_maxLength = maxLength\<rparr>))))))))"

section \<open>The machine and the envelope\<close>

definition prepareMachine :: "jsval \<Rightarrow> codec_error + cp_machine \<times> byte list" where
  "prepareMachine v =
     bindE (requireAnyObject v) (\<lambda>_.
     bindE (ensure (getProp v ''schemaVersion'' = jnat MACHINE_SCHEMA_VERSION) (fail UnsupportedVersion)) (\<lambda>_.
     bindE (prepareStory (getProp v ''story'')) (\<lambda>(story, serial).
     bindE (prepareConfig (getProp v ''config'')) (\<lambda>config.
     case getProp v ''dynamicMemory'' of
       JBytes mem \<Rightarrow>
         if length mem \<noteq> sy_staticMemoryBase story then Inl (fail InvalidValue)
         else
           bindE (prepareDataStack (getProp v ''dataStack'')) (\<lambda>dataStack.
           bindE (prepareCallStack (sy_byteLength story) (length dataStack) (getProp v ''callStack''))
             (\<lambda>callStack.
           bindE (requireUintRange (getProp v ''rngMode'') 0 1) (\<lambda>rngMode.
           bindE (requireU32 (getProp v ''gameplayState'')) (\<lambda>gameplayState.
           bindE (requireU32 (getProp v ''reseedState'')) (\<lambda>reseedState.
           bindE (requireInt16 (getProp v ''savedFlags'')) (\<lambda>savedFlags.
           bindE (ensure (getInt16 mem 16 (sy_byteSwapped story) = savedFlags) (fail InvalidValue)) (\<lambda>_.
           bindE (prepareStream3 (length mem) (getProp v ''stream3'')) (\<lambda>stream3.
           bindE (requireSafe (getProp v ''instructionCount'')) (\<lambda>instructionCount.
           bindE (requireSafe (getProp v ''turnInstructionCount'')) (\<lambda>turnInstructionCount.
           bindE (checkCounts config instructionCount turnInstructionCount) (\<lambda>_.
           bindE (preparePendingRead (sy_byteLength story) mem (getProp v ''pendingRead'')) (\<lambda>pendingRead.
           Inr (\<lparr>ma_story = story, ma_config = config, ma_dynamicMemory = mem,
                 ma_dataStack = dataStack, ma_callStack = callStack, ma_rngMode = rngMode,
                 ma_gameplayState = gameplayState, ma_reseedState = reseedState,
                 ma_savedFlags = savedFlags, ma_stream3 = stream3,
                 ma_instructionCount = instructionCount,
                 ma_turnInstructionCount = turnInstructionCount,
                 ma_pendingRead = pendingRead\<rparr>, serial)))))))))))))
     | _ \<Rightarrow> Inl (fail InvalidValue)))))"

definition checkpointAddSize :: "nat \<Rightarrow> nat \<Rightarrow> codec_error + nat" where
  "checkpointAddSize t amount = addSize t amount DORK_CHECKPOINT_MAX_TOTAL_BYTES"

fun checkpointAddSizes :: "nat \<Rightarrow> nat list \<Rightarrow> codec_error + nat" where
  "checkpointAddSizes t [] = Inr t"
| "checkpointAddSizes t (n # ns) = bindE (checkpointAddSize t n) (\<lambda>t'. checkpointAddSizes t' ns)"

definition checkpointAmounts :: "prepared_checkpoint \<Rightarrow> nat list" where
  \<comment> \<open>the amounts \<open>prepareEnvelope\<close> adds, in its order\<close>
  "checkpointAmounts p =
     (let machine = dc_machine (pk_input p) in
      [2 + length (pk_runtimeId p), 2 + length (pk_adapterId p), 2 + length (pk_storyId p),
       length (pk_artifactSha256 p) + 8, 4 + length (pk_lastOutput p), 4, 16 + length (pk_serial p), 24,
       4 + length (ma_dynamicMemory machine), 4 + length (ma_dataStack machine) * 2, 4] @
      map (\<lambda>f. 12 + (length (fr_local f) + length (fr_ds f)) * 2) (ma_callStack machine) @
      [12, 4 + length (ma_stream3 machine) * 8, 16, 24])"

definition prepareCheckpoint :: "jsval \<Rightarrow> codec_error + prepared_checkpoint" where
  "prepareCheckpoint v =
     bindE (requireAnyObject v) (\<lambda>_.
     bindE (ensure (getProp v ''schemaVersion'' = jnat DORK_CHECKPOINT_SCHEMA_VERSION)
              (fail UnsupportedVersion)) (\<lambda>_.
     bindE (requireExactString (getProp v ''runtimeId'') DORK_CHECKPOINT_RUNTIME_ID) (\<lambda>_.
     bindE (requireExactString (getProp v ''adapterId'') DORK_CHECKPOINT_ADAPTER_ID) (\<lambda>_.
     bindE (requireSafe (getProp v ''revision'')) (\<lambda>revision.
     bindE (encodeBoundedUtf8 (getProp v ''runtimeId'') MAX_IDENTITY_BYTES False) (\<lambda>runtimeId.
     bindE (encodeBoundedUtf8 (getProp v ''adapterId'') MAX_IDENTITY_BYTES False) (\<lambda>adapterId.
     bindE (encodeBoundedUtf8 (getProp v ''storyId'') DORK_CHECKPOINT_MAX_STORY_ID_BYTES False) (\<lambda>storyId.
     bindE (hexToBytes (getProp v ''artifactSha256'')) (\<lambda>artifactSha256.
     bindE (encodeBoundedUtf8 (getProp v ''lastOutput'') DORK_CHECKPOINT_MAX_LAST_OUTPUT_BYTES True)
       (\<lambda>lastOutput.
     bindE (prepareMachine (getProp v ''machine'')) (\<lambda>(machine, serial).
     let prepared = (\<lambda>totalBytes. \<lparr>pk_input = \<lparr>dc_storyId = str_of (getProp v ''storyId''),
             dc_artifactSha256 = str_of (getProp v ''artifactSha256''), dc_revision = revision,
             dc_lastOutput = str_of (getProp v ''lastOutput''), dc_machine = machine\<rparr>,
           pk_runtimeId = runtimeId, pk_adapterId = adapterId, pk_storyId = storyId,
           pk_artifactSha256 = artifactSha256, pk_lastOutput = lastOutput, pk_serial = serial,
           pk_totalBytes = totalBytes\<rparr>) in
     bindE (checkpointAddSizes DORK_CHECKPOINT_FIXED_HEADER_BYTES (checkpointAmounts (prepared 0)))
       (\<lambda>totalBytes. Inr (prepared totalBytes)))))))))))))"

end
