(* ===== verification/Checkpoint_Valid.thy ===== *)
theory Checkpoint_Valid
  imports Checkpoint_Prepare
begin

text \<open>
  The declarative validity of a checkpoint, the run-time object of a typed checkpoint, and the
  proof that \<open>prepareCheckpoint\<close> accepts an untyped value exactly when it denotes a valid
  checkpoint.
\<close>

section \<open>Validity\<close>

definition valid_story :: "cp_story \<Rightarrow> bool" where
  "valid_story s \<longleftrightarrow>
     sy_release s < 65536 \<and> sy_checksum s < 65536 \<and> sy_byteLength s < 4294967296 \<and>
     length (sy_serial s) = 6 \<and> list_all (\<lambda>u. u \<le> 0x7f) (sy_serial s) \<and>
     64 \<le> sy_staticMemoryBase s \<and> sy_staticMemoryBase s < 65536 \<and>
     sy_staticMemoryBase s \<le> sy_byteLength s"

definition valid_config :: "cp_config \<Rightarrow> bool" where
  "valid_config c \<longleftrightarrow>
     (\<forall>m. cf_maxInstructions c = Some m \<longrightarrow> 0 < m \<and> m \<le> MAX_SAFE_INTEGER) \<and>
     0 < cf_maxInstructionsPerTurn c \<and> cf_maxInstructionsPerTurn c \<le> MAX_SAFE_INTEGER \<and>
     cf_ioCapabilities c < 4294967296"

definition valid_frame :: "nat \<Rightarrow> cp_frame \<Rightarrow> bool" where
  "valid_frame byteLength f \<longleftrightarrow>
     fr_pc f < byteLength \<and> fr_pc f < 4294967296 \<and> length (fr_local f) \<le> DORK_CHECKPOINT_MAX_LOCALS \<and>
     length (fr_ds f) \<le> DORK_CHECKPOINT_MAX_FRAME_STACK_WORDS \<and>
     list_all int16 (fr_local f) \<and> list_all int16 (fr_ds f) \<and> fr_argCount f \<le> 7"

definition frame_words :: "cp_frame \<Rightarrow> nat" where
  "frame_words f = length (fr_local f) + length (fr_ds f)"

definition stack_words :: "cp_frame list \<Rightarrow> nat" where
  "stack_words fs = sum_list (map frame_words fs)"

lemma stack_words_simps [simp]:
  "stack_words [] = 0" "stack_words (f # fs) = frame_words f + stack_words fs"
  by (simp_all add: stack_words_def)

definition valid_stream :: "nat \<Rightarrow> cp_stream \<Rightarrow> bool" where
  "valid_stream memoryLength s \<longleftrightarrow>
     st_base s + 2 \<le> st_cursor s \<and> st_cursor s \<le> memoryLength \<and> st_cursor s < 4294967296"

definition valid_counts :: "cp_config \<Rightarrow> nat \<Rightarrow> nat \<Rightarrow> bool" where
  "valid_counts c instructions turn \<longleftrightarrow>
     instructions \<le> MAX_SAFE_INTEGER \<and> turn \<le> cf_maxInstructionsPerTurn c \<and> turn \<le> MAX_SAFE_INTEGER \<and>
     (\<forall>m. cf_maxInstructions c = Some m \<longrightarrow> turn \<le> instructions \<and> instructions \<le> m)"

definition valid_pending :: "nat \<Rightarrow> byte list \<Rightarrow> cp_pending \<Rightarrow> bool" where
  "valid_pending byteLength mem p \<longleftrightarrow>
     pd_instructionPc p < pd_continuationPc p \<and> pd_continuationPc p < byteLength \<and>
     pd_continuationPc p < 4294967296 \<and>
     pd_textBuffer p < length mem \<and> pd_textBuffer p < 4294967296 \<and>
     0 < pd_parseBuffer p \<and> pd_parseBuffer p < length mem \<and> pd_parseBuffer p < 4294967296 \<and>
     0 < pd_maxLength p \<and> pd_maxLength p \<le> 255 \<and>
     (pd_instructionPc p < length mem \<longrightarrow> unat (mem ! pd_instructionPc p) = 228) \<and>
     unat (mem ! pd_textBuffer p) = pd_maxLength p \<and>
     pd_textBuffer p + pd_maxLength p + 1 \<le> length mem \<and>
     pd_parseBuffer p + 2 + unat (mem ! pd_parseBuffer p) * 4 \<le> length mem"

definition valid_stacks :: "nat \<Rightarrow> int list \<Rightarrow> cp_frame list \<Rightarrow> bool" where
  "valid_stacks byteLength ds fs \<longleftrightarrow>
     list_all int16 ds \<and> length fs \<le> DORK_CHECKPOINT_MAX_CALL_FRAMES \<and>
     list_all (valid_frame byteLength) fs \<and>
     length ds + stack_words fs \<le> DORK_CHECKPOINT_MAX_TOTAL_STACK_WORDS"

definition valid_machine :: "cp_machine \<Rightarrow> bool" where
  "valid_machine m \<longleftrightarrow>
     valid_story (ma_story m) \<and> valid_config (ma_config m) \<and>
     length (ma_dynamicMemory m) = sy_staticMemoryBase (ma_story m) \<and>
     valid_stacks (sy_byteLength (ma_story m)) (ma_dataStack m) (ma_callStack m) \<and>
     ma_rngMode m \<le> 1 \<and> ma_gameplayState m < 4294967296 \<and> ma_reseedState m < 4294967296 \<and>
     ma_savedFlags m = getInt16 (ma_dynamicMemory m) 16 (sy_byteSwapped (ma_story m)) \<and>
     length (ma_stream3 m) \<le> DORK_CHECKPOINT_MAX_STREAM_DEPTH \<and>
     list_all (valid_stream (length (ma_dynamicMemory m))) (ma_stream3 m) \<and>
     valid_counts (ma_config m) (ma_instructionCount m) (ma_turnInstructionCount m) \<and>
     valid_pending (sy_byteLength (ma_story m)) (ma_dynamicMemory m) (ma_pendingRead m)"

definition machine_size :: "cp_machine \<Rightarrow> nat" where
  "machine_size m = 4 + (16 + length (utf8_encode (sy_serial (ma_story m)))) + 24 +
     (4 + length (ma_dynamicMemory m)) + (4 + length (ma_dataStack m) * 2) + 4 +
     sum_list (map (\<lambda>f. 12 + (length (fr_local f) + length (fr_ds f)) * 2) (ma_callStack m)) +
     12 + (4 + length (ma_stream3 m) * 8) + 16 + 24"

definition checkpoint_size :: "dork_checkpoint \<Rightarrow> nat" where
  "checkpoint_size cp = DORK_CHECKPOINT_FIXED_HEADER_BYTES +
     (2 + length (utf8_encode DORK_CHECKPOINT_RUNTIME_ID)) +
     (2 + length (utf8_encode DORK_CHECKPOINT_ADAPTER_ID)) +
     (2 + length (utf8_encode (dc_storyId cp))) + (32 + 8) +
     (4 + length (utf8_encode (dc_lastOutput cp))) + machine_size (dc_machine cp)"

definition valid_checkpoint :: "dork_checkpoint \<Rightarrow> bool" where
  "valid_checkpoint cp \<longleftrightarrow>
     dc_revision cp \<le> MAX_SAFE_INTEGER \<and>
     bounded_text DORK_CHECKPOINT_MAX_STORY_ID_BYTES False (dc_storyId cp) \<and>
     sha256_text (dc_artifactSha256 cp) \<and>
     bounded_text DORK_CHECKPOINT_MAX_LAST_OUTPUT_BYTES True (dc_lastOutput cp) \<and>
     valid_machine (dc_machine cp) \<and> checkpoint_size cp \<le> DORK_CHECKPOINT_MAX_TOTAL_BYTES"

section \<open>The run-time objects of typed values\<close>

definition story_js :: "cp_story \<Rightarrow> jsval" where
  "story_js s = JObj
     [(js ''version'', jnat 3), (js ''byteSwapped'', JBool (sy_byteSwapped s)),
      (js ''release'', jnat (sy_release s)), (js ''serial'', JStr (sy_serial s)),
      (js ''checksum'', jnat (sy_checksum s)), (js ''byteLength'', jnat (sy_byteLength s)),
      (js ''staticMemoryBase'', jnat (sy_staticMemoryBase s))]"

definition config_js :: "cp_config \<Rightarrow> jsval" where
  "config_js c = JObj
     [(js ''isTandy'', JBool (cf_isTandy c)), (js ''strict'', JBool (cf_strict c)),
      (js ''maxInstructions'', (case cf_maxInstructions c of None \<Rightarrow> JNull | Some n \<Rightarrow> jnat n)),
      (js ''maxInstructionsPerTurn'', jnat (cf_maxInstructionsPerTurn c)),
      (js ''ioCapabilities'', jnat (cf_ioCapabilities c))]"

definition frame_js :: "cp_frame \<Rightarrow> jsval" where
  "frame_js f = JObj
     [(js ''pc'', jnat (fr_pc f)), (js ''local'', JArr (map jint (fr_local f))),
      (js ''ds'', JArr (map jint (fr_ds f))), (js ''discardResult'', JBool (fr_discardResult f)),
      (js ''argCount'', jnat (fr_argCount f))]"

definition stream_js :: "cp_stream \<Rightarrow> jsval" where
  "stream_js s = JObj [(js ''base'', jnat (st_base s)), (js ''cursor'', jnat (st_cursor s))]"

definition pending_js :: "cp_pending \<Rightarrow> jsval" where
  "pending_js p = JObj
     [(js ''kind'', JStr (js ''line'')), (js ''instructionPc'', jnat (pd_instructionPc p)),
      (js ''continuationPc'', jnat (pd_continuationPc p)),
      (js ''textBuffer'', jnat (pd_textBuffer p)), (js ''parseBuffer'', jnat (pd_parseBuffer p)),
      (js ''maxLength'', jnat (pd_maxLength p))]"

definition machine_js :: "cp_machine \<Rightarrow> jsval" where
  "machine_js m = JObj
     [(js ''schemaVersion'', jnat 2), (js ''story'', story_js (ma_story m)),
      (js ''config'', config_js (ma_config m)),
      (js ''dynamicMemory'', JBytes (ma_dynamicMemory m)),
      (js ''dataStack'', JArr (map jint (ma_dataStack m))),
      (js ''callStack'', JArr (map frame_js (ma_callStack m))),
      (js ''rngMode'', jnat (ma_rngMode m)), (js ''gameplayState'', jnat (ma_gameplayState m)),
      (js ''reseedState'', jnat (ma_reseedState m)), (js ''savedFlags'', jint (ma_savedFlags m)),
      (js ''stream3'', JArr (map stream_js (ma_stream3 m))),
      (js ''instructionCount'', jnat (ma_instructionCount m)),
      (js ''turnInstructionCount'', jnat (ma_turnInstructionCount m)),
      (js ''pendingRead'', pending_js (ma_pendingRead m))]"

definition checkpoint_js :: "dork_checkpoint \<Rightarrow> jsval" where
  "checkpoint_js cp = JObj
     [(js ''schemaVersion'', jnat 2), (js ''runtimeId'', JStr DORK_CHECKPOINT_RUNTIME_ID),
      (js ''adapterId'', JStr DORK_CHECKPOINT_ADAPTER_ID), (js ''storyId'', JStr (dc_storyId cp)),
      (js ''artifactSha256'', JStr (dc_artifactSha256 cp)), (js ''revision'', jnat (dc_revision cp)),
      (js ''lastOutput'', JStr (dc_lastOutput cp)), (js ''machine'', machine_js (dc_machine cp))]"

definition prepared_checkpoint_of :: "dork_checkpoint \<Rightarrow> prepared_checkpoint" where
  "prepared_checkpoint_of cp = \<lparr>pk_input = cp,
     pk_runtimeId = utf8_encode DORK_CHECKPOINT_RUNTIME_ID,
     pk_adapterId = utf8_encode DORK_CHECKPOINT_ADAPTER_ID,
     pk_storyId = utf8_encode (dc_storyId cp), pk_artifactSha256 = hex_pairs (dc_artifactSha256 cp),
     pk_lastOutput = utf8_encode (dc_lastOutput cp),
     pk_serial = utf8_encode (sy_serial (ma_story (dc_machine cp))),
     pk_totalBytes = checkpoint_size cp\<rparr>"

section \<open>ASCII\<close>

lemma ascii_code_points:
  "list_all (\<lambda>u. u \<le> 0x7f) s \<Longrightarrow> code_points s = map unat s \<and> well_formed s"
proof (induction s)
  case (Cons u s)
  then have "\<not> is_high u" "\<not> is_low u" "lone u = unat u"
    by (simp_all add: is_high_unat is_low_unat lone_def word_le_nat_alt)
  with Cons show ?case by (simp add: lone_Cons)
qed simp

lemma ascii_encode:
  assumes "list_all (\<lambda>u. u \<le> 0x7f) s"
  shows "map unat (utf8_encode s) = map unat s"
proof -
  have "concat (map enc_cp (map unat s)) = map unat s"
    using assms by (induction s) (simp_all add: enc_cp_def word_le_nat_alt)
  then show ?thesis using ascii_code_points [OF assms] by (simp add: unat_utf8_encode)
qed

lemma ascii_points: "list_all (\<lambda>n. n \<le> 0x7f) (concat (map enc_cp cps)) \<Longrightarrow> list_all (\<lambda>n. n < 0x80) cps"
  by (induction cps) (auto simp: enc_cp_def split: if_splits)

lemma ascii_units: "list_all (\<lambda>n. n < 0x80) cps \<Longrightarrow>
    list_all (\<lambda>u. u \<le> 0x7f) (concat (map to_utf16 cps)) \<and> length (concat (map to_utf16 cps)) = length cps"
  by (induction cps) (simp_all add: to_utf16_def word_le_nat_alt unat_of_nat16)

lemma ascii_iff:
  "utf8.faithful s \<and> length (utf8_encode s) = n \<and> list_all (\<lambda>b. b \<le> 0x7f) (utf8_encode s) \<longleftrightarrow>
    length s = n \<and> list_all (\<lambda>u. u \<le> 0x7f) s"
proof
  assume *: "utf8.faithful s \<and> length (utf8_encode s) = n \<and> list_all (\<lambda>b. b \<le> 0x7f) (utf8_encode s)"
  then have "list_all (\<lambda>n. n \<le> 0x7f) (map unat (utf8_encode s))"
    by (simp add: list_all_iff word_le_nat_alt)
  then have "list_all (\<lambda>n. n < 0x80) (code_points s)"
    unfolding unat_utf8_encode by (rule ascii_points)
  from ascii_units [OF this] * have s: "list_all (\<lambda>u. u \<le> 0x7f) s"
    by (simp add: utf8_faithful_iff utf16_code_points)
  from arg_cong [OF ascii_encode [OF s], of length] * s
  show "length s = n \<and> list_all (\<lambda>u. u \<le> 0x7f) s" by simp
next
  assume *: "length s = n \<and> list_all (\<lambda>u. u \<le> 0x7f) s"
  then have e: "map unat (utf8_encode s) = map unat s" by (simp add: ascii_encode)
  from * have "list_all (\<lambda>k. k \<le> 0x7f) (map unat (utf8_encode s))"
    unfolding e by (simp add: list_all_iff word_le_nat_alt)
  moreover from arg_cong [OF e, of length] have "length (utf8_encode s) = length s" by simp
  ultimately show "utf8.faithful s \<and> length (utf8_encode s) = n \<and> list_all (\<lambda>b. b \<le> 0x7f) (utf8_encode s)"
    using * ascii_code_points [of s] by (simp add: list_all_iff word_le_nat_alt utf8_faithful_iff)
qed

section \<open>Checked values\<close>

text \<open>
  A check of untyped values that accepts exactly the run-time objects of valid values: whatever
  it returns is the prepared form of a valid value, and on the object of a value it succeeds
  exactly when that value is valid.
\<close>

locale checked_value =
  fixes check :: "jsval \<Rightarrow> codec_error + 'b"
    and to_js :: "'a \<Rightarrow> jsval"
    and valid :: "'a \<Rightarrow> bool"
    and prep :: "'a \<Rightarrow> 'b"
  assumes sound: "check v = Inr y \<Longrightarrow> \<exists>x. valid x \<and> y = prep x"
    and shown: "check (to_js x) = Inr y \<longleftrightarrow> valid x \<and> y = prep x"
begin

lemma accepts_iff: "(\<exists>y. check (to_js x) = Inr y) \<longleftrightarrow> valid x"
  by (simp add: shown)

lemma mapE_sound:
  "mapE check vs = Inr ys \<Longrightarrow> \<exists>xs. list_all valid xs \<and> ys = map prep xs \<and> length xs = length vs"
proof (induction vs arbitrary: ys)
  case (Cons v vs)
  then obtain y ys' where y: "check v = Inr y" "mapE check vs = Inr ys'" "ys = y # ys'"
    by (auto simp: bindE_Inr_iff)
  obtain x xs where "valid x" "y = prep x" "list_all valid xs" "ys' = map prep xs" "length xs = length vs"
    using sound [OF y(1)] Cons.IH [OF y(2)] by blast
  then show ?case by (intro exI [of _ "x # xs"]) (simp add: y)
qed simp

lemma mapE_shown: "mapE check (map to_js xs) = Inr ys \<longleftrightarrow> list_all valid xs \<and> ys = map prep xs"
  by (induction xs arbitrary: ys) (auto simp: bindE_Inr_iff shown)

end

interpretation word_check: checked_value requireInt16 jint int16 "\<lambda>x. x"
  by unfold_locales (auto simp: result_simps int16_def)

lemma valid_serial:
  assumes "valid_story s"
  shows "bounded_text SERIAL_BYTES True (sy_serial s)" "length (utf8_encode (sy_serial s)) = SERIAL_BYTES"
    "list_all (\<lambda>b. b \<le> 0x7f) (utf8_encode (sy_serial s))"
  using assms ascii_iff [of "sy_serial s" 6]
  by (auto simp: valid_story_def bounded_text_def checkpoint_limit_defs)

lemma serial_ascii:
  "bounded_text SERIAL_BYTES True t \<Longrightarrow> length (utf8_encode t) = SERIAL_BYTES \<Longrightarrow>
   list_all (\<lambda>b. b \<le> 0x7f) (utf8_encode t) \<Longrightarrow> length t = 6 \<and> list_all (\<lambda>u. u \<le> 0x7f) t"
  using ascii_iff [of t 6] by (simp add: bounded_text_def checkpoint_limit_defs)

interpretation story_check: checked_value prepareStory story_js valid_story "\<lambda>s. (s, utf8_encode (sy_serial s))"
proof (unfold_locales, goal_cases)
  case (1 v y)
  then show ?case
    by (auto simp: prepareStory_def result_simps valid_story_def dest: serial_ascii split: if_splits)
next
  case (2 x y)
  show ?case
  proof
    assume "prepareStory (story_js x) = Inr y"
    then show "valid_story x \<and> y = (x, utf8_encode (sy_serial x))"
      by (cases x) (auto simp: prepareStory_def story_js_def result_simps valid_story_def
        dest: serial_ascii split: if_splits)
  next
    assume "valid_story x \<and> y = (x, utf8_encode (sy_serial x))"
    with valid_serial [of x] show "prepareStory (story_js x) = Inr y"
      by (cases x) (auto simp: prepareStory_def story_js_def result_simps valid_story_def)
  qed
qed

interpretation config_check: checked_value prepareConfig config_js valid_config "\<lambda>c. c"
proof (unfold_locales, goal_cases)
  case (1 v y)
  then show ?case
    by (auto simp: prepareConfig_def result_simps valid_config_def split: if_splits)
next
  case (2 x y)
  show ?case
    by (cases x) (auto simp: prepareConfig_def config_js_def result_simps valid_config_def
        split: if_splits option.splits)
qed

interpretation stream_check: checked_value "prepareStream n" stream_js "valid_stream n" "\<lambda>s. s" for n
proof (unfold_locales, goal_cases)
  case (1 v y)
  then show ?case
    by (auto simp: prepareStream_def result_simps valid_stream_def not_less split: if_splits)
next
  case (2 x y)
  show ?case
    by (cases x) (auto simp: prepareStream_def stream_js_def result_simps valid_stream_def not_less)
qed

interpretation pending_check: checked_value "preparePendingRead n mem" pending_js "valid_pending n mem" "\<lambda>p. p" for n mem
proof (unfold_locales, goal_cases)
  case (1 v y)
  then show ?case
    by (auto simp: preparePendingRead_def result_simps valid_pending_def not_less split: if_splits)
next
  case (2 x y)
  show ?case
    by (cases x) (auto simp: preparePendingRead_def pending_js_def result_simps valid_pending_def not_less)
qed

section \<open>Stacks and streams\<close>

lemma mapE_words_sound:
  "mapE requireInt16 vs = Inr ws \<Longrightarrow> list_all int16 ws \<and> length ws = length vs"
  by (auto dest: word_check.mapE_sound)

lemma mapE_words_shown: "mapE requireInt16 (map jint xs) = Inr ys \<longleftrightarrow> list_all int16 xs \<and> ys = xs"
  by (simp add: word_check.mapE_shown)

interpretation data_stack_check: checked_value prepareDataStack "\<lambda>ws. JArr (map jint ws)"
  "\<lambda>ws. length ws \<le> DORK_CHECKPOINT_MAX_TOTAL_STACK_WORDS \<and> list_all int16 ws" "\<lambda>ws. ws"
  by unfold_locales
     (auto simp: prepareDataStack_def result_simps not_less mapE_words_shown simp del: mapE_Inr_iff
       dest: mapE_words_sound split: if_splits)

interpretation stream3_check: checked_value "prepareStream3 n" "\<lambda>ss. JArr (map stream_js ss)"
  "\<lambda>ss. length ss \<le> DORK_CHECKPOINT_MAX_STREAM_DEPTH \<and> list_all (valid_stream n) ss" "\<lambda>ss. ss" for n
  by unfold_locales
     (auto simp: prepareStream3_def result_simps not_less stream_check.mapE_shown simp del: mapE_Inr_iff
       dest: stream_check.mapE_sound split: if_splits)

interpretation frame_check: checked_value "prepareFrame n agg" frame_js
  "\<lambda>f. valid_frame n f \<and> agg + frame_words f \<le> DORK_CHECKPOINT_MAX_TOTAL_STACK_WORDS"
  "\<lambda>f. (f, agg + frame_words f)" for n agg
proof (unfold_locales, goal_cases)
  case (1 v y)
  then show ?case
    by (auto simp: prepareFrame_def result_simps valid_frame_def frame_words_def Let_def not_less
        simp del: mapE_Inr_iff dest!: mapE_words_sound split: if_splits)
next
  case (2 x y)
  show ?case
    by (cases x) (auto simp: prepareFrame_def frame_js_def result_simps valid_frame_def frame_words_def
        Let_def not_less mapE_words_shown simp del: mapE_Inr_iff split: if_splits)
qed

interpretation frames_check: checked_value "prepareCallStack n agg" "\<lambda>fs. JArr (map frame_js fs)"
  "\<lambda>fs. length fs \<le> DORK_CHECKPOINT_MAX_CALL_FRAMES \<and> list_all (valid_frame n) fs \<and>
     (fs = [] \<or> agg + stack_words fs \<le> DORK_CHECKPOINT_MAX_TOTAL_STACK_WORDS)" "\<lambda>fs. fs" for n agg
proof -
  have sound: "list_all (valid_frame n) fs \<and> length fs = length vs \<and>
      (fs = [] \<or> agg + stack_words fs \<le> DORK_CHECKPOINT_MAX_TOTAL_STACK_WORDS)"
    if "prepareFrames n agg vs = Inr fs" for agg vs fs
    using that
  proof (induction vs arbitrary: agg fs)
    case (Cons v vs)
    then obtain f a gs where f: "prepareFrame n agg v = Inr (f, a)" "prepareFrames n a vs = Inr gs" "fs = f # gs"
      by (auto simp: bindE_Inr_iff)
    from frame_check.sound [OF f(1)] Cons.IH [OF f(2)] show ?case
      by (auto simp: f(3) add.assoc)
  qed simp
  have shown: "prepareFrames n agg (map frame_js fs) = Inr gs \<longleftrightarrow> list_all (valid_frame n) fs \<and> gs = fs \<and>
      (fs = [] \<or> agg + stack_words fs \<le> DORK_CHECKPOINT_MAX_TOTAL_STACK_WORDS)" for agg fs gs
  proof (induction fs arbitrary: agg gs)
    case (Cons f fs)
    show ?case
      by (auto simp: bindE_Inr_iff frame_check.shown Cons.IH add.assoc)
  qed auto
  show "checked_value (prepareCallStack n agg) (\<lambda>fs. JArr (map frame_js fs))
     (\<lambda>fs. length fs \<le> DORK_CHECKPOINT_MAX_CALL_FRAMES \<and> list_all (valid_frame n) fs \<and>
       (fs = [] \<or> agg + stack_words fs \<le> DORK_CHECKPOINT_MAX_TOTAL_STACK_WORDS)) (\<lambda>fs. fs)"
    by unfold_locales
       (auto simp: prepareCallStack_def result_simps not_less shown dest: sound split: if_splits)
qed

lemma checkCounts_iff [result_simps]:
  "checkCounts c i t = Inr u \<longleftrightarrow> t \<le> cf_maxInstructionsPerTurn c \<and>
     (\<forall>m. cf_maxInstructions c = Some m \<longrightarrow> t \<le> i \<and> i \<le> m)"
  by (cases "cf_maxInstructions c") (auto simp: checkCounts_def not_less)

section \<open>The machine and the envelope\<close>

lemma checkpointAddSizes_iff:
  "t \<le> DORK_CHECKPOINT_MAX_TOTAL_BYTES \<Longrightarrow>
   checkpointAddSizes t ns = Inr k \<longleftrightarrow> k = t + sum_list ns \<and> k \<le> DORK_CHECKPOINT_MAX_TOTAL_BYTES"
proof (induction ns arbitrary: t)
  case (Cons n ns)
  show ?case
  proof (cases "t + n \<le> DORK_CHECKPOINT_MAX_TOTAL_BYTES")
    case True
    then have "checkpointAddSize t n = Inr (t + n)"
      by (simp add: checkpointAddSize_def addSize_def checkpoint_limit_defs MAX_SAFE_INTEGER_def)
    with Cons.IH [OF True] show ?thesis by (simp add: add.assoc)
  next
    case False
    then show ?thesis by (auto simp: checkpointAddSize_def addSize_def result_simps)
  qed
qed auto

interpretation machine_check: checked_value prepareMachine machine_js valid_machine
  "\<lambda>m. (m, utf8_encode (sy_serial (ma_story m)))"
proof (unfold_locales, goal_cases)
  case (1 v y)
  obtain mem where mem: "getProp v ''dynamicMemory'' = JBytes mem"
    using 1 by (cases "getProp v ''dynamicMemory''") (auto simp: prepareMachine_def bindE_Inr_iff)
  from 1 show ?case
    unfolding prepareMachine_def mem jsval.case
    by (auto simp: bindE_Inr_iff ensure_Inr_iff require_uint_iff requireInt16_iff checkCounts_iff
        valid_machine_def valid_stacks_def valid_counts_def split: if_splits
        dest!: story_check.sound config_check.sound data_stack_check.sound frames_check.sound stream3_check.sound pending_check.sound)
next
  case (2 x y)
  show ?case
    by (cases x)
       (auto simp: prepareMachine_def machine_js_def bindE_Inr_iff ensure_Inr_iff require_uint_iff
        require_shape_iff requireInt16_iff checkCounts_iff valid_machine_def valid_stacks_def valid_counts_def
        MACHINE_SCHEMA_VERSION_def story_check.shown config_check.shown data_stack_check.shown frames_check.shown stream3_check.shown
        pending_check.shown int16_getInt16 [unfolded int16_def] split: if_splits)
qed

lemma identity_texts [simp]:
  "bounded_text MAX_IDENTITY_BYTES False DORK_CHECKPOINT_RUNTIME_ID"
  "bounded_text MAX_IDENTITY_BYTES False DORK_CHECKPOINT_ADAPTER_ID"
  unfolding bounded_text_def utf8_faithful_iff by code_simp+

lemma amounts_total:
  "pk_input p = cp \<Longrightarrow> pk_runtimeId p = utf8_encode DORK_CHECKPOINT_RUNTIME_ID \<Longrightarrow>
   pk_adapterId p = utf8_encode DORK_CHECKPOINT_ADAPTER_ID \<Longrightarrow> pk_storyId p = utf8_encode (dc_storyId cp) \<Longrightarrow>
   length (pk_artifactSha256 p) = 32 \<Longrightarrow> pk_lastOutput p = utf8_encode (dc_lastOutput cp) \<Longrightarrow>
   pk_serial p = utf8_encode (sy_serial (ma_story (dc_machine cp))) \<Longrightarrow>
   DORK_CHECKPOINT_FIXED_HEADER_BYTES + sum_list (checkpointAmounts p) = checkpoint_size cp"
  by (simp add: checkpointAmounts_def checkpoint_size_def machine_size_def Let_def)

interpretation envelope_check: checked_value prepareCheckpoint checkpoint_js valid_checkpoint prepared_checkpoint_of
proof -
  have sizes: "checkpointAddSizes DORK_CHECKPOINT_FIXED_HEADER_BYTES (checkpointAmounts p) = Inr k \<longleftrightarrow>
      k = DORK_CHECKPOINT_FIXED_HEADER_BYTES + sum_list (checkpointAmounts p) \<and>
      k \<le> DORK_CHECKPOINT_MAX_TOTAL_BYTES" for p k
    by (rule checkpointAddSizes_iff) (simp add: checkpoint_limit_defs)
  have total: "DORK_CHECKPOINT_FIXED_HEADER_BYTES + sum_list (checkpointAmounts
      \<lparr>pk_input = cp, pk_runtimeId = utf8_encode DORK_CHECKPOINT_RUNTIME_ID,
       pk_adapterId = utf8_encode DORK_CHECKPOINT_ADAPTER_ID, pk_storyId = utf8_encode (dc_storyId cp),
       pk_artifactSha256 = hex_pairs (dc_artifactSha256 cp), pk_lastOutput = utf8_encode (dc_lastOutput cp),
       pk_serial = utf8_encode (sy_serial (ma_story (dc_machine cp))), pk_totalBytes = 0\<rparr>) = checkpoint_size cp"
    if "sha256_text (dc_artifactSha256 cp)" for cp
    using that by (intro amounts_total) (simp_all add: sha256_bytes)
  show "checked_value prepareCheckpoint checkpoint_js valid_checkpoint prepared_checkpoint_of"
  proof (unfold_locales, goal_cases)
    case (1 v y)
    then obtain cp where
      y: "y = prepared_checkpoint_of cp\<lparr>pk_totalBytes := pk_totalBytes y\<rparr>" and
      cp: "dc_revision cp \<le> MAX_SAFE_INTEGER" "sha256_text (dc_artifactSha256 cp)"
       "bounded_text DORK_CHECKPOINT_MAX_STORY_ID_BYTES False (dc_storyId cp)"
       "bounded_text DORK_CHECKPOINT_MAX_LAST_OUTPUT_BYTES True (dc_lastOutput cp)"
       "valid_machine (dc_machine cp)" and
      k: "checkpointAddSizes DORK_CHECKPOINT_FIXED_HEADER_BYTES
        (checkpointAmounts (prepared_checkpoint_of cp\<lparr>pk_totalBytes := 0\<rparr>)) = Inr (pk_totalBytes y)"
      unfolding prepareCheckpoint_def Let_def
      by (auto simp: bindE_Inr_iff ensure_Inr_iff require_uint_iff require_shape_iff encodeBoundedUtf8_iff
          hexToBytes_iff prepared_checkpoint_of_def dest!: machine_check.sound)
    have "pk_totalBytes y = checkpoint_size cp \<and> checkpoint_size cp \<le> DORK_CHECKPOINT_MAX_TOTAL_BYTES"
      using k total [OF cp(2)] by (auto simp: sizes prepared_checkpoint_of_def)
    with y cp show ?case
      by (intro exI [of _ cp]) (auto simp: valid_checkpoint_def prepared_checkpoint_of_def)
  next
    case (2 cp y)
    have whole: "\<lparr>dc_storyId = dc_storyId cp, dc_artifactSha256 = dc_artifactSha256 cp,
        dc_revision = dc_revision cp, dc_lastOutput = dc_lastOutput cp, dc_machine = dc_machine cp\<rparr> = cp"
      by (cases cp) simp
    show ?case
      by (auto simp: prepareCheckpoint_def checkpoint_js_def Let_def bindE_Inr_iff ensure_Inr_iff
          require_uint_iff require_shape_iff encodeBoundedUtf8_iff hexToBytes_iff machine_check.shown sizes
          valid_checkpoint_def prepared_checkpoint_of_def DORK_CHECKPOINT_SCHEMA_VERSION_def
          total whole)
  qed
qed

end
