(* ===== verification/Checkpoint_Wire.thy ===== *)
theory Checkpoint_Wire
  imports Checkpoint_Valid
begin

text \<open>
  The byte layout of \<open>spikes/dork-worker/checkpoint-envelope.ts\<close>:
  \<open>encodeDorkCheckpointEnvelope\<close> as the concatenation of what its writer appends, and
  \<open>parseEnvelope\<close> with \<open>decodeDorkCheckpointEnvelope\<close> as readers over offset and remaining
  bytes, one definition per part of the checkpoint.  An error carries the offset the source
  passes to \<open>fail\<close>, or none where it passes none.
\<close>

section \<open>Writing\<close>

definition checkpointMagicBytes :: "byte list" where
  "checkpointMagicBytes = utf8_encode (js ''ZVDORKCP'')"

definition put_bool :: "bool \<Rightarrow> byte list" where
  "put_bool b = put_u8 (if b then 1 else 0)"

definition shortBytes :: "byte list \<Rightarrow> byte list" where
  "shortBytes bs = put_u16 (length bs) @ bs"

definition writeStory :: "cp_story \<Rightarrow> byte list \<Rightarrow> byte list" where
  "writeStory story serial =
     put_u8 3 @
     put_bool (sy_byteSwapped story) @
     put_u16 (sy_release story) @
     put_u8 (length serial) @
     put_u8 0 @
     put_u16 (sy_checksum story) @
     put_u32 (sy_byteLength story) @
     put_u32 (sy_staticMemoryBase story) @
     serial"

definition writeConfig :: "cp_config \<Rightarrow> byte list" where
  "writeConfig config =
     put_bool (cf_isTandy config) @
     put_bool (cf_strict config) @
     put_u8 (if cf_maxInstructions config = None then 0 else 1) @
     put_u8 0 @
     put_u64 (case cf_maxInstructions config of None \<Rightarrow> 0 | Some n \<Rightarrow> n) @
     put_u64 (cf_maxInstructionsPerTurn config) @
     put_u32 (cf_ioCapabilities config)"

definition writeWords :: "int list \<Rightarrow> byte list" where
  "writeWords ws = concat (map put_i16 ws)"

definition writeFrame :: "cp_frame \<Rightarrow> byte list" where
  "writeFrame frame =
     put_u32 (fr_pc frame) @
     put_u8 (length (fr_local frame)) @
     put_bool (fr_discardResult frame) @
     put_u8 (fr_argCount frame) @
     put_u8 0 @
     put_u32 (length (fr_ds frame)) @
     writeWords (fr_local frame) @
     writeWords (fr_ds frame)"

definition writeStacks :: "cp_machine \<Rightarrow> byte list" where
  "writeStacks machine =
     put_u32 (length (ma_dynamicMemory machine)) @
     ma_dynamicMemory machine @
     put_u32 (length (ma_dataStack machine)) @
     writeWords (ma_dataStack machine) @
     put_u32 (length (ma_callStack machine)) @
     concat (map writeFrame (ma_callStack machine))"

definition writeStream :: "cp_stream \<Rightarrow> byte list" where
  "writeStream stream = put_u32 (st_base stream) @ put_u32 (st_cursor stream)"

definition writeState :: "cp_machine \<Rightarrow> byte list" where
  "writeState machine =
     put_u32 (ma_gameplayState machine) @
     put_u32 (ma_reseedState machine) @
     put_i16 (ma_savedFlags machine) @
     put_u8 (ma_rngMode machine) @
     put_u8 0 @
     put_u32 (length (ma_stream3 machine)) @
     concat (map writeStream (ma_stream3 machine)) @
     put_u64 (ma_instructionCount machine) @
     put_u64 (ma_turnInstructionCount machine)"

definition writePendingRead :: "cp_pending \<Rightarrow> byte list" where
  "writePendingRead pendingRead =
     put_u8 PENDING_READ_LINE @
     put_u8 0 @
     put_u16 0 @
     put_u32 (pd_instructionPc pendingRead) @
     put_u32 (pd_continuationPc pendingRead) @
     put_u32 (pd_textBuffer pendingRead) @
     put_u32 (pd_parseBuffer pendingRead) @
     put_u32 (pd_maxLength pendingRead)"

definition writeMachine :: "cp_machine \<Rightarrow> byte list \<Rightarrow> byte list" where
  "writeMachine machine serial =
     put_u16 MACHINE_SCHEMA_VERSION @
     put_u16 0 @
     writeStory (ma_story machine) serial @
     writeConfig (ma_config machine) @
     writeStacks machine @
     writeState machine @
     writePendingRead (ma_pendingRead machine)"

definition writeCheckpoint :: "prepared_checkpoint \<Rightarrow> byte list" where
  "writeCheckpoint prepared =
     checkpointMagicBytes @
     put_u16 DORK_CHECKPOINT_SCHEMA_VERSION @
     put_u16 0 @
     put_u32 (pk_totalBytes prepared) @
     shortBytes (pk_runtimeId prepared) @
     shortBytes (pk_adapterId prepared) @
     shortBytes (pk_storyId prepared) @
     pk_artifactSha256 prepared @
     put_u64 (dc_revision (pk_input prepared)) @
     put_u32 (length (pk_lastOutput prepared)) @
     pk_lastOutput prepared @
     writeMachine (dc_machine (pk_input prepared)) (pk_serial prepared)"

text \<open>As in the snapshot codec, a buffer of another size than what was written is the error.\<close>

definition encodeDorkCheckpointEnvelope :: "jsval \<Rightarrow> codec_error + byte list" where
  "encodeDorkCheckpointEnvelope v =
     bindE (prepareCheckpoint v) (\<lambda>prepared.
       let written = writeCheckpoint prepared in
       if length written \<noteq> pk_totalBytes prepared then Inl (fail InvalidInput) else Inr written)"

section \<open>Reading: leaves\<close>

definition readBoolean :: "reader \<Rightarrow> bool parse" where
  "readBoolean r = bindE (get_u8 r) (\<lambda>(v, r').
     if v \<noteq> 0 \<and> v \<noteq> 1 then Inl (fail_at InvalidValue (fst r)) else Inr (v = 1, r'))"

definition readShortUtf8 :: "nat \<Rightarrow> bool \<Rightarrow> reader \<Rightarrow> js parse" where
  "readShortUtf8 maximumBytes allowEmpty r =
     bindE (get_u16 r) (\<lambda>(n, r'). readBoundedUtf8 n maximumBytes allowEmpty r')"

definition assertCheckpointMagic :: "byte list \<Rightarrow> codec_error + unit" where
  "assertCheckpointMagic actual = ensure (actual = checkpointMagicBytes) (fail_at InvalidMagic 0)"

definition assertAddress :: "nat \<Rightarrow> nat \<Rightarrow> nat \<Rightarrow> codec_error + unit" where
  "assertAddress value byteLength off =
     (if byteLength \<le> value then Inl (fail_at InvalidValue off) else Inr ())"

definition readWords :: "nat \<Rightarrow> reader \<Rightarrow> int list parse" where
  "readWords n = get_many n get_i16"

section \<open>Reading: the parts of a machine\<close>

definition readStory :: "reader \<Rightarrow> cp_story parse" where
  "readStory r0 =
     bindE (get_u8 r0) (\<lambda>(storyVersion, r1).
     bindE (ensure (storyVersion = 3) (fail_at InvalidValue (fst r0))) (\<lambda>_.
     bindE (readBoolean r1) (\<lambda>(byteSwapped, r2).
     bindE (get_u16 r2) (\<lambda>(release, r3).
     bindE (get_u8 r3) (\<lambda>(serialLength, r4).
     bindE (readReservedU8 r4) (\<lambda>(_, r5).
     bindE (get_u16 r5) (\<lambda>(checksum, r6).
     bindE (get_u32 r6) (\<lambda>(byteLength, r7).
     bindE (get_u32 r7) (\<lambda>(staticMemoryBase, r8).
     if byteLength < 64 then Inl (fail InvalidValue)
     else if staticMemoryBase < 64 \<or> UINT16_MAX < staticMemoryBase \<or> byteLength < staticMemoryBase
     then Inl (fail InvalidValue)
     else
       bindE (readBoundedUtf8 serialLength SERIAL_BYTES True r8) (\<lambda>(serial, r9).
       if serialLength \<noteq> SERIAL_BYTES \<or> length serial \<noteq> SERIAL_BYTES \<or> \<not> list_all (\<lambda>u. u \<le> 0x7f) serial
       then Inl (fail InvalidValue)
       else Inr (\<lparr>sy_byteSwapped = byteSwapped, sy_release = release, sy_serial = serial,
              sy_checksum = checksum, sy_byteLength = byteLength,
              sy_staticMemoryBase = staticMemoryBase\<rparr>, r9)))))))))))"

definition readConfig :: "reader \<Rightarrow> cp_config parse" where
  "readConfig r0 =
     bindE (readBoolean r0) (\<lambda>(isTandy, r1).
     bindE (readBoolean r1) (\<lambda>(strict, r2).
     bindE (get_u8 r2) (\<lambda>(hasMaxInstructions, r3).
     bindE (ensure (hasMaxInstructions = 0 \<or> hasMaxInstructions = 1) (fail_at InvalidValue (fst r2))) (\<lambda>_.
     bindE (readReservedU8 r3) (\<lambda>(_, r4).
     bindE (safeU64 r4) (\<lambda>(encodedMaxInstructions, r5).
     if hasMaxInstructions = 0 \<and> encodedMaxInstructions \<noteq> 0 then Inl (fail InvalidValue)
     else if hasMaxInstructions = 1 \<and> encodedMaxInstructions < 1 then Inl (fail InvalidValue)
     else
       bindE (safeU64 r5) (\<lambda>(maxInstructionsPerTurn, r6).
       if maxInstructionsPerTurn < 1 then Inl (fail InvalidValue)
       else
         bindE (get_u32 r6) (\<lambda>(ioCapabilities, r7).
         Inr (\<lparr>cf_isTandy = isTandy, cf_strict = strict,
               cf_maxInstructions = (if hasMaxInstructions = 1 then Some encodedMaxInstructions else None),
               cf_maxInstructionsPerTurn = maxInstructionsPerTurn,
               cf_ioCapabilities = ioCapabilities\<rparr>, r7)))))))))"

definition readDynamicMemory :: "nat \<Rightarrow> reader \<Rightarrow> byte list parse" where
  "readDynamicMemory staticMemoryBase r0 =
     bindE (get_u32 r0) (\<lambda>(dynamicMemoryLength, r1).
     if dynamicMemoryLength \<noteq> staticMemoryBase then Inl (fail_at InvalidValue (fst r0))
     else if DORK_CHECKPOINT_MAX_TOTAL_BYTES < dynamicMemoryLength then Inl (fail LimitExceeded)
     else get_bytes dynamicMemoryLength r1)"

definition readDataStack :: "reader \<Rightarrow> int list parse" where
  "readDataStack r0 =
     bindE (get_u32 r0) (\<lambda>(dataStackCount, r1).
     if DORK_CHECKPOINT_MAX_TOTAL_STACK_WORDS < dataStackCount then Inl (fail_at LimitExceeded (fst r0))
     else readWords dataStackCount r1)"

definition readFrame :: "nat \<Rightarrow> nat \<Rightarrow> reader \<Rightarrow> (cp_frame \<times> nat) parse" where
  "readFrame byteLength aggregateStackWords r0 =
     bindE (get_u32 r0) (\<lambda>(pc, r1).
     bindE (assertAddress pc byteLength (fst r0)) (\<lambda>_.
     bindE (get_u8 r1) (\<lambda>(localCount, r2).
     if DORK_CHECKPOINT_MAX_LOCALS < localCount then Inl (fail_at LimitExceeded (fst r1))
     else
       bindE (readBoolean r2) (\<lambda>(discardResult, r3).
       bindE (get_u8 r3) (\<lambda>(argCount, r4).
       if 7 < argCount then Inl (fail_at InvalidValue (fst r3))
       else
         bindE (readReservedU8 r4) (\<lambda>(_, r5).
         bindE (get_u32 r5) (\<lambda>(frameStackCount, r6).
         if DORK_CHECKPOINT_MAX_FRAME_STACK_WORDS < frameStackCount
         then Inl (fail_at LimitExceeded (fst r5))
         else
           let aggregate = aggregateStackWords + (localCount + frameStackCount) in
           if DORK_CHECKPOINT_MAX_TOTAL_STACK_WORDS < aggregate then Inl (fail LimitExceeded)
           else
             bindE (readWords localCount r6) (\<lambda>(local_words, r7).
             bindE (readWords frameStackCount r7) (\<lambda>(ds_words, r8).
             Inr ((\<lparr>fr_pc = pc, fr_local = local_words, fr_ds = ds_words,
                    fr_discardResult = discardResult, fr_argCount = argCount\<rparr>, aggregate), r8))))))))))"

fun readFrames :: "nat \<Rightarrow> nat \<Rightarrow> nat \<Rightarrow> reader \<Rightarrow> cp_frame list parse" where
  "readFrames 0 byteLength aggregate r = Inr ([], r)"
| "readFrames (Suc n) byteLength aggregate r =
     bindE (readFrame byteLength aggregate r) (\<lambda>((frame, aggregate'), r1).
     bindE (readFrames n byteLength aggregate' r1) (\<lambda>(frames, r2). Inr (frame # frames, r2)))"

definition readCallStack :: "nat \<Rightarrow> nat \<Rightarrow> reader \<Rightarrow> cp_frame list parse" where
  "readCallStack byteLength aggregateStackWords r0 =
     bindE (get_u32 r0) (\<lambda>(callStackCount, r1).
     if DORK_CHECKPOINT_MAX_CALL_FRAMES < callStackCount then Inl (fail_at LimitExceeded (fst r0))
     else readFrames callStackCount byteLength aggregateStackWords r1)"

record cp_registers = \<comment> \<open>the four scalars between the stacks and the streams\<close>
  rg_gameplayState :: nat
  rg_reseedState :: nat
  rg_savedFlags :: int
  rg_rngMode :: nat

definition readRegisters :: "byte list \<Rightarrow> bool \<Rightarrow> reader \<Rightarrow> cp_registers parse" where
  "readRegisters mem byteSwapped r0 =
     bindE (get_u32 r0) (\<lambda>(gameplayState, r1).
     bindE (get_u32 r1) (\<lambda>(reseedState, r2).
     bindE (get_i16 r2) (\<lambda>(savedFlags, r3).
     bindE (get_u8 r3) (\<lambda>(rngMode, r4).
     if rngMode \<noteq> 0 \<and> rngMode \<noteq> 1 then Inl (fail_at InvalidValue (fst r3))
     else
       bindE (readReservedU8 r4) (\<lambda>(_, r5).
       if getInt16 mem 16 byteSwapped \<noteq> savedFlags then Inl (fail InvalidValue)
       else Inr (\<lparr>rg_gameplayState = gameplayState, rg_reseedState = reseedState,
              rg_savedFlags = savedFlags, rg_rngMode = rngMode\<rparr>, r5))))))"

definition readStream :: "nat \<Rightarrow> reader \<Rightarrow> cp_stream parse" where
  "readStream dynamicMemoryLength r0 =
     bindE (get_u32 r0) (\<lambda>(base, r1).
     bindE (get_u32 r1) (\<lambda>(cursor, r2).
     if dynamicMemoryLength < base + 2 \<or> cursor < base + 2 \<or> dynamicMemoryLength < cursor
     then Inl (fail InvalidValue)
     else Inr (\<lparr>st_base = base, st_cursor = cursor\<rparr>, r2)))"

definition readStream3 :: "nat \<Rightarrow> reader \<Rightarrow> cp_stream list parse" where
  "readStream3 dynamicMemoryLength r0 =
     bindE (get_u32 r0) (\<lambda>(streamCount, r1).
     if DORK_CHECKPOINT_MAX_STREAM_DEPTH < streamCount then Inl (fail_at LimitExceeded (fst r0))
     else get_many streamCount (readStream dynamicMemoryLength) r1)"

definition readCounts :: "cp_config \<Rightarrow> reader \<Rightarrow> (nat \<times> nat) parse" where
  "readCounts config r0 =
     bindE (safeU64 r0) (\<lambda>(instructionCount, r1).
     bindE (safeU64 r1) (\<lambda>(turnInstructionCount, r2).
     bindE (checkCounts config instructionCount turnInstructionCount) (\<lambda>_.
     Inr ((instructionCount, turnInstructionCount), r2))))"

definition readPendingRead :: "nat \<Rightarrow> byte list \<Rightarrow> reader \<Rightarrow> cp_pending parse" where
  "readPendingRead byteLength mem r0 =
     bindE (get_u8 r0) (\<lambda>(kind, r1).
     bindE (ensure (kind = PENDING_READ_LINE) (fail_at InvalidValue (fst r0))) (\<lambda>_.
     bindE (readReservedU8 r1) (\<lambda>(_, r2).
     bindE (readReservedU16 r2) (\<lambda>(_, r3).
     bindE (get_u32 r3) (\<lambda>(instructionPc, r4).
     bindE (assertAddress instructionPc byteLength (fst r3)) (\<lambda>_.
     bindE (get_u32 r4) (\<lambda>(continuationPc, r5).
     bindE (assertAddress continuationPc byteLength (fst r4)) (\<lambda>_.
     if continuationPc \<le> instructionPc then Inl (fail_at InvalidValue (fst r4))
     else
       bindE (get_u32 r5) (\<lambda>(textBuffer, r6).
       bindE (assertAddress textBuffer (length mem) (fst r5)) (\<lambda>_.
       bindE (get_u32 r6) (\<lambda>(parseBuffer, r7).
       bindE (assertAddress parseBuffer (length mem) (fst r6)) (\<lambda>_.
       if parseBuffer = 0 then Inl (fail_at InvalidValue (fst r6))
       else
         bindE (get_u32 r7) (\<lambda>(maxLength, r8).
         if maxLength < 1 \<or> 0xff < maxLength then Inl (fail_at InvalidValue (fst r7))
         else if instructionPc < length mem \<and> unat (mem ! instructionPc) \<noteq> 228
         then Inl (fail_at InvalidValue (fst r3))
         else if unat (mem ! textBuffer) \<noteq> maxLength then Inl (fail_at InvalidValue (fst r7))
         else if length mem < textBuffer + maxLength + 1 then Inl (fail InvalidValue)
         else if length mem < parseBuffer + 2 + unat (mem ! parseBuffer) * 4
         then Inl (fail_at InvalidValue (fst r6))
         else Inr (\<lparr>pd_instructionPc = instructionPc, pd_continuationPc = continuationPc,
                pd_textBuffer = textBuffer, pd_parseBuffer = parseBuffer,
                pd_maxLength = maxLength\<rparr>, r8))))))))))))))"

section \<open>Reading: the machine and the envelope\<close>

definition readMachine :: "reader \<Rightarrow> cp_machine parse" where
  "readMachine r0 =
     bindE (get_u16 r0) (\<lambda>(machineSchema, r1).
     bindE (ensure (machineSchema = MACHINE_SCHEMA_VERSION) (fail_at UnsupportedVersion (fst r0))) (\<lambda>_.
     bindE (readReservedU16 r1) (\<lambda>(_, r2).
     bindE (readStory r2) (\<lambda>(story, r3).
     bindE (readConfig r3) (\<lambda>(config, r4).
     bindE (readDynamicMemory (sy_staticMemoryBase story) r4) (\<lambda>(mem, r5).
     bindE (readDataStack r5) (\<lambda>(dataStack, r6).
     bindE (readCallStack (sy_byteLength story) (length dataStack) r6) (\<lambda>(callStack, r7).
     bindE (readRegisters mem (sy_byteSwapped story) r7) (\<lambda>(registers, r8).
     bindE (readStream3 (length mem) r8) (\<lambda>(stream3, r9).
     bindE (readCounts config r9) (\<lambda>((instructionCount, turnInstructionCount), r10).
     bindE (readPendingRead (sy_byteLength story) mem r10) (\<lambda>(pendingRead, r11).
     Inr (\<lparr>ma_story = story, ma_config = config, ma_dynamicMemory = mem, ma_dataStack = dataStack,
           ma_callStack = callStack, ma_rngMode = rg_rngMode registers,
           ma_gameplayState = rg_gameplayState registers, ma_reseedState = rg_reseedState registers,
           ma_savedFlags = rg_savedFlags registers, ma_stream3 = stream3,
           ma_instructionCount = instructionCount, ma_turnInstructionCount = turnInstructionCount,
           ma_pendingRead = pendingRead\<rparr>, r11)))))))))))))"

definition readHeader :: "nat \<Rightarrow> reader \<Rightarrow> unit parse" where
  "readHeader byteLength r0 =
     bindE (get_bytes (length checkpointMagicBytes) r0) (\<lambda>(m, r1).
     bindE (assertCheckpointMagic m) (\<lambda>_.
     bindE (get_u16 r1) (\<lambda>(version, r2).
     bindE (ensure (version = DORK_CHECKPOINT_SCHEMA_VERSION) (fail_at UnsupportedVersion (fst r1))) (\<lambda>_.
     bindE (readReservedU16 r2) (\<lambda>(_, r3).
     bindE (get_u32 r3) (\<lambda>(declaredTotal, r4).
     bindE (ensure (declaredTotal = byteLength) (fail_at InvalidTotalLength (fst r3))) (\<lambda>_.
     Inr ((), r4))))))))"

definition readIdentities :: "reader \<Rightarrow> js parse" where \<comment> \<open>returns the story id\<close>
  "readIdentities r0 =
     bindE (readShortUtf8 MAX_IDENTITY_BYTES False r0) (\<lambda>(runtimeId, r1).
     bindE (ensure (runtimeId = DORK_CHECKPOINT_RUNTIME_ID) (fail_at IncompatibleRuntime (fst r0))) (\<lambda>_.
     bindE (readShortUtf8 MAX_IDENTITY_BYTES False r1) (\<lambda>(adapterId, r2).
     bindE (ensure (adapterId = DORK_CHECKPOINT_ADAPTER_ID) (fail_at IncompatibleAdapter (fst r1))) (\<lambda>_.
     readShortUtf8 DORK_CHECKPOINT_MAX_STORY_ID_BYTES False r2))))"

text \<open>
  The first pass (\<open>materialize\<close> false) reads and checks everything and stores nothing; the
  second stores what it reads.  Which words are stored does not influence the checks.
\<close>

definition parseEnvelope :: "byte list \<Rightarrow> bool \<Rightarrow> codec_error + dork_checkpoint option" where
  "parseEnvelope bytes materialize =
     bindE (readHeader (length bytes) (0, bytes)) (\<lambda>(_, r1).
     bindE (readIdentities r1) (\<lambda>(storyId, r2).
     bindE (get_bytes 32 r2) (\<lambda>(sha, r3).
     bindE (safeU64 r3) (\<lambda>(revision, r4).
     bindE (get_u32 r4) (\<lambda>(lastOutputLength, r5).
     bindE (readBoundedUtf8 lastOutputLength DORK_CHECKPOINT_MAX_LAST_OUTPUT_BYTES True r5)
       (\<lambda>(lastOutput, r6).
     bindE (readMachine r6) (\<lambda>(machine, r7).
     if remaining r7 \<noteq> 0 then Inl (fail_at TrailingBytes (fst r7))
     else if \<not> materialize then Inr None
     else Inr (Some \<lparr>dc_storyId = storyId, dc_artifactSha256 = bytesToHex sha, dc_revision = revision,
            dc_lastOutput = lastOutput, dc_machine = machine\<rparr>))))))))"

definition decodeDorkCheckpointEnvelope :: "jsval \<Rightarrow> codec_error + dork_checkpoint" where
  "decodeDorkCheckpointEnvelope input =
     (case input of
        JBytes bytes \<Rightarrow>
          if DORK_CHECKPOINT_MAX_TOTAL_BYTES < length bytes then Inl (fail LimitExceeded)
          else if length bytes < DORK_CHECKPOINT_FIXED_HEADER_BYTES then Inl (fail_at Truncated (length bytes))
          else
            bindE (parseEnvelope bytes False) (\<lambda>_.
            bindE (parseEnvelope bytes True) (\<lambda>result.
            case result of None \<Rightarrow> Inl (fail InvalidInput) | Some cp \<Rightarrow> Inr cp))
      | _ \<Rightarrow> Inl (fail InvalidInput))"

end
