(* ===== verification/Checkpoint_Codec.thy ===== *)
theory Checkpoint_Codec
  imports Checkpoint_Wire
begin

text \<open>
  The checkpoint codec is canonical and lossless: every part of a checkpoint is a wire field in
  the sense of \<open>Wire\<close>, so the decoder returns a checkpoint exactly for the one byte sequence the
  encoder writes for it.
\<close>

section \<open>Leaves\<close>

lemma length_put_bool [simp]: "length (put_bool b) = 1"
  by (simp add: put_bool_def)

interpretation bool_field: field_codec put_bool readBoolean "\<lambda>_. True"
proof (unfold_locales, goal_cases)
  case (1 off bs x r)
  have "readBoolean (off, bs) = Inr (x, r) \<longleftrightarrow> get_u8 (off, bs) = Inr (if x then 1 else 0, r)"
    by (cases r) (auto simp: readBoolean_def bindE_Inr_iff split: if_splits)
  then show ?case by (simp add: u8.get_iff put_bool_def)
qed

interpretation short_text: field_codec "\<lambda>s. shortBytes (utf8_encode s)" "readShortUtf8 m ae"
  "\<lambda>s. bounded_text m ae s \<and> length (utf8_encode s) < 65536" for m ae
  by unfold_locales
     (auto simp: readShortUtf8_def shortBytes_def bindE_Inr_iff u16.get_iff text_field.get_iff
       split_paired_Ex)

interpretation words: field_codec writeWords "readWords n" "\<lambda>ws. length ws = n \<and> list_all int16 ws" for n
  by unfold_locales (auto simp: readWords_def writeWords_def i16.get_many_iff)

lemma length_writeWords [simp]: "length (writeWords ws) = length ws * 2"
  by (simp add: writeWords_def length_concat comp_def sum_list_triv)

lemma assertAddress_iff: "assertAddress n k off = Inr u \<longleftrightarrow> n < k"
  by (simp add: assertAddress_def not_le)

lemmas leaf_iff = bindE_Inr_iff ensure_Inr_iff u8.get_iff u16.get_iff u32.get_iff u64.get_iff raw.get_iff
  reserved8.get_iff reserved16.get_iff bool_field.get_iff i16.get_iff words.get_iff text_field.get_iff
  short_text.get_iff assertAddress_iff

lemmas leaf_put = u8.get_put u16.get_put u32.get_put u64.get_put raw.get_put reserved8.get_put
  reserved16.get_put bool_field.get_put i16.get_put words.get_put text_field.get_put short_text.get_put

lemma reserved_put [simp]:
  "readReservedU8 (k, put_u8 0 @ rest) = Inr ((), (k + 1, rest))"
  "readReservedU16 (k, put_u16 0 @ rest) = Inr ((), (k + 2, rest))"
  by (simp_all add: reserved8.get_iff reserved16.get_iff)

text \<open>
  A field is proved in two directions: what the reader returned determines the bytes it read,
  and on the bytes of a valid value it returns the value.
\<close>

lemma field_codecI:
  assumes "\<And>off bs x off' rest. get (off, bs) = Inr (x, (off', rest)) \<Longrightarrow>
      valid x \<and> bs = put x @ rest \<and> off' = off + length (put x)"
    and "\<And>off x rest. valid x \<Longrightarrow> get (off, put x @ rest) = Inr (x, (off + length (put x), rest))"
  shows "field_codec put get valid"
proof
  fix off bs x r
  show "get (off, bs) = Inr (x, r) \<longleftrightarrow> valid x \<and> bs = put x @ snd r \<and> fst r = off + length (put x)"
    using assms(1) [of off bs x "fst r" "snd r"] assms(2) [of x off "snd r"] by (cases r) auto
qed

section \<open>Story and configuration\<close>

definition put_story :: "cp_story \<Rightarrow> byte list" where
  "put_story s = writeStory s (utf8_encode (sy_serial s))"

interpretation story_field: field_codec put_story readStory valid_story
proof (rule field_codecI, goal_cases)
  case (1 off bs x off' rest)
  then show ?case
    unfolding readStory_def
    by (auto simp: leaf_iff put_story_def writeStory_def valid_story_def UINT16_MAX_def SERIAL_BYTES_def
        not_less bounded_text_def split: if_splits)
next
  case (2 off s rest)
  from valid_serial [OF 2] have serial: "bounded_text SERIAL_BYTES True (sy_serial s)"
    "length (utf8_encode (sy_serial s)) = 6" by (simp_all add: SERIAL_BYTES_def)
  with 2 show ?case
    by (cases s) (simp add: readStory_def put_story_def writeStory_def leaf_put valid_story_def
        UINT16_MAX_def SERIAL_BYTES_def not_less text_field.get_put [where n = 6])
qed

interpretation config_field: field_codec writeConfig readConfig valid_config
proof (rule field_codecI, goal_cases)
  case (1 off bs x off' rest)
  then show ?case
    unfolding readConfig_def
    by (auto simp: leaf_iff writeConfig_def valid_config_def not_less split: if_splits)
next
  case (2 off c rest)
  then show ?case
    by (cases c; cases "cf_maxInstructions c")
      (auto simp: readConfig_def writeConfig_def leaf_put valid_config_def not_less)
qed

section \<open>Memory and stacks\<close>

definition put_memory :: "byte list \<Rightarrow> byte list" where
  "put_memory mem = put_u32 (length mem) @ mem"

interpretation memory_field: field_codec put_memory "readDynamicMemory n"
  "\<lambda>mem. length mem = n \<and> n \<le> DORK_CHECKPOINT_MAX_TOTAL_BYTES" for n
proof (rule field_codecI, goal_cases)
  case (1 off bs x off' rest)
  then show ?case
    unfolding readDynamicMemory_def
    by (auto simp: leaf_iff put_memory_def not_less split: if_splits)
next
  case (2 off mem rest)
  then show ?case
    by (auto simp: readDynamicMemory_def put_memory_def leaf_put checkpoint_limit_defs)
qed

definition put_data_stack :: "int list \<Rightarrow> byte list" where
  "put_data_stack ws = put_u32 (length ws) @ writeWords ws"

interpretation data_stack_field: field_codec put_data_stack readDataStack
  "\<lambda>ws. length ws \<le> DORK_CHECKPOINT_MAX_TOTAL_STACK_WORDS \<and> list_all int16 ws"
proof (rule field_codecI, goal_cases)
  case (1 off bs x off' rest)
  then show ?case
    unfolding readDataStack_def
    by (auto simp: leaf_iff put_data_stack_def not_less split: if_splits)
next
  case (2 off ws rest)
  then show ?case
    by (auto simp: readDataStack_def put_data_stack_def leaf_put checkpoint_limit_defs)
qed

interpretation frame_field: field_codec "\<lambda>(f, a). writeFrame f" "readFrame n agg"
  "\<lambda>(f, a). valid_frame n f \<and> a = agg + frame_words f \<and> a \<le> DORK_CHECKPOINT_MAX_TOTAL_STACK_WORDS"
  for n agg
proof (rule field_codecI, goal_cases)
  case (1 off bs x off' rest)
  then show ?case
    unfolding readFrame_def
    by (auto simp: leaf_iff writeFrame_def valid_frame_def frame_words_def Let_def not_less split: if_splits)
next
  case (2 off x rest)
  obtain f where x: "x = (f, agg + frame_words f)" and f: "valid_frame n f"
    "agg + frame_words f \<le> DORK_CHECKPOINT_MAX_TOTAL_STACK_WORDS"
    using 2 by (cases x) auto
  from f show ?case
    by (cases f) (auto simp: x readFrame_def writeFrame_def leaf_put valid_frame_def frame_words_def Let_def
        assertAddress_def not_less checkpoint_limit_defs)
qed

lemma readFrames_iff:
  "readFrames k n agg (off, bs) = Inr (fs, r) \<longleftrightarrow>
     length fs = k \<and> list_all (valid_frame n) fs \<and>
     (fs = [] \<or> agg + stack_words fs \<le> DORK_CHECKPOINT_MAX_TOTAL_STACK_WORDS) \<and>
     bs = concat (map writeFrame fs) @ snd r \<and> fst r = off + length (concat (map writeFrame fs))"
proof (induction k arbitrary: agg off bs fs r)
  case 0
  show ?case by (cases r) auto
next
  case (Suc k)
  show ?case
  proof (cases fs)
    case Nil
    then show ?thesis by (auto simp: bindE_Inr_iff split: prod.splits)
  next
    case (Cons f gs)
    have "readFrames (Suc k) n agg (off, bs) = Inr (fs, r) \<longleftrightarrow>
        (\<exists>a off1 bs1. readFrame n agg (off, bs) = Inr ((f, a), (off1, bs1)) \<and>
           readFrames k n a (off1, bs1) = Inr (gs, r))"
      by (cases r) (auto simp: Cons bindE_Inr_iff split: prod.splits)
    also have "\<dots> \<longleftrightarrow> length fs = Suc k \<and> list_all (valid_frame n) fs \<and>
        (fs = [] \<or> agg + stack_words fs \<le> DORK_CHECKPOINT_MAX_TOTAL_STACK_WORDS) \<and>
        bs = concat (map writeFrame fs) @ snd r \<and> fst r = off + length (concat (map writeFrame fs))"
      by (auto simp: Cons Suc.IH frame_field.get_iff add.assoc)
    finally show ?thesis .
  qed
qed

interpretation frames_field: field_codec "\<lambda>fs. concat (map writeFrame fs)" "readFrames k n agg"
  "\<lambda>fs. length fs = k \<and> list_all (valid_frame n) fs \<and>
     (fs = [] \<or> agg + stack_words fs \<le> DORK_CHECKPOINT_MAX_TOTAL_STACK_WORDS)" for k n agg
  by unfold_locales (auto simp: readFrames_iff)

definition put_call_stack :: "cp_frame list \<Rightarrow> byte list" where
  "put_call_stack fs = put_u32 (length fs) @ concat (map writeFrame fs)"

interpretation call_stack_field: field_codec put_call_stack "readCallStack n agg"
  "\<lambda>fs. length fs \<le> DORK_CHECKPOINT_MAX_CALL_FRAMES \<and> list_all (valid_frame n) fs \<and>
     (fs = [] \<or> agg + stack_words fs \<le> DORK_CHECKPOINT_MAX_TOTAL_STACK_WORDS)" for n agg
proof (rule field_codecI, goal_cases)
  case (1 off bs x off' rest)
  then show ?case
    unfolding readCallStack_def
    by (auto simp: leaf_iff frames_field.get_iff put_call_stack_def not_less split: if_splits)
next
  case (2 off fs rest)
  then have len: "length fs < 4294967296" by (auto simp: checkpoint_limit_defs)
  have "readFrames (length fs) n agg (k, concat (map writeFrame fs) @ rest) =
      Inr (fs, (k + length (concat (map writeFrame fs)), rest))" for k
    using 2 by (intro frames_field.get_put) simp
  with 2 len show ?case
    by (simp add: readCallStack_def put_call_stack_def u32.get_put not_less)
qed

section \<open>Registers, streams, counters and the pending read\<close>

definition put_registers :: "cp_registers \<Rightarrow> byte list" where
  "put_registers g = put_u32 (rg_gameplayState g) @ put_u32 (rg_reseedState g) @
     put_i16 (rg_savedFlags g) @ put_u8 (rg_rngMode g) @ put_u8 0"

definition valid_registers :: "byte list \<Rightarrow> bool \<Rightarrow> cp_registers \<Rightarrow> bool" where
  "valid_registers mem byteSwapped g \<longleftrightarrow>
     rg_gameplayState g < 4294967296 \<and> rg_reseedState g < 4294967296 \<and> rg_rngMode g \<le> 1 \<and>
     rg_savedFlags g = getInt16 mem 16 byteSwapped"

interpretation registers_field: field_codec put_registers "readRegisters mem b" "valid_registers mem b" for mem b
proof (rule field_codecI, goal_cases)
  case (1 off bs x off' rest)
  then show ?case
    unfolding readRegisters_def
    by (auto simp: leaf_iff put_registers_def valid_registers_def split: if_splits)
next
  case (2 off g rest)
  then show ?case
    using int16_getInt16 [of mem 16 b]
    by (cases g) (auto simp: readRegisters_def put_registers_def valid_registers_def leaf_put le_Suc_eq)
qed

interpretation stream_field: field_codec writeStream "readStream n" "\<lambda>s. valid_stream n s" for n
proof (rule field_codecI, goal_cases)
  case (1 off bs x off' rest)
  then show ?case
    unfolding readStream_def
    by (auto simp: leaf_iff writeStream_def valid_stream_def not_less split: if_splits)
next
  case (2 off s rest)
  then show ?case
    by (cases s) (auto simp: readStream_def writeStream_def valid_stream_def leaf_put)
qed

definition put_stream3 :: "cp_stream list \<Rightarrow> byte list" where
  "put_stream3 ss = put_u32 (length ss) @ concat (map writeStream ss)"

interpretation stream3_field: field_codec put_stream3 "readStream3 n"
  "\<lambda>ss. length ss \<le> DORK_CHECKPOINT_MAX_STREAM_DEPTH \<and> list_all (valid_stream n) ss" for n
proof (rule field_codecI, goal_cases)
  case (1 off bs x off' rest)
  then show ?case
    unfolding readStream3_def
    by (auto simp: leaf_iff stream_field.get_many_iff put_stream3_def not_less split: if_splits)
next
  case (2 off ss rest)
  then have "get_many (length ss) (readStream n) (k, concat (map writeStream ss) @ rest) =
      Inr (ss, (k + length (concat (map writeStream ss)), rest))" for k
    by (simp add: stream_field.get_many_iff)
  with 2 show ?case
    by (simp add: readStream3_def put_stream3_def u32.get_put not_less checkpoint_limit_defs)
qed

definition put_counts :: "nat \<times> nat \<Rightarrow> byte list" where
  "put_counts n = put_u64 (fst n) @ put_u64 (snd n)"

interpretation counts_field: field_codec put_counts "readCounts c" "\<lambda>(i, t). valid_counts c i t" for c
proof (rule field_codecI, goal_cases)
  case (1 off bs x off' rest)
  then show ?case
    unfolding readCounts_def
    by (auto simp: leaf_iff put_counts_def valid_counts_def checkCounts_iff split: if_splits)
next
  case (2 off x rest)
  obtain i t where x: "x = (i, t)" by (cases x)
  from 2 have "checkCounts c i t = Inr ()"
    by (auto simp: x checkCounts_iff valid_counts_def)
  with 2 show ?case
    by (auto simp: x readCounts_def put_counts_def valid_counts_def leaf_put)
qed

interpretation pending_field: field_codec writePendingRead "readPendingRead n mem" "valid_pending n mem" for n mem
proof (rule field_codecI, goal_cases)
  case (1 off bs x off' rest)
  then show ?case
    unfolding readPendingRead_def
    by (auto simp: leaf_iff writePendingRead_def valid_pending_def PENDING_READ_LINE_def not_less
        split: if_splits)
next
  case (2 off p rest)
  then show ?case
    by (cases p) (auto simp: readPendingRead_def writePendingRead_def valid_pending_def leaf_put
        PENDING_READ_LINE_def assertAddress_def not_less)
qed

section \<open>The machine\<close>

lemma registers_whole [simp]:
  "\<lparr>rg_gameplayState = rg_gameplayState g, rg_reseedState = rg_reseedState g,
     rg_savedFlags = rg_savedFlags g, rg_rngMode = rg_rngMode g\<rparr> = g"
  by (cases g) simp

definition machine_registers :: "cp_machine \<Rightarrow> cp_registers" where
  "machine_registers m = \<lparr>rg_gameplayState = ma_gameplayState m, rg_reseedState = ma_reseedState m,
     rg_savedFlags = ma_savedFlags m, rg_rngMode = ma_rngMode m\<rparr>"

lemma machine_registers_simps [simp]:
  "rg_gameplayState (machine_registers m) = ma_gameplayState m"
  "rg_reseedState (machine_registers m) = ma_reseedState m"
  "rg_savedFlags (machine_registers m) = ma_savedFlags m"
  "rg_rngMode (machine_registers m) = ma_rngMode m"
  by (simp_all add: machine_registers_def)

definition put_machine :: "cp_machine \<Rightarrow> byte list" where
  "put_machine m = writeMachine m (utf8_encode (sy_serial (ma_story m)))"

lemma put_machine_parts:
  "put_machine m = put_u16 2 @ put_u16 0 @ put_story (ma_story m) @ writeConfig (ma_config m) @
     put_memory (ma_dynamicMemory m) @ put_data_stack (ma_dataStack m) @ put_call_stack (ma_callStack m) @
     put_registers (machine_registers m) @ put_stream3 (ma_stream3 m) @
     put_counts (ma_instructionCount m, ma_turnInstructionCount m) @ writePendingRead (ma_pendingRead m)"
  by (simp add: put_machine_def writeMachine_def put_story_def writeStacks_def writeState_def put_memory_def
      put_data_stack_def put_call_stack_def put_registers_def machine_registers_def put_stream3_def
      put_counts_def MACHINE_SCHEMA_VERSION_def)

lemma valid_machine_parts:
  "valid_machine m \<longleftrightarrow>
     valid_story (ma_story m) \<and> valid_config (ma_config m) \<and>
     length (ma_dynamicMemory m) = sy_staticMemoryBase (ma_story m) \<and>
     (length (ma_dataStack m) \<le> DORK_CHECKPOINT_MAX_TOTAL_STACK_WORDS \<and> list_all int16 (ma_dataStack m)) \<and>
     (length (ma_callStack m) \<le> DORK_CHECKPOINT_MAX_CALL_FRAMES \<and>
      list_all (valid_frame (sy_byteLength (ma_story m))) (ma_callStack m) \<and>
      (ma_callStack m = [] \<or>
       length (ma_dataStack m) + stack_words (ma_callStack m) \<le> DORK_CHECKPOINT_MAX_TOTAL_STACK_WORDS)) \<and>
     valid_registers (ma_dynamicMemory m) (sy_byteSwapped (ma_story m)) (machine_registers m) \<and>
     (length (ma_stream3 m) \<le> DORK_CHECKPOINT_MAX_STREAM_DEPTH \<and>
      list_all (valid_stream (length (ma_dynamicMemory m))) (ma_stream3 m)) \<and>
     valid_counts (ma_config m) (ma_instructionCount m) (ma_turnInstructionCount m) \<and>
     valid_pending (sy_byteLength (ma_story m)) (ma_dynamicMemory m) (ma_pendingRead m)"
  by (auto simp: valid_machine_def valid_stacks_def valid_registers_def machine_registers_def)

lemmas part_iff = story_field.get_iff config_field.get_iff memory_field.get_iff data_stack_field.get_iff
  call_stack_field.get_iff registers_field.get_iff stream3_field.get_iff counts_field.get_iff
  pending_field.get_iff

lemmas part_put = story_field.get_put config_field.get_put memory_field.get_put data_stack_field.get_put
  call_stack_field.get_put registers_field.get_put stream3_field.get_put pending_field.get_put

interpretation machine_field: field_codec put_machine readMachine valid_machine
proof (rule field_codecI, goal_cases)
  case (1 off bs m off' rest)
  then show ?case
    unfolding readMachine_def put_machine_parts valid_machine_parts
    by (auto simp: leaf_iff part_iff MACHINE_SCHEMA_VERSION_def machine_registers_def
        simp del: One_nat_def split: if_splits)
next
  case (2 off m rest)
  note v = 2 [unfolded valid_machine_parts]
  have len: "length (ma_dynamicMemory m) \<le> DORK_CHECKPOINT_MAX_TOTAL_BYTES"
    using v by (simp add: valid_story_def checkpoint_limit_defs)
  have mem: "readDynamicMemory (sy_staticMemoryBase (ma_story m)) (k, put_memory (ma_dynamicMemory m) @ r) =
      Inr (ma_dynamicMemory m, (k + length (put_memory (ma_dynamicMemory m)), r))" for k r
    using v len by (intro memory_field.get_put) auto
  have frames: "readCallStack (sy_byteLength (ma_story m)) (length (ma_dataStack m))
        (k, put_call_stack (ma_callStack m) @ r) =
      Inr (ma_callStack m, (k + length (put_call_stack (ma_callStack m)), r))" for k r
    using v by (intro call_stack_field.get_put) auto
  have counts: "readCounts (ma_config m) (k, put_counts (ma_instructionCount m, ma_turnInstructionCount m) @ r) =
      Inr ((ma_instructionCount m, ma_turnInstructionCount m),
        (k + length (put_counts (ma_instructionCount m, ma_turnInstructionCount m)), r))" for k r
    using v by (intro counts_field.get_put) auto
  have stream3: "readStream3 (length (ma_dynamicMemory m)) (k, put_stream3 (ma_stream3 m) @ r) =
      Inr (ma_stream3 m, (k + length (put_stream3 (ma_stream3 m)), r))" for k r
    using v by (intro stream3_field.get_put) auto
  note stream3 = stream3 stream3 [unfolded v [THEN conjunct2, THEN conjunct2, THEN conjunct1]]
  have stack: "readDataStack (k, put_data_stack (ma_dataStack m) @ r) =
      Inr (ma_dataStack m, (k + length (put_data_stack (ma_dataStack m)), r))" for k r
    using v by (intro data_stack_field.get_put) auto
  show ?case
    using v unfolding readMachine_def put_machine_parts
    by (simp add: leaf_put part_put mem frames counts stream3 stack MACHINE_SCHEMA_VERSION_def)
qed

section \<open>The envelope\<close>

definition checkpoint_wire :: "dork_checkpoint \<Rightarrow> byte list" where
  "checkpoint_wire cp = writeCheckpoint (prepared_checkpoint_of cp)"

lemma length_checkpointMagicBytes [simp]: "length checkpointMagicBytes = 8"
  by (simp add: checkpointMagicBytes_def) code_simp

lemma length_writeFrame: "length (writeFrame f) = 12 + (length (fr_local f) + length (fr_ds f)) * 2"
  by (simp add: writeFrame_def)

lemma length_writeFrames:
  "length (concat (map writeFrame fs)) =
     sum_list (map (\<lambda>f. 12 + (length (fr_local f) + length (fr_ds f)) * 2) fs)"
  by (simp add: length_concat comp_def length_writeFrame)

lemma length_writeStreams: "length (concat (map writeStream ss)) = length ss * 8"
  by (induction ss) (simp_all add: writeStream_def)

lemma length_put_machine: "length (put_machine m) = machine_size m"
  by (simp add: put_machine_parts put_story_def writeStory_def writeConfig_def put_memory_def
      put_data_stack_def put_call_stack_def put_registers_def put_stream3_def put_counts_def
      writePendingRead_def machine_size_def length_writeFrames length_writeStreams)

lemma checkpoint_wire_parts:
  "checkpoint_wire cp = checkpointMagicBytes @ put_u16 2 @ put_u16 0 @ put_u32 (checkpoint_size cp) @
     shortBytes (utf8_encode DORK_CHECKPOINT_RUNTIME_ID) @
     shortBytes (utf8_encode DORK_CHECKPOINT_ADAPTER_ID) @
     shortBytes (utf8_encode (dc_storyId cp)) @ hex_pairs (dc_artifactSha256 cp) @
     put_u64 (dc_revision cp) @ put_u32 (length (utf8_encode (dc_lastOutput cp))) @
     utf8_encode (dc_lastOutput cp) @ put_machine (dc_machine cp)"
  by (simp add: checkpoint_wire_def writeCheckpoint_def prepared_checkpoint_of_def put_machine_def
      DORK_CHECKPOINT_SCHEMA_VERSION_def)

lemma length_checkpoint_wire:
  "sha256_text (dc_artifactSha256 cp) \<Longrightarrow> length (checkpoint_wire cp) = checkpoint_size cp"
  by (simp add: checkpoint_wire_parts checkpoint_size_def shortBytes_def length_put_machine sha256_bytes
      checkpoint_limit_defs)

lemma parse_sound:
  assumes "parseEnvelope bytes True = Inr (Some cp)"
    and "length bytes \<le> DORK_CHECKPOINT_MAX_TOTAL_BYTES"
  shows "valid_checkpoint cp \<and> bytes = checkpoint_wire cp"
proof -
  define N where "N = length bytes"
  from assms(1) have
    bytes: "bytes = checkpointMagicBytes @ put_u16 2 @ put_u16 0 @ put_u32 N @
      shortBytes (utf8_encode DORK_CHECKPOINT_RUNTIME_ID) @
      shortBytes (utf8_encode DORK_CHECKPOINT_ADAPTER_ID) @
      shortBytes (utf8_encode (dc_storyId cp)) @ hex_pairs (dc_artifactSha256 cp) @
      put_u64 (dc_revision cp) @ put_u32 (length (utf8_encode (dc_lastOutput cp))) @
      utf8_encode (dc_lastOutput cp) @ put_machine (dc_machine cp)" and
    parts: "dc_revision cp \<le> MAX_SAFE_INTEGER" "sha256_text (dc_artifactSha256 cp)"
     "bounded_text DORK_CHECKPOINT_MAX_STORY_ID_BYTES False (dc_storyId cp)"
     "bounded_text DORK_CHECKPOINT_MAX_LAST_OUTPUT_BYTES True (dc_lastOutput cp)"
     "valid_machine (dc_machine cp)"
    unfolding parseEnvelope_def readHeader_def readIdentities_def N_def [symmetric]
    by (auto simp: leaf_iff machine_field.get_iff assertCheckpointMagic_def remaining_def sha256_bytes
        DORK_CHECKPOINT_SCHEMA_VERSION_def split: if_splits)
  from arg_cong [OF bytes, of length] have "N = checkpoint_size cp"
    unfolding N_def using parts(2)
    by (simp add: checkpoint_size_def shortBytes_def length_put_machine sha256_bytes checkpoint_limit_defs)
  moreover have "N \<le> DORK_CHECKPOINT_MAX_TOTAL_BYTES" using assms(2) by (simp add: N_def)
  ultimately show ?thesis
    using bytes parts by (simp add: valid_checkpoint_def checkpoint_wire_parts)
qed

lemma parse_complete:
  assumes v: "valid_checkpoint cp"
  shows "parseEnvelope (checkpoint_wire cp) materialize = Inr (if materialize then Some cp else None)"
proof -
  note parts = v [unfolded valid_checkpoint_def]
  have len: "length (checkpoint_wire cp) = checkpoint_size cp"
    using parts by (simp add: length_checkpoint_wire)
  have N: "checkpoint_size cp < 4294967296"
    using parts by (simp add: checkpoint_limit_defs)
  have magic: "get_bytes (length checkpointMagicBytes) (k, checkpointMagicBytes @ rest) =
      Inr (checkpointMagicBytes, (k + length checkpointMagicBytes, rest))" for k rest
    by (simp add: raw.get_iff)
  have header: "readHeader (checkpoint_size cp) (0, checkpointMagicBytes @ put_u16 2 @ put_u16 0 @
      put_u32 (checkpoint_size cp) @ rest) = Inr ((), (16, rest))" for rest
    by (simp add: readHeader_def magic assertCheckpointMagic_def leaf_put N DORK_CHECKPOINT_SCHEMA_VERSION_def
        del: length_checkpointMagicBytes) simp
  have short: "readShortUtf8 m ae (k, shortBytes (utf8_encode s) @ rest) =
      Inr (s, (k + length (shortBytes (utf8_encode s)), rest))" if "bounded_text m ae s" "m \<le> 128" for m ae s k rest
    using that by (intro short_text.get_put) (simp add: bounded_text_def)
  have ids: "readIdentities (k, shortBytes (utf8_encode DORK_CHECKPOINT_RUNTIME_ID) @
      shortBytes (utf8_encode DORK_CHECKPOINT_ADAPTER_ID) @ shortBytes (utf8_encode (dc_storyId cp)) @ rest) =
      Inr (dc_storyId cp, (k + length (shortBytes (utf8_encode DORK_CHECKPOINT_RUNTIME_ID)) +
        length (shortBytes (utf8_encode DORK_CHECKPOINT_ADAPTER_ID)) +
        length (shortBytes (utf8_encode (dc_storyId cp))), rest))" for k rest
    using parts by (simp add: readIdentities_def short MAX_IDENTITY_BYTES_def [THEN eq_refl]
        DORK_CHECKPOINT_MAX_STORY_ID_BYTES_def [THEN eq_refl])
  have sha: "get_bytes 32 (k, hex_pairs (dc_artifactSha256 cp) @ rest) =
      Inr (hex_pairs (dc_artifactSha256 cp), (k + 32, rest))" for k rest
    using parts by (simp add: raw.get_iff sha256_bytes)
  have out: "length (utf8_encode (dc_lastOutput cp)) < 4294967296"
    using parts by (simp add: bounded_text_def checkpoint_limit_defs)
  have machine: "readMachine (k, put_machine (dc_machine cp)) =
      Inr (dc_machine cp, (k + length (put_machine (dc_machine cp)), []))" for k
    using machine_field.get_put [of "dc_machine cp" k "[]"] parts by simp
  have revision: "safeU64 (k, put_u64 (dc_revision cp) @ rest) = Inr (dc_revision cp, (k + 8, rest))" for k rest
    using parts by (simp add: u64.get_put)
  have out_text: "readBoundedUtf8 (length (utf8_encode (dc_lastOutput cp))) DORK_CHECKPOINT_MAX_LAST_OUTPUT_BYTES True
      (k, utf8_encode (dc_lastOutput cp) @ rest) =
      Inr (dc_lastOutput cp, (k + length (utf8_encode (dc_lastOutput cp)), rest))" for k rest
    using parts by (intro text_field.get_put) simp
  have whole: "\<lparr>dc_storyId = dc_storyId cp, dc_artifactSha256 = bytesToHex (hex_pairs (dc_artifactSha256 cp)),
      dc_revision = dc_revision cp, dc_lastOutput = dc_lastOutput cp, dc_machine = dc_machine cp\<rparr> = cp"
    using parts by (cases cp) (simp add: sha256_bytes)
  show ?thesis
    unfolding parseEnvelope_def len
    unfolding checkpoint_wire_parts header bindE.simps prod.case ids sha revision u32.get_put [OF out] out_text machine
    by (simp add: remaining_def whole)
qed

lemma decode_checkpoint_iff:
  "decodeDorkCheckpointEnvelope v = Inr cp \<longleftrightarrow> valid_checkpoint cp \<and> v = JBytes (checkpoint_wire cp)"
proof
  assume d: "decodeDorkCheckpointEnvelope v = Inr cp"
  then obtain bytes where v: "v = JBytes bytes"
    by (cases v) (simp_all add: decodeDorkCheckpointEnvelope_def)
  have "length bytes \<le> DORK_CHECKPOINT_MAX_TOTAL_BYTES" "parseEnvelope bytes True = Inr (Some cp)"
    using d unfolding v decodeDorkCheckpointEnvelope_def jsval.case
    by (auto simp: bindE_Inr_iff simp del: bindE.simps split: if_splits option.splits)
  then show "valid_checkpoint cp \<and> v = JBytes (checkpoint_wire cp)"
    using parse_sound [of bytes cp] v by simp
next
  assume *: "valid_checkpoint cp \<and> v = JBytes (checkpoint_wire cp)"
  then have len: "length (checkpoint_wire cp) = checkpoint_size cp"
    "checkpoint_size cp \<le> DORK_CHECKPOINT_MAX_TOTAL_BYTES"
    by (simp_all add: valid_checkpoint_def length_checkpoint_wire)
  moreover have "DORK_CHECKPOINT_FIXED_HEADER_BYTES \<le> checkpoint_size cp"
    by (simp add: checkpoint_size_def)
  ultimately show "decodeDorkCheckpointEnvelope v = Inr cp"
    using * by (simp add: decodeDorkCheckpointEnvelope_def parse_complete not_less)
qed

lemma encode_checkpoint_iff:
  "encodeDorkCheckpointEnvelope (checkpoint_js cp) = Inr bs \<longleftrightarrow> valid_checkpoint cp \<and> bs = checkpoint_wire cp"
proof (cases "valid_checkpoint cp")
  case True
  then have "prepareCheckpoint (checkpoint_js cp) = Inr (prepared_checkpoint_of cp)"
    by (simp add: envelope_check.shown)
  moreover have "length (checkpoint_wire cp) = pk_totalBytes (prepared_checkpoint_of cp)"
    using True by (simp add: valid_checkpoint_def length_checkpoint_wire prepared_checkpoint_of_def)
  ultimately show ?thesis
    using True by (auto simp: encodeDorkCheckpointEnvelope_def checkpoint_wire_def)
next
  case False
  then show ?thesis
    by (simp add: encodeDorkCheckpointEnvelope_def bindE_Inr_iff envelope_check.shown)
qed

lemma encode_checkpoint_sound:
  assumes "encodeDorkCheckpointEnvelope v = Inr bs"
  shows "\<exists>cp. valid_checkpoint cp \<and> bs = checkpoint_wire cp"
proof -
  from assms obtain p where p: "prepareCheckpoint v = Inr p" "bs = writeCheckpoint p"
    by (auto simp: encodeDorkCheckpointEnvelope_def bindE_Inr_iff Let_def split: if_splits)
  from envelope_check.sound [OF p(1)] p(2) show ?thesis
    by (auto simp: checkpoint_wire_def)
qed

end
