(* ===== verification/Candidate_Session.thy ===== *)
theory Candidate_Session
  imports Utf8 Contracts
begin

text \<open>
  \<open>spikes/dork-worker/dork-candidate-session.ts\<close>: the host of one interpreter run
  (\<open>DorkCandidateIo\<close>) and the session built on it (\<open>DorkCandidateSession\<close>).  The vendored
  Z-machine, the checkpoint codec, Web Crypto and the random seed are the fields of a \<open>host\<close>
  record, an argument of the definitions that call them.
\<close>

section \<open>The machine and its surroundings\<close>

text \<open>
  A run of the machine prints texts in order and then asks for a line, halts or throws; the
  state in which it asks is the continuation of the pending read.
\<close>

datatype 'm run_end = AtRead nat 'm | Halted | Crashed

record candidate_options =
  op_isTandy :: bool
  op_seed :: nat
  op_strict :: bool
  op_maxInstructions :: "nat option" \<comment> \<open>\<open>None\<close> is \<open>Infinity\<close>\<close>
  op_maxInstructionsPerTurn :: nat

record raw_options = \<comment> \<open>\<open>ZMachineOptions\<close>, every field optional\<close>
  raw_isTandy :: "bool option"
  raw_seed :: "nat option"
  raw_strict :: "bool option"
  raw_maxInstructions :: "nat option"
  raw_maxInstructionsPerTurn :: jsval

record 'k checkpoint_envelope =
  ce_storyId :: js
  ce_artifactSha256 :: js
  ce_revision :: nat
  ce_lastOutput :: js
  ce_machine :: 'k

record ('m, 'k) host =
  h_new :: "byte list \<Rightarrow> candidate_options \<Rightarrow> bool" \<comment> \<open>the constructor returns\<close>
  h_start :: "byte list \<Rightarrow> candidate_options \<Rightarrow> js list \<times> 'm run_end"
  h_input :: "'m \<Rightarrow> js \<Rightarrow> js list \<times> 'm run_end"
  h_checkpoint :: "'m \<Rightarrow> 'k option" \<comment> \<open>\<open>checkpointAtInput\<close>\<close>
  h_resume :: "byte list \<Rightarrow> candidate_options \<Rightarrow> 'k \<Rightarrow> js list \<times> 'm run_end" \<comment> \<open>\<open>run(checkpoint)\<close>\<close>
  h_config :: "'k \<Rightarrow> raw_options" \<comment> \<open>\<open>config\<close>, with \<open>reseedState\<close> as the seed\<close>
  h_encode :: "'k checkpoint_envelope \<Rightarrow> byte list option"
  h_decode :: "byte list \<Rightarrow> 'k checkpoint_envelope option"
  h_sha256 :: "byte list \<Rightarrow> js option"
  h_random :: "nat option"

section \<open>Input and output of one run\<close>

definition maxOutputBytes :: nat where
  "maxOutputBytes = DORK_CHECKPOINT_MAX_LAST_OUTPUT_BYTES"

record turn =
  tn_output :: js
  tn_boundary :: boundary

record candidate_io =
  io_turns :: "turn list"
  io_pendingRead :: "nat option"
  io_output :: js
  io_outputBytes :: nat
  io_inputBoundaryCount :: nat
  io_disposed :: bool
  io_failed :: bool
  io_terminated :: bool

definition new_io :: candidate_io where
  "new_io = \<lparr>io_turns = [], io_pendingRead = None, io_output = [], io_outputBytes = 0,
     io_inputBoundaryCount = 0, io_disposed = False, io_failed = False, io_terminated = False\<rparr>"

text \<open>\<open>None\<close> is a throw into the machine.\<close>

definition io_print :: "js \<Rightarrow> candidate_io \<Rightarrow> candidate_io option" where
  "io_print s io =
     (if io_disposed io then None
      else if io_terminated io then None
      else if maxOutputBytes < length s then None
      else
        let nextBytes = length (utf8_encode s) in
        if maxOutputBytes < io_outputBytes io + nextBytes then None
        else Some (io\<lparr>io_outputBytes := io_outputBytes io + nextBytes, io_output := io_output io @ s\<rparr>))"

definition io_drain_emit :: "boundary \<Rightarrow> candidate_io \<Rightarrow> candidate_io" where
  "io_drain_emit b io =
     io\<lparr>io_turns := io_turns io @ [\<lparr>tn_output = io_output io, tn_boundary = b\<rparr>],
        io_output := [], io_outputBytes := 0\<rparr>"

definition io_read :: "nat \<Rightarrow> candidate_io \<Rightarrow> candidate_io option" where
  "io_read maxLength io =
     (if io_disposed io then None
      else if maxLength < 1 \<or> 0xffff < maxLength then None
      else if io_pendingRead io \<noteq> None then None
      else Some (io_drain_emit InputRequested
             (io\<lparr>io_pendingRead := Some maxLength,
                 io_inputBoundaryCount := io_inputBoundaryCount io + 1\<rparr>)))"

datatype session_error = StoryLimit | SessionFailure

definition io_submit :: "js \<Rightarrow> candidate_io \<Rightarrow> session_error + candidate_io" where
  "io_submit command io =
     (if io_disposed io then Inl SessionFailure
      else if io_terminated io then Inl SessionFailure
      else
        (case io_pendingRead io of
           None \<Rightarrow> Inl SessionFailure
         | Some maxLength \<Rightarrow>
             if maxLength \<le> length command then Inl StoryLimit
             else Inr (io\<lparr>io_pendingRead := None\<rparr>)))"

definition io_finish :: "candidate_io \<Rightarrow> candidate_io" where
  "io_finish io =
     (if io_disposed io then io
      else if io_terminated io then io
      else io_drain_emit Terminated (io\<lparr>io_terminated := True\<rparr>))"

definition io_fail :: "candidate_io \<Rightarrow> candidate_io" where
  "io_fail io = (if io_disposed io then io else io\<lparr>io_failed := True\<rparr>)"

definition io_dispose :: "candidate_io \<Rightarrow> candidate_io" where
  "io_dispose io =
     (if io_disposed io then io
      else io\<lparr>io_disposed := True, io_terminated := True, io_pendingRead := None,
              io_turns := [], io_output := [], io_outputBytes := 0\<rparr>)"

definition cleanInputBoundary :: "candidate_io \<Rightarrow> bool" where \<comment> \<open>\<open>assertSingleInputBoundary\<close>\<close>
  "cleanInputBoundary io \<longleftrightarrow>
     \<not> (io_disposed io \<or> io_failed io \<or> io_terminated io \<or> io_pendingRead io = None \<or>
        io_inputBoundaryCount io \<noteq> 1 \<or> io_turns io \<noteq> [] \<or> io_output io \<noteq> [] \<or> io_outputBytes io \<noteq> 0)"

fun io_prints :: "js list \<Rightarrow> candidate_io \<Rightarrow> candidate_io option" where
  "io_prints [] io = Some io"
| "io_prints (s # ss) io = (case io_print s io of None \<Rightarrow> None | Some io' \<Rightarrow> io_prints ss io')"

text \<open>
  The machine runs until it waits or its promise settles.  A throw of \<open>print\<close> or \<open>read\<close>
  rejects that promise, so it ends in \<open>fail\<close>; what the run printed before stays buffered.
\<close>

fun print_prefix :: "js list \<Rightarrow> candidate_io \<Rightarrow> candidate_io" where
  "print_prefix [] io = io"
| "print_prefix (s # ss) io = (case io_print s io of None \<Rightarrow> io | Some io' \<Rightarrow> print_prefix ss io')"

definition settle :: "js list \<times> 'm run_end \<Rightarrow> candidate_io \<Rightarrow> candidate_io \<times> 'm option" where
  "settle run io =
     (case io_prints (fst run) io of
        None \<Rightarrow> (io_fail (print_prefix (fst run) io), None)
      | Some io1 \<Rightarrow>
          (case snd run of
             AtRead maxLength m \<Rightarrow>
               (case io_read maxLength io1 of
                  None \<Rightarrow> (io_fail io1, None)
                | Some io2 \<Rightarrow> (io2, Some m))
           | Halted \<Rightarrow> (io_finish io1, None)
           | Crashed \<Rightarrow> (io_fail io1, None)))"

text \<open>
  \<open>nextTurn\<close> once the machine has settled: the promise resolves with the turn it emitted and
  rejects when it failed.  With neither it would stay pending, which \<open>turn_or_failed\<close> below
  excludes.
\<close>

definition nextTurn :: "candidate_io \<Rightarrow> candidate_io \<times> (session_error + turn)" where
  "nextTurn io =
     (if io_disposed io then (io, Inl SessionFailure)
      else
        (case io_turns io of
           t # ts \<Rightarrow> (io\<lparr>io_turns := ts\<rparr>, Inr t)
         | [] \<Rightarrow> (io, Inl SessionFailure)))"

section \<open>The session\<close>

record 'm session =
  se_story :: "byte list"
  se_options :: candidate_options
  se_machine :: "'m option"
  se_io :: candidate_io
  se_started :: bool
  se_disposed :: bool
  se_lifecycleEpoch :: nat
  se_operationInFlight :: bool
  se_revision :: nat
  se_lastOutput :: js
  se_boundary :: boundary

definition DEFAULT_MAX_INSTRUCTIONS_PER_TURN :: nat where
  "DEFAULT_MAX_INSTRUCTIONS_PER_TURN = 1000000"
definition MAX_INSTRUCTIONS_PER_TURN :: nat where
  "MAX_INSTRUCTIONS_PER_TURN = 10000000"

definition secureRandomSeed :: "('m, 'k) host \<Rightarrow> nat option" where
  "secureRandomSeed h = h_random h"

definition resolveOptions :: "('m, 'k) host \<Rightarrow> raw_options \<Rightarrow> candidate_options option" where
  "resolveOptions h o' =
     (let perTurn = (if raw_maxInstructionsPerTurn o' = JUndef
                     then jnat DEFAULT_MAX_INSTRUCTIONS_PER_TURN else raw_maxInstructionsPerTurn o') in
      case safe_nat perTurn of
        None \<Rightarrow> None
      | Some n \<Rightarrow>
          if n < 1 \<or> MAX_INSTRUCTIONS_PER_TURN < n then None
          else
            (case (case raw_seed o' of Some s \<Rightarrow> Some s | None \<Rightarrow> secureRandomSeed h) of
               None \<Rightarrow> None
             | Some seed \<Rightarrow>
                 Some \<lparr>op_isTandy = (raw_isTandy o' = Some True), op_seed = seed,
                       op_strict = (raw_strict o' \<noteq> Some False),
                       op_maxInstructions = raw_maxInstructions o', op_maxInstructionsPerTurn = n\<rparr>))"

definition optionsFromCheckpoint :: "('m, 'k) host \<Rightarrow> 'k \<Rightarrow> candidate_options option" where
  "optionsFromCheckpoint h k = resolveOptions h (h_config h k)"

definition sameOptions :: "candidate_options \<Rightarrow> candidate_options \<Rightarrow> bool" where
  "sameOptions left right \<longleftrightarrow>
     op_isTandy left = op_isTandy right \<and> op_strict left = op_strict right \<and>
     op_maxInstructions left = op_maxInstructions right \<and>
     op_maxInstructionsPerTurn left = op_maxInstructionsPerTurn right"

fun hex_digits :: "nat \<Rightarrow> string" where
  "hex_digits n =
     (if n < 16 then [(''0123456789abcdef'' ! n)]
      else hex_digits (n div 16) @ [''0123456789abcdef'' ! (n mod 16)])"

declare hex_digits.simps [simp del]

definition storyId :: "byte list \<Rightarrow> js" where
  "storyId story =
     (let byteSwapped = odd (unat (story ! 1));
          word_at = (\<lambda>i. if byteSwapped then unat (story ! i) + 256 * unat (story ! (i + 1))
                         else 256 * unat (story ! i) + unat (story ! (i + 1)));
          checksum = hex_digits (word_at 28)
      in js (''zcode-v3-r'' @ decimal (word_at 2) @ ''-s'') @
         map ucast (take 6 (drop 18 story)) @
         js (''-c'' @ replicate (4 - length checksum) (CHR ''0'') @ checksum))"

definition new_session ::
  "('m, 'k) host \<Rightarrow> byte list \<Rightarrow> raw_options \<Rightarrow> 'm session option" where
  "new_session h story o' =
     (if length story < 64 then None
      else if story ! 0 \<noteq> 3 then None
      else
        (case resolveOptions h o' of
           None \<Rightarrow> None
         | Some opts \<Rightarrow>
             if \<not> h_new h story opts then None
             else Some \<lparr>se_story = story, se_options = opts, se_machine = None, se_io = new_io,
                    se_started = False, se_disposed = False, se_lifecycleEpoch = 0,
                    se_operationInFlight = False, se_revision = 0, se_lastOutput = [],
                    se_boundary = InputRequested\<rparr>))"

definition recordTurn :: "turn \<Rightarrow> 'm session \<Rightarrow> 'm session" where
  "recordTurn t s = s\<lparr>se_lastOutput := tn_output t, se_boundary := tn_boundary t\<rparr>"

definition launch :: "js list \<times> 'm run_end \<Rightarrow> 'm session \<Rightarrow> 'm session" where
  "launch run s = (case settle run (se_io s) of (io, m) \<Rightarrow> s\<lparr>se_io := io, se_machine := m\<rparr>)"

definition take_turn :: "'m session \<Rightarrow> 'm session \<times> (session_error + turn)" where
  "take_turn s = (case nextTurn (se_io s) of (io, r) \<Rightarrow> (s\<lparr>se_io := io\<rparr>, r))"

definition boot :: "('m, 'k) host \<Rightarrow> 'm session \<Rightarrow> 'm session \<times> (session_error + turn)" where
  "boot h s =
     (if se_disposed s then (s, Inl SessionFailure)
      else if se_started s then (s, Inl SessionFailure)
      else
        let s1 = s\<lparr>se_started := True\<rparr> in
        if se_operationInFlight s1 then (s1, Inl SessionFailure)
        else
          (case take_turn (launch (h_start h (se_story s) (se_options s)) s1) of
             (s2, Inl e) \<Rightarrow> (s2, Inl e)
           | (s2, Inr t) \<Rightarrow>
               if tn_boundary t = InputRequested \<and> \<not> cleanInputBoundary (se_io s2)
               then (s2, Inl SessionFailure)
               else (recordTurn t s2, Inr t)))"

text \<open>
  \<open>#operationInFlight\<close> is set by \<open>#beginOperation\<close> and cleared in \<open>finally\<close>, so the record
  returned by a settled operation has it clear again.
\<close>

definition execute :: "('m, 'k) host \<Rightarrow> js \<Rightarrow> 'm session \<Rightarrow> 'm session \<times> (session_error + turn)" where
  "execute h command s =
     (if se_disposed s then (s, Inl SessionFailure)
      else if \<not> se_started s then (s, Inl SessionFailure)
      else if canonicalizeCommand (JStr command) \<noteq> Inr command then (s, Inl SessionFailure)
      else if se_operationInFlight s then (s, Inl SessionFailure)
      else
        (case io_submit command (se_io s) of
           Inl e \<Rightarrow> (s, Inl e)
         | Inr io \<Rightarrow>
             (case se_machine s of
                None \<Rightarrow> (s\<lparr>se_io := io\<rparr>, Inl SessionFailure)
              | Some m \<Rightarrow>
                  (case take_turn (launch (h_input h m command) (s\<lparr>se_io := io\<rparr>)) of
                     (s2, Inl e) \<Rightarrow> (s2, Inl e)
                   | (s2, Inr t) \<Rightarrow>
                       (recordTurn t (s2\<lparr>se_revision := se_revision s2 + 1\<rparr>), Inr t)))))"

definition atInputBoundary :: "'m session \<Rightarrow> bool" where \<comment> \<open>\<open>#assertAtInputBoundary\<close>\<close>
  "atInputBoundary s \<longleftrightarrow>
     \<not> se_disposed s \<and> se_started s \<and> se_boundary s = InputRequested \<and> io_pendingRead (se_io s) \<noteq> None"

definition snapshot :: "('m, 'k) host \<Rightarrow> 'm session \<Rightarrow> session_error + byte list" where
  "snapshot h s =
     (if \<not> atInputBoundary s then Inl SessionFailure
      else if se_operationInFlight s then Inl SessionFailure
      else
        (case se_machine s of
           None \<Rightarrow> Inl SessionFailure
         | Some m \<Rightarrow>
             (case (h_checkpoint h m, h_sha256 h (se_story s)) of
                (Some k, Some sha) \<Rightarrow>
                  (case h_encode h \<lparr>ce_storyId = storyId (se_story s), ce_artifactSha256 = sha,
                          ce_revision = se_revision s, ce_lastOutput = se_lastOutput s, ce_machine = k\<rparr> of
                     None \<Rightarrow> Inl SessionFailure
                   | Some bytes \<Rightarrow> Inr bytes)
              | _ \<Rightarrow> Inl SessionFailure)))"

definition raw_of :: "candidate_options \<Rightarrow> raw_options" where \<comment> \<open>resolved options passed on\<close>
  "raw_of o' = \<lparr>raw_isTandy = Some (op_isTandy o'), raw_seed = Some (op_seed o'),
     raw_strict = Some (op_strict o'), raw_maxInstructions = op_maxInstructions o',
     raw_maxInstructionsPerTurn = jnat (op_maxInstructionsPerTurn o')\<rparr>"

definition restoreFromSnapshot ::
  "('m, 'k) host \<Rightarrow> byte list \<Rightarrow> byte list \<Rightarrow> 'm session option" where
  "restoreFromSnapshot h story bytes =
     (case h_decode h bytes of
        None \<Rightarrow> None
      | Some env \<Rightarrow>
          (case optionsFromCheckpoint h (ce_machine env) of
             None \<Rightarrow> None
           | Some opts \<Rightarrow>
               (case new_session h story (raw_of opts) of
                  None \<Rightarrow> None
                | Some candidate \<Rightarrow>
                    if h_sha256 h story \<noteq> Some (ce_artifactSha256 env) \<or> ce_storyId env \<noteq> storyId story
                    then None
                    else
                      (case take_turn (launch (h_resume h story (se_options candidate) (ce_machine env))
                              (candidate\<lparr>se_started := True, se_revision := ce_revision env,
                                 se_lastOutput := ce_lastOutput env\<rparr>)) of
                         (s2, Inl e) \<Rightarrow> None
                       | (s2, Inr t) \<Rightarrow>
                           if tn_boundary t \<noteq> InputRequested \<or> tn_output t \<noteq> [] then None
                           else if \<not> cleanInputBoundary (se_io s2) then None
                           else Some (s2\<lparr>se_boundary := InputRequested\<rparr>)))))"

definition restore ::
  "('m, 'k) host \<Rightarrow> byte list \<Rightarrow> 'm session \<Rightarrow> 'm session \<times> (session_error + turn)" where
  "restore h bytes s =
     (if \<not> atInputBoundary s then (s, Inl SessionFailure)
      else if se_operationInFlight s then (s, Inl SessionFailure)
      else
        (case restoreFromSnapshot h (se_story s) bytes of
           None \<Rightarrow> (s, Inl SessionFailure)
         | Some candidate \<Rightarrow>
             if \<not> sameOptions (se_options candidate) (se_options s) then (s, Inl SessionFailure)
             else
               (s\<lparr>se_machine := se_machine candidate, se_io := se_io candidate,
                  se_options := se_options candidate, se_revision := se_revision candidate,
                  se_lastOutput := se_lastOutput candidate, se_boundary := InputRequested\<rparr>,
                Inr \<lparr>tn_output = [], tn_boundary = InputRequested\<rparr>)))"

definition inspectPublicState :: "'m session \<Rightarrow> public_state option" where
  "inspectPublicState s =
     (if se_disposed s then None
      else Some \<lparr>ps_revision = se_revision s, ps_lastOutput = se_lastOutput s, ps_boundary = se_boundary s\<rparr>)"

definition dispose :: "'m session \<Rightarrow> 'm session" where
  "dispose s =
     (if se_disposed s then s
      else s\<lparr>se_disposed := True, se_lifecycleEpoch := se_lifecycleEpoch s + 1,
             se_io := io_dispose (se_io s)\<rparr>)"

section \<open>What a turn carries\<close>

definition io_bounded :: "candidate_io \<Rightarrow> bool" where
  "io_bounded io \<longleftrightarrow>
     length (utf8_encode (io_output io)) \<le> io_outputBytes io \<and> io_outputBytes io \<le> maxOutputBytes \<and>
     (\<forall>t \<in> set (io_turns io). length (utf8_encode (tn_output t)) \<le> maxOutputBytes)"

definition io_textual :: "candidate_io \<Rightarrow> bool" where
  "io_textual io \<longleftrightarrow> well_formed (io_output io) \<and> (\<forall>t \<in> set (io_turns io). well_formed (tn_output t))"

text \<open>The machine prints well-formed text only: the documented output of \<open>String.fromCharCode\<close>
  on the Z-machine's own character set.\<close>

definition prints_text :: "('m, 'k) host \<Rightarrow> bool" where
  "prints_text h \<longleftrightarrow>
     (\<forall>b o' s. s \<in> set (fst (h_start h b o')) \<longrightarrow> well_formed s) \<and>
     (\<forall>m c s. s \<in> set (fst (h_input h m c)) \<longrightarrow> well_formed s) \<and>
     (\<forall>b o' k s. s \<in> set (fst (h_resume h b o' k)) \<longrightarrow> well_formed s)"

lemma io_bounded_new [simp]: "io_bounded new_io"
  by (simp add: io_bounded_def new_io_def)

lemma io_textual_new [simp]: "io_textual new_io"
  by (simp add: io_textual_def new_io_def)

lemma io_print_bounded: "io_print s io = Some io' \<Longrightarrow> io_bounded io \<Longrightarrow> io_bounded io'"
  using length_utf8_append [of "io_output io" s]
  by (auto simp: io_print_def io_bounded_def Let_def split: if_splits)

lemma io_print_textual:
  "io_print s io = Some io' \<Longrightarrow> io_textual io \<Longrightarrow> well_formed s \<Longrightarrow> io_textual io'"
  by (auto simp: io_print_def io_textual_def Let_def well_formed_append split: if_splits)

lemma io_drain_bounded: "io_bounded io \<Longrightarrow> io_bounded (io_drain_emit b io)"
  by (auto simp: io_bounded_def io_drain_emit_def)

lemma io_drain_textual: "io_textual io \<Longrightarrow> io_textual (io_drain_emit b io)"
  by (auto simp: io_textual_def io_drain_emit_def)

lemma print_prefix_cases: "io_prints ss io = Some io' \<Longrightarrow> io' = print_prefix ss io"
  by (induction ss arbitrary: io) (auto split: option.splits)

lemma print_prefix_bounded: "io_bounded io \<Longrightarrow> io_bounded (print_prefix ss io)"
  by (induction ss arbitrary: io) (auto split: option.splits dest: io_print_bounded)

lemma print_prefix_textual:
  "io_textual io \<Longrightarrow> (\<And>s. s \<in> set ss \<Longrightarrow> well_formed s) \<Longrightarrow> io_textual (print_prefix ss io)"
  by (induction ss arbitrary: io) (auto split: option.splits dest: io_print_textual)

lemma io_fail_keeps [simp]:
  "io_bounded (io_fail io) = io_bounded io" "io_textual (io_fail io) = io_textual io"
  by (simp_all add: io_fail_def io_bounded_def io_textual_def)

lemma io_ends:
  "io_bounded io \<Longrightarrow> io_bounded (io_finish io)" "io_textual io \<Longrightarrow> io_textual (io_finish io)"
  by (auto simp: io_finish_def io_bounded_def io_textual_def io_drain_emit_def)

lemma io_read_keeps:
  "io_read n io = Some io' \<Longrightarrow> io_bounded io \<Longrightarrow> io_bounded io'"
  "io_read n io = Some io' \<Longrightarrow> io_textual io \<Longrightarrow> io_textual io'"
  by (auto simp: io_read_def io_bounded_def io_textual_def io_drain_emit_def split: if_splits)

lemma settle_bounded: "io_bounded io \<Longrightarrow> io_bounded (fst (settle run io))"
  using print_prefix_bounded [of io "fst run"]
  by (auto simp: settle_def io_ends dest!: print_prefix_cases dest: io_read_keeps
      split: option.split run_end.split)

lemma settle_textual:
  "io_textual io \<Longrightarrow> (\<And>s. s \<in> set (fst run) \<Longrightarrow> well_formed s) \<Longrightarrow> io_textual (fst (settle run io))"
  using print_prefix_textual [of io "fst run"]
  by (auto simp: settle_def io_ends dest!: print_prefix_cases dest: io_read_keeps
      split: option.split run_end.split)

text \<open>A settled run has emitted a turn or failed, so \<open>nextTurn\<close> always settles too.\<close>

lemma print_prefix_status [simp]:
  "io_disposed (print_prefix ss io) = io_disposed io"
  "io_terminated (print_prefix ss io) = io_terminated io"
  "io_turns (print_prefix ss io) = io_turns io"
  by (induction ss arbitrary: io) (auto simp: io_print_def Let_def split: option.splits if_splits)

lemma turn_or_failed:
  "\<not> io_disposed io \<Longrightarrow> \<not> io_terminated io \<Longrightarrow> settle run io = (io', m) \<Longrightarrow>
     io_turns io' \<noteq> [] \<or> io_failed io'"
  by (auto simp: settle_def io_fail_def io_finish_def io_read_def io_drain_emit_def
      dest!: print_prefix_cases split: option.splits run_end.splits if_splits)

section \<open>Sessions\<close>

definition good_session :: "('m, 'k) host \<Rightarrow> 'm session \<Rightarrow> bool" where
  "good_session h s \<longleftrightarrow> io_bounded (se_io s) \<and> (prints_text h \<longrightarrow> io_textual (se_io s))"

lemma new_session_good: "new_session h story o' = Some s \<Longrightarrow> good_session h s"
  by (auto simp: new_session_def good_session_def Let_def split: if_splits option.splits)

lemma launch_fields [simp]:
  "se_disposed (launch run s) = se_disposed s" "se_revision (launch run s) = se_revision s"
  "se_lastOutput (launch run s) = se_lastOutput s" "se_boundary (launch run s) = se_boundary s"
  "se_started (launch run s) = se_started s" "se_story (launch run s) = se_story s"
  "se_options (launch run s) = se_options s" "se_operationInFlight (launch run s) = se_operationInFlight s"
  by (simp_all add: launch_def split: prod.split)

lemma take_turn_fields:
  assumes "take_turn s = (s', r)"
  shows "se_disposed s' = se_disposed s" "se_revision s' = se_revision s"
    "se_lastOutput s' = se_lastOutput s" "se_boundary s' = se_boundary s"
    "se_started s' = se_started s" "se_story s' = se_story s" "se_options s' = se_options s"
    "se_operationInFlight s' = se_operationInFlight s"
    "se_machine s' = se_machine s"
  using assms by (auto simp: take_turn_def split: prod.splits)

lemma take_turn_good:
  assumes "take_turn s = (s', r)" and "good_session h s"
  shows "good_session h s'"
  using assms by (auto simp: take_turn_def nextTurn_def good_session_def io_bounded_def io_textual_def
      split: prod.splits if_splits list.splits)

lemma take_turn_turn:
  assumes "take_turn s = (s', Inr t)" and "good_session h s"
  shows "length (utf8_encode (tn_output t)) \<le> maxOutputBytes"
    and "prints_text h \<Longrightarrow> well_formed (tn_output t)"
  using assms by (auto simp: take_turn_def nextTurn_def good_session_def io_bounded_def io_textual_def
      split: prod.splits if_splits list.splits)

lemma launch_good:
  "good_session h s \<Longrightarrow> (prints_text h \<Longrightarrow> \<forall>x \<in> set (fst run). well_formed x) \<Longrightarrow> good_session h (launch run s)"
  using settle_bounded [of "se_io s" run] settle_textual [of "se_io s" run]
  by (auto simp: good_session_def launch_def split: prod.split)

lemma recordTurn_good [simp]: "good_session h (recordTurn t s) = good_session h s"
  by (simp add: good_session_def recordTurn_def)

lemma io_submit_keeps:
  "io_submit c io = Inr io' \<Longrightarrow> io_bounded io' = io_bounded io \<and> io_textual io' = io_textual io"
  by (auto simp: io_submit_def io_bounded_def io_textual_def split: if_splits option.splits)

lemma good_session_update [simp]:
  "good_session h (s\<lparr>se_started := x\<rparr>) = good_session h s"
  "good_session h (s\<lparr>se_revision := n\<rparr>) = good_session h s"
  "good_session h (s\<lparr>se_lastOutput := t\<rparr>) = good_session h s"
  "good_session h (s\<lparr>se_boundary := b\<rparr>) = good_session h s"
  by (simp_all add: good_session_def)

text \<open>One launch of the machine and the turn it settles with.\<close>

definition run_turn :: "js list \<times> 'm run_end \<Rightarrow> 'm session \<Rightarrow> 'm session \<times> (session_error + turn)" where
  "run_turn run s = take_turn (launch run s)"

lemma run_turn_fields:
  assumes "run_turn run s = (s', r)"
  shows "se_disposed s' = se_disposed s" "se_revision s' = se_revision s"
    "se_lastOutput s' = se_lastOutput s" "se_boundary s' = se_boundary s" "se_story s' = se_story s"
  using take_turn_fields [OF assms [unfolded run_turn_def]] by simp_all

definition texts_ok :: "('m, 'k) host \<Rightarrow> js list \<times> 'm run_end \<Rightarrow> bool" where
  "texts_ok h run \<longleftrightarrow> (prints_text h \<longrightarrow> (\<forall>x \<in> set (fst run). well_formed x))"

lemma texts_ok [simp]:
  "texts_ok h (h_start h b o')" "texts_ok h (h_input h m c)" "texts_ok h (h_resume h b o' k)"
  by (auto simp: texts_ok_def prints_text_def)

lemma run_turn_good:
  assumes "run_turn run s = (s', r)" and "good_session h s" and "texts_ok h run"
  shows "good_session h s'"
  using assms unfolding run_turn_def texts_ok_def by (blast intro: take_turn_good launch_good)

lemma run_turn_turn:
  assumes "run_turn run s = (s', Inr t)" and "good_session h s" and "texts_ok h run"
  shows "length (utf8_encode (tn_output t)) \<le> maxOutputBytes"
    and "prints_text h \<Longrightarrow> well_formed (tn_output t)"
  using assms take_turn_turn [of "launch run s" s' t h] launch_good [of h s run]
  unfolding run_turn_def texts_ok_def by blast+

lemma boot_Inr:
  assumes "boot h s = (s', Inr t)"
  obtains s2 where "run_turn (h_start h (se_story s) (se_options s)) (s\<lparr>se_started := True\<rparr>) = (s2, Inr t)"
    "s' = recordTurn t s2" "\<not> se_disposed s"
  using assms
  by (auto simp: boot_def Let_def run_turn_def [symmetric] split: if_splits prod.splits sum.splits)

lemma boot_good:
  assumes "good_session h s" "boot h s = (s', r)"
  shows "good_session h s'"
proof -
  let ?run = "run_turn (h_start h (se_story s) (se_options s)) (s\<lparr>se_started := True\<rparr>)"
  obtain s2 r2 where run: "?run = (s2, r2)" by fastforce
  have "good_session h s2" by (rule run_turn_good [where h = h, OF run]) (simp_all add: assms(1))
  with assms run show ?thesis
    by (auto simp: boot_def Let_def run_turn_def [symmetric] split: if_splits sum.splits)
qed

lemma boot_turn:
  assumes "good_session h s" "boot h s = (s', Inr t)"
  shows "inspectPublicState s' =
      Some \<lparr>ps_revision = se_revision s, ps_lastOutput = tn_output t, ps_boundary = tn_boundary t\<rparr>"
    and "length (utf8_encode (tn_output t)) \<le> maxOutputBytes"
    and "prints_text h \<Longrightarrow> well_formed (tn_output t)"
proof -
  obtain s2 where run: "run_turn (h_start h (se_story s) (se_options s)) (s\<lparr>se_started := True\<rparr>) = (s2, Inr t)"
    and s': "s' = recordTurn t s2" "\<not> se_disposed s"
    using boot_Inr [OF assms(2)] .
  from s' run_turn_fields [OF run] show "inspectPublicState s' =
      Some \<lparr>ps_revision = se_revision s, ps_lastOutput = tn_output t, ps_boundary = tn_boundary t\<rparr>"
    by (simp add: inspectPublicState_def recordTurn_def)
  show "length (utf8_encode (tn_output t)) \<le> maxOutputBytes"
    by (rule run_turn_turn(1) [where h = h, OF run]) (simp_all add: assms(1))
  show "prints_text h \<Longrightarrow> well_formed (tn_output t)"
    by (rule run_turn_turn(2) [where h = h, OF run]) (simp_all add: assms(1))
qed

lemma execute_Inr:
  assumes "execute h c s = (s', Inr t)"
  obtains io m s2 where "io_submit c (se_io s) = Inr io" "se_machine s = Some m"
    "run_turn (h_input h m c) (s\<lparr>se_io := io\<rparr>) = (s2, Inr t)"
    "s' = recordTurn t (s2\<lparr>se_revision := se_revision s2 + 1\<rparr>)" "\<not> se_disposed s" "se_started s"
    "canonical c"
  using assms
  by (auto simp: execute_def run_turn_def [symmetric] canonicalize_iff split: if_splits prod.splits sum.splits option.splits)

lemma good_session_io: "io_submit c (se_io s) = Inr io \<Longrightarrow> good_session h (s\<lparr>se_io := io\<rparr>) = good_session h s"
  using io_submit_keeps [of c "se_io s" io] by (simp add: good_session_def)

lemma execute_good:
  assumes "good_session h s" "execute h c s = (s', r)"
  shows "good_session h s'"
proof (cases "\<exists>io m. io_submit c (se_io s) = Inr io \<and> se_machine s = Some m")
  case True
  then obtain io m where io: "io_submit c (se_io s) = Inr io" "se_machine s = Some m" by blast
  obtain s2 r2 where run: "run_turn (h_input h m c) (s\<lparr>se_io := io\<rparr>) = (s2, r2)" by fastforce
  have "good_session h s2"
    by (rule run_turn_good [where h = h, OF run]) (simp_all add: assms(1) good_session_io [OF io(1)])
  with assms run io show ?thesis
    by (auto simp: execute_def run_turn_def [symmetric] split: if_splits sum.splits)
next
  case False
  with assms good_session_io [of c s] show ?thesis
    by (auto simp: execute_def split: if_splits sum.splits option.splits)
qed

lemma execute_turn:
  assumes "good_session h s" "execute h c s = (s', Inr t)"
  shows "inspectPublicState s' =
      Some \<lparr>ps_revision = se_revision s + 1, ps_lastOutput = tn_output t, ps_boundary = tn_boundary t\<rparr>"
    and "length (utf8_encode (tn_output t)) \<le> maxOutputBytes"
    and "prints_text h \<Longrightarrow> well_formed (tn_output t)"
proof -
  obtain io m s2 where io: "io_submit c (se_io s) = Inr io" "se_machine s = Some m" and
    run: "run_turn (h_input h m c) (s\<lparr>se_io := io\<rparr>) = (s2, Inr t)" and
    s': "s' = recordTurn t (s2\<lparr>se_revision := se_revision s2 + 1\<rparr>)" "\<not> se_disposed s"
    using execute_Inr [OF assms(2)] .
  from s' run_turn_fields [OF run] show "inspectPublicState s' =
      Some \<lparr>ps_revision = se_revision s + 1, ps_lastOutput = tn_output t, ps_boundary = tn_boundary t\<rparr>"
    by (simp add: inspectPublicState_def recordTurn_def)
  show "length (utf8_encode (tn_output t)) \<le> maxOutputBytes"
    by (rule run_turn_turn(1) [where h = h, OF run]) (simp_all add: assms(1) good_session_io [OF io(1)])
  show "prints_text h \<Longrightarrow> well_formed (tn_output t)"
    by (rule run_turn_turn(2) [where h = h, OF run]) (simp_all add: assms(1) good_session_io [OF io(1)])
qed

text \<open>A failed command leaves the public state alone, an overlong one the whole session.\<close>

lemma run_turn_public: "run_turn run s = (s', r) \<Longrightarrow> inspectPublicState s' = inspectPublicState s"
  by (simp add: inspectPublicState_def run_turn_fields)

lemma inspect_io [simp]: "inspectPublicState (s\<lparr>se_io := io\<rparr>) = inspectPublicState s"
  by (simp add: inspectPublicState_def)

lemma execute_failed:
  assumes "execute h c s = (s', Inl e)"
  shows "inspectPublicState s' = inspectPublicState s"
  using assms
  by (auto simp: execute_def run_turn_def [symmetric]
      split: if_splits prod.splits sum.splits option.splits dest!: run_turn_public)

lemma nextTurn_error: "nextTurn io = (io', Inl e) \<Longrightarrow> e = SessionFailure"
  by (auto simp: nextTurn_def split: if_splits list.splits)

lemma execute_limit:
  assumes "execute h c s = (s', Inl StoryLimit)"
  shows "s' = s" and "\<exists>n. io_pendingRead (se_io s) = Some n \<and> n \<le> length c"
  using assms
  by (auto simp: execute_def take_turn_def io_submit_def dest: nextTurn_error
      split: if_splits prod.splits sum.splits option.splits)

lemma restore_Some:
  assumes "restoreFromSnapshot h story bytes = Some s"
  obtains env opts s0 s2 t where "h_decode h bytes = Some env"
    "new_session h story (raw_of opts) = Some s0"
    "run_turn (h_resume h story (se_options s0) (ce_machine env))
       (s0\<lparr>se_started := True, se_revision := ce_revision env, se_lastOutput := ce_lastOutput env\<rparr>) = (s2, Inr t)"
    "s = s2\<lparr>se_boundary := InputRequested\<rparr>" "cleanInputBoundary (se_io s2)" "tn_output t = []"
  using assms
  by (auto simp: restoreFromSnapshot_def run_turn_def [symmetric] split: if_splits prod.splits sum.splits option.splits)

lemma new_session_fields:
  "new_session h story o' = Some s \<Longrightarrow>
     \<not> se_disposed s \<and> se_revision s = 0 \<and> se_boundary s = InputRequested \<and> \<not> se_started s \<and>
     \<not> se_operationInFlight s \<and> se_story s = story \<and> se_io s = new_io \<and> se_lastOutput s = []"
  by (auto simp: new_session_def Let_def split: if_splits option.splits)

lemma restore_public:
  assumes "restoreFromSnapshot h story bytes = Some s"
  shows "good_session h s"
    and "\<exists>env. h_decode h bytes = Some env \<and> inspectPublicState s =
      Some \<lparr>ps_revision = ce_revision env, ps_lastOutput = ce_lastOutput env, ps_boundary = InputRequested\<rparr>"
proof -
  obtain env opts s0 s2 t where env: "h_decode h bytes = Some env" and
    s0: "new_session h story (raw_of opts) = Some s0" and
    run: "run_turn (h_resume h story (se_options s0) (ce_machine env))
       (s0\<lparr>se_started := True, se_revision := ce_revision env, se_lastOutput := ce_lastOutput env\<rparr>) = (s2, Inr t)" and
    s: "s = s2\<lparr>se_boundary := InputRequested\<rparr>"
    using restore_Some [OF assms] .
  have "good_session h s2"
    by (rule run_turn_good [where h = h, OF run]) (simp_all add: new_session_good [OF s0])
  with s show "good_session h s" by simp
  from env s run_turn_fields [OF run] new_session_fields [OF s0]
  show "\<exists>env. h_decode h bytes = Some env \<and> inspectPublicState s =
      Some \<lparr>ps_revision = ce_revision env, ps_lastOutput = ce_lastOutput env, ps_boundary = InputRequested\<rparr>"
    by (simp add: inspectPublicState_def)
qed

section \<open>Checkpoints\<close>

text \<open>
  What a checkpoint promises: the codec returns what it encoded, and a machine started from a
  checkpoint asks for input at once, without printing, in the state the checkpoint was taken.
\<close>

definition resumes :: "('m, 'k) host \<Rightarrow> byte list \<Rightarrow> bool" where
  "resumes h story \<longleftrightarrow>
     (\<forall>env bytes. h_encode h env = Some bytes \<longrightarrow> h_decode h bytes = Some env) \<and>
     (\<forall>m k. h_checkpoint h m = Some k \<longrightarrow>
        (\<exists>opts s0 n. optionsFromCheckpoint h k = Some opts \<and> new_session h story (raw_of opts) = Some s0 \<and>
           h_resume h story (se_options s0) k = ([], AtRead n m) \<and> 1 \<le> n \<and> n \<le> 0xffff))"

lemma settle_silent_read:
  assumes "1 \<le> n" and "n \<le> 0xffff"
  shows "settle ([], AtRead n m) new_io =
     (new_io\<lparr>io_pendingRead := Some n, io_inputBoundaryCount := 1,
        io_turns := [\<lparr>tn_output = [], tn_boundary = InputRequested\<rparr>]\<rparr>, Some m)"
  using assms by (simp add: settle_def io_read_def io_drain_emit_def new_io_def)

lemma snapshot_restore_session:
  assumes "snapshot h s = Inr bytes" and "resumes h (se_story s)"
  shows "\<exists>s'. restoreFromSnapshot h (se_story s) bytes = Some s' \<and>
    inspectPublicState s' = inspectPublicState s \<and> se_machine s' = se_machine s \<and> atInputBoundary s'"
proof -
  obtain m k sha where at: "atInputBoundary s" and m: "se_machine s = Some m" "h_checkpoint h m = Some k"
    and sha: "h_sha256 h (se_story s) = Some sha"
    and enc: "h_encode h \<lparr>ce_storyId = storyId (se_story s), ce_artifactSha256 = sha,
        ce_revision = se_revision s, ce_lastOutput = se_lastOutput s, ce_machine = k\<rparr> = Some bytes"
    using assms(1) by (auto simp: snapshot_def split: if_splits option.splits)
  from enc assms(2) have dec: "h_decode h bytes = Some \<lparr>ce_storyId = storyId (se_story s), ce_artifactSha256 = sha,
        ce_revision = se_revision s, ce_lastOutput = se_lastOutput s, ce_machine = k\<rparr>"
    by (simp add: resumes_def)
  from m assms(2) obtain opts s0 n where opts: "optionsFromCheckpoint h k = Some opts"
    "new_session h (se_story s) (raw_of opts) = Some s0"
    "h_resume h (se_story s) (se_options s0) k = ([], AtRead n m)" and n: "1 \<le> n" "n \<le> 0xffff"
    unfolding resumes_def by blast
  note s0 = new_session_fields [OF opts(2)]
  from at dec opts sha s0 m settle_silent_read [OF n, of m] show ?thesis
    by (simp add: restoreFromSnapshot_def take_turn_def launch_def nextTurn_def new_io_def
        cleanInputBoundary_def inspectPublicState_def atInputBoundary_def)
qed

section \<open>Sessions keep their story\<close>

lemma recordTurn_story [simp]: "se_story (recordTurn t s) = se_story s"
  by (simp add: recordTurn_def)

lemma boot_story: "boot h s = (s', r) \<Longrightarrow> se_story s' = se_story s"
  by (auto simp: boot_def Let_def run_turn_def [symmetric] run_turn_fields split: if_splits prod.splits sum.splits)

lemma execute_story: "execute h c s = (s', r) \<Longrightarrow> se_story s' = se_story s"
  by (auto simp: execute_def run_turn_def [symmetric] run_turn_fields
      split: if_splits prod.splits sum.splits option.splits)

lemma restore_story:
  assumes "restoreFromSnapshot h story bytes = Some s"
  shows "se_story s = story"
  using assms by (auto simp: restoreFromSnapshot_def run_turn_def [symmetric] run_turn_fields
      dest!: new_session_fields split: if_splits prod.splits sum.splits option.splits)

end
