(* ===== verification/Worker_Protocol.thy ===== *)
theory Worker_Protocol
  imports Contracts
begin

text \<open>
  \<open>packages/game-engine/src/worker-protocol.ts\<close>: the messages that cross the worker boundary.
  The runtime answers with a typed \<open>response\<close>; what the adapter receives is its image as an
  untyped value, built here field by field.
\<close>

section \<open>Protocol (\<open>worker-protocol.ts\<close>)\<close>

definition ENGINE_WORKER_PROTOCOL_VERSION :: nat where
  "ENGINE_WORKER_PROTOCOL_VERSION = 1"

datatype error_code = Invalid_request | Not_booted | Already_booted | Internal_error

datatype restore_status = Restored | Incompatible_snapshot | Corrupt_snapshot

record restore_result = \<comment> \<open>\<open>output\<close> is the literal empty string\<close>
  rr_status :: restore_status
  rr_revision :: nat
  rr_boundary :: boundary

datatype response =
    BootResponse js boot_result
  | ExecuteResponse js execute_result
  | SnapshotResponse js engine_snapshot
  | RestoreResponse js restore_result
  | InspectResponse js public_state
  | ErrorResponse js error_code

section \<open>Messages as values\<close>

definition compatibility_js :: "compatibility \<Rightarrow> jsval" where
  "compatibility_js c = JObj
     [(js ''story'', JObj [(js ''id'', JStr (story_id c)), (js ''artifactSha256'', JStr (story_sha256 c))]),
      (js ''runtime'', JObj [(js ''id'', JStr (runtime_id c)), (js ''version'', JStr (runtime_version c)),
        (js ''artifactSha256'', JStr (runtime_sha256 c))]),
      (js ''adapter'', JObj [(js ''id'', JStr (adapter_id c)), (js ''version'', JStr (adapter_version c))]),
      (js ''snapshotSchemaVersion'', jnat (snapshotSchemaVersion c))]"

definition boot_result_js :: "boot_result \<Rightarrow> jsval" where
  "boot_result_js r = JObj
     [(js ''revision'', jnat 0), (js ''output'', JStr (br_output r)), (js ''turnComplete'', JBool True),
      (js ''boundary'', JStr (js (boundary_name (br_boundary r)))),
      (js ''compatibility'', compatibility_js (br_compatibility r))]"

definition execute_result_js :: "execute_result \<Rightarrow> jsval" where
  "execute_result_js r = JObj
     ([(js ''requestId'', JStr (er_requestId r)), (js ''previousRevision'', jnat (er_previousRevision r)),
       (js ''revision'', jnat (er_revision r)), (js ''command'', JStr (er_command r)),
       (js ''output'', JStr (er_output r)), (js ''turnComplete'', JBool True),
       (js ''boundary'', JStr (js (boundary_name (er_boundary r))))] @
      (case er_status r of
         Committed \<Rightarrow> [(js ''status'', JStr (js ''committed''))]
       | Rejected why \<Rightarrow>
           [(js ''status'', JStr (js ''rejected'')), (js ''rejection'', JStr (js (rejection_name why)))]))"

definition engine_snapshot_js :: "engine_snapshot \<Rightarrow> jsval" where
  "engine_snapshot_js sn = JObj
     [(js ''bytes'', JBytes (sn_bytes sn)), (js ''sha256'', JStr (sn_sha256 sn)),
      (js ''revision'', jnat (sn_revision sn)), (js ''compatibility'', compatibility_js (sn_compatibility sn))]"

fun restore_status_fields :: "restore_status \<Rightarrow> (js \<times> jsval) list" where
  "restore_status_fields Restored = [(js ''status'', JStr (js ''restored''))]"
| "restore_status_fields Incompatible_snapshot =
     [(js ''status'', JStr (js ''rejected'')), (js ''rejection'', JStr (js ''incompatible_snapshot''))]"
| "restore_status_fields Corrupt_snapshot =
     [(js ''status'', JStr (js ''rejected'')), (js ''rejection'', JStr (js ''corrupt_snapshot''))]"

definition restore_result_js :: "restore_result \<Rightarrow> jsval" where
  "restore_result_js r = JObj
     (restore_status_fields (rr_status r) @
      [(js ''revision'', jnat (rr_revision r)), (js ''output'', JStr []), (js ''turnComplete'', JBool True),
       (js ''boundary'', JStr (js (boundary_name (rr_boundary r))))])"

definition public_state_js :: "public_state \<Rightarrow> jsval" where
  "public_state_js ps = JObj
     [(js ''revision'', jnat (ps_revision ps)), (js ''lastOutput'', JStr (ps_lastOutput ps)),
      (js ''boundary'', JStr (js (boundary_name (ps_boundary ps))))]"

fun error_code_name :: "error_code \<Rightarrow> string" where
  "error_code_name Invalid_request = ''invalid_request''"
| "error_code_name Not_booted = ''not_booted''"
| "error_code_name Already_booted = ''already_booted''"
| "error_code_name Internal_error = ''internal_error''"

definition message_js :: "js \<Rightarrow> string \<Rightarrow> (js \<times> jsval) list \<Rightarrow> jsval" where
  "message_js messageId kind rest = JObj
     ([(js ''protocolVersion'', jnat ENGINE_WORKER_PROTOCOL_VERSION), (js ''messageId'', JStr messageId),
       (js ''kind'', JStr (js kind))] @ rest)"

text \<open>The text of an error's \<open>message\<close> is never inspected; it is left empty here.\<close>

fun response_js :: "response \<Rightarrow> jsval" where
  "response_js (BootResponse mid r) = message_js mid ''boot.result'' [(js ''result'', boot_result_js r)]"
| "response_js (ExecuteResponse mid r) = message_js mid ''execute.result'' [(js ''result'', execute_result_js r)]"
| "response_js (SnapshotResponse mid sn) =
     message_js mid ''snapshot.result'' [(js ''snapshot'', engine_snapshot_js sn)]"
| "response_js (RestoreResponse mid r) = message_js mid ''restore.result'' [(js ''result'', restore_result_js r)]"
| "response_js (InspectResponse mid ps) =
     message_js mid ''inspect-public-state.result'' [(js ''state'', public_state_js ps)]"
| "response_js (ErrorResponse mid c) = message_js mid ''error''
     [(js ''error'', JObj [(js ''code'', JStr (js (error_code_name c))), (js ''message'', JStr [])])]"

definition execute_js :: "js \<Rightarrow> js \<Rightarrow> nat \<Rightarrow> js \<Rightarrow> jsval" where
  "execute_js mid rid expected command = message_js mid ''execute''
     [(js ''input'', JObj [(js ''requestId'', JStr rid), (js ''expectedRevision'', jnat expected),
        (js ''command'', JStr command)])]"

section \<open>Reading messages\<close>

lemma message_fields [simp]:
  "getProp (message_js mid kind rest) ''messageId'' = JStr mid"
  "getProp (message_js mid kind rest) ''protocolVersion'' = jnat ENGINE_WORKER_PROTOCOL_VERSION"
  "getProp (message_js mid kind rest) ''kind'' = JStr (js kind)"
  "message_js mid kind rest \<noteq> JUndef" "message_js mid kind rest \<noteq> JNull"
  by (simp_all add: message_js_def)

lemma readProp_message [simp]: "readProp e (message_js mid kind rest) k = Inr (getProp (message_js mid kind rest) k)"
  by (simp add: readProp_def)

lemma message_rest [simp]:
  "k \<notin> {''protocolVersion'', ''messageId'', ''kind''} \<Longrightarrow>
   getProp (message_js mid kind rest) k = getProp (JObj rest) k"
  by (simp add: message_js_def)

end
