(* ===== verification/Worker_Runtime.thy ===== *)
theory Worker_Runtime
  imports Snapshot_Codec Candidate_Session Worker_Protocol
begin

text \<open>
  \<open>spikes/dork-worker/dork-worker-runtime.ts\<close>: the worker-side protocol runtime.  It owns one
  story session and a journal of request receipts.  Each \<open>await\<close> of the code is a point where
  the operation is suspended with a \<open>pending\<close> continuation; other requests and \<open>dispose\<close> may
  arrive there.  The session is reached through a record of its operations.
\<close>

section \<open>Sessions as the runtime sees them\<close>

record 's session_ops =
  so_create :: "byte list \<Rightarrow> nat option \<Rightarrow> 's option"
  so_boot :: "'s \<Rightarrow> 's \<times> (session_error + turn)"
  so_execute :: "js \<Rightarrow> 's \<Rightarrow> 's \<times> (session_error + turn)"
  so_snapshot :: "'s \<Rightarrow> session_error + byte list"
  so_restore :: "byte list \<Rightarrow> byte list \<Rightarrow> 's option"
  so_inspect :: "'s \<Rightarrow> public_state option"
  so_sha256 :: "byte list \<Rightarrow> js option" \<comment> \<open>\<open>digestSha256\<close>\<close>

section \<open>State\<close>

datatype 's pending =
    BootArtifact js js js
  | BootTurn js js nat 's
  | ExecuteTurn js js nat js public_state
  | SnapshotCheckpoint js compatibility
  | SnapshotDigest js "byte list" nat compatibility
  | RestoreDigest js engine_snapshot public_state
  | RestoreCandidate js worker_snapshot "receipt list" nat nat public_state

record 's runtime =
  rt_storyId :: js
  rt_storyBytes :: "byte list"
  rt_artifactSha256 :: "js option"
  rt_seed :: "nat option"
  rt_maxReceipts :: nat
  rt_maxReceiptJournalBytes :: nat
  rt_session :: "'s option"
  rt_compatibility :: "compatibility option"
  rt_receipts :: "receipt list" \<comment> \<open>the map's entries in insertion order\<close>
  rt_receiptJournalBytes :: nat
  rt_operationInFlight :: bool
  rt_disposed :: bool
  rt_lifecycleEpoch :: nat
  rt_pending :: "'s pending option"

datatype runtime_error = InvalidRequestError | OtherError

datatype 's progress = Done response | Await "'s pending"

section \<open>Validation of untrusted fields\<close>

definition MAX_RUNTIME_ID_BYTES :: nat where "MAX_RUNTIME_ID_BYTES = 128"
definition UINT32_MAX :: nat where "UINT32_MAX = 0xffffffff"

fun isRecord :: "jsval \<Rightarrow> bool" where
  "isRecord (JObj _) = True"
| "isRecord (JArr _) = True"
| "isRecord (JBytes _) = True"
| "isRecord _ = False"

definition utf8Length :: "js \<Rightarrow> nat" where
  "utf8Length s = length (utf8_encode s)"

definition requireBoundedId :: "jsval \<Rightarrow> runtime_error + js" where
  "requireBoundedId v =
     (case v of
        JStr s \<Rightarrow>
          if s = [] \<or> MAX_RUNTIME_ID_BYTES < utf8Length s \<or> has_control s then Inl InvalidRequestError
          else Inr s
      | _ \<Rightarrow> Inl InvalidRequestError)"

definition requireRevision :: "jsval \<Rightarrow> runtime_error + nat" where
  "requireRevision v = (case safe_nat v of Some n \<Rightarrow> Inr n | None \<Rightarrow> Inl InvalidRequestError)"

definition is_hex :: "code_unit \<Rightarrow> bool" where
  "is_hex u \<longleftrightarrow> (0x61 \<le> u \<and> u \<le> 0x66) \<or> (0x30 \<le> u \<and> u \<le> 0x39)"

definition requireSha256 :: "jsval \<Rightarrow> runtime_error + js" where
  "requireSha256 v =
     (case v of
        JStr s \<Rightarrow> if length s = 64 \<and> list_all is_hex s then Inr s else Inl InvalidRequestError
      | _ \<Rightarrow> Inl InvalidRequestError)"

datatype constructor_error = InvalidStoryId | TypeError | RangeError

definition requirePositiveLimit :: "jsval \<Rightarrow> nat \<Rightarrow> constructor_error + nat" where
  "requirePositiveLimit v maximum =
     (let resolved = (if v = JUndef \<or> v = JNull then jnat maximum else v) in
      case safe_nat resolved of
        None \<Rightarrow> Inl RangeError
      | Some n \<Rightarrow> if n < 1 \<or> maximum < n then Inl RangeError else Inr n)"

definition sameCompatibility :: "compatibility \<Rightarrow> compatibility \<Rightarrow> bool" where
  "sameCompatibility left right \<longleftrightarrow>
     story_id left = story_id right \<and> story_sha256 left = story_sha256 right \<and>
     runtime_id left = runtime_id right \<and> runtime_version left = runtime_version right \<and>
     runtime_sha256 left = runtime_sha256 right \<and> adapter_id left = adapter_id right \<and>
     adapter_version left = adapter_version right \<and>
     snapshotSchemaVersion left = snapshotSchemaVersion right"

definition cloneIncomingCompatibility :: "jsval \<Rightarrow> runtime_error + compatibility" where
  "cloneIncomingCompatibility v =
     bindE (ensure (isRecord v) InvalidRequestError) (\<lambda>_.
     let story = getProp v ''story''; runtime = getProp v ''runtime''; adapter = getProp v ''adapter'' in
     bindE (ensure (isRecord story \<and> isRecord runtime \<and> isRecord adapter) InvalidRequestError) (\<lambda>_.
     bindE (requireBoundedId (getProp story ''id'')) (\<lambda>sid.
     bindE (requireSha256 (getProp story ''artifactSha256'')) (\<lambda>ssha.
     bindE (requireBoundedId (getProp runtime ''id'')) (\<lambda>rid.
     bindE (requireBoundedId (getProp runtime ''version'')) (\<lambda>rver.
     bindE (requireSha256 (getProp runtime ''artifactSha256'')) (\<lambda>rsha.
     bindE (requireBoundedId (getProp adapter ''id'')) (\<lambda>aid.
     bindE (requireBoundedId (getProp adapter ''version'')) (\<lambda>aver.
     bindE (requireRevision (getProp v ''snapshotSchemaVersion'')) (\<lambda>schema.
     if schema < 1 then Inl InvalidRequestError
     else Inr \<lparr>story_id = sid, story_sha256 = ssha, runtime_id = rid, runtime_version = rver,
            runtime_sha256 = rsha, adapter_id = aid, adapter_version = aver,
            snapshotSchemaVersion = schema\<rparr>))))))))))"

section \<open>Construction and disposal\<close>

record runtime_options =
  ro_storyId :: jsval
  ro_storyBytes :: jsval
  ro_seed :: jsval
  ro_maxReceipts :: jsval
  ro_maxReceiptJournalBytes :: jsval

definition newDorkWorkerRuntime :: "'s session_ops \<Rightarrow> runtime_options \<Rightarrow> constructor_error + 's runtime" where
  "newDorkWorkerRuntime ops o' =
     (case requireBoundedId (ro_storyId o') of
        Inl _ \<Rightarrow> Inl InvalidStoryId
      | Inr sid \<Rightarrow>
          (case ro_storyBytes o' of
             JBytes story \<Rightarrow>
               if length story < 64 then Inl RangeError
               else if ro_seed o' \<noteq> JUndef \<and>
                 (case safe_nat (ro_seed o') of None \<Rightarrow> True | Some n \<Rightarrow> UINT32_MAX < n)
               then Inl RangeError
               else
                 bindE (requirePositiveLimit (ro_maxReceipts o') MAX_RECEIPTS) (\<lambda>mr.
                 bindE (requirePositiveLimit (ro_maxReceiptJournalBytes o') MAX_RECEIPT_JOURNAL_BYTES) (\<lambda>mj.
                 Inr \<lparr>rt_storyId = sid, rt_storyBytes = story, rt_artifactSha256 = so_sha256 ops story,
                      rt_seed = safe_nat (ro_seed o'), rt_maxReceipts = mr,
                      rt_maxReceiptJournalBytes = mj, rt_session = None, rt_compatibility = None,
                      rt_receipts = [], rt_receiptJournalBytes = 0, rt_operationInFlight = False,
                      rt_disposed = False, rt_lifecycleEpoch = 0, rt_pending = None\<rparr>))
           | _ \<Rightarrow> Inl TypeError))"

definition dispose_runtime :: "'s runtime \<Rightarrow> 's runtime" where \<comment> \<open>\<open>dispose\<close>\<close>
  "dispose_runtime st =
     (if rt_disposed st then st
      else st\<lparr>rt_disposed := True, rt_lifecycleEpoch := rt_lifecycleEpoch st + 1, rt_session := None,
              rt_compatibility := None, rt_receipts := [], rt_receiptJournalBytes := 0\<rparr>)"

definition DORK_WORKER_RUNTIME_ID :: string where
  "DORK_WORKER_RUNTIME_ID = ''dork-e5fce5ca678660611b5d2daa94bbffdb3a84e622-fork-a0a31ec97a78771229615c4311ea4209813e29a65df421f0e020b161447f1605''"

definition DORK_WORKER_RUNTIME_ARTIFACT_SHA256 :: string where
  "DORK_WORKER_RUNTIME_ARTIFACT_SHA256 = ''a0a31ec97a78771229615c4311ea4209813e29a65df421f0e020b161447f1605''"

definition createCompatibility :: "'s runtime \<Rightarrow> js \<Rightarrow> compatibility" where
  "createCompatibility st artifactSha256 =
     \<lparr>story_id = rt_storyId st, story_sha256 = artifactSha256, runtime_id = js DORK_WORKER_RUNTIME_ID,
      runtime_version = js ''candidate-1'', runtime_sha256 = js DORK_WORKER_RUNTIME_ARTIFACT_SHA256,
      adapter_id = js ''sttork-dork-worker-spike'', adapter_version = js ''1'',
      snapshotSchemaVersion = 1\<rparr>"

section \<open>The receipt journal\<close>

definition find_receipt :: "js \<Rightarrow> receipt list \<Rightarrow> receipt option" where \<comment> \<open>\<open>#receipts.get\<close>\<close>
  "find_receipt rid rcs = find (\<lambda>rc. rc_requestId rc = rid) rcs"

definition set_receipt :: "receipt \<Rightarrow> receipt list \<Rightarrow> receipt list" where \<comment> \<open>\<open>#receipts.set\<close>\<close>
  "set_receipt rc rcs =
     (if find_receipt (rc_requestId rc) rcs = None then rcs @ [rc]
      else map (\<lambda>r. if rc_requestId r = rc_requestId rc then rc else r) rcs)"

definition measure_receipt_bytes :: "receipt \<Rightarrow> runtime_error + nat" where
  "measure_receipt_bytes rc =
     (case measureWorkerSnapshotReceiptBytes (receipt_js rc) of Inl _ \<Rightarrow> Inl OtherError | Inr n \<Rightarrow> Inr n)"

definition canRecordReceipt :: "'s runtime \<Rightarrow> receipt \<Rightarrow> runtime_error + bool" where
  "canRecordReceipt st rc =
     (if length (rt_receipts st) < rt_maxReceipts st then
        bindE (measure_receipt_bytes rc) (\<lambda>n.
          Inr (rt_receiptJournalBytes st + n \<le> rt_maxReceiptJournalBytes st))
      else Inr False)"

definition recordReceipt :: "'s runtime \<Rightarrow> receipt \<Rightarrow> runtime_error + 's runtime" where
  "recordReceipt st rc =
     bindE (canRecordReceipt st rc) (\<lambda>ok.
     if \<not> ok then Inl OtherError
     else
       bindE (measure_receipt_bytes rc) (\<lambda>n.
       Inr (st\<lparr>rt_receipts := set_receipt rc (rt_receipts st),
               rt_receiptJournalBytes := rt_receiptJournalBytes st + n\<rparr>)))"

definition canRecordWorstCaseCommittedReceipt ::
  "'s runtime \<Rightarrow> js \<Rightarrow> nat \<Rightarrow> js \<Rightarrow> nat \<Rightarrow> runtime_error + bool" where
  "canRecordWorstCaseCommittedReceipt st rid expected command previous =
     canRecordReceipt st \<lparr>rc_requestId = rid, rc_expectedRevision = expected, rc_command = command,
       rc_result = \<lparr>er_requestId = rid, er_previousRevision = previous, er_revision = previous + 1,
         er_command = command,
         er_output = replicate DORK_CHECKPOINT_MAX_LAST_OUTPUT_BYTES 0x78,
         er_boundary = InputRequested, er_status = Committed\<rparr>\<rparr>"

definition rejectedExecute :: "js \<Rightarrow> js \<Rightarrow> nat \<Rightarrow> boundary \<Rightarrow> rejection \<Rightarrow> execute_result" where
  "rejectedExecute rid command revision bd rejection =
     \<lparr>er_requestId = rid, er_previousRevision = revision, er_revision = revision, er_command = command,
      er_output = [], er_boundary = bd, er_status = Rejected rejection\<rparr>"

definition receiptCapacityResponse :: "js \<Rightarrow> js \<Rightarrow> js \<Rightarrow> nat \<Rightarrow> boundary \<Rightarrow> response" where
  "receiptCapacityResponse messageId rid command revision bd =
     ExecuteResponse messageId (rejectedExecute rid command revision bd ReceiptCapacity)"

fun restore_receipts ::
  "nat \<Rightarrow> receipt list \<Rightarrow> nat \<Rightarrow> receipt list \<Rightarrow> runtime_error + receipt list \<times> nat" where
  "restore_receipts maximum rcs bytes [] = Inr (rcs, bytes)"
| "restore_receipts maximum rcs bytes (stored # rest) =
     (if find_receipt (rc_requestId stored) rcs \<noteq> None then Inl OtherError
      else
        bindE (measure_receipt_bytes stored) (\<lambda>n.
        if maximum < bytes + n then Inl OtherError
        else restore_receipts maximum (set_receipt stored rcs) (bytes + n) rest))"

definition validateRestoredReceipts :: "'s runtime \<Rightarrow> worker_snapshot \<Rightarrow> runtime_error + receipt list \<times> nat" where
  "validateRestoredReceipts st ws =
     (if rt_maxReceipts st < length (ws_receipts ws) then Inl OtherError
      else restore_receipts (rt_maxReceiptJournalBytes st) [] 0 (ws_receipts ws))"

section \<open>Operations up to their first await\<close>

type_synonym 's step_result = "'s runtime \<times> (runtime_error + 's progress)"

definition begin_boot :: "'s runtime \<Rightarrow> js \<Rightarrow> jsval \<Rightarrow> runtime_error + 's progress" where
  "begin_boot st messageId req =
     (if rt_session st \<noteq> None then Inr (Done (ErrorResponse messageId Already_booted))
      else
        let input = getProp req ''input'' in
        bindE (ensure (isRecord input) InvalidRequestError) (\<lambda>_.
        bindE (requireBoundedId (getProp input ''storyId'')) (\<lambda>sid.
        bindE (requireSha256 (getProp input ''artifactSha256'')) (\<lambda>sha.
        Inr (Await (BootArtifact messageId sid sha))))))"

definition record_and_respond ::
  "'s runtime \<Rightarrow> js \<Rightarrow> nat \<Rightarrow> execute_result \<Rightarrow> 's step_result" where
  \<comment> \<open>the shared tail of the terminated and stale branches\<close>
  "record_and_respond st messageId expected result =
     (let rc = \<lparr>rc_requestId = er_requestId result, rc_expectedRevision = expected,
            rc_command = er_command result, rc_result = result\<rparr>
      in case canRecordReceipt st rc of
           Inl e \<Rightarrow> (st, Inl e)
         | Inr False \<Rightarrow>
             (st, Inr (Done (receiptCapacityResponse messageId (er_requestId result) (er_command result)
                (er_revision result) (er_boundary result))))
         | Inr True \<Rightarrow>
             (case recordReceipt st rc of
                Inl e \<Rightarrow> (st, Inl e)
              | Inr st' \<Rightarrow> (st', Inr (Done (ExecuteResponse messageId result)))))"

definition begin_execute :: "'s session_ops \<Rightarrow> 's runtime \<Rightarrow> js \<Rightarrow> jsval \<Rightarrow> 's step_result" where
  "begin_execute ops st messageId req =
     (case rt_session st of
        None \<Rightarrow> (st, Inr (Done (ErrorResponse messageId Not_booted)))
      | Some s \<Rightarrow>
          let input = getProp req ''input'' in
          if \<not> isRecord input then (st, Inl InvalidRequestError)
          else
            (case (requireBoundedId (getProp input ''requestId''),
                   requireRevision (getProp input ''expectedRevision''), getProp input ''command'') of
               (Inr rid, Inr expected, JStr command) \<Rightarrow>
                 (case find_receipt rid (rt_receipts st) of
                    Some existing \<Rightarrow>
                      if rc_expectedRevision existing = expected \<and> rc_command existing = command
                      then (st, Inr (Done (ExecuteResponse messageId (rc_result existing))))
                      else
                        (case so_inspect ops s of
                           None \<Rightarrow> (st, Inl OtherError)
                         | Some ps \<Rightarrow>
                             (st, Inr (Done (ExecuteResponse messageId
                                (rejectedExecute rid command (ps_revision ps) (ps_boundary ps) Duplicate)))))
                  | None \<Rightarrow>
                      (case so_inspect ops s of
                         None \<Rightarrow> (st, Inl OtherError)
                       | Some ps \<Rightarrow>
                           if canonicalizeCommand (JStr command) \<noteq> Inr command
                           then (st, Inr (Done (ErrorResponse messageId Invalid_request)))
                           else if ps_boundary ps = Terminated
                           then record_and_respond st messageId expected
                                  (rejectedExecute rid command (ps_revision ps) (ps_boundary ps) InvalidCommand)
                           else if expected \<noteq> ps_revision ps
                           then record_and_respond st messageId expected
                                  (rejectedExecute rid command (ps_revision ps) (ps_boundary ps) StaleRevision)
                           else if ps_revision ps = MAX_SAFE_INTEGER then (st, Inl OtherError)
                           else
                             (case canRecordWorstCaseCommittedReceipt st rid expected command (ps_revision ps) of
                                Inl e \<Rightarrow> (st, Inl e)
                              | Inr False \<Rightarrow>
                                  (st, Inr (Done (receiptCapacityResponse messageId rid command
                                     (ps_revision ps) (ps_boundary ps))))
                              | Inr True \<Rightarrow> (st, Inr (Await (ExecuteTurn messageId rid expected command ps))))))
             | _ \<Rightarrow> (st, Inl InvalidRequestError)))"

definition begin_snapshot :: "'s runtime \<Rightarrow> js \<Rightarrow> runtime_error + 's progress" where
  "begin_snapshot st messageId =
     (case (rt_session st, rt_compatibility st) of
        (Some _, Some compatib) \<Rightarrow> Inr (Await (SnapshotCheckpoint messageId compatib))
      | _ \<Rightarrow> Inr (Done (ErrorResponse messageId Not_booted)))"

definition reject_restore :: "js \<Rightarrow> restore_status \<Rightarrow> public_state \<Rightarrow> response" where
  "reject_restore messageId rejection active =
     RestoreResponse messageId \<lparr>rr_status = rejection, rr_revision = ps_revision active,
       rr_boundary = ps_boundary active\<rparr>"

definition readSnapshot :: "jsval \<Rightarrow> runtime_error + engine_snapshot" where
  \<comment> \<open>the \<open>try\<close> block of \<open>#restore\<close>; every error in it is \<open>corrupt_snapshot\<close>\<close>
  "readSnapshot v =
     (case getProp v ''bytes'' of
        JBytes bytes \<Rightarrow>
          if bytes = [] \<or> MAX_ENGINE_SNAPSHOT_BYTES < length bytes then Inl OtherError
          else
            bindE (requireSha256 (getProp v ''sha256'')) (\<lambda>sha.
            bindE (requireRevision (getProp v ''revision'')) (\<lambda>revision.
            bindE (cloneIncomingCompatibility (getProp v ''compatibility'')) (\<lambda>compatib.
            Inr \<lparr>sn_bytes = bytes, sn_sha256 = sha, sn_revision = revision, sn_compatibility = compatib\<rparr>)))
      | _ \<Rightarrow> Inl OtherError)"

definition begin_restore :: "'s session_ops \<Rightarrow> 's runtime \<Rightarrow> js \<Rightarrow> jsval \<Rightarrow> runtime_error + 's progress" where
  "begin_restore ops st messageId req =
     (case (rt_session st, rt_compatibility st) of
        (Some s, Some compatib) \<Rightarrow>
          (case so_inspect ops s of
             None \<Rightarrow> Inl OtherError
           | Some active \<Rightarrow>
               (case readSnapshot (getProp req ''snapshot'') of
                  Inl _ \<Rightarrow> Inr (Done (reject_restore messageId Corrupt_snapshot active))
                | Inr sn \<Rightarrow>
                    if \<not> sameCompatibility (sn_compatibility sn) compatib
                    then Inr (Done (reject_restore messageId Incompatible_snapshot active))
                    else Inr (Await (RestoreDigest messageId sn active))))
      | _ \<Rightarrow> Inr (Done (ErrorResponse messageId Not_booted)))"

definition inspect :: "'s session_ops \<Rightarrow> 's runtime \<Rightarrow> js \<Rightarrow> runtime_error + 's progress" where
  "inspect ops st messageId =
     (case rt_session st of
        None \<Rightarrow> Inr (Done (ErrorResponse messageId Not_booted))
      | Some s \<Rightarrow>
          (case so_inspect ops s of
             None \<Rightarrow> Inl OtherError
           | Some ps \<Rightarrow> Inr (Done (InspectResponse messageId ps))))"

section \<open>Continuations after an await\<close>

definition resume_boot_artifact :: "'s session_ops \<Rightarrow> 's runtime \<Rightarrow> js \<Rightarrow> js \<Rightarrow> js \<Rightarrow> runtime_error + 's progress" where
  "resume_boot_artifact ops st messageId sid sha =
     (case rt_artifactSha256 st of
        None \<Rightarrow> Inl OtherError
      | Some artifactSha256 \<Rightarrow>
          if sid \<noteq> rt_storyId st \<or> sha \<noteq> artifactSha256 then Inl InvalidRequestError
          else
            (case so_create ops (rt_storyBytes st) (rt_seed st) of
               None \<Rightarrow> Inl OtherError
             | Some candidate \<Rightarrow>
                 Inr (Await (BootTurn messageId artifactSha256 (rt_lifecycleEpoch st) candidate))))"

definition resume_boot_turn :: "'s session_ops \<Rightarrow> 's runtime \<Rightarrow> js \<Rightarrow> js \<Rightarrow> nat \<Rightarrow> 's \<Rightarrow> 's step_result" where
  "resume_boot_turn ops st messageId sha epoch candidate =
     (case so_boot ops candidate of
        (_, Inl _) \<Rightarrow> (st, Inl OtherError)
      | (candidate', Inr t) \<Rightarrow>
          if rt_disposed st \<or> rt_lifecycleEpoch st \<noteq> epoch then (st, Inl OtherError)
          else
            let compatib = createCompatibility st sha in
            (st\<lparr>rt_session := Some candidate', rt_compatibility := Some compatib\<rparr>,
             Inr (Done (BootResponse messageId \<lparr>br_output = tn_output t, br_boundary = tn_boundary t,
               br_compatibility = compatib\<rparr>))))"

definition record_committed ::
  "'s runtime \<Rightarrow> js \<Rightarrow> nat \<Rightarrow> execute_result \<Rightarrow> 's step_result" where
  "record_committed st messageId expected result =
     (case recordReceipt st \<lparr>rc_requestId = er_requestId result, rc_expectedRevision = expected,
             rc_command = er_command result, rc_result = result\<rparr> of
        Inl e \<Rightarrow> (st, Inl e)
      | Inr st' \<Rightarrow> (st', Inr (Done (ExecuteResponse messageId result))))"

definition record_preflighted ::
  "'s runtime \<Rightarrow> js \<Rightarrow> nat \<Rightarrow> execute_result \<Rightarrow> 's step_result" where
  "record_preflighted st messageId expected result =
     (case canRecordReceipt st \<lparr>rc_requestId = er_requestId result, rc_expectedRevision = expected,
             rc_command = er_command result, rc_result = result\<rparr> of
        Inl e \<Rightarrow> (st, Inl e)
      | Inr False \<Rightarrow> (st, Inl OtherError)
      | Inr True \<Rightarrow> record_committed st messageId expected result)"

definition resume_execute ::
  "'s session_ops \<Rightarrow> 's runtime \<Rightarrow> js \<Rightarrow> js \<Rightarrow> nat \<Rightarrow> js \<Rightarrow> public_state \<Rightarrow> 's step_result" where
  "resume_execute ops st messageId rid expected command state =
     (case rt_session st of
        None \<Rightarrow> (st, Inl OtherError)
      | Some s \<Rightarrow>
          (case so_execute ops command s of
             (s', r) \<Rightarrow>
               let st1 = st\<lparr>rt_session := Some s'\<rparr> in
               (case r of
                  Inl SessionFailure \<Rightarrow> (st1, Inl OtherError)
                | Inl StoryLimit \<Rightarrow>
                    (case so_inspect ops s' of
                       None \<Rightarrow> (st1, Inl OtherError)
                     | Some current \<Rightarrow>
                         record_preflighted st1 messageId expected
                           (rejectedExecute rid command (ps_revision current) (ps_boundary current) InvalidCommand))
                | Inr t \<Rightarrow>
                    (case so_inspect ops s' of
                       None \<Rightarrow> (st1, Inl OtherError)
                     | Some committed \<Rightarrow>
                         if ps_revision committed \<noteq> ps_revision state + 1 \<or>
                            ps_lastOutput committed \<noteq> tn_output t \<or> ps_boundary committed \<noteq> tn_boundary t
                         then (st1, Inl OtherError)
                         else
                           record_committed st1 messageId expected
                             \<lparr>er_requestId = rid, er_previousRevision = ps_revision state,
                              er_revision = ps_revision committed, er_command = command,
                              er_output = tn_output t, er_boundary = tn_boundary t,
                              er_status = Committed\<rparr>))))"

definition resume_checkpoint :: "'s session_ops \<Rightarrow> 's runtime \<Rightarrow> js \<Rightarrow> compatibility \<Rightarrow> runtime_error + 's progress" where
  "resume_checkpoint ops st messageId compatib =
     (case rt_session st of
        None \<Rightarrow> Inl OtherError
      | Some s \<Rightarrow>
          (case so_snapshot ops s of
             Inl _ \<Rightarrow> Inl OtherError
           | Inr inner \<Rightarrow>
               (case so_inspect ops s of
                  None \<Rightarrow> Inl OtherError
                | Some ps \<Rightarrow>
                    (case encodeWorkerSnapshotEnvelope (snapshot_js \<lparr>ws_revision = ps_revision ps,
                            ws_lastOutput = ps_lastOutput ps, ws_boundary = ps_boundary ps,
                            ws_innerCheckpoint = inner, ws_receipts = rt_receipts st\<rparr>) of
                       Inl _ \<Rightarrow> Inl OtherError
                     | Inr encoded \<Rightarrow>
                         if MAX_ENGINE_SNAPSHOT_BYTES < length encoded then Inl OtherError
                         else Inr (Await (SnapshotDigest messageId encoded (ps_revision ps) compatib))))))"

definition resume_snapshot_digest ::
  "'s session_ops \<Rightarrow> js \<Rightarrow> byte list \<Rightarrow> nat \<Rightarrow> compatibility \<Rightarrow> runtime_error + 's progress" where
  "resume_snapshot_digest ops messageId bytes revision compatib =
     (case so_sha256 ops bytes of
        None \<Rightarrow> Inl OtherError
      | Some sha \<Rightarrow> Inr (Done (SnapshotResponse messageId
          \<lparr>sn_bytes = bytes, sn_sha256 = sha, sn_revision = revision, sn_compatibility = compatib\<rparr>)))"

definition resume_restore_digest ::
  "'s session_ops \<Rightarrow> 's runtime \<Rightarrow> js \<Rightarrow> engine_snapshot \<Rightarrow> public_state \<Rightarrow> 's progress" where
  "resume_restore_digest ops st messageId sn active =
     (let reject = Done (reject_restore messageId Corrupt_snapshot active) in
      if so_sha256 ops (sn_bytes sn) \<noteq> Some (sn_sha256 sn) then reject
      else
        (case decodeWorkerSnapshotEnvelope (JBytes (sn_bytes sn)) of
           Inl _ \<Rightarrow> reject
         | Inr env \<Rightarrow>
             if ws_revision env \<noteq> sn_revision sn then reject
             else
               (case validateRestoredReceipts st env of
                  Inl _ \<Rightarrow> reject
                | Inr (rcs, bytes) \<Rightarrow>
                    Await (RestoreCandidate messageId env rcs bytes (rt_lifecycleEpoch st) active))))"

definition resume_restore_candidate ::
  "'s session_ops \<Rightarrow> 's runtime \<Rightarrow> js \<Rightarrow> worker_snapshot \<Rightarrow> receipt list \<Rightarrow> nat \<Rightarrow> nat \<Rightarrow> public_state \<Rightarrow>
     's runtime \<times> response" where
  "resume_restore_candidate ops st messageId env rcs bytes epoch active =
     (let reject = (st, reject_restore messageId Corrupt_snapshot active) in
      case so_restore ops (rt_storyBytes st) (ws_innerCheckpoint env) of
        None \<Rightarrow> reject
      | Some candidate \<Rightarrow>
          (case so_inspect ops candidate of
             None \<Rightarrow> reject
           | Some cs \<Rightarrow>
               if ps_revision cs \<noteq> ws_revision env \<or> ps_lastOutput cs \<noteq> ws_lastOutput env \<or>
                  ps_boundary cs \<noteq> ws_boundary env then reject
               else if rt_disposed st \<or> rt_lifecycleEpoch st \<noteq> epoch then reject
               else
                 (st\<lparr>rt_session := Some candidate, rt_receipts := rcs, rt_receiptJournalBytes := bytes\<rparr>,
                  RestoreResponse messageId \<lparr>rr_status = Restored, rr_revision = ps_revision cs,
                    rr_boundary = ps_boundary cs\<rparr>)))"

section \<open>The runtime as a machine\<close>

datatype event = Exchange jsval | Resume | Dispose

definition error_response :: "js \<Rightarrow> runtime_error \<Rightarrow> response" where \<comment> \<open>the \<open>catch\<close> of \<open>exchange\<close>\<close>
  "error_response messageId e =
     ErrorResponse messageId (case e of InvalidRequestError \<Rightarrow> Invalid_request | OtherError \<Rightarrow> Internal_error)"

definition finish_step :: "js \<Rightarrow> 's step_result \<Rightarrow> 's runtime \<times> response option" where
  "finish_step messageId r =
     (case r of
        (st, Inl e) \<Rightarrow> (st\<lparr>rt_operationInFlight := False, rt_pending := None\<rparr>, Some (error_response messageId e))
      | (st, Inr (Done resp)) \<Rightarrow> (st\<lparr>rt_operationInFlight := False, rt_pending := None\<rparr>, Some resp)
      | (st, Inr (Await p)) \<Rightarrow> (st\<lparr>rt_pending := Some p\<rparr>, None))"

definition message_id :: "jsval \<Rightarrow> js" where
  "message_id req = (case getProp req ''messageId'' of JStr s \<Rightarrow> s | _ \<Rightarrow> [])"

definition dispatch :: "'s session_ops \<Rightarrow> 's runtime \<Rightarrow> jsval \<Rightarrow> 's step_result" where
  "dispatch ops st req =
     (if rt_disposed st then (st, Inr (Done (ErrorResponse (message_id req) Internal_error)))
      else if \<not> isRecord req then (st, Inr (Done (ErrorResponse (message_id req) Invalid_request)))
      else
        (case requireBoundedId (getProp req ''messageId'') of
           Inl e \<Rightarrow> (st, Inl e)
         | Inr messageId \<Rightarrow>
             if getProp req ''protocolVersion'' \<noteq> jnat ENGINE_WORKER_PROTOCOL_VERSION
             then (st, Inl InvalidRequestError)
             else if getProp req ''kind'' = JStr (js ''boot'') then (st, begin_boot st messageId req)
             else if getProp req ''kind'' = JStr (js ''execute'') then begin_execute ops st messageId req
             else if getProp req ''kind'' = JStr (js ''snapshot'') then (st, begin_snapshot st messageId)
             else if getProp req ''kind'' = JStr (js ''restore'') then (st, begin_restore ops st messageId req)
             else if getProp req ''kind'' = JStr (js ''inspect-public-state'') then (st, inspect ops st messageId)
             else (st, Inl InvalidRequestError)))"

definition exchange :: "'s session_ops \<Rightarrow> 's runtime \<Rightarrow> jsval \<Rightarrow> 's runtime \<times> response option" where
  "exchange ops st req =
     (if rt_operationInFlight st then (st, Some (ErrorResponse (message_id req) Invalid_request))
      else finish_step (message_id req) (dispatch ops (st\<lparr>rt_operationInFlight := True\<rparr>) req))"

fun resume_pending :: "'s session_ops \<Rightarrow> 's runtime \<Rightarrow> 's pending \<Rightarrow> js \<times> 's step_result" where
  "resume_pending ops st (BootArtifact mid sid sha) = (mid, st, resume_boot_artifact ops st mid sid sha)"
| "resume_pending ops st (BootTurn mid sha epoch candidate) =
     (mid, resume_boot_turn ops st mid sha epoch candidate)"
| "resume_pending ops st (ExecuteTurn mid rid expected command state) =
     (mid, resume_execute ops st mid rid expected command state)"
| "resume_pending ops st (SnapshotCheckpoint mid compatib) = (mid, st, resume_checkpoint ops st mid compatib)"
| "resume_pending ops st (SnapshotDigest mid bytes revision compatib) =
     (mid, st, resume_snapshot_digest ops mid bytes revision compatib)"
| "resume_pending ops st (RestoreDigest mid sn active) =
     (mid, st, Inr (resume_restore_digest ops st mid sn active))"
| "resume_pending ops st (RestoreCandidate mid env rcs bytes epoch active) =
     (case resume_restore_candidate ops st mid env rcs bytes epoch active of
        (st', resp) \<Rightarrow> (mid, st', Inr (Done resp)))"

definition resume :: "'s session_ops \<Rightarrow> 's runtime \<Rightarrow> 's runtime \<times> response option" where
  "resume ops st =
     (case rt_pending st of
        None \<Rightarrow> (st, None)
      | Some p \<Rightarrow> (case resume_pending ops st p of (mid, r) \<Rightarrow> finish_step mid r))"

fun runtime_step :: "'s session_ops \<Rightarrow> 's runtime \<Rightarrow> event \<Rightarrow> 's runtime \<times> response option" where
  "runtime_step ops st (Exchange req) = exchange ops st req"
| "runtime_step ops st Resume = resume ops st"
| "runtime_step ops st Dispose = (dispose_runtime st, None)"

inductive runtime_reach :: "'s session_ops \<Rightarrow> 's runtime \<Rightarrow> bool" for ops where
  created: "newDorkWorkerRuntime ops o' = Inr st \<Longrightarrow> runtime_reach ops st"
| stepped: "runtime_reach ops st \<Longrightarrow> runtime_reach ops (fst (runtime_step ops st ev))"

end
