(* ===== verification/Runtime_Invariant.thy ===== *)
theory Runtime_Invariant
  imports Worker_Runtime
begin

text \<open>
  The invariant of the worker runtime: the journal is bounded, agrees with the session's public
  state and leaves room for the turn in flight.  The laws the runtime needs of a session are the
  locale \<open>story_session\<close>; \<open>DorkCandidateSession\<close> discharges them.
\<close>

section \<open>Journal facts\<close>

definition journal_ok :: "'s runtime \<Rightarrow> bool" where
  "journal_ok st \<longleftrightarrow>
     distinct (map rc_requestId (rt_receipts st)) \<and> list_all valid_receipt (rt_receipts st) \<and>
     length (rt_receipts st) \<le> rt_maxReceipts st \<and> rt_maxReceipts st \<le> MAX_RECEIPTS \<and>
     rt_receiptJournalBytes st = journal_size (rt_receipts st) \<and>
     rt_receiptJournalBytes st \<le> rt_maxReceiptJournalBytes st \<and>
     rt_maxReceiptJournalBytes st \<le> MAX_RECEIPT_JOURNAL_BYTES"

definition agrees :: "public_state \<Rightarrow> receipt list \<Rightarrow> bool" where
  "agrees ps rcs \<longleftrightarrow>
     ps_revision ps \<le> MAX_SAFE_INTEGER \<and>
     bounded_text DORK_CHECKPOINT_MAX_LAST_OUTPUT_BYTES True (ps_lastOutput ps) \<and>
     valid_journal (ps_revision ps) (ps_lastOutput ps) (ps_boundary ps) rcs"

lemma find_receipt_None_iff: "find_receipt rid rcs = None \<longleftrightarrow> rid \<notin> rc_requestId ` set rcs"
  by (auto simp: find_receipt_def find_None_iff)

lemma find_receipt_SomeD: "find_receipt rid rcs = Some rc \<Longrightarrow> rc \<in> set rcs \<and> rc_requestId rc = rid"
  by (auto simp: find_receipt_def find_Some_iff)

lemma set_receipt_new:
  "rc_requestId rc \<notin> rc_requestId ` set rcs \<Longrightarrow> set_receipt rc rcs = rcs @ [rc]"
  by (simp add: set_receipt_def find_receipt_None_iff)

lemma measure_iff [result_simps]:
  "measure_receipt_bytes rc = Inr n \<longleftrightarrow> valid_receipt rc \<and> n = receipt_size rc"
  by (auto simp: measure_receipt_bytes_def measureWorkerSnapshotReceiptBytes_def prepareReceipt_receipt_js
      prepared_receipt_of_def bindE_Inr_iff split: sum.split_asm)
     (simp add: prepareReceipt_complete prepared_receipt_of_def)

lemma canRecord_iff [result_simps]:
  "canRecordReceipt st rc = Inr b \<longleftrightarrow>
     (if length (rt_receipts st) < rt_maxReceipts st
      then valid_receipt rc \<and> b = (rt_receiptJournalBytes st + receipt_size rc \<le> rt_maxReceiptJournalBytes st)
      else \<not> b)"
  by (auto simp: canRecordReceipt_def result_simps)

lemma recordReceipt_iff [result_simps]:
  "recordReceipt st rc = Inr st' \<longleftrightarrow>
     length (rt_receipts st) < rt_maxReceipts st \<and> valid_receipt rc \<and>
     rt_receiptJournalBytes st + receipt_size rc \<le> rt_maxReceiptJournalBytes st \<and>
     st' = st\<lparr>rt_receipts := set_receipt rc (rt_receipts st),
              rt_receiptJournalBytes := rt_receiptJournalBytes st + receipt_size rc\<rparr>"
  by (auto simp: recordReceipt_def result_simps split: if_splits)

lemma journal_size_append [simp]: "journal_size (rcs @ [rc]) = journal_size rcs + receipt_size rc"
  by (simp add: journal_size_def)

lemma committed_append [simp]:
  "committed_revisions (rcs @ [rc]) = committed_revisions rcs @
     (if er_status (rc_result rc) = Committed then [er_revision (rc_result rc)] else [])"
  by (simp add: committed_revisions_def)

lemma committed_revisions_le:
  "valid_journal revision lo bd rcs \<Longrightarrow> n \<in> set (committed_revisions rcs) \<Longrightarrow> n \<le> revision"
  by (auto simp: valid_journal_def committed_revisions_def)

lemma valid_journal_rejected:
  assumes "valid_journal revision lo bd rcs" and "rc_requestId rc \<notin> rc_requestId ` set rcs"
    and "er_status (rc_result rc) = Rejected rj" and "er_revision (rc_result rc) = revision"
    and "er_previousRevision (rc_result rc) = revision" and "er_boundary (rc_result rc) = bd"
  shows "valid_journal revision lo bd (rcs @ [rc])"
  using assms by (auto simp: valid_journal_def)

lemma valid_journal_committed:
  assumes "valid_journal revision lo bd rcs" and "rc_requestId rc \<notin> rc_requestId ` set rcs"
    and "er_status (rc_result rc) = Committed" and "er_revision (rc_result rc) = revision + 1"
    and "er_previousRevision (rc_result rc) = revision"
  shows "valid_journal (revision + 1) (er_output (rc_result rc)) (er_boundary (rc_result rc)) (rcs @ [rc])"
proof -
  have "revision + 1 \<notin> set (committed_revisions rcs)"
    using committed_revisions_le [OF assms(1)] by fastforce
  moreover have "{1..revision + 1} = insert (revision + 1) {1..revision}"
    by auto
  ultimately show ?thesis
    using assms by (auto simp: valid_journal_def)
qed

lemma journal_ok_record:
  assumes "journal_ok st" and "recordReceipt st rc = Inr st'"
    and "rc_requestId rc \<notin> rc_requestId ` set (rt_receipts st)"
  shows "journal_ok st'" and "rt_receipts st' = rt_receipts st @ [rc]"
    and "st' = st\<lparr>rt_receipts := rt_receipts st @ [rc],
              rt_receiptJournalBytes := rt_receiptJournalBytes st + receipt_size rc\<rparr>"
  using assms by (auto simp: result_simps set_receipt_new journal_ok_def)

text \<open>Restored receipts are taken over as they are when they fit the runtime's limits.\<close>

lemma restore_receipts_iff:
  assumes "distinct (map rc_requestId (old @ rcs))" and "list_all valid_receipt rcs"
  shows "restore_receipts maxJ old b rcs = Inr (rs', b') \<longleftrightarrow>
     rs' = old @ rcs \<and> b' = b + journal_size rcs \<and> (rcs = [] \<or> b + journal_size rcs \<le> maxJ)"
  using assms
proof (induction rcs arbitrary: old b)
  case (Cons rc rcs)
  have new: "rc_requestId rc \<notin> rc_requestId ` set old" and m: "measure_receipt_bytes rc = Inr (receipt_size rc)"
    using Cons.prems by (auto simp: result_simps)
  have step: "restore_receipts maxJ old b (rc # rcs) =
      (if maxJ < b + receipt_size rc then Inl OtherError
       else restore_receipts maxJ (old @ [rc]) (b + receipt_size rc) rcs)"
    using new m by (simp add: find_receipt_None_iff [symmetric] set_receipt_def)
  have IH: "restore_receipts maxJ (old @ [rc]) (b + receipt_size rc) rcs = Inr (rs', b') \<longleftrightarrow>
      rs' = (old @ [rc]) @ rcs \<and> b' = b + receipt_size rc + journal_size rcs \<and>
      (rcs = [] \<or> b + receipt_size rc + journal_size rcs \<le> maxJ)"
    using Cons.prems by (intro Cons.IH) simp_all
  have size: "journal_size (rc # rcs) = receipt_size rc + journal_size rcs"
    by (simp add: journal_size_def)
  show ?case
    unfolding step size using IH by (auto simp: journal_size_def)
qed (auto simp: journal_size_def)

lemma validateRestored_iff:
  assumes "valid_snapshot ws"
  shows "validateRestoredReceipts st ws = Inr (rcs, bytes) \<longleftrightarrow>
     rcs = ws_receipts ws \<and> bytes = journal_size rcs \<and> length rcs \<le> rt_maxReceipts st \<and>
     (rcs = [] \<or> bytes \<le> rt_maxReceiptJournalBytes st)"
proof -
  have "distinct (map rc_requestId ([] @ ws_receipts ws))" "list_all valid_receipt (ws_receipts ws)"
    using assms by (auto simp: valid_snapshot_def valid_journal_def)
  from restore_receipts_iff [OF this, of "rt_maxReceiptJournalBytes st" 0 rcs bytes] show ?thesis
    by (auto simp: validateRestoredReceipts_def)
qed

section \<open>The laws of a session\<close>

definition turn_ok :: "bool \<Rightarrow> turn \<Rightarrow> bool" where
  "turn_ok textual t \<longleftrightarrow>
     length (utf8_encode (tn_output t)) \<le> DORK_CHECKPOINT_MAX_LAST_OUTPUT_BYTES \<and>
     (textual \<longrightarrow> utf8.faithful (tn_output t))"

locale story_session =
  fixes ops :: "'s session_ops"
    and good :: "'s \<Rightarrow> bool"
    and textual :: bool
  assumes create: "so_create ops story seed = Some s \<Longrightarrow>
        good s \<and> so_inspect ops s = Some \<lparr>ps_revision = 0, ps_lastOutput = [], ps_boundary = InputRequested\<rparr>"
    and boot: "good s \<Longrightarrow> so_inspect ops s = Some ps \<Longrightarrow> so_boot ops s = (s', Inr t) \<Longrightarrow>
        good s' \<and> turn_ok textual t \<and>
        so_inspect ops s' = Some \<lparr>ps_revision = ps_revision ps, ps_lastOutput = tn_output t, ps_boundary = tn_boundary t\<rparr>"
    and execute: "good s \<Longrightarrow> so_inspect ops s = Some ps \<Longrightarrow> so_execute ops c s = (s', Inr t) \<Longrightarrow>
        good s' \<and> turn_ok textual t \<and>
        so_inspect ops s' = Some \<lparr>ps_revision = ps_revision ps + 1, ps_lastOutput = tn_output t, ps_boundary = tn_boundary t\<rparr>"
    and execute_failed: "good s \<Longrightarrow> so_execute ops c s = (s', Inl e) \<Longrightarrow>
        good s' \<and> so_inspect ops s' = so_inspect ops s"
    and restore: "so_restore ops story bytes = Some s \<Longrightarrow> good s"

definition candidate_ops :: "('m, 'k) host \<Rightarrow> 'm session session_ops" where
  "candidate_ops h = \<lparr>so_create = (\<lambda>story seed. new_session h story \<lparr>raw_isTandy = None, raw_seed = seed,
       raw_strict = None, raw_maxInstructions = None, raw_maxInstructionsPerTurn = JUndef\<rparr>),
     so_boot = Candidate_Session.boot h, so_execute = Candidate_Session.execute h,
     so_snapshot = Candidate_Session.snapshot h,
     so_restore = restoreFromSnapshot h, so_inspect = inspectPublicState, so_sha256 = h_sha256 h\<rparr>"

interpretation dork: story_session "candidate_ops h" "good_session h" "prints_text h" for h
proof (unfold_locales, goal_cases)
  case (1 story seed s)
  then show ?case
    by (auto simp: candidate_ops_def inspectPublicState_def dest: new_session_good new_session_fields)
next
  case (2 s ps s' t)
  then show ?case
    using boot_good [of h s s' "Inr t"] boot_turn [of h s s' t]
    by (auto simp: candidate_ops_def turn_ok_def maxOutputBytes_def utf8_faithful_iff
        inspectPublicState_def split: if_splits)
next
  case (3 s ps c s' t)
  then show ?case
    using execute_good [of h s c s' "Inr t"] execute_turn [of h s c s' t]
    by (auto simp: candidate_ops_def turn_ok_def maxOutputBytes_def utf8_faithful_iff
        inspectPublicState_def split: if_splits)
next
  case (4 s c s' e)
  then show ?case
    using execute_good [of h s c s' "Inl e"] execute_failed [of h c s s' e]
    by (simp add: candidate_ops_def)
next
  case (5 story bytes s)
  then show ?case
    using restore_public(1) by (simp add: candidate_ops_def)
qed

section \<open>The invariant\<close>

definition session_ok :: "'s session_ops \<Rightarrow> ('s \<Rightarrow> bool) \<Rightarrow> 's runtime \<Rightarrow> bool" where
  "session_ok ops good st \<longleftrightarrow>
     (case rt_session st of
        None \<Rightarrow> rt_receipts st = [] \<and> rt_compatibility st = None
      | Some s \<Rightarrow> good s \<and> rt_compatibility st \<noteq> None \<and> \<not> rt_disposed st \<and>
          (\<exists>ps. so_inspect ops s = Some ps \<and> agrees ps (rt_receipts st)))"

text \<open>A turn in flight has its journal entry reserved at the worst output size.\<close>

definition reserved :: "'s runtime \<Rightarrow> js \<Rightarrow> js \<Rightarrow> nat \<Rightarrow> bool" where
  "reserved st rid command revision \<longleftrightarrow>
     (let rc = \<lparr>rc_requestId = rid, rc_expectedRevision = revision, rc_command = command,
        rc_result = \<lparr>er_requestId = rid, er_previousRevision = revision, er_revision = revision + 1,
          er_command = command, er_output = replicate DORK_CHECKPOINT_MAX_LAST_OUTPUT_BYTES 0x78,
          er_boundary = InputRequested, er_status = Committed\<rparr>\<rparr>
      in rid \<notin> rc_requestId ` set (rt_receipts st) \<and> length (rt_receipts st) < rt_maxReceipts st \<and>
         valid_receipt rc \<and> rt_receiptJournalBytes st + receipt_size rc \<le> rt_maxReceiptJournalBytes st)"

fun pending_ok :: "'s session_ops \<Rightarrow> ('s \<Rightarrow> bool) \<Rightarrow> 's runtime \<Rightarrow> 's pending \<Rightarrow> bool" where
  "pending_ok ops good st (BootArtifact mid sid sha) = (rt_session st = None)"
| "pending_ok ops good st (BootTurn mid sha epoch candidate) =
     (rt_session st = None \<and> good candidate \<and> so_inspect ops candidate =
        Some \<lparr>ps_revision = 0, ps_lastOutput = [], ps_boundary = InputRequested\<rparr>)"
| "pending_ok ops good st (ExecuteTurn mid rid expected command ps) =
     (requireBoundedId (JStr rid) = Inr rid \<and>
      (\<forall>s. rt_session st = Some s \<longrightarrow> so_inspect ops s = Some ps \<and> expected = ps_revision ps \<and>
        reserved st rid command (ps_revision ps)))"
| "pending_ok ops good st (SnapshotCheckpoint mid compatib) = True"
| "pending_ok ops good st (SnapshotDigest mid bytes revision compatib) = True"
| "pending_ok ops good st (RestoreDigest mid sn active) = (rt_session st = None \<longrightarrow> rt_disposed st)"
| "pending_ok ops good st (RestoreCandidate mid env rcs bytes epoch active) =
     ((rt_session st = None \<longrightarrow> rt_disposed st) \<and> valid_snapshot env \<and> rcs = ws_receipts env \<and>
      bytes = journal_size rcs \<and> length rcs \<le> rt_maxReceipts st \<and>
      bytes \<le> rt_maxReceiptJournalBytes st)"

definition runtime_core :: "'s session_ops \<Rightarrow> ('s \<Rightarrow> bool) \<Rightarrow> 's runtime \<Rightarrow> bool" where
  "runtime_core ops good st \<longleftrightarrow>
     journal_ok st \<and> session_ok ops good st"

definition runtime_ok :: "'s session_ops \<Rightarrow> ('s \<Rightarrow> bool) \<Rightarrow> 's runtime \<Rightarrow> bool" where
  "runtime_ok ops good st \<longleftrightarrow>
     runtime_core ops good st \<and> rt_operationInFlight st = (rt_pending st \<noteq> None) \<and>
     (\<forall>p. rt_pending st = Some p \<longrightarrow> pending_ok ops good st p)"

text \<open>What one handler has to establish.\<close>

definition step_ok :: "'s session_ops \<Rightarrow> ('s \<Rightarrow> bool) \<Rightarrow> 's step_result \<Rightarrow> bool" where
  "step_ok ops good r \<longleftrightarrow>
     runtime_core ops good (fst r) \<and> rt_operationInFlight (fst r) \<and>
     (\<forall>p. snd r = Inr (Await p) \<longrightarrow> pending_ok ops good (fst r) p)"

lemma session_ok_flags [simp]:
  "runtime_core ops good (st\<lparr>rt_operationInFlight := b\<rparr>) = runtime_core ops good st"
  "runtime_core ops good (st\<lparr>rt_pending := x\<rparr>) = runtime_core ops good st"
  by (simp_all add: runtime_core_def journal_ok_def session_ok_def split: option.split)

lemma pending_ok_flags [simp]:
  "pending_ok ops good (st\<lparr>rt_operationInFlight := b\<rparr>) p = pending_ok ops good st p"
  "pending_ok ops good (st\<lparr>rt_pending := x\<rparr>) p = pending_ok ops good st p"
  by (cases p; simp add: reserved_def)+

lemma finish_ok:
  "step_ok ops good r \<Longrightarrow> runtime_ok ops good (fst (finish_step mid r))"
  by (cases r; cases "snd r")
     (auto simp: finish_step_def step_ok_def runtime_ok_def split: progress.splits)

lemma step_ok_same:
  "runtime_core ops good st \<Longrightarrow> rt_operationInFlight st \<Longrightarrow>
     (\<And>p. r = Inr (Await p) \<Longrightarrow> pending_ok ops good st p) \<Longrightarrow> step_ok ops good (st, r)"
  by (simp add: step_ok_def)

lemma newDorkWorkerRuntime_ok:
  assumes "newDorkWorkerRuntime ops o' = Inr st"
  shows "runtime_ok ops good st"
proof -
  have limit: "n \<le> m" if "requirePositiveLimit v m = Inr n" for v m n
    using that by (auto simp: requirePositiveLimit_def Let_def split: option.splits if_splits)
  from assms show ?thesis
    by (auto simp: newDorkWorkerRuntime_def runtime_ok_def runtime_core_def journal_ok_def session_ok_def
        bindE_Inr_iff journal_size_def dest: limit split: sum.splits jsval.splits if_splits)
qed

lemma dispose_ok:
  assumes "runtime_ok ops good st"
  shows "runtime_ok ops good (dispose_runtime st)"
proof (cases "rt_disposed st")
  case True
  with assms show ?thesis by (simp add: dispose_runtime_def)
next
  case False
  have "pending_ok ops good (dispose_runtime st) p" if "pending_ok ops good st p" for p
    using that False by (cases p) (auto simp: dispose_runtime_def)
  with assms False show ?thesis
    by (auto simp: dispose_runtime_def runtime_ok_def runtime_core_def journal_ok_def session_ok_def
        journal_size_def)
qed

lemma record_rejected_ok:
  assumes core: "runtime_core ops good st" and flight: "rt_operationInFlight st"
    and s: "rt_session st = Some s" "so_inspect ops s = Some ps"
    and rc: "rc_result rc = rejectedExecute rid command (ps_revision ps) (ps_boundary ps) rj"
    and new: "rc_requestId rc \<notin> rc_requestId ` set (rt_receipts st)"
    and rec: "recordReceipt st rc = Inr st'"
  shows "step_ok ops good (st', Inr (Done resp))"
proof -
  from core have j: "journal_ok st" and a: "agrees ps (rt_receipts st)"
    using s by (auto simp: runtime_core_def session_ok_def)
  note st' = journal_ok_record [OF j rec new]
  have "agrees ps (rt_receipts st @ [rc])"
    using a rc new by (auto simp: agrees_def rejectedExecute_def intro: valid_journal_rejected)
  with st' core flight s show ?thesis
    by (simp add: step_ok_def runtime_core_def session_ok_def)
qed

lemma begin_execute_cases:
  assumes s: "rt_session st = Some s"
  obtains
    (invalid) "begin_execute ops st mid req = (st, Inl InvalidRequestError)"
  | (fields) rid expected command where
      "getProp (getProp req ''input'') ''requestId'' = JStr rid"
      "getProp (getProp req ''input'') ''command'' = JStr command"
      "requireBoundedId (JStr rid) = Inr rid"
      "requireRevision (getProp (getProp req ''input'') ''expectedRevision'') = Inr expected"
      "isRecord (getProp req ''input'')"
proof (cases "isRecord (getProp req ''input'')")
  case False
  with s have "begin_execute ops st mid req = (st, Inl InvalidRequestError)"
    by (simp add: begin_execute_def Let_def)
  then show ?thesis by (rule invalid)
next
  case True
  show ?thesis
  proof (cases "\<exists>rid expected command. getProp (getProp req ''input'') ''command'' = JStr command \<and>
      requireBoundedId (getProp (getProp req ''input'') ''requestId'') = Inr rid \<and>
      requireRevision (getProp (getProp req ''input'') ''expectedRevision'') = Inr expected")
    case True
    then obtain rid expected command where
      1: "getProp (getProp req ''input'') ''command'' = JStr command"
      "requireBoundedId (getProp (getProp req ''input'') ''requestId'') = Inr rid"
      "requireRevision (getProp (getProp req ''input'') ''expectedRevision'') = Inr expected" by blast
    then have "getProp (getProp req ''input'') ''requestId'' = JStr rid"
      by (auto simp: requireBoundedId_def split: jsval.splits if_splits)
    with 1 \<open>isRecord (getProp req ''input'')\<close> show ?thesis
      by (intro fields) auto
  next
    case False
    then have "begin_execute ops st mid req = (st, Inl InvalidRequestError)"
      using s by (auto simp: begin_execute_def Let_def split: sum.split jsval.split)
    then show ?thesis by (rule invalid)
  qed
qed

lemma step_ok_settled:
  assumes "runtime_core ops good st" and "rt_operationInFlight st"
  shows "step_ok ops good (st, Inr (Done resp))" and "step_ok ops good (st, Inl e)"
  using assms by (simp_all add: step_ok_def)

context story_session
begin

lemma begin_execute_ok:
  assumes core: "runtime_core ops good st" and flight: "rt_operationInFlight st"
  shows "step_ok ops good (begin_execute ops st mid req)"
proof (cases "rt_session st")
  case None
  with assms show ?thesis by (simp add: begin_execute_def step_ok_settled)
next
  case (Some s)
  then obtain ps where ps: "so_inspect ops s = Some ps" and a: "agrees ps (rt_receipts st)"
    using core by (auto simp: runtime_core_def session_ok_def)
  note keep = step_ok_settled [OF assms]
  have rejected: "step_ok ops good (record_and_respond st mid expected
        (rejectedExecute rid command (ps_revision ps) (ps_boundary ps) rj))"
    if "find_receipt rid (rt_receipts st) = None" for rid expected command rj
    unfolding record_and_respond_def Let_def using keep that
    by (auto simp: find_receipt_None_iff rejectedExecute_def split: sum.split bool.split
        intro!: record_rejected_ok [OF core flight Some ps])
  from Some show ?thesis
  proof (cases rule: begin_execute_cases [where ops = ops and mid = mid and req = req])
    case (fields rid expected command)
    have worst: "step_ok ops good (st, Inr (Await (ExecuteTurn mid rid expected command ps)))"
      if "find_receipt rid (rt_receipts st) = None" "expected = ps_revision ps"
        "canRecordWorstCaseCommittedReceipt st rid expected command (ps_revision ps) = Inr True"
      using that assms Some ps fields(3)
      by (intro step_ok_same) (auto simp: reserved_def Let_def canRecordWorstCaseCommittedReceipt_def
          result_simps find_receipt_None_iff split: if_splits)
    show ?thesis
      unfolding begin_execute_def Let_def
      using Some ps keep rejected worst fields
      by (auto split: option.split sum.split bool.split)
  qed (simp add: keep)
qed

lemma begin_boot_ok:
  assumes "runtime_core ops good st" and "rt_operationInFlight st"
  shows "step_ok ops good (st, begin_boot st mid req)"
  using assms by (intro step_ok_same) (auto simp: begin_boot_def Let_def bindE_Inr_iff split: if_splits)

lemma begin_others_ok:
  assumes "runtime_core ops good st" and "rt_operationInFlight st"
  shows "step_ok ops good (st, begin_snapshot st mid)"
    and "step_ok ops good (st, begin_restore ops st mid req)"
    and "step_ok ops good (st, inspect ops st mid)"
  using assms
  by (intro step_ok_same; auto simp: begin_snapshot_def begin_restore_def inspect_def
      split: option.splits sum.splits if_splits)+

lemma dispatch_ok:
  assumes "runtime_core ops good st" and "rt_operationInFlight st"
  shows "step_ok ops good (dispatch ops st req)"
  by (auto simp: dispatch_def begin_execute_ok [OF assms] begin_boot_ok [OF assms] begin_others_ok [OF assms]
      step_ok_settled [OF assms] split: sum.split)

lemma exchange_ok:
  assumes "runtime_ok ops good st"
  shows "runtime_ok ops good (fst (exchange ops st req))"
proof (cases "rt_operationInFlight st")
  case True
  with assms show ?thesis by (simp add: exchange_def)
next
  case False
  from assms have "runtime_core ops good (st\<lparr>rt_operationInFlight := True\<rparr>)"
    by (simp add: runtime_ok_def)
  from finish_ok [OF dispatch_ok [OF this]] False show ?thesis by (simp add: exchange_def)
qed

end

section \<open>Continuations\<close>

lemma length_utf8_x: "length (utf8_encode (replicate n 0x78)) = n"
proof (induction n)
  case (Suc n)
  have "code_points (0x78 # replicate n 0x78) = 0x78 # code_points (replicate n 0x78)"
    using lone_Cons [of "0x78" "replicate n 0x78"] by (simp add: is_high_def is_low_def lone_def)
  with Suc show ?case by (simp add: utf8_encode_def enc_cp_def)
qed simp

lemma agrees_execute:
  assumes "turn_ok True t" and "ps_revision ps < MAX_SAFE_INTEGER" and "agrees ps rcs"
    and "rc_requestId rc \<notin> rc_requestId ` set rcs"
    and "er_status (rc_result rc) = Committed" and "er_revision (rc_result rc) = ps_revision ps + 1"
    and "er_previousRevision (rc_result rc) = ps_revision ps"
    and "er_output (rc_result rc) = tn_output t" and "er_boundary (rc_result rc) = tn_boundary t"
  shows "agrees \<lparr>ps_revision = ps_revision ps + 1, ps_lastOutput = tn_output t,
      ps_boundary = tn_boundary t\<rparr> (rcs @ [rc])"
  using assms valid_journal_committed [of "ps_revision ps" "ps_lastOutput ps" "ps_boundary ps" rcs rc]
  by (auto simp: agrees_def turn_ok_def bounded_text_def)

text \<open>A reserved entry has room for what the turn produces.\<close>

lemma reserved_committed:
  assumes "reserved st rid command revision" and "turn_ok True t"
  shows "\<exists>st'. recordReceipt st \<lparr>rc_requestId = rid, rc_expectedRevision = revision, rc_command = command,
      rc_result = \<lparr>er_requestId = rid, er_previousRevision = revision, er_revision = revision + 1,
        er_command = command, er_output = tn_output t, er_boundary = b, er_status = Committed\<rparr>\<rparr> = Inr st'"
proof -
  have len: "length (utf8_encode (tn_output t)) \<le> DORK_CHECKPOINT_MAX_LAST_OUTPUT_BYTES"
    and faith: "utf8.faithful (tn_output t)"
    using assms(2) by (simp_all add: turn_ok_def)
  with assms(1) show ?thesis
    unfolding recordReceipt_iff reserved_def Let_def
    by (auto simp: valid_receipt_def valid_result_def receipt_size_def length_utf8_x bounded_text_def)
qed

lemma reserved_rejected:
  assumes "reserved st rid command revision" and "revision \<le> MAX_SAFE_INTEGER"
  shows "\<exists>st'. canRecordReceipt st \<lparr>rc_requestId = rid, rc_expectedRevision = revision, rc_command = command,
      rc_result = rejectedExecute rid command revision b InvalidCommand\<rparr> = Inr True \<and>
    recordReceipt st \<lparr>rc_requestId = rid, rc_expectedRevision = revision, rc_command = command,
      rc_result = rejectedExecute rid command revision b InvalidCommand\<rparr> = Inr st'"
  using assms unfolding recordReceipt_iff canRecord_iff reserved_def Let_def
  by (auto simp: valid_receipt_def valid_result_def receipt_size_def length_utf8_x bounded_text_def
      rejectedExecute_def utf8_faithful_iff)

lemma reserved_session [simp]:
  "reserved (st\<lparr>rt_session := x\<rparr>) rid command revision = reserved st rid command revision"
  by (simp add: reserved_def)

lemma journal_ok_session [simp]: "journal_ok (st\<lparr>rt_session := x\<rparr>) = journal_ok st"
  by (simp add: journal_ok_def)

lemma reserved_revision: "reserved st rid command revision \<Longrightarrow> revision < MAX_SAFE_INTEGER"
  by (auto simp: reserved_def Let_def valid_receipt_def valid_result_def)

context story_session
begin

lemma resume_execute_ok:
  assumes core: "runtime_core ops good st" and flight: "rt_operationInFlight st" and textual
    and pending: "pending_ok ops good st (ExecuteTurn mid rid expected command ps)"
  shows "step_ok ops good (resume_execute ops st mid rid expected command ps)"
proof (cases "rt_session st")
  case None
  with core flight show ?thesis by (simp add: resume_execute_def step_ok_settled)
next
  case (Some s)
  from core Some pending have s: "good s" "so_inspect ops s = Some ps" "agrees ps (rt_receipts st)"
    "rt_compatibility st \<noteq> None" "\<not> rt_disposed st" "expected = ps_revision ps"
    and res: "reserved st rid command (ps_revision ps)" and j: "journal_ok st"
    by (auto simp: runtime_core_def session_ok_def)
  have new: "rid \<notin> rc_requestId ` set (rt_receipts st)"
    using res by (simp add: reserved_def Let_def)
  obtain s' r where ex: "so_execute ops command s = (s', r)" by fastforce
  let ?st = "st\<lparr>rt_session := Some s'\<rparr>"
  show ?thesis
  proof (cases r)
    case (Inl e)
    from execute_failed [OF s(1) ex [unfolded Inl]] s(2)
    have s': "good s'" "so_inspect ops s' = Some ps" by simp_all
    then have core': "runtime_core ops good ?st"
      using core Some s by (simp add: runtime_core_def session_ok_def)
    have settled: "step_ok ops good (?st, Inl x)" for x
      using core' flight by (simp add: step_ok_settled)
    obtain st' where rec: "canRecordReceipt ?st \<lparr>rc_requestId = rid, rc_expectedRevision = ps_revision ps,
          rc_command = command, rc_result = rejectedExecute rid command (ps_revision ps) (ps_boundary ps) InvalidCommand\<rparr>
          = Inr True"
      "recordReceipt ?st \<lparr>rc_requestId = rid, rc_expectedRevision = ps_revision ps, rc_command = command,
          rc_result = rejectedExecute rid command (ps_revision ps) (ps_boundary ps) InvalidCommand\<rparr> = Inr st'"
      using reserved_rejected [of ?st rid command "ps_revision ps" "ps_boundary ps"] res reserved_revision [OF res]
      by auto
    have "step_ok ops good (st', Inr (Done resp))" for resp
      by (rule record_rejected_ok [OF core' _ _ s'(2) _ _ rec(2)]) (simp_all add: flight new)
    with rec settled s'(2) s(6) ex Inl Some show ?thesis
      by (cases e) (simp_all add: resume_execute_def record_preflighted_def record_committed_def Let_def
          rejectedExecute_def)
  next
    case (Inr t)
    from execute [OF s(1,2) ex [unfolded Inr]] \<open>textual\<close>
    have s': "good s'" "turn_ok True t" "so_inspect ops s' = Some \<lparr>ps_revision = ps_revision ps + 1,
        ps_lastOutput = tn_output t, ps_boundary = tn_boundary t\<rparr>" by simp_all
    let ?rc = "\<lparr>rc_requestId = rid, rc_expectedRevision = ps_revision ps, rc_command = command,
      rc_result = \<lparr>er_requestId = rid, er_previousRevision = ps_revision ps, er_revision = ps_revision ps + 1,
        er_command = command, er_output = tn_output t, er_boundary = tn_boundary t, er_status = Committed\<rparr>\<rparr>"
    obtain st' where rec: "recordReceipt ?st ?rc = Inr st'"
      using reserved_committed [of ?st rid command "ps_revision ps" t "tn_boundary t"] res s'(2) by auto
    have "agrees \<lparr>ps_revision = ps_revision ps + 1, ps_lastOutput = tn_output t,
        ps_boundary = tn_boundary t\<rparr> (rt_receipts st @ [?rc])"
      using s'(2) reserved_revision [OF res] s(3) new by (intro agrees_execute) simp_all
    with journal_ok_record [of ?st ?rc st'] rec j s s' flight new
    have "step_ok ops good (st', Inr (Done resp))" for resp
      by (simp add: step_ok_def runtime_core_def session_ok_def)
    with rec s'(3) s(6) ex Inr Some show ?thesis
      by (simp add: resume_execute_def record_committed_def Let_def)
  qed
qed

lemma resume_boot_turn_ok:
  assumes core: "runtime_core ops good st" and flight: "rt_operationInFlight st" and textual
    and pending: "pending_ok ops good st (BootTurn mid sha epoch candidate)"
  shows "step_ok ops good (resume_boot_turn ops st mid sha epoch candidate)"
proof -
  obtain s' r where b: "so_boot ops candidate = (s', r)" by fastforce
  note settled = step_ok_settled [OF core flight]
  show ?thesis
  proof (cases r)
    case (Inl e)
    with b show ?thesis by (simp add: resume_boot_turn_def settled)
  next
    case (Inr t)
    from pending have c: "good candidate" "rt_session st = None" "so_inspect ops candidate =
        Some \<lparr>ps_revision = 0, ps_lastOutput = [], ps_boundary = InputRequested\<rparr>" by simp_all
    from boot [OF c(1,3) b [unfolded Inr]] \<open>textual\<close>
    have s': "good s'" "turn_ok True t" "so_inspect ops s' = Some \<lparr>ps_revision = 0,
        ps_lastOutput = tn_output t, ps_boundary = tn_boundary t\<rparr>" by simp_all
    have "rt_receipts st = []" using core c(2) by (simp add: runtime_core_def session_ok_def)
    moreover have "agrees \<lparr>ps_revision = 0, ps_lastOutput = tn_output t, ps_boundary = tn_boundary t\<rparr> []"
      using s'(2) by (simp add: agrees_def valid_journal_def turn_ok_def bounded_text_def)
    ultimately have "\<not> rt_disposed st \<Longrightarrow> step_ok ops good
        (st\<lparr>rt_session := Some s', rt_compatibility := Some x\<rparr>, Inr (Done resp))" for resp x
      using core s' flight by (simp add: step_ok_def runtime_core_def session_ok_def journal_ok_def)
    with b Inr show ?thesis by (simp add: resume_boot_turn_def settled Let_def)
  qed
qed

lemma resume_restore_ok:
  assumes core: "runtime_core ops good st" and flight: "rt_operationInFlight st"
    and pending: "pending_ok ops good st (RestoreCandidate mid env rcs bytes epoch active)"
    and res: "resume_restore_candidate ops st mid env rcs bytes epoch active = (st', resp)"
  shows "step_ok ops good (st', Inr (Done resp))"
proof (cases "st' = st")
  case True
  with core flight show ?thesis by (simp add: step_ok_settled)
next
  case False
  with res obtain s cs where s: "so_restore ops (rt_storyBytes st) (ws_innerCheckpoint env) = Some s"
    "so_inspect ops s = Some cs" "\<not> rt_disposed st" and
    eq: "ps_revision cs = ws_revision env" "ps_lastOutput cs = ws_lastOutput env" "ps_boundary cs = ws_boundary env" and
    st': "st' = st\<lparr>rt_session := Some s, rt_receipts := rcs, rt_receiptJournalBytes := bytes\<rparr>"
    by (auto simp: resume_restore_candidate_def Let_def split: option.splits if_splits)
  have "agrees cs rcs"
    using pending eq by (auto simp: agrees_def valid_snapshot_def)
  moreover have "journal_ok st'"
    using pending core by (auto simp: st' journal_ok_def runtime_core_def valid_snapshot_def valid_journal_def)
  moreover have "rt_compatibility st \<noteq> None"
    using core pending s(3) by (auto simp: runtime_core_def session_ok_def split: option.splits)
  ultimately show ?thesis
    using s core flight restore [OF s(1)] by (auto simp: st' step_ok_def runtime_core_def session_ok_def)
qed

lemma resume_digest_ok:
  assumes core: "runtime_core ops good st" and flight: "rt_operationInFlight st"
    and pending: "pending_ok ops good st (RestoreDigest mid sn active)"
  shows "step_ok ops good (st, Inr (resume_restore_digest ops st mid sn active))"
proof (rule step_ok_same [OF core flight])
  fix p
  assume "Inr (resume_restore_digest ops st mid sn active) = Inr (Await p)"
  then obtain env rcs bytes where p: "p = RestoreCandidate mid env rcs bytes (rt_lifecycleEpoch st) active"
    and dec: "decodeWorkerSnapshotEnvelope (JBytes (sn_bytes sn)) = Inr env"
    and val: "validateRestoredReceipts st env = Inr (rcs, bytes)"
    by (auto simp: resume_restore_digest_def Let_def split: if_splits sum.splits)
  from dec have env: "valid_snapshot env" by (simp add: decode_iff)
  from val have "rcs = ws_receipts env" "bytes = journal_size rcs" "length rcs \<le> rt_maxReceipts st"
    "rcs = [] \<or> bytes \<le> rt_maxReceiptJournalBytes st"
    unfolding validateRestored_iff [OF env] by blast+
  with env pending p show "pending_ok ops good st p" by (auto simp: journal_size_def)
qed

lemma resume_others_ok:
  assumes core: "runtime_core ops good st" and flight: "rt_operationInFlight st"
  shows "pending_ok ops good st (BootArtifact mid sid sha) \<Longrightarrow>
      step_ok ops good (st, resume_boot_artifact ops st mid sid sha)"
    and "step_ok ops good (st, resume_checkpoint ops st mid compatib)"
    and "step_ok ops good (st, resume_snapshot_digest ops mid bytes revision compatib)"
  by (rule step_ok_same [OF core flight],
      auto simp: resume_boot_artifact_def resume_checkpoint_def resume_snapshot_digest_def
        split: option.splits sum.splits if_splits dest: create)+

lemma resume_ok:
  assumes ok: "runtime_ok ops good st" and textual
  shows "runtime_ok ops good (fst (resume ops st))"
proof (cases "rt_pending st")
  case None
  with ok show ?thesis by (simp add: resume_def)
next
  case (Some p)
  from ok Some have core: "runtime_core ops good st" and flight: "rt_operationInFlight st"
    and p: "pending_ok ops good st p"
    by (auto simp: runtime_ok_def)
  obtain mid r where r: "resume_pending ops st p = (mid, r)" by (rule prod.exhaust)
  have "step_ok ops good r"
    using r p resume_execute_ok [OF core flight \<open>textual\<close>] resume_boot_turn_ok [OF core flight \<open>textual\<close>]
      resume_restore_ok [OF core flight] resume_digest_ok [OF core flight] resume_others_ok [OF core flight]
    by (cases p) (auto split: prod.splits simp del: pending_ok.simps)
  from finish_ok [OF this] Some r show ?thesis by (simp add: resume_def)
qed

theorem reach_ok:
  assumes "runtime_reach ops st" and textual
  shows "runtime_ok ops good st"
  using assms(1)
proof induction
  case (created o' st)
  then show ?case by (rule newDorkWorkerRuntime_ok)
next
  case (stepped st ev)
  with \<open>textual\<close> show ?case by (cases ev) (simp_all add: exchange_ok resume_ok dispose_ok)
qed

end

end
