(* ===== verification/Runtime_Facts.thy ===== *)
theory Runtime_Facts
  imports Runtime_Invariant
begin

text \<open>
  How single requests behave on the worker runtime: retries, duplicate ids, turns, snapshots and
  restores.  The facts are stated for the requests a client sends.
\<close>

section \<open>Requests\<close>

definition bounded_id :: "js \<Rightarrow> bool" where
  "bounded_id s \<longleftrightarrow> s \<noteq> [] \<and> utf8Length s \<le> MAX_RUNTIME_ID_BYTES \<and> \<not> has_control s"

definition hex_digest :: "js \<Rightarrow> bool" where
  "hex_digest s \<longleftrightarrow> length s = 64 \<and> list_all is_hex s"

lemma requireBoundedId_iff [result_simps]:
  "requireBoundedId v = Inr s \<longleftrightarrow> v = JStr s \<and> bounded_id s"
  by (auto simp: requireBoundedId_def bounded_id_def not_less split: jsval.splits if_splits)

lemma requireSha256_iff [result_simps]:
  "requireSha256 v = Inr s \<longleftrightarrow> v = JStr s \<and> hex_digest s"
  by (auto simp: requireSha256_def hex_digest_def split: jsval.splits if_splits)

lemma requireRevision_iff [result_simps]:
  "requireRevision v = Inr n \<longleftrightarrow> v = jnat n \<and> n \<le> MAX_SAFE_INTEGER"
  by (auto simp: requireRevision_def safe_nat_Some_iff split: option.splits)

lemma require_ok [simp]:
  "bounded_id s \<Longrightarrow> requireBoundedId (JStr s) = Inr s"
  "hex_digest s \<Longrightarrow> requireSha256 (JStr s) = Inr s"
  "n \<le> MAX_SAFE_INTEGER \<Longrightarrow> requireRevision (jnat n) = Inr n"
  by (simp_all add: requireBoundedId_iff requireSha256_iff requireRevision_iff)

lemma request_fields [simp]:
  "isRecord (message_js mid kind extra)"
  "message_id (message_js mid kind extra) = mid"
  by (simp_all add: message_js_def message_id_def)

lemma execute_js_input:
  "getProp (execute_js mid rid expected command) ''input'' =
     JObj [(js ''requestId'', JStr rid), (js ''expectedRevision'', jnat expected), (js ''command'', JStr command)]"
  by (simp add: execute_js_def message_js_def)

lemma dispatch_execute:
  "bounded_id mid \<Longrightarrow> \<not> rt_disposed st \<Longrightarrow>
     dispatch ops st (execute_js mid rid expected command) =
     begin_execute ops st mid (execute_js mid rid expected command)"
  by (simp add: dispatch_def execute_js_def)

section \<open>Requests that are already journaled\<close>

definition idle :: "'s runtime \<Rightarrow> bool" where
  "idle st \<longleftrightarrow> \<not> rt_operationInFlight st \<and> rt_pending st = None \<and> \<not> rt_disposed st"

lemma finish_idle:
  "idle st \<Longrightarrow> finish_step mid (st\<lparr>rt_operationInFlight := True\<rparr>, Inr (Done resp)) = (st, Some resp)"
  by (cases st) (simp add: finish_step_def idle_def)

lemma journaled_request:
  assumes "idle st" and "bounded_id mid" and s: "rt_session st = Some s" "so_inspect ops s = Some ps"
    and rc: "find_receipt rid (rt_receipts st) = Some rc"
    and req: "bounded_id rid" "expected \<le> MAX_SAFE_INTEGER"
  shows "exchange ops st (execute_js mid rid expected command) = (st, Some (ExecuteResponse mid
     (if rc_expectedRevision rc = expected \<and> rc_command rc = command then rc_result rc
      else rejectedExecute rid command (ps_revision ps) (ps_boundary ps) Duplicate)))"
proof -
  have "begin_execute ops (st\<lparr>rt_operationInFlight := True\<rparr>) mid (execute_js mid rid expected command) =
      (st\<lparr>rt_operationInFlight := True\<rparr>, Inr (Done (ExecuteResponse mid
        (if rc_expectedRevision rc = expected \<and> rc_command rc = command then rc_result rc
         else rejectedExecute rid command (ps_revision ps) (ps_boundary ps) Duplicate))))"
    using s rc req by (simp add: begin_execute_def execute_js_input Let_def)
  with assms(1,2) show ?thesis
    by (simp add: exchange_def idle_def dispatch_execute finish_idle [unfolded idle_def])
qed

section \<open>Turns\<close>

text \<open>A command is admitted, and its journal entry reserved, before the session runs it.\<close>

definition admitted :: "'s runtime \<Rightarrow> js \<Rightarrow> js \<Rightarrow> public_state \<Rightarrow> bool" where
  "admitted st rid command ps \<longleftrightarrow>
     find_receipt rid (rt_receipts st) = None \<and> bounded_id rid \<and> utf8.faithful rid \<and> command_text command \<and>
     ps_boundary ps = InputRequested \<and> ps_revision ps < MAX_SAFE_INTEGER \<and>
     length (rt_receipts st) < rt_maxReceipts st \<and>
     rt_receiptJournalBytes st + (44 + 2 * length (utf8_encode rid) + 2 * length (utf8_encode command) + 262144)
       \<le> rt_maxReceiptJournalBytes st"

lemma admitted_worst_case:
  assumes "admitted st rid command ps"
  shows "canRecordWorstCaseCommittedReceipt st rid (ps_revision ps) command (ps_revision ps) = Inr True"
proof -
  have "utf8.faithful (replicate n (0x78 :: code_unit))" for n
  proof -
    have "well_formed (replicate n (0x78 :: code_unit))"
      by (induction n) (simp_all add: lone_Cons is_high_def is_low_def)
    then show ?thesis by (simp add: utf8_faithful_iff)
  qed
  with assms show ?thesis
    by (auto simp: canRecordWorstCaseCommittedReceipt_def canRecord_iff admitted_def valid_receipt_def
        valid_result_def bounded_text_def bounded_id_def utf8Length_def receipt_size_def length_utf8_x limit_defs
        MAX_RUNTIME_ID_BYTES_def)
qed

lemma execute_admitted:
  assumes "idle st" and "bounded_id mid" and "rt_session st = Some s" and "so_inspect ops s = Some ps"
    and "admitted st rid command ps"
  shows "exchange ops st (execute_js mid rid (ps_revision ps) command) =
    (st\<lparr>rt_operationInFlight := True, rt_pending := Some (ExecuteTurn mid rid (ps_revision ps) command ps)\<rparr>, None)"
proof -
  have same: "admitted (st\<lparr>rt_operationInFlight := True\<rparr>) rid command ps"
    using assms(5) by (simp add: admitted_def)
  have "canonicalizeCommand (JStr command) = Inr command" "bounded_id rid"
    "find_receipt rid (rt_receipts st) = None" "ps_boundary ps = InputRequested" "ps_revision ps < MAX_SAFE_INTEGER"
    using assms(5) by (simp_all add: admitted_def command_text_def canonicalize_iff)
  with assms admitted_worst_case [OF same]
  have "begin_execute ops (st\<lparr>rt_operationInFlight := True\<rparr>) mid (execute_js mid rid (ps_revision ps) command) =
      (st\<lparr>rt_operationInFlight := True\<rparr>, Inr (Await (ExecuteTurn mid rid (ps_revision ps) command ps)))"
    by (simp add: begin_execute_def execute_js_input Let_def)
  with assms(1,2) show ?thesis
    by (simp add: exchange_def idle_def dispatch_execute finish_step_def)
qed

lemma find_receipt_append_new:
  "rc_requestId rc \<notin> rc_requestId ` set rcs \<Longrightarrow> find_receipt (rc_requestId rc) (rcs @ [rc]) = Some rc"
  by (induction rcs) (auto simp: find_receipt_def)

context story_session
begin

text \<open>What resuming a turn does, with its two outcomes that answer the client.\<close>

lemma resume_turn_committed:
  assumes ok: "runtime_ok ops good st" and textual
    and p: "rt_pending st = Some (ExecuteTurn mid rid expected command ps)"
    and s: "rt_session st = Some s" and ex: "so_execute ops command s = (s', Inr t)"
  shows "resume ops st =
    (st\<lparr>rt_session := Some s', rt_operationInFlight := False, rt_pending := None,
        rt_receipts := rt_receipts st @ [\<lparr>rc_requestId = rid, rc_expectedRevision = expected, rc_command = command,
          rc_result = \<lparr>er_requestId = rid, er_previousRevision = ps_revision ps, er_revision = ps_revision ps + 1,
            er_command = command, er_output = tn_output t, er_boundary = tn_boundary t, er_status = Committed\<rparr>\<rparr>],
        rt_receiptJournalBytes := rt_receiptJournalBytes st + receipt_size
          \<lparr>rc_requestId = rid, rc_expectedRevision = expected, rc_command = command,
          rc_result = \<lparr>er_requestId = rid, er_previousRevision = ps_revision ps, er_revision = ps_revision ps + 1,
            er_command = command, er_output = tn_output t, er_boundary = tn_boundary t, er_status = Committed\<rparr>\<rparr>\<rparr>,
     Some (ExecuteResponse mid \<lparr>er_requestId = rid, er_previousRevision = ps_revision ps,
        er_revision = ps_revision ps + 1, er_command = command, er_output = tn_output t,
        er_boundary = tn_boundary t, er_status = Committed\<rparr>))"
proof -
  let ?rc = "\<lparr>rc_requestId = rid, rc_expectedRevision = expected, rc_command = command,
      rc_result = \<lparr>er_requestId = rid, er_previousRevision = ps_revision ps, er_revision = ps_revision ps + 1,
        er_command = command, er_output = tn_output t, er_boundary = tn_boundary t, er_status = Committed\<rparr>\<rparr>"
  from ok p s have good: "good s" "so_inspect ops s = Some ps" "expected = ps_revision ps"
    and res: "reserved st rid command (ps_revision ps)" and j: "journal_ok st"
    by (auto simp: runtime_ok_def runtime_core_def session_ok_def)
  from execute [OF good(1,2) ex] \<open>textual\<close>
  have s': "turn_ok True t" "so_inspect ops s' = Some \<lparr>ps_revision = ps_revision ps + 1,
        ps_lastOutput = tn_output t, ps_boundary = tn_boundary t\<rparr>" by simp_all
  have new: "rid \<notin> rc_requestId ` set (rt_receipts st)" using res by (simp add: reserved_def Let_def)
  obtain st' where rec: "recordReceipt (st\<lparr>rt_session := Some s'\<rparr>) ?rc = Inr st'"
    using reserved_committed [of "st\<lparr>rt_session := Some s'\<rparr>" rid command "ps_revision ps" t "tn_boundary t"]
      res s'(1) good(3) by auto
  have "st' = st\<lparr>rt_session := Some s', rt_receipts := rt_receipts st @ [?rc],
      rt_receiptJournalBytes := rt_receiptJournalBytes st + receipt_size ?rc\<rparr>"
    using journal_ok_record(3) [OF _ rec] j new by simp
  with rec s ex s'(2) p show ?thesis
    by (simp add: resume_def resume_execute_def record_committed_def Let_def finish_step_def)
qed

lemma resume_turn_failed:
  assumes ok: "runtime_ok ops good st" and textual
    and p: "rt_pending st = Some (ExecuteTurn mid rid expected command ps)"
    and s: "rt_session st = Some s" and ex: "so_execute ops command s = (s', Inl e)"
  shows "\<exists>st' resp. resume ops st = (st', Some resp) \<and> rt_session st' = Some s' \<and>
    so_inspect ops s' = Some ps \<and>
    (if e = StoryLimit then
       resp = ExecuteResponse mid (rejectedExecute rid command (ps_revision ps) (ps_boundary ps) InvalidCommand) \<and>
       rt_receipts st' = rt_receipts st @ [\<lparr>rc_requestId = rid, rc_expectedRevision = expected,
         rc_command = command, rc_result = rejectedExecute rid command (ps_revision ps) (ps_boundary ps) InvalidCommand\<rparr>]
     else resp = ErrorResponse mid Internal_error \<and> rt_receipts st' = rt_receipts st)"
proof -
  let ?st = "st\<lparr>rt_session := Some s'\<rparr>"
  let ?rc = "\<lparr>rc_requestId = rid, rc_expectedRevision = expected, rc_command = command,
      rc_result = rejectedExecute rid command (ps_revision ps) (ps_boundary ps) InvalidCommand\<rparr>"
  from ok p s have good: "good s" "so_inspect ops s = Some ps" "expected = ps_revision ps"
    and res: "reserved st rid command (ps_revision ps)" and j: "journal_ok st"
    by (auto simp: runtime_ok_def runtime_core_def session_ok_def)
  from execute_failed [OF good(1) ex] good(2) have s': "so_inspect ops s' = Some ps" by simp
  have new: "rid \<notin> rc_requestId ` set (rt_receipts st)" using res by (simp add: reserved_def Let_def)
  obtain st' where rec: "canRecordReceipt ?st ?rc = Inr True" "recordReceipt ?st ?rc = Inr st'"
    using reserved_rejected [of ?st rid command "ps_revision ps" "ps_boundary ps"] res reserved_revision [OF res] good(3)
    by auto
  have "rt_receipts st' = rt_receipts st @ [?rc]" "rt_session st' = Some s'"
    using journal_ok_record(2,3) [OF _ rec(2)] j new by simp_all
  with rec s ex s' p show ?thesis
    by (cases e) (simp_all add: resume_def resume_execute_def record_preflighted_def record_committed_def Let_def
        finish_step_def rejectedExecute_def error_response_def)
qed

end

section \<open>Snapshots and restores\<close>

definition snapshot_of :: "'s session_ops \<Rightarrow> 's runtime \<Rightarrow> public_state \<Rightarrow> byte list \<Rightarrow> worker_snapshot" where
  "snapshot_of ops st ps inner = \<lparr>ws_revision = ps_revision ps, ws_lastOutput = ps_lastOutput ps,
     ws_boundary = ps_boundary ps, ws_innerCheckpoint = inner, ws_receipts = rt_receipts st\<rparr>"

lemma valid_snapshot_of:
  assumes "runtime_core ops good st" and "rt_session st = Some s" and "so_inspect ops s = Some ps"
    and "DORK_CHECKPOINT_FIXED_HEADER_BYTES \<le> length inner" and "length inner \<le> DORK_CHECKPOINT_MAX_TOTAL_BYTES"
  shows "valid_snapshot (snapshot_of ops st ps inner)"
  using assms by (auto simp: valid_snapshot_def snapshot_of_def runtime_core_def session_ok_def agrees_def journal_ok_def)

lemma checkpoint_encodes:
  assumes "runtime_core ops good st" and "rt_session st = Some s" and "so_inspect ops s = Some ps"
    and "so_snapshot ops s = Inr inner"
    and "DORK_CHECKPOINT_FIXED_HEADER_BYTES \<le> length inner" and "length inner \<le> DORK_CHECKPOINT_MAX_TOTAL_BYTES"
  shows "resume_checkpoint ops st mid compatib = Inr (Await (SnapshotDigest mid
     (snapshot_wire (snapshot_of ops st ps inner)) (ps_revision ps) compatib))"
proof -
  note v = valid_snapshot_of [OF assms(1-3,5,6)]
  from v have "encodeWorkerSnapshotEnvelope (snapshot_js (snapshot_of ops st ps inner)) =
      Inr (snapshot_wire (snapshot_of ops st ps inner))"
    by (simp add: encode_iff)
  moreover have "length (snapshot_wire (snapshot_of ops st ps inner)) \<le> MAX_ENGINE_SNAPSHOT_BYTES"
    using valid_snapshot_size [OF v] by (simp add: length_snapshot_wire limit_defs)
  ultimately show ?thesis
    using assms by (simp add: resume_checkpoint_def snapshot_of_def)
qed

definition valid_compatibility :: "compatibility \<Rightarrow> bool" where
  "valid_compatibility c \<longleftrightarrow>
     bounded_id (story_id c) \<and> hex_digest (story_sha256 c) \<and> bounded_id (runtime_id c) \<and>
     bounded_id (runtime_version c) \<and> hex_digest (runtime_sha256 c) \<and> bounded_id (adapter_id c) \<and>
     bounded_id (adapter_version c) \<and> 1 \<le> snapshotSchemaVersion c \<and> snapshotSchemaVersion c \<le> MAX_SAFE_INTEGER"

lemma clone_compatibility_js:
  "valid_compatibility c \<Longrightarrow> cloneIncomingCompatibility (compatibility_js c) = Inr c"
  by (cases c) (auto simp: valid_compatibility_def cloneIncomingCompatibility_def compatibility_js_def Let_def)

lemma readSnapshot_js:
  assumes "valid_compatibility (sn_compatibility sn)" and "hex_digest (sn_sha256 sn)"
    and "sn_revision sn \<le> MAX_SAFE_INTEGER" and "sn_bytes sn \<noteq> []" and "length (sn_bytes sn) \<le> MAX_ENGINE_SNAPSHOT_BYTES"
  shows "readSnapshot (engine_snapshot_js sn) = Inr sn"
  using assms by (cases sn) (simp add: readSnapshot_def engine_snapshot_js_def clone_compatibility_js)

lemma sameCompatibility_eq [simp]: "sameCompatibility c d \<longleftrightarrow> c = d"
  by (cases c; cases d) (auto simp: sameCompatibility_def)

lemma restore_accepts:
  assumes v: "valid_snapshot env" and bytes: "sn_bytes sn = snapshot_wire env" "sn_revision sn = ws_revision env"
    and sha: "so_sha256 ops (sn_bytes sn) = Some (sn_sha256 sn)"
    and limits: "length (ws_receipts env) \<le> rt_maxReceipts st"
      "journal_size (ws_receipts env) \<le> rt_maxReceiptJournalBytes st"
  shows "resume_restore_digest ops st mid sn active = Await (RestoreCandidate mid env (ws_receipts env)
     (journal_size (ws_receipts env)) (rt_lifecycleEpoch st) active)"
proof -
  have "decodeWorkerSnapshotEnvelope (JBytes (sn_bytes sn)) = Inr env"
    using v bytes by (simp add: decode_iff)
  moreover have "validateRestoredReceipts st env = Inr (ws_receipts env, journal_size (ws_receipts env))"
    unfolding validateRestored_iff [OF v] using limits by simp
  ultimately show ?thesis using sha bytes by (simp add: resume_restore_digest_def)
qed

text \<open>
  Which snapshots a runtime restores: the fields are well formed and name the runtime's own
  compatibility, the digest is that of the bytes, the bytes are the encoding of a valid snapshot of
  the announced revision, its receipts fit the journal, and the session restored from its checkpoint is in
  the state it records.
\<close>

definition admissible :: "'s session_ops \<Rightarrow> 's runtime \<Rightarrow> engine_snapshot \<Rightarrow> worker_snapshot \<Rightarrow> bool" where
  "admissible ops st sn env \<longleftrightarrow>
     so_sha256 ops (sn_bytes sn) = Some (sn_sha256 sn) \<and>
     valid_snapshot env \<and> sn_bytes sn = snapshot_wire env \<and> sn_revision sn = ws_revision env \<and>
     length (ws_receipts env) \<le> rt_maxReceipts st \<and> journal_size (ws_receipts env) \<le> rt_maxReceiptJournalBytes st"

definition recovers :: "'s session_ops \<Rightarrow> 's runtime \<Rightarrow> worker_snapshot \<Rightarrow> 's \<Rightarrow> bool" where
  "recovers ops st env s \<longleftrightarrow>
     so_restore ops (rt_storyBytes st) (ws_innerCheckpoint env) = Some s \<and>
     so_inspect ops s = Some \<lparr>ps_revision = ws_revision env, ps_lastOutput = ws_lastOutput env, ps_boundary = ws_boundary env\<rparr>"

definition restorable :: "'s session_ops \<Rightarrow> 's runtime \<Rightarrow> jsval \<Rightarrow> worker_snapshot \<Rightarrow> 's \<Rightarrow> bool" where
  "restorable ops st v env s \<longleftrightarrow>
     (\<exists>sn. readSnapshot v = Inr sn \<and> rt_compatibility st = Some (sn_compatibility sn) \<and>
        admissible ops st sn env \<and> recovers ops st env s)"

lemma restorable_unique: "restorable ops st v env s \<Longrightarrow> restorable ops st v env' s' \<Longrightarrow> env = env' \<and> s = s'"
proof -
  assume "restorable ops st v env s" "restorable ops st v env' s'"
  then obtain sn where "admissible ops st sn env" "admissible ops st sn env'" "recovers ops st env s" "recovers ops st env' s'"
    by (auto simp: restorable_def)
  moreover from this have "decodeWorkerSnapshotEnvelope (JBytes (sn_bytes sn)) = Inr env"
    "decodeWorkerSnapshotEnvelope (JBytes (sn_bytes sn)) = Inr env'"
    by (auto simp: decode_iff admissible_def)
  ultimately show ?thesis by (auto simp: recovers_def)
qed

lemma restore_refuses:
  assumes "\<And>env. \<not> admissible ops st sn env"
  shows "resume_restore_digest ops st mid sn active = Done (reject_restore mid Corrupt_snapshot active)"
proof (cases "decodeWorkerSnapshotEnvelope (JBytes (sn_bytes sn))")
  case (Inr env)
  then have env: "valid_snapshot env" "sn_bytes sn = snapshot_wire env" by (simp_all add: decode_iff)
  have "validateRestoredReceipts st env \<noteq> Inr r"
    if "so_sha256 ops (sn_bytes sn) = Some (sn_sha256 sn)" "ws_revision env = sn_revision sn" for r
    using assms [of env] that env validateRestored_iff [OF env(1), of st "fst r" "snd r"]
    by (auto simp: admissible_def journal_size_def)
  with Inr show ?thesis
    by (cases "validateRestoredReceipts st env") (auto simp: resume_restore_digest_def Let_def)
qed (simp add: resume_restore_digest_def Let_def)

lemma restore_installs:
  assumes "recovers ops st env s" and "\<not> rt_disposed st" and "rt_lifecycleEpoch st = epoch"
  shows "resume_restore_candidate ops st mid env rcs bytes epoch active =
    (st\<lparr>rt_session := Some s, rt_receipts := rcs, rt_receiptJournalBytes := bytes\<rparr>,
     RestoreResponse mid \<lparr>rr_status = Restored, rr_revision = ws_revision env, rr_boundary = ws_boundary env\<rparr>)"
  using assms by (simp add: resume_restore_candidate_def recovers_def)

lemma public_state_eq: "x = \<lparr>ps_revision = r, ps_lastOutput = out, ps_boundary = b\<rparr> \<longleftrightarrow>
    ps_revision x = r \<and> ps_lastOutput x = out \<and> ps_boundary x = b"
  by (cases x) auto

lemma restore_declines:
  assumes "\<And>s. \<not> recovers ops st env s"
  shows "resume_restore_candidate ops st mid env rcs bytes epoch active =
    (st, reject_restore mid Corrupt_snapshot active)"
proof (cases "so_restore ops (rt_storyBytes st) (ws_innerCheckpoint env)")
  case (Some candidate)
  then have "so_inspect ops candidate \<noteq> Some \<lparr>ps_revision = ws_revision env,
      ps_lastOutput = ws_lastOutput env, ps_boundary = ws_boundary env\<rparr>"
    using assms [of candidate] by (simp add: recovers_def)
  with Some show ?thesis
    by (auto simp: resume_restore_candidate_def public_state_eq Let_def split: option.split)
qed (simp add: resume_restore_candidate_def Let_def)

section \<open>Disposal\<close>

lemma disposed_stays:
  assumes "rt_disposed st" and "rt_session st = None"
  shows "rt_disposed (fst (runtime_step ops st ev)) \<and> rt_session (fst (runtime_step ops st ev)) = None"
proof (cases ev)
  case (Exchange req)
  with assms show ?thesis by (simp add: exchange_def dispatch_def finish_step_def)
next
  case Resume
  have pending: "rt_disposed (fst (snd (resume_pending ops st p))) \<and> rt_session (fst (snd (resume_pending ops st p))) = None" for p
    using assms by (cases p) (auto simp: resume_boot_turn_def resume_execute_def resume_restore_candidate_def
        Let_def split: prod.splits sum.splits option.splits if_splits)
  have finish: "rt_disposed (fst (finish_step mid r)) = rt_disposed (fst r)"
    "rt_session (fst (finish_step mid r)) = rt_session (fst r)" for mid and r :: "'a step_result"
    by (auto simp: finish_step_def split: prod.splits sum.splits progress.splits)
  show ?thesis
  proof (cases "rt_pending st")
    case None
    with Resume assms show ?thesis by (simp add: resume_def)
  next
    case (Some p)
    with Resume pending [of p] show ?thesis
      by (cases "resume_pending ops st p") (simp add: resume_def finish)
  qed
next
  case Dispose
  with assms show ?thesis by (simp add: dispose_runtime_def)
qed

section \<open>What a request may change\<close>

definition adds_rejection :: "'s runtime \<Rightarrow> 's runtime \<Rightarrow> bool" where
  "adds_rejection st st' \<longleftrightarrow>
     rt_receipts st' = rt_receipts st \<or>
     (\<exists>rc. rt_receipts st' = rt_receipts st @ [rc] \<and> er_status (rc_result rc) \<noteq> Committed)"

lemma adds_rejection_refl [simp]: "adds_rejection st st"
  by (simp add: adds_rejection_def)

lemma record_and_respond_session:
  assumes "find_receipt (er_requestId result) (rt_receipts st) = None" and "er_status result \<noteq> Committed"
  shows "rt_session (fst (record_and_respond st mid expected result)) = rt_session st \<and>
    adds_rejection st (fst (record_and_respond st mid expected result))"
  using assms by (auto simp: record_and_respond_def Let_def recordReceipt_iff set_receipt_def adds_rejection_def
      split: sum.split bool.split)

lemma begin_execute_session:
  "rt_session (fst (begin_execute ops st mid req)) = rt_session st \<and>
   adds_rejection st (fst (begin_execute ops st mid req))"
proof (cases "rt_session st")
  case (Some s)
  have rejected: "rt_session (fst (record_and_respond st mid expected (rejectedExecute rid command n b rj))) = Some s \<and>
      adds_rejection st (fst (record_and_respond st mid expected (rejectedExecute rid command n b rj)))"
    if "find_receipt rid (rt_receipts st) = None" for rid expected command n b rj
    using record_and_respond_session [of "rejectedExecute rid command n b rj" st mid expected] that Some
    by (simp add: rejectedExecute_def)
  show ?thesis
    using Some rejected
    by (auto simp: begin_execute_def Let_def split: option.split sum.split jsval.split bool.split)
qed (simp add: begin_execute_def)

lemma finish_keeps:
  "rt_session (fst (finish_step mid r)) = rt_session (fst r)"
  "rt_receipts (fst (finish_step mid r)) = rt_receipts (fst r)"
  by (auto simp: finish_step_def split: prod.splits sum.splits progress.splits)

lemma exchange_session:
  "rt_session (fst (exchange ops st req)) = rt_session st \<and> adds_rejection st (fst (exchange ops st req))"
proof (cases "rt_operationInFlight st")
  case False
  let ?st = "st\<lparr>rt_operationInFlight := True\<rparr>"
  have "rt_session (fst (dispatch ops ?st req)) = rt_session ?st \<and> adds_rejection ?st (fst (dispatch ops ?st req))"
    using begin_execute_session [of ops ?st] by (auto simp: dispatch_def split: sum.split)
  with False show ?thesis
    by (simp add: exchange_def finish_keeps adds_rejection_def)
qed (simp add: exchange_def)

context story_session
begin

lemma step_moves:
  assumes ok: "runtime_ok ops good st" and textual
    and step: "runtime_step ops st ev = (st', resp)"
    and s: "rt_session st = Some s" "so_inspect ops s = Some ps"
    and s': "rt_session st' = Some s'" "so_inspect ops s' = Some ps'"
  shows "(ps' = ps \<and> adds_rejection st st') \<or>
    (\<exists>mid rc. rt_receipts st' = rt_receipts st @ [rc] \<and> resp = Some (ExecuteResponse mid (rc_result rc)) \<and>
      er_status (rc_result rc) = Committed \<and> er_previousRevision (rc_result rc) = ps_revision ps \<and>
      er_revision (rc_result rc) = ps_revision ps' \<and> ps_revision ps' = ps_revision ps + 1 \<and>
      er_output (rc_result rc) = ps_lastOutput ps' \<and> er_boundary (rc_result rc) = ps_boundary ps') \<or>
    (\<exists>mid rr. resp = Some (RestoreResponse mid rr) \<and> rr_status rr = Restored)"
proof (cases ev)
  case (Exchange req)
  with step exchange_session [of ops st req] s s' show ?thesis by auto
next
  case Dispose
  with step s s' show ?thesis by (auto simp: dispose_runtime_def split: if_splits)
next
  case Resume
  show ?thesis
  proof (cases "rt_pending st")
    case None
    with Resume step s s' show ?thesis by (auto simp: resume_def)
  next
    case (Some p)
    show ?thesis
    proof (cases p)
      case (ExecuteTurn mid rid expected command ps0)
      note p = Some [unfolded ExecuteTurn]
      have ps0: "ps0 = ps" using ok p s by (auto simp: runtime_ok_def)
      obtain s1 r where ex: "so_execute ops command s = (s1, r)" by fastforce
      have good: "good s" using ok s by (auto simp: runtime_ok_def runtime_core_def session_ok_def)
      show ?thesis
      proof (cases r)
        case (Inl e)
        from resume_turn_failed [OF ok \<open>textual\<close> p s(1) ex [unfolded Inl]] Resume step s' s ps0
        show ?thesis by (auto simp: adds_rejection_def rejectedExecute_def split: if_splits)
      next
        case (Inr t)
        from execute [OF good s(2) ex [unfolded Inr]]
          resume_turn_committed [OF ok \<open>textual\<close> p s(1) ex [unfolded Inr]] Resume step s' ps0
        show ?thesis by auto
      qed
    next
      case (RestoreCandidate mid env rcs bytes epoch active)
      then show ?thesis
        using Some Resume step s s' by (auto simp: resume_def resume_restore_candidate_def finish_step_def Let_def
            adds_rejection_def reject_restore_def split: option.splits if_splits)
    qed (use Some Resume step s s' ok in \<open>auto simp: resume_def finish_keeps runtime_ok_def adds_rejection_def
          finish_step_def split: sum.splits progress.splits\<close>)
  qed
qed

end

end
