(* ===== verification/Runtime_Demo.thy ===== *)
theory Runtime_Demo
  imports Runtime_Facts
begin

text \<open>
  A concrete interpreter and a booted runtime on it, at which the properties of the worker
  runtime are evaluated.  The interpreter prints a fixed line per turn; its checkpoint codec
  knows the checkpoint of the opening position.
\<close>

definition demo_story :: "byte list" where
  "demo_story = 3 # replicate 63 0"

definition demo_sha :: js where
  "demo_sha = replicate 64 0x30"

definition demo_envelope :: "nat checkpoint_envelope" where
  "demo_envelope = \<lparr>ce_storyId = storyId demo_story, ce_artifactSha256 = demo_sha, ce_revision = 0,
     ce_lastOutput = js ''West of House'', ce_machine = 0\<rparr>"

definition demo_host :: "(nat, nat) host" where
  "demo_host = \<lparr>h_new = (\<lambda>_ _. True), h_start = (\<lambda>_ _. ([js ''West of House''], AtRead 100 0)),
     h_input = (\<lambda>m _. ([js ''Taken.''], AtRead 100 (Suc m))), h_checkpoint = Some,
     h_resume = (\<lambda>_ _ k. ([], AtRead 100 k)),
     h_config = (\<lambda>_. \<lparr>raw_isTandy = None, raw_seed = Some 7, raw_strict = None,
        raw_maxInstructions = None, raw_maxInstructionsPerTurn = JUndef\<rparr>),
     h_encode = (\<lambda>e. if e = demo_envelope then Some (replicate 16 0) else None),
     h_decode = (\<lambda>b. if b = replicate 16 0 then Some demo_envelope else None),
     h_sha256 = (\<lambda>_. Some demo_sha), h_random = Some 7\<rparr>"

abbreviation demo_ops :: "nat session session_ops" where
  "demo_ops \<equiv> candidate_ops demo_host"

lemma demo_prints_text: "prints_text demo_host"
  by (simp add: prints_text_def demo_host_def) code_simp

lemma demo_resumes: "resumes demo_host demo_story"
  by (auto simp: resumes_def demo_host_def new_session_def resolveOptions_def optionsFromCheckpoint_def raw_of_def
      demo_story_def DEFAULT_MAX_INSTRUCTIONS_PER_TURN_def MAX_INSTRUCTIONS_PER_TURN_def MAX_SAFE_INTEGER_def
      split: if_splits)

section \<open>Boot\<close>

definition demo_options :: runtime_options where
  "demo_options = \<lparr>ro_storyId = JStr (js ''zork1''), ro_storyBytes = JBytes demo_story,
     ro_seed = jnat 7, ro_maxReceipts = JUndef, ro_maxReceiptJournalBytes = JUndef\<rparr>"

definition demo_runtime :: "nat session runtime" where
  "demo_runtime = \<lparr>rt_storyId = js ''zork1'', rt_storyBytes = demo_story, rt_artifactSha256 = Some demo_sha,
     rt_seed = Some 7, rt_maxReceipts = 32, rt_maxReceiptJournalBytes = 1048576, rt_session = None,
     rt_compatibility = None, rt_receipts = [], rt_receiptJournalBytes = 0, rt_operationInFlight = False,
     rt_disposed = False, rt_lifecycleEpoch = 0, rt_pending = None\<rparr>"

definition demo_boot :: jsval where
  "demo_boot = message_js (js ''m1'') ''boot''
     [(js ''input'', JObj [(js ''storyId'', JStr (js ''zork1'')), (js ''artifactSha256'', JStr demo_sha)])]"

lemma demo_texts [simp]: "well_formed (js ''West of House'')" "well_formed (js ''Taken.'')"
  "\<not> has_control (js ''zork1'')" "\<not> has_control (js ''m1'')" "\<not> has_control (js ''m2'')"
  "\<not> has_control (js ''m3'')" "\<not> has_control (js ''r1'')"
  "utf8Length (js ''zork1'') = 5" "utf8Length (js ''m1'') = 2" "utf8Length (js ''m2'') = 2"
  "utf8Length (js ''m3'') = 2" "utf8Length (js ''r1'') = 2"
  "utf8_encode (js ''r1'') = [0x72, 0x31]" "utf8_encode (js ''look'') = [0x6c, 0x6f, 0x6f, 0x6b]"
  by code_simp+

lemma demo_ids [simp]:
  "bounded_id (js ''zork1'')" "bounded_id (js ''m1'')" "bounded_id (js ''m2'')" "bounded_id (js ''m3'')"
  "bounded_id (js ''r1'')" "hex_digest demo_sha"
  by (simp_all add: bounded_id_def MAX_RUNTIME_ID_BYTES_def hex_digest_def demo_sha_def is_hex_def list_all_length)

lemma demo_created: "newDorkWorkerRuntime demo_ops demo_options = Inr demo_runtime"
  by (simp add: newDorkWorkerRuntime_def demo_options_def demo_runtime_def
      requirePositiveLimit_def candidate_ops_def demo_host_def demo_story_def limit_defs MAX_SAFE_INTEGER_def
      UINT32_MAX_def)

definition demo_fresh :: "nat session" where
  "demo_fresh = \<lparr>se_story = demo_story, se_options = \<lparr>op_isTandy = False, op_seed = 7, op_strict = True,
       op_maxInstructions = None, op_maxInstructionsPerTurn = 1000000\<rparr>, se_machine = None, se_io = new_io,
     se_started = False, se_disposed = False, se_lifecycleEpoch = 0, se_operationInFlight = False,
     se_revision = 0, se_lastOutput = [], se_boundary = InputRequested\<rparr>"

definition demo_session :: "nat \<Rightarrow> js \<Rightarrow> nat session" where
  "demo_session n out = demo_fresh\<lparr>se_machine := Some n, se_started := True, se_revision := n, se_lastOutput := out,
     se_io := new_io\<lparr>io_pendingRead := Some 100, io_inputBoundaryCount := n + 1\<rparr>\<rparr>"

definition demo_compatibility :: compatibility where
  "demo_compatibility = createCompatibility demo_runtime demo_sha"

definition demo_booted :: "nat session runtime" where
  "demo_booted = demo_runtime\<lparr>rt_session := Some (demo_session 0 (js ''West of House'')),
     rt_compatibility := Some demo_compatibility\<rparr>"

lemma demo_lengths [simp]:
  "length (utf8_encode (js ''West of House'')) = 13" "length (utf8_encode (js ''Taken.'')) = 6"
  by code_simp+

lemma demo_create: "so_create demo_ops demo_story (Some 7) = Some demo_fresh"
  by (simp add: candidate_ops_def demo_host_def new_session_def resolveOptions_def demo_story_def demo_fresh_def
      DEFAULT_MAX_INSTRUCTIONS_PER_TURN_def MAX_INSTRUCTIONS_PER_TURN_def MAX_SAFE_INTEGER_def)

lemma demo_boot_turn: "so_boot demo_ops demo_fresh =
   (demo_session 0 (js ''West of House''), Inr \<lparr>tn_output = js ''West of House'', tn_boundary = InputRequested\<rparr>)"
  by (simp add: candidate_ops_def demo_host_def boot_def demo_fresh_def demo_session_def take_turn_def launch_def
      settle_def io_print_def io_read_def io_drain_emit_def new_io_def nextTurn_def cleanInputBoundary_def
      recordTurn_def maxOutputBytes_def limit_defs)

lemma demo_execute: "so_execute demo_ops (js ''look'') (demo_session n out) =
   (demo_session (Suc n) (js ''Taken.''), Inr \<lparr>tn_output = js ''Taken.'', tn_boundary = InputRequested\<rparr>)"
proof -
  have "canonicalizeCommand (JStr (js ''look'')) = Inr (js ''look'')" by code_simp
  then show ?thesis
    by (simp add: candidate_ops_def demo_host_def execute_def demo_fresh_def demo_session_def take_turn_def launch_def
      settle_def io_print_def io_read_def io_drain_emit_def new_io_def nextTurn_def io_submit_def
      recordTurn_def maxOutputBytes_def limit_defs)
qed

lemma demo_inspect: "so_inspect demo_ops (demo_session n out) =
   Some \<lparr>ps_revision = n, ps_lastOutput = out, ps_boundary = InputRequested\<rparr>"
  by (simp add: candidate_ops_def inspectPublicState_def demo_session_def demo_fresh_def)

lemma demo_boot_steps:
  "runtime_step demo_ops demo_runtime (Exchange demo_boot) =
     (demo_runtime\<lparr>rt_operationInFlight := True, rt_pending := Some (BootArtifact (js ''m1'') (js ''zork1'') demo_sha)\<rparr>, None)"
  "runtime_step demo_ops (demo_runtime\<lparr>rt_operationInFlight := True,
       rt_pending := Some (BootArtifact (js ''m1'') (js ''zork1'') demo_sha)\<rparr>) Resume =
     (demo_runtime\<lparr>rt_operationInFlight := True,
        rt_pending := Some (BootTurn (js ''m1'') demo_sha 0 demo_fresh)\<rparr>, None)"
  "runtime_step demo_ops (demo_runtime\<lparr>rt_operationInFlight := True,
       rt_pending := Some (BootTurn (js ''m1'') demo_sha 0 demo_fresh)\<rparr>) Resume =
     (demo_booted, Some (BootResponse (js ''m1'') \<lparr>br_output = js ''West of House'', br_boundary = InputRequested,
        br_compatibility = demo_compatibility\<rparr>))"
proof -
  have input: "getProp demo_boot ''input'' =
      JObj [(js ''storyId'', JStr (js ''zork1'')), (js ''artifactSha256'', JStr demo_sha)]"
    by (simp add: demo_boot_def message_js_def)
  show "runtime_step demo_ops demo_runtime (Exchange demo_boot) =
     (demo_runtime\<lparr>rt_operationInFlight := True, rt_pending := Some (BootArtifact (js ''m1'') (js ''zork1'') demo_sha)\<rparr>, None)"
    using input by (simp add: exchange_def dispatch_def begin_boot_def finish_step_def demo_runtime_def demo_boot_def)
  show "runtime_step demo_ops (demo_runtime\<lparr>rt_operationInFlight := True,
       rt_pending := Some (BootArtifact (js ''m1'') (js ''zork1'') demo_sha)\<rparr>) Resume =
     (demo_runtime\<lparr>rt_operationInFlight := True,
        rt_pending := Some (BootTurn (js ''m1'') demo_sha 0 demo_fresh)\<rparr>, None)"
    using demo_create by (simp add: resume_def resume_boot_artifact_def finish_step_def demo_runtime_def)
  show "runtime_step demo_ops (demo_runtime\<lparr>rt_operationInFlight := True,
       rt_pending := Some (BootTurn (js ''m1'') demo_sha 0 demo_fresh)\<rparr>) Resume =
     (demo_booted, Some (BootResponse (js ''m1'') \<lparr>br_output = js ''West of House'', br_boundary = InputRequested,
        br_compatibility = demo_compatibility\<rparr>))"
    by (simp add: resume_def resume_boot_turn_def demo_boot_turn finish_step_def demo_booted_def demo_runtime_def
        demo_compatibility_def createCompatibility_def Let_def)
qed

lemma demo_booted_reach: "runtime_reach demo_ops demo_booted"
  using runtime_reach.created [OF demo_created]
    runtime_reach.stepped [of demo_ops demo_runtime "Exchange demo_boot"]
    runtime_reach.stepped [of demo_ops "demo_runtime\<lparr>rt_operationInFlight := True,
       rt_pending := Some (BootArtifact (js ''m1'') (js ''zork1'') demo_sha)\<rparr>" Resume]
    runtime_reach.stepped [of demo_ops "demo_runtime\<lparr>rt_operationInFlight := True,
       rt_pending := Some (BootTurn (js ''m1'') demo_sha 0 demo_fresh)\<rparr>" Resume]
  by (simp only: demo_boot_steps fst_conv)

section \<open>A turn\<close>

definition demo_turn :: "nat session runtime" where \<comment> \<open>\<open>look\<close> is running\<close>
  "demo_turn = demo_booted\<lparr>rt_operationInFlight := True,
     rt_pending := Some (ExecuteTurn (js ''m2'') (js ''r1'') 0 (js ''look'')
       \<lparr>ps_revision = 0, ps_lastOutput = js ''West of House'', ps_boundary = InputRequested\<rparr>)\<rparr>"

lemma demo_turn_step:
  "exchange demo_ops demo_booted (execute_js (js ''m2'') (js ''r1'') 0 (js ''look'')) = (demo_turn, None)"
proof -
  have "canonical (js ''look'')" "well_formed (js ''look'')" "well_formed (js ''r1'')"
    by code_simp+
  then have "admitted demo_booted (js ''r1'') (js ''look'')
      \<lparr>ps_revision = 0, ps_lastOutput = js ''West of House'', ps_boundary = InputRequested\<rparr>"
    by (simp add: admitted_def demo_booted_def demo_runtime_def command_text_def utf8_faithful_iff
        find_receipt_def MAX_SAFE_INTEGER_def)
  then show ?thesis
    using execute_admitted [of demo_booted "js ''m2''" "demo_session 0 (js ''West of House'')" demo_ops
        "\<lparr>ps_revision = 0, ps_lastOutput = js ''West of House'', ps_boundary = InputRequested\<rparr>"]
    by (simp add: demo_inspect demo_turn_def) (simp add: idle_def demo_booted_def demo_runtime_def)
qed

lemma demo_turn_reach: "runtime_reach demo_ops demo_turn"
  using runtime_reach.stepped [OF demo_booted_reach, of "Exchange (execute_js (js ''m2'') (js ''r1'') 0 (js ''look''))"]
  by (simp add: demo_turn_step)

end
