(* ===== verification/Checkpoint_Properties.thy ===== *)
theory Checkpoint_Properties
  imports Checkpoint_Codec Runtime_Demo
begin

text \<open>
  The properties of the checkpoint codec, with the checkpoint of a small paused machine as
  witness, and the candidate session of \<open>Candidate_Session\<close> running on this codec instead of
  a parameter.
\<close>

section \<open>A concrete checkpoint\<close>

definition sample_memory :: "byte list" where
  "sample_memory = replicate 66 0 @ [4] @ replicate 5 0 @ [1] @ replicate 7 0"

definition sample_machine :: cp_machine where
  "sample_machine = \<lparr>
     ma_story = \<lparr>sy_byteSwapped = False, sy_release = 88, sy_serial = js ''840726'', sy_checksum = 41257,
       sy_byteLength = 200, sy_staticMemoryBase = 80\<rparr>,
     ma_config = \<lparr>cf_isTandy = False, cf_strict = True, cf_maxInstructions = None,
       cf_maxInstructionsPerTurn = 1000000, cf_ioCapabilities = 0\<rparr>,
     ma_dynamicMemory = sample_memory, ma_dataStack = [- 1],
     ma_callStack = [\<lparr>fr_pc = 120, fr_local = [5, - 7], fr_ds = [], fr_discardResult = True, fr_argCount = 2\<rparr>],
     ma_rngMode = 0, ma_gameplayState = 7, ma_reseedState = 7, ma_savedFlags = 0,
     ma_stream3 = [\<lparr>st_base = 64, st_cursor = 66\<rparr>], ma_instructionCount = 12, ma_turnInstructionCount = 12,
     ma_pendingRead = \<lparr>pd_instructionPc = 100, pd_continuationPc = 105, pd_textBuffer = 66,
       pd_parseBuffer = 72, pd_maxLength = 4\<rparr>\<rparr>"

definition sample_checkpoint :: dork_checkpoint where
  "sample_checkpoint = \<lparr>dc_storyId = js ''zork1'', dc_artifactSha256 = replicate 64 0x30, dc_revision = 1,
     dc_lastOutput = js ''Taken.'', dc_machine = sample_machine\<rparr>"

lemma sample_machine_valid: "valid_machine sample_machine"
proof -
  have "length sample_memory = 80" "getInt16 sample_memory 16 False = 0" "sample_memory ! 66 = 4"
    "sample_memory ! 72 = 1" "list_all (\<lambda>u. u \<le> 0x7f) (js ''840726'')"
    by (simp add: sample_memory_def, code_simp+)
  then show ?thesis
    by (simp add: sample_machine_def valid_machine_def valid_story_def valid_config_def valid_stacks_def
        valid_frame_def frame_words_def valid_stream_def valid_counts_def valid_pending_def int16_def
        checkpoint_limit_defs MAX_SAFE_INTEGER_def)
qed

lemma sample_checkpoint_for:
  assumes "well_formed sid" "sid \<noteq> []" "length (utf8_encode sid) \<le> 128"
  shows "valid_checkpoint (sample_checkpoint\<lparr>dc_storyId := sid\<rparr>)"
proof -
  have texts: "well_formed (js ''Taken.'')" "length (utf8_encode (js ''Taken.'')) = 6"
    "length (utf8_encode (js ''840726'')) = 6"
    by code_simp+
  have ids: "length (utf8_encode DORK_CHECKPOINT_RUNTIME_ID) \<le> 128"
    "length (utf8_encode DORK_CHECKPOINT_ADAPTER_ID) \<le> 128"
    using identity_texts [THEN bounded_text_length] by (simp_all add: MAX_IDENTITY_BYTES_def)
  have "machine_size sample_machine \<le> 1000"
    using texts by (simp add: machine_size_def sample_machine_def sample_memory_def)
  then have "checkpoint_size (sample_checkpoint\<lparr>dc_storyId := sid\<rparr>) \<le> 2000"
    using texts ids assms(3) by (simp add: sample_checkpoint_def checkpoint_size_def checkpoint_limit_defs)
  then show ?thesis
    using assms texts sample_machine_valid
    by (simp add: sample_checkpoint_def valid_checkpoint_def bounded_text_def utf8_faithful_iff
        sha256_text_def is_hex_unit_def checkpoint_limit_defs MAX_SAFE_INTEGER_def list_all_length)
qed

lemma sample_checkpoint_valid: "valid_checkpoint sample_checkpoint"
proof -
  have "well_formed (js ''zork1'')" "length (utf8_encode (js ''zork1'')) = 5" by code_simp+
  with sample_checkpoint_for [of "js ''zork1''"] show ?thesis
    by (simp add: sample_checkpoint_def)
qed

section \<open>The session on this codec\<close>

definition envelope_checkpoint :: "cp_machine checkpoint_envelope \<Rightarrow> dork_checkpoint" where
  "envelope_checkpoint e = \<lparr>dc_storyId = ce_storyId e, dc_artifactSha256 = ce_artifactSha256 e,
     dc_revision = ce_revision e, dc_lastOutput = ce_lastOutput e, dc_machine = ce_machine e\<rparr>"

definition checkpoint_envelope_of :: "dork_checkpoint \<Rightarrow> cp_machine checkpoint_envelope" where
  "checkpoint_envelope_of cp = \<lparr>ce_storyId = dc_storyId cp, ce_artifactSha256 = dc_artifactSha256 cp,
     ce_revision = dc_revision cp, ce_lastOutput = dc_lastOutput cp, ce_machine = dc_machine cp\<rparr>"

lemma envelope_checkpoint_inverse [simp]: "checkpoint_envelope_of (envelope_checkpoint e) = e"
  by (simp add: checkpoint_envelope_of_def envelope_checkpoint_def)

definition with_codec :: "('m, cp_machine) host \<Rightarrow> ('m, cp_machine) host" where
  "with_codec h = h\<lparr>
     h_encode := (\<lambda>e. case encodeDorkCheckpointEnvelope (checkpoint_js (envelope_checkpoint e)) of
        Inl _ \<Rightarrow> None | Inr bytes \<Rightarrow> Some bytes),
     h_decode := (\<lambda>bytes. case decodeDorkCheckpointEnvelope (JBytes bytes) of
        Inl _ \<Rightarrow> None | Inr cp \<Rightarrow> Some (checkpoint_envelope_of cp))\<rparr>"

definition machine_resumes :: "('m, 'k) host \<Rightarrow> byte list \<Rightarrow> bool" where
  \<comment> \<open>what is left of \<open>resumes\<close> for the vendored machine\<close>
  "machine_resumes h story \<longleftrightarrow>
     (\<forall>m k. h_checkpoint h m = Some k \<longrightarrow>
        (\<exists>opts s0 n. optionsFromCheckpoint h k = Some opts \<and> new_session h story (raw_of opts) = Some s0 \<and>
           h_resume h story (se_options s0) k = ([], AtRead n m) \<and> 1 \<le> n \<and> n \<le> 0xffff))"

lemma with_codec_host [simp]:
  "h_new (with_codec h) = h_new h" "h_config (with_codec h) = h_config h"
  "h_random (with_codec h) = h_random h" "h_checkpoint (with_codec h) = h_checkpoint h"
  "h_resume (with_codec h) = h_resume h"
  by (simp_all add: with_codec_def)

lemma with_codec_seed [simp]: "secureRandomSeed (with_codec h) = secureRandomSeed h"
  by (simp add: secureRandomSeed_def)

lemma with_codec_resolve [simp]: "resolveOptions (with_codec h) o' = resolveOptions h o'"
  unfolding resolveOptions_def with_codec_seed ..

lemma with_codec_options [simp]:
  "optionsFromCheckpoint (with_codec h) k = optionsFromCheckpoint h k"
  "new_session (with_codec h) story o' = new_session h story o'"
  unfolding optionsFromCheckpoint_def new_session_def with_codec_resolve with_codec_host by (rule refl)+

lemma with_codec_roundtrip: "h_encode (with_codec h) e = Some bytes \<Longrightarrow> h_decode (with_codec h) bytes = Some e"
proof -
  assume "h_encode (with_codec h) e = Some bytes"
  then have "encodeDorkCheckpointEnvelope (checkpoint_js (envelope_checkpoint e)) = Inr bytes"
    by (simp add: with_codec_def split: sum.splits)
  then have "decodeDorkCheckpointEnvelope (JBytes bytes) = Inr (envelope_checkpoint e)"
    by (simp add: encode_checkpoint_iff decode_checkpoint_iff)
  then show ?thesis by (simp add: with_codec_def)
qed

lemma with_codec_resumes: "machine_resumes h story \<Longrightarrow> resumes (with_codec h) story"
  using with_codec_roundtrip by (fastforce simp: resumes_def machine_resumes_def)

definition codec_demo_host :: "(unit, cp_machine) host" where
  "codec_demo_host = \<lparr>h_new = (\<lambda>_ _. True), h_start = (\<lambda>_ _. ([js ''West of House''], AtRead 100 ())),
     h_input = (\<lambda>_ _. ([js ''Taken.''], AtRead 100 ())), h_checkpoint = (\<lambda>_. Some sample_machine),
     h_resume = (\<lambda>_ _ _. ([], AtRead 100 ())),
     h_config = (\<lambda>_. \<lparr>raw_isTandy = None, raw_seed = Some 7, raw_strict = None,
        raw_maxInstructions = None, raw_maxInstructionsPerTurn = JUndef\<rparr>),
     h_encode = (\<lambda>_. None), h_decode = (\<lambda>_. None), h_sha256 = (\<lambda>_. Some demo_sha), h_random = Some 7\<rparr>"

definition codec_demo_session :: "unit session" where
  "codec_demo_session = \<lparr>se_story = demo_story, se_options = \<lparr>op_isTandy = False, op_seed = 7, op_strict = True,
       op_maxInstructions = None, op_maxInstructionsPerTurn = 1000000\<rparr>, se_machine = Some (),
     se_io = new_io\<lparr>io_pendingRead := Some 100, io_inputBoundaryCount := 1\<rparr>,
     se_started = True, se_disposed = False, se_lifecycleEpoch = 0, se_operationInFlight = False,
     se_revision = 1, se_lastOutput = js ''Taken.'', se_boundary = InputRequested\<rparr>"

lemma codec_demo_resumes: "machine_resumes codec_demo_host demo_story"
  by (auto simp: machine_resumes_def codec_demo_host_def new_session_def resolveOptions_def
      optionsFromCheckpoint_def raw_of_def demo_story_def DEFAULT_MAX_INSTRUCTIONS_PER_TURN_def
      MAX_INSTRUCTIONS_PER_TURN_def MAX_SAFE_INTEGER_def split: if_splits)

lemma codec_demo_snapshot: "\<exists>bytes. snapshot (with_codec codec_demo_host) codec_demo_session = Inr bytes"
proof -
  let ?cp = "sample_checkpoint\<lparr>dc_storyId := storyId demo_story\<rparr>"
  have "well_formed (storyId demo_story)" "storyId demo_story \<noteq> []"
    "length (utf8_encode (storyId demo_story)) \<le> 128"
    by code_simp+
  then have "valid_checkpoint ?cp" by (rule sample_checkpoint_for)
  then have "encodeDorkCheckpointEnvelope (checkpoint_js ?cp) = Inr (checkpoint_wire ?cp)"
    by (simp add: encode_checkpoint_iff)
  moreover have "envelope_checkpoint \<lparr>ce_storyId = storyId demo_story, ce_artifactSha256 = demo_sha,
      ce_revision = 1, ce_lastOutput = js ''Taken.'', ce_machine = sample_machine\<rparr> = ?cp"
    by (simp add: envelope_checkpoint_def sample_checkpoint_def demo_sha_def)
  ultimately have "h_encode (with_codec codec_demo_host) \<lparr>ce_storyId = storyId demo_story,
      ce_artifactSha256 = demo_sha, ce_revision = 1, ce_lastOutput = js ''Taken.'',
      ce_machine = sample_machine\<rparr> = Some (checkpoint_wire ?cp)"
    by (simp add: with_codec_def)
  then show ?thesis
    by (simp add: snapshot_def codec_demo_session_def atInputBoundary_def)
      (simp add: codec_demo_host_def with_codec_def)
qed

section \<open>Properties\<close>

text \<open>C5. The checkpoint encoding is canonical and lossless: the decoder, with its two passes over the
  bytes, returns a checkpoint exactly for the byte array the encoder produces for it.\<close>
theorem checkpoint_decode_inverts_encode:
  "decodeDorkCheckpointEnvelope v = Inr cp \<longleftrightarrow>
     (\<exists>bs. v = JBytes bs \<and> encodeDorkCheckpointEnvelope (checkpoint_js cp) = Inr bs)"
  by (auto simp: decode_checkpoint_iff encode_checkpoint_iff)

text \<open>C28. Whatever untyped value the checkpoint encoder accepts, its bytes decode to a checkpoint that
  encodes to the same bytes, they fit the transport limit, and what they decode to is consistent: the
  digest has 64 lowercase digits, all stack words together stay within their limit, every frame points
  into the story and the pending read's buffers lie inside dynamic memory.\<close>
theorem checkpoint_bytes_decode:
  assumes "encodeDorkCheckpointEnvelope v = Inr bs"
  shows "\<exists>cp. decodeDorkCheckpointEnvelope (JBytes bs) = Inr cp \<and>
    encodeDorkCheckpointEnvelope (checkpoint_js cp) = Inr bs \<and>
    length bs \<le> DORK_CHECKPOINT_MAX_TOTAL_BYTES \<and> sha256_text (dc_artifactSha256 cp) \<and>
    length (ma_dataStack (dc_machine cp)) + stack_words (ma_callStack (dc_machine cp)) \<le> 65535 \<and>
    (\<forall>f \<in> set (ma_callStack (dc_machine cp)). fr_pc f < sy_byteLength (ma_story (dc_machine cp))) \<and>
    pd_textBuffer (ma_pendingRead (dc_machine cp)) + pd_maxLength (ma_pendingRead (dc_machine cp))
      < length (ma_dynamicMemory (dc_machine cp))"
proof -
  from encode_checkpoint_sound [OF assms] obtain cp where cp: "valid_checkpoint cp" "bs = checkpoint_wire cp"
    by blast
  then have "length bs \<le> DORK_CHECKPOINT_MAX_TOTAL_BYTES"
    by (simp add: length_checkpoint_wire valid_checkpoint_def)
  with cp show ?thesis
    by (intro exI [of _ cp]) (auto simp: decode_checkpoint_iff encode_checkpoint_iff valid_checkpoint_def
        valid_machine_def valid_stacks_def valid_frame_def valid_pending_def list_all_iff
        DORK_CHECKPOINT_MAX_TOTAL_STACK_WORDS_def)
qed

theorem checkpoint_bytes_decode_witness:
  "\<exists>cp. decodeDorkCheckpointEnvelope (JBytes (checkpoint_wire sample_checkpoint)) = Inr cp"
  using checkpoint_bytes_decode [of "checkpoint_js sample_checkpoint" "checkpoint_wire sample_checkpoint"]
    sample_checkpoint_valid by (auto simp: encode_checkpoint_iff)

text \<open>C29. On the real checkpoint codec, and on a machine that resumes what it checkpointed, a session
  restored from the bytes of a snapshot stands at the same input boundary with the same public state
  and the same machine.\<close>
theorem sessions_resume_from_their_bytes:
  assumes "snapshot (with_codec h) s = Inr bytes" and "machine_resumes h (se_story s)"
  shows "\<exists>s'. restoreFromSnapshot (with_codec h) (se_story s) bytes = Some s' \<and>
    inspectPublicState s' = inspectPublicState s \<and> se_machine s' = se_machine s \<and> atInputBoundary s'"
  using snapshot_restore_session [OF assms(1) with_codec_resumes [OF assms(2)]] .

theorem sessions_resume_from_their_bytes_witness:
  "\<exists>bytes s'. restoreFromSnapshot (with_codec codec_demo_host) demo_story bytes = Some s' \<and> se_machine s' = Some ()"
proof -
  obtain bytes where "snapshot (with_codec codec_demo_host) codec_demo_session = Inr bytes"
    using codec_demo_snapshot by blast
  from sessions_resume_from_their_bytes [OF this] codec_demo_resumes show ?thesis
    by (auto simp: codec_demo_session_def)
qed

end
