(* ===== verification/Runtime_Binding.thy ===== *)
theory Runtime_Binding
  imports Runtime_Facts
begin

text \<open>
  What a runtime on \<open>DorkCandidateSession\<close> keeps of its configuration: its story, its artifact
  digest and the compatibility record derived from them, and the save-and-load round trip that
  rests on them.
\<close>

section \<open>Configuration\<close>

definition binding_ok :: "'m session runtime \<Rightarrow> bool" where
  "binding_ok st \<longleftrightarrow>
     bounded_id (rt_storyId st) \<and>
     (\<forall>s. rt_session st = Some s \<longrightarrow> se_story s = rt_storyBytes st) \<and>
     (\<forall>c. rt_compatibility st = Some c \<longrightarrow>
        (\<exists>sha. rt_artifactSha256 st = Some sha \<and> c = createCompatibility st sha)) \<and>
     (\<forall>mid sha e s. rt_pending st = Some (BootTurn mid sha e s) \<longrightarrow>
        rt_artifactSha256 st = Some sha \<and> se_story s = rt_storyBytes st)"

definition same_configuration :: "'s runtime \<Rightarrow> 's runtime \<Rightarrow> bool" where
  "same_configuration st st' \<longleftrightarrow>
     rt_storyId st' = rt_storyId st \<and> rt_storyBytes st' = rt_storyBytes st \<and>
     rt_artifactSha256 st' = rt_artifactSha256 st \<and> rt_maxReceipts st' = rt_maxReceipts st \<and>
     rt_maxReceiptJournalBytes st' = rt_maxReceiptJournalBytes st"

lemma createCompatibility_same:
  "same_configuration st st' \<Longrightarrow> createCompatibility st' sha = createCompatibility st sha"
  by (simp add: same_configuration_def createCompatibility_def)

lemma record_and_respond_configuration:
  "same_configuration st (fst (record_and_respond st mid expected result)) \<and>
   rt_compatibility (fst (record_and_respond st mid expected result)) = rt_compatibility st \<and>
   rt_session (fst (record_and_respond st mid expected result)) = rt_session st \<and>
   (\<forall>p. snd (record_and_respond st mid expected result) \<noteq> Inr (Await p))"
  by (auto simp: record_and_respond_def Let_def recordReceipt_iff same_configuration_def
      split: sum.splits bool.splits)

lemma same_configuration_refl [simp]: "same_configuration st st"
  by (simp add: same_configuration_def)

lemma begin_execute_configuration:
  "same_configuration st (fst (begin_execute ops st mid req)) \<and>
   rt_compatibility (fst (begin_execute ops st mid req)) = rt_compatibility st \<and>
   rt_session (fst (begin_execute ops st mid req)) = rt_session st \<and>
   (\<forall>m sha e s. snd (begin_execute ops st mid req) \<noteq> Inr (Await (BootTurn m sha e s)))"
  using record_and_respond_configuration
  by (auto simp: begin_execute_def Let_def split: option.split sum.split jsval.split bool.split)

lemma dispatch_configuration:
  "same_configuration st (fst (dispatch ops st req)) \<and>
   rt_compatibility (fst (dispatch ops st req)) = rt_compatibility st \<and>
   rt_session (fst (dispatch ops st req)) = rt_session st \<and>
   (\<forall>m sha e s. snd (dispatch ops st req) \<noteq> Inr (Await (BootTurn m sha e s)))"
  using begin_execute_configuration [of st ops]
  by (auto simp: dispatch_def begin_boot_def begin_snapshot_def begin_restore_def inspect_def Let_def
      bindE_Inr_iff split: sum.splits option.splits if_splits)

lemma finish_configuration:
  "same_configuration (fst r) (fst (finish_step mid r)) \<and>
   rt_compatibility (fst (finish_step mid r)) = rt_compatibility (fst r) \<and>
   rt_session (fst (finish_step mid r)) = rt_session (fst r)"
  by (auto simp: finish_step_def same_configuration_def split: prod.splits sum.splits progress.splits)

lemma finish_pending:
  "rt_pending (fst (finish_step mid r)) = Some p \<Longrightarrow> snd r = Inr (Await p)"
  by (auto simp: finish_step_def split: prod.splits sum.splits progress.splits)

lemma binding_finish:
  assumes "binding_ok st" and "same_configuration st (fst r)"
    and "rt_compatibility (fst r) = rt_compatibility st \<or>
      (\<exists>sha. rt_artifactSha256 st = Some sha \<and> rt_compatibility (fst r) = Some (createCompatibility st sha))"
    and "\<And>s. rt_session (fst r) = Some s \<Longrightarrow> se_story s = rt_storyBytes st"
    and "\<And>m sha e s. snd r = Inr (Await (BootTurn m sha e s)) \<Longrightarrow>
      rt_artifactSha256 st = Some sha \<and> se_story s = rt_storyBytes st"
  shows "binding_ok (fst (finish_step mid r))"
proof -
  let ?st = "fst (finish_step mid r)"
  have same: "same_configuration st ?st"
    using assms(2) finish_configuration [of r mid] by (simp add: same_configuration_def)
  have const: "rt_storyId ?st = rt_storyId st" "rt_storyBytes ?st = rt_storyBytes st"
    "rt_artifactSha256 ?st = rt_artifactSha256 st"
    using same by (simp_all add: same_configuration_def)
  have fields: "rt_compatibility ?st = rt_compatibility (fst r)" "rt_session ?st = rt_session (fst r)"
    using finish_configuration [of r mid] by simp_all
  have "\<exists>sha. rt_artifactSha256 st = Some sha \<and> c = createCompatibility st sha"
    if "rt_compatibility (fst r) = Some c" for c
    using assms(1,3) that by (auto simp: binding_ok_def)
  with assms(1,4,5) show ?thesis
    unfolding binding_ok_def const fields createCompatibility_same [OF same]
    by (blast dest: finish_pending)
qed

lemma recordReceipt_configuration:
  "recordReceipt st rc = Inr st' \<Longrightarrow>
     same_configuration st st' \<and> rt_compatibility st' = rt_compatibility st \<and> rt_session st' = rt_session st"
  by (auto simp: recordReceipt_iff same_configuration_def)

lemma resume_execute_configuration:
  "resume_execute (candidate_ops h) st mid rid expected command ps = (st', r) \<Longrightarrow>
     same_configuration st st' \<and> rt_compatibility st' = rt_compatibility st \<and>
     (\<forall>s'. rt_session st' = Some s' \<longrightarrow> (\<exists>s. rt_session st = Some s \<and> se_story s' = se_story s)) \<and>
     (\<forall>p. r \<noteq> Inr (Await p))"
  by (auto simp: resume_execute_def record_preflighted_def record_committed_def Let_def candidate_ops_def
      same_configuration_def execute_story dest!: recordReceipt_configuration
      split: option.splits prod.splits sum.splits bool.splits session_error.splits if_splits)

lemma binding_pending:
  assumes b: "binding_ok st" and p: "rt_pending st = Some p"
    and r: "resume_pending (candidate_ops h) st p = (mid, r)"
  shows "binding_ok (fst (finish_step mid r))"
proof -
  have keep: "binding_ok (fst (finish_step mid (st, x)))"
    if "\<And>m sha e s. x = Inr (Await (BootTurn m sha e s)) \<Longrightarrow>
      rt_artifactSha256 st = Some sha \<and> se_story s = rt_storyBytes st" for x and mid
    using b that by (intro binding_finish [OF b]) (auto simp: binding_ok_def)
  show ?thesis
  proof (cases p)
    case (BootArtifact m sid sha)
    with r have "mid = m" "r = (st, resume_boot_artifact (candidate_ops h) st m sid sha)" by auto
    moreover have "binding_ok (fst (finish_step m (st, resume_boot_artifact (candidate_ops h) st m sid sha)))"
      by (rule keep) (auto simp: resume_boot_artifact_def candidate_ops_def dest: new_session_fields
          split: option.splits if_splits)
    ultimately show ?thesis by simp
  next
    case (BootTurn m sha e s)
    with p b have s: "rt_artifactSha256 st = Some sha" "se_story s = rt_storyBytes st"
      by (auto simp: binding_ok_def)
    obtain s' t where "boot h s = (s', t)" by fastforce
    with boot_story [OF this] s r BootTurn b show ?thesis
      by (intro binding_finish [OF b])
         (auto simp: resume_boot_turn_def candidate_ops_def same_configuration_def binding_ok_def Let_def
           split: sum.splits if_splits)
  next
    case (ExecuteTurn m rid expected command ps)
    obtain st' x where ex: "resume_execute (candidate_ops h) st m rid expected command ps = (st', x)" by fastforce
    with r ExecuteTurn have "r = (st', x)" by simp
    with resume_execute_configuration [OF ex] b show ?thesis
      by (intro binding_finish [OF b]) (auto simp: binding_ok_def)
  next
    case (RestoreCandidate m env rcs bytes e active)
    obtain st' x where res: "resume_restore_candidate (candidate_ops h) st m env rcs bytes e active = (st', x)"
      by fastforce
    have "same_configuration st st' \<and> rt_compatibility st' = rt_compatibility st \<and>
        (\<forall>s. rt_session st' = Some s \<longrightarrow> se_story s = rt_storyBytes st)"
      using res b by (auto simp: resume_restore_candidate_def candidate_ops_def same_configuration_def Let_def
          binding_ok_def dest: restore_story split: option.splits if_splits)
    with r RestoreCandidate res show ?thesis
      by (intro binding_finish [OF b]) auto
  next
    case (SnapshotCheckpoint m c)
    with r have "mid = m" "r = (st, resume_checkpoint (candidate_ops h) st m c)" by auto
    moreover have "binding_ok (fst (finish_step m (st, resume_checkpoint (candidate_ops h) st m c)))"
      by (rule keep) (auto simp: resume_checkpoint_def split: option.splits sum.splits if_splits)
    ultimately show ?thesis by simp
  next
    case (SnapshotDigest m bytes n c)
    with r have "mid = m" "r = (st, resume_snapshot_digest (candidate_ops h) m bytes n c)" by auto
    moreover have "binding_ok (fst (finish_step m (st, resume_snapshot_digest (candidate_ops h) m bytes n c)))"
      by (rule keep) (auto simp: resume_snapshot_digest_def split: option.splits)
    ultimately show ?thesis by simp
  next
    case (RestoreDigest m sn active)
    with r have "mid = m" "r = (st, Inr (resume_restore_digest (candidate_ops h) st m sn active))" by auto
    moreover have "binding_ok (fst (finish_step m (st, Inr (resume_restore_digest (candidate_ops h) st m sn active))))"
      by (rule keep) (auto simp: resume_restore_digest_def Let_def split: if_splits sum.splits)
    ultimately show ?thesis by simp
  qed
qed

lemma binding_reach:
  assumes "runtime_reach (candidate_ops h) st"
  shows "binding_ok st"
  using assms
proof induction
  case (created o' st)
  then show ?case
    by (auto simp: newDorkWorkerRuntime_def binding_ok_def bindE_Inr_iff requireBoundedId_iff
        split: sum.splits jsval.splits if_splits)
next
  case (stepped st ev)
  show ?case
  proof (cases ev)
    case (Exchange req)
    show ?thesis
    proof (cases "rt_operationInFlight st")
      case True
      with Exchange stepped show ?thesis by (simp add: exchange_def)
    next
      case False
      let ?st = "st\<lparr>rt_operationInFlight := True, rt_pending := None\<rparr>"
      have "same_configuration (st\<lparr>rt_operationInFlight := True\<rparr>) st"
        by (simp add: same_configuration_def)
      then have "binding_ok (fst (finish_step (message_id req)
          (dispatch (candidate_ops h) (st\<lparr>rt_operationInFlight := True\<rparr>) req)))"
        using stepped.IH dispatch_configuration [of "st\<lparr>rt_operationInFlight := True\<rparr>" "candidate_ops h" req]
        by (intro binding_finish [OF stepped.IH]) (auto simp: binding_ok_def same_configuration_def)
      with False Exchange show ?thesis by (simp add: exchange_def)
    qed
  next
    case Resume
    show ?thesis
    proof (cases "rt_pending st")
      case None
      with Resume stepped show ?thesis by (simp add: resume_def)
    next
      case (Some p)
      with Resume binding_pending [OF stepped.IH Some] show ?thesis
        by (cases "resume_pending (candidate_ops h) st p") (simp add: resume_def)
    qed
  next
    case Dispose
    with stepped.IH show ?thesis
      by (auto simp: dispose_runtime_def binding_ok_def createCompatibility_def)
  qed
qed

section \<open>Save and load\<close>

fun run_events :: "'s session_ops \<Rightarrow> 's runtime \<Rightarrow> event list \<Rightarrow> 's runtime \<times> response option list" where
  "run_events ops st [] = (st, [])"
| "run_events ops st (ev # evs) =
     (let (st1, r) = runtime_step ops st ev; (st2, rs) = run_events ops st1 evs in (st2, r # rs))"

definition snapshot_request :: "js \<Rightarrow> jsval" where
  "snapshot_request mid = message_js mid ''snapshot'' []"

definition restore_request :: "js \<Rightarrow> engine_snapshot \<Rightarrow> jsval" where
  "restore_request mid sn = message_js mid ''restore'' [(js ''snapshot'', engine_snapshot_js sn)]"

lemma idle_parts: "idle st \<Longrightarrow> \<not> rt_operationInFlight st" "idle st \<Longrightarrow> rt_pending st = None"
  "idle st \<Longrightarrow> \<not> rt_disposed st"
  by (simp_all add: idle_def)

lemma idle_eq: "idle st \<Longrightarrow> st\<lparr>rt_operationInFlight := False, rt_pending := None\<rparr> = st"
  by (cases st) (simp add: idle_def)

lemma save_sequence:
  assumes idle: "idle st" and core: "runtime_core ops good st" and "bounded_id mid"
    and s: "rt_session st = Some s" "so_inspect ops s = Some ps" and c: "rt_compatibility st = Some c"
    and inner: "so_snapshot ops s = Inr inner" "DORK_CHECKPOINT_FIXED_HEADER_BYTES \<le> length inner"
      "length inner \<le> DORK_CHECKPOINT_MAX_TOTAL_BYTES"
    and sha: "so_sha256 ops (snapshot_wire (snapshot_of ops st ps inner)) = Some d"
  shows "run_events ops st [Exchange (snapshot_request mid), Resume, Resume] =
    (st, [None, None, Some (SnapshotResponse mid \<lparr>sn_bytes = snapshot_wire (snapshot_of ops st ps inner),
       sn_sha256 = d, sn_revision = ps_revision ps, sn_compatibility = c\<rparr>)])"
proof -
  let ?w = "snapshot_wire (snapshot_of ops st ps inner)"
  let ?st1 = "st\<lparr>rt_operationInFlight := True, rt_pending := Some (SnapshotCheckpoint mid c)\<rparr>"
  let ?st2 = "st\<lparr>rt_operationInFlight := True, rt_pending := Some (SnapshotDigest mid ?w (ps_revision ps) c)\<rparr>"
  have 1: "runtime_step ops st (Exchange (snapshot_request mid)) = (?st1, None)"
    using idle_parts [OF idle] assms(3) s c
    by (simp add: exchange_def dispatch_def snapshot_request_def begin_snapshot_def finish_step_def)
  have core1: "runtime_core ops good ?st1" using core by simp
  have "resume_checkpoint ops ?st1 mid c = Inr (Await (SnapshotDigest mid ?w (ps_revision ps) c))"
    using checkpoint_encodes [OF core1 _ s(2) inner] s(1) by (simp add: snapshot_of_def)
  then have 2: "runtime_step ops ?st1 Resume = (?st2, None)"
    by (simp add: resume_def finish_step_def)
  have 3: "runtime_step ops ?st2 Resume = (st, Some (SnapshotResponse mid \<lparr>sn_bytes = ?w,
       sn_sha256 = d, sn_revision = ps_revision ps, sn_compatibility = c\<rparr>))"
    using sha idle_eq [OF idle] by (simp add: resume_def resume_snapshot_digest_def finish_step_def)
  show ?thesis by (simp add: 1 2 3 del: runtime_step.simps)
qed

definition restore_js :: "js \<Rightarrow> jsval \<Rightarrow> jsval" where
  "restore_js mid v = message_js mid ''restore'' [(js ''snapshot'', v)]"

lemma restore_field: "getProp (restore_js mid v) ''snapshot'' = v"
  by (simp add: restore_js_def message_js_def)

text \<open>The three steps of a restore on an idle runtime.\<close>

abbreviation waiting :: "'s runtime \<Rightarrow> 's pending \<Rightarrow> 's runtime" where
  "waiting st p \<equiv> st\<lparr>rt_operationInFlight := True, rt_pending := Some p\<rparr>"

lemma restore_begins:
  assumes "idle st" and "bounded_id mid" and "rt_session st = Some s" "so_inspect ops s = Some ps"
    and "rt_compatibility st = Some c"
  shows "runtime_step ops st (Exchange (restore_js mid v)) =
    (case readSnapshot v of
       Inl _ \<Rightarrow> (st, Some (reject_restore mid Corrupt_snapshot ps))
     | Inr sn \<Rightarrow>
         if sn_compatibility sn \<noteq> c then (st, Some (reject_restore mid Incompatible_snapshot ps))
         else (waiting st (RestoreDigest mid sn ps), None))"
proof -
  have "runtime_step ops st (Exchange (restore_js mid v)) = finish_step mid (st\<lparr>rt_operationInFlight := True\<rparr>,
      begin_restore ops (st\<lparr>rt_operationInFlight := True\<rparr>) mid (restore_js mid v))"
    using idle_parts [OF assms(1)] assms(2) by (simp add: exchange_def dispatch_def restore_js_def)
  then show ?thesis
    using assms(3-5) finish_idle [OF assms(1)]
    by (simp add: begin_restore_def restore_field finish_step_def split: sum.split)
qed

lemma admissible_waiting [simp]: "admissible ops (waiting st p) sn env = admissible ops st sn env"
  by (simp add: admissible_def)

lemma recovers_waiting [simp]: "recovers ops (waiting st p) env s = recovers ops st env s"
  by (simp add: recovers_def)

lemma restore_digests:
  assumes "idle st"
  shows "admissible ops st sn env \<Longrightarrow> runtime_step ops (waiting st (RestoreDigest mid sn ps)) Resume =
      (waiting st (RestoreCandidate mid env (ws_receipts env) (journal_size (ws_receipts env)) (rt_lifecycleEpoch st) ps), None)"
    and "(\<And>env. \<not> admissible ops st sn env) \<Longrightarrow> runtime_step ops (waiting st (RestoreDigest mid sn ps)) Resume =
      (st, Some (reject_restore mid Corrupt_snapshot ps))"
proof -
  assume "admissible ops st sn env"
  then have "resume_restore_digest ops (waiting st (RestoreDigest mid sn ps)) mid sn ps =
      Await (RestoreCandidate mid env (ws_receipts env) (journal_size (ws_receipts env)) (rt_lifecycleEpoch st) ps)"
    using restore_accepts [of env sn ops "waiting st (RestoreDigest mid sn ps)" mid ps] by (auto simp: admissible_def)
  then show "runtime_step ops (waiting st (RestoreDigest mid sn ps)) Resume =
      (waiting st (RestoreCandidate mid env (ws_receipts env) (journal_size (ws_receipts env)) (rt_lifecycleEpoch st) ps), None)"
    by (simp add: resume_def finish_step_def)
next
  assume no: "\<And>env. \<not> admissible ops st sn env"
  have "resume_restore_digest ops (waiting st (RestoreDigest mid sn ps)) mid sn ps =
      Done (reject_restore mid Corrupt_snapshot ps)"
    by (rule restore_refuses) (use no in simp)
  then show "runtime_step ops (waiting st (RestoreDigest mid sn ps)) Resume =
      (st, Some (reject_restore mid Corrupt_snapshot ps))"
    using idle_eq [OF assms] by (simp add: resume_def finish_step_def)
qed

lemma settled_waiting:
  assumes "idle st"
  shows "(waiting st p)\<lparr>rt_session := x, rt_receipts := rcs, rt_receiptJournalBytes := bytes,
      rt_operationInFlight := False, rt_pending := None\<rparr> =
    st\<lparr>rt_session := x, rt_receipts := rcs, rt_receiptJournalBytes := bytes\<rparr>"
  using assms by (cases st) (simp add: idle_def)

lemma candidate_step: "runtime_step ops (waiting st (RestoreCandidate mid env rcs bytes epoch ps)) Resume =
    (case resume_restore_candidate ops (waiting st (RestoreCandidate mid env rcs bytes epoch ps)) mid env rcs bytes epoch ps
       of (st', resp) \<Rightarrow> (st'\<lparr>rt_operationInFlight := False, rt_pending := None\<rparr>, Some resp))"
  by (simp add: resume_def finish_step_def split: prod.split)

lemma restore_settles:
  assumes "idle st"
  shows "recovers ops st env s \<Longrightarrow>
      runtime_step ops (waiting st (RestoreCandidate mid env rcs bytes (rt_lifecycleEpoch st) ps)) Resume =
      (st\<lparr>rt_session := Some s, rt_receipts := rcs, rt_receiptJournalBytes := bytes\<rparr>,
       Some (RestoreResponse mid \<lparr>rr_status = Restored, rr_revision = ws_revision env, rr_boundary = ws_boundary env\<rparr>))"
    and "(\<And>s. \<not> recovers ops st env s) \<Longrightarrow>
      runtime_step ops (waiting st (RestoreCandidate mid env rcs bytes (rt_lifecycleEpoch st) ps)) Resume =
      (st, Some (reject_restore mid Corrupt_snapshot ps))"
proof -
  let ?p = "RestoreCandidate mid env rcs bytes (rt_lifecycleEpoch st) ps"
  assume "recovers ops st env s"
  then have "resume_restore_candidate ops (waiting st ?p) mid env rcs bytes (rt_lifecycleEpoch st) ps =
      ((waiting st ?p)\<lparr>rt_session := Some s, rt_receipts := rcs, rt_receiptJournalBytes := bytes\<rparr>,
       RestoreResponse mid \<lparr>rr_status = Restored, rr_revision = ws_revision env, rr_boundary = ws_boundary env\<rparr>)"
    using idle_parts(3) [OF assms] by (intro restore_installs) simp_all
  then show "runtime_step ops (waiting st ?p) Resume =
      (st\<lparr>rt_session := Some s, rt_receipts := rcs, rt_receiptJournalBytes := bytes\<rparr>,
       Some (RestoreResponse mid \<lparr>rr_status = Restored, rr_revision = ws_revision env, rr_boundary = ws_boundary env\<rparr>))"
    unfolding candidate_step by (simp only: prod.case settled_waiting [OF assms])
next
  let ?p = "RestoreCandidate mid env rcs bytes (rt_lifecycleEpoch st) ps"
  assume no: "\<And>s. \<not> recovers ops st env s"
  have "resume_restore_candidate ops (waiting st ?p) mid env rcs bytes (rt_lifecycleEpoch st) ps =
      (waiting st ?p, reject_restore mid Corrupt_snapshot ps)"
    by (rule restore_declines) (use no in simp)
  then show "runtime_step ops (waiting st ?p) Resume = (st, Some (reject_restore mid Corrupt_snapshot ps))"
    unfolding candidate_step using idle_eq [OF assms] by simp
qed

lemma restore_run:
  assumes "idle st" and "bounded_id mid" and "rt_session st = Some s" "so_inspect ops s = Some ps"
    and "rt_compatibility st = Some c" and "restorable ops st v env s'"
  shows "run_events ops st [Exchange (restore_js mid v), Resume, Resume] =
    (st\<lparr>rt_session := Some s', rt_receipts := ws_receipts env,
        rt_receiptJournalBytes := journal_size (ws_receipts env)\<rparr>,
     [None, None, Some (RestoreResponse mid \<lparr>rr_status = Restored, rr_revision = ws_revision env,
        rr_boundary = ws_boundary env\<rparr>)])"
proof -
  obtain sn where sn: "readSnapshot v = Inr sn" "sn_compatibility sn = c"
    and ok: "admissible ops st sn env" "recovers ops st env s'"
    using assms(5,6) by (auto simp: restorable_def)
  show ?thesis
    by (simp add: restore_begins [OF assms(1-5)] sn restore_digests(1) [OF assms(1) ok(1)]
        restore_settles(1) [OF assms(1) ok(2)] del: runtime_step.simps)
qed

definition replies :: "response option list \<Rightarrow> response list" where
  "replies rs = List.map_filter (\<lambda>r. r) rs"

lemma replies_simps [simp]: "replies [] = []" "replies (None # rs) = replies rs" "replies (Some r # rs) = r # replies rs"
  by (simp_all add: replies_def List.map_filter_def)

lemma idle_resume: "idle st \<Longrightarrow> runtime_step ops st Resume = (st, None)"
  by (simp add: idle_def resume_def)

lemma refused_run:
  assumes "idle st" and "bounded_id mid" and "rt_session st = Some s" "so_inspect ops s = Some ps"
    and "rt_compatibility st = Some c" and no: "\<And>env s'. \<not> restorable ops st v env s'"
  shows "fst (run_events ops st [Exchange (restore_js mid v), Resume, Resume]) = st \<and>
    replies (snd (run_events ops st [Exchange (restore_js mid v), Resume, Resume])) =
      [reject_restore mid (case readSnapshot v of Inr sn \<Rightarrow> if sn_compatibility sn = c then Corrupt_snapshot
         else Incompatible_snapshot | Inl _ \<Rightarrow> Corrupt_snapshot) ps]"
proof (cases "\<exists>sn. readSnapshot v = Inr sn \<and> sn_compatibility sn = c")
  case False
  then show ?thesis
    by (auto simp: restore_begins [OF assms(1-5)] idle_resume [OF assms(1)] simp del: runtime_step.simps split: sum.split)
next
  case True
  then obtain sn where sn: "readSnapshot v = Inr sn" "sn_compatibility sn = c" by blast
  show ?thesis
  proof (cases "\<exists>env. admissible ops st sn env")
    case True
    then obtain env where env: "admissible ops st sn env" by blast
    then have "\<not> recovers ops st env s'" for s'
      using no [of env s'] assms(5) sn by (auto simp: restorable_def)
    then show ?thesis
      by (simp add: restore_begins [OF assms(1-5)] sn restore_digests(1) [OF assms(1) env]
          restore_settles(2) [OF assms(1)] del: runtime_step.simps)
  next
    case False
    then show ?thesis
      by (simp add: restore_begins [OF assms(1-5)] sn restore_digests(2) [OF assms(1)]
          idle_resume [OF assms(1)] del: runtime_step.simps)
  qed
qed

lemma load_sequence:
  assumes idle: "idle st" and "bounded_id mid"
    and s: "rt_session st = Some s" "so_inspect ops s = Some ps" and c: "rt_compatibility st = Some (sn_compatibility sn)"
    and c_ok: "valid_compatibility (sn_compatibility sn)" and d: "hex_digest (sn_sha256 sn)"
    and env: "valid_snapshot env" "sn_bytes sn = snapshot_wire env" "sn_revision sn = ws_revision env"
    and sha: "so_sha256 ops (sn_bytes sn) = Some (sn_sha256 sn)"
    and limits: "length (ws_receipts env) \<le> rt_maxReceipts st"
      "journal_size (ws_receipts env) \<le> rt_maxReceiptJournalBytes st"
    and s': "so_restore ops (rt_storyBytes st) (ws_innerCheckpoint env) = Some s'"
      "so_inspect ops s' = Some \<lparr>ps_revision = ws_revision env, ps_lastOutput = ws_lastOutput env, ps_boundary = ws_boundary env\<rparr>"
  shows "restorable ops st (engine_snapshot_js sn) env s'"
    and "run_events ops st [Exchange (restore_request mid sn), Resume, Resume] =
    (st\<lparr>rt_session := Some s', rt_receipts := ws_receipts env,
        rt_receiptJournalBytes := journal_size (ws_receipts env)\<rparr>,
     [None, None, Some (RestoreResponse mid \<lparr>rr_status = Restored, rr_revision = ws_revision env,
        rr_boundary = ws_boundary env\<rparr>)])"
proof -
  have "length (sn_bytes sn) = snapshot_size env" using env(2) by (simp add: length_snapshot_wire)
  then have bytes: "sn_bytes sn \<noteq> []" "length (sn_bytes sn) \<le> MAX_ENGINE_SNAPSHOT_BYTES"
    using valid_snapshot_size [OF env(1)] by (auto simp: snapshot_size_def limit_defs)
  have "sn_revision sn \<le> MAX_SAFE_INTEGER" using env by (simp add: valid_snapshot_def)
  with readSnapshot_js [OF c_ok d _ bytes] have "readSnapshot (engine_snapshot_js sn) = Inr sn" by simp
  with c env sha limits s' show r: "restorable ops st (engine_snapshot_js sn) env s'"
    by (auto simp: restorable_def admissible_def recovers_def)
  have "restore_request mid sn = restore_js mid (engine_snapshot_js sn)"
    by (simp add: restore_request_def restore_js_def)
  with restore_run [OF assms(1-5) r] show "run_events ops st [Exchange (restore_request mid sn), Resume, Resume] =
    (st\<lparr>rt_session := Some s', rt_receipts := ws_receipts env,
        rt_receiptJournalBytes := journal_size (ws_receipts env)\<rparr>,
     [None, None, Some (RestoreResponse mid \<lparr>rr_status = Restored, rr_revision = ws_revision env,
        rr_boundary = ws_boundary env\<rparr>)])" by simp
qed

lemma valid_createCompatibility:
  assumes "bounded_id (rt_storyId st)" and "hex_digest sha"
  shows "valid_compatibility (createCompatibility st sha)"
proof -
  have "bounded_id (js DORK_WORKER_RUNTIME_ID)" "bounded_id (js ''candidate-1'')"
    "hex_digest (js DORK_WORKER_RUNTIME_ARTIFACT_SHA256)" "bounded_id (js ''sttork-dork-worker-spike'')"
    "bounded_id (js ''1'')"
    by code_simp+
  with assms show ?thesis
    by (simp add: valid_compatibility_def createCompatibility_def MAX_SAFE_INTEGER_def)
qed

section \<open>The artifact digest\<close>

lemma resume_pending_configuration:
  "same_configuration st (fst (snd (resume_pending (candidate_ops h) st p)))"
proof (cases p)
  case (ExecuteTurn m rid expected command ps)
  then show ?thesis
    using resume_execute_configuration [of h st m rid expected command ps]
    by (cases "resume_execute (candidate_ops h) st m rid expected command ps") simp
qed (auto simp: resume_boot_turn_def resume_restore_candidate_def same_configuration_def Let_def
    split: prod.splits sum.splits option.splits if_splits)

lemma step_configuration: "same_configuration st (fst (runtime_step (candidate_ops h) st ev))"
proof (cases ev)
  case (Exchange req)
  show ?thesis
  proof (cases "rt_operationInFlight st")
    case False
    have "same_configuration (st\<lparr>rt_operationInFlight := True\<rparr>)
        (fst (dispatch (candidate_ops h) (st\<lparr>rt_operationInFlight := True\<rparr>) req))"
      using dispatch_configuration by blast
    then show ?thesis
      using finish_configuration [of "dispatch (candidate_ops h) (st\<lparr>rt_operationInFlight := True\<rparr>) req" "message_id req"]
        False Exchange by (simp add: exchange_def same_configuration_def)
  qed (simp add: Exchange exchange_def)
next
  case Resume
  show ?thesis
  proof (cases "rt_pending st")
    case (Some p)
    obtain mid r where "resume_pending (candidate_ops h) st p = (mid, r)" by (rule prod.exhaust)
    then show ?thesis
      using finish_configuration [of r mid] resume_pending_configuration [of st h p] Some Resume
      by (simp add: resume_def same_configuration_def)
  qed (simp add: Resume resume_def)
qed (simp add: dispose_runtime_def same_configuration_def)

lemma artifact_reach:
  "runtime_reach (candidate_ops h) st \<Longrightarrow> rt_artifactSha256 st = h_sha256 h (rt_storyBytes st)"
proof (induction rule: runtime_reach.induct)
  case (created o' st)
  then show ?case
    by (auto simp: newDorkWorkerRuntime_def candidate_ops_def bindE_Inr_iff split: sum.splits jsval.splits if_splits)
next
  case (stepped st ev)
  then show ?case using step_configuration [of st h ev] by (simp add: same_configuration_def)
qed

end
