(* ===== verification/Runtime_Properties.thy ===== *)
theory Runtime_Properties
  imports Runtime_Demo Runtime_Binding
begin

text \<open>
  The properties of the worker runtime on \<open>DorkCandidateSession\<close>, with their witnesses on the
  runtime of \<open>Runtime_Demo\<close>.  The hypothesis \<open>prints_text\<close> says that the interpreter prints
  well-formed UTF-16; \<open>resumes\<close> is the interpreter's and the checkpoint codec's round trip.
\<close>

text \<open>C18. In every reachable state with a session, the journal agrees with the session's public
  state: receipt ids are unique, every revision from 1 to the current one has exactly one committed
  receipt, no receipt is ahead of the session, and the journal's byte count is exact and within the
  limits.\<close>
theorem journal_matches_session:
  assumes "runtime_reach (candidate_ops h) st" and "prints_text h"
    and "rt_session st = Some s" and "inspectPublicState s = Some ps"
  shows "valid_journal (ps_revision ps) (ps_lastOutput ps) (ps_boundary ps) (rt_receipts st) \<and>
    list_all valid_receipt (rt_receipts st) \<and> length (rt_receipts st) \<le> rt_maxReceipts st \<and>
    rt_receiptJournalBytes st = journal_size (rt_receipts st) \<and>
    rt_receiptJournalBytes st \<le> rt_maxReceiptJournalBytes st"
  using dork.reach_ok [OF assms(1,2)] assms(3,4)
  by (auto simp: runtime_ok_def runtime_core_def journal_ok_def session_ok_def agrees_def candidate_ops_def)

theorem journal_matches_session_witness:
  "valid_journal 0 (js ''West of House'') InputRequested [] \<and> rt_receiptJournalBytes demo_booted = journal_size []"
proof -
  have s: "rt_session demo_booted = Some (demo_session 0 (js ''West of House''))"
    and ps: "inspectPublicState (demo_session 0 (js ''West of House'')) =
      Some \<lparr>ps_revision = 0, ps_lastOutput = js ''West of House'', ps_boundary = InputRequested\<rparr>"
    using demo_inspect by (simp_all add: demo_booted_def candidate_ops_def)
  from journal_matches_session [OF demo_booted_reach demo_prints_text s ps] show ?thesis
    by (simp add: demo_booted_def demo_runtime_def)
qed

text \<open>C7. Exactly once: when the session completes a submitted command, the reply carries one
  committed result that advances the revision by one, and repeating the request returns that result
  again, leaves the runtime as it is and does not run the session.\<close>
theorem committed_turn_is_replayed:
  assumes "runtime_reach (candidate_ops h) st" and "prints_text h"
    and "rt_pending st = Some (ExecuteTurn mid rid expected command ps)" and "\<not> rt_disposed st"
    and "rt_session st = Some s" and "execute h command s = (s', Inr t)" and "bounded_id mid'"
  shows "\<exists>st' r. resume (candidate_ops h) st = (st', Some (ExecuteResponse mid r)) \<and>
    er_status r = Committed \<and> er_previousRevision r = ps_revision ps \<and> er_revision r = ps_revision ps + 1 \<and>
    er_requestId r = rid \<and> er_command r = command \<and> er_output r = tn_output t \<and> er_boundary r = tn_boundary t \<and>
    rt_session st' = Some s' \<and>
    exchange (candidate_ops h) st' (execute_js mid' rid expected command) = (st', Some (ExecuteResponse mid' r))"
proof -
  note ok = dork.reach_ok [OF assms(1,2)]
  let ?r = "\<lparr>er_requestId = rid, er_previousRevision = ps_revision ps, er_revision = ps_revision ps + 1,
      er_command = command, er_output = tn_output t, er_boundary = tn_boundary t, er_status = Committed\<rparr>"
  let ?rc = "\<lparr>rc_requestId = rid, rc_expectedRevision = expected, rc_command = command, rc_result = ?r\<rparr>"
  have ex: "so_execute (candidate_ops h) command s = (s', Inr t)"
    using assms(6) by (simp add: candidate_ops_def)
  define st' where "st' = fst (resume (candidate_ops h) st)"
  note turn = dork.resume_turn_committed [OF ok assms(2,3,5) ex]
  have pend: "bounded_id rid" "expected = ps_revision ps" "reserved st rid command (ps_revision ps)"
    using ok assms(3,5) by (auto simp: runtime_ok_def requireBoundedId_iff)
  have new: "rid \<notin> rc_requestId ` set (rt_receipts st)"
    using pend(3) by (simp add: reserved_def Let_def)
  have "find_receipt rid (rt_receipts st') = Some ?rc"
    using find_receipt_append_new [of ?rc "rt_receipts st"] new by (simp add: st'_def turn)
  moreover have "idle st'" "rt_session st' = Some s'"
    using assms(4) by (simp_all add: st'_def turn idle_def)
  moreover obtain ps' where "so_inspect (candidate_ops h) s' = Some ps'"
    using dork.execute [OF _ _ ex] ok assms(5)
    by (auto simp: runtime_ok_def runtime_core_def session_ok_def)
  moreover have "expected \<le> MAX_SAFE_INTEGER"
    using reserved_revision [OF pend(3)] pend(2) by simp
  ultimately have "exchange (candidate_ops h) st' (execute_js mid' rid expected command) =
      (st', Some (ExecuteResponse mid' ?r))"
    using journaled_request [of st' mid' s' "candidate_ops h" ps' rid ?rc expected command] assms(7) pend(1) by simp
  with turn \<open>rt_session st' = Some s'\<close> show ?thesis
    by (intro exI [of _ st'] exI [of _ ?r]) (simp add: st'_def)
qed

theorem committed_turn_is_replayed_witness:
  "\<exists>st' r. resume demo_ops demo_turn = (st', Some (ExecuteResponse (js ''m2'') r)) \<and>
     er_status r = Committed \<and> er_revision r = 1 \<and> er_output r = js ''Taken.'' \<and>
     exchange demo_ops st' (execute_js (js ''m3'') (js ''r1'') 0 (js ''look'')) =
       (st', Some (ExecuteResponse (js ''m3'') r))"
proof -
  have p: "rt_pending demo_turn = Some (ExecuteTurn (js ''m2'') (js ''r1'') 0 (js ''look'')
      \<lparr>ps_revision = 0, ps_lastOutput = js ''West of House'', ps_boundary = InputRequested\<rparr>)"
    "\<not> rt_disposed demo_turn" "rt_session demo_turn = Some (demo_session 0 (js ''West of House''))"
    by (simp_all add: demo_turn_def demo_booted_def demo_runtime_def)
  have ex: "execute demo_host (js ''look'') (demo_session 0 (js ''West of House'')) =
      (demo_session 1 (js ''Taken.''), Inr \<lparr>tn_output = js ''Taken.'', tn_boundary = InputRequested\<rparr>)"
    using demo_execute [of 0] by (simp add: candidate_ops_def)
  from committed_turn_is_replayed [OF demo_turn_reach demo_prints_text p ex demo_ids(4)]
  show ?thesis by auto
qed

text \<open>C24. The session's public state only moves together with the journal: a step either leaves
  it unchanged (adding at most one rejected receipt), or commits exactly one turn whose receipt is
  appended and returned in the reply, or answers a restore request with \<open>restored\<close>.\<close>
theorem state_moves_with_journal:
  assumes "runtime_reach (candidate_ops h) st" and "prints_text h"
    and "runtime_step (candidate_ops h) st ev = (st', resp)"
    and "rt_session st = Some s" and "inspectPublicState s = Some ps"
    and "rt_session st' = Some s'" and "inspectPublicState s' = Some ps'"
  shows "(ps' = ps \<and> adds_rejection st st') \<or>
    (\<exists>mid rc. rt_receipts st' = rt_receipts st @ [rc] \<and> resp = Some (ExecuteResponse mid (rc_result rc)) \<and>
      er_status (rc_result rc) = Committed \<and> er_previousRevision (rc_result rc) = ps_revision ps \<and>
      er_revision (rc_result rc) = ps_revision ps' \<and> ps_revision ps' = ps_revision ps + 1 \<and>
      er_output (rc_result rc) = ps_lastOutput ps' \<and> er_boundary (rc_result rc) = ps_boundary ps') \<or>
    (\<exists>mid rr. resp = Some (RestoreResponse mid rr) \<and> rr_status rr = Restored)"
  using dork.step_moves [OF dork.reach_ok [OF assms(1,2)] assms(2,3,4) _ assms(6)] assms(5,7)
  by (simp add: candidate_ops_def)

theorem state_moves_with_journal_witness:
  "adds_rejection demo_booted demo_turn"
proof -
  have s: "rt_session demo_booted = Some (demo_session 0 (js ''West of House''))"
    "rt_session demo_turn = Some (demo_session 0 (js ''West of House''))"
    by (simp_all add: demo_turn_def demo_booted_def)
  have ps: "inspectPublicState (demo_session 0 (js ''West of House'')) =
      Some \<lparr>ps_revision = 0, ps_lastOutput = js ''West of House'', ps_boundary = InputRequested\<rparr>"
    using demo_inspect by (simp add: candidate_ops_def)
  have step: "runtime_step demo_ops demo_booted (Exchange (execute_js (js ''m2'') (js ''r1'') 0 (js ''look''))) =
      (demo_turn, None)"
    by (simp add: demo_turn_step)
  from state_moves_with_journal [OF demo_booted_reach demo_prints_text step s(1) ps s(2) ps] show ?thesis
    by simp
qed

text \<open>A request id that is already journaled never reaches the session: the same revision and
  command get the recorded result, anything else is rejected as a duplicate, and in both cases the
  runtime is unchanged.\<close>
theorem journaled_id_is_answered_from_journal:
  assumes "idle st" and "bounded_id mid" and "bounded_id rid" and "expected \<le> MAX_SAFE_INTEGER"
    and "rt_session st = Some s" and "inspectPublicState s = Some ps"
    and "find_receipt rid (rt_receipts st) = Some rc"
  shows "exchange (candidate_ops h) st (execute_js mid rid expected command) = (st, Some (ExecuteResponse mid
     (if rc_expectedRevision rc = expected \<and> rc_command rc = command then rc_result rc
      else rejectedExecute rid command (ps_revision ps) (ps_boundary ps) Duplicate)))"
  using journaled_request [OF assms(1,2,5) _ assms(7,3,4)] assms(6) by (simp add: candidate_ops_def)

definition demo_receipt :: receipt where
  "demo_receipt = \<lparr>rc_requestId = js ''r1'', rc_expectedRevision = 0, rc_command = js ''look'',
     rc_result = rejectedExecute (js ''r1'') (js ''look'') 0 InputRequested InvalidCommand\<rparr>"

theorem journaled_id_is_answered_from_journal_witness:
  "exchange demo_ops (demo_booted\<lparr>rt_receipts := [demo_receipt]\<rparr>)
      (execute_js (js ''m2'') (js ''r1'') 0 (js ''take lamp'')) =
   (demo_booted\<lparr>rt_receipts := [demo_receipt]\<rparr>, Some (ExecuteResponse (js ''m2'')
      (rejectedExecute (js ''r1'') (js ''take lamp'') 0 InputRequested Duplicate)))"
proof -
  have "idle (demo_booted\<lparr>rt_receipts := [demo_receipt]\<rparr>)"
    "rt_session (demo_booted\<lparr>rt_receipts := [demo_receipt]\<rparr>) = Some (demo_session 0 (js ''West of House''))"
    "find_receipt (js ''r1'') (rt_receipts (demo_booted\<lparr>rt_receipts := [demo_receipt]\<rparr>)) = Some demo_receipt"
    by (simp_all add: idle_def demo_booted_def demo_runtime_def find_receipt_def demo_receipt_def)
  moreover have "inspectPublicState (demo_session 0 (js ''West of House'')) =
      Some \<lparr>ps_revision = 0, ps_lastOutput = js ''West of House'', ps_boundary = InputRequested\<rparr>"
    using demo_inspect by (simp add: candidate_ops_def)
  ultimately show ?thesis
    using journaled_id_is_answered_from_journal [of "demo_booted\<lparr>rt_receipts := [demo_receipt]\<rparr>" "js ''m2''"
      "js ''r1''" 0 _ _ demo_receipt demo_host "js ''take lamp''"]
    by (simp add: demo_receipt_def)
qed

text \<open>C10. Saving and loading: from every reachable idle state whose session can be checkpointed,
  a snapshot request is answered with a snapshot and changes nothing, and restoring that snapshot is
  answered with \<open>restored\<close> and gives a session with the same public state and the same machine,
  with the journal as it was.\<close>
theorem save_and_load:
  assumes "runtime_reach (candidate_ops h) st" and "prints_text h" and "resumes h (rt_storyBytes st)"
    and "\<forall>b. \<exists>d. h_sha256 h b = Some d \<and> hex_digest d"
    and "idle st" and "rt_session st = Some s" and "inspectPublicState s = Some ps"
    and "snapshot h s = Inr inner" and "DORK_CHECKPOINT_FIXED_HEADER_BYTES \<le> length inner"
    and "length inner \<le> DORK_CHECKPOINT_MAX_TOTAL_BYTES" and "bounded_id mid" and "bounded_id mid'"
  shows "\<exists>sn s'.
    run_events (candidate_ops h) st [Exchange (snapshot_request mid), Resume, Resume] =
      (st, [None, None, Some (SnapshotResponse mid sn)]) \<and>
    run_events (candidate_ops h) st [Exchange (restore_request mid' sn), Resume, Resume] =
      (st\<lparr>rt_session := Some s'\<rparr>, [None, None, Some (RestoreResponse mid'
         \<lparr>rr_status = Restored, rr_revision = ps_revision ps, rr_boundary = ps_boundary ps\<rparr>)]) \<and>
    inspectPublicState s' = Some ps \<and> se_machine s' = se_machine s"
proof -
  let ?ops = "candidate_ops h" and ?env = "snapshot_of (candidate_ops h) st ps inner"
  note ok = dork.reach_ok [OF assms(1,2)]
  then have core: "runtime_core ?ops (good_session h) st" by (simp add: runtime_ok_def)
  have story: "se_story s = rt_storyBytes st" "bounded_id (rt_storyId st)"
    using binding_reach [OF assms(1)] assms(6) by (simp_all add: binding_ok_def)
  obtain sha where sha: "rt_artifactSha256 st = Some sha" "hex_digest sha"
    using assms(4) artifact_reach [OF assms(1)] by metis
  obtain c where c: "rt_compatibility st = Some c"
    using core assms(6) by (auto simp: runtime_core_def session_ok_def)
  then have "c = createCompatibility st sha"
    using binding_reach [OF assms(1)] sha(1) by (auto simp: binding_ok_def)
  then have c_ok: "valid_compatibility c"
    using valid_createCompatibility [OF story(2) sha(2)] by simp
  obtain d where d: "h_sha256 h (snapshot_wire ?env) = Some d" "hex_digest d"
    using assms(4) by blast
  let ?sn = "\<lparr>sn_bytes = snapshot_wire ?env, sn_sha256 = d, sn_revision = ps_revision ps, sn_compatibility = c\<rparr>"
  have ps: "so_inspect ?ops s = Some ps" and inner: "so_snapshot ?ops s = Inr inner"
    and sha_ops: "so_sha256 ?ops (snapshot_wire ?env) = Some d"
    using assms(7,8) d by (simp_all add: candidate_ops_def)
  have save: "run_events ?ops st [Exchange (snapshot_request mid), Resume, Resume] =
      (st, [None, None, Some (SnapshotResponse mid ?sn)])"
    using save_sequence [OF assms(5) core assms(11,6) ps c inner assms(9,10) sha_ops] by simp
  have v: "valid_snapshot ?env" by (rule valid_snapshot_of [OF core assms(6) ps assms(9,10)])
  obtain s' where s': "restoreFromSnapshot h (rt_storyBytes st) inner = Some s'"
    "inspectPublicState s' = Some ps" "se_machine s' = se_machine s"
    using snapshot_restore_session [OF assms(8)] assms(3,7) story(1) by auto
  have journal: "length (rt_receipts st) \<le> rt_maxReceipts st"
    "rt_receiptJournalBytes st = journal_size (rt_receipts st)"
    "rt_receiptJournalBytes st \<le> rt_maxReceiptJournalBytes st"
    using core by (simp_all add: runtime_core_def journal_ok_def)
  have "run_events ?ops st [Exchange (restore_request mid' ?sn), Resume, Resume] =
      (st\<lparr>rt_session := Some s', rt_receipts := ws_receipts ?env,
          rt_receiptJournalBytes := journal_size (ws_receipts ?env)\<rparr>,
       [None, None, Some (RestoreResponse mid' \<lparr>rr_status = Restored, rr_revision = ws_revision ?env,
          rr_boundary = ws_boundary ?env\<rparr>)])"
    using c_ok c d v s' journal
    by (intro load_sequence(2) [OF assms(5,12,6) ps])
       (auto simp: snapshot_of_def candidate_ops_def)
  moreover have "st\<lparr>rt_session := Some s', rt_receipts := ws_receipts ?env,
      rt_receiptJournalBytes := journal_size (ws_receipts ?env)\<rparr> = st\<lparr>rt_session := Some s'\<rparr>"
    using journal by (cases st) (simp add: snapshot_of_def)
  ultimately show ?thesis
    using save s' by (intro exI [of _ ?sn] exI [of _ s']) (simp add: snapshot_of_def)
qed

lemma demo_snapshot: "snapshot demo_host (demo_session 0 (js ''West of House'')) = Inr (replicate 16 0)"
  by (simp add: snapshot_def atInputBoundary_def demo_session_def demo_fresh_def demo_host_def demo_envelope_def)

theorem save_and_load_witness:
  "\<exists>sn s'. run_events demo_ops demo_booted [Exchange (snapshot_request (js ''m2'')), Resume, Resume] =
      (demo_booted, [None, None, Some (SnapshotResponse (js ''m2'') sn)]) \<and>
    run_events demo_ops demo_booted [Exchange (restore_request (js ''m3'') sn), Resume, Resume] =
      (demo_booted\<lparr>rt_session := Some s'\<rparr>, [None, None, Some (RestoreResponse (js ''m3'')
         \<lparr>rr_status = Restored, rr_revision = 0, rr_boundary = InputRequested\<rparr>)]) \<and>
    se_machine s' = Some 0"
proof -
  have st: "resumes demo_host (rt_storyBytes demo_booted)" "idle demo_booted"
    "rt_session demo_booted = Some (demo_session 0 (js ''West of House''))"
    using demo_resumes by (simp_all add: demo_booted_def demo_runtime_def idle_def)
  have sha: "\<forall>b. \<exists>d. h_sha256 demo_host b = Some d \<and> hex_digest d" by (simp add: demo_host_def)
  have ps: "inspectPublicState (demo_session 0 (js ''West of House'')) =
      Some \<lparr>ps_revision = 0, ps_lastOutput = js ''West of House'', ps_boundary = InputRequested\<rparr>"
    using demo_inspect by (simp add: candidate_ops_def)
  have len: "DORK_CHECKPOINT_FIXED_HEADER_BYTES \<le> length (replicate 16 (0 :: byte))"
    "length (replicate 16 (0 :: byte)) \<le> DORK_CHECKPOINT_MAX_TOTAL_BYTES"
    by (simp_all add: limit_defs)
  from save_and_load [OF demo_booted_reach demo_prints_text st(1) sha st(2,3) ps demo_snapshot len
      demo_ids(3) demo_ids(4)] show ?thesis
    by (auto simp: demo_session_def)
qed

text \<open>C26. A restore is all or nothing, for every value a request may carry as the snapshot, on every
  reachable idle runtime with a session.  When the value is a restorable snapshot (well-formed
  fields of the runtime's own compatibility, the digest of the bytes, the encoding of a valid snapshot
  of the announced revision, receipts within the limits of the journal, a checkpoint whose session is
  in the recorded state), the session, its receipts and the byte count of these receipts are
  installed, nothing else changes and the answer is \<open>restored\<close> with the snapshot's revision and boundary.
  Otherwise the runtime is as it was, and the one answer is the rejection (incompatible when the value is
  well formed but names another compatibility, else corrupt) with the revision and boundary the
  session has.\<close>
theorem restore_is_all_or_nothing:
  assumes "runtime_reach (candidate_ops h) st" and "prints_text h" and "idle st"
    and "rt_session st = Some s" and "inspectPublicState s = Some ps" and "bounded_id mid"
    and "run_events (candidate_ops h) st [Exchange (restore_js mid v), Resume, Resume] = (st', resps)"
  shows "(\<exists>env s'. restorable (candidate_ops h) st v env s' \<and>
      st' = st\<lparr>rt_session := Some s', rt_receipts := ws_receipts env,
        rt_receiptJournalBytes := journal_size (ws_receipts env)\<rparr> \<and>
      inspectPublicState s' = Some \<lparr>ps_revision = ws_revision env, ps_lastOutput = ws_lastOutput env,
        ps_boundary = ws_boundary env\<rparr> \<and>
      replies resps = [RestoreResponse mid \<lparr>rr_status = Restored, rr_revision = ws_revision env,
        rr_boundary = ws_boundary env\<rparr>]) \<or>
    (\<nexists>env s'. restorable (candidate_ops h) st v env s') \<and> st' = st \<and>
      replies resps = [RestoreResponse mid
        \<lparr>rr_status = (case readSnapshot v of
             Inr sn \<Rightarrow> if rt_compatibility st = Some (sn_compatibility sn) then Corrupt_snapshot else Incompatible_snapshot
           | Inl _ \<Rightarrow> Corrupt_snapshot),
         rr_revision = ps_revision ps, rr_boundary = ps_boundary ps\<rparr>]"
proof -
  have ps: "so_inspect (candidate_ops h) s = Some ps" using assms(5) by (simp add: candidate_ops_def)
  obtain c where c: "rt_compatibility st = Some c"
    using dork.reach_ok [OF assms(1,2)] assms(4) by (auto simp: runtime_ok_def runtime_core_def session_ok_def)
  show ?thesis
  proof (cases "\<exists>env s'. restorable (candidate_ops h) st v env s'")
    case True
    then obtain env s' where r: "restorable (candidate_ops h) st v env s'" by blast
    then have "inspectPublicState s' = Some \<lparr>ps_revision = ws_revision env, ps_lastOutput = ws_lastOutput env,
        ps_boundary = ws_boundary env\<rparr>"
      by (auto simp: restorable_def recovers_def candidate_ops_def)
    moreover have "(st', resps) = (st\<lparr>rt_session := Some s', rt_receipts := ws_receipts env,
          rt_receiptJournalBytes := journal_size (ws_receipts env)\<rparr>,
        [None, None, Some (RestoreResponse mid \<lparr>rr_status = Restored, rr_revision = ws_revision env,
          rr_boundary = ws_boundary env\<rparr>)])"
      using restore_run [OF assms(3,6,4) ps c r] unfolding assms(7) .
    ultimately show ?thesis using r by (intro disjI1 exI [of _ env] exI [of _ s']) simp
  next
    case False
    with refused_run [OF assms(3,6,4) ps c, of v] have "st' = st" "replies resps =
        [reject_restore mid (case readSnapshot v of Inr sn \<Rightarrow> if sn_compatibility sn = c then Corrupt_snapshot
           else Incompatible_snapshot | Inl _ \<Rightarrow> Corrupt_snapshot) ps]"
      unfolding assms(7) by simp_all
    with False c show ?thesis
      by (simp add: reject_restore_def eq_commute [of c] cong: sum.case_cong)
  qed
qed

abbreviation demo_state :: public_state where
  "demo_state \<equiv> \<lparr>ps_revision = 0, ps_lastOutput = js ''West of House'', ps_boundary = InputRequested\<rparr>"

definition demo_saved :: engine_snapshot where
  "demo_saved = \<lparr>sn_bytes = snapshot_wire (snapshot_of demo_ops demo_booted demo_state (replicate 16 0)),
     sn_sha256 = demo_sha, sn_revision = 0, sn_compatibility = demo_compatibility\<rparr>"

lemma demo_idle: "idle demo_booted" "rt_session demo_booted = Some (demo_session 0 (js ''West of House''))"
  "rt_compatibility demo_booted = Some demo_compatibility"
  "so_inspect demo_ops (demo_session 0 (js ''West of House'')) = Some demo_state"
  by (simp_all add: demo_booted_def demo_runtime_def idle_def demo_inspect)

lemma demo_restorable: "\<exists>s'. restorable demo_ops demo_booted (engine_snapshot_js demo_saved)
    (snapshot_of demo_ops demo_booted demo_state (replicate 16 0)) s'"
proof -
  let ?env = "snapshot_of demo_ops demo_booted demo_state (replicate 16 0)"
  have "runtime_core demo_ops (good_session demo_host) demo_booted"
    using dork.reach_ok [OF demo_booted_reach demo_prints_text] by (simp add: runtime_ok_def)
  then have v: "valid_snapshot ?env"
    by (rule valid_snapshot_of [OF _ demo_idle(2,4)]) (simp_all add: limit_defs)
  have c: "valid_compatibility demo_compatibility"
    unfolding demo_compatibility_def by (rule valid_createCompatibility) (simp_all add: demo_runtime_def)
  obtain s' where s': "restoreFromSnapshot demo_host demo_story (replicate 16 0) = Some s'"
    "inspectPublicState s' = Some demo_state"
    using snapshot_restore_session [OF demo_snapshot] demo_resumes demo_idle(4)
    by (auto simp: candidate_ops_def demo_session_def demo_fresh_def)
  have "restorable demo_ops demo_booted (engine_snapshot_js demo_saved) ?env s'"
    by (rule load_sequence(1) [OF demo_idle(1) demo_ids(4) demo_idle(2,4)])
      (use v c s' in \<open>simp_all add: demo_saved_def demo_idle snapshot_of_def candidate_ops_def demo_host_def
        demo_booted_def demo_runtime_def journal_size_def\<close>)
  then show ?thesis by blast
qed

theorem restore_is_all_or_nothing_witness:
  "\<exists>s'. fst (run_events demo_ops demo_booted [Exchange (restore_js (js ''m3'') (engine_snapshot_js demo_saved)), Resume, Resume]) =
       demo_booted\<lparr>rt_session := Some s'\<rparr> \<and> inspectPublicState s' = Some demo_state \<and>
     replies (snd (run_events demo_ops demo_booted
       [Exchange (restore_js (js ''m3'') (engine_snapshot_js demo_saved)), Resume, Resume])) =
     [RestoreResponse (js ''m3'') \<lparr>rr_status = Restored, rr_revision = 0, rr_boundary = InputRequested\<rparr>]"
proof -
  let ?run = "run_events demo_ops demo_booted [Exchange (restore_js (js ''m3'') (engine_snapshot_js demo_saved)), Resume, Resume]"
  let ?env = "snapshot_of demo_ops demo_booted demo_state (replicate 16 0)"
  have ps: "inspectPublicState (demo_session 0 (js ''West of House'')) = Some demo_state"
    using demo_idle(4) by (simp add: candidate_ops_def)
  obtain s0 where r0: "restorable demo_ops demo_booted (engine_snapshot_js demo_saved) ?env s0"
    using demo_restorable by blast
  then obtain env s' where r: "restorable demo_ops demo_booted (engine_snapshot_js demo_saved) env s'"
    and st: "fst ?run = demo_booted\<lparr>rt_session := Some s', rt_receipts := ws_receipts env,
        rt_receiptJournalBytes := journal_size (ws_receipts env)\<rparr>"
    and s': "inspectPublicState s' = Some \<lparr>ps_revision = ws_revision env, ps_lastOutput = ws_lastOutput env,
        ps_boundary = ws_boundary env\<rparr>"
    and rep: "replies (snd ?run) = [RestoreResponse (js ''m3'') \<lparr>rr_status = Restored,
        rr_revision = ws_revision env, rr_boundary = ws_boundary env\<rparr>]"
    using restore_is_all_or_nothing [OF demo_booted_reach demo_prints_text demo_idle(1,2) ps demo_ids(4)
        prod.collapse [symmetric], of "engine_snapshot_js demo_saved"] by blast
  have "env = ?env" using restorable_unique [OF r r0] by simp
  moreover have "demo_booted\<lparr>rt_session := Some s', rt_receipts := [], rt_receiptJournalBytes := journal_size []\<rparr> =
      demo_booted\<lparr>rt_session := Some s'\<rparr>"
    by (simp add: demo_booted_def demo_runtime_def journal_size_def)
  ultimately show ?thesis
    using st s' rep by (intro exI [of _ s']) (simp add: snapshot_of_def demo_booted_def demo_runtime_def)
qed

text \<open>C27. One operation at a time, and none after disposal: in a reachable state a request that
  arrives while an operation is suspended is refused and changes nothing, and once the runtime is
  disposed no later event gives it a session again.\<close>
theorem single_flight_and_disposal:
  assumes "runtime_reach (candidate_ops h) st" and "prints_text h"
  shows "(rt_pending st \<noteq> None \<longrightarrow> exchange (candidate_ops h) st req =
      (st, Some (ErrorResponse (message_id req) Invalid_request))) \<and>
    (rt_disposed st \<longrightarrow> rt_session st = None \<and>
      rt_disposed (fst (runtime_step (candidate_ops h) st ev)) \<and>
      rt_session (fst (runtime_step (candidate_ops h) st ev)) = None)"
proof -
  note ok = dork.reach_ok [OF assms]
  then have "rt_disposed st \<longrightarrow> rt_session st = None"
    by (cases "rt_session st") (auto simp: runtime_ok_def runtime_core_def session_ok_def)
  with ok disposed_stays [of st "candidate_ops h" ev] show ?thesis
    by (auto simp: exchange_def runtime_ok_def)
qed

theorem single_flight_and_disposal_witness:
  "exchange demo_ops demo_turn demo_boot = (demo_turn, Some (ErrorResponse (js ''m1'') Invalid_request))"
  using single_flight_and_disposal [OF demo_turn_reach demo_prints_text, of demo_boot Resume]
  by (simp add: demo_turn_def demo_boot_def)

end
