(* ===== verification/Worker_Adapter.thy ===== *)
theory Worker_Adapter
  imports Worker_Protocol
begin

text \<open>
  \<open>packages/game-engine/src/worker-engine-adapter.ts\<close>: the host-side engine port over a worker.
  Responses, and the arguments of the public methods, are untyped values that the adapter checks
  field by field.  Every \<open>await\<close> suspends the one operation in flight with an \<open>adapter_pending\<close>
  continuation; \<open>nextMessageId\<close>, the transport and the digest are outside the adapter, so the
  ids are a stream held in the state and the other two answer through \<open>Settle\<close> events.
\<close>

section \<open>Types\<close>

record binding = \<comment> \<open>\<open>EngineWorkerBinding\<close>\<close>
  bd_runtime_id :: js
  bd_runtime_version :: js
  bd_runtime_sha256 :: js
  bd_adapter_id :: js
  bd_adapter_version :: js
  bd_snapshotSchemaVersion :: nat

datatype adapter_error =
    StateError \<comment> \<open>\<open>EngineAdapterStateError\<close>\<close>
  | ProtocolError \<comment> \<open>\<open>EngineWorkerProtocolError\<close>\<close>
  | TypeErr
  | RangeErr
  | CommandError CanonicalCommandError
  | Cancelled js
  | ExecuteUncertain js nat adapter_error
  | RestoreUncertain nat adapter_error
  | BootUncertain js adapter_error
  | ExternalError \<comment> \<open>thrown by the transport, the digest or the id source\<close>

datatype operation = OpBoot | OpExecute | OpSnapshot | OpRestore | OpInspect

datatype recovery =
    Ready
  | BootQuarantined js
  | UncertainExecute js nat js
  | RestoreQuarantined nat

datatype adapter_pending =
    AwaitBoot js js js
  | AwaitExecute js js nat js nat boundary
  | AwaitSnapshot js nat compatibility
  | AwaitSnapshotDigest jsval engine_snapshot nat compatibility
  | AwaitRestoreDigest jsval engine_snapshot nat boundary
  | AwaitRestore js engine_snapshot nat boundary
  | AwaitInspect js nat boundary recovery

record adapter =
  ad_binding :: binding
  ad_messageIds :: "nat \<Rightarrow> jsval option" \<comment> \<open>what the n-th call of \<open>nextMessageId\<close> returns or throws\<close>
  ad_allocated :: nat
  ad_compatibility :: "compatibility option"
  ad_revision :: "nat option"
  ad_boundary :: "boundary option"
  ad_operation :: "operation option"
  ad_recovery :: recovery
  ad_pending :: "adapter_pending option"

datatype adapter_output =
    Quiet
  | Submit jsval \<comment> \<open>a request handed to the transport\<close>
  | Digest "byte list" \<comment> \<open>bytes handed to the digest\<close>
  | Returned jsval
  | Threw adapter_error

section \<open>Checks\<close>

definition requireNonemptyString :: "jsval \<Rightarrow> adapter_error + js" where
  "requireNonemptyString v = (case v of JStr s \<Rightarrow> if s = [] then Inl TypeErr else Inr s | _ \<Rightarrow> Inl TypeErr)"

definition sha256_pattern :: "js \<Rightarrow> bool" where
  "sha256_pattern s \<longleftrightarrow>
     length s = 64 \<and> list_all (\<lambda>u. (0x61 \<le> u \<and> u \<le> 0x66) \<or> (0x30 \<le> u \<and> u \<le> 0x39)) s"

definition requireSha256 :: "jsval \<Rightarrow> adapter_error + js" where
  "requireSha256 v = (case v of JStr s \<Rightarrow> if sha256_pattern s then Inr s else Inl TypeErr | _ \<Rightarrow> Inl TypeErr)"

definition requireRevision :: "jsval \<Rightarrow> adapter_error + nat" where
  "requireRevision v = (case safe_nat v of Some n \<Rightarrow> Inr n | None \<Rightarrow> Inl RangeErr)"

definition requireTurnBoundary :: "jsval \<Rightarrow> adapter_error + boundary" where
  "requireTurnBoundary v = (case read_boundary v of Some b \<Rightarrow> Inr b | None \<Rightarrow> Inl ProtocolError)"

definition requireTurnComplete :: "jsval \<Rightarrow> adapter_error + boundary \<times> js" where
  "requireTurnComplete result =
     bindE (readProp TypeErr result ''turnComplete'') (\<lambda>turnComplete.
     bindE (ensure (turnComplete = JBool True) ProtocolError) (\<lambda>_.
     bindE (requireTurnBoundary (getProp result ''boundary'')) (\<lambda>b.
     (case getProp result ''output'' of JStr s \<Rightarrow> Inr (b, s) | _ \<Rightarrow> Inl ProtocolError))))"

definition validateCompatibility :: "jsval \<Rightarrow> adapter_error + compatibility" where
  "validateCompatibility v =
     bindE (readProp TypeErr v ''story'') (\<lambda>story.
     bindE (bindE (readProp TypeErr story ''id'') requireNonemptyString) (\<lambda>sid.
     bindE (requireSha256 (getProp story ''artifactSha256'')) (\<lambda>ssha.
     let runtime = getProp v ''runtime'' in
     bindE (bindE (readProp TypeErr runtime ''id'') requireNonemptyString) (\<lambda>rid.
     bindE (requireNonemptyString (getProp runtime ''version'')) (\<lambda>rver.
     bindE (requireSha256 (getProp runtime ''artifactSha256'')) (\<lambda>rsha.
     let adapter = getProp v ''adapter'' in
     bindE (bindE (readProp TypeErr adapter ''id'') requireNonemptyString) (\<lambda>aid.
     bindE (requireNonemptyString (getProp adapter ''version'')) (\<lambda>aver.
     bindE (requireRevision (getProp v ''snapshotSchemaVersion'')) (\<lambda>schema.
     if schema < 1 then Inl RangeErr
     else Inr \<lparr>story_id = sid, story_sha256 = ssha, runtime_id = rid, runtime_version = rver,
            runtime_sha256 = rsha, adapter_id = aid, adapter_version = aver,
            snapshotSchemaVersion = schema\<rparr>)))))))))"

definition sameCompatibility :: "compatibility \<Rightarrow> compatibility \<Rightarrow> bool" where
  "sameCompatibility left right \<longleftrightarrow>
     story_id left = story_id right \<and> story_sha256 left = story_sha256 right \<and>
     runtime_id left = runtime_id right \<and> runtime_version left = runtime_version right \<and>
     runtime_sha256 left = runtime_sha256 right \<and> adapter_id left = adapter_id right \<and>
     adapter_version left = adapter_version right \<and>
     snapshotSchemaVersion left = snapshotSchemaVersion right"

definition cloneCompatibility :: "jsval \<Rightarrow> jsval" where
  "cloneCompatibility v = JObj
     [(js ''story'', getProp v ''story''), (js ''runtime'', getProp v ''runtime''),
      (js ''adapter'', getProp v ''adapter''), (js ''snapshotSchemaVersion'', getProp v ''snapshotSchemaVersion'')]"

definition validateSnapshot :: "jsval \<Rightarrow> adapter_error + engine_snapshot" where
  "validateSnapshot v =
     bindE (readProp TypeErr v ''bytes'') (\<lambda>raw.
     case raw of
       JBytes bytes \<Rightarrow>
         if bytes = [] then Inl TypeErr
         else if MAX_ENGINE_SNAPSHOT_BYTES < length bytes then Inl RangeErr
         else
           bindE (requireSha256 (getProp v ''sha256'')) (\<lambda>sha.
           bindE (requireRevision (getProp v ''revision'')) (\<lambda>revision.
           bindE (validateCompatibility (getProp v ''compatibility'')) (\<lambda>compatib.
           Inr \<lparr>sn_bytes = bytes, sn_sha256 = sha, sn_revision = revision, sn_compatibility = compatib\<rparr>)))
     | _ \<Rightarrow> Inl TypeErr)"

fun override :: "(js \<times> jsval) list \<Rightarrow> jsval \<Rightarrow> jsval" where \<comment> \<open>\<open>{ ...v, k: x }\<close>\<close>
  "override kvs (JObj ps) = JObj (kvs @ ps)"
| "override kvs _ = JObj kvs"

definition copySnapshot :: "jsval \<Rightarrow> engine_snapshot \<Rightarrow> jsval" where
  "copySnapshot v sn = override [(js ''bytes'', JBytes (sn_bytes sn)),
     (js ''compatibility'', cloneCompatibility (getProp v ''compatibility''))] v"

definition validateExecuteResult ::
  "js \<Rightarrow> nat \<Rightarrow> js \<Rightarrow> jsval \<Rightarrow> nat \<Rightarrow> boundary \<Rightarrow> adapter_error + bool \<times> nat \<times> boundary" where
  \<comment> \<open>returns whether the status is \<open>committed\<close>, with the result's revision and boundary\<close>
  "validateExecuteResult rid expected command result currentRevision currentBoundary =
     bindE (bindE (readProp TypeErr result ''requestId'') requireNonemptyString) (\<lambda>requestId.
     bindE (requireRevision (getProp result ''previousRevision'')) (\<lambda>previousRevision.
     bindE (requireRevision (getProp result ''revision'')) (\<lambda>revision.
     bindE (requireTurnComplete result) (\<lambda>(b, _).
     if requestId \<noteq> rid \<or> getProp result ''command'' \<noteq> JStr command then Inl ProtocolError
     else if getProp result ''status'' = JStr (js ''committed'') then
       if previousRevision \<noteq> expected \<or> revision \<noteq> previousRevision + 1 \<or>
          (currentRevision \<noteq> previousRevision \<and> currentRevision < revision) \<or>
          (revision = currentRevision \<and> b \<noteq> currentBoundary)
       then Inl ProtocolError else Inr (True, revision, b)
     else if read_rejection (getProp result ''rejection'') = None \<or> previousRevision \<noteq> revision \<or>
          currentRevision < revision \<or> (revision = currentRevision \<and> b \<noteq> currentBoundary)
     then Inl ProtocolError else Inr (False, revision, b)))))"

section \<open>Single flight\<close>

definition beginOperation :: "adapter \<Rightarrow> operation \<Rightarrow> adapter_error + adapter" where
  "beginOperation ad op =
     (if ad_operation ad \<noteq> None then Inl StateError else Inr (ad\<lparr>ad_operation := Some op\<rparr>))"

definition endOperation :: "adapter \<Rightarrow> operation \<Rightarrow> adapter_error + adapter" where
  "endOperation ad op =
     (if ad_operation ad \<noteq> Some op then Inl StateError
      else Inr (ad\<lparr>ad_operation := None, ad_pending := None\<rparr>))"

definition allocateMessageId :: "adapter \<Rightarrow> adapter \<times> (adapter_error + js)" where
  "allocateMessageId ad =
     (ad\<lparr>ad_allocated := ad_allocated ad + 1\<rparr>,
      case ad_messageIds ad (ad_allocated ad) of None \<Rightarrow> Inl ExternalError | Some v \<Rightarrow> requireNonemptyString v)"

definition conclude :: "adapter \<Rightarrow> operation \<Rightarrow> adapter_output \<Rightarrow> adapter \<times> adapter_output" where
  \<comment> \<open>the \<open>finally\<close> of each operation\<close>
  "conclude ad op out = (case endOperation ad op of Inl e \<Rightarrow> (ad, Threw e) | Inr ad' \<Rightarrow> (ad', out))"

definition submit :: "adapter \<Rightarrow> operation \<Rightarrow> (js \<Rightarrow> adapter_pending) \<Rightarrow> (js \<Rightarrow> jsval) \<Rightarrow> adapter \<times> adapter_output" where
  \<comment> \<open>allocate an id, enter flight, hand the request to the transport\<close>
  "submit ad op continue request =
     (case allocateMessageId ad of
        (ad1, Inl e) \<Rightarrow> (ad1, Threw e)
      | (ad1, Inr mid) \<Rightarrow>
          (case beginOperation ad1 op of
             Inl e \<Rightarrow> (ad1, Threw e)
           | Inr ad2 \<Rightarrow> (ad2\<lparr>ad_pending := Some (continue mid)\<rparr>, Submit (request mid))))"

definition receive :: "js \<Rightarrow> string \<Rightarrow> unit + jsval \<Rightarrow> adapter_error + jsval" where
  \<comment> \<open>\<open>#exchange\<close> after the transport has settled\<close>
  "receive messageId expectedKind outcome =
     (case outcome of
        Inl _ \<Rightarrow> Inl ExternalError
      | Inr response \<Rightarrow>
          bindE (readProp TypeErr response ''protocolVersion'') (\<lambda>version.
          bindE (ensure (version = jnat ENGINE_WORKER_PROTOCOL_VERSION) ProtocolError) (\<lambda>_.
          bindE (ensure (getProp response ''messageId'' = JStr messageId) ProtocolError) (\<lambda>_.
          if getProp response ''kind'' = JStr (js ''error'') then
            bindE (readProp TypeErr (getProp response ''error'') ''code'') (\<lambda>_. Inl ProtocolError)
          else
            bindE (ensure (getProp response ''kind'' = JStr (js expectedKind)) ProtocolError) (\<lambda>_.
            Inr response)))))"

section \<open>Calls up to their first await\<close>

definition refuse :: "adapter \<Rightarrow> adapter_error \<Rightarrow> adapter \<times> adapter_output" where
  "refuse ad e = (ad, Threw e)"

definition adapter_boot :: "adapter \<Rightarrow> jsval \<Rightarrow> adapter \<times> adapter_output" where
  "adapter_boot ad input =
     (if (case ad_recovery ad of BootQuarantined _ \<Rightarrow> True | _ \<Rightarrow> False) then refuse ad StateError
      else if ad_compatibility ad \<noteq> None then refuse ad StateError
      else
        (case bindE (bindE (readProp TypeErr input ''storyId'') requireNonemptyString) (\<lambda>sid.
              bindE (requireSha256 (getProp input ''artifactSha256'')) (\<lambda>sha. Inr (sid, sha))) of
           Inl e \<Rightarrow> refuse ad e
         | Inr (sid, sha) \<Rightarrow>
             submit ad OpBoot (\<lambda>mid. AwaitBoot mid sid sha)
               (\<lambda>mid. message_js mid ''boot'' [(js ''input'', input)])))"

definition assertExecuteAllowed :: "recovery \<Rightarrow> js \<Rightarrow> nat \<Rightarrow> js \<Rightarrow> adapter_error + bool" where
  "assertExecuteAllowed rec requestId expectedRevision command =
     (case rec of
        RestoreQuarantined _ \<Rightarrow> Inl StateError
      | UncertainExecute rid expected cmd \<Rightarrow>
          if rid \<noteq> requestId \<or> expected \<noteq> expectedRevision \<or> cmd \<noteq> command then Inl StateError else Inr True
      | _ \<Rightarrow> Inr False)"

definition assertReadyOperation :: "recovery \<Rightarrow> adapter_error + unit" where
  "assertReadyOperation rec =
     (case rec of
        UncertainExecute _ _ _ \<Rightarrow> Inl StateError
      | RestoreQuarantined _ \<Rightarrow> Inl StateError
      | _ \<Rightarrow> Inr ())"

definition required :: "'a option \<Rightarrow> adapter_error + 'a" where \<comment> \<open>\<open>#requireRevision\<close> and its like\<close>
  "required x = (case x of None \<Rightarrow> Inl StateError | Some y \<Rightarrow> Inr y)"

definition execute_guards ::
  "adapter \<Rightarrow> jsval \<Rightarrow> bool \<Rightarrow> adapter_error + js \<times> nat \<times> js \<times> nat \<times> boundary" where
  "execute_guards ad input aborted =
     bindE (required (ad_revision ad)) (\<lambda>revision.
     bindE (required (ad_boundary ad)) (\<lambda>b.
     bindE (bindE (readProp TypeErr input ''requestId'') requireNonemptyString) (\<lambda>rid.
     bindE (requireRevision (getProp input ''expectedRevision'')) (\<lambda>expected.
     case canonicalizeCommand (getProp input ''command'') of
       Inl e \<Rightarrow> Inl (CommandError e)
     | Inr command \<Rightarrow>
         if JStr command \<noteq> getProp input ''command'' then Inl TypeErr
         else if aborted then Inl (Cancelled rid)
         else
           bindE (assertExecuteAllowed (ad_recovery ad) rid expected command) (\<lambda>resolves.
           if b = Terminated \<and> \<not> resolves then Inl StateError
           else Inr (rid, expected, command, revision, b))))))"

definition adapter_execute :: "adapter \<Rightarrow> jsval \<Rightarrow> bool \<Rightarrow> adapter \<times> adapter_output" where
  "adapter_execute ad input aborted =
     (case execute_guards ad input aborted of
        Inl e \<Rightarrow> refuse ad e
      | Inr (rid, expected, command, revision, b) \<Rightarrow>
          submit ad OpExecute (\<lambda>mid. AwaitExecute mid rid expected command revision b)
            (\<lambda>mid. execute_js mid rid expected command))"

definition adapter_snapshot :: "adapter \<Rightarrow> adapter \<times> adapter_output" where
  "adapter_snapshot ad =
     (case bindE (required (ad_revision ad)) (\<lambda>revision.
           bindE (required (ad_compatibility ad)) (\<lambda>compatib.
           bindE (assertReadyOperation (ad_recovery ad)) (\<lambda>_. Inr (revision, compatib)))) of
        Inl e \<Rightarrow> refuse ad e
      | Inr (revision, compatib) \<Rightarrow>
          submit ad OpSnapshot (\<lambda>mid. AwaitSnapshot mid revision compatib) (\<lambda>mid. message_js mid ''snapshot'' []))"

definition rejected_restore_js :: "string \<Rightarrow> nat \<Rightarrow> boundary \<Rightarrow> jsval" where
  "rejected_restore_js rejection revision b = JObj
     [(js ''status'', JStr (js ''rejected'')), (js ''rejection'', JStr (js rejection)),
      (js ''revision'', jnat revision), (js ''output'', JStr []), (js ''turnComplete'', JBool True),
      (js ''boundary'', JStr (js (boundary_name b)))]"

definition adapter_restore :: "adapter \<Rightarrow> jsval \<Rightarrow> adapter \<times> adapter_output" where
  "adapter_restore ad snapshot =
     (case bindE (required (ad_revision ad)) (\<lambda>revision.
           bindE (required (ad_boundary ad)) (\<lambda>b.
           bindE (required (ad_compatibility ad)) (\<lambda>compatib.
           bindE (assertReadyOperation (ad_recovery ad)) (\<lambda>_.
           bindE (beginOperation ad OpRestore) (\<lambda>ad1. Inr (revision, b, compatib, ad1)))))) of
        Inl e \<Rightarrow> refuse ad e
      | Inr (revision, b, compatib, ad1) \<Rightarrow>
          (case validateSnapshot snapshot of
             Inl e \<Rightarrow> conclude ad1 OpRestore (Threw e)
           | Inr candidate \<Rightarrow>
               if \<not> sameCompatibility (sn_compatibility candidate) compatib
               then conclude ad1 OpRestore (Returned (rejected_restore_js ''incompatible_snapshot'' revision b))
               else (ad1\<lparr>ad_pending := Some (AwaitRestoreDigest (copySnapshot snapshot candidate) candidate revision b)\<rparr>,
                     Digest (sn_bytes candidate))))"

definition adapter_inspect :: "adapter \<Rightarrow> adapter \<times> adapter_output" where
  "adapter_inspect ad =
     (case bindE (required (ad_revision ad)) (\<lambda>revision.
           bindE (required (ad_boundary ad)) (\<lambda>b. Inr (revision, b))) of
        Inl e \<Rightarrow> refuse ad e
      | Inr (revision, b) \<Rightarrow>
          submit ad OpInspect (\<lambda>mid. AwaitInspect mid revision b (ad_recovery ad))
            (\<lambda>mid. message_js mid ''inspect-public-state'' []))"

section \<open>Continuations\<close>

definition bind_compatibility :: "binding \<Rightarrow> js \<Rightarrow> js \<Rightarrow> compatibility" where
  "bind_compatibility bd sid sha =
     \<lparr>story_id = sid, story_sha256 = sha, runtime_id = bd_runtime_id bd,
      runtime_version = bd_runtime_version bd, runtime_sha256 = bd_runtime_sha256 bd,
      adapter_id = bd_adapter_id bd, adapter_version = bd_adapter_version bd,
      snapshotSchemaVersion = bd_snapshotSchemaVersion bd\<rparr>"

definition check_boot ::
  "binding \<Rightarrow> js \<Rightarrow> js \<Rightarrow> js \<Rightarrow> unit + jsval \<Rightarrow> adapter_error + jsval \<times> compatibility \<times> boundary \<times> js" where
  "check_boot bd mid sid sha outcome =
     bindE (receive mid ''boot.result'' outcome) (\<lambda>response.
     let result = getProp response ''result'' in
     bindE (requireTurnComplete result) (\<lambda>(b, output).
     bindE (ensure (getProp result ''revision'' = jnat 0) ProtocolError) (\<lambda>_.
     bindE (validateCompatibility (getProp result ''compatibility'')) (\<lambda>compatib.
     bindE (ensure (sameCompatibility compatib (bind_compatibility bd sid sha)) ProtocolError) (\<lambda>_.
     Inr (getProp result ''compatibility'', compatib, b, output))))))"

definition settle_boot :: "adapter \<Rightarrow> js \<Rightarrow> js \<Rightarrow> js \<Rightarrow> unit + jsval \<Rightarrow> adapter \<times> adapter_output" where
  "settle_boot ad mid sid sha outcome =
     (case check_boot (ad_binding ad) mid sid sha outcome of
        Inl e \<Rightarrow> conclude (ad\<lparr>ad_recovery := BootQuarantined sid\<rparr>) OpBoot (Threw (BootUncertain sid e))
      | Inr (raw, compatib, b, output) \<Rightarrow>
          conclude (ad\<lparr>ad_compatibility := Some compatib, ad_revision := Some 0, ad_boundary := Some b,
                       ad_recovery := Ready\<rparr>) OpBoot
            (Returned (JObj [(js ''revision'', jnat 0), (js ''output'', JStr output),
               (js ''turnComplete'', JBool True), (js ''boundary'', JStr (js (boundary_name b))),
               (js ''compatibility'', cloneCompatibility raw)])))"

definition check_execute ::
  "js \<Rightarrow> js \<Rightarrow> nat \<Rightarrow> js \<Rightarrow> nat \<Rightarrow> boundary \<Rightarrow> unit + jsval \<Rightarrow> adapter_error + jsval \<times> bool \<times> nat \<times> boundary" where
  "check_execute mid rid expected command revision b outcome =
     bindE (receive mid ''execute.result'' outcome) (\<lambda>response.
     bindE (validateExecuteResult rid expected command (getProp response ''result'') revision b)
       (\<lambda>r. Inr (getProp response ''result'', r)))"

definition settle_execute ::
  "adapter \<Rightarrow> js \<Rightarrow> js \<Rightarrow> nat \<Rightarrow> js \<Rightarrow> nat \<Rightarrow> boundary \<Rightarrow> unit + jsval \<Rightarrow> adapter \<times> adapter_output" where
  "settle_execute ad mid rid expected command revision b outcome =
     (case check_execute mid rid expected command revision b outcome of
        Inl e \<Rightarrow>
          conclude (ad\<lparr>ad_recovery := UncertainExecute rid expected command\<rparr>) OpExecute
            (Threw (ExecuteUncertain rid expected e))
      | Inr (result, committed, revision', b') \<Rightarrow>
          conclude
            (if committed \<and> revision \<le> revision'
             then ad\<lparr>ad_revision := Some revision', ad_boundary := Some b', ad_recovery := Ready\<rparr>
             else ad\<lparr>ad_revision := Some revision, ad_recovery := Ready\<rparr>)
            OpExecute (Returned result))"

definition settle_snapshot ::
  "adapter \<Rightarrow> js \<Rightarrow> nat \<Rightarrow> compatibility \<Rightarrow> unit + jsval \<Rightarrow> adapter \<times> adapter_output" where
  "settle_snapshot ad mid revision compatib outcome =
     (case bindE (receive mid ''snapshot.result'' outcome) (\<lambda>response.
           bindE (validateSnapshot (getProp response ''snapshot''))
             (\<lambda>sn. Inr (copySnapshot (getProp response ''snapshot'') sn, sn))) of
        Inl e \<Rightarrow> conclude ad OpSnapshot (Threw e)
      | Inr (raw, sn) \<Rightarrow>
          (ad\<lparr>ad_pending := Some (AwaitSnapshotDigest raw sn revision compatib)\<rparr>, Digest (sn_bytes sn)))"

definition snapshotDigestMatches :: "unit + jsval \<Rightarrow> js \<Rightarrow> adapter_error + bool" where
  "snapshotDigestMatches outcome expected =
     (case outcome of
        Inl _ \<Rightarrow> Inl ExternalError
      | Inr actual \<Rightarrow> bindE (requireSha256 actual) (\<lambda>s. Inr (s = expected)))"

definition settle_snapshot_digest ::
  "adapter \<Rightarrow> jsval \<Rightarrow> engine_snapshot \<Rightarrow> nat \<Rightarrow> compatibility \<Rightarrow> unit + jsval \<Rightarrow> adapter \<times> adapter_output" where
  "settle_snapshot_digest ad raw sn revision compatib outcome =
     conclude ad OpSnapshot
       (case snapshotDigestMatches outcome (sn_sha256 sn) of
          Inl e \<Rightarrow> Threw e
        | Inr matches \<Rightarrow>
            if \<not> matches then Threw ProtocolError
            else if sn_revision sn \<noteq> revision then Threw ProtocolError
            else if \<not> sameCompatibility (sn_compatibility sn) compatib then Threw ProtocolError
            else Returned raw)"

definition settle_restore_digest ::
  "adapter \<Rightarrow> jsval \<Rightarrow> engine_snapshot \<Rightarrow> nat \<Rightarrow> boundary \<Rightarrow> unit + jsval \<Rightarrow> adapter \<times> adapter_output" where
  "settle_restore_digest ad raw sn revision b outcome =
     (case snapshotDigestMatches outcome (sn_sha256 sn) of
        Inl e \<Rightarrow> conclude ad OpRestore (Threw e)
      | Inr matches \<Rightarrow>
          if \<not> matches then conclude ad OpRestore (Returned (rejected_restore_js ''corrupt_snapshot'' revision b))
          else
            (case allocateMessageId ad of
               (ad1, Inl e) \<Rightarrow> conclude ad1 OpRestore (Threw e)
             | (ad1, Inr mid) \<Rightarrow>
                 (ad1\<lparr>ad_pending := Some (AwaitRestore mid sn revision b)\<rparr>,
                  Submit (message_js mid ''restore'' [(js ''snapshot'', raw)]))))"

definition check_restore ::
  "js \<Rightarrow> engine_snapshot \<Rightarrow> nat \<Rightarrow> boundary \<Rightarrow> unit + jsval \<Rightarrow>
     adapter_error + jsval \<times> bool \<times> nat \<times> boundary" where
  "check_restore mid candidate revision b outcome =
     bindE (receive mid ''restore.result'' outcome) (\<lambda>response.
     let result = getProp response ''result'' in
     bindE (requireTurnComplete result) (\<lambda>(b', output).
     bindE (requireRevision (getProp result ''revision'')) (\<lambda>revision'.
     if getProp result ''status'' = JStr (js ''restored'') then
       bindE (ensure (output = []) ProtocolError) (\<lambda>_.
       bindE (ensure (revision' = sn_revision candidate) ProtocolError) (\<lambda>_.
       Inr (result, True, revision', b')))
     else
       bindE (ensure (getProp result ''rejection'' = JStr (js ''incompatible_snapshot'') \<or>
                      getProp result ''rejection'' = JStr (js ''corrupt_snapshot'')) ProtocolError) (\<lambda>_.
       bindE (ensure (revision' = revision \<and> output = [] \<and> b' = b) ProtocolError) (\<lambda>_.
       Inr (result, False, revision', b'))))))"

definition settle_restore ::
  "adapter \<Rightarrow> js \<Rightarrow> engine_snapshot \<Rightarrow> nat \<Rightarrow> boundary \<Rightarrow> unit + jsval \<Rightarrow> adapter \<times> adapter_output" where
  "settle_restore ad mid candidate revision b outcome =
     (case check_restore mid candidate revision b outcome of
        Inl e \<Rightarrow>
          conclude (ad\<lparr>ad_recovery := RestoreQuarantined (sn_revision candidate)\<rparr>) OpRestore
            (Threw (RestoreUncertain (sn_revision candidate) e))
      | Inr (result, restored, revision', b') \<Rightarrow>
          conclude
            (if restored then ad\<lparr>ad_revision := Some revision', ad_boundary := Some b', ad_recovery := Ready\<rparr>
             else ad)
            OpRestore (Returned result))"

definition check_inspect ::
  "js \<Rightarrow> nat \<Rightarrow> boundary \<Rightarrow> recovery \<Rightarrow> unit + jsval \<Rightarrow> adapter_error + jsval \<times> (nat \<times> boundary) option" where
  \<comment> \<open>the second component is what an uncertain execute learns from the inspection\<close>
  "check_inspect mid revision b rec outcome =
     bindE (receive mid ''inspect-public-state.result'' outcome) (\<lambda>response.
     let state = getProp response ''state'' in
     bindE (bindE (readProp TypeErr state ''revision'') requireRevision) (\<lambda>revision'.
     bindE (case getProp state ''lastOutput'' of JStr s \<Rightarrow> Inr s | _ \<Rightarrow> Inl ProtocolError) (\<lambda>_.
     bindE (requireTurnBoundary (getProp state ''boundary'')) (\<lambda>b'.
     case rec of
       Ready \<Rightarrow>
         if revision' \<noteq> revision \<or> b' \<noteq> b then Inl ProtocolError else Inr (state, None)
     | UncertainExecute _ _ _ \<Rightarrow>
         (let maximumRevision = (if revision = MAX_SAFE_INTEGER then revision else revision + 1) in
          if revision' < revision \<or> maximumRevision < revision' \<or> (revision' = revision \<and> b' \<noteq> b)
          then Inl ProtocolError else Inr (state, Some (revision', b')))
     | _ \<Rightarrow> Inr (state, None)))))"

definition settle_inspect ::
  "adapter \<Rightarrow> js \<Rightarrow> nat \<Rightarrow> boundary \<Rightarrow> recovery \<Rightarrow> unit + jsval \<Rightarrow> adapter \<times> adapter_output" where
  "settle_inspect ad mid revision b rec outcome =
     (case check_inspect mid revision b rec outcome of
        Inl e \<Rightarrow> conclude ad OpInspect (Threw e)
      | Inr (state, None) \<Rightarrow> conclude ad OpInspect (Returned state)
      | Inr (state, Some (revision', b')) \<Rightarrow>
          conclude (ad\<lparr>ad_revision := Some revision', ad_boundary := Some b'\<rparr>) OpInspect (Returned state))"

section \<open>The adapter as a machine\<close>

datatype adapter_event =
    CallBoot jsval
  | CallExecute jsval bool \<comment> \<open>the flag: the caller's signal is already aborted\<close>
  | CallSnapshot
  | CallRestore jsval
  | CallInspect
  | Settle "unit + jsval" \<comment> \<open>the pending transport or digest promise rejects or resolves\<close>

fun settle :: "adapter \<Rightarrow> adapter_pending \<Rightarrow> unit + jsval \<Rightarrow> adapter \<times> adapter_output" where
  "settle ad (AwaitBoot mid sid sha) out = settle_boot ad mid sid sha out"
| "settle ad (AwaitExecute mid rid expected command revision b) out =
     settle_execute ad mid rid expected command revision b out"
| "settle ad (AwaitSnapshot mid revision compatib) out = settle_snapshot ad mid revision compatib out"
| "settle ad (AwaitSnapshotDigest raw sn revision compatib) out =
     settle_snapshot_digest ad raw sn revision compatib out"
| "settle ad (AwaitRestoreDigest raw sn revision b) out = settle_restore_digest ad raw sn revision b out"
| "settle ad (AwaitRestore mid sn revision b) out = settle_restore ad mid sn revision b out"
| "settle ad (AwaitInspect mid revision b rec) out = settle_inspect ad mid revision b rec out"

fun adapter_step :: "adapter \<Rightarrow> adapter_event \<Rightarrow> adapter \<times> adapter_output" where
  "adapter_step ad (CallBoot input) = adapter_boot ad input"
| "adapter_step ad (CallExecute input aborted) = adapter_execute ad input aborted"
| "adapter_step ad CallSnapshot = adapter_snapshot ad"
| "adapter_step ad (CallRestore snapshot) = adapter_restore ad snapshot"
| "adapter_step ad CallInspect = adapter_inspect ad"
| "adapter_step ad (Settle outcome) =
     (case ad_pending ad of None \<Rightarrow> (ad, Quiet) | Some p \<Rightarrow> settle ad p outcome)"

definition newWorkerEngineAdapter :: "jsval \<Rightarrow> (nat \<Rightarrow> jsval option) \<Rightarrow> adapter_error + adapter" where
  \<comment> \<open>the placeholder story of the constructor's check is valid by construction\<close>
  "newWorkerEngineAdapter bd ids =
     bindE (readProp TypeErr bd ''runtime'') (\<lambda>runtime.
     bindE (validateCompatibility (JObj
        [(js ''story'', JObj [(js ''id'', JStr (js ''binding-validation-placeholder'')),
           (js ''artifactSha256'', JStr (replicate 64 0x30))]),
         (js ''runtime'', runtime), (js ''adapter'', getProp bd ''adapter''),
         (js ''snapshotSchemaVersion'', getProp bd ''snapshotSchemaVersion'')])) (\<lambda>c.
     Inr \<lparr>ad_binding = \<lparr>bd_runtime_id = runtime_id c, bd_runtime_version = runtime_version c,
            bd_runtime_sha256 = runtime_sha256 c, bd_adapter_id = adapter_id c,
            bd_adapter_version = adapter_version c, bd_snapshotSchemaVersion = snapshotSchemaVersion c\<rparr>,
          ad_messageIds = ids, ad_allocated = 0, ad_compatibility = None, ad_revision = None,
          ad_boundary = None, ad_operation = None, ad_recovery = Ready, ad_pending = None\<rparr>))"

inductive adapter_reach :: "adapter \<Rightarrow> bool" where
  created: "newWorkerEngineAdapter bd ids = Inr ad \<Longrightarrow> adapter_reach ad"
| stepped: "adapter_reach ad \<Longrightarrow> adapter_reach (fst (adapter_step ad ev))"

end
