(* ===== verification/Adapter_Invariant.thy ===== *)
theory Adapter_Invariant
  imports Worker_Adapter
begin

text \<open>
  What the engine adapter keeps: at most one operation in flight, captured revision and boundary
  equal to the confirmed ones while it is, and a recovery state that only names states it may be in.
\<close>

section \<open>The checks\<close>

lemma checks_iff [result_simps]:
  "requireNonemptyString v = Inr s \<longleftrightarrow> v = JStr s \<and> s \<noteq> []"
  "requireSha256 v = Inr s \<longleftrightarrow> v = JStr s \<and> sha256_pattern s"
  "requireRevision v = Inr n \<longleftrightarrow> v = jnat n \<and> n \<le> MAX_SAFE_INTEGER"
  "requireTurnBoundary v = Inr b \<longleftrightarrow> v = JStr (js (boundary_name b))"
  by (auto simp: requireNonemptyString_def requireSha256_def requireRevision_def requireTurnBoundary_def
      safe_nat_Some_iff read_boundary_Some_iff split: jsval.splits if_splits option.splits)

lemma required_iff [result_simps]: "required x = Inr y \<longleftrightarrow> x = Some y"
  by (simp add: required_def split: option.splits)

lemma requireTurnComplete_iff [result_simps]:
  "requireTurnComplete v = Inr (b, s) \<longleftrightarrow>
     v \<noteq> JUndef \<and> v \<noteq> JNull \<and> getProp v ''turnComplete'' = JBool True \<and>
     getProp v ''boundary'' = JStr (js (boundary_name b)) \<and> getProp v ''output'' = JStr s"
  by (cases "getProp v ''output''") (auto simp: requireTurnComplete_def result_simps)

lemma sameCompatibility_iff [simp]: "sameCompatibility c d \<longleftrightarrow> c = d"
  by (auto simp: sameCompatibility_def)

lemma receive_iff [result_simps]:
  "receive mid kind out = Inr r \<longleftrightarrow>
     out = Inr r \<and> r \<noteq> JUndef \<and> r \<noteq> JNull \<and> getProp r ''protocolVersion'' = jnat ENGINE_WORKER_PROTOCOL_VERSION \<and>
     getProp r ''messageId'' = JStr mid \<and> getProp r ''kind'' = JStr (js kind) \<and> kind \<noteq> ''error''"
  by (auto simp: receive_def result_simps split: sum.splits if_splits)

definition valid_binding :: "compatibility \<Rightarrow> bool" where
  "valid_binding c \<longleftrightarrow>
     story_id c \<noteq> [] \<and> sha256_pattern (story_sha256 c) \<and> runtime_id c \<noteq> [] \<and> runtime_version c \<noteq> [] \<and>
     sha256_pattern (runtime_sha256 c) \<and> adapter_id c \<noteq> [] \<and> adapter_version c \<noteq> [] \<and>
     1 \<le> snapshotSchemaVersion c \<and> snapshotSchemaVersion c \<le> MAX_SAFE_INTEGER"

lemma validateCompatibility_valid: "validateCompatibility v = Inr c \<Longrightarrow> valid_binding c"
  by (auto simp: validateCompatibility_def valid_binding_def Let_def result_simps split: if_splits)

lemma checks_ok [simp]:
  "s \<noteq> [] \<Longrightarrow> requireNonemptyString (JStr s) = Inr s"
  "sha256_pattern s \<Longrightarrow> requireSha256 (JStr s) = Inr s"
  "n \<le> MAX_SAFE_INTEGER \<Longrightarrow> requireRevision (jnat n) = Inr n"
  "requireTurnBoundary (JStr (js (boundary_name b))) = Inr b"
  by (simp_all add: checks_iff)

lemma validateCompatibility_js [simp]:
  "valid_binding c \<Longrightarrow> validateCompatibility (compatibility_js c) = Inr c"
  by (simp add: validateCompatibility_def compatibility_js_def valid_binding_def)

lemma validateSnapshot_iff [result_simps]:
  "validateSnapshot v = Inr sn \<longleftrightarrow>
     v \<noteq> JUndef \<and> v \<noteq> JNull \<and> getProp v ''bytes'' = JBytes (sn_bytes sn) \<and> sn_bytes sn \<noteq> [] \<and>
     length (sn_bytes sn) \<le> MAX_ENGINE_SNAPSHOT_BYTES \<and> getProp v ''sha256'' = JStr (sn_sha256 sn) \<and>
     sha256_pattern (sn_sha256 sn) \<and> getProp v ''revision'' = jnat (sn_revision sn) \<and>
     sn_revision sn \<le> MAX_SAFE_INTEGER \<and>
     validateCompatibility (getProp v ''compatibility'') = Inr (sn_compatibility sn)"
  by (cases "getProp v ''bytes''"; cases sn) (auto simp: validateSnapshot_def bindE_Inr_iff readProp_Inr_iff checks_iff)

text \<open>An accepted execute result, spelled out.\<close>

lemma validateExecuteResult_iff [result_simps]:
  "validateExecuteResult rid expected command v cur cb = Inr (committed, n, b) \<longleftrightarrow>
     v \<noteq> JUndef \<and> v \<noteq> JNull \<and> rid \<noteq> [] \<and> getProp v ''requestId'' = JStr rid \<and>
     getProp v ''command'' = JStr command \<and> getProp v ''revision'' = jnat n \<and> n \<le> MAX_SAFE_INTEGER \<and>
     getProp v ''turnComplete'' = JBool True \<and> getProp v ''boundary'' = JStr (js (boundary_name b)) \<and>
     (\<exists>s. getProp v ''output'' = JStr s) \<and>
     committed = (getProp v ''status'' = JStr (js ''committed'')) \<and> (n = cur \<longrightarrow> b = cb) \<and>
     (if committed
      then getProp v ''previousRevision'' = jnat expected \<and> n = expected + 1 \<and> (cur = expected \<or> n \<le> cur)
      else (\<exists>why. read_rejection (getProp v ''rejection'') = Some why) \<and>
           getProp v ''previousRevision'' = jnat n \<and> n \<le> cur)"
  (is "?l \<longleftrightarrow> ?r")
proof
  show "?l \<Longrightarrow> ?r"
    by (auto simp: validateExecuteResult_def result_simps not_less split: if_splits)
  show "?r \<Longrightarrow> ?l"
    by (auto simp: validateExecuteResult_def result_simps not_less split: if_splits)
qed

section \<open>The invariant\<close>

fun operation_of :: "adapter_pending \<Rightarrow> operation" where
  "operation_of (AwaitBoot _ _ _) = OpBoot"
| "operation_of (AwaitExecute _ _ _ _ _ _) = OpExecute"
| "operation_of (AwaitSnapshot _ _ _) = OpSnapshot"
| "operation_of (AwaitSnapshotDigest _ _ _ _) = OpSnapshot"
| "operation_of (AwaitRestoreDigest _ _ _ _) = OpRestore"
| "operation_of (AwaitRestore _ _ _ _) = OpRestore"
| "operation_of (AwaitInspect _ _ _ _) = OpInspect"

definition booted :: "adapter \<Rightarrow> bool" where
  "booted ad \<longleftrightarrow> ad_revision ad \<noteq> None"

fun captured :: "adapter \<Rightarrow> adapter_pending \<Rightarrow> bool" where
  "captured ad (AwaitBoot mid sid sha) \<longleftrightarrow> \<not> booted ad \<and> ad_recovery ad = Ready \<and> sid \<noteq> [] \<and> sha256_pattern sha"
| "captured ad (AwaitExecute mid rid expected command revision b) \<longleftrightarrow>
     ad_revision ad = Some revision \<and> ad_boundary ad = Some b \<and> rid \<noteq> [] \<and>
     expected \<le> MAX_SAFE_INTEGER \<and> canonical command \<and>
     (ad_recovery ad = UncertainExecute rid expected command \<or> (ad_recovery ad = Ready \<and> b = InputRequested))"
| "captured ad (AwaitSnapshot mid revision compatib) \<longleftrightarrow>
     ad_revision ad = Some revision \<and> ad_compatibility ad = Some compatib \<and> ad_recovery ad = Ready"
| "captured ad (AwaitSnapshotDigest raw sn revision compatib) \<longleftrightarrow>
     ad_revision ad = Some revision \<and> ad_compatibility ad = Some compatib \<and> ad_recovery ad = Ready"
| "captured ad (AwaitRestoreDigest raw sn revision b) \<longleftrightarrow>
     ad_revision ad = Some revision \<and> ad_boundary ad = Some b \<and> ad_recovery ad = Ready \<and>
     ad_compatibility ad = Some (sn_compatibility sn) \<and> sn_revision sn \<le> MAX_SAFE_INTEGER"
| "captured ad (AwaitRestore mid sn revision b) \<longleftrightarrow>
     ad_revision ad = Some revision \<and> ad_boundary ad = Some b \<and> ad_recovery ad = Ready \<and>
     ad_compatibility ad = Some (sn_compatibility sn) \<and> sn_revision sn \<le> MAX_SAFE_INTEGER"
| "captured ad (AwaitInspect mid revision b rec) \<longleftrightarrow>
     ad_revision ad = Some revision \<and> ad_boundary ad = Some b \<and> ad_recovery ad = rec"

fun recovery_ok :: "bool \<Rightarrow> recovery \<Rightarrow> bool" where
  "recovery_ok up Ready \<longleftrightarrow> True"
| "recovery_ok up (BootQuarantined sid) \<longleftrightarrow> \<not> up \<and> sid \<noteq> []"
| "recovery_ok up (UncertainExecute rid expected command) \<longleftrightarrow>
     up \<and> rid \<noteq> [] \<and> expected \<le> MAX_SAFE_INTEGER \<and> canonical command"
| "recovery_ok up (RestoreQuarantined n) \<longleftrightarrow> up \<and> n \<le> MAX_SAFE_INTEGER"

definition confirmed_ok :: "adapter \<Rightarrow> bool" where
  "confirmed_ok ad \<longleftrightarrow>
     (case ad_revision ad of
        None \<Rightarrow> ad_compatibility ad = None \<and> ad_boundary ad = None
      | Some n \<Rightarrow> n \<le> MAX_SAFE_INTEGER \<and> ad_boundary ad \<noteq> None \<and>
          (\<exists>sid sha. ad_compatibility ad = Some (bind_compatibility (ad_binding ad) sid sha)))"

definition flight_ok :: "adapter \<Rightarrow> bool" where
  "flight_ok ad \<longleftrightarrow>
     (case ad_pending ad of
        None \<Rightarrow> ad_operation ad = None
      | Some p \<Rightarrow> ad_operation ad = Some (operation_of p) \<and> captured ad p)"

definition adapter_ok :: "adapter \<Rightarrow> bool" where
  "adapter_ok ad \<longleftrightarrow> confirmed_ok ad \<and> recovery_ok (booted ad) (ad_recovery ad) \<and> flight_ok ad"

definition conf :: "adapter \<Rightarrow> compatibility option \<times> nat option \<times> boundary option \<times> recovery" where
  \<comment> \<open>what the adapter believes of the worker\<close>
  "conf ad = (ad_compatibility ad, ad_revision ad, ad_boundary ad, ad_recovery ad)"

lemma conf_update [simp]:
  "conf (ad\<lparr>ad_pending := p\<rparr>) = conf ad" "conf (ad\<lparr>ad_operation := op\<rparr>) = conf ad"
  "conf (ad\<lparr>ad_allocated := n\<rparr>) = conf ad"
  by (simp_all add: conf_def)

lemma newWorkerEngineAdapter_ok: "newWorkerEngineAdapter bd ids = Inr ad \<Longrightarrow> adapter_ok ad"
  by (auto simp: newWorkerEngineAdapter_def adapter_ok_def confirmed_ok_def flight_ok_def booted_def
      result_simps)

section \<open>Operations\<close>

lemma conclude_pending:
  "ad_operation ad = Some op \<Longrightarrow>
     conclude ad op out = (ad\<lparr>ad_operation := None, ad_pending := None\<rparr>, out)"
  by (simp add: conclude_def endOperation_def)

lemma submit_cases:
  obtains (refused) e where
      "submit ad op continue request = (ad\<lparr>ad_allocated := ad_allocated ad + 1\<rparr>, Threw e)"
  | (sent) mid where "mid \<noteq> []" "ad_operation ad = None" "ad_messageIds ad (ad_allocated ad) = Some (JStr mid)"
      "submit ad op continue request =
         (ad\<lparr>ad_allocated := ad_allocated ad + 1, ad_operation := Some op, ad_pending := Some (continue mid)\<rparr>,
          Submit (request mid))"
proof (cases "snd (allocateMessageId ad)")
  case (Inl e)
  then have "submit ad op continue request = (ad\<lparr>ad_allocated := ad_allocated ad + 1\<rparr>, Threw e)"
    by (simp add: submit_def allocateMessageId_def)
  then show ?thesis by (rule refused)
next
  case (Inr mid)
  then have mid: "mid \<noteq> []" "ad_messageIds ad (ad_allocated ad) = Some (JStr mid)"
    by (auto simp: allocateMessageId_def result_simps split: option.splits)
  show ?thesis
  proof (cases "ad_operation ad")
    case None
    have "submit ad op continue request =
         (ad\<lparr>ad_allocated := ad_allocated ad + 1, ad_operation := Some op, ad_pending := Some (continue mid)\<rparr>,
          Submit (request mid))"
      using Inr None by (simp add: submit_def allocateMessageId_def beginOperation_def)
    with mid None show ?thesis by (intro sent)
  next
    case (Some op')
    then have "submit ad op continue request = (ad\<lparr>ad_allocated := ad_allocated ad + 1\<rparr>, Threw StateError)"
      using Inr by (simp add: submit_def allocateMessageId_def beginOperation_def)
    then show ?thesis by (rule refused)
  qed
qed

lemma adapter_ok_allocated [simp]: "adapter_ok (ad\<lparr>ad_allocated := n\<rparr>) = adapter_ok ad"
proof -
  have "captured (ad\<lparr>ad_allocated := n\<rparr>) p = captured ad p" for p
    by (cases p) (simp_all add: booted_def)
  then show ?thesis
    by (simp add: adapter_ok_def confirmed_ok_def flight_ok_def booted_def cong: option.case_cong)
qed

lemma idle_pending: "adapter_ok ad \<Longrightarrow> ad_operation ad = None \<longleftrightarrow> ad_pending ad = None"
  by (auto simp: adapter_ok_def flight_ok_def split: option.splits)

lemma submit_ok:
  assumes ok: "adapter_ok ad"
    and p: "\<And>mid. captured ad (continue mid) \<and> operation_of (continue mid) = op"
  shows "adapter_ok (fst (submit ad op continue request))"
    and "conf (fst (submit ad op continue request)) = conf ad"
proof -
  have "captured (ad\<lparr>ad_allocated := n, ad_operation := op', ad_pending := q\<rparr>) p = captured ad p" for n op' q p
    by (cases p) (simp_all add: booted_def)
  then have *: "adapter_ok (ad\<lparr>ad_allocated := n, ad_operation := Some op, ad_pending := Some (continue mid)\<rparr>)" for n mid
    using ok p [of mid] by (simp add: adapter_ok_def confirmed_ok_def flight_ok_def booted_def cong: option.case_cong)
  show "adapter_ok (fst (submit ad op continue request))"
    by (cases rule: submit_cases [of ad op continue request]) (use ok * in simp_all)
  show "conf (fst (submit ad op continue request)) = conf ad"
    by (cases rule: submit_cases [of ad op continue request]) (simp_all add: conf_def)
qed


section \<open>Calls keep what is confirmed\<close>

lemma refuse_ok [simp]: "fst (refuse ad e) = ad"
  by (simp add: refuse_def)

lemma confirmed_parts:
  assumes "adapter_ok ad" "ad_revision ad = Some revision"
  obtains b compatib where "ad_boundary ad = Some b" "ad_compatibility ad = Some compatib" "booted ad"
    "revision \<le> MAX_SAFE_INTEGER"
  using assms by (auto simp: adapter_ok_def confirmed_ok_def booted_def)

lemma ready_booted:
  assumes "adapter_ok ad" "ad_revision ad = Some revision" "assertReadyOperation (ad_recovery ad) = Inr u"
  shows "ad_recovery ad = Ready"
  using assms by (cases "ad_recovery ad") (auto simp: adapter_ok_def booted_def assertReadyOperation_def)

lemma adapter_boot_ok:
  assumes "adapter_ok ad"
  shows "adapter_ok (fst (adapter_boot ad input)) \<and> conf (fst (adapter_boot ad input)) = conf ad"
proof (cases "(case ad_recovery ad of BootQuarantined _ \<Rightarrow> True | _ \<Rightarrow> False) \<or> ad_compatibility ad \<noteq> None")
  case True
  then show ?thesis using assms by (auto simp: adapter_boot_def)
next
  case False
  with assms have up: "\<not> booted ad" "ad_recovery ad = Ready"
    by (cases "ad_recovery ad"; force simp: adapter_ok_def confirmed_ok_def booted_def split: option.splits)+
  show ?thesis
    using False assms up submit_ok [OF assms]
    by (auto simp: adapter_boot_def result_simps split: sum.splits)
qed

lemma execute_guards_iff:
  "execute_guards ad input aborted = Inr (rid, expected, command, revision, b) \<longleftrightarrow>
     ad_revision ad = Some revision \<and> ad_boundary ad = Some b \<and> input \<noteq> JUndef \<and> input \<noteq> JNull \<and>
     getProp input ''requestId'' = JStr rid \<and> rid \<noteq> [] \<and>
     getProp input ''expectedRevision'' = jnat expected \<and> expected \<le> MAX_SAFE_INTEGER \<and>
     getProp input ''command'' = JStr command \<and> canonical command \<and> \<not> aborted \<and>
     (case ad_recovery ad of
        RestoreQuarantined _ \<Rightarrow> False
      | UncertainExecute rid' expected' command' \<Rightarrow> rid' = rid \<and> expected' = expected \<and> command' = command
      | _ \<Rightarrow> b = InputRequested)"
proof (cases "canonicalizeCommand (getProp input ''command'')")
  case (Inl e)
  then have "\<not> (getProp input ''command'' = JStr command \<and> canonical command)"
    using canonical_fixpoint [of command] by auto
  with Inl show ?thesis
    by (auto simp: execute_guards_def bindE_Inr_iff)
next
  case (Inr c)
  then have c: "JStr c = getProp input ''command'' \<and> c = command \<longleftrightarrow>
      getProp input ''command'' = JStr command \<and> canonical command"
    using canonicalize_iff [of command] canonicalize_canonical [OF Inr] by auto
  have b: "b = Terminated \<longleftrightarrow> b \<noteq> InputRequested"
    by (cases b) auto
  have "execute_guards ad input aborted = Inr (rid, expected, command, revision, b) \<longleftrightarrow>
     ad_revision ad = Some revision \<and> ad_boundary ad = Some b \<and> input \<noteq> JUndef \<and> input \<noteq> JNull \<and>
     getProp input ''requestId'' = JStr rid \<and> rid \<noteq> [] \<and>
     getProp input ''expectedRevision'' = jnat expected \<and> expected \<le> MAX_SAFE_INTEGER \<and>
     (JStr c = getProp input ''command'' \<and> c = command) \<and> \<not> aborted \<and>
     (\<exists>resolves. assertExecuteAllowed (ad_recovery ad) rid expected command = Inr resolves \<and>
        (b = Terminated \<longrightarrow> resolves))"
    unfolding execute_guards_def Inr bindE_Inr_iff readProp_Inr_iff checks_iff required_iff sum.case
    by (auto simp: bindE_Inr_iff split: if_splits)
  also have "(\<exists>resolves. assertExecuteAllowed (ad_recovery ad) rid expected command = Inr resolves \<and>
        (b = Terminated \<longrightarrow> resolves)) \<longleftrightarrow>
     (case ad_recovery ad of
        RestoreQuarantined _ \<Rightarrow> False
      | UncertainExecute rid' expected' command' \<Rightarrow> rid' = rid \<and> expected' = expected \<and> command' = command
      | _ \<Rightarrow> b = InputRequested)"
    by (cases "ad_recovery ad") (auto simp: assertExecuteAllowed_def b)
  finally show ?thesis
    unfolding c by (simp only: conj_assoc)
qed

lemma adapter_execute_ok:
  assumes "adapter_ok ad"
  shows "adapter_ok (fst (adapter_execute ad input aborted)) \<and> conf (fst (adapter_execute ad input aborted)) = conf ad"
proof (cases "execute_guards ad input aborted")
  case (Inl e)
  then show ?thesis using assms by (simp add: adapter_execute_def)
next
  case (Inr x)
  obtain rid expected command revision b where x: "x = (rid, expected, command, revision, b)"
    by (rule prod_cases5)
  have "booted ad \<Longrightarrow> ad_recovery ad \<noteq> BootQuarantined sid" for sid
    using assms by (cases "ad_recovery ad") (auto simp: adapter_ok_def)
  with Inr x have "captured ad (AwaitExecute mid rid expected command revision b)" for mid
    by (cases "ad_recovery ad") (auto simp: execute_guards_iff booted_def)
  then show ?thesis
    using submit_ok [OF assms] Inr x by (simp add: adapter_execute_def)
qed

lemma adapter_snapshot_ok:
  assumes "adapter_ok ad"
  shows "adapter_ok (fst (adapter_snapshot ad)) \<and> conf (fst (adapter_snapshot ad)) = conf ad"
  using assms submit_ok [OF assms] ready_booted [OF assms]
  by (auto simp: adapter_snapshot_def result_simps split: sum.splits)

lemma adapter_inspect_ok:
  assumes "adapter_ok ad"
  shows "adapter_ok (fst (adapter_inspect ad)) \<and> conf (fst (adapter_inspect ad)) = conf ad"
  using assms submit_ok [OF assms]
  by (auto simp: adapter_inspect_def result_simps split: sum.splits)

lemma adapter_ok_flight:
  assumes "adapter_ok ad" "captured ad p"
  shows "adapter_ok (ad\<lparr>ad_allocated := n, ad_operation := Some (operation_of p), ad_pending := Some p\<rparr>)"
    and "adapter_ok (ad\<lparr>ad_allocated := n, ad_operation := None, ad_pending := None\<rparr>)"
proof -
  have "captured (ad\<lparr>ad_allocated := n, ad_operation := op', ad_pending := q\<rparr>) p = captured ad p" for op' q
    by (cases p) (simp_all add: booted_def)
  with assms show "adapter_ok (ad\<lparr>ad_allocated := n, ad_operation := Some (operation_of p), ad_pending := Some p\<rparr>)"
    and "adapter_ok (ad\<lparr>ad_allocated := n, ad_operation := None, ad_pending := None\<rparr>)"
    by (simp_all add: adapter_ok_def confirmed_ok_def flight_ok_def booted_def cong: option.case_cong)
qed


lemma adapter_restore_ok:
  assumes ok: "adapter_ok ad"
  shows "adapter_ok (fst (adapter_restore ad v)) \<and> conf (fst (adapter_restore ad v)) = conf ad"
proof (cases "\<exists>revision b compatib. ad_revision ad = Some revision \<and> ad_boundary ad = Some b \<and>
    ad_compatibility ad = Some compatib \<and> assertReadyOperation (ad_recovery ad) = Inr () \<and> ad_operation ad = None")
  case False
  then have "\<exists>e. adapter_restore ad v = refuse ad e"
    by (cases "ad_revision ad"; cases "ad_boundary ad"; cases "ad_compatibility ad";
        cases "assertReadyOperation (ad_recovery ad)"; cases "ad_operation ad")
      (auto simp: adapter_restore_def required_def beginOperation_def)
  with ok show ?thesis by auto
next
  case True
  then obtain revision b compatib where g: "ad_revision ad = Some revision" "ad_boundary ad = Some b"
    "ad_compatibility ad = Some compatib" "assertReadyOperation (ad_recovery ad) = Inr ()" "ad_operation ad = None"
    by blast
  have ready: "ad_recovery ad = Ready"
    using ready_booted [OF ok g(1,4)] .
  have p: "ad_pending ad = None"
    using idle_pending [OF ok] g(5) by simp
  have undo: "ad\<lparr>ad_operation := None, ad_pending := None\<rparr> = ad"
    using g(5) p by (cases ad) simp
  define ad1 where "ad1 = ad\<lparr>ad_operation := Some OpRestore\<rparr>"
  have c: "conclude ad1 OpRestore out = (ad, out)" for out
    using conclude_pending [of ad1 OpRestore out] undo by (simp add: ad1_def)
  have r: "adapter_restore ad v =
    (case validateSnapshot v of
       Inl e \<Rightarrow> conclude ad1 OpRestore (Threw e)
     | Inr sn \<Rightarrow>
         if sn_compatibility sn \<noteq> compatib
         then conclude ad1 OpRestore (Returned (rejected_restore_js ''incompatible_snapshot'' revision b))
         else (ad1\<lparr>ad_pending := Some (AwaitRestoreDigest (copySnapshot v sn) sn revision b)\<rparr>, Digest (sn_bytes sn)))"
    using g by (cases "validateSnapshot v") (simp_all add: adapter_restore_def required_def beginOperation_def ad1_def)
  show ?thesis
  proof (cases "validateSnapshot v")
    case (Inl e)
    with r c ok show ?thesis by simp
  next
    case (Inr sn)
    then have n: "sn_revision sn \<le> MAX_SAFE_INTEGER" by (simp add: result_simps)
    have "captured ad (AwaitRestoreDigest (copySnapshot v sn) sn revision b)" if "sn_compatibility sn = compatib"
      using g ready n that by simp
    from adapter_ok_flight(1) [OF ok this, of "ad_allocated ad"] show ?thesis
      using r c ok Inr by (auto simp: ad1_def conf_def)
  qed
qed

section \<open>Settling\<close>

lemma adapter_ok_pending:
  assumes "adapter_ok ad" "ad_pending ad = Some p"
  shows "ad_operation ad = Some (operation_of p)" and "captured ad p"
  using assms by (simp_all add: adapter_ok_def flight_ok_def)

lemma conclude_ok:
  assumes "ad_operation ad = Some op" "confirmed_ok ad" "recovery_ok (booted ad) (ad_recovery ad)"
  shows "adapter_ok (fst (conclude ad op out))" and "conf (fst (conclude ad op out)) = conf ad"
    and "snd (conclude ad op out) = out"
  using assms
  by (simp_all add: conclude_pending adapter_ok_def confirmed_ok_def flight_ok_def booted_def conf_def
      cong: option.case_cong)

lemma conclude_keeps [simp]:
  assumes "adapter_ok ad" "ad_operation ad = Some op"
  shows "adapter_ok (fst (conclude ad op out))" and "conf (fst (conclude ad op out)) = conf ad"
  using assms conclude_ok by (auto simp: adapter_ok_def)

lemma check_boot_iff:
  "check_boot bd mid sid sha out = Inr (raw, compatib, b, shown) \<Longrightarrow>
     compatib = bind_compatibility bd sid sha \<and> valid_binding compatib"
  by (auto simp: check_boot_def Let_def result_simps dest: validateCompatibility_valid)

text \<open>What each settlement makes of the confirmed state.\<close>

lemma settle_boot_conf:
  assumes ok: "adapter_ok ad" and p: "ad_pending ad = Some (AwaitBoot mid sid sha)"
  shows "adapter_ok (fst (settle_boot ad mid sid sha out))"
    and "conf (fst (settle_boot ad mid sid sha out)) =
      (case check_boot (ad_binding ad) mid sid sha out of
         Inl _ \<Rightarrow> (None, None, None, BootQuarantined sid)
       | Inr (_, compatib, b, _) \<Rightarrow> (Some compatib, Some 0, Some b, Ready))"
proof -
  note q = adapter_ok_pending [OF ok p]
  have none: "ad_compatibility ad = None" "ad_revision ad = None" "ad_boundary ad = None" "sid \<noteq> []"
    using ok q(2) by (auto simp: adapter_ok_def confirmed_ok_def booted_def)
  have "adapter_ok (fst (settle_boot ad mid sid sha out)) \<and> conf (fst (settle_boot ad mid sid sha out)) =
      (case check_boot (ad_binding ad) mid sid sha out of
         Inl _ \<Rightarrow> (None, None, None, BootQuarantined sid)
       | Inr (_, compatib, b, _) \<Rightarrow> (Some compatib, Some 0, Some b, Ready))"
  proof (cases "check_boot (ad_binding ad) mid sid sha out")
    case (Inl e)
    then show ?thesis
      using none q(1) by (simp add: settle_boot_def conclude_pending adapter_ok_def confirmed_ok_def flight_ok_def booted_def conf_def)
  next
    case (Inr x)
    obtain raw compatib b shown where x: "x = (raw, compatib, b, shown)"
      by (rule prod_cases4)
    have "compatib = bind_compatibility (ad_binding ad) sid sha"
      using Inr x check_boot_iff by blast
    then show ?thesis
      using q(1) Inr x by (auto simp: settle_boot_def conclude_pending adapter_ok_def confirmed_ok_def flight_ok_def booted_def conf_def)
  qed
  then show "adapter_ok (fst (settle_boot ad mid sid sha out))"
    and "conf (fst (settle_boot ad mid sid sha out)) =
      (case check_boot (ad_binding ad) mid sid sha out of
         Inl _ \<Rightarrow> (None, None, None, BootQuarantined sid)
       | Inr (_, compatib, b, _) \<Rightarrow> (Some compatib, Some 0, Some b, Ready))"
    by blast+
qed

lemma check_execute_iff [result_simps]:
  "check_execute mid rid expected command revision b out = Inr (result, committed, n, b') \<longleftrightarrow>
     (\<exists>r. receive mid ''execute.result'' out = Inr r \<and> result = getProp r ''result'' \<and>
        validateExecuteResult rid expected command result revision b = Inr (committed, n, b'))"
  by (auto simp: check_execute_def bindE_Inr_iff)

lemma settle_execute_conf:
  assumes ok: "adapter_ok ad" and p: "ad_pending ad = Some (AwaitExecute mid rid expected command revision b)"
  shows "adapter_ok (fst (settle_execute ad mid rid expected command revision b out))"
    and "conf (fst (settle_execute ad mid rid expected command revision b out)) =
      (ad_compatibility ad,
       (case check_execute mid rid expected command revision b out of
          Inl _ \<Rightarrow> (Some revision, Some b, UncertainExecute rid expected command)
        | Inr (_, committed, n, b') \<Rightarrow>
            if committed \<and> revision < n then (Some n, Some b', Ready) else (Some revision, Some b, Ready)))"
    (is "?conf = (_, ?rest)")
proof -
  note q = adapter_ok_pending [OF ok p]
  have cap: "ad_revision ad = Some revision" "ad_boundary ad = Some b" "rid \<noteq> []"
      "expected \<le> MAX_SAFE_INTEGER" "canonical command"
    using q(2) by auto
  have "adapter_ok (fst (settle_execute ad mid rid expected command revision b out)) \<and> ?conf = (ad_compatibility ad, ?rest)"
  proof (cases "check_execute mid rid expected command revision b out")
    case (Inl e)
    then show ?thesis
      using cap q(1) ok by (simp add: settle_execute_def conclude_pending adapter_ok_def confirmed_ok_def flight_ok_def booted_def conf_def)
  next
    case (Inr x)
    obtain result committed n b' where x: "x = (result, committed, n, b')"
      by (rule prod_cases4)
    have n: "n \<le> MAX_SAFE_INTEGER" and b: "n = revision \<longrightarrow> b' = b"
      using Inr x by (auto simp: result_simps)
    define ad1 where "ad1 = (if committed \<and> revision \<le> n
       then ad\<lparr>ad_revision := Some n, ad_boundary := Some b', ad_recovery := Ready\<rparr>
       else ad\<lparr>ad_revision := Some revision, ad_recovery := Ready\<rparr>)"
    have s: "settle_execute ad mid rid expected command revision b out = conclude ad1 OpExecute (Returned result)"
      using Inr x by (simp add: settle_execute_def ad1_def)
    have k: "ad_operation ad1 = Some OpExecute" "confirmed_ok ad1" "ad_recovery ad1 = Ready"
      using cap q(1) n ok by (auto simp: ad1_def confirmed_ok_def adapter_ok_def)
    have "conf ad1 = (ad_compatibility ad, if committed \<and> revision < n then (Some n, Some b', Ready) else (Some revision, Some b, Ready))"
      using cap b by (auto simp: ad1_def conf_def)
    with s k Inr x show ?thesis by (simp add: conclude_ok)
  qed
  then show "adapter_ok (fst (settle_execute ad mid rid expected command revision b out))"
    and "?conf = (ad_compatibility ad, ?rest)"
    by blast+
qed


lemma adapter_ok_next:
  \<comment> \<open>a settlement that goes on to the operation's second await\<close>
  assumes "adapter_ok ad" "ad_operation ad = Some (operation_of p)" "captured ad p"
  shows "adapter_ok (ad\<lparr>ad_pending := Some p\<rparr>)" "adapter_ok (ad\<lparr>ad_allocated := n, ad_pending := Some p\<rparr>)"
proof -
  have e: "ad\<lparr>ad_pending := Some p\<rparr> = ad\<lparr>ad_allocated := ad_allocated ad, ad_operation := Some (operation_of p), ad_pending := Some p\<rparr>"
    "ad\<lparr>ad_allocated := n, ad_pending := Some p\<rparr> = ad\<lparr>ad_allocated := n, ad_operation := Some (operation_of p), ad_pending := Some p\<rparr>"
    using assms(2) by (cases ad; simp)+
  show "adapter_ok (ad\<lparr>ad_pending := Some p\<rparr>)" "adapter_ok (ad\<lparr>ad_allocated := n, ad_pending := Some p\<rparr>)"
    unfolding e using adapter_ok_flight(1) [OF assms(1,3)] by blast+
qed

lemma settle_snapshot_ok:
  assumes ok: "adapter_ok ad" and p: "ad_pending ad = Some (AwaitSnapshot mid revision compatib)"
  shows "adapter_ok (fst (settle_snapshot ad mid revision compatib out)) \<and>
    conf (fst (settle_snapshot ad mid revision compatib out)) = conf ad"
proof -
  note q = adapter_ok_pending [OF ok p]
  show ?thesis
    using q ok adapter_ok_next(1) [OF ok, of "AwaitSnapshotDigest raw sn revision compatib" for raw sn]
    by (auto simp: settle_snapshot_def split: sum.splits)
qed

lemma settle_snapshot_digest_ok:
  assumes ok: "adapter_ok ad" and p: "ad_pending ad = Some (AwaitSnapshotDigest raw sn revision compatib)"
  shows "adapter_ok (fst (settle_snapshot_digest ad raw sn revision compatib out)) \<and>
    conf (fst (settle_snapshot_digest ad raw sn revision compatib out)) = conf ad"
  using adapter_ok_pending(1) [OF ok p] ok by (simp add: settle_snapshot_digest_def)

lemma settle_restore_digest_ok:
  assumes ok: "adapter_ok ad" and p: "ad_pending ad = Some (AwaitRestoreDigest raw sn revision b)"
  shows "adapter_ok (fst (settle_restore_digest ad raw sn revision b out)) \<and>
    conf (fst (settle_restore_digest ad raw sn revision b out)) = conf ad"
proof -
  note q = adapter_ok_pending [OF ok p]
  have c: "adapter_ok (fst (conclude (ad\<lparr>ad_allocated := n\<rparr>) OpRestore o')) \<and>
      conf (fst (conclude (ad\<lparr>ad_allocated := n\<rparr>) OpRestore o')) = conf ad" for n o'
    using q(1) ok by simp
  have c0: "adapter_ok (fst (conclude ad OpRestore o')) \<and> conf (fst (conclude ad OpRestore o')) = conf ad" for o'
    using c [of "ad_allocated ad" o'] by simp
  have n: "adapter_ok (ad\<lparr>ad_allocated := n, ad_pending := Some (AwaitRestore mid sn revision b)\<rparr>)" for n mid
    using q by (intro adapter_ok_next(2) [OF ok]) simp_all
  show ?thesis
    using c c0 n
    by (auto simp: settle_restore_digest_def allocateMessageId_def split: sum.splits)
qed

lemma check_restore_iff [result_simps]:
  "check_restore mid sn revision b out = Inr (result, restored, n, b') \<longleftrightarrow>
     (\<exists>r. receive mid ''restore.result'' out = Inr r \<and> result = getProp r ''result'' \<and>
        requireTurnComplete result = Inr (b', []) \<and> getProp result ''revision'' = jnat n \<and> n \<le> MAX_SAFE_INTEGER \<and>
        restored = (getProp result ''status'' = JStr (js ''restored'')) \<and>
        (if restored then n = sn_revision sn
         else n = revision \<and> b' = b \<and>
           getProp result ''rejection'' \<in> {JStr (js ''incompatible_snapshot''), JStr (js ''corrupt_snapshot'')}))"
  by (auto simp: check_restore_def Let_def bindE_Inr_iff ensure_Inr_iff checks_iff split: if_splits)

lemma settle_restore_conf:
  assumes ok: "adapter_ok ad" and p: "ad_pending ad = Some (AwaitRestore mid sn revision b)"
  shows "adapter_ok (fst (settle_restore ad mid sn revision b out))"
    and "conf (fst (settle_restore ad mid sn revision b out)) =
      (ad_compatibility ad,
       (case check_restore mid sn revision b out of
          Inl _ \<Rightarrow> (Some revision, Some b, RestoreQuarantined (sn_revision sn))
        | Inr (_, restored, n, b') \<Rightarrow>
            if restored then (Some (sn_revision sn), Some b', Ready) else (Some revision, Some b, Ready)))"
    (is "?conf = (_, ?rest)")
proof -
  note q = adapter_ok_pending [OF ok p]
  have cap: "ad_revision ad = Some revision" "ad_boundary ad = Some b" "ad_recovery ad = Ready"
      "sn_revision sn \<le> MAX_SAFE_INTEGER"
    using q(2) by auto
  have "adapter_ok (fst (settle_restore ad mid sn revision b out)) \<and> ?conf = (ad_compatibility ad, ?rest)"
  proof (cases "check_restore mid sn revision b out")
    case (Inl e)
    then show ?thesis
      using cap q(1) ok
      by (simp add: settle_restore_def conclude_pending adapter_ok_def confirmed_ok_def flight_ok_def booted_def conf_def)
  next
    case (Inr x)
    obtain result restored n b' where x: "x = (result, restored, n, b')"
      by (rule prod_cases4)
    have "restored \<Longrightarrow> n = sn_revision sn"
      using Inr x by (auto simp: result_simps)
    then show ?thesis
      using cap q(1) ok Inr x
      by (auto simp: settle_restore_def conclude_pending adapter_ok_def confirmed_ok_def flight_ok_def booted_def conf_def)
  qed
  then show "adapter_ok (fst (settle_restore ad mid sn revision b out))"
    and "?conf = (ad_compatibility ad, ?rest)"
    by blast+
qed

definition uncertain :: "recovery \<Rightarrow> bool" where
  "uncertain rec \<longleftrightarrow> (case rec of UncertainExecute _ _ _ \<Rightarrow> True | _ \<Rightarrow> False)"

lemma check_inspect_iff [result_simps]:
  "check_inspect mid revision b rec out = Inr (state, learned) \<longleftrightarrow>
     (\<exists>r n b'. receive mid ''inspect-public-state.result'' out = Inr r \<and> state = getProp r ''state'' \<and>
        state \<noteq> JUndef \<and> state \<noteq> JNull \<and> getProp state ''revision'' = jnat n \<and> n \<le> MAX_SAFE_INTEGER \<and>
        (\<exists>s. getProp state ''lastOutput'' = JStr s) \<and> getProp state ''boundary'' = JStr (js (boundary_name b')) \<and>
        learned = (if uncertain rec then Some (n, b') else None) \<and>
        (rec = Ready \<longrightarrow> n = revision \<and> b' = b) \<and>
        (uncertain rec \<longrightarrow> (n = revision \<and> b' = b) \<or> n = revision + 1))"
proof -
  have l: "(case v of JStr s \<Rightarrow> Inr s | _ \<Rightarrow> Inl ProtocolError) = Inr s \<longleftrightarrow> v = JStr s" for v s
    by (cases v) auto
  show ?thesis
    unfolding check_inspect_def Let_def bindE_Inr_iff readProp_Inr_iff checks_iff l
    by (cases rec) (auto simp: uncertain_def split: if_splits)
qed

lemma settle_inspect_conf:
  assumes ok: "adapter_ok ad" and p: "ad_pending ad = Some (AwaitInspect mid revision b rec)"
  shows "adapter_ok (fst (settle_inspect ad mid revision b rec out))"
    and "conf (fst (settle_inspect ad mid revision b rec out)) =
      (ad_compatibility ad,
       (case check_inspect mid revision b rec out of
          Inr (_, Some (n, b')) \<Rightarrow> (Some n, Some b', rec)
        | _ \<Rightarrow> (Some revision, Some b, rec)))"
    (is "?conf = (_, ?rest)")
proof -
  note q = adapter_ok_pending [OF ok p]
  have cap: "ad_revision ad = Some revision" "ad_boundary ad = Some b" "ad_recovery ad = rec"
    using q(2) by auto
  have "adapter_ok (fst (settle_inspect ad mid revision b rec out)) \<and> ?conf = (ad_compatibility ad, ?rest)"
  proof (cases "check_inspect mid revision b rec out")
    case (Inl e)
    then show ?thesis
      using cap q(1) ok by (simp add: settle_inspect_def) (simp add: conf_def)
  next
    case (Inr x)
    obtain state learned where x: "x = (state, learned)"
      by (rule prod.exhaust)
    show ?thesis
    proof (cases learned)
      case None
      then show ?thesis
        using cap q(1) ok Inr x
        by (simp add: settle_inspect_def conclude_pending adapter_ok_def confirmed_ok_def flight_ok_def booted_def conf_def)
    next
      case (Some m)
      obtain n b' where m: "m = (n, b')" by (rule prod.exhaust)
      have "n \<le> MAX_SAFE_INTEGER"
        using Inr x Some m by (auto simp: result_simps split: if_splits)
      then show ?thesis
        using cap q(1) ok Inr x Some m
        by (simp add: settle_inspect_def conclude_pending adapter_ok_def confirmed_ok_def flight_ok_def booted_def conf_def)
    qed
  qed
  then show "adapter_ok (fst (settle_inspect ad mid revision b rec out))"
    and "?conf = (ad_compatibility ad, ?rest)"
    by blast+
qed

section \<open>Reachable adapters\<close>

lemma settle_ok:
  assumes "adapter_ok ad" "ad_pending ad = Some p"
  shows "adapter_ok (fst (settle ad p out))"
  using assms settle_boot_conf(1) settle_execute_conf(1) settle_restore_conf(1) settle_inspect_conf(1)
    settle_snapshot_ok settle_snapshot_digest_ok settle_restore_digest_ok
  by (cases p) simp_all

lemma adapter_step_ok:
  assumes "adapter_ok ad"
  shows "adapter_ok (fst (adapter_step ad ev))"
  using assms adapter_boot_ok adapter_execute_ok adapter_snapshot_ok adapter_restore_ok adapter_inspect_ok settle_ok
  by (cases ev) (simp_all split: option.splits)

lemma adapter_reach_ok: "adapter_reach ad \<Longrightarrow> adapter_ok ad"
  by (induction rule: adapter_reach.induct) (auto intro: newWorkerEngineAdapter_ok adapter_step_ok)

lemma adapter_call_conf:
  assumes "adapter_ok ad" "\<And>out. ev \<noteq> Settle out"
  shows "conf (fst (adapter_step ad ev)) = conf ad"
proof (cases ev)
  case (Settle out)
  with assms(2) show ?thesis by blast
qed (use assms(1) adapter_boot_ok adapter_execute_ok adapter_snapshot_ok adapter_restore_ok adapter_inspect_ok
  in simp_all)

end
