(* ===== verification/Adapter_Facts.thy ===== *)
theory Adapter_Facts
  imports Adapter_Invariant
begin

text \<open>
  How one event moves the adapter, and what a run of events may hand to the transport in each
  recovery state.
\<close>

fun run_adapter :: "adapter \<Rightarrow> adapter_event list \<Rightarrow> adapter \<times> adapter_output list" where
  "run_adapter ad [] = (ad, [])"
| "run_adapter ad (ev # evs) =
     (case adapter_step ad ev of (ad1, out) \<Rightarrow>
        (case run_adapter ad1 evs of (ad2, outs) \<Rightarrow> (ad2, out # outs)))"

lemma run_adapter_reach: "adapter_reach ad \<Longrightarrow> adapter_reach (fst (run_adapter ad evs))"
proof (induction evs arbitrary: ad)
  case (Cons ev evs)
  from Cons.IH [OF adapter_reach.stepped [OF Cons.prems, of ev]] show ?case
    by (simp add: split_beta)
qed simp

definition inspect_js :: "js \<Rightarrow> jsval" where
  "inspect_js mid = message_js mid ''inspect-public-state'' []"

section \<open>Calls\<close>

lemma submit_in_flight:
  "ad_operation ad \<noteq> None \<Longrightarrow>
     \<exists>e. submit ad op continue request = (ad\<lparr>ad_allocated := ad_allocated ad + 1\<rparr>, Threw e)"
  by (rule submit_cases [of ad op continue request]) auto

lemma calls_in_flight:
  assumes "ad_operation ad \<noteq> None" "\<And>out. ev \<noteq> Settle out"
  shows "\<exists>n e. adapter_step ad ev = (ad\<lparr>ad_allocated := n\<rparr>, Threw e)"
proof -
  have r: "\<exists>n e'. refuse ad e = (ad\<lparr>ad_allocated := n\<rparr>, Threw e')" for e
    by (intro exI [of _ "ad_allocated ad"] exI [of _ e]) (simp add: refuse_def)
  have s: "\<exists>n e. submit ad op continue request = (ad\<lparr>ad_allocated := n\<rparr>, Threw e)" for op continue request
    using submit_in_flight [OF assms(1)] by blast
  show ?thesis
  proof (cases ev)
    case (CallBoot input)
    then show ?thesis using r s by (auto simp: adapter_boot_def split: sum.splits)
  next
    case (CallExecute input aborted)
    then show ?thesis using r s by (auto simp: adapter_execute_def split: sum.splits)
  next
    case CallSnapshot
    then show ?thesis using r s by (auto simp: adapter_snapshot_def split: sum.splits)
  next
    case (CallRestore v)
    from assms(1) have "\<exists>e. adapter_restore ad v = refuse ad e"
      by (cases "ad_revision ad"; cases "ad_boundary ad"; cases "ad_compatibility ad";
          cases "assertReadyOperation (ad_recovery ad)"; cases "ad_operation ad")
        (auto simp: adapter_restore_def required_def beginOperation_def)
    then show ?thesis using r CallRestore by auto
  next
    case CallInspect
    then show ?thesis using r s by (auto simp: adapter_inspect_def split: sum.splits)
  next
    case (Settle out)
    with assms(2) show ?thesis by blast
  qed
qed

lemma submit_Submit:
  "submit ad op continue request = (ad', Submit m) \<Longrightarrow>
     \<exists>mid. mid \<noteq> [] \<and> m = request mid \<and> ad_operation ad = None \<and> ad_pending ad' = Some (continue mid)"
  by (rule submit_cases [of ad op continue request]) auto

lemma submit_snd:
  "snd (submit ad op continue request) = Submit m \<Longrightarrow> \<exists>mid. m = request mid"
  by (rule submit_cases [of ad op continue request]) auto

lemma conclude_Submit: "snd (conclude ad op (Threw e)) \<noteq> Submit m" "snd (conclude ad op (Returned v)) \<noteq> Submit m"
  by (auto simp: conclude_def split: sum.splits)

text \<open>What a call may submit, by recovery state.\<close>

fun permitted :: "recovery \<Rightarrow> jsval \<Rightarrow> bool" where
  "permitted Ready m \<longleftrightarrow> True"
| "permitted (BootQuarantined sid) m \<longleftrightarrow> False"
| "permitted (UncertainExecute rid expected command) m \<longleftrightarrow>
     (\<exists>mid. m = inspect_js mid \<or> m = execute_js mid rid expected command)"
| "permitted (RestoreQuarantined n) m \<longleftrightarrow> (\<exists>mid. m = inspect_js mid)"

lemma settle_Submit:
  assumes "adapter_ok ad" "ad_pending ad = Some p" "snd (settle ad p out) = Submit m"
  shows "ad_recovery ad = Ready"
proof (cases p)
  case (AwaitSnapshot mid revision compatib)
  with assms conclude_Submit show ?thesis by (auto simp: settle_snapshot_def split: sum.splits)
next
  case (AwaitRestoreDigest raw sn revision b)
  with assms show ?thesis by (auto simp: adapter_ok_def flight_ok_def)
next
  case (AwaitSnapshotDigest raw sn revision compatib)
  with assms conclude_Submit show ?thesis by (auto simp: settle_snapshot_digest_def split: sum.splits if_splits)
qed (use assms conclude_Submit in
  \<open>auto simp: settle_boot_def settle_execute_def settle_restore_def settle_inspect_def
     split: sum.splits option.splits\<close>)

lemma step_permitted:
  assumes ok: "adapter_ok ad" and out: "snd (adapter_step ad ev) = Submit m"
  shows "permitted (ad_recovery ad) m"
proof (cases "ad_recovery ad = Ready")
  case False
  have up: "ad_revision ad = Some n \<Longrightarrow> ad_recovery ad \<noteq> BootQuarantined sid" for n sid
    using ok by (cases "ad_recovery ad") (auto simp: adapter_ok_def booted_def)
  show ?thesis
  proof (cases ev)
    case (CallBoot input)
    have "ad_compatibility ad = None \<Longrightarrow> \<not> booted ad"
      using ok by (auto simp: adapter_ok_def confirmed_ok_def booted_def split: option.splits)
    then have "ad_compatibility ad \<noteq> None \<or> (\<exists>sid. ad_recovery ad = BootQuarantined sid)"
      using ok False by (cases "ad_recovery ad") (auto simp: adapter_ok_def)
    then show ?thesis using out CallBoot by (auto simp: adapter_boot_def refuse_def split: if_splits)
  next
    case (CallExecute input aborted)
    with out obtain x where x: "execute_guards ad input aborted = Inr x"
      by (cases "execute_guards ad input aborted") (simp_all add: adapter_execute_def refuse_def)
    obtain rid expected command revision b where t: "x = (rid, expected, command, revision, b)"
      by (rule prod_cases5)
    from out CallExecute x t have s: "\<exists>mid. m = execute_js mid rid expected command"
      by (auto simp: adapter_execute_def dest: submit_snd)
    have g: "execute_guards ad input aborted = Inr (rid, expected, command, revision, b)"
      using x t by simp
    from g up False s show ?thesis
      by (cases "ad_recovery ad") (auto simp: execute_guards_iff)
  next
    case CallSnapshot
    then show ?thesis
      using out ready_booted [OF ok] False
      by (auto simp: adapter_snapshot_def refuse_def result_simps split: sum.splits)
  next
    case (CallRestore v)
    then show ?thesis
      using out ready_booted [OF ok] False
      by (auto simp: adapter_restore_def refuse_def result_simps split: sum.splits if_splits)
  next
    case CallInspect
    then have "\<exists>revision mid. ad_revision ad = Some revision \<and> m = inspect_js mid"
      using out by (auto simp: adapter_inspect_def refuse_def result_simps inspect_js_def dest: submit_snd
          split: sum.splits)
    then show ?thesis using up False by (cases "ad_recovery ad") auto
  next
    case (Settle r)
    then show ?thesis
      using out settle_Submit [OF ok] False by (auto split: option.splits)
  qed
qed simp

section \<open>Settlements\<close>

lemma settle_conf_other:
  assumes "adapter_ok ad" "ad_pending ad = Some p" "operation_of p = OpSnapshot \<or> (\<exists>raw sn n b. p = AwaitRestoreDigest raw sn n b)"
  shows "conf (fst (settle ad p out)) = conf ad"
  using assms settle_snapshot_ok settle_snapshot_digest_ok settle_restore_digest_ok
  by (cases p) auto

lemma recovery_conf: "ad_recovery ad = snd (snd (snd (conf ad)))"
  "ad_revision ad = fst (snd (conf ad))" "ad_boundary ad = fst (snd (snd (conf ad)))"
  "ad_compatibility ad = fst (conf ad)"
  by (simp_all add: conf_def)

lemma quarantine_step:
  assumes ok: "adapter_ok ad" and q: "ad_recovery ad = BootQuarantined sid \<or> ad_recovery ad = RestoreQuarantined n"
  shows "conf (fst (adapter_step ad ev)) = conf ad"
proof (cases "\<exists>out. ev = Settle out")
  case False
  then show ?thesis using adapter_call_conf [OF ok] by blast
next
  case True
  then obtain out where ev: "ev = Settle out" by blast
  show ?thesis
  proof (cases "ad_pending ad")
    case (Some p)
    from adapter_ok_pending(2) [OF ok Some] q obtain mid revision b where
      p: "p = AwaitInspect mid revision b (ad_recovery ad)"
      by (cases p) auto
    have "conf (fst (settle ad p out)) = (ad_compatibility ad, Some revision, Some b, ad_recovery ad)"
      using settle_inspect_conf(2) [OF ok, of mid revision b "ad_recovery ad" out] Some p q
      by (auto simp: uncertain_def result_simps split: sum.splits option.splits)
    with adapter_ok_pending(2) [OF ok Some] p Some ev show ?thesis
      by (simp add: conf_def)
  qed (simp add: ev)
qed

lemma quarantine_run:
  assumes "adapter_ok ad" "ad_recovery ad = BootQuarantined sid \<or> ad_recovery ad = RestoreQuarantined n"
  shows "conf (fst (run_adapter ad evs)) = conf ad \<and>
    (\<forall>m. Submit m \<in> set (snd (run_adapter ad evs)) \<longrightarrow> permitted (ad_recovery ad) m)"
  using assms
proof (induction evs arbitrary: ad)
  case (Cons ev evs)
  define ad1 where "ad1 = fst (adapter_step ad ev)"
  have c: "conf ad1 = conf ad"
    using quarantine_step [OF Cons.prems] by (simp add: ad1_def)
  then have r: "ad_recovery ad1 = ad_recovery ad" by (simp add: recovery_conf)
  have "conf (fst (run_adapter ad1 evs)) = conf ad1 \<and>
    (\<forall>m. Submit m \<in> set (snd (run_adapter ad1 evs)) \<longrightarrow> permitted (ad_recovery ad1) m)"
    using Cons.IH [of ad1] adapter_step_ok [OF Cons.prems(1)] Cons.prems(2) r by (simp add: ad1_def)
  then show ?case
    using c r step_permitted [OF Cons.prems(1)] by (auto simp: ad1_def split_beta)
qed simp

lemma uncertain_step:
  assumes ok: "adapter_ok ad" and u: "ad_recovery ad = UncertainExecute rid expected command"
  shows "ad_recovery (fst (adapter_step ad ev)) = UncertainExecute rid expected command \<or>
    (\<exists>mid revision b out r. ev = Settle out \<and> ad_recovery (fst (adapter_step ad ev)) = Ready \<and>
       ad_pending ad = Some (AwaitExecute mid rid expected command revision b) \<and>
       check_execute mid rid expected command revision b out = Inr r \<and>
       snd (adapter_step ad ev) = Returned (fst r))"
proof (cases "\<exists>out. ev = Settle out")
  case False
  then show ?thesis using adapter_call_conf [OF ok] u by (auto simp: recovery_conf)
next
  case True
  then obtain out where ev: "ev = Settle out" by blast
  show ?thesis
  proof (cases "ad_pending ad")
    case None
    with u ev show ?thesis by simp
  next
    case (Some p)
    note c = adapter_ok_pending [OF ok Some]
    from c(2) u consider
        (execute) mid revision b where "p = AwaitExecute mid rid expected command revision b"
      | (inspect) mid revision b where "p = AwaitInspect mid revision b (UncertainExecute rid expected command)"
      by (cases p) auto
    then show ?thesis
    proof cases
      case execute
      show ?thesis
      proof (cases "check_execute mid rid expected command revision b out")
        case (Inl e)
        with settle_execute_conf(2) [OF ok, of mid rid expected command revision b out] Some execute ev show ?thesis
          by (simp add: recovery_conf)
      next
        case (Inr r)
        obtain result committed n b' where r: "r = (result, committed, n, b')" by (rule prod_cases4)
        have "snd (settle_execute ad mid rid expected command revision b out) = Returned result"
          using Inr r c(1) execute by (simp add: settle_execute_def conclude_pending)
        with settle_execute_conf(2) [OF ok, of mid rid expected command revision b out] Some execute ev Inr r show ?thesis
          by (auto simp: recovery_conf)
      qed
    next
      case inspect
      with settle_inspect_conf(2) [OF ok, of mid revision b "UncertainExecute rid expected command" out] Some ev show ?thesis
        by (auto simp: recovery_conf split: sum.splits option.splits)
    qed
  qed
qed

section \<open>How the confirmed revision moves\<close>

definition revision_move :: "adapter \<Rightarrow> adapter \<Rightarrow> bool" where
  "revision_move ad ad' \<longleftrightarrow>
     (ad_revision ad' = ad_revision ad \<and> ad_boundary ad' = ad_boundary ad) \<or>
     (\<exists>mid sid sha. ad_pending ad = Some (AwaitBoot mid sid sha) \<and> ad_revision ad = None \<and>
        ad_revision ad' = Some 0 \<and> ad_compatibility ad' = Some (bind_compatibility (ad_binding ad) sid sha)) \<or>
     (\<exists>n mid rid command b. ad_pending ad = Some (AwaitExecute mid rid n command n b) \<and>
        ad_revision ad = Some n \<and> ad_revision ad' = Some (n + 1)) \<or>
     (\<exists>n mid rid expected command b.
        ad_pending ad = Some (AwaitInspect mid n b (UncertainExecute rid expected command)) \<and>
        ad_revision ad = Some n \<and> ad_revision ad' = Some (n + 1)) \<or>
     (\<exists>mid sn revision b. ad_pending ad = Some (AwaitRestore mid sn revision b) \<and>
        ad_compatibility ad = Some (sn_compatibility sn) \<and> ad_revision ad' = Some (sn_revision sn))"

lemma settle_moves:
  assumes ok: "adapter_ok ad" and p: "ad_pending ad = Some p"
  shows "revision_move ad (fst (settle ad p out)) \<and>
    (ad_compatibility ad \<noteq> None \<longrightarrow> ad_compatibility (fst (settle ad p out)) = ad_compatibility ad)"
proof -
  note cap = adapter_ok_pending(2) [OF ok p]
  have same: "revision_move ad ad' \<and> (ad_compatibility ad \<noteq> None \<longrightarrow> ad_compatibility ad' = ad_compatibility ad)"
    if "conf ad' = conf ad" for ad'
    using that by (auto simp: revision_move_def conf_def)
  show ?thesis
  proof (cases p)
    case (AwaitBoot mid sid sha)
    with ok cap have none: "ad_compatibility ad = None" "ad_revision ad = None" "ad_boundary ad = None"
      by (auto simp: adapter_ok_def confirmed_ok_def booted_def)
    show ?thesis
      using settle_boot_conf(2) [OF ok p [unfolded AwaitBoot], of out] none p AwaitBoot check_boot_iff
      by (auto simp: conf_def revision_move_def split: sum.splits)
  next
    case (AwaitExecute mid rid expected command revision b)
    have "check_execute mid rid expected command revision b out = Inr (result, True, n, b') \<Longrightarrow> revision < n \<Longrightarrow>
        n = revision + 1 \<and> expected = revision" for result n b'
      by (auto simp: result_simps)
    then show ?thesis
      using settle_execute_conf(2) [OF ok p [unfolded AwaitExecute], of out] cap p AwaitExecute
      by (auto simp: conf_def revision_move_def split: sum.splits if_splits)
  next
    case (AwaitRestore mid sn revision b)
    then show ?thesis
      using settle_restore_conf(2) [OF ok p [unfolded AwaitRestore], of out] cap p
      by (auto simp: conf_def revision_move_def split: sum.splits if_splits)
  next
    case (AwaitInspect mid revision b rec)
    have "check_inspect mid revision b rec out = Inr (state, Some (n, b')) \<Longrightarrow>
        uncertain rec \<and> (n = revision \<and> b' = b \<or> n = revision + 1)" for state n b'
      by (auto simp: result_simps split: if_splits)
    then show ?thesis
      using settle_inspect_conf(2) [OF ok p [unfolded AwaitInspect], of out] cap p AwaitInspect
      by (cases rec) (fastforce simp: conf_def revision_move_def uncertain_def split: sum.splits option.splits)+
  qed (rule same, rule settle_conf_other [OF ok p], simp)+
qed

lemma adapter_step_moves:
  assumes "adapter_ok ad"
  shows "revision_move ad (fst (adapter_step ad ev)) \<and>
    (ad_compatibility ad \<noteq> None \<longrightarrow> ad_compatibility (fst (adapter_step ad ev)) = ad_compatibility ad)"
proof (cases "\<exists>out. ev = Settle out")
  case False
  then have "conf (fst (adapter_step ad ev)) = conf ad"
    using adapter_call_conf [OF assms] by blast
  then show ?thesis by (auto simp: revision_move_def conf_def)
next
  case True
  then obtain out where ev: "ev = Settle out" by blast
  show ?thesis
  proof (cases "ad_pending ad")
    case None
    with ev show ?thesis by (simp add: revision_move_def)
  next
    case (Some p)
    from settle_moves [OF assms Some, of out] show ?thesis by (simp add: ev Some)
  qed
qed

end
