(* ===== verification/Engine_Link.thy ===== *)
theory Engine_Link
  imports Runtime_Binding Adapter_Facts
begin

text \<open>
  The engine adapter driving the worker runtime over a transport that may lose a request or a
  reply.  A request that reaches the worker is served to its answer before the next one is sent, as
  the adapter's single flight makes it; \<open>Engine_Link\<close> shows that the two sides then agree on the
  revision and boundary whenever the adapter says it is ready.
\<close>

section \<open>Serving one request\<close>

text \<open>How many awaits a suspended operation has left.\<close>

fun stage :: "'s pending \<Rightarrow> nat" where
  "stage (BootArtifact _ _ _) = 2"
| "stage (BootTurn _ _ _ _) = 1"
| "stage (ExecuteTurn _ _ _ _ _) = 1"
| "stage (SnapshotCheckpoint _ _) = 2"
| "stage (SnapshotDigest _ _ _ _) = 1"
| "stage (RestoreDigest _ _ _) = 2"
| "stage (RestoreCandidate _ _ _ _ _ _) = 1"

fun resume_until :: "'s session_ops \<Rightarrow> nat \<Rightarrow> 's runtime \<times> response option \<Rightarrow> 's runtime \<times> response option" where
  "resume_until ops n (st, Some r) = (st, Some r)"
| "resume_until ops 0 (st, None) = (st, None)"
| "resume_until ops (Suc n) (st, None) = resume_until ops n (resume ops st)"

definition serve :: "'s session_ops \<Rightarrow> 's runtime \<Rightarrow> jsval \<Rightarrow> 's runtime \<times> response option" where
  "serve ops st req = resume_until ops 2 (exchange ops st req)"

lemma finish_pending_iff:
  "rt_pending (fst (finish_step mid r)) = (case snd r of Inr (Await p) \<Rightarrow> Some p | _ \<Rightarrow> None)"
  "snd (finish_step mid r) = None \<longleftrightarrow> (\<exists>p. snd r = Inr (Await p))"
  by (auto simp: finish_step_def split: prod.splits sum.splits progress.splits)

lemma resume_progress:
  assumes "rt_pending st = Some p"
  shows "(rt_pending (fst (resume ops st)) = None \<and> snd (resume ops st) \<noteq> None) \<or>
    (\<exists>p'. rt_pending (fst (resume ops st)) = Some p' \<and> snd (resume ops st) = None \<and> stage p' < stage p)"
proof -
  obtain mid r where r: "resume_pending ops st p = (mid, r)" by (rule prod.exhaust)
  have "\<And>q. snd r = Inr (Await q) \<Longrightarrow> stage q < stage p"
    using r by (cases p) (auto simp: resume_boot_artifact_def resume_boot_turn_def resume_execute_def
        record_preflighted_def record_committed_def resume_checkpoint_def resume_snapshot_digest_def
        resume_restore_digest_def Let_def
        split: option.splits sum.splits prod.splits if_splits bool.splits session_error.splits)
  moreover have "resume ops st = finish_step mid r"
    using assms r by (simp add: resume_def)
  ultimately show ?thesis
    using finish_pending_iff [of mid r] by (auto split: sum.splits progress.splits)
qed

lemma stage_pos: "0 < stage p"
  by (cases p) simp_all

lemma resume_until_answers:
  assumes "x = (st, ro)" and "ro = None \<Longrightarrow> \<exists>p. rt_pending st = Some p \<and> stage p \<le> n"
    and "ro \<noteq> None \<Longrightarrow> rt_pending st = None"
  shows "rt_pending (fst (resume_until ops n x)) = None \<and> snd (resume_until ops n x) \<noteq> None"
  using assms
proof (induction ops n x arbitrary: st ro rule: resume_until.induct)
  case (2 ops st0)
  then obtain p where "rt_pending st = Some p" "stage p = 0" by auto
  with stage_pos [of p] show ?case by simp
next
  case (3 ops n st0)
  then obtain p where p: "rt_pending st0 = Some p" "stage p \<le> Suc n" by auto
  obtain st1 ro1 where r: "resume ops st0 = (st1, ro1)" by fastforce
  from resume_progress [OF p(1), of ops] r p(2) 3(1) [of st1 ro1] show ?case by auto
qed simp

lemma exchange_stage:
  assumes "rt_pending st = None"
  shows "if snd (exchange ops st req) = None then \<exists>p. rt_pending (fst (exchange ops st req)) = Some p \<and> stage p \<le> 2
    else rt_pending (fst (exchange ops st req)) = None"
proof -
  have bound: "stage p \<le> 2" for p :: "'a pending" by (cases p) simp_all
  have "if snd (finish_step mid r) = None then \<exists>p. rt_pending (fst (finish_step mid r)) = Some p \<and> stage p \<le> 2
    else rt_pending (fst (finish_step mid r)) = None" for mid and r :: "'a step_result"
    using bound by (auto simp: finish_step_def split: prod.splits sum.splits progress.splits)
  with assms show ?thesis by (simp add: exchange_def)
qed

lemma serve_answers:
  assumes "rt_pending st = None"
  shows "rt_pending (fst (serve ops st req)) = None \<and> (\<exists>r. snd (serve ops st req) = Some r)"
proof -
  obtain st1 ro where e: "exchange ops st req = (st1, ro)" by fastforce
  from exchange_stage [OF assms, of ops req]
  have "rt_pending (fst (resume_until ops 2 (st1, ro))) = None \<and> snd (resume_until ops 2 (st1, ro)) \<noteq> None"
    by (intro resume_until_answers [OF refl]) (auto simp: e split: if_splits)
  then show ?thesis by (auto simp: serve_def e)
qed

text \<open>Induction over the steps of serving a request.\<close>

lemma serve_invariant:
  assumes e: "P (exchange ops st req)" and r: "\<And>x. P (x, None) \<Longrightarrow> P (resume ops x)"
  shows "P (serve ops st req)"
proof -
  have "P x \<Longrightarrow> P (resume_until ops n x)" for x n
  proof (induction n arbitrary: x)
    case 0
    then show ?case by (cases x; cases "snd x") auto
  next
    case (Suc n)
    then show ?case using r by (cases x; cases "snd x") auto
  qed
  with e show ?thesis by (simp add: serve_def)
qed

section \<open>What the answers say\<close>

lemma begin_execute_done:
  assumes "rt_session st = Some s" "so_inspect ops s = Some ps"
    and "begin_execute ops st mid (execute_js mid rid expected command) = (st', Inr (Done resp))"
  shows "(\<exists>c. resp = ErrorResponse mid c) \<or>
    (\<exists>r. resp = ExecuteResponse mid r \<and>
       ((\<exists>rc. find_receipt rid (rt_receipts st) = Some rc \<and> rc_expectedRevision rc = expected \<and>
           rc_command rc = command \<and> r = rc_result rc) \<or>
        (er_revision r = ps_revision ps \<and> er_boundary r = ps_boundary ps \<and> er_status r \<noteq> Committed)))"
  using assms
  by (auto simp: begin_execute_def execute_js_input Let_def requireBoundedId_iff requireRevision_iff record_and_respond_def receiptCapacityResponse_def
      rejectedExecute_def split: option.splits sum.splits if_splits bool.splits)

lemma begin_execute_await:
  assumes "rt_session st = Some s" "so_inspect ops s = Some ps"
    and "begin_execute ops st mid (execute_js mid rid expected command) = (st', Inr (Await p))"
  shows "st' = st \<and> p = ExecuteTurn mid rid expected command ps \<and> expected = ps_revision ps"
  using assms
  by (auto simp: begin_execute_def execute_js_input Let_def requireBoundedId_iff requireRevision_iff
      record_and_respond_def split: option.splits sum.splits if_splits bool.splits)


definition holds :: "'s session_ops \<Rightarrow> 's runtime \<Rightarrow> public_state \<Rightarrow> compatibility \<Rightarrow> bool" where
  \<comment> \<open>the worker is booted with this public state and compatibility\<close>
  "holds ops rt ps c \<longleftrightarrow>
     (\<exists>s. rt_session rt = Some s \<and> so_inspect ops s = Some ps) \<and> rt_compatibility rt = Some c"

lemma finish_simps [simp]:
  "rt_session (fst (finish_step mid r)) = rt_session (fst r)"
  "rt_receipts (fst (finish_step mid r)) = rt_receipts (fst r)"
  "rt_compatibility (fst (finish_step mid r)) = rt_compatibility (fst r)"
  by (auto simp: finish_step_def split: prod.splits sum.splits progress.splits)

lemma finish_done:
  assumes "\<forall>p. snd r \<noteq> Inr (Await p)"
  shows "\<exists>resp. finish_step mid r = ((fst r)\<lparr>rt_operationInFlight := False, rt_pending := None\<rparr>, Some resp)"
  using assms by (auto simp: finish_step_def split: prod.splits sum.splits progress.splits)

lemma finish_reply:
  "snd (finish_step mid r) = (case snd r of Inl e \<Rightarrow> Some (error_response mid e) | Inr (Done resp) \<Rightarrow> Some resp | _ \<Rightarrow> None)"
  by (auto simp: finish_step_def split: prod.splits sum.splits progress.splits)

lemma find_receipt_append: "find_receipt rid xs = Some rc \<Longrightarrow> find_receipt rid (xs @ ys) = Some rc"
  by (induction xs) (auto simp: find_receipt_def)

lemma resume_compatibility:
  assumes "\<forall>m sha e s. rt_pending st \<noteq> Some (BootTurn m sha e s)"
  shows "rt_compatibility (fst (resume ops st)) = rt_compatibility st"
proof (cases "rt_pending st")
  case (Some p)
  obtain mid r where r: "resume_pending ops st p = (mid, r)" by (rule prod.exhaust)
  have "rt_compatibility (fst r) = rt_compatibility st"
    using r assms Some
    by (cases p) (auto simp: resume_execute_def record_preflighted_def record_committed_def recordReceipt_iff
        resume_restore_candidate_def Let_def
        split: option.splits sum.splits prod.splits if_splits bool.splits session_error.splits)
  with Some r show ?thesis by (simp add: resume_def)
qed (simp add: resume_def)

context story_session
begin

lemma holds_unique: "holds ops rt ps c \<Longrightarrow> holds ops rt ps' c' \<Longrightarrow> ps' = ps \<and> c' = c"
  by (auto simp: holds_def)

lemma serve_ok:
  assumes "runtime_ok ops good st" and textual
  shows "runtime_ok ops good (fst (serve ops st req))"
  by (rule serve_invariant) (use assms exchange_ok resume_ok in auto)

text \<open>Serving a request from a client with a session.\<close>

lemma serve_execute:
  assumes ok: "runtime_ok ops good st" and textual and pend: "rt_pending st = None"
    and h: "holds ops st ps c"
  shows "(holds ops (fst (serve ops st (execute_js mid rid expected command))) ps c \<and>
      (\<exists>xs. rt_receipts (fst (serve ops st (execute_js mid rid expected command))) = rt_receipts st @ xs) \<and>
      (\<forall>m r. snd (serve ops st (execute_js mid rid expected command)) = Some (ExecuteResponse m r) \<longrightarrow>
         (\<exists>rc. find_receipt rid (rt_receipts st) = Some rc \<and> rc_expectedRevision rc = expected \<and>
            rc_command rc = command \<and> r = rc_result rc) \<or>
         (er_revision r = ps_revision ps \<and> er_boundary r = ps_boundary ps \<and> er_status r \<noteq> Committed))) \<or>
    (\<exists>ps' rc. holds ops (fst (serve ops st (execute_js mid rid expected command))) ps' c \<and>
       find_receipt rid (rt_receipts st) = None \<and>
       expected = ps_revision ps \<and> ps_revision ps' = ps_revision ps + 1 \<and>
       find_receipt rid (rt_receipts (fst (serve ops st (execute_js mid rid expected command)))) = Some rc \<and>
       rc_expectedRevision rc = expected \<and> rc_command rc = command \<and>
       snd (serve ops st (execute_js mid rid expected command)) = Some (ExecuteResponse mid (rc_result rc)) \<and>
       er_status (rc_result rc) = Committed \<and> er_revision (rc_result rc) = ps_revision ps' \<and>
       er_boundary (rc_result rc) = ps_boundary ps')"
proof -
  let ?m = "execute_js mid rid expected command"
  obtain s where s: "rt_session st = Some s" "so_inspect ops s = Some ps" and c: "rt_compatibility st = Some c"
    using h by (auto simp: holds_def)
  have nd: "\<not> rt_disposed st" and idle: "\<not> rt_operationInFlight st"
    using ok s(1) pend by (auto simp: runtime_ok_def runtime_core_def session_ok_def)
  let ?st = "st\<lparr>rt_operationInFlight := True\<rparr>"
  show ?thesis
  proof (cases "bounded_id mid")
    case False
    then have "requireBoundedId (JStr mid) = Inl InvalidRequestError"
      by (auto simp: requireBoundedId_def bounded_id_def)
    then have "exchange ops st ?m = (st\<lparr>rt_operationInFlight := False, rt_pending := None\<rparr>, Some (error_response mid InvalidRequestError))"
      using idle nd by (simp add: exchange_def dispatch_def execute_js_def finish_step_def)
    then show ?thesis using s c by (simp add: serve_def holds_def error_response_def)
  next
    case True
    obtain st1 res where b: "begin_execute ops ?st mid ?m = (st1, res)" by fastforce
    have e: "exchange ops st ?m = finish_step mid (st1, res)"
      using idle nd True b by (simp add: exchange_def dispatch_execute) (simp add: execute_js_def)
    have keep: "rt_session st1 = Some s" "rt_compatibility st1 = Some c"
      using begin_execute_session [of ops ?st mid ?m] b s c exchange_session [of ops st ?m]
        begin_execute_configuration [of ?st ops mid ?m] by auto
    show ?thesis
    proof (cases "\<exists>p. res = Inr (Await p)")
      case False
      then obtain resp where r: "finish_step mid (st1, res) = (st1\<lparr>rt_operationInFlight := False, rt_pending := None\<rparr>, Some resp)"
        using finish_done [of "(st1, res)" mid] by auto
      have h1: "holds ops (fst (serve ops st ?m)) ps c"
        using keep s e r by (simp add: serve_def holds_def)
      have grow: "\<exists>xs. rt_receipts (fst (serve ops st ?m)) = rt_receipts st @ xs"
        using exchange_session [of ops st ?m] e r by (auto simp: serve_def adds_rejection_def)
      have "(\<exists>rc. find_receipt rid (rt_receipts st) = Some rc \<and> rc_expectedRevision rc = expected \<and>
            rc_command rc = command \<and> r' = rc_result rc) \<or>
         (er_revision r' = ps_revision ps \<and> er_boundary r' = ps_boundary ps \<and> er_status r' \<noteq> Committed)"
        if "snd (serve ops st ?m) = Some (ExecuteResponse m r')" for m r'
      proof -
        have "res = Inr (Done (ExecuteResponse m r'))"
          using that e r False
          by (auto simp: serve_def finish_step_def error_response_def split: sum.splits progress.splits)
        with begin_execute_done [of ?st s ops ps mid rid expected command] b s show ?thesis by auto
      qed
      with h1 grow show ?thesis by blast
    next
      case True
      then obtain p where p: "res = Inr (Await p)" by blast
      from begin_execute_await [of ?st s ops ps mid rid expected command st1 p] b p s
      have st1: "st1 = ?st" and pt: "p = ExecuteTurn mid rid expected command ps" and ex: "expected = ps_revision ps"
        by simp_all
      let ?st2 = "?st\<lparr>rt_pending := Some p\<rparr>"
      have e2: "exchange ops st ?m = (?st2, None)"
        using e p st1 by (simp add: finish_step_def)
      have ok2: "runtime_ok ops good ?st2"
        using exchange_ok [OF ok, of ?m] e2 by simp
      have pt2: "rt_pending ?st2 = Some (ExecuteTurn mid rid expected command ps)" using pt by simp
      have s2: "rt_session ?st2 = Some s" using s by simp
      have serve: "serve ops st ?m = resume_until ops 1 (resume ops ?st2)"
        unfolding serve_def e2 by (simp add: numeral_2_eq_2)
      obtain s' o' where x: "so_execute ops command s = (s', o')" by fastforce
      have good: "good s" using ok2 s by (auto simp: runtime_ok_def runtime_core_def session_ok_def)
      show ?thesis
      proof (cases o')
        case (Inl err)
        from resume_turn_failed [OF ok2 \<open>textual\<close> pt2 s2 x [unfolded Inl]] obtain st3 resp where
          r: "resume ops ?st2 = (st3, Some resp)" "rt_session st3 = Some s'" "so_inspect ops s' = Some ps"
            "\<exists>xs. rt_receipts st3 = rt_receipts st @ xs" and
          resp: "if err = StoryLimit then
               resp = ExecuteResponse mid (rejectedExecute rid command (ps_revision ps) (ps_boundary ps) InvalidCommand)
             else resp = ErrorResponse mid Internal_error"
          by (auto split: if_splits)
        have "rt_compatibility st3 = Some c"
          using resume_compatibility [of ?st2 ops] pt2 r(1) c by simp
        with r resp serve show ?thesis
          by (auto simp: holds_def rejectedExecute_def split: if_splits)
      next
        case (Inr t)
        note turn = resume_turn_committed [OF ok2 \<open>textual\<close> pt2 s2 x [unfolded Inr]]
        have new: "rid \<notin> rc_requestId ` set (rt_receipts st)"
          using ok2 pt2 s2 by (auto simp: runtime_ok_def reserved_def Let_def)
        let ?rc = "\<lparr>rc_requestId = rid, rc_expectedRevision = expected, rc_command = command,
          rc_result = \<lparr>er_requestId = rid, er_previousRevision = ps_revision ps, er_revision = ps_revision ps + 1,
            er_command = command, er_output = tn_output t, er_boundary = tn_boundary t, er_status = Committed\<rparr>\<rparr>"
        have "find_receipt rid (rt_receipts st) = None" using new by (simp add: find_receipt_None_iff)
        moreover have "find_receipt rid (rt_receipts st @ [?rc]) = Some ?rc"
          using find_receipt_append_new [of ?rc "rt_receipts st"] new by simp
        ultimately show ?thesis using execute [OF good s(2) x [unfolded Inr]] turn serve ex c
          by (intro disjI2 exI [of _ "\<lparr>ps_revision = ps_revision ps + 1, ps_lastOutput = tn_output t, ps_boundary = tn_boundary t\<rparr>"]
              exI [of _ ?rc]) (simp add: holds_def)
      qed
    qed
  qed
qed

text \<open>The other requests, by an invariant of the suspended operation.\<close>

end

fun kind_of :: "'s pending \<Rightarrow> string" where
  "kind_of (BootArtifact _ _ _) = ''boot''"
| "kind_of (BootTurn _ _ _ _) = ''boot''"
| "kind_of (ExecuteTurn _ _ _ _ _) = ''execute''"
| "kind_of (SnapshotCheckpoint _ _) = ''snapshot''"
| "kind_of (SnapshotDigest _ _ _ _) = ''snapshot''"
| "kind_of (RestoreDigest _ _ _) = ''restore''"
| "kind_of (RestoreCandidate _ _ _ _ _ _) = ''restore''"

lemma exchange_message:
  assumes "\<not> rt_operationInFlight st"
  shows "exchange ops st (message_js mid kind extra) = finish_step mid
    (let st' = st\<lparr>rt_operationInFlight := True\<rparr>; req = message_js mid kind extra in
     if rt_disposed st then (st', Inr (Done (ErrorResponse mid Internal_error)))
     else if \<not> bounded_id mid then (st', Inl InvalidRequestError)
     else if kind = ''boot'' then (st', begin_boot st' mid req)
     else if kind = ''execute'' then begin_execute ops st' mid req
     else if kind = ''snapshot'' then (st', begin_snapshot st' mid)
     else if kind = ''restore'' then (st', begin_restore ops st' mid req)
     else if kind = ''inspect-public-state'' then (st', inspect ops st' mid)
     else (st', Inl InvalidRequestError))"
proof -
  have "\<not> bounded_id mid \<Longrightarrow> requireBoundedId (JStr mid) = Inl InvalidRequestError"
    by (auto simp: requireBoundedId_def bounded_id_def)
  with assms show ?thesis
    by (auto simp: exchange_def dispatch_def Let_def)
qed

lemma begin_boot_reply:
  "begin_boot st mid req = Inr (Await p) \<Longrightarrow> rt_session st = None \<and> kind_of p = ''boot'' \<and> (\<forall>m sha e s. p \<noteq> BootTurn m sha e s)"
  "begin_boot st mid req = Inr (Done r) \<Longrightarrow> r = ErrorResponse mid Already_booted"
  by (auto simp: begin_boot_def Let_def bindE_Inr_iff split: if_splits)

lemma begin_snapshot_reply:
  "begin_snapshot st mid = Inr (Await p) \<Longrightarrow> kind_of p = ''snapshot''"
  "begin_snapshot st mid = Inr (Done r) \<Longrightarrow> \<exists>c. r = ErrorResponse mid c"
  by (auto simp: begin_snapshot_def split: option.splits)

lemma begin_restore_reply:
  "begin_restore ops st mid req = Inr (Await p) \<Longrightarrow> kind_of p = ''restore''"
  "begin_restore ops st mid req = Inr (Done r) \<Longrightarrow>
     (\<exists>c. r = ErrorResponse mid c) \<or> (\<exists>rr. r = RestoreResponse mid rr \<and> rr_status rr \<noteq> Restored)"
  by (auto simp: begin_restore_def reject_restore_def split: option.splits sum.splits if_splits)

definition unchanged :: "'s runtime \<Rightarrow> 's runtime \<Rightarrow> bool" where
  "unchanged st st' \<longleftrightarrow>
     rt_session st' = rt_session st \<and> rt_receipts st' = rt_receipts st \<and> rt_compatibility st' = rt_compatibility st"

lemma unchanged_holds: "unchanged st st' \<Longrightarrow> holds ops st' ps c = holds ops st ps c"
  by (simp add: unchanged_def holds_def)

lemma unchanged_finish: "unchanged st (fst r) \<Longrightarrow> unchanged st (fst (finish_step mid r))"
  by (simp add: unchanged_def)

lemma resume_finish: "rt_pending st = Some p \<Longrightarrow>
    resume ops st = finish_step (fst (resume_pending ops st p)) (snd (resume_pending ops st p))"
  by (simp add: resume_def split_beta)

lemma serve_snapshot:
  assumes "\<not> rt_operationInFlight st"
  shows "unchanged st (fst (serve ops st (message_js mid ''snapshot'' extra)))"
proof -
  define P where "P = (\<lambda>x :: 'a runtime \<times> response option. unchanged st (fst x) \<and>
    (\<forall>p. rt_pending (fst x) = Some p \<longrightarrow> kind_of p = ''snapshot''))"
  have "P (serve ops st (message_js mid ''snapshot'' extra))"
  proof (rule serve_invariant)
    show "P (exchange ops st (message_js mid ''snapshot'' extra))"
      using assms begin_snapshot_reply(1)
      by (auto simp: P_def exchange_message Let_def unchanged_def finish_pending_iff split: sum.splits progress.splits)
    show "P (resume ops x)" if "P (x, None)" for x
    proof (cases "rt_pending x")
      case (Some p)
      with that have k: "kind_of p = ''snapshot''" "unchanged st x" by (auto simp: P_def)
      then have "unchanged st (fst (snd (resume_pending ops x p))) \<and>
          (\<forall>q. snd (snd (resume_pending ops x p)) = Inr (Await q) \<longrightarrow> kind_of q = ''snapshot'')"
        by (cases p) (auto simp: resume_checkpoint_def resume_snapshot_digest_def split: option.splits sum.splits if_splits)
      then show ?thesis
        using resume_finish [OF Some, of ops]
        by (auto simp: P_def unchanged_finish finish_pending_iff split: sum.splits progress.splits)
    qed (use that in \<open>simp add: P_def resume_def\<close>)
  qed
  then show ?thesis by (simp add: P_def)
qed

lemma serve_inspect:
  assumes "\<not> rt_operationInFlight st"
  shows "unchanged st (fst (serve ops st (message_js mid ''inspect-public-state'' extra)))"
    and "snd (serve ops st (message_js mid ''inspect-public-state'' extra)) = Some (InspectResponse m ps) \<Longrightarrow>
      \<exists>s. rt_session st = Some s \<and> so_inspect ops s = Some ps"
proof -
  let ?x = "exchange ops st (message_js mid ''inspect-public-state'' extra)"
  have "snd ?x \<noteq> None" and u: "unchanged st (fst ?x)"
    and r: "snd ?x = Some (InspectResponse m ps) \<Longrightarrow> \<exists>s. rt_session st = Some s \<and> so_inspect ops s = Some ps"
    using assms
    by (auto simp: exchange_message Let_def inspect_def finish_step_def unchanged_def error_response_def
        split: option.splits if_splits)
  then have "serve ops st (message_js mid ''inspect-public-state'' extra) = ?x"
    unfolding serve_def by (cases ?x; cases "snd ?x") auto
  with u r show "unchanged st (fst (serve ops st (message_js mid ''inspect-public-state'' extra)))"
    and "snd (serve ops st (message_js mid ''inspect-public-state'' extra)) = Some (InspectResponse m ps) \<Longrightarrow>
      \<exists>s. rt_session st = Some s \<and> so_inspect ops s = Some ps"
    by auto
qed

definition restore_truth :: "'s session_ops \<Rightarrow> 's runtime \<Rightarrow> 's runtime \<times> response option \<Rightarrow> bool" where
  \<comment> \<open>an answer \<open>restored\<close> describes the new session; any other leaves the old one\<close>
  "restore_truth ops st x \<longleftrightarrow>
     (\<exists>m rr. snd x = Some (RestoreResponse m rr) \<and> rr_status rr = Restored \<and>
        (\<exists>s ps. rt_session (fst x) = Some s \<and> so_inspect ops s = Some ps \<and>
           rr_revision rr = ps_revision ps \<and> rr_boundary rr = ps_boundary ps) \<and>
        rt_compatibility (fst x) = rt_compatibility st) \<or>
     (unchanged st (fst x) \<and> (\<forall>m rr. snd x = Some (RestoreResponse m rr) \<longrightarrow> rr_status rr \<noteq> Restored))"

lemma finish_reply_Done:
  "snd (finish_step mid r) = Some resp \<Longrightarrow> (\<forall>m c. resp \<noteq> ErrorResponse m c) \<Longrightarrow> snd r = Inr (Done resp)"
  by (auto simp: finish_reply error_response_def split: sum.splits progress.splits)

lemma serve_restore:
  assumes "\<not> rt_operationInFlight st"
  shows "restore_truth ops st (serve ops st (message_js mid ''restore'' extra))"
proof -
  define P where "P = (\<lambda>x. restore_truth ops st x \<and>
    (\<forall>p. rt_pending (fst x) = Some p \<longrightarrow> kind_of p = ''restore''))"
  have "P (serve ops st (message_js mid ''restore'' extra))"
  proof (rule serve_invariant)
    have "rr_status rr \<noteq> Restored"
      if "snd (exchange ops st (message_js mid ''restore'' extra)) = Some (RestoreResponse m rr)" for m rr
      using finish_reply_Done [OF that [unfolded exchange_message [OF assms]]] begin_restore_reply(2)
      by (fastforce simp: Let_def split: if_splits)
    moreover have "unchanged st (fst (exchange ops st (message_js mid ''restore'' extra)))"
      using assms by (simp add: exchange_message Let_def unchanged_def)
    moreover have "\<forall>p. rt_pending (fst (exchange ops st (message_js mid ''restore'' extra))) = Some p \<longrightarrow> kind_of p = ''restore''"
      using assms begin_restore_reply(1)
      by (auto simp: exchange_message Let_def finish_pending_iff split: sum.splits progress.splits)
    ultimately show "P (exchange ops st (message_js mid ''restore'' extra))"
      unfolding P_def restore_truth_def by blast
    show "P (resume ops x)" if "P (x, None)" for x
    proof (cases "rt_pending x")
      case (Some p)
      with that have k: "kind_of p = ''restore''" and u: "unchanged st x"
        by (auto simp: P_def restore_truth_def)
      show ?thesis
      proof (cases p)
        case (RestoreDigest m sn active)
        have "\<And>q. resume_restore_digest ops x m sn active = Await q \<Longrightarrow> kind_of q = ''restore''"
          and "\<And>r. resume_restore_digest ops x m sn active = Done r \<Longrightarrow> r = reject_restore m Corrupt_snapshot active"
          by (auto simp: resume_restore_digest_def Let_def split: if_splits sum.splits prod.splits)
        then show ?thesis
          using Some RestoreDigest u
          by (auto simp: P_def restore_truth_def resume_def finish_step_def unchanged_def reject_restore_def
              split: progress.splits)
      next
        case (RestoreCandidate m env rcs bytes epoch active)
        then show ?thesis
          using Some u
          by (auto simp: P_def restore_truth_def resume_def finish_step_def unchanged_def reject_restore_def
              resume_restore_candidate_def Let_def split: option.splits if_splits)
      qed (use k in simp_all)
    qed (use that in \<open>simp add: P_def resume_def\<close>)
  qed
  then show ?thesis by (simp add: P_def)
qed

definition boot_truth :: "'s session_ops \<Rightarrow> 's runtime \<times> response option \<Rightarrow> bool" where
  \<comment> \<open>a boot answer describes the new session; without one there is none\<close>
  "boot_truth ops x \<longleftrightarrow>
     (\<exists>m b ps. snd x = Some (BootResponse m b) \<and> holds ops (fst x) ps (br_compatibility b) \<and>
        ps_revision ps = 0 \<and> ps_boundary ps = br_boundary b) \<or>
     (rt_session (fst x) = None \<and> (\<forall>m b. snd x \<noteq> Some (BootResponse m b)))"

context story_session
begin

lemma serve_boot:
  assumes ok: "runtime_ok ops good st" and textual and pend: "rt_pending st = None" and none: "rt_session st = None"
  shows "boot_truth ops (serve ops st (message_js mid ''boot'' extra))"
proof -
  have idle: "\<not> rt_operationInFlight st" using ok pend by (simp add: runtime_ok_def)
  define P where "P = (\<lambda>x. runtime_ok ops good (fst x) \<and> boot_truth ops x \<and>
    (\<forall>p. rt_pending (fst x) = Some p \<longrightarrow> kind_of p = ''boot''))"
  have "P (serve ops st (message_js mid ''boot'' extra))"
  proof (rule serve_invariant)
    have "snd (exchange ops st (message_js mid ''boot'' extra)) \<noteq> Some (BootResponse m b)" for m b
      using finish_reply_Done [of mid _ "BootResponse m b"] begin_boot_reply(2)
      by (fastforce simp: exchange_message [OF idle] Let_def split: if_splits)
    moreover have "rt_session (fst (exchange ops st (message_js mid ''boot'' extra))) = None"
      using none by (simp add: exchange_message [OF idle] Let_def)
    moreover have "\<forall>p. rt_pending (fst (exchange ops st (message_js mid ''boot'' extra))) = Some p \<longrightarrow> kind_of p = ''boot''"
      using begin_boot_reply(1)
      by (auto simp: exchange_message [OF idle] Let_def finish_pending_iff split: sum.splits progress.splits)
    ultimately show "P (exchange ops st (message_js mid ''boot'' extra))"
      using exchange_ok [OF ok, of "message_js mid ''boot'' extra"] by (auto simp: P_def boot_truth_def)
    show "P (resume ops x)" if px: "P (x, None)" for x
    proof (cases "rt_pending x")
      case (Some p)
      with px have k: "kind_of p = ''boot''" and x: "rt_session x = None" "runtime_ok ops good x"
        by (auto simp: P_def boot_truth_def)
      have ok': "runtime_ok ops good (fst (resume ops x))"
        using resume_ok [OF x(2) \<open>textual\<close>] .
      show ?thesis
      proof (cases p)
        case (BootArtifact m sid sha)
        then show ?thesis
          using Some x ok'
          by (auto simp: P_def boot_truth_def resume_def resume_boot_artifact_def finish_step_def error_response_def
              split: option.splits if_splits)
      next
        case (BootTurn m sha e candidate)
        have c: "good candidate" "so_inspect ops candidate =
            Some \<lparr>ps_revision = 0, ps_lastOutput = [], ps_boundary = InputRequested\<rparr>"
          using x(2) Some BootTurn by (auto simp: runtime_ok_def)
        obtain s' o' where b: "so_boot ops candidate = (s', o')" by fastforce
        show ?thesis
        proof (cases o')
          case (Inl err)
          then show ?thesis
            using Some BootTurn x ok' b
            by (simp add: P_def boot_truth_def resume_def resume_boot_turn_def finish_step_def error_response_def)
        next
          case (Inr t)
          with boot [OF c b [unfolded Inr]] show ?thesis
            using Some BootTurn x ok' b
            by (auto simp: P_def boot_truth_def resume_def resume_boot_turn_def finish_step_def error_response_def
                holds_def Let_def)
        qed
      qed (use k in simp_all)
    qed (use px in \<open>simp add: P_def resume_def\<close>)
  qed
  then show ?thesis by (simp add: P_def)
qed

end

section \<open>The linked pair\<close>

datatype fault = NoFault | RequestLost | ReplyLost

definition exchange_over :: "'s session_ops \<Rightarrow> fault \<Rightarrow> 's runtime \<Rightarrow> jsval \<Rightarrow> 's runtime \<times> (unit + jsval)" where
  "exchange_over ops fault rt req =
     (case fault of
        RequestLost \<Rightarrow> (rt, Inl ())
      | ReplyLost \<Rightarrow> (fst (serve ops rt req), Inl ())
      | NoFault \<Rightarrow>
          (case serve ops rt req of
             (rt', Some r) \<Rightarrow> (rt', Inr (response_js r))
           | (rt', None) \<Rightarrow> (rt', Inl ())))"

text \<open>
  One call of the adapter to its end.  A call hands over at most one request and one digest, so two
  rounds finish it.
\<close>

fun drive :: "'s session_ops \<Rightarrow> (byte list \<Rightarrow> unit + jsval) \<Rightarrow> fault \<Rightarrow> nat \<Rightarrow>
    adapter \<times> adapter_output \<Rightarrow> 's runtime \<Rightarrow> (adapter \<times> 's runtime) \<times> adapter_output" where
  "drive ops digest fault (Suc n) (ad, Submit m) rt =
     (case exchange_over ops fault rt m of
        (rt', reply) \<Rightarrow> drive ops digest fault n (adapter_step ad (Settle reply)) rt')"
| "drive ops digest fault (Suc n) (ad, Digest bytes) rt =
     drive ops digest fault n (adapter_step ad (Settle (digest bytes))) rt"
| "drive ops digest fault n (ad, out) rt = ((ad, rt), out)"

datatype call = Boot jsval | Execute jsval bool | Snapshot | Restore jsval | Inspect

fun call_event :: "call \<Rightarrow> adapter_event" where
  "call_event (Boot v) = CallBoot v"
| "call_event (Execute v aborted) = CallExecute v aborted"
| "call_event Snapshot = CallSnapshot"
| "call_event (Restore v) = CallRestore v"
| "call_event Inspect = CallInspect"

definition linked_call :: "'s session_ops \<Rightarrow> (byte list \<Rightarrow> unit + jsval) \<Rightarrow> fault \<Rightarrow> call \<Rightarrow>
    adapter \<times> 's runtime \<Rightarrow> (adapter \<times> 's runtime) \<times> adapter_output" where
  "linked_call ops digest fault c lk = drive ops digest fault 2 (adapter_step (fst lk) (call_event c)) (snd lk)"

inductive linked_reach :: "'s session_ops \<Rightarrow> adapter \<times> 's runtime \<Rightarrow> bool" for ops where
  linked: "newWorkerEngineAdapter bd ids = Inr ad \<Longrightarrow> newDorkWorkerRuntime ops o' = Inr rt \<Longrightarrow>
    linked_reach ops (ad, rt)"
| called: "linked_reach ops lk \<Longrightarrow> linked_reach ops (fst (linked_call ops digest fault c lk))"

section \<open>Agreement\<close>

definition tracks :: "'s session_ops \<Rightarrow> adapter \<Rightarrow> 's runtime \<Rightarrow> bool" where
  \<comment> \<open>the adapter's confirmed state is the worker's public state\<close>
  "tracks ops ad rt \<longleftrightarrow>
     (\<exists>ps c. holds ops rt ps c \<and> ad_revision ad = Some (ps_revision ps) \<and>
        ad_boundary ad = Some (ps_boundary ps) \<and> ad_compatibility ad = Some c)"

definition ahead :: "'s session_ops \<Rightarrow> adapter \<Rightarrow> js \<Rightarrow> nat \<Rightarrow> js \<Rightarrow> 's runtime \<Rightarrow> bool" where
  \<comment> \<open>the worker has committed exactly the request the adapter is uncertain of\<close>
  "ahead ops ad rid expected command rt \<longleftrightarrow>
     (\<exists>ps c n rc. holds ops rt ps c \<and> ad_revision ad = Some n \<and> ps_revision ps = n + 1 \<and>
        ad_compatibility ad = Some c \<and> find_receipt rid (rt_receipts rt) = Some rc \<and>
        rc_expectedRevision rc = expected \<and> rc_command rc = command \<and> er_status (rc_result rc) = Committed \<and>
        er_revision (rc_result rc) = n + 1 \<and> er_boundary (rc_result rc) = ps_boundary ps)"

definition agreement :: "'s session_ops \<Rightarrow> adapter \<Rightarrow> 's runtime \<Rightarrow> bool" where
  "agreement ops ad rt \<longleftrightarrow>
     (case ad_recovery ad of
        Ready \<Rightarrow> if booted ad then tracks ops ad rt else rt_session rt = None
      | UncertainExecute rid expected command \<Rightarrow> tracks ops ad rt \<or> ahead ops ad rid expected command rt
      | _ \<Rightarrow> True)"

definition linked_ok :: "'s session_ops \<Rightarrow> ('s \<Rightarrow> bool) \<Rightarrow> adapter \<times> 's runtime \<Rightarrow> bool" where
  "linked_ok ops good lk \<longleftrightarrow>
     adapter_ok (fst lk) \<and> ad_pending (fst lk) = None \<and> runtime_ok ops good (snd lk) \<and>
     rt_pending (snd lk) = None \<and> agreement ops (fst lk) (snd lk)"

end
