(* ===== verification/Link_Agreement.thy ===== *)
theory Link_Agreement
  imports Engine_Link
begin

text \<open>
  The agreement of \<open>Engine_Link\<close> is kept by every call, whatever the transport loses and whatever
  the digest returns: first what the adapter accepts of a worker's answer, then the shapes of a
  call, then each kind of call.
\<close>

section \<open>Accepted answers\<close>

lemma receive_response:
  "receive mid kind (Inr (response_js r)) = Inr v \<Longrightarrow> v = response_js r \<and>
     (case r of
        BootResponse m _ \<Rightarrow> m = mid \<and> kind = ''boot.result''
      | ExecuteResponse m _ \<Rightarrow> m = mid \<and> kind = ''execute.result''
      | SnapshotResponse m _ \<Rightarrow> m = mid \<and> kind = ''snapshot.result''
      | RestoreResponse m _ \<Rightarrow> m = mid \<and> kind = ''restore.result''
      | InspectResponse m _ \<Rightarrow> m = mid \<and> kind = ''inspect-public-state.result''
      | ErrorResponse m _ \<Rightarrow> False)"
  by (cases r) (auto simp: receive_iff)

lemma validateCompatibility_image:
  "validateCompatibility (compatibility_js c) = Inr d \<Longrightarrow> d = c"
  by (cases c; cases d)
    (simp add: validateCompatibility_def compatibility_js_def Let_def bindE_Inr_iff readProp_Inr_iff checks_iff
      split: if_splits)

lemma check_boot_response:
  assumes "check_boot bd mid sid sha (Inr (response_js r)) = Inr (raw, c, b, shown)"
  shows "\<exists>br. r = BootResponse mid br \<and> c = br_compatibility br \<and> b = br_boundary br"
proof -
  from assms obtain v where v: "receive mid ''boot.result'' (Inr (response_js r)) = Inr v"
    and rest: "requireTurnComplete (getProp v ''result'') = Inr (b, shown)"
      "validateCompatibility (getProp (getProp v ''result'') ''compatibility'') = Inr c"
    by (auto simp: check_boot_def Let_def bindE_Inr_iff ensure_Inr_iff)
  from receive_response [OF v] obtain br where r: "r = BootResponse mid br" "v = response_js r"
    by (cases r) auto
  from rest(2) r have "validateCompatibility (compatibility_js (br_compatibility br)) = Inr c"
    by (simp add: boot_result_js_def)
  from validateCompatibility_image [OF this] rest(1) r show ?thesis
    by (simp add: requireTurnComplete_iff boot_result_js_def)
qed

lemma check_execute_response:
  assumes "check_execute mid rid expected command revision b (Inr (response_js r)) = Inr (result, committed, n, b')"
  shows "\<exists>e. r = ExecuteResponse mid e \<and> committed = (er_status e = Committed) \<and> n = er_revision e \<and> b' = er_boundary e"
proof -
  from assms obtain v where v: "receive mid ''execute.result'' (Inr (response_js r)) = Inr v"
    and rest: "validateExecuteResult rid expected command (getProp v ''result'') revision b = Inr (committed, n, b')"
    by (auto simp: check_execute_iff)
  from receive_response [OF v] obtain e where r: "r = ExecuteResponse mid e" "v = response_js r"
    by (cases r) auto
  with rest show ?thesis
    by (cases "er_status e") (auto simp: validateExecuteResult_iff execute_result_js_def)
qed

lemma check_restore_response:
  assumes "check_restore mid sn revision b (Inr (response_js r)) = Inr (result, restored, n, b')"
  shows "\<exists>e. r = RestoreResponse mid e \<and> restored = (rr_status e = Restored) \<and> n = rr_revision e \<and> b' = rr_boundary e"
proof -
  from assms obtain v where v: "receive mid ''restore.result'' (Inr (response_js r)) = Inr v"
    and rest: "result = getProp v ''result''" "requireTurnComplete result = Inr (b', [])"
      "getProp result ''revision'' = jnat n" "restored = (getProp result ''status'' = JStr (js ''restored''))"
    by (auto simp: check_restore_iff)
  from receive_response [OF v] obtain e where r: "r = RestoreResponse mid e" "v = response_js r"
    by (cases r) auto
  with rest show ?thesis
    by (cases "rr_status e") (auto simp: requireTurnComplete_iff restore_result_js_def)
qed

lemma check_inspect_response:
  assumes "check_inspect mid revision b rec (Inr (response_js r)) = Inr (state, Some (n, b'))"
  shows "\<exists>ps. r = InspectResponse mid ps \<and> n = ps_revision ps \<and> b' = ps_boundary ps"
proof -
  from assms obtain v where v: "receive mid ''inspect-public-state.result'' (Inr (response_js r)) = Inr v"
    and rest: "getProp (getProp v ''state'') ''revision'' = jnat n"
      "getProp (getProp v ''state'') ''boundary'' = JStr (js (boundary_name b'))"
    by (auto simp: check_inspect_iff split: if_splits)
  from receive_response [OF v] obtain ps where r: "r = InspectResponse mid ps" "v = response_js r"
    by (cases r) auto
  with rest show ?thesis by (simp add: public_state_js_def)
qed

section \<open>The shape of a call\<close>

fun final :: "adapter_output \<Rightarrow> bool" where
  "final (Submit _) = False"
| "final (Digest _) = False"
| "final _ = True"

fun asks :: "adapter_pending \<Rightarrow> jsval \<Rightarrow> bool" where \<comment> \<open>the request of a pending exchange other than a snapshot\<close>
  "asks (AwaitBoot mid _ _) m \<longleftrightarrow> (\<exists>v. m = message_js mid ''boot'' v)"
| "asks (AwaitExecute mid rid expected command _ _) m \<longleftrightarrow> m = execute_js mid rid expected command"
| "asks (AwaitRestore mid _ _ _) m \<longleftrightarrow> (\<exists>v. m = message_js mid ''restore'' v)"
| "asks (AwaitInspect mid _ _ _) m \<longleftrightarrow> m = message_js mid ''inspect-public-state'' []"
| "asks _ m \<longleftrightarrow> False"

lemma drive_final: "final out \<Longrightarrow> drive ops digest fault n (ad, out) rt = ((ad, rt), out)"
  by (cases n; cases out) simp_all

lemma submit_shape:
  assumes "ad_operation ad = None" "submit ad op continue request = (ad1, out)" "ad_pending ad = None"
  shows "(ad_pending ad1 = None \<and> final out) \<or>
    (\<exists>mid. ad_pending ad1 = Some (continue mid) \<and> out = Submit (request mid))"
  using assms by (cases rule: submit_cases [of ad op continue request]) auto

lemma conclude_shape:
  assumes "ad_operation ad = Some op" "final out"
  shows "ad_pending (fst (conclude ad op out)) = None \<and> final (snd (conclude ad op out))"
  using assms by (simp add: conclude_pending)

lemma call_shape:
  assumes ok: "adapter_ok ad" and p: "ad_pending ad = None"
    and step: "adapter_step ad (call_event c) = (ad1, out)"
  shows "(ad_pending ad1 = None \<and> final out) \<or>
    (\<exists>q m. ad_pending ad1 = Some q \<and> asks q m \<and> out = Submit m) \<or>
    (\<exists>mid revision cp. ad_pending ad1 = Some (AwaitSnapshot mid revision cp) \<and> out = Submit (message_js mid ''snapshot'' [])) \<or>
    (\<exists>raw sn revision b bytes. ad_pending ad1 = Some (AwaitRestoreDigest raw sn revision b) \<and> out = Digest bytes)"
proof -
  have op: "ad_operation ad = None" using idle_pending [OF ok] p by simp
  note shape = submit_shape [OF op _ p]
  have r: "refuse ad e = (ad1, out) \<Longrightarrow> ad_pending ad1 = None \<and> final out" for e
    using p by (auto simp: refuse_def)
  show ?thesis
  proof (cases c)
    case (Boot v)
    with step r show ?thesis
      by (auto simp: adapter_boot_def split: if_splits sum.splits dest!: shape)
  next
    case (Execute v aborted)
    with step r show ?thesis
      by (auto simp: adapter_execute_def split: sum.splits dest!: shape)
  next
    case Snapshot
    with step r show ?thesis
      by (auto simp: adapter_snapshot_def split: sum.splits dest!: shape)
  next
    case Inspect
    with step r show ?thesis
      by (auto simp: adapter_inspect_def split: sum.splits dest!: shape)
  next
    case (Restore v)
    with step r p op show ?thesis
      by (auto simp: adapter_restore_def result_simps beginOperation_def conclude_pending split: sum.splits if_splits)
  qed
qed

lemma settle_shape:
  assumes ok: "adapter_ok ad" and p: "ad_pending ad = Some p" and s: "settle ad p reply = (ad1, out)"
  shows "(ad_pending ad1 = None \<and> final out) \<or>
    (\<exists>mid revision c raw sn. p = AwaitSnapshot mid revision c \<and>
       ad_pending ad1 = Some (AwaitSnapshotDigest raw sn revision c) \<and> out = Digest (sn_bytes sn)) \<or>
    (\<exists>raw sn revision b mid v. p = AwaitRestoreDigest raw sn revision b \<and>
       ad_pending ad1 = Some (AwaitRestore mid sn revision b) \<and> out = Submit (message_js mid ''restore'' v))"
proof -
  have op: "ad_operation ad = Some (operation_of p)" using adapter_ok_pending(1) [OF ok p] .
  then show ?thesis
  proof (cases p)
    case (AwaitSnapshotDigest raw sn revision c)
    then show ?thesis
      using s op by (auto simp: settle_snapshot_digest_def conclude_pending split: sum.splits if_splits)
  next
    case (AwaitRestoreDigest raw sn revision b)
    then show ?thesis
      using s op by (auto simp: settle_restore_digest_def allocateMessageId_def conclude_pending split: sum.splits if_splits)
  next
    case (AwaitInspect mid revision b rec)
    then show ?thesis
      using s op by (auto simp: settle_inspect_def conclude_pending split: sum.splits option.splits)
  qed (use s op in \<open>auto simp: settle_boot_def settle_execute_def settle_snapshot_def settle_restore_def
      conclude_pending split: sum.splits if_splits\<close>)
qed

section \<open>Agreement depends on what is confirmed\<close>

lemma agreement_conf: "conf ad' = conf ad \<Longrightarrow> agreement ops ad' rt = agreement ops ad rt"
  by (cases "ad_recovery ad") (simp_all add: agreement_def conf_def booted_def tracks_def ahead_def)

lemma agreement_unchanged:
  assumes "unchanged rt rt'"
  shows "agreement ops ad rt' = agreement ops ad rt"
proof -
  have "rt_session rt' = rt_session rt" "rt_receipts rt' = rt_receipts rt"
    using assms by (simp_all add: unchanged_def)
  then show ?thesis
    by (cases "ad_recovery ad") (simp_all add: agreement_def tracks_def ahead_def unchanged_holds [OF assms])
qed

lemma exchange_over_cases:
  assumes "exchange_over ops fault rt m = (rt', reply)" "rt_pending rt = None"
  obtains (lost) "rt' = rt" "reply = Inl ()"
  | (silent) "rt' = fst (serve ops rt m)" "reply = Inl ()"
  | (answered) r where "rt' = fst (serve ops rt m)" "snd (serve ops rt m) = Some r" "reply = Inr (response_js r)"
  using assms serve_answers [OF assms(2), of ops m]
  by (cases fault; cases "serve ops rt m") (auto simp: exchange_over_def)

context story_session
begin

lemma over_ok:
  assumes "exchange_over ops fault rt m = (rt', reply)" and ok: "runtime_ok ops good rt" and textual and "rt_pending rt = None"
  shows "runtime_ok ops good rt' \<and> rt_pending rt' = None"
  using assms serve_ok [OF ok \<open>textual\<close>, of m] serve_answers [of rt ops m]
  by (cases rule: exchange_over_cases [OF assms(1,4)]) simp_all

lemma tracksD:
  assumes "tracks ops ad rt" "holds ops rt ps c"
  shows "ad_revision ad = Some (ps_revision ps) \<and> ad_boundary ad = Some (ps_boundary ps) \<and> ad_compatibility ad = Some c"
  using assms holds_unique [OF assms(2)] unfolding tracks_def by blast

lemma aheadD:
  assumes "ahead ops ad rid expected command rt" "holds ops rt ps c"
  shows "\<exists>n rc. ad_revision ad = Some n \<and> ps_revision ps = n + 1 \<and> ad_compatibility ad = Some c \<and>
    find_receipt rid (rt_receipts rt) = Some rc \<and> rc_expectedRevision rc = expected \<and> rc_command rc = command \<and>
    er_status (rc_result rc) = Committed \<and> er_revision (rc_result rc) = n + 1 \<and> er_boundary (rc_result rc) = ps_boundary ps"
  using assms holds_unique [OF assms(2)] unfolding ahead_def by blast

lemma receipt_bounds:
  assumes "runtime_ok ops good rt" "holds ops rt ps c" "find_receipt rid (rt_receipts rt) = Some rc"
  shows "er_revision (rc_result rc) \<le> ps_revision ps"
  using assms find_receipt_SomeD [OF assms(3)]
  by (auto simp: runtime_ok_def runtime_core_def session_ok_def holds_def agrees_def valid_journal_def)

lemma agree_boot:
  assumes ok: "adapter_ok ad" and p: "ad_pending ad = Some (AwaitBoot mid sid sha)" and agr: "agreement ops ad rt"
    and rt: "runtime_ok ops good rt" and textual and pend: "rt_pending rt = None"
    and over: "exchange_over ops fault rt (message_js mid ''boot'' v) = (rt', reply)"
  shows "agreement ops (fst (settle ad (AwaitBoot mid sid sha) reply)) rt'"
proof (cases "check_boot (ad_binding ad) mid sid sha reply")
  case (Inl e)
  with settle_boot_conf(2) [OF ok p, of reply] show ?thesis
    by (simp add: conf_def agreement_def)
next
  case (Inr x)
  obtain raw cp b shown where x: "x = (raw, cp, b, shown)" by (rule prod_cases4)
  have none: "rt_session rt = None"
    using adapter_ok_pending(2) [OF ok p] agr by (simp add: agreement_def)
  from Inr x have "reply \<noteq> Inl ()" by (auto simp: check_boot_def bindE_Inr_iff receive_iff)
  with exchange_over_cases [OF over pend] obtain r where
    r: "rt' = fst (serve ops rt (message_js mid ''boot'' v))" "snd (serve ops rt (message_js mid ''boot'' v)) = Some r"
      "reply = Inr (response_js r)" by metis
  from check_boot_response [of "ad_binding ad" mid sid sha r raw cp b shown] Inr x r(3) obtain br where
    br: "r = BootResponse mid br" "cp = br_compatibility br" "b = br_boundary br" by auto
  from serve_boot [OF rt \<open>textual\<close> pend none, of mid v] r br obtain ps where
    "holds ops rt' ps cp" "ps_revision ps = 0" "ps_boundary ps = b"
    by (auto simp: boot_truth_def)
  then have t: "\<exists>ps. holds ops rt' ps cp \<and> ps_revision ps = 0 \<and> ps_boundary ps = b" by blast
  from settle_boot_conf(2) [OF ok p, of reply] Inr x have
    "ad_recovery (fst (settle_boot ad mid sid sha reply)) = Ready"
    "ad_revision (fst (settle_boot ad mid sid sha reply)) = Some 0"
    "ad_boundary (fst (settle_boot ad mid sid sha reply)) = Some b"
    "ad_compatibility (fst (settle_boot ad mid sid sha reply)) = Some cp"
    by (simp_all add: conf_def)
  with t show ?thesis by (auto simp: agreement_def booted_def tracks_def)
qed

lemma agree_execute:
  assumes ok: "adapter_ok ad" and p: "ad_pending ad = Some (AwaitExecute mid rid expected command revision b)"
    and agr: "agreement ops ad rt" and rt: "runtime_ok ops good rt" and textual and pend: "rt_pending rt = None"
    and over: "exchange_over ops fault rt (execute_js mid rid expected command) = (rt', reply)"
  shows "agreement ops (fst (settle ad (AwaitExecute mid rid expected command revision b) reply)) rt'"
proof -
  let ?ad = "fst (settle_execute ad mid rid expected command revision b reply)"
  have cap: "ad_revision ad = Some revision" "ad_boundary ad = Some b"
    and rec: "ad_recovery ad = UncertainExecute rid expected command \<or> ad_recovery ad = Ready"
    using adapter_ok_pending(2) [OF ok p] by auto
  have conf': "conf ?ad = (ad_compatibility ad,
       (case check_execute mid rid expected command revision b reply of
          Inl _ \<Rightarrow> (Some revision, Some b, UncertainExecute rid expected command)
        | Inr (_, committed, n, b') \<Rightarrow>
            if committed \<and> revision < n then (Some n, Some b', Ready) else (Some revision, Some b, Ready)))"
    using settle_execute_conf(2) [OF ok p] .
  have start: "tracks ops ad rt \<or> ahead ops ad rid expected command rt"
    using agr rec cap by (auto simp: agreement_def booted_def)
  \<comment> \<open>an unconfirmed reply leaves the uncertain state, which both outcomes satisfy\<close>
  have failed: "agreement ops ?ad rt'"
    if "check_execute mid rid expected command revision b reply = Inl e"
      and "tracks ops ad rt' \<or> ahead ops ad rid expected command rt'" for e
    using that conf' cap by (auto simp: conf_def agreement_def tracks_def ahead_def)
  have settled: "agreement ops ?ad rt'"
    if "check_execute mid rid expected command revision b reply = Inr (result, committed, n, b')"
      and "holds ops rt' ps c" "ad_compatibility ad = Some c"
      and "if committed \<and> revision < n then ps_revision ps = n \<and> ps_boundary ps = b'
           else ps_revision ps = revision \<and> ps_boundary ps = b" for result committed n b' ps c
    using that conf' by (auto simp: conf_def agreement_def tracks_def booted_def split: if_splits)
  have served: "reply = Inl () \<or> (\<exists>r. snd (serve ops rt (execute_js mid rid expected command)) = Some r \<and> reply = Inr (response_js r))"
    by (rule exchange_over_cases [OF over pend]) auto
  have lost: "check_execute mid rid expected command revision b (Inl ()) \<noteq> Inr y" for y
    by (simp add: check_execute_def receive_def)
  have answer: "\<exists>e. snd (serve ops rt (execute_js mid rid expected command)) = Some (ExecuteResponse mid e) \<and>
      committed = (er_status e = Committed) \<and> n = er_revision e \<and> b' = er_boundary e"
    if "check_execute mid rid expected command revision b reply = Inr (result, committed, n, b')" for result committed n b'
    using served lost check_execute_response that by fastforce
  show ?thesis
  proof (cases "rt' = rt \<and> reply = Inl ()")
    case True
    then obtain e where "check_execute mid rid expected command revision b reply = Inl e"
      using lost by (cases "check_execute mid rid expected command revision b reply") auto
    with failed start True show ?thesis by simp
  next
    case False
    then have rt': "rt' = fst (serve ops rt (execute_js mid rid expected command))"
      by (rule_tac exchange_over_cases [OF over pend]) auto
    obtain ps c where h: "holds ops rt ps c" "ad_compatibility ad = Some c"
      using start by (auto simp: tracks_def ahead_def)
    note s = serve_execute [OF rt \<open>textual\<close> pend h(1), of mid rid expected command, folded rt']
    show ?thesis
    proof (cases "check_execute mid rid expected command revision b reply")
      case (Inl e)
      have "tracks ops ad rt' \<or> ahead ops ad rid expected command rt'"
        using start
      proof
        assume "tracks ops ad rt"
        then have "ps_revision ps = revision" "ps_boundary ps = b"
          using tracksD [OF _ h(1), of ad] cap by auto
        with s h cap show ?thesis by (auto simp: tracks_def ahead_def)
      next
        assume "ahead ops ad rid expected command rt"
        from aheadD [OF this h(1)] obtain n rc where a: "ad_revision ad = Some n" "ps_revision ps = n + 1"
          "find_receipt rid (rt_receipts rt) = Some rc" "rc_expectedRevision rc = expected" "rc_command rc = command"
          "er_status (rc_result rc) = Committed" "er_revision (rc_result rc) = n + 1" "er_boundary (rc_result rc) = ps_boundary ps"
          by blast
        with s obtain xs where "holds ops rt' ps c" "rt_receipts rt' = rt_receipts rt @ xs" by auto
        with a h(2) find_receipt_append [OF a(3)] show ?thesis by (auto simp: ahead_def)
      qed
      with failed [OF Inl] show ?thesis by simp
    next
      case (Inr x)
      obtain result committed n b' where x: "x = (result, committed, n, b')" by (rule prod_cases4)
      note chk = Inr [unfolded x]
      obtain e where e: "snd (serve ops rt (execute_js mid rid expected command)) = Some (ExecuteResponse mid e)"
        "committed = (er_status e = Committed)" "n = er_revision e" "b' = er_boundary e"
        using answer [OF chk] by blast
      have rej: "\<not> committed \<Longrightarrow> n \<le> revision"
        using chk by (auto simp: check_execute_iff validateExecuteResult_iff)
      consider (kept) "holds ops rt' ps c"
          "(\<exists>rc. find_receipt rid (rt_receipts rt) = Some rc \<and> e = rc_result rc) \<or>
           (er_revision e = ps_revision ps \<and> \<not> committed)"
        | (moved) ps' where "holds ops rt' ps' c" "find_receipt rid (rt_receipts rt) = None"
          "ps_revision ps' = ps_revision ps + 1" "committed" "n = ps_revision ps'" "b' = ps_boundary ps'"
        using s unfolding e(1) e(2-4) by (elim disjE exE conjE) auto
      note cases = this
      from start show ?thesis
      proof
        assume t: "tracks ops ad rt"
        then have ps: "ps_revision ps = revision" "ps_boundary ps = b"
          using tracksD [OF _ h(1), of ad] cap by auto
        obtain ps' where "holds ops rt' ps' c" "(if committed \<and> revision < n then ps_revision ps' = n \<and> ps_boundary ps' = b'
           else ps_revision ps' = revision \<and> ps_boundary ps' = b)"
        proof (cases rule: cases)
          case kept
          with ps receipt_bounds [OF rt h(1), of rid] e(2,3) have "\<not> (committed \<and> revision < n)"
            by (metis not_less)
          with kept(1) ps that [of ps] show ?thesis by simp
        next
          case moved
          with ps that [of ps'] show ?thesis by simp
        qed
        with settled [OF chk _ h(2), of ps'] show ?thesis by simp
      next
        assume "ahead ops ad rid expected command rt"
        then obtain rc where a: "ps_revision ps = revision + 1" "find_receipt rid (rt_receipts rt) = Some rc"
          "er_status (rc_result rc) = Committed" "er_revision (rc_result rc) = revision + 1"
          "er_boundary (rc_result rc) = ps_boundary ps"
          using aheadD [OF _ h(1), of ad rid expected command] cap by auto
        have "holds ops rt' ps c \<and> committed \<and> revision < n \<and> ps_revision ps = n \<and> ps_boundary ps = b'"
          using a e(2-4) rej by (cases rule: cases) auto
        with settled [OF chk _ h(2), of ps] show ?thesis by simp
      qed
    qed
  qed
qed

lemma over_reply:
  assumes "exchange_over ops fault rt m = (rt', reply)" "rt_pending rt = None" "reply \<noteq> Inl ()"
  shows "\<exists>r. rt' = fst (serve ops rt m) \<and> snd (serve ops rt m) = Some r \<and> reply = Inr (response_js r)"
  by (rule exchange_over_cases [OF assms(1,2)]) (use assms(3) in auto)

lemma over_unchanged:
  assumes "exchange_over ops fault rt m = (rt', reply)" "rt_pending rt = None" "unchanged rt (fst (serve ops rt m))"
  shows "unchanged rt rt'"
  by (rule exchange_over_cases [OF assms(1,2)]) (use assms(3) in \<open>auto simp: unchanged_def\<close>)

lemma agree_inspect:
  assumes ok: "adapter_ok ad" and p: "ad_pending ad = Some (AwaitInspect mid revision b rec)"
    and agr: "agreement ops ad rt" and rt: "runtime_ok ops good rt" and pend: "rt_pending rt = None"
    and over: "exchange_over ops fault rt (message_js mid ''inspect-public-state'' []) = (rt', reply)"
  shows "agreement ops (fst (settle ad (AwaitInspect mid revision b rec) reply)) rt'"
proof -
  have idle: "\<not> rt_operationInFlight rt" using rt pend by (simp add: runtime_ok_def)
  have cap: "ad_revision ad = Some revision" "ad_boundary ad = Some b" "ad_recovery ad = rec"
    using adapter_ok_pending(2) [OF ok p] by auto
  note conf' = settle_inspect_conf(2) [OF ok p, of reply]
  have u: "unchanged rt rt'"
    using over_unchanged [OF over pend] serve_inspect(1) [OF idle] .
  have agr': "agreement ops ad rt'" using agr agreement_unchanged [OF u] by simp
  show ?thesis
  proof (cases "\<exists>state n b'. check_inspect mid revision b rec reply = Inr (state, Some (n, b'))")
    case False
    then have "conf (fst (settle ad (AwaitInspect mid revision b rec) reply)) = conf ad"
      using conf' cap by (auto simp: conf_def split: sum.splits option.splits)
    with agr' agreement_conf show ?thesis by blast
  next
    case True
    then obtain state n b' where chk: "check_inspect mid revision b rec reply = Inr (state, Some (n, b'))" by blast
    then have "reply \<noteq> Inl ()" "uncertain rec" by (auto simp: check_inspect_iff receive_iff split: if_splits)
    from over_reply [OF over pend this(1)] obtain r where
      r: "snd (serve ops rt (message_js mid ''inspect-public-state'' [])) = Some r" "reply = Inr (response_js r)" by blast
    from check_inspect_response [of mid revision b rec r] chk r(2) obtain ps where
      ps: "r = InspectResponse mid ps" "n = ps_revision ps" "b' = ps_boundary ps" by blast
    obtain s where s: "rt_session rt = Some s" "so_inspect ops s = Some ps"
      using serve_inspect(2) [OF idle, of ops mid "[]" mid ps] r(1) ps(1) by auto
    obtain rid expected command where rec: "rec = UncertainExecute rid expected command"
      using \<open>uncertain rec\<close> by (cases rec) (auto simp: uncertain_def)
    have "\<exists>c ps0. holds ops rt ps0 c \<and> ad_compatibility ad = Some c"
      using agr rec cap by (auto simp: agreement_def tracks_def ahead_def)
    then obtain c where c: "holds ops rt ps c" "ad_compatibility ad = Some c"
      using s by (auto simp: holds_def)
    with u have h: "holds ops rt' ps c" by (simp add: unchanged_holds)
    have "tracks ops (fst (settle ad (AwaitInspect mid revision b rec) reply)) rt'"
      using conf' chk c(2) h ps by (auto simp: conf_def tracks_def)
    moreover have "ad_recovery (fst (settle ad (AwaitInspect mid revision b rec) reply)) = rec"
      using conf' chk by (simp add: conf_def)
    ultimately show ?thesis by (simp add: agreement_def rec)
  qed
qed

lemma agree_restore:
  assumes ok: "adapter_ok ad" and p: "ad_pending ad = Some (AwaitRestore mid sn revision b)"
    and agr: "agreement ops ad rt" and rt: "runtime_ok ops good rt" and pend: "rt_pending rt = None"
    and over: "exchange_over ops fault rt (message_js mid ''restore'' v) = (rt', reply)"
  shows "agreement ops (fst (settle ad (AwaitRestore mid sn revision b) reply)) rt'"
proof -
  have idle: "\<not> rt_operationInFlight rt" using rt pend by (simp add: runtime_ok_def)
  have cap: "ad_revision ad = Some revision" "ad_boundary ad = Some b" "ad_recovery ad = Ready"
    using adapter_ok_pending(2) [OF ok p] by auto
  note conf' = settle_restore_conf(2) [OF ok p, of reply]
  show ?thesis
  proof (cases "check_restore mid sn revision b reply")
    case (Inl e)
    with conf' show ?thesis by (simp add: conf_def agreement_def)
  next
    case (Inr x)
    obtain result restored n b' where x: "x = (result, restored, n, b')" by (rule prod_cases4)
    note chk = Inr [unfolded x]
    have "reply \<noteq> Inl ()" using chk by (auto simp: check_restore_iff receive_iff)
    from over_reply [OF over pend this] obtain r where
      rt': "rt' = fst (serve ops rt (message_js mid ''restore'' v))" and
      r: "snd (serve ops rt (message_js mid ''restore'' v)) = Some r" "reply = Inr (response_js r)" by blast
    from check_restore_response [of mid sn revision b r] chk r(2) obtain e where
      e: "r = RestoreResponse mid e" "restored = (rr_status e = Restored)" "n = rr_revision e" "b' = rr_boundary e" by blast
    have n: "restored \<Longrightarrow> n = sn_revision sn" using chk by (auto simp: check_restore_iff)
    have "tracks ops ad rt" using agr cap by (simp add: agreement_def booted_def)
    then obtain ps c where h: "holds ops rt ps c" "ad_compatibility ad = Some c" by (auto simp: tracks_def)
    from serve_restore [OF idle, of ops mid v] r(1) e
    consider (restored) ps' where "restored" "holds ops rt' ps' c" "rr_revision e = ps_revision ps'" "rr_boundary e = ps_boundary ps'"
      | (kept) "\<not> restored" "unchanged rt rt'"
      using h(1) by (auto simp: restore_truth_def rt' holds_def)
    then show ?thesis
    proof cases
      case restored
      with conf' chk n e h(2) show ?thesis by (auto simp: conf_def agreement_def booted_def tracks_def)
    next
      case kept
      with conf' chk cap have "conf (fst (settle ad (AwaitRestore mid sn revision b) reply)) = conf ad"
        by (simp add: conf_def)
      with agr agreement_unchanged [OF kept(2)] agreement_conf show ?thesis by blast
    qed
  qed
qed

text \<open>A journaled receipt passes every check of an adapter that is at most one revision behind.\<close>

lemma journaled_reply_accepted:
  assumes rt: "runtime_ok ops good rt" and h: "holds ops rt ps c" and f: "find_receipt rid (rt_receipts rt) = Some rc"
    and rc: "rc_expectedRevision rc = expected" "rc_command rc = command"
    and at: "tracks ops ad rt \<or> ahead ops ad rid expected command rt" and "rid \<noteq> []"
    and nb: "ad_revision ad = Some n" "ad_boundary ad = Some b"
  shows "\<exists>committed n' b'. check_execute mid rid expected command n b (Inr (response_js (ExecuteResponse mid (rc_result rc)))) =
      Inr (execute_result_js (rc_result rc), committed, n', b')"
proof -
  let ?r = "rc_result rc"
  from rt h have j: "journal_ok rt" "agrees ps (rt_receipts rt)"
    by (auto simp: runtime_ok_def runtime_core_def session_ok_def holds_def)
  have m: "rc \<in> set (rt_receipts rt)" "rc_requestId rc = rid" using find_receipt_SomeD [OF f] by auto
  have v: "valid_receipt rc" using j(1) m(1) by (auto simp: journal_ok_def list_all_iff)
  have b: "er_revision ?r \<le> ps_revision ps" "er_revision ?r = ps_revision ps \<longrightarrow> er_boundary ?r = ps_boundary ps"
    using j(2) m(1) by (auto simp: agrees_def valid_journal_def)
  have at': "(n = ps_revision ps \<and> b = ps_boundary ps) \<or>
      (ps_revision ps = n + 1 \<and> er_status ?r = Committed \<and> er_revision ?r = n + 1)"
    using at tracksD [OF _ h, of ad] aheadD [OF _ h, of ad rid expected command] nb f by fastforce
  have "validateExecuteResult rid expected command (execute_result_js ?r) n b =
      Inr (er_status ?r = Committed, er_revision ?r, er_boundary ?r)"
    using v m(2) rc b at' \<open>rid \<noteq> []\<close>
    by (cases "er_status ?r")
      (auto simp: validateExecuteResult_iff execute_result_js_def valid_receipt_def valid_result_def Let_def)
  then show ?thesis
    by (simp add: check_execute_def receive_def del: validateExecuteResult_iff)
qed

section \<open>Every call keeps the pair linked\<close>

lemma rest_ok:
  assumes "adapter_ok ad" "ad_pending ad = None" "runtime_ok ops good rt" "rt_pending rt = None" "agreement ops ad rt"
    and "final out"
  shows "linked_ok ops good (fst (drive ops digest fault n (ad, out) rt))"
  using assms by (simp add: drive_final linked_ok_def)

lemma agree_submit:
  assumes ok: "adapter_ok ad" and p: "ad_pending ad = Some p" and rt: "runtime_ok ops good rt" and textual
    and pend: "rt_pending rt = None" and agr: "agreement ops ad rt"
    and m: "asks p m" and over: "exchange_over ops fault rt m = (rt', reply)"
  shows "agreement ops (fst (settle ad p reply)) rt'"
proof (cases p)
  case (AwaitBoot mid sid sha)
  with m over agree_boot [OF ok _ agr rt \<open>textual\<close> pend, of mid sid sha] p show ?thesis by auto
next
  case (AwaitExecute mid rid expected command revision b)
  with m over agree_execute [OF ok _ agr rt \<open>textual\<close> pend, of mid rid expected command revision b] p show ?thesis by auto
next
  case (AwaitRestore mid sn revision b)
  with m over agree_restore [OF ok _ agr rt pend, of mid sn revision b] p show ?thesis by auto
next
  case (AwaitInspect mid revision b rec)
  with m over agree_inspect [OF ok _ agr rt pend, of mid revision b rec] p show ?thesis by auto
qed (use m in simp_all)

lemma drive_submit:
  assumes ok: "adapter_ok ad" and p: "ad_pending ad = Some p" and rt: "runtime_ok ops good rt" and textual
    and pend: "rt_pending rt = None" and agr: "agreement ops ad rt" and m: "asks p m"
  shows "linked_ok ops good (fst (drive ops digest fault (Suc n) (ad, Submit m) rt))"
proof -
  obtain rt' reply where over: "exchange_over ops fault rt m = (rt', reply)" by fastforce
  obtain ad1 out where s: "settle ad p reply = (ad1, out)" by fastforce
  have fin: "ad_pending ad1 = None" "final out"
    using settle_shape [OF ok p s] m by auto
  have "agreement ops ad1 rt'"
    using agree_submit [OF ok p rt \<open>textual\<close> pend agr m over] s by simp
  moreover have "adapter_ok ad1" using settle_ok [OF ok p, of reply] s by simp
  ultimately have "linked_ok ops good (fst (drive ops digest fault n (ad1, out) rt'))"
    using over_ok [OF over rt \<open>textual\<close> pend] fin by (intro rest_ok) simp_all
  then show ?thesis by (simp add: over p s)
qed

lemma drive_snapshot:
  assumes ok: "adapter_ok ad" and p: "ad_pending ad = Some (AwaitSnapshot mid revision c)" and rt: "runtime_ok ops good rt"
    and textual and pend: "rt_pending rt = None" and agr: "agreement ops ad rt"
  shows "linked_ok ops good (fst (drive ops digest fault 2 (ad, Submit (message_js mid ''snapshot'' [])) rt))"
proof -
  let ?p = "AwaitSnapshot mid revision c"
  have idle: "\<not> rt_operationInFlight rt" using rt pend by (simp add: runtime_ok_def)
  obtain rt' reply where over: "exchange_over ops fault rt (message_js mid ''snapshot'' []) = (rt', reply)" by fastforce
  obtain ad1 out where s: "settle ad ?p reply = (ad1, out)" by fastforce
  have u: "unchanged rt rt'" using over_unchanged [OF over pend] serve_snapshot [OF idle] .
  have ok1: "adapter_ok ad1" "conf ad1 = conf ad"
    using settle_snapshot_ok [OF ok p, of reply] s by auto
  have agr1: "agreement ops ad1 rt'"
    using agr agreement_unchanged [OF u] agreement_conf [OF ok1(2)] by blast
  note rt1 = over_ok [OF over rt \<open>textual\<close> pend]
  have step: "drive ops digest fault 2 (ad, Submit (message_js mid ''snapshot'' [])) rt = drive ops digest fault 1 (ad1, out) rt'"
    using s p by (simp add: numeral_2_eq_2 over)
  from settle_shape [OF ok p s] show ?thesis
  proof (elim disjE exE conjE)
    assume "ad_pending ad1 = None" "final out"
    with rest_ok [of ad1 rt' out] ok1 agr1 rt1 step show ?thesis by simp
  next
    fix mid' revision' c' raw sn
    assume q: "ad_pending ad1 = Some (AwaitSnapshotDigest raw sn revision' c')" and out: "out = Digest (sn_bytes sn)"
    obtain ad2 out2 where s2: "settle ad1 (AwaitSnapshotDigest raw sn revision' c') (digest (sn_bytes sn)) = (ad2, out2)" by fastforce
    have ok2: "adapter_ok ad2" "conf ad2 = conf ad1"
      using settle_snapshot_digest_ok [OF ok1(1) q, of "digest (sn_bytes sn)"] s2 by auto
    have "ad_pending ad2 = None \<and> final out2" using settle_shape [OF ok1(1) q s2] by auto
    moreover have "agreement ops ad2 rt'" using agr1 agreement_conf [OF ok2(2)] by blast
    ultimately have "linked_ok ops good (fst (drive ops digest fault 0 (ad2, out2) rt'))"
      using ok2 rt1 by (intro rest_ok) simp_all
    then show ?thesis using q s2 by (simp add: step out)
  qed auto
qed

lemma drive_restore:
  assumes ok: "adapter_ok ad" and p: "ad_pending ad = Some (AwaitRestoreDigest raw sn revision b)" and rt: "runtime_ok ops good rt"
    and textual and pend: "rt_pending rt = None" and agr: "agreement ops ad rt"
  shows "linked_ok ops good (fst (drive ops digest fault 2 (ad, Digest bytes) rt))"
proof -
  let ?p = "AwaitRestoreDigest raw sn revision b"
  obtain ad1 out where s: "settle ad ?p (digest bytes) = (ad1, out)" by fastforce
  have ok1: "adapter_ok ad1" "conf ad1 = conf ad"
    using settle_restore_digest_ok [OF ok p, of "digest bytes"] s by auto
  have agr1: "agreement ops ad1 rt" using agr agreement_conf [OF ok1(2)] by blast
  have step: "drive ops digest fault 2 (ad, Digest bytes) rt = drive ops digest fault 1 (ad1, out) rt"
    using s p by (simp add: numeral_2_eq_2)
  from settle_shape [OF ok p s] show ?thesis
  proof (elim disjE exE conjE)
    assume "ad_pending ad1 = None" "final out"
    with rest_ok [of ad1 rt out] ok1 agr1 rt pend step show ?thesis by simp
  next
    fix raw' sn' revision' b' mid v
    assume q: "ad_pending ad1 = Some (AwaitRestore mid sn' revision' b')" and out: "out = Submit (message_js mid ''restore'' v)"
    have "asks (AwaitRestore mid sn' revision' b') (message_js mid ''restore'' v)" by auto
    from drive_submit [OF ok1(1) q rt \<open>textual\<close> pend agr1 this, of digest fault 0] show ?thesis
      unfolding step out by simp
  qed auto
qed

theorem linked_call_ok:
  assumes lk: "linked_ok ops good lk" and textual
  shows "linked_ok ops good (fst (linked_call ops digest fault c lk))"
proof -
  obtain ad rt where l: "lk = (ad, rt)" by fastforce
  from lk l have ok: "adapter_ok ad" and p: "ad_pending ad = None" and rt: "runtime_ok ops good rt"
    and pend: "rt_pending rt = None" and agr: "agreement ops ad rt"
    by (simp_all add: linked_ok_def)
  obtain ad1 out where s: "adapter_step ad (call_event c) = (ad1, out)" by fastforce
  have ok1: "adapter_ok ad1" using adapter_step_ok [OF ok, of "call_event c"] s by simp
  have "conf ad1 = conf ad"
    using adapter_call_conf [OF ok, of "call_event c"] s by (cases c) auto
  then have agr1: "agreement ops ad1 rt" using agr agreement_conf by blast
  have step: "fst (linked_call ops digest fault c lk) = fst (drive ops digest fault 2 (ad1, out) rt)"
    by (simp add: linked_call_def l s)
  have sub: "linked_ok ops good (fst (drive ops digest fault 2 (ad1, Submit m) rt))"
    if "ad_pending ad1 = Some q" "asks q m" for q m
    using drive_submit [OF ok1 that(1) rt \<open>textual\<close> pend agr1 that(2), of digest fault 1]
    by (simp add: numeral_2_eq_2)
  consider (finished) "ad_pending ad1 = None" "final out"
    | (ask) q m where "ad_pending ad1 = Some q" "asks q m" "out = Submit m"
    | (snapshot) mid revision cp where "ad_pending ad1 = Some (AwaitSnapshot mid revision cp)" "out = Submit (message_js mid ''snapshot'' [])"
    | (restore) raw sn revision b bytes where "ad_pending ad1 = Some (AwaitRestoreDigest raw sn revision b)" "out = Digest bytes"
    using call_shape [OF ok p s] by fastforce
  then show ?thesis
  proof cases
    case finished
    with ok1 rt pend agr1 show ?thesis unfolding step by (intro rest_ok)
  next
    case ask
    with sub show ?thesis unfolding step by blast
  next
    case snapshot
    with drive_snapshot [OF ok1 _ rt \<open>textual\<close> pend agr1] show ?thesis unfolding step by blast
  next
    case restore
    with drive_restore [OF ok1 _ rt \<open>textual\<close> pend agr1] show ?thesis unfolding step by blast
  qed
qed

theorem linked_reach_ok:
  assumes "linked_reach ops lk" and textual
  shows "linked_ok ops good lk"
  using assms(1)
proof induction
  case (linked bd ids ad o' rt)
  then have "adapter_ok ad" "ad_pending ad = None" "ad_recovery ad = Ready" "\<not> booted ad" "rt_pending rt = None" "rt_session rt = None"
    by (auto simp: newWorkerEngineAdapter_ok newWorkerEngineAdapter_def newDorkWorkerRuntime_def bindE_Inr_iff booted_def
        split: sum.splits jsval.splits if_splits)
  with newDorkWorkerRuntime_ok [OF linked(2)] show ?case
    by (simp add: linked_ok_def agreement_def)
next
  case (called lk digest fault c)
  then show ?case using linked_call_ok \<open>textual\<close> by blast
qed

end

end
