(* ===== verification/Link_Demo.thy ===== *)
theory Link_Demo
  imports Link_Agreement Runtime_Demo
begin

text \<open>
  The pair of \<open>Engine_Link\<close> on the demonstration interpreter: a boot over a clean transport, then
  a turn whose reply is lost.
\<close>

definition demo_binding :: jsval where
  "demo_binding = JObj
     [(js ''runtime'', JObj [(js ''id'', JStr (js DORK_WORKER_RUNTIME_ID)), (js ''version'', JStr (js ''candidate-1'')),
        (js ''artifactSha256'', JStr (js DORK_WORKER_RUNTIME_ARTIFACT_SHA256))]),
      (js ''adapter'', JObj [(js ''id'', JStr (js ''sttork-dork-worker-spike'')), (js ''version'', JStr (js ''1''))]),
      (js ''snapshotSchemaVersion'', jnat 1)]"

definition demo_message_ids :: "nat \<Rightarrow> jsval option" where
  "demo_message_ids n = Some (JStr (if n = 0 then js ''m1'' else if n = 1 then js ''m2'' else js ''m3''))"

definition demo_adapter :: adapter where
  "demo_adapter = \<lparr>ad_binding = \<lparr>bd_runtime_id = js DORK_WORKER_RUNTIME_ID, bd_runtime_version = js ''candidate-1'',
       bd_runtime_sha256 = js DORK_WORKER_RUNTIME_ARTIFACT_SHA256, bd_adapter_id = js ''sttork-dork-worker-spike'',
       bd_adapter_version = js ''1'', bd_snapshotSchemaVersion = 1\<rparr>,
     ad_messageIds = demo_message_ids, ad_allocated = 0, ad_compatibility = None, ad_revision = None,
     ad_boundary = None, ad_operation = None, ad_recovery = Ready, ad_pending = None\<rparr>"

lemma sha256_pattern_hex: "sha256_pattern s = hex_digest s"
  by (simp add: sha256_pattern_def hex_digest_def is_hex_def [abs_def])

lemma demo_patterns [simp]:
  "sha256_pattern (js DORK_WORKER_RUNTIME_ARTIFACT_SHA256)" "sha256_pattern demo_sha"
  "sha256_pattern (replicate 64 0x30)"
proof -
  have "hex_digest (js DORK_WORKER_RUNTIME_ARTIFACT_SHA256)" by code_simp
  then show "sha256_pattern (js DORK_WORKER_RUNTIME_ARTIFACT_SHA256)" by (simp only: sha256_pattern_hex)
  show "sha256_pattern demo_sha" by (simp only: sha256_pattern_hex demo_ids)
  then show "sha256_pattern (replicate 64 0x30)" by (simp only: demo_sha_def)
qed

lemma runtime_id_nonempty [simp]: "DORK_WORKER_RUNTIME_ID \<noteq> []"
  by (simp add: DORK_WORKER_RUNTIME_ID_def)

lemma demo_adapter_created: "newWorkerEngineAdapter demo_binding demo_message_ids = Inr demo_adapter"
  by (simp add: newWorkerEngineAdapter_def demo_binding_def validateCompatibility_def demo_adapter_def
      MAX_SAFE_INTEGER_def)

definition demo_boot_input :: jsval where
  "demo_boot_input = JObj [(js ''storyId'', JStr (js ''zork1'')), (js ''artifactSha256'', JStr demo_sha)]"

definition demo_linked :: adapter where \<comment> \<open>after the boot\<close>
  "demo_linked = demo_adapter\<lparr>ad_allocated := 1, ad_compatibility := Some demo_compatibility,
     ad_revision := Some 0, ad_boundary := Some InputRequested\<rparr>"

lemma demo_serve_boot:
  "serve demo_ops demo_runtime (message_js (js ''m1'') ''boot'' [(js ''input'', demo_boot_input)]) =
     (demo_booted, Some (BootResponse (js ''m1'') \<lparr>br_output = js ''West of House'', br_boundary = InputRequested,
        br_compatibility = demo_compatibility\<rparr>))"
  using demo_boot_steps
  by (simp add: serve_def numeral_2_eq_2 demo_boot_def demo_boot_input_def)

lemma demo_compatibility_valid: "valid_binding demo_compatibility"
  by (simp add: valid_binding_def demo_compatibility_def createCompatibility_def demo_runtime_def
      MAX_SAFE_INTEGER_def DORK_WORKER_RUNTIME_ID_def)

lemma demo_idle_links: "adapter_step demo_adapter (CallBoot demo_boot_input) =
   (demo_adapter\<lparr>ad_allocated := 1, ad_operation := Some OpBoot,
      ad_pending := Some (AwaitBoot (js ''m1'') (js ''zork1'') demo_sha)\<rparr>,
    Submit (message_js (js ''m1'') ''boot'' [(js ''input'', demo_boot_input)]))"
  by (simp add: adapter_boot_def demo_adapter_def demo_boot_input_def submit_def allocateMessageId_def
      demo_message_ids_def beginOperation_def)

lemma demo_settle_boot:
  "\<exists>v. settle_boot (demo_adapter\<lparr>ad_allocated := 1, ad_operation := Some OpBoot,
      ad_pending := Some (AwaitBoot (js ''m1'') (js ''zork1'') demo_sha)\<rparr>) (js ''m1'') (js ''zork1'') demo_sha
     (Inr (response_js (BootResponse (js ''m1'') \<lparr>br_output = js ''West of House'', br_boundary = InputRequested,
        br_compatibility = demo_compatibility\<rparr>))) = (demo_linked, Returned v)"
proof -
  have "check_boot (ad_binding demo_adapter) (js ''m1'') (js ''zork1'') demo_sha
     (Inr (response_js (BootResponse (js ''m1'') \<lparr>br_output = js ''West of House'', br_boundary = InputRequested,
        br_compatibility = demo_compatibility\<rparr>))) =
      Inr (compatibility_js demo_compatibility, demo_compatibility, InputRequested, js ''West of House'')"
    by (simp add: check_boot_def receive_def boot_result_js_def requireTurnComplete_def requireTurnBoundary_def
        demo_compatibility_valid) (simp add: demo_adapter_def bind_compatibility_def demo_compatibility_def
        createCompatibility_def demo_runtime_def boundary_name.simps(1) [symmetric] del: boundary_name.simps)
  then show ?thesis
    by (simp add: settle_boot_def conclude_def endOperation_def del: response_js.simps)
      (simp add: demo_linked_def demo_adapter_def)
qed

lemma demo_linked_reach: "linked_reach demo_ops (demo_linked, demo_booted)"
proof -
  have "linked_reach demo_ops (demo_adapter, demo_runtime)"
    by (rule linked_reach.linked [OF demo_adapter_created demo_created])
  moreover have "fst (linked_call demo_ops (\<lambda>_. Inl ()) NoFault (Boot demo_boot_input) (demo_adapter, demo_runtime)) =
      (demo_linked, demo_booted)"
    using demo_settle_boot
    by (auto simp: linked_call_def demo_idle_links exchange_over_def demo_serve_boot drive_final numeral_2_eq_2
        simp del: response_js.simps adapter_step.simps(1))
  ultimately show ?thesis
    using linked_reach.called [of demo_ops "(demo_adapter, demo_runtime)" "\<lambda>_. Inl ()" NoFault "Boot demo_boot_input"]
    by simp
qed

section \<open>A lost reply\<close>

definition demo_turn_input :: jsval where
  "demo_turn_input = JObj [(js ''requestId'', JStr (js ''r1'')), (js ''expectedRevision'', jnat 0),
     (js ''command'', JStr (js ''look''))]"

definition demo_receipt :: receipt where
  "demo_receipt = \<lparr>rc_requestId = js ''r1'', rc_expectedRevision = 0, rc_command = js ''look'',
     rc_result = \<lparr>er_requestId = js ''r1'', er_previousRevision = 0, er_revision = 1, er_command = js ''look'',
       er_output = js ''Taken.'', er_boundary = InputRequested, er_status = Committed\<rparr>\<rparr>"

definition demo_uncertain :: adapter where
  "demo_uncertain = demo_linked\<lparr>ad_allocated := 2, ad_recovery := UncertainExecute (js ''r1'') 0 (js ''look'')\<rparr>"

definition demo_committed :: "nat session runtime" where
  "demo_committed = fst (serve demo_ops demo_booted (execute_js (js ''m2'') (js ''r1'') 0 (js ''look'')))"

lemma demo_committed_receipts:
  "rt_receipts demo_committed = [demo_receipt]"
  "rt_session demo_committed = Some (demo_session 1 (js ''Taken.''))"
proof -
  have ok: "runtime_ok demo_ops (good_session demo_host) demo_turn"
    using dork.reach_ok [OF demo_turn_reach demo_prints_text] .
  have p: "rt_pending demo_turn = Some (ExecuteTurn (js ''m2'') (js ''r1'') 0 (js ''look'')
       \<lparr>ps_revision = 0, ps_lastOutput = js ''West of House'', ps_boundary = InputRequested\<rparr>)"
    and s: "rt_session demo_turn = Some (demo_session 0 (js ''West of House''))"
    by (simp_all add: demo_turn_def demo_booted_def)
  note turn = dork.resume_turn_committed [OF ok demo_prints_text p s demo_execute]
  have e: "demo_committed = fst (resume demo_ops demo_turn)"
    unfolding demo_committed_def serve_def demo_turn_step by (simp add: numeral_2_eq_2 turn)
  show "rt_receipts demo_committed = [demo_receipt]"
    unfolding e turn by (simp add: demo_receipt_def demo_turn_def demo_booted_def demo_runtime_def)
  show "rt_session demo_committed = Some (demo_session 1 (js ''Taken.''))"
    unfolding e turn by simp
qed

lemma demo_uncertain_reach: "linked_reach demo_ops (demo_uncertain, demo_committed)"
proof -
  have c: "canonicalizeCommand (JStr (js ''look'')) = Inr (js ''look'')" by code_simp
  have "adapter_step demo_linked (CallExecute demo_turn_input False) =
     (demo_linked\<lparr>ad_allocated := 2, ad_operation := Some OpExecute,
        ad_pending := Some (AwaitExecute (js ''m2'') (js ''r1'') 0 (js ''look'') 0 InputRequested)\<rparr>,
      Submit (execute_js (js ''m2'') (js ''r1'') 0 (js ''look'')))"
    using c by (simp add: adapter_execute_def execute_guards_def demo_linked_def demo_adapter_def demo_turn_input_def required_def
        assertExecuteAllowed_def submit_def allocateMessageId_def demo_message_ids_def beginOperation_def
        MAX_SAFE_INTEGER_def)
  then have "fst (linked_call demo_ops (\<lambda>_. Inl ()) ReplyLost (Execute demo_turn_input False) (demo_linked, demo_booted)) =
      (demo_uncertain, demo_committed)"
    by (simp add: linked_call_def exchange_over_def drive_final numeral_2_eq_2 settle_execute_def check_execute_def
        receive_def conclude_def endOperation_def demo_committed_def)
      (simp add: demo_uncertain_def demo_linked_def demo_adapter_def)
  then show ?thesis
    using linked_reach.called [OF demo_linked_reach, of "\<lambda>_. Inl ()" ReplyLost "Execute demo_turn_input False"] by simp
qed

end
