(* ===== verification/Link_Properties.thy ===== *)
theory Link_Properties
  imports Link_Demo
begin

text \<open>
  The properties of the engine adapter and of its composition with the worker runtime, with their
  witnesses on the demonstration pair.
\<close>

section \<open>Facts for the witnesses\<close>

lemma drive_reach:
  assumes "adapter_reach (fst x)"
  shows "adapter_reach (fst (fst (drive ops digest fault n x rt)))"
  using assms
proof (induction ops digest fault n x rt rule: drive.induct)
  case (1 ops digest fault n ad m rt)
  obtain rt' reply where over: "exchange_over ops fault rt m = (rt', reply)" by fastforce
  have "adapter_reach (fst (adapter_step ad (Settle reply)))"
    using adapter_reach.stepped [of ad "Settle reply"] 1(2) by simp
  with 1(1) [OF over [symmetric]] over show ?case by (simp del: adapter_step.simps)
next
  case (2 ops digest fault n ad bytes rt)
  then show ?case by (auto intro: adapter_reach.stepped simp del: adapter_step.simps)
qed simp_all

lemma linked_adapter_reach: "linked_reach ops lk \<Longrightarrow> adapter_reach (fst lk)"
proof (induction rule: linked_reach.induct)
  case (linked bd ids ad o' rt)
  then show ?case using adapter_reach.created by simp
next
  case (called lk digest fault c)
  then show ?case
    by (auto simp: linked_call_def intro: drive_reach adapter_reach.stepped)
qed

definition demo_quarantined :: adapter where
  "demo_quarantined = demo_adapter\<lparr>ad_allocated := 1, ad_recovery := BootQuarantined (js ''zork1'')\<rparr>"

lemma demo_quarantined_reach: "adapter_reach demo_quarantined"
proof -
  have "fst (linked_call demo_ops (\<lambda>_. Inl ()) RequestLost (Boot demo_boot_input) (demo_adapter, demo_runtime)) =
      (demo_quarantined, demo_runtime)"
    by (simp add: linked_call_def demo_idle_links exchange_over_def drive_final numeral_2_eq_2 settle_boot_def
        check_boot_def receive_def conclude_def endOperation_def del: adapter_step.simps(1))
      (simp add: demo_quarantined_def demo_adapter_def)
  then show ?thesis
    using linked_adapter_reach [OF linked_reach.called [OF linked_reach.linked [OF demo_adapter_created demo_created],
        of "\<lambda>_. Inl ()" RequestLost "Boot demo_boot_input"]] by simp
qed

definition demo_flight :: adapter where \<comment> \<open>an inspection is in flight\<close>
  "demo_flight = fst (adapter_step demo_linked CallInspect)"

lemma demo_flight_reach: "adapter_reach demo_flight"
  unfolding demo_flight_def using linked_adapter_reach [OF demo_linked_reach] adapter_reach.stepped
  by (simp del: adapter_step.simps)

lemma demo_flight_operation: "ad_operation demo_flight \<noteq> None"
  by (simp add: demo_flight_def adapter_inspect_def demo_linked_def demo_adapter_def required_def submit_def
      allocateMessageId_def demo_message_ids_def beginOperation_def)

section \<open>The adapter\<close>

text \<open>At most one operation is in flight: while one is, every further call throws, hands nothing
  to the transport or the digest and leaves everything but the message-id counter as it was.\<close>
theorem adapter_single_flight:
  assumes "adapter_reach ad" and "ad_operation ad \<noteq> None" and "\<And>out. ev \<noteq> Settle out"
  shows "\<exists>n e. adapter_step ad ev = (ad\<lparr>ad_allocated := n\<rparr>, Threw e) \<and> ad_pending ad \<noteq> None"
  using calls_in_flight [OF assms(2,3)] idle_pending [OF adapter_reach_ok [OF assms(1)]] assms(2) by auto

theorem adapter_single_flight_witness:
  "\<exists>n e. adapter_step demo_flight (CallBoot JUndef) = (demo_flight\<lparr>ad_allocated := n\<rparr>, Threw e) \<and>
     ad_pending demo_flight \<noteq> None"
  by (rule adapter_single_flight [OF demo_flight_reach demo_flight_operation]) simp

text \<open>A failed boot or restore is final: from a quarantined state no sequence of calls and
  replies changes what the adapter holds of the worker, a quarantined boot submits nothing more and
  a quarantined restore only inspections.\<close>
theorem quarantine_is_final:
  assumes "adapter_reach ad"
    and "ad_recovery ad = BootQuarantined sid \<or> ad_recovery ad = RestoreQuarantined n"
  shows "conf (fst (run_adapter ad evs)) = conf ad \<and>
    (\<forall>m. Submit m \<in> set (snd (run_adapter ad evs)) \<longrightarrow>
       ad_recovery ad = RestoreQuarantined n \<and> (\<exists>mid. m = inspect_js mid))"
proof -
  have "permitted (ad_recovery ad) m \<Longrightarrow> ad_recovery ad = RestoreQuarantined n \<and> (\<exists>mid. m = inspect_js mid)" for m
    using assms(2) by auto
  then show ?thesis
    using quarantine_run [OF adapter_reach_ok [OF assms(1)] assms(2), of evs] by blast
qed

theorem quarantine_is_final_witness:
  "conf (fst (run_adapter demo_quarantined [CallBoot demo_boot_input, CallInspect])) = conf demo_quarantined"
  using quarantine_is_final [OF demo_quarantined_reach, of "js ''zork1''" 0 "[CallBoot demo_boot_input, CallInspect]"]
  by (simp add: demo_quarantined_def)

text \<open>C33. After an uncertain execute the adapter submits only inspections and that exact request, and
  it leaves the uncertain state only by returning a reply to that request that passed every check.\<close>
theorem only_the_exact_request_is_retried:
  assumes "adapter_reach ad" and "ad_recovery ad = UncertainExecute rid expected command"
  shows "(\<forall>m. snd (adapter_step ad ev) = Submit m \<longrightarrow>
       (\<exists>mid. m = inspect_js mid \<or> m = execute_js mid rid expected command)) \<and>
    (ad_recovery (fst (adapter_step ad ev)) = UncertainExecute rid expected command \<or>
     (\<exists>mid revision b reply result. ev = Settle reply \<and> ad_recovery (fst (adapter_step ad ev)) = Ready \<and>
        ad_pending ad = Some (AwaitExecute mid rid expected command revision b) \<and>
        check_execute mid rid expected command revision b reply = Inr result \<and>
        snd (adapter_step ad ev) = Returned (fst result)))"
  using step_permitted [OF adapter_reach_ok [OF assms(1)], of ev] uncertain_step [OF adapter_reach_ok [OF assms(1)] assms(2), of ev]
    assms(2) by auto

theorem only_the_exact_request_is_retried_witness:
  "ad_recovery (fst (adapter_step demo_uncertain CallInspect)) = UncertainExecute (js ''r1'') 0 (js ''look'')"
  using only_the_exact_request_is_retried [OF linked_adapter_reach [OF demo_uncertain_reach, simplified],
      of "js ''r1''" 0 "js ''look''" CallInspect]
  by (simp add: demo_uncertain_def)

text \<open>C32. Each event moves the confirmed revision in one of the documented ways only: a boot sets it
  to zero, a committed execute at the expected revision or an inspection of an uncertain execute adds
  one, a restore sets the revision of a snapshot compatible with the engine, and anything else leaves
  revision and boundary alone.  Once set, the compatibility record never changes.\<close>
theorem adapter_revision_moves:
  assumes "adapter_reach ad" and "ad' = fst (adapter_step ad ev)"
  shows "(ad_compatibility ad \<noteq> None \<longrightarrow> ad_compatibility ad' = ad_compatibility ad) \<and>
    ((ad_revision ad' = ad_revision ad \<and> ad_boundary ad' = ad_boundary ad) \<or>
     (\<exists>mid sid sha. ad_pending ad = Some (AwaitBoot mid sid sha) \<and> ad_revision ad = None \<and>
        ad_revision ad' = Some 0 \<and> ad_compatibility ad' = Some (bind_compatibility (ad_binding ad) sid sha)) \<or>
     (\<exists>n mid rid command b. ad_pending ad = Some (AwaitExecute mid rid n command n b) \<and>
        ad_revision ad = Some n \<and> ad_revision ad' = Some (n + 1)) \<or>
     (\<exists>n mid rid expected command b.
        ad_pending ad = Some (AwaitInspect mid n b (UncertainExecute rid expected command)) \<and>
        ad_revision ad = Some n \<and> ad_revision ad' = Some (n + 1)) \<or>
     (\<exists>mid sn revision b. ad_pending ad = Some (AwaitRestore mid sn revision b) \<and>
        ad_compatibility ad = Some (sn_compatibility sn) \<and> ad_revision ad' = Some (sn_revision sn)))"
  using adapter_step_moves [OF adapter_reach_ok [OF assms(1)], of ev] unfolding assms(2) revision_move_def
  by blast

theorem adapter_revision_moves_witness:
  "ad_compatibility (fst (adapter_step demo_linked CallInspect)) = ad_compatibility demo_linked"
  using adapter_revision_moves [OF linked_adapter_reach [OF demo_linked_reach, simplified] refl, of CallInspect]
  by (simp add: demo_linked_def del: adapter_step.simps)

section \<open>The adapter over the runtime\<close>

text \<open>C31. Every request the runtime accepts is answered: whatever the request, at most two
  resumptions of the suspended operation bring a response, and the runtime is idle again.\<close>
theorem every_request_is_answered:
  assumes "rt_pending rt = None"
  shows "rt_pending (fst (serve ops rt req)) = None \<and> (\<exists>r. snd (serve ops rt req) = Some r)"
  using assms by (rule serve_answers)

theorem every_request_is_answered_witness:
  "\<exists>r. snd (serve demo_ops demo_runtime JNull) = Some r"
  using every_request_is_answered [of demo_runtime demo_ops JNull] by (simp add: demo_runtime_def)

text \<open>C4. Whatever requests and replies the transport loses, a booted adapter that says it is ready
  holds the worker's revision, boundary and compatibility exactly.\<close>
theorem ready_adapter_agrees_with_worker:
  assumes "linked_reach (candidate_ops h) (ad, rt)" and "prints_text h"
    and "ad_recovery ad = Ready" and "ad_revision ad = Some n"
  shows "\<exists>s ps. rt_session rt = Some s \<and> inspectPublicState s = Some ps \<and> ps_revision ps = n \<and>
    ad_boundary ad = Some (ps_boundary ps) \<and> rt_compatibility rt = ad_compatibility ad \<and> ad_compatibility ad \<noteq> None"
  using dork.linked_reach_ok [OF assms(1,2)] assms(3,4)
  by (auto simp: linked_ok_def agreement_def booted_def tracks_def holds_def candidate_ops_def)

theorem ready_adapter_agrees_with_worker_witness:
  "\<exists>s ps. rt_session demo_booted = Some s \<and> inspectPublicState s = Some ps \<and> ps_revision ps = 0 \<and>
    ad_boundary demo_linked = Some (ps_boundary ps) \<and> rt_compatibility demo_booted = ad_compatibility demo_linked \<and>
    ad_compatibility demo_linked \<noteq> None"
  by (rule ready_adapter_agrees_with_worker [OF demo_linked_reach demo_prints_text])
    (simp_all add: demo_linked_def demo_adapter_def)

text \<open>C30. An uncertain execute is at most one turn behind: the worker is at the adapter's revision
  and boundary, or exactly one revision ahead with the committed receipt of that very request in its
  journal.\<close>
theorem uncertain_adapter_is_at_most_one_behind:
  assumes "linked_reach (candidate_ops h) (ad, rt)" and "prints_text h"
    and "ad_recovery ad = UncertainExecute rid expected command" and "ad_revision ad = Some n"
  shows "\<exists>s ps. rt_session rt = Some s \<and> inspectPublicState s = Some ps \<and> rt_compatibility rt = ad_compatibility ad \<and>
    ((ps_revision ps = n \<and> ad_boundary ad = Some (ps_boundary ps)) \<or>
     (ps_revision ps = n + 1 \<and> (\<exists>rc. find_receipt rid (rt_receipts rt) = Some rc \<and>
        rc_expectedRevision rc = expected \<and> rc_command rc = command \<and> er_status (rc_result rc) = Committed \<and>
        er_revision (rc_result rc) = n + 1)))"
proof -
  have "tracks (candidate_ops h) ad rt \<or> ahead (candidate_ops h) ad rid expected command rt"
    using dork.linked_reach_ok [OF assms(1,2)] assms(3) by (simp add: linked_ok_def agreement_def)
  then show ?thesis
    using assms(4) by (auto simp: tracks_def ahead_def holds_def candidate_ops_def)
qed

theorem uncertain_adapter_is_at_most_one_behind_witness:
  "find_receipt (js ''r1'') (rt_receipts demo_committed) = Some demo_receipt \<and>
   (\<exists>s ps. rt_session demo_committed = Some s \<and> inspectPublicState s = Some ps \<and> ps_revision ps = 1)"
proof -
  have "ad_recovery demo_uncertain = UncertainExecute (js ''r1'') 0 (js ''look'')" "ad_revision demo_uncertain = Some 0"
    by (simp_all add: demo_uncertain_def demo_linked_def)
  from uncertain_adapter_is_at_most_one_behind [OF demo_uncertain_reach demo_prints_text this] show ?thesis
    using demo_inspect [of 1 "js ''Taken.''"]
    by (auto simp: demo_committed_receipts find_receipt_def demo_receipt_def candidate_ops_def)
qed

text \<open>C11. Recovery: when the journal holds the receipt of the uncertain request, repeating the
  request over a working transport returns exactly the journaled result, runs nothing on the worker
  and makes the adapter ready again.\<close>
theorem exact_retry_recovers_the_receipt:
  assumes "linked_reach (candidate_ops h) (ad, rt)" and "prints_text h"
    and "ad_recovery ad = UncertainExecute rid expected command"
    and "find_receipt rid (rt_receipts rt) = Some rc"
    and "rc_expectedRevision rc = expected" and "rc_command rc = command"
    and "ad_messageIds ad (ad_allocated ad) = Some (JStr mid)" and "bounded_id mid" and "bounded_id rid"
  shows "\<exists>ad'. linked_call (candidate_ops h) digest NoFault (Execute (JObj [(js ''requestId'', JStr rid),
      (js ''expectedRevision'', jnat expected), (js ''command'', JStr command)]) False) (ad, rt) =
      ((ad', rt), Returned (execute_result_js (rc_result rc))) \<and> ad_recovery ad' = Ready"
proof -
  let ?ops = "candidate_ops h" and ?v = "JObj [(js ''requestId'', JStr rid),
      (js ''expectedRevision'', jnat expected), (js ''command'', JStr command)]"
  have lk: "linked_ok ?ops (good_session h) (ad, rt)" using dork.linked_reach_ok [OF assms(1,2)] .
  then have ok: "adapter_ok ad" and p: "ad_pending ad = None" and rt: "runtime_ok ?ops (good_session h) rt"
    and pend: "rt_pending rt = None" and agr: "tracks ?ops ad rt \<or> ahead ?ops ad rid expected command rt"
    using assms(3) by (auto simp: linked_ok_def agreement_def)
  obtain n b where nb: "ad_revision ad = Some n" "ad_boundary ad = Some b"
    and up: "rid \<noteq> []" "expected \<le> MAX_SAFE_INTEGER" "canonical command"
    using ok assms(3) by (auto simp: adapter_ok_def confirmed_ok_def booted_def split: option.splits)
  have g: "execute_guards ad ?v False = Inr (rid, expected, command, n, b)"
    using nb up assms(3) by (simp add: execute_guards_iff)
  define ad1 where "ad1 = ad\<lparr>ad_allocated := ad_allocated ad + 1, ad_operation := Some OpExecute,
      ad_pending := Some (AwaitExecute mid rid expected command n b)\<rparr>"
  have "mid \<noteq> []" using assms(8) by (simp add: bounded_id_def)
  then have step: "adapter_step ad (CallExecute ?v False) = (ad1, Submit (execute_js mid rid expected command))"
    using g assms(7) idle_pending [OF ok] p
    by (simp add: adapter_execute_def submit_def allocateMessageId_def beginOperation_def ad1_def)
  obtain ps c where h: "holds ?ops rt ps c" using agr by (auto simp: tracks_def ahead_def)
  then obtain s where s: "rt_session rt = Some s" "so_inspect ?ops s = Some ps" by (auto simp: holds_def)
  have idle: "idle rt" using rt pend s(1) by (auto simp: idle_def runtime_ok_def runtime_core_def session_ok_def)
  have serve: "serve ?ops rt (execute_js mid rid expected command) = (rt, Some (ExecuteResponse mid (rc_result rc)))"
    using journaled_request [OF idle assms(8) s assms(4,9) up(2), of command] assms(5,6) by (simp add: serve_def)
  have accepted: "\<exists>committed n' b'. check_execute mid rid expected command n b (Inr (response_js (ExecuteResponse mid (rc_result rc)))) =
      Inr (execute_result_js (rc_result rc), committed, n', b')"
    using dork.journaled_reply_accepted [OF rt h assms(4-6) _ up(1)] agr nb by blast
  have ok1: "adapter_ok ad1" "ad_operation ad1 = Some OpExecute"
    using adapter_step_ok [OF ok, of "CallExecute ?v False"] step by (simp_all add: ad1_def)
  from accepted obtain committed n' b' where a:
    "check_execute mid rid expected command n b (Inr (response_js (ExecuteResponse mid (rc_result rc)))) =
      Inr (execute_result_js (rc_result rc), committed, n', b')" by blast
  have "\<exists>ad'. settle_execute ad1 mid rid expected command n b (Inr (response_js (ExecuteResponse mid (rc_result rc)))) =
      (ad', Returned (execute_result_js (rc_result rc))) \<and> ad_recovery ad' = Ready"
    unfolding settle_execute_def a using ok1(2) by (simp add: conclude_pending)
  then obtain ad' where "settle_execute ad1 mid rid expected command n b (Inr (response_js (ExecuteResponse mid (rc_result rc)))) =
      (ad', Returned (execute_result_js (rc_result rc)))" "ad_recovery ad' = Ready" by blast
  then show ?thesis
    unfolding linked_call_def call_event.simps fst_conv snd_conv step
    by (simp add: numeral_2_eq_2 exchange_over_def serve drive_final ad1_def del: response_js.simps)
qed

theorem exact_retry_recovers_the_receipt_witness:
  "\<exists>ad'. linked_call demo_ops (\<lambda>_. Inl ()) NoFault (Execute (JObj [(js ''requestId'', JStr (js ''r1'')),
      (js ''expectedRevision'', jnat 0), (js ''command'', JStr (js ''look''))]) False) (demo_uncertain, demo_committed) =
      ((ad', demo_committed), Returned (execute_result_js (rc_result demo_receipt))) \<and> ad_recovery ad' = Ready"
proof (rule exact_retry_recovers_the_receipt [OF demo_uncertain_reach demo_prints_text, where mid = "js ''m3''"])
  show "find_receipt (js ''r1'') (rt_receipts demo_committed) = Some demo_receipt"
    by (simp add: demo_committed_receipts find_receipt_def demo_receipt_def)
qed (simp_all add: demo_uncertain_def demo_linked_def demo_adapter_def demo_message_ids_def demo_receipt_def)

end
