(* ===== verification/Replacement_Engine.thy ===== *)
theory Replacement_Engine
  imports Worker_Adapter
begin

text \<open>
  \<open>spikes/dork-worker/dork-worker-engine.ts\<close>: the facade that runs the engine adapter over one
  worker at a time and restores a snapshot by swapping in a replacement worker.  A lease is known by
  the number of leases created before it.  The factory, the digest and the transports of the leases
  are outside: they answer through events, and a method suspended at its \<open>await\<close> is an
  \<open>engine_pending\<close>.
\<close>

section \<open>State\<close>

datatype engine_error =
    EngineState \<comment> \<open>\<open>EngineAdapterStateError\<close>\<close>
  | EngineCheck adapter_error \<comment> \<open>\<open>TypeError\<close> or \<open>RangeError\<close> of an argument\<close>
  | AdapterFailed adapter_error
  | FactoryFailed
  | DigestFailed
  | RestoreProse \<comment> \<open>a restore that returned engine output\<close>
  | RestoreMismatch
  | RestoreCancelled \<comment> \<open>\<open>DorkWorkerRestoreCancelledError\<close>\<close>
  | RestoreFailed engine_error \<comment> \<open>\<open>DorkWorkerRestoreError\<close> and its cause\<close>

record engine_view = \<comment> \<open>\<open>PublicEngineState\<close> as the facade keeps it\<close>
  ev_revision :: jsval
  ev_lastOutput :: jsval
  ev_boundary :: jsval

record active_worker =
  aw_lease :: nat
  aw_adapter :: adapter
  aw_bootRequest :: jsval
  aw_compatibility :: compatibility
  aw_state :: engine_view

datatype engine_pending =
    AtBootCreate jsval nat \<comment> \<open>the input and the captured epoch\<close>
  | AtBootWorker nat adapter jsval nat
  | AtActive nat operation jsval adapter \<comment> \<open>an operation of the active adapter\<close>
  | AtRestoreDigest active_worker jsval engine_snapshot nat
  | AtRestoreCreate active_worker jsval nat
  | AtRestoreBoot nat adapter active_worker jsval nat
  | AtRestoreWorker nat adapter active_worker nat
  | AtRestoreInspect nat adapter active_worker jsval nat

datatype engine_effect =
    CreateWorker
  | EngineSubmit nat jsval \<comment> \<open>a request on a lease\<close>
  | EngineDigest "byte list"
  | Terminate nat
  | Answered operation "engine_error + jsval"

record worker_engine =
  en_binding :: jsval
  en_messageIds :: "nat \<Rightarrow> jsval option" \<comment> \<open>\<open>nextMessageId\<close>, shared by all adapters\<close>
  en_allocated :: nat
  en_active :: "active_worker option"
  en_operation :: "operation option"
  en_uncertain :: "jsval option"
  en_disposed :: bool
  en_epoch :: nat
  en_pending :: "engine_pending option"
  en_signal :: "bool option" \<comment> \<open>whether the signal of the running restore is aborted\<close>
  en_created :: nat
  en_orphans :: "(nat \<times> adapter) list" \<comment> \<open>adapters of cancelled restores that still wait\<close>
  en_log :: "engine_effect list" \<comment> \<open>newest first\<close>

definition logged :: "engine_effect \<Rightarrow> worker_engine \<Rightarrow> worker_engine" where
  "logged eff en = en\<lparr>en_log := eff # en_log en\<rparr>"

definition newDorkWorkerEngine :: "byte list \<Rightarrow> jsval \<Rightarrow> (nat \<Rightarrow> jsval option) \<Rightarrow> engine_error + worker_engine" where
  "newDorkWorkerEngine storyBytes bd ids =
     (if length storyBytes < 64 then Inl (EngineCheck RangeErr)
      else
        case bindE (readProp TypeErr bd ''runtime'') (\<lambda>runtime.
             validateCompatibility (JObj
               [(js ''story'', JObj [(js ''id'', JStr (js ''binding-probe'')),
                  (js ''artifactSha256'', JStr (replicate 64 0x30))]),
                (js ''runtime'', runtime), (js ''adapter'', getProp bd ''adapter''),
                (js ''snapshotSchemaVersion'', getProp bd ''snapshotSchemaVersion'')])) of
          Inl e \<Rightarrow> Inl (EngineCheck e)
        | Inr _ \<Rightarrow>
            Inr \<lparr>en_binding = bd, en_messageIds = ids, en_allocated = 0, en_active = None, en_operation = None,
              en_uncertain = None, en_disposed = False, en_epoch = 0, en_pending = None, en_signal = None,
              en_created = 0, en_orphans = [], en_log = []\<rparr>)"

section \<open>Shared steps\<close>

definition requireActive :: "worker_engine \<Rightarrow> engine_error + active_worker" where
  "requireActive en =
     (if en_disposed en then Inl EngineState
      else case en_active en of None \<Rightarrow> Inl EngineState | Some active \<Rightarrow> Inr active)"

definition begin_engine :: "operation \<Rightarrow> worker_engine \<Rightarrow> engine_error + worker_engine" where
  "begin_engine op en =
     (if en_operation en \<noteq> None then Inl EngineState else Inr (en\<lparr>en_operation := Some op\<rparr>))"

definition refuse_engine :: "operation \<Rightarrow> engine_error \<Rightarrow> worker_engine \<Rightarrow> worker_engine" where
  "refuse_engine op e en = logged (Answered op (Inl e)) en"

definition finish_engine :: "operation \<Rightarrow> engine_error + jsval \<Rightarrow> worker_engine \<Rightarrow> worker_engine" where
  \<comment> \<open>\<open>#end\<close>, whose error would replace the answer\<close>
  "finish_engine op answer en =
     (if en_operation en \<noteq> Some op then logged (Answered op (Inl EngineState)) (en\<lparr>en_pending := None\<rparr>)
      else logged (Answered op answer) (en\<lparr>en_operation := None, en_pending := None, en_signal := None\<rparr>))"

definition terminateQuietly :: "nat \<Rightarrow> worker_engine \<Rightarrow> worker_engine" where
  "terminateQuietly lease en = logged (Terminate lease) en"

definition createLease :: "worker_engine \<Rightarrow> worker_engine \<times> nat" where
  \<comment> \<open>the factory's answer\<close>
  "createLease en = (en\<lparr>en_created := en_created en + 1\<rparr>, en_created en)"

definition createAdapter :: "worker_engine \<Rightarrow> adapter_error + adapter" where
  "createAdapter en = newWorkerEngineAdapter (en_binding en) (en_messageIds en)"

definition call_adapter :: "adapter_event \<Rightarrow> worker_engine \<Rightarrow> adapter \<Rightarrow> worker_engine \<times> adapter \<times> adapter_output" where
  \<comment> \<open>an adapter continues the one sequence of message ids\<close>
  "call_adapter ev en ad =
     (case adapter_step (ad\<lparr>ad_allocated := en_allocated en\<rparr>) ev of
        (ad', out) \<Rightarrow> (en\<lparr>en_allocated := ad_allocated ad'\<rparr>, ad', out))"

definition await_adapter ::
  "nat \<Rightarrow> (adapter \<Rightarrow> engine_pending) \<Rightarrow> (adapter \<Rightarrow> adapter_error + jsval \<Rightarrow> worker_engine \<Rightarrow> worker_engine) \<Rightarrow>
   worker_engine \<times> adapter \<times> adapter_output \<Rightarrow> worker_engine" where
  \<comment> \<open>suspends while the adapter waits for its lease or a digest, continues when it settles\<close>
  "await_adapter lease suspend resume = (\<lambda>(en, ad, out).
     case out of
       Quiet \<Rightarrow> en\<lparr>en_pending := Some (suspend ad)\<rparr>
     | Submit request \<Rightarrow> logged (EngineSubmit lease request) (en\<lparr>en_pending := Some (suspend ad)\<rparr>)
     | Digest bytes \<Rightarrow> logged (EngineDigest bytes) (en\<lparr>en_pending := Some (suspend ad)\<rparr>)
     | Returned v \<Rightarrow> resume ad (Inr v) en
     | Threw e \<Rightarrow> resume ad (Inl e) en)"

definition view_of :: "jsval \<Rightarrow> string \<Rightarrow> engine_view" where
  "view_of result output =
     \<lparr>ev_revision = getProp result ''revision'', ev_lastOutput = getProp result output,
      ev_boundary = getProp result ''boundary''\<rparr>"

section \<open>Boot\<close>

definition boot_settled ::
  "nat \<Rightarrow> jsval \<Rightarrow> nat \<Rightarrow> adapter \<Rightarrow> adapter_error + jsval \<Rightarrow> worker_engine \<Rightarrow> worker_engine" where
  \<comment> \<open>the adapter has checked the compatibility it returns, so reading it does not fail\<close>
  "boot_settled lease input epoch ad answer en =
     (case answer of
        Inl e \<Rightarrow> finish_engine OpBoot (Inl (AdapterFailed e)) (terminateQuietly lease en)
      | Inr result \<Rightarrow>
          if en_disposed en \<or> en_epoch en \<noteq> epoch
          then finish_engine OpBoot (Inl EngineState) (terminateQuietly lease en)
          else
            case validateCompatibility (getProp result ''compatibility'') of
              Inl e \<Rightarrow> finish_engine OpBoot (Inl (EngineCheck e)) (terminateQuietly lease en)
            | Inr c \<Rightarrow>
                finish_engine OpBoot (Inr result)
                  (en\<lparr>en_active := Some \<lparr>aw_lease = lease, aw_adapter = ad, aw_bootRequest = override [] input,
                     aw_compatibility = c, aw_state = view_of result ''output''\<rparr>\<rparr>))"

definition boot_created :: "jsval \<Rightarrow> nat \<Rightarrow> unit + unit \<Rightarrow> worker_engine \<Rightarrow> worker_engine" where
  "boot_created input epoch answer en =
     (case answer of
        Inl _ \<Rightarrow> finish_engine OpBoot (Inl FactoryFailed) en
      | Inr _ \<Rightarrow>
          (case createLease en of
             (en1, lease) \<Rightarrow>
               (case createAdapter en1 of
                  Inl e \<Rightarrow> finish_engine OpBoot (Inl (AdapterFailed e)) (terminateQuietly lease en1)
                | Inr ad \<Rightarrow>
                    await_adapter lease (\<lambda>ad. AtBootWorker lease ad input epoch) (boot_settled lease input epoch)
                      (call_adapter (CallBoot input) en1 ad))))"

definition engine_boot :: "jsval \<Rightarrow> worker_engine \<Rightarrow> worker_engine" where
  "engine_boot input en =
     (if en_disposed en \<or> en_active en \<noteq> None then refuse_engine OpBoot EngineState en
      else
        case bindE (bindE (readProp TypeErr input ''storyId'') requireNonemptyString) (\<lambda>_.
             requireSha256 (getProp input ''artifactSha256'')) of
          Inl e \<Rightarrow> refuse_engine OpBoot (EngineCheck e) en
        | Inr _ \<Rightarrow>
            (case begin_engine OpBoot en of
               Inl e \<Rightarrow> refuse_engine OpBoot e en
             | Inr en1 \<Rightarrow> logged CreateWorker (en1\<lparr>en_pending := Some (AtBootCreate input (en_epoch en))\<rparr>)))"

section \<open>Operations of the active worker\<close>

definition at_least :: "jsval \<Rightarrow> jsval \<Rightarrow> bool" where \<comment> \<open>\<open>>=\<close> on checked revisions\<close>
  "at_least a b = (case (safe_nat a, safe_nat b) of (Some m, Some n) \<Rightarrow> n \<le> m | _ \<Rightarrow> False)"

definition keep_adapter :: "adapter \<Rightarrow> worker_engine \<Rightarrow> worker_engine" where
  \<comment> \<open>the active record is updated in place; after \<open>dispose\<close> it is no longer reachable\<close>
  "keep_adapter ad en = en\<lparr>en_active := map_option (\<lambda>a. a\<lparr>aw_adapter := ad\<rparr>) (en_active en)\<rparr>"

definition keep_view :: "engine_view \<Rightarrow> worker_engine \<Rightarrow> worker_engine" where
  "keep_view v en = en\<lparr>en_active := map_option (\<lambda>a. a\<lparr>aw_state := v\<rparr>) (en_active en)\<rparr>"

definition execute_settled :: "jsval \<Rightarrow> adapter \<Rightarrow> adapter_error + jsval \<Rightarrow> worker_engine \<Rightarrow> worker_engine" where
  "execute_settled input ad answer en =
     (let en1 = keep_adapter ad en in
      case answer of
        Inl e \<Rightarrow>
          finish_engine OpExecute (Inl (AdapterFailed e))
            (case e of ExecuteUncertain _ _ _ \<Rightarrow> en1\<lparr>en_uncertain := Some input\<rparr> | _ \<Rightarrow> en1)
      | Inr result \<Rightarrow>
          finish_engine OpExecute (Inr result)
            ((if getProp result ''status'' = JStr (js ''committed'') \<and>
                 (case en_active en1 of None \<Rightarrow> False
                  | Some a \<Rightarrow> at_least (getProp result ''revision'') (ev_revision (aw_state a)))
              then keep_view (view_of result ''output'') en1 else en1)\<lparr>en_uncertain := None\<rparr>))"

definition snapshot_settled :: "adapter \<Rightarrow> adapter_error + jsval \<Rightarrow> worker_engine \<Rightarrow> worker_engine" where
  "snapshot_settled ad answer en =
     finish_engine OpSnapshot (case answer of Inl e \<Rightarrow> Inl (AdapterFailed e) | Inr v \<Rightarrow> Inr v) (keep_adapter ad en)"

definition inspect_settled :: "adapter \<Rightarrow> adapter_error + jsval \<Rightarrow> worker_engine \<Rightarrow> worker_engine" where
  "inspect_settled ad answer en =
     (case answer of
        Inl e \<Rightarrow> finish_engine OpInspect (Inl (AdapterFailed e)) (keep_adapter ad en)
      | Inr state \<Rightarrow> finish_engine OpInspect (Inr state) (keep_view (view_of state ''lastOutput'') (keep_adapter ad en)))"

definition active_settled ::
  "operation \<Rightarrow> jsval \<Rightarrow> adapter \<Rightarrow> adapter_error + jsval \<Rightarrow> worker_engine \<Rightarrow> worker_engine" where
  "active_settled op input =
     (case op of
        OpExecute \<Rightarrow> execute_settled input
      | OpInspect \<Rightarrow> inspect_settled
      | _ \<Rightarrow> snapshot_settled)"

definition engine_active :: "operation \<Rightarrow> jsval \<Rightarrow> adapter_event \<Rightarrow> worker_engine \<Rightarrow> worker_engine" where
  \<comment> \<open>\<open>execute\<close>, \<open>snapshot\<close> and \<open>inspectPublicState\<close>\<close>
  "engine_active op input ev en =
     (case requireActive en of
        Inl e \<Rightarrow> refuse_engine op e en
      | Inr active \<Rightarrow>
          (case begin_engine op en of
             Inl e \<Rightarrow> refuse_engine op e en
           | Inr en1 \<Rightarrow>
               await_adapter (aw_lease active) (\<lambda>ad. AtActive (aw_lease active) op input ad) (active_settled op input)
                 (call_adapter ev en1 (aw_adapter active))))"

section \<open>Restore\<close>

definition cloneSnapshot :: "jsval \<Rightarrow> adapter_error + jsval \<times> engine_snapshot" where
  "cloneSnapshot v =
     bindE (validateSnapshot v) (\<lambda>sn.
     Inr (JObj [(js ''bytes'', JBytes (sn_bytes sn)), (js ''sha256'', JStr (sn_sha256 sn)),
            (js ''revision'', getProp v ''revision''),
            (js ''compatibility'', cloneCompatibility (getProp v ''compatibility''))], sn))"

definition rejectedRestore :: "active_worker \<Rightarrow> jsval \<Rightarrow> jsval" where
  "rejectedRestore active rejection = JObj
     [(js ''status'', JStr (js ''rejected'')), (js ''rejection'', rejection),
      (js ''revision'', ev_revision (aw_state active)), (js ''output'', JStr []), (js ''turnComplete'', JBool True),
      (js ''boundary'', ev_boundary (aw_state active))]"

definition restore_failed :: "nat option \<Rightarrow> engine_error \<Rightarrow> worker_engine \<Rightarrow> worker_engine" where
  \<comment> \<open>the \<open>catch\<close> and the \<open>finally\<close> with the candidate lease\<close>
  "restore_failed lease e en =
     finish_engine OpRestore (Inl (if e = RestoreCancelled then e else RestoreFailed e))
       (case lease of None \<Rightarrow> en | Some l \<Rightarrow> terminateQuietly l en)"

definition restore_aborted :: "worker_engine \<Rightarrow> bool" where "restore_aborted en \<longleftrightarrow> en_signal en = Some True"

definition restore_inspected ::
  "nat \<Rightarrow> active_worker \<Rightarrow> jsval \<Rightarrow> nat \<Rightarrow> adapter \<Rightarrow> adapter_error + jsval \<Rightarrow> worker_engine \<Rightarrow> worker_engine" where
  "restore_inspected lease active result epoch ad answer en =
     (case answer of
        Inl e \<Rightarrow> restore_failed (Some lease) (AdapterFailed e) en
      | Inr state \<Rightarrow>
          if getProp state ''revision'' \<noteq> getProp result ''revision'' \<or>
             getProp state ''boundary'' \<noteq> getProp result ''boundary''
          then restore_failed (Some lease) RestoreMismatch en
          else if restore_aborted en then restore_failed (Some lease) RestoreCancelled en
          else if en_disposed en \<or> en_epoch en \<noteq> epoch then restore_failed (Some lease) EngineState en
          else
            finish_engine OpRestore
              (Inr (JObj [(js ''status'', JStr (js ''restored'')), (js ''revision'', getProp result ''revision''),
                 (js ''output'', JStr []), (js ''turnComplete'', JBool True),
                 (js ''boundary'', getProp result ''boundary'')]))
              (terminateQuietly (aw_lease active)
                (en\<lparr>en_active := Some (active\<lparr>aw_lease := lease, aw_adapter := ad,
                      aw_state := view_of state ''lastOutput''\<rparr>), en_uncertain := None\<rparr>)))"

definition restore_answered ::
  "nat \<Rightarrow> active_worker \<Rightarrow> nat \<Rightarrow> adapter \<Rightarrow> adapter_error + jsval \<Rightarrow> worker_engine \<Rightarrow> worker_engine" where
  "restore_answered lease active epoch ad answer en =
     (case answer of
        Inl e \<Rightarrow> restore_failed (Some lease) (AdapterFailed e) en
      | Inr result \<Rightarrow>
          if getProp result ''status'' = JStr (js ''rejected'')
          then finish_engine OpRestore (Inr (rejectedRestore active (getProp result ''rejection'')))
                 (terminateQuietly lease en)
          else if getProp result ''output'' \<noteq> JStr [] then restore_failed (Some lease) RestoreProse en
          else
            await_adapter lease (\<lambda>ad. AtRestoreInspect lease ad active result epoch)
              (restore_inspected lease active result epoch) (call_adapter CallInspect en ad))"

definition restore_booted ::
  "nat \<Rightarrow> active_worker \<Rightarrow> jsval \<Rightarrow> nat \<Rightarrow> adapter \<Rightarrow> adapter_error + jsval \<Rightarrow> worker_engine \<Rightarrow> worker_engine" where
  "restore_booted lease active snapshot epoch ad answer en =
     (case answer of
        Inl e \<Rightarrow> restore_failed (Some lease) (AdapterFailed e) en
      | Inr _ \<Rightarrow>
          await_adapter lease (\<lambda>ad. AtRestoreWorker lease ad active epoch) (restore_answered lease active epoch)
            (call_adapter (CallRestore snapshot) en ad))"

definition restore_created :: "active_worker \<Rightarrow> jsval \<Rightarrow> nat \<Rightarrow> unit + unit \<Rightarrow> worker_engine \<Rightarrow> worker_engine" where
  "restore_created active snapshot epoch answer en =
     (case answer of
        Inl _ \<Rightarrow> restore_failed None FactoryFailed en
      | Inr _ \<Rightarrow>
          (case createLease en of
             (en1, lease) \<Rightarrow>
               if restore_aborted en1 then restore_failed (Some lease) RestoreCancelled en1
               else
                 case createAdapter en1 of
                   Inl e \<Rightarrow> restore_failed (Some lease) (AdapterFailed e) en1
                 | Inr ad \<Rightarrow>
                     await_adapter lease (\<lambda>ad. AtRestoreBoot lease ad active snapshot epoch)
                       (restore_booted lease active snapshot epoch)
                       (call_adapter (CallBoot (aw_bootRequest active)) en1 ad)))"

definition restore_digested ::
  "active_worker \<Rightarrow> jsval \<Rightarrow> engine_snapshot \<Rightarrow> nat \<Rightarrow> unit + jsval \<Rightarrow> worker_engine \<Rightarrow> worker_engine" where
  "restore_digested active snapshot sn epoch answer en =
     (case answer of
        Inl _ \<Rightarrow> restore_failed None DigestFailed en
      | Inr digest \<Rightarrow>
          if digest \<noteq> JStr (sn_sha256 sn)
          then finish_engine OpRestore (Inr (rejectedRestore active (JStr (js ''corrupt_snapshot'')))) en
          else if restore_aborted en then restore_failed None RestoreCancelled en
          else logged CreateWorker (en\<lparr>en_pending := Some (AtRestoreCreate active snapshot epoch)\<rparr>))"

definition engine_restore :: "jsval \<Rightarrow> bool option \<Rightarrow> worker_engine \<Rightarrow> worker_engine" where
  \<comment> \<open>the signal, if any, and whether it is aborted already\<close>
  "engine_restore snapshot signal en =
     (case requireActive en of
        Inl e \<Rightarrow> refuse_engine OpRestore e en
      | Inr active \<Rightarrow>
          if en_uncertain en \<noteq> None then refuse_engine OpRestore EngineState en
          else
            (case begin_engine OpRestore en of
               Inl e \<Rightarrow> refuse_engine OpRestore e en
             | Inr en1 \<Rightarrow>
                 (case cloneSnapshot snapshot of
                    Inl e \<Rightarrow> restore_failed None (EngineCheck e) en1
                  | Inr (copy, sn) \<Rightarrow>
                      if \<not> sameCompatibility (sn_compatibility sn) (aw_compatibility active)
                      then finish_engine OpRestore (Inr (rejectedRestore active (JStr (js ''incompatible_snapshot'')))) en1
                      else logged (EngineDigest (sn_bytes sn))
                        (en1\<lparr>en_pending := Some (AtRestoreDigest active copy sn (en_epoch en)), en_signal := signal\<rparr>))))"

section \<open>The engine as a machine\<close>

definition dispose_engine :: "worker_engine \<Rightarrow> worker_engine" where
  "dispose_engine en =
     (if en_disposed en then en
      else
        (case en_active en of None \<Rightarrow> (\<lambda>x. x) | Some active \<Rightarrow> terminateQuietly (aw_lease active))
          (en\<lparr>en_disposed := True, en_epoch := en_epoch en + 1, en_active := None\<rparr>))"

definition abort_signal :: "worker_engine \<Rightarrow> worker_engine" where
  \<comment> \<open>the caller's signal aborts; \<open>withAbort\<close> rejects at once, the adapter's own promise stays behind\<close>
  "abort_signal en =
     (if en_signal en \<noteq> Some False then en
      else
        let en1 = en\<lparr>en_signal := Some True\<rparr>;
            cancel = (\<lambda>lease ad. restore_failed (Some lease) RestoreCancelled
              (en1\<lparr>en_orphans := (lease, ad) # en_orphans en1\<rparr>))
        in case en_pending en of
             Some (AtRestoreBoot lease ad _ _ _) \<Rightarrow> cancel lease ad
           | Some (AtRestoreWorker lease ad _ _) \<Rightarrow> cancel lease ad
           | Some (AtRestoreInspect lease ad _ _ _) \<Rightarrow> cancel lease ad
           | _ \<Rightarrow> en1)"

definition settle_orphan :: "nat \<Rightarrow> unit + jsval \<Rightarrow> worker_engine \<Rightarrow> worker_engine" where
  \<comment> \<open>nobody waits for the adapter any more, but it runs on\<close>
  "settle_orphan n outcome en =
     (if length (en_orphans en) \<le> n then en
      else
        (case en_orphans en ! n of
           (lease, ad) \<Rightarrow>
             (case call_adapter (Settle outcome) en ad of
                (en1, ad', out) \<Rightarrow>
                  (case out of
                     Submit request \<Rightarrow> logged (EngineSubmit lease request)
                   | Digest bytes \<Rightarrow> logged (EngineDigest bytes)
                   | _ \<Rightarrow> (\<lambda>x. x)) (en1\<lparr>en_orphans := (en_orphans en1)[n := (lease, ad')]\<rparr>))))"

datatype engine_event =
    EngineBoot jsval
  | EngineExecute jsval bool
  | EngineSnapshot
  | EngineRestore jsval "bool option"
  | EngineInspect
  | EngineDispose
  | EngineAbort
  | FactorySettles "unit + unit"
  | DigestSettles "unit + jsval" \<comment> \<open>the digest the facade itself waits for\<close>
  | AdapterSettles "unit + jsval" \<comment> \<open>the transport or digest the running adapter waits for\<close>
  | OrphanSettles nat "unit + jsval"

definition adapter_settles :: "unit + jsval \<Rightarrow> worker_engine \<Rightarrow> worker_engine" where
  "adapter_settles outcome en =
     (case en_pending en of
        Some (AtBootWorker lease ad input epoch) \<Rightarrow>
          await_adapter lease (\<lambda>ad. AtBootWorker lease ad input epoch) (boot_settled lease input epoch)
            (call_adapter (Settle outcome) en ad)
      | Some (AtActive lease op input ad) \<Rightarrow>
          await_adapter lease (\<lambda>ad. AtActive lease op input ad) (active_settled op input)
            (call_adapter (Settle outcome) en ad)
      | Some (AtRestoreBoot lease ad active snapshot epoch) \<Rightarrow>
          await_adapter lease (\<lambda>ad. AtRestoreBoot lease ad active snapshot epoch)
            (restore_booted lease active snapshot epoch) (call_adapter (Settle outcome) en ad)
      | Some (AtRestoreWorker lease ad active epoch) \<Rightarrow>
          await_adapter lease (\<lambda>ad. AtRestoreWorker lease ad active epoch) (restore_answered lease active epoch)
            (call_adapter (Settle outcome) en ad)
      | Some (AtRestoreInspect lease ad active result epoch) \<Rightarrow>
          await_adapter lease (\<lambda>ad. AtRestoreInspect lease ad active result epoch)
            (restore_inspected lease active result epoch) (call_adapter (Settle outcome) en ad)
      | _ \<Rightarrow> en)"

fun engine_step :: "worker_engine \<Rightarrow> engine_event \<Rightarrow> worker_engine" where
  "engine_step en (EngineBoot input) = engine_boot input en"
| "engine_step en (EngineExecute input signalled) = engine_active OpExecute input (CallExecute input signalled) en"
| "engine_step en EngineSnapshot = engine_active OpSnapshot JUndef CallSnapshot en"
| "engine_step en (EngineRestore snapshot signal) = engine_restore snapshot signal en"
| "engine_step en EngineInspect = engine_active OpInspect JUndef CallInspect en"
| "engine_step en EngineDispose = dispose_engine en"
| "engine_step en EngineAbort = abort_signal en"
| "engine_step en (FactorySettles answer) =
     (case en_pending en of
        Some (AtBootCreate input epoch) \<Rightarrow> boot_created input epoch answer en
      | Some (AtRestoreCreate active snapshot epoch) \<Rightarrow> restore_created active snapshot epoch answer en
      | _ \<Rightarrow> en)"
| "engine_step en (DigestSettles answer) =
     (case en_pending en of
        Some (AtRestoreDigest active snapshot sn epoch) \<Rightarrow> restore_digested active snapshot sn epoch answer en
      | _ \<Rightarrow> en)"
| "engine_step en (AdapterSettles outcome) = adapter_settles outcome en"
| "engine_step en (OrphanSettles n outcome) = settle_orphan n outcome en"

inductive engine_reach :: "worker_engine \<Rightarrow> bool" where
  created: "newDorkWorkerEngine storyBytes bd ids = Inr en \<Longrightarrow> engine_reach en"
| stepped: "engine_reach en \<Longrightarrow> engine_reach (engine_step en ev)"

end
