(* ===== verification/Replacement_Facts.thy ===== *)
theory Replacement_Facts
  imports Replacement_Engine Adapter_Facts
begin

text \<open>
  Which workers the replacement engine owns: every worker it created is terminated, active or
  staged by the running method, and each is terminated once.
\<close>

section \<open>Ownership\<close>

fun terminations :: "engine_effect list \<Rightarrow> nat list" where
  "terminations [] = []"
| "terminations (Terminate l # effs) = l # terminations effs"
| "terminations (_ # effs) = terminations effs"

fun staged :: "engine_pending option \<Rightarrow> nat set" where
  "staged (Some (AtBootWorker l _ _ _)) = {l}"
| "staged (Some (AtRestoreBoot l _ _ _ _)) = {l}"
| "staged (Some (AtRestoreWorker l _ _ _)) = {l}"
| "staged (Some (AtRestoreInspect l _ _ _ _)) = {l}"
| "staged _ = {}"

definition serving :: "worker_engine \<Rightarrow> nat set" where
  "serving en = set_option (map_option aw_lease (en_active en))"

definition leases_ok :: "worker_engine \<Rightarrow> nat set \<Rightarrow> bool" where
  "leases_ok en S \<longleftrightarrow>
     distinct (terminations (en_log en)) \<and>
     {..<en_created en} = set (terminations (en_log en)) \<union> serving en \<union> S \<and>
     set (terminations (en_log en)) \<inter> (serving en \<union> S) = {} \<and> serving en \<inter> S = {}"

fun engine_operation :: "engine_pending \<Rightarrow> operation" where
  "engine_operation (AtBootCreate _ _) = OpBoot"
| "engine_operation (AtBootWorker _ _ _ _) = OpBoot"
| "engine_operation (AtActive _ op _ _) = op"
| "engine_operation _ = OpRestore"

fun captured_active :: "worker_engine \<Rightarrow> engine_pending \<Rightarrow> bool" where
  "captured_active en (AtBootCreate _ _) \<longleftrightarrow> en_active en = None"
| "captured_active en (AtBootWorker _ _ _ _) \<longleftrightarrow> en_active en = None"
| "captured_active en (AtActive l op _ _) \<longleftrightarrow>
     op \<in> {OpExecute, OpSnapshot, OpInspect} \<and> (\<not> en_disposed en \<longrightarrow> (\<exists>a. en_active en = Some a \<and> aw_lease a = l))"
| "captured_active en (AtRestoreDigest active _ _ _) \<longleftrightarrow> (\<not> en_disposed en \<longrightarrow> en_active en = Some active)"
| "captured_active en (AtRestoreCreate active _ _) \<longleftrightarrow> (\<not> en_disposed en \<longrightarrow> en_active en = Some active)"
| "captured_active en (AtRestoreBoot _ _ active _ _) \<longleftrightarrow> (\<not> en_disposed en \<longrightarrow> en_active en = Some active)"
| "captured_active en (AtRestoreWorker _ _ active _) \<longleftrightarrow> (\<not> en_disposed en \<longrightarrow> en_active en = Some active)"
| "captured_active en (AtRestoreInspect _ _ active _ _) \<longleftrightarrow> (\<not> en_disposed en \<longrightarrow> en_active en = Some active)"

definition running :: "worker_engine \<Rightarrow> operation \<Rightarrow> nat set \<Rightarrow> bool" where
  \<comment> \<open>within a method: the operation is marked and the leases in \<open>S\<close> are its own\<close>
  "running en op S \<longleftrightarrow> en_operation en = Some op \<and> (en_disposed en \<longrightarrow> en_active en = None) \<and> leases_ok en S"

definition engine_ok :: "worker_engine \<Rightarrow> bool" where
  "engine_ok en \<longleftrightarrow>
     (en_disposed en \<longrightarrow> en_active en = None) \<and> leases_ok en (staged (en_pending en)) \<and>
     (case en_pending en of
        None \<Rightarrow> en_operation en = None
      | Some p \<Rightarrow> en_operation en = Some (engine_operation p) \<and> captured_active en p)"

section \<open>Single steps\<close>

lemma logged_fields [simp]:
  "en_log (logged eff en) = eff # en_log en" "en_active (logged eff en) = en_active en"
  "en_created (logged eff en) = en_created en" "en_operation (logged eff en) = en_operation en"
  "en_disposed (logged eff en) = en_disposed en" "en_pending (logged eff en) = en_pending en"
  "en_uncertain (logged eff en) = en_uncertain en" "en_signal (logged eff en) = en_signal en"
  "en_epoch (logged eff en) = en_epoch en"
  "serving (logged eff en) = serving en"
  by (simp_all add: logged_def serving_def)

lemma leases_logged [simp]:
  "leases_ok (logged CreateWorker en) S \<longleftrightarrow> leases_ok en S"
  "leases_ok (logged (EngineSubmit l r) en) S \<longleftrightarrow> leases_ok en S"
  "leases_ok (logged (EngineDigest bs) en) S \<longleftrightarrow> leases_ok en S"
  "leases_ok (logged (Answered op answer) en) S \<longleftrightarrow> leases_ok en S"
  by (simp_all add: leases_ok_def)

lemma leases_update [simp]:
  "leases_ok (en\<lparr>en_allocated := n\<rparr>) S \<longleftrightarrow> leases_ok en S"
  "leases_ok (en\<lparr>en_operation := op\<rparr>) S \<longleftrightarrow> leases_ok en S"
  "leases_ok (en\<lparr>en_pending := p\<rparr>) S \<longleftrightarrow> leases_ok en S"
  "leases_ok (en\<lparr>en_signal := sg\<rparr>) S \<longleftrightarrow> leases_ok en S"
  "leases_ok (en\<lparr>en_uncertain := u\<rparr>) S \<longleftrightarrow> leases_ok en S"
  "leases_ok (en\<lparr>en_orphans := os\<rparr>) S \<longleftrightarrow> leases_ok en S"
  by (simp_all add: leases_ok_def serving_def)

lemma captured_cong: "en_active en' = en_active en \<Longrightarrow> en_disposed en' = en_disposed en \<Longrightarrow>
    captured_active en' p \<longleftrightarrow> captured_active en p"
  by (cases p) auto

lemma engine_ok_cong:
  assumes "en_active en' = en_active en" "en_disposed en' = en_disposed en" "en_pending en' = en_pending en"
    "en_operation en' = en_operation en" "en_created en' = en_created en"
    "terminations (en_log en') = terminations (en_log en)"
  shows "engine_ok en' \<longleftrightarrow> engine_ok en"
  using assms captured_cong [OF assms(1, 2)] by (simp add: engine_ok_def leases_ok_def serving_def cong: option.case_cong)

lemma engine_ok_update [simp]:
  "engine_ok (en\<lparr>en_signal := sg\<rparr>) \<longleftrightarrow> engine_ok en"
  "engine_ok (en\<lparr>en_allocated := n\<rparr>) \<longleftrightarrow> engine_ok en"
  "engine_ok (en\<lparr>en_orphans := os\<rparr>) \<longleftrightarrow> engine_ok en"
  "engine_ok (logged CreateWorker en) \<longleftrightarrow> engine_ok en"
  "engine_ok (logged (EngineSubmit l r) en) \<longleftrightarrow> engine_ok en"
  "engine_ok (logged (EngineDigest bs) en) \<longleftrightarrow> engine_ok en"
  "engine_ok (logged (Answered op answer) en) \<longleftrightarrow> engine_ok en"
  by (rule engine_ok_cong; simp)+

lemma running_update [simp]:
  "running (en\<lparr>en_allocated := n\<rparr>) op S \<longleftrightarrow> running en op S"
  "running (en\<lparr>en_uncertain := u\<rparr>) op S \<longleftrightarrow> running en op S"
  "running (en\<lparr>en_signal := sg\<rparr>) op S \<longleftrightarrow> running en op S"
  "running (en\<lparr>en_orphans := os\<rparr>) op S \<longleftrightarrow> running en op S"
  by (simp_all add: running_def)

lemma engine_finish_ok: "running en op {} \<Longrightarrow> engine_ok (finish_engine op answer en)"
  by (simp add: finish_engine_def running_def engine_ok_def)

lemma terminate_running: "running en op {l} \<Longrightarrow> running (terminateQuietly l en) op {}"
  by (auto simp: running_def terminateQuietly_def leases_ok_def)

lemma restore_failed_ok: "running en OpRestore (set_option lease) \<Longrightarrow> engine_ok (restore_failed lease e en)"
  by (cases lease) (simp_all add: restore_failed_def engine_finish_ok terminate_running)

lemma create_running:
  assumes "running en op {}" "createLease en = (en1, lease)"
  shows "running en1 op {lease}" "en_active en1 = en_active en" "en_disposed en1 = en_disposed en"
proof -
  have f: "en1 = en\<lparr>en_created := Suc (en_created en)\<rparr>" "lease = en_created en"
    using assms(2) by (auto simp: createLease_def)
  from assms(1) have p: "{..<en_created en} = set (terminations (en_log en)) \<union> serving en"
    by (simp add: running_def leases_ok_def)
  then have "en_created en \<notin> set (terminations (en_log en)) \<union> serving en" by (metis lessThan_iff less_irrefl)
  with assms(1) p show "running en1 op {lease}"
    by (auto simp: f running_def leases_ok_def serving_def lessThan_Suc)
  show "en_active en1 = en_active en" "en_disposed en1 = en_disposed en" by (simp_all add: f)
qed

lemma call_adapter_state:
  obtains n ad out where "call_adapter ev en ad0 = (en\<lparr>en_allocated := n\<rparr>, ad, out)"
  by (cases "adapter_step (ad0\<lparr>ad_allocated := en_allocated en\<rparr>) ev") (auto simp: call_adapter_def)

lemma await_ok:
  assumes "running en op S"
    and "\<And>ad. staged (Some (suspend ad)) = S \<and> engine_operation (suspend ad) = op \<and> captured_active en (suspend ad)"
    and "\<And>n ad answer. engine_ok (resume ad answer (en\<lparr>en_allocated := n\<rparr>))"
  shows "engine_ok (await_adapter lease suspend resume (call_adapter ev en ad0))"
proof -
  obtain n ad out where call: "call_adapter ev en ad0 = (en\<lparr>en_allocated := n\<rparr>, ad, out)"
    by (rule call_adapter_state)
  have "engine_ok (en\<lparr>en_allocated := n, en_pending := Some (suspend ad)\<rparr>)"
    using assms(1) assms(2) [of ad] captured_cong [of "en\<lparr>en_allocated := n, en_pending := Some (suspend ad)\<rparr>" en]
    by (simp add: engine_ok_def running_def)
  then show ?thesis
    using assms(3) by (simp add: await_adapter_def call split: adapter_output.split)
qed

section \<open>Every step keeps the ownership\<close>

lemma serve_running:
  assumes "running en op {l}" "serving en = {}" "\<not> en_disposed en"
  shows "running (en\<lparr>en_active := Some \<lparr>aw_lease = l, aw_adapter = ad, aw_bootRequest = b, aw_compatibility = c, aw_state = v\<rparr>\<rparr>) op {}"
  using assms by (simp add: running_def leases_ok_def serving_def)

lemma boot_settled_ok:
  assumes "running en OpBoot {lease}" "en_active en = None"
  shows "engine_ok (boot_settled lease input epoch ad answer en)"
proof -
  have "serving en = {}" using assms(2) by (simp add: serving_def)
  with assms show ?thesis
    by (auto simp: boot_settled_def intro!: engine_finish_ok terminate_running serve_running split: sum.splits)
qed

lemma boot_created_ok:
  assumes "running en OpBoot {}" "en_active en = None"
  shows "engine_ok (boot_created input epoch answer en)"
proof (cases answer)
  case (Inl u)
  with assms show ?thesis by (simp add: boot_created_def engine_finish_ok)
next
  case (Inr u)
  obtain en1 lease where c: "createLease en = (en1, lease)" by (cases "createLease en")
  note r = create_running [OF assms(1) c]
  show ?thesis
    using Inr r assms(2)
    by (auto simp: boot_created_def c intro!: engine_finish_ok terminate_running await_ok boot_settled_ok split: sum.splits)
qed

lemma active_kept:
  "running en op S \<Longrightarrow> running (keep_adapter ad en) op S" "running en op S \<Longrightarrow> running (keep_view v en) op S"
  by (auto simp: running_def keep_adapter_def keep_view_def leases_ok_def serving_def option.map_comp comp_def)

lemma active_settled_ok:
  "op \<in> {OpExecute, OpSnapshot, OpInspect} \<Longrightarrow> running en op {} \<Longrightarrow> engine_ok (active_settled op input ad answer en)"
  by (auto simp: active_settled_def execute_settled_def snapshot_settled_def inspect_settled_def Let_def
      intro!: engine_finish_ok active_kept split: sum.split adapter_error.split)

lemma swap_running:
  assumes "running en OpRestore {lease}" "en_active en = Some active" "\<not> en_disposed en"
  shows "running (terminateQuietly (aw_lease active) (en\<lparr>en_active := Some (active\<lparr>aw_lease := lease, aw_adapter := ad,
    aw_state := v\<rparr>), en_uncertain := None\<rparr>)) OpRestore {}"
  using assms by (auto simp: running_def leases_ok_def serving_def terminateQuietly_def)

lemma restore_inspected_ok:
  assumes "running en OpRestore {lease}" "\<not> en_disposed en \<longrightarrow> en_active en = Some active"
  shows "engine_ok (restore_inspected lease active result epoch ad answer en)"
  using assms by (auto simp: restore_inspected_def intro!: restore_failed_ok engine_finish_ok swap_running split: sum.split)

lemma restore_answered_ok:
  assumes "running en OpRestore {lease}" "\<not> en_disposed en \<longrightarrow> en_active en = Some active"
  shows "engine_ok (restore_answered lease active epoch ad answer en)"
  using assms
  by (auto simp: restore_answered_def
      intro!: restore_failed_ok engine_finish_ok terminate_running await_ok restore_inspected_ok split: sum.split)

lemma restore_booted_ok:
  assumes "running en OpRestore {lease}" "\<not> en_disposed en \<longrightarrow> en_active en = Some active"
  shows "engine_ok (restore_booted lease active snapshot epoch ad answer en)"
  using assms
  by (auto simp: restore_booted_def intro!: restore_failed_ok await_ok restore_answered_ok split: sum.split)

lemma restore_created_ok:
  assumes "running en OpRestore {}" "\<not> en_disposed en \<longrightarrow> en_active en = Some active"
  shows "engine_ok (restore_created active snapshot epoch answer en)"
proof (cases answer)
  case (Inl u)
  with assms show ?thesis by (simp add: restore_created_def restore_failed_ok)
next
  case (Inr u)
  obtain en1 lease where c: "createLease en = (en1, lease)" by (cases "createLease en")
  note r = create_running [OF assms(1) c]
  show ?thesis
    using Inr r assms(2)
    by (auto simp: restore_created_def c intro!: restore_failed_ok await_ok restore_booted_ok split: sum.split)
qed

lemma suspended_ok:
  "running en op (staged (Some p)) \<Longrightarrow> engine_operation p = op \<Longrightarrow> captured_active en p \<Longrightarrow>
   engine_ok (en\<lparr>en_pending := Some p\<rparr>)"
  using captured_cong [of "en\<lparr>en_pending := Some p\<rparr>" en p] by (simp add: engine_ok_def running_def)

lemma restore_digested_ok:
  assumes r: "running en OpRestore {}" and a: "\<not> en_disposed en \<longrightarrow> en_active en = Some active"
  shows "engine_ok (restore_digested active snapshot sn epoch answer en)"
proof (cases answer)
  case (Inl u)
  with r show ?thesis by (simp add: restore_digested_def restore_failed_ok)
next
  case (Inr digest)
  have "engine_ok (en\<lparr>en_pending := Some (AtRestoreCreate active snapshot epoch)\<rparr>)"
    using suspended_ok [of en OpRestore "AtRestoreCreate active snapshot epoch"] r a by simp
  moreover have "engine_ok (restore_failed None RestoreCancelled en)" using r by (simp add: restore_failed_ok)
  moreover have "engine_ok (finish_engine OpRestore answer' en)" for answer' using r by (rule engine_finish_ok)
  ultimately show ?thesis by (simp add: restore_digested_def Inr)
qed

lemma begin_running:
  assumes "engine_ok en" "begin_engine op en = Inr en1"
  shows "running en1 op {}" "en_active en1 = en_active en" "en_disposed en1 = en_disposed en"
  using assms by (auto simp: begin_engine_def engine_ok_def running_def split: if_splits option.splits)

lemma engine_refuse_ok [simp]: "engine_ok (refuse_engine op e en) \<longleftrightarrow> engine_ok en"
  by (simp add: refuse_engine_def)

lemma engine_boot_ok:
  assumes "engine_ok en"
  shows "engine_ok (engine_boot input en)"
proof -
  have "engine_ok (en1\<lparr>en_pending := Some (AtBootCreate input n)\<rparr>)"
    if "begin_engine OpBoot en = Inr en1" "en_active en = None" for en1 n
    using suspended_ok [of en1 OpBoot "AtBootCreate input n"] begin_running [OF assms that(1)] that(2) by simp
  with assms show ?thesis by (simp add: engine_boot_def split: sum.split)
qed

lemma engine_active_ok:
  assumes "engine_ok en" "op \<in> {OpExecute, OpSnapshot, OpInspect}"
  shows "engine_ok (engine_active op input ev en)"
proof (cases "requireActive en")
  case (Inl e)
  with assms(1) show ?thesis by (simp add: engine_active_def)
next
  case (Inr active)
  then have a: "en_active en = Some active" by (auto simp: requireActive_def split: if_splits option.splits)
  show ?thesis
  proof (cases "begin_engine op en")
    case (Inl e)
    with Inr assms(1) show ?thesis by (simp add: engine_active_def)
  next
    case (Inr en1)
    note r = begin_running [OF assms(1) this]
    have "engine_ok (await_adapter (aw_lease active) (\<lambda>ad. AtActive (aw_lease active) op input ad)
        (active_settled op input) (call_adapter ev en1 (aw_adapter active)))"
      by (rule await_ok [OF r(1)]) (use assms(2) r a active_settled_ok in auto)
    with Inr \<open>requireActive en = Inr active\<close> show ?thesis by (simp add: engine_active_def)
  qed
qed

lemma engine_restore_ok:
  assumes "engine_ok en"
  shows "engine_ok (engine_restore snapshot signal en)"
proof (cases "requireActive en")
  case (Inl e)
  with assms(1) show ?thesis by (simp add: engine_restore_def)
next
  case (Inr active)
  then have a: "en_active en = Some active" by (auto simp: requireActive_def split: if_splits option.splits)
  have "engine_ok (en1\<lparr>en_pending := Some (AtRestoreDigest active copy sn n)\<rparr>)"
    if "begin_engine OpRestore en = Inr en1" for en1 copy sn n
    using suspended_ok [of en1 OpRestore "AtRestoreDigest active copy sn n"] begin_running [OF assms that] a by simp
  moreover have "engine_ok (restore_failed None e en1)" "engine_ok (finish_engine OpRestore answer en1)"
    if "begin_engine OpRestore en = Inr en1" for en1 e answer
    using begin_running(1) [OF assms that] by (simp_all add: restore_failed_ok engine_finish_ok)
  ultimately show ?thesis
    using assms Inr by (simp add: engine_restore_def split: sum.split prod.split)
qed

lemma engine_dispose_ok:
  assumes "engine_ok en"
  shows "engine_ok (dispose_engine en)"
proof (cases "en_disposed en \<or> en_active en = None")
  case True
  then show ?thesis
    using assms by (cases "en_pending en"; cases "the (en_pending en)")
      (auto simp: dispose_engine_def engine_ok_def leases_ok_def serving_def)
next
  case False
  then obtain a where a: "en_active en = Some a" "\<not> en_disposed en" by auto
  have "leases_ok (dispose_engine en) (staged (en_pending en))"
    using assms a by (auto simp: dispose_engine_def engine_ok_def leases_ok_def serving_def terminateQuietly_def)
  moreover have "captured_active (dispose_engine en) p" if "captured_active en p" for p
    using that a by (cases p) (auto simp: dispose_engine_def terminateQuietly_def)
  ultimately show ?thesis
    using assms a by (auto simp: engine_ok_def dispose_engine_def terminateQuietly_def split: option.splits)
qed

lemma pending_running:
  "engine_ok en \<Longrightarrow> en_pending en = Some p \<Longrightarrow> running en (engine_operation p) (staged (Some p)) \<and> captured_active en p"
  by (simp add: engine_ok_def running_def)

lemma abort_ok:
  assumes "engine_ok en"
  shows "engine_ok (abort_signal en)"
proof (cases "en_signal en = Some False")
  case False
  with assms show ?thesis by (simp add: abort_signal_def)
next
  case True
  have plain: "engine_ok (en\<lparr>en_signal := Some True\<rparr>)" using assms by simp
  have "engine_ok (restore_failed (Some lease) RestoreCancelled (en\<lparr>en_signal := Some True, en_orphans := os\<rparr>))"
    if "en_pending en = Some p" "engine_operation p = OpRestore" "staged (Some p) = {lease}" for p lease os
    using pending_running [OF assms that(1)] that by (intro restore_failed_ok) simp
  then show ?thesis
    using True plain by (auto simp: abort_signal_def Let_def split: option.split engine_pending.split)
qed

lemma orphan_ok:
  assumes "engine_ok en"
  shows "engine_ok (settle_orphan n outcome en)"
proof -
  obtain lease ad where "en_orphans en ! n = (lease, ad)" by (cases "en_orphans en ! n")
  moreover obtain m ad' out where "call_adapter (Settle outcome) en ad = (en\<lparr>en_allocated := m\<rparr>, ad', out)"
    by (rule call_adapter_state)
  ultimately show ?thesis
    using assms by (simp add: settle_orphan_def split: adapter_output.split)
qed

lemma adapter_settles_ok:
  assumes "engine_ok en"
  shows "engine_ok (adapter_settles outcome en)"
proof (cases "en_pending en")
  case None
  with assms show ?thesis by (simp add: adapter_settles_def)
next
  case (Some p)
  note r = pending_running [OF assms Some]
  show ?thesis
  proof (cases p)
    case (AtBootWorker lease ad input epoch)
    show ?thesis unfolding adapter_settles_def Some AtBootWorker option.case engine_pending.case
      by (rule await_ok [of _ OpBoot "{lease}"]) (use r AtBootWorker boot_settled_ok in auto)
  next
    case (AtActive lease op input ad)
    show ?thesis unfolding adapter_settles_def Some AtActive option.case engine_pending.case
      by (rule await_ok [of _ op "{}"]) (use r AtActive active_settled_ok in auto)
  next
    case (AtRestoreBoot lease ad active snapshot epoch)
    show ?thesis unfolding adapter_settles_def Some AtRestoreBoot option.case engine_pending.case
      by (rule await_ok [of _ OpRestore "{lease}"]) (use r AtRestoreBoot restore_booted_ok in auto)
  next
    case (AtRestoreWorker lease ad active epoch)
    show ?thesis unfolding adapter_settles_def Some AtRestoreWorker option.case engine_pending.case
      by (rule await_ok [of _ OpRestore "{lease}"]) (use r AtRestoreWorker restore_answered_ok in auto)
  next
    case (AtRestoreInspect lease ad active result epoch)
    show ?thesis unfolding adapter_settles_def Some AtRestoreInspect option.case engine_pending.case
      by (rule await_ok [of _ OpRestore "{lease}"]) (use r AtRestoreInspect restore_inspected_ok in auto)
  qed (use assms Some in \<open>simp_all add: adapter_settles_def\<close>)
qed

lemma engine_step_ok:
  assumes "engine_ok en"
  shows "engine_ok (engine_step en ev)"
proof (cases ev)
  case (FactorySettles answer)
  then show ?thesis
    using assms pending_running [OF assms] boot_created_ok restore_created_ok
    by (auto split: option.split engine_pending.split)
next
  case (DigestSettles answer)
  then show ?thesis
    using assms pending_running [OF assms] restore_digested_ok by (auto split: option.split engine_pending.split)
qed (use assms in \<open>simp_all add: engine_boot_ok engine_active_ok engine_restore_ok engine_dispose_ok abort_ok orphan_ok
  adapter_settles_ok\<close>)

lemma new_engine_ok: "newDorkWorkerEngine storyBytes bd ids = Inr en \<Longrightarrow> engine_ok en"
  by (auto simp: newDorkWorkerEngine_def engine_ok_def leases_ok_def serving_def split: if_splits sum.splits)

theorem engine_reach_ok: "engine_reach en \<Longrightarrow> engine_ok en"
  by (induction rule: engine_reach.induct) (simp_all add: new_engine_ok engine_step_ok)

end
