(* ===== verification/Replacement_Swap.thy ===== *)
theory Replacement_Swap
  imports Replacement_Facts
begin

text \<open>
  What a step does to the active worker: nothing, an update of its record, or a swap that is answered
  \<open>restored\<close>.
\<close>

section \<open>Swaps\<close>

definition restored_js :: "engine_view \<Rightarrow> jsval" where
  "restored_js v = JObj
     [(js ''status'', JStr (js ''restored'')), (js ''revision'', ev_revision v), (js ''output'', JStr []),
      (js ''turnComplete'', JBool True), (js ''boundary'', ev_boundary v)]"

definition swaps :: "active_worker \<Rightarrow> worker_engine \<Rightarrow> bool" where
  "swaps a en \<longleftrightarrow>
     en_active en = Some a \<or>
     (\<exists>l ad v effs. en_active en = Some (a\<lparr>aw_lease := l, aw_adapter := ad, aw_state := v\<rparr>) \<and>
        en_log en = Answered OpRestore (Inr (restored_js v)) # Terminate (aw_lease a) # effs)"

lemma finish_active [simp]: "en_active (finish_engine op answer en) = en_active en"
  by (simp add: finish_engine_def)

lemma quiet_active [simp]: "en_active (terminateQuietly l en) = en_active en" "en_active (refuse_engine op e en) = en_active en"
  by (simp_all add: terminateQuietly_def refuse_engine_def)

lemma failed_active [simp]: "en_active (restore_failed lease e en) = en_active en"
  by (simp add: restore_failed_def split: option.split)

lemma swaps_same: "en_active en = Some a \<Longrightarrow> swaps a en"
  by (simp add: swaps_def)

lemma await_swaps:
  assumes "en_active en = Some a" "\<And>n ad answer. swaps a (resume ad answer (en\<lparr>en_allocated := n\<rparr>))"
  shows "swaps a (await_adapter lease suspend resume (call_adapter ev en ad0))"
proof -
  obtain n ad out where call: "call_adapter ev en ad0 = (en\<lparr>en_allocated := n\<rparr>, ad, out)"
    by (rule call_adapter_state)
  show ?thesis
    using assms by (auto simp: await_adapter_def call intro!: swaps_same split: adapter_output.split)
qed

lemma inspected_swaps:
  assumes "en_active en = Some a" "en_operation en = Some OpRestore"
  shows "swaps a (restore_inspected lease a result epoch ad answer en)"
proof (cases answer)
  case (Inl e)
  with assms show ?thesis by (simp add: restore_inspected_def swaps_same)
next
  case (Inr state)
  let ?v = "view_of state ''lastOutput''"
  have "swaps a (finish_engine OpRestore (Inr (restored_js ?v)) (terminateQuietly (aw_lease a)
      (en\<lparr>en_active := Some (a\<lparr>aw_lease := lease, aw_adapter := ad, aw_state := ?v\<rparr>), en_uncertain := None\<rparr>)))"
    using assms(2) by (fastforce simp: swaps_def finish_engine_def terminateQuietly_def)
  moreover have "restored_js ?v = JObj [(js ''status'', JStr (js ''restored'')), (js ''revision'', getProp state ''revision''),
      (js ''output'', JStr []), (js ''turnComplete'', JBool True), (js ''boundary'', getProp state ''boundary'')]"
    by (simp add: restored_js_def view_of_def)
  ultimately show ?thesis using assms Inr by (auto simp: restore_inspected_def intro: swaps_same)
qed

lemma answered_swaps:
  assumes "en_active en = Some a" "en_operation en = Some OpRestore"
  shows "swaps a (restore_answered lease a epoch ad answer en)"
  using assms by (cases answer) (simp_all add: restore_answered_def swaps_same await_swaps inspected_swaps)

lemma booted_swaps:
  assumes "en_active en = Some a" "en_operation en = Some OpRestore"
  shows "swaps a (restore_booted lease a snapshot epoch ad answer en)"
  using assms by (cases answer) (simp_all add: restore_booted_def swaps_same await_swaps answered_swaps)

lemma created_swaps:
  assumes "en_active en = Some a" "en_operation en = Some OpRestore"
  shows "swaps a (restore_created a snapshot epoch answer en)"
  using assms
  by (cases answer) (simp_all add: restore_created_def createLease_def swaps_same await_swaps booted_swaps split: sum.split)

lemma digested_swaps: "en_active en = Some a \<Longrightarrow> swaps a (restore_digested a snapshot sn epoch answer en)"
  by (auto simp: restore_digested_def intro!: swaps_same split: sum.split)

lemma begin_active: "begin_engine op en = Inr en1 \<Longrightarrow> en_active en1 = en_active en"
  by (auto simp: begin_engine_def split: if_splits)

lemma restore_call_active: "en_active (engine_restore snapshot signal en) = en_active en"
  by (auto simp: engine_restore_def dest: begin_active split: sum.split prod.split)

lemma boot_call_active: "en_active (engine_boot input en) = en_active en"
  by (auto simp: engine_boot_def dest: begin_active split: sum.split)

lemma abort_active: "en_active (abort_signal en) = en_active en"
  by (auto simp: abort_signal_def Let_def split: option.split engine_pending.split)

lemma orphan_active: "en_active (settle_orphan n outcome en) = en_active en"
proof -
  obtain lease ad where "en_orphans en ! n = (lease, ad)" by (cases "en_orphans en ! n")
  moreover obtain m ad' out where "call_adapter (Settle outcome) en ad = (en\<lparr>en_allocated := m\<rparr>, ad', out)"
    by (rule call_adapter_state)
  ultimately show ?thesis by (simp add: settle_orphan_def split: adapter_output.split)
qed

text \<open>The operations of the active worker update its record in place.\<close>

definition same_worker :: "active_worker \<Rightarrow> worker_engine \<Rightarrow> bool" where
  "same_worker a en \<longleftrightarrow>
     (case en_active en of
        None \<Rightarrow> False
      | Some b \<Rightarrow> aw_lease b = aw_lease a \<and> aw_bootRequest b = aw_bootRequest a \<and> aw_compatibility b = aw_compatibility a)"

lemma same_worker_refl: "en_active en = Some a \<Longrightarrow> same_worker a en"
  by (simp add: same_worker_def)

lemma same_worker_keeps [simp]:
  "same_worker a (logged eff en) = same_worker a en" "same_worker a (keep_adapter ad en) = same_worker a en"
  "same_worker a (keep_view v en) = same_worker a en" "same_worker a (finish_engine op answer en) = same_worker a en"
  "same_worker a (refuse_engine op e en) = same_worker a en" "same_worker a (en\<lparr>en_uncertain := u\<rparr>) = same_worker a en"
  "same_worker a (en\<lparr>en_pending := p\<rparr>) = same_worker a en" "same_worker a (en\<lparr>en_allocated := n\<rparr>) = same_worker a en"
  by (simp_all add: same_worker_def keep_adapter_def keep_view_def split: option.split)

lemma settled_same: "same_worker a en \<Longrightarrow> same_worker a (active_settled op input ad answer en)"
  by (simp add: active_settled_def execute_settled_def snapshot_settled_def inspect_settled_def Let_def
      split: operation.split sum.split adapter_error.split)

lemma await_same:
  assumes "same_worker a en"
  shows "same_worker a (await_adapter lease suspend (active_settled op input) (call_adapter ev en ad0))"
proof -
  obtain n ad out where call: "call_adapter ev en ad0 = (en\<lparr>en_allocated := n\<rparr>, ad, out)"
    by (rule call_adapter_state)
  show ?thesis using assms by (simp add: await_adapter_def call settled_same split: adapter_output.split)
qed

lemma active_call_same:
  assumes "en_active en = Some a"
  shows "same_worker a (engine_active op input ev en)"
  using same_worker_refl [OF assms] assms begin_active [of op en]
  by (auto simp: engine_active_def await_same same_worker_refl split: sum.split)

lemma busy_call: "en_operation en \<noteq> None \<Longrightarrow> en_active (engine_active op input ev en) = en_active en"
  by (auto simp: engine_active_def begin_engine_def split: sum.split)

lemma step_swaps:
  assumes "engine_ok en" "en_active en = Some a" "ev \<noteq> EngineDispose"
  shows "swaps a (engine_step en ev) \<or> (same_worker a (engine_step en ev) \<and> en_operation en \<noteq> Some OpRestore)"
proof -
  from assms(1,2) have up: "\<not> en_disposed en" by (auto simp: engine_ok_def)
  have busy: "swaps a (engine_active op input ev' en) \<or>
      (same_worker a (engine_active op input ev' en) \<and> en_operation en \<noteq> Some OpRestore)" for op input ev'
    using active_call_same [OF assms(2)] busy_call [of en op input ev'] assms(2)
    by (cases "en_operation en = Some OpRestore") (auto intro: swaps_same)
  show ?thesis
  proof (cases "en_pending en")
    case None
    then show ?thesis
      using busy assms(2,3)
      by (cases ev) (simp_all add: swaps_same boot_call_active restore_call_active abort_active orphan_active
          adapter_settles_def)
  next
    case (Some p)
    note r = pending_running [OF assms(1) Some]
    then have op: "en_operation en = Some (engine_operation p)" by (simp add: running_def)
    show ?thesis
    proof (cases ev)
      case (FactorySettles answer)
      then show ?thesis
        using Some r op up assms(2) by (cases p) (auto intro: swaps_same created_swaps)
    next
      case (DigestSettles answer)
      then show ?thesis
        using Some r op up assms(2) by (cases p) (auto intro: swaps_same digested_swaps)
    next
      case (AdapterSettles outcome)
      then show ?thesis
        using Some r op up assms(2)
        by (cases p) (auto simp: adapter_settles_def await_same same_worker_refl swaps_same await_swaps booted_swaps
            answered_swaps inspected_swaps)
    qed (use busy assms(2,3) in \<open>simp_all add: swaps_same boot_call_active restore_call_active abort_active orphan_active\<close>)
  qed
qed

end
