(* ===== verification/Replacement_Demo.thy ===== *)
theory Replacement_Demo
  imports Replacement_Swap
begin

text \<open>
  A small concrete engine: a boot, and a restore up to the reply of the replacement worker.
\<close>

definition probe_sha :: js where "probe_sha = replicate 64 0x61"

definition probe_compatibility :: compatibility where
  "probe_compatibility = \<lparr>story_id = js ''zork1'', story_sha256 = probe_sha, runtime_id = js ''dork'',
     runtime_version = js ''1'', runtime_sha256 = probe_sha, adapter_id = js ''worker'', adapter_version = js ''2'',
     snapshotSchemaVersion = 1\<rparr>"

definition probe_binding :: jsval where
  "probe_binding = JObj
     [(js ''runtime'', JObj [(js ''id'', JStr (js ''dork'')), (js ''version'', JStr (js ''1'')),
        (js ''artifactSha256'', JStr probe_sha)]),
      (js ''adapter'', JObj [(js ''id'', JStr (js ''worker'')), (js ''version'', JStr (js ''2''))]),
      (js ''snapshotSchemaVersion'', jnat 1)]"

definition probe_ids :: "nat \<Rightarrow> jsval option" where "probe_ids n = Some (JStr (js ''m''))"

definition probe_engine :: worker_engine where
  "probe_engine = \<lparr>en_binding = probe_binding, en_messageIds = probe_ids, en_allocated = 0, en_active = None,
     en_operation = None, en_uncertain = None, en_disposed = False, en_epoch = 0, en_pending = None, en_signal = None,
     en_created = 0, en_orphans = [], en_log = []\<rparr>"

definition probe_adapter :: adapter where
  "probe_adapter = \<lparr>ad_binding = \<lparr>bd_runtime_id = js ''dork'', bd_runtime_version = js ''1'', bd_runtime_sha256 = probe_sha,
       bd_adapter_id = js ''worker'', bd_adapter_version = js ''2'', bd_snapshotSchemaVersion = 1\<rparr>,
     ad_messageIds = probe_ids, ad_allocated = 0, ad_compatibility = None, ad_revision = None, ad_boundary = None,
     ad_operation = None, ad_recovery = Ready, ad_pending = None\<rparr>"

lemma replicate_pattern: "sha256_pattern (replicate 64 u)" if "0x61 \<le> u \<and> u \<le> 0x66 \<or> 0x30 \<le> u \<and> u \<le> 0x39"
  using that by (auto simp: sha256_pattern_def list_all_iff)

lemma probe_sha_ok [simp]: "sha256_pattern probe_sha" "sha256_pattern (replicate 64 0x30)"
  by (simp_all add: probe_sha_def replicate_pattern)

lemma probe_compatibility_ok: "valid_binding probe_compatibility"
  by (simp add: valid_binding_def probe_compatibility_def MAX_SAFE_INTEGER_def)

lemma probe_engine_created: "newDorkWorkerEngine (replicate 64 0) probe_binding probe_ids = Inr probe_engine"
  by (simp add: newDorkWorkerEngine_def probe_binding_def probe_engine_def validateCompatibility_def MAX_SAFE_INTEGER_def)

lemma probe_adapter_created: "newWorkerEngineAdapter probe_binding probe_ids = Inr probe_adapter"
  by (simp add: newWorkerEngineAdapter_def probe_binding_def probe_adapter_def validateCompatibility_def
      MAX_SAFE_INTEGER_def)

definition probe_input :: jsval where
  "probe_input = JObj [(js ''storyId'', JStr (js ''zork1'')), (js ''artifactSha256'', JStr probe_sha)]"

definition probe_booting :: adapter where
  "probe_booting = probe_adapter\<lparr>ad_operation := Some OpBoot,
     ad_pending := Some (AwaitBoot (js ''m'') (js ''zork1'') probe_sha)\<rparr>"

definition probe_booted :: adapter where
  "probe_booted = probe_adapter\<lparr>ad_compatibility := Some probe_compatibility, ad_revision := Some 0,
     ad_boundary := Some InputRequested\<rparr>"

definition probe_reply :: jsval where
  "probe_reply = response_js (BootResponse (js ''m'') \<lparr>br_output = js ''West of House'', br_boundary = InputRequested,
     br_compatibility = probe_compatibility\<rparr>)"

definition probe_boot_request :: jsval where
  "probe_boot_request = message_js (js ''m'') ''boot'' [(js ''input'', probe_input)]"

lemma probe_boot_call:
  "adapter_step (probe_adapter\<lparr>ad_allocated := n\<rparr>) (CallBoot probe_input) =
     (probe_booting\<lparr>ad_allocated := n + 1\<rparr>, Submit probe_boot_request)"
  by (simp add: adapter_boot_def probe_adapter_def probe_input_def submit_def allocateMessageId_def probe_ids_def
      beginOperation_def probe_booting_def probe_boot_request_def)

definition probe_result :: jsval where
  "probe_result = JObj [(js ''revision'', jnat 0), (js ''output'', JStr (js ''West of House'')),
     (js ''turnComplete'', JBool True), (js ''boundary'', JStr (js ''input-requested'')),
     (js ''compatibility'', cloneCompatibility (compatibility_js probe_compatibility))]"

lemma probe_boot_settled:
  "adapter_step (probe_booting\<lparr>ad_allocated := n\<rparr>) (Settle (Inr probe_reply)) =
     (probe_booted\<lparr>ad_allocated := n\<rparr>, Returned probe_result)"
proof -
  have "check_boot (ad_binding probe_adapter) (js ''m'') (js ''zork1'') probe_sha (Inr probe_reply) =
      Inr (compatibility_js probe_compatibility, probe_compatibility, InputRequested, js ''West of House'')"
    by (simp add: probe_reply_def check_boot_def receive_def boot_result_js_def requireTurnComplete_def
        requireTurnBoundary_def probe_compatibility_ok)
      (simp add: probe_adapter_def bind_compatibility_def probe_compatibility_def
        boundary_name.simps(1) [symmetric] del: boundary_name.simps)
  then show ?thesis
    by (simp add: probe_booting_def probe_booted_def probe_adapter_def settle_boot_def conclude_def endOperation_def
        probe_result_def)
qed

lemma probe_compatibility_read [simp]:
  "validateCompatibility (getProp probe_result ''compatibility'') = Inr probe_compatibility"
  by (simp add: probe_result_def cloneCompatibility_def compatibility_js_def probe_compatibility_def
      validateCompatibility_def MAX_SAFE_INTEGER_def)

definition probe_view :: engine_view where
  "probe_view = \<lparr>ev_revision = jnat 0, ev_lastOutput = JStr (js ''West of House''), ev_boundary = JStr (js ''input-requested'')\<rparr>"

lemma probe_view_of [simp]: "view_of probe_result ''output'' = probe_view"
  by (simp add: view_of_def probe_view_def probe_result_def)

lemma probe_input_copy [simp]: "override [] probe_input = probe_input"
  by (simp add: probe_input_def)

section \<open>The boot\<close>

definition probe_creating :: worker_engine where
  "probe_creating = probe_engine\<lparr>en_operation := Some OpBoot, en_pending := Some (AtBootCreate probe_input 0),
     en_log := [CreateWorker]\<rparr>"

definition probe_staged :: worker_engine where
  "probe_staged = probe_engine\<lparr>en_allocated := 1, en_created := 1, en_operation := Some OpBoot,
     en_pending := Some (AtBootWorker 0 (probe_booting\<lparr>ad_allocated := 1\<rparr>) probe_input 0),
     en_log := [EngineSubmit 0 probe_boot_request, CreateWorker]\<rparr>"

definition probe_worker :: active_worker where
  "probe_worker = \<lparr>aw_lease = 0, aw_adapter = probe_booted\<lparr>ad_allocated := 1\<rparr>, aw_bootRequest = probe_input,
     aw_compatibility = probe_compatibility, aw_state = probe_view\<rparr>"

definition probe_active :: worker_engine where
  "probe_active = probe_engine\<lparr>en_allocated := 1, en_created := 1, en_active := Some probe_worker,
     en_log := [Answered OpBoot (Inr probe_result), EngineSubmit 0 probe_boot_request, CreateWorker]\<rparr>"

lemma probe_boot_steps:
  "engine_step probe_engine (EngineBoot probe_input) = probe_creating"
  "engine_step probe_creating (FactorySettles (Inr ())) = probe_staged"
  "engine_step probe_staged (AdapterSettles (Inr probe_reply)) = probe_active"
proof -
  show "engine_step probe_engine (EngineBoot probe_input) = probe_creating"
    by (simp add: engine_boot_def probe_engine_def probe_input_def begin_engine_def logged_def probe_creating_def)
  have "createAdapter (probe_creating\<lparr>en_created := 1\<rparr>) = Inr probe_adapter"
    by (simp add: createAdapter_def probe_creating_def probe_engine_def probe_adapter_created)
  then show "engine_step probe_creating (FactorySettles (Inr ())) = probe_staged"
    by (simp add: boot_created_def createLease_def probe_creating_def probe_engine_def
        call_adapter_def probe_boot_call await_adapter_def logged_def probe_staged_def del: adapter_step.simps)
  show "engine_step probe_staged (AdapterSettles (Inr probe_reply)) = probe_active"
    by (simp add: adapter_settles_def call_adapter_def await_adapter_def boot_settled_def probe_boot_settled
        finish_engine_def logged_def probe_engine_def probe_staged_def probe_active_def probe_worker_def
        del: adapter_step.simps)
qed

lemma probe_engine_reach: "engine_reach probe_engine"
  by (rule engine_reach.created [OF probe_engine_created])

lemma probe_staged_reach: "engine_reach probe_staged"
  using engine_reach.stepped [OF engine_reach.stepped [OF probe_engine_reach, of "EngineBoot probe_input"], of "FactorySettles (Inr ())"]
  by (simp only: probe_boot_steps)

lemma probe_active_reach: "engine_reach probe_active"
  using engine_reach.stepped [OF probe_staged_reach, of "AdapterSettles (Inr probe_reply)"] by (simp only: probe_boot_steps)

section \<open>The restore of a snapshot of revision five\<close>

definition probe_saved :: engine_snapshot where
  "probe_saved = \<lparr>sn_bytes = [7], sn_sha256 = probe_sha, sn_revision = 5, sn_compatibility = probe_compatibility\<rparr>"

definition probe_snapshot :: jsval where
  "probe_snapshot = JObj [(js ''bytes'', JBytes [7]), (js ''sha256'', JStr probe_sha), (js ''revision'', jnat 5),
     (js ''compatibility'', compatibility_js probe_compatibility)]"

definition probe_copy :: jsval where
  "probe_copy = JObj [(js ''bytes'', JBytes [7]), (js ''sha256'', JStr probe_sha), (js ''revision'', jnat 5),
     (js ''compatibility'', cloneCompatibility (compatibility_js probe_compatibility))]"

lemma probe_snapshot_ok:
  "validateSnapshot probe_snapshot = Inr probe_saved" "validateSnapshot probe_copy = Inr probe_saved"
  "cloneSnapshot probe_snapshot = Inr (probe_copy, probe_saved)"
proof -
  have c: "validateCompatibility (compatibility_js probe_compatibility) = Inr probe_compatibility"
    by (simp add: probe_compatibility_ok)
  have d: "validateCompatibility (cloneCompatibility (compatibility_js probe_compatibility)) = Inr probe_compatibility"
    using probe_compatibility_read by (simp add: probe_result_def)
  show v: "validateSnapshot probe_snapshot = Inr probe_saved" "validateSnapshot probe_copy = Inr probe_saved"
    by (simp_all add: validateSnapshot_def probe_snapshot_def probe_copy_def probe_saved_def c d
        MAX_ENGINE_SNAPSHOT_BYTES_def MAX_SAFE_INTEGER_def)
  show "cloneSnapshot probe_snapshot = Inr (probe_copy, probe_saved)"
    by (simp add: cloneSnapshot_def v) (simp add: probe_saved_def probe_copy_def probe_snapshot_def)
qed

definition probe_restoring :: "adapter_pending \<Rightarrow> adapter" where
  "probe_restoring p = probe_booted\<lparr>ad_operation := Some OpRestore, ad_pending := Some p\<rparr>"

definition probe_raw :: jsval where "probe_raw = copySnapshot probe_copy probe_saved"

lemma probe_restore_call:
  "adapter_step (probe_booted\<lparr>ad_allocated := n\<rparr>) (CallRestore probe_copy) =
     (probe_restoring (AwaitRestoreDigest probe_raw probe_saved 0 InputRequested)\<lparr>ad_allocated := n\<rparr>, Digest [7])"
  by (simp add: adapter_restore_def probe_booted_def probe_adapter_def required_def assertReadyOperation_def
      beginOperation_def probe_snapshot_ok probe_restoring_def probe_raw_def)
    (simp add: probe_saved_def)

lemma probe_restore_digested:
  "adapter_step (probe_restoring (AwaitRestoreDigest probe_raw probe_saved 0 InputRequested)\<lparr>ad_allocated := n\<rparr>)
      (Settle (Inr (JStr probe_sha))) =
     (probe_restoring (AwaitRestore (js ''m'') probe_saved 0 InputRequested)\<lparr>ad_allocated := n + 1\<rparr>,
      Submit (message_js (js ''m'') ''restore'' [(js ''snapshot'', probe_raw)]))"
  by (simp add: probe_restoring_def settle_restore_digest_def snapshotDigestMatches_def allocateMessageId_def
      probe_saved_def) (simp add: probe_booted_def probe_adapter_def probe_ids_def)

definition mislabelled :: "js \<Rightarrow> jsval" where \<comment> \<open>a refusal with a status of its own\<close>
  "mislabelled status = JObj [(js ''status'', JStr status), (js ''rejection'', JStr (js ''corrupt_snapshot'')),
     (js ''revision'', jnat 0), (js ''output'', JStr []), (js ''turnComplete'', JBool True),
     (js ''boundary'', JStr (js ''input-requested''))]"

definition mislabelled_reply :: "js \<Rightarrow> jsval" where
  "mislabelled_reply status = message_js (js ''m'') ''restore.result'' [(js ''result'', mislabelled status)]"

lemma probe_restore_settled:
  assumes "status \<noteq> js ''restored''"
  shows "adapter_step (probe_restoring (AwaitRestore (js ''m'') probe_saved 0 InputRequested)\<lparr>ad_allocated := n\<rparr>)
      (Settle (Inr (mislabelled_reply status))) = (probe_booted\<lparr>ad_allocated := n\<rparr>, Returned (mislabelled status))"
proof -
  have "check_restore (js ''m'') probe_saved 0 InputRequested (Inr (mislabelled_reply status)) =
      Inr (mislabelled status, False, 0, InputRequested)"
    using assms by (simp add: check_restore_def receive_def mislabelled_reply_def)
      (simp add: mislabelled_def requireTurnComplete_def requireTurnBoundary_def MAX_SAFE_INTEGER_def
        boundary_name.simps(1) [symmetric] del: boundary_name.simps)
  then show ?thesis
    by (simp add: probe_restoring_def settle_restore_def conclude_def endOperation_def)
      (simp add: probe_booted_def probe_adapter_def)
qed

definition probe_inspecting :: adapter where
  "probe_inspecting = probe_booted\<lparr>ad_operation := Some OpInspect,
     ad_pending := Some (AwaitInspect (js ''m'') 0 InputRequested Ready)\<rparr>"

lemma probe_inspect_call:
  "adapter_step (probe_booted\<lparr>ad_allocated := n\<rparr>) CallInspect =
     (probe_inspecting\<lparr>ad_allocated := n + 1\<rparr>, Submit (message_js (js ''m'') ''inspect-public-state'' []))"
  by (simp add: adapter_inspect_def probe_booted_def probe_adapter_def required_def submit_def allocateMessageId_def
      probe_ids_def beginOperation_def probe_inspecting_def)

definition probe_state :: jsval where
  "probe_state = JObj [(js ''revision'', jnat 0), (js ''lastOutput'', JStr (js ''West of House'')),
     (js ''boundary'', JStr (js ''input-requested''))]"

definition probe_state_reply :: jsval where
  "probe_state_reply = message_js (js ''m'') ''inspect-public-state.result'' [(js ''state'', probe_state)]"

lemma probe_inspect_settled:
  "adapter_step (probe_inspecting\<lparr>ad_allocated := n\<rparr>) (Settle (Inr probe_state_reply)) =
     (probe_booted\<lparr>ad_allocated := n\<rparr>, Returned probe_state)"
proof -
  have "check_inspect (js ''m'') 0 InputRequested Ready (Inr probe_state_reply) = Inr (probe_state, None)"
    by (simp add: check_inspect_def receive_def probe_state_reply_def)
      (simp add: probe_state_def requireTurnBoundary_def MAX_SAFE_INTEGER_def
        boundary_name.simps(1) [symmetric] del: boundary_name.simps)
  then show ?thesis
    by (simp add: probe_inspecting_def settle_inspect_def conclude_def endOperation_def)
      (simp add: probe_booted_def probe_adapter_def)
qed

definition probe_at :: "engine_pending \<Rightarrow> nat \<Rightarrow> nat \<Rightarrow> engine_effect list \<Rightarrow> worker_engine" where
  "probe_at p allocated created effs = probe_engine\<lparr>en_active := Some probe_worker, en_operation := Some OpRestore,
     en_pending := Some p, en_allocated := allocated, en_created := created, en_log := effs\<rparr>"

text \<open>The stations of the restore.\<close>

abbreviation probe_digesting :: "engine_effect list \<Rightarrow> worker_engine" where
  "probe_digesting \<equiv> probe_at (AtRestoreDigest probe_worker probe_copy probe_saved 0) 1 1"

abbreviation probe_replacing :: "engine_effect list \<Rightarrow> worker_engine" where
  "probe_replacing \<equiv> probe_at (AtRestoreCreate probe_worker probe_copy 0) 1 1"

abbreviation probe_rebooting :: "engine_effect list \<Rightarrow> worker_engine" where
  "probe_rebooting \<equiv> probe_at (AtRestoreBoot 1 (probe_booting\<lparr>ad_allocated := 2\<rparr>) probe_worker probe_copy 0) 2 2"

abbreviation probe_checking :: "engine_effect list \<Rightarrow> worker_engine" where
  "probe_checking \<equiv> probe_at (AtRestoreWorker 1 (probe_restoring (AwaitRestoreDigest probe_raw probe_saved 0 InputRequested)\<lparr>ad_allocated := 2\<rparr>)
     probe_worker 0) 2 2"

abbreviation probe_asking :: "engine_effect list \<Rightarrow> worker_engine" where
  "probe_asking \<equiv> probe_at (AtRestoreWorker 1 (probe_restoring (AwaitRestore (js ''m'') probe_saved 0 InputRequested)\<lparr>ad_allocated := 3\<rparr>)
     probe_worker 0) 3 2"

abbreviation probe_reading :: "js \<Rightarrow> engine_effect list \<Rightarrow> worker_engine" where
  "probe_reading status \<equiv> probe_at (AtRestoreInspect 1 (probe_inspecting\<lparr>ad_allocated := 4\<rparr>) probe_worker (mislabelled status) 0) 4 2"

lemma probe_restore_steps:
  "\<exists>effs. engine_step probe_active (EngineRestore probe_snapshot None) =
     probe_digesting effs"
  "\<exists>effs'. engine_step (probe_digesting effs) (DigestSettles (Inr (JStr probe_sha))) =
     probe_replacing effs'"
  "\<exists>effs'. engine_step (probe_replacing effs) (FactorySettles (Inr ())) =
     probe_rebooting effs'"
  "\<exists>effs'. engine_step (probe_rebooting effs)
       (AdapterSettles (Inr probe_reply)) =
     probe_checking effs'"
  "\<exists>effs'. engine_step (probe_checking effs) (AdapterSettles (Inr (JStr probe_sha))) =
     probe_asking effs'"
proof -
  show "\<exists>effs. engine_step probe_active (EngineRestore probe_snapshot None) =
     probe_digesting effs"
    by (simp add: engine_restore_def requireActive_def begin_engine_def probe_active_def probe_engine_def
        probe_snapshot_ok logged_def probe_at_def) (simp add: probe_saved_def probe_worker_def)
  show "\<exists>effs'. engine_step (probe_digesting effs)
      (DigestSettles (Inr (JStr probe_sha))) = probe_replacing effs'"
    by (simp add: restore_digested_def probe_at_def probe_engine_def restore_aborted_def logged_def)
      (simp add: probe_saved_def)
  have "createAdapter ((probe_at p k n effs)\<lparr>en_created := m\<rparr>) = Inr probe_adapter" for p k n m
    by (simp add: createAdapter_def probe_at_def probe_engine_def probe_adapter_created)
  moreover have "aw_bootRequest probe_worker = probe_input" by (simp add: probe_worker_def)
  ultimately show "\<exists>effs'. engine_step (probe_replacing effs) (FactorySettles (Inr ())) =
     probe_rebooting effs'"
    by (simp add: restore_created_def createLease_def restore_aborted_def call_adapter_def await_adapter_def
        probe_boot_call probe_at_def probe_engine_def logged_def del: adapter_step.simps)
  show "\<exists>effs'. engine_step (probe_rebooting effs)
       (AdapterSettles (Inr probe_reply)) =
     probe_checking effs'"
    by (simp add: adapter_settles_def call_adapter_def await_adapter_def probe_boot_settled restore_booted_def
        probe_restore_call probe_at_def probe_engine_def logged_def del: adapter_step.simps)
  show "\<exists>effs'. engine_step (probe_checking effs) (AdapterSettles (Inr (JStr probe_sha))) =
     probe_asking effs'"
    by (simp add: adapter_settles_def call_adapter_def await_adapter_def probe_restore_digested
        probe_at_def probe_engine_def logged_def del: adapter_step.simps)
qed

lemma probe_inspected:
  assumes "status \<noteq> js ''restored''" "status \<noteq> js ''rejected''"
  shows "\<exists>effs'. engine_step (probe_asking effs) (AdapterSettles (Inr (mislabelled_reply status))) =
     probe_reading status effs'"
proof -
  have m: "getProp (mislabelled status) ''status'' \<noteq> JStr (js ''rejected'')" "getProp (mislabelled status) ''output'' = JStr []"
    using assms by (simp_all add: mislabelled_def)
  show ?thesis
    by (simp add: adapter_settles_def call_adapter_def await_adapter_def probe_restore_settled [OF assms(1)] m
        restore_answered_def probe_inspect_call probe_at_def probe_engine_def logged_def del: adapter_step.simps)
qed

lemma probe_swapped:
  "\<exists>effs'. engine_step (probe_reading status effs) (AdapterSettles (Inr probe_state_reply)) =
     probe_engine\<lparr>en_active := Some (probe_worker\<lparr>aw_lease := 1, aw_adapter := probe_booted\<lparr>ad_allocated := 4\<rparr>\<rparr>),
       en_allocated := 4, en_created := 2,
       en_log := Answered OpRestore (Inr (restored_js probe_view)) # Terminate 0 # effs'\<rparr>"
proof -
  have m: "getProp (mislabelled status) ''revision'' = jnat 0" "getProp (mislabelled status) ''boundary'' = JStr (js ''input-requested'')"
    "getProp probe_state ''revision'' = jnat 0" "getProp probe_state ''boundary'' = JStr (js ''input-requested'')"
    "view_of probe_state ''lastOutput'' = probe_view"
    by (simp_all add: mislabelled_def probe_state_def view_of_def probe_view_def)
  show ?thesis
    by (simp add: adapter_settles_def call_adapter_def await_adapter_def probe_inspect_settled m restore_aborted_def
        restore_inspected_def probe_at_def probe_engine_def logged_def finish_engine_def terminateQuietly_def
        probe_worker_def restored_js_def del: adapter_step.simps)
      (simp add: probe_view_def)
qed

definition mislabelled_run :: "js \<Rightarrow> engine_event list" where
  "mislabelled_run status =
     [EngineRestore probe_snapshot None, DigestSettles (Inr (JStr probe_sha)), FactorySettles (Inr ()),
      AdapterSettles (Inr probe_reply), AdapterSettles (Inr (JStr probe_sha)),
      AdapterSettles (Inr (mislabelled_reply status)), AdapterSettles (Inr probe_state_reply)]"

lemma mislabelled_run_ends:
  assumes "status \<noteq> js ''restored''" "status \<noteq> js ''rejected''"
  shows "\<exists>effs. foldl engine_step probe_active (mislabelled_run status) =
     probe_engine\<lparr>en_active := Some (probe_worker\<lparr>aw_lease := 1, aw_adapter := probe_booted\<lparr>ad_allocated := 4\<rparr>\<rparr>),
       en_allocated := 4, en_created := 2,
       en_log := Answered OpRestore (Inr (restored_js probe_view)) # Terminate 0 # effs\<rparr>"
proof -
  obtain e1 where s1: "engine_step probe_active (EngineRestore probe_snapshot None) = probe_digesting e1"
    using probe_restore_steps(1) by blast
  obtain e2 where s2: "engine_step (probe_digesting e1) (DigestSettles (Inr (JStr probe_sha))) = probe_replacing e2"
    using probe_restore_steps(2) by blast
  obtain e3 where s3: "engine_step (probe_replacing e2) (FactorySettles (Inr ())) = probe_rebooting e3"
    using probe_restore_steps(3) by blast
  obtain e4 where s4: "engine_step (probe_rebooting e3) (AdapterSettles (Inr probe_reply)) = probe_checking e4"
    using probe_restore_steps(4) by blast
  obtain e5 where s5: "engine_step (probe_checking e4) (AdapterSettles (Inr (JStr probe_sha))) = probe_asking e5"
    using probe_restore_steps(5) by blast
  obtain e6 where s6: "engine_step (probe_asking e5) (AdapterSettles (Inr (mislabelled_reply status))) = probe_reading status e6"
    using probe_inspected [OF assms] by blast
  show ?thesis
    unfolding mislabelled_run_def foldl.simps s1 s2 s3 s4 s5 s6 by (rule probe_swapped)
qed

end
