(* ===== verification/Replacement_Mirror.thy ===== *)
theory Replacement_Mirror
  imports Replacement_Facts
begin

text \<open>
  The facade keeps its own copy of the active adapter's revision and boundary and its own note of an
  uncertain execute; both agree with the adapter whenever no operation runs.
\<close>

section \<open>Agreement\<close>

fun noted :: "recovery \<Rightarrow> jsval option \<Rightarrow> bool" where
  "noted Ready u \<longleftrightarrow> u = None"
| "noted (UncertainExecute rid expected command) u \<longleftrightarrow>
     (\<exists>input. u = Some input \<and> getProp input ''requestId'' = JStr rid \<and>
        getProp input ''expectedRevision'' = jnat expected \<and> getProp input ''command'' = JStr command)"
| "noted _ u \<longleftrightarrow> False"

definition views :: "adapter \<Rightarrow> engine_view \<Rightarrow> bool" where
  "views ad v \<longleftrightarrow> (\<exists>n b. ad_revision ad = Some n \<and> ad_boundary ad = Some b \<and>
     ev_revision v = jnat n \<and> ev_boundary v = JStr (js (boundary_name b)))"

definition mirrors :: "adapter \<Rightarrow> engine_view \<Rightarrow> jsval option \<Rightarrow> bool" where
  "mirrors ad v u \<longleftrightarrow> adapter_ok ad \<and> views ad v \<and> noted (ad_recovery ad) u"

fun asked_by :: "jsval \<Rightarrow> adapter_pending \<Rightarrow> bool" where
  "asked_by input (AwaitExecute mid rid expected command revision b) \<longleftrightarrow>
     getProp input ''requestId'' = JStr rid \<and> getProp input ''expectedRevision'' = jnat expected \<and>
     getProp input ''command'' = JStr command"
| "asked_by input _ \<longleftrightarrow> True"

definition flying :: "operation \<Rightarrow> jsval \<Rightarrow> adapter \<Rightarrow> bool" where
  "flying op input ad \<longleftrightarrow> (\<exists>p. ad_pending ad = Some p \<and> operation_of p = op \<and> asked_by input p)"

definition tracked :: "worker_engine \<Rightarrow> bool" where
  "tracked en \<longleftrightarrow>
     (case en_active en of
        None \<Rightarrow> en_disposed en \<or> en_uncertain en = None
      | Some a \<Rightarrow> mirrors (aw_adapter a) (aw_state a) (en_uncertain en))"

fun staging :: "jsval option \<Rightarrow> engine_pending \<Rightarrow> bool" where
  "staging u (AtBootCreate _ _) \<longleftrightarrow> True"
| "staging u (AtBootWorker _ ad _ _) \<longleftrightarrow> adapter_ok ad \<and> (\<exists>mid sid sha. ad_pending ad = Some (AwaitBoot mid sid sha))"
| "staging u (AtActive _ _ _ _) \<longleftrightarrow> False"
| "staging u (AtRestoreDigest _ _ _ _) \<longleftrightarrow> u = None"
| "staging u (AtRestoreCreate _ _ _) \<longleftrightarrow> u = None"
| "staging u (AtRestoreBoot _ ad _ _ _) \<longleftrightarrow>
     u = None \<and> adapter_ok ad \<and> (\<exists>mid sid sha. ad_pending ad = Some (AwaitBoot mid sid sha))"
| "staging u (AtRestoreWorker _ ad _ _) \<longleftrightarrow>
     u = None \<and> adapter_ok ad \<and> (\<exists>p. ad_pending ad = Some p \<and> operation_of p = OpRestore)"
| "staging u (AtRestoreInspect _ ad _ _ _) \<longleftrightarrow>
     u = None \<and> adapter_ok ad \<and> (\<exists>mid n b. ad_pending ad = Some (AwaitInspect mid n b Ready))"

definition mirror_ok :: "worker_engine \<Rightarrow> bool" where
  "mirror_ok en \<longleftrightarrow>
     (case en_pending en of
        None \<Rightarrow> tracked en
      | Some p \<Rightarrow>
          (case p of
             AtActive _ op input ad \<Rightarrow>
               (case en_active en of
                  None \<Rightarrow> en_disposed en
                | Some a \<Rightarrow> mirrors ad (aw_state a) (en_uncertain en) \<and> flying op input ad)
           | _ \<Rightarrow> tracked en \<and> staging (en_uncertain en) p))"

section \<open>What the adapter answers\<close>

lemma mirrors_conf:
  "mirrors ad v u \<Longrightarrow> conf ad' = conf ad \<Longrightarrow> adapter_ok ad' \<Longrightarrow> mirrors ad' v u"
  by (simp add: mirrors_def views_def conf_def)

lemma submit_answers:
  assumes "submit ad op continue request = (ad', out)"
  shows "(\<exists>e. out = Threw e \<and> (\<forall>rid n e'. e \<noteq> ExecuteUncertain rid n e')) \<or>
    (\<exists>m mid. out = Submit m \<and> ad_pending ad' = Some (continue mid))"
  using assms
  by (auto simp: submit_def allocateMessageId_def beginOperation_def requireNonemptyString_def
      split: option.splits sum.splits if_splits jsval.splits)

lemma boot_call_answers:
  assumes "adapter_step ad (CallBoot input) = (ad', out)"
  shows "(\<exists>e. out = Threw e) \<or>
    (\<exists>m mid sid sha. out = Submit m \<and> ad_pending ad' = Some (AwaitBoot mid sid sha))"
  using assms
  by (auto simp: adapter_boot_def refuse_def split: if_splits sum.splits recovery.splits dest!: submit_answers)

lemma boot_settle_answers:
  assumes "adapter_ok ad" "ad_pending ad = Some (AwaitBoot mid sid sha)" "adapter_step ad (Settle reply) = (ad', out)"
  shows "(\<exists>e. out = Threw e) \<or>
    (\<exists>v. out = Returned v \<and> ad_recovery ad' = Ready \<and> views ad' (view_of v ''output''))"
proof (cases "check_boot (ad_binding ad) mid sid sha reply")
  case (Inl e)
  with assms adapter_ok_pending(1) [OF assms(1,2)] show ?thesis
    by (auto simp: settle_boot_def conclude_pending)
next
  case (Inr x)
  obtain raw compatib b shown where x: "x = (raw, compatib, b, shown)" by (rule prod_cases4)
  with Inr assms adapter_ok_pending(1) [OF assms(1,2)] show ?thesis
    by (auto simp: settle_boot_def conclude_pending views_def view_of_def)
qed

lemma checks_certain:
  "required x \<noteq> Inl (ExecuteUncertain rid n e)" "requireNonemptyString v \<noteq> Inl (ExecuteUncertain rid n e)"
  "requireRevision v \<noteq> Inl (ExecuteUncertain rid n e)" "readProp TypeErr v k \<noteq> Inl (ExecuteUncertain rid n e)"
  "assertExecuteAllowed rec r m c \<noteq> Inl (ExecuteUncertain rid n e)"
  by (auto simp: required_def requireNonemptyString_def requireRevision_def readProp_def assertExecuteAllowed_def
      split: option.splits jsval.splits recovery.splits)

lemma guards_answer: "execute_guards ad input aborted \<noteq> Inl (ExecuteUncertain rid n e)"
  by (cases "canonicalizeCommand (getProp input ''command'')")
    (auto simp: execute_guards_def bindE_Inl_iff checks_certain split: if_splits)

lemma execute_call_answers:
  assumes "adapter_step ad (CallExecute input aborted) = (ad', out)"
  shows "(\<exists>e. out = Threw e \<and> (\<forall>rid n e'. e \<noteq> ExecuteUncertain rid n e')) \<or>
    (\<exists>m. out = Submit m \<and> flying OpExecute input ad')"
proof (cases "execute_guards ad input aborted")
  case (Inl e)
  with assms guards_answer [of ad input aborted] show ?thesis by (auto simp: adapter_execute_def refuse_def)
next
  case (Inr x)
  obtain rid expected command revision b where x: "x = (rid, expected, command, revision, b)" by (rule prod_cases5)
  have sub: "submit ad OpExecute (\<lambda>mid. AwaitExecute mid rid expected command revision b)
      (\<lambda>mid. execute_js mid rid expected command) = (ad', out)"
    using Inr assms x by (simp add: adapter_execute_def)
  have "getProp input ''requestId'' = JStr rid" "getProp input ''expectedRevision'' = jnat expected"
    "getProp input ''command'' = JStr command"
    using Inr x by (simp_all add: execute_guards_iff)
  then have "flying OpExecute input ad'" if "ad_pending ad' = Some (AwaitExecute mid rid expected command revision b)" for mid
    using that by (simp add: flying_def)
  with submit_answers [OF sub] show ?thesis by blast
qed

lemma query_call_answers:
  assumes "adapter_step ad ev = (ad', out)" "(op, ev) \<in> {(OpSnapshot, CallSnapshot), (OpInspect, CallInspect)}"
  shows "(\<exists>e. out = Threw e) \<or> (\<exists>m. out = Submit m \<and> flying op input ad')"
  using assms
  by (auto simp: adapter_snapshot_def adapter_inspect_def refuse_def flying_def split: sum.splits dest!: submit_answers)

lemma restore_call_answers:
  assumes "adapter_step ad (CallRestore snapshot) = (ad', out)" "adapter_ok ad"
  shows "(\<exists>e. out = Threw e) \<or> (\<exists>v. out = Returned v \<and> ad_recovery ad' = Ready) \<or>
    (\<exists>bytes. out = Digest bytes \<and> flying OpRestore input ad')"
  using assms ready_booted [OF assms(2)]
  by (auto simp: adapter_restore_def refuse_def flying_def result_simps conclude_def endOperation_def beginOperation_def
      split: sum.splits if_splits)

lemma settle_snapshot_answers:
  assumes "adapter_ok ad" "flying OpSnapshot input ad" "adapter_step ad (Settle reply) = (ad', out)"
  shows "conf ad' = conf ad \<and> ((\<exists>e. out = Threw e) \<or> (\<exists>v. out = Returned v) \<or>
    (\<exists>bytes. out = Digest bytes \<and> flying OpSnapshot input ad'))"
proof -
  obtain p where p: "ad_pending ad = Some p" "operation_of p = OpSnapshot" using assms(2) by (auto simp: flying_def)
  note q = adapter_ok_pending(1) [OF assms(1) p(1)]
  have "conf ad' = conf ad" using settle_conf_other [OF assms(1) p(1), of reply] p assms(3) by simp
  with p q assms(3) show ?thesis
    by (cases p) (auto simp: settle_snapshot_def settle_snapshot_digest_def conclude_pending flying_def
        split: sum.splits if_splits)
qed

lemma settle_restore_answers:
  assumes "adapter_ok ad" "flying OpRestore input ad" "adapter_step ad (Settle reply) = (ad', out)"
  shows "(\<exists>e. out = Threw e) \<or> (\<exists>v. out = Returned v \<and> ad_recovery ad' = Ready) \<or>
    (\<exists>m. out = Submit m \<and> flying OpRestore input ad')"
proof -
  obtain p where p: "ad_pending ad = Some p" "operation_of p = OpRestore" using assms(2) by (auto simp: flying_def)
  note q = adapter_ok_pending [OF assms(1) p(1)]
  show ?thesis
    using p q assms(3)
    by (cases p) (auto simp: settle_restore_digest_def settle_restore_def allocateMessageId_def conclude_pending flying_def
        conclude_def endOperation_def split: sum.splits if_splits)
qed

lemma settle_inspect_answers:
  assumes "adapter_ok ad" "flying OpInspect input ad" "adapter_step ad (Settle reply) = (ad', out)" "noted (ad_recovery ad) u"
  shows "ad_recovery ad' = ad_recovery ad \<and>
    ((\<exists>e. out = Threw e \<and> conf ad' = conf ad) \<or> (\<exists>state. out = Returned state \<and> views ad' (view_of state ''lastOutput'')))"
proof -
  obtain mid n b rec where p: "ad_pending ad = Some (AwaitInspect mid n b rec)"
    using assms(2) by (auto simp: flying_def elim: operation_of.elims)
  note q = adapter_ok_pending [OF assms(1) p]
  show ?thesis
  proof (cases "check_inspect mid n b rec reply")
    case (Inl e)
    with p q assms(3) show ?thesis by (auto simp: settle_inspect_def conclude_pending conf_def)
  next
    case (Inr x)
    obtain state learned where x: "x = (state, learned)" by (rule prod.exhaust)
    have out: "out = Returned state"
      using Inr p q(1) assms(3) x by (cases learned) (auto simp: settle_inspect_def conclude_pending)
    obtain n' b' where st: "getProp state ''revision'' = jnat n'" "getProp state ''boundary'' = JStr (js (boundary_name b'))"
      "learned = (if uncertain rec then Some (n', b') else None)" "rec = Ready \<longrightarrow> n' = n \<and> b' = b"
      using Inr x by (auto simp: result_simps)
    have "rec = Ready \<or> uncertain rec" using q(2) assms(4) by (cases rec) (auto simp: uncertain_def)
    then have "ad_revision ad' = Some n' \<and> ad_boundary ad' = Some b' \<and> ad_recovery ad' = rec"
      using settle_inspect_conf(2) [OF assms(1) p, of reply] Inr x st p assms(3)
      by (auto simp: conf_def uncertain_def)
    then show ?thesis using q(2) st out by (auto simp: views_def view_of_def)
  qed
qed

lemma settle_execute_answers:
  assumes m: "mirrors ad v u" and f: "flying OpExecute input ad" and s: "adapter_step ad (Settle reply) = (ad', out)"
  shows "(\<exists>rid expected e. out = Threw (ExecuteUncertain rid expected e) \<and> mirrors ad' v (Some input)) \<or>
    (\<exists>r. out = Returned r \<and>
      mirrors ad' (if getProp r ''status'' = JStr (js ''committed'') \<and> at_least (getProp r ''revision'') (ev_revision v)
        then view_of r ''output'' else v) None)"
proof -
  obtain mid rid expected command n b where p: "ad_pending ad = Some (AwaitExecute mid rid expected command n b)"
    and a: "asked_by input (AwaitExecute mid rid expected command n b)"
    using f by (auto simp: flying_def elim: operation_of.elims)
  have ok: "adapter_ok ad" using m by (simp add: mirrors_def)
  note q = adapter_ok_pending [OF ok p]
  have ok': "adapter_ok ad'" using settle_ok [OF ok p, of reply] s p by simp
  have v: "ev_revision v = jnat n" "ev_boundary v = JStr (js (boundary_name b))"
    using m q(2) by (auto simp: mirrors_def views_def)
  show ?thesis
  proof (cases "check_execute mid rid expected command n b reply")
    case (Inl e)
    then show ?thesis
      using p q s a v ok' by (auto simp: settle_execute_def conclude_pending mirrors_def views_def)
  next
    case (Inr x)
    obtain r committed n' b' where x: "x = (r, committed, n', b')" by (rule prod_cases4)
    have c: "getProp r ''revision'' = jnat n'" "n' \<le> MAX_SAFE_INTEGER" "getProp r ''boundary'' = JStr (js (boundary_name b'))"
      "committed = (getProp r ''status'' = JStr (js ''committed''))" "n' = n \<longrightarrow> b' = b"
      using Inr x by (auto simp: result_simps)
    have "n \<le> MAX_SAFE_INTEGER" using ok q(2) by (simp add: adapter_ok_def confirmed_ok_def)
    then have g: "at_least (getProp r ''revision'') (ev_revision v) = (n \<le> n')" using c v by (simp add: at_least_def)
    have "out = Returned r" "conf ad' = (ad_compatibility ad, if committed \<and> n < n' then (Some n', Some b', Ready) else (Some n, Some b, Ready))"
      using settle_execute_conf(2) [OF ok p, of reply] p q s Inr x by (auto simp: settle_execute_def conclude_pending)
    then show ?thesis
      using ok' c v g by (cases "n < n'") (auto simp: mirrors_def views_def view_of_def conf_def)
  qed
qed

section \<open>The invariant\<close>

lemma mirror_update [simp]:
  "mirror_ok (logged eff en) = mirror_ok en" "mirror_ok (en\<lparr>en_allocated := n\<rparr>) = mirror_ok en"
  "mirror_ok (en\<lparr>en_signal := sg\<rparr>) = mirror_ok en" "mirror_ok (en\<lparr>en_orphans := os\<rparr>) = mirror_ok en"
  "mirror_ok (refuse_engine op e en) = mirror_ok en"
  by (simp_all add: mirror_ok_def tracked_def refuse_engine_def cong: option.case_cong engine_pending.case_cong)

lemma tracked_update [simp]:
  "tracked (logged eff en) = tracked en" "tracked (en\<lparr>en_allocated := n\<rparr>) = tracked en"
  "tracked (en\<lparr>en_signal := sg\<rparr>) = tracked en" "tracked (en\<lparr>en_orphans := os\<rparr>) = tracked en"
  "tracked (en\<lparr>en_pending := p\<rparr>) = tracked en" "tracked (en\<lparr>en_operation := op\<rparr>) = tracked en"
  "tracked (en\<lparr>en_created := n\<rparr>) = tracked en" "tracked (terminateQuietly l en) = tracked en"
  by (simp_all add: tracked_def terminateQuietly_def cong: option.case_cong)

lemma terminate_uncertain [simp]: "en_uncertain (terminateQuietly l en) = en_uncertain en"
  by (simp add: terminateQuietly_def)

lemma finish_mirror [simp]: "mirror_ok (finish_engine op answer en) = tracked en"
  by (simp add: finish_engine_def mirror_ok_def)

lemma failed_mirror [simp]: "mirror_ok (restore_failed lease e en) = tracked en"
  by (simp add: restore_failed_def split: option.split)

lemma stage_mirror: "tracked en \<Longrightarrow> staging (en_uncertain en) p \<Longrightarrow> mirror_ok (en\<lparr>en_pending := Some p\<rparr>)"
  by (cases p) (simp_all add: mirror_ok_def)

lemma pending_mirror [simp]: "mirror_ok (en\<lparr>en_allocated := n, en_pending := q\<rparr>) = mirror_ok (en\<lparr>en_pending := q\<rparr>)"
proof -
  have "en\<lparr>en_allocated := n, en_pending := q\<rparr> = (en\<lparr>en_pending := q\<rparr>)\<lparr>en_allocated := n\<rparr>" by simp
  then show ?thesis by (metis mirror_update(2))
qed

lemma await_mirror:
  assumes "\<And>n ad out. adapter_step (ad0\<lparr>ad_allocated := en_allocated en\<rparr>) ev = (ad, out) \<Longrightarrow>
    (case out of
       Returned v \<Rightarrow> mirror_ok (resume ad (Inr v) (en\<lparr>en_allocated := n\<rparr>))
     | Threw e \<Rightarrow> mirror_ok (resume ad (Inl e) (en\<lparr>en_allocated := n\<rparr>))
     | _ \<Rightarrow> mirror_ok (en\<lparr>en_pending := Some (suspend ad)\<rparr>))"
  shows "mirror_ok (await_adapter lease suspend resume (call_adapter ev en ad0))"
proof -
  obtain ad out where s: "adapter_step (ad0\<lparr>ad_allocated := en_allocated en\<rparr>) ev = (ad, out)" by fastforce
  with assms [OF s] show ?thesis by (cases out) (simp_all add: await_adapter_def call_adapter_def s)
qed

lemma stepped_ok: "adapter_ok ad \<Longrightarrow> adapter_step (ad\<lparr>ad_allocated := n\<rparr>) ev = (ad', out) \<Longrightarrow> adapter_ok ad'"
  using adapter_step_ok [of "ad\<lparr>ad_allocated := n\<rparr>" ev] by (metis adapter_ok_allocated fst_conv)

lemma created_ok: "createAdapter en = Inr ad \<Longrightarrow> adapter_ok ad"
  unfolding createAdapter_def by (rule newWorkerEngineAdapter_ok)

lemma serve_tracked:
  assumes "tracked en" "en_active en = None" "\<not> en_disposed en" "adapter_ok ad" "ad_recovery ad = Ready" "views ad v"
  shows "tracked (en\<lparr>en_active := Some \<lparr>aw_lease = l, aw_adapter = ad, aw_bootRequest = b, aw_compatibility = c, aw_state = v\<rparr>\<rparr>)"
  using assms by (simp add: tracked_def mirrors_def)

lemma boot_settled_mirror:
  assumes "tracked en" "en_active en = None" "\<And>v. answer = Inr v \<Longrightarrow>
    adapter_ok ad \<and> ad_recovery ad = Ready \<and> views ad (view_of v ''output'')"
  shows "mirror_ok (boot_settled lease input epoch ad answer en)"
  using assms by (auto simp: boot_settled_def intro: serve_tracked split: sum.splits)

lemma boot_await_mirror:
  assumes t: "tracked en" "en_active en = None" and ok: "adapter_ok ad0"
    and ev: "ev = CallBoot input' \<or> (\<exists>mid sid sha reply. ad_pending ad0 = Some (AwaitBoot mid sid sha) \<and> ev = Settle reply)"
  shows "mirror_ok (await_adapter lease (\<lambda>ad. AtBootWorker lease ad input epoch) (boot_settled lease input epoch)
    (call_adapter ev en ad0))"
proof (rule await_mirror)
  fix n ad out
  let ?ad0 = "ad0\<lparr>ad_allocated := en_allocated en\<rparr>"
  assume s: "adapter_step ?ad0 ev = (ad, out)"
  have ok': "adapter_ok ad" by (rule stepped_ok [OF ok s])
  have f: "mirror_ok (boot_settled lease input epoch ad (Inl e) (en\<lparr>en_allocated := n\<rparr>))" for e
    using t by (intro boot_settled_mirror) simp_all
  consider e where "out = Threw e" | m mid sid sha where "out = Submit m" "ad_pending ad = Some (AwaitBoot mid sid sha)"
    | v where "out = Returned v" "ad_recovery ad = Ready" "views ad (view_of v ''output'')"
    using ev
  proof (elim disjE exE conjE)
    assume "ev = CallBoot input'"
    with s have "adapter_step ?ad0 (CallBoot input') = (ad, out)" by (simp only:)
    from boot_call_answers [OF this] show thesis using that(1,2) by blast
  next
    fix mid sid sha reply
    assume "ad_pending ad0 = Some (AwaitBoot mid sid sha)" "ev = Settle reply"
    with s have "ad_pending ?ad0 = Some (AwaitBoot mid sid sha)" "adapter_step ?ad0 (Settle reply) = (ad, out)" by simp_all
    from boot_settle_answers [OF _ this] ok show thesis using that(1,3) by auto
  qed
  then show "case out of
       Returned v \<Rightarrow> mirror_ok (boot_settled lease input epoch ad (Inr v) (en\<lparr>en_allocated := n\<rparr>))
     | Threw e \<Rightarrow> mirror_ok (boot_settled lease input epoch ad (Inl e) (en\<lparr>en_allocated := n\<rparr>))
     | _ \<Rightarrow> mirror_ok (en\<lparr>en_pending := Some (AtBootWorker lease ad input epoch)\<rparr>)"
    using f t ok' by cases (auto intro!: boot_settled_mirror stage_mirror)
qed

lemma flying_allocated [simp]: "flying op input (ad\<lparr>ad_allocated := n\<rparr>) = flying op input ad"
  by (simp add: flying_def)

lemma tracked_keep:
  assumes "en_active en = Some x" "mirrors ad (aw_state x) (en_uncertain en)"
  shows "tracked (keep_adapter ad en)"
  using assms by (simp add: tracked_def keep_adapter_def)

lemma execute_settled_mirror:
  assumes "en_active en = Some x"
    and "(\<exists>e. answer = Inl e \<and> (\<forall>rid n e'. e \<noteq> ExecuteUncertain rid n e') \<and> mirrors ad (aw_state x) (en_uncertain en)) \<or>
      (\<exists>rid n e. answer = Inl (ExecuteUncertain rid n e) \<and> mirrors ad (aw_state x) (Some input)) \<or>
      (\<exists>r. answer = Inr r \<and> mirrors ad (if getProp r ''status'' = JStr (js ''committed'') \<and>
         at_least (getProp r ''revision'') (ev_revision (aw_state x)) then view_of r ''output'' else aw_state x) None)"
  shows "mirror_ok (execute_settled input ad answer en)"
  using assms
  by (auto simp: execute_settled_def Let_def tracked_def keep_adapter_def keep_view_def split: adapter_error.split)

lemma query_settled_mirror:
  assumes "en_active en = Some x"
  shows "mirrors ad (aw_state x) (en_uncertain en) \<Longrightarrow> mirror_ok (snapshot_settled ad answer en)"
    and "mirrors ad (aw_state x) (en_uncertain en) \<Longrightarrow> mirror_ok (inspect_settled ad (Inl e) en)"
    and "mirrors ad (view_of state ''lastOutput'') (en_uncertain en) \<Longrightarrow> mirror_ok (inspect_settled ad (Inr state) en)"
  using assms by (simp_all add: snapshot_settled_def inspect_settled_def tracked_def keep_adapter_def keep_view_def)

lemma fly_mirror:
  "en_active en = Some x \<Longrightarrow> mirrors ad (aw_state x) (en_uncertain en) \<Longrightarrow> flying op input ad \<Longrightarrow>
   mirror_ok (en\<lparr>en_pending := Some (AtActive l op input ad)\<rparr>)"
  by (simp add: mirror_ok_def)

lemma gone_mirror:
  assumes "en_active en = None" "en_disposed en"
  shows "mirror_ok (active_settled op input ad answer en)" "mirror_ok (en\<lparr>en_pending := Some (AtActive l op input ad)\<rparr>)"
proof -
  show "mirror_ok (active_settled op input ad answer en)"
    using assms
    by (simp add: active_settled_def execute_settled_def snapshot_settled_def inspect_settled_def Let_def tracked_def
        keep_adapter_def keep_view_def split: operation.split sum.split adapter_error.split)
  show "mirror_ok (en\<lparr>en_pending := Some (AtActive l op input ad)\<rparr>)" using assms by (simp add: mirror_ok_def)
qed

lemma call_settles:
  assumes a: "en_active en = Some x" and m: "mirrors ad0 (aw_state x) (en_uncertain en)"
    and s: "adapter_step ad0 ev = (ad, out)"
    and ev: "(op, ev) = (OpSnapshot, CallSnapshot) \<or> (op, ev) = (OpInspect, CallInspect) \<or>
      (\<exists>aborted. (op, ev) = (OpExecute, CallExecute input aborted))"
  shows "case out of
       Returned v \<Rightarrow> mirror_ok (active_settled op input ad (Inr v) en)
     | Threw e \<Rightarrow> mirror_ok (active_settled op input ad (Inl e) en)
     | _ \<Rightarrow> mirror_ok (en\<lparr>en_pending := Some (AtActive l op input ad)\<rparr>)"
proof -
  have ok: "adapter_ok ad0" using m by (simp add: mirrors_def)
  have "adapter_ok ad" using adapter_step_ok [OF ok, of ev] s by simp
  moreover have "conf ad = conf ad0" using adapter_call_conf [OF ok, of ev] s ev by auto
  ultimately have m': "mirrors ad (aw_state x) (en_uncertain en)" using mirrors_conf [OF m] by blast
  consider e where "out = Threw e" "op = OpExecute \<longrightarrow> (\<forall>rid n e'. e \<noteq> ExecuteUncertain rid n e')"
    | r where "out = Submit r" "flying op input ad"
    using ev
  proof (elim disjE exE)
    fix aborted
    assume "(op, ev) = (OpExecute, CallExecute input aborted)"
    with s have "op = OpExecute" "adapter_step ad0 (CallExecute input aborted) = (ad, out)" by auto
    with execute_call_answers [OF this(2)] show thesis using that by blast
  qed (use query_call_answers [OF s, of op input] that in auto)
  then show ?thesis
  proof cases
    case 1
    then show ?thesis
      using ev m' execute_settled_mirror [OF a, of "Inl e"] query_settled_mirror [OF a]
      by (auto simp: active_settled_def)
  next
    case 2
    then show ?thesis using fly_mirror [OF a m'] by simp
  qed
qed

lemma reply_settles:
  assumes a: "en_active en = Some x" and m: "mirrors ad0 (aw_state x) (en_uncertain en)"
    and s: "adapter_step ad0 (Settle reply) = (ad, out)" and f: "flying op input ad0"
    and op: "op \<in> {OpSnapshot, OpInspect, OpExecute}"
  shows "case out of
       Returned v \<Rightarrow> mirror_ok (active_settled op input ad (Inr v) en)
     | Threw e \<Rightarrow> mirror_ok (active_settled op input ad (Inl e) en)
     | _ \<Rightarrow> mirror_ok (en\<lparr>en_pending := Some (AtActive l op input ad)\<rparr>)"
proof -
  have ok: "adapter_ok ad0" and u: "noted (ad_recovery ad0) (en_uncertain en)" using m by (simp_all add: mirrors_def)
  have ok': "adapter_ok ad" using adapter_step_ok [OF ok, of "Settle reply"] s by simp
  note kept = mirrors_conf [OF m _ ok']
  consider "op = OpSnapshot" | "op = OpInspect" | "op = OpExecute" using op by blast
  then show ?thesis
  proof cases
    case 1
    then show ?thesis
      using settle_snapshot_answers [OF ok _ s, of input] f kept query_settled_mirror(1) [OF a] fly_mirror [OF a]
      by (auto simp: active_settled_def)
  next
    case 2
    have "mirrors ad (view_of state ''lastOutput'') (en_uncertain en)"
      if "views ad (view_of state ''lastOutput'')" "ad_recovery ad = ad_recovery ad0" for state
      using that ok' u by (simp add: mirrors_def)
    then show ?thesis
      using 2 settle_inspect_answers [OF ok _ s u, of input] f kept query_settled_mirror(2,3) [OF a]
      by (auto simp: active_settled_def)
  next
    case 3
    then show ?thesis
      using settle_execute_answers [OF m _ s, of input] f execute_settled_mirror [OF a]
      by (auto simp: active_settled_def)
  qed
qed

lemma active_await_mirror:
  assumes gone: "en_active en = None \<longrightarrow> en_disposed en"
    and m: "\<And>x. en_active en = Some x \<Longrightarrow> mirrors ad0 (aw_state x) (en_uncertain en)"
    and ev: "(op, ev) = (OpSnapshot, CallSnapshot) \<or> (op, ev) = (OpInspect, CallInspect) \<or>
      (\<exists>aborted. (op, ev) = (OpExecute, CallExecute input aborted)) \<or>
      (\<exists>reply. ev = Settle reply \<and> (en_active en \<noteq> None \<longrightarrow> flying op input ad0) \<and>
         op \<in> {OpSnapshot, OpInspect, OpExecute})"
  shows "mirror_ok (await_adapter lease (\<lambda>ad. AtActive lease op input ad) (active_settled op input)
    (call_adapter ev en ad0))"
proof (rule await_mirror)
  fix n ad out
  let ?ad0 = "ad0\<lparr>ad_allocated := en_allocated en\<rparr>" and ?en = "en\<lparr>en_allocated := n\<rparr>"
  assume s: "adapter_step ?ad0 ev = (ad, out)"
  show "case out of
       Returned v \<Rightarrow> mirror_ok (active_settled op input ad (Inr v) ?en)
     | Threw e \<Rightarrow> mirror_ok (active_settled op input ad (Inl e) ?en)
     | _ \<Rightarrow> mirror_ok (en\<lparr>en_pending := Some (AtActive lease op input ad)\<rparr>)"
  proof (cases "en_active en")
    case None
    then show ?thesis using gone gone_mirror [of en] gone_mirror [of ?en] by (simp split: adapter_output.split)
  next
    case (Some x)
    then have a: "en_active ?en = Some x" by simp
    have m': "mirrors ?ad0 (aw_state x) (en_uncertain ?en)"
      using mirrors_conf [OF m [OF Some], of ?ad0] m [OF Some] by (simp add: mirrors_def)
    have "case out of
         Returned v \<Rightarrow> mirror_ok (active_settled op input ad (Inr v) ?en)
       | Threw e \<Rightarrow> mirror_ok (active_settled op input ad (Inl e) ?en)
       | _ \<Rightarrow> mirror_ok (?en\<lparr>en_pending := Some (AtActive lease op input ad)\<rparr>)"
    proof (cases "\<exists>reply. ev = Settle reply")
      case True
      then obtain reply where r: "ev = Settle reply" by blast
      with s have "adapter_step ?ad0 (Settle reply) = (ad, out)" by (simp only:)
      from reply_settles [OF a m' this, of op input lease] ev r Some show ?thesis by simp
    next
      case False
      with ev have "(op, ev) = (OpSnapshot, CallSnapshot) \<or> (op, ev) = (OpInspect, CallInspect) \<or>
          (\<exists>aborted. (op, ev) = (OpExecute, CallExecute input aborted))" by blast
      from call_settles [OF a m' s this] show ?thesis .
    qed
    then show ?thesis by (cases out) simp_all
  qed
qed

section \<open>The replacement worker\<close>

lemma swap_tracked: "adapter_ok ad \<Longrightarrow> ad_recovery ad = Ready \<Longrightarrow> views ad v \<Longrightarrow>
    tracked (en\<lparr>en_active := Some (a\<lparr>aw_lease := l, aw_adapter := ad, aw_state := v\<rparr>), en_uncertain := None\<rparr>)"
  by (simp add: tracked_def mirrors_def)

lemma restore_inspected_mirror:
  assumes "tracked en" "\<And>state. answer = Inr state \<Longrightarrow>
    adapter_ok ad \<and> ad_recovery ad = Ready \<and> views ad (view_of state ''lastOutput'')"
  shows "mirror_ok (restore_inspected lease active result epoch ad answer en)"
  using assms by (cases answer) (simp_all add: restore_inspected_def swap_tracked)

lemma inspect_call_ready:
  "adapter_step ad CallInspect = (ad', Submit m) \<Longrightarrow> ad_recovery ad = Ready \<Longrightarrow>
   \<exists>mid n b. ad_pending ad' = Some (AwaitInspect mid n b Ready)"
  by (auto simp: adapter_inspect_def refuse_def split: sum.splits dest!: submit_answers)

lemma inspect_await_mirror:
  assumes t: "tracked en" "en_uncertain en = None" and ok: "adapter_ok ad0"
    and ev: "(ev = CallInspect \<and> ad_recovery ad0 = Ready) \<or>
      (\<exists>mid n b reply. ad_pending ad0 = Some (AwaitInspect mid n b Ready) \<and> ev = Settle reply)"
  shows "mirror_ok (await_adapter lease (\<lambda>ad. AtRestoreInspect lease ad active result epoch)
    (restore_inspected lease active result epoch) (call_adapter ev en ad0))"
proof (rule await_mirror)
  fix n ad out
  let ?ad0 = "ad0\<lparr>ad_allocated := en_allocated en\<rparr>"
  assume s: "adapter_step ?ad0 ev = (ad, out)"
  have ok': "adapter_ok ad" by (rule stepped_ok [OF ok s])
  consider e where "out = Threw e"
    | m mid k b where "out = Submit m" "ad_pending ad = Some (AwaitInspect mid k b Ready)"
    | v where "out = Returned v" "ad_recovery ad = Ready" "views ad (view_of v ''lastOutput'')"
    using ev
  proof (elim disjE exE conjE)
    assume c: "ev = CallInspect" "ad_recovery ad0 = Ready"
    with s have "adapter_step ?ad0 CallInspect = (ad, out)" by (simp only:)
    then show thesis
      using query_call_answers [of ?ad0 CallInspect ad out OpInspect] inspect_call_ready [of ?ad0 ad] c that(1,2) by fastforce
  next
    fix mid k b reply
    assume p: "ad_pending ad0 = Some (AwaitInspect mid k b Ready)" "ev = Settle reply"
    then have "flying OpInspect JUndef ?ad0" "noted (ad_recovery ?ad0) None"
      using adapter_ok_pending(2) [OF ok p(1)] by (simp_all add: flying_def)
    moreover have "adapter_step ?ad0 (Settle reply) = (ad, out)" using s p(2) by (simp only:)
    ultimately show thesis
      using settle_inspect_answers [of ?ad0 JUndef reply ad out None] ok adapter_ok_pending(2) [OF ok p(1)] that(1,3) by auto
  qed
  then show "case out of
       Returned v \<Rightarrow> mirror_ok (restore_inspected lease active result epoch ad (Inr v) (en\<lparr>en_allocated := n\<rparr>))
     | Threw e \<Rightarrow> mirror_ok (restore_inspected lease active result epoch ad (Inl e) (en\<lparr>en_allocated := n\<rparr>))
     | _ \<Rightarrow> mirror_ok (en\<lparr>en_pending := Some (AtRestoreInspect lease ad active result epoch)\<rparr>)"
    using t ok' by cases (auto intro!: restore_inspected_mirror stage_mirror)
qed

lemma restore_answered_mirror:
  assumes "tracked en" "en_uncertain en = None" "\<And>v. answer = Inr v \<Longrightarrow> adapter_ok ad \<and> ad_recovery ad = Ready"
  shows "mirror_ok (restore_answered lease active epoch ad answer en)"
  using assms by (cases answer) (simp_all add: restore_answered_def inspect_await_mirror)

lemma restore_await_mirror:
  assumes t: "tracked en" "en_uncertain en = None" and ok: "adapter_ok ad0"
    and ev: "ev = CallRestore snapshot \<or> (flying OpRestore JUndef ad0 \<and> (\<exists>reply. ev = Settle reply))"
  shows "mirror_ok (await_adapter lease (\<lambda>ad. AtRestoreWorker lease ad active epoch)
    (restore_answered lease active epoch) (call_adapter ev en ad0))"
proof (rule await_mirror)
  fix n ad out
  let ?ad0 = "ad0\<lparr>ad_allocated := en_allocated en\<rparr>"
  assume s: "adapter_step ?ad0 ev = (ad, out)"
  have ok': "adapter_ok ad" by (rule stepped_ok [OF ok s])
  consider e where "out = Threw e" | "\<forall>v. out \<noteq> Returned v" "\<forall>e. out \<noteq> Threw e" "flying OpRestore JUndef ad"
    | v where "out = Returned v" "ad_recovery ad = Ready"
    using ev
  proof (elim disjE exE conjE)
    assume "ev = CallRestore snapshot"
    with s have "adapter_step ?ad0 (CallRestore snapshot) = (ad, out)" by (simp only:)
    from restore_call_answers [OF this, of JUndef] ok show thesis using that by auto
  next
    fix reply
    assume p: "flying OpRestore JUndef ad0" "ev = Settle reply"
    then have "flying OpRestore JUndef ?ad0" "adapter_step ?ad0 (Settle reply) = (ad, out)" using s by auto
    from settle_restore_answers [OF _ this] ok show thesis using that by auto
  qed
  then show "case out of
       Returned v \<Rightarrow> mirror_ok (restore_answered lease active epoch ad (Inr v) (en\<lparr>en_allocated := n\<rparr>))
     | Threw e \<Rightarrow> mirror_ok (restore_answered lease active epoch ad (Inl e) (en\<lparr>en_allocated := n\<rparr>))
     | _ \<Rightarrow> mirror_ok (en\<lparr>en_pending := Some (AtRestoreWorker lease ad active epoch)\<rparr>)"
  proof cases
    case 2
    then have "staging (en_uncertain en) (AtRestoreWorker lease ad active epoch)" using t ok' by (auto simp: flying_def)
    with 2 t stage_mirror show ?thesis by (auto split: adapter_output.split)
  qed (use t ok' in \<open>auto intro!: restore_answered_mirror\<close>)
qed

lemma restore_booted_mirror:
  assumes "tracked en" "en_uncertain en = None" "adapter_ok ad"
  shows "mirror_ok (restore_booted lease active snapshot epoch ad answer en)"
  using assms by (cases answer) (auto simp: restore_booted_def intro: restore_await_mirror)

lemma restore_boot_await_mirror:
  assumes t: "tracked en" "en_uncertain en = None" and ok: "adapter_ok ad0"
    and ev: "ev = CallBoot input \<or> (\<exists>mid sid sha reply. ad_pending ad0 = Some (AwaitBoot mid sid sha) \<and> ev = Settle reply)"
  shows "mirror_ok (await_adapter lease (\<lambda>ad. AtRestoreBoot lease ad active snapshot epoch)
    (restore_booted lease active snapshot epoch) (call_adapter ev en ad0))"
proof (rule await_mirror)
  fix n ad out
  let ?ad0 = "ad0\<lparr>ad_allocated := en_allocated en\<rparr>"
  assume s: "adapter_step ?ad0 ev = (ad, out)"
  have ok': "adapter_ok ad" by (rule stepped_ok [OF ok s])
  consider "\<exists>e v. out = Threw e \<or> out = Returned v" | m mid sid sha where "out = Submit m" "ad_pending ad = Some (AwaitBoot mid sid sha)"
    using ev
  proof (elim disjE exE conjE)
    assume "ev = CallBoot input"
    with s have "adapter_step ?ad0 (CallBoot input) = (ad, out)" by (simp only:)
    from boot_call_answers [OF this] show thesis using that by blast
  next
    fix mid sid sha reply
    assume "ad_pending ad0 = Some (AwaitBoot mid sid sha)" "ev = Settle reply"
    with s have "ad_pending ?ad0 = Some (AwaitBoot mid sid sha)" "adapter_step ?ad0 (Settle reply) = (ad, out)" by simp_all
    from boot_settle_answers [OF _ this] ok show thesis using that(1) by auto
  qed
  then show "case out of
       Returned v \<Rightarrow> mirror_ok (restore_booted lease active snapshot epoch ad (Inr v) (en\<lparr>en_allocated := n\<rparr>))
     | Threw e \<Rightarrow> mirror_ok (restore_booted lease active snapshot epoch ad (Inl e) (en\<lparr>en_allocated := n\<rparr>))
     | _ \<Rightarrow> mirror_ok (en\<lparr>en_pending := Some (AtRestoreBoot lease ad active snapshot epoch)\<rparr>)"
    using t ok' by cases (auto intro!: restore_booted_mirror stage_mirror)
qed

section \<open>Every step keeps the agreement\<close>

lemma begin_fields:
  assumes "begin_engine op en = Inr en1" "engine_ok en" "mirror_ok en"
  shows "tracked en1" "en_active en1 = en_active en" "en_uncertain en1 = en_uncertain en" "en_disposed en1 = en_disposed en"
proof -
  have "en_operation en = None" "en1 = en\<lparr>en_operation := Some op\<rparr>"
    using assms(1) by (auto simp: begin_engine_def split: if_splits)
  moreover from this assms(2) have "en_pending en = None" by (auto simp: engine_ok_def split: option.splits)
  ultimately show "tracked en1" "en_active en1 = en_active en" "en_uncertain en1 = en_uncertain en" "en_disposed en1 = en_disposed en"
    using assms(3) by (simp_all add: mirror_ok_def)
qed

lemma engine_boot_mirror: "engine_ok en \<Longrightarrow> mirror_ok en \<Longrightarrow> mirror_ok (engine_boot input en)"
  using begin_fields(1) by (auto simp: engine_boot_def intro: stage_mirror split: sum.split)

lemma engine_active_mirror:
  assumes "engine_ok en" "mirror_ok en"
    and ev: "(op, ev) = (OpSnapshot, CallSnapshot) \<or> (op, ev) = (OpInspect, CallInspect) \<or>
      (\<exists>aborted. (op, ev) = (OpExecute, CallExecute input aborted))"
  shows "mirror_ok (engine_active op input ev en)"
proof (cases "requireActive en")
  case (Inl e)
  with assms(2) show ?thesis by (simp add: engine_active_def)
next
  case (Inr active)
  then have a: "en_active en = Some active" by (auto simp: requireActive_def split: if_splits option.splits)
  show ?thesis
  proof (cases "begin_engine op en")
    case (Inl e)
    with Inr assms(2) show ?thesis by (simp add: engine_active_def)
  next
    case (Inr en1)
    note f = begin_fields [OF this assms(1,2)]
    then have "mirrors (aw_adapter active) (aw_state active) (en_uncertain en1)" using a by (simp add: tracked_def)
    then have "mirror_ok (await_adapter (aw_lease active) (\<lambda>ad. AtActive (aw_lease active) op input ad) (active_settled op input)
        (call_adapter ev en1 (aw_adapter active)))"
      using f a ev by (intro active_await_mirror) auto
    with Inr \<open>requireActive en = Inr active\<close> show ?thesis by (simp add: engine_active_def)
  qed
qed

lemma engine_restore_mirror:
  assumes "engine_ok en" "mirror_ok en"
  shows "mirror_ok (engine_restore snapshot signal en)"
proof -
  have "mirror_ok (en1\<lparr>en_pending := Some (AtRestoreDigest active copy sn n)\<rparr>)"
    if "begin_engine OpRestore en = Inr en1" "en_uncertain en = None" for en1 active copy sn n
    using begin_fields [OF that(1) assms] that(2) by (intro stage_mirror) simp_all
  moreover have "mirror_ok (en1\<lparr>en_pending := p, en_signal := signal\<rparr>) = mirror_ok (en1\<lparr>en_pending := p\<rparr>)" for en1 p
    by (rule mirror_update(3))
  ultimately show ?thesis
    using assms begin_fields(1) [OF _ assms] by (auto simp: engine_restore_def split: sum.split prod.split)
qed

lemma dispose_mirror:
  assumes "mirror_ok en"
  shows "mirror_ok (dispose_engine en)"
proof (cases "en_disposed en")
  case True
  with assms show ?thesis by (simp add: dispose_engine_def)
next
  case False
  then have f: "en_active (dispose_engine en) = None" "en_disposed (dispose_engine en)"
    "en_pending (dispose_engine en) = en_pending en" "en_uncertain (dispose_engine en) = en_uncertain en"
    by (simp_all add: dispose_engine_def terminateQuietly_def split: option.split)
  then have "tracked (dispose_engine en)" by (simp add: tracked_def)
  with f assms show ?thesis by (auto simp: mirror_ok_def split: option.splits engine_pending.splits)
qed

lemma pending_tracked:
  assumes "mirror_ok en" "en_pending en = Some p" "\<And>l op input ad. p \<noteq> AtActive l op input ad"
  shows "tracked en \<and> staging (en_uncertain en) p"
proof (cases p)
  case (AtActive l op input ad)
  with assms(3) show ?thesis by blast
qed (use assms(1,2) in \<open>simp_all add: mirror_ok_def\<close>)

lemma abort_mirror:
  assumes "mirror_ok en"
  shows "mirror_ok (abort_signal en)"
proof -
  have t: "tracked en" if "en_pending en = Some p" "\<And>l op input ad. p \<noteq> AtActive l op input ad" for p
    using pending_tracked [OF assms that] by blast
  show ?thesis using assms t by (auto simp: abort_signal_def Let_def split: option.split engine_pending.split)
qed

lemma orphan_mirror:
  assumes "mirror_ok en"
  shows "mirror_ok (settle_orphan n outcome en)"
proof -
  obtain lease ad where "en_orphans en ! n = (lease, ad)" by (cases "en_orphans en ! n")
  moreover obtain m ad' out where "call_adapter (Settle outcome) en ad = (en\<lparr>en_allocated := m\<rparr>, ad', out)"
    by (rule call_adapter_state)
  ultimately show ?thesis using assms by (simp add: settle_orphan_def split: adapter_output.split)
qed

lemma factory_mirror:
  assumes ok: "engine_ok en" and m: "mirror_ok en"
  shows "mirror_ok (engine_step en (FactorySettles answer))"
proof (cases "en_pending en")
  case (Some p)
  note c = pending_running [OF ok Some]
  note t = pending_tracked [OF m Some]
  show ?thesis
  proof (cases p)
    case (AtBootCreate input epoch)
    then show ?thesis
      using Some c t by (cases answer)
        (auto simp: boot_created_def createLease_def dest: created_ok intro!: boot_await_mirror split: sum.split)
  next
    case (AtRestoreCreate active snapshot epoch)
    then show ?thesis
      using Some c t by (cases answer)
        (auto simp: restore_created_def createLease_def dest: created_ok intro!: restore_boot_await_mirror split: sum.split)
  qed (use Some m in simp_all)
qed (use m in simp)

lemma digest_mirror:
  assumes m: "mirror_ok en"
  shows "mirror_ok (engine_step en (DigestSettles answer))"
proof (cases "en_pending en")
  case (Some p)
  note t = pending_tracked [OF m Some]
  show ?thesis
  proof (cases p)
    case (AtRestoreDigest active snapshot sn epoch)
    then show ?thesis using Some t by (auto simp: restore_digested_def intro: stage_mirror split: sum.split)
  qed (use Some m in simp_all)
qed (use m in simp)

lemma adapter_settles_mirror:
  assumes ok: "engine_ok en" and m: "mirror_ok en"
  shows "mirror_ok (adapter_settles outcome en)"
proof (cases "en_pending en")
  case (Some p)
  note c = pending_running [OF ok Some]
  note t = pending_tracked [OF m Some]
  show ?thesis
  proof (cases p)
    case (AtActive l op input ad)
    then have "en_active en = None \<longrightarrow> en_disposed en" "op \<in> {OpSnapshot, OpInspect, OpExecute}"
      "\<And>x. en_active en = Some x \<Longrightarrow> mirrors ad (aw_state x) (en_uncertain en) \<and> flying op input ad"
      using Some m c by (auto simp: mirror_ok_def)
    then have "mirror_ok (await_adapter l (\<lambda>ad. AtActive l op input ad) (active_settled op input)
        (call_adapter (Settle outcome) en ad))"
      by (intro active_await_mirror) auto
    then show ?thesis by (simp add: adapter_settles_def Some AtActive)
  next
    case (AtBootWorker lease ad input epoch)
    then show ?thesis using Some c t by (auto simp: adapter_settles_def intro!: boot_await_mirror)
  next
    case (AtRestoreBoot lease ad active snapshot epoch)
    then show ?thesis using Some t by (auto simp: adapter_settles_def intro!: restore_boot_await_mirror)
  next
    case (AtRestoreWorker lease ad active epoch)
    then have "tracked en" "en_uncertain en = None" "adapter_ok ad" "flying OpRestore JUndef ad"
      using t by (auto simp: flying_def elim: operation_of.elims)
    then show ?thesis using Some AtRestoreWorker by (auto simp: adapter_settles_def intro!: restore_await_mirror)
  next
    case (AtRestoreInspect lease ad active result epoch)
    then show ?thesis using Some t by (auto simp: adapter_settles_def intro!: inspect_await_mirror)
  qed (use Some m in \<open>simp_all add: adapter_settles_def\<close>)
qed (use m in \<open>simp add: adapter_settles_def\<close>)

lemma engine_step_mirror:
  assumes "engine_ok en" "mirror_ok en"
  shows "mirror_ok (engine_step en ev)"
proof (cases ev)
  case (FactorySettles answer)
  then show ?thesis using factory_mirror [OF assms, of answer] by simp
next
  case (DigestSettles answer)
  then show ?thesis using digest_mirror [OF assms(2), of answer] by simp
qed (use assms in \<open>simp_all add: engine_boot_mirror engine_active_mirror engine_restore_mirror dispose_mirror
  abort_mirror orphan_mirror adapter_settles_mirror\<close>)

theorem engine_reach_mirror: "engine_reach en \<Longrightarrow> mirror_ok en"
proof (induction rule: engine_reach.induct)
  case (created storyBytes bd ids en)
  then show ?case
    by (auto simp: newDorkWorkerEngine_def mirror_ok_def tracked_def split: if_splits sum.splits)
next
  case (stepped en ev)
  then show ?case using engine_reach_ok engine_step_mirror by blast
qed

end
