(* ===== verification/Replacement_Properties.thy ===== *)
theory Replacement_Properties
  imports Replacement_Demo Replacement_Mirror
begin

text \<open>
  The properties of the replacement engine, with their witnesses on the small concrete engine.
\<close>

section \<open>The properties\<close>

text \<open>C16. No worker leaks: every worker the engine has created is terminated, active or staged by the one
  running method, it is only one of these, and none is terminated twice.  A disposed engine at rest
  has terminated them all.\<close>
theorem no_worker_leaks:
  assumes "engine_reach en"
  shows "distinct (terminations (en_log en)) \<and>
    {..<en_created en} = set (terminations (en_log en)) \<union> serving en \<union> staged (en_pending en) \<and>
    set (terminations (en_log en)) \<inter> (serving en \<union> staged (en_pending en)) = {} \<and>
    serving en \<inter> staged (en_pending en) = {} \<and>
    (en_disposed en \<and> en_operation en = None \<longrightarrow> set (terminations (en_log en)) = {..<en_created en})"
  using engine_reach_ok [OF assms]
  by (auto simp: engine_ok_def leases_ok_def serving_def split: option.splits)

theorem no_worker_leaks_witness:
  "{..<en_created probe_staged} = set (terminations (en_log probe_staged)) \<union> serving probe_staged \<union> {0}"
proof -
  have "staged (en_pending probe_staged) = {0}" by (simp add: probe_staged_def)
  with no_worker_leaks [OF probe_staged_reach] show ?thesis by simp
qed

text \<open>C12. A restore swaps or preserves: while a worker is active only \<open>dispose\<close> removes it.  Any other
  step keeps its boot request and compatibility, and either keeps the worker, with its whole record
  if a restore is running, or replaces it by another one, terminates it and answers \<open>restored\<close> with
  the revision and boundary of the new one.\<close>
theorem restore_swaps_or_preserves:
  assumes "engine_reach en" and "en_active en = Some a" and "ev \<noteq> EngineDispose"
  shows "\<exists>b. en_active (engine_step en ev) = Some b \<and>
    aw_bootRequest b = aw_bootRequest a \<and> aw_compatibility b = aw_compatibility a \<and>
    ((aw_lease b = aw_lease a \<and> (en_operation en = Some OpRestore \<longrightarrow> b = a)) \<or>
     (aw_lease b \<noteq> aw_lease a \<and>
      (\<exists>effs. en_log (engine_step en ev) =
         Answered OpRestore (Inr (restored_js (aw_state b))) # Terminate (aw_lease a) # effs)))"
proof -
  have ok: "engine_ok (engine_step en ev)" using engine_reach_ok [OF assms(1)] by (rule engine_step_ok)
  have fresh: "aw_lease a \<notin> serving (engine_step en ev)"
    if "en_log (engine_step en ev) = x # Terminate (aw_lease a) # effs" for x effs
    using ok that by (cases x) (auto simp: engine_ok_def leases_ok_def)
  show ?thesis
    using step_swaps [OF engine_reach_ok [OF assms(1)] assms(2,3)] fresh
    by (fastforce simp: swaps_def same_worker_def serving_def split: option.splits)
qed

theorem restore_swaps_or_preserves_witness:
  "\<exists>b. en_active (engine_step probe_active EngineInspect) = Some b \<and> aw_bootRequest b = probe_input"
proof -
  have "en_active probe_active = Some probe_worker" by (simp add: probe_active_def)
  from restore_swaps_or_preserves [OF probe_active_reach this, of EngineInspect] show ?thesis
    by (auto simp: probe_worker_def simp del: engine_step.simps)
qed

text \<open>C15. The facade mirrors the adapter: while no operation runs, the revision and boundary it keeps for the
  active worker are the adapter's, and it remembers an uncertain execute exactly when the adapter is in
  doubt about one, by the request id, expected revision and command the adapter will accept again.  The
  active adapter is never quarantined.\<close>
theorem facade_mirrors_adapter:
  assumes "engine_reach en" and "en_operation en = None" and "en_active en = Some a"
  shows "(\<exists>n b. ad_revision (aw_adapter a) = Some n \<and> ad_boundary (aw_adapter a) = Some b \<and>
      ev_revision (aw_state a) = jnat n \<and> ev_boundary (aw_state a) = JStr (js (boundary_name b))) \<and>
    ((ad_recovery (aw_adapter a) = Ready \<and> en_uncertain en = None) \<or>
     (\<exists>rid expected command input. ad_recovery (aw_adapter a) = UncertainExecute rid expected command \<and>
        en_uncertain en = Some input \<and> getProp input ''requestId'' = JStr rid \<and>
        getProp input ''expectedRevision'' = jnat expected \<and> getProp input ''command'' = JStr command))"
proof -
  have "en_pending en = None"
    using engine_reach_ok [OF assms(1)] assms(2) by (auto simp: engine_ok_def split: option.splits)
  then have "mirrors (aw_adapter a) (aw_state a) (en_uncertain en)"
    using engine_reach_mirror [OF assms(1)] assms(3) by (simp add: mirror_ok_def tracked_def)
  then show ?thesis
    by (cases "ad_recovery (aw_adapter a)") (auto simp: mirrors_def views_def)
qed

theorem facade_mirrors_adapter_witness:
  "ad_revision (aw_adapter probe_worker) = Some 0 \<and> ev_revision (aw_state probe_worker) = jnat 0 \<and>
   en_uncertain probe_active = None"
proof -
  have s: "en_operation probe_active = None" "en_active probe_active = Some probe_worker"
    by (simp_all add: probe_active_def probe_engine_def)
  have "ad_revision (aw_adapter probe_worker) = Some 0" "ad_recovery (aw_adapter probe_worker) = Ready"
    by (simp_all add: probe_worker_def probe_booted_def probe_adapter_def)
  with facade_mirrors_adapter [OF probe_active_reach s] show ?thesis by auto
qed

text \<open>A worker that refuses a restore under a status of its own, neither \<open>restored\<close> nor \<open>rejected\<close>, is
  believed to have restored: the adapter passes the reply on as a refusal, the facade reads it as a
  success, replaces the active game by a fresh one at revision zero and answers \<open>restored\<close>.\<close>
theorem mislabelled_restore_discards_the_game:
  assumes "status \<noteq> js ''restored''" and "status \<noteq> js ''rejected''"
  shows "\<exists>b effs. en_active (foldl engine_step probe_active (mislabelled_run status)) = Some b \<and>
    aw_lease b = 1 \<and> ev_revision (aw_state b) = jnat 0 \<and> sn_revision probe_saved = 5 \<and>
    en_log (foldl engine_step probe_active (mislabelled_run status)) =
      Answered OpRestore (Inr (restored_js (aw_state b))) # Terminate 0 # effs"
proof -
  have "aw_state probe_worker = probe_view" "ev_revision probe_view = jnat 0" "sn_revision probe_saved = 5"
    by (simp_all add: probe_worker_def probe_view_def probe_saved_def)
  with mislabelled_run_ends [OF assms] show ?thesis by fastforce
qed

theorem mislabelled_restore_discards_the_game_witness:
  "\<exists>b. en_active (foldl engine_step probe_active (mislabelled_run (js ''ignored''))) = Some b \<and> aw_lease b = 1"
  using mislabelled_restore_discards_the_game [of "js ''ignored''"] by (auto simp: js_eq_iff)

end
