(* ===== verification/Experience_Projection.thy ===== *)
theory Experience_Projection
  imports Events
begin

text \<open>
  \<open>packages/experience/src/projection.ts\<close>: the reducer that folds semantic events into what the
  player sees, with its bounded logs, and \<open>opening-narration.ts\<close>.  The \<open>switch\<close> on the event
  type is a case distinction on the payload; a thrown \<open>RangeError\<close> is the value \<open>Inl\<close>.
\<close>

section \<open>State\<close>

datatype display_state =
  Booting | DisplayReady | Listening | Processing | GuideSpeaking | NarratorSpeaking | Paused |
  Reconnecting | Blocked | Ended

datatype story_phase = StoryReady | StoryStarting | StoryStarted

datatype transcript_role = PlayerSays | GuideSays | NarratorSays | GameSays | SystemSays

datatype delivery = Pending | Speaking | Interrupted | Complete | Failed

record transcript_item =
  ti_id :: js
  ti_introducedAtSequence :: nat
  ti_sourceEventIds :: "js list"
  ti_throughSequence :: nat
  ti_role :: transcript_role
  ti_text :: js
  ti_command :: "js option"
  ti_delivery :: delivery

datatype cue_phase = Requested | CommittedCue

record command_cue =
  cu_requestId :: js
  cu_correlationId :: js
  cu_command :: js
  cu_phase :: cue_phase
  cu_outputEventId :: "js option"
  cu_narrationId :: "js option"
  cu_sourceEventIds :: "js list"
  cu_throughSequence :: nat

definition EXPERIENCE_ACTION_LOG_LIMIT :: nat where "EXPERIENCE_ACTION_LOG_LIMIT = 8"
definition EXPERIENCE_TRANSCRIPT_LIMIT :: nat where "EXPERIENCE_TRANSCRIPT_LIMIT = 128"
definition EXPERIENCE_DEBUG_LIMIT :: nat where "EXPERIENCE_DEBUG_LIMIT = 256"
definition EXPERIENCE_SOURCE_EVENT_LIMIT :: nat where "EXPERIENCE_SOURCE_EVENT_LIMIT = 256"

record action_item = \<comment> \<open>\<open>phase\<close> is the literal \<open>committed\<close>\<close>
  ac_requestId :: js
  ac_correlationId :: js
  ac_command :: js
  ac_sourceEventIds :: "js list"
  ac_throughSequence :: nat

record story_source =
  ss_outputEventId :: js
  ss_correlationId :: js
  ss_narration :: "(js \<times> js) option" \<comment> \<open>\<open>id\<close>, \<open>requestEventId\<close>\<close>

record debug_item =
  db_id :: js
  db_sequence :: nat
  db_type :: js
  db_correlationId :: js

record projection =
  pj_displayState :: display_state
  pj_statusText :: string
  pj_storyStartPhase :: story_phase
  pj_storyStartSource :: "story_source option"
  pj_activeCommand :: "command_cue option"
  pj_actionLog :: "action_item list"
  pj_throughSequence :: nat
  pj_sourceEventIds :: "js list"
  pj_transcript :: "transcript_item list"
  pj_debug :: "debug_item list"

definition initialExperienceProjection :: projection where
  "initialExperienceProjection =
     \<lparr>pj_displayState = Booting, pj_statusText = ''Starting'', pj_storyStartPhase = StoryReady,
      pj_storyStartSource = None, pj_activeCommand = None, pj_actionLog = [], pj_throughSequence = 0,
      pj_sourceEventIds = [], pj_transcript = [], pj_debug = []\<rparr>"

section \<open>Story start\<close>

definition matchesActiveStoryStartNarration ::
  "projection \<Rightarrow> semantic_event \<Rightarrow> js \<Rightarrow> narration_role \<Rightarrow> bool" where
  "matchesActiveStoryStartNarration st ev narrationId role \<longleftrightarrow>
     pj_storyStartPhase st = StoryStarting \<and>
     (case pj_storyStartSource st of
        None \<Rightarrow> False
      | Some source \<Rightarrow>
          role = NarratorRole \<and> ev_correlationId ev = ss_correlationId source \<and>
          Some narrationId = map_option fst (ss_narration source) \<and>
          ev_causationId ev = map_option snd (ss_narration source))"

definition matchesActiveStoryStartPlayback ::
  "projection \<Rightarrow> semantic_event \<Rightarrow> js \<Rightarrow> narration_role \<Rightarrow> bool" where
  "matchesActiveStoryStartPlayback st ev narrationId role \<longleftrightarrow>
     pj_storyStartPhase st = StoryStarting \<and>
     (case pj_storyStartSource st of
        None \<Rightarrow> False
      | Some source \<Rightarrow>
          role = NarratorRole \<and> ev_correlationId ev = ss_correlationId source \<and>
          Some narrationId = map_option fst (ss_narration source) \<and>
          ev_causationId ev = Some (ss_outputEventId source))"

section \<open>Bounded logs\<close>

definition appendBounded :: "'a list \<Rightarrow> 'a \<Rightarrow> nat \<Rightarrow> 'a list" where
  "appendBounded values v limit =
     (if length values < limit then values @ [v]
      else drop (length values - limit + 1) values @ [v])"

definition appendSourceReference :: "js list \<Rightarrow> js \<Rightarrow> js list" where
  "appendSourceReference values v =
     (if length values < EXPERIENCE_SOURCE_EVENT_LIMIT then values @ [v]
      else [hd values] @ drop (length values - EXPERIENCE_SOURCE_EVENT_LIMIT + 2) values @ [v])"

definition appendTranscript :: "transcript_item list \<Rightarrow> transcript_item \<Rightarrow> transcript_item list" where
  "appendTranscript transcript item = appendBounded transcript item EXPERIENCE_TRANSCRIPT_LIMIT"

definition matchesAction :: "js \<Rightarrow> js \<Rightarrow> js \<Rightarrow> action_item \<Rightarrow> bool" where
  "matchesAction requestId correlationId command item \<longleftrightarrow>
     ac_requestId item = requestId \<and> ac_correlationId item = correlationId \<and> ac_command item = command"

definition addCommittedAction :: "action_item list \<Rightarrow> action_item \<Rightarrow> action_item list" where
  "addCommittedAction actionLog action = take EXPERIENCE_ACTION_LOG_LIMIT (action # actionLog)"

fun update_first :: "('a \<Rightarrow> bool) \<Rightarrow> ('a \<Rightarrow> 'a) \<Rightarrow> 'a list \<Rightarrow> 'a list" where
  \<comment> \<open>\<open>findIndex\<close>, then \<open>map\<close> at that index\<close>
  "update_first P f [] = []"
| "update_first P f (x # xs) = (if P x then f x # xs else x # update_first P f xs)"

definition projectCommittedAction ::
  "action_item list \<Rightarrow> js \<Rightarrow> js \<Rightarrow> js \<Rightarrow> semantic_event \<Rightarrow> action_item list" where
  "projectCommittedAction actionLog requestId correlationId command ev =
     (if \<not> list_ex (matchesAction requestId correlationId command) actionLog
      then addCommittedAction actionLog
        \<lparr>ac_requestId = requestId, ac_correlationId = correlationId, ac_command = command,
         ac_sourceEventIds = [ev_id ev], ac_throughSequence = ev_sequence ev\<rparr>
      else update_first (matchesAction requestId correlationId command)
        (\<lambda>item. item\<lparr>ac_sourceEventIds := appendSourceReference (ac_sourceEventIds item) (ev_id ev),
                     ac_throughSequence := ev_sequence ev\<rparr>) actionLog)"

definition transcriptItem :: "semantic_event \<Rightarrow> transcript_role \<Rightarrow> js \<Rightarrow> js option \<Rightarrow> transcript_item" where
  "transcriptItem ev role content command =
     \<lparr>ti_id = ev_id ev, ti_introducedAtSequence = ev_sequence ev, ti_sourceEventIds = [ev_id ev],
      ti_throughSequence = ev_sequence ev, ti_role = role, ti_text = content, ti_command = command,
      ti_delivery = Complete\<rparr>"

definition updateDelivery ::
  "transcript_item list \<Rightarrow> js \<Rightarrow> delivery \<Rightarrow> semantic_event \<Rightarrow> transcript_item list" where
  "updateDelivery items sourceEventId d ev =
     map (\<lambda>item. if sourceEventId \<in> set (ti_sourceEventIds item)
        then item\<lparr>ti_sourceEventIds := appendSourceReference (ti_sourceEventIds item) (ev_id ev),
                  ti_throughSequence := ev_sequence ev, ti_delivery := d\<rparr>
        else item) items"

definition recoverableErrorStatus :: "js \<Rightarrow> string" where
  "recoverableErrorStatus code =
     (if code = js ''playback-authorization-required'' then ''Tap Repeat to enable audio''
      else if code = js ''budget-exhausted'' then ''Request limit reached''
      else ''Action needed'')"

section \<open>The reducer\<close>

fun spoken_role :: "narration_role \<Rightarrow> transcript_role" where
  "spoken_role GuideRole = GuideSays"
| "spoken_role NarratorRole = NarratorSays"

definition display :: "projection \<Rightarrow> display_state \<Rightarrow> string \<Rightarrow> projection" where
  "display st d s = st\<lparr>pj_displayState := d, pj_statusText := s\<rparr>"

definition say :: "projection \<Rightarrow> semantic_event \<Rightarrow> transcript_role \<Rightarrow> js \<Rightarrow> js option \<Rightarrow> projection" where
  "say st ev role content command =
     st\<lparr>pj_transcript := appendTranscript (pj_transcript st) (transcriptItem ev role content command)\<rparr>"

definition deliver :: "projection \<Rightarrow> js option \<Rightarrow> delivery \<Rightarrow> semantic_event \<Rightarrow> projection" where
  "deliver st source d ev =
     (case source of
        None \<Rightarrow> st
      | Some sourceEventId \<Rightarrow> st\<lparr>pj_transcript := updateDelivery (pj_transcript st) sourceEventId d ev\<rparr>)"

definition drop_command :: "(command_cue \<Rightarrow> bool) \<Rightarrow> projection \<Rightarrow> projection" where
  \<comment> \<open>\<open>activeCommand = undefined\<close> when there is one and the condition holds of it\<close>
  "drop_command P st =
     (case pj_activeCommand st of
        None \<Rightarrow> st
      | Some cue \<Rightarrow> if P cue then st\<lparr>pj_activeCommand := None\<rparr> else st)"

definition map_command :: "(command_cue \<Rightarrow> bool) \<Rightarrow> (command_cue \<Rightarrow> command_cue) \<Rightarrow> projection \<Rightarrow> projection" where
  "map_command P f st =
     (case pj_activeCommand st of
        None \<Rightarrow> st
      | Some cue \<Rightarrow> if P cue then st\<lparr>pj_activeCommand := Some (f cue)\<rparr> else st)"

definition same_command :: "js \<Rightarrow> js \<Rightarrow> js \<Rightarrow> command_cue \<Rightarrow> bool" where
  "same_command requestId correlationId command cue \<longleftrightarrow>
     cu_requestId cue = requestId \<and> cu_correlationId cue = correlationId \<and> cu_command cue = command"

definition new_cue :: "semantic_event \<Rightarrow> js \<Rightarrow> js \<Rightarrow> cue_phase \<Rightarrow> command_cue" where
  "new_cue ev requestId command phase =
     \<lparr>cu_requestId = requestId, cu_correlationId = ev_correlationId ev, cu_command = command,
      cu_phase = phase, cu_outputEventId = None, cu_narrationId = None,
      cu_sourceEventIds = [ev_id ev], cu_throughSequence = ev_sequence ev\<rparr>"

definition reduce_capture_ended :: "capture_outcome \<Rightarrow> projection \<Rightarrow> projection" where
  "reduce_capture_ended outcome st =
     (case outcome of
        CaptureSubmitted \<Rightarrow> display st Processing ''Processing''
      | CaptureFailed \<Rightarrow> display st Blocked ''Action needed''
      | CaptureSilence \<Rightarrow> display st DisplayReady ''No speech detected''
      | CaptureCancelled \<Rightarrow> display st DisplayReady ''Ready'')"

definition reduce_committed :: "semantic_event \<Rightarrow> js \<Rightarrow> js \<Rightarrow> projection \<Rightarrow> projection" where
  "reduce_committed ev requestId command st =
     (let st1 = st\<lparr>pj_actionLog := projectCommittedAction (pj_actionLog st) requestId (ev_correlationId ev) command ev\<rparr>
      in if pj_activeCommand st1 = None
         then st1\<lparr>pj_activeCommand := Some (new_cue ev requestId command CommittedCue)\<rparr>
         else map_command (same_command requestId (ev_correlationId ev) command)
           (\<lambda>cue. cue\<lparr>cu_phase := CommittedCue, cu_sourceEventIds := cu_sourceEventIds cue @ [ev_id ev],
                      cu_throughSequence := ev_sequence ev\<rparr>) st1)"

definition reduce_output :: "semantic_event \<Rightarrow> nat \<Rightarrow> js \<Rightarrow> projection \<Rightarrow> projection" where
  "reduce_output ev revision exactText st =
     (let st1 =
        (if revision = 0 \<and> pj_storyStartPhase st = StoryReady
         then display (st\<lparr>pj_storyStartPhase := StoryStarting,
                pj_storyStartSource := Some \<lparr>ss_outputEventId = ev_id ev,
                  ss_correlationId = ev_correlationId ev, ss_narration = None\<rparr>\<rparr>)
                Processing ''Preparing story''
         else st)
      in say (map_command (\<lambda>cue. cu_phase cue = CommittedCue \<and> cu_correlationId cue = ev_correlationId ev)
                (\<lambda>cue. cue\<lparr>cu_outputEventId := Some (ev_id ev)\<rparr>) st1)
           ev GameSays exactText None)"

definition reduce_error :: "semantic_event \<Rightarrow> js \<Rightarrow> bool \<Rightarrow> commit_state \<Rightarrow> projection \<Rightarrow> projection" where
  "reduce_error ev code recoverable commitState st =
     say (display
            (drop_command (\<lambda>cue. \<not> recoverable \<or>
                (cu_correlationId cue = ev_correlationId ev \<and> commitState \<noteq> Confirmed)) st)
            (if recoverable then Blocked else Ended)
            (if recoverable then recoverableErrorStatus code else ''Session ended''))
       ev SystemSays (js ''Error: '' @ code) None"

definition end_narration :: "semantic_event \<Rightarrow> js \<Rightarrow> narration_role \<Rightarrow> projection \<Rightarrow> projection" where
  "end_narration ev narrationId role =
     drop_command (\<lambda>cue. cu_correlationId cue = ev_correlationId ev \<and> role = NarratorRole \<and>
       cu_narrationId cue = Some narrationId)"

definition reduce_cancelled :: "semantic_event \<Rightarrow> js \<Rightarrow> narration_role \<Rightarrow> projection \<Rightarrow> projection" where
  "reduce_cancelled ev narrationId role st =
     end_narration ev narrationId role
       (if matchesActiveStoryStartNarration st ev narrationId role
        then deliver (display (st\<lparr>pj_storyStartPhase := StoryStarted\<rparr>) DisplayReady ''Ready'')
               (ev_causationId ev) Interrupted ev
        else st)"

definition reduce_failed :: "semantic_event \<Rightarrow> js \<Rightarrow> narration_role \<Rightarrow> projection \<Rightarrow> projection" where
  "reduce_failed ev narrationId role st =
     end_narration ev narrationId role
       (if matchesActiveStoryStartNarration st ev narrationId role
        then deliver (display (st\<lparr>pj_storyStartPhase := StoryStarted\<rparr>) Blocked ''Action needed'')
               (ev_causationId ev) Failed ev
        else st)"

definition reduce_requested_narration ::
  "semantic_event \<Rightarrow> js \<Rightarrow> narration_role \<Rightarrow> js \<Rightarrow> projection \<Rightarrow> projection" where
  "reduce_requested_narration ev narrationId role sourceEventId st =
     (let st1 =
        (case pj_storyStartSource st of
           None \<Rightarrow> st
         | Some source \<Rightarrow>
             if pj_storyStartPhase st = StoryStarting \<and> role = NarratorRole \<and>
                ev_correlationId ev = ss_correlationId source \<and> sourceEventId = ss_outputEventId source
             then st\<lparr>pj_storyStartSource := Some (source\<lparr>ss_narration := Some (narrationId, ev_id ev)\<rparr>)\<rparr>
             else st)
      in deliver
           (map_command (\<lambda>cue. cu_correlationId cue = ev_correlationId ev \<and> role = NarratorRole \<and>
                cu_outputEventId cue = Some sourceEventId)
              (\<lambda>cue. cue\<lparr>cu_narrationId := Some narrationId\<rparr>) st1)
           (Some sourceEventId) Pending ev)"

definition reduce_playback_ended ::
  "semantic_event \<Rightarrow> js \<Rightarrow> narration_role \<Rightarrow> playback_outcome \<Rightarrow> projection \<Rightarrow> projection" where
  "reduce_playback_ended ev narrationId role outcome st =
     (let endsStoryStart = matchesActiveStoryStartPlayback st ev narrationId role;
          st1 = (if endsStoryStart then st\<lparr>pj_storyStartPhase := StoryStarted\<rparr> else st);
          st2 = (if outcome = PlaybackFailed then display st1 Blocked ''Action needed''
                 else if endsStoryStart \<or> pj_displayState st1 \<noteq> Paused then display st1 DisplayReady ''Ready''
                 else st1);
          st3 = deliver st2 (ev_causationId ev)
            (case outcome of PlaybackComplete \<Rightarrow> Complete | PlaybackInterrupted \<Rightarrow> Interrupted
             | PlaybackFailed \<Rightarrow> Failed) ev
      in drop_command (\<lambda>cue. cu_correlationId cue = ev_correlationId ev \<and> role = NarratorRole \<and>
           cu_outputEventId cue = ev_causationId ev \<and> cu_narrationId cue = Some narrationId) st3)"

fun reduce_payload :: "semantic_event \<Rightarrow> payload \<Rightarrow> projection \<Rightarrow> projection" where
  "reduce_payload ev (CaptureStarted _) st =
     display (st\<lparr>pj_activeCommand := None\<rparr>) Listening ''Listening''"
| "reduce_payload ev (CaptureEnded _ _ outcome) st = reduce_capture_ended outcome st"
| "reduce_payload ev SessionPaused st = display (st\<lparr>pj_activeCommand := None\<rparr>) Paused ''Paused''"
| "reduce_payload ev SessionResumed st = display st DisplayReady ''Ready''"
| "reduce_payload ev (TranscriptFinal content _ _) st =
     say (drop_command (\<lambda>cue. cu_correlationId cue \<noteq> ev_correlationId ev) st) ev PlayerSays content None"
| "reduce_payload ev (RoleIntroduction role content _ _ _) st = say st ev (spoken_role role) content None"
| "reduce_payload ev (Clarification question _ _ _) st = say st ev GuideSays question None"
| "reduce_payload ev (Explanation resp _ _) st = say st ev GuideSays resp None"
| "reduce_payload ev (CannotComply resp _ _) st = say st ev GuideSays resp None"
| "reduce_payload ev (CommandRequested requestId _ command) st =
     say (st\<lparr>pj_activeCommand := Some (new_cue ev requestId command Requested)\<rparr>) ev SystemSays command (Some command)"
| "reduce_payload ev (CommandCommitted requestId _ _ command _) st = reduce_committed ev requestId command st"
| "reduce_payload ev (CommandRejected requestId _ command _) st =
     drop_command (same_command requestId (ev_correlationId ev) command) st"
| "reduce_payload ev (EngineOutput revision exactText _ _) st = reduce_output ev revision exactText st"
| "reduce_payload ev (SystemError _ code recoverable commitState) st =
     reduce_error ev code recoverable commitState st"
| "reduce_payload ev (NarrationCancelled narrationId role _) st = reduce_cancelled ev narrationId role st"
| "reduce_payload ev (NarrationFailed narrationId role) st = reduce_failed ev narrationId role st"
| "reduce_payload ev (NarrationRequested narrationId role _ sourceEventId _) st =
     reduce_requested_narration ev narrationId role sourceEventId st"
| "reduce_payload ev (PlaybackStarted _ role sourceEventId) st =
     deliver (display st (if role = GuideRole then GuideSpeaking else NarratorSpeaking)
                (if role = GuideRole then ''Guide speaking'' else ''Narrator speaking''))
       (Some sourceEventId) Speaking ev"
| "reduce_payload ev (PlaybackEnded narrationId role outcome) st =
     reduce_playback_ended ev narrationId role outcome st"
| "reduce_payload ev _ st = st"

definition debug_entry :: "semantic_event \<Rightarrow> debug_item" where
  "debug_entry ev = \<lparr>db_id = ev_id ev, db_sequence = ev_sequence ev, db_type = ev_type ev,
     db_correlationId = ev_correlationId ev\<rparr>"

datatype projection_error = OutOfOrder

definition reduceExperienceProjection :: "projection \<Rightarrow> semantic_event \<Rightarrow> projection_error + projection" where
  "reduceExperienceProjection previous ev =
     (if ev_sequence ev \<le> pj_throughSequence previous then Inl OutOfOrder
      else
        Inr ((reduce_payload ev (ev_payload ev) previous)
          \<lparr>pj_throughSequence := ev_sequence ev,
           pj_sourceEventIds := appendBounded (pj_sourceEventIds previous) (ev_id ev) EXPERIENCE_SOURCE_EVENT_LIMIT,
           pj_debug := appendBounded (pj_debug previous) (debug_entry ev) EXPERIENCE_DEBUG_LIMIT\<rparr>))"

fun reduce_all :: "projection \<Rightarrow> semantic_event list \<Rightarrow> projection_error + projection" where \<comment> \<open>\<open>Array.reduce\<close>\<close>
  "reduce_all st [] = Inr st"
| "reduce_all st (ev # evs) = bindE (reduceExperienceProjection st ev) (\<lambda>st'. reduce_all st' evs)"

definition projectExperience :: "semantic_event list \<Rightarrow> projection_error + projection" where
  "projectExperience evs = reduce_all initialExperienceProjection evs"

section \<open>Opening narration (\<open>opening-narration.ts\<close>)\<close>

definition NL :: code_unit where "NL = 0x0A"

definition js_lines :: "string list \<Rightarrow> js" where \<comment> \<open>the lines joined by line feeds\<close>
  "js_lines ls = concat (map (\<lambda>(i, l). if i = 0 then js l else NL # js l) (enumerate 0 ls))"

definition ZORK_I_RELEASE_119_STORY_ID :: js where "ZORK_I_RELEASE_119_STORY_ID = js ''zork1-release-119''"
definition ZORK_I_RELEASE_119_ARTIFACT_SHA256 :: js where
  "ZORK_I_RELEASE_119_ARTIFACT_SHA256 = js ''37084966477dff679282de42974b2077156b1bd68fad92a65d4ea94d8eb64d79''"
definition ZORK_I_RELEASE_119_OPENING :: js where
  "ZORK_I_RELEASE_119_OPENING = js_lines
     [''ZORK I: The Great Underground Empire'', ''Infocom interactive fiction - a fantasy story'',
      ''Copyright (c) 1981, 1982, 1983, 1984, 1985, 1986 Infocom, Inc. All rights reserved.'',
      ''ZORK is a registered trademark of Infocom, Inc.'', ''Release 119 / Serial number 880429'', '''',
      ''West of House'',
      ''You are standing in an open field west of a white house, with a boarded front door.'',
      ''There is a small mailbox here.'', '''', ''>'']"
definition ZORK_I_RELEASE_119_SPOKEN_OPENING :: js where
  "ZORK_I_RELEASE_119_SPOKEN_OPENING = js_lines
     [''ZORK I: The Great Underground Empire'', '''', ''West of House'',
      ''You are standing in an open field west of a white house, with a boarded front door.'',
      ''There is a small mailbox here.'']"

definition selectOpeningNarrationText :: "boot_result \<Rightarrow> js" where
  "selectOpeningNarrationText boot =
     (if story_id (br_compatibility boot) = ZORK_I_RELEASE_119_STORY_ID \<and>
         story_sha256 (br_compatibility boot) = ZORK_I_RELEASE_119_ARTIFACT_SHA256 \<and>
         br_output boot = ZORK_I_RELEASE_119_OPENING
      then ZORK_I_RELEASE_119_SPOKEN_OPENING else br_output boot)"

end
