(* ===== verification/Projection_Facts.thy ===== *)
theory Projection_Facts
  imports Experience_Projection Event_Sequence "HOL-Library.Sublist"
begin

text \<open>
  What the experience projection keeps: every log within its limit and in event order, the spoken
  lines verbatim, and the story-start phase moving forward only.
\<close>

section \<open>Bounded appends keep the last elements\<close>

definition lastn :: "nat \<Rightarrow> 'a list \<Rightarrow> 'a list" where
  "lastn n xs = drop (length xs - n) xs"

lemma length_lastn [simp]: "length (lastn n xs) = min n (length xs)"
  by (simp add: lastn_def)

lemma lastn_Nil [simp]: "lastn n [] = []"
  by (simp add: lastn_def)

lemma map_lastn: "map f (lastn n xs) = lastn n (map f xs)"
  by (simp add: lastn_def drop_map)

lemma appendBounded_lastn:
  assumes "0 < n"
  shows "appendBounded (lastn n xs) x n = lastn n (xs @ [x])"
proof (cases "length xs < n")
  case True
  then show ?thesis by (simp add: appendBounded_def lastn_def)
next
  case False
  then have "Suc (length xs) - n = Suc (length xs - n)" by simp
  with False assms show ?thesis
    by (simp add: appendBounded_def lastn_def min_def)
qed

lemma length_appendBounded: "length xs \<le> n \<Longrightarrow> 0 < n \<Longrightarrow> length (appendBounded xs x n) \<le> n"
  by (auto simp: appendBounded_def)

lemma set_appendBounded: "set (appendBounded xs x n) \<subseteq> insert x (set xs)"
  by (auto simp: appendBounded_def dest: in_set_dropD)

lemma map_appendBounded: "map f (appendBounded xs x n) = appendBounded (map f xs) (f x) n"
  by (simp add: appendBounded_def drop_map)

lemma sorted_appendBounded:
  assumes "sorted_wrt (<) xs" "\<forall>y \<in> set xs. y < x"
  shows "sorted_wrt (<) (appendBounded xs x n)"
  using assms by (auto simp: appendBounded_def sorted_wrt_append sorted_wrt_drop dest: in_set_dropD)

lemma appendSourceReference_ok:
  assumes "xs \<noteq> []" "length xs \<le> EXPERIENCE_SOURCE_EVENT_LIMIT"
  shows "appendSourceReference xs x \<noteq> [] \<and> hd (appendSourceReference xs x) = hd xs \<and>
    length (appendSourceReference xs x) \<le> EXPERIENCE_SOURCE_EVENT_LIMIT \<and> last (appendSourceReference xs x) = x"
  using assms by (auto simp: appendSourceReference_def EXPERIENCE_SOURCE_EVENT_LIMIT_def)

lemma update_first_map: "(\<And>x. g (f x) = g x) \<Longrightarrow> map g (update_first P f xs) = map g xs"
  by (induction xs) auto

lemma update_first_all: "(\<And>x. x \<in> set xs \<Longrightarrow> Q x) \<Longrightarrow> (\<And>x. x \<in> set xs \<Longrightarrow> Q (f x)) \<Longrightarrow> x \<in> set (update_first P f xs) \<Longrightarrow> Q x"
  by (induction xs) (auto split: if_splits)

section \<open>Fields the steps leave alone\<close>

lemma field_simps [simp]:
  "pj_transcript (display st d s) = pj_transcript st" "pj_actionLog (display st d s) = pj_actionLog st"
  "pj_storyStartPhase (display st d s) = pj_storyStartPhase st"
  "pj_storyStartSource (display st d s) = pj_storyStartSource st"
  "pj_activeCommand (display st d s) = pj_activeCommand st"
  "pj_displayState (display st d s) = d" "pj_statusText (display st d s) = s"
  by (simp_all add: display_def)

lemma say_simps [simp]:
  "pj_transcript (say st ev r t c) = appendTranscript (pj_transcript st) (transcriptItem ev r t c)"
  "pj_actionLog (say st ev r t c) = pj_actionLog st"
  "pj_storyStartPhase (say st ev r t c) = pj_storyStartPhase st"
  "pj_storyStartSource (say st ev r t c) = pj_storyStartSource st"
  by (simp_all add: say_def)

lemma deliver_simps [simp]:
  "pj_actionLog (deliver st s d ev) = pj_actionLog st"
  "pj_storyStartPhase (deliver st s d ev) = pj_storyStartPhase st"
  "pj_storyStartSource (deliver st s d ev) = pj_storyStartSource st"
  by (simp_all add: deliver_def split: option.splits)

lemma command_simps [simp]:
  "pj_transcript (drop_command P st) = pj_transcript st" "pj_transcript (map_command P f st) = pj_transcript st"
  "pj_actionLog (drop_command P st) = pj_actionLog st" "pj_actionLog (map_command P f st) = pj_actionLog st"
  "pj_storyStartPhase (drop_command P st) = pj_storyStartPhase st" "pj_storyStartPhase (map_command P f st) = pj_storyStartPhase st"
  "pj_storyStartSource (drop_command P st) = pj_storyStartSource st" "pj_storyStartSource (map_command P f st) = pj_storyStartSource st"
  by (simp_all add: drop_command_def map_command_def split: option.splits)

lemmas reduce_defs = reduce_capture_ended_def reduce_committed_def reduce_output_def reduce_error_def
  reduce_cancelled_def reduce_failed_def reduce_requested_narration_def reduce_playback_ended_def end_narration_def

section \<open>The transcript\<close>

text \<open>The line a payload speaks, and what of a transcript item never changes afterwards.\<close>

fun spoken_line :: "payload \<Rightarrow> (transcript_role \<times> js \<times> js option) option" where
  "spoken_line (TranscriptFinal content _ _) = Some (PlayerSays, content, None)"
| "spoken_line (RoleIntroduction role content _ _ _) = Some (spoken_role role, content, None)"
| "spoken_line (Clarification question _ _ _) = Some (GuideSays, question, None)"
| "spoken_line (Explanation resp _ _) = Some (GuideSays, resp, None)"
| "spoken_line (CannotComply resp _ _) = Some (GuideSays, resp, None)"
| "spoken_line (CommandRequested _ _ command) = Some (SystemSays, command, Some command)"
| "spoken_line (EngineOutput _ exactText _ _) = Some (GameSays, exactText, None)"
| "spoken_line (SystemError _ code _ _) = Some (SystemSays, js ''Error: '' @ code, None)"
| "spoken_line _ = None"

definition line_of :: "semantic_event \<Rightarrow> (js \<times> nat \<times> transcript_role \<times> js \<times> js option) list" where
  "line_of ev = (case spoken_line (ev_payload ev) of None \<Rightarrow> []
     | Some (r, t, c) \<Rightarrow> [(ev_id ev, ev_sequence ev, r, t, c)])"

definition shown :: "transcript_item \<Rightarrow> js \<times> nat \<times> transcript_role \<times> js \<times> js option" where
  "shown item = (ti_id item, ti_introducedAtSequence item, ti_role item, ti_text item, ti_command item)"

lemma map_shown_updateDelivery [simp]: "map shown (updateDelivery items s d ev) = map shown items"
  by (simp add: updateDelivery_def shown_def)

lemma map_shown_deliver [simp]: "map shown (pj_transcript (deliver st s d ev)) = map shown (pj_transcript st)"
  by (simp add: deliver_def split: option.splits)

lemma shown_transcriptItem [simp]: "shown (transcriptItem ev r t c) = (ev_id ev, ev_sequence ev, r, t, c)"
  by (simp add: shown_def transcriptItem_def)

lemma reduce_payload_shown:
  "map shown (pj_transcript (reduce_payload ev p st)) =
     (case spoken_line p of
        None \<Rightarrow> map shown (pj_transcript st)
      | Some (r, t, c) \<Rightarrow>
          appendBounded (map shown (pj_transcript st)) (ev_id ev, ev_sequence ev, r, t, c) EXPERIENCE_TRANSCRIPT_LIMIT)"
  by (cases p) (simp_all add: reduce_defs appendTranscript_def map_appendBounded Let_def split: capture_outcome.splits option.splits)

lemma reduce_step:
  "reduceExperienceProjection st ev = Inr st' \<longleftrightarrow>
     pj_throughSequence st < ev_sequence ev \<and>
     st' = (reduce_payload ev (ev_payload ev) st)
       \<lparr>pj_throughSequence := ev_sequence ev,
        pj_sourceEventIds := appendBounded (pj_sourceEventIds st) (ev_id ev) EXPERIENCE_SOURCE_EVENT_LIMIT,
        pj_debug := appendBounded (pj_debug st) (debug_entry ev) EXPERIENCE_DEBUG_LIMIT\<rparr>"
  by (auto simp: reduceExperienceProjection_def)

lemma reduce_all_append:
  "reduce_all st (xs @ ys) = bindE (reduce_all st xs) (\<lambda>st'. reduce_all st' ys)"
proof (induction xs arbitrary: st)
  case (Cons x xs)
  then show ?case by (cases "reduceExperienceProjection st x") simp_all
qed simp

text \<open>A property of the projection of a prefix that every step keeps.\<close>

lemma project_induct [consumes 1, case_names initial step]:
  assumes "projectExperience evs = Inr st"
    and "P [] initialExperienceProjection"
    and "\<And>evs st ev st'. projectExperience evs = Inr st \<Longrightarrow> P evs st \<Longrightarrow>
      reduceExperienceProjection st ev = Inr st' \<Longrightarrow> P (evs @ [ev]) st'"
  shows "P evs st"
  using assms(1)
proof (induction evs arbitrary: st rule: rev_induct)
  case Nil
  with assms(2) show ?case by (simp add: projectExperience_def)
next
  case (snoc ev evs)
  then obtain st0 where "projectExperience evs = Inr st0" "reduceExperienceProjection st0 ev = Inr st"
    by (auto simp: projectExperience_def reduce_all_append bindE_Inr_iff)
  with snoc.IH assms(3) show ?case by blast
qed

lemma project_logs:
  assumes "projectExperience evs = Inr st"
  shows "map shown (pj_transcript st) = lastn EXPERIENCE_TRANSCRIPT_LIMIT (concat (map line_of evs)) \<and>
    pj_debug st = lastn EXPERIENCE_DEBUG_LIMIT (map debug_entry evs) \<and>
    pj_sourceEventIds st = lastn EXPERIENCE_SOURCE_EVENT_LIMIT (map ev_id evs)"
  using assms
proof (induction rule: project_induct)
  case initial
  show ?case by (simp add: initialExperienceProjection_def)
next
  case (step evs st ev st')
  have pos: "0 < EXPERIENCE_TRANSCRIPT_LIMIT" "0 < EXPERIENCE_DEBUG_LIMIT" "0 < EXPERIENCE_SOURCE_EVENT_LIMIT"
    by (simp_all add: EXPERIENCE_TRANSCRIPT_LIMIT_def EXPERIENCE_DEBUG_LIMIT_def EXPERIENCE_SOURCE_EVENT_LIMIT_def)
  from step show ?case
    by (auto simp: reduce_step reduce_payload_shown appendBounded_lastn [OF pos(1)] appendBounded_lastn [OF pos(2)]
        appendBounded_lastn [OF pos(3)] line_of_def split: option.splits)
qed

section \<open>Order and limits\<close>

lemma project_ordered:
  "projectExperience evs = Inr st \<Longrightarrow>
     sorted_wrt (<) (0 # map ev_sequence evs) \<and> pj_throughSequence st = last (0 # map ev_sequence evs)"
proof (induction rule: project_induct)
  case initial
  show ?case by (simp add: initialExperienceProjection_def)
next
  case (step evs st ev st')
  then have "pj_throughSequence st < ev_sequence ev" "pj_throughSequence st' = ev_sequence ev"
    by (simp_all add: reduce_step)
  moreover have "\<forall>n \<in> set (0 # map ev_sequence evs). n \<le> last (0 # map ev_sequence evs)"
  proof
    fix n assume "n \<in> set (0 # map ev_sequence evs)"
    then obtain i where "i < length (0 # map ev_sequence evs)" "n = (0 # map ev_sequence evs) ! i"
      by (metis in_set_conv_nth)
    moreover have "sorted (0 # map ev_sequence evs)"
      using step by (simp add: strict_sorted_imp_sorted)
    ultimately show "n \<le> last (0 # map ev_sequence evs)"
      by (metis One_nat_def diff_Suc_less last_conv_nth length_greater_0_conv less_Suc_eq_le list.discI
          sorted_nth_mono Suc_pred')
  qed
  ultimately show ?case
    using step.IH by (auto simp: sorted_wrt_append)
qed

lemma reduce_all_complete:
  assumes "sorted_wrt (<) (pj_throughSequence st # map ev_sequence evs)"
  shows "\<exists>st'. reduce_all st evs = Inr st'"
  using assms
proof (induction evs arbitrary: st)
  case (Cons ev evs)
  then obtain st1 where s: "reduceExperienceProjection st ev = Inr st1" "pj_throughSequence st1 = ev_sequence ev"
    by (auto simp: reduce_step)
  with Cons.IH [of st1] Cons.prems show ?case by auto
qed simp

lemma project_iff:
  "(\<exists>st. projectExperience evs = Inr st) \<longleftrightarrow> sorted_wrt (<) (0 # map ev_sequence evs)"
  using project_ordered reduce_all_complete [of initialExperienceProjection evs]
  by (auto simp: projectExperience_def initialExperienceProjection_def)

section \<open>Item invariants\<close>

definition item_ok :: "nat \<Rightarrow> transcript_item \<Rightarrow> bool" where
  "item_ok now item \<longleftrightarrow>
     ti_sourceEventIds item \<noteq> [] \<and> hd (ti_sourceEventIds item) = ti_id item \<and>
     length (ti_sourceEventIds item) \<le> EXPERIENCE_SOURCE_EVENT_LIMIT \<and>
     ti_introducedAtSequence item \<le> ti_throughSequence item \<and> ti_throughSequence item \<le> now"

definition action_ok :: "nat \<Rightarrow> action_item \<Rightarrow> bool" where
  "action_ok now item \<longleftrightarrow>
     ac_sourceEventIds item \<noteq> [] \<and> length (ac_sourceEventIds item) \<le> EXPERIENCE_SOURCE_EVENT_LIMIT \<and>
     ac_throughSequence item \<le> now"

definition action_key :: "action_item \<Rightarrow> js \<times> js \<times> js" where
  "action_key item = (ac_requestId item, ac_correlationId item, ac_command item)"

definition log_ok :: "nat \<Rightarrow> action_item list \<Rightarrow> bool" where
  "log_ok now items \<longleftrightarrow>
     length items \<le> EXPERIENCE_ACTION_LOG_LIMIT \<and> distinct (map action_key items) \<and> (\<forall>x \<in> set items. action_ok now x)"

definition transcript_ok :: "nat \<Rightarrow> transcript_item list \<Rightarrow> bool" where
  "transcript_ok now items \<longleftrightarrow> (\<forall>x \<in> set items. item_ok now x)"

lemma item_ok_mono: "item_ok n x \<Longrightarrow> n \<le> m \<Longrightarrow> item_ok m x"
  by (simp add: item_ok_def)

lemma transcript_ok_mono: "transcript_ok n xs \<Longrightarrow> n \<le> m \<Longrightarrow> transcript_ok m xs"
  by (auto simp: transcript_ok_def intro: item_ok_mono)

lemma log_ok_mono: "log_ok n xs \<Longrightarrow> n \<le> m \<Longrightarrow> log_ok m xs"
  by (fastforce simp: log_ok_def action_ok_def)

lemma updateDelivery_ok:
  assumes "transcript_ok n xs" "n \<le> ev_sequence ev"
  shows "transcript_ok (ev_sequence ev) (updateDelivery xs s d ev)"
proof -
  have "item_ok (ev_sequence ev) (x\<lparr>ti_sourceEventIds := appendSourceReference (ti_sourceEventIds x) (ev_id ev),
        ti_throughSequence := ev_sequence ev, ti_delivery := d\<rparr>)" if "item_ok n x" for x
    using that assms(2) appendSourceReference_ok [of "ti_sourceEventIds x" "ev_id ev"] by (simp add: item_ok_def)
  with assms show ?thesis
    by (auto simp: transcript_ok_def updateDelivery_def intro: item_ok_mono)
qed

lemma appendTranscript_ok:
  assumes "transcript_ok (ev_sequence ev) xs"
  shows "transcript_ok (ev_sequence ev) (appendTranscript xs (transcriptItem ev r t c))"
proof -
  have "item_ok (ev_sequence ev) (transcriptItem ev r t c)"
    by (simp add: item_ok_def transcriptItem_def EXPERIENCE_SOURCE_EVENT_LIMIT_def)
  with assms show ?thesis
    using set_appendBounded [of xs "transcriptItem ev r t c" EXPERIENCE_TRANSCRIPT_LIMIT]
    by (auto simp: transcript_ok_def appendTranscript_def)
qed

lemma deliver_ok:
  "transcript_ok (ev_sequence ev) (pj_transcript st) \<Longrightarrow> transcript_ok (ev_sequence ev) (pj_transcript (deliver st s d ev))"
  using updateDelivery_ok [of "ev_sequence ev" "pj_transcript st" ev] by (simp add: deliver_def split: option.splits)

lemma projectCommittedAction_ok:
  assumes "log_ok (ev_sequence ev) items"
  shows "log_ok (ev_sequence ev) (projectCommittedAction items rid corr cmd ev)"
proof (cases "list_ex (matchesAction rid corr cmd) items")
  case False
  let ?new = "\<lparr>ac_requestId = rid, ac_correlationId = corr, ac_command = cmd,
      ac_sourceEventIds = [ev_id ev], ac_throughSequence = ev_sequence ev\<rparr>"
  have "action_key ?new \<notin> action_key ` set items"
    using False by (auto simp: list_ex_iff matchesAction_def action_key_def)
  then have "distinct (map action_key (?new # items))" using assms by (simp add: log_ok_def)
  then have "distinct (map action_key (take EXPERIENCE_ACTION_LOG_LIMIT (?new # items)))"
    unfolding take_map [symmetric] by (rule distinct_take)
  moreover have "action_ok (ev_sequence ev) ?new"
    by (simp add: action_ok_def EXPERIENCE_SOURCE_EVENT_LIMIT_def)
  then have "\<forall>x \<in> set (take EXPERIENCE_ACTION_LOG_LIMIT (?new # items)). action_ok (ev_sequence ev) x"
    using assms by (auto simp: log_ok_def dest!: in_set_takeD)
  ultimately show ?thesis
    using False assms by (simp add: projectCommittedAction_def addCommittedAction_def log_ok_def)
next
  case True
  let ?f = "\<lambda>item. item\<lparr>ac_sourceEventIds := appendSourceReference (ac_sourceEventIds item) (ev_id ev),
      ac_throughSequence := ev_sequence ev\<rparr>"
  have "map action_key (update_first P ?f items) = map action_key items" for P
    by (rule update_first_map) (simp add: action_key_def)
  moreover have "length (update_first P ?f items) = length items" for P
    by (induction items) simp_all
  moreover have "action_ok (ev_sequence ev) x" if "x \<in> set (update_first P ?f items)" for P x
  proof (rule update_first_all [OF _ _ that])
    show "action_ok (ev_sequence ev) y" if "y \<in> set items" for y
      using that assms by (simp add: log_ok_def)
    show "action_ok (ev_sequence ev) (?f y)" if "y \<in> set items" for y
      using that assms appendSourceReference_ok [of "ac_sourceEventIds y" "ev_id ev"]
      by (simp add: log_ok_def action_ok_def)
  qed
  ultimately show ?thesis
    using True assms by (auto simp: projectCommittedAction_def log_ok_def)
qed

section \<open>Story start\<close>

fun phase_rank :: "story_phase \<Rightarrow> nat" where
  "phase_rank StoryReady = 0" | "phase_rank StoryStarting = 1" | "phase_rank StoryStarted = 2"

definition story_ok :: "projection \<Rightarrow> bool" where
  "story_ok st \<longleftrightarrow> (pj_storyStartPhase st = StoryReady \<longleftrightarrow> pj_storyStartSource st = None)"

lemma reduce_payload_story:
  assumes "story_ok st"
  shows "story_ok (reduce_payload ev p st) \<and>
    phase_rank (pj_storyStartPhase st) \<le> phase_rank (pj_storyStartPhase (reduce_payload ev p st)) \<and>
    (pj_storyStartSource st \<noteq> None \<longrightarrow>
       map_option ss_outputEventId (pj_storyStartSource (reduce_payload ev p st)) = map_option ss_outputEventId (pj_storyStartSource st))"
  using assms
  by (cases p)
    (auto simp: reduce_defs story_ok_def Let_def matchesActiveStoryStartNarration_def matchesActiveStoryStartPlayback_def
      split: capture_outcome.splits option.splits)

lemma reduce_payload_log:
  assumes "log_ok (ev_sequence ev) (pj_actionLog st)"
  shows "log_ok (ev_sequence ev) (pj_actionLog (reduce_payload ev p st))"
  using assms projectCommittedAction_ok [OF assms]
  by (cases p) (simp_all add: reduce_defs Let_def split: capture_outcome.splits option.splits)

lemma reduce_payload_transcript:
  assumes "transcript_ok (ev_sequence ev) (pj_transcript st)"
  shows "transcript_ok (ev_sequence ev) (pj_transcript (reduce_payload ev p st))"
  using assms appendTranscript_ok deliver_ok
  by (cases p) (simp_all add: reduce_defs Let_def split: capture_outcome.splits option.splits)

lemma project_invariant:
  "projectExperience evs = Inr st \<Longrightarrow>
     log_ok (pj_throughSequence st) (pj_actionLog st) \<and> transcript_ok (pj_throughSequence st) (pj_transcript st) \<and> story_ok st"
proof (induction rule: project_induct)
  case initial
  show ?case by (simp add: initialExperienceProjection_def log_ok_def transcript_ok_def story_ok_def)
next
  case (step evs st ev st')
  then have less: "pj_throughSequence st \<le> ev_sequence ev" by (simp add: reduce_step)
  have "log_ok (ev_sequence ev) (pj_actionLog st)" "transcript_ok (ev_sequence ev) (pj_transcript st)"
    using step.IH less log_ok_mono transcript_ok_mono by blast+
  with step.hyps step.IH reduce_payload_log reduce_payload_transcript reduce_payload_story show ?case
    by (auto simp: reduce_step story_ok_def)
qed

lemma story_forward:
  assumes "projectExperience evs = Inr st" and "projectExperience (evs @ later) = Inr st'"
  shows "phase_rank (pj_storyStartPhase st) \<le> phase_rank (pj_storyStartPhase st') \<and>
    (pj_storyStartSource st \<noteq> None \<longrightarrow>
       map_option ss_outputEventId (pj_storyStartSource st') = map_option ss_outputEventId (pj_storyStartSource st))"
  using assms(2)
proof (induction later arbitrary: st' rule: rev_induct)
  case Nil
  with assms(1) show ?case by simp
next
  case (snoc ev later)
  then obtain st1 where st1: "projectExperience (evs @ later) = Inr st1" "reduceExperienceProjection st1 ev = Inr st'"
    by (auto simp: projectExperience_def reduce_all_append bindE_Inr_iff)
  have "story_ok st1" using project_invariant [OF st1(1)] by blast
  from reduce_payload_story [OF this, of ev "ev_payload ev"] snoc.IH [OF st1(1)] st1(2) show ?case
    by (auto simp: reduce_step)
qed

lemma newEventSequence_next: "newEventSequence sid first = Inr sq \<Longrightarrow> \<exists>n. sq_next sq = Some n \<and> 1 \<le> n"
  by (auto simp: newEventSequence_def Let_def split: jsval.splits if_splits option.splits)

section \<open>The active command\<close>

definition cue_ok :: "semantic_event list \<Rightarrow> nat \<Rightarrow> command_cue option \<Rightarrow> bool" where
  "cue_ok evs now found \<longleftrightarrow>
     (\<forall>cue. found = Some cue \<longrightarrow> cu_throughSequence cue \<le> now \<and> cu_sourceEventIds cue \<noteq> [] \<and>
        subseq (cu_sourceEventIds cue) (map ev_id evs))"

lemma deliver_active [simp]: "pj_activeCommand (deliver st s d ev) = pj_activeCommand st"
  by (simp add: deliver_def split: option.splits)

lemma say_active [simp]: "pj_activeCommand (say st ev r t c) = pj_activeCommand st"
  by (simp add: say_def)

lemma drop_active: "pj_activeCommand (drop_command P st) = Some cue \<Longrightarrow> pj_activeCommand st = Some cue"
  by (auto simp: drop_command_def split: option.splits if_splits)

lemma map_active: "pj_activeCommand (map_command P f st) = Some cue \<Longrightarrow>
    \<exists>old. pj_activeCommand st = Some old \<and> (cue = old \<or> cue = f old)"
  by (auto simp: map_command_def split: option.splits if_splits)

text \<open>A step keeps the sources of the active command, adds its own event to them or starts anew.\<close>

lemma reduce_payload_active:
  assumes "pj_activeCommand (reduce_payload ev p st) = Some cue"
  shows "(\<exists>old. pj_activeCommand st = Some old \<and> cu_sourceEventIds cue = cu_sourceEventIds old \<and>
      cu_throughSequence cue = cu_throughSequence old) \<or>
    cu_throughSequence cue = ev_sequence ev \<and> (cu_sourceEventIds cue = [ev_id ev] \<or>
      (\<exists>old. pj_activeCommand st = Some old \<and> cu_sourceEventIds cue = cu_sourceEventIds old @ [ev_id ev]))"
  using assms
  by (cases p) (auto simp: reduce_defs new_cue_def Let_def dest!: map_active drop_active
      split: capture_outcome.splits option.splits if_splits)

lemma cue_ok_step:
  assumes "cue_ok evs n (pj_activeCommand st)" and "n \<le> ev_sequence ev"
  shows "cue_ok (evs @ [ev]) (ev_sequence ev) (pj_activeCommand (reduce_payload ev p st))"
  unfolding cue_ok_def
proof (intro allI impI)
  fix cue
  assume "pj_activeCommand (reduce_payload ev p st) = Some cue"
  from reduce_payload_active [OF this] assms
  show "cu_throughSequence cue \<le> ev_sequence ev \<and> cu_sourceEventIds cue \<noteq> [] \<and>
      subseq (cu_sourceEventIds cue) (map ev_id (evs @ [ev]))"
    by (auto simp: cue_ok_def intro: list_emb_append2 list_emb_prefix list_emb_append_mono)
qed

lemma project_cue: "projectExperience evs = Inr st \<Longrightarrow> cue_ok evs (pj_throughSequence st) (pj_activeCommand st)"
proof (induction rule: project_induct)
  case initial
  show ?case by (simp add: initialExperienceProjection_def cue_ok_def)
next
  case (step evs st ev st')
  then have "cue_ok (evs @ [ev]) (ev_sequence ev) (pj_activeCommand (reduce_payload ev (ev_payload ev) st))"
    by (intro cue_ok_step) (auto simp: reduce_step)
  with step.hyps show ?case by (simp add: reduce_step)
qed

definition commits :: "js \<Rightarrow> js \<Rightarrow> js \<Rightarrow> semantic_event \<Rightarrow> bool" where
  "commits requestId correlationId command ev \<longleftrightarrow>
     ev_correlationId ev = correlationId \<and>
     (\<exists>before after boundary. ev_payload ev = CommandCommitted requestId before after command boundary)"

lemma project_commits:
  assumes "projectExperience evs = Inr st" and "list_all (commits rid corr cmd) evs" and "evs \<noteq> []"
  shows "(\<exists>cue. pj_activeCommand st = Some cue \<and> same_command rid corr cmd cue \<and> cu_sourceEventIds cue = map ev_id evs) \<and>
    (\<exists>item. pj_actionLog st = [item] \<and> matchesAction rid corr cmd item)"
  using assms
proof (induction rule: project_induct)
  case (step evs st ev st')
  from step.prems obtain before after boundary where ev: "ev_correlationId ev = corr"
    "ev_payload ev = CommandCommitted rid before after cmd boundary"
    by (auto simp: commits_def)
  show ?case
  proof (cases "evs = []")
    case True
    with step.hyps have "st = initialExperienceProjection" by (simp add: projectExperience_def)
    with step.hyps ev True show ?thesis
      by (simp add: reduce_step reduce_committed_def initialExperienceProjection_def projectCommittedAction_def
          addCommittedAction_def matchesAction_def same_command_def new_cue_def EXPERIENCE_ACTION_LOG_LIMIT_def)
  next
    case False
    with step.IH step.prems obtain cue item where "pj_activeCommand st = Some cue" "same_command rid corr cmd cue"
      "cu_sourceEventIds cue = map ev_id evs" "pj_actionLog st = [item]" "matchesAction rid corr cmd item"
      by auto
    with step.hyps ev show ?thesis
      by (simp add: reduce_step reduce_committed_def map_command_def projectCommittedAction_def
          matchesAction_def same_command_def)
  qed
qed simp

end
