(* ===== verification/Projection_Properties.thy ===== *)
theory Projection_Properties
  imports Projection_Facts
begin

text \<open>
  The properties of the experience projection and its composition with the event sequence.
\<close>

section \<open>Demonstration stream\<close>

definition demo_event :: "nat \<Rightarrow> string \<Rightarrow> payload \<Rightarrow> semantic_event" where
  "demo_event n i p = \<lparr>ev_id = js i, ev_sessionId = js ''s'', ev_sequence = n, ev_occurredAt = js ''t'',
     ev_type = js (event_type p), ev_correlationId = js ''c'', ev_causationId = None,
     ev_visibility = Accessible, ev_payload = p\<rparr>"

definition demo_output :: semantic_event where
  "demo_output = demo_event 2 ''e2'' (EngineOutput 0 (js ''West of House'') InputRequested SessionOnly)"

definition demo_failed :: semantic_event where
  "demo_failed = demo_event 5 ''e5'' (PlaybackEnded (js ''n'') NarratorRole PlaybackFailed)"

definition demo_stream :: "semantic_event list" where
  "demo_stream = [demo_event 1 ''e1'' SessionResumed, demo_output,
     demo_event 3 ''e3'' (CommandCommitted (js ''r'') 0 1 (js ''look'') InputRequested), demo_failed]"

lemma demo_stream_ordered: "sorted_wrt (<) (0 # map ev_sequence demo_stream)"
  by (simp add: demo_stream_def demo_event_def demo_output_def demo_failed_def)

lemma demo_lines:
  "lastn EXPERIENCE_TRANSCRIPT_LIMIT (concat (map line_of demo_stream)) =
     [(js ''e2'', 2, GameSays, js ''West of House'', None)]"
  by (simp add: demo_stream_def demo_output_def demo_failed_def demo_event_def line_of_def lastn_def
      EXPERIENCE_TRANSCRIPT_LIMIT_def)

section \<open>Claims\<close>

text \<open>A stream of events is projected exactly when its sequence numbers increase strictly from
  1 on; the projection then stands at the last of them, and any other stream raises the range
  error.\<close>

theorem projection_accepts_ordered_streams:
  "(projectExperience evs = Inl OutOfOrder \<longleftrightarrow> \<not> sorted_wrt (<) (0 # map ev_sequence evs)) \<and>
   (sorted_wrt (<) (0 # map ev_sequence evs) \<longleftrightarrow>
     (\<exists>st. projectExperience evs = Inr st \<and> pj_throughSequence st = last (0 # map ev_sequence evs)))"
proof -
  have "projectExperience evs = Inl OutOfOrder" if "\<not> sorted_wrt (<) (0 # map ev_sequence evs)"
    using that project_iff [of evs] by (cases "projectExperience evs") (auto intro: projection_error.exhaust)
  moreover have "\<exists>st. projectExperience evs = Inr st \<and> pj_throughSequence st = last (0 # map ev_sequence evs)"
    if "sorted_wrt (<) (0 # map ev_sequence evs)"
    using that project_iff [of evs] project_ordered [of evs] by blast
  ultimately show ?thesis using project_ordered [of evs] by (metis Inl_Inr_False)
qed

text \<open>C21. The bounded logs are the recent history itself: the transcript shows exactly the last 128
  spoken lines of the stream, verbatim, in order and with their first event, and the debug view and
  the source references are exactly the last 256 events.\<close>

theorem projection_logs_are_recent_history:
  assumes "projectExperience evs = Inr st"
  shows "map shown (pj_transcript st) = lastn EXPERIENCE_TRANSCRIPT_LIMIT (concat (map line_of evs)) \<and>
    pj_debug st = lastn EXPERIENCE_DEBUG_LIMIT (map debug_entry evs) \<and>
    pj_sourceEventIds st = lastn EXPERIENCE_SOURCE_EVENT_LIMIT (map ev_id evs)"
  using project_logs [OF assms] .

theorem projection_logs_are_recent_history_witness:
  "\<exists>st. projectExperience demo_stream = Inr st \<and>
     map shown (pj_transcript st) = [(js ''e2'', 2, GameSays, js ''West of House'', None)]"
proof -
  obtain st where st: "projectExperience demo_stream = Inr st" using project_iff demo_stream_ordered by blast
  have "map shown (pj_transcript st) = lastn EXPERIENCE_TRANSCRIPT_LIMIT (concat (map line_of demo_stream))"
    using projection_logs_are_recent_history [OF st] by blast
  with st show ?thesis by (simp add: demo_lines)
qed

text \<open>C35. Every log of a player's view, and every source list of an item of these logs, is within its
  limit: at most 8 actions, one per (request, correlation, command), at most 128 transcript lines, at most
  256 debug entries and source references, at most 256 sources of a line (the introducing event
  first) or of an action.  No line, no action and no active command carries a sequence number beyond
  the projection's own.  The sources of the active command are a subsequence of the events projected, at least
  one; they have no limit of their own.\<close>

theorem projection_stays_bounded:
  assumes "projectExperience evs = Inr st"
  shows "length (pj_actionLog st) \<le> 8 \<and> distinct (map action_key (pj_actionLog st)) \<and>
    length (pj_transcript st) \<le> 128 \<and> length (pj_debug st) \<le> 256 \<and> length (pj_sourceEventIds st) \<le> 256 \<and>
    (\<forall>a \<in> set (pj_actionLog st). action_ok (pj_throughSequence st) a) \<and>
    (\<forall>x \<in> set (pj_transcript st). item_ok (pj_throughSequence st) x) \<and>
    cue_ok evs (pj_throughSequence st) (pj_activeCommand st)"
proof -
  have "length (map shown (pj_transcript st)) \<le> 128 \<and> length (pj_debug st) \<le> 256 \<and> length (pj_sourceEventIds st) \<le> 256"
    unfolding project_logs [OF assms, THEN conjunct1] project_logs [OF assms, THEN conjunct2, THEN conjunct1]
      project_logs [OF assms, THEN conjunct2, THEN conjunct2]
    by (simp add: EXPERIENCE_TRANSCRIPT_LIMIT_def EXPERIENCE_DEBUG_LIMIT_def EXPERIENCE_SOURCE_EVENT_LIMIT_def)
  then show ?thesis
    using project_invariant [OF assms] project_cue [OF assms]
    by (simp add: log_ok_def transcript_ok_def EXPERIENCE_ACTION_LOG_LIMIT_def)
qed

theorem projection_stays_bounded_witness:
  "\<exists>st. projectExperience demo_stream = Inr st \<and> distinct (map action_key (pj_actionLog st)) \<and>
     length (pj_actionLog st) \<le> 8"
proof -
  obtain st where st: "projectExperience demo_stream = Inr st" using project_iff demo_stream_ordered by blast
  with projection_stays_bounded [OF st] show ?thesis by blast
qed

text \<open>The story start only moves forward over a stream: its phase never falls back, it is at
  its first phase exactly as long as it has no source, and its source event is fixed once set.\<close>

theorem story_start_moves_forward:
  assumes "projectExperience evs = Inr st" and "projectExperience (evs @ later) = Inr st'"
  shows "phase_rank (pj_storyStartPhase st) \<le> phase_rank (pj_storyStartPhase st') \<and>
    (pj_storyStartPhase st' = StoryReady \<longleftrightarrow> pj_storyStartSource st' = None) \<and>
    (pj_storyStartSource st \<noteq> None \<longrightarrow>
       map_option ss_outputEventId (pj_storyStartSource st') = map_option ss_outputEventId (pj_storyStartSource st))"
  using story_forward [OF assms] project_invariant [OF assms(2)] by (simp add: story_ok_def)

theorem story_start_moves_forward_witness:
  "\<exists>st st'. projectExperience (take 2 demo_stream) = Inr st \<and> projectExperience demo_stream = Inr st' \<and>
     pj_storyStartPhase st = StoryStarting \<and>
     map_option ss_outputEventId (pj_storyStartSource st') = Some (js ''e2'')"
proof -
  have d: "take 2 demo_stream @ drop 2 demo_stream = demo_stream" by simp
  obtain st' where st': "projectExperience demo_stream = Inr st'" using project_iff demo_stream_ordered by blast
  obtain st where st: "projectExperience (take 2 demo_stream) = Inr st"
    and p: "pj_storyStartPhase st = StoryStarting" "map_option ss_outputEventId (pj_storyStartSource st) = Some (js ''e2'')"
    by (simp add: demo_stream_def demo_output_def demo_event_def projectExperience_def reduceExperienceProjection_def
        initialExperienceProjection_def reduce_output_def display_def say_def map_command_def)
  from story_start_moves_forward [OF st, of "drop 2 demo_stream" st'] st' st p show ?thesis by (auto simp: d)
qed

text \<open>Whatever a session's event sequence is asked to allocate, the events it issues, in
  the order it issues them, are always projected: the reducer's ordering error never fires on them.\<close>

theorem issued_events_always_project:
  assumes "newEventSequence sessionId first = Inr sq"
  shows "\<exists>st. projectExperience (fst (events.alloc_run sq requests)) = Inr st \<and>
    pj_debug st = lastn EXPERIENCE_DEBUG_LIMIT (map debug_entry (fst (events.alloc_run sq requests)))"
proof -
  let ?evs = "fst (events.alloc_run sq requests)"
  obtain n where n: "sq_next sq = Some n" "1 \<le> n" using newEventSequence_next [OF assms] by blast
  have "map ev_sequence ?evs = [n..<n + length ?evs]"
    using events.alloc_run_consecutive [OF newEventSequence_wf [OF assms] n(1)] .
  then have "sorted_wrt (<) (0 # map ev_sequence ?evs)" using n(2) by (auto simp: strict_sorted_iff)
  with project_iff [of ?evs] project_logs [of ?evs] show ?thesis by blast
qed

theorem issued_events_always_project_witness:
  "\<exists>sq st. newEventSequence (JStr (js ''s'')) JUndef = Inr sq \<and>
     projectExperience (fst (events.alloc_run sq [])) = Inr st \<and> pj_debug st = []"
proof -
  have sq: "newEventSequence (JStr (js ''s'')) JUndef = Inr \<lparr>sq_sessionId = js ''s'', sq_next = Some 1\<rparr>"
    by (simp add: newEventSequence_def MAX_SAFE_INTEGER_def)
  from issued_events_always_project [OF sq, of "[]"] sq show ?thesis by auto
qed

text \<open>C36. The sources of the active command are the one list without a limit: a stream of commits of
  one and the same request, however long, leaves an active command that lists every event of the
  stream, while the action log keeps one action with at most 256 sources.\<close>

theorem active_command_sources_grow:
  assumes "sorted_wrt (<) (0 # map ev_sequence evs)" and "evs \<noteq> []" and "list_all (commits rid corr cmd) evs"
  shows "\<exists>st cue item. projectExperience evs = Inr st \<and>
    pj_activeCommand st = Some cue \<and> same_command rid corr cmd cue \<and> cu_sourceEventIds cue = map ev_id evs \<and>
    pj_actionLog st = [item] \<and> matchesAction rid corr cmd item \<and> length (ac_sourceEventIds item) \<le> 256"
proof -
  obtain st where st: "projectExperience evs = Inr st" using project_iff assms(1) by blast
  from project_commits [OF st assms(3,2)] project_invariant [OF st] st show ?thesis
    by (auto simp: log_ok_def action_ok_def EXPERIENCE_SOURCE_EVENT_LIMIT_def)
qed

definition demo_commits :: "semantic_event list" where
  "demo_commits = map (\<lambda>n. demo_event n ''e'' (CommandCommitted (js ''r'') 0 1 (js ''look'') InputRequested)) [1..<1001]"

theorem active_command_sources_grow_witness:
  "\<exists>st cue. projectExperience demo_commits = Inr st \<and> pj_activeCommand st = Some cue \<and>
     length (cu_sourceEventIds cue) = 1000"
proof -
  have "map ev_sequence demo_commits = [1..<1001]"
    by (simp add: demo_commits_def demo_event_def comp_def del: upt_Suc)
  then have "sorted_wrt (<) (0 # map ev_sequence demo_commits)" by (auto simp: strict_sorted_iff)
  moreover have "length demo_commits = 1000" by (simp add: demo_commits_def)
  moreover from this have "demo_commits \<noteq> []" by auto
  moreover have "list_all (commits (js ''r'') (js ''c'') (js ''look'')) demo_commits"
    by (simp add: demo_commits_def list_all_iff commits_def demo_event_def)
  ultimately show ?thesis
    using active_command_sources_grow [of demo_commits "js ''r''" "js ''c''" "js ''look''"] by auto
qed

end
