(* ===== verification/Decision_Validator.thy ===== *)
theory Decision_Validator
  imports Events
begin

text \<open>
  \<open>packages/guide-core/src/decision-validator.ts\<close> and \<open>initial-model-decision-validator.ts\<close>:
  the checks that turn an untyped provider answer into a guide decision.  A thrown
  \<open>GuideDecisionValidationError\<close> is its code; the message texts are left out.
\<close>

section \<open>Generic guide decisions\<close>

datatype decision_error = NotAnObject | UnknownKind | UnknownField | MissingField | InvalidField

definition check_record :: "jsval \<Rightarrow> decision_error + unit" where
  "check_record input = ensure (is_object input) NotAnObject"

definition exactKeys :: "jsval \<Rightarrow> string list \<Rightarrow> string list \<Rightarrow> decision_error + unit" where
  "exactKeys input required optional =
     (if list_ex (\<lambda>k. k \<notin> js ` set (required @ optional)) (own_keys input) then Inl UnknownField
      else if list_ex (\<lambda>k. \<not> has_own input k) required then Inl MissingField
      else Inr ())"

definition boundedString :: "nat \<Rightarrow> jsval \<Rightarrow> decision_error + js" where
  "boundedString maximum input =
     (case input of
        JStr s \<Rightarrow>
          if trim s = [] then Inl InvalidField
          else if maximum < length s \<or> has_control s then Inl InvalidField
          else Inr s
      | _ \<Rightarrow> Inl InvalidField)"

definition optionalString :: "jsval \<Rightarrow> decision_error + js option" where
  "optionalString input =
     (if input = JUndef then Inr None else bindE (boundedString 1000 input) (\<lambda>s. Inr (Some s)))"

definition stringArray :: "jsval \<Rightarrow> decision_error + js list" where
  "stringArray input =
     (case input of
        JArr vs \<Rightarrow> if 32 < length vs then Inl InvalidField else mapE (boundedString 160) vs
      | _ \<Rightarrow> Inl InvalidField)"

definition read_confidence :: "jsval \<Rightarrow> decision_error + rat" where
  "read_confidence v =
     (case v of
        JNum (Fin q) \<Rightarrow> if q < 0 \<or> 1 < q then Inl InvalidField else Inr q
      | _ \<Rightarrow> Inl InvalidField)"

definition read_choices :: "jsval \<Rightarrow> decision_error + js list option" where
  "read_choices v =
     (if v = JUndef then Inr None
      else
        (case v of
           JArr vs \<Rightarrow>
             if length vs \<noteq> 2 \<and> length vs \<noteq> 3 then Inl InvalidField
             else bindE (mapE (boundedString 160) vs) (\<lambda>cs. Inr (Some cs))
         | _ \<Rightarrow> Inl InvalidField))"

definition basis_names :: "(string \<times> explain_basis) list" where
  "basis_names = [(''command-help'', CommandHelp), (''observed-memory'', ObservedMemory),
     (''game-explanation'', GameExplanation)]"

definition control_names :: "(string \<times> meta_control) list" where \<comment> \<open>\<open>META_CONTROLS\<close>\<close>
  "control_names = [(''stop-speaking'', StopSpeaking), (''repeat-last'', RepeatLast),
     (''pause-session'', PauseSession), (''resume-session'', ResumeSession),
     (''speech-slower'', SpeechSlower), (''speech-faster'', SpeechFaster),
     (''show-transcript'', ShowTranscript), (''hide-transcript'', HideTranscript)]"

definition reason_names :: "(string \<times> cannot_reason) list" where
  "reason_names = [(''not-observed'', NotObserved), (''unsupported'', Unsupported),
     (''unsafe'', Unsafe), (''provider-limitation'', ProviderLimitation)]"

fun read_name :: "(string \<times> 'a) list \<Rightarrow> jsval \<Rightarrow> decision_error + 'a" where
  "read_name [] v = Inl InvalidField"
| "read_name ((n, x) # ns) v = (if v = JStr (js n) then Inr x else read_name ns v)"

definition read_level :: "jsval \<Rightarrow> decision_error + nat" where
  "read_level v =
     (if v = jnat 1 then Inr 1 else if v = jnat 2 then Inr 2 else if v = jnat 3 then Inr 3
      else if v = jnat 4 then Inr 4 else Inl InvalidField)"

definition validate_execute :: "jsval \<Rightarrow> decision_error + guide_decision" where
  "validate_execute v =
     bindE (exactKeys v [''kind'', ''command'', ''intentSummary'', ''confidence'']
              [''expectedEffect'', ''acknowledgement'', ''remainingGoal'']) (\<lambda>_.
     bindE (read_confidence (getProp v ''confidence'')) (\<lambda>confidence.
     bindE (boundedString 160 (getProp v ''command'')) (\<lambda>command.
     bindE (boundedString 1000 (getProp v ''intentSummary'')) (\<lambda>intentSummary.
     bindE (optionalString (getProp v ''expectedEffect'')) (\<lambda>expectedEffect.
     bindE (optionalString (getProp v ''acknowledgement'')) (\<lambda>acknowledgement.
     bindE (optionalString (getProp v ''remainingGoal'')) (\<lambda>remainingGoal.
     Inr (DExecute command intentSummary expectedEffect confidence acknowledgement remainingGoal))))))))"

definition validate_clarify :: "jsval \<Rightarrow> decision_error + guide_decision" where
  "validate_clarify v =
     bindE (exactKeys v [''kind'', ''question'', ''ambiguity''] [''choices'']) (\<lambda>_.
     bindE (read_choices (getProp v ''choices'')) (\<lambda>choices.
     bindE (boundedString 1000 (getProp v ''question'')) (\<lambda>question.
     bindE (boundedString 1000 (getProp v ''ambiguity'')) (\<lambda>ambiguity.
     Inr (DClarify question choices ambiguity)))))"

definition validate_explain :: "jsval \<Rightarrow> decision_error + guide_decision" where
  "validate_explain v =
     bindE (exactKeys v [''kind'', ''response'', ''basis'', ''sourceIds''] []) (\<lambda>_.
     bindE (read_name basis_names (getProp v ''basis'')) (\<lambda>basis.
     bindE (boundedString 4000 (getProp v ''response'')) (\<lambda>resp.
     bindE (stringArray (getProp v ''sourceIds'')) (\<lambda>sourceIds.
     Inr (DExplain resp basis sourceIds)))))"

definition validate_hint :: "jsval \<Rightarrow> decision_error + guide_decision" where
  "validate_hint v =
     bindE (exactKeys v [''kind'', ''puzzleContext'', ''requestedLevel''] []) (\<lambda>_.
     bindE (read_level (getProp v ''requestedLevel'')) (\<lambda>level.
     bindE (boundedString 1000 (getProp v ''puzzleContext'')) (\<lambda>puzzle.
     Inr (DRequestHint puzzle level))))"

definition validate_control :: "jsval \<Rightarrow> decision_error + guide_decision" where
  "validate_control v =
     bindE (exactKeys v [''kind'', ''control''] []) (\<lambda>_.
     bindE (read_name control_names (getProp v ''control'')) (\<lambda>control.
     Inr (DSessionControl control)))"

definition validate_cannot :: "jsval \<Rightarrow> decision_error + guide_decision" where
  "validate_cannot v =
     bindE (exactKeys v [''kind'', ''response'', ''reason''] []) (\<lambda>_.
     bindE (read_name reason_names (getProp v ''reason'')) (\<lambda>reason.
     bindE (boundedString 1000 (getProp v ''response'')) (\<lambda>resp.
     Inr (DCannotComply resp reason))))"

definition validateGuideDecision :: "jsval \<Rightarrow> decision_error + guide_decision" where
  "validateGuideDecision input =
     bindE (check_record input) (\<lambda>_.
     (case getProp input ''kind'' of
        JStr kind \<Rightarrow>
          if kind = js ''execute'' then validate_execute input
          else if kind = js ''clarify'' then validate_clarify input
          else if kind = js ''explain'' then validate_explain input
          else if kind = js ''request_hint'' then validate_hint input
          else if kind = js ''session_control'' then validate_control input
          else if kind = js ''cannot_comply'' then validate_cannot input
          else Inl UnknownKind
      | _ \<Rightarrow> Inl MissingField))"

section \<open>Decisions of the initial guide's model\<close>

record intent_slot =
  sl_slotId :: js
  sl_valueId :: js

datatype model_decision =
    Decided guide_decision
  | SemanticExecute (sx_affordanceId: js) (sx_slots: "intent_slot list") (sx_intentSummary: js)
      (sx_confidence: rat)

definition semanticExecuteKeys :: "string list" where
  "semanticExecuteKeys = [''kind'', ''affordanceId'', ''slots'', ''intentSummary'', ''confidence'']"

definition boundedIdentifier :: "jsval \<Rightarrow> decision_error + js" where
  "boundedIdentifier v =
     (case v of
        JStr s \<Rightarrow> if trim s = [] \<or> 160 < length s \<or> has_control s then Inl InvalidField else Inr s
      | _ \<Rightarrow> Inl InvalidField)"

fun read_slots :: "js list \<Rightarrow> jsval list \<Rightarrow> decision_error + intent_slot list" where
  \<comment> \<open>\<open>value.map\<close> with the set of slot ids seen so far\<close>
  "read_slots seen [] = Inr []"
| "read_slots seen (slot # slots) =
     (if \<not> is_object slot \<or> length (own_keys slot) \<noteq> 2 \<or> \<not> has_own slot ''slotId'' \<or>
         \<not> has_own slot ''valueId''
      then Inl InvalidField
      else
        bindE (boundedIdentifier (getProp slot ''slotId'')) (\<lambda>slotId.
        bindE (boundedIdentifier (getProp slot ''valueId'')) (\<lambda>valueId.
        if slotId \<in> set seen then Inl InvalidField
        else bindE (read_slots (slotId # seen) slots) (\<lambda>rest.
          Inr (\<lparr>sl_slotId = slotId, sl_valueId = valueId\<rparr> # rest)))))"

definition validateIntentSlots :: "jsval \<Rightarrow> decision_error + intent_slot list" where
  "validateIntentSlots v =
     (case v of
        JArr slots \<Rightarrow> if 8 < length slots then Inl InvalidField else read_slots [] slots
      | _ \<Rightarrow> Inl InvalidField)"

definition validateInitialGuideModelDecision :: "jsval \<Rightarrow> decision_error + model_decision" where
  "validateInitialGuideModelDecision input =
     (if \<not> is_object input \<or> getProp input ''kind'' \<noteq> JStr (js ''execute'') \<or> \<not> has_own input ''affordanceId''
      then bindE (validateGuideDecision input) (\<lambda>d. Inr (Decided d))
      else if length (own_keys input) \<noteq> length semanticExecuteKeys \<or>
              list_ex (\<lambda>k. k \<notin> js ` set semanticExecuteKeys) (own_keys input)
      then Inl UnknownField
      else
        bindE (validateGuideDecision (JObj [(js ''kind'', JStr (js ''execute'')), (js ''command'', JStr (js ''look'')),
            (js ''intentSummary'', getProp input ''intentSummary''), (js ''confidence'', getProp input ''confidence'')])) (\<lambda>d.
        (case d of
           DExecute _ intentSummary _ confidence _ _ \<Rightarrow>
             bindE (boundedIdentifier (getProp input ''affordanceId'')) (\<lambda>affordanceId.
             bindE (validateIntentSlots (getProp input ''slots'')) (\<lambda>slots.
             Inr (SemanticExecute affordanceId slots intentSummary confidence)))
         | _ \<Rightarrow> Inl InvalidField)))"

section \<open>The string unions of a decision\<close>

fun basis_name :: "explain_basis \<Rightarrow> string" where
  "basis_name CommandHelp = ''command-help''"
| "basis_name ObservedMemory = ''observed-memory''"
| "basis_name GameExplanation = ''game-explanation''"

fun control_name :: "meta_control \<Rightarrow> string" where
  "control_name StopSpeaking = ''stop-speaking''"
| "control_name RepeatLast = ''repeat-last''"
| "control_name PauseSession = ''pause-session''"
| "control_name ResumeSession = ''resume-session''"
| "control_name SpeechSlower = ''speech-slower''"
| "control_name SpeechFaster = ''speech-faster''"
| "control_name ShowTranscript = ''show-transcript''"
| "control_name HideTranscript = ''hide-transcript''"

fun reason_name :: "cannot_reason \<Rightarrow> string" where
  "reason_name NotObserved = ''not-observed''"
| "reason_name Unsupported = ''unsupported''"
| "reason_name Unsafe = ''unsafe''"
| "reason_name ProviderLimitation = ''provider-limitation''"

end
