(* ===== verification/Decision_Properties.thy ===== *)
theory Decision_Properties
  imports Decision_Validator
begin

text \<open>
  What a validated guide decision is: well-formed decisions, their rendering as a value, and the
  claims that the validator accepts exactly those.
\<close>

section \<open>Well-formed decisions\<close>

definition display_text :: "nat \<Rightarrow> js \<Rightarrow> bool" where
  "display_text maximum s \<longleftrightarrow> trim s \<noteq> [] \<and> length s \<le> maximum \<and> \<not> has_control s"

definition optional_text :: "js option \<Rightarrow> bool" where
  "optional_text x \<longleftrightarrow> (case x of None \<Rightarrow> True | Some s \<Rightarrow> display_text 1000 s)"

fun decision_wf :: "guide_decision \<Rightarrow> bool" where
  "decision_wf (DExecute command summary effect confidence ack remaining) \<longleftrightarrow>
     display_text 160 command \<and> display_text 1000 summary \<and> 0 \<le> confidence \<and> confidence \<le> 1 \<and>
     optional_text effect \<and> optional_text ack \<and> optional_text remaining"
| "decision_wf (DClarify question choices ambiguity) \<longleftrightarrow>
     display_text 1000 question \<and> display_text 1000 ambiguity \<and>
     (case choices of None \<Rightarrow> True
      | Some cs \<Rightarrow> (length cs = 2 \<or> length cs = 3) \<and> list_all (display_text 160) cs)"
| "decision_wf (DExplain resp basis sourceIds) \<longleftrightarrow>
     display_text 4000 resp \<and> length sourceIds \<le> 32 \<and> list_all (display_text 160) sourceIds"
| "decision_wf (DRequestHint puzzle level) \<longleftrightarrow> display_text 1000 puzzle \<and> 1 \<le> level \<and> level \<le> 4"
| "decision_wf (DSessionControl control) \<longleftrightarrow> True"
| "decision_wf (DCannotComply resp reason) \<longleftrightarrow> display_text 1000 resp"

definition opt_value :: "js option \<Rightarrow> jsval" where
  "opt_value x = (case x of None \<Rightarrow> JUndef | Some s \<Rightarrow> JStr s)"

definition opt_list :: "js list option \<Rightarrow> jsval" where
  "opt_list x = (case x of None \<Rightarrow> JUndef | Some cs \<Rightarrow> JArr (map JStr cs))"

text \<open>The properties of a decision's value, an absent optional one reading as \<open>undefined\<close>.\<close>

fun decision_props :: "guide_decision \<Rightarrow> (string \<times> jsval) list" where
  "decision_props (DExecute command summary effect confidence ack remaining) =
     [(''kind'', JStr (js ''execute'')), (''command'', JStr command), (''intentSummary'', JStr summary),
      (''confidence'', JNum (Fin confidence)), (''expectedEffect'', opt_value effect),
      (''acknowledgement'', opt_value ack), (''remainingGoal'', opt_value remaining)]"
| "decision_props (DClarify question choices ambiguity) =
     [(''kind'', JStr (js ''clarify'')), (''question'', JStr question), (''ambiguity'', JStr ambiguity),
      (''choices'', opt_list choices)]"
| "decision_props (DExplain resp basis sourceIds) =
     [(''kind'', JStr (js ''explain'')), (''response'', JStr resp), (''basis'', JStr (js (basis_name basis))),
      (''sourceIds'', JArr (map JStr sourceIds))]"
| "decision_props (DRequestHint puzzle level) =
     [(''kind'', JStr (js ''request_hint'')), (''puzzleContext'', JStr puzzle), (''requestedLevel'', jnat level)]"
| "decision_props (DSessionControl control) =
     [(''kind'', JStr (js ''session_control'')), (''control'', JStr (js (control_name control)))]"
| "decision_props (DCannotComply resp reason) =
     [(''kind'', JStr (js ''cannot_comply'')), (''response'', JStr resp), (''reason'', JStr (js (reason_name reason)))]"

definition states :: "jsval \<Rightarrow> guide_decision \<Rightarrow> bool" where \<comment> \<open>the object says exactly this decision\<close>
  "states v d \<longleftrightarrow>
     is_object v \<and> (\<forall>(k, x) \<in> set (decision_props d). getProp v k = x) \<and>
     set (own_keys v) \<subseteq> js ` fst ` set (decision_props d)"

definition decision_js :: "guide_decision \<Rightarrow> jsval" where
  "decision_js d = JObj (map (\<lambda>(k, x). (js k, x)) (filter (\<lambda>(k, x). x \<noteq> JUndef) (decision_props d)))"

section \<open>When the checks succeed\<close>

lemma check_record_iff [result_simps]: "check_record v = Inr u \<longleftrightarrow> is_object v"
  by (simp add: check_record_def result_simps)

lemma boundedString_iff [result_simps]: "boundedString n v = Inr s \<longleftrightarrow> v = JStr s \<and> display_text n s"
  by (auto simp: boundedString_def display_text_def split: jsval.splits)

lemma boundedIdentifier_iff [result_simps]: "boundedIdentifier v = Inr s \<longleftrightarrow> v = JStr s \<and> display_text 160 s"
  by (auto simp: boundedIdentifier_def display_text_def split: jsval.splits)

lemma optionalString_iff [result_simps]:
  "optionalString v = Inr x \<longleftrightarrow> v = (case x of None \<Rightarrow> JUndef | Some s \<Rightarrow> JStr s) \<and> optional_text x"
  by (auto simp: optionalString_def optional_text_def result_simps split: option.splits)

lemma mapE_boundedString_iff: "mapE (boundedString n) vs = Inr xs \<longleftrightarrow> vs = map JStr xs \<and> list_all (display_text n) xs"
proof -
  have "list_all2 (\<lambda>v s. v = JStr s \<and> display_text n s) vs xs \<longleftrightarrow> vs = map JStr xs \<and> list_all (display_text n) xs"
    by (induction xs arbitrary: vs) (auto simp: list_all2_Cons2)
  then show ?thesis by (simp add: mapE_Inr_iff boundedString_iff)
qed

lemma stringArray_iff [result_simps]:
  "stringArray v = Inr xs \<longleftrightarrow> v = JArr (map JStr xs) \<and> length xs \<le> 32 \<and> list_all (display_text 160) xs"
  by (auto simp: stringArray_def mapE_boundedString_iff split: jsval.splits)

lemma read_confidence_iff [result_simps]:
  "read_confidence v = Inr q \<longleftrightarrow> v = JNum (Fin q) \<and> 0 \<le> q \<and> q \<le> 1"
  by (auto simp: read_confidence_def split: jsval.splits jsnum.splits)

lemma read_choices_iff [result_simps]:
  "read_choices v = Inr x \<longleftrightarrow>
     (case x of None \<Rightarrow> v = JUndef
      | Some cs \<Rightarrow> v = JArr (map JStr cs) \<and> (length cs = 2 \<or> length cs = 3) \<and> list_all (display_text 160) cs)"
  by (auto simp: read_choices_def mapE_boundedString_iff bindE_Inr_iff split: jsval.splits option.splits)

lemma read_basis_iff [result_simps]: "read_name basis_names v = Inr b \<longleftrightarrow> v = JStr (js (basis_name b))"
  by (cases b) (auto simp: basis_names_def split: if_splits)

lemma read_control_iff [result_simps]: "read_name control_names v = Inr c \<longleftrightarrow> v = JStr (js (control_name c))"
  by (cases c) (auto simp: control_names_def split: if_splits)

lemma read_reason_iff [result_simps]: "read_name reason_names v = Inr r \<longleftrightarrow> v = JStr (js (reason_name r))"
  by (cases r) (auto simp: reason_names_def split: if_splits)

lemma read_level_iff [result_simps]: "read_level v = Inr n \<longleftrightarrow> v = jnat n \<and> 1 \<le> n \<and> n \<le> 4"
proof -
  have "1 \<le> n \<and> n \<le> 4 \<longleftrightarrow> n = 1 \<or> n = 2 \<or> n = 3 \<or> n = 4" by auto
  then show ?thesis by (auto simp: read_level_def)
qed

lemma exactKeys_iff:
  "exactKeys v required optional = Inr u \<longleftrightarrow>
     set (own_keys v) \<subseteq> js ` set (required @ optional) \<and> js ` set required \<subseteq> set (own_keys v)"
  by (auto simp: exactKeys_def list_ex_iff has_own_def)

lemmas validators = validate_execute_def validate_clarify_def validate_explain_def validate_hint_def
  validate_control_def validate_cannot_def

lemma getProp_own: "getProp v k \<noteq> JUndef \<Longrightarrow> js k \<in> set (own_keys v)"
proof (cases v)
  case (JObj ps)
  then show "getProp v k \<noteq> JUndef \<Longrightarrow> js k \<in> set (own_keys v)"
    by (auto split: option.splits dest!: map_of_SomeD) force
qed simp_all

lemma getProp_own_eq: "getProp v k = x \<Longrightarrow> x \<noteq> JUndef \<Longrightarrow> js k \<in> set (own_keys v)"
  using getProp_own by blast

lemma opt_value_iff: "v = (case x of None \<Rightarrow> JUndef | Some s \<Rightarrow> JStr s) \<longleftrightarrow> v = opt_value x"
  by (simp add: opt_value_def)

lemma validate_by_kind:
  "validateGuideDecision v = Inr d \<longleftrightarrow>
     is_object v \<and>
     (getProp v ''kind'' = JStr (js ''execute'') \<and> validate_execute v = Inr d \<or>
      getProp v ''kind'' = JStr (js ''clarify'') \<and> validate_clarify v = Inr d \<or>
      getProp v ''kind'' = JStr (js ''explain'') \<and> validate_explain v = Inr d \<or>
      getProp v ''kind'' = JStr (js ''request_hint'') \<and> validate_hint v = Inr d \<or>
      getProp v ''kind'' = JStr (js ''session_control'') \<and> validate_control v = Inr d \<or>
      getProp v ''kind'' = JStr (js ''cannot_comply'') \<and> validate_cannot v = Inr d)"
proof (cases "getProp v ''kind''")
  case (JStr k)
  then show ?thesis by (auto simp: validateGuideDecision_def check_record_def result_simps)
qed (simp_all add: validateGuideDecision_def check_record_def result_simps)

text \<open>The keys an object may have are those of the decision, and the required ones it has because
  their values are not \<open>undefined\<close>.\<close>

lemma exactKeys_props:
  assumes "set (own_keys v) \<subseteq> js ` set (required @ optional) \<longleftrightarrow> set (own_keys v) \<subseteq> js ` fst ` set props"
    and "\<forall>k \<in> set required. getProp v k \<noteq> JUndef"
  shows "exactKeys v required optional = Inr u \<longleftrightarrow> set (own_keys v) \<subseteq> js ` fst ` set props"
  using assms getProp_own by (auto simp: exactKeys_iff)

lemma validate_execute_iff:
  "is_object v \<and> getProp v ''kind'' = JStr (js ''execute'') \<and> validate_execute v = Inr (DExecute c s e q a r) \<longleftrightarrow>
     states v (DExecute c s e q a r) \<and> decision_wf (DExecute c s e q a r)"
proof (cases "\<forall>(k, x) \<in> set (decision_props (DExecute c s e q a r)). getProp v k = x")
  case True
  then have "exactKeys v [''kind'', ''command'', ''intentSummary'', ''confidence'']
      [''expectedEffect'', ''acknowledgement'', ''remainingGoal''] = Inr () \<longleftrightarrow>
      set (own_keys v) \<subseteq> js ` fst ` set (decision_props (DExecute c s e q a r))"
    by (intro exactKeys_props) auto
  with True show ?thesis
    by (auto simp: validate_execute_def states_def result_simps opt_value_def)
next
  case False
  then show ?thesis
    by (clarsimp simp: validate_execute_def states_def result_simps opt_value_def) blast
qed

lemma validate_rest_iff:
  "is_object v \<and> getProp v ''kind'' = JStr (js ''clarify'') \<and> validate_clarify v = Inr (DClarify q cs a) \<longleftrightarrow>
     states v (DClarify q cs a) \<and> decision_wf (DClarify q cs a)"
  "is_object v \<and> getProp v ''kind'' = JStr (js ''explain'') \<and> validate_explain v = Inr (DExplain t b ids) \<longleftrightarrow>
     states v (DExplain t b ids) \<and> decision_wf (DExplain t b ids)"
  "is_object v \<and> getProp v ''kind'' = JStr (js ''request_hint'') \<and> validate_hint v = Inr (DRequestHint t n) \<longleftrightarrow>
     states v (DRequestHint t n) \<and> decision_wf (DRequestHint t n)"
  "is_object v \<and> getProp v ''kind'' = JStr (js ''session_control'') \<and> validate_control v = Inr (DSessionControl c) \<longleftrightarrow>
     states v (DSessionControl c) \<and> decision_wf (DSessionControl c)"
  "is_object v \<and> getProp v ''kind'' = JStr (js ''cannot_comply'') \<and> validate_cannot v = Inr (DCannotComply t r) \<longleftrightarrow>
     states v (DCannotComply t r) \<and> decision_wf (DCannotComply t r)"
  by (auto simp: validators states_def result_simps exactKeys_iff opt_list_def dest: getProp_own_eq split: option.splits)

lemma validate_shape:
  "validate_execute v = Inr d \<Longrightarrow> is_DExecute d" "validate_clarify v = Inr d \<Longrightarrow> is_DClarify d"
  "validate_explain v = Inr d \<Longrightarrow> is_DExplain d" "validate_hint v = Inr d \<Longrightarrow> is_DRequestHint d"
  "validate_control v = Inr d \<Longrightarrow> is_DSessionControl d" "validate_cannot v = Inr d \<Longrightarrow> is_DCannotComply d"
  by (auto simp: validators bindE_Inr_iff)

lemma validate_iff: "validateGuideDecision v = Inr d \<longleftrightarrow> states v d \<and> decision_wf d"
proof (cases d)
  case (DExecute c s e q a r)
  show ?thesis
    unfolding validate_by_kind DExecute validate_execute_iff [symmetric] using validate_shape [of v "DExecute c s e q a r"] by auto
next
  case (DClarify q cs a)
  show ?thesis
    unfolding validate_by_kind DClarify validate_rest_iff(1) [symmetric] using validate_shape [of v "DClarify q cs a"] by auto
next
  case (DExplain t b ids)
  show ?thesis
    unfolding validate_by_kind DExplain validate_rest_iff(2) [symmetric] using validate_shape [of v "DExplain t b ids"] by auto
next
  case (DRequestHint t n)
  show ?thesis
    unfolding validate_by_kind DRequestHint validate_rest_iff(3) [symmetric] using validate_shape [of v "DRequestHint t n"] by auto
next
  case (DSessionControl c)
  show ?thesis
    unfolding validate_by_kind DSessionControl validate_rest_iff(4) [symmetric] using validate_shape [of v "DSessionControl c"] by auto
next
  case (DCannotComply t r)
  show ?thesis
    unfolding validate_by_kind DCannotComply validate_rest_iff(5) [symmetric] using validate_shape [of v "DCannotComply t r"] by auto
qed

lemma states_decision_js: "states (decision_js d) d"
  by (cases d) (auto simp: states_def decision_js_def opt_value_def opt_list_def split: option.splits)

section \<open>Semantic intents\<close>

lemma read_slots_iff:
  "read_slots seen vs = Inr xs \<Longrightarrow>
     length xs = length vs \<and> distinct (map sl_slotId xs) \<and> set (map sl_slotId xs) \<inter> set seen = {} \<and>
     (\<forall>x \<in> set xs. display_text 160 (sl_slotId x) \<and> display_text 160 (sl_valueId x))"
proof (induction vs arbitrary: seen xs)
  case (Cons v vs)
  then obtain s w ys where *: "boundedIdentifier (getProp v ''slotId'') = Inr s" "boundedIdentifier (getProp v ''valueId'') = Inr w"
    "s \<notin> set seen" "read_slots (s # seen) vs = Inr ys" "xs = \<lparr>sl_slotId = s, sl_valueId = w\<rparr> # ys"
    by (auto simp: bindE_Inr_iff split: if_splits)
  from Cons.IH [OF *(4)] *(1,2,3,5) show ?case by (auto simp: boundedIdentifier_iff)
qed simp

fun model_wf :: "model_decision \<Rightarrow> bool" where
  "model_wf (Decided d) \<longleftrightarrow> decision_wf d"
| "model_wf (SemanticExecute affordance slots summary confidence) \<longleftrightarrow>
     display_text 160 affordance \<and> length slots \<le> 8 \<and> distinct (map sl_slotId slots) \<and>
     (\<forall>x \<in> set slots. display_text 160 (sl_slotId x) \<and> display_text 160 (sl_valueId x)) \<and>
     display_text 1000 summary \<and> 0 \<le> confidence \<and> confidence \<le> 1"

lemma validateIntentSlots_iff:
  "validateIntentSlots v = Inr xs \<Longrightarrow>
     length xs \<le> 8 \<and> distinct (map sl_slotId xs) \<and>
     (\<forall>x \<in> set xs. display_text 160 (sl_slotId x) \<and> display_text 160 (sl_valueId x))"
  by (cases v) (auto simp: validateIntentSlots_def dest!: read_slots_iff split: if_splits)

lemma validateInitial_cases:
  assumes "validateInitialGuideModelDecision v = Inr m"
  obtains d where "m = Decided d" "validateGuideDecision v = Inr d"
  | a xs c s e q k r where "m = SemanticExecute a xs s q" "getProp v ''kind'' = JStr (js ''execute'')"
      "length (own_keys v) = length semanticExecuteKeys" "set (own_keys v) \<subseteq> js ` set semanticExecuteKeys"
      "boundedIdentifier (getProp v ''affordanceId'') = Inr a" "validateIntentSlots (getProp v ''slots'') = Inr xs"
      "decision_wf (DExecute c s e q k r)"
proof (cases "is_object v \<and> getProp v ''kind'' = JStr (js ''execute'') \<and> has_own v ''affordanceId''")
  case True
  let ?w = "JObj [(js ''kind'', JStr (js ''execute'')), (js ''command'', JStr (js ''look'')),
            (js ''intentSummary'', getProp v ''intentSummary''), (js ''confidence'', getProp v ''confidence'')]"
  from True assms obtain d where d: "validateGuideDecision ?w = Inr d"
    and keys: "length (own_keys v) = length semanticExecuteKeys" "set (own_keys v) \<subseteq> js ` set semanticExecuteKeys"
    and rest: "(case d of
           DExecute _ intentSummary _ confidence _ _ \<Rightarrow>
             bindE (boundedIdentifier (getProp v ''affordanceId'')) (\<lambda>affordanceId.
             bindE (validateIntentSlots (getProp v ''slots'')) (\<lambda>slots.
             Inr (SemanticExecute affordanceId slots intentSummary confidence)))
         | _ \<Rightarrow> Inl InvalidField) = Inr m"
    unfolding validateInitialGuideModelDecision_def by (auto simp: bindE_Inr_iff list_ex_iff split: if_splits)
  from rest obtain c s e q k r where "d = DExecute c s e q k r" by (cases d) auto
  with d keys rest True show thesis
    by (auto simp: bindE_Inr_iff validate_iff intro!: that(2))
next
  case False
  with assms show thesis
    by (auto simp: validateInitialGuideModelDecision_def bindE_Inr_iff intro!: that(1))
qed

lemma validateInitial_wf: "validateInitialGuideModelDecision v = Inr m \<Longrightarrow> model_wf m"
  by (erule validateInitial_cases) (auto simp: validate_iff boundedIdentifier_iff dest!: validateIntentSlots_iff)

lemma validateInitial_keys:
  assumes "validateInitialGuideModelDecision v = Inr (SemanticExecute a xs s q)"
  shows "set (own_keys v) = js ` set semanticExecuteKeys"
  using assms
proof (cases rule: validateInitial_cases)
  case (2 a xs c s e q k r)
  then have "distinct (own_keys v)" by (cases v) auto
  with 2 have "card (set (own_keys v)) = card (js ` set semanticExecuteKeys)"
    by (simp add: distinct_card semanticExecuteKeys_def)
  with 2 show ?thesis by (simp add: card_subset_eq)
qed simp

section \<open>Claims\<close>

text \<open>C22. The validator returns a decision exactly for the objects that state it: every property has
  the decision's value, there is no other key, and every text, list and number is within its bounds.
  In particular each well-formed decision, written as an object, validates to itself, and no other does.\<close>

theorem decisions_are_validated_exactly:
  "(validateGuideDecision v = Inr d \<longleftrightarrow> states v d \<and> decision_wf d) \<and>
   (validateGuideDecision (decision_js d) = Inr d \<longleftrightarrow> decision_wf d)"
  using validate_iff states_decision_js by blast

text \<open>A provider answer the initial guide accepts is well formed, and one that selects an
  affordance has no key beyond its five, so it never carries a command text of the provider's own;
  its slots are at most eight with distinct ids.\<close>

theorem semantic_decisions_carry_no_command:
  assumes "validateInitialGuideModelDecision v = Inr m"
  shows "model_wf m \<and> (m = SemanticExecute a slots s q \<longrightarrow> getProp v ''command'' = JUndef \<and> \<not> has_own v ''command'')"
proof -
  have "js ''command'' \<notin> set (own_keys v)" if "m = SemanticExecute a slots s q"
    using validateInitial_keys [of v a slots s q] assms that by (simp add: semanticExecuteKeys_def)
  with validateInitial_wf [OF assms] getProp_own show ?thesis by (auto simp: has_own_def)
qed

theorem semantic_decisions_carry_no_command_witness:
  "\<exists>v m. validateInitialGuideModelDecision v = Inr m \<and> m = SemanticExecute (js ''open'') [] (js ''try'') 1 \<and>
     getProp v ''command'' = JUndef"
proof -
  let ?v = "JObj [(js ''kind'', JStr (js ''execute'')), (js ''affordanceId'', JStr (js ''open'')), (js ''slots'', JArr []),
      (js ''intentSummary'', JStr (js ''try'')), (js ''confidence'', JNum (Fin 1))]"
  have texts: "display_text 160 (js ''open'')" "display_text 1000 (js ''try'')" "display_text 160 (js ''look'')"
    by (simp_all add: display_text_def trim_def is_space_def has_control_def is_control_def js_def)
  have look: "validateGuideDecision (JObj [(js ''kind'', JStr (js ''execute'')), (js ''command'', JStr (js ''look'')),
      (js ''intentSummary'', JStr (js ''try'')), (js ''confidence'', JNum (Fin 1))]) =
      Inr (DExecute (js ''look'') (js ''try'') None 1 None None)"
    unfolding validate_iff using texts by (auto simp: states_def opt_value_def optional_text_def)
  have v: "validateInitialGuideModelDecision ?v = Inr (SemanticExecute (js ''open'') [] (js ''try'') 1)"
    using texts look by (simp add: validateInitialGuideModelDecision_def has_own_def semanticExecuteKeys_def validateIntentSlots_def
        boundedIdentifier_def display_text_def)
  from semantic_decisions_carry_no_command [OF v] v show ?thesis by blast
qed

end
