(* ===== verification/Turn_Text.thy ===== *)
theory Turn_Text
  imports Text "HOL-Library.Sublist"
begin

text \<open>
  The text functions of \<open>packages/session/src/semantic-turn-coordinator.ts\<close>: splitting a text
  into the segments the narrator speaks, and the line check that keeps an opening narration an
  excerpt of the engine's output.
\<close>

section \<open>Narration segments\<close>

definition LINE_FEED :: code_unit where "LINE_FEED = 0x0A"
definition CARRIAGE_RETURN :: code_unit where "CARRIAGE_RETURN = 0x0D"

fun split_lines :: "js \<Rightarrow> js list" where \<comment> \<open>\<open>text.split(/\r?\n/u)\<close>\<close>
  "split_lines [] = [[]]"
| "split_lines (c # cs) =
     (if c = LINE_FEED then [] # split_lines cs
      else if c = CARRIAGE_RETURN \<and> cs \<noteq> [] \<and> hd cs = LINE_FEED then [] # split_lines (tl cs)
      else (case split_lines cs of [] \<Rightarrow> [[c]] | l # ls \<Rightarrow> (c # l) # ls))"

definition isSentencePunctuation :: "code_unit \<Rightarrow> bool" where
  "isSentencePunctuation c \<longleftrightarrow> c = 0x2E \<or> c = 0x21 \<or> c = 0x3F"

fun collapse_spaces :: "js \<Rightarrow> js" where \<comment> \<open>\<open>replace(/\s+/gu, " ")\<close>\<close>
  "collapse_spaces [] = []"
| "collapse_spaces (c # cs) =
     (if is_space c then 0x20 # collapse_spaces (dropWhile is_space cs) else c # collapse_spaces cs)"

definition appendNarrationSegment :: "js list \<Rightarrow> js \<Rightarrow> js list" where
  "appendNarrationSegment segments v =
     (let segment = collapse_spaces (trim v) in
      if 0 < length segment \<and> list_ex (\<lambda>c. \<not> isSentencePunctuation c) segment
      then segments @ [segment] else segments)"

definition slice :: "js \<Rightarrow> nat \<Rightarrow> nat \<Rightarrow> js" where
  "slice v from until = take (until - from) (drop from v)"

function skip_punctuation :: "js \<Rightarrow> nat \<Rightarrow> nat" where
  "skip_punctuation v i =
     (if i < length v \<and> isSentencePunctuation (v ! i) then skip_punctuation v (i + 1) else i)"
  by pat_completeness auto
termination by (relation "measure (\<lambda>(v, i). length v - i)") auto

declare skip_punctuation.simps [simp del]

lemma skip_punctuation_bounds: "i \<le> skip_punctuation v i" "i \<le> length v \<Longrightarrow> skip_punctuation v i \<le> length v"
proof -
  show "i \<le> skip_punctuation v i"
    by (induction v i rule: skip_punctuation.induct) (subst skip_punctuation.simps, auto)
  show "i \<le> length v \<Longrightarrow> skip_punctuation v i \<le> length v"
    by (induction v i rule: skip_punctuation.induct) (subst skip_punctuation.simps, auto)
qed

function segment_loop :: "js \<Rightarrow> nat \<Rightarrow> nat \<Rightarrow> js list \<Rightarrow> js list" where
  "segment_loop v segmentStart index segments =
     (if index < length v then
        if \<not> isSentencePunctuation (v ! index) then segment_loop v segmentStart (index + 1) segments
        else
          let punctuationEnd = skip_punctuation v (index + 1) in
          if punctuationEnd = length v \<or> is_space (v ! punctuationEnd)
          then segment_loop v punctuationEnd punctuationEnd
                 (appendNarrationSegment segments (slice v segmentStart punctuationEnd))
          else segment_loop v segmentStart punctuationEnd segments
      else appendNarrationSegment segments (slice v segmentStart (length v)))"
  by pat_completeness auto
termination
proof (relation "measure (\<lambda>(v, segmentStart, index, segments). length v - index)", goal_cases)
  case (3 v segmentStart index segments punctuationEnd)
  then show ?case using skip_punctuation_bounds(1) [of "index + 1" v] by auto
next
  case (4 v segmentStart index segments punctuationEnd)
  then show ?case using skip_punctuation_bounds(1) [of "index + 1" v] by auto
qed auto

declare segment_loop.simps [simp del]

definition segmentNarrationLine :: "js \<Rightarrow> js list" where
  "segmentNarrationLine line = segment_loop (trim line) 0 0 []"

definition narrationSegments :: "js \<Rightarrow> js list" where
  "narrationSegments content = concat (map segmentNarrationLine (split_lines content))"

section \<open>Exact-line excerpts\<close>

definition split_feed :: "js \<Rightarrow> js list" where \<comment> \<open>\<open>value.split("\n")\<close>\<close>
  "split_feed s = foldr (\<lambda>c ls. if c = LINE_FEED then [] # ls else (c # hd ls) # tl ls) s [[]]"

fun lines_in_order :: "js list \<Rightarrow> js list \<Rightarrow> bool" where
  \<comment> \<open>the source lines from \<open>sourceIndex\<close> on, and the candidate lines still to be found\<close>
  "lines_in_order source [] = True"
| "lines_in_order source (line # candidate) =
     (case dropWhile (\<lambda>l. l \<noteq> line) source of
        [] \<Rightarrow> False
      | _ # rest \<Rightarrow> lines_in_order rest candidate)"

definition isOrderedExactLineSubsequence :: "js \<Rightarrow> js \<Rightarrow> bool" where
  "isOrderedExactLineSubsequence source candidate = lines_in_order (split_feed source) (split_feed candidate)"

definition hasUnsafeNarrationControl :: "js \<Rightarrow> bool" where
  "hasUnsafeNarrationControl v =
     list_ex (\<lambda>c. c \<noteq> 0x09 \<and> c \<noteq> LINE_FEED \<and> c \<noteq> CARRIAGE_RETURN \<and> is_control c) v"

section \<open>The segments speak the text\<close>

text \<open>What a listener hears of a text: its code units other than white space and the marks that end
  a sentence.\<close>

definition audible :: "js \<Rightarrow> js" where
  "audible s = filter (\<lambda>c. \<not> is_space c \<and> \<not> isSentencePunctuation c) s"

definition spoken_form :: "js \<Rightarrow> bool" where
  "spoken_form s \<longleftrightarrow> s \<noteq> [] \<and> trimmed s \<and> (\<exists>c \<in> set s. \<not> isSentencePunctuation c) \<and>
     (\<forall>c \<in> set s. is_space c \<longrightarrow> c = 0x20)"

lemma audible_append [simp]: "audible (xs @ ys) = audible xs @ audible ys"
  by (simp add: audible_def)

lemma audible_Nil [simp]: "audible [] = []"
  by (simp add: audible_def)

lemma audible_Cons: "audible (c # s) = (if is_space c \<or> isSentencePunctuation c then audible s else c # audible s)"
  by (simp add: audible_def)

lemma audible_concat: "audible (concat xss) = concat (map audible xss)"
  by (induction xss) (simp_all add: audible_def)

lemma audible_dropWhile [simp]: "audible (dropWhile is_space s) = audible s"
  by (induction s) (auto simp: audible_Cons)

lemma audible_rev: "audible (rev s) = rev (audible s)"
  by (simp add: audible_def rev_filter)

lemma audible_trim [simp]: "audible (trim s) = audible s"
  by (simp add: trim_def audible_rev)

lemma is_space_20 [simp]: "is_space 0x20"
  by (simp add: is_space_def)

lemma audible_collapse [simp]: "audible (collapse_spaces s) = audible s"
  by (induction s rule: collapse_spaces.induct) (auto simp: audible_Cons)

lemma append_segment_audible: "audible (concat (appendNarrationSegment segments v)) = audible (concat segments) @ audible v"
proof -
  have "audible v = []" if "\<not> list_ex (\<lambda>c. \<not> isSentencePunctuation c) (collapse_spaces (trim v)) \<or> collapse_spaces (trim v) = []"
  proof -
    have "audible (collapse_spaces (trim v)) = []"
      using that by (auto simp: audible_def list_ex_iff filter_empty_conv)
    then show ?thesis by simp
  qed
  then show ?thesis by (auto simp: appendNarrationSegment_def Let_def)
qed

lemma slice_split: "from \<le> mid \<Longrightarrow> mid \<le> until \<Longrightarrow> slice v from mid @ slice v mid until = slice v from until"
proof -
  assume "from \<le> mid" "mid \<le> until"
  then have *: "until - from = (mid - from) + (until - mid)" "drop (mid - from) (drop from v) = drop mid v" by simp_all
  show ?thesis unfolding slice_def *(1) take_add *(2) ..
qed

lemma segment_loop_audible:
  "segmentStart \<le> index \<Longrightarrow> index \<le> length v \<Longrightarrow>
     audible (concat (segment_loop v segmentStart index segments)) =
       audible (concat segments) @ audible (slice v segmentStart (length v))"
proof (induction v segmentStart index segments rule: segment_loop.induct)
  case (1 v segmentStart index segments)
  let ?p = "skip_punctuation v (index + 1)"
  have p: "index < length v \<Longrightarrow> index < ?p \<and> ?p \<le> length v"
    using skip_punctuation_bounds [of "index + 1" v] by simp
  show ?case
  proof (cases "index < length v \<and> isSentencePunctuation (v ! index) \<and> (?p = length v \<or> is_space (v ! ?p))")
    case True
    then have "segment_loop v segmentStart index segments =
        segment_loop v ?p ?p (appendNarrationSegment segments (slice v segmentStart ?p))"
      by (subst segment_loop.simps) (simp add: Let_def)
    moreover have "slice v segmentStart ?p @ slice v ?p (length v) = slice v segmentStart (length v)"
      using p True "1.prems" by (intro slice_split) auto
    ultimately show ?thesis
      using 1(2) [of ?p] True p by (auto simp: append_segment_audible simp flip: audible_append)
  next
    case False
    then show ?thesis
      using 1 p by (subst segment_loop.simps) (auto simp: Let_def append_segment_audible)
  qed
qed

lemma split_lines_nonempty [simp]: "split_lines s \<noteq> []"
  by (induction s rule: split_lines.induct) (auto split: list.splits)

lemma feed_spaces [simp]: "is_space LINE_FEED" "is_space CARRIAGE_RETURN"
  by (simp_all add: is_space_def LINE_FEED_def CARRIAGE_RETURN_def)

lemma split_lines_audible: "audible (concat (split_lines s)) = audible s"
proof (induction s rule: split_lines.induct)
  case (2 c cs)
  show ?case
  proof (cases "c = CARRIAGE_RETURN \<and> cs \<noteq> [] \<and> hd cs = LINE_FEED")
    case True
    then have "audible cs = audible (tl cs)" by (cases cs) (auto simp: audible_Cons)
    with True 2 show ?thesis by (auto simp: audible_Cons)
  next
    case False
    with 2 show ?thesis by (auto simp: audible_Cons split: list.splits)
  qed
qed simp

lemma collapse_spaces_set: "c \<in> set (collapse_spaces s) \<Longrightarrow> is_space c \<Longrightarrow> c = 0x20"
  by (induction s rule: collapse_spaces.induct) (auto split: if_splits)

lemma collapse_spaces_Nil [simp]: "collapse_spaces s = [] \<longleftrightarrow> s = []"
  by (cases s) auto

lemma hd_collapse_spaces: "s \<noteq> [] \<Longrightarrow> \<not> is_space (hd s) \<Longrightarrow> hd (collapse_spaces s) = hd s"
  by (cases s) auto

lemma last_collapse_spaces: "s \<noteq> [] \<Longrightarrow> \<not> is_space (last s) \<Longrightarrow> last (collapse_spaces s) = last s"
proof (induction s rule: collapse_spaces.induct)
  case (2 c cs)
  show ?case
  proof (cases "is_space c")
    case True
    with 2 have cs: "cs \<noteq> []" "\<not> is_space (last cs)" by (auto split: if_splits)
    then have "dropWhile is_space cs \<noteq> []" by (auto simp: dropWhile_eq_Nil_conv)
    moreover have "last (dropWhile is_space cs) = last cs" using cs by (simp add: last_dropWhile_not)
    ultimately show ?thesis using 2 True cs by (auto simp: Ball_def)
  next
    case False
    with 2 show ?thesis by auto
  qed
qed simp

lemma trimmed_collapse_spaces: "trimmed s \<Longrightarrow> trimmed (collapse_spaces s)"
  by (auto simp: trimmed_def hd_collapse_spaces last_collapse_spaces)

lemma append_segment_form:
  "\<forall>x \<in> set segments. spoken_form x \<Longrightarrow> x \<in> set (appendNarrationSegment segments v) \<Longrightarrow> spoken_form x"
  using trimmed_collapse_spaces [OF trimmed_trim [of v]] collapse_spaces_set [of _ "trim v"]
  by (auto simp: appendNarrationSegment_def Let_def spoken_form_def list_ex_iff split: if_splits)

lemma segment_loop_form:
  "\<forall>x \<in> set segments. spoken_form x \<Longrightarrow> x \<in> set (segment_loop v segmentStart index segments) \<Longrightarrow> spoken_form x"
proof (induction v segmentStart index segments rule: segment_loop.induct)
  case (1 v segmentStart index segments)
  note step = 1(5)
  have new: "\<forall>x \<in> set (appendNarrationSegment segments w). spoken_form x" for w
    using append_segment_form [OF 1(4)] by blast
  show ?case
    using step 1(1) [OF _ _ 1(4)] 1(2) [OF _ _ refl _ new] 1(3) [OF _ _ refl _ 1(4)] new
    by (subst (asm) segment_loop.simps) (auto simp: Let_def split: if_splits)
qed

lemma narrationSegments_audible: "audible (concat (narrationSegments s)) = audible s"
proof -
  have "audible (concat (segmentNarrationLine l)) = audible l" for l
    using segment_loop_audible [of 0 0 "trim l" "[]"] by (simp add: segmentNarrationLine_def slice_def)
  then have "audible (concat (concat (map segmentNarrationLine ls))) = audible (concat ls)" for ls
    by (induction ls) simp_all
  then show ?thesis by (simp add: narrationSegments_def split_lines_audible)
qed

lemma narrationSegments_form: "x \<in> set (narrationSegments s) \<Longrightarrow> spoken_form x"
  by (auto simp: narrationSegments_def segmentNarrationLine_def dest!: segment_loop_form [rotated])

section \<open>Excerpts are subsequences of lines\<close>

fun join_feed :: "js list \<Rightarrow> js" where
  "join_feed [] = []"
| "join_feed [l] = l"
| "join_feed (l # ls) = l @ LINE_FEED # join_feed ls"

lemma split_feed_simps: "split_feed [] = [[]]"
  "split_feed (c # s) = (if c = LINE_FEED then [] # split_feed s else (c # hd (split_feed s)) # tl (split_feed s))"
  by (simp_all add: split_feed_def)

lemma split_feed_nonempty [simp]: "split_feed s \<noteq> []"
  by (cases s) (simp_all add: split_feed_simps)

lemma join_split_feed: "join_feed (split_feed s) = s"
proof (induction s)
  case (Cons c s)
  obtain l ls where "split_feed s = l # ls" by (cases "split_feed s") simp_all
  with Cons show ?case by (cases ls) (auto simp: split_feed_simps)
qed (simp add: split_feed_simps)

lemma lines_in_order_subseq: "lines_in_order source candidate \<longleftrightarrow> subseq candidate source"
proof (induction source arbitrary: candidate)
  case Nil
  show ?case by (cases candidate) auto
next
  case (Cons line source)
  show ?case
  proof (cases candidate)
    case (Cons l ls)
    with Cons.IH [of ls] Cons.IH [of "l # ls"] show ?thesis by auto
  qed simp
qed

end
