(* ===== verification/Turn_State.thy ===== *)
theory Turn_State
  imports Turn_Text Event_Sequence Decision_Validator "HOL-Library.AList" "HOL-Library.List_Lexorder"
begin

text \<open>
  The data, the input checks and the state of
  \<open>packages/session/src/semantic-turn-coordinator.ts\<close>.  \<open>co_published\<close> is what the \<open>publish\<close>
  callback has been given and \<open>co_calls\<close> what the ports have been asked, in order.
\<close>

section \<open>Data\<close>

definition MAX_COORDINATED_TURNS :: nat where "MAX_COORDINATED_TURNS = 128"
definition MAX_OPENING_OUTPUT_LENGTH :: nat where "MAX_OPENING_OUTPUT_LENGTH = 32768"
definition MAX_TURN_TRANSCRIPT_LENGTH :: nat where "MAX_TURN_TRANSCRIPT_LENGTH = 2000"
definition MAX_TURN_OBSERVED_OBJECTS :: nat where "MAX_TURN_OBSERVED_OBJECTS = 32"

datatype coordinator_error =
  CTypeError | CRangeError | ConflictError | CapacityError | BusyError | AbortError | EngineError | SequenceError

record narration_request =
  nq_narrationId :: js
  nq_role :: narration_role
  nq_text :: js
  nq_sourceEventId :: js
  nq_correlationId :: js

record turn_input =
  sb_interactionId :: js
  sb_transcript :: js
  sb_confidence :: "rat option"
  sb_observedObjects :: "js list"

record opening_input =
  op_interactionId :: js
  op_boot :: boot_result
  op_narrationText :: js

datatype preparation = PreparedReady | PreparedCancelled | PreparedFailed

record narration_result = \<comment> \<open>\<open>OpeningNarrationResult\<close>, \<open>RoleIntroductionResult\<close>\<close>
  nr_interactionId :: js
  nr_outcome :: preparation
  nr_events :: "semantic_event list"

type_synonym role_message = "narration_role \<times> js"

datatype turn_outcome =
  TurnCommitted | TurnClarified | TurnExplained | TurnRejected | TurnCancelled | TurnFailed | TurnUncertain

record turn_result =
  tr_interactionId :: js
  tr_outcome :: turn_outcome
  tr_events :: "semantic_event list"
  tr_engineResult :: "execute_result option"
  tr_checkpoint :: "engine_snapshot option"

record turn_recovery = \<comment> \<open>\<open>RecoveryRecord\<close>\<close>
  rv_request :: execute_request
  rv_requestedEventId :: js

datatype pending_intent = \<comment> \<open>\<open>PendingOpeningObjectIntent\<close>\<close>
    PendingAction js
  | PendingContentObject
  | PendingContextualChoice js "js \<times> js"
  | PendingReadExamine js "js \<times> js"

record stored_intent =
  si_intent :: pending_intent
  si_sourceInteractionId :: js

fun copyPendingOpeningObjectIntent :: "pending_intent \<Rightarrow> pending_intent" where
  "copyPendingOpeningObjectIntent (PendingAction a) = PendingAction a"
| "copyPendingOpeningObjectIntent PendingContentObject = PendingContentObject"
| "copyPendingOpeningObjectIntent (PendingContextualChoice v (a, b)) = PendingContextualChoice v (a, b)"
| "copyPendingOpeningObjectIntent (PendingReadExamine v (a, b)) = PendingReadExamine v (a, b)"

fun samePendingOpeningObjectIntent :: "pending_intent \<Rightarrow> pending_intent \<Rightarrow> bool" where
  "samePendingOpeningObjectIntent (PendingAction a) (PendingAction b) \<longleftrightarrow> a = b"
| "samePendingOpeningObjectIntent PendingContentObject PendingContentObject \<longleftrightarrow> True"
| "samePendingOpeningObjectIntent (PendingContextualChoice v (a, b)) (PendingContextualChoice w (c, d)) \<longleftrightarrow>
     v = w \<and> a = c \<and> b = d"
| "samePendingOpeningObjectIntent (PendingReadExamine v (a, b)) (PendingReadExamine w (c, d)) \<longleftrightarrow>
     v = w \<and> a = c \<and> b = d"
| "samePendingOpeningObjectIntent _ _ \<longleftrightarrow> False"

datatype guide_result = \<comment> \<open>\<open>InitialGuideResult\<close>\<close>
    GuideExecute (gx_command: js) guide_decision js \<comment> \<open>command, decision, groundingSourceId\<close>
  | GuideClarify js js "js list option" "pending_intent option" \<comment> \<open>question, ambiguity, choices\<close>
  | GuideExplain js explain_basis "js list"
  | GuideRejected js cannot_reason js \<comment> \<open>response, reason, cause\<close>
  | GuideProviderFailure js cannot_reason

fun guide_decision_of :: "guide_result \<Rightarrow> guide_decision" where
  "guide_decision_of (GuideExecute _ d _) = d"
| "guide_decision_of (GuideClarify question ambiguity choices _) = DClarify question choices ambiguity"
| "guide_decision_of (GuideExplain resp basis ids) = DExplain resp basis ids"
| "guide_decision_of (GuideRejected resp reason _) = DCannotComply resp reason"
| "guide_decision_of (GuideProviderFailure resp reason) = DCannotComply resp reason"

text \<open>
  \<open>JSON.stringify\<close> is injective on the strings, numbers and lists it is given here, so a
  fingerprint is the tuple it renders; the two failure prefixes cannot begin a JSON object.
\<close>

datatype fingerprint =
    TurnPrint js js "rat option" "js list"
  | TranscriptionFailurePrint js
  | AudioFailurePrint js

definition turn_fingerprint :: "turn_input \<Rightarrow> fingerprint" where
  "turn_fingerprint i =
     TurnPrint (sb_interactionId i) (sb_transcript i) (sb_confidence i) (sort (sb_observedObjects i))"

datatype stored_turn =
    PendingTurn fingerprint
  | CompleteTurn fingerprint turn_result
  | UncertainTurn fingerprint turn_result turn_recovery

fun stored_print :: "stored_turn \<Rightarrow> fingerprint" where
  "stored_print (PendingTurn p) = p"
| "stored_print (CompleteTurn p _) = p"
| "stored_print (UncertainTurn p _ _) = p"

datatype stored_opening =
    OpeningPending opening_input
  | OpeningRetryable opening_input js
  | OpeningComplete opening_input narration_result

fun opening_print :: "stored_opening \<Rightarrow> opening_input" where \<comment> \<open>\<open>openingFingerprint\<close> renders the whole input\<close>
  "opening_print (OpeningPending i) = i"
| "opening_print (OpeningRetryable i _) = i"
| "opening_print (OpeningComplete i _) = i"

datatype stored_introduction =
    IntroductionPending js "role_message list"
  | IntroductionComplete js "role_message list" narration_result

section \<open>Input validation\<close>

definition bounded_text :: "nat \<Rightarrow> jsval \<Rightarrow> coordinator_error + js" where
  \<comment> \<open>a non-empty string within the bound and without control characters\<close>
  "bounded_text maximum v =
     (case v of
        JStr s \<Rightarrow> if s = [] \<or> maximum < length s \<or> has_control s then Inl CTypeError else Inr s
      | _ \<Rightarrow> Inl CTypeError)"

definition read_transcript :: "jsval \<Rightarrow> coordinator_error + js" where
  "read_transcript v =
     (case v of
        JStr s \<Rightarrow>
          if trim s = [] \<or> MAX_TURN_TRANSCRIPT_LENGTH < length s \<or> has_control s then Inl CTypeError else Inr s
      | _ \<Rightarrow> Inl CTypeError)"

definition read_turn_confidence :: "jsval \<Rightarrow> coordinator_error + rat option" where
  "read_turn_confidence v =
     (case v of
        JUndef \<Rightarrow> Inr None
      | JNum (Fin q) \<Rightarrow> if q < 0 \<or> 1 < q then Inl CRangeError else Inr (Some q)
      | _ \<Rightarrow> Inl CRangeError)"

definition read_observed :: "jsval \<Rightarrow> coordinator_error + js list" where
  "read_observed v =
     (case v of
        JArr vs \<Rightarrow> if MAX_TURN_OBSERVED_OBJECTS < length vs then Inl CTypeError else mapE (bounded_text 80) vs
      | _ \<Rightarrow> Inl CTypeError)"

definition validateTurnInput :: "jsval \<Rightarrow> coordinator_error + turn_input" where
  "validateTurnInput v =
     bindE (bindE (readProp CTypeError v ''interactionId'') (bounded_text 160)) (\<lambda>i.
     bindE (read_transcript (getProp v ''transcript'')) (\<lambda>t.
     bindE (read_turn_confidence (getProp v ''transcriptConfidence'')) (\<lambda>c.
     bindE (read_observed (getProp v ''observedObjects'')) (\<lambda>obs.
     Inr \<lparr>sb_interactionId = i, sb_transcript = t, sb_confidence = c, sb_observedObjects = obs\<rparr>))))"

definition boundedOpeningIdentity :: "jsval \<Rightarrow> coordinator_error + js" where
  "boundedOpeningIdentity v = bounded_text 160 v"

definition validatedOpeningBoot :: "jsval \<Rightarrow> coordinator_error + boot_result" where
  "validatedOpeningBoot v =
     (case getProp v ''output'' of
        JStr content \<Rightarrow>
          if getProp v ''revision'' \<noteq> jnat 0 \<or> getProp v ''turnComplete'' \<noteq> JBool True \<or>
             getProp v ''boundary'' \<noteq> JStr (js ''input-requested'') \<or> content = [] \<or>
             MAX_OPENING_OUTPUT_LENGTH < length content
          then Inl CTypeError
          else
            (let c = getProp v ''compatibility'' in
             case safe_nat (getProp c ''snapshotSchemaVersion'') of
               None \<Rightarrow> Inl CTypeError
             | Some schema \<Rightarrow>
                 if schema < 1 then Inl CTypeError
                 else
                   bindE (boundedOpeningIdentity (getProp (getProp c ''story'') ''id'')) (\<lambda>sid.
                   bindE (boundedOpeningIdentity (getProp (getProp c ''story'') ''artifactSha256'')) (\<lambda>ssha.
                   bindE (boundedOpeningIdentity (getProp (getProp c ''runtime'') ''id'')) (\<lambda>rid.
                   bindE (boundedOpeningIdentity (getProp (getProp c ''runtime'') ''version'')) (\<lambda>rv.
                   bindE (boundedOpeningIdentity (getProp (getProp c ''runtime'') ''artifactSha256'')) (\<lambda>rsha.
                   bindE (boundedOpeningIdentity (getProp (getProp c ''adapter'') ''id'')) (\<lambda>aid.
                   bindE (boundedOpeningIdentity (getProp (getProp c ''adapter'') ''version'')) (\<lambda>av.
                   Inr \<lparr>br_output = content, br_boundary = InputRequested, br_compatibility =
                     \<lparr>story_id = sid, story_sha256 = ssha, runtime_id = rid, runtime_version = rv,
                      runtime_sha256 = rsha, adapter_id = aid, adapter_version = av,
                      snapshotSchemaVersion = schema\<rparr>\<rparr>))))))))
      | _ \<Rightarrow> Inl CTypeError)"

definition validatedOpeningNarrationText :: "jsval \<Rightarrow> js \<Rightarrow> coordinator_error + js" where
  "validatedOpeningNarrationText v exactOutput =
     (case v of
        JStr s \<Rightarrow>
          if trim s = [] \<or> MAX_OPENING_OUTPUT_LENGTH < length s \<or> hasUnsafeNarrationControl s \<or>
             \<not> isOrderedExactLineSubsequence exactOutput s
          then Inl CTypeError else Inr s
      | _ \<Rightarrow> Inl CTypeError)"

definition read_role_message :: "jsval \<Rightarrow> coordinator_error + role_message" where
  "read_role_message m =
     (let role = getProp m ''role'' in
      if role \<noteq> JStr (js ''guide'') \<and> role \<noteq> JStr (js ''narrator'') then Inl CTypeError
      else
        (case getProp m ''text'' of
           JStr s \<Rightarrow>
             if trim s = [] \<or> 2000 < length s \<or> has_control s then Inl CTypeError
             else Inr (if role = JStr (js ''guide'') then GuideRole else NarratorRole, trim s)
         | _ \<Rightarrow> Inl CTypeError))"

definition validatedRoleIntroduction :: "jsval list \<Rightarrow> coordinator_error + role_message list" where
  "validatedRoleIntroduction messages =
     (if length messages < 1 \<or> 4 < length messages then Inl CRangeError else mapE read_role_message messages)"

definition requireId :: "jsval \<Rightarrow> coordinator_error + js" where
  "requireId v =
     (case v of JStr s \<Rightarrow> if s = [] \<or> 160 < length s then Inl CTypeError else Inr s | _ \<Rightarrow> Inl CTypeError)"

section \<open>State\<close>

record ('w, 'c) guide_input = \<comment> \<open>what \<open>decideInitialGuideTurn\<close> is asked\<close>
  gi_interactionId :: js
  gi_playerUtterance :: js
  gi_transcriptConfidence :: "rat option"
  gi_observedObjects :: "js list"
  gi_observedWorld :: "'w option"
  gi_scene :: "'c option"
  gi_pendingIntent :: "pending_intent option"

text \<open>The observed-world and opening-scene projections of the command knowledge: derived help
  context that only reaches the guide's input.  A projection that throws answers \<open>None\<close>.\<close>

record ('w, 'c) knowledge =
  kw_createWorld :: 'w
  kw_projectWorld :: "'w \<Rightarrow> semantic_event \<Rightarrow> 'w option"
  kw_currentObjects :: "'w \<Rightarrow> js list"
  kw_createScene :: "js \<Rightarrow> js \<Rightarrow> 'c option" \<comment> \<open>story id and hash\<close>
  kw_projectScene :: "'c \<Rightarrow> semantic_event \<Rightarrow> 'c option"
  kw_isOpeningProfile :: "'c \<Rightarrow> bool"
  kw_sceneObjects :: "'c \<Rightarrow> js list"

datatype ('w, 'c) port_call =
    AskGuide "('w, 'c) guide_input"
  | InspectEngine
  | SubmitExecute js execute_request \<comment> \<open>with the interaction it is submitted for\<close>
  | TakeSnapshot
  | PrepareNarration narration_request

datatype after_narration =
    AfterGuide turn_outcome
  | AfterClarify "stored_intent option"
  | AfterEngine execute_request js execute_result "engine_snapshot option"
  | AfterOpening js
  | AfterIntroduction nat "role_message list" \<comment> \<open>the index and the messages still to come\<close>

record narration_job = \<comment> \<open>one segment being prepared, and the rest of the text\<close>
  nj_role :: narration_role
  nj_sourceEventId :: js
  nj_confirmed :: bool
  nj_narrationId :: js
  nj_requestedId :: js
  nj_rest :: "js list"
  nj_after :: after_narration

datatype await =
    AwaitGuide js \<comment> \<open>the transcript event\<close>
  | AwaitState js js \<comment> \<open>the accepted event and the command\<close>
  | AwaitExecute execute_request js \<comment> \<open>and the requesting event\<close>
  | AwaitSnapshot execute_request js execute_result js \<comment> \<open>and the output event\<close>
  | AwaitOpeningState
  | AwaitNarration narration_job

datatype run_kind =
    TurnRun turn_input "stored_intent option"
  | RecoverRun js fingerprint turn_result turn_recovery
  | OpeningRun opening_input
  | IntroductionRun js "role_message list"

fun run_interaction :: "run_kind \<Rightarrow> js" where
  "run_interaction (TurnRun i _) = sb_interactionId i"
| "run_interaction (RecoverRun i _ _ _) = i"
| "run_interaction (OpeningRun i) = op_interactionId i"
| "run_interaction (IntroductionRun i _) = i"

datatype finished =
    TurnFinished turn_result "turn_recovery option"
  | RecoveryDone turn_result
  | RecoveryKept turn_result \<comment> \<open>the engine did not answer: the stored result again\<close>
  | OpeningFinished narration_result js
  | IntroductionFinished narration_result

datatype flow = Suspend await | Finish finished

datatype settlement =
    SettleTurn turn_input "coordinator_error + turn_result \<times> turn_recovery option"
  | SettleOpening opening_input "js option" "coordinator_error + narration_result \<times> js"
  | SettleIntroduction js "role_message list" "coordinator_error + narration_result"

record ('w, 'c) coordinator =
  co_sequence :: event_sequence
  co_hostIds :: "nat \<Rightarrow> jsval" \<comment> \<open>\<open>nextId\<close> and \<open>now\<close> of the event sequence's host\<close>
  co_clock :: "nat \<Rightarrow> jsval"
  co_appends :: nat
  co_requestIds :: "nat \<Rightarrow> jsval" \<comment> \<open>\<open>nextRequestId\<close>; a throwing host reads as \<open>undefined\<close>\<close>
  co_requests :: nat
  co_narrationIds :: "nat \<Rightarrow> jsval"
  co_narrations :: nat
  co_maxTurns :: nat
  co_turns :: "(js \<times> stored_turn) list"
  co_introduction :: "stored_introduction option"
  co_opening :: "stored_opening option"
  co_scene :: "'c option"
  co_world :: 'w
  co_active :: "js option"
  co_pendingIntent :: "stored_intent option"
  co_run :: "(run_kind \<times> await) option" \<comment> \<open>the suspended method\<close>
  co_aborted :: bool \<comment> \<open>its signal, its \<open>local\<close> events and \<open>progress.sourceEventId\<close>\<close>
  co_local :: "semantic_event list"
  co_progress :: "js option"
  co_settling :: "settlement list" \<comment> \<open>promises resolved and not yet stored by their callers\<close>
  co_published :: "semantic_event list"
  co_calls :: "('w, 'c) port_call list"

definition newSemanticTurnCoordinator ::
  "('w, 'c) knowledge \<Rightarrow> event_sequence \<Rightarrow> (nat \<Rightarrow> jsval) \<Rightarrow> (nat \<Rightarrow> jsval) \<Rightarrow> (nat \<Rightarrow> jsval) \<Rightarrow> (nat \<Rightarrow> jsval) \<Rightarrow>
     jsval \<Rightarrow> coordinator_error + ('w, 'c) coordinator" where
  "newSemanticTurnCoordinator kn sq hostIds clock requestIds narrationIds maxTurns =
     (case safe_nat (if maxTurns = JUndef \<or> maxTurns = JNull then jnat MAX_COORDINATED_TURNS else maxTurns) of
        None \<Rightarrow> Inl CRangeError
      | Some n \<Rightarrow>
          if n < 1 then Inl CRangeError
          else Inr \<lparr>co_sequence = sq, co_hostIds = hostIds, co_clock = clock, co_appends = 0,
            co_requestIds = requestIds, co_requests = 0, co_narrationIds = narrationIds, co_narrations = 0,
            co_maxTurns = n, co_turns = [], co_introduction = None, co_opening = None, co_scene = None,
            co_world = kw_createWorld kn, co_active = None, co_pendingIntent = None, co_run = None,
            co_aborted = False, co_local = [], co_progress = None, co_settling = [], co_published = [],
            co_calls = []\<rparr>)"

end
