(* ===== verification/Turn_Coordinator.thy ===== *)
theory Turn_Coordinator
  imports Turn_State
begin

text \<open>
  \<open>packages/session/src/semantic-turn-coordinator.ts\<close>: the single owner of a session's turns.
  Every method is split at its \<open>await\<close>s; the guide, the engine, the narrator and the abort
  signal answer through events, and a thrown exception is a value.
\<close>

section \<open>Throwing, stateful methods\<close>

type_synonym ('w, 'c, 'a) act =
  "('w, 'c) coordinator \<Rightarrow> (coordinator_error + 'a) \<times> ('w, 'c) coordinator"

definition returnA :: "'a \<Rightarrow> ('w, 'c, 'a) act" where
  "returnA x co = (Inr x, co)"

definition throwA :: "coordinator_error \<Rightarrow> ('w, 'c, 'a) act" where
  "throwA e co = (Inl e, co)"

definition bindA :: "('w, 'c, 'a) act \<Rightarrow> ('a \<Rightarrow> ('w, 'c, 'b) act) \<Rightarrow> ('w, 'c, 'b) act" where
  "bindA m f co = (case m co of (Inl e, co') \<Rightarrow> (Inl e, co') | (Inr x, co') \<Rightarrow> f x co')"

definition catchA :: "('w, 'c, 'a) act \<Rightarrow> ('w, 'c, 'a) act \<Rightarrow> ('w, 'c, 'a) act" where
  \<comment> \<open>no handler of the coordinator looks at what was thrown to it this way\<close>
  "catchA m h co = (case m co of (Inl e, co') \<Rightarrow> h co' | (Inr x, co') \<Rightarrow> (Inr x, co'))"

definition updateA :: "(('w, 'c) coordinator \<Rightarrow> ('w, 'c) coordinator) \<Rightarrow> ('w, 'c, unit) act" where
  "updateA f co = (Inr (), f co)"

definition stateA :: "(('w, 'c) coordinator \<Rightarrow> ('w, 'c, 'a) act) \<Rightarrow> ('w, 'c, 'a) act" where
  "stateA f co = f co co"

definition callA :: "('w, 'c) port_call \<Rightarrow> ('w, 'c, unit) act" where
  "callA c = updateA (\<lambda>co. co\<lparr>co_calls := co_calls co @ [c]\<rparr>)"

definition liftA :: "coordinator_error + 'a \<Rightarrow> ('w, 'c, 'a) act" where
  "liftA r co = (r, co)"

definition nextRequestId :: "('w, 'c, js) act" where
  "nextRequestId co = (requireId (co_requestIds co (co_requests co)), co\<lparr>co_requests := co_requests co + 1\<rparr>)"

definition nextNarrationId :: "('w, 'c, js) act" where
  "nextNarrationId co =
     (requireId (co_narrationIds co (co_narrations co)), co\<lparr>co_narrations := co_narrations co + 1\<rparr>)"

definition emit :: "('w, 'c) knowledge \<Rightarrow> js \<Rightarrow> js option \<Rightarrow> visibility \<Rightarrow> payload \<Rightarrow> ('w, 'c, semantic_event) act" where
  "emit kn correlationId causationId vis p co =
     (case append_event (co_sequence co)
             \<lparr>dr_type = JStr (js (event_type p)), dr_correlationId = JStr correlationId,
              dr_causationId = (case causationId of None \<Rightarrow> JUndef | Some c \<Rightarrow> JStr c),
              dr_visibility = JStr (js (visibility_name vis)), dr_payload = p\<rparr>
             (co_hostIds co (co_appends co)) (co_clock co (co_appends co)) of
        (Inl _, sq) \<Rightarrow> (Inl SequenceError, co\<lparr>co_sequence := sq, co_appends := co_appends co + 1\<rparr>)
      | (Inr event, sq) \<Rightarrow>
          (Inr event, co\<lparr>co_sequence := sq, co_appends := co_appends co + 1,
             co_world := (case kw_projectWorld kn (co_world co) event of None \<Rightarrow> kw_createWorld kn | Some w \<Rightarrow> w),
             co_scene := (case co_scene co of None \<Rightarrow> None | Some c \<Rightarrow> kw_projectScene kn c event),
             co_published := co_published co @ [event]\<rparr>))"

text \<open>\<open>#emit\<close> onto the \<open>local\<close> list of the running method.\<close>

definition emit_local :: "('w, 'c) knowledge \<Rightarrow> js \<Rightarrow> js option \<Rightarrow> visibility \<Rightarrow> payload \<Rightarrow> ('w, 'c, semantic_event) act" where
  "emit_local kn correlationId causationId vis p =
     bindA (emit kn correlationId causationId vis p) (\<lambda>event.
     bindA (updateA (\<lambda>co. co\<lparr>co_local := co_local co @ [event]\<rparr>)) (\<lambda>_. returnA event))"

definition turn_resultA :: "js \<Rightarrow> turn_outcome \<Rightarrow> execute_result option \<Rightarrow> engine_snapshot option \<Rightarrow> ('w, 'c, turn_result) act" where
  "turn_resultA interactionId outcome engineResult checkpoint =
     stateA (\<lambda>co. returnA \<lparr>tr_interactionId = interactionId, tr_outcome = outcome, tr_events = co_local co,
       tr_engineResult = engineResult, tr_checkpoint = checkpoint\<rparr>)"

definition finish_turn :: "js \<Rightarrow> turn_outcome \<Rightarrow> ('w, 'c, flow) act" where
  "finish_turn interactionId outcome =
     bindA (turn_resultA interactionId outcome None None) (\<lambda>r. returnA (Finish (TurnFinished r None)))"

section \<open>Narration\<close>

datatype prepared = Waiting narration_job | Settled preparation

definition segment_failed :: "('w, 'c) knowledge \<Rightarrow> js \<Rightarrow> narration_job \<Rightarrow> ('w, 'c, preparation) act" where
  \<comment> \<open>the \<open>catch\<close> of \<open>#prepareNarrationSegment\<close>\<close>
  "segment_failed kn interactionId job =
     stateA (\<lambda>co.
       if co_aborted co then
         bindA (emit_local kn interactionId (Some (nj_requestedId job)) Accessible
                  (NarrationCancelled (nj_narrationId job) (nj_role job) PlayerCancelled)) (\<lambda>_.
         returnA PreparedCancelled)
       else
         bindA (emit_local kn interactionId (Some (nj_requestedId job)) Accessible
                  (NarrationFailed (nj_narrationId job) (nj_role job))) (\<lambda>failed.
         bindA (emit_local kn interactionId (Some (ev_id failed)) Accessible
                  (SystemError StageNarration (js ''narration-failed'') True
                     (if nj_confirmed job then Confirmed else NotSubmitted))) (\<lambda>_.
         returnA PreparedFailed)))"

definition begin_segment ::
  "('w, 'c) knowledge \<Rightarrow> js \<Rightarrow> narration_role \<Rightarrow> js \<Rightarrow> bool \<Rightarrow> js \<Rightarrow> js list \<Rightarrow> after_narration \<Rightarrow> ('w, 'c, prepared) act" where
  "begin_segment kn interactionId role sourceEventId confirmed content rest after =
     bindA nextNarrationId (\<lambda>narrationId.
     bindA (emit_local kn interactionId (Some sourceEventId) Debug
              (NarrationRequested narrationId role content sourceEventId SessionOnly)) (\<lambda>requested.
     let job = \<lparr>nj_role = role, nj_sourceEventId = sourceEventId, nj_confirmed = confirmed,
           nj_narrationId = narrationId, nj_requestedId = ev_id requested, nj_rest = rest, nj_after = after\<rparr>
     in bindA (callA (PrepareNarration \<lparr>nq_narrationId = narrationId, nq_role = role, nq_text = content,
                nq_sourceEventId = sourceEventId, nq_correlationId = interactionId\<rparr>)) (\<lambda>_.
        stateA (\<lambda>co.
          if co_aborted co then bindA (segment_failed kn interactionId job) (\<lambda>outcome. returnA (Settled outcome))
          else returnA (Waiting job)))))"

definition narrate ::
  "('w, 'c) knowledge \<Rightarrow> js \<Rightarrow> narration_role \<Rightarrow> js \<Rightarrow> js \<Rightarrow> bool \<Rightarrow> bool \<Rightarrow> after_narration \<Rightarrow> ('w, 'c, prepared) act" where
  "narrate kn interactionId role content sourceEventId confirmed segmentSentences after =
     (case (if segmentSentences then narrationSegments content
            else filter (\<lambda>segment. trim segment \<noteq> []) [content]) of
        [] \<Rightarrow> returnA (Settled PreparedFailed)
      | segment # rest \<Rightarrow> begin_segment kn interactionId role sourceEventId confirmed segment rest after)"

definition settle_segment :: "('w, 'c) knowledge \<Rightarrow> js \<Rightarrow> narration_job \<Rightarrow> bool \<Rightarrow> ('w, 'c, prepared) act" where
  \<comment> \<open>the narrator has answered for the segment: the rest of the loop of \<open>#narrate\<close>\<close>
  "settle_segment kn interactionId job ok =
     bindA
       (if ok then
          catchA
            (bindA (emit_local kn interactionId (Some (nj_requestedId job)) Debug
                      (NarrationReady (nj_narrationId job) (nj_role job))) (\<lambda>_. returnA PreparedReady))
            (segment_failed kn interactionId job)
        else segment_failed kn interactionId job) (\<lambda>outcome.
     if outcome \<noteq> PreparedReady then returnA (Settled outcome)
     else
       (case nj_rest job of
          [] \<Rightarrow> returnA (Settled PreparedReady)
        | segment # rest \<Rightarrow>
            begin_segment kn interactionId (nj_role job) (nj_sourceEventId job) (nj_confirmed job) segment rest
              (nj_after job)))"

section \<open>A turn\<close>

definition after_turn :: "run_kind \<Rightarrow> after_narration \<Rightarrow> ('w, 'c, flow) act" where
  \<comment> \<open>what follows the narration of a turn, whatever its outcome\<close>
  "after_turn kind after =
     (case after of
        AfterGuide outcome \<Rightarrow> finish_turn (run_interaction kind) outcome
      | AfterClarify intent \<Rightarrow>
          bindA (updateA (\<lambda>co. co\<lparr>co_pendingIntent := intent\<rparr>)) (\<lambda>_.
          finish_turn (run_interaction kind) TurnClarified)
      | AfterEngine _ _ engineResult checkpoint \<Rightarrow>
          bindA (turn_resultA (run_interaction kind) TurnCommitted (Some engineResult) checkpoint) (\<lambda>r.
          returnA (Finish (case kind of RecoverRun _ _ _ _ \<Rightarrow> RecoveryDone r | _ \<Rightarrow> TurnFinished r None)))
      | _ \<Rightarrow> throwA CTypeError)"

definition narrate_turn ::
  "('w, 'c) knowledge \<Rightarrow> run_kind \<Rightarrow> narration_role \<Rightarrow> js \<Rightarrow> js \<Rightarrow> after_narration \<Rightarrow> ('w, 'c, flow) act" where
  "narrate_turn kn kind role content sourceEventId after =
     bindA (narrate kn (run_interaction kind) role content sourceEventId (role = NarratorRole) False after) (\<lambda>p.
     (case p of Waiting job \<Rightarrow> returnA (Suspend (AwaitNarration job)) | Settled _ \<Rightarrow> after_turn kind after))"

definition guide_failed :: "('w, 'c) knowledge \<Rightarrow> js \<Rightarrow> js \<Rightarrow> ('w, 'c, flow) act" where
  "guide_failed kn i transcriptId =
     stateA (\<lambda>co.
       bindA (emit_local kn i (Some transcriptId) Accessible
                (SystemError StageGuide (js (if co_aborted co then ''cancelled'' else ''guide-failed'')) True NotSubmitted)) (\<lambda>_.
       finish_turn i (if co_aborted co then TurnCancelled else TurnFailed)))"

definition guide_question :: "('w, 'c) knowledge \<Rightarrow> turn_input \<Rightarrow> stored_intent option \<Rightarrow> ('w, 'c) coordinator \<Rightarrow> ('w, 'c) guide_input" where
  "guide_question kn input intent co =
     (let scene = (case co_scene co of None \<Rightarrow> None | Some c \<Rightarrow> if kw_isOpeningProfile kn c then Some c else None);
          worldObjects = kw_currentObjects kn (co_world co);
          observedObjects = (if worldObjects = [] then sb_observedObjects input else worldObjects);
          sceneObjects = (case scene of None \<Rightarrow> [] | Some c \<Rightarrow> kw_sceneObjects kn c)
      in \<lparr>gi_interactionId = sb_interactionId input, gi_playerUtterance = sb_transcript input,
          gi_transcriptConfidence = sb_confidence input, gi_observedObjects = observedObjects,
          gi_observedWorld = (if worldObjects = [] then None else Some (co_world co)),
          gi_scene =
            (if scene \<noteq> None \<and> (sceneObjects \<noteq> [] \<or> observedObjects = []) \<and>
                list_all (\<lambda>x. x \<in> set observedObjects) sceneObjects
             then scene else None),
          gi_pendingIntent = map_option (\<lambda>st. copyPendingOpeningObjectIntent (si_intent st)) intent\<rparr>)"

definition start_turn :: "('w, 'c) knowledge \<Rightarrow> turn_input \<Rightarrow> stored_intent option \<Rightarrow> ('w, 'c, flow) act" where
  \<comment> \<open>\<open>#runNew\<close> up to the guide\<close>
  "start_turn kn input intent =
     (let i = sb_interactionId input in
      bindA (emit_local kn i None Accessible (TranscriptFinal (sb_transcript input) (sb_confidence input) LocalSave)) (\<lambda>transcript.
      bindA (stateA (\<lambda>co. callA (AskGuide (guide_question kn input intent co)))) (\<lambda>_.
      stateA (\<lambda>co.
        if co_aborted co then guide_failed kn i (ev_id transcript)
        else returnA (Suspend (AwaitGuide (ev_id transcript)))))))"

definition cancelled_before_submit :: "('w, 'c) knowledge \<Rightarrow> js \<Rightarrow> js \<Rightarrow> ('w, 'c, flow) act" where
  "cancelled_before_submit kn i acceptedId =
     bindA (emit_local kn i (Some acceptedId) Accessible
              (SystemError StageCoordinator (js ''cancelled-before-engine-submit'') True NotSubmitted)) (\<lambda>_.
     finish_turn i TurnCancelled)"

definition decision_refused :: "('w, 'c) knowledge \<Rightarrow> run_kind \<Rightarrow> js \<Rightarrow> js \<Rightarrow> guide_decision \<Rightarrow> js \<Rightarrow> cannot_reason \<Rightarrow> turn_outcome \<Rightarrow> ('w, 'c, flow) act" where
  "decision_refused kn kind proposedId cause decision resp reason outcome =
     (let i = run_interaction kind in
      bindA (emit_local kn i (Some proposedId) Debug (DecisionRejected cause (Some decision) LocalSave)) (\<lambda>rejected.
      bindA (emit_local kn i (Some (ev_id rejected)) Accessible (CannotComply resp (js (reason_name reason)) LocalSave)) (\<lambda>cannot.
      narrate_turn kn kind GuideRole resp (ev_id cannot) (AfterGuide outcome))))"

definition turn_decided ::
  "('w, 'c) knowledge \<Rightarrow> turn_input \<Rightarrow> stored_intent option \<Rightarrow> js \<Rightarrow> guide_result \<Rightarrow> ('w, 'c, flow) act" where
  \<comment> \<open>\<open>#runNew\<close> once the guide has answered, up to the engine\<close>
  "turn_decided kn input intent transcriptId guideResult =
     (let i = sb_interactionId input; kind = TurnRun input intent; decision = guide_decision_of guideResult in
      bindA (emit_local kn i (Some transcriptId) Debug (DecisionProposed decision LocalSave)) (\<lambda>proposed.
      (case guideResult of
         GuideRejected resp reason cause \<Rightarrow>
           decision_refused kn kind (ev_id proposed) cause decision resp reason TurnRejected
       | GuideProviderFailure resp reason \<Rightarrow>
           decision_refused kn kind (ev_id proposed) (js ''provider-failure'') decision resp reason TurnFailed
       | GuideClarify question ambiguity choices pendingIntent \<Rightarrow>
           bindA (emit_local kn i (Some (ev_id proposed)) Debug (DecisionAccepted AcceptedClarify)) (\<lambda>accepted.
           let next =
             (case pendingIntent of
                None \<Rightarrow> None
              | Some p \<Rightarrow> Some \<lparr>si_intent = copyPendingOpeningObjectIntent p,
                  si_sourceInteractionId =
                    (case intent of
                       Some st \<Rightarrow>
                         if samePendingOpeningObjectIntent (si_intent st) p then si_sourceInteractionId st else i
                     | None \<Rightarrow> i)\<rparr>)
           in bindA (emit_local kn i (Some (ev_id accepted)) Accessible
                       (Clarification question ambiguity choices LocalSave)) (\<lambda>clarification.
              narrate_turn kn kind GuideRole question (ev_id clarification) (AfterClarify next)))
       | GuideExplain resp basis sourceIds \<Rightarrow>
           bindA (emit_local kn i (Some (ev_id proposed)) Debug (DecisionAccepted AcceptedExplain)) (\<lambda>accepted.
           bindA (updateA (\<lambda>co. co\<lparr>co_pendingIntent := None\<rparr>)) (\<lambda>_.
           bindA (emit_local kn i (Some (ev_id accepted)) Accessible (Explanation resp sourceIds LocalSave)) (\<lambda>explanation.
           narrate_turn kn kind GuideRole resp (ev_id explanation) (AfterGuide TurnExplained))))
       | GuideExecute command _ _ \<Rightarrow>
           bindA (emit_local kn i (Some (ev_id proposed)) Debug (DecisionAccepted AcceptedExecute)) (\<lambda>accepted.
           stateA (\<lambda>co.
             if co_aborted co then cancelled_before_submit kn i (ev_id accepted)
             else bindA (callA InspectEngine) (\<lambda>_. returnA (Suspend (AwaitState (ev_id accepted) command))))))))"

definition state_inspected ::
  "('w, 'c) knowledge \<Rightarrow> js \<Rightarrow> js \<Rightarrow> js \<Rightarrow> public_state option \<Rightarrow> ('w, 'c, flow) act" where
  "state_inspected kn i acceptedId command answer =
     (case answer of
        None \<Rightarrow>
          bindA (emit_local kn i (Some acceptedId) Accessible
                   (SystemError StageEngine (js ''engine-inspection-failed'') True NotSubmitted)) (\<lambda>_.
          finish_turn i TurnFailed)
      | Some state \<Rightarrow>
          stateA (\<lambda>co.
            if co_aborted co then cancelled_before_submit kn i acceptedId
            else
              bindA nextRequestId (\<lambda>requestId.
              let request = \<lparr>rq_requestId = requestId, rq_expectedRevision = ps_revision state, rq_command = command\<rparr> in
              bindA (emit_local kn i (Some acceptedId) Debug
                       (CommandRequested requestId (ps_revision state) command)) (\<lambda>requested.
              bindA (callA (SubmitExecute i request)) (\<lambda>_.
              returnA (Suspend (AwaitExecute request (ev_id requested))))))))"

section \<open>The engine's result\<close>

definition finishEngineResult ::
  "('w, 'c) knowledge \<Rightarrow> run_kind \<Rightarrow> js \<Rightarrow> js \<Rightarrow> execute_request \<Rightarrow> execute_result \<Rightarrow> ('w, 'c, flow) act" where
  \<comment> \<open>\<open>#finishEngineResult\<close> up to the checkpoint\<close>
  "finishEngineResult kn kind causationId requestedId request engineResult =
     (let i = run_interaction kind in
      bindA (updateA (\<lambda>co. co\<lparr>co_pendingIntent := None\<rparr>)) (\<lambda>_.
      (case er_status engineResult of
         Rejected rejection \<Rightarrow>
           bindA (emit_local kn i (Some causationId) Accessible
                    (CommandRejected (rq_requestId request) (er_revision engineResult) (rq_command request)
                       (js (rejection_name rejection)))) (\<lambda>_.
           bindA (turn_resultA i TurnFailed (Some engineResult) None) (\<lambda>r.
           returnA (Finish (case kind of RecoverRun _ _ _ _ \<Rightarrow> RecoveryDone r | _ \<Rightarrow> TurnFinished r None))))
       | Committed \<Rightarrow>
           bindA (emit_local kn i (Some causationId) Debug
                    (CommandCommitted (er_requestId engineResult) (er_previousRevision engineResult)
                       (er_revision engineResult) (er_command engineResult) (er_boundary engineResult))) (\<lambda>committed.
           bindA (emit_local kn i (Some (ev_id committed)) Accessible
                    (EngineOutput (er_revision engineResult) (er_output engineResult) (er_boundary engineResult)
                       LocalSave)) (\<lambda>output_event.
           bindA (callA TakeSnapshot) (\<lambda>_.
           returnA (Suspend (AwaitSnapshot request requestedId engineResult (ev_id output_event)))))))))"

definition checkpoint_failed :: "('w, 'c) knowledge \<Rightarrow> js \<Rightarrow> execute_result \<Rightarrow> js \<Rightarrow> ('w, 'c, unit) act" where
  "checkpoint_failed kn i engineResult outputId =
     bindA (emit_local kn i (Some outputId) Accessible (SaveFailed (er_revision engineResult))) (\<lambda>failed.
     bindA (emit_local kn i (Some (ev_id failed)) Accessible
              (SystemError StageCheckpoint (js ''checkpoint-failed'') True Confirmed)) (\<lambda>_.
     returnA ()))"

definition snapshot_taken ::
  "('w, 'c) knowledge \<Rightarrow> run_kind \<Rightarrow> execute_request \<Rightarrow> js \<Rightarrow> execute_result \<Rightarrow> js \<Rightarrow> engine_snapshot option \<Rightarrow>
     ('w, 'c, flow) act" where
  \<comment> \<open>the rest of \<open>#finishEngineResult\<close>\<close>
  "snapshot_taken kn kind request requestedId engineResult outputId checkpoint =
     (let i = run_interaction kind; after = AfterEngine request requestedId engineResult checkpoint in
      bindA
        (case checkpoint of
           None \<Rightarrow> checkpoint_failed kn i engineResult outputId
         | Some sn \<Rightarrow>
             catchA
               (bindA (emit_local kn i (Some outputId) Internal
                         (SaveCheckpointed (sn_revision sn) (sn_sha256 sn) (length (sn_bytes sn)))) (\<lambda>_. returnA ()))
               (checkpoint_failed kn i engineResult outputId)) (\<lambda>_.
      stateA (\<lambda>co.
        if co_aborted co then
          bindA nextNarrationId (\<lambda>narrationId.
          bindA (emit_local kn i (Some outputId) Accessible
                   (NarrationCancelled narrationId NarratorRole PlayerCancelled)) (\<lambda>_.
          after_turn kind after))
        else narrate_turn kn kind NarratorRole (er_output engineResult) outputId after)))"

definition execute_failed ::
  "('w, 'c) knowledge \<Rightarrow> js \<Rightarrow> execute_request \<Rightarrow> js \<Rightarrow> bool \<Rightarrow> ('w, 'c, flow) act" where
  \<comment> \<open>the \<open>catch\<close> around the submission of a new turn; whether the error says \<open>not-submitted\<close>\<close>
  "execute_failed kn i request requestedId notSubmitted =
     bindA (emit_local kn i (Some requestedId) Accessible
              (SystemError StageEngine
                 (js (if notSubmitted then ''cancelled-before-engine-submit'' else ''engine-outcome-uncertain'')) True
                 (if notSubmitted then NotSubmitted else Unknown))) (\<lambda>_.
     if notSubmitted then finish_turn i TurnCancelled
     else
       bindA (turn_resultA i TurnUncertain None None) (\<lambda>r.
       returnA (Finish (TurnFinished r (Some \<lparr>rv_request = request, rv_requestedEventId = requestedId\<rparr>)))))"

definition guarded :: "('w, 'c) knowledge \<Rightarrow> run_kind \<Rightarrow> execute_request \<Rightarrow> js \<Rightarrow> ('w, 'c, flow) act \<Rightarrow> ('w, 'c, flow) act" where
  \<comment> \<open>a new turn finishes the engine result inside that \<open>try\<close>; a recovery does not\<close>
  "guarded kn kind request requestedId m =
     (case kind of
        TurnRun input _ \<Rightarrow> catchA m (execute_failed kn (sb_interactionId input) request requestedId False)
      | _ \<Rightarrow> m)"

definition execute_answered ::
  "('w, 'c) knowledge \<Rightarrow> run_kind \<Rightarrow> execute_request \<Rightarrow> js \<Rightarrow> bool + execute_result \<Rightarrow> ('w, 'c, flow) act" where
  "execute_answered kn kind request requestedId answer =
     (case kind of
        RecoverRun i _ stored _ \<Rightarrow>
          (case answer of
             Inl _ \<Rightarrow> returnA (Finish (RecoveryKept stored))
           | Inr engineResult \<Rightarrow>
               bindA (emit_local kn i (Some requestedId) Debug
                        (SystemRecovered (rq_requestId request) (er_revision engineResult))) (\<lambda>recovered.
               finishEngineResult kn kind (ev_id recovered) requestedId request engineResult))
      | _ \<Rightarrow>
          (case answer of
             Inl notSubmitted \<Rightarrow> execute_failed kn (run_interaction kind) request requestedId notSubmitted
           | Inr engineResult \<Rightarrow>
               guarded kn kind request requestedId
                 (finishEngineResult kn kind requestedId requestedId request engineResult)))"

section \<open>The opening and the role introduction\<close>

definition after_opening :: "opening_input \<Rightarrow> js \<Rightarrow> preparation \<Rightarrow> ('w, 'c, flow) act" where
  "after_opening input sourceEventId outcome =
     stateA (\<lambda>co. returnA (Finish (OpeningFinished
       \<lparr>nr_interactionId = op_interactionId input, nr_outcome = outcome, nr_events = co_local co\<rparr> sourceEventId)))"

definition opening_narrate :: "('w, 'c) knowledge \<Rightarrow> opening_input \<Rightarrow> js \<Rightarrow> ('w, 'c, flow) act" where
  "opening_narrate kn input sourceEventId =
     bindA (narrate kn (op_interactionId input) NarratorRole (op_narrationText input) sourceEventId True True
              (AfterOpening sourceEventId)) (\<lambda>p.
     (case p of
        Waiting job \<Rightarrow> returnA (Suspend (AwaitNarration job))
      | Settled outcome \<Rightarrow> after_opening input sourceEventId outcome))"

definition start_opening :: "('w, 'c) knowledge \<Rightarrow> opening_input \<Rightarrow> ('w, 'c, flow) act" where
  \<comment> \<open>\<open>#runOpening\<close> up to its first \<open>await\<close>\<close>
  "start_opening kn input =
     stateA (\<lambda>co.
       case co_progress co of
         Some sourceEventId \<Rightarrow> opening_narrate kn input sourceEventId
       | None \<Rightarrow>
           bindA (callA InspectEngine) (\<lambda>_.
           if co_aborted co then throwA AbortError else returnA (Suspend AwaitOpeningState)))"

definition opening_inspected :: "('w, 'c) knowledge \<Rightarrow> opening_input \<Rightarrow> public_state option \<Rightarrow> ('w, 'c, flow) act" where
  "opening_inspected kn input answer =
     (case answer of
        None \<Rightarrow> throwA EngineError
      | Some state \<Rightarrow>
          let boot = op_boot input in
          if ps_revision state \<noteq> 0 \<or> ps_lastOutput state \<noteq> br_output boot \<or> ps_boundary state \<noteq> br_boundary boot
          then throwA ConflictError
          else
            stateA (\<lambda>co.
              if co_aborted co then throwA AbortError
              else
                bindA (updateA (\<lambda>co. co\<lparr>co_world := kw_createWorld kn\<rparr>)) (\<lambda>_.
                (case kw_createScene kn (story_id (br_compatibility boot)) (story_sha256 (br_compatibility boot)) of
                   None \<Rightarrow> throwA CTypeError
                 | Some scene \<Rightarrow>
                     bindA (updateA (\<lambda>co. co\<lparr>co_scene := Some scene\<rparr>)) (\<lambda>_.
                     bindA (emit_local kn (op_interactionId input) None Accessible
                              (EngineOutput 0 (br_output boot) (br_boundary boot) LocalSave)) (\<lambda>event.
                     bindA (updateA (\<lambda>co. co\<lparr>co_progress := Some (ev_id event)\<rparr>)) (\<lambda>_.
                     opening_narrate kn input (ev_id event))))))))"

definition finish_introduction :: "js \<Rightarrow> preparation \<Rightarrow> ('w, 'c, flow) act" where
  "finish_introduction i outcome =
     stateA (\<lambda>co. returnA (Finish (IntroductionFinished
       \<lparr>nr_interactionId = i, nr_outcome = outcome, nr_events = co_local co\<rparr>)))"

fun introduce :: "('w, 'c) knowledge \<Rightarrow> js \<Rightarrow> nat \<Rightarrow> nat \<Rightarrow> role_message list \<Rightarrow> ('w, 'c, flow) act" where
  \<comment> \<open>the loop of \<open>#runRoleIntroduction\<close> from the message at an index on\<close>
  "introduce kn i n index [] = finish_introduction i PreparedReady"
| "introduce kn i n index ((role, content) # messages) =
     bindA (emit_local kn i None Accessible (RoleIntroduction role content (index + 1) n SessionOnly)) (\<lambda>source.
     bindA (narrate kn i role content (ev_id source) False True (AfterIntroduction (index + 1) messages)) (\<lambda>p.
     (case p of
        Waiting job \<Rightarrow> returnA (Suspend (AwaitNarration job))
      | Settled outcome \<Rightarrow>
          if outcome \<noteq> PreparedReady then finish_introduction i outcome
          else introduce kn i n (index + 1) messages)))"

definition after_segments :: "('w, 'c) knowledge \<Rightarrow> run_kind \<Rightarrow> after_narration \<Rightarrow> preparation \<Rightarrow> ('w, 'c, flow) act" where
  \<comment> \<open>what the method that narrates does with the outcome\<close>
  "after_segments kn kind after outcome =
     (case kind of
        OpeningRun input \<Rightarrow>
          (case after of
             AfterOpening sourceEventId \<Rightarrow> after_opening input sourceEventId outcome | _ \<Rightarrow> throwA CTypeError)
      | IntroductionRun i messages \<Rightarrow>
          (case after of
             AfterIntroduction index rest \<Rightarrow>
               if outcome \<noteq> PreparedReady then finish_introduction i outcome
               else introduce kn i (length messages) index rest
           | _ \<Rightarrow> throwA CTypeError)
      | _ \<Rightarrow> after_turn kind after)"

definition segments_answered :: "('w, 'c) knowledge \<Rightarrow> run_kind \<Rightarrow> narration_job \<Rightarrow> bool \<Rightarrow> ('w, 'c, flow) act" where
  "segments_answered kn kind job ok =
     bindA (settle_segment kn (run_interaction kind) job ok) (\<lambda>p.
     (case p of
        Waiting job' \<Rightarrow> returnA (Suspend (AwaitNarration job'))
      | Settled outcome \<Rightarrow> after_segments kn kind (nj_after job) outcome))"

definition narration_answered :: "('w, 'c) knowledge \<Rightarrow> run_kind \<Rightarrow> narration_job \<Rightarrow> bool \<Rightarrow> ('w, 'c, flow) act" where
  "narration_answered kn kind job ok =
     (case nj_after job of
        AfterEngine request requestedId _ _ \<Rightarrow> guarded kn kind request requestedId (segments_answered kn kind job ok)
      | _ \<Rightarrow> segments_answered kn kind job ok)"

section \<open>Calls and answers\<close>

text \<open>An answer is how the awaited promise settles: where the code races it against the abort signal
  (\<open>awaitWithAbort\<close>, for the guide, the opening's inspection and the narrator), an abort that wins
  the race is \<open>AbortSignal\<close> followed by the rejecting answer \<open>None\<close> or \<open>False\<close>.\<close>

datatype coordinator_event =
    SubmitTurn jsval bool \<comment> \<open>with whether its signal is already aborted\<close>
  | PrepareOpening jsval jsval jsval bool \<comment> \<open>interaction, boot result, narration text\<close>
  | PrepareRoleIntroduction jsval "jsval list" bool
  | RecordTranscriptionFailure jsval jsval
  | RecordAudioFailure jsval jsval
  | RecordCaptureStarted js jsval
  | RecordCaptureEnded js jsval jsval capture_outcome
  | RecordPlaybackStarted js jsval narration_role jsval
  | RecordPlaybackEnded js jsval narration_role js playback_outcome jsval
  | RecordPaused js
  | RecordResumed js
  | AbortSignal
  | GuideAnswered "guide_result option"
  | StateAnswered "public_state option"
  | ExecuteAnswered "bool + execute_result"
  | SnapshotAnswered "engine_snapshot option"
  | NarrationAnswered bool
  | SettlePromise

datatype coordinator_reply =
    TurnReply js "coordinator_error + turn_result"
  | JoinsTurn js \<comment> \<open>waits for the promise of the pending turn\<close>
  | OpeningReply "coordinator_error + narration_result"
  | JoinsOpening
  | IntroductionReply "coordinator_error + narration_result"
  | JoinsIntroduction
  | EventReply "coordinator_error + semantic_event"
  | Proceeds

definition conclude_run ::
  "run_kind \<Rightarrow> coordinator_error + finished \<Rightarrow> ('w, 'c) coordinator \<Rightarrow> ('w, 'c) coordinator \<times> coordinator_reply" where
  \<comment> \<open>the \<open>finally\<close> of the running method; its caller goes on when the promise is settled\<close>
  "conclude_run kind outcome co =
     (let freed = co\<lparr>co_active := None, co_run := None\<rparr> in
      case kind of
        TurnRun input _ \<Rightarrow>
          (freed\<lparr>co_settling := co_settling co @ [SettleTurn input
             (case outcome of Inl e \<Rightarrow> Inl e | Inr (TurnFinished r rv) \<Rightarrow> Inr (r, rv) | Inr _ \<Rightarrow> Inl CTypeError)]\<rparr>,
           Proceeds)
      | RecoverRun i print stored _ \<Rightarrow>
          (case outcome of
             Inl e \<Rightarrow> (freed, TurnReply i (Inl e))
           | Inr (RecoveryDone r) \<Rightarrow>
               (freed\<lparr>co_turns := AList.update i (CompleteTurn print r) (co_turns co)\<rparr>, TurnReply i (Inr r))
           | Inr _ \<Rightarrow> (freed, TurnReply i (Inr stored)))
      | OpeningRun input \<Rightarrow>
          (freed\<lparr>co_settling := co_settling co @ [SettleOpening input (co_progress co)
             (case outcome of Inl e \<Rightarrow> Inl e | Inr (OpeningFinished r source) \<Rightarrow> Inr (r, source)
              | Inr _ \<Rightarrow> Inl CTypeError)]\<rparr>, Proceeds)
      | IntroductionRun i messages \<Rightarrow>
          (freed\<lparr>co_settling := co_settling co @ [SettleIntroduction i messages
             (case outcome of Inl e \<Rightarrow> Inl e | Inr (IntroductionFinished r) \<Rightarrow> Inr r | Inr _ \<Rightarrow> Inl CTypeError)]\<rparr>,
           Proceeds))"

definition proceed ::
  "run_kind \<Rightarrow> ('w, 'c, flow) act \<Rightarrow> ('w, 'c) coordinator \<Rightarrow> ('w, 'c) coordinator \<times> coordinator_reply" where
  \<comment> \<open>run the method to its next \<open>await\<close> or to its end\<close>
  "proceed kind m co =
     (case m co of
        (Inr (Suspend a), co') \<Rightarrow> (co'\<lparr>co_run := Some (kind, a)\<rparr>, Proceeds)
      | (Inr (Finish f), co') \<Rightarrow> conclude_run kind (Inr f) co'
      | (Inl e, co') \<Rightarrow> conclude_run kind (Inl e) co')"

definition begin_run :: "run_kind \<Rightarrow> bool \<Rightarrow> semantic_event list \<Rightarrow> js option \<Rightarrow> ('w, 'c) coordinator \<Rightarrow> ('w, 'c) coordinator" where
  "begin_run kind aborted local progress co =
     co\<lparr>co_active := Some (run_interaction kind), co_aborted := aborted, co_local := local, co_progress := progress\<rparr>"

definition opening_pending :: "('w, 'c) coordinator \<Rightarrow> bool" where
  "opening_pending co = (case co_opening co of Some (OpeningPending _) \<Rightarrow> True | _ \<Rightarrow> False)"

definition submitTurn ::
  "('w, 'c) knowledge \<Rightarrow> jsval \<Rightarrow> bool \<Rightarrow> ('w, 'c) coordinator \<Rightarrow> ('w, 'c) coordinator \<times> coordinator_reply" where
  "submitTurn kn v aborted co =
     (case validateTurnInput v of
        Inl e \<Rightarrow> (co, TurnReply [] (Inl e))
      | Inr input \<Rightarrow>
          let i = sb_interactionId input; print = turn_fingerprint input in
          (case map_of (co_turns co) i of
             Some existing \<Rightarrow>
               if stored_print existing \<noteq> print then (co, TurnReply i (Inl ConflictError))
               else
                 (case existing of
                    CompleteTurn _ r \<Rightarrow> (co, TurnReply i (Inr r))
                  | PendingTurn _ \<Rightarrow> (co, JoinsTurn i)
                  | UncertainTurn _ r recovery \<Rightarrow> \<comment> \<open>\<open>#recover\<close>\<close>
                      if co_active co \<noteq> None \<or> opening_pending co then (co, TurnReply i (Inl BusyError))
                      else if aborted then (co, TurnReply i (Inr r))
                      else
                        let kind = RecoverRun i print r recovery in
                        proceed kind
                          (bindA (callA (SubmitExecute i (rv_request recovery))) (\<lambda>_.
                           returnA (Suspend (AwaitExecute (rv_request recovery) (rv_requestedEventId recovery)))))
                          (begin_run kind aborted (tr_events r) None co))
           | None \<Rightarrow>
               if co_maxTurns co \<le> length (co_turns co) then (co, TurnReply i (Inl CapacityError))
               else if co_active co \<noteq> None \<or> opening_pending co then (co, TurnReply i (Inl BusyError))
               else
                 let intent = co_pendingIntent co; kind = TurnRun input intent;
                   (co', reply) = proceed kind (start_turn kn input intent) (begin_run kind aborted [] None co)
                 in (co'\<lparr>co_turns := AList.update i (PendingTurn print) (co_turns co')\<rparr>, reply)))"

definition prepareOpening ::
  "('w, 'c) knowledge \<Rightarrow> jsval \<Rightarrow> jsval \<Rightarrow> jsval \<Rightarrow> bool \<Rightarrow> ('w, 'c) coordinator \<Rightarrow> ('w, 'c) coordinator \<times> coordinator_reply" where
  "prepareOpening kn interaction boot narrationText aborted co =
     (case bindE (requireId interaction) (\<lambda>i.
           bindE (validatedOpeningBoot boot) (\<lambda>b.
           bindE (validatedOpeningNarrationText
                    (if narrationText = JUndef \<or> narrationText = JNull then JStr (br_output b) else narrationText)
                    (br_output b)) (\<lambda>t.
           Inr \<lparr>op_interactionId = i, op_boot = b, op_narrationText = t\<rparr>))) of
        Inl e \<Rightarrow> (co, OpeningReply (Inl e))
      | Inr input \<Rightarrow>
          let start = (\<lambda>source.
            let kind = OpeningRun input;
              (co', reply) = proceed kind (start_opening kn input) (begin_run kind aborted [] source co)
            in (co'\<lparr>co_opening := Some (OpeningPending input)\<rparr>, reply))
          in
          (case co_opening co of
             Some existing \<Rightarrow>
               if opening_print existing \<noteq> input then (co, OpeningReply (Inl ConflictError))
               else
                 (case existing of
                    OpeningComplete _ r \<Rightarrow> (co, OpeningReply (Inr r))
                  | OpeningPending _ \<Rightarrow> (co, JoinsOpening)
                  | OpeningRetryable _ source \<Rightarrow>
                      if co_active co \<noteq> None then (co, OpeningReply (Inl BusyError)) else start (Some source))
           | None \<Rightarrow> if co_active co \<noteq> None then (co, OpeningReply (Inl BusyError)) else start None))"

definition prepareRoleIntroduction ::
  "('w, 'c) knowledge \<Rightarrow> jsval \<Rightarrow> jsval list \<Rightarrow> bool \<Rightarrow> ('w, 'c) coordinator \<Rightarrow> ('w, 'c) coordinator \<times> coordinator_reply" where
  "prepareRoleIntroduction kn interaction messages aborted co =
     (case bindE (requireId interaction) (\<lambda>i. bindE (validatedRoleIntroduction messages) (\<lambda>ms. Inr (i, ms))) of
        Inl e \<Rightarrow> (co, IntroductionReply (Inl e))
      | Inr (i, ms) \<Rightarrow>
          (case co_introduction co of
             Some (IntroductionPending j ns) \<Rightarrow>
               (co, if (j, ns) \<noteq> (i, ms) then IntroductionReply (Inl ConflictError) else JoinsIntroduction)
           | Some (IntroductionComplete j ns r) \<Rightarrow>
               (co, IntroductionReply (if (j, ns) \<noteq> (i, ms) then Inl ConflictError else Inr r))
           | None \<Rightarrow>
               if co_active co \<noteq> None then (co, IntroductionReply (Inl BusyError))
               else
                 let kind = IntroductionRun i ms;
                   (co', reply) = proceed kind (introduce kn i (length ms) 0 ms) (begin_run kind aborted [] None co)
                 in (co'\<lparr>co_introduction := Some (IntroductionPending i ms)\<rparr>, reply)))"

definition record_failure ::
  "('w, 'c) knowledge \<Rightarrow> error_stage \<Rightarrow> (js \<Rightarrow> fingerprint) \<Rightarrow> jsval \<Rightarrow> jsval \<Rightarrow> ('w, 'c) coordinator \<Rightarrow>
     ('w, 'c) coordinator \<times> coordinator_reply" where
  \<comment> \<open>\<open>recordTranscriptionFailure\<close> and \<open>recordAudioFailure\<close>\<close>
  "record_failure kn stage print interaction code co =
     (case bindE (bounded_text 160 interaction) (\<lambda>i. bindE (bounded_text 160 code) (\<lambda>c. Inr (i, c))) of
        Inl e \<Rightarrow> (co, TurnReply [] (Inl e))
      | Inr (i, c) \<Rightarrow>
          if map_of (co_turns co) i \<noteq> None then (co, TurnReply i (Inl ConflictError))
          else if co_maxTurns co \<le> length (co_turns co) then (co, TurnReply i (Inl CapacityError))
          else
            (case emit kn i None Accessible (SystemError stage c True NotSubmitted) co of
               (Inl e, co') \<Rightarrow> (co', TurnReply i (Inl e))
             | (Inr event, co') \<Rightarrow>
                 let r = \<lparr>tr_interactionId = i, tr_outcome = TurnFailed, tr_events = [event],
                       tr_engineResult = None, tr_checkpoint = None\<rparr>
                 in (co'\<lparr>co_turns := AList.update i (CompleteTurn (print c) r) (co_turns co')\<rparr>, TurnReply i (Inr r))))"

definition reply_event :: "(coordinator_error + semantic_event) \<times> ('w, 'c) coordinator \<Rightarrow> ('w, 'c) coordinator \<times> coordinator_reply" where
  "reply_event r = (snd r, EventReply (fst r))"

definition recordCaptureEnded ::
  "('w, 'c) knowledge \<Rightarrow> js \<Rightarrow> jsval \<Rightarrow> jsval \<Rightarrow> capture_outcome \<Rightarrow> ('w, 'c, semantic_event) act" where
  "recordCaptureEnded kn i capture duration outcome =
     (case safe_nat duration of
        None \<Rightarrow> throwA CRangeError
      | Some ms \<Rightarrow>
          bindA (liftA (requireId capture)) (\<lambda>cid. emit kn i None Accessible (CaptureEnded cid ms outcome)))"

definition recordPlaybackStarted ::
  "('w, 'c) knowledge \<Rightarrow> js \<Rightarrow> jsval \<Rightarrow> narration_role \<Rightarrow> jsval \<Rightarrow> ('w, 'c, semantic_event) act" where
  "recordPlaybackStarted kn i narrationId role source =
     bindA (liftA (requireId narrationId)) (\<lambda>nid.
     bindA (liftA (requireId source)) (\<lambda>sid. emit kn i (Some sid) Accessible (PlaybackStarted nid role sid)))"

definition recordPlaybackEnded ::
  "('w, 'c) knowledge \<Rightarrow> js \<Rightarrow> jsval \<Rightarrow> narration_role \<Rightarrow> js \<Rightarrow> playback_outcome \<Rightarrow> jsval \<Rightarrow> ('w, 'c, semantic_event) act" where
  "recordPlaybackEnded kn i narrationId role source outcome failureCode =
     bindA (if failureCode = JUndef then returnA None
            else bindA (liftA (requireId failureCode)) (\<lambda>c. returnA (Some c))) (\<lambda>code.
     bindA (liftA (requireId narrationId)) (\<lambda>nid.
     bindA (emit kn i (Some source) Accessible (PlaybackEnded nid role outcome)) (\<lambda>ended.
     (case code of
        Some c \<Rightarrow>
          if outcome = PlaybackFailed then
            bindA (emit kn i (Some (ev_id ended)) Accessible
                     (SystemError StageNarration c True (if role = NarratorRole then Confirmed else NotSubmitted))) (\<lambda>_.
            returnA ended)
          else returnA ended
      | None \<Rightarrow> returnA ended))))"

definition settle_promise :: "settlement \<Rightarrow> ('w, 'c) coordinator \<Rightarrow> ('w, 'c) coordinator \<times> coordinator_reply" where
  \<comment> \<open>what the caller of the finished method does after its \<open>await\<close>\<close>
  "settle_promise st co =
     (case st of
        SettleTurn input outcome \<Rightarrow>
          let i = sb_interactionId input; print = turn_fingerprint input in
          (case outcome of
             Inl e \<Rightarrow> (co\<lparr>co_turns := AList.delete i (co_turns co)\<rparr>, TurnReply i (Inl e))
           | Inr (r, None) \<Rightarrow>
               (co\<lparr>co_turns := AList.update i (CompleteTurn print r) (co_turns co)\<rparr>, TurnReply i (Inr r))
           | Inr (r, Some recovery) \<Rightarrow>
               (co\<lparr>co_turns := AList.update i (UncertainTurn print r recovery) (co_turns co)\<rparr>, TurnReply i (Inr r)))
      | SettleOpening input progress outcome \<Rightarrow>
          (case outcome of
             Inl e \<Rightarrow>
               (if opening_pending co
                then co\<lparr>co_opening := (case progress of None \<Rightarrow> None | Some source \<Rightarrow> Some (OpeningRetryable input source))\<rparr>
                else co, OpeningReply (Inl e))
           | Inr (r, source) \<Rightarrow>
               (co\<lparr>co_opening := Some (if nr_outcome r \<noteq> PreparedReady then OpeningRetryable input source
                                       else OpeningComplete input r)\<rparr>, OpeningReply (Inr r)))
      | SettleIntroduction i messages outcome \<Rightarrow>
          (case outcome of
             Inl e \<Rightarrow> (co\<lparr>co_introduction := None\<rparr>, IntroductionReply (Inl e))
           | Inr r \<Rightarrow> (co\<lparr>co_introduction := Some (IntroductionComplete i messages r)\<rparr>, IntroductionReply (Inr r))))"

definition answer_run ::
  "('w, 'c) knowledge \<Rightarrow> coordinator_event \<Rightarrow> run_kind \<Rightarrow> await \<Rightarrow> ('w, 'c, flow) act option" where
  \<comment> \<open>how the suspended method goes on with the answer it waits for\<close>
  "answer_run kn ev kind a =
     (case a of
        AwaitGuide transcriptId \<Rightarrow>
          (case (ev, kind) of
             (GuideAnswered answer, TurnRun input intent) \<Rightarrow>
               Some (case answer of
                       None \<Rightarrow> guide_failed kn (sb_interactionId input) transcriptId
                     | Some g \<Rightarrow> turn_decided kn input intent transcriptId g)
           | _ \<Rightarrow> None)
      | AwaitState acceptedId command \<Rightarrow>
          (case ev of
             StateAnswered answer \<Rightarrow> Some (state_inspected kn (run_interaction kind) acceptedId command answer)
           | _ \<Rightarrow> None)
      | AwaitExecute request requestedId \<Rightarrow>
          (case ev of
             ExecuteAnswered answer \<Rightarrow> Some (execute_answered kn kind request requestedId answer)
           | _ \<Rightarrow> None)
      | AwaitSnapshot request requestedId engineResult outputId \<Rightarrow>
          (case ev of
             SnapshotAnswered answer \<Rightarrow>
               Some (guarded kn kind request requestedId
                       (snapshot_taken kn kind request requestedId engineResult outputId answer))
           | _ \<Rightarrow> None)
      | AwaitOpeningState \<Rightarrow>
          (case (ev, kind) of
             (StateAnswered answer, OpeningRun input) \<Rightarrow> Some (opening_inspected kn input answer)
           | _ \<Rightarrow> None)
      | AwaitNarration job \<Rightarrow>
          (case ev of NarrationAnswered ok \<Rightarrow> Some (narration_answered kn kind job ok) | _ \<Rightarrow> None))"

definition coordinator_step ::
  "('w, 'c) knowledge \<Rightarrow> ('w, 'c) coordinator \<Rightarrow> coordinator_event \<Rightarrow> ('w, 'c) coordinator \<times> coordinator_reply" where
  "coordinator_step kn co ev =
     (case ev of
        SubmitTurn v aborted \<Rightarrow> submitTurn kn v aborted co
      | PrepareOpening i boot t aborted \<Rightarrow> prepareOpening kn i boot t aborted co
      | PrepareRoleIntroduction i ms aborted \<Rightarrow> prepareRoleIntroduction kn i ms aborted co
      | RecordTranscriptionFailure i c \<Rightarrow> record_failure kn StageTranscription TranscriptionFailurePrint i c co
      | RecordAudioFailure i c \<Rightarrow> record_failure kn StageAudio AudioFailurePrint i c co
      | RecordCaptureStarted i cid \<Rightarrow>
          reply_event (bindA (liftA (requireId cid)) (\<lambda>c. emit kn i None Accessible (CaptureStarted c)) co)
      | RecordCaptureEnded i cid duration outcome \<Rightarrow> reply_event (recordCaptureEnded kn i cid duration outcome co)
      | RecordPlaybackStarted i nid role source \<Rightarrow> reply_event (recordPlaybackStarted kn i nid role source co)
      | RecordPlaybackEnded i nid role source outcome code \<Rightarrow>
          reply_event (recordPlaybackEnded kn i nid role source outcome code co)
      | RecordPaused i \<Rightarrow> reply_event (emit kn i None Accessible SessionPaused co)
      | RecordResumed i \<Rightarrow> reply_event (emit kn i None Accessible SessionResumed co)
      | AbortSignal \<Rightarrow> (if co_run co = None then co else co\<lparr>co_aborted := True\<rparr>, Proceeds)
      | SettlePromise \<Rightarrow>
          (case co_settling co of
             [] \<Rightarrow> (co, Proceeds)
           | st # rest \<Rightarrow> settle_promise st (co\<lparr>co_settling := rest\<rparr>))
      | _ \<Rightarrow>
          (case co_run co of
             None \<Rightarrow> (co, Proceeds)
           | Some (kind, a) \<Rightarrow>
               (case answer_run kn ev kind a of None \<Rightarrow> (co, Proceeds) | Some m \<Rightarrow> proceed kind m co)))"

inductive coordinator_reach :: "('w, 'c) knowledge \<Rightarrow> ('w, 'c) coordinator \<Rightarrow> bool" for kn where
  created: "newSemanticTurnCoordinator kn sq hostIds clock requestIds narrationIds maxTurns = Inr co \<Longrightarrow>
     newEventSequence sessionId first = Inr sq \<Longrightarrow> coordinator_reach kn co"
| step: "coordinator_reach kn co \<Longrightarrow> coordinator_reach kn (fst (coordinator_step kn co ev))"

end
