(* ===== verification/Coordinator_Frame.thy ===== *)
theory Coordinator_Frame
  imports Turn_Coordinator
begin

text \<open>
  What every throwing, stateful method of the coordinator leaves alone: the journal, the stored
  opening and introduction, the running method and the host; and what it only extends: the
  published events, in order, with the running method's own events among them.
\<close>

named_theorems safe_intros \<open>methods that keep the frame\<close>

section \<open>The frame\<close>

definition healthy_host :: "('w, 'c) coordinator \<Rightarrow> bool" where
  \<comment> \<open>the host's ids and clock are what the interface promises\<close>
  "healthy_host co \<longleftrightarrow>
     (\<forall>n. nonempty_string (co_hostIds co n) \<and> isCanonicalEventTimestamp (co_clock co n) \<and>
          (\<exists>s. requireId (co_requestIds co n) = Inr s) \<and> (\<exists>s. requireId (co_narrationIds co n) = Inr s))"

definition live :: "('w, 'c) coordinator \<Rightarrow> bool" where
  \<comment> \<open>and the sequence is not exhausted\<close>
  "live co \<longleftrightarrow> healthy_host co \<and> sq_next (co_sequence co) \<noteq> None"

fun below :: "nat option \<Rightarrow> semantic_event list \<Rightarrow> bool" where
  "below None es \<longleftrightarrow> True"
| "below (Some n) es \<longleftrightarrow> (\<forall>e \<in> set es. ev_sequence e < n)"

definition sound :: "('w, 'c) coordinator \<Rightarrow> bool" where
  "sound co \<longleftrightarrow>
     seq_wf (co_sequence co) \<and> sorted_wrt (<) (0 # map ev_sequence (co_published co)) \<and>
     below (sq_next (co_sequence co)) (co_published co) \<and>
     (\<forall>e \<in> set (co_published co). valid_envelope e) \<and> subseq (co_local co) (co_published co)"

definition frame :: "('w, 'c) coordinator \<Rightarrow> ('w, 'c) coordinator \<Rightarrow> bool" where
  "frame co co' \<longleftrightarrow>
     co_turns co' = co_turns co \<and> co_introduction co' = co_introduction co \<and> co_opening co' = co_opening co \<and>
     co_active co' = co_active co \<and> co_run co' = co_run co \<and> co_aborted co' = co_aborted co \<and>
     co_settling co' = co_settling co \<and> co_maxTurns co' = co_maxTurns co \<and>
     co_hostIds co' = co_hostIds co \<and> co_clock co' = co_clock co \<and> co_requestIds co' = co_requestIds co \<and>
     co_narrationIds co' = co_narrationIds co \<and>
     (\<exists>new. co_published co' = co_published co @ new) \<and> (\<exists>new. co_calls co' = co_calls co @ new) \<and>
     (live co' \<longrightarrow> live co) \<and> (sound co \<longrightarrow> sound co')"

lemma frame_refl [simp]: "frame co co"
  by (simp add: frame_def)

lemma frame_trans: "frame a b \<Longrightarrow> frame b c \<Longrightarrow> frame a c"
  by (clarsimp simp: frame_def)

definition safe :: "('w, 'c, 'a) act \<Rightarrow> bool" where
  "safe m \<longleftrightarrow> (\<forall>co. frame co (snd (m co)))"

lemma safeD: "safe m \<Longrightarrow> m co = (r, co') \<Longrightarrow> frame co co'"
  by (metis safe_def snd_conv)

lemma safe_return [safe_intros]: "safe (returnA x)" "safe (throwA e)" "safe (liftA r)"
  by (simp_all add: safe_def returnA_def throwA_def liftA_def)

lemma safe_bind [safe_intros]:
  assumes "safe m" and "\<And>x. safe (f x)"
  shows "safe (bindA m f)"
  unfolding safe_def
proof
  fix co
  obtain r co' where m: "m co = (r, co')" by fastforce
  show "frame co (snd (bindA m f co))"
    using safeD [OF assms(1) m] assms(2) m by (cases r) (auto simp: bindA_def safe_def intro: frame_trans)
qed

lemma safe_catch [safe_intros]:
  assumes "safe m" and "safe h"
  shows "safe (catchA m h)"
  unfolding safe_def
proof
  fix co
  obtain r co' where m: "m co = (r, co')" by fastforce
  show "frame co (snd (catchA m h co))"
    using safeD [OF assms(1) m] assms(2) m by (cases r) (auto simp: catchA_def safe_def intro: frame_trans)
qed

lemma safe_state [safe_intros]: "(\<And>s. safe (f s)) \<Longrightarrow> safe (stateA f)"
  by (simp add: safe_def stateA_def)

lemma safe_update: "(\<And>co. frame co (f co)) \<Longrightarrow> safe (updateA f)"
  by (simp add: safe_def updateA_def)

lemma safe_updates [safe_intros]:
  "safe (callA c)" "safe (updateA (\<lambda>co. co\<lparr>co_pendingIntent := x\<rparr>))" "safe (updateA (\<lambda>co. co\<lparr>co_world := w\<rparr>))"
  "safe (updateA (\<lambda>co. co\<lparr>co_scene := sc\<rparr>))" "safe (updateA (\<lambda>co. co\<lparr>co_progress := pr\<rparr>))"
  unfolding callA_def by (rule safe_update, simp add: frame_def live_def healthy_host_def sound_def)+

lemma safe_ids [safe_intros]: "safe nextRequestId" "safe nextNarrationId"
  by (simp_all add: safe_def nextRequestId_def nextNarrationId_def frame_def live_def healthy_host_def sound_def)

section \<open>Emitting\<close>

lemma live_local [simp]: "live (co\<lparr>co_local := es\<rparr>) = live co"
  by (simp add: live_def healthy_host_def)

lemma subseq_snoc: "subseq xs ys \<Longrightarrow> subseq xs (ys @ [y])"
  using list_emb_append_mono [of "(=)" xs ys "[]" "[y]"] by simp

text \<open>An emission either appends one valid event that says what it was asked to, or fails and
  leaves everything but the host's counter.\<close>

lemma emit_cases:
  obtains co' where "emit kn i c v p co = (Inl SequenceError, co')" "frame co co'" "co_local co' = co_local co"
      "co_published co' = co_published co" "co_calls co' = co_calls co" "co_progress co' = co_progress co"
      "sound co \<Longrightarrow> i \<noteq> [] \<Longrightarrow> c \<noteq> Some [] \<Longrightarrow> \<not> live co'"
  | e co' where "emit kn i c v p co = (Inr e, co')" "frame co co'" "co_local co' = co_local co"
      "co_published co' = co_published co @ [e]" "co_calls co' = co_calls co" "co_progress co' = co_progress co"
      "ev_payload e = p" "ev_correlationId e = i" "ev_causationId e = c" "sound co \<Longrightarrow> ev_id e \<noteq> []"
proof -
  let ?draft = "\<lparr>dr_type = JStr (js (event_type p)), dr_correlationId = JStr i,
              dr_causationId = (case c of None \<Rightarrow> JUndef | Some c \<Rightarrow> JStr c),
              dr_visibility = JStr (js (visibility_name v)), dr_payload = p\<rparr>"
  obtain r sq where app: "append_event (co_sequence co) ?draft (co_hostIds co (co_appends co)) (co_clock co (co_appends co)) = (r, sq)"
    by fastforce
  show thesis
  proof (cases r)
    case (Inl err)
    with app have sq: "sq = co_sequence co" by (simp add: append_event_failure)
    have "\<not> live co" if "sound co" "i \<noteq> []" "c \<noteq> Some []"
    proof
      assume "live co"
      then obtain n where "sq_next (co_sequence co) = Some n" "nonempty_string (co_hostIds co (co_appends co))"
        "isCanonicalEventTimestamp (co_clock co (co_appends co))"
        by (auto simp: live_def healthy_host_def)
      moreover have "seq_wf (co_sequence co)" using that(1) by (simp add: sound_def)
      moreover have "event_type p \<noteq> []" by (cases p) simp_all
      ultimately have "\<exists>e sq'. append_event (co_sequence co) ?draft (co_hostIds co (co_appends co)) (co_clock co (co_appends co)) = (Inr e, sq')"
        using that(2,3) by (intro append_event_accepts) (auto simp: nonempty_string_def split: option.splits)
      with app Inl show False by simp
    qed
    with app Inl sq show thesis
      by (intro that(1) [of "co\<lparr>co_sequence := sq, co_appends := co_appends co + 1\<rparr>"])
        (simp_all add: emit_def frame_def live_def healthy_host_def sound_def)
  next
    case (Inr e)
    let ?co = "co\<lparr>co_sequence := sq, co_appends := co_appends co + 1,
        co_world := (case kw_projectWorld kn (co_world co) e of None \<Rightarrow> kw_createWorld kn | Some w \<Rightarrow> w),
        co_scene := (case co_scene co of None \<Rightarrow> None | Some c \<Rightarrow> kw_projectScene kn c e),
        co_published := co_published co @ [e]\<rparr>"
    from app Inr have ok: "append_event (co_sequence co) ?draft (co_hostIds co (co_appends co)) (co_clock co (co_appends co)) = (Inr e, sq)"
      by simp
    have fields: "ev_payload e = p \<and> ev_correlationId e = i \<and> ev_causationId e = c \<and> sq_next (co_sequence co) \<noteq> None"
      using ok by (auto simp: append_event_def Let_def split: option.splits if_splits)
    have snd: "sound ?co \<and> ev_id e \<noteq> []" if "sound co"
    proof -
      have wf: "seq_wf (co_sequence co)" using that by (simp add: sound_def)
      note s = append_event_success [OF ok wf]
      have "subseq (co_local co) (co_published co @ [e])"
        using that by (simp add: sound_def subseq_snoc)
      moreover have "0 < ev_sequence e" using s(1) by (simp add: valid_envelope_def)
      moreover have "seq_wf sq" using append_event_wf [OF wf ok] .
      ultimately show ?thesis
        using that s(1,2,3) by (auto simp: sound_def sorted_wrt_append valid_envelope_def less_Suc_eq)
    qed
    have "live ?co \<longrightarrow> live co" using fields by (simp add: live_def healthy_host_def)
    with snd have "frame co ?co" by (simp add: frame_def)
    with app Inr fields snd show thesis
      by (intro that(2) [of e ?co]) (simp_all add: emit_def)
  qed
qed

lemma safe_emit [safe_intros]: "safe (emit kn i c v p)"
  unfolding safe_def
proof
  fix co
  show "frame co (snd (emit kn i c v p co))" by (rule emit_cases [of kn i c v p co]) simp_all
qed

lemma emit_local_cases:
  obtains co' where "emit_local kn i c v p co = (Inl SequenceError, co')" "frame co co'" "co_local co' = co_local co"
      "co_published co' = co_published co" "co_calls co' = co_calls co" "co_progress co' = co_progress co"
      "sound co \<Longrightarrow> i \<noteq> [] \<Longrightarrow> c \<noteq> Some [] \<Longrightarrow> \<not> live co'"
  | e co' where "emit_local kn i c v p co = (Inr e, co')" "frame co co'" "co_local co' = co_local co @ [e]"
      "co_published co' = co_published co @ [e]" "co_calls co' = co_calls co" "co_progress co' = co_progress co"
      "ev_payload e = p" "ev_correlationId e = i" "ev_causationId e = c" "sound co \<Longrightarrow> ev_id e \<noteq> []"
proof (rule emit_cases [of kn i c v p co])
  fix co'
  assume "emit kn i c v p co = (Inl SequenceError, co')" "frame co co'" "co_local co' = co_local co"
    "co_published co' = co_published co" "co_calls co' = co_calls co" "co_progress co' = co_progress co"
    "sound co \<Longrightarrow> i \<noteq> [] \<Longrightarrow> c \<noteq> Some [] \<Longrightarrow> \<not> live co'"
  then show thesis by (intro that(1)) (simp_all add: emit_local_def bindA_def)
next
  fix e co'
  assume *: "emit kn i c v p co = (Inr e, co')" "frame co co'" "co_local co' = co_local co"
    "co_published co' = co_published co @ [e]" "co_calls co' = co_calls co" "co_progress co' = co_progress co"
    "ev_payload e = p" "ev_correlationId e = i" "ev_causationId e = c" "sound co \<Longrightarrow> ev_id e \<noteq> []"
  have "sound (co'\<lparr>co_local := co_local co' @ [e]\<rparr>)" if "sound co"
  proof -
    have "sound co'" using *(2) that by (simp add: frame_def)
    moreover have "subseq (co_local co @ [e]) (co_published co @ [e])"
      using that by (simp add: sound_def list_emb_append_mono)
    ultimately show ?thesis using *(3,4) by (simp add: sound_def)
  qed
  then have fr: "frame co (co'\<lparr>co_local := co_local co' @ [e]\<rparr>)"
    using *(2) unfolding frame_def live_local by (elim conjE, intro conjI) simp_all
  have run: "emit_local kn i c v p co = (Inr e, co'\<lparr>co_local := co_local co' @ [e]\<rparr>)"
    using *(1) by (simp add: emit_local_def bindA_def updateA_def returnA_def)
  show thesis
    by (rule that(2) [OF run fr]) (use *(3-10) in simp_all)
qed

lemma safe_emit_local [safe_intros]: "safe (emit_local kn i c v p)"
  unfolding safe_def
proof
  fix co
  show "frame co (snd (emit_local kn i c v p co))" by (rule emit_local_cases [of kn i c v p co]) simp_all
qed

section \<open>The methods\<close>

lemma safe_if [safe_intros]: "(b \<Longrightarrow> safe m) \<Longrightarrow> (\<not> b \<Longrightarrow> safe n) \<Longrightarrow> safe (if b then m else n)"
  by simp

lemma safe_option [safe_intros]:
  "safe n \<Longrightarrow> (\<And>x. safe (f x)) \<Longrightarrow> safe (case opt of None \<Rightarrow> n | Some x \<Rightarrow> f x)"
  by (cases opt) simp_all

lemma safe_results [safe_intros]: "safe (turn_resultA i o' er cp)" "safe (finish_turn i o')"
  unfolding turn_resultA_def finish_turn_def by (intro safe_intros)+

lemma safe_prepared [safe_intros]:
  "(\<And>job. safe (f job)) \<Longrightarrow> (\<And>x. safe (g x)) \<Longrightarrow> safe (case p of Waiting job \<Rightarrow> f job | Settled x \<Rightarrow> g x)"
  by (cases p) simp_all

lemma safe_segments [safe_intros]: "safe (segment_failed kn i job)" "safe (begin_segment kn i r s c t ts after)"
  unfolding segment_failed_def begin_segment_def Let_def by (intro safe_intros)+

lemma safe_narrate [safe_intros]: "safe (narrate kn i r t s c b after)" "safe (settle_segment kn i job ok)"
  unfolding narrate_def settle_segment_def Let_def
  by (cases "if b then narrationSegments t else filter (\<lambda>segment. trim segment \<noteq> []) [t]"; simp add: safe_intros)
    (cases "nj_rest job"; intro safe_intros; simp add: safe_intros)

lemma safe_after_turn [safe_intros]: "safe (after_turn kind after)"
  unfolding after_turn_def by (cases after; simp; intro safe_intros)

lemma safe_turn [safe_intros]:
  "safe (narrate_turn kn kind r t s after)" "safe (guide_failed kn i tid)" "safe (cancelled_before_submit kn i aid)"
  "safe (start_turn kn input intent)" "safe (decision_refused kn kind pid cause d resp reason o')"
  unfolding narrate_turn_def guide_failed_def cancelled_before_submit_def start_turn_def decision_refused_def Let_def
  by (intro safe_intros)+

lemma safe_decided [safe_intros]: "safe (turn_decided kn input intent tid g)"
  unfolding turn_decided_def Let_def by (cases g; simp; intro safe_intros; simp)

lemma safe_inspected [safe_intros]: "safe (state_inspected kn i aid c answer)"
  unfolding state_inspected_def Let_def by (intro safe_intros)

lemma safe_finish [safe_intros]: "safe (finishEngineResult kn kind cid rid rq res)"
  unfolding finishEngineResult_def Let_def by (cases "er_status res"; simp; intro safe_intros)

lemma safe_checkpoint [safe_intros]: "safe (checkpoint_failed kn i res oid)"
  unfolding checkpoint_failed_def by (intro safe_intros)

lemma safe_snapshot [safe_intros]: "safe (snapshot_taken kn kind rq rid res oid cp)"
  unfolding snapshot_taken_def Let_def by (intro safe_intros)

lemma safe_failed [safe_intros]: "safe (execute_failed kn i rq rid b)"
  unfolding execute_failed_def by (intro safe_intros)

lemma safe_guarded [safe_intros]: "safe m \<Longrightarrow> safe (guarded kn kind rq rid m)"
  unfolding guarded_def by (cases kind; simp; intro safe_intros)

lemma safe_executed [safe_intros]: "safe (execute_answered kn kind rq rid answer)"
  unfolding execute_answered_def by (cases kind; cases answer; simp; intro safe_intros)

lemma safe_openings [safe_intros]:
  "safe (after_opening input s o')" "safe (opening_narrate kn input s)" "safe (finish_introduction i o')"
  unfolding after_opening_def opening_narrate_def finish_introduction_def by (intro safe_intros)+

lemma safe_start_opening [safe_intros]: "safe (start_opening kn input)"
  unfolding start_opening_def by (intro safe_intros)

lemma safe_opening_inspected [safe_intros]: "safe (opening_inspected kn input answer)"
  unfolding opening_inspected_def Let_def
  by (intro safe_intros)

lemma safe_introduce [safe_intros]: "safe (introduce kn i n k ms)"
  by (induction kn i n k ms rule: introduce.induct) (simp_all add: safe_intros)

lemma safe_after_segments [safe_intros]: "safe (after_segments kn kind after outcome)"
  unfolding after_segments_def by (cases kind; cases after; simp add: safe_intros)

lemma safe_narrated [safe_intros]: "safe (narration_answered kn kind job ok)"
proof -
  have "safe (segments_answered kn kind job ok)" unfolding segments_answered_def by (intro safe_intros)
  then show ?thesis unfolding narration_answered_def by (cases "nj_after job") (simp_all add: safe_guarded)
qed

lemma safe_answer: "answer_run kn ev kind a = Some m \<Longrightarrow> safe m"
  by (auto simp: answer_run_def safe_intros split: await.splits coordinator_event.splits run_kind.splits option.splits)

end
