(* ===== verification/Coordinator_Turns.thy ===== *)
theory Coordinator_Turns
  imports Coordinator_Frame
begin

text \<open>
  What holds of a running turn at each of its \<open>await\<close>s, and that every method takes one such point
  to the next or to a finished result: the turn's own events name their causes, a committed result
  is followed by the engine's exact output, and one interaction submits one request.
\<close>

named_theorems wp_intros \<open>weakest preconditions of the throwing, stateful methods\<close>

section \<open>Weakest preconditions\<close>

definition wp :: "('w, 'c, 'a) act \<Rightarrow> ('a \<Rightarrow> ('w, 'c) coordinator \<Rightarrow> bool) \<Rightarrow> (('w, 'c) coordinator \<Rightarrow> bool) \<Rightarrow>
    ('w, 'c) coordinator \<Rightarrow> bool" where
  "wp m Q E co = (case m co of (Inr x, co') \<Rightarrow> Q x co' | (Inl _, co') \<Rightarrow> E co')"

lemma wp_return [wp_intros]: "Q x co \<Longrightarrow> wp (returnA x) Q E co"
  by (simp add: wp_def returnA_def)

lemma wp_bind [wp_intros]: "wp m (\<lambda>x. wp (f x) Q E) E co \<Longrightarrow> wp (bindA m f) Q E co"
  by (auto simp: wp_def bindA_def split: prod.splits sum.splits)

lemma wp_catch [wp_intros]: "wp m Q (wp h Q E) co \<Longrightarrow> wp (catchA m h) Q E co"
  by (auto simp: wp_def catchA_def split: prod.splits sum.splits)

lemma wp_state [wp_intros]: "wp (f co) Q E co \<Longrightarrow> wp (stateA f) Q E co"
  by (simp add: wp_def stateA_def)

lemma wp_update: "Q () (f co) \<Longrightarrow> wp (updateA f) Q E co"
  by (simp add: wp_def updateA_def)

lemma wp_if [wp_intros]: "(b \<Longrightarrow> wp m Q E co) \<Longrightarrow> (\<not> b \<Longrightarrow> wp n Q E co) \<Longrightarrow> wp (if b then m else n) Q E co"
  by simp

lemma wp_mono: "wp m Q E co \<Longrightarrow> (\<And>x co'. Q x co' \<Longrightarrow> Q' x co') \<Longrightarrow> (\<And>co'. E co' \<Longrightarrow> E' co') \<Longrightarrow> wp m Q' E' co"
  by (auto simp: wp_def split: prod.splits sum.splits)

lemma wpD:
  assumes "wp m Q E co"
  shows "m co = (Inr x, co') \<Longrightarrow> Q x co'" and "m co = (Inl e, co') \<Longrightarrow> E co'"
  using assms by (auto simp: wp_def)

section \<open>A turn's own events\<close>

definition reqs :: "js \<Rightarrow> ('w, 'c) port_call list \<Rightarrow> execute_request set" where
  \<comment> \<open>the requests submitted to the engine for an interaction\<close>
  "reqs i calls = {rq. SubmitExecute i rq \<in> set calls}"

lemma reqs_append [simp]: "reqs i (xs @ ys) = reqs i xs \<union> reqs i ys"
  by (auto simp: reqs_def)

lemma reqs_single [simp]:
  "reqs i [] = {}" "reqs i [AskGuide g] = {}" "reqs i [InspectEngine] = {}" "reqs i [TakeSnapshot] = {}"
  "reqs i [PrepareNarration n] = {}" "reqs i [SubmitExecute j rq] = (if i = j then {rq} else {})"
  by (auto simp: reqs_def)

definition known :: "js \<Rightarrow> semantic_event list \<Rightarrow> bool" where
  "known c es \<longleftrightarrow> c \<noteq> [] \<and> c \<in> ev_id ` set es"

definition chained :: "js \<Rightarrow> semantic_event list \<Rightarrow> bool" where
  \<comment> \<open>one correlation, and every cause is an earlier event of the list\<close>
  "chained i es \<longleftrightarrow>
     (\<forall>k < length es. ev_correlationId (es ! k) = i \<and>
        (case ev_causationId (es ! k) of None \<Rightarrow> k = 0 | Some c \<Rightarrow> c \<in> ev_id ` set (take k es)))"

lemma chained_Nil [simp]: "chained i []"
  by (simp add: chained_def)

lemma chained_snoc:
  "chained i (es @ [e]) \<longleftrightarrow>
     chained i es \<and> ev_correlationId e = i \<and>
     (case ev_causationId e of None \<Rightarrow> es = [] | Some c \<Rightarrow> c \<in> ev_id ` set es)"
proof -
  have "(\<forall>k < Suc (length es). P k) \<longleftrightarrow> (\<forall>k < length es. P k) \<and> P (length es)" for P
    by (auto simp: less_Suc_eq)
  then show ?thesis by (simp add: chained_def nth_append split: option.splits)
qed

lemma known_snoc [simp]: "known c es \<Longrightarrow> known c (es @ [e])"
  by (simp add: known_def)

text \<open>The events of a committed result: the commit and the engine's exact output, and after them
  only that output is spoken.\<close>

definition speaks_only :: "execute_result \<Rightarrow> js \<Rightarrow> semantic_event \<Rightarrow> bool" where
  "speaks_only res outputId e \<longleftrightarrow>
     (\<forall>n role t s keep. ev_payload e = NarrationRequested n role t s keep \<longrightarrow>
        role = NarratorRole \<and> t = er_output res \<and> s = outputId)"

definition commit_shape :: "execute_result \<Rightarrow> js \<Rightarrow> semantic_event list \<Rightarrow> bool" where
  "commit_shape res outputId es \<longleftrightarrow>
     er_status res = Committed \<and>
     (\<exists>pre committed shown_output post. es = pre @ [committed, shown_output] @ post \<and>
        ev_payload committed = CommandCommitted (er_requestId res) (er_previousRevision res) (er_revision res)
          (er_command res) (er_boundary res) \<and>
        ev_payload shown_output = EngineOutput (er_revision res) (er_output res) (er_boundary res) LocalSave \<and>
        ev_causationId shown_output = Some (ev_id committed) \<and> ev_id shown_output = outputId \<and>
        list_all (speaks_only res outputId) post)"

lemma commit_shape_snoc: "commit_shape res oid es \<Longrightarrow> speaks_only res oid e \<Longrightarrow> commit_shape res oid (es @ [e])"
  unfolding commit_shape_def by (clarsimp, rename_tac pre c s post, rule_tac x = pre in exI) fastforce

section \<open>The invariant of a running turn\<close>

definition tinv :: "js \<Rightarrow> bool \<Rightarrow> execute_request set \<Rightarrow> ('w, 'c) port_call list \<Rightarrow> (semantic_event list \<Rightarrow> bool) \<Rightarrow>
    js set \<Rightarrow> ('w, 'c) coordinator \<Rightarrow> bool" where
  \<comment> \<open>\<open>g\<close>: the host was live when the method went on; \<open>xs\<close>: the calls made until then; \<open>K\<close>: events
     the method still refers to\<close>
  "tinv i g S xs J K co \<longleftrightarrow>
     sound co \<and> i \<noteq> [] \<and> chained i (co_local co) \<and> (\<forall>c \<in> K. known c (co_local co)) \<and>
     (\<forall>j. j \<noteq> i \<longrightarrow> reqs j (co_calls co) = reqs j xs) \<and> (g \<longrightarrow> reqs i (co_calls co) \<subseteq> S) \<and> J (co_local co)"

lemma tinv_weaken: "tinv i g S xs J K co \<Longrightarrow> K' \<subseteq> K \<Longrightarrow> S \<subseteq> S' \<Longrightarrow> (\<And>es. J es \<Longrightarrow> J' es) \<Longrightarrow> tinv i g S' xs J' K' co"
  by (auto simp: tinv_def)

lemma wp_emit:
  assumes "tinv i g S xs J K co"
    and "case c of None \<Rightarrow> co_local co = [] | Some c \<Rightarrow> c \<in> K"
    and "\<And>e co'. tinv i g S xs J (insert (ev_id e) K) co' \<Longrightarrow> co_local co' = co_local co @ [e] \<Longrightarrow>
          co_aborted co' = co_aborted co \<Longrightarrow> ev_payload e = p \<Longrightarrow> ev_causationId e = c \<Longrightarrow> Q e co'"
    and "\<And>co'. tinv i g S xs J K co' \<Longrightarrow> \<not> live co' \<Longrightarrow> co_aborted co' = co_aborted co \<Longrightarrow> E co'"
    and "\<And>e. ev_payload e = p \<Longrightarrow> J (co_local co @ [e])"
  shows "wp (emit_local kn i c v p) Q E co"
proof (rule emit_local_cases [of kn i c v p co])
  fix co'
  assume *: "emit_local kn i c v p co = (Inl SequenceError, co')" "frame co co'" "co_local co' = co_local co"
    "co_published co' = co_published co" "co_calls co' = co_calls co" "co_progress co' = co_progress co"
    "sound co \<Longrightarrow> i \<noteq> [] \<Longrightarrow> c \<noteq> Some [] \<Longrightarrow> \<not> live co'"
  have "c \<noteq> Some []" using assms(1,2) by (auto simp: tinv_def known_def)
  then have "\<not> live co'" using * assms(1) by (simp add: tinv_def)
  moreover have "tinv i g S xs J K co'" using assms(1) * by (simp add: tinv_def frame_def)
  moreover have "co_aborted co' = co_aborted co" using *(2) by (simp add: frame_def)
  ultimately show ?thesis using * assms(4) by (simp add: wp_def)
next
  fix e co'
  assume *: "emit_local kn i c v p co = (Inr e, co')" "frame co co'" "co_local co' = co_local co @ [e]"
    "co_published co' = co_published co @ [e]" "co_calls co' = co_calls co" "co_progress co' = co_progress co"
    "ev_payload e = p" "ev_correlationId e = i" "ev_causationId e = c" "sound co \<Longrightarrow> ev_id e \<noteq> []"
  have "chained i (co_local co @ [e])"
    using assms(1,2) *(8,9) by (auto simp: chained_snoc tinv_def known_def split: option.splits)
  moreover have "known (ev_id e) (co_local co @ [e])" using *(10) assms(1) by (simp add: known_def tinv_def)
  ultimately have "tinv i g S xs J (insert (ev_id e) K) co'"
    using assms(1) assms(5) [of e] *(2,3,5,7) by (simp add: tinv_def frame_def)
  moreover have "co_aborted co' = co_aborted co" using *(2) by (simp add: frame_def)
  ultimately show ?thesis using * assms(3) by (simp add: wp_def)
qed

lemma tinv_fields [simp]:
  "tinv i g S xs J K (co\<lparr>co_pendingIntent := x\<rparr>) = tinv i g S xs J K co"
  by (simp add: tinv_def sound_def)

lemma wp_call:
  assumes "tinv i g S xs J K co" "\<And>j. reqs j [call] = {}"
    and "\<And>co'. tinv i g S xs J K co' \<Longrightarrow> co_local co' = co_local co \<Longrightarrow> co_aborted co' = co_aborted co \<Longrightarrow> Q () co'"
  shows "wp (callA call) Q E co"
  unfolding callA_def
  by (rule wp_update, rule assms(3)) (use assms(1,2) in \<open>simp_all add: tinv_def sound_def\<close>)

lemma wp_submit:
  assumes "tinv i g S xs J K co"
    and "\<And>co'. tinv i g (insert rq S) xs J K co' \<Longrightarrow> co_local co' = co_local co \<Longrightarrow> co_aborted co' = co_aborted co \<Longrightarrow> Q () co'"
  shows "wp (callA (SubmitExecute i rq)) Q E co"
  unfolding callA_def
  by (rule wp_update, rule assms(2)) (use assms(1) in \<open>auto simp: tinv_def sound_def\<close>)

lemma wp_ids:
  assumes "tinv i g S xs J K co"
    and "\<And>x co'. tinv i g S xs J K co' \<Longrightarrow> co_local co' = co_local co \<Longrightarrow> co_aborted co' = co_aborted co \<Longrightarrow> Q x co'"
    and "\<And>co'. tinv i g S xs J K co' \<Longrightarrow> \<not> live co' \<Longrightarrow> co_aborted co' = co_aborted co \<Longrightarrow> E co'"
  shows "wp nextRequestId Q E co" and "wp nextNarrationId Q E co"
proof -
  have "tinv i g S xs J K (co\<lparr>co_requests := n\<rparr>)" "tinv i g S xs J K (co\<lparr>co_narrations := n\<rparr>)" for n
    using assms(1) by (simp_all add: tinv_def sound_def)
  moreover have "\<not> live (co\<lparr>co_requests := n\<rparr>)" if "requireId (co_requestIds co k) = Inl e" for k e n
    using that by (simp add: live_def healthy_host_def) (metis Inl_Inr_False)
  moreover have "\<not> live (co\<lparr>co_narrations := n\<rparr>)" if "requireId (co_narrationIds co k) = Inl e" for k e n
    using that by (simp add: live_def healthy_host_def) (metis Inl_Inr_False)
  ultimately show "wp nextRequestId Q E co" "wp nextNarrationId Q E co"
    using assms(2,3) by (auto simp: wp_def nextRequestId_def nextNarrationId_def split: sum.splits)
qed

lemma wp_result:
  assumes "\<And>r. r = \<lparr>tr_interactionId = i, tr_outcome = outcome, tr_events = co_local co, tr_engineResult = er,
      tr_checkpoint = cp\<rparr> \<Longrightarrow> Q r co"
  shows "wp (turn_resultA i outcome er cp) Q E co"
  using assms by (simp add: wp_def turn_resultA_def stateA_def returnA_def)

section \<open>The suspension points of a turn\<close>

fun turn_kind :: "run_kind \<Rightarrow> execute_request \<Rightarrow> bool" where \<comment> \<open>a new turn, or the recovery of this request\<close>
  "turn_kind (TurnRun _ _) rq \<longleftrightarrow> True"
| "turn_kind (RecoverRun _ _ _ rv) rq \<longleftrightarrow> rv_request rv = rq"
| "turn_kind _ rq \<longleftrightarrow> False"

fun new_turn :: "run_kind \<Rightarrow> bool" where
  "new_turn (TurnRun _ _) \<longleftrightarrow> True"
| "new_turn _ \<longleftrightarrow> False"

abbreviation anything :: "semantic_event list \<Rightarrow> bool" where
  "anything \<equiv> \<lambda>_. True"

fun await_ok :: "run_kind \<Rightarrow> bool \<Rightarrow> ('w, 'c) port_call list \<Rightarrow> await \<Rightarrow> ('w, 'c) coordinator \<Rightarrow> bool" where
  "await_ok kind g xs (AwaitGuide t) co \<longleftrightarrow> new_turn kind \<and> tinv (run_interaction kind) g {} xs anything {t} co"
| "await_ok kind g xs (AwaitState a _) co \<longleftrightarrow> new_turn kind \<and> tinv (run_interaction kind) g {} xs anything {a} co"
| "await_ok kind g xs (AwaitExecute rq rid) co \<longleftrightarrow>
     turn_kind kind rq \<and> tinv (run_interaction kind) g {rq} xs anything {rid} co"
| "await_ok kind g xs (AwaitSnapshot rq rid res oid) co \<longleftrightarrow>
     turn_kind kind rq \<and> tinv (run_interaction kind) g {rq} xs (commit_shape res oid) {rid, oid} co"
| "await_ok kind g xs AwaitOpeningState co \<longleftrightarrow> False"
| "await_ok kind g xs (AwaitNarration job) co \<longleftrightarrow>
     nj_rest job = [] \<and>
     (case nj_after job of
        AfterGuide outcome \<Rightarrow>
          new_turn kind \<and> outcome \<noteq> TurnCommitted \<and> outcome \<noteq> TurnUncertain \<and>
          tinv (run_interaction kind) g {} xs anything {nj_requestedId job} co
      | AfterClarify _ \<Rightarrow> new_turn kind \<and> tinv (run_interaction kind) g {} xs anything {nj_requestedId job} co
      | AfterEngine rq rid res _ \<Rightarrow>
          turn_kind kind rq \<and>
          tinv (run_interaction kind) g {rq} xs (commit_shape res (nj_sourceEventId job)) {rid, nj_requestedId job} co
      | _ \<Rightarrow> False)"

definition result_ok :: "js \<Rightarrow> turn_result \<Rightarrow> semantic_event list \<Rightarrow> bool" where
  "result_ok i r es \<longleftrightarrow>
     tr_interactionId r = i \<and> tr_events r = es \<and>
     (tr_outcome r = TurnCommitted \<longrightarrow> (\<exists>res oid. tr_engineResult r = Some res \<and> commit_shape res oid es))"

fun finish_ok :: "run_kind \<Rightarrow> bool \<Rightarrow> ('w, 'c) port_call list \<Rightarrow> finished \<Rightarrow> ('w, 'c) coordinator \<Rightarrow> bool" where
  "finish_ok (TurnRun input it) g xs (TurnFinished r None) co \<longleftrightarrow>
     result_ok (sb_interactionId input) r (co_local co) \<and> tr_outcome r \<noteq> TurnUncertain \<and>
     (\<exists>rq. tinv (sb_interactionId input) g {rq} xs anything {} co)"
| "finish_ok (TurnRun input it) g xs (TurnFinished r (Some rv)) co \<longleftrightarrow>
     result_ok (sb_interactionId input) r (co_local co) \<and> tr_outcome r = TurnUncertain \<and>
     tinv (sb_interactionId input) g {rv_request rv} xs anything {rv_requestedEventId rv} co"
| "finish_ok (RecoverRun i p stored rv) g xs (RecoveryDone r) co \<longleftrightarrow>
     result_ok i r (co_local co) \<and> tr_outcome r \<noteq> TurnUncertain \<and> tinv i g {rv_request rv} xs anything {} co"
| "finish_ok (RecoverRun i p stored rv) g xs (RecoveryKept r) co \<longleftrightarrow>
     r = stored \<and> tinv i g {rv_request rv} xs anything {} co"
| "finish_ok _ g xs _ co \<longleftrightarrow> False"

fun flow_ok :: "run_kind \<Rightarrow> bool \<Rightarrow> ('w, 'c) port_call list \<Rightarrow> flow \<Rightarrow> ('w, 'c) coordinator \<Rightarrow> bool" where
  "flow_ok kind g xs (Suspend a) co = await_ok kind g xs a co"
| "flow_ok kind g xs (Finish f) co = finish_ok kind g xs f co"

definition thrown :: "js \<Rightarrow> bool \<Rightarrow> execute_request set \<Rightarrow> ('w, 'c) port_call list \<Rightarrow> js set \<Rightarrow> ('w, 'c) coordinator \<Rightarrow> bool" where
  \<comment> \<open>a method throws only when the host no longer keeps its promises\<close>
  "thrown i g S xs K co \<longleftrightarrow> \<not> live co \<and> tinv i g S xs anything K co"

lemma thrownI: "tinv i g S xs J K' co \<Longrightarrow> \<not> live co \<Longrightarrow> K \<subseteq> K' \<Longrightarrow> thrown i g S xs K co"
  by (auto simp: thrown_def tinv_def)

lemma new_turn_finish:
  assumes "new_turn kind" "tinv (run_interaction kind) g S xs J K co" "S \<subseteq> {rq}" "outcome \<noteq> TurnCommitted" "outcome \<noteq> TurnUncertain"
  shows "wp (finish_turn (run_interaction kind) outcome) (flow_ok kind g xs) E co"
proof -
  have "tinv (run_interaction kind) g {rq} xs anything {} co" using assms(2,3) by (auto intro: tinv_weaken)
  with assms(1,4,5) show ?thesis
    unfolding finish_turn_def by (cases kind) (auto intro!: wp_intros wp_result simp: result_ok_def)
qed

section \<open>Narrating\<close>

fun silent :: "payload \<Rightarrow> bool" where
  "silent (NarrationRequested _ _ _ _ _) \<longleftrightarrow> False"
| "silent _ \<longleftrightarrow> True"

definition narrates :: "(semantic_event list \<Rightarrow> bool) \<Rightarrow> bool" where
  \<comment> \<open>events that request no narration keep the property\<close>
  "narrates J \<longleftrightarrow> (\<forall>es e. J es \<longrightarrow> silent (ev_payload e) \<longrightarrow> J (es @ [e]))"

lemma narrates_intros [simp, intro]: "narrates anything" "narrates (commit_shape res oid)"
  by (auto simp: narrates_def speaks_only_def intro!: commit_shape_snoc)

lemma narratesD: "narrates J \<Longrightarrow> J es \<Longrightarrow> silent (ev_payload e) \<Longrightarrow> J (es @ [e])"
  by (simp add: narrates_def)

lemma tinv_local: "tinv i g S xs J K co \<Longrightarrow> J (co_local co)"
  by (simp add: tinv_def)

lemma wp_emit_quiet:
  assumes "tinv i g S xs J K co" "narrates J" "silent p"
    and "c \<in> K"
    and "\<And>e co'. tinv i g S xs J (insert (ev_id e) K) co' \<Longrightarrow> co_aborted co' = co_aborted co \<Longrightarrow> Q e co'"
    and "\<And>co'. tinv i g S xs J K co' \<Longrightarrow> \<not> live co' \<Longrightarrow> co_aborted co' = co_aborted co \<Longrightarrow> E co'"
  shows "wp (emit_local kn i (Some c) v p) Q E co"
  by (rule wp_emit [OF assms(1)]) (use assms narratesD [OF assms(2) tinv_local [OF assms(1)]] in auto)

lemma wp_segment_failed:
  assumes "tinv i g S xs J K co" "narrates J" "nj_requestedId job \<in> K"
  shows "wp (segment_failed kn i job) (\<lambda>_. tinv i g S xs J K) (\<lambda>co'. tinv i g S xs J K co' \<and> \<not> live co') co"
  unfolding segment_failed_def
proof (intro wp_intros)
  show "wp (emit_local kn i (Some (nj_requestedId job)) Accessible
      (NarrationCancelled (nj_narrationId job) (nj_role job) PlayerCancelled))
     (\<lambda>x. wp (returnA PreparedCancelled) (\<lambda>_. tinv i g S xs J K) (\<lambda>co'. tinv i g S xs J K co' \<and> \<not> live co'))
     (\<lambda>co'. tinv i g S xs J K co' \<and> \<not> live co') co"
    using assms(3) by (intro wp_emit_quiet [OF assms(1,2)] wp_intros) (auto intro: tinv_weaken)
  show "wp (emit_local kn i (Some (nj_requestedId job)) Accessible (NarrationFailed (nj_narrationId job) (nj_role job)))
     (\<lambda>x. wp (bindA (emit_local kn i (Some (ev_id x)) Accessible
             (SystemError StageNarration (js ''narration-failed'') True (if nj_confirmed job then Confirmed else NotSubmitted)))
           (\<lambda>_. returnA PreparedFailed)) (\<lambda>_. tinv i g S xs J K) (\<lambda>co'. tinv i g S xs J K co' \<and> \<not> live co'))
     (\<lambda>co'. tinv i g S xs J K co' \<and> \<not> live co') co"
  proof (rule wp_emit_quiet [OF assms(1,2) _ assms(3)])
    fix e co' assume t: "tinv i g S xs J (insert (ev_id e) K) co'"
    show "wp (bindA (emit_local kn i (Some (ev_id e)) Accessible
             (SystemError StageNarration (js ''narration-failed'') True (if nj_confirmed job then Confirmed else NotSubmitted)))
           (\<lambda>_. returnA PreparedFailed)) (\<lambda>_. tinv i g S xs J K) (\<lambda>co'. tinv i g S xs J K co' \<and> \<not> live co') co'"
      by (intro wp_intros wp_emit_quiet [OF t assms(2)]) (auto intro: tinv_weaken)
  qed (auto intro: tinv_weaken)
qed

definition narrating ::
  "js \<Rightarrow> bool \<Rightarrow> execute_request set \<Rightarrow> ('w, 'c) port_call list \<Rightarrow> (semantic_event list \<Rightarrow> bool) \<Rightarrow> js set \<Rightarrow> js \<Rightarrow>
     after_narration \<Rightarrow> prepared \<Rightarrow> ('w, 'c) coordinator \<Rightarrow> bool" where
  "narrating i g S xs J K source after p co \<longleftrightarrow>
     (case p of
        Waiting job \<Rightarrow>
          tinv i g S xs J (insert (nj_requestedId job) K) co \<and> nj_rest job = [] \<and> nj_after job = after \<and>
          nj_sourceEventId job = source
      | Settled _ \<Rightarrow> tinv i g S xs J K co)"

lemma wp_prepare:
  assumes "tinv i g S xs J (insert (nj_requestedId job) K) co" "narrates J"
    and "nj_rest job = []" "nj_after job = after" "nj_sourceEventId job = source"
  shows "wp (bindA (callA (PrepareNarration request)) (\<lambda>_.
      stateA (\<lambda>co. if co_aborted co then bindA (segment_failed kn i job) (\<lambda>outcome. returnA (Settled outcome))
        else returnA (Waiting job)))) (narrating i g S xs J K source after) (\<lambda>co'. tinv i g S xs J K co' \<and> \<not> live co') co"
proof (rule wp_bind, rule wp_call [OF assms(1)])
  fix co' assume t: "tinv i g S xs J (insert (nj_requestedId job) K) co'"
  show "wp (stateA (\<lambda>co. if co_aborted co then bindA (segment_failed kn i job) (\<lambda>outcome. returnA (Settled outcome))
        else returnA (Waiting job))) (narrating i g S xs J K source after) (\<lambda>co'. tinv i g S xs J K co' \<and> \<not> live co') co'"
    by (intro wp_intros wp_mono [OF wp_segment_failed [OF t assms(2)]])
      (use t assms(3-5) in \<open>auto simp: narrating_def intro: tinv_weaken wp_return\<close>)
qed simp

lemma wp_narrate:
  assumes inv: "tinv i g S xs J K co" "narrates J" "source \<in> K"
    and speak: "\<And>es e n k. J es \<Longrightarrow> ev_payload e = NarrationRequested n role content source k \<Longrightarrow> J (es @ [e])"
  shows "wp (narrate kn i role content source conf False after) (narrating i g S xs J K source after)
    (\<lambda>co'. tinv i g S xs J K co' \<and> \<not> live co') co"
proof (cases "trim content = []")
  case True
  with inv show ?thesis by (simp add: narrate_def narrating_def wp_intros)
next
  case False
  have "wp (begin_segment kn i role source conf content [] after) (narrating i g S xs J K source after)
      (\<lambda>co'. tinv i g S xs J K co' \<and> \<not> live co') co"
    unfolding begin_segment_def Let_def
    by (rule wp_bind, rule wp_ids(2) [OF inv(1)], rule wp_bind, rule wp_emit, assumption)
      (use inv speak [OF tinv_local [OF inv(1)]] in \<open>auto intro: wp_prepare tinv_weaken\<close>)
  with False show ?thesis by (simp add: narrate_def)
qed

lemma wp_narrate_turn:
  assumes "tinv (run_interaction kind) g S xs J K co" "narrates J" "source \<in> K"
    and "\<And>es e n k. J es \<Longrightarrow> ev_payload e = NarrationRequested n role content source k \<Longrightarrow> J (es @ [e])"
    and "\<And>co'. tinv (run_interaction kind) g S xs J K co' \<Longrightarrow> wp (after_turn kind after) Q E co'"
    and "\<And>job co'. narrating (run_interaction kind) g S xs J K source after (Waiting job) co' \<Longrightarrow> Q (Suspend (AwaitNarration job)) co'"
    and "\<And>co'. tinv (run_interaction kind) g S xs J K co' \<Longrightarrow> \<not> live co' \<Longrightarrow> E co'"
  shows "wp (narrate_turn kn kind role content source after) Q E co"
  unfolding narrate_turn_def
proof (rule wp_bind, rule wp_mono [OF wp_narrate [OF assms(1-4)]])
  fix p co' assume n: "narrating (run_interaction kind) g S xs J K source after p co'"
  then show "wp (case p of Waiting job \<Rightarrow> returnA (Suspend (AwaitNarration job)) | Settled _ \<Rightarrow> after_turn kind after) Q E co'"
    using assms(5,6) by (cases p) (auto simp: narrating_def intro: wp_return)
qed (use assms(7) in auto)

lemma wp_settle_segment:
  assumes "tinv i g S xs J K co" "narrates J" "nj_requestedId job \<in> K" "nj_rest job = []"
  shows "wp (settle_segment kn i job ok) (\<lambda>p co'. (\<exists>o'. p = Settled o') \<and> tinv i g S xs J K co')
    (\<lambda>co'. tinv i g S xs J K co' \<and> \<not> live co') co"
proof -
  have fail: "wp (segment_failed kn i job) (\<lambda>x. wp (if x \<noteq> PreparedReady then returnA (Settled x) else returnA (Settled PreparedReady))
        (\<lambda>p co'. (\<exists>o'. p = Settled o') \<and> tinv i g S xs J K co') (\<lambda>co'. tinv i g S xs J K co' \<and> \<not> live co'))
      (\<lambda>co'. tinv i g S xs J K co' \<and> \<not> live co') co'" if "tinv i g S xs J K co'" for co'
    by (rule wp_mono [OF wp_segment_failed [OF that assms(2,3)]]) (auto intro: wp_intros)
  show ?thesis
    unfolding settle_segment_def assms(4) list.case
  proof (rule wp_bind, rule wp_if)
    show "wp (catchA (bindA (emit_local kn i (Some (nj_requestedId job)) Debug (NarrationReady (nj_narrationId job) (nj_role job)))
           (\<lambda>_. returnA PreparedReady)) (segment_failed kn i job))
        (\<lambda>x. wp (if x \<noteq> PreparedReady then returnA (Settled x) else returnA (Settled PreparedReady))
          (\<lambda>p co'. (\<exists>o'. p = Settled o') \<and> tinv i g S xs J K co') (\<lambda>co'. tinv i g S xs J K co' \<and> \<not> live co'))
        (\<lambda>co'. tinv i g S xs J K co' \<and> \<not> live co') co"
      by (intro wp_catch wp_bind wp_emit_quiet [OF assms(1,2) _ assms(3)] wp_return fail)
        (auto intro: wp_intros tinv_weaken)
  qed (rule fail [OF assms(1)])
qed

section \<open>Before the engine\<close>

abbreviation unhealthy :: "('w, 'c) coordinator \<Rightarrow> bool" where
  "unhealthy \<equiv> \<lambda>co. \<not> live co"

lemma wp_after_guide:
  assumes "tinv (run_interaction kind) g {} xs anything K co" "new_turn kind" "outcome \<noteq> TurnCommitted" "outcome \<noteq> TurnUncertain"
  shows "wp (after_turn kind (AfterGuide outcome)) (flow_ok kind g xs) E co"
    and "wp (after_turn kind (AfterClarify intent)) (flow_ok kind g xs) E co"
  unfolding after_turn_def after_narration.case
  by (rule new_turn_finish [OF assms(2,1) _ assms(3,4)], simp)
    (rule wp_bind, rule wp_update, rule new_turn_finish [OF assms(2), where S = "{}" and J = anything and K = K]; use assms(1) in simp)

lemma wp_guide_narrates:
  assumes "tinv (run_interaction kind) g {} xs anything K co" "source \<in> K" "new_turn kind"
    and "outcome \<noteq> TurnCommitted" "outcome \<noteq> TurnUncertain" and "after = AfterGuide outcome \<or> after = AfterClarify intent"
  shows "wp (narrate_turn kn kind role content source after) (flow_ok kind g xs) unhealthy co"
proof (rule wp_narrate_turn [OF assms(1) _ assms(2)])
  fix job co' assume "narrating (run_interaction kind) g {} xs anything K source after (Waiting job) co'"
  then show "flow_ok kind g xs (Suspend (AwaitNarration job)) co'"
    using assms(3-6) by (auto simp: narrating_def intro: tinv_weaken)
qed (use assms wp_after_guide [OF _ assms(3-5)] in auto)

lemma wp_guide_failed:
  assumes "tinv (run_interaction kind) g {} xs anything K co" "tid \<in> K" "new_turn kind"
  shows "wp (guide_failed kn (run_interaction kind) tid) (flow_ok kind g xs) unhealthy co"
  unfolding guide_failed_def
  by (intro wp_intros wp_emit_quiet [OF assms(1)])
    (use assms in \<open>auto intro!: new_turn_finish [OF assms(3), where S = "{}"]\<close>)

lemma wp_cancelled:
  assumes "tinv (run_interaction kind) g {} xs anything K co" "aid \<in> K" "new_turn kind"
  shows "wp (cancelled_before_submit kn (run_interaction kind) aid) (flow_ok kind g xs) unhealthy co"
  unfolding cancelled_before_submit_def
  by (intro wp_intros wp_emit_quiet [OF assms(1)])
    (use assms in \<open>auto intro!: new_turn_finish [OF assms(3), where S = "{}"]\<close>)

lemma wp_start_turn:
  assumes "tinv (sb_interactionId input) g {} xs anything {} co" "co_local co = []"
  shows "wp (start_turn kn input intent) (flow_ok (TurnRun input intent) g xs) unhealthy co"
proof -
  let ?kind = "TurnRun input intent"
  have failed: "wp (guide_failed kn (sb_interactionId input) (ev_id e)) (flow_ok ?kind g xs) unhealthy co'"
    if "tinv (sb_interactionId input) g {} xs anything {ev_id e} co'" for e co'
    using wp_guide_failed [of ?kind g xs "{ev_id e}" co' "ev_id e" kn] that by simp
  show ?thesis
    unfolding start_turn_def Let_def
    by (rule wp_bind, rule wp_emit [OF assms(1)], simp add: assms(2), rule wp_bind, rule wp_state, rule wp_call, assumption,
        simp, intro wp_intros failed) (auto intro: wp_return)
qed

lemma wp_decision_refused:
  assumes "tinv (run_interaction kind) g {} xs anything K co" "pid \<in> K" "new_turn kind"
    and "outcome \<noteq> TurnCommitted" "outcome \<noteq> TurnUncertain"
  shows "wp (decision_refused kn kind pid cause d resp reason outcome) (flow_ok kind g xs) unhealthy co"
  unfolding decision_refused_def Let_def
  by (rule wp_bind, rule wp_emit_quiet [OF assms(1)], simp, simp, rule assms(2), rule wp_bind, rule wp_emit_quiet, assumption)
    (auto intro: wp_guide_narrates [OF _ _ assms(3-5)])

lemma wp_turn_decided:
  assumes "tinv (sb_interactionId input) g {} xs anything {tid} co"
  shows "wp (turn_decided kn input intent tid answer) (flow_ok (TurnRun input intent) g xs) unhealthy co"
proof -
  let ?kind = "TurnRun input intent" and ?i = "sb_interactionId input"
  have narrates: "wp (narrate_turn kn ?kind role content source after) (flow_ok ?kind g xs) unhealthy co'"
    if "tinv ?i g {} xs anything K co'" "source \<in> K" "after = AfterGuide TurnExplained \<or> after = AfterClarify it" for role content source after it co' K
    using wp_guide_narrates [of ?kind g xs K co' source TurnExplained after it] that by simp
  have refused: "wp (decision_refused kn ?kind pid cause d resp reason outcome) (flow_ok ?kind g xs) unhealthy co'"
    if "tinv ?i g {} xs anything K co'" "pid \<in> K" "outcome = TurnRejected \<or> outcome = TurnFailed" for pid cause d resp reason outcome co' K
    using wp_decision_refused [of ?kind g xs K co' pid outcome] that by auto
  have cancelled: "wp (cancelled_before_submit kn ?i aid) (flow_ok ?kind g xs) unhealthy co'"
    if "tinv ?i g {} xs anything K co'" "aid \<in> K" for aid co' K
    using wp_cancelled [of ?kind g xs K co' aid] that by simp
  show ?thesis
    by (cases answer; simp only: turn_decided_def Let_def guide_result.case)
      (intro wp_intros wp_emit_quiet [OF assms] wp_update | rule wp_emit_quiet, (assumption | simp)
       | rule refused, (assumption | simp) | rule narrates, (assumption | simp) | rule cancelled, (assumption | simp)
       | rule wp_call, (assumption | simp) | (auto intro: tinv_weaken)[1])+
qed

section \<open>The engine's result\<close>

lemma wp_state_inspected:
  assumes "tinv (run_interaction kind) g {} xs anything K co" "aid \<in> K" "new_turn kind"
  shows "wp (state_inspected kn (run_interaction kind) aid command answer) (flow_ok kind g xs) unhealthy co"
proof (cases answer)
  case None
  show ?thesis
    unfolding state_inspected_def None option.case
    by (intro wp_intros wp_emit_quiet [OF assms(1)])
      (use assms in \<open>auto intro!: new_turn_finish [OF assms(3), where S = "{}"]\<close>)
next
  case (Some state)
  have "turn_kind kind rq" for rq using assms(3) by (cases kind) simp_all
  then show ?thesis
    unfolding state_inspected_def Some option.case Let_def
    by (intro wp_intros wp_cancelled [OF assms] wp_ids(1) [OF assms(1)])
      (rule wp_emit_quiet, assumption, simp, simp, rule assms(2), rule wp_bind, rule wp_submit, assumption,
       auto intro!: wp_return intro: tinv_weaken)
qed

lemma wp_engine_done:
  assumes "tinv (run_interaction kind) g {rq} xs anything K co" "turn_kind kind rq"
    and "outcome \<noteq> TurnUncertain" "outcome = TurnCommitted \<Longrightarrow> \<exists>res oid. er = Some res \<and> commit_shape res oid (co_local co)"
  shows "wp (bindA (turn_resultA (run_interaction kind) outcome er cp) (\<lambda>r.
      returnA (Finish (case kind of RecoverRun _ _ _ _ \<Rightarrow> RecoveryDone r | _ \<Rightarrow> TurnFinished r None)))) (flow_ok kind g xs) E co"
proof -
  have "tinv (run_interaction kind) g {rq} xs anything {} co" using assms(1) by (auto intro: tinv_weaken)
  with assms(2-4) show ?thesis
    by (cases kind) (auto intro!: wp_bind wp_result wp_return simp: result_ok_def)
qed

lemma wp_after_engine:
  assumes "tinv (run_interaction kind) g {rq} xs (commit_shape res oid) K co" "turn_kind kind rq"
  shows "wp (after_turn kind (AfterEngine rq rid res cp)) (flow_ok kind g xs) E co"
  unfolding after_turn_def after_narration.case
  by (rule wp_engine_done [OF _ assms(2)]) (use assms(1) tinv_local [OF assms(1)] in \<open>auto intro: tinv_weaken\<close>)

lemma wp_finishEngineResult:
  assumes "tinv (run_interaction kind) g {rq} xs anything K co" "rid \<in> K" "cid \<in> K" "turn_kind kind rq"
  shows "wp (finishEngineResult kn kind cid rid rq res) (flow_ok kind g xs) (thrown (run_interaction kind) g {rq} xs {rid}) co"
proof (cases "er_status res")
  case (Rejected r)
  have t: "tinv (run_interaction kind) g {rq} xs anything K (co\<lparr>co_pendingIntent := None\<rparr>)" using assms(1) by simp
  show ?thesis
    unfolding finishEngineResult_def Let_def Rejected status.case
    by (rule wp_bind, rule wp_update, rule wp_bind, rule wp_emit_quiet [OF t], simp, simp, rule assms(3),
        rule wp_engine_done [OF _ assms(4)]) (use assms in \<open>auto intro: thrownI\<close>)
next
  case Committed
  have shape: "commit_shape res (ev_id e') ((es @ [e]) @ [e'])"
    if "ev_payload e = CommandCommitted (er_requestId res) (er_previousRevision res) (er_revision res) (er_command res) (er_boundary res)"
      "ev_payload e' = EngineOutput (er_revision res) (er_output res) (er_boundary res) LocalSave" "ev_causationId e' = Some (ev_id e)"
    for es e e'
    unfolding commit_shape_def using that Committed
    by (intro conjI, simp, intro exI [of _ es] exI [of _ e] exI [of _ e'] exI [of _ "[]"]) simp
  show ?thesis
    unfolding finishEngineResult_def Let_def Committed status.case
  proof (rule wp_bind, rule wp_update, rule wp_bind, rule wp_emit [where K = K])
    fix e co1
    assume 1: "tinv (run_interaction kind) g {rq} xs anything (insert (ev_id e) K) co1"
      "co_local co1 = co_local (co\<lparr>co_pendingIntent := None\<rparr>) @ [e]"
      "ev_payload e = CommandCommitted (er_requestId res) (er_previousRevision res) (er_revision res) (er_command res) (er_boundary res)"
    show "wp (bindA (emit_local kn (run_interaction kind) (Some (ev_id e)) Accessible
          (EngineOutput (er_revision res) (er_output res) (er_boundary res) LocalSave))
        (\<lambda>output_event. bindA (callA TakeSnapshot) (\<lambda>_. returnA (Suspend (AwaitSnapshot rq rid res (ev_id output_event))))))
      (flow_ok kind g xs) (thrown (run_interaction kind) g {rq} xs {rid}) co1"
    proof (rule wp_bind, rule wp_emit [OF 1(1)])
      fix e' co2
      assume 2: "tinv (run_interaction kind) g {rq} xs anything (insert (ev_id e') (insert (ev_id e) K)) co2"
        "co_local co2 = co_local co1 @ [e']" "ev_causationId e' = Some (ev_id e)"
        "ev_payload e' = EngineOutput (er_revision res) (er_output res) (er_boundary res) LocalSave"
      have "tinv (run_interaction kind) g {rq} xs (commit_shape res (ev_id e')) {rid, ev_id e'} co2"
        using 2 1 shape assms(2) by (simp add: tinv_def)
      then show "wp (bindA (callA TakeSnapshot) (\<lambda>_. returnA (Suspend (AwaitSnapshot rq rid res (ev_id e')))))
          (flow_ok kind g xs) (thrown (run_interaction kind) g {rq} xs {rid}) co2"
        by (rule wp_bind [OF wp_call]) (use assms(4) in \<open>auto intro!: wp_return\<close>)
    qed (use assms(2) in \<open>auto intro: thrownI\<close>)
  qed (use assms in \<open>auto intro: thrownI\<close>)
qed

lemma wp_checkpoint_failed:
  assumes "tinv i g S xs J K co" "narrates J" "oid \<in> K"
  shows "wp (checkpoint_failed kn i res oid) (\<lambda>_. tinv i g S xs J K) (\<lambda>co'. tinv i g S xs J K co' \<and> \<not> live co') co"
  unfolding checkpoint_failed_def
  by (rule wp_bind, rule wp_emit_quiet [OF assms(1,2)], simp, rule assms(3), rule wp_bind, rule wp_emit_quiet, assumption)
    (use assms in \<open>auto intro!: wp_return intro: tinv_weaken\<close>)

lemma wp_execute_failed:
  assumes "tinv (sb_interactionId input) g {rq} xs anything K co" "rid \<in> K"
  shows "wp (execute_failed kn (sb_interactionId input) rq rid b) (flow_ok (TurnRun input intent) g xs) unhealthy co"
proof -
  have fin: "wp (finish_turn (sb_interactionId input) TurnCancelled) (flow_ok (TurnRun input intent) g xs) unhealthy co'"
    if "tinv (sb_interactionId input) g {rq} xs anything K' co'" for K' co'
    using new_turn_finish [of "TurnRun input intent" g "{rq}" xs anything K' co' rq TurnCancelled unhealthy] that by simp
  show ?thesis
    unfolding execute_failed_def
    by (rule wp_bind, rule wp_emit_quiet [OF assms(1)])
      (use assms in \<open>auto intro!: wp_intros wp_result fin simp: result_ok_def intro: tinv_weaken\<close>)
qed

lemma wp_guarded:
  assumes "wp m (flow_ok kind g xs) (thrown (run_interaction kind) g {rq} xs {rid}) co" "turn_kind kind rq"
  shows "wp (guarded kn kind rq rid m) (flow_ok kind g xs) unhealthy co"
proof (cases "\<exists>input intent. kind = TurnRun input intent")
  case True
  then obtain input intent where k: "kind = TurnRun input intent" by blast
  have "wp (execute_failed kn (sb_interactionId input) rq rid False) (flow_ok kind g xs) unhealthy co'"
    if "thrown (run_interaction kind) g {rq} xs {rid} co'" for co'
    using that wp_execute_failed [of input g rq xs "{rid}" co' rid kn False intent] by (simp add: thrown_def k)
  then have "wp (catchA m (execute_failed kn (sb_interactionId input) rq rid False)) (flow_ok kind g xs) unhealthy co"
    by (intro wp_catch wp_mono [OF assms(1)])
  then show ?thesis by (simp add: guarded_def k)
next
  case False
  then have "guarded kn kind rq rid m = m" by (cases kind) (auto simp: guarded_def)
  then show ?thesis using wp_mono [OF assms(1)] by (auto simp: thrown_def)
qed

lemma wp_snapshot_taken:
  assumes "tinv (run_interaction kind) g {rq} xs (commit_shape res oid) K co" "rid \<in> K" "oid \<in> K" "turn_kind kind rq"
  shows "wp (snapshot_taken kn kind rq rid res oid cp) (flow_ok kind g xs) (thrown (run_interaction kind) g {rq} xs {rid}) co"
proof -
  let ?i = "run_interaction kind" and ?J = "commit_shape res oid"
  have thrown: "thrown ?i g {rq} xs {rid} co'" if "tinv ?i g {rq} xs ?J K' co'" "\<not> live co'" "rid \<in> K'" for co' K'
    using that by (auto intro: thrownI)
  have checkpoint: "wp (case cp of
           None \<Rightarrow> checkpoint_failed kn ?i res oid
         | Some sn \<Rightarrow>
             catchA
               (bindA (emit_local kn ?i (Some oid) Internal
                         (SaveCheckpointed (sn_revision sn) (sn_sha256 sn) (length (sn_bytes sn)))) (\<lambda>_. returnA ()))
               (checkpoint_failed kn ?i res oid))
      (\<lambda>_. tinv ?i g {rq} xs ?J K) (\<lambda>co'. tinv ?i g {rq} xs ?J K co' \<and> \<not> live co') co"
  proof (cases cp)
    case (Some sn)
    show ?thesis
      unfolding Some option.case
      by (rule wp_catch, rule wp_bind, rule wp_emit_quiet [OF assms(1)])
        (use assms in \<open>auto intro!: wp_return wp_checkpoint_failed intro: tinv_weaken\<close>)
  qed (use wp_checkpoint_failed [OF assms(1) _ assms(3)] in simp)
  have rest: "wp (stateA (\<lambda>co.
        if co_aborted co then
          bindA nextNarrationId (\<lambda>narrationId.
          bindA (emit_local kn ?i (Some oid) Accessible (NarrationCancelled narrationId NarratorRole PlayerCancelled)) (\<lambda>_.
          after_turn kind (AfterEngine rq rid res cp)))
        else narrate_turn kn kind NarratorRole (er_output res) oid (AfterEngine rq rid res cp)))
      (flow_ok kind g xs) (thrown ?i g {rq} xs {rid}) co'" if t: "tinv ?i g {rq} xs ?J K co'" for co'
  proof (rule wp_state, rule wp_if)
    show "wp (bindA nextNarrationId (\<lambda>narrationId.
          bindA (emit_local kn ?i (Some oid) Accessible (NarrationCancelled narrationId NarratorRole PlayerCancelled)) (\<lambda>_.
          after_turn kind (AfterEngine rq rid res cp)))) (flow_ok kind g xs) (thrown ?i g {rq} xs {rid}) co'"
      by (rule wp_bind, rule wp_ids(2) [OF t], rule wp_bind, rule wp_emit_quiet, assumption)
        (use assms thrown in \<open>auto intro!: wp_after_engine [OF _ assms(4)]\<close>)
    show "wp (narrate_turn kn kind NarratorRole (er_output res) oid (AfterEngine rq rid res cp)) (flow_ok kind g xs)
        (thrown ?i g {rq} xs {rid}) co'"
      by (rule wp_narrate_turn [OF t])
        (use assms thrown in \<open>auto intro!: wp_after_engine [OF _ assms(4)] commit_shape_snoc simp: speaks_only_def narrating_def intro: tinv_weaken\<close>)
  qed
  show ?thesis
    unfolding snapshot_taken_def Let_def
    by (rule wp_bind, rule wp_mono [OF checkpoint]) (use rest thrown assms(2) in auto)
qed

lemma wp_execute_answered:
  assumes "await_ok kind g xs (AwaitExecute rq rid) co"
  shows "wp (execute_answered kn kind rq rid answer) (flow_ok kind g xs) unhealthy co"
proof (cases kind)
  case (TurnRun input intent)
  show ?thesis
  proof (cases answer)
    case (Inl b)
    then show ?thesis
      using assms wp_execute_failed [of input g rq xs "{rid}" co rid kn b intent] by (simp add: execute_answered_def TurnRun)
  next
    case (Inr res)
    have "wp (finishEngineResult kn kind rid rid rq res) (flow_ok kind g xs) (thrown (run_interaction kind) g {rq} xs {rid}) co"
      using assms by (intro wp_finishEngineResult) auto
    from wp_guarded [OF this] assms show ?thesis by (simp add: execute_answered_def TurnRun Inr)
  qed
next
  case (RecoverRun i print stored rv)
  then have t: "tinv i g {rq} xs anything {rid} co" and rq: "rv_request rv = rq" using assms by auto
  show ?thesis
  proof (cases answer)
    case (Inl b)
    with t rq show ?thesis by (auto simp: execute_answered_def RecoverRun intro!: wp_return intro: tinv_weaken)
  next
    case (Inr res)
    have "wp (finishEngineResult kn kind (ev_id e) rid rq res) (flow_ok kind g xs) unhealthy co'"
      if "tinv i g {rq} xs anything (insert (ev_id e) {rid}) co'" for e co'
      by (rule wp_mono [OF wp_finishEngineResult [where K = "insert (ev_id e) {rid}" and rid = rid and g = g and xs = xs]])
        (use that rq in \<open>auto simp: RecoverRun thrown_def\<close>)
    then show ?thesis
      unfolding execute_answered_def RecoverRun run_kind.case Inr sum.case
      by (intro wp_bind wp_emit_quiet [OF t]) (auto simp: RecoverRun)
  qed
qed (use assms in auto)

lemma wp_segments_answered:
  assumes "tinv (run_interaction kind) g S xs J K co" "narrates J" "nj_requestedId job \<in> K" "nj_rest job = []" "turn_kind kind rq"
    and "\<And>co'. tinv (run_interaction kind) g S xs J K co' \<Longrightarrow> wp (after_turn kind (nj_after job)) (flow_ok kind g xs) E co'"
    and "\<And>co'. tinv (run_interaction kind) g S xs J K co' \<Longrightarrow> \<not> live co' \<Longrightarrow> E co'"
  shows "wp (segments_answered kn kind job ok) (flow_ok kind g xs) E co"
proof -
  have "after_segments kn kind (nj_after job) outcome = after_turn kind (nj_after job)" for outcome
    using assms(5) by (cases kind) (simp_all add: after_segments_def)
  then show ?thesis
    unfolding segments_answered_def
    by (intro wp_bind wp_mono [OF wp_settle_segment [OF assms(1-4)]]) (use assms(6,7) in auto)
qed

lemma wp_narration_answered:
  assumes "await_ok kind g xs (AwaitNarration job) co"
  shows "wp (narration_answered kn kind job ok) (flow_ok kind g xs) unhealthy co"
proof -
  let ?i = "run_interaction kind"
  have turn: "new_turn kind \<Longrightarrow> turn_kind kind rq" for rq by (cases kind) auto
  have rest: "nj_rest job = []" using assms by simp
  show ?thesis
  proof (cases "nj_after job")
    case (AfterGuide outcome)
    then have t: "tinv ?i g {} xs anything {nj_requestedId job} co" "new_turn kind" "outcome \<noteq> TurnCommitted" "outcome \<noteq> TurnUncertain"
      using assms by auto
    have "wp (segments_answered kn kind job ok) (flow_ok kind g xs) unhealthy co"
      by (rule wp_segments_answered [OF t(1) _ _ rest turn [OF t(2)]])
        (use wp_after_guide(1) [OF _ t(2-4)] AfterGuide in auto)
    then show ?thesis by (simp add: narration_answered_def AfterGuide)
  next
    case (AfterClarify intent)
    then have t: "tinv ?i g {} xs anything {nj_requestedId job} co" "new_turn kind" using assms by auto
    have "wp (segments_answered kn kind job ok) (flow_ok kind g xs) unhealthy co"
      by (rule wp_segments_answered [OF t(1) _ _ rest turn [OF t(2)]])
        (use wp_after_guide(2) [OF _ t(2), of g xs _ _ TurnExplained] AfterClarify in auto)
    then show ?thesis by (simp add: narration_answered_def AfterClarify)
  next
    case (AfterEngine rq rid res cp)
    let ?J = "commit_shape res (nj_sourceEventId job)"
    have t: "tinv ?i g {rq} xs ?J {rid, nj_requestedId job} co" "turn_kind kind rq" using assms AfterEngine by auto
    have "wp (segments_answered kn kind job ok) (flow_ok kind g xs) (thrown ?i g {rq} xs {rid}) co"
      by (rule wp_segments_answered [OF t(1) _ _ rest t(2)])
        (use wp_after_engine [OF _ t(2)] AfterEngine in \<open>auto intro: thrownI\<close>)
    from wp_guarded [OF this t(2)] show ?thesis by (simp add: narration_answered_def AfterEngine)
  qed (use assms in auto)
qed

lemma wp_answer:
  assumes "await_ok kind g xs a co" "answer_run kn ev kind a = Some m"
  shows "wp m (flow_ok kind g xs) unhealthy co"
proof (cases a)
  case (AwaitGuide tid)
  then obtain answer input intent where *: "ev = GuideAnswered answer" "kind = TurnRun input intent"
    "m = (case answer of None \<Rightarrow> guide_failed kn (sb_interactionId input) tid | Some x \<Rightarrow> turn_decided kn input intent tid x)"
    using assms(2) by (auto simp: answer_run_def split: coordinator_event.splits run_kind.splits)
  with assms(1) AwaitGuide show ?thesis
    using wp_guide_failed [of kind g xs "{tid}" co tid kn] wp_turn_decided [of input g xs tid co kn intent]
    by (auto split: option.splits)
next
  case (AwaitState aid command)
  then show ?thesis
    using assms wp_state_inspected [of kind g xs "{aid}" co aid kn command]
    by (auto simp: answer_run_def split: coordinator_event.splits)
next
  case (AwaitExecute rq rid)
  then show ?thesis
    using assms wp_execute_answered [of kind g xs rq rid co kn] by (auto simp: answer_run_def split: coordinator_event.splits)
next
  case (AwaitSnapshot rq rid res oid)
  then obtain cp where m: "m = guarded kn kind rq rid (snapshot_taken kn kind rq rid res oid cp)"
    using assms(2) by (auto simp: answer_run_def split: coordinator_event.splits)
  show ?thesis
    unfolding m
    by (rule wp_guarded [OF wp_snapshot_taken [where K = "{rid, oid}"]]) (use assms(1) AwaitSnapshot in auto)
next
  case (AwaitNarration job)
  then show ?thesis
    using assms wp_narration_answered [of kind g xs job co kn] by (auto simp: answer_run_def split: coordinator_event.splits)
qed (use assms in simp)

end
