(* ===== verification/Coordinator_Progress.thy ===== *)
theory Coordinator_Progress
  imports Coordinator_Turns
begin

text \<open>
  Every answer moves a suspended method on: it comes to its end or to an \<open>await\<close> of a lower rank, so
  answered methods end.  The opening and the role introduction submit nothing to the engine.
\<close>

named_theorems lands_intros \<open>where a method suspends\<close>
named_theorems quiet_intros \<open>methods that submit nothing\<close>

section \<open>Ranks\<close>

definition spoken_total :: "role_message list \<Rightarrow> nat" where
  "spoken_total ms = sum_list (map (\<lambda>m. length (narrationSegments (snd m))) ms)"

fun after_rank :: "after_narration \<Rightarrow> nat" where
  "after_rank (AfterIntroduction _ ms) = spoken_total ms"
| "after_rank _ = 0"

fun rank :: "run_kind \<Rightarrow> await \<Rightarrow> nat" where \<comment> \<open>a bound on the answers still needed\<close>
  "rank kind (AwaitGuide _) = 5"
| "rank kind (AwaitState _ _) = 4"
| "rank kind (AwaitExecute _ _) = 3"
| "rank kind (AwaitSnapshot _ _ _ _) = 2"
| "rank (OpeningRun input) AwaitOpeningState = 1 + length (narrationSegments (op_narrationText input))"
| "rank _ AwaitOpeningState = 0"
| "rank kind (AwaitNarration job) = 1 + length (nj_rest job) + after_rank (nj_after job)"

fun fits :: "run_kind \<Rightarrow> await \<Rightarrow> bool" where \<comment> \<open>the method has such an \<open>await\<close>\<close>
  "fits (TurnRun _ _) a \<longleftrightarrow>
     (case a of AwaitOpeningState \<Rightarrow> False
      | AwaitNarration job \<Rightarrow> nj_rest job = [] \<and> (case nj_after job of AfterOpening _ \<Rightarrow> False | AfterIntroduction _ _ \<Rightarrow> False | _ \<Rightarrow> True)
      | _ \<Rightarrow> True)"
| "fits (RecoverRun _ _ _ _) a \<longleftrightarrow>
     (case a of AwaitExecute _ _ \<Rightarrow> True | AwaitSnapshot _ _ _ _ \<Rightarrow> True
      | AwaitNarration job \<Rightarrow> nj_rest job = [] \<and> (case nj_after job of AfterEngine _ _ _ _ \<Rightarrow> True | _ \<Rightarrow> False)
      | _ \<Rightarrow> False)"
| "fits (OpeningRun _) a \<longleftrightarrow>
     (case a of AwaitOpeningState \<Rightarrow> True
      | AwaitNarration job \<Rightarrow> (case nj_after job of AfterOpening _ \<Rightarrow> True | _ \<Rightarrow> False) | _ \<Rightarrow> False)"
| "fits (IntroductionRun _ _) a \<longleftrightarrow>
     (case a of AwaitNarration job \<Rightarrow> (case nj_after job of AfterIntroduction _ _ \<Rightarrow> True | _ \<Rightarrow> False) | _ \<Rightarrow> False)"

fun ends_with :: "run_kind \<Rightarrow> finished \<Rightarrow> bool" where \<comment> \<open>the method has such a result\<close>
  "ends_with (TurnRun _ _) f \<longleftrightarrow> (case f of TurnFinished _ _ \<Rightarrow> True | _ \<Rightarrow> False)"
| "ends_with (RecoverRun _ _ _ _) f \<longleftrightarrow> (case f of RecoveryDone _ \<Rightarrow> True | RecoveryKept _ \<Rightarrow> True | _ \<Rightarrow> False)"
| "ends_with (OpeningRun _) f \<longleftrightarrow> (case f of OpeningFinished _ _ \<Rightarrow> True | _ \<Rightarrow> False)"
| "ends_with (IntroductionRun _ _) f \<longleftrightarrow> (case f of IntroductionFinished _ \<Rightarrow> True | _ \<Rightarrow> False)"

fun below_rank :: "run_kind \<Rightarrow> nat \<Rightarrow> flow \<Rightarrow> bool" where
  "below_rank kind n (Suspend a) \<longleftrightarrow> fits kind a \<and> rank kind a < n"
| "below_rank kind n (Finish f) \<longleftrightarrow> ends_with kind f"

definition lands :: "('a \<Rightarrow> bool) \<Rightarrow> ('w, 'c, 'a) act \<Rightarrow> bool" where
  "lands P m \<longleftrightarrow> (\<forall>co. wp m (\<lambda>x _. P x) (\<lambda>_. True) co)"

lemma landsD: "lands P m \<Longrightarrow> m co = (Inr x, co') \<Longrightarrow> P x"
  by (auto simp: lands_def wp_def dest: spec [of _ co])

lemma lands_return [lands_intros]: "P x \<Longrightarrow> lands P (returnA x)"
  by (simp add: lands_def wp_def returnA_def)

lemma lands_throw [lands_intros]: "lands P (throwA e)"
  by (simp add: lands_def wp_def throwA_def)

lemma lands_then: "lands R m \<Longrightarrow> (\<And>x. R x \<Longrightarrow> lands P (f x)) \<Longrightarrow> lands P (bindA m f)"
  unfolding lands_def by (intro allI wp_bind, rule wp_mono, erule spec) simp_all

lemma lands_bind [lands_intros]: "(\<And>x. lands P (f x)) \<Longrightarrow> lands P (bindA m f)"
  by (rule lands_then [of "\<lambda>_. True"]) (auto simp: lands_def wp_def split: prod.splits sum.splits)

lemma lands_catch [lands_intros]: "lands P m \<Longrightarrow> lands P h \<Longrightarrow> lands P (catchA m h)"
  unfolding lands_def by (intro allI wp_catch, rule wp_mono, erule spec) simp_all

lemma lands_state [lands_intros]: "(\<And>s. lands P (f s)) \<Longrightarrow> lands P (stateA f)"
  by (auto simp: lands_def wp_def stateA_def)

lemma lands_if [lands_intros]: "(b \<Longrightarrow> lands P m) \<Longrightarrow> (\<not> b \<Longrightarrow> lands P n) \<Longrightarrow> lands P (if b then m else n)"
  by simp

lemma lands_option [lands_intros]:
  "lands P n \<Longrightarrow> (\<And>x. lands P (f x)) \<Longrightarrow> lands P (case opt of None \<Rightarrow> n | Some x \<Rightarrow> f x)"
  by (cases opt) simp_all

lemma lands_mono: "lands P m \<Longrightarrow> (\<And>x. P x \<Longrightarrow> Q x) \<Longrightarrow> lands Q m"
  by (auto simp: lands_def intro: wp_mono)

section \<open>Narration\<close>

fun waits :: "after_narration \<Rightarrow> nat \<Rightarrow> prepared \<Rightarrow> bool" where
  "waits after n (Waiting job) \<longleftrightarrow> nj_after job = after \<and> length (nj_rest job) < n"
| "waits after n (Settled _) \<longleftrightarrow> True"

lemma lands_begin_segment: "length rest < n \<Longrightarrow> lands (waits after n) (begin_segment kn i role source conf content rest after)"
  unfolding begin_segment_def Let_def by (intro lands_intros) simp_all

lemma lands_narrate:
  "lands (waits after (length (if b then narrationSegments content else [content]))) (narrate kn i role content source conf b after)"
  unfolding narrate_def
  by (cases "if b then narrationSegments content else filter (\<lambda>segment. trim segment \<noteq> []) [content]")
    (auto intro!: lands_intros lands_begin_segment split: if_splits)

lemma lands_settle_segment: "lands (waits (nj_after job) (length (nj_rest job))) (settle_segment kn i job ok)"
  unfolding settle_segment_def
  by (intro lands_bind lands_if lands_return; cases "nj_rest job") (simp_all add: lands_intros lands_begin_segment)

lemma lands_prepared:
  assumes "lands (waits after n) m" "\<And>job :: narration_job. nj_after job = after \<Longrightarrow> length (nj_rest job) < n \<Longrightarrow> P (Suspend (AwaitNarration job))"
    and "\<And>x. lands P (f x)"
  shows "lands P (bindA m (\<lambda>p. case p of Waiting job \<Rightarrow> returnA (Suspend (AwaitNarration job)) | Settled x \<Rightarrow> f x))"
  by (rule lands_then [OF assms(1)]) (use assms(2,3) in \<open>auto intro: lands_return split: prepared.splits\<close>)

section \<open>Turns\<close>

fun turn_after :: "run_kind \<Rightarrow> after_narration \<Rightarrow> bool" where
  "turn_after (TurnRun _ _) after \<longleftrightarrow> (case after of AfterOpening _ \<Rightarrow> False | AfterIntroduction _ _ \<Rightarrow> False | _ \<Rightarrow> True)"
| "turn_after (RecoverRun _ _ _ _) after \<longleftrightarrow> (case after of AfterEngine _ _ _ _ \<Rightarrow> True | _ \<Rightarrow> False)"
| "turn_after _ _ \<longleftrightarrow> False"

lemma lands_finish_turn [lands_intros]: "lands (below_rank (TurnRun input intent) n) (finish_turn i outcome)"
  unfolding finish_turn_def by (intro lands_intros) simp

lemma lands_after_turn: "turn_after kind after \<Longrightarrow> lands (below_rank kind n) (after_turn kind after)"
  by (cases kind; cases after) (auto simp: after_turn_def intro!: lands_intros)

lemma lands_narrate_turn:
  assumes "turn_after kind after" "1 < n"
  shows "lands (below_rank kind n) (narrate_turn kn kind role content source after)"
  unfolding narrate_turn_def
proof (rule lands_prepared [OF lands_narrate])
  fix job :: narration_job assume "nj_after job = after" "length (nj_rest job) < length (if False then narrationSegments content else [content])"
  then show "below_rank kind n (Suspend (AwaitNarration job))"
    using assms by (cases kind; cases after) auto
qed (rule lands_after_turn [OF assms(1)])

lemma lands_guide [lands_intros]:
  "lands (below_rank (TurnRun input intent) n) (guide_failed kn i tid)"
  "lands (below_rank (TurnRun input intent) n) (cancelled_before_submit kn i aid)"
  "lands (below_rank (TurnRun input intent) n) (execute_failed kn i rq rid b)"
  unfolding guide_failed_def cancelled_before_submit_def execute_failed_def by (intro lands_intros | simp)+

lemma lands_start_turn: "lands (below_rank (TurnRun input intent) 6) (start_turn kn input intent)"
  unfolding start_turn_def Let_def by (intro lands_intros) simp

lemma lands_turn_decided: "lands (below_rank (TurnRun input intent) 5) (turn_decided kn input intent tid g)"
  unfolding turn_decided_def decision_refused_def Let_def
  by (cases g; simp only: guide_result.case; intro lands_intros lands_narrate_turn; simp)

lemma lands_state_inspected: "lands (below_rank (TurnRun input intent) 4) (state_inspected kn i aid c answer)"
  unfolding state_inspected_def Let_def by (intro lands_intros; simp)

lemma lands_finishEngineResult:
  assumes "fits kind (AwaitExecute rq rid)"
  shows "lands (below_rank kind 3) (finishEngineResult kn kind cid rid rq res)"
  unfolding finishEngineResult_def Let_def
  by (cases "er_status res"; cases kind; simp only: status.case run_kind.case; intro lands_intros)
    (use assms in simp_all)

lemma lands_snapshot_taken:
  assumes "fits kind (AwaitExecute rq rid)"
  shows "lands (below_rank kind 2) (snapshot_taken kn kind rq rid res oid cp)"
proof -
  have "turn_after kind (AfterEngine rq rid res cp)" using assms by (cases kind) simp_all
  then show ?thesis unfolding snapshot_taken_def Let_def by (intro lands_intros lands_after_turn lands_narrate_turn) simp_all
qed

lemma lands_guarded: "lands (below_rank kind n) m \<Longrightarrow> lands (below_rank kind n) (guarded kn kind rq rid m)"
  by (cases kind) (auto simp: guarded_def intro!: lands_intros)

lemma lands_execute_answered:
  assumes "fits kind (AwaitExecute rq rid)"
  shows "lands (below_rank kind 3) (execute_answered kn kind rq rid answer)"
  using assms
proof (cases kind)
  case (TurnRun input intent)
  have "lands (below_rank kind 3) (guarded kn kind rq rid (finishEngineResult kn kind rid rid rq res))" for res
    by (intro lands_guarded lands_finishEngineResult [of kind rq rid]) (simp add: TurnRun)
  then show ?thesis by (cases answer) (auto simp: execute_answered_def TurnRun intro!: lands_intros)
next
  case (RecoverRun i print stored rv)
  have "lands (below_rank kind 3) (finishEngineResult kn kind cid rid rq res)" for cid res
    by (rule lands_finishEngineResult [of kind rq rid]) (simp add: RecoverRun)
  then show ?thesis by (cases answer) (auto simp: execute_answered_def RecoverRun intro!: lands_intros)
qed simp_all

section \<open>The opening and the role introduction\<close>

lemma lands_opening_narrate:
  "lands (below_rank (OpeningRun input) (1 + length (narrationSegments (op_narrationText input)))) (opening_narrate kn input source)"
  unfolding opening_narrate_def
  by (rule lands_prepared [OF lands_narrate]) (auto simp: after_opening_def intro!: lands_intros)

lemma lands_start_opening:
  "lands (below_rank (OpeningRun input) (2 + length (narrationSegments (op_narrationText input)))) (start_opening kn input)"
  unfolding start_opening_def
  by (intro lands_intros lands_mono [OF lands_opening_narrate]) (auto elim: below_rank.elims)

lemma lands_opening_inspected:
  "lands (below_rank (OpeningRun input) (rank (OpeningRun input) AwaitOpeningState)) (opening_inspected kn input answer)"
  unfolding opening_inspected_def Let_def rank.simps by (intro lands_intros lands_opening_narrate)

lemma lands_introduce:
  "lands (below_rank (IntroductionRun i messages) (1 + spoken_total ms)) (introduce kn i n index ms)"
proof (induction kn i n index ms rule: introduce.induct)
  case (1 kn i n index)
  show ?case by (simp add: finish_introduction_def lands_intros)
next
  case (2 kn i n index role content ms)
  have "lands (below_rank (IntroductionRun i messages) (1 + spoken_total ((role, content) # ms))) (introduce kn i n (index + 1) ms)"
    by (rule lands_mono [OF "2"(1)]) (auto simp: spoken_total_def elim!: below_rank.elims)
  then show ?case
    unfolding introduce.simps finish_introduction_def
    by (intro lands_bind lands_prepared [OF lands_narrate] lands_intros) (auto simp: spoken_total_def)
qed

lemma lands_segments_answered:
  assumes "fits kind (AwaitNarration job)"
  shows "lands (below_rank kind (rank kind (AwaitNarration job))) (segments_answered kn kind job ok)"
  unfolding segments_answered_def
proof (rule lands_prepared [OF lands_settle_segment])
  fix job' :: narration_job
  assume "nj_after job' = nj_after job" "length (nj_rest job') < length (nj_rest job)"
  then show "below_rank kind (rank kind (AwaitNarration job)) (Suspend (AwaitNarration job'))"
    using assms by (cases kind) auto
next
  fix outcome
  show "lands (below_rank kind (rank kind (AwaitNarration job))) (after_segments kn kind (nj_after job) outcome)"
  proof (cases kind)
    case (IntroductionRun i messages)
    with assms obtain index ms where after: "nj_after job = AfterIntroduction index ms"
      by (auto split: after_narration.splits)
    have "lands (below_rank kind (1 + spoken_total ms)) (introduce kn i (length messages) index ms)"
      unfolding IntroductionRun by (rule lands_introduce)
    then have "lands (below_rank kind (rank kind (AwaitNarration job))) (introduce kn i (length messages) index ms)"
      by (rule lands_mono) (auto simp: after elim!: below_rank.elims)
    then show ?thesis
      by (auto simp: after_segments_def IntroductionRun after finish_introduction_def intro!: lands_intros)
  next
    case (OpeningRun input)
    then show ?thesis
      using assms by (auto simp: after_segments_def after_opening_def intro!: lands_intros split: after_narration.splits)
  next
    case (TurnRun input intent)
    then have "turn_after kind (nj_after job)" using assms by (auto split: after_narration.splits)
    from lands_after_turn [OF this] show ?thesis by (simp add: after_segments_def TurnRun)
  next
    case (RecoverRun i print stored rv)
    then have "turn_after kind (nj_after job)" using assms by (auto split: after_narration.splits)
    from lands_after_turn [OF this] show ?thesis by (simp add: after_segments_def RecoverRun)
  qed
qed

section \<open>Answers\<close>

fun answers :: "await \<Rightarrow> coordinator_event \<Rightarrow> bool" where
  "answers (AwaitGuide _) ev \<longleftrightarrow> (case ev of GuideAnswered _ \<Rightarrow> True | _ \<Rightarrow> False)"
| "answers (AwaitState _ _) ev \<longleftrightarrow> (case ev of StateAnswered _ \<Rightarrow> True | _ \<Rightarrow> False)"
| "answers (AwaitExecute _ _) ev \<longleftrightarrow> (case ev of ExecuteAnswered _ \<Rightarrow> True | _ \<Rightarrow> False)"
| "answers (AwaitSnapshot _ _ _ _) ev \<longleftrightarrow> (case ev of SnapshotAnswered _ \<Rightarrow> True | _ \<Rightarrow> False)"
| "answers AwaitOpeningState ev \<longleftrightarrow> (case ev of StateAnswered _ \<Rightarrow> True | _ \<Rightarrow> False)"
| "answers (AwaitNarration _) ev \<longleftrightarrow> (case ev of NarrationAnswered _ \<Rightarrow> True | _ \<Rightarrow> False)"

lemma answer_run_answers: "fits kind a \<Longrightarrow> answer_run kn ev kind a \<noteq> None \<longleftrightarrow> answers a ev"
  by (cases a; cases kind; cases ev) (simp_all add: answer_run_def)

lemma lands_answer:
  assumes "fits kind a" "answer_run kn ev kind a = Some m"
  shows "lands (below_rank kind (rank kind a)) m"
proof (cases a)
  case (AwaitGuide tid)
  then obtain answer input intent where *: "kind = TurnRun input intent"
    "m = (case answer of None \<Rightarrow> guide_failed kn (sb_interactionId input) tid | Some x \<Rightarrow> turn_decided kn input intent tid x)"
    using assms(2) by (auto simp: answer_run_def split: coordinator_event.splits run_kind.splits)
  show ?thesis
    unfolding *(2) AwaitGuide *(1) rank.simps by (intro lands_intros lands_turn_decided)
next
  case (AwaitState aid command)
  with assms obtain input intent where "kind = TurnRun input intent" by (cases kind) auto
  with assms AwaitState show ?thesis by (auto simp: answer_run_def lands_state_inspected split: coordinator_event.splits)
next
  case (AwaitExecute rq rid)
  with assms show ?thesis by (auto simp: answer_run_def lands_execute_answered split: coordinator_event.splits)
next
  case (AwaitSnapshot rq rid res oid)
  then obtain cp where m: "m = guarded kn kind rq rid (snapshot_taken kn kind rq rid res oid cp)"
    using assms(2) by (auto simp: answer_run_def split: coordinator_event.splits)
  have "lands (below_rank kind 2) (snapshot_taken kn kind rq rid res oid cp)"
    using assms(1) AwaitSnapshot by (cases kind) (simp_all add: lands_snapshot_taken)
  from lands_guarded [OF this] show ?thesis by (simp add: m AwaitSnapshot)
next
  case AwaitOpeningState
  with assms show ?thesis
    by (auto simp: answer_run_def split: coordinator_event.splits run_kind.splits intro!: lands_opening_inspected [simplified])
next
  case (AwaitNarration job)
  then obtain ok where m: "m = narration_answered kn kind job ok"
    using assms(2) by (auto simp: answer_run_def split: coordinator_event.splits)
  have "lands (below_rank kind (rank kind a)) (segments_answered kn kind job ok)"
    using lands_segments_answered assms(1) AwaitNarration by simp
  then show ?thesis unfolding m narration_answered_def by (cases "nj_after job") (simp_all add: lands_guarded)
qed

section \<open>Methods that submit nothing\<close>

definition quiet :: "('w, 'c, 'a) act \<Rightarrow> bool" where
  "quiet m \<longleftrightarrow> (\<forall>co j. reqs j (co_calls (snd (m co))) = reqs j (co_calls co))"

lemma quietD: "quiet m \<Longrightarrow> m co = (r, co') \<Longrightarrow> reqs j (co_calls co') = reqs j (co_calls co)"
  by (metis quiet_def snd_conv)

lemma quiet_return [quiet_intros]: "quiet (returnA x)" "quiet (throwA e)" "quiet (liftA r)"
  by (simp_all add: quiet_def returnA_def throwA_def liftA_def)

lemma quiet_bind [quiet_intros]: "quiet m \<Longrightarrow> (\<And>x. quiet (f x)) \<Longrightarrow> quiet (bindA m f)"
  by (simp add: quiet_def bindA_def split: prod.splits sum.splits) (metis snd_conv)

lemma quiet_catch [quiet_intros]: "quiet m \<Longrightarrow> quiet h \<Longrightarrow> quiet (catchA m h)"
  by (simp add: quiet_def catchA_def split: prod.splits sum.splits) (metis snd_conv)

lemma quiet_state [quiet_intros]: "(\<And>s. quiet (f s)) \<Longrightarrow> quiet (stateA f)"
  by (simp add: quiet_def stateA_def)

lemma quiet_if [quiet_intros]: "(b \<Longrightarrow> quiet m) \<Longrightarrow> (\<not> b \<Longrightarrow> quiet n) \<Longrightarrow> quiet (if b then m else n)"
  by simp

lemma quiet_option [quiet_intros]:
  "quiet n \<Longrightarrow> (\<And>x. quiet (f x)) \<Longrightarrow> quiet (case opt of None \<Rightarrow> n | Some x \<Rightarrow> f x)"
  by (cases opt) simp_all

lemma quiet_prepared [quiet_intros]:
  "(\<And>job. quiet (f job)) \<Longrightarrow> (\<And>x. quiet (g x)) \<Longrightarrow> quiet (case p of Waiting job \<Rightarrow> f job | Settled x \<Rightarrow> g x)"
  by (cases p) simp_all

lemma quiet_calls [quiet_intros]:
  "quiet (callA InspectEngine)" "quiet (callA (PrepareNarration n))" "quiet nextNarrationId"
  "quiet (updateA (\<lambda>co. co\<lparr>co_world := w\<rparr>))" "quiet (updateA (\<lambda>co. co\<lparr>co_scene := sc\<rparr>))"
  "quiet (updateA (\<lambda>co. co\<lparr>co_progress := pr\<rparr>))"
  by (simp_all add: quiet_def callA_def updateA_def nextNarrationId_def)

lemma quiet_emit [quiet_intros]: "quiet (emit kn i c v p)" "quiet (emit_local kn i c v p)"
proof -
  have "reqs j (co_calls (snd (emit kn i c v p co))) = reqs j (co_calls co)" for co j
    by (rule emit_cases [of kn i c v p co]) simp_all
  moreover have "reqs j (co_calls (snd (emit_local kn i c v p co))) = reqs j (co_calls co)" for co j
    by (rule emit_local_cases [of kn i c v p co]) simp_all
  ultimately show "quiet (emit kn i c v p)" "quiet (emit_local kn i c v p)" by (simp_all add: quiet_def)
qed

lemma quiet_segments [quiet_intros]: "quiet (segment_failed kn i job)" "quiet (begin_segment kn i r s c t ts after)"
  unfolding segment_failed_def begin_segment_def Let_def by (intro quiet_intros)+

lemma quiet_narrate [quiet_intros]: "quiet (narrate kn i r t s c b after)" "quiet (settle_segment kn i job ok)"
  unfolding narrate_def settle_segment_def Let_def
  by (cases "if b then narrationSegments t else filter (\<lambda>segment. trim segment \<noteq> []) [t]"; simp add: quiet_intros)
    (cases "nj_rest job"; intro quiet_intros; simp add: quiet_intros)

lemma quiet_opening [quiet_intros]:
  "quiet (after_opening input s o')" "quiet (opening_narrate kn input s)" "quiet (finish_introduction i o')"
  "quiet (start_opening kn input)" "quiet (opening_inspected kn input answer)"
  unfolding after_opening_def opening_narrate_def finish_introduction_def start_opening_def opening_inspected_def Let_def
  by (intro quiet_intros)+

lemma quiet_introduce [quiet_intros]: "quiet (introduce kn i n k ms)"
  by (induction kn i n k ms rule: introduce.induct) (simp_all add: quiet_intros)

fun opening_kind :: "run_kind \<Rightarrow> bool" where
  "opening_kind (OpeningRun _) \<longleftrightarrow> True"
| "opening_kind (IntroductionRun _ _) \<longleftrightarrow> True"
| "opening_kind _ \<longleftrightarrow> False"

lemma quiet_answer:
  assumes "opening_kind kind" "fits kind a" "answer_run kn ev kind a = Some m"
  shows "quiet m"
proof -
  have "quiet (segments_answered kn kind job ok)" for job ok
    using assms(1) unfolding segments_answered_def after_segments_def
    by (cases kind; cases "nj_after job"; simp; intro quiet_intros)
  then have "quiet (narration_answered kn kind job ok)" if "fits kind (AwaitNarration job)" for job ok
    using assms(1) that unfolding narration_answered_def guarded_def
    by (cases "nj_after job"; cases kind) simp_all
  with assms show ?thesis
    by (cases a; cases kind) (auto simp: answer_run_def quiet_intros split: coordinator_event.splits)
qed

end
