(* ===== verification/Coordinator_Invariant.thy ===== *)
theory Coordinator_Invariant
  imports Coordinator_Progress
begin

text \<open>
  The invariant of the coordinator between two steps: what its turn journal, the promises not yet
  settled and the suspended method say of each other, of the published events and of the requests
  submitted to the engine.
\<close>

named_theorems grows_intros \<open>how a step extends what was published and submitted\<close>

section \<open>Journal entries\<close>

lemma length_update_fresh: "map_of al k = None \<Longrightarrow> length (AList.update k v al) = Suc (length al)"
  by (induction al) (auto split: if_splits)

lemma length_update_known: "map_of al k = Some w \<Longrightarrow> length (AList.update k v al) = length al"
  by (induction al) (auto split: if_splits)

definition result_sound :: "('w, 'c) coordinator \<Rightarrow> js \<Rightarrow> turn_result \<Rightarrow> bool" where
  "result_sound co i r \<longleftrightarrow>
     i \<noteq> [] \<and> result_ok i r (tr_events r) \<and> chained i (tr_events r) \<and> subseq (tr_events r) (co_published co)"

fun settled_ids :: "settlement \<Rightarrow> js list" where
  "settled_ids (SettleTurn input _) = [sb_interactionId input]"
| "settled_ids _ = []"

fun kind_ids :: "(run_kind \<times> await) option \<Rightarrow> js list" where
  "kind_ids (Some (TurnRun input _, _)) = [sb_interactionId input]"
| "kind_ids _ = []"

definition pending_ids :: "('w, 'c) coordinator \<Rightarrow> js list" where
  \<comment> \<open>the turns whose promise is not settled\<close>
  "pending_ids co = concat (map settled_ids (co_settling co)) @ kind_ids (co_run co)"

fun turn_sound :: "('w, 'c) coordinator \<Rightarrow> js \<Rightarrow> stored_turn \<Rightarrow> bool" where
  "turn_sound co i (PendingTurn p) \<longleftrightarrow> i \<in> set (pending_ids co)"
| "turn_sound co i (CompleteTurn p r) \<longleftrightarrow>
     result_sound co i r \<and> tr_outcome r \<noteq> TurnUncertain \<and> (live co \<longrightarrow> (\<exists>rq. reqs i (co_calls co) \<subseteq> {rq}))"
| "turn_sound co i (UncertainTurn p r rv) \<longleftrightarrow>
     result_sound co i r \<and> tr_outcome r = TurnUncertain \<and> known (rv_requestedEventId rv) (tr_events r) \<and>
     (live co \<longrightarrow> reqs i (co_calls co) \<subseteq> {rv_request rv})"

fun settle_sound :: "('w, 'c) coordinator \<Rightarrow> settlement \<Rightarrow> bool" where
  "settle_sound co (SettleTurn input outcome) \<longleftrightarrow>
     (\<exists>p. map_of (co_turns co) (sb_interactionId input) = Some (PendingTurn p)) \<and>
     (case outcome of
        Inl _ \<Rightarrow> \<not> live co
      | Inr (r, None) \<Rightarrow> turn_sound co (sb_interactionId input) (CompleteTurn (turn_fingerprint input) r)
      | Inr (r, Some rv) \<Rightarrow> turn_sound co (sb_interactionId input) (UncertainTurn (turn_fingerprint input) r rv))"
| "settle_sound co _ \<longleftrightarrow> True"

fun kind_sound :: "('w, 'c) coordinator \<Rightarrow> run_kind \<Rightarrow> await \<Rightarrow> bool" where
  "kind_sound co (TurnRun input intent) a \<longleftrightarrow>
     await_ok (TurnRun input intent) (live co) (co_calls co) a co \<and>
     (\<exists>p. map_of (co_turns co) (sb_interactionId input) = Some (PendingTurn p))"
| "kind_sound co (RecoverRun i p r rv) a \<longleftrightarrow>
     await_ok (RecoverRun i p r rv) (live co) (co_calls co) a co \<and>
     map_of (co_turns co) i = Some (UncertainTurn p r rv)"
| "kind_sound co _ a \<longleftrightarrow> True"

definition run_sound :: "('w, 'c) coordinator \<Rightarrow> bool" where
  "run_sound co \<longleftrightarrow>
     (case co_run co of
        None \<Rightarrow> co_active co = None
      | Some (kind, a) \<Rightarrow> co_active co = Some (run_interaction kind) \<and> fits kind a \<and> kind_sound co kind a)"

definition cinv :: "('w, 'c) coordinator \<Rightarrow> bool" where
  "cinv co \<longleftrightarrow>
     sound co \<and> distinct (map fst (co_turns co)) \<and> length (co_turns co) \<le> co_maxTurns co \<and>
     (\<forall>i t. map_of (co_turns co) i = Some t \<longrightarrow> turn_sound co i t) \<and>
     (\<forall>i. map_of (co_turns co) i = None \<longrightarrow> live co \<longrightarrow> reqs i (co_calls co) = {}) \<and>
     (\<forall>s \<in> set (co_settling co). settle_sound co s) \<and> distinct (pending_ids co) \<and> run_sound co"

section \<open>What other turns see of a step\<close>

definition grows :: "js set \<Rightarrow> ('w, 'c) coordinator \<Rightarrow> ('w, 'c) coordinator \<Rightarrow> bool" where
  "grows I co co' \<longleftrightarrow>
     (\<exists>new. co_published co' = co_published co @ new) \<and> (live co' \<longrightarrow> live co) \<and>
     (live co' \<longrightarrow> (\<forall>j. j \<notin> I \<longrightarrow> reqs j (co_calls co') = reqs j (co_calls co)))"

lemma subseq_grows: "subseq xs ys \<Longrightarrow> subseq xs (ys @ zs)"
  using list_emb_append_mono [of "(=)" xs ys "[]" zs] by simp

lemma result_sound_grows: "grows I co co' \<Longrightarrow> result_sound co i r \<Longrightarrow> result_sound co' i r"
  by (auto simp: grows_def result_sound_def subseq_grows)

lemma turn_sound_grows:
  assumes "grows I co co'" "i \<notin> I" "turn_sound co i t" "i \<in> set (pending_ids co) \<Longrightarrow> i \<in> set (pending_ids co')"
  shows "turn_sound co' i t"
  using assms result_sound_grows [OF assms(1)] by (cases t) (auto simp: grows_def)

lemma settle_sound_grows:
  assumes "grows I co co'" "settle_sound co s" "set (settled_ids s) \<inter> I = {}"
    and "\<And>i. i \<notin> I \<Longrightarrow> map_of (co_turns co') i = map_of (co_turns co) i"
  shows "settle_sound co' s"
proof (cases s)
  case (SettleTurn input outcome)
  then have i: "sb_interactionId input \<notin> I" using assms(3) by simp
  note rs = result_sound_grows [OF assms(1)]
  show ?thesis
    using assms(1,2,4) i SettleTurn by (auto simp: grows_def rs split: sum.splits option.splits)
qed simp_all

lemma frame_grows: "frame co co' \<Longrightarrow> (\<And>j. live co' \<Longrightarrow> j \<notin> I \<Longrightarrow> reqs j (co_calls co') = reqs j (co_calls co)) \<Longrightarrow> grows I co co'"
  by (simp add: frame_def grows_def)

lemma grows_refl [simp]: "grows I co co"
  by (simp add: grows_def)

text \<open>The invariant after a step that touched at most the turns in \<open>I\<close>.\<close>

lemma cinvI:
  assumes old: "cinv co" and grow: "grows I co co'" and "sound co'"
    and "distinct (map fst (co_turns co'))" "length (co_turns co') \<le> co_maxTurns co'"
    and same: "\<And>i. i \<notin> I \<Longrightarrow> map_of (co_turns co') i = map_of (co_turns co) i"
    and mine: "\<And>i t. i \<in> I \<Longrightarrow> map_of (co_turns co') i = Some t \<Longrightarrow> turn_sound co' i t"
    and gone: "\<And>i. i \<in> I \<Longrightarrow> map_of (co_turns co') i = None \<Longrightarrow> live co' \<Longrightarrow> reqs i (co_calls co') = {}"
    and waiting: "\<And>i. i \<notin> I \<Longrightarrow> i \<in> set (pending_ids co) \<Longrightarrow> i \<in> set (pending_ids co')"
    and settles: "\<And>s. s \<in> set (co_settling co') \<Longrightarrow> settle_sound co' s \<or> s \<in> set (co_settling co) \<and> set (settled_ids s) \<inter> I = {}"
    and "distinct (pending_ids co')" "run_sound co'"
  shows "cinv co'"
proof -
  have "turn_sound co' i t" if "map_of (co_turns co') i = Some t" for i t
  proof (cases "i \<in> I")
    case False
    then have "turn_sound co i t" using that same old by (simp add: cinv_def)
    from turn_sound_grows [OF grow False this waiting [OF False]] show ?thesis .
  qed (rule mine [OF _ that])
  moreover have "reqs i (co_calls co') = {}" if "map_of (co_turns co') i = None" "live co'" for i
  proof (cases "i \<in> I")
    case False
    with that same old grow show ?thesis by (simp add: cinv_def grows_def)
  qed (rule gone [OF _ that])
  moreover have "settle_sound co' s" if "s \<in> set (co_settling co')" for s
    using settles [OF that] settle_sound_grows [OF grow _ _ same, of s] old by (auto simp: cinv_def)
  ultimately show ?thesis using assms(3-5) assms(11,12) by (simp add: cinv_def)
qed

section \<open>A turn goes on\<close>

lemma live_keep [simp]:
  "live (co\<lparr>co_run := x1\<rparr>) = live co" "live (co\<lparr>co_active := x2\<rparr>) = live co" "live (co\<lparr>co_turns := x3\<rparr>) = live co"
  "live (co\<lparr>co_settling := x4\<rparr>) = live co" "live (co\<lparr>co_aborted := x5\<rparr>) = live co" "live (co\<lparr>co_opening := x6\<rparr>) = live co"
  "live (co\<lparr>co_introduction := x7\<rparr>) = live co" "live (co\<lparr>co_progress := x8\<rparr>) = live co"
  by (simp_all add: live_def healthy_host_def)

lemma sound_keep [simp]:
  "sound (co\<lparr>co_run := x1\<rparr>) = sound co" "sound (co\<lparr>co_active := x2\<rparr>) = sound co" "sound (co\<lparr>co_turns := x3\<rparr>) = sound co"
  "sound (co\<lparr>co_settling := x4\<rparr>) = sound co" "sound (co\<lparr>co_aborted := x5\<rparr>) = sound co" "sound (co\<lparr>co_opening := x6\<rparr>) = sound co"
  "sound (co\<lparr>co_introduction := x7\<rparr>) = sound co" "sound (co\<lparr>co_progress := x8\<rparr>) = sound co"
  by (simp_all add: sound_def)

lemma grows_keep [simp]:
  "grows I co (co'\<lparr>co_run := x1\<rparr>) = grows I co co'" "grows I co (co'\<lparr>co_active := x2\<rparr>) = grows I co co'"
  "grows I co (co'\<lparr>co_turns := x3\<rparr>) = grows I co co'" "grows I co (co'\<lparr>co_settling := x4\<rparr>) = grows I co co'"
  "grows I co (co'\<lparr>co_aborted := x5\<rparr>) = grows I co co'" "grows I co (co'\<lparr>co_opening := x6\<rparr>) = grows I co co'"
  "grows I co (co'\<lparr>co_introduction := x7\<rparr>) = grows I co co'" "grows I co (co'\<lparr>co_progress := x8\<rparr>) = grows I co co'"
  by (simp_all add: grows_def)

lemma tinv_again:
  assumes "tinv i g S xs J K co" "sound co'" "co_local co' = co_local co" "co_calls co' = co_calls co" "live co' \<Longrightarrow> g"
  shows "tinv i (live co') S (co_calls co') J K co'"
  using assms by (simp add: tinv_def)

lemma await_ok_again:
  assumes "await_ok kind g xs a co" "sound co'" "co_local co' = co_local co" "co_calls co' = co_calls co" "live co' \<Longrightarrow> g"
  shows "await_ok kind (live co') (co_calls co') a co'"
  using assms(1) tinv_again [OF _ assms(2-5)] by (cases a) (auto split: after_narration.splits)

lemma flow_ok_others:
  assumes "flow_ok kind g xs f co" "j \<noteq> run_interaction kind"
  shows "reqs j (co_calls co) = reqs j xs"
proof (cases f)
  case (Suspend a)
  with assms show ?thesis by (cases a) (auto simp: tinv_def split: after_narration.splits)
next
  case (Finish d)
  with assms show ?thesis by (cases "(kind, g, xs, d, co)" rule: finish_ok.cases) (auto simp: tinv_def)
qed

definition starts :: "js \<Rightarrow> ('w, 'c) coordinator \<Rightarrow> ('w, 'c) coordinator \<Rightarrow> bool" where
  \<comment> \<open>the method of interaction \<open>i\<close> goes on, or begins, from the state between two steps\<close>
  "starts i co0 co \<longleftrightarrow>
     co_turns co = co_turns co0 \<and> co_settling co = co_settling co0 \<and> co_maxTurns co = co_maxTurns co0 \<and>
     co_published co = co_published co0 \<and> co_calls co = co_calls co0 \<and> (live co \<longleftrightarrow> live co0) \<and>
     co_active co = Some i \<and> sound co"

lemma starts_again: "cinv co \<Longrightarrow> co_run co = Some (kind, a) \<Longrightarrow> starts (run_interaction kind) co co"
  by (simp add: starts_def cinv_def run_sound_def)

lemma starts_begin:
  "cinv co \<Longrightarrow> subseq es (co_published co) \<Longrightarrow> starts (run_interaction kind) co (begin_run kind aborted es progress co)"
  by (simp add: starts_def begin_run_def cinv_def sound_def live_def healthy_host_def)

lemma ran:
  assumes "starts i co0 co" "safe m" "m co = (r, co1)"
  shows "co_turns co1 = co_turns co0" "co_settling co1 = co_settling co0" "co_maxTurns co1 = co_maxTurns co0"
    "co_active co1 = Some i" "sound co1" "live co1 \<Longrightarrow> live co0" "live co1 \<Longrightarrow> live co"
    and "(\<And>j. live co1 \<Longrightarrow> j \<notin> I \<Longrightarrow> reqs j (co_calls co1) = reqs j (co_calls co0)) \<Longrightarrow> grows I co0 co1"
  using assms(1) safeD [OF assms(2,3)] by (auto simp: starts_def frame_def grows_def)

lemma turn_result_sound:
  assumes "tinv i g S xs J K co" "result_ok i r (co_local co)" "co_published co' = co_published co"
  shows "result_sound co' i r"
  using assms by (auto simp: result_sound_def tinv_def sound_def result_ok_def)

lemma turn_proceeds:
  assumes inv: "cinv co0" and st: "starts i co0 co" and m: "safe m" "wp m (flow_ok kind (live co) (co_calls co)) unhealthy co"
      "lands (below_rank kind n) m"
    and kind: "kind = TurnRun input intent" "i = sb_interactionId input"
    and run: "kind_ids (co_run co0) = [] \<or> kind_ids (co_run co0) = [i]" "i \<notin> set (concat (map settled_ids (co_settling co0)))"
    and T: "distinct (map fst T)" "length T \<le> co_maxTurns co0" "map_of T i = Some (PendingTurn p)"
      "\<And>j. j \<noteq> i \<Longrightarrow> map_of T j = map_of (co_turns co0) j"
  shows "cinv ((fst (proceed kind m co))\<lparr>co_turns := T\<rparr>)"
proof -
  obtain r co1 where run_m: "m co = (r, co1)" by fastforce
  note ran = ran [OF st m(1) run_m]
  have grow: "grows {i} co0 co1"
  proof (rule ran(8))
    fix j assume j: "live co1" "j \<notin> {i}"
    then obtain f where "r = Inr f" using wpD(2) [OF m(2)] run_m by (cases r) auto
    from flow_ok_others [OF wpD(1) [OF m(2), OF run_m [unfolded this]], of j] j kind st
    show "reqs j (co_calls co1) = reqs j (co_calls co0)" by (simp add: starts_def)
  qed
  have dist: "distinct (concat (map settled_ids (co_settling co0)))" using inv by (simp add: cinv_def pending_ids_def)
  have others: "set (settled_ids s) \<inter> {i} = {}" if "s \<in> set (co_settling co0)" for s using run(2) that by auto
  let ?fin = "\<lambda>out. co1\<lparr>co_active := None, co_run := None,
      co_settling := co_settling co1 @ [SettleTurn input out], co_turns := T\<rparr>"
  have concluded: "cinv (?fin out)" if "settle_sound (?fin out) (SettleTurn input out)" for out
  proof (rule cinvI [OF inv, where I = "{i}"])
    show "distinct (pending_ids (?fin out))" using dist run(2) kind by (simp add: pending_ids_def ran(2))
  qed (use grow T ran kind run others that in \<open>auto simp: pending_ids_def run_sound_def\<close>)
  show ?thesis
  proof (cases r)
    case (Inl e)
    then have "\<not> live co1" using wpD(2) [OF m(2)] run_m by auto
    then show ?thesis using concluded [of "Inl e"] T(3) kind by (simp add: proceed_def run_m Inl conclude_run_def Let_def)
  next
    case (Inr f)
    then have ok: "flow_ok kind (live co) (co_calls co) f co1" "below_rank kind n f"
      using wpD(1) [OF m(2)] landsD [OF m(3)] run_m by auto
    show ?thesis
    proof (cases f)
      case (Suspend a)
      let ?co2 = "co1\<lparr>co_run := Some (kind, a), co_turns := T\<rparr>"
      have "await_ok kind (live ?co2) (co_calls ?co2) a ?co2"
        using ok(1) ran(5,7) Suspend by (intro await_ok_again [of kind "live co" "co_calls co" a co1]) auto
      then have "run_sound ?co2" using ok(2) ran(4) T(3) kind Suspend by (simp add: run_sound_def)
      moreover have "distinct (pending_ids ?co2)" using dist run(2) kind by (simp add: pending_ids_def ran(2))
      ultimately have "cinv ?co2"
        by (intro cinvI [OF inv, where I = "{i}"]) (use grow T ran kind run others in \<open>auto simp: pending_ids_def\<close>)
      then show ?thesis by (simp add: proceed_def run_m Inr Suspend)
    next
      case (Finish d)
      then obtain tr rvo where d: "d = TurnFinished tr rvo" using ok(2) kind by (auto split: finished.splits)
      have "settle_sound (?fin (Inr (tr, rvo))) (SettleTurn input (Inr (tr, rvo)))"
      proof (cases rvo)
        case None
        with ok(1) kind obtain rq where t: "tinv i (live co) {rq} (co_calls co) anything {} co1"
          "result_ok i tr (co_local co1)" "tr_outcome tr \<noteq> TurnUncertain" by (auto simp: Finish d)
        then have "live co1 \<Longrightarrow> reqs i (co_calls co1) \<subseteq> {rq}" using ran(7) by (simp add: tinv_def)
        moreover have "result_sound (?fin x) i tr" for x by (rule turn_result_sound [OF t(1,2)]) simp
        ultimately show ?thesis using t(3) T(3) kind(2) by (auto simp: None)
      next
        case (Some rv)
        with ok(1) kind have t: "tinv i (live co) {rv_request rv} (co_calls co) anything {rv_requestedEventId rv} co1"
          "result_ok i tr (co_local co1)" "tr_outcome tr = TurnUncertain" by (auto simp: Finish d)
        then have "live co1 \<Longrightarrow> reqs i (co_calls co1) \<subseteq> {rv_request rv}" "known (rv_requestedEventId rv) (tr_events tr)"
          using ran(7) by (simp_all add: tinv_def result_ok_def)
        moreover have "result_sound (?fin x) i tr" for x by (rule turn_result_sound [OF t(1,2)]) simp
        ultimately show ?thesis using t(3) T(3) kind(2) by (auto simp: Some)
      qed
      from concluded [OF this] show ?thesis
        using kind by (simp add: proceed_def run_m Inr Finish d conclude_run_def Let_def)
    qed
  qed
qed

section \<open>Steps outside a turn\<close>

lemma settled_pending: "cinv co \<Longrightarrow> i \<in> set (concat (map settled_ids (co_settling co))) \<Longrightarrow> \<exists>p. map_of (co_turns co) i = Some (PendingTurn p)"
proof -
  assume inv: "cinv co" and "i \<in> set (concat (map settled_ids (co_settling co)))"
  then obtain s where s: "s \<in> set (co_settling co)" "i \<in> set (settled_ids s)" by auto
  then have "settle_sound co s" using inv by (simp add: cinv_def)
  with s(2) show "\<exists>p. map_of (co_turns co) i = Some (PendingTurn p)" by (cases s) simp_all
qed

definition mild :: "('w, 'c) coordinator \<Rightarrow> ('w, 'c) coordinator \<Rightarrow> bool" where
  \<comment> \<open>nothing the invariant speaks of changes but the published events\<close>
  "mild co co' \<longleftrightarrow>
     co_turns co' = co_turns co \<and> co_settling co' = co_settling co \<and> co_maxTurns co' = co_maxTurns co \<and>
     co_run co' = co_run co \<and> co_active co' = co_active co \<and> co_local co' = co_local co \<and> co_calls co' = co_calls co \<and>
     (\<exists>new. co_published co' = co_published co @ new) \<and> (live co' \<longrightarrow> live co) \<and> (sound co \<longrightarrow> sound co')"

lemma kind_sound_again:
  assumes "kind_sound co kind a" "sound co'" "co_local co' = co_local co" "co_calls co' = co_calls co"
    and "live co' \<Longrightarrow> live co" "co_turns co' = co_turns co"
  shows "kind_sound co' kind a"
  using assms(1,6) by (cases kind) (auto intro: await_ok_again [OF _ assms(2-5)])

lemma cinv_mild:
  assumes "cinv co" "mild co co'"
  shows "cinv co'"
proof (rule cinvI [OF assms(1), where I = "{}"])
  have "run_sound co" "sound co'" using assms by (simp_all add: cinv_def mild_def)
  then show "run_sound co'"
    using assms(2) kind_sound_again [of co _ _ co'] by (auto simp: run_sound_def mild_def split: option.splits)
qed (use assms in \<open>auto simp: cinv_def mild_def grows_def pending_ids_def\<close>)

lemma mild_refl [simp]: "mild co co"
  by (simp add: mild_def)

lemma mild_keep [simp]:
  "mild co (co'\<lparr>co_opening := x1\<rparr>) = mild co co'" "mild co (co'\<lparr>co_introduction := x2\<rparr>) = mild co co'"
  "mild co (co'\<lparr>co_aborted := x3\<rparr>) = mild co co'"
  by (simp_all add: mild_def)

lemma cinv_keep:
  assumes "cinv co"
  shows "cinv (co\<lparr>co_opening := x1\<rparr>)" "cinv (co\<lparr>co_introduction := x2\<rparr>)" "cinv (co\<lparr>co_aborted := x3\<rparr>)"
  using cinv_mild [OF assms] by simp_all

lemma wp_emit_mild: "mild co0 co \<Longrightarrow> (\<And>e co'. mild co0 co' \<Longrightarrow> Q e co') \<Longrightarrow> (\<And>co'. mild co0 co' \<Longrightarrow> E co') \<Longrightarrow> wp (emit kn i c v p) Q E co"
  by (rule emit_cases [of kn i c v p co]) (auto simp: wp_def mild_def frame_def)

lemma wp_lift: "(\<And>x. Q x co) \<Longrightarrow> E co \<Longrightarrow> wp (liftA r) Q E co"
  by (cases r) (simp_all add: wp_def liftA_def)

lemma wp_throw: "E co \<Longrightarrow> wp (throwA e) Q E co"
  by (simp add: wp_def throwA_def)

lemma recorded_mild:
  "wp (emit kn i c v p) (\<lambda>_. mild co) (mild co) co"
  "wp (bindA (liftA r) (\<lambda>x. emit kn i c v (p' x))) (\<lambda>_. mild co) (mild co) co"
  "wp (recordCaptureEnded kn i cid dur out) (\<lambda>_. mild co) (mild co) co"
  "wp (recordPlaybackStarted kn i nid role src) (\<lambda>_. mild co) (mild co) co"
  unfolding recordCaptureEnded_def recordPlaybackStarted_def
  by (auto intro!: wp_emit_mild wp_bind wp_lift wp_throw split: option.splits)

lemma recorded_end_mild: "wp (recordPlaybackEnded kn i nid role source outcome code) (\<lambda>_. mild co) (mild co) co"
  unfolding recordPlaybackEnded_def
  by (auto intro!: wp_bind wp_lift wp_return wp_emit_mild [of co] wp_if split: option.splits)

lemma wp_snd: "wp m (\<lambda>_. P) P co \<Longrightarrow> P (snd (m co))"
  by (auto simp: wp_def split: prod.splits sum.splits)

lemmas recorded = recorded_mild [THEN wp_snd] recorded_end_mild [THEN wp_snd]

lemma recover_tinv:
  "flow_ok (RecoverRun i p stored rv) g xs f co \<Longrightarrow> tinv i g {rv_request rv} xs anything {} co"
proof (cases f)
  case (Suspend a)
  then show "flow_ok (RecoverRun i p stored rv) g xs f co \<Longrightarrow> ?thesis"
    by (cases a) (auto intro: tinv_weaken split: after_narration.splits)
next
  case (Finish d)
  then show "flow_ok (RecoverRun i p stored rv) g xs f co \<Longrightarrow> ?thesis" by (cases d) auto
qed

end
