(* ===== verification/Coordinator_Reach.thy ===== *)
theory Coordinator_Reach
  imports Coordinator_Invariant
begin

text \<open>
  Every step of the coordinator keeps its invariant, and what one step does to a stored turn.
\<close>

section \<open>A recovery goes on\<close>

lemma recover_proceeds:
  assumes inv: "cinv co0" and st: "starts i co0 co" and m: "safe m" "wp m (flow_ok kind (live co) (co_calls co)) unhealthy co"
      "lands (below_rank kind n) m"
    and kind: "kind = RecoverRun i p stored rv"
    and run: "kind_ids (co_run co0) = []" "map_of (co_turns co0) i = Some (UncertainTurn p stored rv)"
  shows "cinv (fst (proceed kind m co))"
proof -
  obtain r co1 where run_m: "m co = (r, co1)" by fastforce
  note ran = ran [OF st m(1) run_m]
  have grow: "grows {i} co0 co1"
  proof (rule ran(8))
    fix j assume j: "live co1" "j \<notin> {i}"
    then obtain f where "r = Inr f" using wpD(2) [OF m(2)] run_m by (cases r) auto
    from flow_ok_others [OF wpD(1) [OF m(2), OF run_m [unfolded this]], of j] j kind st
    show "reqs j (co_calls co1) = reqs j (co_calls co0)" by (simp add: starts_def)
  qed
  have "turn_sound co0 i (UncertainTurn p stored rv)" using inv run(2) unfolding cinv_def by blast
  then have old: "turn_sound co0 i (UncertainTurn p stored rv)" "distinct (map fst (co_turns co0))"
    "length (co_turns co0) \<le> co_maxTurns co0" "distinct (concat (map settled_ids (co_settling co0)))"
    using inv run(1) by (simp_all add: cinv_def pending_ids_def)
  have out: "i \<notin> set (concat (map settled_ids (co_settling co0)))" using settled_pending [OF inv] run(2) by fastforce
  then have others: "set (settled_ids s) \<inter> {i} = {}" if "s \<in> set (co_settling co0)" for s using that by auto
  have mine: "reqs i (co_calls co1) \<subseteq> {rv_request rv}" if l: "live co1"
  proof -
    obtain f where "r = Inr f" using wpD(2) [OF m(2)] run_m l by (cases r) auto
    from recover_tinv [OF wpD(1) [OF m(2), OF run_m [unfolded this], unfolded kind]] ran(7) l
    show ?thesis by (simp add: tinv_def)
  qed
  have kept: "turn_sound co' i (UncertainTurn p stored rv)" if "grows {i} co0 co'" "co_calls co' = co_calls co1" "live co' \<Longrightarrow> live co1" for co'
    using old(1) mine that result_sound_grows [OF that(1)] by auto
  have same: "cinv (co1\<lparr>co_active := None, co_run := None\<rparr>)"
    by (rule cinvI [OF inv, where I = "{i}"])
      (use grow ran(1-6) old run others in \<open>auto intro!: kept simp: pending_ids_def run_sound_def simp del: turn_sound.simps\<close>)
  show ?thesis
  proof (cases r)
    case (Inl e)
    then show ?thesis using same by (simp add: proceed_def run_m conclude_run_def Let_def kind)
  next
    case (Inr f)
    then have ok: "flow_ok kind (live co) (co_calls co) f co1" "below_rank kind n f"
      using wpD(1) [OF m(2)] landsD [OF m(3)] run_m by auto
    show ?thesis
    proof (cases f)
      case (Suspend a)
      let ?co2 = "co1\<lparr>co_run := Some (kind, a)\<rparr>"
      have "await_ok kind (live ?co2) (co_calls ?co2) a ?co2"
        using ok(1) ran(5,7) Suspend by (intro await_ok_again [of kind "live co" "co_calls co" a co1]) auto
      then have "run_sound ?co2" using ok(2) ran(1,4) run kind Suspend by (simp add: run_sound_def)
      then have "cinv ?co2"
        by (intro cinvI [OF inv, where I = "{i}"])
          (use grow ran(1-6) old run others kind in \<open>auto intro!: kept simp: pending_ids_def simp del: turn_sound.simps\<close>)
      then show ?thesis by (simp add: proceed_def run_m Inr Suspend)
    next
      case (Finish d)
      show ?thesis
      proof (cases d)
        case (RecoveryDone tr)
        then have t: "tinv i (live co) {rv_request rv} (co_calls co) anything {} co1" "result_ok i tr (co_local co1)" "tr_outcome tr \<noteq> TurnUncertain"
          using ok(1) by (simp_all add: Finish kind)
        let ?co2 = "co1\<lparr>co_active := None, co_run := None, co_turns := AList.update i (CompleteTurn p tr) (co_turns co1)\<rparr>"
        have "result_sound ?co2 i tr" by (rule turn_result_sound [OF t(1,2)]) simp
        then have "turn_sound ?co2 i (CompleteTurn p tr)" using t(3) mine by auto
        then have "cinv ?co2"
          by (intro cinvI [OF inv, where I = "{i}"])
            (use grow ran(1-6) old run others length_update_known [OF run(2)] in
              \<open>auto simp: pending_ids_def run_sound_def update_conv' distinct_update simp del: turn_sound.simps\<close>)
        then show ?thesis by (simp add: proceed_def run_m Inr Finish conclude_run_def Let_def kind RecoveryDone)
      qed (use ok(2) same in \<open>simp_all add: proceed_def run_m Inr Finish conclude_run_def Let_def kind\<close>)
    qed
  qed
qed

section \<open>The opening or the introduction goes on\<close>

lemma opening_proceeds:
  assumes inv: "cinv co0" and st: "starts (run_interaction kind) co0 co" and m: "safe m" "quiet m" "lands (below_rank kind n) m"
    and kind: "opening_kind kind" and run: "kind_ids (co_run co0) = []"
  shows "cinv (fst (proceed kind m co))"
proof -
  obtain r co1 where run_m: "m co = (r, co1)" by fastforce
  note ran = ran [OF st m(1) run_m]
  have grow: "grows {} co0 co1"
    by (rule ran(8)) (use quietD [OF m(2) run_m] st in \<open>simp add: starts_def\<close>)
  have old: "distinct (map fst (co_turns co0))" "length (co_turns co0) \<le> co_maxTurns co0"
    "distinct (concat (map settled_ids (co_settling co0)))"
    using inv by (simp_all add: cinv_def pending_ids_def)
  have stop: "cinv (co1\<lparr>co_active := None, co_run := None, co_settling := co_settling co1 @ [s]\<rparr>)" (is "cinv ?co2")
    if "settled_ids s = []" for s
  proof -
    have "settle_sound co' s" for co' :: "('a, 'b) coordinator" using that by (cases s) simp_all
    then show ?thesis
      by (intro cinvI [OF inv, where I = "{}"]) (use grow ran(1-6) old run that in \<open>auto simp: pending_ids_def run_sound_def\<close>)
  qed
  have ends: "cinv (fst (conclude_run kind out co1))" for out
    using kind by (cases kind) (simp_all add: conclude_run_def Let_def stop)
  show ?thesis
  proof (cases r)
    case (Inr f)
    then have ok: "below_rank kind n f" using landsD [OF m(3)] run_m by auto
    show ?thesis
    proof (cases f)
      case (Suspend a)
      let ?co2 = "co1\<lparr>co_run := Some (kind, a)\<rparr>"
      have "run_sound ?co2" using ok ran(4) kind Suspend by (cases kind) (simp_all add: run_sound_def)
      moreover have "kind_ids (Some (kind, a)) = []" using kind by (cases kind) simp_all
      ultimately have "cinv ?co2"
        by (intro cinvI [OF inv, where I = "{}"]) (use grow ran(1-6) old run in \<open>auto simp: pending_ids_def\<close>)
      then show ?thesis by (simp add: proceed_def run_m Inr Suspend)
    qed (use ends in \<open>simp add: proceed_def run_m Inr\<close>)
  qed (use ends in \<open>simp add: proceed_def run_m\<close>)
qed

section \<open>The steps\<close>

lemma pending_gone:
  assumes "cinv co" "map_of (co_turns co) i = None"
  shows "i \<notin> set (pending_ids co)"
proof
  assume "i \<in> set (pending_ids co)"
  then consider "i \<in> set (concat (map settled_ids (co_settling co)))" | "i \<in> set (kind_ids (co_run co))"
    by (auto simp: pending_ids_def)
  then show False
  proof cases
    case 1
    with settled_pending [OF assms(1)] assms(2) show False by fastforce
  next
    case 2
    then have "\<exists>p. map_of (co_turns co) i = Some (PendingTurn p)"
      using assms(1) by (cases "co_run co" rule: kind_ids.cases) (auto simp: cinv_def run_sound_def)
    with assms(2) show False by simp
  qed
qed

lemma idle: "cinv co \<Longrightarrow> co_active co = None \<Longrightarrow> co_run co = None"
  by (auto simp: cinv_def run_sound_def split: option.splits)

lemma requireId_nonempty: "requireId v = Inr i \<Longrightarrow> i \<noteq> []"
  by (auto simp: requireId_def split: jsval.splits if_splits)

lemma bounded_text_nonempty: "bounded_text n v = Inr i \<Longrightarrow> i \<noteq> []"
  by (auto simp: bounded_text_def split: jsval.splits if_splits)

lemma validateTurnInput_nonempty: "validateTurnInput v = Inr input \<Longrightarrow> sb_interactionId input \<noteq> []"
  by (auto simp: validateTurnInput_def result_simps dest!: bounded_text_nonempty)

lemma tinv_begin:
  assumes "cinv co" "i \<noteq> []" "subseq es (co_published co)" "chained i es" "live co \<Longrightarrow> reqs i (co_calls co) \<subseteq> S" "\<forall>c \<in> K. known c es"
  shows "tinv i (live co) S (co_calls co) anything K (begin_run kind aborted es progress co)"
  using assms by (simp add: tinv_def begin_run_def cinv_def sound_def)

lemma begin_calls [simp]: "co_calls (begin_run kind aborted es progress co) = co_calls co" "co_turns (begin_run kind aborted es progress co) = co_turns co"
  "co_local (begin_run kind aborted es progress co) = es"
  by (simp_all add: begin_run_def)

lemma live_begin [simp]: "live (begin_run kind aborted es progress co) = live co"
  by (simp add: begin_run_def live_def healthy_host_def)

lemma proceed_turns: "safe m \<Longrightarrow> kind = TurnRun input intent \<Longrightarrow> co_turns (fst (proceed kind m co)) = co_turns co"
  by (auto simp: proceed_def conclude_run_def Let_def frame_def dest!: safeD split: prod.splits sum.splits flow.splits)

lemma submit_fresh:
  assumes "cinv co" "validateTurnInput v = Inr input" "map_of (co_turns co) (sb_interactionId input) = None"
    and "length (co_turns co) < co_maxTurns co" "co_active co = None"
  shows "cinv ((fst (proceed (TurnRun input intent) (start_turn kn input intent) (begin_run (TurnRun input intent) aborted [] None co)))
    \<lparr>co_turns := AList.update (sb_interactionId input) (PendingTurn p) (co_turns co)\<rparr>)"
proof (rule turn_proceeds [OF assms(1) _ _ _ lands_start_turn refl refl])
  let ?i = "sb_interactionId input" and ?kind = "TurnRun input intent"
  have "live co \<Longrightarrow> reqs ?i (co_calls co) = {}" using assms(1,3) by (simp add: cinv_def)
  then have "tinv ?i (live co) {} (co_calls co) anything {} (begin_run ?kind aborted [] None co)"
    using validateTurnInput_nonempty [OF assms(2)] by (intro tinv_begin [OF assms(1)]) simp_all
  from wp_start_turn [OF this, of kn intent]
  show "wp (start_turn kn input intent) (flow_ok ?kind (live (begin_run ?kind aborted [] None co)) (co_calls (begin_run ?kind aborted [] None co)))
      unhealthy (begin_run ?kind aborted [] None co)" by simp
  show "starts ?i co (begin_run ?kind aborted [] None co)" using starts_begin [OF assms(1), of "[]" ?kind] by simp
  show "?i \<notin> set (concat (map settled_ids (co_settling co)))"
    using pending_gone [OF assms(1,3)] by (simp add: pending_ids_def)
qed (use assms idle [OF assms(1,5)] length_update_fresh [OF assms(3)] in
    \<open>auto simp: safe_intros update_conv' distinct_update cinv_def\<close>)

lemma submit_recovers:
  assumes "cinv co" "map_of (co_turns co) i = Some (UncertainTurn p r rv)" "co_active co = None"
  shows "cinv (fst (proceed (RecoverRun i p r rv)
      (bindA (callA (SubmitExecute i (rv_request rv))) (\<lambda>_.
       returnA (Suspend (AwaitExecute (rv_request rv) (rv_requestedEventId rv)))))
      (begin_run (RecoverRun i p r rv) aborted (tr_events r) None co)))"
proof (rule recover_proceeds [OF assms(1) _ _ _ _ refl _ assms(2), where n = 4])
  let ?kind = "RecoverRun i p r rv" and ?co = "begin_run (RecoverRun i p r rv) aborted (tr_events r) None co"
  have "turn_sound co i (UncertainTurn p r rv)" using assms(1,2) unfolding cinv_def by blast
  then have s: "i \<noteq> []" "chained i (tr_events r)" "subseq (tr_events r) (co_published co)"
    "known (rv_requestedEventId rv) (tr_events r)" "live co \<Longrightarrow> reqs i (co_calls co) \<subseteq> {rv_request rv}"
    by (auto simp: result_sound_def)
  show "starts i co ?co" using starts_begin [OF assms(1) s(3), of ?kind] by simp
  have "tinv i (live co) {rv_request rv} (co_calls co) anything {rv_requestedEventId rv} ?co"
    using s by (intro tinv_begin [OF assms(1)]) simp_all
  then show "wp (bindA (callA (SubmitExecute i (rv_request rv))) (\<lambda>_.
       returnA (Suspend (AwaitExecute (rv_request rv) (rv_requestedEventId rv)))))
      (flow_ok ?kind (live ?co) (co_calls ?co)) unhealthy ?co"
    by (intro wp_bind wp_submit) (auto intro!: wp_return)
qed (use idle [OF assms(1,3)] in \<open>auto intro!: safe_intros lands_intros\<close>)

lemma cinv_submitTurn: "cinv co \<Longrightarrow> cinv (fst (submitTurn kn v aborted co))"
proof -
  assume inv: "cinv co"
  show ?thesis
  proof (cases "validateTurnInput v")
    case (Inr input)
    let ?i = "sb_interactionId input"
    show ?thesis
    proof (cases "map_of (co_turns co) ?i")
      case None
      have "co_turns (fst (proceed (TurnRun input intent) (start_turn kn input intent) (begin_run (TurnRun input intent) aborted [] None co))) = co_turns co"
        for intent
        by (simp add: proceed_turns safe_intros)
      with None Inr inv submit_fresh [OF inv Inr None] show ?thesis
        by (auto simp: submitTurn_def Let_def case_prod_unfold)
    next
      case (Some existing)
      with Inr inv show ?thesis
        by (cases existing) (auto simp: submitTurn_def Let_def intro!: submit_recovers)
    qed
  qed (simp add: submitTurn_def inv)
qed

lemma cinv_start_opening:
  assumes "cinv co" "co_active co = None"
  shows "cinv (fst (proceed (OpeningRun input) (start_opening kn input) (begin_run (OpeningRun input) aborted [] source co)))"
  using idle [OF assms]
  by (intro opening_proceeds [OF assms(1) starts_begin [OF assms(1)] _ _ lands_start_opening]) (simp_all add: safe_intros quiet_intros)

lemma cinv_start_introduction:
  assumes "cinv co" "co_active co = None"
  shows "cinv (fst (proceed (IntroductionRun i ms) (introduce kn i n k ms) (begin_run (IntroductionRun i ms) aborted [] None co)))"
  using idle [OF assms]
  by (intro opening_proceeds [OF assms(1) starts_begin [OF assms(1)] _ _ lands_introduce]) (simp_all add: safe_intros quiet_intros)

lemma cinv_prepareOpening: "cinv co \<Longrightarrow> cinv (fst (prepareOpening kn i boot t aborted co))"
  by (auto simp: prepareOpening_def Let_def case_prod_unfold intro!: cinv_keep cinv_start_opening
      split: sum.splits option.splits stored_opening.splits)

lemma cinv_prepareRoleIntroduction: "cinv co \<Longrightarrow> cinv (fst (prepareRoleIntroduction kn i ms aborted co))"
  by (auto simp: prepareRoleIntroduction_def Let_def case_prod_unfold intro!: cinv_keep cinv_start_introduction
      split: sum.splits option.splits stored_introduction.splits)

lemma kind_sound_fresh:
  assumes "kind_sound co kind a" "sound co" "map_of (co_turns co) j = None"
  shows "kind_sound (co\<lparr>co_turns := AList.update j t (co_turns co)\<rparr>) kind a"
proof -
  let ?co2 = "co\<lparr>co_turns := AList.update j t (co_turns co)\<rparr>"
  have "await_ok kind (live ?co2) (co_calls ?co2) a ?co2" if "await_ok kind (live co) (co_calls co) a co"
    by (rule await_ok_again [OF that]) (use assms(2) in simp_all)
  then show ?thesis using assms(1,3) by (cases kind) (auto simp: update_conv')
qed

lemma cinv_record_failure:
  fixes co :: "('w, 'c) coordinator"
  assumes inv: "cinv co"
  shows "cinv (fst (record_failure kn stage print i c co))"
proof -
  show ?thesis
  proof (cases "bindE (bounded_text 160 i) (\<lambda>i. bindE (bounded_text 160 c) (\<lambda>c. Inr (i, c)))")
    case (Inr ic)
    then obtain j code where ic: "ic = (j, code)" "j \<noteq> []" by (cases ic) (auto simp: result_simps dest!: bounded_text_nonempty)
    show ?thesis
    proof (cases "map_of (co_turns co) j = None \<and> length (co_turns co) < co_maxTurns co")
      case True
      let ?p = "SystemError stage code True NotSubmitted"
      show ?thesis
      proof (rule emit_cases [of kn j None Accessible ?p co])
        fix co' :: "('w, 'c) coordinator"
        assume "emit kn j None Accessible ?p co = (Inl SequenceError, co')" "frame co co'" "co_local co' = co_local co" "co_calls co' = co_calls co"
        with cinv_mild [OF inv, of co'] True show ?thesis by (auto simp: record_failure_def Inr ic mild_def frame_def)
      next
        fix e and co' :: "('w, 'c) coordinator"
        let ?r = "\<lparr>tr_interactionId = j, tr_outcome = TurnFailed, tr_events = [e], tr_engineResult = None, tr_checkpoint = None\<rparr>"
        let ?co2 = "co'\<lparr>co_turns := AList.update j (CompleteTurn (print code) ?r) (co_turns co')\<rparr>"
        assume *: "emit kn j None Accessible ?p co = (Inr e, co')" "frame co co'" "co_local co' = co_local co" "co_calls co' = co_calls co"
          "co_published co' = co_published co @ [e]" "ev_correlationId e = j" "ev_causationId e = None"
        have mild: "mild co co'" using *(2-4) by (auto simp: mild_def frame_def)
        note inv' = cinv_mild [OF inv mild]
        have fresh: "map_of (co_turns co') j = None" "length (co_turns co') < co_maxTurns co'" using True mild by (simp_all add: mild_def)
        have "chained j [e]" using *(6,7) by (simp add: chained_def)
        moreover have "subseq [e] (co_published co @ [e])"
          using list_emb_append_mono [of "(=)" "[]" "co_published co" "[e]" "[e]"] by simp
        ultimately have "result_sound co' j ?r" using *(5) ic(2) by (simp add: result_sound_def result_ok_def)
        moreover have "live co' \<Longrightarrow> reqs j (co_calls co') = {}" using inv' fresh(1) by (simp add: cinv_def)
        ultimately have t: "turn_sound ?co2 j (CompleteTurn (print code) ?r)" by (auto simp: result_sound_def)
        have run: "run_sound ?co2"
        proof -
          have "run_sound co'" "sound co'" using inv' by (simp_all add: cinv_def)
          then show ?thesis by (auto simp: run_sound_def intro: kind_sound_fresh [OF _ _ fresh(1)] split: option.splits)
        qed
        have out: "j \<notin> set (pending_ids co')" by (rule pending_gone [OF inv' fresh(1)])
        then have "set (settled_ids s) \<inter> {j} = {}" if "s \<in> set (co_settling co')" for s using that by (auto simp: pending_ids_def)
        then have "cinv ?co2"
          by (intro cinvI [OF inv', where I = "{j}"])
            (use t run out inv' fresh length_update_fresh [OF fresh(1)] in
              \<open>auto simp: cinv_def update_conv' distinct_update pending_ids_def simp del: turn_sound.simps\<close>)
        with *(1) True show ?thesis by (simp add: record_failure_def Inr ic Let_def)
      qed
    qed (use inv in \<open>auto simp: record_failure_def Inr ic\<close>)
  qed (simp add: record_failure_def inv)
qed

lemma cinv_settle:
  assumes inv: "cinv co" and queue: "co_settling co = st # rest"
  shows "cinv (fst (settle_promise st (co\<lparr>co_settling := rest\<rparr>)))"
proof -
  let ?co1 = "co\<lparr>co_settling := rest\<rparr>"
  have rest: "cinv ?co1" if "settled_ids st = []"
  proof (rule cinvI [OF inv, where I = "{}"])
    have "run_sound co" "sound ?co1" using inv by (simp_all add: cinv_def)
    then show "run_sound ?co1"
      using kind_sound_again [of co _ _ ?co1] by (auto simp: run_sound_def split: option.splits)
  qed (use inv queue that in \<open>auto simp: cinv_def pending_ids_def\<close>)
  show ?thesis
  proof (cases st)
    case (SettleTurn input outcome)
    let ?i = "sb_interactionId input"
    obtain p where ok: "map_of (co_turns co) ?i = Some (PendingTurn p)" "settle_sound co st"
      using inv queue SettleTurn by (auto simp: cinv_def)
    have dist: "distinct (pending_ids co)" "distinct (map fst (co_turns co))" "length (co_turns co) \<le> co_maxTurns co"
      using inv by (simp_all add: cinv_def)
    then have out: "?i \<notin> set (concat (map settled_ids rest))" "?i \<notin> set (kind_ids (co_run co))"
      by (auto simp: pending_ids_def queue SettleTurn)
    have step: "cinv (co\<lparr>co_settling := rest, co_turns := T\<rparr>)" (is "cinv ?co2")
      if "distinct (map fst T)" "length T \<le> co_maxTurns co" "\<And>j. j \<noteq> ?i \<Longrightarrow> map_of T j = map_of (co_turns co) j"
        "case map_of T ?i of None \<Rightarrow> \<not> live co | Some t \<Rightarrow> turn_sound co ?i t \<and> (\<forall>q. t \<noteq> PendingTurn q)" for T
    proof (rule cinvI [OF inv, where I = "{?i}"])
      show "turn_sound ?co2 j t" if "j \<in> {?i}" "map_of (co_turns ?co2) j = Some t" for j t
        using that \<open>case map_of T ?i of None \<Rightarrow> _ | Some t \<Rightarrow> _ t\<close> by (cases t) (auto simp: result_sound_def)
      have "kind_sound ?co2 kind a" if "co_run co = Some (kind, a)" for kind a
      proof -
        have ks: "kind_sound co kind a" using inv that by (simp add: cinv_def run_sound_def)
        have "await_ok kind (live ?co2) (co_calls ?co2) a ?co2" if "await_ok kind (live co) (co_calls co) a co"
          by (rule await_ok_again [OF that]) (use inv in \<open>simp_all add: cinv_def\<close>)
        moreover have "map_of T (run_interaction kind) = map_of (co_turns co) (run_interaction kind)" if "\<not> opening_kind kind"
          using out(2) ks ok(1) \<open>\<And>j. j \<noteq> ?i \<Longrightarrow> map_of T j = map_of (co_turns co) j\<close> [of "run_interaction kind"]
            that \<open>co_run co = Some (kind, a)\<close> by (cases kind; cases "run_interaction kind = ?i") auto
        ultimately show ?thesis using ks by (cases kind) auto
      qed
      then show "run_sound ?co2" using inv by (auto simp: cinv_def run_sound_def split: option.splits)
    qed (use that out dist inv queue SettleTurn in \<open>auto simp: pending_ids_def cinv_def split: option.splits\<close>)
    show ?thesis
    proof (cases outcome)
      case (Inl e)
      then show ?thesis
        using step [of "AList.delete ?i (co_turns co)"] ok(2) dist length_delete_le [of ?i "co_turns co"]
        by (auto simp: SettleTurn settle_promise_def Let_def delete_conv' distinct_delete)
    next
      case (Inr rr)
      then show ?thesis
        using step [of "AList.update ?i _ (co_turns co)"] ok dist length_update_known [OF ok(1)]
        by (cases rr; cases "snd rr")
          (auto simp: SettleTurn settle_promise_def Let_def update_conv' distinct_update simp del: turn_sound.simps)
    qed
  next
    case (SettleOpening input progress outcome)
    then show ?thesis using rest by (auto simp: settle_promise_def intro!: cinv_keep split: sum.splits)
  next
    case (SettleIntroduction i messages outcome)
    then show ?thesis using rest by (auto simp: settle_promise_def intro!: cinv_keep split: sum.splits)
  qed
qed

lemma cinv_answer:
  assumes inv: "cinv co" and run: "co_run co = Some (kind, a)" and ans: "answer_run kn ev kind a = Some m"
  shows "cinv (fst (proceed kind m co))"
proof -
  have rs: "fits kind a" "kind_sound co kind a" using inv run by (simp_all add: cinv_def run_sound_def)
  note st = starts_again [OF inv run] and safe = safe_answer [OF ans] and lands = lands_answer [OF rs(1) ans]
  show ?thesis
  proof (cases kind)
    case (TurnRun input intent)
    let ?i = "sb_interactionId input"
    obtain p where p: "map_of (co_turns co) ?i = Some (PendingTurn p)" "await_ok kind (live co) (co_calls co) a co"
      using rs(2) TurnRun by auto
    have "distinct (pending_ids co)" using inv by (simp add: cinv_def)
    then have out: "?i \<notin> set (concat (map settled_ids (co_settling co)))" by (auto simp: pending_ids_def run TurnRun)
    have "cinv ((fst (proceed kind m co))\<lparr>co_turns := co_turns co\<rparr>)"
      by (rule turn_proceeds [OF inv st [unfolded TurnRun run_interaction.simps] safe wp_answer [OF p(2) ans] lands TurnRun refl _ _ _ _ p(1)])
        (use inv out in \<open>auto simp: TurnRun run cinv_def\<close>)
    moreover have "co_turns (fst (proceed kind m co)) = co_turns co" by (rule proceed_turns [OF safe TurnRun])
    ultimately show ?thesis by (metis coordinator.surjective coordinator.update_convs(10))
  next
    case (RecoverRun i print stored rv)
    then have "await_ok kind (live co) (co_calls co) a co" and u: "map_of (co_turns co) i = Some (UncertainTurn print stored rv)"
      using rs(2) by simp_all
    then show ?thesis
      by (intro recover_proceeds [OF inv st [unfolded RecoverRun run_interaction.simps] safe wp_answer [OF _ ans] lands RecoverRun _ u])
        (simp_all add: run RecoverRun)
  next
    case (OpeningRun input)
    then have k: "opening_kind kind" by simp
    show ?thesis by (rule opening_proceeds [OF inv st safe quiet_answer [OF k rs(1) ans] lands k]) (simp add: run OpeningRun)
  next
    case (IntroductionRun i ms)
    then have k: "opening_kind kind" by simp
    show ?thesis by (rule opening_proceeds [OF inv st safe quiet_answer [OF k rs(1) ans] lands k]) (simp add: run IntroductionRun)
  qed
qed

lemma cinv_step: "cinv co \<Longrightarrow> cinv (fst (coordinator_step kn co ev))"
proof -
  assume inv: "cinv co"
  have answered: "cinv (fst (case co_run co of None \<Rightarrow> (co, Proceeds)
      | Some (kind, a) \<Rightarrow> (case answer_run kn e kind a of None \<Rightarrow> (co, Proceeds) | Some m \<Rightarrow> proceed kind m co)))" for e
    using inv cinv_answer [OF inv] by (auto split: option.splits)
  show ?thesis
  proof (cases ev)
    case SettlePromise
    then show ?thesis using inv cinv_settle [OF inv] by (simp add: coordinator_step_def split: list.split)
  next
    case AbortSignal
    then show ?thesis using inv by (simp add: coordinator_step_def cinv_keep)
  qed (use inv answered recorded [THEN cinv_mild [OF inv]] in
      \<open>simp_all add: coordinator_step_def reply_event_def cinv_submitTurn cinv_prepareOpening cinv_prepareRoleIntroduction cinv_record_failure\<close>)
qed

lemma cinv_new:
  assumes "newSemanticTurnCoordinator kn sq hostIds clock requestIds narrationIds maxTurns = Inr co" "newEventSequence sid first = Inr sq"
  shows "cinv co"
proof -
  have "sound co"
    using assms newEventSequence_wf [OF assms(2)] by (cases "sq_next sq") (auto simp: newSemanticTurnCoordinator_def sound_def split: option.splits if_splits)
  then show ?thesis
    using assms(1) by (auto simp: newSemanticTurnCoordinator_def cinv_def pending_ids_def run_sound_def split: option.splits if_splits)
qed

lemma reach_cinv: "coordinator_reach kn co \<Longrightarrow> cinv co"
  by (induction rule: coordinator_reach.induct) (auto intro: cinv_new cinv_step)

end
