(* ===== verification/Coordinator_Demo.thy ===== *)
theory Coordinator_Demo
  imports Coordinator_Reach Projection_Facts
begin

text \<open>
  A coordinator with a host that keeps its promises, and one turn of it from the submission to the
  stored result, evaluated step by step.
\<close>

section \<open>Demonstration coordinator\<close>

definition demo_knowledge :: "(unit, unit) knowledge" where
  "demo_knowledge = \<lparr>kw_createWorld = (), kw_projectWorld = \<lambda>_ _. Some (), kw_currentObjects = \<lambda>_. [],
     kw_createScene = \<lambda>_ _. Some (), kw_projectScene = \<lambda>_ _. Some (), kw_isOpeningProfile = \<lambda>_. False,
     kw_sceneObjects = \<lambda>_. []\<rparr>"

definition demo_ids :: "nat \<Rightarrow> jsval" where
  "demo_ids n = JStr (js ''id-'' @ [of_nat (48 + n mod 64)])"

definition demo_time :: "nat \<Rightarrow> jsval" where
  "demo_time n = JStr (js ''2026-01-01T00:00:00.000Z'')"

definition demo_start :: "(unit, unit) coordinator" where
  "demo_start = \<lparr>co_sequence = \<lparr>sq_sessionId = js ''s'', sq_next = Some 1\<rparr>, co_hostIds = demo_ids, co_clock = demo_time,
     co_appends = 0, co_requestIds = demo_ids, co_requests = 0, co_narrationIds = demo_ids, co_narrations = 0,
     co_maxTurns = MAX_COORDINATED_TURNS, co_turns = [], co_introduction = None, co_opening = None, co_scene = None,
     co_world = (), co_active = None, co_pendingIntent = None, co_run = None, co_aborted = False, co_local = [],
     co_progress = None, co_settling = [], co_published = [], co_calls = []\<rparr>"

definition demo_input :: turn_input where
  "demo_input = \<lparr>sb_interactionId = js ''i'', sb_transcript = js ''look around'', sb_confidence = None, sb_observedObjects = []\<rparr>"

definition demo_turn :: jsval where
  "demo_turn = JObj [(js ''interactionId'', JStr (js ''i'')), (js ''transcript'', JStr (js ''look around'')),
     (js ''observedObjects'', JArr [])]"

definition demo_result :: execute_result where
  "demo_result = \<lparr>er_requestId = js ''id-0'', er_previousRevision = 0, er_revision = 1, er_command = js ''look'',
     er_output = js ''West of House'', er_boundary = InputRequested, er_status = Committed\<rparr>"

definition run_steps :: "('w, 'c) knowledge \<Rightarrow> ('w, 'c) coordinator \<Rightarrow> coordinator_event list \<Rightarrow> ('w, 'c) coordinator" where
  "run_steps kn co evs = fold (\<lambda>ev co. fst (coordinator_step kn co ev)) evs co"

definition demo_answers :: "coordinator_event list" where
  "demo_answers = [SubmitTurn demo_turn False, GuideAnswered (Some (GuideExecute (js ''look'')
       (DExecute (js ''look'') (js ''look around'') None 1 None None) (js ''catalog''))),
     StateAnswered (Some \<lparr>ps_revision = 0, ps_lastOutput = [], ps_boundary = InputRequested\<rparr>),
     ExecuteAnswered (Inr demo_result), SnapshotAnswered None, NarrationAnswered True,
     SettlePromise]"



definition demo_id :: "nat \<Rightarrow> js" where
  "demo_id n = js ''id-'' @ [of_nat (48 + n mod 64)]"

lemma demo_host_ids: "demo_ids n = JStr (demo_id n)" "demo_id n \<noteq> []" "length (demo_id n) = 4"
  by (simp_all add: demo_ids_def demo_id_def js_def)

definition demo_stamp :: js where
  "demo_stamp = js ''2026-01-01T00:00:00.000Z''"

lemma demo_host_time: "demo_time n = JStr demo_stamp" "isCanonicalEventTimestamp (JStr demo_stamp)"
proof -
  show "demo_time n = JStr demo_stamp" by (simp add: demo_time_def demo_stamp_def)
  show "isCanonicalEventTimestamp (JStr demo_stamp)" by code_simp
qed

definition demo_issued :: "nat \<Rightarrow> js \<Rightarrow> nat \<Rightarrow> js \<Rightarrow> js option \<Rightarrow> visibility \<Rightarrow> payload \<Rightarrow> semantic_event" where
  "demo_issued k sid n i c v p = \<lparr>ev_id = demo_id k, ev_sessionId = sid, ev_sequence = n, ev_occurredAt = demo_stamp,
     ev_type = js (event_type p), ev_correlationId = i, ev_causationId = c, ev_visibility = v, ev_payload = p\<rparr>"

lemma emit_demo:
  assumes "co_hostIds co = demo_ids" "co_clock co = demo_time" "seq_wf (co_sequence co)" "sq_next (co_sequence co) = Some n"
    and "n < 1000" "i \<noteq> []" "c \<noteq> Some []"
  shows "emit demo_knowledge i c v p co =
    (let e = demo_issued (co_appends co) (sq_sessionId (co_sequence co)) n i c v p
     in (Inr e, co\<lparr>co_sequence := (co_sequence co)\<lparr>sq_next := Some (n + 1)\<rparr>, co_appends := co_appends co + 1,
           co_world := (), co_scene := map_option (\<lambda>_. ()) (co_scene co), co_published := co_published co @ [e]\<rparr>))"
proof -
  let ?draft = "\<lparr>dr_type = JStr (js (event_type p)), dr_correlationId = JStr i,
              dr_causationId = (case c of None \<Rightarrow> JUndef | Some c \<Rightarrow> JStr c),
              dr_visibility = JStr (js (visibility_name v)), dr_payload = p\<rparr>"
  have t: "event_type p \<noteq> []" by (cases p) simp_all
  have "\<exists>e sq'. append_event (co_sequence co) ?draft (co_hostIds co (co_appends co)) (co_clock co (co_appends co)) = (Inr e, sq')"
    using assms t demo_host_ids demo_host_time by (intro append_event_accepts) (auto simp: nonempty_string_def split: option.splits)
  then obtain e sq' where app: "append_event (co_sequence co) ?draft (co_hostIds co (co_appends co)) (co_clock co (co_appends co)) = (Inr e, sq')"
    by blast
  then have e: "e = demo_issued (co_appends co) (sq_sessionId (co_sequence co)) n i c v p"
    using assms demo_host_ids demo_host_time
    by (auto simp: append_event_def Let_def demo_issued_def the_string_def split: option.splits if_splits)
  have "sq' = (co_sequence co)\<lparr>sq_next := Some (n + 1)\<rparr>"
    using append_event_success(3) [OF app assms(3)] assms(5) by (auto simp: e demo_issued_def MAX_SAFE_INTEGER_def)
  with app e show ?thesis by (simp add: emit_def demo_knowledge_def Let_def split: option.splits)
qed

lemma demo_input: "validateTurnInput demo_turn = Inr demo_input"
  by code_simp

lemma demo_kw: "kw_currentObjects demo_knowledge w = []" "kw_sceneObjects demo_knowledge sc = []"
  by (simp_all add: demo_knowledge_def)

lemmas demo_simps = run_steps_def demo_answers_def coordinator_step_def submitTurn_def demo_input proceed_def start_turn_def
  bindA_def stateA_def callA_def updateA_def returnA_def emit_local_def Let_def begin_run_def demo_start_def demo_input_def
  opening_pending_def MAX_COORDINATED_TURNS_def emit_demo seq_wf_def js_def guide_question_def demo_issued_def answer_run_def
  turn_decided_def guarded_def finishEngineResult_def state_inspected_def demo_host_ids(1) demo_result_def execute_answered_def
  nextRequestId_def nextNarrationId_def requireId_def demo_host_ids(3) demo_host_ids(2) MAX_SAFE_INTEGER_def demo_kw


lemmas demo_run_simps = demo_simps snapshot_taken_def narrate_turn_def narrate_def begin_segment_def narration_answered_def
  checkpoint_failed_def segments_answered_def settle_segment_def after_segments_def catchA_def after_turn_def turn_resultA_def
  conclude_run_def settle_promise_def

lemma demo_trim: "trim (js ''West of House'') \<noteq> []"
  by code_simp

definition demo_asked :: "(unit, unit) coordinator" where \<comment> \<open>the guide has been asked\<close>
  "demo_asked = run_steps demo_knowledge demo_start (take 1 demo_answers)"

definition demo_finished :: "(unit, unit) coordinator" where \<comment> \<open>and the turn is committed and stored\<close>
  "demo_finished = run_steps demo_knowledge demo_start demo_answers"

lemma demo_asked_facts:
  "co_run demo_asked = Some (TurnRun demo_input None, AwaitGuide (demo_id 0))" "co_settling demo_asked = []"
  "co_hostIds demo_asked = demo_ids" "co_clock demo_asked = demo_time" "co_requestIds demo_asked = demo_ids"
  "co_narrationIds demo_asked = demo_ids" "sq_next (co_sequence demo_asked) = Some 2"
  unfolding demo_asked_def by (simp_all add: demo_run_simps)

lemma demo_finished_facts:
  "\<exists>r. map_of (co_turns demo_finished) (js ''i'') = Some (CompleteTurn (turn_fingerprint demo_input) r) \<and>
     tr_outcome r = TurnCommitted \<and> tr_engineResult r = Some demo_result"
  "co_hostIds demo_finished = demo_ids" "co_clock demo_finished = demo_time" "co_requestIds demo_finished = demo_ids"
  "co_narrationIds demo_finished = demo_ids" "sq_next (co_sequence demo_finished) = Some 11"
  "SubmitExecute (js ''i'') \<lparr>rq_requestId = demo_id 0, rq_expectedRevision = 0, rq_command = js ''look''\<rparr> \<in> set (co_calls demo_finished)"
  using demo_trim unfolding demo_finished_def by (simp_all add: demo_run_simps)

lemma demo_healthy:
  assumes "co_hostIds co = demo_ids" "co_clock co = demo_time" "co_requestIds co = demo_ids" "co_narrationIds co = demo_ids"
    and "sq_next (co_sequence co) = Some n"
  shows "live co"
  using assms demo_host_ids demo_host_time by (simp add: live_def healthy_host_def nonempty_string_def requireId_def)

lemma reach_run: "coordinator_reach kn co \<Longrightarrow> coordinator_reach kn (run_steps kn co evs)"
  unfolding run_steps_def by (induction evs arbitrary: co) (simp_all add: coordinator_reach.step)

lemma demo_reach: "coordinator_reach demo_knowledge demo_start"
proof (rule coordinator_reach.created)
  show "newSemanticTurnCoordinator demo_knowledge \<lparr>sq_sessionId = js ''s'', sq_next = Some 1\<rparr> demo_ids demo_time demo_ids demo_ids JUndef
      = Inr demo_start"
    by (simp add: newSemanticTurnCoordinator_def demo_start_def demo_knowledge_def MAX_COORDINATED_TURNS_def safe_nat_jnat MAX_SAFE_INTEGER_def)
  show "newEventSequence (JStr (js ''s'')) JUndef = Inr \<lparr>sq_sessionId = js ''s'', sq_next = Some 1\<rparr>"
    by (simp add: newEventSequence_def js_def safe_nat_jnat MAX_SAFE_INTEGER_def)
qed

lemma demo_reaches: "coordinator_reach demo_knowledge demo_asked" "coordinator_reach demo_knowledge demo_finished"
  unfolding demo_asked_def demo_finished_def by (rule reach_run [OF demo_reach])+

lemma demo_live: "live demo_asked" "live demo_finished"
  by (rule demo_healthy; rule demo_asked_facts demo_finished_facts)+

end
