(* ===== verification/Coordinator_Properties.thy ===== *)
theory Coordinator_Properties
  imports Coordinator_Demo
begin

text \<open>
  The properties of the turn coordinator: one request per interaction, final results, the engine's
  exact words, an event stream that always projects, turns that end once answered, and the
  refinement of an abstract journal of turns.
\<close>

section \<open>What a step does to the journal\<close>

inductive turns_step :: "bool \<Rightarrow> nat \<Rightarrow> (js \<times> stored_turn) list \<Rightarrow> (js \<times> stored_turn) list \<Rightarrow> bool" for healthy maximum where
  same: "turns_step healthy maximum T T"
| opened: "map_of T i = None \<Longrightarrow> length T < maximum \<Longrightarrow> turns_step healthy maximum T (AList.update i (PendingTurn p) T)"
| noted: "map_of T i = None \<Longrightarrow> length T < maximum \<Longrightarrow> turns_step healthy maximum T (AList.update i (CompleteTurn p r) T)"
| settled: "map_of T i = Some (PendingTurn p) \<Longrightarrow> turns_step healthy maximum T (AList.update i (CompleteTurn q r) T)"
| doubted: "map_of T i = Some (PendingTurn p) \<Longrightarrow> turns_step healthy maximum T (AList.update i (UncertainTurn q r rv) T)"
| dropped: "map_of T i = Some (PendingTurn p) \<Longrightarrow> \<not> healthy \<Longrightarrow> turns_step healthy maximum T (AList.delete i T)"
| recovered: "map_of T i = Some (UncertainTurn p r rv) \<Longrightarrow> turns_step healthy maximum T (AList.update i (CompleteTurn p r') T)"

lemma proceed_journal:
  assumes "safe m"
  shows "co_turns (fst (proceed kind m co)) = co_turns co \<or>
    (\<exists>i p stored rv r. kind = RecoverRun i p stored rv \<and>
       co_turns (fst (proceed kind m co)) = AList.update i (CompleteTurn p r) (co_turns co))"
  using assms
  by (cases kind) (auto simp: proceed_def conclude_run_def Let_def frame_def dest!: safeD split: prod.splits sum.splits flow.splits finished.splits)

lemma proceed_journal_step:
  assumes "safe m" "co_turns co = T" "\<And>i p r rv. kind = RecoverRun i p r rv \<Longrightarrow> map_of T i = Some (UncertainTurn p r rv)"
  shows "turns_step healthy n T (co_turns (fst (proceed kind m co)))"
  using proceed_journal [OF assms(1), of kind co] assms(2,3) by (auto intro: turns_step.intros)

lemma mild_turns: "mild co co' \<Longrightarrow> co_turns co' = co_turns co"
  by (simp add: mild_def)

lemma record_failure_journal: "turns_step h (co_maxTurns co) (co_turns co) (co_turns (fst (record_failure kn stage print i c co)))"
proof (cases "bindE (bounded_text 160 i) (\<lambda>i. bindE (bounded_text 160 c) (\<lambda>c. Inr (i, c)))")
  case (Inr ic)
  obtain j code where ic: "ic = (j, code)" by fastforce
  show ?thesis
    by (rule emit_cases [of kn j None Accessible "SystemError stage code True NotSubmitted" co])
      (auto simp: record_failure_def Inr ic Let_def frame_def not_le intro: noted same)
qed (simp add: record_failure_def same)

lemma submit_journal:
  assumes "cinv co"
  shows "turns_step h (co_maxTurns co) (co_turns co) (co_turns (fst (submitTurn kn v aborted co)))"
proof (cases "validateTurnInput v")
  case (Inr input)
  let ?i = "sb_interactionId input"
  have "co_turns (fst (proceed (TurnRun input intent) (start_turn kn input intent) (begin_run (TurnRun input intent) aborted [] None co))) = co_turns co"
    for intent by (simp add: proceed_turns safe_intros)
  moreover have "turns_step h (co_maxTurns co) (co_turns co) (co_turns (fst (proceed (RecoverRun ?i p r rv)
      (bindA (callA (SubmitExecute ?i (rv_request rv))) (\<lambda>_. returnA (Suspend (AwaitExecute (rv_request rv) (rv_requestedEventId rv)))))
      (begin_run (RecoverRun ?i p r rv) aborted (tr_events r) None co))))"
    if "map_of (co_turns co) ?i = Some (UncertainTurn p r rv)" for p r rv
    using that by (intro proceed_journal_step) (auto intro!: safe_intros)
  ultimately show ?thesis
    using Inr by (cases "map_of (co_turns co) ?i") (auto simp: submitTurn_def Let_def case_prod_unfold same opened split: stored_turn.splits)
qed (simp add: submitTurn_def same)

lemma settle_journal:
  assumes "cinv co" "co_settling co = st # rest"
  shows "turns_step (live co) (co_maxTurns co) (co_turns co) (co_turns (fst (settle_promise st (co\<lparr>co_settling := rest\<rparr>))))"
proof (cases st)
  case (SettleTurn input outcome)
  have "\<forall>s \<in> set (co_settling co). settle_sound co s" using assms(1) unfolding cinv_def by blast
  then have "settle_sound co st" using assms(2) by simp
  then obtain p where p: "map_of (co_turns co) (sb_interactionId input) = Some (PendingTurn p)" and e: "\<forall>e. outcome = Inl e \<longrightarrow> \<not> live co"
    using SettleTurn by (cases outcome) auto
  show ?thesis
    unfolding SettleTurn settle_promise_def settlement.case Let_def
    using dropped [OF p] settled [OF p] doubted [OF p] e by (auto split: sum.splits option.splits)
qed (auto simp: settle_promise_def same split: sum.splits)

lemma journal_step_taken:
  assumes "cinv co"
  shows "turns_step (live co) (co_maxTurns co) (co_turns co) (co_turns (fst (coordinator_step kn co ev)))"
proof -
  have answered: "turns_step (live co) (co_maxTurns co) (co_turns co) (co_turns (fst (case co_run co of None \<Rightarrow> (co, Proceeds)
      | Some (kind, a) \<Rightarrow> (case answer_run kn e kind a of None \<Rightarrow> (co, Proceeds) | Some m \<Rightarrow> proceed kind m co))))" for e
  proof -
    have "kind = RecoverRun i p r rv \<Longrightarrow> map_of (co_turns co) i = Some (UncertainTurn p r rv)" if "co_run co = Some (kind, a)" for kind a i p r rv
      using assms that by (simp add: cinv_def run_sound_def)
    then show ?thesis by (auto simp: same intro!: proceed_journal_step dest: safe_answer split: option.splits)
  qed
  have opened_by: "turns_step (live co) (co_maxTurns co) (co_turns co) (co_turns (fst (prepareOpening kn i b t ab co)))" for i b t ab
    by (auto simp: prepareOpening_def Let_def case_prod_unfold same safe_intros intro!: proceed_journal_step
        split: sum.splits option.splits stored_opening.splits)
  have intro_: "turns_step (live co) (co_maxTurns co) (co_turns co) (co_turns (fst (prepareRoleIntroduction kn i ms ab co)))" for i ms ab
    by (auto simp: prepareRoleIntroduction_def Let_def case_prod_unfold same safe_intros intro!: proceed_journal_step
        split: sum.splits option.splits stored_introduction.splits)
  show ?thesis
  proof (cases ev)
    case SettlePromise
    then show ?thesis using settle_journal [OF assms] by (simp add: coordinator_step_def same split: list.split)
  qed (use answered in
      \<open>simp_all add: recorded [THEN mild_turns] coordinator_step_def reply_event_def submit_journal [OF assms] opened_by intro_ record_failure_journal same\<close>)
qed

lemma complete_stays:
  "turns_step h n T T' \<Longrightarrow> map_of T i = Some (CompleteTurn p r) \<Longrightarrow> map_of T' i = Some (CompleteTurn p r)"
  by (induction rule: turns_step.induct) (auto simp: update_conv' delete_conv')

lemma complete_stays_run: "coordinator_reach kn co \<Longrightarrow> map_of (co_turns co) i = Some (CompleteTurn p r) \<Longrightarrow>
    map_of (co_turns (run_steps kn co evs)) i = Some (CompleteTurn p r)"
proof (induction evs arbitrary: co)
  case (Cons ev evs)
  have "map_of (co_turns (fst (coordinator_step kn co ev))) i = Some (CompleteTurn p r)"
    using complete_stays [OF journal_step_taken [OF reach_cinv [OF Cons.prems(1)]] Cons.prems(2)] .
  then show ?case using Cons by (simp add: run_steps_def coordinator_reach.step)
qed (simp add: run_steps_def)

section \<open>The requests of an interaction\<close>

lemma await_reqs:
  assumes "await_ok kind True xs a co"
  shows "\<exists>rq. reqs (run_interaction kind) (co_calls co) \<subseteq> {rq}"
  using assms by (cases a) (auto simp: tinv_def split: after_narration.splits)

lemma reqs_single_request:
  assumes "cinv co" "live co"
  shows "\<exists>rq. reqs i (co_calls co) \<subseteq> {rq}"
proof (cases "map_of (co_turns co) i")
  case None
  with assms show ?thesis by (simp add: cinv_def)
next
  case (Some t)
  then have t: "turn_sound co i t" using assms(1) unfolding cinv_def by blast
  show ?thesis
  proof (cases t)
    case (PendingTurn p)
    with t consider s where "s \<in> set (co_settling co)" "i \<in> set (settled_ids s)" | "i \<in> set (kind_ids (co_run co))"
      by (auto simp: pending_ids_def)
    then show ?thesis
    proof cases
      case 1
      then have "settle_sound co s" using assms(1) unfolding cinv_def by blast
      with 1(2) assms(2) show ?thesis by (cases s; auto split: sum.splits option.splits; blast)
    next
      case 2
      then obtain input intent a where run: "co_run co = Some (TurnRun input intent, a)" "sb_interactionId input = i"
        by (cases "co_run co" rule: kind_ids.cases) auto
      then have "await_ok (TurnRun input intent) True (co_calls co) a co"
        using assms by (auto simp: cinv_def run_sound_def)
      from await_reqs [OF this] run(2) show ?thesis by simp
    qed
  qed (use t assms(2) in auto)
qed

section \<open>Answered methods\<close>

fun answered_for :: "('w, 'c) knowledge \<Rightarrow> (await \<Rightarrow> coordinator_event) \<Rightarrow> nat \<Rightarrow> ('w, 'c) coordinator \<Rightarrow> ('w, 'c) coordinator" where
  \<comment> \<open>the running method is answered up to \<open>n\<close> times\<close>
  "answered_for kn answer 0 co = co"
| "answered_for kn answer (Suc n) co =
     (case co_run co of
        None \<Rightarrow> co
      | Some (kind, a) \<Rightarrow> answered_for kn answer n (fst (coordinator_step kn co (answer a))))"

lemma proceed_lands:
  assumes "lands (below_rank kind n) m"
  shows "co_run (fst (proceed kind m co)) = None \<or>
    (\<exists>a. co_run (fst (proceed kind m co)) = Some (kind, a) \<and> fits kind a \<and> rank kind a < n)"
proof -
  obtain r co' where m: "m co = (r, co')" by fastforce
  show ?thesis
  proof (cases r)
    case (Inr f)
    then have "below_rank kind n f" using landsD [OF assms] m by auto
    then show ?thesis
      by (cases f; cases kind) (auto simp: proceed_def m Inr conclude_run_def Let_def split: finished.splits)
  qed (cases kind; simp add: proceed_def m conclude_run_def Let_def)
qed

lemma answer_step:
  assumes "cinv co" "co_run co = Some (kind, a)" "answers a ev"
  shows "co_run (fst (coordinator_step kn co ev)) = None \<or>
    (\<exists>b. co_run (fst (coordinator_step kn co ev)) = Some (kind, b) \<and> rank kind b < rank kind a)"
proof -
  have f: "fits kind a" using assms(1,2) by (simp add: cinv_def run_sound_def)
  then obtain m where m: "answer_run kn ev kind a = Some m" using answer_run_answers [OF f] assms(3) by blast
  have "coordinator_step kn co ev = proceed kind m co"
    using assms(2,3) m by (cases a; cases ev) (simp_all add: coordinator_step_def)
  with proceed_lands [OF lands_answer [OF f m], of co] show ?thesis by auto
qed

lemma answered_for_ends:
  assumes "coordinator_reach kn co" "co_run co = Some (kind, a)" "\<And>b. answers b (answer b)" "rank kind a \<le> n"
  shows "co_run (answered_for kn answer n co) = None"
  using assms
proof (induction n arbitrary: co a)
  case 0
  then have "fits kind a" using reach_cinv [OF 0(1)] by (simp add: cinv_def run_sound_def)
  with 0(4) show ?case by (cases a; cases kind) simp_all
next
  case (Suc n)
  let ?co = "fst (coordinator_step kn co (answer a))"
  have reach: "coordinator_reach kn ?co" using Suc.prems(1) by (rule coordinator_reach.step)
  consider "co_run ?co = None" | b where "co_run ?co = Some (kind, b)" "rank kind b < rank kind a"
    using answer_step [OF reach_cinv [OF Suc.prems(1)] Suc.prems(2) Suc.prems(3), of kn] by metis
  then show ?case
  proof cases
    case 1
    then show ?thesis using Suc.prems(2) by (cases n) simp_all
  next
    case 2
    then show ?thesis using Suc.IH [OF reach 2(1) Suc.prems(3)] Suc.prems by simp
  qed
qed

section \<open>An abstract journal of turns\<close>

datatype entry = OpenTurn | FinalTurn turn_result | InDoubt turn_result

fun entry_of :: "stored_turn \<Rightarrow> entry" where
  "entry_of (PendingTurn _) = OpenTurn"
| "entry_of (CompleteTurn _ r) = FinalTurn r"
| "entry_of (UncertainTurn _ r _) = InDoubt r"

definition journal_of :: "('w, 'c) coordinator \<Rightarrow> js \<Rightarrow> entry option" where
  "journal_of co i = map_option entry_of (map_of (co_turns co) i)"

lemma journal_of_fun: "journal_of co = (\<lambda>i. map_option entry_of (map_of (co_turns co) i))"
  by (simp add: fun_eq_iff journal_of_def)

inductive journal_moves :: "bool \<Rightarrow> nat \<Rightarrow> (js \<Rightarrow> entry option) \<Rightarrow> (js \<Rightarrow> entry option) \<Rightarrow> bool" for healthy maximum where
  \<comment> \<open>at most \<open>maximum\<close> turns; a result, once final, is final; only an unhealthy host forgets a turn\<close>
  stays: "journal_moves healthy maximum j j"
| opens: "j i = None \<Longrightarrow> card (dom j) < maximum \<Longrightarrow> journal_moves healthy maximum j (j(i \<mapsto> OpenTurn))"
| enters: "j i = None \<Longrightarrow> card (dom j) < maximum \<Longrightarrow> journal_moves healthy maximum j (j(i \<mapsto> FinalTurn r))"
| settles: "j i = Some OpenTurn \<Longrightarrow> journal_moves healthy maximum j (j(i \<mapsto> FinalTurn r))"
| doubts: "j i = Some OpenTurn \<Longrightarrow> journal_moves healthy maximum j (j(i \<mapsto> InDoubt r))"
| forgets: "j i = Some OpenTurn \<Longrightarrow> \<not> healthy \<Longrightarrow> journal_moves healthy maximum j (j(i := None))"
| resolves: "j i = Some (InDoubt r) \<Longrightarrow> journal_moves healthy maximum j (j(i \<mapsto> FinalTurn r'))"

lemma journal_upd:
  "(\<lambda>i. map_option entry_of (map_of (AList.update k t T) i)) = (\<lambda>i. map_option entry_of (map_of T i))(k \<mapsto> entry_of t)"
  "(\<lambda>i. map_option entry_of (map_of (AList.delete k T) i)) = (\<lambda>i. map_option entry_of (map_of T i))(k := None)"
  by (auto simp: update_conv' delete_conv' fun_eq_iff)

lemma card_journal: "distinct (map fst T) \<Longrightarrow> card (dom (\<lambda>i. map_option entry_of (map_of T i))) = length T"
proof -
  assume "distinct (map fst T)"
  moreover have "dom (\<lambda>i. map_option entry_of (map_of T i)) = fst ` set T" by (simp add: dom_def dom_map_of_conv_image_fst [symmetric])
  ultimately show ?thesis by (simp flip: set_map add: distinct_card)
qed

lemma journal_refines:
  assumes "turns_step h n T T'" "distinct (map fst T)"
  shows "journal_moves h n (\<lambda>i. map_option entry_of (map_of T i)) (\<lambda>i. map_option entry_of (map_of T' i))"
  using assms
proof cases
  case (opened i p)
  then show ?thesis using opens card_journal [OF assms(2)] by (simp add: journal_upd)
next
  case (noted i p r)
  then show ?thesis using enters card_journal [OF assms(2)] by (simp add: journal_upd)
next
  case (settled i p q r)
  then show ?thesis using settles by (simp add: journal_upd)
next
  case (doubted i p q r rv)
  then show ?thesis using doubts by (simp add: journal_upd)
next
  case (dropped i p)
  then show ?thesis using forgets by (simp add: journal_upd)
next
  case (recovered i p r rv r')
  then show ?thesis using resolves by (simp add: journal_upd)
qed (simp add: stays)

section \<open>Claims\<close>

text \<open>C1. However a client submits, repeats, aborts and recovers a turn, and whatever the engine answers: as
  long as the host keeps its promises, one interaction reaches the engine with one request only, so a
  repeated submission is a retry of the very request and never a second command.\<close>

theorem one_request_per_interaction:
  assumes "coordinator_reach kn co" and "live co"
    and "SubmitExecute i rq \<in> set (co_calls co)" and "SubmitExecute i rq' \<in> set (co_calls co)"
  shows "rq = rq'"
  using reqs_single_request [OF reach_cinv [OF assms(1)] assms(2), of i] assms(3,4) by (auto simp: reqs_def)

theorem one_request_per_interaction_witness:
  "\<exists>rq. SubmitExecute (js ''i'') rq \<in> set (co_calls demo_finished) \<and>
     (\<forall>rq'. SubmitExecute (js ''i'') rq' \<in> set (co_calls demo_finished) \<longrightarrow> rq = rq')"
  using one_request_per_interaction [OF demo_reaches(2) demo_live(2) demo_finished_facts(7)] demo_finished_facts(7) by blast

text \<open>C9. A completed turn is final: no later call, answer or settlement changes its stored result, and
  submitting its interaction again answers that result, or the conflict error for a different input,
  without touching the state.\<close>

theorem completed_turns_are_final:
  assumes "coordinator_reach kn co" and "map_of (co_turns co) i = Some (CompleteTurn p r)"
    and "validateTurnInput v = Inr input" and "sb_interactionId input = i"
  shows "map_of (co_turns (run_steps kn co evs)) i = Some (CompleteTurn p r) \<and>
    submitTurn kn v aborted (run_steps kn co evs) =
      (run_steps kn co evs, TurnReply i (if turn_fingerprint input = p then Inr r else Inl ConflictError))"
  using complete_stays_run [OF assms(1,2), of evs] assms(3,4) by (auto simp: submitTurn_def Let_def)

theorem completed_turns_are_final_witness:
  "\<exists>r. tr_outcome r = TurnCommitted \<and>
     submitTurn demo_knowledge demo_turn False (run_steps demo_knowledge demo_finished [RecordPaused (js ''p''), AbortSignal]) =
       (run_steps demo_knowledge demo_finished [RecordPaused (js ''p''), AbortSignal], TurnReply (js ''i'') (Inr r))"
proof -
  obtain r where r: "map_of (co_turns demo_finished) (js ''i'') = Some (CompleteTurn (turn_fingerprint demo_input) r)"
    "tr_outcome r = TurnCommitted" using demo_finished_facts(1) by blast
  from completed_turns_are_final [OF demo_reaches(2) r(1) demo_input, of "[RecordPaused (js ''p''), AbortSignal]" False] r(2)
  show ?thesis by (auto simp: demo_input_def)
qed

text \<open>C3. A stored committed result is the engine's own: its events contain the commit and, directly after
  and caused by it, the engine's exact output; everything narrated after that is this output, by the
  narrator and from this event; the events share one correlation, each names an earlier one as its
  cause, and they were published in this order.\<close>

theorem committed_turns_speak_engine_output:
  assumes "coordinator_reach kn co" and "map_of (co_turns co) i = Some (CompleteTurn p r)" and "tr_outcome r = TurnCommitted"
  shows "(\<exists>res outputId. tr_engineResult r = Some res \<and> commit_shape res outputId (tr_events r)) \<and>
    tr_interactionId r = i \<and> chained i (tr_events r) \<and> subseq (tr_events r) (co_published co)"
proof -
  have "turn_sound co i (CompleteTurn p r)" using reach_cinv [OF assms(1)] assms(2) unfolding cinv_def by blast
  with assms(3) show ?thesis by (auto simp: result_sound_def result_ok_def)
qed

theorem committed_turns_speak_engine_output_witness:
  "\<exists>(r :: turn_result) outputId. tr_engineResult r = Some demo_result \<and> commit_shape demo_result outputId (tr_events r) \<and>
     subseq (tr_events r) (co_published demo_finished)"
proof -
  obtain r where r: "map_of (co_turns demo_finished) (js ''i'') = Some (CompleteTurn (turn_fingerprint demo_input) r)"
    "tr_outcome r = TurnCommitted" "tr_engineResult r = Some demo_result" using demo_finished_facts(1) by blast
  from committed_turns_speak_engine_output [OF demo_reaches(2) r(1,2)] r(3)
  obtain outputId where "commit_shape demo_result outputId (tr_events r)" "subseq (tr_events r) (co_published demo_finished)"
    by auto
  with r(3) show ?thesis by blast
qed

text \<open>C20. Whatever is submitted, recorded, aborted and answered, the experience projection accepts
  everything the coordinator has published: the events are numbered strictly upwards and the
  projection stands at the last of them.\<close>

theorem published_events_project:
  assumes "coordinator_reach kn co"
  shows "\<exists>st. projectExperience (co_published co) = Inr st \<and>
    pj_throughSequence st = last (0 # map ev_sequence (co_published co))"
  using reach_cinv [OF assms] project_iff [of "co_published co"] project_ordered [of "co_published co"]
  by (auto simp: cinv_def sound_def)

theorem published_events_project_witness:
  "\<exists>st. projectExperience (co_published demo_finished) = Inr st"
  using published_events_project [OF demo_reaches(2)] by blast

text \<open>C14. A running method always comes to its end: answered as it awaits, it frees the coordinator after at
  most its rank of answers, which is at most five for a turn or a recovery.\<close>

theorem answered_runs_end:
  assumes "coordinator_reach kn co" and "co_run co = Some (kind, a)" and "\<And>b. answers b (answer b)"
  shows "co_run (answered_for kn answer (rank kind a) co) = None \<and> (\<not> opening_kind kind \<longrightarrow> rank kind a \<le> 5)"
proof -
  have "fits kind a" using reach_cinv [OF assms(1)] assms(2) by (simp add: cinv_def run_sound_def)
  then have "\<not> opening_kind kind \<longrightarrow> rank kind a \<le> 5" by (cases kind; cases a) (auto split: after_narration.splits)
  with answered_for_ends [OF assms order.refl] show ?thesis by blast
qed

theorem answered_runs_end_witness:
  "\<exists>answer. co_run demo_asked \<noteq> None \<and> co_run (answered_for demo_knowledge answer 5 demo_asked) = None"
proof -
  let ?answer = "\<lambda>a. case a of AwaitGuide _ \<Rightarrow> GuideAnswered None | AwaitState _ _ \<Rightarrow> StateAnswered None
    | AwaitExecute _ _ \<Rightarrow> ExecuteAnswered (Inl False) | AwaitSnapshot _ _ _ _ \<Rightarrow> SnapshotAnswered None
    | AwaitOpeningState \<Rightarrow> StateAnswered None | AwaitNarration _ \<Rightarrow> NarrationAnswered True"
  have "answers b (?answer b)" for b by (cases b) simp_all
  from answered_runs_end [OF demo_reaches(1) demo_asked_facts(1), of ?answer, OF this] demo_asked_facts(1)
  show ?thesis by auto
qed

text \<open>C8. The turn journal refines an abstract one: every step of the coordinator leaves it as it is, opens a
  turn within the capacity, records a failure, settles or doubts an open turn, resolves a doubtful
  one to a final result, or, with a host that broke its promises, forgets an open one; nothing else
  can happen to it.\<close>

theorem coordinator_refines_journal:
  assumes "coordinator_reach kn co"
  shows "journal_moves (live co) (co_maxTurns co) (journal_of co) (journal_of (fst (coordinator_step kn co ev)))"
proof -
  have "distinct (map fst (co_turns co))" using reach_cinv [OF assms] by (simp add: cinv_def)
  from journal_refines [OF journal_step_taken [OF reach_cinv [OF assms]] this] show ?thesis by (simp add: journal_of_fun)
qed

theorem coordinator_refines_journal_witness:
  "journal_moves (live demo_asked) (co_maxTurns demo_asked) (journal_of demo_asked)
     (journal_of (fst (coordinator_step demo_knowledge demo_asked AbortSignal)))"
  by (rule coordinator_refines_journal [OF demo_reaches(1)])

text \<open>C38. Cut into segments, a text is spoken whole: the segments together have exactly the audible code
  units of the text, in its order, and each is non-empty, trimmed, without line breaks or repeated
  white space, and says more than punctuation.\<close>

theorem segments_speak_the_whole_text:
  "audible (concat (narrationSegments content)) = audible content \<and> list_all spoken_form (narrationSegments content)"
  using narrationSegments_audible narrationSegments_form by (simp add: list_all_iff)

text \<open>C37. The opening narration is accepted exactly when it is a bounded string with something to say, free of
  unsafe control characters, whose lines are lines of the engine's output in their order: the
  validator's search for each line is the subsequence relation.\<close>

theorem opening_excerpt_is_line_subsequence:
  "validatedOpeningNarrationText v exactOutput = Inr s \<longleftrightarrow>
     v = JStr s \<and> trim s \<noteq> [] \<and> length s \<le> MAX_OPENING_OUTPUT_LENGTH \<and> \<not> hasUnsafeNarrationControl s \<and>
     subseq (split_feed s) (split_feed exactOutput)"
  by (auto simp: validatedOpeningNarrationText_def isOrderedExactLineSubsequence_def lines_in_order_subseq split: jsval.splits if_splits)

end
