(* ===== verification/Voice_State.thy ===== *)
theory Voice_State
  imports Turn_State
begin

text \<open>
  The data and the state of \<open>packages/audio/src/voice-audio-controller.ts\<close>, with the prepared
  narration of \<open>ScriptedNarrationPort\<close> (\<open>scripted-audio.ts\<close>) and the failure codes of
  \<open>contracts.ts\<close>.  A method runs to its next \<open>await\<close> and is then a pending task; the calls
  of a method are kept apart by the number of the call.
\<close>

section \<open>Data\<close>

datatype voice_audio_state =
    VReady | RequestingMicrophone | Listening | Processing | GuideSpeaking | NarratorSpeaking
  | VPaused | RecoverableError

datatype prepared_outcome = PlayComplete | PlayInterrupted | PlayFailed | NotPrepared

datatype voice_error = VoiceAudioStateError | VoiceTypeError | PortThrew

definition transcriptionFailureCodes :: "js list" where
  "transcriptionFailureCodes = map js
     [''aborted'', ''budget-exhausted'', ''capture-empty'', ''capture-too-large'', ''invalid-input'',
      ''malformed-response'', ''no-speech'', ''provider-rejected'', ''session-expired'',
      ''transport-failed'', ''unknown-clip'']"

definition playbackFailureCodes :: "js list" where
  "playbackFailureCodes = map js
     [''budget-exhausted'', ''invalid-input'', ''malformed-response'', ''playback-authorization-required'',
      ''playback-failed'', ''provider-rejected'', ''session-expired'', ''transport-failed'']"

text \<open>The \<open>code\<close> property of a thrown value, when it can be read and is a string.\<close>

definition transcriptionFailureCode :: "js option \<Rightarrow> js option" where
  "transcriptionFailureCode code =
     (case code of Some c \<Rightarrow> if c \<in> set transcriptionFailureCodes then Some c else None | None \<Rightarrow> None)"

definition playbackFailureCode :: "js option \<Rightarrow> js option" where
  "playbackFailureCode code =
     (case code of Some c \<Rightarrow> if c \<in> set playbackFailureCodes then Some c else None | None \<Rightarrow> None)"

record voice_capture = \<comment> \<open>the object in \<open>#active\<close>, with its identity\<close>
  ac_ref :: nat
  ac_interactionId :: js
  ac_captureId :: js
  ac_captureStarted :: bool

text \<open>
  What the controller asks of its ports and callbacks, in order.  The number is the identity of
  the capture object or of the abort controller the call is made for.
\<close>

datatype voice_call =
    CaptureStart nat js
  | CaptureStop nat js
  | CaptureCancel nat js
  | Transcribe nat js
  | SubmitVoiceTurn turn_input nat
  | RecordTranscriptionFailure js js
  | RecordAudioFailure js js
  | RecordCaptureStarted nat js js
  | RecordCaptureEnded nat js js nat capture_outcome
  | RecordPlaybackStarted nat narration_request
  | RecordPlaybackEnded nat narration_request prepared_outcome "js option"
  | RecordPaused js
  | RecordResumed js
  | PlaybackPrepare js nat
  | PlaybackPlay narration_request nat
  | PlaybackPause
  | PlaybackResume
  | PlaybackStop
  | PlaybackActivate
  | OnState voice_audio_state
  | OnTurn turn_result

text \<open>
  The synchronous ports and callbacks: what they answer is a function of the calls made so far,
  and \<open>None\<close> is a thrown exception.  Asynchronous ports answer through the steps.
\<close>

record voice_port =
  vp_answer :: "voice_call list \<Rightarrow> voice_call \<Rightarrow> turn_result option"
  vp_observed :: "voice_call list \<Rightarrow> js list option" \<comment> \<open>\<open>observedObjects()\<close>\<close>
  vp_hasPrepare :: bool \<comment> \<open>the playback port has \<open>prepare\<close>\<close>

datatype prepared_context = FromPlayPrepared | FromTurn turn_result
datatype play_context = InLoop "narration_request list" nat prepared_context | FromRepeat
datatype stop_context = FromStop | FromPause js

datatype voice_task =
    AwaitStart voice_capture nat
  | AwaitStartCancel
  | AwaitStop voice_capture nat
  | AwaitTranscript voice_capture nat
  | AwaitTurn js nat
  | AwaitText js nat
  | AwaitCancel voice_capture stop_context
  | AwaitPlaybackStop stop_context
  | AwaitPause
  | AwaitResume voice_audio_state
  | AwaitPlay nat narration_request play_context
  | AwaitPreparation nat play_context

datatype voice_value = VUnit | VTurn turn_result | VPlayed prepared_outcome

datatype voice_progress = Await voice_task | Return voice_value

record voice =
  vc_state :: voice_audio_state
  vc_active :: "voice_capture option"
  vc_lifecycleEpoch :: nat
  vc_turnAbort :: "nat option"
  vc_playbackAbort :: "nat option"
  vc_lastPlayed :: "narration_request option"
  vc_pausedPlaybackState :: "voice_audio_state option"
  vc_prepared :: "(js \<times> narration_request list) list" \<comment> \<open>\<open>ScriptedNarrationPort.#prepared\<close>\<close>
  vc_aborted :: "nat list" \<comment> \<open>the aborted controllers\<close>
  vc_lifecycles :: "(nat \<times> narration_request) list" \<comment> \<open>the \<open>onStarted\<close> closures given out\<close>
  vc_started :: "nat list" \<comment> \<open>the closures whose \<open>started\<close> is set\<close>
  vc_calls :: "voice_call list"
  vc_tasks :: "(nat \<times> voice_task) list"
  vc_settled :: "(nat \<times> (voice_error + voice_value)) list"
  vc_nextRef :: nat

definition newVoiceAudioController :: voice where
  "newVoiceAudioController = \<lparr>vc_state = VReady, vc_active = None, vc_lifecycleEpoch = 0,
     vc_turnAbort = None, vc_playbackAbort = None, vc_lastPlayed = None,
     vc_pausedPlaybackState = None, vc_prepared = [], vc_aborted = [], vc_lifecycles = [],
     vc_started = [], vc_calls = [], vc_tasks = [], vc_settled = [], vc_nextRef = 0\<rparr>"

section \<open>Effects with exceptions\<close>

type_synonym 'a vm = "voice \<Rightarrow> voice \<times> (voice_error + 'a)"

definition vret :: "'a \<Rightarrow> 'a vm" where "vret x v = (v, Inr x)"

definition vthrow :: "voice_error \<Rightarrow> 'a vm" where "vthrow e v = (v, Inl e)"

definition vbind :: "'a vm \<Rightarrow> ('a \<Rightarrow> 'b vm) \<Rightarrow> 'b vm" where
  "vbind m f v = (case m v of (v', Inl e) \<Rightarrow> (v', Inl e) | (v', Inr x) \<Rightarrow> f x v')"

definition vmodify :: "(voice \<Rightarrow> voice) \<Rightarrow> unit vm" where "vmodify f v = (f v, Inr ())"

definition vget :: "(voice \<Rightarrow> 'a) \<Rightarrow> 'a vm" where "vget f v = (v, Inr (f v))"

definition vcatch :: "'a vm \<Rightarrow> 'a vm \<Rightarrow> 'a vm" where
  "vcatch m h v = (case m v of (v', Inl e) \<Rightarrow> h v' | (v', Inr x) \<Rightarrow> (v', Inr x))"

definition vfinally :: "'a vm \<Rightarrow> (voice \<Rightarrow> voice) \<Rightarrow> 'a vm" where
  "vfinally m f v = (case m v of (v', r) \<Rightarrow> (f v', r))"

definition vlog :: "voice_call \<Rightarrow> unit vm" where \<comment> \<open>starts an asynchronous call\<close>
  "vlog c = vmodify (\<lambda>v. v\<lparr>vc_calls := vc_calls v @ [c]\<rparr>)"

definition vcall :: "voice_port \<Rightarrow> voice_call \<Rightarrow> turn_result vm" where \<comment> \<open>a synchronous call\<close>
  "vcall P c v = (v\<lparr>vc_calls := vc_calls v @ [c]\<rparr>,
     case vp_answer P (vc_calls v) c of None \<Rightarrow> Inl PortThrew | Some r \<Rightarrow> Inr r)"

definition vfresh :: "nat vm" where
  "vfresh v = (v\<lparr>vc_nextRef := Suc (vc_nextRef v)\<rparr>, Inr (vc_nextRef v))"

definition setState :: "voice_port \<Rightarrow> voice_audio_state \<Rightarrow> unit vm" where
  "setState P s = vbind (vmodify (\<lambda>v. v\<lparr>vc_state := s\<rparr>)) (\<lambda>_. vbind (vcall P (OnState s)) (\<lambda>_. vret ()))"

definition abortController :: "nat option \<Rightarrow> unit vm" where
  "abortController c = vmodify (\<lambda>v. case c of None \<Rightarrow> v | Some n \<Rightarrow> v\<lparr>vc_aborted := n # vc_aborted v\<rparr>)"

definition boundedVoiceId :: "js \<Rightarrow> unit vm" where
  "boundedVoiceId s = (if s = [] \<or> 160 < length s \<or> has_control s then vthrow VoiceTypeError else vret ())"

section \<open>Prepared narration (\<open>ScriptedNarrationPort\<close>)\<close>

definition prepareNarration :: "narration_request \<Rightarrow> bool \<Rightarrow> voice \<Rightarrow> voice" where
  \<comment> \<open>an aborted signal makes \<open>prepare\<close> reject and store nothing\<close>
  "prepareNarration request aborted v =
     (if aborted then v
      else
        let requests = (case map_of (vc_prepared v) (nq_correlationId request) of None \<Rightarrow> [] | Some rs \<Rightarrow> rs) in
        v\<lparr>vc_prepared := AList.update (nq_correlationId request) (requests @ [request]) (vc_prepared v)\<rparr>)"

definition takePrepared :: "js \<Rightarrow> narration_request list vm" where
  "takePrepared correlationId v =
     (v\<lparr>vc_prepared := AList.delete correlationId (vc_prepared v)\<rparr>,
      Inr (case map_of (vc_prepared v) correlationId of None \<Rightarrow> [] | Some rs \<Rightarrow> rs))"

end
