(* ===== verification/Voice_Controller.thy ===== *)
theory Voice_Controller
  imports Voice_State
begin

text \<open>
  The methods of \<open>VoiceAudioController\<close> (\<open>packages/audio/src/voice-audio-controller.ts\<close>), each cut
  at its awaits: a definition runs from a call or an answer to the next \<open>await\<close> or to the end of
  the method.  A listener of an abort signal runs inside a port, so \<open>abort\<close> only marks the
  controller here.
\<close>

abbreviation vdo :: "unit vm \<Rightarrow> 'a vm \<Rightarrow> 'a vm" where "vdo m k \<equiv> vbind m (\<lambda>_. k)"

definition sessionControl :: js where "sessionControl = js ''session-control''"

definition isPaused :: "voice \<Rightarrow> bool" where "isPaused v \<longleftrightarrow> vc_state v = VPaused"

definition isRecoverableError :: "voice \<Rightarrow> bool" where
  "isRecoverableError v \<longleftrightarrow> vc_state v = RecoverableError"

definition preparedPlaybackAllowed :: "voice \<Rightarrow> bool" where
  "preparedPlaybackAllowed v \<longleftrightarrow> vc_state v = VReady \<or> vc_state v = Processing"

definition stale :: "voice_capture \<Rightarrow> nat \<Rightarrow> voice \<Rightarrow> bool" where
  \<comment> \<open>\<open>this.#active !== active || this.#lifecycleEpoch !== lifecycleEpoch\<close>\<close>
  "stale active epoch v \<longleftrightarrow>
     map_option ac_ref (vc_active v) \<noteq> Some (ac_ref active) \<or> vc_lifecycleEpoch v \<noteq> epoch"

definition vcallU :: "voice_port \<Rightarrow> voice_call \<Rightarrow> unit vm" where
  "vcallU P c = vbind (vcall P c) (\<lambda>_. vret ())"

definition whenV :: "bool \<Rightarrow> unit vm \<Rightarrow> unit vm" where "whenV b m = (if b then m else vret ())"

section \<open>Playback\<close>

definition playRequest ::
  "voice_port \<Rightarrow> narration_request \<Rightarrow> narration_request list \<Rightarrow> play_context \<Rightarrow> voice_progress vm" where
  "playRequest P request nextRequests ctx =
     vbind vfresh (\<lambda>controller.
     vdo (vmodify (\<lambda>v. v\<lparr>vc_playbackAbort := Some controller\<rparr>))
     (vbind (vget (\<lambda>v. vc_state v \<noteq> Processing)) (\<lambda>b. vdo (whenV b (setState P Processing))
     (vdo (vmodify (\<lambda>v. v\<lparr>vc_lastPlayed := Some request,
             vc_lifecycles := (controller, request) # vc_lifecycles v,
             vc_calls := vc_calls v @
               (if vp_hasPrepare P then map (\<lambda>r. PlaybackPrepare (nq_narrationId r) controller) nextRequests
                else []) @ [PlaybackPlay request controller]\<rparr>))
       (vret (Await (AwaitPlay controller request ctx)))))))"

definition playedPrepared :: "prepared_context \<Rightarrow> prepared_outcome \<Rightarrow> voice_progress vm" where
  "playedPrepared ctx outcome =
     vret (Return (case ctx of FromPlayPrepared \<Rightarrow> VPlayed outcome | FromTurn result \<Rightarrow> VTurn result))"

definition playLoop :: "voice_port \<Rightarrow> narration_request list \<Rightarrow> nat \<Rightarrow> prepared_context \<Rightarrow> voice_progress vm" where
  \<comment> \<open>the loop of \<open>playPrepared\<close> over the entries still to play\<close>
  "playLoop P requests epoch ctx =
     (case requests of
        [] \<Rightarrow>
          vbind (vget (\<lambda>v. \<not> isPaused v \<and> \<not> isRecoverableError v)) (\<lambda>b.
            vdo (whenV b (setState P VReady)) (playedPrepared ctx PlayComplete))
      | request # rest \<Rightarrow>
          vbind (vget (\<lambda>v. vc_lifecycleEpoch v \<noteq> epoch \<or> isPaused v \<or> isRecoverableError v)) (\<lambda>b.
            if b then playedPrepared ctx PlayInterrupted
            else playRequest P request (take 2 rest) (InLoop rest epoch ctx)))"

definition playReturned :: "voice_port \<Rightarrow> play_context \<Rightarrow> prepared_outcome \<Rightarrow> voice_progress vm" where
  "playReturned P ctx outcome =
     (case ctx of
        InLoop rest epoch pctx \<Rightarrow>
          if outcome \<noteq> PlayComplete then playedPrepared pctx outcome else playLoop P rest epoch pctx
      | FromRepeat \<Rightarrow>
          vbind (vget isRecoverableError) (\<lambda>b.
            vdo (whenV (\<not> b) (setState P VReady)) (vret (Return VUnit))))"

definition clearPlayback :: "nat \<Rightarrow> voice \<Rightarrow> voice" where \<comment> \<open>the \<open>finally\<close> of \<open>#play\<close>\<close>
  "clearPlayback controller v =
     (if vc_playbackAbort v = Some controller then v\<lparr>vc_playbackAbort := None\<rparr> else v)"

definition onStarted :: "voice_port \<Rightarrow> nat \<Rightarrow> narration_request \<Rightarrow> unit vm" where
  "onStarted P controller request =
     vbind (vget (\<lambda>v. controller \<in> set (vc_started v) \<or> controller \<in> set (vc_aborted v))) (\<lambda>b.
       if b then vret ()
       else
         vdo (vmodify (\<lambda>v. v\<lparr>vc_started := controller # vc_started v\<rparr>))
         (vdo (setState P (if nq_role request = GuideRole then GuideSpeaking else NarratorSpeaking))
           (vcallU P (RecordPlaybackStarted controller request))))"

definition playFailed :: "voice_port \<Rightarrow> nat \<Rightarrow> narration_request \<Rightarrow> js option \<Rightarrow> prepared_outcome vm" where
  "playFailed P controller request code =
     vbind (vget (\<lambda>v. controller \<in> set (vc_aborted v))) (\<lambda>aborted.
       let outcome = (if aborted then PlayInterrupted else PlayFailed);
           failureCode = (if aborted then None
             else Some (case playbackFailureCode code of Some c \<Rightarrow> c | None \<Rightarrow> js ''playback-failed''))
       in vdo (vcallU P (RecordPlaybackEnded controller request outcome failureCode))
            (vbind (vget (\<lambda>v. controller \<in> set (vc_aborted v))) (\<lambda>aborted'.
              vdo (whenV (\<not> aborted') (setState P RecoverableError)) (vret outcome))))"

definition settlePlay ::
  "voice_port \<Rightarrow> nat \<Rightarrow> narration_request \<Rightarrow> play_context \<Rightarrow> js option + unit \<Rightarrow> voice_progress vm" where
  \<comment> \<open>after \<open>await playback.play(...)\<close>; \<open>Inl\<close> is a rejection with the code it carries\<close>
  "settlePlay P controller request ctx answer =
     (let failed = (\<lambda>code. vbind (vfinally (playFailed P controller request code) (clearPlayback controller))
                     (\<lambda>outcome. playReturned P ctx outcome))
      in case answer of
           Inl code \<Rightarrow> failed code
         | Inr _ \<Rightarrow>
             vbind (vget (\<lambda>v. controller \<in> set (vc_started v))) (\<lambda>started.
               vcatch
                 (vdo (if started then vcallU P (RecordPlaybackEnded controller request PlayComplete None)
                       else vthrow VoiceAudioStateError)
                   (vret (Await (AwaitPreparation controller ctx))))
                 (failed None)))"

definition settlePreparation :: "voice_port \<Rightarrow> nat \<Rightarrow> play_context \<Rightarrow> voice_progress vm" where
  \<comment> \<open>after \<open>await nextPreparation\<close>, which never rejects\<close>
  "settlePreparation P controller ctx =
     vdo (vmodify (clearPlayback controller)) (playReturned P ctx PlayComplete)"

definition beginPlayPrepared :: "voice_port \<Rightarrow> js \<Rightarrow> prepared_context \<Rightarrow> voice_progress vm" where
  "beginPlayPrepared P interactionId ctx =
     vdo (boundedVoiceId interactionId)
     (vbind (vget (\<lambda>v. \<not> preparedPlaybackAllowed v)) (\<lambda>b. if b then vthrow VoiceAudioStateError
      else vbind (vget (\<lambda>v. vc_active v \<noteq> None \<or> vc_turnAbort v \<noteq> None \<or> vc_playbackAbort v \<noteq> None)) (\<lambda>busy.
        if busy then vthrow VoiceAudioStateError
        else vbind (takePrepared interactionId) (\<lambda>prepared.
          if prepared = [] then
            vbind (vget (\<lambda>v. vc_state v = Processing)) (\<lambda>p.
              vdo (whenV p (setState P VReady)) (playedPrepared ctx NotPrepared))
          else vbind (vget vc_lifecycleEpoch) (\<lambda>epoch. playLoop P prepared epoch ctx)))))"

section \<open>Capture\<close>

definition beginStartCapture :: "voice_port \<Rightarrow> js \<Rightarrow> js \<Rightarrow> voice_progress vm" where
  "beginStartCapture P interactionId capture =
     vbind (vget vc_state) (\<lambda>s.
     if s = VPaused then vthrow VoiceAudioStateError
     else if s \<noteq> VReady \<and> s \<noteq> RecoverableError then vthrow VoiceAudioStateError
     else
       vdo (boundedVoiceId interactionId)
       (vdo (boundedVoiceId capture)
       (vbind vfresh (\<lambda>ref.
        let active = \<lparr>ac_ref = ref, ac_interactionId = interactionId, ac_captureId = capture,
              ac_captureStarted = False\<rparr> in
        vbind (vget vc_lifecycleEpoch) (\<lambda>epoch.
        vdo (vmodify (\<lambda>v. v\<lparr>vc_active := Some active\<rparr>))
        (vdo (setState P RequestingMicrophone)
        (vdo (vlog (CaptureStart ref capture)) (vret (Await (AwaitStart active epoch))))))))))"

definition settleStart :: "voice_port \<Rightarrow> voice_capture \<Rightarrow> nat \<Rightarrow> js option + unit \<Rightarrow> voice_progress vm" where
  "settleStart P active epoch answer =
     vbind (vget (stale active epoch)) (\<lambda>isStale.
     case answer of
       Inl _ \<Rightarrow>
         if isStale then vret (Return VUnit)
         else
           vdo (vmodify (\<lambda>v. v\<lparr>vc_active := None\<rparr>))
           (vbind (vcall P (RecordAudioFailure (ac_interactionId active) (js ''microphone-unavailable''))) (\<lambda>failed.
            vdo (vcallU P (OnTurn failed))
            (vdo (setState P RecoverableError) (vret (Return VUnit)))))
     | Inr _ \<Rightarrow>
         if isStale then
           vdo (vlog (CaptureCancel (ac_ref active) (ac_captureId active))) (vret (Await AwaitStartCancel))
         else
           vdo (vmodify (\<lambda>v. v\<lparr>vc_active := map_option (\<lambda>a. a\<lparr>ac_captureStarted := True\<rparr>) (vc_active v)\<rparr>))
           (vdo (vcallU P (RecordCaptureStarted (ac_ref active) (ac_interactionId active) (ac_captureId active)))
           (vdo (setState P Listening) (vret (Return VUnit)))))"

definition beginFinishCapture :: "voice_port \<Rightarrow> voice_progress vm" where
  "beginFinishCapture P =
     vbind (vget (\<lambda>v. (vc_state v, vc_active v, vc_lifecycleEpoch v))) (\<lambda>(s, a, epoch).
     case a of
       Some active \<Rightarrow>
         if s \<noteq> Listening then vthrow VoiceAudioStateError
         else
           vdo (setState P Processing)
           (vdo (vlog (CaptureStop (ac_ref active) (ac_captureId active)))
             (vret (Await (AwaitStop active epoch))))
     | None \<Rightarrow> vthrow VoiceAudioStateError)"

definition recordCancelledTurn :: "voice_port \<Rightarrow> js \<Rightarrow> voice_progress vm" where
  "recordCancelledTurn P interactionId =
     vbind (vcall P (RecordTranscriptionFailure interactionId (js ''cancelled''))) (\<lambda>result.
     vdo (vcallU P (OnTurn result))
     (vbind (vget isPaused) (\<lambda>p. vdo (whenV (\<not> p) (setState P VReady)) (vret (Return (VTurn result))))))"

definition settleStop :: "voice_port \<Rightarrow> voice_capture \<Rightarrow> nat \<Rightarrow> js option + nat \<Rightarrow> voice_progress vm" where
  \<comment> \<open>the answer of \<open>capture.stop\<close> is the audio, here its duration\<close>
  "settleStop P active epoch answer =
     vbind (vget (stale active epoch)) (\<lambda>isStale.
     if isStale then recordCancelledTurn P (ac_interactionId active)
     else
       vdo (vmodify (\<lambda>v. v\<lparr>vc_active := None\<rparr>))
       (case answer of
          Inl _ \<Rightarrow>
            vdo (vcallU P (RecordCaptureEnded (ac_ref active) (ac_interactionId active)
                   (ac_captureId active) 0 CaptureFailed))
            (vbind (vcall P (RecordTranscriptionFailure (ac_interactionId active) (js ''capture-failed''))) (\<lambda>failed.
             vdo (vcallU P (OnTurn failed))
             (vdo (setState P RecoverableError) (vret (Return (VTurn failed))))))
        | Inr duration \<Rightarrow>
            vdo (vcallU P (RecordCaptureEnded (ac_ref active) (ac_interactionId active)
                   (ac_captureId active) duration CaptureSubmitted))
            (vbind vfresh (\<lambda>turnAbort.
             vdo (vmodify (\<lambda>v. v\<lparr>vc_turnAbort := Some turnAbort\<rparr>))
             (vdo (vlog (Transcribe (ac_ref active) (ac_interactionId active)))
               (vret (Await (AwaitTranscript active turnAbort))))))))"

definition finishTurn :: "voice_port \<Rightarrow> js \<Rightarrow> turn_result \<Rightarrow> voice_progress vm" where
  "finishTurn P interactionId result =
     vdo (vcallU P (OnTurn result))
     (vbind (vget preparedPlaybackAllowed) (\<lambda>b.
       if b then beginPlayPrepared P interactionId (FromTurn result) else vret (Return (VTurn result))))"

definition clearTurnAbort :: "voice \<Rightarrow> voice" where
  "clearTurnAbort v = v\<lparr>vc_turnAbort := None\<rparr>"

definition voiceTurnFailed :: "voice_port \<Rightarrow> js \<Rightarrow> nat \<Rightarrow> js option \<Rightarrow> turn_result vm" where
  "voiceTurnFailed P interactionId turnAbort code =
     vbind (vget (\<lambda>v. turnAbort \<in> set (vc_aborted v))) (\<lambda>aborted.
     if aborted then vcall P (RecordTranscriptionFailure interactionId (js ''cancelled''))
     else
       vbind (vcall P (RecordTranscriptionFailure interactionId
         (case transcriptionFailureCode code of Some c \<Rightarrow> c | None \<Rightarrow> js ''transcription-failed''))) (\<lambda>result.
       vdo (setState P RecoverableError) (vret result)))"

definition settleTranscript ::
  "voice_port \<Rightarrow> voice_capture \<Rightarrow> nat \<Rightarrow> js option + js \<times> rat option \<Rightarrow> voice_progress vm" where
  "settleTranscript P active turnAbort answer =
     (let failed = (\<lambda>code. vbind (vfinally (voiceTurnFailed P (ac_interactionId active) turnAbort code) clearTurnAbort)
                     (\<lambda>result. finishTurn P (ac_interactionId active) result))
      in case answer of
           Inl code \<Rightarrow> failed code
         | Inr (text, confidence) \<Rightarrow>
             vbind (vget (\<lambda>v. vp_observed P (vc_calls v))) (\<lambda>observed.
             case observed of
               None \<Rightarrow> failed None
             | Some objects \<Rightarrow>
                 vdo (vlog (SubmitVoiceTurn \<lparr>sb_interactionId = ac_interactionId active,
                        sb_transcript = text, sb_confidence = confidence, sb_observedObjects = objects\<rparr> turnAbort))
                   (vret (Await (AwaitTurn (ac_interactionId active) turnAbort)))))"

definition settleTurn ::
  "voice_port \<Rightarrow> js \<Rightarrow> nat \<Rightarrow> js option + turn_result \<Rightarrow> voice_progress vm" where
  "settleTurn P interactionId turnAbort answer =
     (case answer of
        Inl code \<Rightarrow>
          vbind (vfinally (voiceTurnFailed P interactionId turnAbort code) clearTurnAbort)
            (\<lambda>result. finishTurn P interactionId result)
      | Inr result \<Rightarrow> vdo (vmodify clearTurnAbort) (finishTurn P interactionId result))"

section \<open>Text input\<close>

definition beginSubmitText :: "voice_port \<Rightarrow> js \<Rightarrow> js \<Rightarrow> voice_progress vm" where
  "beginSubmitText P interactionId text =
     vbind (vget vc_state) (\<lambda>s.
     if s \<noteq> VReady \<and> s \<noteq> RecoverableError then vthrow VoiceAudioStateError
     else
       vdo (boundedVoiceId interactionId)
       (vdo (setState P Processing)
       (vbind vfresh (\<lambda>turnAbort.
        vdo (vmodify (\<lambda>v. v\<lparr>vc_turnAbort := Some turnAbort\<rparr>))
        (vbind (vget (\<lambda>v. vp_observed P (vc_calls v))) (\<lambda>observed.
         case observed of
           None \<Rightarrow> vdo (vmodify clearTurnAbort) (vthrow PortThrew)
         | Some objects \<Rightarrow>
             vdo (vlog (SubmitVoiceTurn \<lparr>sb_interactionId = interactionId, sb_transcript = text,
                    sb_confidence = Some 1, sb_observedObjects = objects\<rparr> turnAbort))
               (vret (Await (AwaitText interactionId turnAbort)))))))))"

definition settleText :: "voice_port \<Rightarrow> js \<Rightarrow> js option + turn_result \<Rightarrow> voice_progress vm" where
  "settleText P interactionId answer =
     vdo (vmodify clearTurnAbort)
     (case answer of Inl _ \<Rightarrow> vthrow PortThrew | Inr result \<Rightarrow> finishTurn P interactionId result)"

section \<open>Stop, pause, resume and repeat\<close>

definition stopPlayback :: "stop_context \<Rightarrow> voice_progress vm" where
  "stopPlayback ctx = vdo (vlog PlaybackStop) (vret (Await (AwaitPlaybackStop ctx)))"

definition beginStop :: "voice_port \<Rightarrow> stop_context \<Rightarrow> voice_progress vm" where
  "beginStop P ctx =
     vdo (vmodify (\<lambda>v. v\<lparr>vc_lifecycleEpoch := vc_lifecycleEpoch v + 1, vc_pausedPlaybackState := None\<rparr>))
     (vbind (vget (\<lambda>v. (vc_turnAbort v, vc_playbackAbort v, vc_active v))) (\<lambda>(turnAbort, playbackAbort, a).
      vdo (abortController turnAbort)
      (vdo (abortController playbackAbort)
      (vdo (vmodify (\<lambda>v. v\<lparr>vc_active := None\<rparr>))
      (case a of
         None \<Rightarrow> stopPlayback ctx
       | Some active \<Rightarrow>
           vdo (vlog (CaptureCancel (ac_ref active) (ac_captureId active)))
             (vret (Await (AwaitCancel active ctx))))))))"

definition settleCancel ::
  "voice_port \<Rightarrow> voice_capture \<Rightarrow> stop_context \<Rightarrow> js option + unit \<Rightarrow> voice_progress vm" where
  \<comment> \<open>after \<open>stop\<close> took the capture out of \<open>#active\<close> nothing sets its \<open>captureStarted\<close> any more\<close>
  "settleCancel P active ctx answer =
     vbind
       (case answer of
          Inr _ \<Rightarrow> vret CaptureCancelled
        | Inl _ \<Rightarrow>
            vbind (vcall P (RecordAudioFailure (ac_interactionId active) (js ''capture-cancel-failed''))) (\<lambda>failed.
            vdo (vcallU P (OnTurn failed))
            (vdo (setState P RecoverableError) (vret CaptureFailed))))
       (\<lambda>outcome.
         vdo (whenV (ac_captureStarted active)
                (vcallU P (RecordCaptureEnded (ac_ref active) (ac_interactionId active)
                   (ac_captureId active) 0 outcome)))
           (stopPlayback ctx))"

definition settlePlaybackStop ::
  "voice_port \<Rightarrow> stop_context \<Rightarrow> js option + unit \<Rightarrow> voice_progress vm" where
  "settlePlaybackStop P ctx answer =
     (case answer of
        Inl _ \<Rightarrow> vthrow PortThrew
      | Inr _ \<Rightarrow>
          vbind (vget (\<lambda>v. \<not> isPaused v \<and> \<not> isRecoverableError v)) (\<lambda>b.
          vdo (whenV b (setState P VReady))
          (case ctx of
             FromStop \<Rightarrow> vret (Return VUnit)
           | FromPause interactionId \<Rightarrow>
               vdo (vcallU P (RecordPaused interactionId))
               (vdo (setState P VPaused) (vret (Return VUnit))))))"

definition beginPause :: "voice_port \<Rightarrow> voice_progress vm" where
  "beginPause P =
     vbind (vget (\<lambda>v. (vc_state v, vc_active v))) (\<lambda>(s, a).
     if s = VPaused then vret (Return VUnit)
     else if s = GuideSpeaking \<or> s = NarratorSpeaking then
       vdo (vmodify (\<lambda>v. v\<lparr>vc_pausedPlaybackState := Some s\<rparr>))
       (vdo (vlog PlaybackPause) (vret (Await AwaitPause)))
     else beginStop P (FromPause (case a of Some active \<Rightarrow> ac_interactionId active | None \<Rightarrow> sessionControl)))"

definition settlePause :: "voice_port \<Rightarrow> js option + unit \<Rightarrow> voice_progress vm" where
  "settlePause P answer =
     (case answer of
        Inl _ \<Rightarrow> vthrow PortThrew
      | Inr _ \<Rightarrow>
          vdo (vcallU P (RecordPaused sessionControl)) (vdo (setState P VPaused) (vret (Return VUnit))))"

definition beginResume :: "voice_port \<Rightarrow> voice_progress vm" where
  "beginResume P =
     vbind (vget (\<lambda>v. (vc_state v, vc_pausedPlaybackState v))) (\<lambda>(s, p).
     if s \<noteq> VPaused then vret (Return VUnit)
     else
       (case p of
          Some playbackState \<Rightarrow> vdo (vlog PlaybackResume) (vret (Await (AwaitResume playbackState)))
        | None \<Rightarrow>
            vdo (vcallU P (RecordResumed sessionControl)) (vdo (setState P VReady) (vret (Return VUnit)))))"

definition settleResume :: "voice_port \<Rightarrow> voice_audio_state \<Rightarrow> js option + unit \<Rightarrow> voice_progress vm" where
  "settleResume P playbackState answer =
     (case answer of
        Inl _ \<Rightarrow> vthrow PortThrew
      | Inr _ \<Rightarrow>
          vdo (vmodify (\<lambda>v. v\<lparr>vc_pausedPlaybackState := None\<rparr>))
          (vdo (vcallU P (RecordResumed sessionControl))
          (vdo (setState P playbackState) (vret (Return VUnit)))))"

definition beginRepeat :: "voice_port \<Rightarrow> voice_progress vm" where
  "beginRepeat P =
     vbind (vget (\<lambda>v. (vc_state v, vc_lastPlayed v))) (\<lambda>(s, last).
     case last of
       Some request \<Rightarrow>
         if s \<noteq> VReady \<and> s \<noteq> RecoverableError then vret (Return VUnit)
         else playRequest P request [] FromRepeat
     | None \<Rightarrow> vret (Return VUnit))"

section \<open>Steps\<close>

text \<open>
  A method is called with the ids \<open>nextInteractionId\<close> and \<open>nextCaptureId\<close> return for it.  A
  pending await is settled with the answer of its port; an answer of another kind changes
  nothing.  The playback port may call any \<open>onStarted\<close> it was given at any time, and narration
  may be prepared at any time.
\<close>

datatype voice_method =
    StartCapture js js
  | FinishCapture
  | StopAudio
  | PauseAudio
  | ResumeAudio
  | RepeatAudio
  | SubmitText js js
  | PlayPrepared js

datatype voice_answer =
    Resolved \<comment> \<open>of a promise of nothing\<close>
  | ResolvedAudio nat
  | ResolvedTranscript js "rat option"
  | ResolvedTurn turn_result
  | Rejected "js option" \<comment> \<open>with the \<open>code\<close> of the error\<close>

datatype voice_event =
    CallVoice voice_method
  | SettleVoice nat voice_answer
  | PlaybackBegan nat
  | PrepareVoice narration_request bool
  | ActivatePlayback

definition begin_voice :: "voice_port \<Rightarrow> voice_method \<Rightarrow> voice_progress vm" where
  "begin_voice P m =
     (case m of
        StartCapture i c \<Rightarrow> beginStartCapture P i c
      | FinishCapture \<Rightarrow> beginFinishCapture P
      | StopAudio \<Rightarrow> beginStop P FromStop
      | PauseAudio \<Rightarrow> beginPause P
      | ResumeAudio \<Rightarrow> beginResume P
      | RepeatAudio \<Rightarrow> beginRepeat P
      | SubmitText i t \<Rightarrow> beginSubmitText P i t
      | PlayPrepared i \<Rightarrow> beginPlayPrepared P i FromPlayPrepared)"

fun unit_answer :: "voice_answer \<Rightarrow> (js option + unit) option" where
  "unit_answer Resolved = Some (Inr ())"
| "unit_answer (Rejected c) = Some (Inl c)"
| "unit_answer _ = None"

fun audio_answer :: "voice_answer \<Rightarrow> (js option + nat) option" where
  "audio_answer (ResolvedAudio d) = Some (Inr d)"
| "audio_answer (Rejected c) = Some (Inl c)"
| "audio_answer _ = None"

fun transcript_answer :: "voice_answer \<Rightarrow> (js option + js \<times> rat option) option" where
  "transcript_answer (ResolvedTranscript t c) = Some (Inr (t, c))"
| "transcript_answer (Rejected c) = Some (Inl c)"
| "transcript_answer _ = None"

fun turn_answer :: "voice_answer \<Rightarrow> (js option + turn_result) option" where
  "turn_answer (ResolvedTurn r) = Some (Inr r)"
| "turn_answer (Rejected c) = Some (Inl c)"
| "turn_answer _ = None"

definition settle_voice :: "voice_port \<Rightarrow> voice_task \<Rightarrow> voice_answer \<Rightarrow> voice_progress vm option" where
  "settle_voice P t a =
     (case t of
        AwaitStart active epoch \<Rightarrow> map_option (settleStart P active epoch) (unit_answer a)
      | AwaitStartCancel \<Rightarrow> map_option (\<lambda>_. vret (Return VUnit)) (unit_answer a)
      | AwaitStop active epoch \<Rightarrow> map_option (settleStop P active epoch) (audio_answer a)
      | AwaitTranscript active c \<Rightarrow> map_option (settleTranscript P active c) (transcript_answer a)
      | AwaitTurn i c \<Rightarrow> map_option (settleTurn P i c) (turn_answer a)
      | AwaitText i c \<Rightarrow> map_option (settleText P i) (turn_answer a)
      | AwaitCancel active ctx \<Rightarrow> map_option (settleCancel P active ctx) (unit_answer a)
      | AwaitPlaybackStop ctx \<Rightarrow> map_option (settlePlaybackStop P ctx) (unit_answer a)
      | AwaitPause \<Rightarrow> map_option (settlePause P) (unit_answer a)
      | AwaitResume s \<Rightarrow> map_option (settleResume P s) (unit_answer a)
      | AwaitPlay c request ctx \<Rightarrow> map_option (settlePlay P c request ctx) (unit_answer a)
      | AwaitPreparation c ctx \<Rightarrow>
          (if a = Resolved then Some (settlePreparation P c ctx) else None))"

definition run_voice :: "nat \<Rightarrow> voice_progress vm \<Rightarrow> voice \<Rightarrow> voice" where
  \<comment> \<open>runs the call \<open>n\<close> to its next await or its end\<close>
  "run_voice n m v =
     (case m v of
        (v', Inl e) \<Rightarrow> v'\<lparr>vc_settled := (n, Inl e) # vc_settled v'\<rparr>
      | (v', Inr (Return x)) \<Rightarrow> v'\<lparr>vc_settled := (n, Inr x) # vc_settled v'\<rparr>
      | (v', Inr (Await t)) \<Rightarrow> v'\<lparr>vc_tasks := (n, t) # vc_tasks v'\<rparr>)"

definition voice_step :: "voice_port \<Rightarrow> voice \<Rightarrow> voice_event \<Rightarrow> voice" where
  "voice_step P v ev =
     (case ev of
        CallVoice m \<Rightarrow> run_voice (vc_nextRef v) (begin_voice P m) (v\<lparr>vc_nextRef := Suc (vc_nextRef v)\<rparr>)
      | SettleVoice n a \<Rightarrow>
          (case map_of (vc_tasks v) n of
             None \<Rightarrow> v
           | Some t \<Rightarrow>
               (case settle_voice P t a of
                  None \<Rightarrow> v
                | Some m \<Rightarrow> run_voice n m (v\<lparr>vc_tasks := AList.delete n (vc_tasks v)\<rparr>)))
      | PlaybackBegan c \<Rightarrow>
          (case map_of (vc_lifecycles v) c of None \<Rightarrow> v | Some request \<Rightarrow> fst (onStarted P c request v))
      | PrepareVoice request aborted \<Rightarrow> prepareNarration request aborted v
      | ActivatePlayback \<Rightarrow> v\<lparr>vc_calls := vc_calls v @ [PlaybackActivate]\<rparr>)"

definition voice_run :: "voice_port \<Rightarrow> voice \<Rightarrow> voice_event list \<Rightarrow> voice" where
  "voice_run P v evs = foldl (voice_step P) v evs"

inductive voice_reach :: "voice_port \<Rightarrow> voice \<Rightarrow> bool" for P where
  created: "voice_reach P newVoiceAudioController"
| stepped: "voice_reach P v \<Longrightarrow> voice_reach P (voice_step P v ev)"

lemma voice_run_Nil [simp]: "voice_run P v [] = v"
  by (simp add: voice_run_def)

lemma voice_run_Cons [simp]: "voice_run P v (ev # evs) = voice_run P (voice_step P v ev) evs"
  by (simp add: voice_run_def)

lemma voice_reach_run: "voice_reach P v \<Longrightarrow> voice_reach P (voice_run P v evs)"
  by (induction evs arbitrary: v) (simp_all add: voice_reach.stepped)

end
