(* ===== verification/Voice_Facts.thy ===== *)
theory Voice_Facts
  imports Voice_Controller
begin

text \<open>
  How the invariants of the voice controller are proved.  A method segment is reasoned about
  through its weakest precondition; an invariant (\<open>voice_kept\<close>, \<open>voice_invariant\<close>) speaks of the
  pending tasks together with the task the running segment has in hand; a segment that only
  follows an order of states (\<open>effect_order\<close>) is closed under composition.
\<close>

section \<open>Weakest preconditions\<close>

definition wp :: "'a vm \<Rightarrow> (voice_error + 'a \<Rightarrow> voice \<Rightarrow> bool) \<Rightarrow> voice \<Rightarrow> bool" where
  "wp m Q v \<longleftrightarrow> (case m v of (v', r) \<Rightarrow> Q r v')"

named_theorems wp_simps \<open>weakest preconditions of the effects\<close>

lemma vm_ret [wp_simps]: "wp (vret x) Q v = Q (Inr x) v"
  by (simp add: wp_def vret_def)

lemma vm_throw [wp_simps]: "wp (vthrow e) Q v = Q (Inl e) v"
  by (simp add: wp_def vthrow_def)

lemma vm_modify [wp_simps]: "wp (vmodify f) Q v = Q (Inr ()) (f v)"
  by (simp add: wp_def vmodify_def)

lemma vm_get [wp_simps]: "wp (vget f) Q v = Q (Inr (f v)) v"
  by (simp add: wp_def vget_def)

lemma vm_fresh [wp_simps]: "wp vfresh Q v = Q (Inr (vc_nextRef v)) (v\<lparr>vc_nextRef := Suc (vc_nextRef v)\<rparr>)"
  by (simp add: wp_def vfresh_def)

lemma vm_bind [wp_simps]:
  "wp (vbind m f) Q v = wp m (\<lambda>r v'. case r of Inl e \<Rightarrow> Q (Inl e) v' | Inr x \<Rightarrow> wp (f x) Q v') v"
  by (simp add: wp_def vbind_def split: prod.splits sum.splits)

lemma vm_catch [wp_simps]:
  "wp (vcatch m h) Q v = wp m (\<lambda>r v'. case r of Inl e \<Rightarrow> wp h Q v' | Inr x \<Rightarrow> Q (Inr x) v') v"
  by (simp add: wp_def vcatch_def split: prod.splits sum.splits)

lemma vm_finally [wp_simps]: "wp (vfinally m f) Q v = wp m (\<lambda>r v'. Q r (f v')) v"
  by (simp add: wp_def vfinally_def split: prod.splits)

lemma vm_call [wp_simps]:
  "wp (vcall P c) Q v = (case vp_answer P (vc_calls v) c of
      None \<Rightarrow> Q (Inl PortThrew) (v\<lparr>vc_calls := vc_calls v @ [c]\<rparr>)
    | Some r \<Rightarrow> Q (Inr r) (v\<lparr>vc_calls := vc_calls v @ [c]\<rparr>))"
  by (simp add: wp_def vcall_def split: option.splits)

lemma vm_if [wp_simps]: "wp (if b then m else m') Q v = (if b then wp m Q v else wp m' Q v)"
  by simp

lemma vm_whenV [wp_simps]: "wp (whenV b m) Q v = (if b then wp m Q v else Q (Inr ()) v)"
  by (simp add: whenV_def wp_simps)

lemma vm_take [wp_simps]:
  "wp (takePrepared i) Q v = Q (Inr (case map_of (vc_prepared v) i of None \<Rightarrow> [] | Some rs \<Rightarrow> rs))
     (v\<lparr>vc_prepared := AList.delete i (vc_prepared v)\<rparr>)"
  by (simp add: wp_def takePrepared_def)

lemma vm_same: "m v = m' v \<Longrightarrow> wp m' Q v \<Longrightarrow> wp m Q v"
  by (simp add: wp_def)

lemma vm_get_bind: "wp (vbind (vget g) f) Q v = wp (f (g v)) Q v"
  by (simp add: wp_simps)

lemma vm_modify_bind: "wp (vdo (vmodify g) k) Q v = wp k Q (g v)"
  by (simp add: wp_simps)

lemmas segment_defs = vcallU_def setState_def vlog_def abortController_def boundedVoiceId_def
  playRequest_def playedPrepared_def playLoop_def playReturned_def onStarted_def playFailed_def
  settlePlay_def settlePreparation_def beginPlayPrepared_def beginStartCapture_def settleStart_def
  beginFinishCapture_def recordCancelledTurn_def settleStop_def finishTurn_def voiceTurnFailed_def
  settleTranscript_def settleTurn_def beginSubmitText_def settleText_def stopPlayback_def beginStop_def
  settleCancel_def settlePlaybackStop_def beginPause_def settlePause_def beginResume_def settleResume_def
  beginRepeat_def clearPlayback_def clearTurnAbort_def

section \<open>Steps in terms of segments\<close>

fun in_hand :: "voice_error + voice_progress \<Rightarrow> voice_task list" where
  "in_hand (Inr (Await t)) = [t]"
| "in_hand _ = []"

text \<open>An invariant relates the tasks in hand and pending to the rest of the state.\<close>

definition all_tasks :: "voice_task list \<Rightarrow> voice \<Rightarrow> voice_task list" where
  "all_tasks ts v = ts @ map snd (vc_tasks v)"

locale voice_kept =
  fixes P :: voice_port and I :: "voice_task list \<Rightarrow> voice \<Rightarrow> bool"
  assumes parked: "I [t] v \<Longrightarrow> I [] (v\<lparr>vc_tasks := (n, t) # vc_tasks v\<rparr>)"
    and resumed: "I [] v \<Longrightarrow> map_of (vc_tasks v) n = Some t \<Longrightarrow>
        I [t] (v\<lparr>vc_tasks := AList.delete n (vc_tasks v)\<rparr>)"
    and settled: "I [] v \<Longrightarrow> I [] (v\<lparr>vc_settled := s\<rparr>)"
    and numbered: "I [] v \<Longrightarrow> I [] (v\<lparr>vc_nextRef := Suc (vc_nextRef v)\<rparr>)"
    and begins: "I [] v \<Longrightarrow> wp (begin_voice P m) (\<lambda>r v'. I (in_hand r) v') v"
    and settles: "I [t] v \<Longrightarrow> settle_voice P t a = Some k \<Longrightarrow> wp k (\<lambda>r v'. I (in_hand r) v') v"
    and begun: "I [] v \<Longrightarrow> map_of (vc_lifecycles v) c = Some q \<Longrightarrow>
        wp (onStarted P c q) (\<lambda>r v'. I [] v') v"
    and prepared: "I [] v \<Longrightarrow> I [] (v\<lparr>vc_prepared := p\<rparr>)"
    and activated: "I [] v \<Longrightarrow> I [] (v\<lparr>vc_calls := vc_calls v @ [PlaybackActivate]\<rparr>)"
begin

lemma run_voice_keeps: "wp m (\<lambda>r v'. I (in_hand r) v') v \<Longrightarrow> I [] (run_voice n m v)"
  by (auto simp: wp_def run_voice_def intro: parked settled split: prod.splits sum.splits voice_progress.splits)

lemma step_keeps:
  assumes I: "I [] v"
  shows "I [] (voice_step P v ev)"
proof (cases ev)
  case (CallVoice m)
  with begins [OF numbered [OF I]] show ?thesis
    by (simp add: voice_step_def run_voice_keeps)
next
  case (SettleVoice n a)
  show ?thesis
  proof (cases "map_of (vc_tasks v) n")
    case (Some t)
    then show ?thesis
      using settles [OF resumed [OF I Some]] I
      by (simp add: voice_step_def SettleVoice run_voice_keeps split: option.split)
  qed (simp add: voice_step_def SettleVoice I)
next
  case (PlaybackBegan c)
  with begun [OF I, of c] I show ?thesis
    by (auto simp: voice_step_def wp_def split: option.split prod.splits)
next
  case (PrepareVoice q b)
  with I show ?thesis by (simp add: voice_step_def prepareNarration_def Let_def prepared)
next
  case ActivatePlayback
  with I show ?thesis by (simp add: voice_step_def activated)
qed

lemma run_keeps: "I [] v \<Longrightarrow> I [] (voice_run P v evs)"
  by (induction evs arbitrary: v) (simp_all add: step_keeps)

end

locale voice_invariant = voice_kept +
  assumes initial: "I [] newVoiceAudioController"
begin

lemma reach_keeps: "voice_reach P v \<Longrightarrow> I [] v"
  by (induction rule: voice_reach.induct) (simp_all add: initial step_keeps)

end

section \<open>Segments that follow an order of states\<close>

definition along :: "(voice \<Rightarrow> voice \<Rightarrow> bool) \<Rightarrow> 'a vm \<Rightarrow> bool" where
  "along R m \<longleftrightarrow> (\<forall>v. R v (fst (m v)))"

lemma alongD: "along R m \<Longrightarrow> m v = (v', r) \<Longrightarrow> R v v'"
  by (auto simp: along_def) (metis fst_conv)

locale effect_order =
  fixes R :: "voice \<Rightarrow> voice \<Rightarrow> bool"
  assumes same: "R v v" and through: "R u v \<Longrightarrow> R v w \<Longrightarrow> R u w"
begin

lemma along_ret: "along R (vret x)"
  by (simp add: along_def vret_def same)

lemma along_throw: "along R (vthrow e)"
  by (simp add: along_def vthrow_def same)

lemma along_get: "along R (vget f)"
  by (simp add: along_def vget_def same)

lemma along_modify: "(\<And>v. R v (f v)) \<Longrightarrow> along R (vmodify f)"
  by (simp add: along_def vmodify_def)

lemma along_call: "(\<And>v. R v (v\<lparr>vc_calls := vc_calls v @ [c]\<rparr>)) \<Longrightarrow> along R (vcall P c)"
  by (auto simp: along_def vcall_def split: option.split)

lemma along_bind: "along R m \<Longrightarrow> (\<And>x. along R (f x)) \<Longrightarrow> along R (vbind m f)"
  unfolding along_def vbind_def
  by (auto split: prod.splits sum.splits) (metis fst_conv through)+

lemma along_catch: "along R m \<Longrightarrow> along R h \<Longrightarrow> along R (vcatch m h)"
  unfolding along_def vcatch_def
  by (auto split: prod.splits sum.splits) (metis fst_conv through)+

lemma along_finally: "along R m \<Longrightarrow> (\<And>v. R v (f v)) \<Longrightarrow> along R (vfinally m f)"
  unfolding along_def vfinally_def
  by (auto split: prod.splits) (metis fst_conv through)

lemma along_whenV: "along R m \<Longrightarrow> along R (whenV b m)"
  by (simp add: whenV_def along_ret)

lemma along_log: "(\<And>v. R v (v\<lparr>vc_calls := vc_calls v @ [c]\<rparr>)) \<Longrightarrow> along R (vlog c)"
  unfolding vlog_def by (rule along_modify)

lemma along_callU: "(\<And>v. R v (v\<lparr>vc_calls := vc_calls v @ [c]\<rparr>)) \<Longrightarrow> along R (vcallU P c)"
  unfolding vcallU_def by (intro along_bind along_call along_ret)

lemma along_bounded: "along R (boundedVoiceId s)"
  by (simp add: boundedVoiceId_def along_ret along_throw)

lemmas along_plain = along_ret along_throw along_get along_bind along_catch along_whenV along_bounded

end

section \<open>Counting\<close>

definition task_count :: "(voice_task \<Rightarrow> bool) \<Rightarrow> voice_task list \<Rightarrow> nat" where
  "task_count p ts = length (filter p ts)"

definition call_count :: "(voice_call \<Rightarrow> bool) \<Rightarrow> voice_call list \<Rightarrow> nat" where
  "call_count p cs = length (filter p cs)"

lemma count_simps [simp]:
  "task_count p [] = 0" "task_count p (t # ts) = (if p t then Suc (task_count p ts) else task_count p ts)"
  "call_count q [] = 0" "call_count q (cs @ [c]) = (if q c then Suc (call_count q cs) else call_count q cs)"
  "call_count q (c # cs) = (if q c then Suc (call_count q cs) else call_count q cs)"
  by (simp_all add: task_count_def call_count_def)

lemma call_count_append [simp]: "call_count q (cs @ ds) = call_count q cs + call_count q ds"
  by (simp add: call_count_def)

lemma task_count_held:
  assumes "map_of ts n = Some t"
  shows "task_count p (t # map snd (AList.delete n ts)) \<le> task_count p (map snd ts)"
  using assms
proof (induction ts)
  case (Cons e ts)
  obtain k u where e: "e = (k, u)" by (cases e)
  have "task_count p (map snd (AList.delete n ts)) \<le> task_count p (map snd ts)"
    by (induction ts) (auto simp: task_count_def AList.delete_eq)
  with Cons e show ?case by (cases "k = n") (auto simp: AList.delete_eq split: if_splits)
qed simp

lemma task_count_append [simp]: "task_count p (ts @ us) = task_count p ts + task_count p us"
  by (simp add: task_count_def)

end
