(* ===== verification/Voice_Captures.thy ===== *)
theory Voice_Captures
  imports Voice_Facts
begin

text \<open>
  Captures of the voice controller: every capture is recorded as started and as ended at most
  once, is transcribed only when it was submitted, and a capture that \<open>stop\<close> ended is never
  transcribed.
\<close>

section \<open>What is counted\<close>

fun starts_capture :: "nat \<Rightarrow> voice_call \<Rightarrow> bool" where
  "starts_capture r (RecordCaptureStarted n i c) = (n = r)"
| "starts_capture r _ = False"

fun ends_capture :: "nat \<Rightarrow> voice_call \<Rightarrow> bool" where
  "ends_capture r (RecordCaptureEnded n i c d oc) = (n = r)"
| "ends_capture r _ = False"

fun submits_capture :: "nat \<Rightarrow> voice_call \<Rightarrow> bool" where
  "submits_capture r (RecordCaptureEnded n i c d oc) = (n = r \<and> oc = CaptureSubmitted)"
| "submits_capture r _ = False"

fun transcribes :: "nat \<Rightarrow> voice_call \<Rightarrow> bool" where
  "transcribes r (Transcribe n i) = (n = r)"
| "transcribes r _ = False"

fun starting :: "nat \<Rightarrow> voice_task \<Rightarrow> bool" where
  "starting r (AwaitStart a e) = (ac_ref a = r)"
| "starting r _ = False"

fun cancelling :: "nat \<Rightarrow> voice_task \<Rightarrow> bool" where
  "cancelling r (AwaitCancel a ctx) = (ac_ref a = r \<and> ac_captureStarted a)"
| "cancelling r _ = False"

fun task_ref :: "voice_task \<Rightarrow> nat option" where
  "task_ref (AwaitStart a e) = Some (ac_ref a)"
| "task_ref (AwaitStop a e) = Some (ac_ref a)"
| "task_ref (AwaitCancel a ctx) = Some (ac_ref a)"
| "task_ref _ = None"

definition holding :: "voice \<Rightarrow> nat \<Rightarrow> nat" where \<comment> \<open>the capture in \<open>#active\<close>, once started\<close>
  "holding v r = (case vc_active v of Some a \<Rightarrow> if ac_ref a = r \<and> ac_captureStarted a then 1 else 0 | None \<Rightarrow> 0)"

section \<open>Segments that leave captures alone\<close>

fun capture_call :: "voice_call \<Rightarrow> bool" where
  "capture_call (RecordCaptureStarted n i c) = True"
| "capture_call (RecordCaptureEnded n i c d oc) = True"
| "capture_call (Transcribe n i) = True"
| "capture_call c = False"

definition quiet_step :: "voice \<Rightarrow> voice \<Rightarrow> bool" where
  "quiet_step v v' \<longleftrightarrow>
     vc_active v' = vc_active v \<and> vc_nextRef v \<le> vc_nextRef v' \<and> vc_tasks v' = vc_tasks v \<and>
     (vc_state v' = Listening \<longrightarrow> vc_state v = Listening) \<and>
     vc_pausedPlaybackState v' \<in> {vc_pausedPlaybackState v, None} \<and>
     (\<exists>cs. vc_calls v' = vc_calls v @ cs \<and> list_all (\<lambda>c. \<not> capture_call c) cs)"

lemma quiet_step_refl [simp]: "quiet_step v v"
  by (simp add: quiet_step_def)

lemma quiet_step_trans: "quiet_step u v \<Longrightarrow> quiet_step v w \<Longrightarrow> quiet_step u w"
  by (fastforce simp: quiet_step_def)

interpretation quiet_order: effect_order quiet_step
  by unfold_locales (simp, rule quiet_step_trans)

abbreviation quiet :: "'a vm \<Rightarrow> bool" where "quiet \<equiv> along quiet_step"

fun plain_task :: "voice_task \<Rightarrow> bool" where
  "plain_task (AwaitStart a e) = False"
| "plain_task (AwaitStop a e) = False"
| "plain_task (AwaitCancel a ctx) = False"
| "plain_task (AwaitResume s) = False"
| "plain_task t = True"

definition calm :: "voice_progress vm \<Rightarrow> bool" where
  "calm m \<longleftrightarrow> quiet m \<and> (\<forall>v t. snd (m v) = Inr (Await t) \<longrightarrow> plain_task t)"

named_theorems quiet_intros \<open>segments that leave captures alone\<close>

lemma quiet_fresh [quiet_intros]: "quiet vfresh"
  by (simp add: along_def vfresh_def quiet_step_def)

lemma quiet_call [quiet_intros]: "\<not> capture_call c \<Longrightarrow> quiet (vcall P c)"
  "\<not> capture_call c \<Longrightarrow> quiet (vcallU P c)" "\<not> capture_call c \<Longrightarrow> quiet (vlog c)"
  by (rule quiet_order.along_call quiet_order.along_callU quiet_order.along_log; simp add: quiet_step_def)+

lemmas quiet_plain [quiet_intros] = quiet_order.along_plain quiet_order.along_modify quiet_order.along_finally

lemma quiet_setState [quiet_intros]: "s \<noteq> Listening \<Longrightarrow> quiet (setState P s)"
  unfolding setState_def by (intro quiet_intros) (simp_all add: quiet_step_def)

lemma quiet_take [quiet_intros]: "quiet (takePrepared i)"
  by (simp add: along_def takePrepared_def quiet_step_def)

lemma quiet_abort [quiet_intros]: "quiet (abortController c)"
  unfolding abortController_def by (rule quiet_order.along_modify) (simp add: quiet_step_def split: option.split)

lemma quiet_clear [quiet_intros]: "quiet_step v (clearPlayback c v)" "quiet_step v (clearTurnAbort v)"
  by (simp_all add: quiet_step_def clearPlayback_def clearTurnAbort_def)

lemma calm_quiet: "calm m \<Longrightarrow> quiet m"
  by (simp add: calm_def)

lemma calm_await [quiet_intros]: "plain_task t \<Longrightarrow> calm (vret (Await t))"
  by (simp add: calm_def quiet_order.along_ret) (simp add: vret_def)

lemma calm_return [quiet_intros]: "calm (vret (Return x))"
  by (simp add: calm_def quiet_order.along_ret) (simp add: vret_def)

lemma calm_throw [quiet_intros]: "calm (vthrow e)"
  by (simp add: calm_def quiet_order.along_throw) (simp add: vthrow_def)

lemma calm_bind [quiet_intros]: "quiet m \<Longrightarrow> (\<And>x. calm (f x)) \<Longrightarrow> calm (vbind m f)"
  unfolding calm_def by (auto intro!: quiet_order.along_bind) (auto simp: vbind_def split: prod.splits sum.splits; metis snd_conv)

lemma calm_catch [quiet_intros]: "calm m \<Longrightarrow> calm h \<Longrightarrow> calm (vcatch m h)"
  unfolding calm_def by (auto intro!: quiet_order.along_catch) (auto simp: vcatch_def split: prod.splits sum.splits; metis snd_conv)

lemma quiet_update:
  "vc_active v' = vc_active v \<Longrightarrow> vc_nextRef v' = vc_nextRef v \<Longrightarrow> vc_tasks v' = vc_tasks v \<Longrightarrow>
   vc_state v' = vc_state v \<Longrightarrow> vc_pausedPlaybackState v' \<in> {vc_pausedPlaybackState v, None} \<Longrightarrow>
   vc_calls v' = vc_calls v @ cs \<Longrightarrow> list_all (\<lambda>c. \<not> capture_call c) cs \<Longrightarrow> quiet_step v v'"
  by (auto simp: quiet_step_def)

lemma quiet_fields [quiet_intros]:
  "quiet_step v (v\<lparr>vc_started := a\<rparr>)" "quiet_step v (v\<lparr>vc_turnAbort := b\<rparr>)"
  "quiet_step v (v\<lparr>vc_playbackAbort := b\<rparr>)"
  by (simp_all add: quiet_step_def)

lemma calm_playRequest [quiet_intros]: "calm (playRequest P q qs ctx)"
  unfolding playRequest_def
  by (intro quiet_intros) (auto intro!: quiet_update simp: list_all_iff)

lemma calm_playedPrepared [quiet_intros]: "calm (playedPrepared ctx oc)"
  unfolding playedPrepared_def by (intro quiet_intros)

lemma calm_playLoop [quiet_intros]: "calm (playLoop P qs e ctx)"
  unfolding playLoop_def
  by (cases qs) (auto intro!: quiet_intros split del: if_split split: if_splits)

lemma calm_playReturned [quiet_intros]: "calm (playReturned P ctx oc)"
  unfolding playReturned_def by (cases ctx) (auto intro!: quiet_intros)

lemma quiet_onStarted [quiet_intros]: "quiet (onStarted P c q)"
  unfolding onStarted_def by (auto intro!: quiet_intros intro: quiet_update)

lemma quiet_playFailed [quiet_intros]: "quiet (playFailed P c q code)"
  unfolding playFailed_def Let_def by (intro quiet_intros) simp_all

lemma calm_settlePlay [quiet_intros]: "calm (settlePlay P c q ctx a)"
  unfolding settlePlay_def Let_def
  by (cases a) (auto intro!: quiet_intros)

lemma calm_settlePreparation [quiet_intros]: "calm (settlePreparation P c ctx)"
  unfolding settlePreparation_def by (intro quiet_intros)

lemma calm_beginPlayPrepared [quiet_intros]: "calm (beginPlayPrepared P i ctx)"
  unfolding beginPlayPrepared_def by (auto intro!: quiet_intros)

lemma calm_recordCancelledTurn [quiet_intros]: "calm (recordCancelledTurn P i)"
  unfolding recordCancelledTurn_def by (auto intro!: quiet_intros)

lemma calm_finishTurn [quiet_intros]: "calm (finishTurn P i r)"
  unfolding finishTurn_def by (auto intro!: quiet_intros)

lemma quiet_voiceTurnFailed [quiet_intros]: "quiet (voiceTurnFailed P i c code)"
  unfolding voiceTurnFailed_def by (auto intro!: quiet_intros)

lemma calm_settleTranscript [quiet_intros]: "calm (settleTranscript P a c ans)"
  unfolding settleTranscript_def Let_def
  by (auto intro!: quiet_intros split: sum.splits prod.splits option.splits)

lemma calm_settleTurn [quiet_intros]: "calm (settleTurn P i c ans)"
  unfolding settleTurn_def by (auto intro!: quiet_intros split: sum.splits)

lemma calm_beginSubmitText [quiet_intros]: "calm (beginSubmitText P i t)"
  unfolding beginSubmitText_def
  by (auto intro!: quiet_intros intro: quiet_update split: option.splits)

lemma calm_settleText [quiet_intros]: "calm (settleText P i ans)"
  unfolding settleText_def by (auto intro!: quiet_intros split: sum.splits)

lemma calm_stopPlayback [quiet_intros]: "calm (stopPlayback ctx)"
  unfolding stopPlayback_def by (auto intro!: quiet_intros)

lemma calm_settlePlaybackStop [quiet_intros]: "calm (settlePlaybackStop P ctx ans)"
  unfolding settlePlaybackStop_def by (auto intro!: quiet_intros split: sum.splits stop_context.splits)

lemma calm_settlePause [quiet_intros]: "calm (settlePause P ans)"
  unfolding settlePause_def by (auto intro!: quiet_intros split: sum.splits)

lemma calm_beginRepeat [quiet_intros]: "calm (beginRepeat P)"
  unfolding beginRepeat_def by (auto intro!: quiet_intros split: prod.splits option.splits)

section \<open>Captures are recorded once\<close>

definition capture_inv :: "voice_task list \<Rightarrow> voice \<Rightarrow> bool" where
  "capture_inv ts v \<longleftrightarrow>
     (\<forall>a. vc_active v = Some a \<longrightarrow> ac_ref a < vc_nextRef v) \<and>
     (\<forall>t \<in> set (all_tasks ts v). \<forall>r. task_ref t = Some r \<longrightarrow> r < vc_nextRef v) \<and>
     (\<forall>r. vc_nextRef v \<le> r \<longrightarrow> call_count (starts_capture r) (vc_calls v) = 0) \<and>
     (\<forall>r. holding v r + task_count (cancelling r) (all_tasks ts v) + call_count (ends_capture r) (vc_calls v)
        \<le> call_count (starts_capture r) (vc_calls v)) \<and>
     (\<forall>r. task_count (starting r) (all_tasks ts v) + call_count (starts_capture r) (vc_calls v) \<le> 1) \<and>
     (\<forall>r. call_count (transcribes r) (vc_calls v) \<le> call_count (submits_capture r) (vc_calls v)) \<and>
     (vc_state v = Listening \<longrightarrow> (\<forall>a. vc_active v = Some a \<longrightarrow> ac_captureStarted a)) \<and>
     (\<forall>a e b. AwaitStop a e \<in> set (all_tasks ts v) \<longrightarrow> vc_active v = Some b \<longrightarrow> ac_ref b = ac_ref a \<longrightarrow>
        ac_captureStarted b) \<and>
     vc_pausedPlaybackState v \<noteq> Some Listening \<and> AwaitResume Listening \<notin> set (all_tasks ts v)"

lemma capture_invD:
  assumes "capture_inv ts v"
  shows "vc_active v = Some a \<Longrightarrow> ac_ref a < vc_nextRef v"
    and "t \<in> set (all_tasks ts v) \<Longrightarrow> task_ref t = Some r \<Longrightarrow> r < vc_nextRef v"
    and "vc_nextRef v \<le> r \<Longrightarrow> call_count (starts_capture r) (vc_calls v) = 0"
    and "holding v r + task_count (cancelling r) (all_tasks ts v) + call_count (ends_capture r) (vc_calls v)
        \<le> call_count (starts_capture r) (vc_calls v)"
    and "task_count (starting r) (all_tasks ts v) + call_count (starts_capture r) (vc_calls v) \<le> 1"
    and "call_count (transcribes r) (vc_calls v) \<le> call_count (submits_capture r) (vc_calls v)"
    and "vc_state v = Listening \<Longrightarrow> vc_active v = Some a \<Longrightarrow> ac_captureStarted a"
    and "AwaitStop a e \<in> set (all_tasks ts v) \<Longrightarrow> vc_active v = Some b \<Longrightarrow> ac_ref b = ac_ref a \<Longrightarrow>
        ac_captureStarted b"
    and "vc_pausedPlaybackState v \<noteq> Some Listening" and "AwaitResume Listening \<notin> set (all_tasks ts v)"
  using assms unfolding capture_inv_def by blast+

lemma capture_invI:
  assumes "\<And>a. vc_active v = Some a \<Longrightarrow> ac_ref a < vc_nextRef v"
    and "\<And>t r. t \<in> set (all_tasks ts v) \<Longrightarrow> task_ref t = Some r \<Longrightarrow> r < vc_nextRef v"
    and "\<And>r. vc_nextRef v \<le> r \<Longrightarrow> call_count (starts_capture r) (vc_calls v) = 0"
    and "\<And>r. holding v r + task_count (cancelling r) (all_tasks ts v) + call_count (ends_capture r) (vc_calls v)
        \<le> call_count (starts_capture r) (vc_calls v)"
    and "\<And>r. task_count (starting r) (all_tasks ts v) + call_count (starts_capture r) (vc_calls v) \<le> 1"
    and "\<And>r. call_count (transcribes r) (vc_calls v) \<le> call_count (submits_capture r) (vc_calls v)"
    and "\<And>a. vc_state v = Listening \<Longrightarrow> vc_active v = Some a \<Longrightarrow> ac_captureStarted a"
    and "\<And>a e b. AwaitStop a e \<in> set (all_tasks ts v) \<Longrightarrow> vc_active v = Some b \<Longrightarrow> ac_ref b = ac_ref a \<Longrightarrow>
        ac_captureStarted b"
    and "vc_pausedPlaybackState v \<noteq> Some Listening" and "AwaitResume Listening \<notin> set (all_tasks ts v)"
  shows "capture_inv ts v"
  unfolding capture_inv_def using assms by blast

lemma plain_calls:
  assumes "list_all (\<lambda>c. \<not> capture_call c) cs"
  shows "call_count (starts_capture r) cs = 0" "call_count (ends_capture r) cs = 0"
    "call_count (transcribes r) cs = 0" "call_count (submits_capture r) cs = 0"
proof -
  have "\<not> starts_capture r c \<and> \<not> ends_capture r c \<and> \<not> transcribes r c \<and> \<not> submits_capture r c"
    if "\<not> capture_call c" for c
    using that by (cases c) simp_all
  with assms show "call_count (starts_capture r) cs = 0" "call_count (ends_capture r) cs = 0"
    "call_count (transcribes r) cs = 0" "call_count (submits_capture r) cs = 0"
    by (induction cs) simp_all
qed

lemma plain_task_simps [simp]:
  "plain_task t \<Longrightarrow> \<not> starting r t" "plain_task t \<Longrightarrow> \<not> cancelling r t" "plain_task t \<Longrightarrow> task_ref t = None"
  "plain_task t \<Longrightarrow> t \<noteq> AwaitStop a e" "plain_task t \<Longrightarrow> t \<noteq> AwaitResume s"
  by (cases t; simp)+

lemma capture_inv_quiet:
  assumes I: "capture_inv us v" and q: "quiet_step v v'" and ts: "\<forall>t \<in> set ts. plain_task t"
  shows "capture_inv ts v'"
proof -
  obtain cs where q': "vc_active v' = vc_active v" "vc_nextRef v \<le> vc_nextRef v'" "vc_tasks v' = vc_tasks v"
    "vc_state v' = Listening \<longrightarrow> vc_state v = Listening"
    "vc_pausedPlaybackState v' \<in> {vc_pausedPlaybackState v, None}"
    "vc_calls v' = vc_calls v @ cs" "list_all (\<lambda>c. \<not> capture_call c) cs"
    using q by (auto simp: quiet_step_def)
  have zero: "task_count (cancelling r) ts = 0" "task_count (starting r) ts = 0" for r
    using ts by (induction ts) auto
  have held: "holding v' r = holding v r" for r by (simp add: holding_def q')
  note plain = plain_calls [OF q'(7)]
  have le: "task_count p (map snd (vc_tasks v)) \<le> task_count p (all_tasks us v)" for p
    by (simp add: all_tasks_def)
  have old: "t \<in> set (all_tasks us v)" if "t \<in> set (all_tasks ts v')" "\<not> plain_task t" for t
    using that ts by (auto simp: all_tasks_def q'(3))
  note D = capture_invD [OF I]
  show ?thesis
  proof (rule capture_invI, goal_cases)
    case (2 t r)
    then have "\<not> plain_task t" by auto
    with old [OF 2(1)] D(2) 2(2) q'(2) show ?case by fastforce
  next
    case (4 r)
    with D(4) [of r] le [of "cancelling r"] show ?case
      by (simp add: held q'(3, 6) plain zero all_tasks_def)
  next
    case (5 r)
    with D(5) [of r] le [of "starting r"] show ?case
      by (simp add: q'(3, 6) plain zero all_tasks_def)
  next
    case (8 a e b)
    from old [OF 8(1)] D(8) [of a e b] 8(2, 3) q'(1) show ?case by simp
  next
    case 10
    show ?case using D(10) old [of "AwaitResume Listening"] by auto
  qed (use D(1, 3, 6, 7, 9) q' in \<open>auto simp: plain intro: order.strict_trans2\<close>)
qed

lemma calm_keeps:
  assumes "calm m" and "capture_inv ts v"
  shows "wp m (\<lambda>r v'. capture_inv (in_hand r) v') v"
proof -
  obtain v' r where m: "m v = (v', r)" by (cases "m v")
  have q: "quiet_step v v'" using assms(1) m by (auto simp: calm_def along_def) (metis fst_conv)
  have p: "\<forall>t \<in> set (in_hand r). plain_task t"
    using assms(1) m by (cases r rule: in_hand.cases) (auto simp: calm_def, metis snd_conv)
  from capture_inv_quiet [OF assms(2) q p] show ?thesis by (simp add: wp_def m)
qed

abbreviation keeps :: "voice_progress vm \<Rightarrow> voice \<Rightarrow> bool" where
  "keeps m v \<equiv> wp m (\<lambda>r v'. capture_inv (in_hand r) v') v"

lemma capture_inv_fewer:
  assumes "capture_inv us v" and "vc_active v' = vc_active v" "vc_nextRef v \<le> vc_nextRef v'"
    "vc_state v' = vc_state v" "vc_calls v' = vc_calls v" "vc_pausedPlaybackState v' = vc_pausedPlaybackState v"
    and fewer: "set (all_tasks ts v') \<subseteq> set (all_tasks us v)"
      "\<And>p. task_count p (all_tasks ts v') \<le> task_count p (all_tasks us v)"
  shows "capture_inv ts v'"
proof -
  note D = capture_invD [OF assms(1)]
  have held: "holding v' r = holding v r" for r by (simp add: holding_def assms)
  show ?thesis
  proof (rule capture_invI, goal_cases)
    case (2 t r)
    with D(2) [of t r] assms(3) fewer(1) show ?case by fastforce
  next
    case (4 r)
    with D(4) [of r] fewer(2) [of "cancelling r"] show ?case by (simp add: held assms(5))
  next
    case (5 r)
    with D(5) [of r] fewer(2) [of "starting r"] show ?case by (simp add: assms(5))
  next
    case (8 a e b)
    then show ?case using D(8) [of a e b] fewer(1) assms(2) by (metis subsetD)
  next
    case 10
    with D(10) fewer(1) show ?case by auto
  qed (use D(1, 3, 6, 7, 9) assms in \<open>auto intro: order.strict_trans2\<close>)
qed

lemma capture_inv_drop: "capture_inv us v \<Longrightarrow> capture_inv [] v"
  by (rule capture_inv_fewer) (auto simp: all_tasks_def)

lemma in_hand_Inl [simp]: "in_hand (Inl e) = []"
  by simp

lemma quiet_keep_hand: "quiet_step v v' \<Longrightarrow> capture_inv us v \<Longrightarrow> capture_inv us v'"
proof -
  assume q: "quiet_step v v'" and I: "capture_inv us v"
  have "capture_inv [] (v\<lparr>vc_tasks := map (Pair 0) us @ vc_tasks v\<rparr>)"
    by (rule capture_inv_fewer [OF I]) (auto simp: all_tasks_def comp_def)
  moreover have "quiet_step (v\<lparr>vc_tasks := map (Pair 0) us @ vc_tasks v\<rparr>) (v'\<lparr>vc_tasks := map (Pair 0) us @ vc_tasks v'\<rparr>)"
    using q by (auto simp: quiet_step_def)
  ultimately have "capture_inv [] (v'\<lparr>vc_tasks := map (Pair 0) us @ vc_tasks v'\<rparr>)"
    by (rule capture_inv_quiet) simp
  then show ?thesis
    by (rule capture_inv_fewer) (auto simp: all_tasks_def comp_def)
qed

lemma bind_keeps:
  assumes "quiet m" and "capture_inv us v" and "\<And>x v'. capture_inv us v' \<Longrightarrow> keeps (f x) v'"
  shows "keeps (vbind m f) v"
proof -
  obtain v' r where m: "m v = (v', r)" by (cases "m v")
  then have "quiet_step v v'" using assms(1) by (auto simp: along_def) (metis fst_conv)
  then have "capture_inv us v'" using assms(2) by (rule quiet_keep_hand)
  with assms(3) show ?thesis
    by (cases r) (auto simp: wp_def vbind_def m intro: capture_inv_drop)
qed

lemma await_keeps: "capture_inv [t] v \<Longrightarrow> keeps (vret (Await t)) v"
  by (simp add: wp_simps)

lemma keeps_get: "keeps (f (g v)) v \<Longrightarrow> keeps (vbind (vget g) f) v"
  by (simp add: wp_simps)

lemma keeps_fresh: "keeps (f (vc_nextRef v)) (v\<lparr>vc_nextRef := Suc (vc_nextRef v)\<rparr>) \<Longrightarrow> keeps (vbind vfresh f) v"
  by (simp add: wp_simps)

lemma keeps_modify: "keeps k (f v) \<Longrightarrow> keeps (vdo (vmodify f) k) v"
  by (simp add: wp_simps)

lemma keeps_bounded: "keeps k v \<Longrightarrow> capture_inv [] v \<Longrightarrow> keeps (vdo (boundedVoiceId s) k) v"
  by (simp add: boundedVoiceId_def wp_simps)

lemma keeps_call:
  "keeps k (v\<lparr>vc_calls := vc_calls v @ [c]\<rparr>) \<Longrightarrow> capture_inv [] (v\<lparr>vc_calls := vc_calls v @ [c]\<rparr>) \<Longrightarrow>
   keeps (vdo (vcallU P c) k) v"
  by (simp add: vcallU_def wp_simps split: option.split)

lemma keeps_log: "keeps k (v\<lparr>vc_calls := vc_calls v @ [c]\<rparr>) \<Longrightarrow> keeps (vdo (vlog c) k) v"
  by (simp add: vlog_def wp_simps)

lemma keeps_throw: "capture_inv [] v \<Longrightarrow> keeps (vthrow e) v"
  by (simp add: wp_simps)

lemmas keeps_intros = bind_keeps await_keeps quiet_intros

lemma capture_inv_inactive: "capture_inv us v \<Longrightarrow> capture_inv us (v\<lparr>vc_active := None\<rparr>)"
proof -
  assume I: "capture_inv us v"
  note D = capture_invD [OF I]
  show ?thesis
  proof (rule capture_invI, goal_cases)
    case (4 r)
    with D(4) [of r] show ?case by (simp add: holding_def all_tasks_def)
  qed (use D in \<open>auto simp: all_tasks_def\<close>)
qed

lemma beginStart_keeps:
  assumes I: "capture_inv [] v"
  shows "keeps (beginStartCapture P i c) v"
proof -
  have start: "capture_inv [AwaitStart a e] (u\<lparr>vc_nextRef := Suc (vc_nextRef u), vc_active := Some a\<rparr>)"
    if u: "capture_inv [] u" "vc_state u \<noteq> Listening" and a: "ac_ref a = vc_nextRef u" "\<not> ac_captureStarted a" for a e u
  proof -
    note D = capture_invD [OF u(1)]
    have zero: "task_count (starting (vc_nextRef u)) (map snd (vc_tasks u)) = 0"
    proof -
      have "\<not> starting (vc_nextRef u) t" if "t \<in> set (map snd (vc_tasks u))" for t
        using D(2) [of t] that by (cases t) (auto simp: all_tasks_def)
      then show ?thesis by (simp add: task_count_def filter_empty_conv)
    qed
    show ?thesis
    proof (rule capture_invI, goal_cases)
      case (2 t r)
      then show ?case using D(2) [of t r] a by (auto simp: all_tasks_def less_Suc_eq)
    next
      case (4 r)
      show ?case using D(4) [of r] a by (simp add: holding_def all_tasks_def)
    next
      case (5 r)
      show ?case using D(5) [of r] D(3) [of r] zero a by (auto simp: all_tasks_def)
    next
      case (8 x y b)
      with D(2) [of "AwaitStop x y"] a show ?case by (auto simp: all_tasks_def)
    qed (use D(3, 6, 9, 10) a u(2) in \<open>auto simp: all_tasks_def\<close>)
  qed
  have tail: "keeps (vdo (setState P RequestingMicrophone) (vdo (vlog (CaptureStart r c))
      (vret (Await (AwaitStart a e))))) w" if "capture_inv [AwaitStart a e] w" for r a e w
    by (rule bind_keeps [OF _ that]) (auto intro!: quiet_intros bind_keeps await_keeps)
  show ?thesis
  proof (cases "vc_state v = VReady \<or> vc_state v = RecoverableError")
    case True
    have "keeps (vbind vfresh (\<lambda>ref.
        let active = \<lparr>ac_ref = ref, ac_interactionId = i, ac_captureId = c, ac_captureStarted = False\<rparr> in
        vbind (vget vc_lifecycleEpoch) (\<lambda>epoch.
        vdo (vmodify (\<lambda>v. v\<lparr>vc_active := Some active\<rparr>))
        (vdo (setState P RequestingMicrophone)
        (vdo (vlog (CaptureStart ref c)) (vret (Await (AwaitStart active epoch)))))))) v"
      unfolding Let_def
      using start [OF I, of "\<lparr>ac_ref = vc_nextRef v, ac_interactionId = i, ac_captureId = c,
          ac_captureStarted = False\<rparr>"] True
      by (intro keeps_fresh keeps_get keeps_modify tail) auto
    with True I show ?thesis
      unfolding beginStartCapture_def
      by (intro keeps_get) (auto intro!: keeps_bounded)
  next
    case False
    with I show ?thesis
      unfolding beginStartCapture_def by (intro keeps_get) (auto simp: wp_simps)
  qed
qed

lemma beginFinish_keeps:
  assumes I: "capture_inv [] v"
  shows "keeps (beginFinishCapture P) v"
proof (cases "vc_active v")
  case None
  with I show ?thesis
    unfolding beginFinishCapture_def by (intro keeps_get) (simp add: wp_simps)
next
  case (Some a)
  note D = capture_invD [OF I]
  have "capture_inv [AwaitStop a e] v" if "vc_state v = Listening" for e
  proof (rule capture_invI, goal_cases)
    case (2 t r)
    with D(1) [of a] D(2) [of t r] Some show ?case by (auto simp: all_tasks_def)
  next
    case (8 x e b)
    with D(7) [OF that Some] D(8) [of x e b] Some show ?case by (auto simp: all_tasks_def)
  qed (use D in \<open>auto simp: all_tasks_def\<close>)
  then have "keeps (vdo (setState P Processing) (vdo (vlog (CaptureStop (ac_ref a) (ac_captureId a)))
      (vret (Await (AwaitStop a (vc_lifecycleEpoch v)))))) v" if "vc_state v = Listening"
    using that by (auto intro!: bind_keeps [where us = "[AwaitStop a (vc_lifecycleEpoch v)]"] await_keeps quiet_intros)
  with I Some show ?thesis
    unfolding beginFinishCapture_def by (intro keeps_get) (auto simp: wp_simps(1, 2))
qed

lemma settleStart_keeps:
  assumes I: "capture_inv [AwaitStart a e] v"
  shows "keeps (settleStart P a e ans) v"
proof -
  have I0: "capture_inv [] v" by (rule capture_inv_drop [OF I])
  consider (stale) "stale a e v" | (failed) c where "\<not> stale a e v" "ans = Inl c"
    | (started) b where "\<not> stale a e v" "ans = Inr ()" "vc_active v = Some b" "ac_ref b = ac_ref a"
    by (cases ans) (auto simp: stale_def)
  then show ?thesis
  proof cases
    case stale
    then show ?thesis
      using I0 unfolding settleStart_def
      by (intro keeps_get) (auto split: sum.split intro!: calm_keeps [OF _ I0] quiet_intros)
  next
    case failed
    then show ?thesis
      using capture_inv_inactive [OF I0] unfolding settleStart_def
      by (intro keeps_get) (auto intro!: keeps_modify calm_keeps quiet_intros)
  next
    case (started b)
    let ?v = "v\<lparr>vc_active := Some (b\<lparr>ac_captureStarted := True\<rparr>),
        vc_calls := vc_calls v @ [RecordCaptureStarted (ac_ref a) (ac_interactionId a) (ac_captureId a)]\<rparr>"
    note D = capture_invD [OF I]
    have I1: "capture_inv [] ?v"
    proof (rule capture_invI, goal_cases)
      case (3 r)
      with D(1) [of b] D(3) [of r] started show ?case by auto
    next
      case (4 r)
      with D(4) [of r] D(5) [of r] started show ?case by (auto simp: holding_def all_tasks_def split: if_splits)
    next
      case (5 r)
      with D(5) [of r] show ?case by (auto simp: all_tasks_def split: if_splits)
    next
      case (6 r)
      with D(6) [of r] show ?case by simp
    next
      case (8 x e' y)
      then show ?case by auto
    qed (use D(1, 2, 9, 10) started in \<open>auto simp: all_tasks_def\<close>)
    have I2: "capture_inv [] (?v\<lparr>vc_state := Listening\<rparr>)"
    proof (rule capture_invI, goal_cases)
      case (4 r)
      with capture_invD(4) [OF I1, of r] show ?case by (simp add: holding_def all_tasks_def)
    next
      case (5 r)
      with capture_invD(5) [OF I1, of r] show ?case by (simp add: all_tasks_def)
    next
      case (6 r)
      with capture_invD(6) [OF I1, of r] show ?case by simp
    qed (use capture_invD(1-3, 8-10) [OF I1] in \<open>auto simp: all_tasks_def\<close>)
    have I3: "capture_inv [] (v\<lparr>vc_active := Some (b\<lparr>ac_captureStarted := True\<rparr>), vc_state := Listening,
        vc_calls := (vc_calls v @ [RecordCaptureStarted (ac_ref a) (ac_interactionId a) (ac_captureId a)]) @
          [OnState Listening]\<rparr>)"
      by (rule quiet_keep_hand [OF _ I2]) (simp add: quiet_step_def)
    have "keeps (vdo (setState P Listening) (vret (Return VUnit))) ?v"
      unfolding setState_def
      using I3 by (simp add: wp_simps split: option.split)
    with I1 show ?thesis
      unfolding settleStart_def
      by (intro keeps_get) (simp add: started, intro keeps_modify keeps_call, simp_all add: started)
  qed
qed

lemma settleStop_keeps:
  assumes I: "capture_inv [AwaitStop a e] v"
  shows "keeps (settleStop P a e ans) v"
proof -
  have I0: "capture_inv [] v" by (rule capture_inv_drop [OF I])
  show ?thesis
  proof (cases "stale a e v")
    case True
    then show ?thesis
      unfolding settleStop_def by (intro keeps_get) (auto intro!: calm_keeps [OF _ I0] quiet_intros)
  next
    case False
    note D = capture_invD [OF I]
    obtain b where b: "vc_active v = Some b" "ac_ref b = ac_ref a" "ac_captureStarted b"
      using False D(8) [of a e] by (auto simp: stale_def all_tasks_def)
    let ?e = "RecordCaptureEnded (ac_ref a) (ac_interactionId a) (ac_captureId a)"
    have ended: "capture_inv [] (v\<lparr>vc_active := None, vc_calls := vc_calls v @ [?e d oc]\<rparr>)" for d oc
    proof (rule capture_invI, goal_cases)
      case (4 r)
      with D(4) [of r] b show ?case by (auto simp: holding_def all_tasks_def split: if_splits)
    next
      case (5 r)
      with D(5) [of r] show ?case by (simp add: all_tasks_def)
    next
      case (6 r)
      with D(6) [of r] show ?case by auto
    qed (use D(1, 2, 3, 9, 10) in \<open>auto simp: all_tasks_def\<close>)
    have sent: "capture_inv [] (v\<lparr>vc_active := None, vc_calls := vc_calls v @ [?e d CaptureSubmitted],
        vc_nextRef := Suc (vc_nextRef v), vc_turnAbort := t,
        vc_calls := (vc_calls v @ [?e d CaptureSubmitted]) @ [Transcribe (ac_ref a) i]\<rparr>)" for d t i
    proof (rule capture_invI, goal_cases)
      case (2 x r)
      with D(2) [of x r] show ?case by (auto simp: all_tasks_def)
    next
      case (4 r)
      with D(4) [of r] b show ?case by (auto simp: holding_def all_tasks_def split: if_splits)
    next
      case (5 r)
      with D(5) [of r] show ?case by (simp add: all_tasks_def)
    next
      case (6 r)
      with D(6) [of r] show ?case by auto
    qed (use D(1, 3, 9, 10) in \<open>auto simp: all_tasks_def\<close>)
    show ?thesis
    proof (cases ans)
      case (Inl c)
      have "keeps (vbind (vcall P (RecordTranscriptionFailure (ac_interactionId a) (js ''capture-failed''))) (\<lambda>failed.
             vdo (vcallU P (OnTurn failed))
             (vdo (setState P RecoverableError) (vret (Return (VTurn failed)))))) w" if "capture_inv [] w" for w
        by (rule calm_keeps [OF _ that]) (intro quiet_intros; simp)
      with False ended [of 0 CaptureFailed] Inl show ?thesis
        unfolding settleStop_def
        by (intro keeps_get) (simp, intro keeps_modify keeps_call, simp_all)
    next
      case (Inr d)
      have "keeps (vret (Await (AwaitTranscript a t))) w" if "capture_inv [] w" for t w
        using that by (intro calm_keeps [where ts = "[]"] quiet_intros) simp
      with False ended sent Inr show ?thesis
        unfolding settleStop_def
        by (intro keeps_get) (simp, intro keeps_modify keeps_call keeps_fresh keeps_log, simp_all)
    qed
  qed
qed

lemma beginStop_keeps:
  assumes I: "capture_inv [] v"
  shows "keeps (beginStop P ctx) v"
proof -
  let ?u = "v\<lparr>vc_lifecycleEpoch := vc_lifecycleEpoch v + 1, vc_pausedPlaybackState := None\<rparr>"
  have U: "capture_inv [] ?u"
    by (rule capture_inv_quiet [OF I]) (auto intro!: quiet_step_def [THEN iffD2])
  have rest: "keeps (case a of None \<Rightarrow> stopPlayback ctx
       | Some active \<Rightarrow> vdo (vlog (CaptureCancel (ac_ref active) (ac_captureId active)))
             (vret (Await (AwaitCancel active ctx)))) (w\<lparr>vc_active := None\<rparr>)"
    if W: "capture_inv [] w" "vc_active w = a" for a w
  proof (cases a)
    case None
    then show ?thesis
      by (auto intro!: calm_keeps [OF _ capture_inv_inactive [OF W(1)]] quiet_intros)
  next
    case (Some x)
    note D = capture_invD [OF W(1)]
    have "capture_inv [AwaitCancel x ctx] (w\<lparr>vc_active := None\<rparr>)"
    proof (rule capture_invI, goal_cases)
      case (2 t r)
      with D(1) [of x] D(2) [of t r] W(2) Some show ?case by (auto simp: all_tasks_def)
    next
      case (4 r)
      with D(4) [of r] W(2) Some show ?case by (auto simp: holding_def all_tasks_def split: if_splits)
    next
      case (5 r)
      with D(5) [of r] show ?case by (simp add: all_tasks_def)
    next
      case (6 r)
      with D(6) [of r] show ?case by simp
    qed (use D(3, 9, 10) in \<open>auto simp: all_tasks_def\<close>)
    then show ?thesis
      by (auto simp: Some intro!: bind_keeps await_keeps quiet_intros)
  qed
  have ab: "capture_inv [] (fst (abortController c w)) \<and> vc_active (fst (abortController c w)) = vc_active w \<and>
      snd (abortController c w) = Inr ()" if "capture_inv [] w" for c w
    using that capture_inv_quiet [OF that, of "fst (abortController c w)" "[]"] quiet_abort [of c]
    by (auto simp: along_def quiet_step_def) (simp add: abortController_def vmodify_def)
  have step: "keeps (vdo (abortController c) k) w" if "keeps k (fst (abortController c w))" for c k w
    using that by (simp add: abortController_def wp_simps) (simp add: vmodify_def)
  show ?thesis
    unfolding beginStop_def
    using ab [OF U] ab rest
    by (intro keeps_modify keeps_get) (auto intro!: step keeps_modify rest)
qed

lemma settleCancel_keeps:
  assumes I: "capture_inv [AwaitCancel a ctx] v"
  shows "keeps (settleCancel P a ctx ans) v"
proof -
  have tail: "keeps (vdo (whenV (ac_captureStarted a) (vcallU P (RecordCaptureEnded (ac_ref a)
      (ac_interactionId a) (ac_captureId a) 0 oc))) (stopPlayback ctx)) w"
    if W: "capture_inv [AwaitCancel a ctx] w" for oc w
  proof (cases "ac_captureStarted a")
    case True
    note D = capture_invD [OF W]
    have "capture_inv [] (w\<lparr>vc_calls := vc_calls w @ [RecordCaptureEnded (ac_ref a)
      (ac_interactionId a) (ac_captureId a) 0 oc]\<rparr>)"
    proof (rule capture_invI, goal_cases)
      case (4 r)
      with D(4) [of r] True show ?case by (auto simp: holding_def all_tasks_def split: if_splits)
    next
      case (5 r)
      with D(5) [of r] show ?case by (simp add: all_tasks_def)
    next
      case (6 r)
      with D(6) [of r] show ?case by auto
    qed (use D(1, 2, 3, 7, 8, 9, 10) in \<open>auto simp: all_tasks_def\<close>)
    moreover have "keeps (stopPlayback ctx) u" if "capture_inv [] u" for u
      by (rule calm_keeps [OF _ that]) (intro quiet_intros)
    ultimately show ?thesis
      using True by (simp add: whenV_def) (intro keeps_call; simp)
  next
    case False
    then show ?thesis
      using capture_inv_drop [OF W]
      by (simp add: whenV_def wp_simps) (auto intro!: calm_keeps [where ts = "[]"] quiet_intros)
  qed
  show ?thesis
    unfolding settleCancel_def
    by (rule bind_keeps [OF _ I]) (auto intro!: quiet_intros tail split: sum.split)
qed

lemma beginPause_keeps:
  assumes I: "capture_inv [] v"
  shows "keeps (beginPause P) v"
proof -
  have "capture_inv [] (v\<lparr>vc_pausedPlaybackState := Some s\<rparr>)" if "s = GuideSpeaking \<or> s = NarratorSpeaking" for s
    by (rule capture_invI) (use capture_invD [OF I] that in \<open>auto simp: holding_def all_tasks_def\<close>)
  moreover have "keeps (vdo (vlog PlaybackPause) (vret (Await AwaitPause))) u" if "capture_inv [] u" for u
    by (rule calm_keeps [OF _ that]) (intro quiet_intros; simp)
  ultimately show ?thesis
    unfolding beginPause_def
    using I by (intro keeps_get) (auto simp: wp_simps(1) intro!: keeps_modify beginStop_keeps)
qed

lemma beginResume_keeps:
  assumes I: "capture_inv [] v"
  shows "keeps (beginResume P) v"
proof -
  have resume: "keeps (vdo (vlog PlaybackResume) (vret (Await (AwaitResume s)))) v" if "s \<noteq> Listening" for s
  proof -
    have "capture_inv [AwaitResume s] v"
      by (rule capture_invI) (use capture_invD [OF I] that in \<open>auto simp: all_tasks_def\<close>)
    then show ?thesis by (auto intro!: bind_keeps await_keeps quiet_intros)
  qed
  have "vc_pausedPlaybackState v \<noteq> Some Listening" by (rule capture_invD(9) [OF I])
  moreover have "keeps (vdo (vcallU P (RecordResumed sessionControl)) (vdo (setState P VReady) (vret (Return VUnit)))) v"
    by (rule calm_keeps [OF _ I]) (intro quiet_intros; simp)
  ultimately show ?thesis
    unfolding beginResume_def
    using I resume by (intro keeps_get) (auto simp: wp_simps(1) split: option.split)
qed

lemma settleResume_keeps:
  assumes I: "capture_inv [AwaitResume s] v"
  shows "keeps (settleResume P s ans) v"
proof -
  have "s \<noteq> Listening" using capture_invD(10) [OF I] by (auto simp: all_tasks_def)
  then have "calm (settleResume P s ans)"
    unfolding settleResume_def
    by (cases ans) (auto intro!: quiet_intros simp: quiet_step_def)
  then show ?thesis by (rule calm_keeps [OF _ I])
qed

interpretation capture_check: voice_invariant P capture_inv for P
proof (unfold_locales, goal_cases)
  case (1 t v n)
  then show ?case by (rule capture_inv_fewer) (auto simp: all_tasks_def)
next
  case (2 v n t)
  show ?case
  proof (rule capture_inv_fewer [OF 2(1)])
    show "set (all_tasks [t] (v\<lparr>vc_tasks := AList.delete n (vc_tasks v)\<rparr>)) \<subseteq> set (all_tasks [] v)"
      using map_of_SomeD [OF 2(2)] by (force simp: all_tasks_def AList.delete_eq)
    show "task_count p (all_tasks [t] (v\<lparr>vc_tasks := AList.delete n (vc_tasks v)\<rparr>)) \<le> task_count p (all_tasks [] v)" for p
      using task_count_held [OF 2(2), of p] by (simp add: all_tasks_def)
  qed simp_all
next
  case (3 v s)
  then show ?case by (rule capture_inv_fewer) (auto simp: all_tasks_def)
next
  case (4 v)
  then show ?case by (rule capture_inv_fewer) (auto simp: all_tasks_def)
next
  case (5 v m)
  then show ?case
    by (cases m) (auto simp: begin_voice_def intro: beginStart_keeps beginFinish_keeps beginStop_keeps
        beginPause_keeps beginResume_keeps calm_keeps [OF _ 5] quiet_intros)
next
  case (6 t v a k)
  then show ?case
    by (cases t) (auto simp: settle_voice_def intro: settleStart_keeps settleStop_keeps settleCancel_keeps
        settleResume_keeps calm_keeps [OF _ 6(1)] quiet_intros split: if_splits)
next
  case (7 v c q)
  have "quiet_step v (fst (onStarted P c q v))" using quiet_onStarted by (auto simp: along_def)
  with 7(1) show ?case by (auto simp: wp_def intro: quiet_keep_hand split: prod.split)
next
  case (8 v p)
  then show ?case by (rule capture_inv_fewer) (auto simp: all_tasks_def)
next
  case (9 v)
  then show ?case by (rule quiet_keep_hand [rotated]) (simp add: quiet_step_def)
next
  case 10
  show ?case by (rule capture_invI) (auto simp: newVoiceAudioController_def all_tasks_def holding_def)
qed

section \<open>A capture that was stopped\<close>

text \<open>No capture older than \<open>N\<close> is active, and what was transcribed of them is \<open>K\<close>.\<close>

definition silent :: "nat \<Rightarrow> (nat \<Rightarrow> nat) \<Rightarrow> voice \<Rightarrow> bool" where
  "silent N K v \<longleftrightarrow> N \<le> vc_nextRef v \<and> (\<forall>a. vc_active v = Some a \<longrightarrow> N \<le> ac_ref a) \<and>
     (\<forall>r<N. call_count (transcribes r) (vc_calls v) = K r)"

lemma silent_quiet: "quiet_step v v' \<Longrightarrow> silent N K v \<Longrightarrow> silent N K v'"
  by (auto simp: quiet_step_def silent_def plain_calls)

abbreviation hushed :: "nat \<Rightarrow> (nat \<Rightarrow> nat) \<Rightarrow> voice_progress vm \<Rightarrow> voice \<Rightarrow> bool" where
  "hushed N K m v \<equiv> wp m (\<lambda>r. silent N K) v"

lemma calm_hushed: "calm m \<Longrightarrow> silent N K v \<Longrightarrow> hushed N K m v"
  by (auto simp: wp_def calm_def along_def split: prod.split) (metis fst_conv silent_quiet)

lemma silent_fields [simp]:
  "silent N K (v\<lparr>vc_state := s\<rparr>) = silent N K v" "silent N K (v\<lparr>vc_turnAbort := t\<rparr>) = silent N K v"
  "silent N K (v\<lparr>vc_pausedPlaybackState := p\<rparr>) = silent N K v"
  "silent N K (v\<lparr>vc_aborted := u\<rparr>) = silent N K v" "silent N K (v\<lparr>vc_lifecycleEpoch := n\<rparr>) = silent N K v"
  "silent N K (v\<lparr>vc_tasks := w\<rparr>) = silent N K v" "silent N K (v\<lparr>vc_settled := x\<rparr>) = silent N K v"
  "silent N K (v\<lparr>vc_prepared := y\<rparr>) = silent N K v"
  "silent N K v \<Longrightarrow> silent N K (v\<lparr>vc_active := None\<rparr>)"
  "silent N K v \<Longrightarrow> silent N K (v\<lparr>vc_nextRef := Suc (vc_nextRef v)\<rparr>)"
  by (auto simp: silent_def)

lemma begin_hushed:
  assumes S: "silent N K v"
  shows "hushed N K (begin_voice P m) v"
proof (cases m)
  case (StartCapture i c)
  with S show ?thesis
    by (auto simp: begin_voice_def segment_defs wp_simps silent_def Let_def split: option.split)
next
  case FinishCapture
  with S show ?thesis
    by (auto simp: begin_voice_def segment_defs wp_simps silent_def split: option.split)
next
  case StopAudio
  with S show ?thesis
    by (auto simp: begin_voice_def segment_defs wp_simps silent_def split: option.split)
next
  case PauseAudio
  with S show ?thesis
    by (auto simp: begin_voice_def segment_defs wp_simps silent_def split: option.split)
next
  case ResumeAudio
  with S show ?thesis
    by (auto simp: begin_voice_def segment_defs wp_simps silent_def split: option.split)
qed (auto simp: begin_voice_def intro!: calm_hushed S quiet_intros)

lemma silent_call: "silent N K v \<Longrightarrow> (\<And>r. r < N \<Longrightarrow> \<not> transcribes r c) \<Longrightarrow> silent N K (v\<lparr>vc_calls := vc_calls v @ [c]\<rparr>)"
  by (simp add: silent_def)

lemma hushed_get: "hushed N K (f (g v)) v \<Longrightarrow> hushed N K (vbind (vget g) f) v"
  by (simp add: wp_simps)

lemma hushed_fresh: "hushed N K (f (vc_nextRef v)) (v\<lparr>vc_nextRef := Suc (vc_nextRef v)\<rparr>) \<Longrightarrow>
    hushed N K (vbind vfresh f) v"
  by (simp add: wp_simps)

lemma hushed_modify: "hushed N K k (f v) \<Longrightarrow> hushed N K (vdo (vmodify f) k) v"
  by (simp add: wp_simps)

lemma hushed_call:
  "hushed N K k (v\<lparr>vc_calls := vc_calls v @ [c]\<rparr>) \<Longrightarrow> silent N K (v\<lparr>vc_calls := vc_calls v @ [c]\<rparr>) \<Longrightarrow>
   hushed N K (vdo (vcallU P c) k) v"
  by (simp add: vcallU_def wp_simps split: option.split)

lemma hushed_log: "hushed N K k (v\<lparr>vc_calls := vc_calls v @ [c]\<rparr>) \<Longrightarrow> hushed N K (vdo (vlog c) k) v"
  by (simp add: vlog_def wp_simps)

lemma settleStop_hushed:
  assumes S: "silent N K v"
  shows "hushed N K (settleStop P x e ans) v"
proof (cases "stale x e v")
  case True
  then show ?thesis
    unfolding settleStop_def by (intro hushed_get) (auto intro!: calm_hushed S quiet_intros)
next
  case False
  then have ref: "N \<le> ac_ref x" using S by (auto simp: stale_def silent_def)
  have E: "silent N K (v\<lparr>vc_active := None, vc_calls := vc_calls v @ [RecordCaptureEnded n i c d oc]\<rparr>)" for n i c d oc
    using silent_call [of N K "v\<lparr>vc_active := None\<rparr>"] S by simp
  show ?thesis
  proof (cases ans)
    case (Inl c)
    have "hushed N K (vbind (vcall P (RecordTranscriptionFailure (ac_interactionId x) (js ''capture-failed''))) (\<lambda>failed.
             vdo (vcallU P (OnTurn failed))
             (vdo (setState P RecoverableError) (vret (Return (VTurn failed)))))) w" if "silent N K w" for w
      by (rule calm_hushed [OF _ that]) (intro quiet_intros; simp)
    with False E Inl show ?thesis
      unfolding settleStop_def by (intro hushed_get) (simp, intro hushed_modify hushed_call, simp_all)
  next
    case (Inr d)
    have T: "silent N K (v\<lparr>vc_active := None, vc_calls := vc_calls v @ [RecordCaptureEnded n i c d oc],
        vc_nextRef := Suc (vc_nextRef v), vc_turnAbort := t,
        vc_calls := vc_calls v @ [RecordCaptureEnded n i c d oc, Transcribe (ac_ref x) j]\<rparr>)" for n i c oc t j
      using S ref by (simp add: silent_def)
    have "hushed N K (vret (Await (AwaitTranscript x t))) w" if "silent N K w" for t w
      using that by (simp add: wp_simps)
    with False E T Inr show ?thesis
      unfolding settleStop_def
      by (intro hushed_get) (simp, intro hushed_modify hushed_call hushed_fresh hushed_log, simp_all)
  qed
qed

lemma settle_hushed:
  assumes S: "silent N K v" and k: "settle_voice P t a = Some k"
  shows "hushed N K k v"
proof (cases t)
  case (AwaitStart x e)
  with S k show ?thesis
    by (auto simp: settle_voice_def segment_defs wp_simps silent_def split: option.split sum.split)
next
  case (AwaitStop x e)
  with S k show ?thesis by (auto simp: settle_voice_def intro: settleStop_hushed)
next
  case (AwaitCancel x ctx)
  with S k show ?thesis
    by (auto simp: settle_voice_def segment_defs wp_simps silent_def split: option.split sum.split)
next
  case (AwaitResume s)
  with S k show ?thesis
    by (auto simp: settle_voice_def segment_defs wp_simps silent_def split: option.split sum.split)
qed (use k in \<open>auto simp: settle_voice_def intro!: calm_hushed S quiet_intros split: if_splits\<close>)

interpretation silent_check: voice_kept P "\<lambda>ts. silent N K" for P N K
proof (unfold_locales, goal_cases)
  case (7 v c q)
  have "quiet_step v (fst (onStarted P c q v))" using quiet_onStarted by (auto simp: along_def)
  with 7(1) show ?case by (auto simp: wp_def intro: silent_quiet split: prod.split)
next
  case (9 v)
  then show ?case by (simp add: silent_def)
qed (simp_all add: begin_hushed settle_hushed)

lemma stop_silent:
  "silent (vc_nextRef v) (\<lambda>r. call_count (transcribes r) (vc_calls v)) (voice_step P v (CallVoice StopAudio))"
  by (auto simp: voice_step_def begin_voice_def run_voice_def silent_def beginStop_def abortController_def
      stopPlayback_def vlog_def vbind_def vmodify_def vget_def vret_def split: option.split)

section \<open>A capture nobody holds\<close>

definition abandoned :: "nat \<Rightarrow> nat \<Rightarrow> voice_task list \<Rightarrow> voice \<Rightarrow> bool" where
  "abandoned r n ts v \<longleftrightarrow> r < vc_nextRef v \<and> (\<forall>a. vc_active v = Some a \<longrightarrow> ac_ref a \<noteq> r) \<and>
     (\<forall>t \<in> set (all_tasks ts v). task_ref t \<noteq> Some r) \<and> call_count (ends_capture r) (vc_calls v) = n"

lemma abandoned_quiet:
  "quiet_step v v' \<Longrightarrow> \<forall>t \<in> set ts. plain_task t \<Longrightarrow> abandoned r n us v \<Longrightarrow> abandoned r n ts v'"
  by (auto simp: quiet_step_def abandoned_def plain_calls all_tasks_def)

abbreviation abandons :: "nat \<Rightarrow> nat \<Rightarrow> voice_progress vm \<Rightarrow> voice \<Rightarrow> bool" where
  "abandons r n m v \<equiv> wp m (\<lambda>x v'. abandoned r n (in_hand x) v') v"

lemma calm_abandons: "calm m \<Longrightarrow> abandoned r n us v \<Longrightarrow> abandons r n m v"
proof -
  assume c: "calm m" and A: "abandoned r n us v"
  obtain v' x where m: "m v = (v', x)" by (cases "m v")
  have "quiet_step v v'" using alongD [OF calm_quiet [OF c] m] .
  moreover have "\<forall>t \<in> set (in_hand x). plain_task t"
    using c m by (cases x rule: in_hand.cases) (auto simp: calm_def, metis snd_conv)
  ultimately show ?thesis using abandoned_quiet A by (fastforce simp: wp_def m)
qed

lemma begin_abandons:
  assumes A: "abandoned r n [] v"
  shows "abandons r n (begin_voice P m) v"
proof (cases m)
  case (StartCapture i c)
  with A show ?thesis
    by (auto simp: begin_voice_def segment_defs wp_simps abandoned_def all_tasks_def Let_def split: option.split)
next
  case FinishCapture
  with A show ?thesis
    by (auto simp: begin_voice_def segment_defs wp_simps abandoned_def all_tasks_def split: option.split)
next
  case StopAudio
  with A show ?thesis
    by (auto simp: begin_voice_def segment_defs wp_simps abandoned_def all_tasks_def split: option.split)
next
  case PauseAudio
  with A show ?thesis
    by (auto simp: begin_voice_def segment_defs wp_simps abandoned_def all_tasks_def split: option.split)
next
  case ResumeAudio
  with A show ?thesis
    by (auto simp: begin_voice_def segment_defs wp_simps abandoned_def all_tasks_def split: option.split)
qed (auto simp: begin_voice_def intro!: calm_abandons [OF _ A] quiet_intros)

lemma abandons_bind:
  assumes "quiet m" "abandoned r n us v" "\<And>x v'. abandoned r n [] v' \<Longrightarrow> abandons r n (f x) v'"
  shows "abandons r n (vbind m f) v"
proof -
  obtain v' x where m: "m v = (v', x)" by (cases "m v")
  have "abandoned r n [] v'" by (rule abandoned_quiet [OF alongD [OF assms(1) m] _ assms(2)]) simp
  with assms(3) show ?thesis by (cases x) (auto simp: wp_def vbind_def m)
qed

lemma abandons_end:
  assumes "abandoned r n us v" "ac_ref a \<noteq> r" "\<And>v'. abandoned r n [] v' \<Longrightarrow> abandons r n k v'"
  shows "abandons r n (vdo (vcallU P (RecordCaptureEnded (ac_ref a) i c d oc)) k) v"
proof -
  have "abandoned r n [] (v\<lparr>vc_calls := vc_calls v @ [RecordCaptureEnded (ac_ref a) i c d oc]\<rparr>)"
    using assms(1, 2) by (auto simp: abandoned_def all_tasks_def)
  with assms(3) show ?thesis by (simp add: vcallU_def wp_simps split: option.split)
qed

lemma settleStop_abandons:
  assumes A: "abandoned r n [AwaitStop a e] v"
  shows "abandons r n (settleStop P a e ans) v"
proof -
  have ref: "ac_ref a \<noteq> r" using A by (auto simp: abandoned_def all_tasks_def)
  have A': "abandoned r n [] (v\<lparr>vc_active := None\<rparr>)" using A by (auto simp: abandoned_def all_tasks_def)
  have failed: "abandons r n (vbind (vcall P (RecordTranscriptionFailure i c)) (\<lambda>failed.
      vdo (vcallU P (OnTurn failed)) (vdo (setState P RecoverableError) (vret (Return (VTurn failed)))))) w"
    if "abandoned r n [] w" for i c w
    by (rule calm_abandons [OF _ that]) (intro quiet_intros; simp)
  have sent: "abandons r n (vbind vfresh (\<lambda>t. vdo (vmodify (\<lambda>v. v\<lparr>vc_turnAbort := Some t\<rparr>))
      (vdo (vlog (Transcribe (ac_ref a) i)) (vret (Await (AwaitTranscript a t)))))) w" if "abandoned r n [] w" for i w
    using that by (simp add: wp_simps vlog_def abandoned_def all_tasks_def)
  show ?thesis
  proof (cases "stale a e v")
    case True
    then show ?thesis
      unfolding settleStop_def vm_bind vm_get by (auto intro: calm_abandons [OF _ A] quiet_intros)
  next
    case False
    then have "settleStop P a e ans v = vdo (vmodify (\<lambda>v. v\<lparr>vc_active := None\<rparr>)) (case ans of
        Inl _ \<Rightarrow> vdo (vcallU P (RecordCaptureEnded (ac_ref a) (ac_interactionId a) (ac_captureId a) 0 CaptureFailed))
            (vbind (vcall P (RecordTranscriptionFailure (ac_interactionId a) (js ''capture-failed''))) (\<lambda>failed.
             vdo (vcallU P (OnTurn failed)) (vdo (setState P RecoverableError) (vret (Return (VTurn failed))))))
      | Inr d \<Rightarrow> vdo (vcallU P (RecordCaptureEnded (ac_ref a) (ac_interactionId a) (ac_captureId a) d CaptureSubmitted))
            (vbind vfresh (\<lambda>t. vdo (vmodify (\<lambda>v. v\<lparr>vc_turnAbort := Some t\<rparr>))
             (vdo (vlog (Transcribe (ac_ref a) (ac_interactionId a))) (vret (Await (AwaitTranscript a t))))))) v"
      by (simp add: settleStop_def vbind_def vget_def split: sum.split)
    then show ?thesis
      by (rule vm_same, cases ans) (simp_all add: vm_modify_bind abandons_end [OF A' ref] failed sent)
  qed
qed

lemma settleStart_abandons:
  assumes A: "abandoned r n [AwaitStart a e] v"
  shows "abandons r n (settleStart P a e ans) v"
  using A by (auto simp: settleStart_def segment_defs wp_simps abandoned_def all_tasks_def
      split: option.split sum.split)

lemma settleCancel_abandons:
  assumes A: "abandoned r n [AwaitCancel a ctx] v"
  shows "abandons r n (settleCancel P a ctx ans) v"
proof -
  have ref: "ac_ref a \<noteq> r" using A by (auto simp: abandoned_def all_tasks_def)
  have rest: "abandons r n (stopPlayback ctx) w" if "abandoned r n [] w" for w
    by (rule calm_abandons [OF _ that]) (intro quiet_intros)
  have tail: "abandons r n (vdo (whenV (ac_captureStarted a) (vcallU P (RecordCaptureEnded (ac_ref a)
      (ac_interactionId a) (ac_captureId a) 0 oc))) (stopPlayback ctx)) w" if "abandoned r n [] w" for oc w
    using abandons_end [OF that ref rest] rest [OF that]
    by (cases "ac_captureStarted a") (simp_all add: whenV_def vm_bind vm_ret)
  show ?thesis
    unfolding settleCancel_def
    by (rule abandons_bind [OF _ A]) (auto intro!: quiet_intros tail split: sum.split)
qed

lemma settle_abandons:
  assumes A: "abandoned r n [t] v" and k: "settle_voice P t ans = Some k"
  shows "abandons r n k v"
proof (cases t)
  case (AwaitResume s)
  with A k show ?thesis
    by (auto simp: settle_voice_def segment_defs wp_simps abandoned_def all_tasks_def split: option.split sum.split)
qed (use A k in \<open>auto simp: settle_voice_def intro: settleStart_abandons settleStop_abandons settleCancel_abandons
    calm_abandons [OF _ A] quiet_intros split: if_splits\<close>)

interpretation abandoned_check: voice_kept P "abandoned r n" for P r n
proof (unfold_locales, goal_cases)
  case (2 v k t)
  then show ?case using map_of_SomeD [OF 2(2)] by (force simp: abandoned_def all_tasks_def AList.delete_eq)
next
  case (7 v c q)
  have "quiet_step v (fst (onStarted P c q v))" using quiet_onStarted by (auto simp: along_def)
  with 7(1) show ?case by (auto simp: wp_def intro: abandoned_quiet split: prod.split)
next
  case (5 v m)
  then show ?case by (rule begin_abandons)
next
  case (6 t v a k)
  then show ?case by (rule settle_abandons)
qed (auto simp: abandoned_def all_tasks_def)

end
