(* ===== verification/Voice_Playback.thy ===== *)
theory Voice_Playback
  imports Voice_Facts
begin

text \<open>
  Playback of the voice controller: under ports that do not throw, the start and the end of every
  playback are recorded at most once, an end only for a playback that was asked for, and a
  completed one only when its start was recorded.
\<close>

section \<open>What is counted\<close>

fun asks_play :: "nat \<Rightarrow> voice_call \<Rightarrow> bool" where
  "asks_play c (PlaybackPlay q n) = (n = c)"
| "asks_play c _ = False"

fun starts_play :: "nat \<Rightarrow> voice_call \<Rightarrow> bool" where
  "starts_play c (RecordPlaybackStarted n q) = (n = c)"
| "starts_play c _ = False"

fun ends_play :: "nat \<Rightarrow> voice_call \<Rightarrow> bool" where
  "ends_play c (RecordPlaybackEnded n q oc f) = (n = c)"
| "ends_play c _ = False"

fun completes_play :: "nat \<Rightarrow> voice_call \<Rightarrow> bool" where
  "completes_play c (RecordPlaybackEnded n q oc f) = (n = c \<and> oc = PlayComplete)"
| "completes_play c _ = False"

fun playing :: "nat \<Rightarrow> voice_task \<Rightarrow> bool" where
  "playing c (AwaitPlay n q ctx) = (n = c)"
| "playing c _ = False"

fun play_call :: "voice_call \<Rightarrow> bool" where
  "play_call (PlaybackPlay q n) = True"
| "play_call (RecordPlaybackStarted n q) = True"
| "play_call (RecordPlaybackEnded n q oc f) = True"
| "play_call _ = False"

lemma plain_play_calls:
  assumes "list_all (\<lambda>c. \<not> play_call c) cs"
  shows "call_count (asks_play r) cs = 0" "call_count (starts_play r) cs = 0"
    "call_count (ends_play r) cs = 0" "call_count (completes_play r) cs = 0"
proof -
  have "\<not> asks_play r c \<and> \<not> starts_play r c \<and> \<not> ends_play r c \<and> \<not> completes_play r c" if "\<not> play_call c" for c
    using that by (cases c) simp_all
  with assms show "call_count (asks_play r) cs = 0" "call_count (starts_play r) cs = 0"
    "call_count (ends_play r) cs = 0" "call_count (completes_play r) cs = 0"
    by (induction cs) simp_all
qed

lemma completes_ends: "call_count (completes_play c) cs \<le> call_count (ends_play c) cs"
proof (induction cs)
  case (Cons d cs)
  then show ?case by (cases d) auto
qed simp

section \<open>Segments that leave playback alone\<close>

definition play_step :: "voice \<Rightarrow> voice \<Rightarrow> bool" where
  "play_step v v' \<longleftrightarrow>
     vc_nextRef v \<le> vc_nextRef v' \<and> vc_tasks v' = vc_tasks v \<and> vc_lifecycles v' = vc_lifecycles v \<and>
     vc_started v' = vc_started v \<and>
     (\<exists>cs. vc_calls v' = vc_calls v @ cs \<and> list_all (\<lambda>c. \<not> play_call c) cs)"

lemma play_step_refl: "play_step v v"
  by (simp add: play_step_def)

lemma play_step_trans: "play_step u v \<Longrightarrow> play_step v w \<Longrightarrow> play_step u w"
  by (fastforce simp: play_step_def)

interpretation play_order: effect_order play_step
  by unfold_locales (rule play_step_refl, rule play_step_trans)

abbreviation aside :: "'a vm \<Rightarrow> bool" where "aside \<equiv> along play_step"

named_theorems play_intros \<open>segments that keep the record of playback\<close>

lemma aside_fresh [play_intros]: "aside vfresh"
  by (simp add: along_def vfresh_def play_step_def)

lemma aside_call [play_intros]: "\<not> play_call c \<Longrightarrow> aside (vcall P c)"
  "\<not> play_call c \<Longrightarrow> aside (vcallU P c)" "\<not> play_call c \<Longrightarrow> aside (vlog c)"
  by (rule play_order.along_call play_order.along_callU play_order.along_log; simp add: play_step_def)+

lemmas aside_plain [play_intros] = play_order.along_plain play_order.along_modify play_order.along_finally

lemma aside_setState [play_intros]: "aside (setState P s)"
  unfolding setState_def by (intro play_intros) (simp_all add: play_step_def)

lemma aside_take [play_intros]: "aside (takePrepared i)"
  by (simp add: along_def takePrepared_def play_step_def)

lemma aside_abort [play_intros]: "aside (abortController c)"
  unfolding abortController_def
  by (rule play_order.along_modify) (simp add: play_step_def split: option.split)

lemma aside_clear [play_intros]: "play_step v (clearPlayback c v)" "play_step v (clearTurnAbort v)"
  by (simp_all add: play_step_def clearPlayback_def clearTurnAbort_def)

lemma aside_fields [play_intros]:
  "play_step v (v\<lparr>vc_turnAbort := b\<rparr>)" "play_step v (v\<lparr>vc_playbackAbort := b\<rparr>)"
  "play_step v (v\<lparr>vc_active := a\<rparr>)" "play_step v (v\<lparr>vc_pausedPlaybackState := p\<rparr>)"
  "play_step v (v\<lparr>vc_lifecycleEpoch := n, vc_pausedPlaybackState := p\<rparr>)"
  by (simp_all add: play_step_def)

lemma aside_voiceTurnFailed [play_intros]: "aside (voiceTurnFailed P i c code)"
  unfolding voiceTurnFailed_def by (auto intro!: play_intros)

section \<open>Playbacks are recorded once\<close>

definition play_inv :: "voice_task list \<Rightarrow> voice \<Rightarrow> bool" where
  "play_inv ts v \<longleftrightarrow>
     (\<forall>(c, q) \<in> set (vc_lifecycles v). c < vc_nextRef v) \<and>
     (\<forall>c. 0 < task_count (playing c) (all_tasks ts v) \<longrightarrow> c < vc_nextRef v) \<and>
     (\<forall>c. vc_nextRef v \<le> c \<longrightarrow> call_count (asks_play c) (vc_calls v) = 0 \<and> c \<notin> set (vc_started v)) \<and>
     (\<forall>c. task_count (playing c) (all_tasks ts v) + call_count (ends_play c) (vc_calls v)
        \<le> call_count (asks_play c) (vc_calls v)) \<and>
     (\<forall>c. call_count (asks_play c) (vc_calls v) \<le> 1) \<and>
     (\<forall>c. call_count (starts_play c) (vc_calls v) = (if c \<in> set (vc_started v) then 1 else 0)) \<and>
     (\<forall>c. 0 < call_count (completes_play c) (vc_calls v) \<longrightarrow> c \<in> set (vc_started v))"

lemma play_invD:
  assumes "play_inv ts v"
  shows "(c, q) \<in> set (vc_lifecycles v) \<Longrightarrow> c < vc_nextRef v"
    and "0 < task_count (playing c) (all_tasks ts v) \<Longrightarrow> c < vc_nextRef v"
    and "vc_nextRef v \<le> c \<Longrightarrow> call_count (asks_play c) (vc_calls v) = 0 \<and> c \<notin> set (vc_started v)"
    and "task_count (playing c) (all_tasks ts v) + call_count (ends_play c) (vc_calls v)
        \<le> call_count (asks_play c) (vc_calls v)"
    and "call_count (asks_play c) (vc_calls v) \<le> 1"
    and "call_count (starts_play c) (vc_calls v) = (if c \<in> set (vc_started v) then 1 else 0)"
    and "0 < call_count (completes_play c) (vc_calls v) \<Longrightarrow> c \<in> set (vc_started v)"
  using assms unfolding play_inv_def by blast+

lemma play_invI:
  assumes "\<And>c q. (c, q) \<in> set (vc_lifecycles v) \<Longrightarrow> c < vc_nextRef v"
    and "\<And>c. 0 < task_count (playing c) (all_tasks ts v) \<Longrightarrow> c < vc_nextRef v"
    and "\<And>c. vc_nextRef v \<le> c \<Longrightarrow> call_count (asks_play c) (vc_calls v) = 0 \<and> c \<notin> set (vc_started v)"
    and "\<And>c. task_count (playing c) (all_tasks ts v) + call_count (ends_play c) (vc_calls v)
        \<le> call_count (asks_play c) (vc_calls v)"
    and "\<And>c. call_count (asks_play c) (vc_calls v) \<le> 1"
    and "\<And>c. call_count (starts_play c) (vc_calls v) = (if c \<in> set (vc_started v) then 1 else 0)"
    and "\<And>c. 0 < call_count (completes_play c) (vc_calls v) \<Longrightarrow> c \<in> set (vc_started v)"
  shows "play_inv ts v"
  unfolding play_inv_def using assms by blast

lemma play_inv_step:
  assumes I: "play_inv us v" and q: "play_step v v'"
    and fewer: "\<And>c. task_count (playing c) ts \<le> task_count (playing c) us"
  shows "play_inv ts v'"
proof -
  obtain cs where q': "vc_nextRef v \<le> vc_nextRef v'" "vc_tasks v' = vc_tasks v" "vc_lifecycles v' = vc_lifecycles v"
    "vc_started v' = vc_started v" "vc_calls v' = vc_calls v @ cs" "list_all (\<lambda>c. \<not> play_call c) cs"
    using q by (auto simp: play_step_def)
  note D = play_invD [OF I] and plain = plain_play_calls [OF q'(6)]
  show ?thesis
  proof (rule play_invI, goal_cases)
    case (1 c q)
    with D(1) [of c q] q' show ?case by simp
  next
    case (2 c)
    with D(2) [of c] fewer [of c] q' show ?case by (simp add: all_tasks_def) linarith
  next
    case (3 c)
    with D(3) [of c] q' show ?case by (simp add: plain)
  next
    case (4 c)
    with D(4) [of c] fewer [of c] q' show ?case by (simp add: plain all_tasks_def)
  qed (use D(5, 6, 7) q' in \<open>auto simp: plain\<close>)
qed

lemma play_inv_drop: "play_inv us v \<Longrightarrow> play_inv [] v"
  by (rule play_inv_step) (auto simp: play_step_refl)

lemma play_inv_tasks:
  assumes I: "play_inv us v"
    and fewer: "\<And>c. task_count (playing c) (all_tasks ts (v\<lparr>vc_tasks := w\<rparr>)) \<le> task_count (playing c) (all_tasks us v)"
  shows "play_inv ts (v\<lparr>vc_tasks := w\<rparr>)"
proof (rule play_invI, goal_cases)
  case (2 c)
  with play_invD(2) [OF I, of c] fewer [of c] show ?case by simp
next
  case (4 c)
  with play_invD(4) [OF I, of c] fewer [of c] show ?case by simp
qed (use play_invD [OF I] in \<open>auto simp: all_tasks_def\<close>)

section \<open>Segments that keep the record\<close>

definition plays :: "voice_progress vm \<Rightarrow> bool" where
  "plays m \<longleftrightarrow> (\<forall>v. play_inv [] v \<longrightarrow> wp m (\<lambda>r v'. play_inv (in_hand r) v') v)"

lemma playsD: "plays m \<Longrightarrow> play_inv [] v \<Longrightarrow> wp m (\<lambda>r v'. play_inv (in_hand r) v') v"
  by (simp add: plays_def)

lemma plays_bind [play_intros]:
  assumes "aside m" and "\<And>x. plays (f x)"
  shows "plays (vbind m f)"
  unfolding plays_def
proof (intro allI impI)
  fix v assume I: "play_inv [] v"
  obtain v' r where m: "m v = (v', r)" by (cases "m v")
  have "play_inv [] v'" by (rule play_inv_step [OF I alongD [OF assms(1) m]]) simp
  with assms(2) show "wp (vbind m f) (\<lambda>r v'. play_inv (in_hand r) v') v"
    by (cases r) (auto simp: wp_def vbind_def m plays_def)
qed

lemma plays_catch [play_intros]: "plays m \<Longrightarrow> plays h \<Longrightarrow> plays (vcatch m h)"
  unfolding plays_def
  by (auto simp: wp_def vcatch_def split: prod.splits sum.splits)

lemma plays_leaf [play_intros]: "(\<And>c. \<not> playing c t) \<Longrightarrow> plays (vret (Await t))"
  "plays (vret (Return x))" "plays (vthrow e)"
  by (auto simp: plays_def wp_simps intro: play_inv_step simp: play_step_refl)

lemma play_inv_ask:
  assumes I: "play_inv [] v" and nr: "vc_nextRef v' = Suc (vc_nextRef v)" and tasks: "vc_tasks v' = vc_tasks v"
    and given: "vc_lifecycles v' = (vc_nextRef v, q) # vc_lifecycles v" and started: "vc_started v' = vc_started v"
    and made: "\<exists>ds. vc_calls v' = vc_calls v @ ds \<and> ds \<noteq> [] \<and> last ds = PlaybackPlay q (vc_nextRef v) \<and>
      list_all (\<lambda>c. \<not> play_call c) (butlast ds)"
  shows "play_inv [AwaitPlay (vc_nextRef v) q ctx] v'"
proof -
  obtain cs where calls: "vc_calls v' = vc_calls v @ cs @ [PlaybackPlay q (vc_nextRef v)]"
    "list_all (\<lambda>c. \<not> play_call c) cs"
    using made append_butlast_last_id by metis
  note D = play_invD [OF I] and plain = plain_play_calls [OF calls(2)]
  have zero: "task_count (playing (vc_nextRef v)) (map snd (vc_tasks v)) = 0"
    using D(2) [of "vc_nextRef v"] by (auto simp: all_tasks_def)
  show ?thesis
  proof (rule play_invI, goal_cases)
    case (1 c q')
    with D(1) [of c q'] show ?case by (auto simp: nr given)
  next
    case (2 c)
    with D(2) [of c] show ?case by (auto simp: nr tasks all_tasks_def split: if_splits)
  next
    case (3 c)
    with D(3) [of c] show ?case by (simp add: nr calls started plain)
  next
    case (4 c)
    with D(4) [of c] zero show ?case by (auto simp: tasks calls plain all_tasks_def)
  next
    case (5 c)
    with D(3, 5) [of c] show ?case by (auto simp: calls plain)
  qed (use D(6, 7) in \<open>auto simp: calls started plain\<close>)
qed

lemma plays_playRequest [play_intros]: "plays (playRequest P q qs ctx)"
  unfolding plays_def
proof (intro allI impI)
  fix v assume I: "play_inv [] v"
  show "wp (playRequest P q qs ctx) (\<lambda>r v'. play_inv (in_hand r) v') v"
    unfolding playRequest_def setState_def
    by (auto simp: wp_simps split: option.split)
      ((rule play_inv_ask [OF I], simp_all add: list_all_iff butlast_append; fail) |
       (rule play_inv_step [OF I], simp_all add: play_step_def; fail))+
qed

lemma plays_playedPrepared [play_intros]: "plays (playedPrepared ctx oc)"
  unfolding playedPrepared_def by (intro play_intros)

lemma plays_playLoop [play_intros]: "plays (playLoop P qs e ctx)"
  unfolding playLoop_def
  by (cases qs) (auto intro!: play_intros split del: if_split split: if_splits)

lemma plays_playReturned [play_intros]: "plays (playReturned P ctx oc)"
  unfolding playReturned_def by (cases ctx) (auto intro!: play_intros)

lemma plays_settlePreparation [play_intros]: "plays (settlePreparation P c ctx)"
  unfolding settlePreparation_def by (intro play_intros)

lemma plays_beginPlayPrepared [play_intros]: "plays (beginPlayPrepared P i ctx)"
  unfolding beginPlayPrepared_def by (auto intro!: play_intros)

lemma plays_recordCancelledTurn [play_intros]: "plays (recordCancelledTurn P i)"
  unfolding recordCancelledTurn_def by (auto intro!: play_intros)

lemma plays_finishTurn [play_intros]: "plays (finishTurn P i r)"
  unfolding finishTurn_def by (auto intro!: play_intros)

lemma plays_settleTranscript [play_intros]: "plays (settleTranscript P a c ans)"
  unfolding settleTranscript_def Let_def
  by (auto intro!: play_intros split: sum.splits prod.splits option.splits)

lemma plays_settleTurn [play_intros]: "plays (settleTurn P i c ans)"
  unfolding settleTurn_def by (auto intro!: play_intros split: sum.splits)

lemma plays_beginSubmitText [play_intros]: "plays (beginSubmitText P i t)"
  unfolding beginSubmitText_def by (auto intro!: play_intros split: option.splits)

lemma plays_settleText [play_intros]: "plays (settleText P i ans)"
  unfolding settleText_def by (auto intro!: play_intros split: sum.splits)

lemma plays_stopPlayback [play_intros]: "plays (stopPlayback ctx)"
  unfolding stopPlayback_def by (auto intro!: play_intros)

lemma plays_beginStop [play_intros]: "plays (beginStop P ctx)"
  unfolding beginStop_def by (auto intro!: play_intros split: prod.splits option.splits)

lemma plays_settleCancel [play_intros]: "plays (settleCancel P a ctx ans)"
  unfolding settleCancel_def by (auto intro!: play_intros split: sum.splits)

lemma plays_settlePlaybackStop [play_intros]: "plays (settlePlaybackStop P ctx ans)"
  unfolding settlePlaybackStop_def by (auto intro!: play_intros split: sum.splits stop_context.splits)

lemma plays_pauseResume [play_intros]:
  "plays (beginPause P)" "plays (settlePause P ans)" "plays (beginResume P)" "plays (settleResume P s ans)"
  "plays (beginRepeat P)"
  unfolding beginPause_def settlePause_def beginResume_def settleResume_def beginRepeat_def
  by (auto intro!: play_intros split: sum.splits prod.splits option.splits)

lemma plays_capture [play_intros]:
  "plays (beginStartCapture P i c)" "plays (settleStart P a e ans)" "plays (beginFinishCapture P)"
  "plays (settleStop P a e ans')"
  unfolding beginStartCapture_def settleStart_def beginFinishCapture_def settleStop_def Let_def
  by (auto intro!: play_intros split: sum.splits prod.splits option.splits)

section \<open>Starts and ends\<close>

definition never_throws :: "voice_port \<Rightarrow> bool" where
  "never_throws P \<longleftrightarrow> (\<forall>cs c. vp_answer P cs c \<noteq> None)"

lemma vm_total_calls:
  assumes "never_throws P"
  shows "wp (vcallU P c) Q v = Q (Inr ()) (v\<lparr>vc_calls := vc_calls v @ [c]\<rparr>)"
    and "wp (setState P s) Q v = Q (Inr ()) (v\<lparr>vc_state := s, vc_calls := vc_calls v @ [OnState s]\<rparr>)"
proof -
  have "\<exists>r. vp_answer P cs d = Some r" for cs d
    using assms by (simp add: never_throws_def)
  then obtain r r' where "vp_answer P (vc_calls v) c = Some r" "vp_answer P (vc_calls v) (OnState s) = Some r'"
    by metis
  then show "wp (vcallU P c) Q v = Q (Inr ()) (v\<lparr>vc_calls := vc_calls v @ [c]\<rparr>)"
    and "wp (setState P s) Q v = Q (Inr ()) (v\<lparr>vc_state := s, vc_calls := vc_calls v @ [OnState s]\<rparr>)"
    by (simp_all add: vcallU_def setState_def wp_simps)
qed

lemma caught_throw: "vcatch (vdo (vthrow e) k) h = h"
  by (auto simp: vcatch_def vbind_def vthrow_def)

lemma play_inv_ended:
  assumes I: "play_inv [AwaitPlay c q ctx] v" and complete: "oc = PlayComplete \<longrightarrow> c \<in> set (vc_started v)"
  shows "play_inv [] (v\<lparr>vc_calls := vc_calls v @ [RecordPlaybackEnded c q' oc f]\<rparr>)"
proof -
  note D = play_invD [OF I]
  show ?thesis
  proof (rule play_invI, goal_cases)
    case (2 n)
    with D(2) [of n] show ?case by (simp add: all_tasks_def split: if_splits)
  next
    case (4 n)
    with D(4) [of n] show ?case by (simp add: all_tasks_def split: if_splits)
  next
    case (7 n)
    with D(7) [of n] complete show ?case by (auto split: if_splits)
  qed (use D(1, 3, 5, 6) in \<open>auto simp: all_tasks_def\<close>)
qed

lemma play_inv_begun:
  assumes I: "play_inv [] v" and c: "c < vc_nextRef v" "c \<notin> set (vc_started v)"
  shows "play_inv [] (v\<lparr>vc_started := c # vc_started v, vc_state := s,
    vc_calls := vc_calls v @ [OnState s, RecordPlaybackStarted c q]\<rparr>)"
proof -
  note D = play_invD [OF I]
  show ?thesis
  proof (rule play_invI, goal_cases)
    case (3 n)
    with D(3) [of n] c show ?case by auto
  next
    case (6 n)
    with D(6) [of n] c show ?case by auto
  qed (use D(1, 2, 4, 5, 7) in \<open>auto simp: all_tasks_def\<close>)
qed

lemma bind_plays:
  assumes "wp m (\<lambda>r. play_inv []) v" and "\<And>x. plays (f x)"
  shows "wp (vbind m f) (\<lambda>r v'. play_inv (in_hand r) v') v"
proof -
  obtain w r where m: "m v = (w, r)" by (cases "m v")
  with assms(1) have "play_inv [] w" by (simp add: wp_def)
  with playsD [OF assms(2)] m show ?thesis
    by (cases r) (simp_all add: wp_def vbind_def)
qed

lemma failed_plays:
  assumes I: "play_inv [AwaitPlay c q ctx] v"
  shows "wp (vbind (vfinally (playFailed P c q code) (clearPlayback c)) (\<lambda>oc. playReturned P ctx oc))
    (\<lambda>r v'. play_inv (in_hand r) v') v"
proof (rule bind_plays)
  let ?f = "Some (case playbackFailureCode code of Some c \<Rightarrow> c | None \<Rightarrow> js ''playback-failed'')"
  have clear: "play_inv [] (clearPlayback c w)" if "play_inv [] w" for w
    by (rule play_inv_step [OF that]) (simp_all add: play_intros)
  have E: "play_inv [] (v\<lparr>vc_calls := vc_calls v @ [RecordPlaybackEnded c q oc f]\<rparr>)" if "oc \<noteq> PlayComplete" for oc f
    by (rule play_inv_ended [OF I]) (simp add: that)
  have E': "play_inv [] (v\<lparr>vc_state := RecoverableError,
      vc_calls := vc_calls v @ [RecordPlaybackEnded c q PlayFailed ?f, OnState RecoverableError]\<rparr>)"
    by (rule play_inv_step [OF E [of PlayFailed ?f]]) (simp_all add: play_step_def)
  show "wp (vfinally (playFailed P c q code) (clearPlayback c)) (\<lambda>r. play_inv []) v"
    unfolding playFailed_def Let_def setState_def vcallU_def
    using E [of PlayInterrupted None] E [of PlayFailed ?f] E'
    by (auto simp: wp_simps intro!: clear split: option.split)
qed (intro play_intros)

lemma settlePlay_plays:
  assumes total: "never_throws P" and I: "play_inv [AwaitPlay c q ctx] v"
  shows "wp (settlePlay P c q ctx ans) (\<lambda>r v'. play_inv (in_hand r) v') v"
proof (cases ans)
  case (Inl code)
  with failed_plays [OF I] show ?thesis by (simp add: settlePlay_def)
next
  case (Inr u)
  show ?thesis
  proof (cases "c \<in> set (vc_started v)")
    case True
    then have "play_inv [AwaitPreparation c ctx] (v\<lparr>vc_calls := vc_calls v @ [RecordPlaybackEnded c q PlayComplete None]\<rparr>)"
      by (intro play_inv_step [OF play_inv_ended [OF I, of PlayComplete q None]]) (simp_all add: play_step_refl)
    with True Inr show ?thesis
      by (simp add: settlePlay_def Let_def wp_simps vm_total_calls [OF total])
  next
    case False
    with Inr failed_plays [OF I, of P None] show ?thesis
      by (simp add: settlePlay_def Let_def vm_get_bind caught_throw)
  qed
qed

lemma onStarted_plays:
  assumes total: "never_throws P" and I: "play_inv [] v" and c: "map_of (vc_lifecycles v) c = Some q"
  shows "wp (onStarted P c q) (\<lambda>r. play_inv []) v"
proof -
  have "c < vc_nextRef v" using play_invD(1) [OF I map_of_SomeD [OF c]] .
  with play_inv_begun [OF I] I show ?thesis
    by (simp add: onStarted_def wp_simps vm_total_calls [OF total])
qed

definition total_play_inv :: "voice_port \<Rightarrow> voice_task list \<Rightarrow> voice \<Rightarrow> bool" where
  "total_play_inv P ts v \<longleftrightarrow> (never_throws P \<longrightarrow> play_inv ts v)"

lemma vm_total: "(never_throws P \<Longrightarrow> wp m (\<lambda>r v'. play_inv (h r) v') v) \<Longrightarrow>
    wp m (\<lambda>r v'. total_play_inv P (h r) v') v"
  by (cases "never_throws P") (auto simp: total_play_inv_def wp_def split: prod.splits)

interpretation play_check: voice_invariant P "total_play_inv P" for P
proof (unfold_locales, goal_cases)
  case (1 t v n)
  then show ?case by (auto simp: total_play_inv_def all_tasks_def intro!: play_inv_tasks)
next
  case (2 v n t)
  show ?case
    using 2(1) task_count_held [OF 2(2)]
    by (auto simp: total_play_inv_def all_tasks_def intro!: play_inv_tasks)
next
  case (3 v s)
  then show ?case by (auto simp: total_play_inv_def play_step_def intro: play_inv_step)
next
  case (4 v)
  then show ?case by (auto simp: total_play_inv_def play_step_def intro: play_inv_step)
next
  case (5 v m)
  have "plays (begin_voice P m)"
    unfolding begin_voice_def by (cases m) (auto intro!: play_intros)
  with 5 show ?case by (intro vm_total) (simp add: total_play_inv_def playsD)
next
  case (6 t v a k)
  show ?case
  proof (rule vm_total, cases t)
    fix c q ctx
    assume n: "never_throws P" and t: "t = AwaitPlay c q ctx"
    with 6 settlePlay_plays [OF n] show "wp k (\<lambda>r v'. play_inv (in_hand r) v') v"
      by (auto simp: settle_voice_def total_play_inv_def)
  qed (use 6 in \<open>auto simp: settle_voice_def total_play_inv_def
      intro!: playsD [OF _ play_inv_drop] play_intros split: if_splits\<close>)
next
  case (7 v c q)
  show ?case
    by (rule vm_total, rule onStarted_plays) (use 7 in \<open>auto simp: total_play_inv_def\<close>)
next
  case (8 v p)
  then show ?case by (auto simp: total_play_inv_def play_step_def intro: play_inv_step)
next
  case (9 v)
  then show ?case by (auto simp: total_play_inv_def play_step_def intro: play_inv_step)
next
  case 10
  show ?case unfolding total_play_inv_def
    by (auto intro!: play_invI simp: newVoiceAudioController_def all_tasks_def)
qed

end
