(* ===== verification/Voice_Properties.thy ===== *)
theory Voice_Properties
  imports Voice_Captures Voice_Playback
begin

text \<open>
  The properties of the voice controller, over every run of method calls, answers and callbacks
  from a new controller, with their witnesses on a scripted port.
\<close>

section \<open>Two runs on a scripted port\<close>

definition demo_turn :: turn_result where
  "demo_turn = \<lparr>tr_interactionId = js ''i'', tr_outcome = TurnCancelled, tr_events = [],
     tr_engineResult = None, tr_checkpoint = None\<rparr>"

definition demo_port :: voice_port where
  "demo_port = \<lparr>vp_answer = (\<lambda>cs c. Some demo_turn), vp_observed = (\<lambda>cs. Some []), vp_hasPrepare = False\<rparr>"

text \<open>A capture is stopped while the answer of \<open>capture.stop\<close> is outstanding, and the player starts the next.\<close>

definition stopped_events :: "voice_event list" where
  "stopped_events =
     [CallVoice (StartCapture (js ''i1'') (js ''c1'')), SettleVoice 0 Resolved, CallVoice FinishCapture,
      CallVoice StopAudio, SettleVoice 3 Resolved, SettleVoice 3 Resolved,
      CallVoice (StartCapture (js ''i2'') (js ''c2'')), SettleVoice 4 Resolved]"

text \<open>Then the answer comes, and the player starts a third one.\<close>

definition late_events :: "voice_event list" where
  "late_events = [SettleVoice 2 (ResolvedAudio 100), CallVoice (StartCapture (js ''i3'') (js ''c3''))]"

definition narrated_events :: "voice_event list" where
  "narrated_events =
     [PrepareVoice \<lparr>nq_narrationId = js ''n1'', nq_role = GuideRole, nq_text = js ''t'', nq_sourceEventId = js ''e'',
        nq_correlationId = js ''i1''\<rparr> False,
      CallVoice (PlayPrepared (js ''i1'')), PlaybackBegan 1, SettleVoice 0 Resolved]"

lemma late_answer_state:
  "(let v = voice_run demo_port newVoiceAudioController stopped_events; w = voice_run demo_port v late_events in
    vc_state v = Listening \<and> map_option ac_ref (vc_active v) = Some 5 \<and>
    map_option ac_ref (vc_active w) = Some 7 \<and> vc_nextRef w = 8 \<and>
    map task_ref (map snd (vc_tasks w)) = [Some 7] \<and>
    call_count (starts_capture 5) (vc_calls w) = 1 \<and> call_count (ends_capture 5) (vc_calls w) = 0)"
  by code_simp

section \<open>The properties\<close>

text \<open>C19. In every run a capture is recorded as started at most once, as ended at most as often as it was
  started, and transcribed at most as often as it was recorded as submitted; while the controller
  listens, the capture it holds, if it holds one, is started (after \<open>stop\<close> it listens without one until
  the cancellation is answered); whatever the ports throw and whenever they answer.\<close>

theorem captures_are_recorded_once:
  "case voice_run P newVoiceAudioController evs of v \<Rightarrow>
     call_count (starts_capture r) (vc_calls v) \<le> 1 \<and>
     call_count (ends_capture r) (vc_calls v) \<le> call_count (starts_capture r) (vc_calls v) \<and>
     call_count (transcribes r) (vc_calls v) \<le> call_count (submits_capture r) (vc_calls v) \<and>
     (vc_state v = Listening \<longrightarrow> (\<forall>a. vc_active v = Some a \<longrightarrow> ac_captureStarted a))"
proof -
  note D = capture_invD [OF capture_check.reach_keeps [OF voice_reach_run [OF voice_reach.created, of P evs]]]
  from D(4, 5, 6) [of r] D(7) show ?thesis by auto
qed

theorem captures_are_recorded_once_witness:
  "\<exists>a. vc_active (voice_run demo_port newVoiceAudioController stopped_events) = Some a \<and> ac_captureStarted a"
proof -
  obtain a where "vc_active (voice_run demo_port newVoiceAudioController stopped_events) = Some a"
    and "vc_state (voice_run demo_port newVoiceAudioController stopped_events) = Listening"
    using late_answer_state by (auto simp: Let_def)
  with captures_are_recorded_once [where P = demo_port and evs = stopped_events] show ?thesis by simp
qed

text \<open>C13. Once the player has stopped the controller, no capture begun before is ever transcribed: what was
  transcribed of it stays as it was through every later call, answer and callback.\<close>

theorem stopped_captures_stay_silent:
  assumes "r < vc_nextRef v"
  shows "call_count (transcribes r) (vc_calls (voice_run P (voice_step P v (CallVoice StopAudio)) evs)) =
    call_count (transcribes r) (vc_calls v)"
proof -
  have "silent (vc_nextRef v) (\<lambda>r. call_count (transcribes r) (vc_calls v)) (voice_step P v (CallVoice StopAudio))"
    by (simp add: stop_silent)
  from silent_check.run_keeps [OF this] assms show ?thesis by (simp add: silent_def)
qed

theorem stopped_captures_stay_silent_witness:
  "let v = voice_run demo_port newVoiceAudioController (take 3 stopped_events) in
     1 < vc_nextRef v \<and>
     call_count (transcribes 1) (vc_calls (voice_run demo_port (voice_step demo_port v (CallVoice StopAudio))
       [SettleVoice 3 Resolved, SettleVoice 2 (ResolvedAudio 100)])) = call_count (transcribes 1) (vc_calls v)"
proof -
  have "1 < vc_nextRef (voice_run demo_port newVoiceAudioController (take 3 stopped_events))" by code_simp
  from this stopped_captures_stay_silent [OF this] show ?thesis unfolding Let_def by blast
qed

text \<open>C23. Over ports that do not throw, each playback is asked for once, recorded as started at most once and
  as ended at most once and only if it was asked for; it is recorded as complete only if it was
  recorded as started.\<close>

theorem playbacks_are_recorded_once:
  assumes "never_throws P"
  shows "case voice_run P newVoiceAudioController evs of v \<Rightarrow>
     call_count (asks_play c) (vc_calls v) \<le> 1 \<and>
     call_count (starts_play c) (vc_calls v) \<le> 1 \<and>
     call_count (ends_play c) (vc_calls v) \<le> call_count (asks_play c) (vc_calls v) \<and>
     call_count (completes_play c) (vc_calls v) \<le> call_count (starts_play c) (vc_calls v)"
proof -
  have I: "play_inv [] (voice_run P newVoiceAudioController evs)"
    using play_check.reach_keeps [OF voice_reach_run [OF voice_reach.created, of P evs]] assms
    by (simp add: total_play_inv_def)
  note D = play_invD [OF I] and completed = completes_ends [of c "vc_calls (voice_run P newVoiceAudioController evs)"]
  from D(4, 5, 6, 7) [of c] completed show ?thesis by (auto split: if_splits)
qed

theorem playbacks_are_recorded_once_witness:
  "call_count (completes_play 1) (vc_calls (voice_run demo_port newVoiceAudioController narrated_events)) = 1 \<and>
   call_count (starts_play 1) (vc_calls (voice_run demo_port newVoiceAudioController narrated_events)) = 1"
proof -
  have "never_throws demo_port" by (simp add: never_throws_def demo_port_def)
  moreover have "call_count (completes_play 1) (vc_calls (voice_run demo_port newVoiceAudioController narrated_events)) = 1"
    by code_simp
  ultimately show ?thesis using playbacks_are_recorded_once [where P = demo_port and evs = narrated_events and c = 1] by simp
qed

text \<open>The answer of \<open>capture.stop\<close> that comes after the player stopped and started again declares the
  controller ready over the running capture: the next \<open>startCapture\<close> is accepted and replaces it,
  and the end of the running capture, recorded as started, is never recorded afterwards.\<close>

theorem late_answer_loses_a_capture:
  "case voice_run demo_port newVoiceAudioController stopped_events of v \<Rightarrow>
     vc_state v = Listening \<and> map_option ac_ref (vc_active v) = Some 5 \<and>
     (case voice_run demo_port v late_events of w \<Rightarrow>
        map_option ac_ref (vc_active w) = Some 7 \<and>
        call_count (starts_capture 5) (vc_calls w) = 1 \<and>
        (\<forall>evs. call_count (ends_capture 5) (vc_calls (voice_run P w evs)) = 0))"
proof -
  let ?w = "voice_run demo_port (voice_run demo_port newVoiceAudioController stopped_events) late_events"
  have "abandoned 5 0 [] ?w"
    using late_answer_state by (auto simp: Let_def abandoned_def all_tasks_def)
  then have "abandoned 5 0 [] (voice_run P ?w evs)" for evs
    by (rule abandoned_check.run_keeps)
  then show ?thesis using late_answer_state by (auto simp: Let_def abandoned_def)
qed

end
