(* ===== verification/Text_Pattern.thy ===== *)
theory Text_Pattern
  imports Turn_Text Utf8
begin

text \<open>
  The regular expressions of JavaScript the command knowledge uses: the operators with their
  backtracking order, \<open>test\<close>, \<open>exec\<close> and \<open>replace\<close>, on UTF-16 strings read by code points.
  A pattern lists its matches from a position in the order the language tries them, so the first
  one is what \<open>exec\<close> finds there.
\<close>

section \<open>Patterns\<close>

datatype pattern =
    Never
  | Nothing
  | Point "int \<Rightarrow> bool" \<comment> \<open>one code point of a class\<close>
  | Seq pattern pattern
  | Alt pattern pattern \<comment> \<open>the left one first\<close>
  | Star pattern \<comment> \<open>greedy\<close>
  | Capture nat pattern
  | WordEdge "code_unit \<Rightarrow> bool" \<comment> \<open>\<open>\b\<close> for these word characters\<close>
  | TextStart
  | TextEnd

text \<open>The text before the position in reverse, the text after it and the captures.\<close>

type_synonym match_state = "js \<times> js \<times> (nat \<times> js) list"

definition point_size :: "js \<Rightarrow> nat" where
  "point_size s = (case s of u # v # _ \<Rightarrow> if is_high u \<and> is_low v then 2 else 1 | _ \<Rightarrow> 1)"

definition first_point :: "js \<Rightarrow> int" where
  "first_point s = (case s of u # v # _ \<Rightarrow> if is_high u \<and> is_low v then int (join_surrogates u v) else uint u
     | [u] \<Rightarrow> uint u | [] \<Rightarrow> 0)"

definition advance :: "nat \<Rightarrow> js \<times> js \<Rightarrow> js \<times> js" where
  "advance n = (\<lambda>(b, s). (rev (take n s) @ b, drop n s))"

definition at_edge :: "(code_unit \<Rightarrow> bool) \<Rightarrow> js \<Rightarrow> js \<Rightarrow> bool" where
  "at_edge w b s \<longleftrightarrow> (b \<noteq> [] \<and> w (hd b)) \<noteq> (s \<noteq> [] \<and> w (hd s))"

primrec star_alts :: "(match_state \<Rightarrow> match_state list) \<Rightarrow> nat \<Rightarrow> match_state \<Rightarrow> match_state list" where
  \<comment> \<open>an iteration that consumes nothing is refused, so the length of the rest bounds their number\<close>
  "star_alts f 0 m = [m]"
| "star_alts f (Suc n) m =
     concat (map (star_alts f n) (filter (\<lambda>m'. length (fst (snd m')) < length (fst (snd m))) (f m))) @ [m]"

primrec alts :: "pattern \<Rightarrow> match_state \<Rightarrow> match_state list" where
  "alts Never m = []"
| "alts Nothing m = [m]"
| "alts (Point p) m =
     (case m of (b, s, k) \<Rightarrow>
        if s \<noteq> [] \<and> p (first_point s)
        then (case advance (point_size s) (b, s) of (b', s') \<Rightarrow> [(b', s', k)]) else [])"
| "alts (Seq x y) m = concat (map (alts y) (alts x m))"
| "alts (Alt x y) m = alts x m @ alts y m"
| "alts (Star x) m = star_alts (alts x) (length (fst (snd m))) m"
| "alts (Capture n x) m =
     (case m of (b, s, k) \<Rightarrow>
        map (\<lambda>(b', s', k'). (b', s', (n, take (length s - length s') s) # k')) (alts x m))"
| "alts (WordEdge w) m = (case m of (b, s, k) \<Rightarrow> if at_edge w b s then [m] else [])"
| "alts TextStart m = (if fst m = [] then [m] else [])"
| "alts TextEnd m = (if fst (snd m) = [] then [m] else [])"

lemma point_size_pos: "0 < point_size s"
  by (simp add: point_size_def split: list.split)

text \<open>The first match from the left, with the position it starts at.\<close>

function search :: "pattern \<Rightarrow> js \<Rightarrow> js \<Rightarrow> (js \<times> match_state) option" where
  "search x b s =
     (case alts x (b, s, []) of
        m # _ \<Rightarrow> Some (b, m)
      | [] \<Rightarrow>
          if s = [] then None
          else (case advance (point_size s) (b, s) of (b', s') \<Rightarrow> search x b' s'))"
  by pat_completeness auto

termination
  by (relation "measure (\<lambda>(x, b, s). length s)") (auto simp: advance_def point_size_pos)

declare search.simps [simp del]

definition test :: "pattern \<Rightarrow> js \<Rightarrow> bool" where
  "test x s \<longleftrightarrow> search x [] s \<noteq> None"

definition exec :: "pattern \<Rightarrow> js \<Rightarrow> (nat \<times> js) list option" where
  "exec x s = map_option (\<lambda>(_, _, _, k). k) (search x [] s)"

definition group :: "nat \<Rightarrow> (nat \<times> js) list option \<Rightarrow> js option" where \<comment> \<open>\<open>match?.[n]\<close>\<close>
  "group n found = Option.bind found (\<lambda>k. map_of k n)"

definition replaceFirst :: "pattern \<Rightarrow> js \<Rightarrow> js \<Rightarrow> js" where \<comment> \<open>\<open>s.replace(/x/u, by)\<close>\<close>
  "replaceFirst x by s =
     (case search x [] s of None \<Rightarrow> s | Some (b, (_, s', _)) \<Rightarrow> rev b @ by @ s')"

text \<open>\<open>s.replace(/x/gu, by)\<close>: an empty match is stepped over.\<close>

function replace_from :: "pattern \<Rightarrow> js \<Rightarrow> js \<Rightarrow> js \<Rightarrow> js" where
  "replace_from x by b s =
     (case search x b s of
        None \<Rightarrow> s
      | Some (b', (b'', s', _)) \<Rightarrow>
          let kept = take (length b' - length b) s; here = drop (length b' - length b) s in
          if length s' < length here then kept @ by @ replace_from x by b'' s'
          else if here = [] then kept @ by
          else kept @ by @ take (point_size here) here @
            replace_from x by (rev (take (point_size here) here) @ b') (drop (point_size here) here))"
  by pat_completeness auto

termination
proof (relation "measure (\<lambda>(x, by, b, s). length s)", goal_cases)
  case (3 x _ b s)
  then show ?case using point_size_pos [of "drop (length (fst (the (search x b s))) - length b) s"] by auto
qed auto

declare replace_from.simps [simp del]

definition replaceAll :: "pattern \<Rightarrow> js \<Rightarrow> js \<Rightarrow> js" where
  "replaceAll x by s = replace_from x by [] s"

section \<open>Notation of the source\<close>

definition unit_fold :: "int \<Rightarrow> int" where
  \<comment> \<open>case folding as far as an ASCII letter of a pattern with the flags \<open>iu\<close> can see it\<close>
  "unit_fold c =
     (if 0x41 \<le> c \<and> c \<le> 0x5A then c + 0x20 else if c = 0x17F then 0x73 else if c = 0x212A then 0x6B else c)"

definition lit :: "string \<Rightarrow> pattern" where
  "lit s = foldr (\<lambda>c. Seq (Point (\<lambda>p. p = of_char c))) s Nothing"

definition lit_i :: "string \<Rightarrow> pattern" where
  "lit_i s = foldr (\<lambda>c. Seq (Point (\<lambda>p. unit_fold p = unit_fold (of_char c)))) s Nothing"

definition seqs :: "pattern list \<Rightarrow> pattern" where "seqs xs = foldr Seq xs Nothing"

definition oneOf :: "pattern list \<Rightarrow> pattern" where "oneOf xs = foldr Alt xs Never"

definition words :: "string list \<Rightarrow> pattern" where "words ws = oneOf (map lit ws)"

definition words_i :: "string list \<Rightarrow> pattern" where "words_i ws = oneOf (map lit_i ws)"

definition opt :: "pattern \<Rightarrow> pattern" where "opt x = Alt x Nothing"

definition plus :: "pattern \<Rightarrow> pattern" where "plus x = Seq x (Star x)"

definition is_word_unit :: "code_unit \<Rightarrow> bool" where \<comment> \<open>\<open>\w\<close>\<close>
  "is_word_unit u \<longleftrightarrow> (0x30 \<le> u \<and> u \<le> 0x39) \<or> (0x41 \<le> u \<and> u \<le> 0x5A) \<or> (0x61 \<le> u \<and> u \<le> 0x7A) \<or> u = 0x5F"

definition is_word_unit_i :: "code_unit \<Rightarrow> bool" where \<comment> \<open>with the flags \<open>iu\<close>\<close>
  "is_word_unit_i u \<longleftrightarrow> is_word_unit u \<or> u = 0x17F \<or> u = 0x212A"

abbreviation edge :: pattern where "edge \<equiv> WordEdge is_word_unit"
abbreviation edge_i :: pattern where "edge_i \<equiv> WordEdge is_word_unit_i"

definition anyPoint :: pattern where \<comment> \<open>\<open>.\<close>\<close>
  "anyPoint = Point (\<lambda>p. p \<notin> {0x0A, 0x0D, 0x2028, 0x2029})"

definition is_space_point :: "int \<Rightarrow> bool" where
  "is_space_point p \<longleftrightarrow> p < 0x10000 \<and> is_space (word_of_int p)"

definition space :: pattern where "space = Point is_space_point"

end
