(* ===== verification/Opening_Words.thy ===== *)
theory Opening_Words
  imports Text_Pattern
begin

text \<open>
  The words of the opening command knowledge (\<open>packages/command-knowledge/src/opening-area.ts\<close>):
  the rules of the grammar, the normal form of an utterance, and the request, quotation and
  condition tests on the player's words.  The Unicode tables of the JavaScript library are a
  parameter.
\<close>

section \<open>Unicode\<close>

record unicode =
  uc_nfkc :: "js \<Rightarrow> js" \<comment> \<open>\<open>normalize("NFKC")\<close>\<close>
  uc_lower :: "js \<Rightarrow> js" \<comment> \<open>\<open>toLocaleLowerCase("en-US")\<close>\<close>
  uc_letter :: "int \<Rightarrow> bool" \<comment> \<open>\<open>\p{L}\<close>\<close>
  uc_number :: "int \<Rightarrow> bool" \<comment> \<open>\<open>\p{N}\<close>\<close>

definition ascii_lower :: "code_unit \<Rightarrow> code_unit" where
  "ascii_lower u = (if 0x41 \<le> u \<and> u \<le> 0x5A then u + 0x20 else u)"

text \<open>
  What the development relies on of the tables: on ASCII text the normal form changes nothing and
  lower case is the usual one, ASCII letters and digits are what they are, and neither class holds
  a space, a control character, a separator of commands or a surrogate.
\<close>

definition ascii :: "js \<Rightarrow> bool" where "ascii s \<longleftrightarrow> list_all (\<lambda>u. u < 0x80) s"

definition unicode_laws :: "unicode \<Rightarrow> bool" where
  "unicode_laws U \<longleftrightarrow>
     (\<forall>s. ascii s \<longrightarrow> uc_nfkc U s = s \<and> uc_lower U s = map ascii_lower s) \<and>
     (\<forall>p. 0x61 \<le> p \<and> p \<le> 0x7A \<longrightarrow> uc_letter U p) \<and>
     (\<forall>p. uc_letter U p \<or> uc_number U p \<longrightarrow>
        \<not> is_space_point p \<and> 0x1F < p \<and> \<not> (0x7F \<le> p \<and> p \<le> 0x9F) \<and> p \<noteq> 0x2E \<and> p \<noteq> 0x3B \<and>
        \<not> (0xD800 \<le> p \<and> p \<le> 0xDFFF))"

text \<open>The ASCII part of the tables.\<close>

definition ascii_unicode :: unicode where
  "ascii_unicode = \<lparr>uc_nfkc = (\<lambda>s. s), uc_lower = map ascii_lower,
     uc_letter = (\<lambda>p. (0x41 \<le> p \<and> p \<le> 0x5A) \<or> (0x61 \<le> p \<and> p \<le> 0x7A)),
     uc_number = (\<lambda>p. 0x30 \<le> p \<and> p \<le> 0x39)\<rparr>"

section \<open>Words\<close>

fun replacePoints :: "(int \<Rightarrow> bool) \<Rightarrow> js \<Rightarrow> js" where \<comment> \<open>\<open>replace(/[...]/gu, " ")\<close> of a class\<close>
  "replacePoints p [] = []"
| "replacePoints p [u] = [if p (uint u) then 0x20 else u]"
| "replacePoints p (u # v # s) =
     (if is_high u \<and> is_low v
      then (if p (int (join_surrogates u v)) then 0x20 # replacePoints p s else u # v # replacePoints p s)
      else (if p (uint u) then 0x20 else u) # replacePoints p (v # s))"

definition no_word_point :: "unicode \<Rightarrow> int \<Rightarrow> bool" where \<comment> \<open>\<open>[^\p{L}\p{N}\s'-]\<close>\<close>
  "no_word_point U p \<longleftrightarrow>
     \<not> (uc_letter U p \<or> uc_number U p \<or> is_space_point p \<or> p = 0x27 \<or> p = 0x2D)"

definition normalizeWords :: "unicode \<Rightarrow> js \<Rightarrow> js" where
  "normalizeWords U s = trim (collapse_spaces (replacePoints (no_word_point U) (uc_lower U (uc_nfkc U s))))"

definition articlePattern :: pattern where \<comment> \<open>\<open>/^(?:a|an|the)\s+/u\<close>\<close>
  "articlePattern = seqs [TextStart, words [''a'', ''an'', ''the''], plus space]"

definition stripArticle :: "js \<Rightarrow> js" where "stripArticle s = replaceFirst articlePattern [] s"

definition starts_with :: "js \<Rightarrow> js \<Rightarrow> bool" where "starts_with s t \<longleftrightarrow> take (length t) s = t"

definition ends_with :: "js \<Rightarrow> js \<Rightarrow> bool" where "ends_with s t \<longleftrightarrow> starts_with (rev s) (rev t)"

definition indexOf :: "js \<Rightarrow> js \<Rightarrow> nat \<Rightarrow> nat option" where
  "indexOf s t from = find (\<lambda>i. starts_with (drop i s) t) [from..<Suc (length s)]"

definition lastIndexOf :: "js \<Rightarrow> js \<Rightarrow> nat option" where
  "lastIndexOf s t = find (\<lambda>i. starts_with (drop i s) t) (rev [0..<Suc (length s)])"

definition includesPhrase :: "js \<Rightarrow> js \<Rightarrow> bool" where
  "includesPhrase v phrase \<longleftrightarrow> indexOf (js '' '' @ v @ js '' '') (js '' '' @ phrase @ js '' '') 0 \<noteq> None"

definition separatorPattern :: pattern where \<comment> \<open>\<open>[;\n]\<close>\<close>
  "separatorPattern = Point (\<lambda>p. p = 0x3B \<or> p = 0x0A)"

definition appearsMultiStep :: "js \<Rightarrow> bool" where
  "appearsMultiStep v \<longleftrightarrow>
     test (Alt separatorPattern
       (seqs [edge_i, words_i [''and'', ''or'', ''then'', ''after that'', ''followed by''], edge_i])) v"

definition containsPairedCurlyQuote :: "js \<Rightarrow> bool" where
  "containsPairedCurlyQuote v =
     (case indexOf v [0x2018] 0 of
        None \<Rightarrow> False
      | Some i \<Rightarrow> (case indexOf v [0x2019] (i + 1) of None \<Rightarrow> False | Some j \<Rightarrow> i + 1 < j))"

definition quotePoints :: "int list" where
  "quotePoints = [0x22, 0x201C, 0x201D, 0xAB, 0xBB, 0x2039, 0x203A, 0x60, 0x28, 0x29, 0x5B, 0x5D, 0x7B, 0x7D,
     0x300C, 0x300D, 0x300E, 0x300F, 0x301D, 0x301E, 0xFF02]"

definition containsQuotedDiscussion :: "unicode \<Rightarrow> js \<Rightarrow> bool" where
  "containsQuotedDiscussion U v \<longleftrightarrow>
     (let trimmed = dropWhile is_space v in
      (trimmed \<noteq> [] \<and> \<not> test (seqs [TextStart, Point (\<lambda>p. uc_letter U p \<or> uc_number U p)]) trimmed) \<or>
      test (Point (\<lambda>p. p \<in> set quotePoints)) v \<or>
      test (seqs [TextStart, Star space, lit ''>'']) v \<or>
      test (seqs [Alt TextStart space, Point (\<lambda>p. p = 0x27), plus (Point (\<lambda>p. p \<noteq> 0x27)), Point (\<lambda>p. p = 0x27),
                  Alt space TextEnd]) v \<or>
      containsPairedCurlyQuote v)"

definition containsConditionalOrExcludedTarget :: "js \<Rightarrow> bool" where
  "containsConditionalOrExcludedTarget v \<longleftrightarrow>
     test (seqs [edge_i, words_i [''if'', ''unless'', ''except'', ''without'', ''rather than'', ''but not'',
       ''anything but'', ''no'', ''none'', ''neither'', ''not''], edge_i]) v"

section \<open>Rules\<close>

record rule_template =
  or_id :: js
  or_verb :: js
  or_aliases :: "js list"
  or_objectRequired :: bool
  or_grammar :: js
  or_semanticDescription :: js
  or_riskTier :: nat
  or_semanticFallbackAllowed :: bool

definition object_rule :: "string \<Rightarrow> string list \<Rightarrow> string \<Rightarrow> nat \<Rightarrow> bool \<Rightarrow> rule_template" where
  "object_rule verb aliases description tier fallback =
     \<lparr>or_id = js (''grammar.'' @ verb), or_verb = js verb, or_aliases = map js aliases, or_objectRequired = True,
      or_grammar = js (verb @ '' <observed object>''), or_semanticDescription = js description,
      or_riskTier = tier, or_semanticFallbackAllowed = fallback\<rparr>"

definition plain_rule :: "string \<Rightarrow> string list \<Rightarrow> string \<Rightarrow> rule_template" where
  "plain_rule verb aliases description =
     \<lparr>or_id = js (''grammar.'' @ verb), or_verb = js verb, or_aliases = map js aliases, or_objectRequired = False,
      or_grammar = js verb, or_semanticDescription = js description,
      or_riskTier = 1, or_semanticFallbackAllowed = True\<rparr>"

definition direction_rule :: "string \<Rightarrow> rule_template" where
  "direction_rule direction =
     \<lparr>or_id = js (''grammar.direction.'' @ direction), or_verb = js direction,
      or_aliases = map js [direction, ''go '' @ direction, ''head '' @ direction], or_objectRequired = False,
      or_grammar = js direction, or_semanticDescription = js (''Move in the '' @ direction @ '' direction.''),
      or_riskTier = 3, or_semanticFallbackAllowed = False\<rparr>"

definition RULES :: "rule_template list" where
  "RULES =
     [plain_rule ''look'' [''look'', ''look around'', ''what do i see around me'', ''what do i see in front of me'']
        ''Describe the player's current location and visible surroundings.'',
      plain_rule ''inventory'' [''inventory'', ''check inventory'', ''what am i carrying'']
        ''List the possessions the player currently carries.''] @
     map direction_rule [''north'', ''south'', ''east'', ''west'', ''up'', ''down''] @
     [object_rule ''examine'' [''examine'', ''inspect'', ''look at'', ''x'']
        ''Inspect one currently observed object without taking it, including its visible writing or content.'' 2 True,
      object_rule ''open'' [''open''] ''Open one currently observed object.'' 3 False,
      object_rule ''read'' [''read'']
        ''Invoke the parser's READ action on one currently observed object only when the player explicitly says read; this action may implicitly take the object.'' 3 False,
      object_rule ''take'' [''take'', ''get'', ''pick up''] ''Take one currently observed object.'' 3 False]"

definition objectForms :: "js \<Rightarrow> js list" where
  "objectForms object = [object, js ''the '' @ object, js ''a '' @ object, js ''an '' @ object]"

definition suffixes :: "js list" where "suffixes = map js ['''', '' please'', '' for me'', '' now'']"

definition dropSuffix :: "js \<Rightarrow> js" where \<comment> \<open>the loop that removes the first suffix that fits\<close>
  "dropSuffix argument =
     (case find (ends_with argument) (tl suffixes) of
        None \<Rightarrow> argument
      | Some ending \<Rightarrow> take (length argument - length ending) argument)"

definition ruleNames :: "unicode \<Rightarrow> 'a rule_template_scheme \<Rightarrow> js list" where
  "ruleNames U rule = map (normalizeWords U) (or_verb rule # or_aliases rule)"

definition matchesDirectRuleRequest :: "unicode \<Rightarrow> js \<Rightarrow> 'a rule_template_scheme \<Rightarrow> js \<Rightarrow> bool" where
  "matchesDirectRuleRequest U v rule object \<longleftrightarrow>
     list_ex (\<lambda>alias.
       if \<not> or_objectRequired rule then list_ex (\<lambda>suffix. v = alias @ suffix) suffixes
       else if \<not> starts_with v (alias @ js '' '') then False
       else
         let argument = dropSuffix (drop (length alias + 1) v) in
         if test (seqs [TextStart, words [''about'', ''regarding'', ''concerning'', ''word'', ''phrase'', ''command''], edge])
              (stripArticle argument)
         then False
         else argument \<in> set (objectForms object)) (ruleNames U rule) \<or>
     (or_verb rule = js ''take'' \<and>
      list_ex (\<lambda>candidate. list_ex (\<lambda>suffix. v = js ''pick '' @ candidate @ js '' up'' @ suffix) suffixes)
        (objectForms object))"

definition politely :: pattern where "politely = opt (seqs [words [''please'', ''kindly''], lit '' ''])"

definition apostrophe :: string where "apostrophe = [CHR 0x27]"

definition wouldLike :: "string \<Rightarrow> pattern" where
  \<comment> \<open>\<open>(?:i(?:'d| d| would) like more|i (?:want|need) more)\<close>\<close>
  "wouldLike tail = oneOf
     [seqs [lit ''i'', words [apostrophe @ ''d'', '' d'', '' would''], lit '' like'', lit tail],
      seqs [lit ''i '', words [''want'', ''need''], lit tail]]"

definition secondPersonPattern :: pattern where
  "secondPersonPattern = seqs [TextStart, politely, words [''can'', ''could'', ''would'', ''will''], lit '' you '',
     politely, Capture 1 (plus anyPoint), TextEnd]"

definition delegationPattern :: pattern where
  "delegationPattern = seqs [TextStart, wouldLike '' you to '', politely, Capture 1 (plus anyPoint), TextEnd]"

definition firstPersonPattern :: pattern where
  "firstPersonPattern = seqs [TextStart, wouldLike '' to '', politely, Capture 1 (plus anyPoint), TextEnd]"

definition directOpeningActionBody :: "unicode \<Rightarrow> js \<Rightarrow> js option" where
  "directOpeningActionBody U utterance =
     (if containsQuotedDiscussion U utterance then None
      else
        let normalized = replaceFirst (seqs [TextStart, words [''yes'', ''okay'', ''ok'', ''sure''], plus space]) []
              (normalizeWords U utterance) in
        if containsConditionalOrExcludedTarget normalized then None
        else
          case group 1 (exec secondPersonPattern normalized) of Some body \<Rightarrow> Some body
          | None \<Rightarrow>
          (case group 1 (exec delegationPattern normalized) of Some body \<Rightarrow> Some body
           | None \<Rightarrow>
           (case group 1 (exec firstPersonPattern normalized) of Some body \<Rightarrow> Some body
            | None \<Rightarrow>
              if test (lit ''?'') utterance then None
              else
                let imperative = replaceFirst (seqs [TextStart,
                      plus (seqs [words [''please'', ''kindly'', ''now'', ''just''], plus space])]) [] normalized in
                case group 1 (exec (seqs [TextStart, words [''let'' @ apostrophe @ ''s'', ''lets''], lit '' '',
                      Capture 1 (plus anyPoint), TextEnd]) normalized) of
                  Some body \<Rightarrow> Some body
                | None \<Rightarrow> Some imperative)))"

definition removeLastCaseInsensitivePhrase :: "unicode \<Rightarrow> js \<Rightarrow> js \<Rightarrow> js" where
  "removeLastCaseInsensitivePhrase U v phrase =
     (case lastIndexOf (uc_lower U v) phrase of
        None \<Rightarrow> v
      | Some start \<Rightarrow> take start v @ drop (start + length phrase) v)"

definition withoutTaking :: js where "withoutTaking = js '' without taking it''"

definition directlyRequestsOpeningAction :: "unicode \<Rightarrow> js \<Rightarrow> 'a rule_template_scheme \<Rightarrow> js \<Rightarrow> bool" where
  "directlyRequestsOpeningAction U utterance rule object \<longleftrightarrow>
     (let qualifiedCandidate = replaceFirst (seqs [words ['' please'', '' for me'', '' now''], TextEnd]) []
            (normalizeWords U utterance);
          safelyQualifiedExamine =
            or_verb rule = js ''examine'' \<and>
            list_ex (\<lambda>reference. list_ex (\<lambda>alias.
                ends_with qualifiedCandidate (alias @ js '' '' @ reference @ withoutTaking)) (ruleNames U rule))
              (objectForms object);
          actionUtterance =
            (if safelyQualifiedExamine then removeLastCaseInsensitivePhrase U utterance withoutTaking else utterance)
      in case directOpeningActionBody U actionUtterance of
           None \<Rightarrow> False
         | Some body \<Rightarrow> matchesDirectRuleRequest U body rule object)"

end
