(* ===== verification/Opening_Area.thy ===== *)
theory Opening_Area
  imports Opening_Words Turn_State "HOL-Library.List_Lexorder"
begin

text \<open>
  The opening command knowledge (\<open>packages/command-knowledge/src/opening-area.ts\<close>): which objects
  are offered, how a proposed command and a semantic intent are grounded, and which observed
  objects an utterance mentions.
\<close>

section \<open>Knowledge\<close>

definition MAX_OBSERVED_OBJECTS :: nat where "MAX_OBSERVED_OBJECTS = 32"
definition MAX_OBSERVED_OBJECT_LENGTH :: nat where "MAX_OBSERVED_OBJECT_LENGTH = 80"
definition OBSERVED_OBJECT_VALUE_ID_PREFIX :: js where "OBSERVED_OBJECT_VALUE_ID_PREFIX = js ''observed-object:''"
definition MAX_OBSERVED_OBJECT_VALUE_ID_LENGTH :: nat where
  "MAX_OBSERVED_OBJECT_VALUE_ID_LENGTH = length OBSERVED_OBJECT_VALUE_ID_PREFIX + MAX_OBSERVED_OBJECT_LENGTH"
definition OPENING_OBJECT_SLOT_ID :: js where "OPENING_OBJECT_SLOT_ID = js ''object''"

record object_option =
  oo_id :: js
  oo_label :: js

record slot_definition =
  sd_slotId :: js
  sd_allowedValueIds :: "js list"

record opening_rule = rule_template +
  or_slots :: "slot_definition list"

record opening_knowledge =
  ok_rules :: "opening_rule list"
  ok_observedObjects :: "js list"
  ok_observedObjectOptions :: "object_option list"
  ok_sourceIds :: "js list"

datatype knowledge_error = TooManyObjects | UnboundedObject

definition observedObject :: "unicode \<Rightarrow> js \<Rightarrow> knowledge_error + js" where
  "observedObject U object =
     (if MAX_OBSERVED_OBJECT_LENGTH < length object \<or> has_control object then Inl UnboundedObject
      else
        let normalized = stripArticle (normalizeWords U object) in
        if MAX_OBSERVED_OBJECT_LENGTH < length normalized then Inl UnboundedObject else Inr normalized)"

definition objectOption :: "js \<Rightarrow> object_option" where
  "objectOption label = \<lparr>oo_id = OBSERVED_OBJECT_VALUE_ID_PREFIX @ label, oo_label = label\<rparr>"

definition offeredRule :: "js list \<Rightarrow> rule_template \<Rightarrow> opening_rule" where
  "offeredRule allowed rule =
     rule_template.extend rule \<lparr>or_slots =
       (if or_objectRequired rule
        then [\<lparr>sd_slotId = OPENING_OBJECT_SLOT_ID, sd_allowedValueIds = allowed\<rparr>] else [])\<rparr>"

definition createOpeningCommandKnowledge :: "unicode \<Rightarrow> js list \<Rightarrow> knowledge_error + opening_knowledge" where
  "createOpeningCommandKnowledge U observed =
     (if MAX_OBSERVED_OBJECTS < length observed then Inl TooManyObjects
      else bindE (mapE (observedObject U) observed) (\<lambda>normalized.
        let observedObjects = sort (remdups (filter (\<lambda>object. object \<noteq> []) normalized));
            options = map objectOption observedObjects;
            allowed = map oo_id options
        in Inr \<lparr>ok_rules = map (offeredRule allowed) RULES, ok_observedObjects = observedObjects,
             ok_observedObjectOptions = options, ok_sourceIds = map or_id RULES\<rparr>))"

section \<open>Grounding a command\<close>

datatype grounding_failure =
    UnsupportedGrammar | MissingObject | UnobservedObject | NotGroundedInUtterance | NotDirectActionRequest
  | UnknownAffordance | InvalidIntent | MissingSlot | UnexpectedSlot | UnknownSlotValue

datatype grounding = Grounded (gr_command: js) (gr_ruleId: js) | NotGrounded grounding_failure

text \<open>The canonical command boundary may throw; \<open>Inl\<close> is its error.\<close>

definition groundedCommand :: "js \<Rightarrow> js \<Rightarrow> CanonicalCommandError + grounding" where
  "groundedCommand command ruleId =
     bindE (canonicalizeCommand (JStr command)) (\<lambda>canonical. Inr (Grounded canonical ruleId))"

definition commandAliases :: "unicode \<Rightarrow> 'a rule_template_scheme \<Rightarrow> js list" where
  "commandAliases U rule = sort_key (\<lambda>alias. - int (length alias)) (ruleNames U rule)"

fun matchAlias :: "rule_template \<Rightarrow> js \<Rightarrow> js list \<Rightarrow> (rule_template \<times> js) option" where
  "matchAlias rule command [] = None"
| "matchAlias rule command (alias # rest) =
     (if command = alias \<and> \<not> or_objectRequired rule then Some (rule, [])
      else if or_objectRequired rule \<and> starts_with command (alias @ js '' '')
      then Some (rule, stripArticle (drop (length alias + 1) command))
      else matchAlias rule command rest)"

fun findRuleIn :: "unicode \<Rightarrow> js \<Rightarrow> rule_template list \<Rightarrow> (rule_template \<times> js) option" where
  "findRuleIn U command [] = None"
| "findRuleIn U command (rule # rules) =
     (case matchAlias rule command (commandAliases U rule) of
        Some found \<Rightarrow> Some found
      | None \<Rightarrow> findRuleIn U command rules)"

definition findRule :: "unicode \<Rightarrow> js \<Rightarrow> (rule_template \<times> js) option" where
  "findRule U command = findRuleIn U command RULES"

definition compileParsedOpeningCommand ::
  "rule_template \<times> js \<Rightarrow> opening_knowledge \<Rightarrow> CanonicalCommandError + grounding" where
  "compileParsedOpeningCommand parsed knowledge =
     (case parsed of (rule, object) \<Rightarrow>
        if \<not> or_objectRequired rule then groundedCommand (or_verb rule) (or_id rule)
        else if object = [] then Inr (NotGrounded MissingObject)
        else if object \<notin> set (ok_observedObjects knowledge) then Inr (NotGrounded UnobservedObject)
        else groundedCommand (or_verb rule @ js '' '' @ object) (or_id rule))"

definition pickUpPattern :: pattern where \<comment> \<open>\<open>/\bpick .+ up\b/u\<close>\<close>
  "pickUpPattern = seqs [edge, lit ''pick '', plus anyPoint, lit '' up'', edge]"

definition groundOpeningCommand ::
  "unicode \<Rightarrow> jsval \<Rightarrow> js \<Rightarrow> opening_knowledge \<Rightarrow> CanonicalCommandError + grounding" where
  "groundOpeningCommand U proposed utterance knowledge =
     bindE (canonicalizeCommand proposed) (\<lambda>candidate.
     case findRule U (normalizeWords U candidate) of
       None \<Rightarrow> Inr (NotGrounded UnsupportedGrammar)
     | Some (rule, object) \<Rightarrow>
         let normalizedUtterance = normalizeWords U utterance;
             mentionsIntent =
               list_ex (\<lambda>alias. includesPhrase normalizedUtterance (normalizeWords U alias)) (or_aliases rule) \<or>
               (or_verb rule = js ''take'' \<and> test pickUpPattern normalizedUtterance \<and>
                includesPhrase normalizedUtterance object)
         in if \<not> mentionsIntent then Inr (NotGrounded NotGroundedInUtterance)
            else if (or_riskTier rule = 3 \<or> or_id rule = js ''grammar.examine'') \<and>
                    \<not> directlyRequestsOpeningAction U utterance rule object
            then Inr (NotGrounded NotDirectActionRequest)
            else
              bindE (compileParsedOpeningCommand (rule, object) knowledge) (\<lambda>compiled.
              case compiled of
                NotGrounded code \<Rightarrow> Inr compiled
              | Grounded _ _ \<Rightarrow>
                  if or_objectRequired rule \<and> \<not> includesPhrase normalizedUtterance object
                  then Inr (NotGrounded NotGroundedInUtterance) else Inr compiled))"

section \<open>Resolving a semantic intent\<close>

datatype intent_resolution =
    Resolved (rs_command: js) (rs_ruleId: js) (rs_riskTier: nat) (rs_semanticFallbackAllowed: bool)
      (rs_selectedObject: "object_option option")
  | NotResolved grounding_failure

definition validIntentIdentifier :: "jsval \<Rightarrow> nat \<Rightarrow> js option" where
  "validIntentIdentifier v maximum =
     (case v of JStr s \<Rightarrow> if s \<noteq> [] \<and> length s \<le> maximum \<and> \<not> has_control s then Some s else None | _ \<Rightarrow> None)"

definition exactObjectKeys :: "jsval \<Rightarrow> string list \<Rightarrow> bool" where
  "exactObjectKeys v keys \<longleftrightarrow>
     is_object v \<and> length (own_keys v) = length keys \<and> list_all (\<lambda>k. k \<in> js ` set keys) (own_keys v)"

definition resolvedCommand ::
  "js \<Rightarrow> rule_template \<Rightarrow> object_option option \<Rightarrow> CanonicalCommandError + intent_resolution" where
  "resolvedCommand command rule selected =
     bindE (canonicalizeCommand (JStr command)) (\<lambda>canonical.
       Inr (Resolved canonical (or_id rule) (or_riskTier rule) (or_semanticFallbackAllowed rule) selected))"

definition resolveOpeningCommandIntent ::
  "jsval \<Rightarrow> opening_knowledge \<Rightarrow> CanonicalCommandError + intent_resolution" where
  "resolveOpeningCommandIntent intent knowledge =
     (if \<not> exactObjectKeys intent [''affordanceId'', ''slots''] then Inr (NotResolved InvalidIntent)
      else
        case (validIntentIdentifier (getProp intent ''affordanceId'') 160, getProp intent ''slots'') of
          (Some affordanceId, JArr slots) \<Rightarrow>
            (case (find (\<lambda>rule. or_id rule = affordanceId) RULES,
                   find (\<lambda>rule. or_id rule = affordanceId) (ok_rules knowledge)) of
               (Some rulePolicy, Some selectedRule) \<Rightarrow>
                 if or_id rulePolicy \<notin> set (ok_sourceIds knowledge) then Inr (NotResolved UnknownAffordance)
                 else if \<not> or_objectRequired rulePolicy
                 then (if slots \<noteq> [] then Inr (NotResolved UnexpectedSlot)
                       else resolvedCommand (or_verb rulePolicy) rulePolicy None)
                 else
                   (case slots of
                      [] \<Rightarrow> Inr (NotResolved MissingSlot)
                    | [slot] \<Rightarrow>
                        if \<not> exactObjectKeys slot [''slotId'', ''valueId''] then Inr (NotResolved UnexpectedSlot)
                        else
                          (case or_slots selectedRule of
                             [definition] \<Rightarrow>
                               if getProp slot ''slotId'' \<noteq> JStr (sd_slotId definition)
                               then Inr (NotResolved UnexpectedSlot)
                               else
                                 (case validIntentIdentifier (getProp slot ''valueId'') MAX_OBSERVED_OBJECT_VALUE_ID_LENGTH of
                                    None \<Rightarrow> Inr (NotResolved UnknownSlotValue)
                                  | Some valueId \<Rightarrow>
                                      if valueId \<notin> set (sd_allowedValueIds definition)
                                      then Inr (NotResolved UnknownSlotValue)
                                      else
                                        (case find (\<lambda>option. oo_id option = valueId) (ok_observedObjectOptions knowledge) of
                                           None \<Rightarrow> Inr (NotResolved UnknownSlotValue)
                                         | Some selected \<Rightarrow>
                                             resolvedCommand (or_verb rulePolicy @ js '' '' @ oo_label selected)
                                               rulePolicy (Some selected)))
                           | _ \<Rightarrow> Inr (NotResolved UnexpectedSlot))
                    | _ \<Rightarrow> Inr (NotResolved UnexpectedSlot))
             | _ \<Rightarrow> Inr (NotResolved UnknownAffordance))
        | _ \<Rightarrow> Inr (NotResolved InvalidIntent))"

section \<open>Objects an utterance mentions\<close>

record mention =
  mn_option :: object_option
  mn_label :: js
  mn_start :: nat
  mn_end :: nat

definition mentionSpans :: "js \<Rightarrow> js \<Rightarrow> (nat \<times> nat) list" where
  \<comment> \<open>every start of the needle, one unit after another\<close>
  "mentionSpans utterance needle =
     map (\<lambda>start. (start, start + length needle))
       (filter (\<lambda>start. starts_with (drop start utterance) needle) [0..<length utterance])"

definition mentionedOpeningObjects :: "unicode \<Rightarrow> js \<Rightarrow> opening_knowledge \<Rightarrow> object_option list" where
  "mentionedOpeningObjects U utterance knowledge =
     (let normalizedUtterance = js '' '' @ normalizeWords U utterance @ js '' '';
          mentions = concat (map (\<lambda>option.
            let label = stripArticle (normalizeWords U (oo_label option)) in
            if label = [] then []
            else map (\<lambda>(s, e). \<lparr>mn_option = option, mn_label = label, mn_start = s, mn_end = e\<rparr>)
                   (mentionSpans normalizedUtterance (js '' '' @ label @ js '' '')))
            (ok_observedObjectOptions knowledge));
          unshadowedIds = map (\<lambda>m. oo_id (mn_option m)) (filter (\<lambda>m. \<not> list_ex (\<lambda>other.
            oo_id (mn_option other) \<noteq> oo_id (mn_option m) \<and> length (mn_label m) < length (mn_label other) \<and>
            mn_start other \<le> mn_start m \<and> mn_end m \<le> mn_end other) mentions) mentions)
      in filter (\<lambda>option. oo_id option \<in> set unshadowedIds) (ok_observedObjectOptions knowledge))"

definition openingObjectSelectionUniquelyMentioned ::
  "unicode \<Rightarrow> object_option \<Rightarrow> js \<Rightarrow> opening_knowledge \<Rightarrow> bool" where
  "openingObjectSelectionUniquelyMentioned U selected utterance knowledge =
     (case mentionedOpeningObjects U utterance knowledge of
        [option] \<Rightarrow> oo_id option = oo_id selected
      | _ \<Rightarrow> False)"

definition openingUtteranceMatchesObjectFocus ::
  "unicode \<Rightarrow> object_option \<Rightarrow> js \<Rightarrow> opening_knowledge \<Rightarrow> bool" where
  "openingUtteranceMatchesObjectFocus U selected utterance knowledge =
     (case mentionedOpeningObjects U utterance knowledge of
        [] \<Rightarrow> True
      | [option] \<Rightarrow> oo_id option = oo_id selected
      | _ \<Rightarrow> False)"

definition openingObjectSelectionMentioned :: "unicode \<Rightarrow> object_option \<Rightarrow> js \<Rightarrow> bool" where
  "openingObjectSelectionMentioned U selected utterance \<longleftrightarrow>
     validIntentIdentifier (JStr (oo_id selected)) MAX_OBSERVED_OBJECT_VALUE_ID_LENGTH \<noteq> None \<and>
     (let label = stripArticle (normalizeWords U (oo_label selected)) in
      label \<noteq> [] \<and> includesPhrase (normalizeWords U utterance) label)"

end
