(* ===== verification/Opening_Requests.thy ===== *)
theory Opening_Requests
  imports Opening_Area
begin

text \<open>
  The requests the opening command knowledge understands beside a plain command
  (\<open>packages/command-knowledge/src/opening-area.ts\<close>): pending object intents and the replies to
  them, questions about visible content, requests to observe an object, questions that compare
  commands, and the help text.
\<close>

datatype opening_error =
    CommandRefused CanonicalCommandError
  | KnowledgeRefused knowledge_error
  | OpeningTypeError
  | SignalAborted

fun asCommandError :: "CanonicalCommandError + 'a \<Rightarrow> opening_error + 'a" where
  "asCommandError (Inl e) = Inl (CommandRefused e)"
| "asCommandError (Inr x) = Inr x"

section \<open>Pending intents\<close>

definition pendingObjectActions :: "js list" where
  "pendingObjectActions = map js [''examine'', ''open'', ''read'', ''take'']"

definition actionIndex :: "js \<Rightarrow> nat" where
  "actionIndex action = length (takeWhile (\<lambda>a. a \<noteq> action) pendingObjectActions)"

definition validPendingObjectValueId :: "unicode \<Rightarrow> js \<Rightarrow> bool" where
  "validPendingObjectValueId U v \<longleftrightarrow>
     length v \<le> MAX_OBSERVED_OBJECT_VALUE_ID_LENGTH \<and> starts_with v OBSERVED_OBJECT_VALUE_ID_PREFIX \<and>
     (let label = drop (length OBSERVED_OBJECT_VALUE_ID_PREFIX) v in
      label \<noteq> [] \<and> length label \<le> MAX_OBSERVED_OBJECT_LENGTH \<and> label = stripArticle (normalizeWords U label))"

definition validPendingContextualObjectActions :: "js \<times> js \<Rightarrow> bool" where
  "validPendingContextualObjectActions = (\<lambda>(a, b).
     a \<noteq> b \<and> a \<in> set pendingObjectActions \<and> b \<in> set pendingObjectActions \<and> actionIndex a < actionIndex b)"

definition validPendingReadExamineActions :: "js \<times> js \<Rightarrow> bool" where
  "validPendingReadExamineActions pair \<longleftrightarrow> pair = (js ''examine'', js ''read'')"

fun isPendingOpeningObjectIntent :: "unicode \<Rightarrow> pending_intent \<Rightarrow> bool" where
  "isPendingOpeningObjectIntent U (PendingAction action) = (action \<in> set pendingObjectActions)"
| "isPendingOpeningObjectIntent U PendingContentObject = True"
| "isPendingOpeningObjectIntent U (PendingContextualChoice v actions) =
     (validPendingObjectValueId U v \<and> validPendingContextualObjectActions actions)"
| "isPendingOpeningObjectIntent U (PendingReadExamine v actions) =
     (validPendingObjectValueId U v \<and> validPendingReadExamineActions actions)"

definition validCanonicalObservedObjectOption :: "unicode \<Rightarrow> object_option \<Rightarrow> bool" where
  "validCanonicalObservedObjectOption U option \<longleftrightarrow>
     validPendingObjectValueId U (oo_id option) \<and>
     oo_id option = OBSERVED_OBJECT_VALUE_ID_PREFIX @ stripArticle (normalizeWords U (oo_label option))"

definition createContextualChoiceIntent ::
  "unicode \<Rightarrow> object_option \<Rightarrow> js \<times> js \<Rightarrow> opening_error + pending_intent" where
  "createContextualChoiceIntent U selected actions =
     (case actions of (a, b) \<Rightarrow>
        if \<not> validCanonicalObservedObjectOption U selected then Inl OpeningTypeError
        else if a = b \<or> a \<notin> set pendingObjectActions \<or> b \<notin> set pendingObjectActions then Inl OpeningTypeError
        else Inr (PendingContextualChoice (oo_id selected)
               (if actionIndex b < actionIndex a then (b, a) else (a, b))))"

definition createReadExamineChoiceIntent :: "unicode \<Rightarrow> object_option \<Rightarrow> opening_error + pending_intent" where
  "createReadExamineChoiceIntent U selected =
     (if \<not> validCanonicalObservedObjectOption U selected then Inl OpeningTypeError
      else Inr (PendingReadExamine (oo_id selected) (js ''examine'', js ''read'')))"

definition findOption :: "js \<Rightarrow> opening_knowledge \<Rightarrow> object_option option" where
  "findOption v knowledge = find (\<lambda>option. oo_id option = v) (ok_observedObjectOptions knowledge)"

definition resolveContextualChoiceObject ::
  "unicode \<Rightarrow> pending_intent \<Rightarrow> opening_knowledge \<Rightarrow> object_option option" where
  "resolveContextualChoiceObject U intent knowledge =
     (case intent of
        PendingContextualChoice v (a, b) \<Rightarrow>
          if \<not> isPendingOpeningObjectIntent U intent then None
          else
            (case findOption v knowledge of
               None \<Rightarrow> None
             | Some selected \<Rightarrow>
                 if list_all (\<lambda>action.
                      case find (\<lambda>rule. or_id rule = js ''grammar.'' @ action) (ok_rules knowledge) of
                        None \<Rightarrow> False
                      | Some rule \<Rightarrow> or_objectRequired rule \<and>
                          (case or_slots rule of
                             [slot] \<Rightarrow> sd_slotId slot = OPENING_OBJECT_SLOT_ID \<and>
                               oo_id selected \<in> set (sd_allowedValueIds slot)
                           | _ \<Rightarrow> False)) [a, b]
                 then Some selected else None)
      | _ \<Rightarrow> None)"

definition resolveReadExamineChoiceObject ::
  "unicode \<Rightarrow> pending_intent \<Rightarrow> opening_knowledge \<Rightarrow> object_option option" where
  "resolveReadExamineChoiceObject U intent knowledge =
     (case intent of
        PendingReadExamine v _ \<Rightarrow>
          if \<not> isPendingOpeningObjectIntent U intent then None else findOption v knowledge
      | _ \<Rightarrow> None)"

definition pickItUpPattern :: pattern where
  "pickItUpPattern = seqs [edge, lit ''pick '', words [''it'', ''that'', ''this''], lit '' up'', edge]"

definition inferPendingOpeningObjectIntent :: "unicode \<Rightarrow> js \<Rightarrow> pending_intent option" where
  "inferPendingOpeningObjectIntent U utterance =
     (let normalized = normalizeWords U utterance in
      if normalized = [] \<or> appearsMultiStep utterance then None
      else if test (seqs [TextStart, lit ''what does '', opt (lit ''the ''), plus anyPoint, lit '' say'', TextEnd]) normalized
      then Some PendingContentObject
      else
        let actions = remdups
          ((if test pickItUpPattern normalized then [js ''take''] else []) @
           map or_verb (filter (\<lambda>rule. or_objectRequired rule \<and> or_verb rule \<in> set pendingObjectActions \<and>
             list_ex (\<lambda>alias. includesPhrase normalized (normalizeWords U alias)) (or_aliases rule)) RULES)) in
        case actions of
          [action] \<Rightarrow>
            let direct = (case find (\<lambda>rule. or_verb rule = action) RULES of
                  None \<Rightarrow> False
                | Some rule \<Rightarrow>
                    list_ex (directlyRequestsOpeningAction U utterance rule) (map js [''it'', ''this'', ''that''])) in
            if \<not> direct \<and> \<not> (action = js ''take'' \<and>
                 test (seqs [TextStart, lit ''pick '', words [''it'', ''that'', ''this''], lit '' up'', TextEnd]) normalized)
            then None else Some (PendingAction action)
        | _ \<Rightarrow> None)"

definition groundPendingOpeningObjectReply ::
  "unicode \<Rightarrow> pending_intent \<Rightarrow> js \<Rightarrow> opening_knowledge \<Rightarrow> CanonicalCommandError + grounding" where
  "groundPendingOpeningObjectReply U intent utterance knowledge =
     (case intent of
        PendingAction action \<Rightarrow>
          if \<not> isPendingOpeningObjectIntent U intent then Inr (NotGrounded UnsupportedGrammar)
          else
            let object = stripArticle (normalizeWords U utterance) in
            if object = [] \<or> object \<notin> set (ok_observedObjects knowledge) then Inr (NotGrounded UnobservedObject)
            else groundedCommand (action @ js '' '' @ object) (js ''grammar.'' @ action)
      | _ \<Rightarrow> Inr (NotGrounded UnsupportedGrammar))"

definition resolvePendingOpeningContentObjectReply ::
  "unicode \<Rightarrow> pending_intent \<Rightarrow> js \<Rightarrow> opening_knowledge \<Rightarrow> grounding_failure + object_option" where
  "resolvePendingOpeningContentObjectReply U intent utterance knowledge =
     (if intent \<noteq> PendingContentObject then Inl UnsupportedGrammar
      else if appearsMultiStep utterance then Inl NotGroundedInUtterance
      else
        case find (\<lambda>option. oo_label option = stripArticle (normalizeWords U utterance))
               (ok_observedObjectOptions knowledge) of
          None \<Rightarrow> Inl UnobservedObject
        | Some selected \<Rightarrow> Inr selected)"

definition choiceActions :: "unicode \<Rightarrow> js list \<Rightarrow> js \<Rightarrow> object_option \<Rightarrow> js list" where
  \<comment> \<open>the actions a reply states, alone or with the object or a pronoun for it\<close>
  "choiceActions U actions utterance selected =
     filter (\<lambda>action.
       case find (\<lambda>rule. or_verb rule = action) RULES of
         None \<Rightarrow> False
       | Some rule \<Rightarrow>
           (case directOpeningActionBody U utterance of
              None \<Rightarrow> False
            | Some body \<Rightarrow> list_ex (\<lambda>ending. body = action @ ending) suffixes) \<or>
           list_ex (directlyRequestsOpeningAction U utterance rule)
             (oo_label selected # map js [''it'', ''this'', ''that''])) actions"

definition groundChoice ::
  "unicode \<Rightarrow> js list \<Rightarrow> js \<Rightarrow> object_option \<Rightarrow> CanonicalCommandError + grounding" where
  "groundChoice U actions utterance selected =
     (case choiceActions U actions utterance selected of
        [action] \<Rightarrow> groundedCommand (action @ js '' '' @ oo_label selected) (js ''grammar.'' @ action)
      | _ \<Rightarrow> Inr (NotGrounded (if directOpeningActionBody U utterance = None then NotDirectActionRequest
                             else NotGroundedInUtterance)))"

definition groundPendingOpeningReadExamineChoiceReply ::
  "unicode \<Rightarrow> pending_intent \<Rightarrow> js \<Rightarrow> opening_knowledge \<Rightarrow> CanonicalCommandError + grounding" where
  "groundPendingOpeningReadExamineChoiceReply U intent utterance knowledge =
     (case intent of
        PendingReadExamine _ (a, b) \<Rightarrow>
          if \<not> isPendingOpeningObjectIntent U intent then Inr (NotGrounded UnsupportedGrammar)
          else if appearsMultiStep utterance then Inr (NotGrounded NotGroundedInUtterance)
          else
            (case resolveReadExamineChoiceObject U intent knowledge of
               None \<Rightarrow> Inr (NotGrounded UnobservedObject)
             | Some selected \<Rightarrow> groundChoice U [a, b] utterance selected)
      | _ \<Rightarrow> Inr (NotGrounded UnsupportedGrammar))"

definition groundPendingOpeningContextualChoiceReply ::
  "unicode \<Rightarrow> pending_intent \<Rightarrow> js \<Rightarrow> opening_knowledge \<Rightarrow> CanonicalCommandError + grounding" where
  "groundPendingOpeningContextualChoiceReply U intent utterance knowledge =
     (case intent of
        PendingContextualChoice _ _ \<Rightarrow>
          if \<not> isPendingOpeningObjectIntent U intent then Inr (NotGrounded UnsupportedGrammar)
          else if appearsMultiStep utterance then Inr (NotGrounded NotGroundedInUtterance)
          else
            (case resolveContextualChoiceObject U intent knowledge of
               None \<Rightarrow> Inr (NotGrounded UnobservedObject)
             | Some selected \<Rightarrow> groundChoice U pendingObjectActions utterance selected)
      | _ \<Rightarrow> Inr (NotGrounded UnsupportedGrammar))"

section \<open>Questions about content\<close>

definition article :: pattern where "article = opt (words [''a '', ''an '', ''the ''])"

definition whatIs :: pattern where \<comment> \<open>\<open>\bwhat(?:'s| s| is) \<close>\<close>
  "whatIs = seqs [edge, lit ''what'', words [apostrophe @ ''s'', '' s'', '' is''], lit '' '']"

definition hasVisibleContentCue :: "unicode \<Rightarrow> js \<Rightarrow> bool" where
  "hasVisibleContentCue U utterance \<longleftrightarrow>
     (let normalized = normalizeWords U utterance in
      test (seqs [edge, oneOf [words [''say'', ''says'', ''written'', ''writing'', ''words'', ''text''],
              seqs [lit ''content'', opt (lit ''s'')],
              seqs [lit ''contain'', opt (words [''s'', ''ed'', ''ing''])],
              words [''information'', ''inscription'', ''printed'']], edge]) normalized \<or>
      test (seqs [whatIs, words [''in'', ''inside'', ''on''], lit '' '', article, plus anyPoint, TextEnd]) normalized \<or>
      test (seqs [whatIs, oneOf [seqs [lit ''on or '', words [''in'', ''inside'']],
              seqs [words [''in'', ''inside''], lit '' or on'']], lit '' '', article, plus anyPoint, TextEnd]) normalized)"

definition isSingleObjectContentLocationAlternative :: "unicode \<Rightarrow> js \<Rightarrow> object_option \<Rightarrow> bool" where
  "isSingleObjectContentLocationAlternative U utterance selected \<longleftrightarrow>
     (let normalized = normalizeWords U utterance;
          question = (case group 1 (exec (seqs [TextStart, opt (seqs [words [''can'', ''could'', ''would'', ''will''], lit '' you '']),
              politely, lit ''tell me '', Capture 1 (plus anyPoint), TextEnd]) normalized) of
            None \<Rightarrow> normalized | Some q \<Rightarrow> q)
      in list_ex (\<lambda>object. list_ex (\<lambda>place. list_ex (\<lambda>what. question = js what @ js place @ js '' '' @ object)
              [''what'' @ apostrophe @ ''s '', ''what is ''])
            [''on or in'', ''on or inside'', ''in or on'', ''inside or on''])
           (map (normalizeWords U) (objectForms (oo_label selected))))"

definition hasExplicitOpeningCommand :: "unicode \<Rightarrow> js \<Rightarrow> object_option \<Rightarrow> opening_knowledge \<Rightarrow> bool" where
  "hasExplicitOpeningCommand U utterance selected knowledge \<longleftrightarrow>
     openingObjectSelectionMentioned U selected utterance \<and>
     (case directOpeningActionBody U utterance of
        None \<Rightarrow> False
      | Some body \<Rightarrow>
          list_ex (\<lambda>rule. list_ex (\<lambda>alias. body = alias \<or> starts_with body (alias @ js '' '')) (ruleNames U rule))
            (ok_rules knowledge))"

definition identifyNonlexicalOpeningContentRequest ::
  "unicode \<Rightarrow> js \<Rightarrow> opening_knowledge \<Rightarrow> object_option option" where
  "identifyNonlexicalOpeningContentRequest U utterance knowledge =
     (if \<not> hasVisibleContentCue U utterance then None
      else
        case mentionedOpeningObjects U utterance knowledge of
          [selected] \<Rightarrow>
            if appearsMultiStep utterance \<and> \<not> isSingleObjectContentLocationAlternative U utterance selected then None
            else if hasExplicitOpeningCommand U utterance selected knowledge then None
            else Some selected
        | _ \<Rightarrow> None)"

definition parseChoice :: "unicode \<Rightarrow> opening_knowledge \<Rightarrow> js \<Rightarrow> (js \<times> object_option) option" where
  "parseChoice U knowledge choice =
     (let m = exec (seqs [TextStart, Capture 1 (words [''examine'', ''read'']), lit '' '', article,
              Capture 2 (plus anyPoint), TextEnd]) (normalizeWords U choice) in
      case (group 1 m, group 2 m) of
        (Some action, Some object) \<Rightarrow>
          map_option (Pair action) (find (\<lambda>option. object = oo_label option) (ok_observedObjectOptions knowledge))
      | _ \<Rightarrow> None)"

definition identifyOpeningReadExamineClarificationChoice ::
  "unicode \<Rightarrow> js list option \<Rightarrow> js \<Rightarrow> opening_knowledge \<Rightarrow> object_option option" where
  "identifyOpeningReadExamineClarificationChoice U choices utterance knowledge =
     (case choices of
        Some [c, d] \<Rightarrow>
          if has_control c \<or> has_control d then None
          else
            (case (parseChoice U knowledge c, parseChoice U knowledge d) of
               (Some (a, option), Some (b, option')) \<Rightarrow>
                 if a = b \<or> oo_id option \<noteq> oo_id option' then None
                 else
                   (case mentionedOpeningObjects U utterance knowledge of
                      [mentioned] \<Rightarrow> if oo_id mentioned \<noteq> oo_id option then None else Some option
                    | _ \<Rightarrow> None)
             | _ \<Rightarrow> None)
      | _ \<Rightarrow> None)"

definition readExamineId :: "js \<Rightarrow> bool" where
  "readExamineId ruleId \<longleftrightarrow> ruleId = js ''grammar.read'' \<or> ruleId = js ''grammar.examine''"

definition resolveReadExamineAmbiguityCandidate ::
  "unicode \<Rightarrow> jsval \<Rightarrow> opening_knowledge \<Rightarrow> CanonicalCommandError + (js \<times> js \<times> object_option) option" where
  "resolveReadExamineAmbiguityCandidate U proposal knowledge =
     (case proposal of
        JStr s \<Rightarrow>
          Inr (case groundOpeningCommand U proposal s knowledge of
            Inr (Grounded command ruleId) \<Rightarrow>
              if \<not> readExamineId ruleId then None
              else
                map_option (\<lambda>selected. (command, ruleId, selected))
                  (find (\<lambda>option. command =
                     (if ruleId = js ''grammar.read'' then js ''read'' else js ''examine'') @ js '' '' @ oo_label option)
                    (ok_observedObjectOptions knowledge))
          | _ \<Rightarrow> None)
      | _ \<Rightarrow>
          bindE (resolveOpeningCommandIntent proposal knowledge) (\<lambda>resolution.
          Inr (case resolution of
            Resolved command ruleId _ _ (Some selected) \<Rightarrow>
              if readExamineId ruleId then Some (command, ruleId, selected) else None
          | _ \<Rightarrow> None)))"

definition identifyNonlexicalOpeningReadExamineAmbiguity ::
  "unicode \<Rightarrow> jsval \<Rightarrow> js \<Rightarrow> opening_knowledge \<Rightarrow> CanonicalCommandError + object_option option" where
  "identifyNonlexicalOpeningReadExamineAmbiguity U proposal utterance knowledge =
     bindE (resolveReadExamineAmbiguityCandidate U proposal knowledge) (\<lambda>candidate.
     case candidate of
       None \<Rightarrow> Inr None
     | Some (command, ruleId, selected) \<Rightarrow>
         bindE (groundOpeningCommand U (JStr command) utterance knowledge) (\<lambda>lexical.
         Inr (case mentionedOpeningObjects U utterance knowledge of
             [mentioned] \<Rightarrow>
               if lexical \<noteq> NotGrounded NotGroundedInUtterance \<or> oo_id mentioned \<noteq> oo_id selected \<or>
                  (ruleId = js ''grammar.examine'' \<and> \<not> hasVisibleContentCue U utterance)
               then None else Some selected
           | _ \<Rightarrow> None)))"

definition identifyNonlexicalOpeningReadAmbiguity ::
  "unicode \<Rightarrow> jsval \<Rightarrow> js \<Rightarrow> opening_knowledge \<Rightarrow> CanonicalCommandError + object_option option" where
  "identifyNonlexicalOpeningReadAmbiguity U proposal utterance knowledge =
     bindE (resolveReadExamineAmbiguityCandidate U proposal knowledge) (\<lambda>candidate.
     case candidate of
       Some (_, ruleId, _) \<Rightarrow>
         if ruleId = js ''grammar.read'' then identifyNonlexicalOpeningReadExamineAmbiguity U proposal utterance knowledge
         else Inr None
     | None \<Rightarrow> Inr None)"

definition groundObservedObjectContentQuestion ::
  "unicode \<Rightarrow> js \<Rightarrow> opening_knowledge \<Rightarrow> CanonicalCommandError + grounding" where
  "groundObservedObjectContentQuestion U utterance knowledge =
     (if appearsMultiStep utterance then Inr (NotGrounded NotGroundedInUtterance)
      else
        case group 1 (exec (seqs [TextStart, lit ''what does '', opt (lit ''the ''), Capture 1 (plus anyPoint), lit '' say'',
               TextEnd]) (normalizeWords U utterance)) of
          None \<Rightarrow> Inr (NotGrounded NotGroundedInUtterance)
        | Some object \<Rightarrow>
            if object = [] then Inr (NotGrounded NotGroundedInUtterance)
            else if object \<notin> set (ok_observedObjects knowledge) then Inr (NotGrounded UnobservedObject)
            else groundedCommand (js ''examine '' @ object) (js ''grammar.examine''))"

section \<open>Requests for options and observations\<close>

definition scopedOptionQuestions :: "js list" where
  "scopedOptionQuestions = map js
     [''what actions are available'', ''what action options are available'', ''what are the action options'',
      ''what can i do'', ''what can i try'', ''what are my options'']"

definition openingActionOptionsRequested :: "unicode \<Rightarrow> js \<Rightarrow> bool" where
  "openingActionOptionsRequested U utterance \<longleftrightarrow>
     normalizeWords U utterance \<in> set (js ''what can i do here'' # scopedOptionQuestions)"

definition openingScopedActionOptionsRequested :: "unicode \<Rightarrow> js \<Rightarrow> bool" where
  "openingScopedActionOptionsRequested U utterance \<longleftrightarrow> normalizeWords U utterance \<in> set scopedOptionQuestions"

definition allWords :: pattern where "allWords = words [''all'', ''every'', ''everything'']"

definition optionWords :: pattern where
  "optionWords = oneOf (map (\<lambda>w. seqs [lit w, opt (lit ''s'')]) [''action'', ''command'', ''option''])"

definition openingGlobalActionHelpScopeRequested :: "unicode \<Rightarrow> js \<Rightarrow> bool" where
  "openingGlobalActionHelpScopeRequested U utterance \<longleftrightarrow>
     (let normalized = normalizeWords U utterance in
      test (seqs [edge, words [''here'', ''around here'', ''overall'', ''generally'', ''in general''], edge]) normalized \<or>
      test (seqs [edge, allWords, edge, Star anyPoint, edge, optionWords, edge]) normalized \<or>
      test (seqs [edge, optionWords, edge, Star anyPoint, edge, allWords, edge]) normalized)"

definition openingActionsMentioned :: "unicode \<Rightarrow> js \<Rightarrow> js list \<Rightarrow> bool" where
  "openingActionsMentioned U utterance actions \<longleftrightarrow>
     (let normalized = normalizeWords U utterance in
      (js ''take'' \<in> set actions \<and> test pickItUpPattern normalized) \<or>
      list_ex (\<lambda>rule. or_verb rule \<in> set actions \<and> list_ex (includesPhrase normalized) (ruleNames U rule)) RULES)"

definition openingObjectActionMentioned :: "unicode \<Rightarrow> js \<Rightarrow> bool" where
  "openingObjectActionMentioned U utterance = openingActionsMentioned U utterance pendingObjectActions"

definition openingReadExamineActionMentioned :: "unicode \<Rightarrow> js \<Rightarrow> bool" where
  "openingReadExamineActionMentioned U utterance =
     openingActionsMentioned U utterance (map js [''examine'', ''read''])"

definition questionFrames :: "js \<Rightarrow> js list" where
  "questionFrames object = map (\<lambda>(before, after). js before @ object @ js after)
     [(''what does '', '' look like''), (''what is '', '' like''), (''what'' @ apostrophe @ ''s '', '' like''),
      (''how does '', '' look''), (''how does '', '' appear''), (''what can you tell me about '', ''''),
      (''what could you tell me about '', ''''), (''what details can you give me about '', ''''),
      (''how would you describe '', ''''), (''what can i see on '', '''')]"

definition directFrames :: "js \<Rightarrow> js list" where
  "directFrames object = map (\<lambda>(before, after). js before @ object @ js after)
     [(''look at '', ''''), (''look closely at '', ''''), (''look more closely at '', ''''), (''look closer at '', ''''),
      (''look over '', ''''), (''take a look at '', ''''), (''take a closer look at '', ''''),
      (''take a good look at '', ''''), (''get a closer look at '', ''''), (''get a better look at '', ''''),
      (''have a look at '', ''''), (''have a closer look at '', ''''), (''check out '', ''''), (''check '', '' out''),
      (''see what '', '' looks like''), (''examine '', ''''), (''inspect '', ''''), (''observe '', ''''), (''view '', ''''),
      (''study '', ''''), (''describe '', ''''), (''show me '', ''''), (''show me what '', '' looks like''),
      (''tell me about '', ''''), (''tell me more about '', ''''), (''tell me what '', '' looks like''),
      (''tell me what you see on '', ''''), (''give me a description of '', ''''), (''give me details about '', ''''),
      (''know more about '', '''')]"

definition openingObjectObservationDirectlyRequested ::
  "unicode \<Rightarrow> object_option \<Rightarrow> js \<Rightarrow> opening_knowledge \<Rightarrow> bool" where
  "openingObjectObservationDirectlyRequested U selected utterance knowledge \<longleftrightarrow>
     (if \<not> openingObjectSelectionUniquelyMentioned U selected utterance knowledge \<or> containsQuotedDiscussion U utterance \<or>
         containsConditionalOrExcludedTarget utterance \<or> appearsMultiStep utterance
      then False
      else
        let body = directOpeningActionBody U utterance;
            examine = find (\<lambda>rule. or_id rule = js ''grammar.examine'') RULES;
            forms = map (normalizeWords U) (objectForms (oo_label selected)) in
        case (body, examine) of
          (Some b, Some rule) \<Rightarrow>
            if list_ex (\<lambda>alias. b = alias \<or> starts_with b (alias @ js '' '')) (ruleNames U rule)
            then directlyRequestsOpeningAction U utterance rule (oo_label selected)
            else normalizeWords U utterance \<in> set (concat (map questionFrames forms)) \<or>
                 dropSuffix b \<in> set (concat (map directFrames forms))
        | _ \<Rightarrow> normalizeWords U utterance \<in> set (concat (map questionFrames forms)))"

end
