(* ===== verification/Opening_Questions.thy ===== *)
theory Opening_Questions
  imports Opening_Requests
begin

text \<open>
  Questions that compare or ask about commands, and the help text they are answered with
  (\<open>resolveOpeningCommandComparisonQuestion\<close> and \<open>openingCommandHelp\<close> of \<open>opening-area.ts\<close>).
\<close>

section \<open>Patterns\<close>

definition letters :: "unicode \<Rightarrow> nat \<Rightarrow> pattern" where \<comment> \<open>\<open>(\p{L}+)\<close> as group \<open>n\<close>\<close>
  "letters U n = Capture n (plus (Point (uc_letter U)))"

definition someLetters :: "unicode \<Rightarrow> pattern" where "someLetters U = plus (Point (uc_letter U))"

definition rest :: "nat \<Rightarrow> pattern" where "rest n = Capture n (plus anyPoint)"

definition maybeThe :: pattern where "maybeThe = opt (lit ''the '')"

definition forWith :: "nat \<Rightarrow> pattern" where \<comment> \<open>\<open>(?: (?:for|with) (?:the )?(.+))?\<close>\<close>
  "forWith n = opt (seqs [lit '' '', words [''for'', ''with''], lit '' '', maybeThe, rest n])"

definition objectTail :: "nat \<Rightarrow> pattern" where \<comment> \<open>\<open>(?: (?:the )?(.+))?\<close>\<close>
  "objectTail n = opt (seqs [lit '' '', maybeThe, rest n])"

definition comparatives :: pattern where
  "comparatives = words [''safer'', ''better'', ''worse'', ''more useful'', ''less risky'']"

definition effects :: pattern where "effects = words [''take'', ''move'', ''open'', ''change'', ''affect'']"

definition whole :: "pattern list \<Rightarrow> pattern" where "whole xs = seqs (TextStart # xs @ [TextEnd])"

definition twoCommandMetaQuestionPatterns :: "unicode \<Rightarrow> pattern list" where
  "twoCommandMetaQuestionPatterns U =
     [whole [oneOf [seqs [lit ''what'', words [apostrophe @ ''s'', '' is''], lit '' '', maybeThe, lit ''difference between''],
                    seqs [lit ''explain '', maybeThe, lit ''difference between'']],
             lit '' '', letters U 1, lit '' and '', letters U 2],
      whole [maybeThe, lit ''difference between '', letters U 1, lit '' and '', letters U 2],
      whole [lit ''how '', opt (lit ''exactly ''), words [''do'', ''does''], lit '' '', letters U 1, lit '' and '', letters U 2,
             lit '' differ''],
      whole [lit ''how '', opt (lit ''exactly ''), words [''do'', ''does''], lit '' '', letters U 1, lit '' differ from '',
             letters U 2],
      whole [lit ''compare '', letters U 1, lit '' '', words [''and'', ''with'', ''to'', ''versus'', ''vs''], lit '' '', letters U 2],
      whole [letters U 1, lit '' '', words [''versus'', ''vs''], lit '' '', letters U 2],
      whole [lit ''should i '', letters U 1, lit '' or '', letters U 2, objectTail 3],
      whole [lit ''is '', letters U 1, lit '' '', comparatives, lit '' than '', letters U 2, forWith 3],
      whole [lit ''is '', letters U 1, lit '' different from '', letters U 2, forWith 3]]"

definition insteadOfPattern :: "unicode \<Rightarrow> pattern" where
  "insteadOfPattern U =
     whole [lit ''should i '', letters U 1, lit '' '', maybeThe, rest 2, lit '' instead of '', letters U 3, lit '' '',
       words [''it'', ''that'', ''this'', ''them'', ''those'', ''these'']]"

definition singleCommandPatterns :: "unicode \<Rightarrow> pattern list" where
  "singleCommandPatterns U =
     [whole [lit ''what does '', letters U 1, lit '' do'',
             opt (seqs [lit '' '', words [''with'', ''to''], lit '' '', maybeThe, rest 2])],
      whole [lit ''does '', letters U 1, lit '' '', opt (lit ''implicitly ''), effects, lit '' '', maybeThe, rest 2],
      whole [words [''should'', ''can'', ''could''], lit '' i '', letters U 1, objectTail 2],
      whole [lit ''would it be '', words [''safer'', ''better'', ''worse''], lit '' to '', letters U 1, objectTail 2],
      whole [lit ''what would happen if i '', letters U 1, objectTail 2]]"

definition questionWrap :: pattern where
  "questionWrap = seqs [TextStart,
     opt (seqs [oneOf [seqs [words [''can'', ''could'', ''would'', ''will''], lit '' you''], lit ''please''], lit '' '']),
     opt (lit ''please ''), words [''tell'', ''explain''], lit '' me '']"

section \<open>Parsing\<close>

text \<open>The verbs asked about, in order, and the object the question names.\<close>

type_synonym meta_question = "js list \<times> js option"

fun firstPair :: "js \<Rightarrow> pattern list \<Rightarrow> meta_question option" where
  "firstPair s [] = None"
| "firstPair s (p # ps) =
     (let m = exec p s in
      case (group 1 m, group 2 m) of
        (Some a, Some b) \<Rightarrow> Some ([a, b], group 3 m)
      | _ \<Rightarrow> firstPair s ps)"

fun firstSingle :: "js \<Rightarrow> pattern list \<Rightarrow> meta_question option" where
  "firstSingle s [] = None"
| "firstSingle s (p # ps) =
     (let m = exec p s in
      case group 1 m of Some a \<Rightarrow> Some ([a], group 2 m) | None \<Rightarrow> firstSingle s ps)"

definition parseOpeningCommandMetaQuestion :: "unicode \<Rightarrow> js \<Rightarrow> meta_question option" where
  "parseOpeningCommandMetaQuestion U normalized =
     (case firstPair (replaceFirst questionWrap [] normalized) (twoCommandMetaQuestionPatterns U) of
        Some q \<Rightarrow> Some q
      | None \<Rightarrow>
          let m = exec (insteadOfPattern U) normalized in
          case (group 1 m, group 2 m, group 3 m) of
            (Some a, Some target, Some b) \<Rightarrow> Some ([a, b], Some target)
          | _ \<Rightarrow> firstSingle normalized (singleCommandPatterns U))"

definition inflectedCommandVerbs :: "(js \<times> js) list" where
  "inflectedCommandVerbs = map (\<lambda>(a, b). (js a, js b))
     [(''examining'', ''examine''), (''looking'', ''look''), (''opening'', ''open''), (''reading'', ''read''),
      (''taking'', ''take'')]"

text \<open>
  The lookup table is an object literal.  Of the names it inherits only \<open>constructor\<close> is a word of
  letters in lower case; the value found for it is no string, and normalizing it as one throws.
\<close>

definition inheritedName :: js where "inheritedName = js ''constructor''"

definition resolveMetaCommandRule :: "unicode \<Rightarrow> js \<Rightarrow> opening_knowledge \<Rightarrow> opening_error + opening_rule option" where
  "resolveMetaCommandRule U verb knowledge =
     (if verb = inheritedName
      then (if list_ex (\<lambda>rule. or_aliases rule \<noteq> []) (ok_rules knowledge) then Inl OpeningTypeError else Inr None)
      else
        let canonicalVerb = (case map_of inflectedCommandVerbs verb of Some v \<Rightarrow> v | None \<Rightarrow> verb) in
        Inr (find (\<lambda>rule. or_verb rule = canonicalVerb \<or>
          list_ex (\<lambda>alias. normalizeWords U alias = normalizeWords U canonicalVerb) (or_aliases rule)) (ok_rules knowledge)))"

definition validMetaQuestionTarget :: "unicode \<Rightarrow> js option \<Rightarrow> opening_knowledge \<Rightarrow> bool" where
  "validMetaQuestionTarget U target knowledge =
     (case target of
        None \<Rightarrow> True
      | Some t \<Rightarrow>
          let normalizedTarget = stripArticle (normalizeWords U t) in
          normalizedTarget \<in> set (map js [''it'', ''that'', ''this'', ''them'', ''those'', ''these'']) \<or>
          normalizedTarget \<in> set (ok_observedObjects knowledge))"

definition mentionedMetaCommandSourceIds :: "unicode \<Rightarrow> js \<Rightarrow> opening_knowledge \<Rightarrow> js list" where
  "mentionedMetaCommandSourceIds U normalized knowledge =
     map or_id (filter (\<lambda>rule. list_ex (includesPhrase normalized) (ruleNames U rule)) (ok_rules knowledge))"

datatype comparison = ComparisonResolved "js list" | ComparisonInvalid | NotComparison

definition asksComparison :: "unicode \<Rightarrow> js \<Rightarrow> bool" where
  "asksComparison U normalized \<longleftrightarrow>
     test (seqs [edge, words [''difference'', ''differ'', ''compare'', ''versus'', ''vs''], edge]) normalized \<or>
     test (seqs [TextStart, words [''should'', ''can'', ''could''], lit '' i'', edge]) normalized \<or>
     test (seqs [TextStart, lit ''what does '', someLetters U, lit '' do'', edge]) normalized \<or>
     test (seqs [TextStart, lit ''does '', someLetters U, lit '' '', opt (lit ''implicitly ''), effects, edge]) normalized \<or>
     test (seqs [TextStart, lit ''is '', someLetters U, lit '' '', comparatives, lit '' than'', edge]) normalized \<or>
     test (seqs [TextStart, lit ''is '', someLetters U, lit '' different from'', edge]) normalized \<or>
     test (seqs [TextStart, lit ''would it be '', words [''safer'', ''better'', ''worse''], lit '' to'', edge]) normalized \<or>
     test (seqs [TextStart, lit ''what would happen if i'', edge]) normalized"

definition asksPair :: "js \<Rightarrow> bool" where
  "asksPair normalized \<longleftrightarrow>
     test (seqs [edge, words [''difference'', ''differ'', ''compare'', ''versus'', ''vs''], edge]) normalized"

definition comparedSources :: "unicode \<Rightarrow> js list \<Rightarrow> opening_knowledge \<Rightarrow> opening_error + comparison" where
  "comparedSources U verbs knowledge =
     (case mapE (\<lambda>verb. resolveMetaCommandRule U verb knowledge) verbs of
        Inl e \<Rightarrow> Inl e
      | Inr selectedRules \<Rightarrow>
          Inr (if None \<in> set selectedRules then ComparisonInvalid
            else
              let selectedIds = remdups (map (\<lambda>rule. or_id (the rule)) selectedRules) in
              if length selectedIds \<noteq> length verbs then ComparisonInvalid
              else
                let sourceIds = map or_id (filter (\<lambda>rule. or_id rule \<in> set selectedIds) (ok_rules knowledge)) in
                if length sourceIds \<noteq> length verbs then ComparisonInvalid else ComparisonResolved sourceIds))"

definition resolveOpeningCommandComparisonQuestion ::
  "unicode \<Rightarrow> js \<Rightarrow> opening_knowledge \<Rightarrow> opening_error + comparison" where
  "resolveOpeningCommandComparisonQuestion U utterance knowledge =
     (let normalized = normalizeWords U utterance in
      if \<not> asksComparison U normalized then Inr NotComparison
      else if test (Alt separatorPattern (seqs [edge_i, words_i [''then'', ''after that'', ''followed by''], edge_i])) utterance
      then Inr ComparisonInvalid
      else
        case parseOpeningCommandMetaQuestion U normalized of
          None \<Rightarrow>
            let mentioned = mentionedMetaCommandSourceIds U normalized knowledge; pair = asksPair normalized in
            if length mentioned = (if pair then 2 else 1) \<or> (\<not> pair \<and> length mentioned = 2)
            then Inr (ComparisonResolved mentioned) else Inr ComparisonInvalid
        | Some (verbs, target) \<Rightarrow>
            if \<not> validMetaQuestionTarget U target knowledge then Inr ComparisonInvalid
            else comparedSources U verbs knowledge)"

section \<open>Help\<close>

definition upper_unit :: "code_unit \<Rightarrow> code_unit" where \<comment> \<open>\<open>toUpperCase\<close> on the verbs, which are ASCII\<close>
  "upper_unit u = (if 0x61 \<le> u \<and> u \<le> 0x7A then u - 0x20 else u)"

fun joined :: "js \<Rightarrow> js list \<Rightarrow> js" where \<comment> \<open>\<open>join\<close>\<close>
  "joined sep [] = []"
| "joined sep [s] = s"
| "joined sep (s # t # ss) = s @ sep @ joined sep (t # ss)"

definition readExamineHelp :: js where
  "readExamineHelp = js ''EXAMINE inspects an observed object without taking it. READ asks the parser to read the object and may implicitly take it.''"

definition openingCommandHelp :: "opening_knowledge \<Rightarrow> js list \<Rightarrow> opening_error + js" where
  "openingCommandHelp knowledge sourceIds =
     (if sourceIds = [] \<or> list_ex (\<lambda>i. i \<notin> set (ok_sourceIds knowledge)) sourceIds then Inl OpeningTypeError
      else
        if length (remdups sourceIds) = 2 \<and> js ''grammar.examine'' \<in> set sourceIds \<and> js ''grammar.read'' \<in> set sourceIds
        then Inr readExamineHelp
        else
          let selectedRules = filter (\<lambda>rule. or_id rule \<in> set sourceIds) (ok_rules knowledge);
              ruleHelp = joined (js '' '')
                (map (\<lambda>rule. map upper_unit (or_verb rule) @ js '': '' @ or_semanticDescription rule) selectedRules);
              objectContext =
                (if list_ex or_objectRequired selectedRules
                 then (if ok_observedObjects knowledge = []
                       then js '' No observed objects are currently available for those commands.''
                       else js '' Observed objects currently available: '' @ joined (js '', '') (ok_observedObjects knowledge) @ js ''.'')
                 else [])
          in Inr (ruleHelp @ objectContext))"

definition openingHelp :: "opening_knowledge \<Rightarrow> js" where \<comment> \<open>without source ids\<close>
  "openingHelp knowledge =
     js ''You can look, check inventory, or try a direction such as north, south, east, west, up, or down.'' @
     (if ok_observedObjects knowledge = [] then []
      else js '' For things already mentioned'' @ [0x2014] @ joined (js '', '') (ok_observedObjects knowledge) @ [0x2014] @
        js ''you can try examine, open, read, or take.'')"

end
