(* ===== verification/Guide_Policy.thy ===== *)
theory Guide_Policy
  imports Opening_Questions
begin

text \<open>
  The initial guide (\<open>packages/guide-core/src/initial-guide.ts\<close>): one turn is decided from the
  player's words, the command knowledge and, when these do not settle it, the answer of a model.
  \<open>decideInitialGuideTurn\<close> runs to the model's \<open>await\<close>; \<open>resumeGuideTurn\<close> is the rest.
\<close>

section \<open>Context\<close>

definition INITIAL_EXECUTE_CONFIDENCE :: rat where "INITIAL_EXECUTE_CONFIDENCE = 4 / 5"
definition INITIAL_TRANSCRIPT_CONFIDENCE :: rat where "INITIAL_TRANSCRIPT_CONFIDENCE = 3 / 4"

record action_suggestion = \<comment> \<open>\<open>OpeningSceneObjectActionSuggestion\<close>\<close>
  as_selectedObject :: object_option
  as_suggestedActions :: "js \<times> js"

text \<open>
  What the guide asks of the observed-world and opening-scene projections, whose types are
  parameters as in the coordinator.
\<close>

record ('w, 'c) guide_context =
  gc_isScene :: "'c \<Rightarrow> bool"
  gc_sceneLabels :: "'c \<Rightarrow> js list"
  gc_recentFocus :: "'c \<Rightarrow> object_option option" \<comment> \<open>the entity \<open>recentObjectFocus\<close> names\<close>
  gc_suggestion :: "'c \<Rightarrow> js \<Rightarrow> action_suggestion option"
  gc_pendingSuggestion :: "'c \<Rightarrow> pending_intent \<Rightarrow> action_suggestion option"
  gc_guidance :: "js \<Rightarrow> 'c \<Rightarrow> (js \<times> explain_basis \<times> js list) option"
  gc_isWorld :: "'w \<Rightarrow> bool"
  gc_worldObjects :: "'w \<Rightarrow> js list" \<comment> \<open>\<open>currentObjects\<close>\<close>
  gc_recentEntity :: "'w \<Rightarrow> js option" \<comment> \<open>its label\<close>
  gc_currentEntity :: "'w \<Rightarrow> js \<Rightarrow> js list option" \<comment> \<open>its source events\<close>

section \<open>Clarifications\<close>

definition clarification :: "js \<Rightarrow> string \<Rightarrow> pending_intent option \<Rightarrow> js list option \<Rightarrow> guide_result" where
  "clarification question ambiguity pendingIntent choices = GuideClarify question (js ambiguity) choices pendingIntent"

definition isReadExamineChoice :: "js \<times> js \<Rightarrow> bool" where
  "isReadExamineChoice actions \<longleftrightarrow> actions = (js ''examine'', js ''read'')"

definition actionDescription :: "bool \<Rightarrow> js \<Rightarrow> opening_error + js" where
  "actionDescription readExamine action =
     (if action = js ''examine''
      then Inr (js (if readExamine then ''EXAMINE inspects it without taking it'' else ''EXAMINE inspects it without changing it''))
      else if action = js ''open'' then Inr (js ''OPEN tries to open it'')
      else if action = js ''read'' then Inr (js ''READ asks the game to read it and may take it'')
      else if action = js ''take'' then Inr (js ''TAKE tries to take it'')
      else Inl OpeningTypeError)"

definition initialActionPhrase :: "bool \<Rightarrow> js \<Rightarrow> js \<Rightarrow> opening_error + js" where
  "initialActionPhrase readExamine label action =
     (if action = js ''examine''
      then Inr (js ''examine the '' @ label @ js (if readExamine then '' without taking it'' else '' without changing it''))
      else if action = js ''open'' then Inr (js ''try to open it'')
      else if action = js ''read'' then Inr (js ''use READ, which may take it'')
      else if action = js ''take'' then Inr (js ''try to take it'')
      else Inl OpeningTypeError)"

definition contextualActionChoiceClarification ::
  "unicode \<Rightarrow> action_suggestion \<Rightarrow> bool \<Rightarrow> opening_error + guide_result" where
  \<comment> \<open>the flag is the style: \<open>"options"\<close> instead of \<open>"initial"\<close>\<close>
  "contextualActionChoiceClarification U suggestion asOptions =
     (case as_suggestedActions suggestion of (first, second) \<Rightarrow>
        let label = oo_label (as_selectedObject suggestion);
            readExamine = isReadExamineChoice (first, second);
            question =
              (if asOptions
               then bindE (actionDescription readExamine first) (\<lambda>a. bindE (actionDescription readExamine second) (\<lambda>b.
                 Inr (js ''For the '' @ label @ js '', '' @ a @ js ''; '' @ b @ js ''. Which should I try?'')))
               else bindE (initialActionPhrase readExamine label first) (\<lambda>a. bindE (initialActionPhrase readExamine label second) (\<lambda>b.
                 Inr (js ''Would you like me to '' @ a @ js '', or '' @ b @ js ''?''))))
        in bindE question (\<lambda>q.
           bindE (createContextualChoiceIntent U (as_selectedObject suggestion) (first, second)) (\<lambda>intent.
           Inr (clarification q
             (if readExamine
              then ''The request could mean a non-taking EXAMINE action or the parser's READ action, which may implicitly take the object.''
              else ''The current scene offers two useful attempts, but neither is the only parser command the player may explicitly request.'')
             (Some intent) (Some [first @ js '' '' @ label, second @ js '' '' @ label])))))"

definition contextualContentClarification ::
  "unicode \<Rightarrow> ('w, 'c) guide_context \<Rightarrow> object_option \<Rightarrow> 'c option \<Rightarrow> opening_error + guide_result" where
  "contextualContentClarification U G selected scene =
     (case Option.bind scene (\<lambda>s. gc_suggestion G s (oo_id selected)) of
        None \<Rightarrow> Inr (clarification (js ''What single action would you like me to try with the '' @ oo_label selected @ js ''?'')
          ''The current scene does not provide two source-backed contextual suggestions for that object.'' None None)
      | Some suggestion \<Rightarrow> contextualActionChoiceClarification U suggestion False)"

definition exactlyContextualSuggestionSources :: "js list \<Rightarrow> action_suggestion \<Rightarrow> bool" where
  "exactlyContextualSuggestionSources sourceIds suggestion \<longleftrightarrow>
     length sourceIds = 2 \<and>
     (case as_suggestedActions suggestion of (a, b) \<Rightarrow>
        js ''grammar.'' @ a \<in> set sourceIds \<and> js ''grammar.'' @ b \<in> set sourceIds)"

definition readExamineOptionsClarification :: "unicode \<Rightarrow> object_option \<Rightarrow> opening_error + guide_result" where
  "readExamineOptionsClarification U selected =
     bindE (createReadExamineChoiceIntent U selected) (\<lambda>intent.
       Inr (clarification
         (js ''For the '' @ oo_label selected @
          js '', EXAMINE inspects it without taking it; READ asks the game to read it and may take it. Which should I try?'')
         ''The active object has two distinct parser actions with different effects.'' (Some intent)
         (Some [js ''examine '' @ oo_label selected, js ''read '' @ oo_label selected])))"

definition exactlyReadExamineSources :: "js list \<Rightarrow> bool" where
  "exactlyReadExamineSources sourceIds \<longleftrightarrow>
     length sourceIds = 2 \<and> js ''grammar.examine'' \<in> set sourceIds \<and> js ''grammar.read'' \<in> set sourceIds"

definition genericProviderClarification :: "pending_intent option \<Rightarrow> guide_result" where
  "genericProviderClarification pendingIntent =
     clarification (js ''Could you say which single action you want me to try?'')
       ''The request has more than one safely grounded interpretation.'' pendingIntent None"

section \<open>The focused observation\<close>

definition normalizedUtterance :: "unicode \<Rightarrow> js \<Rightarrow> js" where \<comment> \<open>of \<open>opening-scene.ts\<close>\<close>
  "normalizedUtterance U value =
     collapse_spaces (trim
       (replaceAll (plus (Point (\<lambda>p. \<not> (uc_letter U p \<or> uc_number U p \<or> p = 0x27)))) (js '' '')
         (replaceAll (Point (\<lambda>p. p = 0x2019)) [0x27] (uc_lower U (uc_nfkc U value)))))"

definition reverseSurfaceQuestions :: "js list" where
  "reverseSurfaceQuestions = map js
     [''is there anything on the back'', ''is there something on the back'', ''is anything on the back'',
      ''is anything written on the back'', ''is anything printed on the back'', ''what is on the back'',
      ''what'' @ apostrophe @ ''s on the back'', ''does it have anything on the back'',
      ''is there anything on the other side'', ''is anything on the other side'',
      ''what is on the other side'', ''what'' @ apostrophe @ ''s on the other side'']"

definition focusedObservation ::
  "unicode \<Rightarrow> ('w, 'c) guide_context \<Rightarrow> js \<Rightarrow> 'c \<Rightarrow> CanonicalCommandError + (js \<times> object_option) option" where
  \<comment> \<open>\<open>resolveOpeningSceneFocusedObservationRequest\<close>: command and object\<close>
  "focusedObservation U G utterance scene =
     (if \<not> gc_isScene G scene then Inr None
      else
        case gc_recentFocus G scene of
          None \<Rightarrow> Inr None
        | Some focusedEntity \<Rightarrow>
            if normalizedUtterance U utterance \<notin> set reverseSurfaceQuestions then Inr None
            else bindE (canonicalizeCommand (JStr (js ''examine '' @ oo_label focusedEntity))) (\<lambda>command.
              Inr (Some (command, focusedEntity))))"

section \<open>Tests on the utterance\<close>

definition containsNegation :: "js \<Rightarrow> bool" where
  "containsNegation utterance \<longleftrightarrow>
     test (seqs [edge_i, words_i [''do not'', ''don'' @ apostrophe @ ''t'', ''dont'', ''never'', ''not''], edge_i]) utterance"

definition helpQuestionPattern :: pattern where
  "helpQuestionPattern = seqs [TextStart,
     oneOf [seqs [lit ''what can i '', words [''do'', ''try'']],
            seqs [lit ''what are my '', words [''options'', ''choices'']],
            seqs [lit ''what action'', opt (lit ''s''), lit '' '', words [''can i'', ''could i''], lit '' '', words [''do'', ''try'']]],
     words ['' with'', '' to'', '' for'', '' on'', '' about''], lit '' '']"

definition objectScopedActionHelpTarget :: "unicode \<Rightarrow> js \<Rightarrow> opening_knowledge \<Rightarrow> object_option option" where
  "objectScopedActionHelpTarget U utterance knowledge =
     (let normalized = trim (replaceAll (plus (Point (\<lambda>p. \<not> (uc_letter U p \<or> uc_number U p \<or> p = 0x27 \<or> p = 0x2D))))
            (js '' '') (uc_lower U (uc_nfkc U utterance))) in
      if \<not> test helpQuestionPattern normalized then None
      else
        case filter (\<lambda>object. openingObjectSelectionUniquelyMentioned U object utterance knowledge)
               (ok_observedObjectOptions knowledge) of
          [object] \<Rightarrow> Some object
        | _ \<Rightarrow> None)"

definition stripMarks :: "js \<Rightarrow> js" where \<comment> \<open>\<open>replace(/[.!?]+$/u, "")\<close>\<close>
  "stripMarks s = replaceFirst (seqs [plus (Point (\<lambda>p. p = 0x2E \<or> p = 0x21 \<or> p = 0x3F)), TextEnd]) [] s"

definition itPattern :: pattern where "itPattern = seqs [edge_i, lit_i ''it'', edge_i]"

definition groundRecentObservedObjectReference ::
  "unicode \<Rightarrow> ('w, 'c) guide_context \<Rightarrow> js \<Rightarrow> opening_knowledge \<Rightarrow> 'w \<Rightarrow>
   CanonicalCommandError + (js \<times> js \<times> js) option" where
  \<comment> \<open>command, rule and label; a label is a word, so it holds no \<open>$\<close> that \<open>replace\<close> would expand\<close>
  "groundRecentObservedObjectReference U G utterance knowledge world =
     (case gc_recentEntity G world of
        None \<Rightarrow> Inr None
      | Some label \<Rightarrow>
          if label \<notin> set (gc_worldObjects G world) \<or> \<not> test itPattern utterance then Inr None
          else
            let resolved = replaceAll itPattern (js ''the '' @ label) utterance in
            bindE (groundOpeningCommand U (JStr (stripMarks resolved)) resolved knowledge) (\<lambda>grounding.
            Inr (case grounding of
              Grounded command ruleId \<Rightarrow> Some (command, ruleId, label)
            | NotGrounded _ \<Rightarrow> None)))"

definition transcriptConfidenceRequiresClarification :: "rat option \<Rightarrow> bool" where
  "transcriptConfidenceRequiresClarification confidence =
     (case confidence of None \<Rightarrow> False | Some c \<Rightarrow> c < INITIAL_TRANSCRIPT_CONFIDENCE \<or> 1 < c)"

definition validPendingIntent :: "unicode \<Rightarrow> pending_intent option \<Rightarrow> bool" where
  "validPendingIntent U intent = (case intent of None \<Rightarrow> True | Some i \<Rightarrow> isPendingOpeningObjectIntent U i)"

fun materializeExecuteDecision :: "model_decision \<Rightarrow> js \<Rightarrow> guide_decision" where
  "materializeExecuteDecision (SemanticExecute _ _ summary confidence) command =
     DExecute command summary None confidence None None"
| "materializeExecuteDecision (Decided (DExecute _ summary effect confidence ack goal)) command =
     DExecute command summary effect confidence ack goal"
| "materializeExecuteDecision (Decided d) command = d"

section \<open>The turn up to the model\<close>

definition boundedContext ::
  "unicode \<Rightarrow> ('w, 'c) guide_context \<Rightarrow> ('w, 'c) guide_input \<Rightarrow> opening_knowledge option" where
  \<comment> \<open>\<open>None\<close> is the \<open>catch\<close> of the context checks\<close>
  "boundedContext U G i =
     (if gi_interactionId i = [] \<or> 160 < length (gi_interactionId i) \<or> trim (gi_playerUtterance i) = [] \<or>
         2000 < length (gi_playerUtterance i) \<or> has_control (gi_interactionId i) \<or>
         has_control (gi_playerUtterance i) \<or> \<not> validPendingIntent U (gi_pendingIntent i)
      then None
      else
        case createOpeningCommandKnowledge U (gi_observedObjects i) of
          Inl _ \<Rightarrow> None
        | Inr knowledge \<Rightarrow>
            if (case gi_scene i of None \<Rightarrow> False | Some s \<Rightarrow> \<not> gc_isScene G s \<or>
                  list_ex (\<lambda>object. object \<notin> set (ok_observedObjects knowledge)) (gc_sceneLabels G s)) \<or>
               (case gi_observedWorld i of None \<Rightarrow> False | Some w \<Rightarrow> \<not> gc_isWorld G w \<or>
                  gc_worldObjects G w \<noteq> gi_observedObjects i)
            then None else Some knowledge)"

definition invalidContext :: guide_result where
  "invalidContext = GuideRejected (js ''The guide context could not be safely bounded. Your game has not changed.'')
     Unsafe (js ''invalid-context'')"

definition pendingReadExamineObject ::
  "unicode \<Rightarrow> ('w, 'c) guide_input \<Rightarrow> opening_knowledge \<Rightarrow> object_option option" where
  "pendingReadExamineObject U i knowledge =
     Option.bind (gi_pendingIntent i) (\<lambda>intent. resolveReadExamineChoiceObject U intent knowledge)"

definition pendingContextualSuggestion ::
  "('w, 'c) guide_context \<Rightarrow> ('w, 'c) guide_input \<Rightarrow> action_suggestion option" where
  "pendingContextualSuggestion G i =
     (case (gi_pendingIntent i, gi_scene i) of
        (Some (PendingContextualChoice v actions), Some s) \<Rightarrow> gc_pendingSuggestion G s (PendingContextualChoice v actions)
      | _ \<Rightarrow> None)"

definition stalePending ::
  "unicode \<Rightarrow> ('w, 'c) guide_context \<Rightarrow> ('w, 'c) guide_input \<Rightarrow> opening_knowledge \<Rightarrow> guide_result option" where
  "stalePending U G i knowledge =
     (case gi_pendingIntent i of
        Some (PendingReadExamine _ _) \<Rightarrow>
          if pendingReadExamineObject U i knowledge = None
          then Some (clarification (js ''That object is no longer in the observed scene. What would you like to do instead?'')
            ''The pending READ-or-EXAMINE choice no longer has a currently observed object.'' None None)
          else None
      | Some (PendingContextualChoice _ _) \<Rightarrow>
          if pendingContextualSuggestion G i = None
          then Some (clarification (js ''Those object suggestions are no longer current. What would you like to do instead?'')
            ''The pending object focus or its source-backed suggestion pair is no longer current.'' None None)
          else None
      | _ \<Rightarrow> None)"

definition focusMatches :: "unicode \<Rightarrow> object_option \<Rightarrow> js \<Rightarrow> opening_knowledge \<Rightarrow> bool" where
  "focusMatches U object utterance knowledge \<longleftrightarrow>
     (\<not> openingGlobalActionHelpScopeRequested U utterance \<or>
      openingObjectSelectionUniquelyMentioned U object utterance knowledge) \<and>
     openingUtteranceMatchesObjectFocus U object utterance knowledge"

fun isReadExaminePending :: "pending_intent option \<Rightarrow> bool" where
  "isReadExaminePending (Some (PendingReadExamine _ _)) = True"
| "isReadExaminePending _ = False"

definition explained :: "opening_knowledge \<Rightarrow> js list \<Rightarrow> opening_error + guide_result" where
  "explained knowledge sourceIds =
     bindE (openingCommandHelp knowledge sourceIds) (\<lambda>response. Inr (GuideExplain response CommandHelp sourceIds))"

definition answerComparison ::
  "unicode \<Rightarrow> ('w, 'c) guide_context \<Rightarrow> ('w, 'c) guide_input \<Rightarrow> opening_knowledge \<Rightarrow> js list \<Rightarrow>
   opening_error + guide_result" where
  "answerComparison U G i knowledge sourceIds =
     (case pendingContextualSuggestion G i of
        Some suggestion \<Rightarrow>
          if exactlyContextualSuggestionSources sourceIds suggestion \<and>
             focusMatches U (as_selectedObject suggestion) (gi_playerUtterance i) knowledge
          then contextualActionChoiceClarification U suggestion True
          else explained knowledge sourceIds
      | None \<Rightarrow>
          (case (isReadExaminePending (gi_pendingIntent i), pendingReadExamineObject U i knowledge) of
             (True, Some object) \<Rightarrow>
               if exactlyReadExamineSources sourceIds \<and> focusMatches U object (gi_playerUtterance i) knowledge
               then readExamineOptionsClarification U object else explained knowledge sourceIds
           | _ \<Rightarrow> explained knowledge sourceIds))"

definition executeGrounded :: "js \<Rightarrow> js \<Rightarrow> js \<Rightarrow> guide_result" where
  "executeGrounded command summary ruleId = GuideExecute command (DExecute command summary None 1 None None) ruleId"

definition worldTurn ::
  "unicode \<Rightarrow> ('w, 'c) guide_context \<Rightarrow> js \<Rightarrow> opening_knowledge \<Rightarrow> 'w \<Rightarrow> opening_error + guide_result option" where
  \<comment> \<open>an observed world without a scene\<close>
  "worldTurn U G utterance knowledge world =
     (case groundOpeningCommand U (JStr (stripMarks utterance)) utterance knowledge of
        Inl e \<Rightarrow> Inl (CommandRefused e)
      | Inr (Grounded command ruleId) \<Rightarrow>
          Inr (Some (executeGrounded command
            (js ''Execute one explicit command against a source-backed current referent.'') ruleId))
      | Inr (NotGrounded _) \<Rightarrow>
          (case groundRecentObservedObjectReference U G utterance knowledge world of
             Inl e \<Rightarrow> Inl (CommandRefused e)
           | Inr (Some (command, ruleId, label)) \<Rightarrow>
               Inr (Some (executeGrounded command
                 (js ''Execute one explicit command against the recently focused '' @ label @ js ''.'') ruleId))
           | Inr None \<Rightarrow>
               Inr (case objectScopedActionHelpTarget U utterance knowledge of
                  None \<Rightarrow> None
                | Some target \<Rightarrow>
                    map_option (\<lambda>sources. GuideExplain
                      (js ''The game has shown the '' @ oo_label target @
                       js '' here. A safe first step is to EXAMINE it. If you have another action in mind, say it directly and the game will decide whether it works.'')
                      CommandHelp (js ''grammar.examine'' # sources))
                      (gc_currentEntity G world (oo_label target)))))"

definition pendingReply ::
  "unicode \<Rightarrow> ('w, 'c) guide_context \<Rightarrow> ('w, 'c) guide_input \<Rightarrow> opening_knowledge \<Rightarrow> opening_error + guide_result option" where
  "pendingReply U G i knowledge =
     (let utterance = gi_playerUtterance i in
      case gi_pendingIntent i of
        None \<Rightarrow> Inr None
      | Some (PendingAction action) \<Rightarrow>
          (case groundPendingOpeningObjectReply U (PendingAction action) utterance knowledge of
             Inl e \<Rightarrow> Inl (CommandRefused e)
           | Inr (Grounded command ruleId) \<Rightarrow>
               Inr (Some (executeGrounded command (js ''Apply the pending action to the selected observed object.'') ruleId))
           | Inr (NotGrounded _) \<Rightarrow> Inr None)
      | Some PendingContentObject \<Rightarrow>
          (case resolvePendingOpeningContentObjectReply U PendingContentObject utterance knowledge of
             Inl _ \<Rightarrow> Inr None
           | Inr selected \<Rightarrow> bindE (contextualContentClarification U G selected (gi_scene i)) (\<lambda>r. Inr (Some r)))
      | Some (PendingContextualChoice v actions) \<Rightarrow>
          (case groundPendingOpeningContextualChoiceReply U (PendingContextualChoice v actions) utterance knowledge of
             Inl e \<Rightarrow> Inl (CommandRefused e)
           | Inr (Grounded command ruleId) \<Rightarrow>
               Inr (Some (executeGrounded command
                 (js ''Apply the player's explicit action to the still-current focused object.'') ruleId))
           | Inr (NotGrounded code) \<Rightarrow>
               Inr (if code = UnobservedObject
                 then Some (clarification (js ''Those object suggestions are no longer current. What would you like to do instead?'')
                   ''The pending object focus is no longer current.'' None None)
                 else if code = NotDirectActionRequest \<and> openingObjectActionMentioned U utterance
                 then Some (clarification (js ''Please state the single parser action you want me to try.'')
                   ''A question, condition, or quoted command does not authorize the pending action.'' None None)
                 else None))
      | Some (PendingReadExamine v actions) \<Rightarrow>
          (case groundPendingOpeningReadExamineChoiceReply U (PendingReadExamine v actions) utterance knowledge of
             Inl e \<Rightarrow> Inl (CommandRefused e)
           | Inr (Grounded command ruleId) \<Rightarrow>
               Inr (Some (executeGrounded command
                 (js ''Apply the player's explicit action choice to the still-observed object.'') ruleId))
           | Inr (NotGrounded code) \<Rightarrow>
               Inr (if code = UnobservedObject
                 then Some (clarification (js ''That object is no longer in the observed scene. What would you like to do instead?'')
                   ''The pending READ-or-EXAMINE choice no longer has a currently observed object.'' None None)
                 else if code = NotDirectActionRequest \<and> openingReadExamineActionMentioned U utterance
                 then Some (clarification (js ''Please choose READ or EXAMINE as a direct action.'')
                   ''A question, condition, or quoted command does not authorize the pending action.'' None None)
                 else None)))"

datatype guide_progress =
    GuideDone guide_result
  | GuideAsk opening_knowledge \<comment> \<open>the model is asked; its input is the turn's without scene and world\<close>

definition multiStepClarification :: guide_result where
  "multiStepClarification = clarification (js ''Which one action should I try first?'')
     ''The request contains more than one possible game turn.'' None None"

definition afterWorld ::
  "unicode \<Rightarrow> ('w, 'c) guide_context \<Rightarrow> ('w, 'c) guide_input \<Rightarrow> opening_knowledge \<Rightarrow> object_option option \<Rightarrow>
   opening_error + guide_progress" where
  \<comment> \<open>from the focused observation to the call of the model\<close>
  "afterWorld U G i knowledge ambiguity =
     (let utterance = gi_playerUtterance i in
      case (case gi_scene i of None \<Rightarrow> Inr None | Some scene \<Rightarrow> focusedObservation U G utterance scene) of
        Inl e \<Rightarrow> Inl (CommandRefused e)
      | Inr (Some (command, selected)) \<Rightarrow>
          Inr (GuideDone (executeGrounded command
            (js ''Inspect the recently focused '' @ oo_label selected @ js '' for the detail the player asked about.'')
            (js ''grammar.examine'')))
      | Inr None \<Rightarrow>
      (case ambiguity of
         Some object \<Rightarrow> bindE (contextualContentClarification U G object (gi_scene i)) (\<lambda>r. Inr (GuideDone r))
       | None \<Rightarrow>
       (case (if openingScopedActionOptionsRequested U utterance
              then (case pendingReadExamineObject U i knowledge of
                  Some object \<Rightarrow> Some (readExamineOptionsClarification U object)
                | None \<Rightarrow> map_option (\<lambda>suggestion. contextualActionChoiceClarification U suggestion True)
                    (pendingContextualSuggestion G i))
              else None) of
          Some clarified \<Rightarrow> bindE clarified (\<lambda>r. Inr (GuideDone r))
        | None \<Rightarrow>
        (case Option.bind (gi_scene i) (gc_guidance G utterance) of
           Some (response, basis, sourceIds) \<Rightarrow> Inr (GuideDone (GuideExplain response basis sourceIds))
         | None \<Rightarrow>
         (case pendingReply U G i knowledge of
            Inl e \<Rightarrow> Inl e
          | Inr (Some r) \<Rightarrow> Inr (GuideDone r)
          | Inr None \<Rightarrow>
              if inferPendingOpeningObjectIntent U utterance = Some PendingContentObject
              then Inr (GuideDone (clarification (js ''Which observed object would you like to inspect or read?'')
                ''The content request does not identify one currently observed object.'' (Some PendingContentObject) None))
              else Inr (GuideAsk knowledge))))))"

definition decideInitialGuideTurn ::
  "unicode \<Rightarrow> ('w, 'c) guide_context \<Rightarrow> ('w, 'c) guide_input \<Rightarrow> bool \<Rightarrow> opening_error + guide_progress" where
  \<comment> \<open>the flag is \<open>signal.aborted\<close>\<close>
  "decideInitialGuideTurn U G i aborted =
     (case boundedContext U G i of
        None \<Rightarrow> Inr (GuideDone invalidContext)
      | Some knowledge \<Rightarrow>
          if aborted then Inl SignalAborted
          else
            case stalePending U G i knowledge of Some r \<Rightarrow> Inr (GuideDone r)
            | None \<Rightarrow>
              if transcriptConfidenceRequiresClarification (gi_transcriptConfidence i)
              then Inr (GuideDone (clarification (js ''Could you say which single action you want me to try?'')
                ''The interpretation confidence is too low to safely execute.'' (gi_pendingIntent i) None))
              else
                (case resolveOpeningCommandComparisonQuestion U (gi_playerUtterance i) knowledge of
                   Inl e \<Rightarrow> Inl e
                 | Inr (ComparisonResolved sourceIds) \<Rightarrow>
                     bindE (answerComparison U G i knowledge sourceIds) (\<lambda>r. Inr (GuideDone r))
                 | Inr ComparisonInvalid \<Rightarrow>
                     Inr (GuideDone (clarification (js ''Which two available commands would you like me to compare?'')
                       ''A command comparison must name exactly two currently available commands and no additional action.'' None None))
                 | Inr NotComparison \<Rightarrow>
                     (case identifyNonlexicalOpeningContentRequest U (gi_playerUtterance i) knowledge of ambiguity \<Rightarrow>
                      if appearsMultiStep (gi_playerUtterance i) \<and> ambiguity = None
                      then Inr (GuideDone multiStepClarification)
                      else if containsNegation (gi_playerUtterance i)
                      then Inr (GuideDone (clarification (js ''What single action would you like me to perform instead?'')
                        ''The utterance contains a negation, so executing the proposed command would be unsafe.'' None None))
                      else
                        case (gi_observedWorld i, gi_scene i) of
                          (Some world, None) \<Rightarrow>
                            (case worldTurn U G (gi_playerUtterance i) knowledge world of
                               Inl e \<Rightarrow> Inl e
                             | Inr (Some r) \<Rightarrow> Inr (GuideDone r)
                             | Inr None \<Rightarrow> afterWorld U G i knowledge ambiguity)
                        | _ \<Rightarrow> afterWorld U G i knowledge ambiguity)))"

section \<open>The answer of the model\<close>

definition ungrounded :: guide_result where
  "ungrounded = GuideRejected (js ''I could not ground that command in your words and the observed scene.'')
     NotObserved (js ''ungrounded-command'')"

definition unsafeCommand :: guide_result where
  "unsafeCommand = GuideRejected (js ''I could not safely form one parser command.'') Unsafe (js ''ungrounded-command'')"

definition modelClarified ::
  "unicode \<Rightarrow> ('w, 'c) guide_context \<Rightarrow> ('w, 'c) guide_input \<Rightarrow> opening_knowledge \<Rightarrow> js list option \<Rightarrow>
   opening_error + guide_result" where
  "modelClarified U G i knowledge choices =
     (let utterance = gi_playerUtterance i in
      case (case identifyNonlexicalOpeningContentRequest U utterance knowledge of
              Some object \<Rightarrow> Some object
            | None \<Rightarrow> identifyOpeningReadExamineClarificationChoice U choices utterance knowledge) of
        Some object \<Rightarrow> contextualContentClarification U G object (gi_scene i)
      | None \<Rightarrow> Inr (genericProviderClarification (inferPendingOpeningObjectIntent U utterance)))"

definition modelExplained ::
  "unicode \<Rightarrow> ('w, 'c) guide_context \<Rightarrow> ('w, 'c) guide_input \<Rightarrow> opening_knowledge \<Rightarrow> explain_basis \<Rightarrow> js list \<Rightarrow>
   opening_error + guide_result" where
  "modelExplained U G i knowledge basis sourceIds =
     (let utterance = gi_playerUtterance i in
      if basis \<noteq> CommandHelp \<or> sourceIds = [] \<or> list_ex (\<lambda>s. s \<notin> set (ok_sourceIds knowledge)) sourceIds
      then Inr (GuideRejected (js ''I can only explain parser help grounded in what is currently available.'')
        NotObserved (js ''unsupported-initial-decision''))
      else
        case pendingContextualSuggestion G i of
          Some suggestion \<Rightarrow>
            if focusMatches U (as_selectedObject suggestion) utterance knowledge
            then (if exactlyContextualSuggestionSources sourceIds suggestion
                  then contextualActionChoiceClarification U suggestion True
                  else Inr (genericProviderClarification None))
            else explained knowledge sourceIds
        | None \<Rightarrow>
            (case pendingReadExamineObject U i knowledge of
               Some object \<Rightarrow>
                 if exactlyReadExamineSources sourceIds \<and>
                    (\<not> openingActionOptionsRequested U utterance \<or> openingScopedActionOptionsRequested U utterance) \<and>
                    focusMatches U object utterance knowledge
                 then readExamineOptionsClarification U object else explained knowledge sourceIds
             | None \<Rightarrow> explained knowledge sourceIds))"

definition slotValue :: "intent_slot \<Rightarrow> jsval" where
  "slotValue slot = JObj [(js ''slotId'', JStr (sl_slotId slot)), (js ''valueId'', JStr (sl_valueId slot))]"

definition intentValue :: "js \<Rightarrow> intent_slot list \<Rightarrow> jsval" where
  "intentValue affordanceId slots =
     JObj [(js ''affordanceId'', JStr affordanceId), (js ''slots'', JArr (map slotValue slots))]"

definition lexicalExecute ::
  "unicode \<Rightarrow> ('w, 'c) guide_context \<Rightarrow> ('w, 'c) guide_input \<Rightarrow> opening_knowledge \<Rightarrow> model_decision \<Rightarrow> js \<Rightarrow>
   opening_error + guide_result" where
  \<comment> \<open>a proposed command text\<close>
  "lexicalExecute U G i knowledge decision command =
     bindE (asCommandError (groundOpeningCommand U (JStr command) (gi_playerUtterance i) knowledge)) (\<lambda>grounding.
     case grounding of
       Grounded grounded ruleId \<Rightarrow>
         Inr (GuideExecute grounded (materializeExecuteDecision decision grounded) ruleId)
     | NotGrounded _ \<Rightarrow>
         bindE (asCommandError (identifyNonlexicalOpeningReadExamineAmbiguity U (JStr command) (gi_playerUtterance i) knowledge))
           (\<lambda>ambiguity.
         case ambiguity of
           Some object \<Rightarrow> contextualContentClarification U G object (gi_scene i)
         | None \<Rightarrow> Inr ungrounded))"

definition semanticFallback ::
  "unicode \<Rightarrow> js \<Rightarrow> opening_knowledge \<Rightarrow> grounding_failure \<Rightarrow> intent_resolution \<Rightarrow> bool" where
  "semanticFallback U utterance knowledge code resolution =
     (case resolution of
        NotResolved _ \<Rightarrow> False
      | Resolved _ ruleId riskTier allowed selected \<Rightarrow>
          allowed \<and>
          ((code = NotGroundedInUtterance \<and> riskTier = 1) \<or>
           ((code = NotGroundedInUtterance \<or> code = NotDirectActionRequest) \<and> riskTier = 2 \<and>
            ruleId = js ''grammar.examine'' \<and>
            (case selected of
               None \<Rightarrow> False
             | Some object \<Rightarrow> openingObjectObservationDirectlyRequested U object utterance knowledge))))"

definition semanticExecute ::
  "unicode \<Rightarrow> ('w, 'c) guide_context \<Rightarrow> ('w, 'c) guide_input \<Rightarrow> opening_knowledge \<Rightarrow> model_decision \<Rightarrow>
   js \<Rightarrow> intent_slot list \<Rightarrow> opening_error + guide_result" where
  \<comment> \<open>a selected affordance\<close>
  "semanticExecute U G i knowledge decision affordanceId slots =
     (let utterance = gi_playerUtterance i; intent = intentValue affordanceId slots in
      bindE (asCommandError (resolveOpeningCommandIntent intent knowledge)) (\<lambda>resolution.
      case resolution of
        NotResolved _ \<Rightarrow> Inr ungrounded
      | Resolved command ruleId _ _ _ \<Rightarrow>
          bindE (asCommandError (groundOpeningCommand U (JStr command) utterance knowledge)) (\<lambda>lexical.
          case lexical of
            Grounded _ _ \<Rightarrow> Inr (GuideExecute command (materializeExecuteDecision decision command) ruleId)
          | NotGrounded code \<Rightarrow>
              bindE (asCommandError (identifyNonlexicalOpeningReadExamineAmbiguity U intent utterance knowledge)) (\<lambda>ambiguity.
              case ambiguity of
                Some object \<Rightarrow> contextualContentClarification U G object (gi_scene i)
              | None \<Rightarrow>
                  if semanticFallback U utterance knowledge code resolution
                  then Inr (GuideExecute command (materializeExecuteDecision decision command) ruleId)
                  else Inr ungrounded))))"

fun caught :: "opening_error + guide_result \<Rightarrow> guide_result" where \<comment> \<open>the last \<open>catch\<close>\<close>
  "caught (Inl e) = unsafeCommand"
| "caught (Inr r) = r"

definition modelExecuted ::
  "unicode \<Rightarrow> ('w, 'c) guide_context \<Rightarrow> ('w, 'c) guide_input \<Rightarrow> opening_knowledge \<Rightarrow> model_decision \<Rightarrow>
   rat \<Rightarrow> bool \<Rightarrow> (js \<times> intent_slot list) option \<Rightarrow> js \<Rightarrow> guide_result" where
  \<comment> \<open>the flag is a remaining goal; the affordance counts when there is one, the command text otherwise\<close>
  "modelExecuted U G i knowledge decision confidence remaining affordance command =
     (if confidence < INITIAL_EXECUTE_CONFIDENCE
      then clarification (js ''Could you say which single action you want me to try?'')
        ''The interpretation confidence is too low to safely execute.'' (gi_pendingIntent i) None
      else if remaining
      then clarification (js ''Which one action should I try first?'')
        ''The request contains more than one possible game turn.''
        (inferPendingOpeningObjectIntent U (gi_playerUtterance i)) None
      else
        case affordance of
          None \<Rightarrow> caught (lexicalExecute U G i knowledge decision command)
        | Some (affordanceId, slots) \<Rightarrow> caught (semanticExecute U G i knowledge decision affordanceId slots))"

definition resumeGuideTurn ::
  "unicode \<Rightarrow> ('w, 'c) guide_context \<Rightarrow> ('w, 'c) guide_input \<Rightarrow> opening_knowledge \<Rightarrow> bool \<Rightarrow> jsval option \<Rightarrow>
   opening_error + guide_result" where
  \<comment> \<open>after \<open>await model.decide(...)\<close>; \<open>None\<close> is a rejection\<close>
  "resumeGuideTurn U G i knowledge aborted answer =
     (if aborted then Inl SignalAborted
      else
        case answer of
          None \<Rightarrow> Inr (GuideProviderFailure (js ''The guide is unavailable. Your game has not changed.'') ProviderLimitation)
        | Some unknownDecision \<Rightarrow>
            (case validateInitialGuideModelDecision unknownDecision of
               Inl _ \<Rightarrow> Inr (GuideRejected (js ''I could not safely interpret that response. Your game has not changed.'')
                 Unsafe (js ''malformed-provider-decision''))
             | Inr (SemanticExecute affordanceId slots summary confidence) \<Rightarrow>
                 Inr (modelExecuted U G i knowledge (SemanticExecute affordanceId slots summary confidence) confidence False
                   (Some (affordanceId, slots)) [])
             | Inr (Decided (DExecute command summary effect confidence ack goal)) \<Rightarrow>
                 Inr (modelExecuted U G i knowledge (Decided (DExecute command summary effect confidence ack goal)) confidence
                   (goal \<noteq> None) None command)
             | Inr (Decided (DClarify question choices ambiguity)) \<Rightarrow> modelClarified U G i knowledge choices
             | Inr (Decided (DExplain response basis sourceIds)) \<Rightarrow> modelExplained U G i knowledge basis sourceIds
             | Inr (Decided _) \<Rightarrow>
                 Inr (GuideRejected (js ''That guide action is not available in the initial bounded guide.'')
                   Unsupported (js ''unsupported-initial-decision''))))"

end
