(* ===== verification/Guide_Facts.thy ===== *)
theory Guide_Facts
  imports Guide_Policy
begin

text \<open>
  What a command the guide executes rests on: the rule and the observed object it names, and the
  player's words that ask for it.
\<close>

section \<open>Specification\<close>

definition names_command :: "opening_knowledge \<Rightarrow> rule_template \<Rightarrow> js \<Rightarrow> js \<Rightarrow> bool" where
  "names_command knowledge rule object command \<longleftrightarrow>
     rule \<in> set RULES \<and>
     (if or_objectRequired rule
      then object \<in> set (ok_observedObjects knowledge) \<and>
           canonicalizeCommand (JStr (or_verb rule @ js '' '' @ object)) = Inr command
      else canonicalizeCommand (JStr (or_verb rule)) = Inr command)"

definition grounded_in_words :: "unicode \<Rightarrow> js \<Rightarrow> rule_template \<Rightarrow> js \<Rightarrow> bool" where
  "grounded_in_words U utterance rule object \<longleftrightarrow>
     ((\<exists>alias \<in> set (or_aliases rule). includesPhrase (normalizeWords U utterance) (normalizeWords U alias)) \<or>
      (or_verb rule = js ''take'' \<and> test pickUpPattern (normalizeWords U utterance))) \<and>
     (or_riskTier rule = 3 \<or> or_id rule = js ''grammar.examine'' \<longrightarrow>
        directlyRequestsOpeningAction U utterance rule object) \<and>
     (or_objectRequired rule \<longrightarrow> includesPhrase (normalizeWords U utterance) object)"

definition states_choice :: "unicode \<Rightarrow> js \<Rightarrow> rule_template \<Rightarrow> js \<Rightarrow> bool" where
  "states_choice U utterance rule object \<longleftrightarrow>
     (\<exists>body ending. directOpeningActionBody U utterance = Some body \<and> ending \<in> set suffixes \<and>
        body = or_verb rule @ ending) \<or>
     (\<exists>reference \<in> set (object # map js [''it'', ''this'', ''that'']).
        directlyRequestsOpeningAction U utterance rule reference)"

fun replied_to_pending :: "unicode \<Rightarrow> pending_intent option \<Rightarrow> js \<Rightarrow> rule_template \<Rightarrow> js \<Rightarrow> bool" where
  "replied_to_pending U (Some (PendingAction action)) utterance rule object =
     (or_verb rule = action \<and> stripArticle (normalizeWords U utterance) = object)"
| "replied_to_pending U (Some (PendingContextualChoice v _)) utterance rule object =
     (v = OBSERVED_OBJECT_VALUE_ID_PREFIX @ object \<and> states_choice U utterance rule object)"
| "replied_to_pending U (Some (PendingReadExamine v _)) utterance rule object =
     (v = OBSERVED_OBJECT_VALUE_ID_PREFIX @ object \<and> states_choice U utterance rule object)"
| "replied_to_pending U _ utterance rule object = False"

definition refers_to_recent ::
  "unicode \<Rightarrow> ('w, 'c) guide_context \<Rightarrow> ('w, 'c) guide_input \<Rightarrow> rule_template \<Rightarrow> js \<Rightarrow> bool" where
  "refers_to_recent U G i rule object \<longleftrightarrow>
     (\<exists>world label. gi_observedWorld i = Some world \<and> gc_recentEntity G world = Some label \<and>
        label \<in> set (gc_worldObjects G world) \<and> test itPattern (gi_playerUtterance i) \<and>
        grounded_in_words U (replaceAll itPattern (js ''the '' @ label) (gi_playerUtterance i)) rule object)"

definition guide_turn ::
  "unicode \<Rightarrow> ('w, 'c) guide_context \<Rightarrow> ('w, 'c) guide_input \<Rightarrow> jsval option \<Rightarrow> opening_error + guide_result" where
  \<comment> \<open>a whole turn without an abort\<close>
  "guide_turn U G i answer =
     bindE (decideInitialGuideTurn U G i False) (\<lambda>progress.
     case progress of GuideDone r \<Rightarrow> Inr r | GuideAsk knowledge \<Rightarrow> resumeGuideTurn U G i knowledge False answer)"

section \<open>Knowledge\<close>

lemma knowledge_options:
  assumes "createOpeningCommandKnowledge U observed = Inr knowledge"
  shows "ok_observedObjectOptions knowledge = map objectOption (ok_observedObjects knowledge)"
    and "ok_sourceIds knowledge = map or_id RULES"
  using assms by (auto simp: createOpeningCommandKnowledge_def bindE_Inr_iff Let_def split: if_splits)

lemma context_knowledge: "boundedContext U G i = Some knowledge \<Longrightarrow>
    createOpeningCommandKnowledge U (gi_observedObjects i) = Inr knowledge"
  by (auto simp: boundedContext_def split: if_splits sum.splits option.splits)

section \<open>Grounding\<close>

lemma groundedCommand_iff: "groundedCommand command ruleId = Inr r \<longleftrightarrow>
    (\<exists>c. canonicalizeCommand (JStr command) = Inr c \<and> r = Grounded c ruleId)"
  by (auto simp: groundedCommand_def bindE_Inr_iff)

lemma bindE_grounding: "bindE r (\<lambda>g. case g of Grounded c ruleId \<Rightarrow> f c ruleId | NotGrounded code \<Rightarrow> h code) = Inr v \<longleftrightarrow>
    (\<exists>c ruleId. r = Inr (Grounded c ruleId) \<and> f c ruleId = Inr v) \<or> (\<exists>code. r = Inr (NotGrounded code) \<and> h code = Inr v)"
  by (auto simp: bindE_Inr_iff split: grounding.split_asm)

lemma bindE_option: "bindE r (\<lambda>x. case x of None \<Rightarrow> f | Some y \<Rightarrow> h y) = Inr v \<longleftrightarrow>
    (r = Inr None \<and> f = Inr v) \<or> (\<exists>y. r = Inr (Some y) \<and> h y = Inr v)"
  by (auto simp: bindE_Inr_iff split: option.split_asm)

lemma bindE_resolution: "bindE r (\<lambda>x. case x of Resolved c ruleId tier allowed selected \<Rightarrow> f c ruleId tier allowed selected x
      | NotResolved code \<Rightarrow> h code) = Inr v \<longleftrightarrow>
    (\<exists>c ruleId tier allowed selected. r = Inr (Resolved c ruleId tier allowed selected) \<and>
       f c ruleId tier allowed selected (Resolved c ruleId tier allowed selected) = Inr v) \<or>
    (\<exists>code. r = Inr (NotResolved code) \<and> h code = Inr v)"
  by (auto simp: bindE_Inr_iff split: intent_resolution.split_asm)

lemmas bind_cases = bindE_grounding bindE_option bindE_resolution

lemma matchAlias_rule: "matchAlias rule command aliases = Some (rule', object) \<Longrightarrow> rule' = rule"
  by (induction rule command aliases rule: matchAlias.induct) (auto split: if_splits)

lemma findRuleIn_member: "findRuleIn U command rules = Some (rule, object) \<Longrightarrow> rule \<in> set rules"
  by (induction U command rules rule: findRuleIn.induct) (auto dest: matchAlias_rule split: option.splits)

lemma findRule_member: "findRule U command = Some (rule, object) \<Longrightarrow> rule \<in> set RULES"
  unfolding findRule_def by (rule findRuleIn_member)

lemma grounded_command:
  assumes "groundOpeningCommand U proposed utterance knowledge = Inr (Grounded command ruleId)"
  obtains candidate rule object where "canonicalizeCommand proposed = Inr candidate"
    and "findRule U (normalizeWords U candidate) = Some (rule, object)" and "or_id rule = ruleId"
    and "names_command knowledge rule object command" and "grounded_in_words U utterance rule object"
proof -
  let ?n = "normalizeWords U utterance"
  from assms obtain candidate where c: "canonicalizeCommand proposed = Inr candidate"
    and "findRule U (normalizeWords U candidate) \<noteq> None"
    by (cases "canonicalizeCommand proposed") (auto simp: groundOpeningCommand_def split: option.splits)
  then obtain rule object where f: "findRule U (normalizeWords U candidate) = Some (rule, object)" by auto
  define m where "m \<longleftrightarrow> list_ex (\<lambda>alias. includesPhrase ?n (normalizeWords U alias)) (or_aliases rule) \<or>
    (or_verb rule = js ''take'' \<and> test pickUpPattern ?n \<and> includesPhrase ?n object)"
  define d where "d \<longleftrightarrow> (or_riskTier rule = 3 \<or> or_id rule = js ''grammar.examine'') \<and>
    \<not> directlyRequestsOpeningAction U utterance rule object"
  have e: "(if \<not> m then Inr (NotGrounded NotGroundedInUtterance) else if d then Inr (NotGrounded NotDirectActionRequest)
      else bindE (compileParsedOpeningCommand (rule, object) knowledge) (\<lambda>compiled.
        case compiled of NotGrounded code \<Rightarrow> Inr compiled
        | Grounded _ _ \<Rightarrow> if or_objectRequired rule \<and> \<not> includesPhrase ?n object
            then Inr (NotGrounded NotGroundedInUtterance) else Inr compiled)) = Inr (Grounded command ruleId)"
    using assms unfolding groundOpeningCommand_def m_def d_def
    by (simp only: c f bindE.simps option.case prod.case Let_def)
  then have m: "m" and nd: "\<not> d" by (auto split: if_splits)
  with e obtain compiled where comp: "compileParsedOpeningCommand (rule, object) knowledge = Inr compiled"
    and last: "(case compiled of NotGrounded code \<Rightarrow> Inr compiled
        | Grounded _ _ \<Rightarrow> if or_objectRequired rule \<and> \<not> includesPhrase ?n object
            then Inr (NotGrounded NotGroundedInUtterance) else Inr compiled) =
        (Inr (Grounded command ruleId) :: CanonicalCommandError + grounding)"
    by (auto simp: bindE_Inr_iff)
  from last have g: "compiled = Grounded command ruleId" "or_objectRequired rule \<longrightarrow> includesPhrase ?n object"
    by (auto split: grounding.splits if_splits)
  from comp g(1) have "or_id rule = ruleId" "names_command knowledge rule object command"
    using findRule_member [OF f]
    by (auto simp: compileParsedOpeningCommand_def names_command_def groundedCommand_iff split: if_splits)
  moreover have "grounded_in_words U utterance rule object"
    using m nd g(2) by (auto simp: grounded_in_words_def m_def d_def list_ex_iff)
  ultimately show ?thesis using c f that by blast
qed

section \<open>Replies\<close>

lemma pending_rule:
  assumes "action \<in> set pendingObjectActions"
  obtains rule where "find (\<lambda>rule. or_verb rule = action) RULES = Some rule" "rule \<in> set RULES"
    "or_verb rule = action" "or_id rule = js ''grammar.'' @ action" "or_objectRequired rule"
proof -
  have "list_all (\<lambda>action. case find (\<lambda>rule. or_verb rule = action) RULES of
      None \<Rightarrow> False
    | Some rule \<Rightarrow> or_id rule = js ''grammar.'' @ action \<and> or_objectRequired rule) pendingObjectActions"
    by (simp add: pendingObjectActions_def RULES_def plain_rule_def direction_rule_def object_rule_def) (simp add: js_def)
  with assms obtain rule where r: "find (\<lambda>rule. or_verb rule = action) RULES = Some rule"
    "or_id rule = js ''grammar.'' @ action" "or_objectRequired rule"
    by (auto simp: list_all_iff split: option.splits)
  then show ?thesis by (intro that) (auto simp: find_Some_iff)
qed

lemma find_option:
  assumes "find (\<lambda>option. oo_id option = v) (map objectOption labels) = Some selected"
  shows "oo_label selected \<in> set labels" "v = OBSERVED_OBJECT_VALUE_ID_PREFIX @ oo_label selected"
  using assms by (auto simp: find_Some_iff objectOption_def)

lemma ground_choice:
  assumes "groundChoice U actions utterance selected = Inr (Grounded command ruleId)"
    and "set actions \<subseteq> set pendingObjectActions" and "oo_label selected \<in> set (ok_observedObjects knowledge)"
  obtains rule where "or_id rule = ruleId" "names_command knowledge rule (oo_label selected) command"
    "states_choice U utterance rule (oo_label selected)"
proof -
  from assms(1) obtain action where a: "choiceActions U actions utterance selected = [action]"
    and c: "canonicalizeCommand (JStr (action @ js '' '' @ oo_label selected)) = Inr command"
    and id: "ruleId = js ''grammar.'' @ action"
    by (auto simp: groundChoice_def groundedCommand_iff split: list.splits)
  have mem: "action \<in> set (choiceActions U actions utterance selected)" by (simp add: a)
  then have "action \<in> set pendingObjectActions" using assms(2) by (auto simp: choiceActions_def)
  then obtain rule where r: "find (\<lambda>rule. or_verb rule = action) RULES = Some rule" "rule \<in> set RULES"
    "or_verb rule = action" "or_id rule = js ''grammar.'' @ action" "or_objectRequired rule"
    by (rule pending_rule)
  have "states_choice U utterance rule (oo_label selected)"
    using mem r(1, 3) by (auto simp: choiceActions_def states_choice_def list_ex_iff split: option.splits)
  with r c id assms(3) show ?thesis by (intro that [of rule]) (auto simp: names_command_def)
qed

lemma object_reply:
  assumes "groundPendingOpeningObjectReply U (PendingAction action) utterance knowledge = Inr (Grounded command ruleId)"
  obtains rule object where "or_id rule = ruleId" "names_command knowledge rule object command"
    "replied_to_pending U (Some (PendingAction action)) utterance rule object"
proof -
  let ?object = "stripArticle (normalizeWords U utterance)"
  from assms have a: "action \<in> set pendingObjectActions" "?object \<in> set (ok_observedObjects knowledge)"
    and c: "canonicalizeCommand (JStr (action @ js '' '' @ ?object)) = Inr command" "ruleId = js ''grammar.'' @ action"
    by (auto simp: groundPendingOpeningObjectReply_def groundedCommand_iff Let_def split: if_splits)
  from a(1) obtain rule where "rule \<in> set RULES" "or_verb rule = action" "or_id rule = js ''grammar.'' @ action"
    "or_objectRequired rule" by (rule pending_rule)
  with a(2) c show ?thesis by (intro that [of rule ?object]) (auto simp: names_command_def)
qed

lemma contextual_reply:
  assumes "groundPendingOpeningContextualChoiceReply U (PendingContextualChoice v pair) utterance knowledge =
      Inr (Grounded command ruleId)"
    and k: "ok_observedObjectOptions knowledge = map objectOption (ok_observedObjects knowledge)"
  obtains rule object where "or_id rule = ruleId" "names_command knowledge rule object command"
    "replied_to_pending U (Some (PendingContextualChoice v pair)) utterance rule object"
proof -
  from assms(1) obtain selected where s: "resolveContextualChoiceObject U (PendingContextualChoice v pair) knowledge = Some selected"
    and g: "groundChoice U pendingObjectActions utterance selected = Inr (Grounded command ruleId)"
    by (auto simp: groundPendingOpeningContextualChoiceReply_def split: if_splits option.splits)
  from s have f: "find (\<lambda>option. oo_id option = v) (map objectOption (ok_observedObjects knowledge)) = Some selected"
    by (auto simp: resolveContextualChoiceObject_def findOption_def k split: if_splits option.splits prod.splits)
  from ground_choice [OF g order.refl find_option(1) [OF f]] find_option(2) [OF f] that show ?thesis by auto
qed

lemma read_examine_reply:
  assumes "groundPendingOpeningReadExamineChoiceReply U (PendingReadExamine v pair) utterance knowledge =
      Inr (Grounded command ruleId)"
    and k: "ok_observedObjectOptions knowledge = map objectOption (ok_observedObjects knowledge)"
  obtains rule object where "or_id rule = ruleId" "names_command knowledge rule object command"
    "replied_to_pending U (Some (PendingReadExamine v pair)) utterance rule object"
proof -
  from assms(1) obtain a b selected where s: "resolveReadExamineChoiceObject U (PendingReadExamine v pair) knowledge = Some selected"
    and v: "isPendingOpeningObjectIntent U (PendingReadExamine v pair)" and p: "pair = (a, b)"
    and g: "groundChoice U [a, b] utterance selected = Inr (Grounded command ruleId)"
    by (auto simp: groundPendingOpeningReadExamineChoiceReply_def split: if_splits option.splits prod.splits)
  from s have f: "find (\<lambda>option. oo_id option = v) (map objectOption (ok_observedObjects knowledge)) = Some selected"
    by (auto simp: resolveReadExamineChoiceObject_def findOption_def k split: if_splits)
  have "set [a, b] \<subseteq> set pendingObjectActions"
    using v p by (auto simp: validPendingReadExamineActions_def pendingObjectActions_def)
  from ground_choice [OF g this find_option(1) [OF f]] find_option(2) [OF f] that show ?thesis by auto
qed

section \<open>What is executed\<close>

definition spoken_for ::
  "unicode \<Rightarrow> ('w, 'c) guide_context \<Rightarrow> ('w, 'c) guide_input \<Rightarrow> rule_template \<Rightarrow> js \<Rightarrow> bool" where
  "spoken_for U G i rule object \<longleftrightarrow>
     grounded_in_words U (gi_playerUtterance i) rule object \<or> refers_to_recent U G i rule object \<or>
     replied_to_pending U (gi_pendingIntent i) (gi_playerUtterance i) rule object"

text \<open>
  The one command that names no currently observed object: EXAMINE of the object the scene remembers
  as the recent focus, asked for by one of the fixed questions about its other side.
\<close>

definition focused_observation ::
  "unicode \<Rightarrow> ('w, 'c) guide_context \<Rightarrow> ('w, 'c) guide_input \<Rightarrow> js \<Rightarrow> js \<Rightarrow> bool" where
  "focused_observation U G i command ruleId \<longleftrightarrow>
     ruleId = js ''grammar.examine'' \<and>
     (\<exists>scene focus. gi_scene i = Some scene \<and> gc_isScene G scene \<and> gc_recentFocus G scene = Some focus \<and>
        normalizedUtterance U (gi_playerUtterance i) \<in> set reverseSurfaceQuestions \<and>
        canonicalizeCommand (JStr (js ''examine '' @ oo_label focus)) = Inr command)"

definition justified ::
  "unicode \<Rightarrow> ('w, 'c) guide_context \<Rightarrow> ('w, 'c) guide_input \<Rightarrow> opening_knowledge \<Rightarrow> js \<Rightarrow> js \<Rightarrow> bool" where
  "justified U G i knowledge command ruleId \<longleftrightarrow>
     focused_observation U G i command ruleId \<or>
     (\<exists>rule object. or_id rule = ruleId \<and> names_command knowledge rule object command \<and>
        (spoken_for U G i rule object \<or>
         (\<exists>rule' object'. findRule U (normalizeWords U command) = Some (rule', object') \<and>
            grounded_in_words U (gi_playerUtterance i) rule' object') \<or>
         (or_semanticFallbackAllowed rule \<and>
          (or_riskTier rule = 1 \<or> or_riskTier rule = 2 \<and> ruleId = js ''grammar.examine''))))"

lemma justified_spoken: "or_id rule = ruleId \<Longrightarrow> names_command knowledge rule object command \<Longrightarrow>
    spoken_for U G i rule object \<Longrightarrow> justified U G i knowledge command ruleId"
  by (auto simp: justified_def)

lemma canonical_again: "canonicalizeCommand v = Inr c \<Longrightarrow> canonicalizeCommand (JStr c) = Inr c"
  by (rule canonical_fixpoint [OF canonicalize_canonical])

lemma contextual_clarifies:
  "contextualActionChoiceClarification U suggestion b = Inr r \<Longrightarrow> r \<noteq> GuideExecute c d ruleId"
  by (auto simp: contextualActionChoiceClarification_def clarification_def bindE_Inr_iff Let_def split: prod.splits)

lemma content_clarifies: "contextualContentClarification U G object scene = Inr r \<Longrightarrow> r \<noteq> GuideExecute c d ruleId"
  by (auto simp: contextualContentClarification_def clarification_def dest: contextual_clarifies split: option.splits)

lemma options_clarify: "readExamineOptionsClarification U object = Inr r \<Longrightarrow> r \<noteq> GuideExecute c d ruleId"
  by (auto simp: readExamineOptionsClarification_def clarification_def bindE_Inr_iff)

lemma explained_explains: "explained knowledge ids = Inr r \<Longrightarrow> r \<noteq> GuideExecute c d ruleId"
  by (auto simp: explained_def bindE_Inr_iff)

lemmas never_execute = contextual_clarifies content_clarifies options_clarify explained_explains

lemma comparison_explains: "answerComparison U G i knowledge ids = Inr r \<Longrightarrow> r \<noteq> GuideExecute c d ruleId"
  by (auto simp: answerComparison_def dest: never_execute split: option.splits if_splits bool.splits)

lemma recent_reference:
  assumes "groundRecentObservedObjectReference U G utterance knowledge world = Inr (Some (command, ruleId, label))"
  shows "gc_recentEntity G world = Some label" "label \<in> set (gc_worldObjects G world)" "test itPattern utterance"
    and "groundOpeningCommand U (JStr (stripMarks (replaceAll itPattern (js ''the '' @ label) utterance)))
        (replaceAll itPattern (js ''the '' @ label) utterance) knowledge = Inr (Grounded command ruleId)"
proof -
  from assms obtain shown g where r: "gc_recentEntity G world = Some shown" "shown \<in> set (gc_worldObjects G world)"
    "test itPattern utterance"
    and g: "groundOpeningCommand U (JStr (stripMarks (replaceAll itPattern (js ''the '' @ shown) utterance)))
        (replaceAll itPattern (js ''the '' @ shown) utterance) knowledge = Inr g"
    and c: "(case g of Grounded command ruleId \<Rightarrow> Some (command, ruleId, shown) | NotGrounded _ \<Rightarrow> None) =
        Some (command, ruleId, label)"
    by (auto simp: groundRecentObservedObjectReference_def bindE_Inr_iff Let_def split: option.splits if_splits)
  from c have "g = Grounded command ruleId" "shown = label" by (auto split: grounding.splits)
  with r g show "gc_recentEntity G world = Some label" "label \<in> set (gc_worldObjects G world)" "test itPattern utterance"
    and "groundOpeningCommand U (JStr (stripMarks (replaceAll itPattern (js ''the '' @ label) utterance)))
        (replaceAll itPattern (js ''the '' @ label) utterance) knowledge = Inr (Grounded command ruleId)" by auto
qed

lemma world_executes:
  assumes "worldTurn U G (gi_playerUtterance i) knowledge world = Inr (Some (GuideExecute command d ruleId))"
    and "gi_observedWorld i = Some world"
  shows "justified U G i knowledge command ruleId"
proof -
  let ?u = "gi_playerUtterance i"
  from assms(1) consider (direct) "groundOpeningCommand U (JStr (stripMarks ?u)) ?u knowledge = Inr (Grounded command ruleId)"
    | (recent) label where "groundRecentObservedObjectReference U G ?u knowledge world = Inr (Some (command, ruleId, label))"
    by (auto simp: worldTurn_def executeGrounded_def split: sum.splits grounding.splits option.splits)
  then show ?thesis
  proof cases
    case direct
    then show ?thesis
      by (rule grounded_command) (auto intro!: justified_spoken simp: spoken_for_def)
  next
    case recent
    note l = recent_reference(1-3) [OF recent]
    from recent_reference(4) [OF recent] show ?thesis
      by (rule grounded_command)
        (use l assms(2) in \<open>auto intro!: justified_spoken simp: spoken_for_def refers_to_recent_def\<close>)
  qed
qed

lemma pending_executes:
  assumes "pendingReply U G i knowledge = Inr (Some (GuideExecute command d ruleId))"
    and k: "ok_observedObjectOptions knowledge = map objectOption (ok_observedObjects knowledge)"
  shows "justified U G i knowledge command ruleId"
proof -
  let ?u = "gi_playerUtterance i"
  from assms(1) consider
      (action) a where "gi_pendingIntent i = Some (PendingAction a)"
        "groundPendingOpeningObjectReply U (PendingAction a) ?u knowledge = Inr (Grounded command ruleId)"
    | (contextual) v pair where "gi_pendingIntent i = Some (PendingContextualChoice v pair)"
        "groundPendingOpeningContextualChoiceReply U (PendingContextualChoice v pair) ?u knowledge = Inr (Grounded command ruleId)"
    | (readExamine) v pair where "gi_pendingIntent i = Some (PendingReadExamine v pair)"
        "groundPendingOpeningReadExamineChoiceReply U (PendingReadExamine v pair) ?u knowledge = Inr (Grounded command ruleId)"
    by (auto simp: pendingReply_def executeGrounded_def clarification_def bindE_Inr_iff Let_def dest: never_execute
        split: option.splits pending_intent.splits sum.splits grounding.splits if_splits)
  then show ?thesis
  proof cases
    case action
    from action(2) show ?thesis
      by (rule object_reply) (auto intro!: justified_spoken simp: spoken_for_def action(1))
  next
    case contextual
    from contextual(2) k show ?thesis
      by (rule contextual_reply) (auto intro!: justified_spoken simp: spoken_for_def contextual(1))
  next
    case readExamine
    from readExamine(2) k show ?thesis
      by (rule read_examine_reply) (auto intro!: justified_spoken simp: spoken_for_def readExamine(1))
  qed
qed

lemma focusedObservation_some: "focusedObservation U G utterance scene = Inr (Some (command, selected)) \<longleftrightarrow>
    gc_isScene G scene \<and> gc_recentFocus G scene = Some selected \<and>
    normalizedUtterance U utterance \<in> set reverseSurfaceQuestions \<and>
    canonicalizeCommand (JStr (js ''examine '' @ oo_label selected)) = Inr command"
  by (auto simp: focusedObservation_def bindE_Inr_iff split: option.splits)

lemma after_world_executes:
  assumes "afterWorld U G i knowledge ambiguity = Inr (GuideDone (GuideExecute command d ruleId))"
    and k: "ok_observedObjectOptions knowledge = map objectOption (ok_observedObjects knowledge)"
  shows "justified U G i knowledge command ruleId"
proof (cases "case gi_scene i of None \<Rightarrow> Inr None | Some scene \<Rightarrow> focusedObservation U G (gi_playerUtterance i) scene")
  case (Inl e)
  with assms(1) show ?thesis by (simp add: afterWorld_def)
next
  case found: (Inr found)
  show ?thesis
  proof (cases found)
    case None
    have "pendingReply U G i knowledge = Inr (Some (GuideExecute command d ruleId))"
      using assms(1) found None
      by (auto simp: afterWorld_def clarification_def bindE_Inr_iff Let_def dest: never_execute
          split: option.splits sum.splits if_splits)
    then show ?thesis using k by (rule pending_executes)
  next
    case (Some pair)
    obtain c selected where f: "found = Some (c, selected)" using Some by (cases pair) auto
    with assms(1) found have "command = c" "ruleId = js ''grammar.examine''"
      by (auto simp: afterWorld_def executeGrounded_def Let_def)
    moreover obtain scene where "gi_scene i = Some scene" using found f by (cases "gi_scene i") auto
    ultimately show ?thesis
      using found f by (auto simp: justified_def focused_observation_def focusedObservation_some)
  qed
qed

lemma justified_canonical: "justified U G i knowledge command ruleId \<Longrightarrow> canonicalizeCommand (JStr command) = Inr command"
  by (auto simp: justified_def focused_observation_def names_command_def intro: canonical_again split: if_splits)

lemma decide_executes:
  assumes "decideInitialGuideTurn U G i False = Inr (GuideDone (GuideExecute command d ruleId))"
  obtains knowledge where "boundedContext U G i = Some knowledge" "justified U G i knowledge command ruleId"
proof (cases "boundedContext U G i")
  case None
  with assms show ?thesis by (simp add: decideInitialGuideTurn_def invalidContext_def)
next
  case (Some knowledge)
  note k = knowledge_options(1) [OF context_knowledge [OF Some]]
  from assms Some consider (world) w where "gi_observedWorld i = Some w"
      "worldTurn U G (gi_playerUtterance i) knowledge w = Inr (Some (GuideExecute command d ruleId))"
    | (after) ambiguity where "afterWorld U G i knowledge ambiguity = Inr (GuideDone (GuideExecute command d ruleId))"
    by (auto simp: decideInitialGuideTurn_def stalePending_def clarification_def multiStepClarification_def bindE_Inr_iff
        dest: comparison_explains split: option.splits sum.splits if_splits comparison.splits pending_intent.splits)
  then have "justified U G i knowledge command ruleId"
    by cases (auto intro: world_executes after_world_executes [OF _ k])
  with Some that show ?thesis by blast
qed

lemma model_clarifies: "modelClarified U G i knowledge choices = Inr r \<Longrightarrow> r \<noteq> GuideExecute c d ruleId"
  by (auto simp: modelClarified_def genericProviderClarification_def clarification_def Let_def dest: never_execute
      split: option.splits)

lemma model_explains: "modelExplained U G i knowledge basis sources = Inr r \<Longrightarrow> r \<noteq> GuideExecute c d ruleId"
  by (auto simp: modelExplained_def genericProviderClarification_def clarification_def Let_def dest: never_execute
      split: option.splits if_splits)

lemma caught_execute: "caught r = GuideExecute c d ruleId \<longleftrightarrow> r = Inr (GuideExecute c d ruleId)"
  by (cases r) (auto simp: unsafeCommand_def)

lemma asCommandError_Inr: "asCommandError r = Inr v \<longleftrightarrow> r = Inr v"
  by (cases r) auto

lemma lexical_executes:
  assumes "lexicalExecute U G i knowledge decision proposed = Inr (GuideExecute command d ruleId)"
  shows "justified U G i knowledge command ruleId"
proof -
  have "groundOpeningCommand U (JStr proposed) (gi_playerUtterance i) knowledge = Inr (Grounded command ruleId)"
    using assms
    by (auto simp: lexicalExecute_def ungrounded_def bind_cases asCommandError_Inr dest: never_execute)
  then show ?thesis by (rule grounded_command) (auto intro!: justified_spoken simp: spoken_for_def)
qed

lemma resolved_intent:
  assumes "resolveOpeningCommandIntent intent knowledge = Inr (Resolved command ruleId tier allowed selected)"
    and k: "ok_observedObjectOptions knowledge = map objectOption (ok_observedObjects knowledge)"
  obtains rule object where "names_command knowledge rule object command" "or_id rule = ruleId"
    "or_riskTier rule = tier" "or_semanticFallbackAllowed rule = allowed"
    "canonicalizeCommand (JStr command) = Inr command"
proof -
  have member: "find (\<lambda>rule. or_id rule = a) RULES = Some rule \<Longrightarrow> rule \<in> set RULES \<and> or_id rule = a" for a rule
    by (auto simp: find_Some_iff)
  from assms(1) consider
      (plain) rule where "rule \<in> set RULES" "or_id rule = ruleId" "or_riskTier rule = tier"
        "or_semanticFallbackAllowed rule = allowed" "\<not> or_objectRequired rule"
        "canonicalizeCommand (JStr (or_verb rule)) = Inr command"
    | (object) rule option v where "rule \<in> set RULES" "or_id rule = ruleId" "or_riskTier rule = tier"
        "or_semanticFallbackAllowed rule = allowed" "or_objectRequired rule"
        "find (\<lambda>option. oo_id option = v) (ok_observedObjectOptions knowledge) = Some option"
        "canonicalizeCommand (JStr (or_verb rule @ js '' '' @ oo_label option)) = Inr command"
    unfolding resolveOpeningCommandIntent_def resolvedCommand_def
    by (auto simp: bindE_Inr_iff dest!: member split: if_splits option.splits jsval.splits list.splits) metis+
  then show ?thesis
  proof cases
    case plain
    with that [of rule "[]"] show ?thesis by (auto simp: names_command_def intro: canonical_again)
  next
    case object
    with that [of rule "oo_label option"] find_option(1) [OF object(6) [unfolded k]] show ?thesis
      by (auto simp: names_command_def intro: canonical_again)
  qed
qed

lemma semantic_executes:
  assumes "semanticExecute U G i knowledge decision affordanceId slots = Inr (GuideExecute command d ruleId)"
    and k: "ok_observedObjectOptions knowledge = map objectOption (ok_observedObjects knowledge)"
  shows "justified U G i knowledge command ruleId"
proof -
  let ?u = "gi_playerUtterance i"
  from assms(1) obtain tier allowed selected where
      resolution: "resolveOpeningCommandIntent (intentValue affordanceId slots) knowledge =
        Inr (Resolved command ruleId tier allowed selected)"
    and lexical: "(\<exists>c' r'. groundOpeningCommand U (JStr command) ?u knowledge = Inr (Grounded c' r')) \<or>
     (\<exists>code. semanticFallback U ?u knowledge code (Resolved command ruleId tier allowed selected))"
    by (auto simp: semanticExecute_def ungrounded_def bind_cases asCommandError_Inr Let_def dest: never_execute
        split: if_splits)
  from resolution k obtain rule object where r: "names_command knowledge rule object command" "or_id rule = ruleId"
    "or_riskTier rule = tier" "or_semanticFallbackAllowed rule = allowed" "canonicalizeCommand (JStr command) = Inr command"
    by (rule resolved_intent)
  show ?thesis
  proof (cases "\<exists>c' r'. groundOpeningCommand U (JStr command) ?u knowledge = Inr (Grounded c' r')")
    case True
    then obtain c' r' where "groundOpeningCommand U (JStr command) ?u knowledge = Inr (Grounded c' r')" by blast
    then show ?thesis
      by (rule grounded_command) (use r in \<open>auto simp: justified_def\<close>)
  next
    case False
    with lexical obtain code where "semanticFallback U ?u knowledge code (Resolved command ruleId tier allowed selected)" by blast
    then have "or_semanticFallbackAllowed rule" "or_riskTier rule = 1 \<or> or_riskTier rule = 2 \<and> ruleId = js ''grammar.examine''"
      using r(3, 4) by (auto simp: semanticFallback_def)
    with r(1, 2) show ?thesis unfolding justified_def by blast
  qed
qed

lemma model_executes:
  assumes "modelExecuted U G i knowledge decision confidence remaining affordance proposed = GuideExecute command d ruleId"
    and k: "ok_observedObjectOptions knowledge = map objectOption (ok_observedObjects knowledge)"
  shows "justified U G i knowledge command ruleId"
  using assms(1)
  by (auto simp: modelExecuted_def clarification_def caught_execute intro: lexical_executes semantic_executes [OF _ k]
      split: option.splits if_splits)

lemma resume_executes:
  assumes "resumeGuideTurn U G i knowledge False answer = Inr (GuideExecute command d ruleId)"
    and k: "ok_observedObjectOptions knowledge = map objectOption (ok_observedObjects knowledge)"
  shows "justified U G i knowledge command ruleId"
  using assms(1)
  by (auto simp: resumeGuideTurn_def intro: model_executes [OF _ k] dest: model_clarifies model_explains
      split: option.splits sum.splits model_decision.splits guide_decision.splits)

lemma decide_asks: "decideInitialGuideTurn U G i aborted = Inr (GuideAsk knowledge) \<Longrightarrow>
    boundedContext U G i = Some knowledge"
  by (auto simp: decideInitialGuideTurn_def afterWorld_def Let_def bindE_Inr_iff
      split: option.splits sum.splits if_splits comparison.splits prod.splits)

end
