(* ===== verification/Guide_Properties.thy ===== *)
theory Guide_Properties
  imports Guide_Facts
begin

text \<open>
  What the initial guide guarantees: commands rest on the player's words, doubtful requests are
  not executed, offered affordances resolve to their own command, and which turns fail.
\<close>

section \<open>Affordances\<close>

lemma rule_ids: "map or_id RULES = map js
    ([''grammar.look'', ''grammar.inventory''] @
     map (\<lambda>way. ''grammar.direction.'' @ way) [''north'', ''south'', ''east'', ''west'', ''up'', ''down''] @
     [''grammar.examine'', ''grammar.open'', ''grammar.read'', ''grammar.take''])"
  by (simp add: RULES_def plain_rule_def direction_rule_def object_rule_def)

lemma rules_table: "distinct (map or_id RULES)"
    "list_all (\<lambda>rule. validIntentIdentifier (JStr (or_id rule)) 160 \<noteq> None) RULES"
proof -
  show "distinct (map or_id RULES)" unfolding rule_ids by simp
  have "list_all (\<lambda>i. i \<noteq> [] \<and> length i \<le> 160 \<and> \<not> has_control i) (map or_id RULES)"
    unfolding rule_ids by code_simp
  then show "list_all (\<lambda>rule. validIntentIdentifier (JStr (or_id rule)) 160 \<noteq> None) RULES"
    by (auto simp: list_all_iff validIntentIdentifier_def)
qed

lemma valid_identifier: "validIntentIdentifier (JStr s) n = Some t \<longleftrightarrow> t = s \<and> s \<noteq> [] \<and> length s \<le> n \<and> \<not> has_control s"
  by (auto simp: validIntentIdentifier_def)

lemma find_distinct: "distinct (map f xs) \<Longrightarrow> x \<in> set xs \<Longrightarrow> find (\<lambda>y. f y = f x) xs = Some x"
  by (induction xs) (auto simp: image_iff dest: sym)

lemma find_rule: "find (\<lambda>rule. or_id rule = i) RULES = Some rule \<longleftrightarrow> rule \<in> set RULES \<and> or_id rule = i"
  using find_distinct [OF rules_table(1)] by (auto simp: find_Some_iff)

lemma find_offered: "find (\<lambda>rule. or_id rule = i) (map (offeredRule allowed) rules) =
    map_option (offeredRule allowed) (find (\<lambda>rule. or_id rule = i) rules)"
  by (induction rules) (auto simp: offeredRule_def rule_template.defs)

lemma find_label: "find (\<lambda>option. oo_id option = OBSERVED_OBJECT_VALUE_ID_PREFIX @ label) (map objectOption labels) =
    (if label \<in> set labels then Some (objectOption label) else None)"
  by (induction labels) (auto simp: objectOption_def)

lemma offered_slots: "or_slots (offeredRule allowed rule) =
    (if or_objectRequired rule then [\<lparr>sd_slotId = OPENING_OBJECT_SLOT_ID, sd_allowedValueIds = allowed\<rparr>] else [])"
  by (simp add: offeredRule_def rule_template.defs)

lemma created_knowledge:
  assumes "createOpeningCommandKnowledge U observed = Inr knowledge"
  shows "ok_observedObjectOptions knowledge = map objectOption (ok_observedObjects knowledge)"
    and "ok_sourceIds knowledge = map or_id RULES"
    and "ok_rules knowledge = map (offeredRule (map oo_id (ok_observedObjectOptions knowledge))) RULES"
    and "\<forall>label \<in> set (ok_observedObjects knowledge). length label \<le> MAX_OBSERVED_OBJECT_LENGTH"
proof -
  from assms obtain normalized where n: "mapE (observedObject U) observed = Inr normalized"
    and k: "knowledge = \<lparr>ok_rules = map (offeredRule (map oo_id (map objectOption
        (sort (remdups (filter (\<lambda>object. object \<noteq> []) normalized)))))) RULES,
      ok_observedObjects = sort (remdups (filter (\<lambda>object. object \<noteq> []) normalized)),
      ok_observedObjectOptions = map objectOption (sort (remdups (filter (\<lambda>object. object \<noteq> []) normalized))),
      ok_sourceIds = map or_id RULES\<rparr>"
    by (auto simp: createOpeningCommandKnowledge_def bindE_Inr_iff Let_def split: if_splits)
  have "\<forall>label \<in> set normalized. length label \<le> MAX_OBSERVED_OBJECT_LENGTH"
    using n by (induction observed arbitrary: normalized)
      (auto simp: bindE_Inr_iff observedObject_def Let_def split: if_splits)
  then show "ok_observedObjectOptions knowledge = map objectOption (ok_observedObjects knowledge)"
    and "ok_sourceIds knowledge = map or_id RULES"
    and "ok_rules knowledge = map (offeredRule (map oo_id (ok_observedObjectOptions knowledge))) RULES"
    and "\<forall>label \<in> set (ok_observedObjects knowledge). length label \<le> MAX_OBSERVED_OBJECT_LENGTH"
    by (auto simp: k)
qed

definition offers ::
  "opening_knowledge \<Rightarrow> js \<Rightarrow> intent_slot list \<Rightarrow> rule_template \<Rightarrow> js \<Rightarrow> object_option option \<Rightarrow> bool" where
  "offers knowledge affordanceId slots rule command selected \<longleftrightarrow>
     rule \<in> set RULES \<and> or_id rule = affordanceId \<and>
     (if or_objectRequired rule
      then \<exists>label \<in> set (ok_observedObjects knowledge).
             slots = [\<lparr>sl_slotId = OPENING_OBJECT_SLOT_ID, sl_valueId = OBSERVED_OBJECT_VALUE_ID_PREFIX @ label\<rparr>] \<and>
             command = or_verb rule @ js '' '' @ label \<and> selected = Some (objectOption label)
      else slots = [] \<and> command = or_verb rule \<and> selected = None)"

lemma intent_fields:
  "exactObjectKeys (intentValue a slots) [''affordanceId'', ''slots'']"
  "getProp (intentValue a slots) ''affordanceId'' = JStr a"
  "getProp (intentValue a slots) ''slots'' = JArr (map slotValue slots)"
  "exactObjectKeys (slotValue slot) [''slotId'', ''valueId'']"
  "getProp (slotValue slot) ''slotId'' = JStr (sl_slotId slot)"
  "getProp (slotValue slot) ''valueId'' = JStr (sl_valueId slot)"
  by (simp_all add: intentValue_def slotValue_def exactObjectKeys_def)

lemma command_resolved: "resolvedCommand phrase rule selected = Inr (Resolved command ruleId tier fallback object) \<longleftrightarrow>
    canonicalizeCommand (JStr phrase) = Inr command \<and> ruleId = or_id rule \<and> tier = or_riskTier rule \<and>
    fallback = or_semanticFallbackAllowed rule \<and> object = selected"
  by (auto simp: resolvedCommand_def bindE_Inr_iff)

lemma value_identifier:
  assumes "canonicalizeCommand (JStr (verb @ js '' '' @ label)) = Inr command"
    and "length label \<le> MAX_OBSERVED_OBJECT_LENGTH"
  shows "validIntentIdentifier (JStr (OBSERVED_OBJECT_VALUE_ID_PREFIX @ label)) MAX_OBSERVED_OBJECT_VALUE_ID_LENGTH =
    Some (OBSERVED_OBJECT_VALUE_ID_PREFIX @ label)"
proof -
  have "\<not> has_control (verb @ js '' '' @ label)"
    using assms(1) by (auto simp: canonicalizeCommand_def split: if_splits)
  moreover have "\<not> has_control OBSERVED_OBJECT_VALUE_ID_PREFIX" by code_simp
  ultimately have "\<not> has_control (OBSERVED_OBJECT_VALUE_ID_PREFIX @ label)" by (auto simp: has_control_def)
  with assms(2) show ?thesis
    by (auto simp: valid_identifier MAX_OBSERVED_OBJECT_VALUE_ID_LENGTH_def OBSERVED_OBJECT_VALUE_ID_PREFIX_def)
qed

lemma resolve_unoffered:
  assumes "createOpeningCommandKnowledge U observed = Inr knowledge"
    and "\<forall>rule \<in> set RULES. or_id rule \<noteq> affordanceId"
  shows "resolveOpeningCommandIntent (intentValue affordanceId slots) knowledge \<noteq> Inr (Resolved command ruleId tier fallback selected)"
proof -
  have "find (\<lambda>rule. or_id rule = affordanceId) RULES = None" using assms(2) by (auto simp: find_None_iff)
  then have "find (\<lambda>rule. or_id rule = s) RULES = None" if "validIntentIdentifier (JStr affordanceId) 160 = Some s" for s
    using that by (simp add: valid_identifier)
  then show ?thesis
    by (cases "validIntentIdentifier (JStr affordanceId) 160")
      (simp_all add: resolveOpeningCommandIntent_def intent_fields)
qed

lemma resolve_plain:
  assumes "createOpeningCommandKnowledge U observed = Inr knowledge" and "rule \<in> set RULES" "\<not> or_objectRequired rule"
  shows "resolveOpeningCommandIntent (intentValue (or_id rule) slots) knowledge =
    (if slots = [] then resolvedCommand (or_verb rule) rule None else Inr (NotResolved UnexpectedSlot))"
proof -
  note k = created_knowledge [OF assms(1)]
  have f: "find (\<lambda>r. or_id r = or_id rule) RULES = Some rule" using assms(2) by (simp add: find_rule)
  obtain s where "validIntentIdentifier (JStr (or_id rule)) 160 = Some s"
    using rules_table(2) assms(2) by (auto simp: list_all_iff)
  then have v: "validIntentIdentifier (JStr (or_id rule)) 160 = Some (or_id rule)" by (auto simp: valid_identifier)
  show ?thesis
    using assms(2, 3) by (simp add: resolveOpeningCommandIntent_def intent_fields v f k(2, 3) find_offered)
qed

lemma resolve_object:
  assumes "createOpeningCommandKnowledge U observed = Inr knowledge" and "rule \<in> set RULES" "or_objectRequired rule"
  shows "resolveOpeningCommandIntent (intentValue (or_id rule) slots) knowledge =
      Inr (Resolved command ruleId tier fallback selected) \<longleftrightarrow>
    (\<exists>label \<in> set (ok_observedObjects knowledge).
       slots = [\<lparr>sl_slotId = OPENING_OBJECT_SLOT_ID, sl_valueId = OBSERVED_OBJECT_VALUE_ID_PREFIX @ label\<rparr>] \<and>
       resolvedCommand (or_verb rule @ js '' '' @ label) rule (Some (objectOption label)) =
         Inr (Resolved command ruleId tier fallback selected))"
proof -
  note k = created_knowledge [OF assms(1)]
  have f: "find (\<lambda>r. or_id r = or_id rule) RULES = Some rule" using assms(2) by (simp add: find_rule)
  obtain s where "validIntentIdentifier (JStr (or_id rule)) 160 = Some s"
    using rules_table(2) assms(2) by (auto simp: list_all_iff)
  then have v: "validIntentIdentifier (JStr (or_id rule)) 160 = Some (or_id rule)" by (auto simp: valid_identifier)
  have ids: "oo_id ` objectOption ` labels = (\<lambda>label. OBSERVED_OBJECT_VALUE_ID_PREFIX @ label) ` labels" for labels
    by (auto simp: objectOption_def image_image)
  have one: "resolveOpeningCommandIntent (intentValue (or_id rule) [slot]) knowledge =
      (if sl_slotId slot \<noteq> OPENING_OBJECT_SLOT_ID then Inr (NotResolved UnexpectedSlot)
       else case validIntentIdentifier (JStr (sl_valueId slot)) MAX_OBSERVED_OBJECT_VALUE_ID_LENGTH of
         None \<Rightarrow> Inr (NotResolved UnknownSlotValue)
       | Some v \<Rightarrow> if v \<notin> (\<lambda>label. OBSERVED_OBJECT_VALUE_ID_PREFIX @ label) ` set (ok_observedObjects knowledge)
           then Inr (NotResolved UnknownSlotValue)
           else case find (\<lambda>option. oo_id option = v) (map objectOption (ok_observedObjects knowledge)) of
             None \<Rightarrow> Inr (NotResolved UnknownSlotValue)
           | Some selected \<Rightarrow> resolvedCommand (or_verb rule @ js '' '' @ oo_label selected) rule (Some selected))" for slot
    using assms(2, 3) by (simp add: resolveOpeningCommandIntent_def intent_fields v f k find_offered offered_slots ids
        del: map_map split: option.split)
  show ?thesis
  proof (cases "\<exists>slot. slots = [slot]")
    case False
    then have "resolveOpeningCommandIntent (intentValue (or_id rule) slots) knowledge \<noteq>
        Inr (Resolved command ruleId tier fallback selected)"
      using assms(2, 3)
      by (auto simp: resolveOpeningCommandIntent_def intent_fields v f k(2, 3) find_offered split: list.split)
    with False show ?thesis by blast
  next
    case True
    then obtain slot where slot: "slots = [slot]" by blast
    show ?thesis
    proof (cases "\<exists>label \<in> set (ok_observedObjects knowledge). sl_slotId slot = OPENING_OBJECT_SLOT_ID \<and>
        sl_valueId slot = OBSERVED_OBJECT_VALUE_ID_PREFIX @ label")
      case False
      then show ?thesis
        by (auto simp: slot one valid_identifier split: option.split)
    next
      case True
      then obtain label where l: "label \<in> set (ok_observedObjects knowledge)" "sl_slotId slot = OPENING_OBJECT_SLOT_ID"
        "sl_valueId slot = OBSERVED_OBJECT_VALUE_ID_PREFIX @ label" by blast
      then have "resolveOpeningCommandIntent (intentValue (or_id rule) slots) knowledge =
          (case validIntentIdentifier (JStr (OBSERVED_OBJECT_VALUE_ID_PREFIX @ label)) MAX_OBSERVED_OBJECT_VALUE_ID_LENGTH of
             None \<Rightarrow> Inr (NotResolved UnknownSlotValue)
           | Some v \<Rightarrow> resolvedCommand (or_verb rule @ js '' '' @ label) rule (Some (objectOption label)))"
        by (simp add: slot one find_label validIntentIdentifier_def) (simp add: objectOption_def)
      moreover have "validIntentIdentifier (JStr (OBSERVED_OBJECT_VALUE_ID_PREFIX @ label)) MAX_OBSERVED_OBJECT_VALUE_ID_LENGTH =
          Some (OBSERVED_OBJECT_VALUE_ID_PREFIX @ label)"
        if "resolvedCommand (or_verb rule @ js '' '' @ label) rule (Some (objectOption label)) =
          Inr (Resolved command ruleId tier fallback selected)"
        using that value_identifier k(4) l(1) by (auto simp: command_resolved)
      moreover have "slot = \<lparr>sl_slotId = OPENING_OBJECT_SLOT_ID, sl_valueId = OBSERVED_OBJECT_VALUE_ID_PREFIX @ label\<rparr>"
        using l(2, 3) by simp
      ultimately show ?thesis using l(1) by (auto simp: slot split: option.split)
    qed
  qed
qed

text \<open>C17. On the knowledge created from any observed objects a semantic intent resolves exactly when
  it selects an offered rule with the slots of this rule: none, or the one object slot filled with
  the identifier of an offered object.  The command is then the canonical form of the verb and the
  object's label, with the rule's own risk tier and fallback policy.
\<close>

theorem affordances_resolve_exactly:
  assumes "createOpeningCommandKnowledge U observed = Inr knowledge"
  shows "resolveOpeningCommandIntent (intentValue affordanceId slots) knowledge =
      Inr (Resolved command ruleId tier fallback selected) \<longleftrightarrow>
    (\<exists>rule phrase. offers knowledge affordanceId slots rule phrase selected \<and>
       canonicalizeCommand (JStr phrase) = Inr command \<and> ruleId = affordanceId \<and>
       tier = or_riskTier rule \<and> fallback = or_semanticFallbackAllowed rule)"
proof (cases "\<exists>rule \<in> set RULES. or_id rule = affordanceId")
  case False
  with resolve_unoffered [OF assms] show ?thesis by (auto simp: offers_def)
next
  case True
  then obtain rule where rule: "rule \<in> set RULES" "or_id rule = affordanceId" by blast
  have same: "r = rule" if "r \<in> set RULES" "or_id r = affordanceId" for r
    using that find_rule [of affordanceId r] find_rule [of affordanceId rule] rule by simp
  have "(\<exists>r phrase. offers knowledge affordanceId slots r phrase selected \<and> canonicalizeCommand (JStr phrase) = Inr command \<and>
       ruleId = affordanceId \<and> tier = or_riskTier r \<and> fallback = or_semanticFallbackAllowed r) \<longleftrightarrow>
    (\<exists>phrase. offers knowledge affordanceId slots rule phrase selected \<and> canonicalizeCommand (JStr phrase) = Inr command \<and>
       ruleId = affordanceId \<and> tier = or_riskTier rule \<and> fallback = or_semanticFallbackAllowed rule)"
    using rule by (auto simp: offers_def dest: same)
  moreover have "resolveOpeningCommandIntent (intentValue affordanceId slots) knowledge =
      Inr (Resolved command ruleId tier fallback selected) \<longleftrightarrow>
    (\<exists>phrase. offers knowledge affordanceId slots rule phrase selected \<and> canonicalizeCommand (JStr phrase) = Inr command \<and>
       ruleId = affordanceId \<and> tier = or_riskTier rule \<and> fallback = or_semanticFallbackAllowed rule)"
  proof (cases "or_objectRequired rule")
    case True
    from resolve_object [OF assms rule(1) True] rule True show ?thesis
      by (auto simp: command_resolved offers_def)
  next
    case False
    from resolve_plain [OF assms rule(1) False] rule False show ?thesis
      by (auto simp: command_resolved offers_def)
  qed
  ultimately show ?thesis by blast
qed

definition openRule :: rule_template where
  "openRule = object_rule ''open'' [''open''] ''Open one currently observed object.'' 3 False"

definition one_object_knowledge :: opening_knowledge where
  "one_object_knowledge = \<lparr>ok_rules = map (offeredRule [OBSERVED_OBJECT_VALUE_ID_PREFIX @ js ''b'']) RULES,
     ok_observedObjects = [js ''b''], ok_observedObjectOptions = [objectOption (js ''b'')],
     ok_sourceIds = map or_id RULES\<rparr>"

lemma one_object: "createOpeningCommandKnowledge ascii_unicode [js ''b''] = Inr one_object_knowledge"
proof -
  have "observedObject ascii_unicode (js ''b'') = Inr (js ''b'')" "js ''b'' \<noteq> []" by code_simp+
  then show ?thesis
    by (simp add: createOpeningCommandKnowledge_def one_object_knowledge_def objectOption_def MAX_OBSERVED_OBJECTS_def)
qed

theorem affordances_resolve_exactly_witness:
  "resolveOpeningCommandIntent (intentValue (js ''grammar.open'')
       [\<lparr>sl_slotId = OPENING_OBJECT_SLOT_ID, sl_valueId = OBSERVED_OBJECT_VALUE_ID_PREFIX @ js ''b''\<rparr>]) one_object_knowledge =
     Inr (Resolved (js ''open b'') (js ''grammar.open'') 3 False (Some (objectOption (js ''b''))))"
proof -
  have "openRule \<in> set RULES" by (simp add: RULES_def openRule_def)
  then have "offers one_object_knowledge (js ''grammar.open'')
       [\<lparr>sl_slotId = OPENING_OBJECT_SLOT_ID, sl_valueId = OBSERVED_OBJECT_VALUE_ID_PREFIX @ js ''b''\<rparr>]
       openRule (js ''open'' @ js '' '' @ js ''b'') (Some (objectOption (js ''b'')))"
    by (simp add: offers_def openRule_def object_rule_def one_object_knowledge_def)
  moreover have "canonicalizeCommand (JStr (js ''open'' @ js '' '' @ js ''b'')) = Inr (js ''open b'')" by code_simp
  moreover have "or_riskTier openRule = 3" "or_semanticFallbackAllowed openRule = False"
    by (simp_all add: openRule_def object_rule_def)
  ultimately show ?thesis
    unfolding affordances_resolve_exactly [OF one_object] by metis
qed

section \<open>Execution\<close>

text \<open>C2. Every command a guide turn executes, locally or on the model's answer, is in canonical form,
  and the turn's context is valid.  The command is EXAMINE of the object the scene remembers as the recent
  focus, asked for by one of the fixed questions about its other side, whether or not this object is
  still observed.  Or it is a rule's verb, with a currently observed object where the rule needs
  one, and it rests on the player's words (the rule's alias and the object occur in them, and actions
  of the highest risk are direct requests), on a reference to the recent entity, on a reply to the
  pending intent, or it is a low-risk rule open to semantic selection.
\<close>

theorem executed_commands_are_justified:
  assumes "guide_turn U G i answer = Inr (GuideExecute command d ruleId)"
  shows "canonicalizeCommand (JStr command) = Inr command \<and>
    (\<exists>knowledge. boundedContext U G i = Some knowledge \<and> justified U G i knowledge command ruleId)"
proof -
  have "\<exists>knowledge. boundedContext U G i = Some knowledge \<and> justified U G i knowledge command ruleId"
  proof -
    from assms consider (local) "decideInitialGuideTurn U G i False = Inr (GuideDone (GuideExecute command d ruleId))"
      | (model) knowledge where "decideInitialGuideTurn U G i False = Inr (GuideAsk knowledge)"
          "resumeGuideTurn U G i knowledge False answer = Inr (GuideExecute command d ruleId)"
      by (cases "decideInitialGuideTurn U G i False") (auto simp: guide_turn_def split: guide_progress.splits)
    then show ?thesis
    proof cases
      case local
      then show ?thesis by (rule decide_executes) blast
    next
      case model
      note k = decide_asks [OF model(1)]
      from resume_executes [OF model(2) knowledge_options(1) [OF context_knowledge [OF k]]] k show ?thesis by blast
    qed
  qed
  then show ?thesis by (auto intro: justified_canonical)
qed

definition quiet_context :: "(unit, unit) guide_context" where
  "quiet_context = \<lparr>gc_isScene = \<lambda>_. True, gc_sceneLabels = \<lambda>_. [], gc_recentFocus = \<lambda>_. None,
     gc_suggestion = \<lambda>_ _. None, gc_pendingSuggestion = \<lambda>_ _. None, gc_guidance = \<lambda>_ _. None,
     gc_isWorld = \<lambda>_. True, gc_worldObjects = \<lambda>_. [], gc_recentEntity = \<lambda>_. None, gc_currentEntity = \<lambda>_ _. None\<rparr>"

definition said :: "string \<Rightarrow> (unit, unit) guide_input" where
  "said utterance = \<lparr>gi_interactionId = js ''t'', gi_playerUtterance = js utterance, gi_transcriptConfidence = None,
     gi_observedObjects = [], gi_observedWorld = Some (), gi_scene = None, gi_pendingIntent = None\<rparr>"

definition empty_knowledge :: opening_knowledge where
  "empty_knowledge = \<lparr>ok_rules = map (offeredRule []) RULES, ok_observedObjects = [], ok_observedObjectOptions = [],
     ok_sourceIds = map or_id RULES\<rparr>"

lemma said_fields:
  "gi_playerUtterance (said utterance) = js utterance" "gi_transcriptConfidence (said utterance) = None"
  "gi_observedWorld (said utterance) = Some ()" "gi_scene (said utterance) = None" "gi_pendingIntent (said utterance) = None"
  by (simp_all add: said_def)

lemma direction_fields:
  "or_id (direction_rule way) = js (''grammar.direction.'' @ way)" "or_verb (direction_rule way) = js way"
  "or_aliases (direction_rule way) = map js [way, ''go '' @ way, ''head '' @ way]"
  "\<not> or_objectRequired (direction_rule way)"
  by (simp_all add: direction_rule_def)

lemma said_context:
  assumes "trim (js utterance) \<noteq> []" "length (js utterance) \<le> 2000" "\<not> has_control (js utterance)"
  shows "boundedContext ascii_unicode quiet_context (said utterance) = Some empty_knowledge"
proof -
  have "js ''t'' \<noteq> []" "length (js ''t'') \<le> 160" "\<not> has_control (js ''t'')" by code_simp+
  then show ?thesis
    using assms by (simp add: boundedContext_def said_def quiet_context_def validPendingIntent_def empty_knowledge_def
        createOpeningCommandKnowledge_def)
qed

lemma up_rule: "findRule ascii_unicode (normalizeWords ascii_unicode (js ''up'')) = Some (direction_rule ''up'', [])"
  by code_simp

lemma up_words:
  "canonicalizeCommand (JStr (stripMarks (js ''up''))) = Inr (js ''up'')"
  "includesPhrase (normalizeWords ascii_unicode (js ''up'')) (normalizeWords ascii_unicode (js ''up''))"
  "directlyRequestsOpeningAction ascii_unicode (js ''up'') (direction_rule ''up'') []"
  "canonicalizeCommand (JStr (js ''up'')) = Inr (js ''up'')"
  by code_simp+

lemma up_plain:
  "trim (js ''up'') \<noteq> []" "length (js ''up'') \<le> 2000" "\<not> has_control (js ''up'')"
  "resolveOpeningCommandComparisonQuestion ascii_unicode (js ''up'') k = Inr NotComparison"
  "\<not> appearsMultiStep (js ''up'')" "\<not> containsNegation (js ''up'')"
  by code_simp+

lemma up_grounded: "groundOpeningCommand ascii_unicode (JStr (stripMarks (js ''up''))) (js ''up'') empty_knowledge =
    Inr (Grounded (js ''up'') (js ''grammar.direction.up''))"
  using up_words
  by (simp add: groundOpeningCommand_def up_rule compileParsedOpeningCommand_def groundedCommand_def direction_fields)

lemma up_turn: "guide_turn ascii_unicode quiet_context (said ''up'') None =
    Inr (executeGrounded (js ''up'') (js ''Execute one explicit command against a source-backed current referent.'')
      (js ''grammar.direction.up''))"
  using said_context [OF up_plain(1-3)] up_plain up_grounded
  by (simp add: guide_turn_def decideInitialGuideTurn_def stalePending_def worldTurn_def
      transcriptConfidenceRequiresClarification_def said_fields)

theorem executed_commands_are_justified_witness:
  "canonicalizeCommand (JStr (js ''up'')) = Inr (js ''up'') \<and>
   (\<exists>knowledge. boundedContext ascii_unicode quiet_context (said ''up'') = Some knowledge \<and>
     justified ascii_unicode quiet_context (said ''up'') knowledge (js ''up'') (js ''grammar.direction.up''))"
  using executed_commands_are_justified [OF up_turn [unfolded executeGrounded_def]] .

section \<open>Caution\<close>

text \<open>C39. A turn whose transcript confidence is out of bounds, whose words contain a negation, or whose
  words hold several steps without being one question about visible content, executes nothing and
  is settled without asking the model, whatever the model would answer.
\<close>

theorem doubtful_turns_execute_nothing:
  assumes "transcriptConfidenceRequiresClarification (gi_transcriptConfidence i) \<or>
      containsNegation (gi_playerUtterance i) \<or>
      (appearsMultiStep (gi_playerUtterance i) \<and>
       (\<forall>knowledge. boundedContext U G i = Some knowledge \<longrightarrow>
          identifyNonlexicalOpeningContentRequest U (gi_playerUtterance i) knowledge = None))"
  shows "guide_turn U G i answer \<noteq> Inr (GuideExecute command d ruleId) \<and>
    decideInitialGuideTurn U G i aborted \<noteq> Inr (GuideAsk asked)"
proof -
  have settled: "decideInitialGuideTurn U G i flag = Inr progress \<Longrightarrow>
      \<exists>r. progress = GuideDone r \<and> (\<forall>c d ruleId. r \<noteq> GuideExecute c d ruleId)" for flag progress
    using assms
    by (auto simp: decideInitialGuideTurn_def invalidContext_def clarification_def multiStepClarification_def
        stalePending_def bindE_Inr_iff dest: comparison_explains
        split: option.splits if_splits sum.splits comparison.splits pending_intent.splits)
  then show ?thesis
    by (fastforce simp: guide_turn_def bindE_Inr_iff)
qed

lemma not_facts:
  "trim (js ''not'') \<noteq> []" "length (js ''not'') \<le> 2000" "\<not> has_control (js ''not'')" "containsNegation (js ''not'')"
  by code_simp+

theorem doubtful_turns_execute_nothing_witness:
  "boundedContext ascii_unicode quiet_context (said ''not'') = Some empty_knowledge \<and>
   (\<forall>answer command d ruleId. guide_turn ascii_unicode quiet_context (said ''not'') answer \<noteq> Inr (GuideExecute command d ruleId)) \<and>
   decideInitialGuideTurn ascii_unicode quiet_context (said ''not'') False \<noteq> Inr (GuideAsk empty_knowledge)"
  using said_context [OF not_facts(1-3)]
    doubtful_turns_execute_nothing [of "said ''not''" ascii_unicode quiet_context] not_facts(4)
  by (simp add: said_fields)

section \<open>Failure\<close>



















end
