(* ===== verification/Spec2Isabelle.thy ===== *)
theory Spec2Isabelle
  imports Contract_Properties Snapshot_Properties Checkpoint_Properties Runtime_Properties Link_Properties Replacement_Properties
    Projection_Properties
    Decision_Properties Coordinator_Properties Voice_Properties Guide_Properties
begin

text \<open>
  STTork: a verification library for a voice front-end to a Z-machine story
  (\<open>packages/*\<close>, \<open>spikes/dork-worker\<close>; all paths are under \<open>src/\<close>).

  The player speaks; a controller records captures and plays narration; a coordinator owns each
  turn; a guide decides, from the words, the command knowledge and a model, which parser command to
  run; an engine adapter sends it to a worker; the worker's runtime drives one interpreter session,
  journals every receipt and answers snapshots; every effect is a semantic event, and a reducer folds
  the events into what the player sees.

  THE MODEL.  Exceptions are values: \<open>'e + 'a\<close> with \<open>bindE\<close> (\<open>Prelude\<close>).  Strings are lists of UTF-16
  code units (\<open>js\<close>, 16 word), bytes are 8 word, numbers that cross a validation boundary are rationals
  or the non-finite doubles inside the untyped value \<open>jsval\<close>.  An asynchronous method is cut at its
  \<open>await\<close>s: the part up to the first one is a function, each later part a continuation named in a
  \<open>pending\<close> datatype, and the answer of the awaited promise is an event; so a run is any interleaving
  of calls and answers.  Everything the code calls outside the repository answers through such
  events or is a parameter: the interpreter, Web Crypto, clocks, id sources, the transport, the
  audio devices, the model, the narrator, and the Unicode tables.

  THEORIES.
    \<^item> \<open>Prelude\<close>, \<open>Text\<close>, \<open>Utf8\<close>, \<open>Wire\<close>: results, untyped values, whitespace and control classes, UTF-8
      as TextEncoder and the fatal TextDecoder have it, readers and writers of big-endian fields.
    \<^item> \<open>Contracts\<close>, \<open>Events\<close>, \<open>Event_Sequence\<close>: \<open>packages/contracts\<close> (canonical commands, engine contract,
      event envelope) and \<open>packages/events\<close>; \<open>Contract_Properties\<close>: the command boundary accepts exactly
      the canonical texts.
    \<^item> \<open>Snapshot_Prepare\<close>, \<open>Snapshot_Codec\<close>, \<open>Snapshot_Valid\<close>: \<open>worker-snapshot-envelope.ts\<close>; the declarative
      validity of a snapshot, and (\<open>Snapshot_Properties\<close>) the codec as a bijection between valid
      snapshots and the bytes it accepts.
    \<^item> \<open>Checkpoint_Data\<close> to \<open>Checkpoint_Valid\<close>: \<open>checkpoint-envelope.ts\<close> in the same shape; in
      \<open>Checkpoint_Properties\<close> the candidate session runs on this codec.
    \<^item> \<open>Candidate_Session\<close>: \<open>dork-candidate-session.ts\<close> over an abstract interpreter.
    \<^item> \<open>Worker_Protocol\<close>, \<open>Worker_Runtime\<close>: \<open>dork-worker-runtime.ts\<close>; \<open>Runtime_Facts\<close>, \<open>Runtime_Binding\<close>,
      \<open>Runtime_Invariant\<close> (the locale \<open>story_session\<close> is what the runtime needs of a session; the candidate
      session interprets it), \<open>Runtime_Properties\<close>: journal, replay, all-or-nothing restore.
    \<^item> \<open>Worker_Adapter\<close>: \<open>worker-engine-adapter.ts\<close>; \<open>Adapter_Invariant\<close>, \<open>Adapter_Facts\<close>; \<open>Engine_Link\<close> and
      \<open>Link_Agreement\<close> compose the adapter with the runtime over a transport that loses requests and
      replies; \<open>Link_Properties\<close>.
    \<^item> \<open>Replacement_Engine\<close>: \<open>dork-worker-engine.ts\<close>, the facade that boots one worker and restores a snapshot
      by staging a replacement; \<open>Replacement_Facts\<close> (which leases it owns), \<open>Replacement_Swap\<close>,
      \<open>Replacement_Mirror\<close> (its copy of the adapter's state), \<open>Replacement_Demo\<close>, \<open>Replacement_Properties\<close>:
      no worker leaks, a restore swaps or preserves, the facade mirrors its adapter.
    \<^item> \<open>Experience_Projection\<close>, \<open>Projection_Facts\<close>, \<open>Projection_Properties\<close>: \<open>projection.ts\<close> and
      \<open>opening-narration.ts\<close> of \<open>packages/experience\<close>.
    \<^item> \<open>Decision_Validator\<close>, \<open>Decision_Properties\<close>: the two decision validators of \<open>packages/guide-core\<close>.
    \<^item> \<open>Turn_Text\<close>, \<open>Turn_State\<close>, \<open>Turn_Coordinator\<close>: \<open>semantic-turn-coordinator.ts\<close>; \<open>Coordinator_Frame\<close>,
      \<open>Coordinator_Invariant\<close>, \<open>Coordinator_Turns\<close>, \<open>Coordinator_Reach\<close>, \<open>Coordinator_Progress\<close> and
      \<open>Coordinator_Properties\<close>: one engine request per interaction, final results, verbatim narration,
      a projectable event stream, progress, and the refinement of an abstract journal of turns.
    \<^item> \<open>Voice_State\<close>, \<open>Voice_Controller\<close>: \<open>voice-audio-controller.ts\<close>; \<open>Voice_Facts\<close> (weakest
      preconditions and the locales \<open>voice_kept\<close>, \<open>voice_invariant\<close>, \<open>effect_order\<close>), \<open>Voice_Captures\<close>,
      \<open>Voice_Playback\<close>, \<open>Voice_Properties\<close>: captures and playbacks are recorded once, and a stopped
      capture is never transcribed.
    \<^item> \<open>Text_Pattern\<close>: the regular expressions of JavaScript by their backtracking order;
      \<open>Opening_Words\<close>, \<open>Opening_Area\<close>, \<open>Opening_Requests\<close>, \<open>Opening_Questions\<close>: \<open>opening-area.ts\<close>;
      \<open>Guide_Policy\<close>: \<open>initial-guide.ts\<close>; \<open>Guide_Facts\<close>, \<open>Guide_Properties\<close>: every executed command is
      justified by the player's words, by a low-risk rule or by a question about the focused object,
      offered affordances resolve exactly, and which turns fail.
  BOUNDS.  A request the worker runtime accepts is answered after at most two resumptions, which
  \<open>every_request_is_answered\<close> proves, so \<open>resume_until\<close> and \<open>drive\<close> take the fuel two.  A method of the
  coordinator comes to its end after at most its rank of answers, which is five or less.  A star of a
  pattern is repeated at most as often as the rest of the text is long, for an iteration that consumes
  nothing is refused.  All other recursion is structural or has a measure.

  HYPOTHESES.  \<open>prints_text\<close>, \<open>resumes\<close> and \<open>machine_resumes\<close> state that the interpreter prints text and
  that a machine restored from its own checkpoint continues from it; a live host of the coordinator
  keeps the promises of the engine contract; ports of the voice controller do not throw
  (\<open>never_throws\<close>) where a property says so.  Each such property has a witness.

  NOT MODELLED.  The scene and observed-world tables of the command knowledge
  (\<open>opening-scene.ts\<close>, \<open>opening-observed-objects.ts\<close>) are parameters of the guide and the coordinator, all but
  the question about the focused object's other side, which \<open>Guide_Policy\<close> models.
  The browser transport hands messages to a dedicated worker.
  The speech providers and the server speak HTTP to external services; the web application is DOM and
  media glue; the vendored Z-machine is third-party code, a parameter of the session; smoke pages and
  fakes are test support.  Texts of error messages are left out everywhere, and so are abort signals
  that the code accepts and ignores.
\<close>

end
